(* ===== verification/Prelude.thy ===== *)
theory Prelude
  imports Main "HOL-Library.Word" "HOL-Library.Sublist" "HOL-Library.List_Lexorder" "HOL-Library.Multiset"
begin

text \<open>
  Shared vocabulary of the development: fallible computations (a thrown exception is the left
  summand of a sum), the collections of simplification rules the component theories extend, and
  generic lemmas on lists that several components use.

  \<^item> \<open>bindE\<close> sequences two computations the way two statements of a function body are
    sequenced: the first exception ends the function.
  \<^item> \<open>guardE\<close> is the statement \<open>if (bad) throw e\<close>.
  \<^item> \<open>mapE\<close> is a loop that pushes one converted element per round.
\<close>

named_theorems err_simps \<open>evaluation of fallible computations\<close>
named_theorems err_dest \<open>what a successful fallible computation tells about its parts\<close>

definition bindE :: "'e + 'a \<Rightarrow> ('a \<Rightarrow> 'e + 'b) \<Rightarrow> 'e + 'b" where
  "bindE m f = (case m of Inl e \<Rightarrow> Inl e | Inr x \<Rightarrow> f x)"

definition guardE :: "bool \<Rightarrow> 'e \<Rightarrow> 'e + unit" where
  "guardE bad e = (if bad then Inl e else Inr ())"

fun mapE :: "('a \<Rightarrow> 'e + 'b) \<Rightarrow> 'a list \<Rightarrow> 'e + 'b list" where
  "mapE f [] = Inr []"
| "mapE f (x # xs) = bindE (f x) (\<lambda>y. bindE (mapE f xs) (\<lambda>ys. Inr (y # ys)))"

definition isOk :: "'e + 'a \<Rightarrow> bool" where
  "isOk m = (case m of Inl _ \<Rightarrow> False | Inr _ \<Rightarrow> True)"

lemma bindE_Inl [simp, err_simps]: "bindE (Inl e) f = Inl e"
  by (simp add: bindE_def)

lemma bindE_Inr [simp, err_simps]: "bindE (Inr x) f = f x"
  by (simp add: bindE_def)

lemma isOk_simps [simp]: "isOk (Inr x)" "\<not> isOk (Inl e)"
  by (simp_all add: isOk_def)

lemma isOk_iff: "isOk m \<longleftrightarrow> (\<exists>x. m = Inr x)"
  by (cases m) simp_all

lemma bindE_eq_Inr [err_dest]: "bindE m f = Inr y \<longleftrightarrow> (\<exists>x. m = Inr x \<and> f x = Inr y)"
  by (cases m) simp_all

lemma bindE_eq_Inl: "bindE m f = Inl e \<longleftrightarrow> m = Inl e \<or> (\<exists>x. m = Inr x \<and> f x = Inl e)"
  by (cases m) simp_all

lemma bindE_assoc: "bindE (bindE m f) g = bindE m (\<lambda>x. bindE (f x) g)"
  by (cases m) simp_all

lemma guardE_eq_Inr [simp, err_dest]: "guardE bad e = Inr u \<longleftrightarrow> \<not> bad"
  by (simp add: guardE_def)

lemma guardE_eq_Inl: "guardE bad e = Inl e' \<longleftrightarrow> bad \<and> e' = e"
  by (auto simp: guardE_def)

lemma guardE_False [simp, err_simps]: "guardE False e = Inr ()"
  by (simp add: guardE_def)

lemma guardE_True [simp, err_simps]: "guardE True e = Inl e"
  by (simp add: guardE_def)

lemma mapE_eq_Inr_length: "mapE f xs = Inr ys \<Longrightarrow> length ys = length xs"
  by (induction xs arbitrary: ys) (auto simp: bindE_eq_Inr)

lemma mapE_eq_Inr_iff: "mapE f xs = Inr ys \<longleftrightarrow> list_all2 (\<lambda>x y. f x = Inr y) xs ys"
  by (induction xs arbitrary: ys) (auto simp: bindE_eq_Inr list_all2_Cons1)

lemma mapE_set: "mapE f xs = Inr ys \<Longrightarrow> y \<in> set ys \<Longrightarrow> \<exists>x \<in> set xs. f x = Inr y"
  by (induction xs arbitrary: ys) (auto simp: bindE_eq_Inr)

lemma mapE_map: "(\<And>x. x \<in> set xs \<Longrightarrow> f (g x) = Inr x) \<Longrightarrow> mapE f (map g xs) = Inr xs"
  by (induction xs) auto

lemma mapE_cong [fundef_cong]:
  "xs = ys \<Longrightarrow> (\<And>x. x \<in> set ys \<Longrightarrow> f x = g x) \<Longrightarrow> mapE f xs = mapE g ys"
  by (induction ys arbitrary: xs) auto

subsection \<open>Lists\<close>

text \<open>Keeping the last \<open>n\<close> elements, JavaScript's \<open>slice(-n)\<close> for a positive \<open>n\<close>.\<close>

definition takeLast :: "nat \<Rightarrow> 'a list \<Rightarrow> 'a list" where
  "takeLast n xs = drop (length xs - n) xs"

lemma length_takeLast [simp]: "length (takeLast n xs) = min n (length xs)"
  by (auto simp: takeLast_def min_def)

lemma takeLast_id: "length xs \<le> n \<Longrightarrow> takeLast n xs = xs"
  by (simp add: takeLast_def)

lemma takeLast_Nil [simp]: "takeLast n [] = []"
  by (simp add: takeLast_def)

lemma set_takeLast: "set (takeLast n xs) \<subseteq> set xs"
  by (simp add: takeLast_def set_drop_subset)

lemma takeLast_snoc: "0 < n \<Longrightarrow> takeLast n (xs @ [x]) = takeLast (n - 1) xs @ [x]"
  by (cases n) (auto simp: takeLast_def Suc_diff_le)

lemma takeLast_snoc_mem [simp]: "0 < n \<Longrightarrow> x \<in> set (takeLast n (xs @ [x]))"
  by (simp add: takeLast_snoc)

lemma distinct_map_takeLast: "distinct (map f xs) \<Longrightarrow> distinct (map f (takeLast n xs))"
  by (simp add: takeLast_def drop_map [symmetric])

lemma suffix_takeLast: "suffix (takeLast n xs) xs"
  by (simp add: takeLast_def suffix_drop)

text \<open>Substring search, JavaScript's \<open>haystack.includes(needle)\<close>.\<close>

fun includesSub :: "'a list \<Rightarrow> 'a list \<Rightarrow> bool" where
  "includesSub needle [] = (needle = [])"
| "includesSub needle (x # xs) = (prefix needle (x # xs) \<or> includesSub needle xs)"

lemma includesSub_iff: "includesSub needle xs \<longleftrightarrow> sublist needle xs"
  by (induction xs) (auto simp: sublist_Cons_right)

end
