(* ===== verification/JsText.thy ===== *)
theory JsText
  imports Prelude
begin

text \<open>
  JavaScript strings. A string is a sequence of UTF-16 code units, so the model is a list of
  16-bit words, with lone surrogates allowed as the language allows them. ASCII literals of the
  source are written \<open>lit ''...''\<close>; the other literals are lists of code units.

  What the source takes from the standard library is modelled here: \<open>trim\<close>,
  \<open>startsWith\<close>, the UTF-8 length a \<open>TextEncoder\<close> gives, the default string
  order, the ASCII part of the case mappings (every use in the source is on text that a
  preceding test has restricted to ASCII, or maps \<open>A\<close> to \<open>Z\<close> only), and the decimal
  representation of a non-negative integer.
\<close>

type_synonym code_unit = "16 word"
type_synonym jstr = "16 word list"

named_theorems js_simps \<open>evaluation of JavaScript text and values\<close>

definition lit :: "string \<Rightarrow> jstr" where
  "lit s = map of_char s"

subsection \<open>Character classes\<close>

definition cu_digit :: "code_unit \<Rightarrow> bool" where
  "cu_digit c \<longleftrightarrow> 0x30 \<le> c \<and> c \<le> 0x39"

definition cu_lower :: "code_unit \<Rightarrow> bool" where
  "cu_lower c \<longleftrightarrow> 0x61 \<le> c \<and> c \<le> 0x7A"

definition cu_upper :: "code_unit \<Rightarrow> bool" where
  "cu_upper c \<longleftrightarrow> 0x41 \<le> c \<and> c \<le> 0x5A"

definition cu_alnum :: "code_unit \<Rightarrow> bool" where
  "cu_alnum c \<longleftrightarrow> cu_digit c \<or> cu_lower c \<or> cu_upper c"

definition cu_hex :: "code_unit \<Rightarrow> bool" where
  "cu_hex c \<longleftrightarrow> cu_digit c \<or> (0x61 \<le> c \<and> c \<le> 0x66)"

text \<open>The general category Cc, the class of the regular expression \<open>\p{Cc}\<close>.\<close>

definition cu_control :: "code_unit \<Rightarrow> bool" where
  "cu_control c \<longleftrightarrow> c \<le> 0x1F \<or> (0x7F \<le> c \<and> c \<le> 0x9F)"

text \<open>White space and line terminators, what \<open>trim\<close> strips and \<open>\s\<close> matches.\<close>

definition cu_space :: "code_unit \<Rightarrow> bool" where
  "cu_space c \<longleftrightarrow> (0x09 \<le> c \<and> c \<le> 0x0D) \<or> (0x2000 \<le> c \<and> c \<le> 0x200A) \<or>
     c \<in> {0x20, 0xA0, 0x1680, 0x2028, 0x2029, 0x202F, 0x205F, 0x3000, 0xFEFF}"

definition cu_high_surrogate :: "code_unit \<Rightarrow> bool" where
  "cu_high_surrogate c \<longleftrightarrow> 0xD800 \<le> c \<and> c \<le> 0xDBFF"

definition cu_low_surrogate :: "code_unit \<Rightarrow> bool" where
  "cu_low_surrogate c \<longleftrightarrow> 0xDC00 \<le> c \<and> c \<le> 0xDFFF"

lemmas cu_defs = cu_digit_def cu_lower_def cu_upper_def cu_alnum_def cu_hex_def cu_control_def
  cu_space_def cu_high_surrogate_def cu_low_surrogate_def

subsection \<open>Operations\<close>

definition js_trim :: "jstr \<Rightarrow> jstr" where
  "js_trim s = rev (dropWhile cu_space (rev (dropWhile cu_space s)))"

definition cu_toLower :: "code_unit \<Rightarrow> code_unit" where
  "cu_toLower c = (if cu_upper c then c + 0x20 else c)"

definition cu_toUpper :: "code_unit \<Rightarrow> code_unit" where
  "cu_toUpper c = (if cu_lower c then c - 0x20 else c)"

definition asciiLower :: "jstr \<Rightarrow> jstr" where
  "asciiLower s = map cu_toLower s"

definition asciiUpper :: "jstr \<Rightarrow> jstr" where
  "asciiUpper s = map cu_toUpper s"

text \<open>
  The number of bytes of the UTF-8 encoding: a surrogate pair is one code point of four bytes, a
  lone surrogate is replaced by U+FFFD, which takes three.
\<close>

fun utf8Length :: "jstr \<Rightarrow> nat" where
  "utf8Length [] = 0"
| "utf8Length [c] = (if c < 0x80 then 1 else if c < 0x800 then 2 else 3)"
| "utf8Length (c # d # s) =
     (if c < 0x80 then 1 + utf8Length (d # s)
      else if c < 0x800 then 2 + utf8Length (d # s)
      else if cu_high_surrogate c \<and> cu_low_surrogate d then 4 + utf8Length s
      else 3 + utf8Length (d # s))"

text \<open>The maximal runs of characters that satisfy \<open>p\<close>: a split at the runs that do not.\<close>

fun runsFrom :: "(code_unit \<Rightarrow> bool) \<Rightarrow> jstr \<Rightarrow> jstr \<Rightarrow> jstr list" where
  "runsFrom p acc [] = (if acc = [] then [] else [rev acc])"
| "runsFrom p acc (c # s) =
     (if p c then runsFrom p (c # acc) s
      else if acc = [] then runsFrom p [] s
      else rev acc # runsFrom p [] s)"

definition runs :: "(code_unit \<Rightarrow> bool) \<Rightarrow> jstr \<Rightarrow> jstr list" where
  "runs p s = runsFrom p [] s"

text \<open>\<open>split\<close> at one separator character.\<close>

fun splitFrom :: "code_unit \<Rightarrow> jstr \<Rightarrow> jstr \<Rightarrow> jstr list" where
  "splitFrom sep acc [] = [rev acc]"
| "splitFrom sep acc (c # s) =
     (if c = sep then rev acc # splitFrom sep [] s else splitFrom sep (c # acc) s)"

definition splitAt :: "code_unit \<Rightarrow> jstr \<Rightarrow> jstr list" where
  "splitAt sep s = splitFrom sep [] s"

text \<open>The decimal digits of a number, most significant first, and their value.\<close>

fun decDigits :: "nat \<Rightarrow> jstr" where
  "decDigits n = (if n < 10 then [0x30 + of_nat n] else decDigits (n div 10) @ [0x30 + of_nat (n mod 10)])"

declare decDigits.simps [simp del]

definition decValue :: "jstr \<Rightarrow> nat" where
  "decValue s = foldl (\<lambda>v c. 10 * v + unat (c - 0x30)) 0 s"

definition matchesClasses :: "(code_unit \<Rightarrow> bool) list \<Rightarrow> jstr \<Rightarrow> bool" where
  "matchesClasses ps s = list_all2 (\<lambda>p c. p c) ps s"

subsection \<open>Literals\<close>

lemma of_char_word16_inj [simp]: "(of_char a :: 16 word) = of_char b \<longleftrightarrow> a = b"
proof
  assume eq: "(of_char a :: 16 word) = of_char b"
  have u: "unat (of_char c :: 16 word) = of_char c" for c :: char
  proof -
    have "(of_char c :: 16 word) = of_nat (of_char c)"
      by (simp add: of_nat_of_char)
    moreover have "(of_char c :: nat) mod 65536 = of_char c"
      using nat_of_char_less_256 [of c] by (intro mod_less) linarith
    ultimately show ?thesis by (simp add: unat_of_nat take_bit_eq_mod)
  qed
  from eq have "unat (of_char a :: 16 word) = unat (of_char b :: 16 word)" by simp
  then show "a = b" by (simp add: u)
qed simp

lemma lit_inject [simp, js_simps]: "lit s = lit t \<longleftrightarrow> s = t"
  by (simp add: lit_def inj_map_eq_map inj_def)

lemma lit_Nil [simp, js_simps]: "lit [] = []"
  by (simp add: lit_def)

lemma lit_Cons: "lit (c # s) = of_char c # lit s"
  by (simp add: lit_def)

lemma lit_eq_Nil [simp]: "lit s = [] \<longleftrightarrow> s = []"
  by (simp add: lit_def)

subsection \<open>Trimming\<close>

lemma js_trim_Nil [simp]: "js_trim [] = []"
  by (simp add: js_trim_def)

lemma dropWhile_hd: "dropWhile p xs \<noteq> [] \<Longrightarrow> \<not> p (hd (dropWhile p xs))"
  by (rule hd_dropWhile)

lemma dropWhile_hd_id: "(xs \<noteq> [] \<Longrightarrow> \<not> p (hd xs)) \<Longrightarrow> dropWhile p xs = xs"
  by (cases xs) auto

lemma js_trim_fixed:
  "s \<noteq> [] \<Longrightarrow> \<not> cu_space (hd s) \<Longrightarrow> \<not> cu_space (last s) \<Longrightarrow> js_trim s = s"
  by (simp add: js_trim_def dropWhile_hd_id hd_rev)

lemma js_trim_ends:
  assumes "js_trim s \<noteq> []"
  shows "\<not> cu_space (hd (js_trim s))" "\<not> cu_space (last (js_trim s))"
proof -
  define t where "t = dropWhile cu_space s"
  have tr: "js_trim s = rev (dropWhile cu_space (rev t))"
    by (simp add: js_trim_def t_def)
  with assms have ne: "dropWhile cu_space (rev t) \<noteq> []" by auto
  then show "\<not> cu_space (last (js_trim s))"
    by (simp add: tr last_rev dropWhile_hd)
  from ne have "t \<noteq> []" by auto
  then have hd: "\<not> cu_space (hd t)" by (simp add: t_def dropWhile_hd)
  have "prefix (js_trim s) t"
    unfolding tr by (metis rev_rev_ident suffix_dropWhile suffix_to_prefix)
  with assms have "hd (js_trim s) = hd t"
    by (auto simp: prefix_def)
  with hd show "\<not> cu_space (hd (js_trim s))" by simp
qed

lemma js_trim_idem [simp]: "js_trim (js_trim s) = js_trim s"
proof (cases "js_trim s = []")
  case False
  then show ?thesis by (rule js_trim_fixed) (fact js_trim_ends [OF False])+
qed simp

lemma js_trim_length: "length (js_trim s) \<le> length s"
  by (metis (no_types) js_trim_def length_dropWhile_le length_rev order_trans)

subsection \<open>UTF-8 length\<close>

lemma utf8Length_ge_length: "length s \<le> utf8Length s"
  by (induction s rule: utf8Length.induct) auto

lemma utf8Length_le_3: "utf8Length s \<le> 3 * length s"
  by (induction s rule: utf8Length.induct) auto

lemma utf8Length_ascii: "list_all (\<lambda>c. c < 0x80) s \<Longrightarrow> utf8Length s = length s"
  by (induction s rule: utf8Length.induct) auto

lemma utf8Length_eq_0 [simp]: "utf8Length s = 0 \<longleftrightarrow> s = []"
  by (cases s rule: utf8Length.cases) auto

subsection \<open>Case mapping\<close>

lemma length_asciiLower [simp]: "length (asciiLower s) = length s"
  by (simp add: asciiLower_def)

lemma cu_toLower_idem [simp]: "cu_toLower (cu_toLower c) = cu_toLower c"
proof -
  have "\<not> cu_upper (c + 0x20)" if "cu_upper c"
    using that unfolding cu_upper_def by unat_arith
  then show ?thesis by (simp add: cu_toLower_def)
qed

lemma asciiLower_idem [simp]: "asciiLower (asciiLower s) = asciiLower s"
  by (simp add: asciiLower_def)

subsection \<open>Decimal numbers\<close>

lemma decDigits_digits: "list_all cu_digit (decDigits n)"
proof (induction n rule: decDigits.induct)
  case (1 n)
  have d: "cu_digit (0x30 + of_nat k)" if "k < 10" for k
    using that unfolding cu_digit_def
    by (auto simp: word_le_nat_alt unat_word_ariths unat_of_nat)
  show ?case
  proof (cases "n < 10")
    case True
    then show ?thesis by (subst decDigits.simps) (simp add: d)
  next
    case False
    with 1 show ?thesis by (subst decDigits.simps) (simp add: d)
  qed
qed

lemma decDigits_nonempty [simp]: "decDigits n \<noteq> []"
  by (subst decDigits.simps) simp

lemma decValue_decDigits [simp]: "decValue (decDigits n) = n"
proof (induction n rule: decDigits.induct)
  case (1 n)
  have u: "unat (of_nat k :: 16 word) = k" if "k < 10" for k
    using that by (simp add: unat_of_nat take_bit_eq_mod)
  show ?case
  proof (cases "n < 10")
    case True
    then show ?thesis by (subst decDigits.simps) (simp add: decValue_def u)
  next
    case False
    with 1 have "decValue (decDigits (n div 10)) = n div 10" by simp
    with False show ?thesis
      by (subst decDigits.simps) (simp add: decValue_def u)
  qed
qed

lemma decDigits_inject [simp]: "decDigits m = decDigits n \<longleftrightarrow> m = n"
  by (metis decValue_decDigits)

subsection \<open>Splitting at a separator\<close>

lemma splitFrom_nosep: "sep \<notin> set s \<Longrightarrow> splitFrom sep acc s = [rev acc @ s]"
  by (induction s arbitrary: acc) auto

lemma splitFrom_sep:
  "sep \<notin> set s \<Longrightarrow> splitFrom sep acc (s @ sep # t) = (rev acc @ s) # splitFrom sep [] t"
  by (induction s arbitrary: acc) auto

lemma splitAt_nosep: "sep \<notin> set s \<Longrightarrow> splitAt sep s = [s]"
  by (simp add: splitAt_def splitFrom_nosep)

lemma splitAt_sep: "sep \<notin> set s \<Longrightarrow> splitAt sep (s @ sep # t) = s # splitAt sep t"
  by (simp add: splitAt_def splitFrom_sep)

subsection \<open>Character class patterns\<close>

lemma matchesClasses_length: "matchesClasses ps s \<Longrightarrow> length s = length ps"
  by (auto simp: matchesClasses_def dest: list_all2_lengthD)

lemma matchesClasses_Nil [simp, js_simps]: "matchesClasses [] s \<longleftrightarrow> s = []"
  by (simp add: matchesClasses_def)

lemma matchesClasses_Cons [simp, js_simps]:
  "matchesClasses (p # ps) (c # s) \<longleftrightarrow> p c \<and> matchesClasses ps s"
  "\<not> matchesClasses (p # ps) []"
  by (simp_all add: matchesClasses_def)

lemma matchesClasses_all:
  "matchesClasses ps s \<Longrightarrow> (\<And>p c. p \<in> set ps \<Longrightarrow> p c \<Longrightarrow> q c) \<Longrightarrow> list_all q s"
  unfolding matchesClasses_def list_all_iff
  by (metis in_set_conv_nth list_all2_lengthD list_all2_nthD2)

end
