(* ===== verification/JsValue.thy ===== *)
theory JsValue
  imports JsText
begin

text \<open>
  JavaScript values of type \<open>unknown\<close>, as the boundary functions of the program receive them,
  and the reflective operations the source uses on them.

  An object is the list of its own enumerable properties in the order of \<open>Reflect.ownKeys\<close>,
  symbol keys included. An array is the list of its slots, \<open>None\<close> for a hole. A number is
  an integer, or one of the doubles that are not integers (fractions, infinities, NaN), kept as its
  bit pattern, which nothing in the program inspects. \<open>JOther\<close> is a function, a symbol or a
  bigint. A property read finds own properties only: the names the program reads are not names of
  \<open>Object.prototype\<close>.
\<close>

datatype jskey = KStr jstr | KSym nat

datatype jsval =
    JUndef
  | JNull
  | JBool bool
  | JInt int
  | JFloat "64 word"
  | JStr jstr
  | JOther nat
  | JArr "jsval option list"
  | JObj "(jskey \<times> jsval) list"

type_synonym jsrecord = "(jskey \<times> jsval) list"

definition MAX_SAFE_INTEGER :: int where
  "MAX_SAFE_INTEGER = 9007199254740991"

text \<open>\<open>Number.isSafeInteger\<close> on a number that is an integer.\<close>

definition isSafeInt :: "int \<Rightarrow> bool" where
  "isSafeInt i \<longleftrightarrow> - MAX_SAFE_INTEGER \<le> i \<and> i \<le> MAX_SAFE_INTEGER"

definition ownKeys :: "jsrecord \<Rightarrow> jskey list" where
  "ownKeys r = map fst r"

definition hasOwn :: "jsrecord \<Rightarrow> jstr \<Rightarrow> bool" where
  "hasOwn r k \<longleftrightarrow> KStr k \<in> set (map fst r)"

definition getProp :: "jsrecord \<Rightarrow> jstr \<Rightarrow> jsval" where
  "getProp r k = (case map_of r (KStr k) of None \<Rightarrow> JUndef | Some v \<Rightarrow> v)"

text \<open>A property written as in the source, \<open>record.name\<close>, and an object literal.\<close>

abbreviation field :: "jsrecord \<Rightarrow> string \<Rightarrow> jsval" where
  "field r k \<equiv> getProp r (lit k)"

abbreviation jprop :: "string \<Rightarrow> jsval \<Rightarrow> jskey \<times> jsval" where
  "jprop k v \<equiv> (KStr (lit k), v)"

text \<open>The spread \<open>...(x === undefined ? {} : {k: x})\<close> of an optional property.\<close>

definition optProp :: "string \<Rightarrow> ('a \<Rightarrow> jsval) \<Rightarrow> 'a option \<Rightarrow> jsrecord" where
  "optProp k enc x = (case x of None \<Rightarrow> [] | Some v \<Rightarrow> [jprop k (enc v)])"

lemma isSafeInt_bounds [simp]:
  "isSafeInt i \<longleftrightarrow> -9007199254740991 \<le> i \<and> i \<le> 9007199254740991"
  by (simp add: isSafeInt_def MAX_SAFE_INTEGER_def)

lemma hasOwn_simps [simp, js_simps]:
  "\<not> hasOwn [] k"
  "hasOwn ((KStr k', v) # r) k \<longleftrightarrow> k' = k \<or> hasOwn r k"
  "hasOwn ((KSym n, v) # r) k \<longleftrightarrow> hasOwn r k"
  by (auto simp: hasOwn_def)

lemma hasOwn_append [simp, js_simps]: "hasOwn (r @ r') k \<longleftrightarrow> hasOwn r k \<or> hasOwn r' k"
  by (auto simp: hasOwn_def)

lemma getProp_simps [simp, js_simps]:
  "getProp [] k = JUndef"
  "getProp ((KStr k', v) # r) k = (if k' = k then v else getProp r k)"
  "getProp ((KSym n, v) # r) k = getProp r k"
  by (simp_all add: getProp_def)

lemma hasOwn_map_of: "hasOwn r k \<longleftrightarrow> map_of r (KStr k) \<noteq> None"
  by (simp add: hasOwn_def map_of_eq_None_iff)

lemma not_hasOwn_getProp: "\<not> hasOwn r k \<Longrightarrow> getProp r k = JUndef"
  by (simp add: hasOwn_map_of getProp_def)

lemma getProp_append [simp, js_simps]:
  "getProp (r @ r') k = (if hasOwn r k then getProp r k else getProp r' k)"
  by (auto simp: getProp_def hasOwn_map_of map_add_def split: option.splits)

lemma hasOwn_optProp [simp, js_simps]: "hasOwn (optProp k enc x) k' \<longleftrightarrow> lit k = k' \<and> x \<noteq> None"
  by (auto simp: optProp_def split: option.splits)

lemma getProp_optProp [simp, js_simps]:
  "getProp (optProp k enc x) k' =
     (case x of None \<Rightarrow> JUndef | Some v \<Rightarrow> if lit k = k' then enc v else JUndef)"
  by (auto simp: optProp_def split: option.splits)

lemma ownKeys_simps [simp, js_simps]:
  "ownKeys [] = []" "ownKeys ((k, v) # r) = k # ownKeys r"
  by (simp_all add: ownKeys_def)

lemma ownKeys_append [simp, js_simps]: "ownKeys (r @ r') = ownKeys r @ ownKeys r'"
  by (simp add: ownKeys_def)

lemma set_ownKeys_optProp:
  "set (ownKeys (optProp k enc x)) = (if x = None then {} else {KStr (lit k)})"
  by (auto simp: optProp_def split: option.splits)

lemma list_all_ownKeys_optProp [simp, js_simps]:
  "list_all p (ownKeys (optProp k enc x)) \<longleftrightarrow> x = None \<or> p (KStr (lit k))"
  by (auto simp: optProp_def split: option.splits)

text \<open>An object literal with a spread: a later property of the same name replaces the value.\<close>

fun setProp :: "jsrecord \<Rightarrow> jstr \<Rightarrow> jsval \<Rightarrow> jsrecord" where
  "setProp [] k v = [(KStr k, v)]"
| "setProp ((k', v') # r) k v = (if k' = KStr k then (k', v) # r else (k', v') # setProp r k v)"

lemma getProp_setProp: "getProp (setProp r k v) p = (if p = k then v else getProp r p)"
proof (induction r)
  case (Cons kv r)
  then show ?case by (cases kv; cases "fst kv") auto
qed simp

end
