(* ===== verification/RpcTypes.thy ===== *)
theory RpcTypes
  imports JsValue
begin

text \<open>
  The vocabulary of the JSON-RPC router: \<open>src/protocol/rpc/types.ts\<close>, \<open>errors.ts\<close> and
  the declarations and helper functions at the head of \<open>rpcRouter.ts\<close>.

  \<^item> A request identifier of the wire is a string or a number.
  \<^item> The validators of the protocol boundary are generated from a schema that is not modelled;
    \<open>boundary\<close> packs them as functions, and a validation diagnostic is an opaque value.
  \<^item> A rejected promise or a thrown error carries an \<open>rpc_error\<close>.
  \<^item> What the router does to its environment is a list of \<open>rpc_effect\<close> in the order of the
    calls: messages handed to the writer, promises created and settled, diagnostics, handler
    invocations.
\<close>

datatype RpcRequestId = IdStr jstr | IdInt int | IdFloat "64 word"

datatype RequestStage = Queued | Writing | Pending | Settled

datatype InitializationState =
  AwaitingInitialize | Initializing | SendingInitialized | Ready | InitFailed

datatype RequestKind = Initialization | Business

type_synonym validation_diagnostic = "jsval option"

datatype ValidationResult = Valid jsval | NotValid validation_diagnostic

datatype MethodValidationResult =
    MethodValid jsval
  | UnknownMethod validation_diagnostic
  | InvalidParams validation_diagnostic

type_synonym ResultValidator = "jsval \<Rightarrow> ValidationResult"

record ProtocolBoundary =
  validateMessage :: "jsval \<Rightarrow> ValidationResult"
  validateInitializeResponse :: "jsval \<Rightarrow> ValidationResult"
  validateServerNotification :: "jsval \<Rightarrow> MethodValidationResult"
  validateServerRequest :: "jsval \<Rightarrow> MethodValidationResult"

datatype rpc_error =
    RpcConnectionError string
  | RpcConnectionClosedError
  | RpcInitializationStateError string
  | RpcInitializationFailedError
  | RpcQueueCapacityError int
  | RpcWriteError
  | RpcRemoteError jsval jstr
  | RpcInvalidResultError jstr
  | RpcRangeError string

definition connectionUnavailable :: rpc_error where
  "connectionUnavailable = RpcConnectionError ''JSON-RPC connection is not available''"

definition initializationNotAllowed :: rpc_error where
  "initializationNotAllowed = RpcInitializationStateError
     ''JSON-RPC connection initialization is not allowed in the current state''"

datatype RpcDiagnosticCode =
    InvalidMessage | StaleEpochMessage | StaleResponse | UnknownResponse | UnexpectedResponseStage
  | InvalidResponseResult | UnknownNotification | InvalidNotification | NotificationHandlerFailed
  | UnknownServerRequest | InvalidServerRequest | UnimplementedServerRequest
  | ServerRequestHandlerFailed | WriteFailed

record RpcDiagnostic =
  dg_code :: RpcDiagnosticCode
  dg_epoch :: nat
  dg_outbound :: bool
  dg_method :: "jstr option"
  dg_requestId :: "jstr option"
  dg_errorCode :: "int option"
  dg_validation :: validation_diagnostic

definition inboundDiagnostic :: "RpcDiagnosticCode \<Rightarrow> nat \<Rightarrow> RpcDiagnostic" where
  "inboundDiagnostic code epoch = \<lparr>dg_code = code, dg_epoch = epoch, dg_outbound = False,
     dg_method = None, dg_requestId = None, dg_errorCode = None, dg_validation = None\<rparr>"

definition writeFailedDiagnostic :: "nat \<Rightarrow> jstr option \<Rightarrow> jstr option \<Rightarrow> RpcDiagnostic" where
  "writeFailedDiagnostic epoch method rid = \<lparr>dg_code = WriteFailed, dg_epoch = epoch,
     dg_outbound = True, dg_method = method, dg_requestId = rid, dg_errorCode = None,
     dg_validation = None\<rparr>"

record RpcDiagnosticCounts =
  unknownNotifications :: nat
  unknownServerRequests :: nat
  staleResponses :: nat
  unknownResponses :: nat

text \<open>
  Messages handed to the writer. The number of a request is the sequence number in its identifier.
\<close>

datatype wire =
    WireRequest RequestKind nat jsval
  | WireInitialized
  | WireNotification jstr jsval
  | WireResult RpcRequestId jsval
  | WireError RpcRequestId int jstr

datatype rpc_effect =
    Wrote nat wire
  | Issued jstr
  | Resolved jstr jsval
  | Rejected jstr rpc_error
  | Emitted RpcDiagnostic
  | InboundTaskFailure nat
  | HandlerCalled nat jsval
  | NotificationDelivered nat jsval
  | NotificationSettled "rpc_error option"

definition METHOD_NOT_FOUND :: int where [simp]: "METHOD_NOT_FOUND = -32601"
definition INVALID_REQUEST :: int where [simp]: "INVALID_REQUEST = -32600"
definition INVALID_PARAMS :: int where [simp]: "INVALID_PARAMS = -32602"
definition INTERNAL_ERROR :: int where [simp]: "INTERNAL_ERROR = -32603"
definition SERVER_BUSY :: int where [simp]: "SERVER_BUSY = -32000"

subsection \<open>Helper functions\<close>

text \<open>An array is an object without properties of the names that are read.\<close>

definition asRecord :: "jsval \<Rightarrow> jsrecord option" where
  "asRecord value = (case value of JObj r \<Rightarrow> Some r | JArr _ \<Rightarrow> Some [] | _ \<Rightarrow> None)"

definition requestIdOf :: "jsrecord \<Rightarrow> RpcRequestId option" where
  "requestIdOf record =
     (case field record ''id'' of
        JStr s \<Rightarrow> Some (IdStr s)
      | JInt i \<Rightarrow> Some (IdInt i)
      | JFloat w \<Rightarrow> Some (IdFloat w)
      | _ \<Rightarrow> None)"

text \<open>The template \<open>rpc:client:epoch:sequence\<close> and the inverse reading of its epoch.\<close>

definition requestId :: "jstr \<Rightarrow> nat \<Rightarrow> nat \<Rightarrow> jstr" where
  "requestId clientInstanceId epoch sequence =
     lit ''rpc:'' @ clientInstanceId @ lit '':'' @ decDigits epoch @ lit '':'' @ decDigits sequence"

definition allDigits :: "jstr \<Rightarrow> bool" where
  "allDigits s \<longleftrightarrow> s \<noteq> [] \<and> list_all cu_digit s"

definition requestEpochOf :: "jstr \<Rightarrow> RpcRequestId \<Rightarrow> nat option" where
  "requestEpochOf clientInstanceId rid =
     (case rid of
        IdStr s \<Rightarrow>
          (case splitAt 0x3A s of
             [p0, p1, p2, p3] \<Rightarrow>
               if p0 \<noteq> lit ''rpc'' \<or> p1 \<noteq> clientInstanceId \<or> \<not> allDigits p2 \<or> \<not> allDigits p3
               then None
               else let epoch = decValue p2 in if isSafeInt (int epoch) then Some epoch else None
           | _ \<Rightarrow> None)
      | _ \<Rightarrow> None)"

definition requestMessage :: "jstr \<Rightarrow> jstr \<Rightarrow> jsval \<Rightarrow> jsval" where
  "requestMessage rid method params =
     (if params = JUndef then JObj [jprop ''id'' (JStr rid), jprop ''method'' (JStr method)]
      else JObj [jprop ''id'' (JStr rid), jprop ''method'' (JStr method), jprop ''params'' params])"

definition notificationMessage :: "jstr \<Rightarrow> jsval \<Rightarrow> jsval" where
  "notificationMessage method params =
     (if params = JUndef then JObj [jprop ''method'' (JStr method)]
      else JObj [jprop ''method'' (JStr method), jprop ''params'' params])"

definition spread :: "jsval \<Rightarrow> jsrecord" where
  "spread value = (case value of JObj r \<Rightarrow> r | _ \<Rightarrow> [])"

text \<open>\<open>initialize\<close> always asks for the experimental interface.\<close>

definition protectedParams :: "jsval \<Rightarrow> jsval" where
  "protectedParams params =
     JObj (setProp (spread params) (lit ''capabilities'')
       (JObj (setProp (spread (getProp (spread params) (lit ''capabilities'')))
          (lit ''experimentalApi'') (JBool True))))"

subsection \<open>Identifiers\<close>

lemma colon_not_digit: "list_all cu_digit s \<Longrightarrow> 0x3A \<notin> set s"
  by (auto simp: list_all_iff cu_digit_def)

lemma splitAt_requestId:
  assumes "0x3A \<notin> set cid"
  shows "splitAt 0x3A (requestId cid epoch sequence) =
    [lit ''rpc'', cid, decDigits epoch, decDigits sequence]"
proof -
  have colon: "lit '':'' = [0x3A]" and rpc: "lit ''rpc:'' = lit ''rpc'' @ [0x3A]"
    and nocolon: "0x3A \<notin> set (lit ''rpc'')"
    by (simp_all add: lit_def)
  show ?thesis
    using assms nocolon
    by (simp add: requestId_def colon rpc splitAt_sep splitAt_nosep colon_not_digit decDigits_digits)
qed

lemma requestEpochOf_requestId:
  assumes "0x3A \<notin> set cid" and "isSafeInt (int epoch)"
  shows "requestEpochOf cid (IdStr (requestId cid epoch sequence)) = Some epoch"
  using splitAt_requestId [OF assms(1), of epoch sequence] assms(2)
  by (simp add: requestEpochOf_def allDigits_def decDigits_digits)

text \<open>Within one client, epoch and sequence number determine the identifier and the reverse.\<close>

lemma requestId_inject:
  assumes "0x3A \<notin> set cid"
  shows "requestId cid e n = requestId cid e' n' \<longleftrightarrow> e = e' \<and> n = n'"
proof
  assume eq: "requestId cid e n = requestId cid e' n'"
  have "[lit ''rpc'', cid, decDigits e, decDigits n] = [lit ''rpc'', cid, decDigits e', decDigits n']"
    unfolding splitAt_requestId [OF assms, symmetric] eq ..
  then show "e = e' \<and> n = n'" by simp
qed simp

end
