(* ===== verification/RpcRouter.thy ===== *)
theory RpcRouter
  imports RpcTypes
begin

text \<open>
  The class \<open>RpcRouter\<close> of \<open>src/protocol/rpc/rpcRouter.ts\<close> as a state machine.

  JavaScript runs one segment of code at a time; a segment ends at an \<open>await\<close>. A segment is
  a function on the state here, and what waits at an \<open>await\<close> is a task of the state: the
  write of a request, of \<open>initialized\<close> or of a response, a handler that has been called, the
  loop that drains the queue. An event (an API call, an incoming message, the outcome of what a
  task waits for) runs one segment. Tasks resume in any order, so every interleaving the event loop
  can produce is a sequence of events.

  Connections are compared by identity in the source; the epoch, which no two connections share,
  stands for the identity. What is left of a connection after it was closed or replaced is only
  reached by code that compares first, so it is dropped. Handlers and callbacks are opaque: they are
  named by numbers, and calling the router from within one of them is a later event. The timing
  callback of a response, which cannot influence the router, is left out.
\<close>

record RequestRecord =
  rq_kind :: RequestKind
  rq_id :: jstr
  rq_seq :: nat
  rq_method :: jstr
  rq_params :: jsval
  rq_stage :: RequestStage
  rq_validateResult :: ResultValidator

record ActiveConnection =
  cn_epoch :: nat
  cn_requests :: "(jstr \<times> RequestRecord) list"
  cn_queue :: "jstr list"
  cn_initializationState :: InitializationState
  cn_initializationRequest :: "jstr option"
  cn_initializationResponse :: "jsval option"
  cn_draining :: bool
  cn_nextRequestSequence :: nat
  cn_pendingServerRequestIds :: "RpcRequestId list"

text \<open>What a suspended segment waits for; a \<open>bool\<close> says who awaits it.\<close>

datatype task =
    TWriteRequest nat jstr bool          \<comment> \<open>epoch, request, awaited by the drain loop\<close>
  | TWriteInitialized nat jstr jsval     \<comment> \<open>epoch, request, the response to resolve with\<close>
  | TDrain nat                           \<comment> \<open>the drain loop, its await is over\<close>
  | TWriteNotification nat jstr          \<comment> \<open>epoch, method\<close>
  | TNotificationHandler nat jstr jsval nat \<comment> \<open>\<dots>, message, position in the set\<close>
  | TServerHandler nat RpcRequestId jstr \<comment> \<open>epoch, identifier, method\<close>
  | TWriteServer nat RpcRequestId "jstr option" bool \<comment> \<open>\<dots>, method, identifier is tracked\<close>
  | TCatch nat RpcRequestId bool
  | TFinally nat RpcRequestId

record router =
  rt_connection :: "ActiveConnection option"
  rt_epochSequence :: nat
  rt_counts :: RpcDiagnosticCounts
  rt_serverRequestHandlers :: "jstr \<rightharpoonup> nat"
  rt_notificationHandlers :: "(nat \<times> nat) list"  \<comment> \<open>position, handler\<close>
  rt_nextPosition :: nat
  rt_tasks :: "(nat \<times> task) list"
  rt_nextTask :: nat
  rt_log :: "rpc_effect list"

text \<open>The constructor's options and the client instance, fixed for the life of a router.\<close>

record router_env =
  clientInstanceId :: jstr
  boundary :: ProtocolBoundary
  queueCapacity :: int
  serverRequestCapacity :: int

definition newRouter :: "nat \<Rightarrow> router" where
  "newRouter epochSequence = \<lparr>rt_connection = None, rt_epochSequence = epochSequence,
     rt_counts = \<lparr>unknownNotifications = 0, unknownServerRequests = 0, staleResponses = 0,
       unknownResponses = 0\<rparr>,
     rt_serverRequestHandlers = Map.empty, rt_notificationHandlers = [], rt_nextPosition = 0,
     rt_tasks = [], rt_nextTask = 0, rt_log = []\<rparr>"

text \<open>The checks of the constructor.\<close>

definition constructRouter ::
  "jstr \<Rightarrow> ProtocolBoundary \<Rightarrow> int \<Rightarrow> int option \<Rightarrow> nat \<Rightarrow> rpc_error + (router_env \<times> router)" where
  "constructRouter clientId bnd queueCap serverCap epochSequence =
     (if \<not> isSafeInt queueCap \<or> queueCap < 0
      then Inl (RpcRangeError ''queueCapacity must be a non-negative safe integer'')
      else let cap = (case serverCap of None \<Rightarrow> queueCap | Some c \<Rightarrow> c) in
        if \<not> isSafeInt cap \<or> cap < 0
        then Inl (RpcRangeError ''serverRequestCapacity must be a non-negative safe integer'')
        else Inr (\<lparr>clientInstanceId = clientId, boundary = bnd, queueCapacity = queueCap,
                    serverRequestCapacity = cap\<rparr>, newRouter epochSequence))"

subsection \<open>State access\<close>

definition logEffect :: "rpc_effect \<Rightarrow> router \<Rightarrow> router" where
  "logEffect x r = r\<lparr>rt_log := rt_log r @ [x]\<rparr>"

definition emit :: "RpcDiagnostic \<Rightarrow> router \<Rightarrow> router" where
  "emit diagnostic r = logEffect (Emitted diagnostic) r"

definition addTask :: "task \<Rightarrow> router \<Rightarrow> router" where
  "addTask t r = r\<lparr>rt_tasks := rt_tasks r @ [(rt_nextTask r, t)], rt_nextTask := Suc (rt_nextTask r)\<rparr>"

definition setConnection :: "ActiveConnection \<Rightarrow> router \<Rightarrow> router" where
  "setConnection c r = r\<lparr>rt_connection := Some c\<rparr>"

text \<open>The test \<open>this.connection === connection\<close>.\<close>

definition activeConnection :: "nat \<Rightarrow> router \<Rightarrow> ActiveConnection option" where
  "activeConnection epoch r =
     (case rt_connection r of
        Some c \<Rightarrow> if cn_epoch c = epoch then Some c else None
      | None \<Rightarrow> None)"

definition findRequest :: "ActiveConnection \<Rightarrow> jstr \<Rightarrow> RequestRecord option" where
  "findRequest c rid = map_of (cn_requests c) rid"

definition dropRequest :: "jstr \<Rightarrow> ActiveConnection \<Rightarrow> ActiveConnection" where
  "dropRequest rid c = c\<lparr>cn_requests := filter (\<lambda>kv. fst kv \<noteq> rid) (cn_requests c)\<rparr>"

definition setStage :: "jstr \<Rightarrow> RequestStage \<Rightarrow> ActiveConnection \<Rightarrow> ActiveConnection" where
  "setStage rid stage c = c\<lparr>cn_requests :=
     map (\<lambda>(k, q). if k = rid then (k, q\<lparr>rq_stage := stage\<rparr>) else (k, q)) (cn_requests c)\<rparr>"

definition bumpCount :: "(RpcDiagnosticCounts \<Rightarrow> RpcDiagnosticCounts) \<Rightarrow> router \<Rightarrow> router" where
  "bumpCount f r = r\<lparr>rt_counts := f (rt_counts r)\<rparr>"

subsection \<open>Settling requests and ending connections\<close>

definition resolveRequest :: "nat \<Rightarrow> jstr \<Rightarrow> jsval \<Rightarrow> router \<Rightarrow> router" where
  "resolveRequest epoch rid value r =
     (case activeConnection epoch r of
        None \<Rightarrow> r
      | Some c \<Rightarrow> if findRequest c rid = None then r
                  else logEffect (Resolved rid value) (setConnection (dropRequest rid c) r))"

definition rejectRequest :: "nat \<Rightarrow> jstr \<Rightarrow> rpc_error \<Rightarrow> router \<Rightarrow> router" where
  "rejectRequest epoch rid reason r =
     (case activeConnection epoch r of
        None \<Rightarrow> r
      | Some c \<Rightarrow> if findRequest c rid = None then r
                  else logEffect (Rejected rid reason) (setConnection (dropRequest rid c) r))"

text \<open>Rejecting every request of a connection in the order of its map.\<close>

definition rejectAll :: "(RequestRecord \<Rightarrow> rpc_error) \<Rightarrow> ActiveConnection \<Rightarrow> router \<Rightarrow> router" where
  "rejectAll reason c r =
     r\<lparr>rt_log := rt_log r @ map (\<lambda>(rid, q). Rejected rid (reason q)) (cn_requests c)\<rparr>"

text \<open>\<open>this.connection = null; rejectConnectionRequests(connection, reason)\<close>\<close>

definition dropConnection :: "ActiveConnection \<Rightarrow> rpc_error \<Rightarrow> router \<Rightarrow> router" where
  "dropConnection c reason r = rejectAll (\<lambda>_. reason) c (r\<lparr>rt_connection := None\<rparr>)"

definition terminateConnection :: "nat \<Rightarrow> rpc_error \<Rightarrow> router \<Rightarrow> router" where
  "terminateConnection epoch reason r =
     (case activeConnection epoch r of None \<Rightarrow> r | Some c \<Rightarrow> dropConnection c reason r)"

definition close :: "nat \<Rightarrow> router \<Rightarrow> bool \<times> router" where
  "close epoch r =
     (case rt_connection r of
        None \<Rightarrow> (False, r)
      | Some c \<Rightarrow> if cn_epoch c \<noteq> epoch then (False, r)
                  else (True, dropConnection c RpcConnectionClosedError r))"

definition freshConnection :: "nat \<Rightarrow> ActiveConnection" where
  "freshConnection epoch = \<lparr>cn_epoch = epoch, cn_requests = [], cn_queue = [],
     cn_initializationState = AwaitingInitialize, cn_initializationRequest = None,
     cn_initializationResponse = None, cn_draining = False, cn_nextRequestSequence = 0,
     cn_pendingServerRequestIds = []\<rparr>"

definition nextConnectionEpoch :: "router \<Rightarrow> rpc_error + (nat \<times> router)" where
  "nextConnectionEpoch r =
     (if int (rt_epochSequence r) \<ge> MAX_SAFE_INTEGER
      then Inl (RpcRangeError ''JSON-RPC connection epoch sequence is exhausted'')
      else Inr (Suc (rt_epochSequence r), r\<lparr>rt_epochSequence := Suc (rt_epochSequence r)\<rparr>))"

definition open_connection :: "router \<Rightarrow> rpc_error + (nat \<times> router)" where
  "open_connection r =
     bindE (nextConnectionEpoch r) (\<lambda>(epoch, r1).
     let r2 = (case rt_connection r1 of None \<Rightarrow> r1 | Some c \<Rightarrow> snd (close (cn_epoch c) r1)) in
     Inr (epoch, setConnection (freshConnection epoch) r2))"

definition failInitialization :: "nat \<Rightarrow> rpc_error \<Rightarrow> router \<Rightarrow> router" where
  "failInitialization epoch reason r =
     (case activeConnection epoch r of
        None \<Rightarrow> r
      | Some c \<Rightarrow>
          if cn_initializationState c = InitFailed \<or> cn_initializationState c = Ready then r
          else setConnection (c\<lparr>cn_initializationState := InitFailed, cn_initializationRequest := None,
                 cn_initializationResponse := None, cn_queue := [], cn_requests := []\<rparr>)
               (rejectAll (\<lambda>q. if rq_kind q = Initialization then reason
                               else RpcInitializationFailedError) c r))"

subsection \<open>Writing requests\<close>

text \<open>The return of \<open>writeRequest\<close> to the drain loop that awaits it.\<close>

definition afterWrite :: "nat \<Rightarrow> bool \<Rightarrow> router \<Rightarrow> router" where
  "afterWrite epoch drain r = (if drain then addTask (TDrain epoch) r else r)"

definition writeRequest :: "nat \<Rightarrow> jstr \<Rightarrow> bool \<Rightarrow> router \<Rightarrow> router" where
  "writeRequest epoch rid drain r =
     (case activeConnection epoch r of
        None \<Rightarrow> afterWrite epoch drain r
      | Some c \<Rightarrow>
          (case findRequest c rid of
             None \<Rightarrow> afterWrite epoch drain r
           | Some q \<Rightarrow>
               addTask (TWriteRequest epoch rid drain)
                 (logEffect (Wrote epoch (WireRequest (rq_kind q) (rq_seq q)
                               (requestMessage rid (rq_method q) (rq_params q))))
                   (setConnection (setStage rid Writing c) r))))"

text \<open>One run of the loop of \<open>drainQueue\<close> up to its next \<open>await\<close> or its end.\<close>

fun drainFrom :: "nat \<Rightarrow> ActiveConnection \<Rightarrow> jstr list \<Rightarrow> router \<Rightarrow> router" where
  "drainFrom epoch c [] r = setConnection (c\<lparr>cn_queue := [], cn_draining := False\<rparr>) r"
| "drainFrom epoch c (rid # queue) r =
     (if findRequest c rid \<noteq> None
      then writeRequest epoch rid True (setConnection (c\<lparr>cn_queue := queue\<rparr>) r)
      else drainFrom epoch c queue r)"

definition resumeDrain :: "nat \<Rightarrow> router \<Rightarrow> router" where
  "resumeDrain epoch r =
     (case activeConnection epoch r of None \<Rightarrow> r | Some c \<Rightarrow> drainFrom epoch c (cn_queue c) r)"

definition drainQueue :: "nat \<Rightarrow> router \<Rightarrow> router" where
  "drainQueue epoch r =
     (case activeConnection epoch r of
        None \<Rightarrow> r
      | Some c \<Rightarrow> resumeDrain epoch (setConnection (c\<lparr>cn_draining := True\<rparr>) r))"

text \<open>\<open>completeInitialization\<close> up to the write of \<open>initialized\<close>, and after it.\<close>

definition completeInitialization :: "nat \<Rightarrow> jstr \<Rightarrow> jsval \<Rightarrow> router \<Rightarrow> router" where
  "completeInitialization epoch rid response r =
     (case activeConnection epoch r of
        None \<Rightarrow> r
      | Some c \<Rightarrow>
          if findRequest c rid = None \<or> cn_initializationState c \<noteq> Initializing then r
          else addTask (TWriteInitialized epoch rid response)
                 (logEffect (Wrote epoch WireInitialized)
                   (setConnection (c\<lparr>cn_initializationState := SendingInitialized,
                                     cn_initializationResponse := None\<rparr>) r)))"

definition initializedWritten :: "nat \<Rightarrow> jstr \<Rightarrow> jsval \<Rightarrow> bool \<Rightarrow> router \<Rightarrow> router" where
  "initializedWritten epoch rid response ok r =
     (case activeConnection epoch r of
        None \<Rightarrow> r
      | Some c \<Rightarrow>
          if findRequest c rid = None \<or> cn_initializationState c \<noteq> SendingInitialized then r
          else if ok then
            drainQueue epoch (resolveRequest epoch rid response
              (setConnection (c\<lparr>cn_initializationState := Ready,
                                cn_initializationRequest := None\<rparr>) r))
          else failInitialization epoch RpcWriteError
                 (emit (writeFailedDiagnostic epoch (Some (lit ''initialized'')) None) r))"

text \<open>The continuation of \<open>writeRequest\<close> once the writer's promise is settled.\<close>

definition requestWritten :: "nat \<Rightarrow> jstr \<Rightarrow> bool \<Rightarrow> bool \<Rightarrow> router \<Rightarrow> router" where
  "requestWritten epoch rid drain ok r =
     (case activeConnection epoch r of
        None \<Rightarrow> afterWrite epoch drain r
      | Some c \<Rightarrow>
          (case findRequest c rid of
             None \<Rightarrow> afterWrite epoch drain r
           | Some q \<Rightarrow>
               if \<not> ok then
                 let r1 = emit (writeFailedDiagnostic epoch (Some (rq_method q)) (Some rid)) r in
                 afterWrite epoch drain
                   (if rq_kind q = Initialization then failInitialization epoch RpcWriteError r1
                    else rejectRequest epoch rid RpcWriteError r1)
               else
                 let r1 = setConnection (setStage rid Pending c) r in
                 (case (rq_kind q, cn_initializationResponse c) of
                    (Initialization, Some response) \<Rightarrow>
                      afterWrite epoch drain (completeInitialization epoch rid response r1)
                  | _ \<Rightarrow> afterWrite epoch drain r1)))"

subsection \<open>Calls of the application\<close>

definition createRequest ::
  "router_env \<Rightarrow> ActiveConnection \<Rightarrow> RequestKind \<Rightarrow> jstr \<Rightarrow> jsval \<Rightarrow> ResultValidator \<Rightarrow> RequestStage
    \<Rightarrow> rpc_error + (RequestRecord \<times> ActiveConnection)" where
  "createRequest env c kind method params validate stage =
     (if int (cn_nextRequestSequence c) \<ge> MAX_SAFE_INTEGER
      then Inl (RpcRangeError ''JSON-RPC request sequence is exhausted'')
      else let n = Suc (cn_nextRequestSequence c) in
        Inr (\<lparr>rq_kind = kind, rq_id = requestId (clientInstanceId env) (cn_epoch c) n, rq_seq = n,
               rq_method = method, rq_params = params, rq_stage = stage,
               rq_validateResult = validate\<rparr>,
             c\<lparr>cn_nextRequestSequence := n\<rparr>))"

definition addRequest :: "RequestRecord \<Rightarrow> ActiveConnection \<Rightarrow> ActiveConnection" where
  "addRequest q c = c\<lparr>cn_requests := cn_requests c @ [(rq_id q, q)]\<rparr>"

definition initialize :: "router_env \<Rightarrow> jsval \<Rightarrow> router \<Rightarrow> rpc_error + (jstr \<times> router)" where
  "initialize env params r =
     (case rt_connection r of
        None \<Rightarrow> Inl connectionUnavailable
      | Some c \<Rightarrow>
          if cn_initializationState c \<noteq> AwaitingInitialize then Inl initializationNotAllowed
          else bindE (createRequest env c Initialization (lit ''initialize'') (protectedParams params)
                        (validateInitializeResponse (boundary env)) Writing) (\<lambda>(q, c1).
            let c2 = addRequest q (c1\<lparr>cn_initializationState := Initializing,
                                       cn_initializationRequest := Some (rq_id q)\<rparr>) in
            Inr (rq_id q, writeRequest (cn_epoch c) (rq_id q) False
                   (logEffect (Issued (rq_id q)) (setConnection c2 r)))))"

definition sendRequest ::
  "router_env \<Rightarrow> jstr \<Rightarrow> jsval \<Rightarrow> ResultValidator \<Rightarrow> router \<Rightarrow> rpc_error + (jstr \<times> router)" where
  "sendRequest env method params validate r =
     (case rt_connection r of
        None \<Rightarrow> Inl connectionUnavailable
      | Some c \<Rightarrow>
          if method = lit ''initialize''
          then Inl (RpcInitializationStateError ''Use RpcRouter.initialize() for the initialize request'')
          else if cn_initializationState c = InitFailed then Inl RpcInitializationFailedError
          else let shouldQueue = (cn_initializationState c \<noteq> Ready \<or> cn_draining c) in
            if shouldQueue \<and> int (length (cn_queue c)) \<ge> queueCapacity env
            then Inl (RpcQueueCapacityError (queueCapacity env))
            else bindE (createRequest env c Business method params validate
                          (if shouldQueue then Queued else Writing)) (\<lambda>(q, c1).
              let c2 = addRequest q c1 in
              Inr (rq_id q,
                   if shouldQueue
                   then logEffect (Issued (rq_id q))
                          (setConnection (c2\<lparr>cn_queue := cn_queue c2 @ [rq_id q]\<rparr>) r)
                   else writeRequest (cn_epoch c) (rq_id q) False
                          (logEffect (Issued (rq_id q)) (setConnection c2 r)))))"

text \<open>\<open>sendNotification\<close>: the errors before the write, and its continuation.\<close>

definition sendNotification :: "nat \<Rightarrow> jstr \<Rightarrow> jsval \<Rightarrow> router \<Rightarrow> rpc_error + router" where
  "sendNotification epoch method params r =
     (case activeConnection epoch r of
        None \<Rightarrow> Inl connectionUnavailable
      | Some c \<Rightarrow>
          if method = lit ''initialized''
          then Inl (RpcInitializationStateError
                 ''The initialized notification is managed by RpcRouter.initialize()'')
          else if cn_initializationState c = InitFailed then Inl RpcInitializationFailedError
          else if cn_initializationState c \<noteq> Ready \<or> cn_draining c
          then Inl (RpcInitializationStateError
                 ''JSON-RPC notifications require a fully initialized connection'')
          else Inr (addTask (TWriteNotification epoch method)
                 (logEffect (Wrote epoch (WireNotification method
                               (notificationMessage method params))) r)))"

definition notificationWritten :: "nat \<Rightarrow> jstr \<Rightarrow> bool \<Rightarrow> router \<Rightarrow> router" where
  "notificationWritten epoch method ok r =
     (if ok then logEffect (NotificationSettled None) r
      else (case activeConnection epoch r of
          None \<Rightarrow> logEffect (NotificationSettled None) r
        | Some _ \<Rightarrow> logEffect (NotificationSettled (Some RpcWriteError))
                      (emit (writeFailedDiagnostic epoch (Some method) None) r)))"

definition registerServerRequestHandler :: "jstr \<Rightarrow> nat \<Rightarrow> router \<Rightarrow> router" where
  "registerServerRequestHandler method handler r =
     r\<lparr>rt_serverRequestHandlers := (rt_serverRequestHandlers r)(method \<mapsto> handler)\<rparr>"

text \<open>The function \<open>registerServerRequestHandler\<close> returns.\<close>

definition unregisterServerRequestHandler :: "jstr \<Rightarrow> nat \<Rightarrow> router \<Rightarrow> router" where
  "unregisterServerRequestHandler method handler r =
     (if rt_serverRequestHandlers r method = Some handler
      then r\<lparr>rt_serverRequestHandlers := (rt_serverRequestHandlers r)(method := None)\<rparr>
      else r)"

text \<open>
  The set of notification handlers keeps its insertion order, and a handler removed and added
  again is visited at its new position: a position is never used twice.
\<close>

definition subscribeNotifications :: "nat \<Rightarrow> router \<Rightarrow> router" where
  "subscribeNotifications handler r =
     (if handler \<in> snd ` set (rt_notificationHandlers r) then r
      else r\<lparr>rt_notificationHandlers := rt_notificationHandlers r @ [(rt_nextPosition r, handler)],
             rt_nextPosition := Suc (rt_nextPosition r)\<rparr>)"

definition unsubscribeNotifications :: "nat \<Rightarrow> router \<Rightarrow> router" where
  "unsubscribeNotifications handler r =
     r\<lparr>rt_notificationHandlers := filter (\<lambda>ph. snd ph \<noteq> handler) (rt_notificationHandlers r)\<rparr>"

end
