(* ===== verification/RpcInbound.thy ===== *)
theory RpcInbound
  imports RpcRouter
begin

text \<open>
  The inbound half of \<open>src/protocol/rpc/rpcRouter.ts\<close>: incoming messages, responses,
  notifications and requests of the server, and the continuations of what they wait for; then the
  events of the router as one step function and its reachable states.
\<close>

text \<open>How a promise the router awaits is settled: a value, or the error it was rejected with.\<close>

datatype outcome = Fulfilled jsval | Thrown "(int \<times> jstr) option"

text \<open>\<open>Thrown (Some (code, message))\<close> is an \<open>RpcServerRequestError\<close>, \<open>Thrown None\<close> any other.\<close>

definition succeeded :: "outcome \<Rightarrow> bool" where
  "succeeded out = (case out of Fulfilled _ \<Rightarrow> True | Thrown _ \<Rightarrow> False)"

subsection \<open>Responses\<close>

definition bumpStale :: "router \<Rightarrow> router" where
  "bumpStale = bumpCount (\<lambda>k. k\<lparr>staleResponses := staleResponses k + 1\<rparr>)"

definition bumpUnknownResponse :: "router \<Rightarrow> router" where
  "bumpUnknownResponse = bumpCount (\<lambda>k. k\<lparr>unknownResponses := unknownResponses k + 1\<rparr>)"

definition bumpUnknownNotification :: "router \<Rightarrow> router" where
  "bumpUnknownNotification = bumpCount (\<lambda>k. k\<lparr>unknownNotifications := unknownNotifications k + 1\<rparr>)"

definition bumpUnknownServerRequest :: "router \<Rightarrow> router" where
  "bumpUnknownServerRequest = bumpCount (\<lambda>k. k\<lparr>unknownServerRequests := unknownServerRequests k + 1\<rparr>)"

definition requestDiagnostic :: "RpcDiagnosticCode \<Rightarrow> nat \<Rightarrow> RequestRecord \<Rightarrow> RpcDiagnostic" where
  "requestDiagnostic code epoch q =
     (inboundDiagnostic code epoch)\<lparr>dg_method := Some (rq_method q), dg_requestId := Some (rq_id q)\<rparr>"

text \<open>The key under which a map of string identifiers finds an identifier of the wire.\<close>

definition lookupResponse :: "ActiveConnection \<Rightarrow> RpcRequestId \<Rightarrow> RequestRecord option" where
  "lookupResponse c rid = (case rid of IdStr s \<Rightarrow> findRequest c s | _ \<Rightarrow> None)"

definition responseRequest ::
  "router_env \<Rightarrow> ActiveConnection \<Rightarrow> jsrecord \<Rightarrow> router \<Rightarrow> RequestRecord option \<times> router" where
  "responseRequest env c message r =
     (case requestIdOf message of
        None \<Rightarrow> (None, emit (inboundDiagnostic InvalidMessage (cn_epoch c)) r)
      | Some rid \<Rightarrow>
          (case lookupResponse c rid of
             None \<Rightarrow>
               (case requestEpochOf (clientInstanceId env) rid of
                  Some responseEpoch \<Rightarrow>
                    if responseEpoch \<noteq> cn_epoch c
                    then (None, emit (inboundDiagnostic StaleResponse (cn_epoch c)) (bumpStale r))
                    else (None, emit (inboundDiagnostic UnknownResponse (cn_epoch c))
                                  (bumpUnknownResponse r))
                | None \<Rightarrow> (None, emit (inboundDiagnostic UnknownResponse (cn_epoch c))
                                    (bumpUnknownResponse r)))
           | Some q \<Rightarrow>
               if rq_stage q = Queued
               then (None, emit (requestDiagnostic UnexpectedResponseStage (cn_epoch c) q) r)
               else (Some q, r)))"

text \<open>The guard both response handlers have for the response to \<open>initialize\<close>.\<close>

definition initializationBlocked :: "ActiveConnection \<Rightarrow> RequestRecord \<Rightarrow> bool" where
  "initializationBlocked c q \<longleftrightarrow> rq_kind q = Initialization \<and>
     (cn_initializationState c \<noteq> Initializing \<or> cn_initializationRequest c \<noteq> Some (rq_id q) \<or>
      cn_initializationResponse c \<noteq> None)"

definition failRequest :: "nat \<Rightarrow> RequestRecord \<Rightarrow> rpc_error \<Rightarrow> router \<Rightarrow> router" where
  "failRequest epoch q reason r =
     (if rq_kind q = Initialization then failInitialization epoch reason r
      else rejectRequest epoch (rq_id q) reason r)"

definition handleSuccessResponse ::
  "router_env \<Rightarrow> ActiveConnection \<Rightarrow> jsrecord \<Rightarrow> router \<Rightarrow> router" where
  "handleSuccessResponse env c message r =
     (case responseRequest env c message r of
        (None, r1) \<Rightarrow> r1
      | (Some q, r1) \<Rightarrow>
          if initializationBlocked c q
          then emit (requestDiagnostic UnexpectedResponseStage (cn_epoch c) q) r1
          else (case rq_validateResult q (field message ''result'') of
              NotValid diag \<Rightarrow>
                failRequest (cn_epoch c) q (RpcInvalidResultError (rq_method q))
                  (emit ((requestDiagnostic InvalidResponseResult (cn_epoch c) q)
                           \<lparr>dg_validation := diag\<rparr>) r1)
            | Valid value \<Rightarrow>
                if rq_kind q = Initialization then
                  if rq_stage q = Writing
                  then setConnection (c\<lparr>cn_initializationResponse := Some value\<rparr>) r1
                  else completeInitialization (cn_epoch c) (rq_id q) value r1
                else resolveRequest (cn_epoch c) (rq_id q) value r1))"

definition isNumber :: "jsval \<Rightarrow> bool" where
  "isNumber v = (case v of JInt _ \<Rightarrow> True | JFloat _ \<Rightarrow> True | _ \<Rightarrow> False)"

definition handleErrorResponse ::
  "router_env \<Rightarrow> ActiveConnection \<Rightarrow> jsrecord \<Rightarrow> router \<Rightarrow> router" where
  "handleErrorResponse env c message r =
     (case responseRequest env c message r of
        (None, r1) \<Rightarrow> r1
      | (Some q, r1) \<Rightarrow>
          if initializationBlocked c q
          then emit (requestDiagnostic UnexpectedResponseStage (cn_epoch c) q) r1
          else (case asRecord (field message ''error'') of
              None \<Rightarrow> r1
            | Some error \<Rightarrow>
                (case field error ''message'' of
                   JStr text \<Rightarrow>
                     if isNumber (field error ''code'')
                     then failRequest (cn_epoch c) q
                            (RpcRemoteError (field error ''code'') text) r1
                     else r1
                 | _ \<Rightarrow> r1)))"

subsection \<open>Notifications of the server\<close>

text \<open>
  The rest of the loop over the handlers from a position on: the next handler is called and awaited.
  A handler added during the loop is visited, one removed before its turn is not.
\<close>

definition notifyFrom :: "nat \<Rightarrow> jstr \<Rightarrow> jsval \<Rightarrow> nat \<Rightarrow> router \<Rightarrow> router" where
  "notifyFrom epoch method message position r =
     (case find (\<lambda>ph. position \<le> fst ph) (rt_notificationHandlers r) of
        None \<Rightarrow> r
      | Some (p, handler) \<Rightarrow>
          addTask (TNotificationHandler epoch method message p)
            (logEffect (NotificationDelivered handler message) r))"

definition notificationHandled ::
  "nat \<Rightarrow> jstr \<Rightarrow> jsval \<Rightarrow> nat \<Rightarrow> outcome \<Rightarrow> router \<Rightarrow> router" where
  "notificationHandled epoch method message p out r =
     notifyFrom epoch method message (Suc p)
       (if succeeded out then r
        else emit ((inboundDiagnostic NotificationHandlerFailed epoch)\<lparr>dg_method := Some method\<rparr>) r)"

definition handleServerNotification ::
  "router_env \<Rightarrow> nat \<Rightarrow> jsval \<Rightarrow> jstr \<Rightarrow> router \<Rightarrow> router" where
  "handleServerNotification env epoch message method r =
     (case validateServerNotification (boundary env) message of
        UnknownMethod diag \<Rightarrow>
          emit ((inboundDiagnostic UnknownNotification epoch)\<lparr>dg_validation := diag\<rparr>)
            (bumpUnknownNotification r)
      | InvalidParams diag \<Rightarrow>
          emit ((inboundDiagnostic InvalidNotification epoch)
                  \<lparr>dg_method := Some method, dg_validation := diag\<rparr>) r
      | MethodValid value \<Rightarrow> notifyFrom epoch method value 0 r)"

subsection \<open>Requests of the server\<close>

text \<open>
  \<open>writeServerMessage\<close> up to its await; \<open>tracked\<close> says that the identifier is in
  \<open>pendingServerRequestIds\<close> and a \<open>finally\<close> removes it.
\<close>

definition finishServer :: "nat \<Rightarrow> RpcRequestId \<Rightarrow> bool \<Rightarrow> router \<Rightarrow> router" where
  "finishServer epoch rid tracked r = (if tracked then addTask (TFinally epoch rid) r else r)"

definition writeServerMessage ::
  "nat \<Rightarrow> RpcRequestId \<Rightarrow> wire \<Rightarrow> jstr option \<Rightarrow> bool \<Rightarrow> router \<Rightarrow> router" where
  "writeServerMessage epoch rid message method tracked r =
     (case activeConnection epoch r of
        None \<Rightarrow> finishServer epoch rid tracked r
      | Some _ \<Rightarrow> addTask (TWriteServer epoch rid method tracked) (logEffect (Wrote epoch message) r))"

definition writeServerResult :: "nat \<Rightarrow> RpcRequestId \<Rightarrow> jsval \<Rightarrow> jstr \<Rightarrow> router \<Rightarrow> router" where
  "writeServerResult epoch rid result method r =
     writeServerMessage epoch rid (WireResult rid result) (Some method) True r"

definition writeServerError :: "nat \<Rightarrow> RpcRequestId \<Rightarrow> int \<Rightarrow> jstr \<Rightarrow> bool \<Rightarrow> router \<Rightarrow> router" where
  "writeServerError epoch rid code message tracked r =
     writeServerMessage epoch rid (WireError rid code message) None tracked r"

definition serverMessageWritten ::
  "nat \<Rightarrow> RpcRequestId \<Rightarrow> jstr option \<Rightarrow> bool \<Rightarrow> outcome \<Rightarrow> router \<Rightarrow> router" where
  "serverMessageWritten epoch rid method tracked out r =
     (if succeeded out then finishServer epoch rid tracked r
      else (case activeConnection epoch r of
          None \<Rightarrow> finishServer epoch rid tracked r
        | Some _ \<Rightarrow> addTask (TCatch epoch rid tracked)
                      (terminateConnection epoch RpcWriteError
                        (emit (writeFailedDiagnostic epoch method None) r))))"

definition failInboundTask :: "nat \<Rightarrow> router \<Rightarrow> router" where
  "failInboundTask epoch r =
     logEffect (InboundTaskFailure epoch)
       (terminateConnection epoch (RpcConnectionError ''Server request response failed'') r)"

definition serverTaskCaught :: "nat \<Rightarrow> RpcRequestId \<Rightarrow> bool \<Rightarrow> router \<Rightarrow> router" where
  "serverTaskCaught epoch rid tracked r = finishServer epoch rid tracked (failInboundTask epoch r)"

definition serverTaskFinished :: "nat \<Rightarrow> RpcRequestId \<Rightarrow> router \<Rightarrow> router" where
  "serverTaskFinished epoch rid r =
     (case activeConnection epoch r of
        None \<Rightarrow> r
      | Some c \<Rightarrow> setConnection (c\<lparr>cn_pendingServerRequestIds :=
                    remove1 rid (cn_pendingServerRequestIds c)\<rparr>) r)"

definition recordMethod :: "jsrecord \<Rightarrow> jstr" where
  "recordMethod record = (case field record ''method'' of JStr s \<Rightarrow> s | _ \<Rightarrow> [])"

text \<open>\<open>handleServerRequest\<close> with an identifier, up to its first await.\<close>

definition handleServerRequest ::
  "router_env \<Rightarrow> nat \<Rightarrow> RpcRequestId \<Rightarrow> jsval \<Rightarrow> jsrecord \<Rightarrow> router \<Rightarrow> router" where
  "handleServerRequest env epoch rid message record r =
     (let method = recordMethod record in
      case validateServerRequest (boundary env) message of
        UnknownMethod diag \<Rightarrow>
          writeServerError epoch rid METHOD_NOT_FOUND (lit ''Method not found'') True
            (emit ((inboundDiagnostic UnknownServerRequest epoch)\<lparr>dg_validation := diag\<rparr>)
              (bumpUnknownServerRequest r))
      | InvalidParams diag \<Rightarrow>
          writeServerError epoch rid INVALID_PARAMS (lit ''Invalid params'') True
            (emit ((inboundDiagnostic InvalidServerRequest epoch)\<lparr>dg_method := Some method,
                      dg_errorCode := Some INVALID_PARAMS, dg_validation := diag\<rparr>) r)
      | MethodValid value \<Rightarrow>
          (case rt_serverRequestHandlers r method of
             None \<Rightarrow>
               writeServerError epoch rid METHOD_NOT_FOUND (lit ''Method not found'') True
                 (emit ((inboundDiagnostic UnimplementedServerRequest epoch)
                          \<lparr>dg_method := Some method, dg_errorCode := Some METHOD_NOT_FOUND\<rparr>)
                   (bumpUnknownServerRequest r))
           | Some handler \<Rightarrow>
               addTask (TServerHandler epoch rid method)
                 (logEffect (HandlerCalled handler value) r)))"

text \<open>After the handler: a result, or an error response; \<open>undefined\<close> counts as an error.\<close>

definition serverHandlerFailed ::
  "nat \<Rightarrow> RpcRequestId \<Rightarrow> jstr \<Rightarrow> int \<Rightarrow> jstr \<Rightarrow> router \<Rightarrow> router" where
  "serverHandlerFailed epoch rid method code text r =
     (case activeConnection epoch r of
        None \<Rightarrow> finishServer epoch rid True r
      | Some _ \<Rightarrow>
          writeServerError epoch rid code text True
            (emit ((inboundDiagnostic ServerRequestHandlerFailed epoch)
                     \<lparr>dg_method := Some method, dg_errorCode := Some code\<rparr>) r))"

definition serverHandled :: "nat \<Rightarrow> RpcRequestId \<Rightarrow> jstr \<Rightarrow> outcome \<Rightarrow> router \<Rightarrow> router" where
  "serverHandled epoch rid method out r =
     (case out of
        Fulfilled result \<Rightarrow>
          if result = JUndef
          then serverHandlerFailed epoch rid method INTERNAL_ERROR (lit ''Internal error'') r
          else writeServerResult epoch rid result method r
      | Thrown None \<Rightarrow>
          serverHandlerFailed epoch rid method INTERNAL_ERROR (lit ''Internal error'') r
      | Thrown (Some (code, text)) \<Rightarrow> serverHandlerFailed epoch rid method code text r)"

definition dispatchServerRequest ::
  "router_env \<Rightarrow> ActiveConnection \<Rightarrow> jsval \<Rightarrow> jsrecord \<Rightarrow> router \<Rightarrow> router" where
  "dispatchServerRequest env c message record r =
     (let epoch = cn_epoch c in
      case requestIdOf record of
        None \<Rightarrow> emit (inboundDiagnostic InvalidMessage epoch) r
      | Some rid \<Rightarrow>
          if rid \<in> set (cn_pendingServerRequestIds c) then
            failInboundTask epoch
              (emit ((inboundDiagnostic InvalidServerRequest epoch)
                       \<lparr>dg_errorCode := Some INVALID_REQUEST\<rparr>) r)
          else if int (length (cn_pendingServerRequestIds c)) \<ge> serverRequestCapacity env then
            writeServerError epoch rid SERVER_BUSY (lit ''Too many pending client requests'') False
              (emit ((inboundDiagnostic ServerRequestHandlerFailed epoch)
                       \<lparr>dg_errorCode := Some SERVER_BUSY\<rparr>) r)
          else handleServerRequest env epoch rid message record
                 (setConnection (c\<lparr>cn_pendingServerRequestIds :=
                    cn_pendingServerRequestIds c @ [rid]\<rparr>) r))"

subsection \<open>Incoming messages\<close>

definition handleIncoming :: "router_env \<Rightarrow> nat \<Rightarrow> jsval \<Rightarrow> router \<Rightarrow> router" where
  "handleIncoming env epoch value r =
     (case activeConnection epoch r of
        None \<Rightarrow> emit (inboundDiagnostic StaleEpochMessage epoch) r
      | Some c \<Rightarrow>
          (case validateMessage (boundary env) value of
             NotValid diag \<Rightarrow>
               emit ((inboundDiagnostic InvalidMessage epoch)\<lparr>dg_validation := diag\<rparr>) r
           | Valid envelope \<Rightarrow>
               (case asRecord envelope of
                  None \<Rightarrow> emit (inboundDiagnostic InvalidMessage epoch) r
                | Some record \<Rightarrow>
                    (case field record ''method'' of
                       JStr method \<Rightarrow>
                         if hasOwn record (lit ''id'')
                         then dispatchServerRequest env c envelope record r
                         else handleServerNotification env epoch envelope method r
                     | _ \<Rightarrow>
                         if hasOwn record (lit ''result'') then handleSuccessResponse env c record r
                         else if hasOwn record (lit ''error'') then handleErrorResponse env c record r
                         else emit (inboundDiagnostic InvalidMessage epoch) r))))"

subsection \<open>Events\<close>

definition runTask :: "task \<Rightarrow> outcome \<Rightarrow> router \<Rightarrow> router" where
  "runTask t out r =
     (case t of
        TWriteRequest epoch rid drain \<Rightarrow> requestWritten epoch rid drain (succeeded out) r
      | TWriteInitialized epoch rid response \<Rightarrow>
          initializedWritten epoch rid response (succeeded out) r
      | TDrain epoch \<Rightarrow> resumeDrain epoch r
      | TWriteNotification epoch method \<Rightarrow> notificationWritten epoch method (succeeded out) r
      | TNotificationHandler epoch method message p \<Rightarrow>
          notificationHandled epoch method message p out r
      | TServerHandler epoch rid method \<Rightarrow> serverHandled epoch rid method out r
      | TWriteServer epoch rid method tracked \<Rightarrow>
          serverMessageWritten epoch rid method tracked out r
      | TCatch epoch rid tracked \<Rightarrow> serverTaskCaught epoch rid tracked r
      | TFinally epoch rid \<Rightarrow> serverTaskFinished epoch rid r)"

definition resume :: "nat \<Rightarrow> outcome \<Rightarrow> router \<Rightarrow> router" where
  "resume i out r =
     (case map_of (rt_tasks r) i of
        None \<Rightarrow> r
      | Some t \<Rightarrow> runTask t out (r\<lparr>rt_tasks := filter (\<lambda>it. fst it \<noteq> i) (rt_tasks r)\<rparr>))"

text \<open>
  The epoch sequence is shared by every router of the program: \<open>OtherRouterOpened\<close> is
  \<open>open\<close> on another one. A call that throws changes nothing.
\<close>

datatype event =
    Opened
  | OtherRouterOpened
  | Closed nat
  | Initialize jsval
  | SendRequest jstr jsval ResultValidator
  | SendNotification nat jstr jsval
  | RegisterHandler jstr nat
  | UnregisterHandler jstr nat
  | Subscribe nat
  | Unsubscribe nat
  | Incoming nat jsval
  | Resume nat outcome

definition orUnchanged :: "router \<Rightarrow> rpc_error + ('a \<times> router) \<Rightarrow> router" where
  "orUnchanged r m = (case m of Inl _ \<Rightarrow> r | Inr (_, r') \<Rightarrow> r')"

definition step :: "router_env \<Rightarrow> event \<Rightarrow> router \<Rightarrow> router" where
  "step env ev r =
     (case ev of
        Opened \<Rightarrow> orUnchanged r (open_connection r)
      | OtherRouterOpened \<Rightarrow> orUnchanged r (nextConnectionEpoch r)
      | Closed epoch \<Rightarrow> snd (close epoch r)
      | Initialize params \<Rightarrow> orUnchanged r (initialize env params r)
      | SendRequest method params validate \<Rightarrow>
          orUnchanged r (sendRequest env method params validate r)
      | SendNotification epoch method params \<Rightarrow>
          (case sendNotification epoch method params r of Inl _ \<Rightarrow> r | Inr r' \<Rightarrow> r')
      | RegisterHandler method h \<Rightarrow> registerServerRequestHandler method h r
      | UnregisterHandler method h \<Rightarrow> unregisterServerRequestHandler method h r
      | Subscribe h \<Rightarrow> subscribeNotifications h r
      | Unsubscribe h \<Rightarrow> unsubscribeNotifications h r
      | Incoming epoch value \<Rightarrow> handleIncoming env epoch value r
      | Resume i out \<Rightarrow> resume i out r)"

inductive reachable :: "router_env \<Rightarrow> router \<Rightarrow> bool" for env where
  start: "reachable env (newRouter n)"
| event: "reachable env r \<Longrightarrow> reachable env (step env ev r)"

fun run :: "router_env \<Rightarrow> event list \<Rightarrow> router \<Rightarrow> router" where
  "run env [] r = r"
| "run env (ev # evs) r = run env evs (step env ev r)"

lemma run_append: "run env (es @ fs) r = run env fs (run env es r)"
  by (induction es arbitrary: r) simp_all

lemma reachable_run: "reachable env r \<Longrightarrow> reachable env (run env evs r)"
  by (induction evs arbitrary: r) (auto intro: reachable.event)

text \<open>What the constructor guarantees, and a client instance that is a UUID.\<close>

definition env_ok :: "router_env \<Rightarrow> bool" where
  "env_ok env \<longleftrightarrow> 0x3A \<notin> set (clientInstanceId env) \<and> 0 \<le> queueCapacity env \<and>
     0 \<le> serverRequestCapacity env"

text \<open>An invariant of the router holds at the start and is kept by every event.\<close>

locale router_invariant =
  fixes env :: router_env and I :: "router \<Rightarrow> bool"
  assumes initially: "I (newRouter n)"
    and kept: "reachable env r \<Longrightarrow> I r \<Longrightarrow> I (step env ev r)"
begin

lemma always: "reachable env r \<Longrightarrow> I r"
  by (induction rule: reachable.induct) (simp_all add: initially kept)

lemma along_run: "reachable env r \<Longrightarrow> I (run env evs r)"
  by (rule always) (rule reachable_run)

end

end
