(* ===== verification/RpcInvariant.thy ===== *)
theory RpcInvariant
  imports RpcInbound
begin

text \<open>
  The structural invariant of the router: what holds of the active connection and of the suspended
  segments between two events.

  \<^item> \<open>conn_ok\<close>: the requests of a connection carry distinct identifiers in issuing order, the
    queue is exactly the list of the queued ones and within the capacity, the handshake fields agree
    with each other, and a ready connection that is not draining has an empty queue.
  \<^item> \<open>live\<close>: every request in stage \<open>writing\<close> has one suspended write and the reverse, a
    draining connection has exactly one suspended drain loop, and \<open>sending_initialized\<close> has its
    suspended write. So nothing waits for a segment that does not exist.
\<close>

definition queuedIds :: "(jstr \<times> RequestRecord) list \<Rightarrow> jstr list" where
  "queuedIds rs = map fst (filter (\<lambda>kq. rq_stage (snd kq) = Queued) rs)"

definition request_ok :: "router_env \<Rightarrow> ActiveConnection \<Rightarrow> jstr \<times> RequestRecord \<Rightarrow> bool" where
  "request_ok env c kq \<longleftrightarrow> fst kq = rq_id (snd kq) \<and>
     rq_id (snd kq) = requestId (clientInstanceId env) (cn_epoch c) (rq_seq (snd kq)) \<and>
     rq_seq (snd kq) \<le> cn_nextRequestSequence c \<and>
     (rq_kind (snd kq) = Initialization \<longleftrightarrow> cn_initializationRequest c = Some (fst kq))"

definition handshake_ok :: "ActiveConnection \<Rightarrow> bool" where
  "handshake_ok c \<longleftrightarrow>
     (cn_initializationRequest c \<noteq> None \<longleftrightarrow>
        cn_initializationState c \<in> {Initializing, SendingInitialized}) \<and>
     (\<forall>k. cn_initializationRequest c = Some k \<longrightarrow>
        (\<exists>q. (k, q) \<in> set (cn_requests c) \<and> rq_stage q \<noteq> Queued)) \<and>
     (cn_initializationResponse c \<noteq> None \<longrightarrow> cn_initializationState c = Initializing \<and>
        (\<forall>kq \<in> set (cn_requests c). rq_kind (snd kq) = Initialization \<longrightarrow>
           rq_stage (snd kq) = Writing)) \<and>
     (cn_initializationState c = InitFailed \<longrightarrow> cn_requests c = []) \<and>
     (cn_initializationState c \<noteq> Ready \<longrightarrow> \<not> cn_draining c \<and>
        (\<forall>kq \<in> set (cn_requests c). rq_kind (snd kq) = Business \<longrightarrow> rq_stage (snd kq) = Queued)) \<and>
     (cn_initializationState c = Ready \<and> \<not> cn_draining c \<longrightarrow> cn_queue c = [])"

definition conn_ok :: "router_env \<Rightarrow> ActiveConnection \<Rightarrow> bool" where
  "conn_ok env c \<longleftrightarrow>
     distinct (map fst (cn_requests c)) \<and>
     sorted_wrt (<) (map (\<lambda>kq. rq_seq (snd kq)) (cn_requests c)) \<and>
     (\<forall>kq \<in> set (cn_requests c). request_ok env c kq) \<and>
     cn_queue c = queuedIds (cn_requests c) \<and>
     int (length (cn_queue c)) \<le> queueCapacity env \<and>
     handshake_ok c"

subsection \<open>Suspended segments\<close>

fun writeTask :: "nat \<Rightarrow> task \<Rightarrow> jstr option" where
  "writeTask e (TWriteRequest e' rid d) = (if e' = e then Some rid else None)"
| "writeTask e _ = None"

fun drainTask :: "nat \<Rightarrow> task \<Rightarrow> bool" where
  "drainTask e (TWriteRequest e' rid d) \<longleftrightarrow> e' = e \<and> d"
| "drainTask e (TDrain e') \<longleftrightarrow> e' = e"
| "drainTask e _ \<longleftrightarrow> False"

fun initializedTask :: "nat \<Rightarrow> task \<Rightarrow> jstr option" where
  "initializedTask e (TWriteInitialized e' rid response) = (if e' = e then Some rid else None)"
| "initializedTask e _ = None"

fun taskEpoch :: "task \<Rightarrow> nat" where
  "taskEpoch (TWriteRequest e rid d) = e"
| "taskEpoch (TWriteInitialized e rid response) = e"
| "taskEpoch (TDrain e) = e"
| "taskEpoch (TWriteNotification e method) = e"
| "taskEpoch (TNotificationHandler e method message p) = e"
| "taskEpoch (TServerHandler e rid method) = e"
| "taskEpoch (TWriteServer e rid method tracked) = e"
| "taskEpoch (TCatch e rid tracked) = e"
| "taskEpoch (TFinally e rid) = e"

definition writeIds :: "nat \<Rightarrow> task list \<Rightarrow> jstr list" where
  "writeIds e ts = List.map_filter (writeTask e) ts"

definition drainers :: "nat \<Rightarrow> task list \<Rightarrow> nat" where
  "drainers e ts = length (filter (drainTask e) ts)"

definition initIds :: "nat \<Rightarrow> task list \<Rightarrow> jstr list" where
  "initIds e ts = List.map_filter (initializedTask e) ts"

definition live :: "router_env \<Rightarrow> ActiveConnection \<Rightarrow> task list \<Rightarrow> bool" where
  "live env c ts \<longleftrightarrow>
     (\<forall>kq \<in> set (cn_requests c).
        rq_stage (snd kq) = Writing \<longleftrightarrow> fst kq \<in> set (writeIds (cn_epoch c) ts)) \<and>
     distinct (writeIds (cn_epoch c) ts) \<and>
     (\<forall>k \<in> set (writeIds (cn_epoch c) ts). \<exists>n \<le> cn_nextRequestSequence c.
        k = requestId (clientInstanceId env) (cn_epoch c) n) \<and>
     drainers (cn_epoch c) ts = (if cn_draining c then 1 else 0) \<and>
     (cn_initializationState c \<in> {AwaitingInitialize, Initializing} \<longrightarrow>
        initIds (cn_epoch c) ts = []) \<and>
     (cn_initializationState c = SendingInitialized \<longrightarrow>
        (\<exists>k. cn_initializationRequest c = Some k \<and> initIds (cn_epoch c) ts = [k]))"

lemma map_filter_append: "List.map_filter f (xs @ ys) = List.map_filter f xs @ List.map_filter f ys"
  by (simp add: List.map_filter_def)

lemma writeIds_simps [simp]:
  "writeIds e [] = []"
  "writeIds e (t # ts) = (case writeTask e t of None \<Rightarrow> writeIds e ts | Some k \<Rightarrow> k # writeIds e ts)"
  "writeIds e (ts @ us) = writeIds e ts @ writeIds e us"
  by (simp_all add: writeIds_def map_filter_append List.map_filter_simps split: option.splits)

lemma drainers_simps [simp]:
  "drainers e [] = 0"
  "drainers e (t # ts) = (if drainTask e t then Suc (drainers e ts) else drainers e ts)"
  "drainers e (ts @ us) = drainers e ts + drainers e us"
  by (simp_all add: drainers_def)

lemma initIds_simps [simp]:
  "initIds e [] = []"
  "initIds e (t # ts) =
     (case initializedTask e t of None \<Rightarrow> initIds e ts | Some k \<Rightarrow> k # initIds e ts)"
  "initIds e (ts @ us) = initIds e ts @ initIds e us"
  by (simp_all add: initIds_def map_filter_append List.map_filter_simps split: option.splits)

lemma mset_map_filter: "mset (List.map_filter f xs) = {#the (f x). x \<in># filter_mset (\<lambda>x. f x \<noteq> None) (mset xs)#}"
  by (simp add: List.map_filter_def o_def)

lemma mset_writeIds: "mset ts = mset us \<Longrightarrow> mset (writeIds e ts) = mset (writeIds e us)"
  by (simp add: writeIds_def mset_map_filter)

lemma mset_drainers: "mset ts = mset us \<Longrightarrow> drainers e ts = drainers e us"
  unfolding drainers_def by (metis mset_filter size_mset)

lemma mset_initIds: "mset ts = mset us \<Longrightarrow> mset (initIds e ts) = mset (initIds e us)"
  by (simp add: initIds_def mset_map_filter)

lemma live_mset_imp:
  assumes "mset ts = mset us" and "live env c ts"
  shows "live env c us"
proof -
  have ids: "mset (writeIds e us) = mset (writeIds e ts)" for e
    by (rule mset_writeIds) (rule assms(1) [symmetric])
  have sets: "set (writeIds e us) = set (writeIds e ts)" for e
    by (rule mset_eq_setD) (rule ids)
  have dist: "distinct (writeIds e us) = distinct (writeIds e ts)" for e
    by (rule mset_eq_imp_distinct_iff) (rule ids)
  have none: "initIds e us = [] \<longleftrightarrow> initIds e ts = []" for e
    using mset_initIds [OF assms(1), of e] by (metis mset_zero_iff)
  have one: "initIds e us = [k] \<longleftrightarrow> initIds e ts = [k]" for e k
    using mset_initIds [OF assms(1), of e] by (metis mset_single_iff)
  have drain: "drainers e us = drainers e ts" for e
    by (rule mset_drainers) (rule assms(1) [symmetric])
  show ?thesis
    using assms(2) unfolding live_def sets dist none one drain .
qed

lemma live_mset: "mset ts = mset us \<Longrightarrow> live env c ts \<longleftrightarrow> live env c us"
  using live_mset_imp [of ts us] live_mset_imp [of us ts] by auto

lemma map_of_filter_remove:
  assumes "distinct (map fst xs)" and "map_of xs i = Some t"
  shows "mset (map snd xs) = mset (t # map snd (filter (\<lambda>it. fst it \<noteq> i) xs))"
  using assms
proof (induction xs)
  case (Cons x xs)
  show ?case
  proof (cases "fst x = i")
    case True
    then have "filter (\<lambda>it. fst it \<noteq> i) xs = xs"
      using Cons.prems(1) by (auto simp: filter_id_conv rev_image_eqI)
    then show ?thesis using True Cons.prems by simp
  next
    case False
    then show ?thesis using Cons by simp
  qed
qed simp

definition tasks_ok :: "router \<Rightarrow> bool" where
  "tasks_ok r \<longleftrightarrow> distinct (map fst (rt_tasks r)) \<and>
     (\<forall>it \<in> set (rt_tasks r). fst it < rt_nextTask r \<and> taskEpoch (snd it) \<le> rt_epochSequence r)"

text \<open>\<open>ts\<close> are the segments that are running: the resumed one still counts.\<close>

definition structured :: "router_env \<Rightarrow> task list \<Rightarrow> router \<Rightarrow> bool" where
  "structured env ts r \<longleftrightarrow>
     tasks_ok r \<and> (\<forall>t \<in> set ts. taskEpoch t \<le> rt_epochSequence r) \<and>
     (\<forall>c. rt_connection r = Some c \<longrightarrow> cn_epoch c \<le> rt_epochSequence r \<and>
        conn_ok env c \<and> live env c (ts @ map snd (rt_tasks r)))"

subsection \<open>Connections\<close>

lemma queuedIds_simps [simp]:
  "queuedIds [] = []"
  "queuedIds (kq # rs) = (if rq_stage (snd kq) = Queued then fst kq # queuedIds rs else queuedIds rs)"
  "queuedIds (rs @ rs') = queuedIds rs @ queuedIds rs'"
  by (simp_all add: queuedIds_def)

lemma queuedIds_subset: "set (queuedIds rs) \<subseteq> fst ` set rs"
  by (auto simp: queuedIds_def)

lemma queuedIds_filter_other:
  assumes "\<forall>kq \<in> set rs. fst kq = k \<longrightarrow> rq_stage (snd kq) \<noteq> Queued"
  shows "queuedIds (filter (\<lambda>kq. fst kq \<noteq> k) rs) = queuedIds rs"
  using assms by (induction rs) auto

lemma sorted_wrt_map_filter:
  "sorted_wrt P (map f xs) \<Longrightarrow> sorted_wrt P (map f (filter Q xs))"
  by (induction xs) auto

lemma findRequest_Some:
  assumes "conn_ok env c"
  shows "findRequest c k = Some q \<longleftrightarrow> (k, q) \<in> set (cn_requests c)"
  using assms by (simp add: conn_ok_def findRequest_def)

lemma findRequest_None: "findRequest c k = None \<longleftrightarrow> k \<notin> fst ` set (cn_requests c)"
  by (simp add: findRequest_def map_of_eq_None_iff)

lemma findRequest_id:
  assumes "conn_ok env c" and "findRequest c k = Some q"
  shows "rq_id q = k"
  using assms by (auto simp: findRequest_Some [OF assms(1)] conn_ok_def request_ok_def)

lemma conn_ok_fresh: "0 \<le> queueCapacity env \<Longrightarrow> conn_ok env (freshConnection epoch)"
  by (simp add: conn_ok_def freshConnection_def handshake_ok_def)

lemma conn_ok_failed:
  assumes "0 \<le> queueCapacity env" and "\<not> cn_draining c"
  shows "conn_ok env (c\<lparr>cn_initializationState := InitFailed, cn_initializationRequest := None,
     cn_initializationResponse := None, cn_queue := [], cn_requests := []\<rparr>)"
  using assms by (simp add: conn_ok_def handshake_ok_def)

lemma dropRequest_ok:
  assumes "conn_ok env c" and "findRequest c k = Some q"
    and "rq_kind q = Business" and "rq_stage q \<noteq> Queued"
  shows "conn_ok env (dropRequest k c)"
proof -
  have here: "(k, q) \<in> set (cn_requests c)" and dist: "distinct (map fst (cn_requests c))"
    using assms findRequest_Some by (auto simp: conn_ok_def)
  have only: "\<forall>kq \<in> set (cn_requests c). fst kq = k \<longrightarrow> kq = (k, q)"
    using here dist by (metis eq_key_imp_eq_value prod.collapse)
  have queue: "queuedIds (filter (\<lambda>kv. fst kv \<noteq> k) (cn_requests c)) = queuedIds (cn_requests c)"
    using only assms(4) by (intro queuedIds_filter_other) auto
  have init: "cn_initializationRequest c \<noteq> Some k"
    using here assms(1,3) by (auto simp: conn_ok_def request_ok_def)
  have hs: "handshake_ok (dropRequest k c)"
    using assms(1) init unfolding conn_ok_def handshake_ok_def dropRequest_def by auto
  have keys: "distinct (map fst (filter (\<lambda>kv. fst kv \<noteq> k) (cn_requests c)))"
    using dist by (simp add: distinct_map_filter)
  show ?thesis
    using assms(1) hs keys queue unfolding conn_ok_def
    by (auto simp: dropRequest_def request_ok_def intro!: sorted_wrt_map_filter)
qed

lemma setStage_simps [simp]:
  "cn_epoch (setStage k s c) = cn_epoch c"
  "cn_queue (setStage k s c) = cn_queue c"
  "cn_initializationState (setStage k s c) = cn_initializationState c"
  "cn_initializationRequest (setStage k s c) = cn_initializationRequest c"
  "cn_initializationResponse (setStage k s c) = cn_initializationResponse c"
  "cn_draining (setStage k s c) = cn_draining c"
  "cn_nextRequestSequence (setStage k s c) = cn_nextRequestSequence c"
  "cn_pendingServerRequestIds (setStage k s c) = cn_pendingServerRequestIds c"
  by (simp_all add: setStage_def)

lemma dropRequest_simps [simp]:
  "cn_epoch (dropRequest k c) = cn_epoch c"
  "cn_queue (dropRequest k c) = cn_queue c"
  "cn_initializationState (dropRequest k c) = cn_initializationState c"
  "cn_initializationRequest (dropRequest k c) = cn_initializationRequest c"
  "cn_initializationResponse (dropRequest k c) = cn_initializationResponse c"
  "cn_draining (dropRequest k c) = cn_draining c"
  "cn_nextRequestSequence (dropRequest k c) = cn_nextRequestSequence c"
  "cn_pendingServerRequestIds (dropRequest k c) = cn_pendingServerRequestIds c"
  "cn_requests (dropRequest k c) = filter (\<lambda>kv. fst kv \<noteq> k) (cn_requests c)"
  by (simp_all add: dropRequest_def)

definition restage :: "jstr \<Rightarrow> RequestStage \<Rightarrow> jstr \<times> RequestRecord \<Rightarrow> jstr \<times> RequestRecord" where
  "restage k s kq = (fst kq, if fst kq = k then (snd kq)\<lparr>rq_stage := s\<rparr> else snd kq)"

lemma setStage_requests: "cn_requests (setStage k s c) = map (restage k s) (cn_requests c)"
  by (auto simp: setStage_def restage_def)

lemma restage_simps [simp]:
  "fst (restage k s kq) = fst kq"
  "rq_kind (snd (restage k s kq)) = rq_kind (snd kq)"
  "rq_id (snd (restage k s kq)) = rq_id (snd kq)"
  "rq_seq (snd (restage k s kq)) = rq_seq (snd kq)"
  "rq_stage (snd (restage k s kq)) = (if fst kq = k then s else rq_stage (snd kq))"
  by (simp_all add: restage_def)

lemma queuedIds_restage:
  assumes "s \<noteq> Queued" and "distinct (map fst rs)"
  shows "queuedIds (map (restage k s) rs) = remove1 k (queuedIds rs)"
  using assms(2)
proof (induction rs)
  case (Cons kq rs)
  have "k \<notin> set (queuedIds rs)" if "fst kq = k"
    using Cons.prems that queuedIds_subset by fastforce
  then show ?case using Cons assms(1) by (auto simp: remove1_idem)
qed simp

subsection \<open>Moves of one connection\<close>

lemma conn_ok_queue: "conn_ok env c \<Longrightarrow> queuedIds (cn_requests c) = cn_queue c"
  by (simp add: conn_ok_def)

text \<open>The head of the queue is written, or an empty queue ends the drain loop.\<close>

lemma draining_ready: "conn_ok env c \<Longrightarrow> cn_draining c \<Longrightarrow> cn_initializationState c = Ready"
  by (auto simp: conn_ok_def handshake_ok_def)

lemma drained_ok:
  assumes "conn_ok env c" and "live env c (TDrain (cn_epoch c) # ts)" and "cn_queue c = []"
  shows "conn_ok env (c\<lparr>cn_queue := [], cn_draining := False\<rparr>)"
    and "live env (c\<lparr>cn_queue := [], cn_draining := False\<rparr>) ts"
  using assms by (auto simp: conn_ok_def handshake_ok_def request_ok_def live_def split: if_splits)

lemma stage_write_ok:
  assumes "conn_ok env c" and "cn_queue c = k # rest" and "cn_draining c"
  shows "conn_ok env (setStage k Writing (c\<lparr>cn_queue := rest\<rparr>))"
proof -
  have queue: "queuedIds (map (restage k Writing) (cn_requests c)) = rest"
    using conn_ok_queue [OF assms(1)] assms(1,2) queuedIds_restage [of Writing "cn_requests c" k]
    by (simp add: conn_ok_def)
  have ready: "cn_initializationState c = Ready"
    using draining_ready assms by blast
  have "cn_initializationRequest c = None \<and> cn_initializationResponse c = None"
    using assms(1) ready by (auto simp: conn_ok_def handshake_ok_def)
  then show ?thesis
    using assms ready queue
    by (auto simp: conn_ok_def handshake_ok_def request_ok_def setStage_requests o_def)
qed

lemma stage_write_live:
  assumes "conn_ok env c" and "live env c (TDrain (cn_epoch c) # ts)" and "cn_queue c = k # rest"
  shows "live env (setStage k Writing (c\<lparr>cn_queue := rest\<rparr>)) (TWriteRequest (cn_epoch c) k True # ts)"
proof -
  have "k \<in> set (queuedIds (cn_requests c))"
    using conn_ok_queue [OF assms(1)] assms(3) by simp
  then obtain q where q: "(k, q) \<in> set (cn_requests c)" "rq_stage q = Queued"
    by (auto simp: queuedIds_def)
  have fresh: "k \<notin> set (writeIds (cn_epoch c) ts)"
    using assms(2) q by (force simp: live_def)
  have key: "\<exists>n \<le> cn_nextRequestSequence c. k = requestId (clientInstanceId env) (cn_epoch c) n"
    using assms(1) q(1) by (force simp: conn_ok_def request_ok_def)
  have draining: "cn_draining c"
    using assms(2) by (auto simp: live_def split: if_splits)
  show ?thesis
    using assms(2) fresh key draining draining_ready [OF assms(1)]
    unfolding live_def by (auto simp: setStage_requests)
qed

text \<open>The write of a request has ended well.\<close>

lemma stage_pending_ok:
  assumes "conn_ok env c" and "findRequest c k = Some q" and "rq_stage q = Writing"
    and "rq_kind q = Initialization \<longrightarrow> cn_initializationResponse c = None"
  shows "conn_ok env (setStage k Pending c)"
proof -
  have here: "(k, q) \<in> set (cn_requests c)" and dist: "distinct (map fst (cn_requests c))"
    using assms findRequest_Some by (auto simp: conn_ok_def)
  have only: "\<And>q'. (k, q') \<in> set (cn_requests c) \<Longrightarrow> q' = q"
    using here dist eq_key_imp_eq_value by fastforce
  have "k \<notin> set (queuedIds (cn_requests c))"
    using only assms(3) by (auto simp: queuedIds_def)
  then have queue: "queuedIds (map (restage k Pending) (cn_requests c)) = queuedIds (cn_requests c)"
    using queuedIds_restage [OF _ dist, of Pending k] by (simp add: remove1_idem)
  have hs: "handshake_ok c" and reqs: "\<forall>kq \<in> set (cn_requests c). request_ok env c kq"
    using assms(1) by (simp_all add: conn_ok_def)
  have business: "rq_kind q = Business \<longrightarrow> cn_initializationState c = Ready"
    using hs here assms(3) by (force simp: handshake_ok_def)
  have "handshake_ok (setStage k Pending c)"
    unfolding handshake_ok_def setStage_simps setStage_requests
  proof (intro conjI impI allI ballI)
    fix k' assume "cn_initializationRequest c = Some k'"
    then obtain q' where "(k', q') \<in> set (cn_requests c)" "rq_stage q' \<noteq> Queued"
      using hs by (auto simp: handshake_ok_def)
    then show "\<exists>q. (k', q) \<in> set (map (restage k Pending) (cn_requests c)) \<and> rq_stage q \<noteq> Queued"
      by (intro exI [of _ "snd (restage k Pending (k', q'))"])
        (auto simp: restage_def intro: rev_image_eqI)
  next
    fix kq assume a: "cn_initializationResponse c \<noteq> None"
      and b: "kq \<in> set (map (restage k Pending) (cn_requests c))"
      and d: "rq_kind (snd kq) = Initialization"
    obtain k' q' where kq: "kq = restage k Pending (k', q')" "(k', q') \<in> set (cn_requests c)"
      using b by auto
    have "k' \<noteq> k" using only [of q'] kq d a assms(4) by (cases "rq_kind q") auto
    then show "rq_stage (snd kq) = Writing"
      using hs a d kq by (auto simp: handshake_ok_def)
  next
    fix kq assume a: "cn_initializationState c \<noteq> Ready"
      and b: "kq \<in> set (map (restage k Pending) (cn_requests c))"
      and d: "rq_kind (snd kq) = Business"
    obtain k' q' where kq: "kq = restage k Pending (k', q')" "(k', q') \<in> set (cn_requests c)"
      using b by auto
    have "k' \<noteq> k" using only [of q'] kq d a business by auto
    then show "rq_stage (snd kq) = Queued"
      using hs a d kq by (auto simp: handshake_ok_def)
  qed (use hs in \<open>auto simp: handshake_ok_def\<close>)
  then show ?thesis
    using assms(1) queue by (auto simp: conn_ok_def request_ok_def setStage_requests o_def)
qed

lemma stage_pending_live:
  assumes "live env c (TWriteRequest (cn_epoch c) k d # ts)"
  shows "live env (setStage k Pending c) (if d then TDrain (cn_epoch c) # ts else ts)"
  using assms by (cases d) (auto simp: live_def setStage_requests)

text \<open>A request leaves its connection.\<close>

lemma drop_live:
  assumes "live env c ts"
  shows "live env (dropRequest k c) ts"
  using assms by (simp add: live_def)

lemma forget_write_live:
  assumes "live env c (TWriteRequest (cn_epoch c) k d # ts)" and "k \<notin> fst ` set (cn_requests c)"
  shows "live env c (if d then TDrain (cn_epoch c) # ts else ts)"
proof -
  have "fst kq \<noteq> k" if "kq \<in> set (cn_requests c)" for kq
    using assms(2) that by auto
  then show ?thesis using assms(1) by (cases d) (simp_all add: live_def)
qed

end
