(* ===== verification/RpcStructure.thy ===== *)
theory RpcStructure
  imports RpcInvariant
begin

text \<open>Every segment of the router keeps the structural invariant.\<close>

subsection \<open>Frame rules\<close>

lemma structured_cong:
  assumes "rt_connection r' = rt_connection r" and "rt_tasks r' = rt_tasks r"
    and "rt_nextTask r' = rt_nextTask r" and "rt_epochSequence r' = rt_epochSequence r"
  shows "structured env ts r' \<longleftrightarrow> structured env ts r"
  using assms by (simp add: structured_def tasks_ok_def)

lemma structured_frame [simp]:
  "structured env ts (logEffect x r) \<longleftrightarrow> structured env ts r"
  "structured env ts (emit d r) \<longleftrightarrow> structured env ts r"
  "structured env ts (bumpCount f r) \<longleftrightarrow> structured env ts r"
  "structured env ts (rejectAll g c r) \<longleftrightarrow> structured env ts r"
  "structured env ts (registerServerRequestHandler m h r) \<longleftrightarrow> structured env ts r"
  "structured env ts (unregisterServerRequestHandler m h r) \<longleftrightarrow> structured env ts r"
  "structured env ts (subscribeNotifications h r) \<longleftrightarrow> structured env ts r"
  "structured env ts (unsubscribeNotifications h r) \<longleftrightarrow> structured env ts r"
  by (rule structured_cong;
      simp add: emit_def logEffect_def bumpCount_def rejectAll_def registerServerRequestHandler_def
        unregisterServerRequestHandler_def subscribeNotifications_def unsubscribeNotifications_def)+

text \<open>The connection is what most of these change or read.\<close>

lemma connection_frame [simp]:
  "rt_connection (logEffect x r) = rt_connection r"
  "rt_connection (emit d r) = rt_connection r"
  "rt_connection (bumpCount f r) = rt_connection r"
  "rt_connection (rejectAll g c r) = rt_connection r"
  "rt_connection (addTask t r) = rt_connection r"
  "rt_connection (setConnection c r) = Some c"
  by (simp_all add: emit_def logEffect_def bumpCount_def rejectAll_def addTask_def setConnection_def)

lemma activeConnection_frame [simp]:
  "activeConnection e (logEffect x r) = activeConnection e r"
  "activeConnection e (emit d r) = activeConnection e r"
  "activeConnection e (bumpCount f r) = activeConnection e r"
  "activeConnection e (rejectAll g c r) = activeConnection e r"
  "activeConnection e (addTask t r) = activeConnection e r"
  "activeConnection e (setConnection c r) = (if cn_epoch c = e then Some c else None)"
  by (simp_all add: activeConnection_def)

lemma activeConnection_Some:
  "activeConnection e r = Some c \<longleftrightarrow> rt_connection r = Some c \<and> cn_epoch c = e"
  by (auto simp: activeConnection_def split: option.splits)

lemma structured_active:
  assumes "structured env ts r" and "activeConnection e r = Some c"
  shows "conn_ok env c" and "live env c (ts @ map snd (rt_tasks r))" and "cn_epoch c = e"
    and "e \<le> rt_epochSequence r"
  using assms by (auto simp: structured_def activeConnection_Some)

lemma structured_addTask:
  assumes "structured env (t # ts) r"
  shows "structured env ts (addTask t r)"
proof -
  have "mset (ts @ map snd (rt_tasks (addTask t r))) = mset ((t # ts) @ map snd (rt_tasks r))"
    by (simp add: addTask_def)
  then have "live env c (ts @ map snd (rt_tasks (addTask t r))) = live env c ((t # ts) @ map snd (rt_tasks r))"
    for c by (rule live_mset)
  moreover have "tasks_ok (addTask t r)"
    using assms by (auto simp: structured_def tasks_ok_def addTask_def less_Suc_eq)
  ultimately show ?thesis
    using assms by (simp add: structured_def) (simp add: addTask_def)
qed

text \<open>A segment that is not counted in the invariant may start or end.\<close>

definition neutral :: "task \<Rightarrow> bool" where
  "neutral t \<longleftrightarrow> (\<forall>e. writeTask e t = None \<and> \<not> drainTask e t \<and> initializedTask e t = None)"

lemma neutral_simps [simp]:
  "neutral (TWriteNotification e method)"
  "neutral (TNotificationHandler e method message p)"
  "neutral (TServerHandler e rid method)"
  "neutral (TWriteServer e rid method' tracked)"
  "neutral (TCatch e rid tracked)"
  "neutral (TFinally e rid)"
  by (simp_all add: neutral_def)

lemma structured_neutral:
  assumes "neutral t"
  shows "structured env (t # ts) r \<longleftrightarrow> structured env ts r \<and> taskEpoch t \<le> rt_epochSequence r"
proof -
  have "live env c (t # us) = live env c us" for c us
    using assms by (simp add: live_def neutral_def)
  then show ?thesis by (auto simp: structured_def)
qed

lemma structured_inactive:
  assumes "structured env (t # ts) r" and "activeConnection (taskEpoch t) r = None"
  shows "structured env ts r"
proof -
  have "live env c (t # us) = live env c us" if "cn_epoch c \<noteq> taskEpoch t" for c us
    using that by (cases t) (simp_all add: live_def)
  then show ?thesis
    using assms by (auto simp: structured_def activeConnection_def split: if_splits)
qed

lemma structured_setConnection:
  assumes "structured env ts r" and "cn_epoch c \<le> rt_epochSequence r" and "conn_ok env c"
    and "live env c (ts' @ map snd (rt_tasks r))" and "\<forall>t \<in> set ts'. taskEpoch t \<le> rt_epochSequence r"
  shows "structured env ts' (setConnection c r)"
  using assms by (simp add: structured_def tasks_ok_def setConnection_def)

lemma structured_dropConnection [simp]:
  "structured env ts r \<Longrightarrow> structured env ts (dropConnection c reason r)"
  by (simp add: dropConnection_def) (simp add: structured_def tasks_ok_def)

lemma structured_terminate [simp]:
  "structured env ts r \<Longrightarrow> structured env ts (terminateConnection e reason r)"
  by (simp add: terminateConnection_def split: option.splits)

lemma structured_close: "structured env ts r \<Longrightarrow> structured env ts (snd (close e r))"
  by (simp add: close_def split: option.splits)

lemma structured_afterWrite:
  assumes "structured env (if d then TDrain e # ts else ts) r"
  shows "structured env ts (afterWrite e d r)"
  using assms by (simp add: afterWrite_def structured_addTask split: if_splits)

subsection \<open>The drain loop\<close>

lemma resumeDrain_empty:
  assumes "activeConnection e r = Some c" and "cn_queue c = []"
  shows "resumeDrain e r = setConnection (c\<lparr>cn_queue := [], cn_draining := False\<rparr>) r"
  by (simp add: resumeDrain_def assms)

lemma resumeDrain_head:
  assumes "activeConnection e r = Some c" and "cn_queue c = k # rest" and "findRequest c k = Some q"
  shows "resumeDrain e r = addTask (TWriteRequest e k True)
    (logEffect (Wrote e (WireRequest (rq_kind q) (rq_seq q) (requestMessage k (rq_method q) (rq_params q))))
      (setConnection (setStage k Writing (c\<lparr>cn_queue := rest\<rparr>)) r))"
proof -
  have "cn_epoch c = e" using assms(1) by (simp add: activeConnection_Some)
  moreover have "findRequest (c\<lparr>cn_queue := rest\<rparr>) k = Some q"
    using assms(3) by (simp add: findRequest_def)
  moreover have "setConnection d (setConnection d' r) = setConnection d r" for d d'
    by (simp add: setConnection_def)
  ultimately show ?thesis
    by (simp add: resumeDrain_def writeRequest_def assms)
qed

lemma queued_found:
  assumes "conn_ok env c" and "k \<in> set (cn_queue c)"
  obtains q where "findRequest c k = Some q" and "rq_stage q = Queued"
proof -
  have "k \<in> set (queuedIds (cn_requests c))"
    using conn_ok_queue [OF assms(1)] assms(2) by simp
  then obtain q where "(k, q) \<in> set (cn_requests c)" "rq_stage q = Queued"
    by (auto simp: queuedIds_def)
  then show thesis using that findRequest_Some [OF assms(1)] by blast
qed

lemma structured_resumeDrain:
  assumes "structured env (TDrain e # ts) r"
  shows "structured env ts (resumeDrain e r)"
proof (cases "activeConnection e r")
  case None
  then show ?thesis using structured_inactive [OF assms] by (simp add: resumeDrain_def)
next
  case (Some c)
  note a = structured_active [OF assms Some]
  have epochs: "\<forall>t \<in> set ts. taskEpoch t \<le> rt_epochSequence r"
    using assms by (simp add: structured_def)
  have live: "live env c (TDrain (cn_epoch c) # (ts @ map snd (rt_tasks r)))"
    using a(2,3) by simp
  show ?thesis
  proof (cases "cn_queue c")
    case Nil
    show ?thesis
      unfolding resumeDrain_empty [OF Some Nil]
      by (rule structured_setConnection [OF assms])
        (use a(3,4) drained_ok [OF a(1) live Nil] epochs in simp_all)
  next
    case (Cons k rest)
    obtain q where q: "findRequest c k = Some q"
      using queued_found [OF a(1), of k] Cons by auto
    have draining: "cn_draining c"
      using live by (simp add: live_def split: if_splits)
    have "structured env (TWriteRequest e k True # ts)
      (setConnection (setStage k Writing (c\<lparr>cn_queue := rest\<rparr>)) r)"
      by (rule structured_setConnection [OF assms])
        (use a(3,4) stage_write_ok [OF a(1) Cons draining] stage_write_live [OF a(1) live Cons] epochs
          in simp_all)
    then show ?thesis
      unfolding resumeDrain_head [OF Some Cons q] by (intro structured_addTask) simp
  qed
qed

subsection \<open>Settling and failing\<close>

lemma setConnection_twice [simp]: "setConnection d (setConnection d' r) = setConnection d r"
  by (simp add: setConnection_def)

lemma setConnection_log [simp]: "setConnection d (logEffect x r) = logEffect x (setConnection d r)"
  by (simp add: setConnection_def logEffect_def)

lemma structured_settle:
  assumes "structured env ts r" and "activeConnection e r = Some c"
    and "findRequest c k = Some q" and "rq_kind q = Business" and "rq_stage q \<noteq> Queued"
  shows "structured env ts (setConnection (dropRequest k c) r)"
  using structured_active [OF assms(1,2)] dropRequest_ok [OF _ assms(3-5)] drop_live assms(1)
  by (intro structured_setConnection [OF assms(1)]) (auto simp: structured_def)

lemma structured_rejectRequest:
  assumes "structured env ts r" and "activeConnection e r = Some c"
    and "findRequest c k = Some q" and "rq_kind q = Business" and "rq_stage q \<noteq> Queued"
  shows "structured env ts (rejectRequest e k reason r)"
  using structured_settle [OF assms] assms(2,3) by (simp add: rejectRequest_def)

lemma structured_resolveRequest:
  assumes "structured env ts r" and "activeConnection e r = Some c"
    and "findRequest c k = Some q" and "rq_kind q = Business" and "rq_stage q \<noteq> Queued"
  shows "structured env ts (resolveRequest e k value r)"
  using structured_settle [OF assms] assms(2,3) by (simp add: resolveRequest_def)

lemma failed_live:
  assumes "live env c ts" and "\<not> cn_draining c"
  shows "live env (c\<lparr>cn_initializationState := InitFailed, cn_initializationRequest := None,
     cn_initializationResponse := None, cn_queue := [], cn_requests := []\<rparr>) ts"
  using assms by (simp add: live_def)

text \<open>A failed handshake ends the write of \<open>initialized\<close> as well.\<close>

lemma structured_failInitialization:
  assumes "structured env ts r" and "0 \<le> queueCapacity env"
  shows "structured env ts (failInitialization e reason r)"
proof (cases "activeConnection e r")
  case None
  then show ?thesis using assms by (simp add: failInitialization_def)
next
  case (Some c)
  note a = structured_active [OF assms(1) Some]
  show ?thesis
  proof (cases "cn_initializationState c = InitFailed \<or> cn_initializationState c = Ready")
    case True
    then show ?thesis using assms Some by (auto simp: failInitialization_def)
  next
    case False
    then have "\<not> cn_draining c" using draining_ready [OF a(1)] by auto
    moreover have "structured env ts (rejectAll f c r)" for f using assms(1) by simp
    ultimately have "structured env ts (setConnection (c\<lparr>cn_initializationState := InitFailed,
        cn_initializationRequest := None, cn_initializationResponse := None, cn_queue := [],
        cn_requests := []\<rparr>) (rejectAll f c r))" for f
      using a conn_ok_failed [OF assms(2)] failed_live assms(1)
      by (intro structured_setConnection) (auto simp: rejectAll_def structured_def)
    then show ?thesis using False Some by (simp add: failInitialization_def)
  qed
qed

subsection \<open>The handshake\<close>

definition sendingInitialized :: "ActiveConnection \<Rightarrow> ActiveConnection" where
  "sendingInitialized c =
     c\<lparr>cn_initializationState := SendingInitialized, cn_initializationResponse := None\<rparr>"

lemma sendingInitialized_ok:
  assumes "conn_ok env c" and "cn_initializationState c = Initializing"
  shows "conn_ok env (sendingInitialized c)"
  using assms by (auto simp: sendingInitialized_def conn_ok_def handshake_ok_def request_ok_def)

lemma sendingInitialized_live:
  assumes "live env c ts" and "cn_initializationState c = Initializing"
    and "cn_initializationRequest c = Some k"
  shows "live env (sendingInitialized c) (TWriteInitialized (cn_epoch c) k response # ts)"
  using assms by (simp add: sendingInitialized_def live_def)

lemma completeInitialization_blocked:
  assumes "activeConnection e r = Some c"
    and "findRequest c k = None \<or> cn_initializationState c \<noteq> Initializing"
  shows "completeInitialization e k response r = r"
  using assms by (simp add: completeInitialization_def)

lemma completeInitialization_goes:
  assumes "activeConnection e r = Some c" and "findRequest c k = Some q"
    and "cn_initializationState c = Initializing"
  shows "completeInitialization e k response r = addTask (TWriteInitialized e k response)
    (logEffect (Wrote e WireInitialized) (setConnection (sendingInitialized c) r))"
  using assms by (simp add: completeInitialization_def sendingInitialized_def)

lemma initialization_request:
  assumes "conn_ok env c" and "findRequest c k = Some q"
  shows "rq_kind q = Initialization \<longleftrightarrow> cn_initializationRequest c = Some k"
  using assms findRequest_Some [OF assms(1)] by (auto simp: conn_ok_def request_ok_def)

lemma structured_completeInitialization:
  assumes "structured env ts r"
    and init: "\<And>c q. activeConnection e r = Some c \<Longrightarrow> findRequest c k = Some q
                \<Longrightarrow> rq_kind q = Initialization"
  shows "structured env ts (completeInitialization e k response r)"
proof (cases "activeConnection e r")
  case None
  then show ?thesis using assms by (simp add: completeInitialization_def)
next
  case (Some c)
  note a = structured_active [OF assms(1) Some]
  show ?thesis
  proof (cases "findRequest c k = None \<or> cn_initializationState c \<noteq> Initializing")
    case True
    show ?thesis unfolding completeInitialization_blocked [OF Some True] by (rule assms(1))
  next
    case False
    then obtain q where q: "findRequest c k = Some q" "cn_initializationState c = Initializing"
      by auto
    have k: "cn_initializationRequest c = Some k"
      using init [OF Some q(1)] initialization_request [OF a(1) q(1)] by simp
    have "structured env (TWriteInitialized e k response # ts) (setConnection (sendingInitialized c) r)"
      using sendingInitialized_ok [OF a(1) q(2)] sendingInitialized_live [OF a(2) q(2) k] a(3,4) assms(1)
      by (intro structured_setConnection [OF assms(1)])
        (auto simp: structured_def sendingInitialized_def)
    then show ?thesis
      by (simp add: completeInitialization_goes [OF Some q] structured_addTask)
  qed
qed

text \<open>\<open>initialized\<close> has been written: the connection is ready and starts to drain.\<close>

definition becomeReady :: "jstr \<Rightarrow> ActiveConnection \<Rightarrow> ActiveConnection" where
  "becomeReady k c = c\<lparr>cn_initializationState := Ready, cn_initializationRequest := None,
     cn_requests := filter (\<lambda>kv. fst kv \<noteq> k) (cn_requests c), cn_draining := True\<rparr>"

lemma becomeReady_ok:
  assumes "conn_ok env c" and "cn_initializationState c = SendingInitialized"
    and "cn_initializationRequest c = Some k"
  shows "conn_ok env (becomeReady k c)"
proof -
  obtain q where q: "(k, q) \<in> set (cn_requests c)" "rq_stage q \<noteq> Queued"
    using assms by (auto simp: conn_ok_def handshake_ok_def)
  have dist: "distinct (map fst (cn_requests c))"
    using assms(1) by (simp add: conn_ok_def)
  have "\<forall>kq \<in> set (cn_requests c). fst kq = k \<longrightarrow> rq_stage (snd kq) \<noteq> Queued"
    using q dist by (metis eq_key_imp_eq_value prod.collapse)
  then have queue: "queuedIds (filter (\<lambda>kv. fst kv \<noteq> k) (cn_requests c)) = queuedIds (cn_requests c)"
    by (rule queuedIds_filter_other)
  have other: "rq_kind (snd kq) = Business"
    if "kq \<in> set (cn_requests c)" "fst kq \<noteq> k" for kq
    using assms(1,3) that by (cases "rq_kind (snd kq)") (auto simp: conn_ok_def request_ok_def)
  show ?thesis
    using assms(1,2) queue other distinct_map_filter [OF dist]
    by (auto simp: conn_ok_def becomeReady_def handshake_ok_def request_ok_def
        intro!: sorted_wrt_map_filter)
qed

lemma becomeReady_live:
  assumes "live env c (TWriteInitialized (cn_epoch c) k response # ts)"
    and "\<not> cn_draining c"
  shows "live env (becomeReady k c) (TDrain (cn_epoch c) # ts)"
  using assms by (simp add: live_def becomeReady_def)

lemma initializedWritten_ready:
  assumes "activeConnection e r = Some c" and "findRequest c k = Some q"
    and "cn_initializationState c = SendingInitialized"
  shows "initializedWritten e k response True r =
    resumeDrain e (logEffect (Resolved k response) (setConnection (becomeReady k c) r))"
proof -
  have "cn_epoch c = e" using assms(1) by (simp add: activeConnection_Some)
  then show ?thesis
    using assms by (simp add: initializedWritten_def drainQueue_def resolveRequest_def
        becomeReady_def dropRequest_def findRequest_def)
qed

lemma initialized_current:
  assumes "live env c (TWriteInitialized (cn_epoch c) k response # ts)" and "conn_ok env c"
  shows "cn_initializationState c = Ready \<or> cn_initializationState c = InitFailed \<or>
    cn_initializationState c = SendingInitialized \<and> cn_initializationRequest c = Some k \<and>
      findRequest c k \<noteq> None"
proof (cases "cn_initializationState c = SendingInitialized")
  case True
  then have k: "cn_initializationRequest c = Some k"
    using assms(1) by (simp add: live_def)
  then obtain q where "(k, q) \<in> set (cn_requests c)"
    using assms(2) by (auto simp: conn_ok_def handshake_ok_def)
  then have "findRequest c k = Some q"
    using findRequest_Some [OF assms(2)] by simp
  then show ?thesis using True k by simp
next
  case False
  then show ?thesis
    using assms(1) by (cases "cn_initializationState c") (simp_all add: live_def)
qed

lemma forget_initialized_live:
  assumes "live env c (TWriteInitialized (cn_epoch c) k response # ts)"
    and "cn_initializationState c \<noteq> SendingInitialized"
  shows "live env c ts"
  using assms by (auto simp: live_def)

lemma structured_forget:
  assumes "structured env (t # ts) r" and "activeConnection e r = Some c"
    and "live env c (ts @ map snd (rt_tasks r))"
  shows "structured env ts r"
  using assms by (auto simp: structured_def activeConnection_Some)

lemma structured_initializedWritten:
  assumes "structured env (TWriteInitialized e k response # ts) r" and "0 \<le> queueCapacity env"
  shows "structured env ts (initializedWritten e k response ok r)"
proof (cases "activeConnection e r")
  case None
  then show ?thesis using structured_inactive [OF assms(1)] by (simp add: initializedWritten_def)
next
  case (Some c)
  note a = structured_active [OF assms(1) Some]
  have live: "live env c (TWriteInitialized (cn_epoch c) k response # (ts @ map snd (rt_tasks r)))"
    using a(2,3) by simp
  show ?thesis
  proof (cases "cn_initializationState c = SendingInitialized")
    case False
    then have "structured env ts r"
      using structured_forget [OF assms(1) Some] forget_initialized_live [OF live] by blast
    then show ?thesis using Some False by (simp add: initializedWritten_def)
  next
    case True
    then have k: "cn_initializationRequest c = Some k" "findRequest c k \<noteq> None"
      using initialized_current [OF live a(1)] by auto
    have idle: "\<not> cn_draining c" using draining_ready [OF a(1)] True by auto
    show ?thesis
    proof (cases ok)
      case ok: True
      have "structured env (TDrain e # ts) (setConnection (becomeReady k c) r)"
        using becomeReady_ok [OF a(1) True k(1)] becomeReady_live [OF live idle] a(3,4) assms(1)
        by (intro structured_setConnection [OF assms(1)]) (auto simp: structured_def becomeReady_def)
      then show ?thesis
        using ok initializedWritten_ready [OF Some _ True] k(2)
        by (auto simp: structured_resumeDrain)
    next
      case False
      define r' where "r' = setConnection (c\<lparr>cn_initializationState := InitFailed, cn_initializationRequest := None,
        cn_initializationResponse := None, cn_queue := [], cn_requests := []\<rparr>) r"
      have "structured env ts r'"
        unfolding r'_def
        using conn_ok_failed [OF assms(2) idle] failed_live [OF live idle] a(3,4) assms(1)
        by (intro structured_setConnection [OF assms(1)]) (auto simp: structured_def live_def)
      then have "structured env ts (setConnection (c\<lparr>cn_initializationState := InitFailed,
        cn_initializationRequest := None, cn_initializationResponse := None, cn_queue := [],
        cn_requests := []\<rparr>) (rejectAll f c (emit d r)))" for f d
        by (rule structured_cong [THEN iffD2, rotated -1])
          (simp_all add: r'_def setConnection_def rejectAll_def emit_def logEffect_def)
      then show ?thesis
        using False True k Some by (auto simp: initializedWritten_def failInitialization_def)
    qed
  qed
qed

subsection \<open>A request has been written\<close>

lemma writing_stage:
  assumes "live env c (TWriteRequest (cn_epoch c) k d # ts)" and "conn_ok env c"
    and "findRequest c k = Some q"
  shows "rq_stage q = Writing"
proof -
  have "(k, q) \<in> set (cn_requests c)" using findRequest_Some [OF assms(2)] assms(3) by simp
  then show ?thesis using assms(1) by (force simp: live_def)
qed

lemma stage_pending_idem: "setStage k s (c\<lparr>cn_initializationState := x, cn_initializationResponse := y\<rparr>) =
  (setStage k s c)\<lparr>cn_initializationState := x, cn_initializationResponse := y\<rparr>"
  by (simp add: setStage_def)

lemma findRequest_setStage: "findRequest (setStage k s c) k' = None \<longleftrightarrow> findRequest c k' = None"
proof -
  have "fst ` set (cn_requests (setStage k s c)) = fst ` set (cn_requests c)"
    by (force simp: setStage_requests)
  then show ?thesis by (simp add: findRequest_None)
qed

lemma structured_writeLost:
  assumes "structured env (TWriteRequest e k d # ts) r"
    and "\<And>c. activeConnection e r = Some c \<Longrightarrow> findRequest c k = None"
  shows "structured env ts (afterWrite e d r)"
proof (cases "activeConnection e r")
  case None
  have "structured env ts r" using structured_inactive [OF assms(1)] None by simp
  moreover have "live env c (TDrain e # us) = live env c us" if "cn_epoch c \<noteq> e" for c us
    using that by (simp add: live_def)
  ultimately have "structured env (if d then TDrain e # ts else ts) r"
    using None assms(1) by (auto simp: structured_def activeConnection_def split: if_splits)
  then show ?thesis by (rule structured_afterWrite)
next
  case (Some c)
  note a = structured_active [OF assms(1) Some]
  have "live env c (if d then TDrain e # (ts @ map snd (rt_tasks r)) else ts @ map snd (rt_tasks r))"
    using forget_write_live [of env c k d "ts @ map snd (rt_tasks r)"] a(2,3) assms(2) [OF Some]
    by (cases d) (simp_all add: findRequest_None)
  then have "structured env (if d then TDrain e # ts else ts) r"
    using assms(1) Some by (auto simp: structured_def activeConnection_Some)
  then show ?thesis by (rule structured_afterWrite)
qed

lemma structured_writePending:
  assumes "structured env (TWriteRequest e k d # ts) r" and "activeConnection e r = Some c"
    and "findRequest c k = Some q" and "rq_kind q = Initialization \<longrightarrow> cn_initializationResponse c = None"
  shows "structured env ts (afterWrite e d (setConnection (setStage k Pending c) r))"
proof -
  note a = structured_active [OF assms(1,2)]
  have live: "live env c (TWriteRequest (cn_epoch c) k d # (ts @ map snd (rt_tasks r)))"
    using a(2,3) by simp
  have "structured env (if d then TDrain e # ts else ts) (setConnection (setStage k Pending c) r)"
    using stage_pending_ok [OF a(1) assms(3) writing_stage [OF live a(1) assms(3)] assms(4)]
      stage_pending_live [OF live] a(3,4) assms(1)
    by (intro structured_setConnection [OF assms(1)]) (auto simp: structured_def)
  then show ?thesis by (rule structured_afterWrite)
qed

lemma structured_writeComplete:
  assumes "structured env (TWriteRequest e k d # ts) r" and "activeConnection e r = Some c"
    and "findRequest c k = Some q" and "rq_kind q = Initialization"
    and "cn_initializationResponse c = Some response"
  shows "structured env ts (afterWrite e d
    (completeInitialization e k response (setConnection (setStage k Pending c) r)))"
proof -
  note a = structured_active [OF assms(1,2)]
  have live: "live env c (TWriteRequest (cn_epoch c) k d # (ts @ map snd (rt_tasks r)))"
    using a(2,3) by simp
  have init: "cn_initializationState c = Initializing"
    using a(1) assms(5) by (simp add: conn_ok_def handshake_ok_def)
  have k: "cn_initializationRequest c = Some k"
    using initialization_request [OF a(1) assms(3)] assms(4) by simp
  let ?c = "setStage k Pending (sendingInitialized c)"
  have find: "findRequest (sendingInitialized c) k = Some q"
    using assms(3) by (simp add: findRequest_def sendingInitialized_def)
  have ok: "conn_ok env ?c"
    using stage_pending_ok [OF sendingInitialized_ok [OF a(1) init] find
        writing_stage [OF live a(1) assms(3)]]
    by (simp add: sendingInitialized_def)
  have "live env (sendingInitialized c) (TWriteInitialized e k response #
      TWriteRequest e k d # (ts @ map snd (rt_tasks r)))"
    using sendingInitialized_live [OF live init k] a(3) by simp
  then have "live env (sendingInitialized c) (TWriteRequest e k d #
      (TWriteInitialized e k response # ts @ map snd (rt_tasks r)))"
    by (rule live_mset_imp [rotated]) simp
  then have "live env ?c (if d then TDrain e # (TWriteInitialized e k response # ts @ map snd (rt_tasks r))
      else TWriteInitialized e k response # ts @ map snd (rt_tasks r))"
    using stage_pending_live [of env "sendingInitialized c" k d] a(3)
    by (cases d) (simp_all add: sendingInitialized_def)
  then have "live env ?c ((TWriteInitialized e k response # (if d then TDrain e # ts else ts)) @
      map snd (rt_tasks r))"
    by (rule live_mset_imp [rotated]) simp
  then have "structured env (TWriteInitialized e k response # (if d then TDrain e # ts else ts))
      (setConnection ?c r)"
    using ok a(3,4) assms(1)
    by (intro structured_setConnection [OF assms(1)]) (auto simp: structured_def sendingInitialized_def)
  moreover have "completeInitialization e k response (setConnection (setStage k Pending c) r) =
      addTask (TWriteInitialized e k response) (logEffect (Wrote e WireInitialized) (setConnection ?c r))"
  proof -
    obtain q' where "findRequest (setStage k Pending c) k = Some q'"
      using findRequest_setStage [of k Pending c k] assms(3) by auto
    then show ?thesis
      using a(3) init
      by (simp add: completeInitialization_goes [where c = "setStage k Pending c"]
          sendingInitialized_def stage_pending_idem)
  qed
  ultimately show ?thesis by (simp add: structured_addTask structured_afterWrite)
qed

text \<open>A failed write rejects its request, and a failed \<open>initialize\<close> ends the handshake.\<close>

lemma structured_writeFailed:
  assumes "structured env (TWriteRequest e k d # ts) r" and "activeConnection e r = Some c"
    and "findRequest c k = Some q" and "0 \<le> queueCapacity env"
  shows "structured env ts (afterWrite e d
     (if rq_kind q = Initialization then failInitialization e RpcWriteError (emit diag r)
      else rejectRequest e k RpcWriteError (emit diag r)))" (is "structured env ts (afterWrite e d ?r)")
proof (rule structured_writeLost)
  note a = structured_active [OF assms(1,2)]
  have writing: "rq_stage q = Writing"
    using writing_stage [of env c k d "ts @ map snd (rt_tasks r)" q] a assms(3) by simp
  show "structured env (TWriteRequest e k d # ts) ?r"
  proof (cases "rq_kind q")
    case Initialization
    then show ?thesis using assms(1,4) by (simp add: structured_failInitialization)
  next
    case Business
    then show ?thesis
      using structured_rejectRequest [of env "TWriteRequest e k d # ts" "emit diag r" e c k q] assms writing
      by simp
  qed
  fix c' assume c': "activeConnection e ?r = Some c'"
  show "findRequest c' k = None"
  proof (cases "rq_kind q")
    case Initialization
    then have "cn_initializationState c \<in> {Initializing, SendingInitialized}"
      using initialization_request [OF a(1) assms(3)] a(1)
      by (auto simp: conn_ok_def handshake_ok_def)
    then show ?thesis
      using c' Initialization assms(2) a(3)
      by (auto simp: failInitialization_def findRequest_def)
  next
    case Business
    then show ?thesis
      using c' assms(2,3) a(3) by (auto simp: rejectRequest_def findRequest_None)
  qed
qed

lemma structured_requestWritten:
  assumes "structured env (TWriteRequest e k d # ts) r" and "0 \<le> queueCapacity env"
  shows "structured env ts (requestWritten e k d ok r)"
proof (cases "activeConnection e r")
  case None
  then show ?thesis using structured_writeLost [OF assms(1)] by (simp add: requestWritten_def)
next
  case (Some c)
  show ?thesis
  proof (cases "findRequest c k")
    case None
    then show ?thesis using structured_writeLost [OF assms(1)] Some by (simp add: requestWritten_def)
  next
    case q: (Some q)
    show ?thesis
    proof (cases ok)
      case False
      then show ?thesis
        using structured_writeFailed [OF assms(1) Some q assms(2)] Some q
        by (simp add: requestWritten_def Let_def)
    next
      case True
      show ?thesis
      proof (cases "rq_kind q = Initialization \<and> cn_initializationResponse c \<noteq> None")
        case c: True
        then obtain response where "cn_initializationResponse c = Some response" by auto
        then show ?thesis
          using structured_writeComplete [OF assms(1) Some q] Some q True c
          by (simp add: requestWritten_def)
      next
        case False
        then show ?thesis
          using structured_writePending [OF assms(1) Some q] Some q True
          by (cases "rq_kind q"; cases "cn_initializationResponse c") (simp_all add: requestWritten_def)
      qed
    qed
  qed
qed

subsection \<open>New requests\<close>

lemma next_id_fresh:
  assumes "env_ok env" and "conn_ok env c"
  shows "requestId (clientInstanceId env) (cn_epoch c) (Suc (cn_nextRequestSequence c))
    \<notin> fst ` set (cn_requests c)"
proof
  assume "requestId (clientInstanceId env) (cn_epoch c) (Suc (cn_nextRequestSequence c)) \<in> fst ` set (cn_requests c)"
  then obtain kq where "kq \<in> set (cn_requests c)"
    "fst kq = requestId (clientInstanceId env) (cn_epoch c) (Suc (cn_nextRequestSequence c))"
    by (metis imageE)
  moreover from this have "request_ok env c kq" using assms(2) by (simp add: conn_ok_def)
  ultimately show False
    using assms(1) by (auto simp: request_ok_def env_ok_def requestId_inject)
qed

lemma next_id_unwritten:
  assumes "env_ok env" and "live env c ts"
  shows "requestId (clientInstanceId env) (cn_epoch c) (Suc (cn_nextRequestSequence c))
    \<notin> set (writeIds (cn_epoch c) ts)"
  using assms by (auto simp: live_def env_ok_def requestId_inject)

text \<open>The three ways a request enters a connection.\<close>

definition newRequest :: "router_env \<Rightarrow> ActiveConnection \<Rightarrow> RequestKind \<Rightarrow> jstr \<Rightarrow> jsval \<Rightarrow> ResultValidator
    \<Rightarrow> RequestStage \<Rightarrow> RequestRecord" where
  "newRequest env c kind method params validate stage = \<lparr>rq_kind = kind,
     rq_id = requestId (clientInstanceId env) (cn_epoch c) (Suc (cn_nextRequestSequence c)),
     rq_seq = Suc (cn_nextRequestSequence c), rq_method = method, rq_params = params, rq_stage = stage,
     rq_validateResult = validate\<rparr>"

lemma newRequest_simps [simp]:
  "rq_kind (newRequest env c kind method params validate stage) = kind"
  "rq_id (newRequest env c kind method params validate stage) =
     requestId (clientInstanceId env) (cn_epoch c) (Suc (cn_nextRequestSequence c))"
  "rq_seq (newRequest env c kind method params validate stage) = Suc (cn_nextRequestSequence c)"
  "rq_stage (newRequest env c kind method params validate stage) = stage"
  "rq_method (newRequest env c kind method params validate stage) = method"
  "rq_params (newRequest env c kind method params validate stage) = params"
  by (simp_all add: newRequest_def)

lemma createRequest_Inr:
  "createRequest env c kind method params validate stage = Inr (q, c1) \<longleftrightarrow>
     int (cn_nextRequestSequence c) < MAX_SAFE_INTEGER \<and>
     q = newRequest env c kind method params validate stage \<and>
     c1 = c\<lparr>cn_nextRequestSequence := Suc (cn_nextRequestSequence c)\<rparr>"
  by (auto simp: createRequest_def newRequest_def Let_def)

definition withRequest :: "RequestRecord \<Rightarrow> ActiveConnection \<Rightarrow> ActiveConnection" where
  "withRequest q c = addRequest q (c\<lparr>cn_nextRequestSequence := Suc (cn_nextRequestSequence c)\<rparr>)"

lemma withRequest_simps [simp]:
  "cn_epoch (withRequest q c) = cn_epoch c"
  "cn_queue (withRequest q c) = cn_queue c"
  "cn_initializationState (withRequest q c) = cn_initializationState c"
  "cn_initializationRequest (withRequest q c) = cn_initializationRequest c"
  "cn_initializationResponse (withRequest q c) = cn_initializationResponse c"
  "cn_draining (withRequest q c) = cn_draining c"
  "cn_nextRequestSequence (withRequest q c) = Suc (cn_nextRequestSequence c)"
  "cn_pendingServerRequestIds (withRequest q c) = cn_pendingServerRequestIds c"
  "cn_requests (withRequest q c) = cn_requests c @ [(rq_id q, q)]"
  by (simp_all add: withRequest_def addRequest_def)

lemma requests_below:
  assumes "conn_ok env c" and "kq \<in> set (cn_requests c)"
  shows "rq_seq (snd kq) < Suc (cn_nextRequestSequence c)" "request_ok env c kq"
  using assms by (simp_all add: conn_ok_def request_ok_def less_Suc_eq_le)

lemma business_added_ok:
  assumes "env_ok env" and "conn_ok env c"
    and q: "q = newRequest env c Business method params validate stage"
    and "stage = Writing \<and> cn_initializationState c = Ready \<and> queue = cn_queue c \<or>
      stage = Queued \<and> cn_initializationState c \<noteq> InitFailed \<and> queue = cn_queue c @ [rq_id q] \<and>
      (cn_initializationState c = Ready \<longrightarrow> cn_draining c) \<and>
      int (length (cn_queue c)) < queueCapacity env"
  shows "conn_ok env ((withRequest q c)\<lparr>cn_queue := queue\<rparr>)"
proof -
  have init: "cn_initializationRequest c \<noteq> Some (rq_id q)"
  proof
    assume "cn_initializationRequest c = Some (rq_id q)"
    then obtain q' where "(rq_id q, q') \<in> set (cn_requests c)"
      using assms(2) by (auto simp: conn_ok_def handshake_ok_def)
    then show False
      using next_id_fresh [OF assms(1,2)] by (auto simp: q intro: rev_image_eqI)
  qed
  have "sorted_wrt (<) (map (\<lambda>kq. rq_seq (snd kq)) (cn_requests c @ [(rq_id q, q)]))"
    using assms(2) requests_below(1) [OF assms(2)] by (auto simp: sorted_wrt_append conn_ok_def q)
  moreover have "\<forall>kq \<in> set (cn_requests c @ [(rq_id q, q)]).
      request_ok env ((withRequest q c)\<lparr>cn_queue := queue\<rparr>) kq"
    using requests_below(2) [OF assms(2)] init by (auto simp: request_ok_def q le_SucI)
  moreover have "handshake_ok ((withRequest q c)\<lparr>cn_queue := queue\<rparr>)"
    using assms(2,4) by (auto simp: conn_ok_def handshake_ok_def q)
  moreover have "queue = queuedIds (cn_requests c @ [(rq_id q, q)])" "int (length queue) \<le> queueCapacity env"
    using conn_ok_queue [OF assms(2)] assms(2,4) by (auto simp: q conn_ok_def)
  ultimately show ?thesis
    using assms(2) next_id_fresh [OF assms(1,2)] by (simp add: conn_ok_def q)
qed

lemma initialization_added_ok:
  assumes "env_ok env" and "conn_ok env c" and "cn_initializationState c = AwaitingInitialize"
    and q: "q = newRequest env c Initialization method params validate Writing"
  shows "conn_ok env ((withRequest q c)\<lparr>cn_initializationState := Initializing,
    cn_initializationRequest := Some (rq_id q)\<rparr>)"
proof -
  let ?c = "(withRequest q c)\<lparr>cn_initializationState := Initializing,
    cn_initializationRequest := Some (rq_id q)\<rparr>"
  have none: "cn_initializationRequest c = None" "cn_initializationResponse c = None"
    using assms(2,3) by (auto simp: conn_ok_def handshake_ok_def)
  have other: "fst kq \<noteq> rq_id q" if "kq \<in> set (cn_requests c)" for kq
    using next_id_fresh [OF assms(1,2)] that by (metis image_eqI newRequest_simps(2) q)
  have "sorted_wrt (<) (map (\<lambda>kq. rq_seq (snd kq)) (cn_requests c @ [(rq_id q, q)]))"
    using assms(2) requests_below(1) [OF assms(2)] by (auto simp: sorted_wrt_append conn_ok_def q)
  moreover have "request_ok env ?c kq" if "kq \<in> set (cn_requests c)" for kq
    using requests_below(2) [OF assms(2) that] none other [OF that]
    by (simp add: request_ok_def le_SucI)
  then have "\<forall>kq \<in> set (cn_requests c @ [(rq_id q, q)]). request_ok env ?c kq"
    by (auto simp: request_ok_def q)
  moreover have "handshake_ok ?c"
    using assms(2,3) none by (auto simp: conn_ok_def handshake_ok_def q)
  ultimately show ?thesis
    using assms(2) next_id_fresh [OF assms(1,2)] by (auto simp: conn_ok_def q)
qed

lemma queued_added_live:
  assumes "env_ok env" and "live env c ts"
    and q: "q = newRequest env c Business method params validate Queued"
  shows "live env ((withRequest q c)\<lparr>cn_queue := queue\<rparr>) ts"
proof -
  have "\<exists>n \<le> Suc (cn_nextRequestSequence c). k = requestId (clientInstanceId env) (cn_epoch c) n"
    if "k \<in> set (writeIds (cn_epoch c) ts)" for k
    using assms(2) that le_Suc_eq unfolding live_def by blast
  then show ?thesis
    using assms(2) next_id_unwritten [OF assms(1,2)] by (simp add: live_def q)
qed

lemma writing_added_live:
  assumes "env_ok env" and "conn_ok env c" and "live env c ts"
    and q: "q = newRequest env c kind method params validate Writing"
  shows "live env (withRequest q c) (TWriteRequest (cn_epoch c) (rq_id q) False # ts)"
proof -
  have "\<exists>n \<le> Suc (cn_nextRequestSequence c). k = requestId (clientInstanceId env) (cn_epoch c) n"
    if "k \<in> set (writeIds (cn_epoch c) ts)" for k
    using assms(3) that le_Suc_eq unfolding live_def by blast
  moreover have "fst kq \<noteq> rq_id q" if "kq \<in> set (cn_requests c)" for kq
    using next_id_fresh [OF assms(1,2)] that by (metis image_eqI newRequest_simps(2) q)
  ultimately show ?thesis
    using assms(3) next_id_unwritten [OF assms(1,3)] by (auto simp: live_def q)
qed

lemma setStage_same:
  assumes "\<forall>kq \<in> set (cn_requests c). fst kq = k \<longrightarrow> rq_stage (snd kq) = s"
  shows "setStage k s c = c"
proof -
  have "map (restage k s) (cn_requests c) = cn_requests c"
    using assms by (intro map_idI) (auto simp: restage_def)
  then have "cn_requests (setStage k s c) = cn_requests c" by (simp add: setStage_requests)
  then show ?thesis by (simp add: setStage_def)
qed

lemma writeRequest_goes:
  assumes "activeConnection e r = Some c" and "findRequest c k = Some q"
  shows "writeRequest e k d r = addTask (TWriteRequest e k d) (logEffect (Wrote e (WireRequest (rq_kind q) (rq_seq q)
    (requestMessage k (rq_method q) (rq_params q)))) (setConnection (setStage k Writing c) r))"
  using assms by (simp add: writeRequest_def)

end
