(* ===== verification/RpcSteps.thy ===== *)
theory RpcSteps
  imports RpcStructure
begin

text \<open>
  What each call and each incoming message comes to, in a normal form the invariants share, and the
  structural invariant for every event.
\<close>

subsection \<open>Normal forms of the calls\<close>

definition startedConnection :: "RequestRecord \<Rightarrow> ActiveConnection \<Rightarrow> ActiveConnection" where
  "startedConnection q c = (withRequest q c)\<lparr>cn_initializationState := Initializing,
     cn_initializationRequest := Some (rq_id q)\<rparr>"

lemma findRequest_appended:
  assumes "k \<notin> fst ` set rs"
  shows "map_of (rs @ [(k, q)]) k = Some q"
  using assms by (simp add: map_add_def map_of_eq_None_iff [THEN iffD2])

lemma structured_connection:
  assumes "structured env ts r" and "rt_connection r = Some c"
  shows "conn_ok env c" "live env c (ts @ map snd (rt_tasks r))" "cn_epoch c \<le> rt_epochSequence r"
  using assms by (simp_all add: structured_def)

text \<open>The state after a request has been issued and handed to the writer at once.\<close>

definition issuedWriting :: "RequestRecord \<Rightarrow> ActiveConnection \<Rightarrow> router \<Rightarrow> router" where
  "issuedWriting q c r = addTask (TWriteRequest (cn_epoch c) (rq_id q) False)
     (logEffect (Wrote (cn_epoch c) (WireRequest (rq_kind q) (rq_seq q)
        (requestMessage (rq_id q) (rq_method q) (rq_params q))))
       (logEffect (Issued (rq_id q)) (setConnection c r)))"

lemma writeRequest_issued:
  assumes "cn_requests c = rs @ [(rq_id q, q)]" and "rq_id q \<notin> fst ` set rs" and "rq_stage q = Writing"
  shows "writeRequest (cn_epoch c) (rq_id q) False (logEffect (Issued (rq_id q)) (setConnection c r)) =
    issuedWriting q c r"
proof -
  have find: "findRequest c (rq_id q) = Some q"
    using findRequest_appended [OF assms(2)] by (simp add: findRequest_def assms(1))
  have "setStage (rq_id q) Writing c = c"
    using assms by (intro setStage_same) (auto intro: rev_image_eqI)
  then show ?thesis
    using writeRequest_goes [OF _ find, of "cn_epoch c" "logEffect (Issued (rq_id q)) (setConnection c r)" False]
    by (simp add: issuedWriting_def)
qed

lemma initialize_Inr:
  assumes "initialize env params r = Inr (k, r')" and "env_ok env"
    and "structured env ts r"
  obtains c q where "rt_connection r = Some c" and "cn_initializationState c = AwaitingInitialize"
    and "q = newRequest env c Initialization (lit ''initialize'') (protectedParams params)
      (validateInitializeResponse (boundary env)) Writing"
    and "k = rq_id q" and "r' = issuedWriting q (startedConnection q c) r"
proof -
  obtain c where c: "rt_connection r = Some c"
    using assms(1) by (auto simp: initialize_def split: option.splits)
  define q where "q = newRequest env c Initialization (lit ''initialize'') (protectedParams params)
      (validateInitializeResponse (boundary env)) Writing"
  have state: "cn_initializationState c = AwaitingInitialize"
    using assms(1) c by (auto simp: initialize_def split: if_splits)
  have conn: "addRequest q (c\<lparr>cn_nextRequestSequence := Suc (cn_nextRequestSequence c),
      cn_initializationState := Initializing, cn_initializationRequest := Some (rq_id q)\<rparr>) = startedConnection q c"
    by (simp add: startedConnection_def withRequest_def addRequest_def)
  have kr: "k = rq_id q" "r' = writeRequest (cn_epoch c) (rq_id q) False
      (logEffect (Issued (rq_id q)) (setConnection (startedConnection q c) r))"
    using assms(1) c state conn
    by (auto simp: initialize_def bindE_eq_Inr createRequest_Inr q_def [symmetric] Let_def)
  have "rq_id q \<notin> fst ` set (cn_requests c)"
    using next_id_fresh [OF assms(2) structured_connection(1) [OF assms(3) c]] by (simp add: q_def)
  then have "r' = issuedWriting q (startedConnection q c) r"
    using writeRequest_issued [of "startedConnection q c" "cn_requests c" q r] kr(2)
    by (simp add: startedConnection_def q_def)
  then show thesis using that c state q_def kr(1) by blast
qed

lemma sendRequest_Inr:
  assumes "sendRequest env method params validate r = Inr (k, r')" and "env_ok env"
    and "structured env ts r"
  obtains
    (direct) c q where "rt_connection r = Some c" and "cn_initializationState c = Ready"
      and "\<not> cn_draining c"
      and "q = newRequest env c Business method params validate Writing"
      and "k = rq_id q" and "r' = issuedWriting q (withRequest q c) r"
  | (queued) c q where "rt_connection r = Some c" and "cn_initializationState c \<noteq> InitFailed"
      and "cn_initializationState c = Ready \<longrightarrow> cn_draining c"
      and "int (length (cn_queue c)) < queueCapacity env"
      and "q = newRequest env c Business method params validate Queued" and "k = rq_id q"
      and "r' = logEffect (Issued (rq_id q))
        (setConnection ((withRequest q c)\<lparr>cn_queue := cn_queue c @ [rq_id q]\<rparr>) r)"
proof -
  obtain c where c: "rt_connection r = Some c"
    using assms(1) by (auto simp: sendRequest_def split: option.splits)
  have state: "cn_initializationState c \<noteq> InitFailed"
    using assms(1) c by (auto simp: sendRequest_def split: if_splits)
  have fresh: "requestId (clientInstanceId env) (cn_epoch c) (Suc (cn_nextRequestSequence c))
      \<notin> fst ` set (cn_requests c)"
    using next_id_fresh [OF assms(2) structured_connection(1) [OF assms(3) c]] .
  show thesis
  proof (cases "cn_initializationState c \<noteq> Ready \<or> cn_draining c")
    case True
    then show thesis
      using assms(1) c state
      by (intro queued [of c "newRequest env c Business method params validate Queued"])
        (auto simp: sendRequest_def bindE_eq_Inr createRequest_Inr Let_def withRequest_def [symmetric]
          split: if_splits)
  next
    case False
    define q where "q = newRequest env c Business method params validate Writing"
    have kr: "k = rq_id q" "r' = writeRequest (cn_epoch c) (rq_id q) False
      (logEffect (Issued (rq_id q)) (setConnection (withRequest q c) r))"
      using assms(1) c state False
      by (auto simp: sendRequest_def bindE_eq_Inr createRequest_Inr Let_def withRequest_def [symmetric]
          q_def [symmetric] split: if_splits)
    have "r' = issuedWriting q (withRequest q c) r"
      using writeRequest_issued [of "withRequest q c" "cn_requests c" q r] kr(2) fresh
      by (simp add: q_def)
    then show thesis using direct c False q_def kr(1) by blast
  qed
qed

subsection \<open>The structural invariant of the calls\<close>

lemma structured_issuedWriting:
  assumes "structured env ts r" and "cn_epoch c \<le> rt_epochSequence r" and "conn_ok env c"
    and "live env c (TWriteRequest (cn_epoch c) (rq_id q) False # (ts @ map snd (rt_tasks r)))"
  shows "structured env ts (issuedWriting q c r)"
proof -
  have "structured env (TWriteRequest (cn_epoch c) (rq_id q) False # ts) (setConnection c r)"
    using assms by (intro structured_setConnection [OF assms(1)]) (auto simp: structured_def)
  then show ?thesis by (simp add: issuedWriting_def structured_addTask)
qed

lemma structured_initialize:
  assumes "structured env ts r" and "env_ok env" and "initialize env params r = Inr (k, r')"
  shows "structured env ts r'"
proof -
  obtain c q where c: "rt_connection r = Some c" "cn_initializationState c = AwaitingInitialize"
    and q: "q = newRequest env c Initialization (lit ''initialize'') (protectedParams params)
      (validateInitializeResponse (boundary env)) Writing"
    and r': "r' = issuedWriting q (startedConnection q c) r"
    using initialize_Inr [OF assms(3,2,1)] by metis
  note a = structured_connection [OF assms(1) c(1)]
  have "live env (withRequest q c) (TWriteRequest (cn_epoch c) (rq_id q) False # (ts @ map snd (rt_tasks r)))"
    by (rule writing_added_live [OF assms(2) a(1,2) q])
  then have "live env (startedConnection q c)
      (TWriteRequest (cn_epoch c) (rq_id q) False # (ts @ map snd (rt_tasks r)))"
    using c(2) by (auto simp: live_def startedConnection_def)
  then show ?thesis
    using initialization_added_ok [OF assms(2) a(1) c(2) q] a(3) unfolding r'
    by (intro structured_issuedWriting [OF assms(1)]) (simp_all add: startedConnection_def)
qed

lemma structured_sendRequest:
  assumes "structured env ts r" and "env_ok env" and "sendRequest env method params validate r = Inr (k, r')"
  shows "structured env ts r'"
proof (cases rule: sendRequest_Inr [OF assms(3,2,1), case_names direct queued])
  case (direct c q)
  note a = structured_connection [OF assms(1) direct(1)]
  have same: "(withRequest q c)\<lparr>cn_queue := cn_queue c\<rparr> = withRequest q c"
    by (simp add: withRequest_def addRequest_def)
  have "conn_ok env (withRequest q c)"
    using business_added_ok [OF assms(2) a(1) direct(4), of "cn_queue c"] direct(2)
    unfolding same by blast
  then show ?thesis
    using writing_added_live [OF assms(2) a(1,2) direct(4)] a(3) unfolding direct(6)
    by (intro structured_issuedWriting [OF assms(1)]) simp_all
next
  case (queued c q)
  note a = structured_connection [OF assms(1) queued(1)]
  have "structured env ts (setConnection ((withRequest q c)\<lparr>cn_queue := cn_queue c @ [rq_id q]\<rparr>) r)"
    using business_added_ok [OF assms(2) a(1) queued(5), of "cn_queue c @ [rq_id q]"] queued(2-4) a(3)
      queued_added_live [OF assms(2) a(2) queued(5)] assms(1)
    by (intro structured_setConnection [OF assms(1)]) (auto simp: structured_def)
  then show ?thesis by (simp add: queued(7))
qed

lemma structured_sendNotification:
  assumes "structured env ts r" and "sendNotification e method params r = Inr r'"
  shows "structured env ts r'"
proof -
  obtain c where c: "activeConnection e r = Some c"
    using assms(2) by (auto simp: sendNotification_def split: option.splits)
  have "structured env (TWriteNotification e method # ts) r"
    using assms(1) structured_active(4) [OF assms(1) c] by (simp add: structured_neutral)
  then show ?thesis
    using assms(2) c by (auto simp: sendNotification_def structured_addTask split: if_splits)
qed

lemma structured_notificationWritten:
  "structured env ts r \<Longrightarrow> structured env ts (notificationWritten e method ok r)"
  by (simp add: notificationWritten_def split: option.splits)

lemma writeIds_newer:
  assumes "\<forall>t \<in> set ts. taskEpoch t < e"
  shows "writeIds e ts = []" "drainers e ts = 0" "initIds e ts = []"
proof -
  have "writeTask e t = None \<and> \<not> drainTask e t \<and> initializedTask e t = None" if "taskEpoch t < e" for t
    using that by (cases t) auto
  then show "writeIds e ts = []" "drainers e ts = 0" "initIds e ts = []"
    using assms by (induction ts) auto
qed

lemma structured_nextConnectionEpoch:
  assumes "structured env ts r" and "nextConnectionEpoch r = Inr (e, r')"
  shows "structured env ts r'" "e = Suc (rt_epochSequence r)" "rt_epochSequence r' = e"
    "rt_tasks r' = rt_tasks r" "rt_connection r' = rt_connection r"
proof -
  have r': "e = Suc (rt_epochSequence r)" "r' = r\<lparr>rt_epochSequence := Suc (rt_epochSequence r)\<rparr>"
    using assms(2) by (auto simp: nextConnectionEpoch_def split: if_splits)
  then show "e = Suc (rt_epochSequence r)" "rt_epochSequence r' = e" "rt_tasks r' = rt_tasks r"
    "rt_connection r' = rt_connection r" by simp_all
  show "structured env ts r'"
    using assms(1) unfolding r'(2) structured_def tasks_ok_def by (simp add: le_SucI)
qed

lemma open_connection_Inr:
  assumes "open_connection r = Inr (e, r')"
  obtains r1 where "nextConnectionEpoch r = Inr (e, r1)"
    and "r' = setConnection (freshConnection e)
      (case rt_connection r of None \<Rightarrow> r1 | Some c \<Rightarrow> dropConnection c RpcConnectionClosedError r1)"
proof -
  obtain r1 where r1: "nextConnectionEpoch r = Inr (e, r1)"
    using assms by (auto simp: open_connection_def bindE_eq_Inr)
  have "rt_connection r1 = rt_connection r"
    using r1 by (auto simp: nextConnectionEpoch_def split: if_splits)
  then show thesis
    using assms r1 by (intro that [OF r1]) (auto simp: open_connection_def close_def split: option.splits)
qed

lemma structured_open:
  assumes "structured env [] r" and "env_ok env" and "open_connection r = Inr (e, r')"
  shows "structured env [] r'"
proof -
  obtain r1 where r1: "nextConnectionEpoch r = Inr (e, r1)"
    and r': "r' = setConnection (freshConnection e)
      (case rt_connection r of None \<Rightarrow> r1 | Some c \<Rightarrow> dropConnection c RpcConnectionClosedError r1)"
    using open_connection_Inr [OF assms(3)] by metis
  note n = structured_nextConnectionEpoch [OF assms(1) r1]
  define r2 where "r2 = (case rt_connection r of None \<Rightarrow> r1 | Some c \<Rightarrow> dropConnection c RpcConnectionClosedError r1)"
  have r2: "structured env [] r2" "rt_tasks r2 = rt_tasks r" "rt_epochSequence r2 = e"
    unfolding r2_def using n(1,3,4)
    by (cases "rt_connection r"; simp; simp add: dropConnection_def rejectAll_def)+
  have old: "\<forall>t \<in> set (map snd (rt_tasks r2)). taskEpoch t < e"
    using assms(1) r2(2) n(2) by (auto simp: structured_def tasks_ok_def less_Suc_eq_le)
  have "live env (freshConnection e) (map snd (rt_tasks r2))"
    using writeIds_newer [OF old] by (simp add: live_def freshConnection_def)
  moreover have "conn_ok env (freshConnection e)"
    using assms(2) by (intro conn_ok_fresh) (simp add: env_ok_def)
  ultimately show ?thesis
    unfolding r' r2_def [symmetric] using r2
    by (intro structured_setConnection [OF r2(1)]) (simp_all add: freshConnection_def)
qed

subsection \<open>Incoming responses\<close>

lemma responseRequest_cases:
  assumes "conn_ok env c"
  obtains (answered) d where "responseRequest env c message r = (None, emit d r)"
  | (counted) d f where "responseRequest env c message r = (None, emit d (bumpCount f r))"
  | (found) q where "responseRequest env c message r = (Some q, r)" and "findRequest c (rq_id q) = Some q"
      and "rq_stage q \<noteq> Queued" and "requestIdOf message = Some (IdStr (rq_id q))"
proof (cases "requestIdOf message")
  case None
  then show thesis by (intro answered) (simp add: responseRequest_def)
next
  case rid: (Some rid)
  show thesis
  proof (cases "lookupResponse c rid")
    case None
    then show thesis using rid
      by (cases "requestEpochOf (clientInstanceId env) rid"; cases "requestEpochOf (clientInstanceId env) rid = Some (cn_epoch c)")
        (auto intro!: counted simp: responseRequest_def bumpStale_def bumpUnknownResponse_def)
  next
    case (Some q)
    then obtain k where k: "rid = IdStr k" "findRequest c k = Some q"
      by (auto simp: lookupResponse_def split: RpcRequestId.splits)
    then have "rq_id q = k" using findRequest_id [OF assms] by blast
    then show thesis
      using rid Some k
      by (cases "rq_stage q = Queued") (auto intro: answered found simp: responseRequest_def)
  qed
qed

lemma unblocked:
  assumes "\<not> initializationBlocked c q" and "rq_kind q = Initialization"
  shows "cn_initializationState c = Initializing" "cn_initializationRequest c = Some (rq_id q)"
    "cn_initializationResponse c = None"
  using assms by (auto simp: initializationBlocked_def)

lemma storeResponse_ok:
  assumes "conn_ok env c" and "findRequest c (rq_id q) = Some q" and "rq_kind q = Initialization"
    and "rq_stage q = Writing" and "cn_initializationState c = Initializing"
  shows "conn_ok env (c\<lparr>cn_initializationResponse := Some value\<rparr>)"
proof -
  have "kq = (rq_id q, q)" if "kq \<in> set (cn_requests c)" "rq_kind (snd kq) = Initialization" for kq
  proof -
    obtain k q' where kq: "kq = (k, q')" by (cases kq)
    have "findRequest c k = Some q'" using findRequest_Some [OF assms(1)] that kq by simp
    moreover from this have "cn_initializationRequest c = Some k"
      using initialization_request [OF assms(1)] that kq by simp
    moreover have "cn_initializationRequest c = Some (rq_id q)"
      using initialization_request [OF assms(1,2)] assms(3) by simp
    ultimately show ?thesis using assms(2) kq by simp
  qed
  then have "\<forall>kq \<in> set (cn_requests c). rq_kind (snd kq) = Initialization \<longrightarrow> rq_stage (snd kq) = Writing"
    using assms(4) by fastforce
  then show ?thesis
    using assms(1,5) unfolding conn_ok_def handshake_ok_def by (auto simp: request_ok_def)
qed

lemma structured_failRequest:
  assumes "structured env ts r" and "0 \<le> queueCapacity env" and "activeConnection e r = Some c"
    and "findRequest c (rq_id q) = Some q" and "rq_stage q \<noteq> Queued"
  shows "structured env ts (failRequest e q reason r)"
  using assms structured_rejectRequest [OF assms(1,3,4) _ assms(5)]
  by (cases "rq_kind q") (simp_all add: failRequest_def structured_failInitialization)

lemma structured_handleSuccessResponse:
  assumes "structured env ts r" and "0 \<le> queueCapacity env" and "activeConnection e r = Some c"
  shows "structured env ts (handleSuccessResponse env c message r)"
proof -
  note a = structured_active [OF assms(1,3)]
  show ?thesis
  proof (cases rule: responseRequest_cases [OF a(1), of message r, case_names answered counted found])
    case (found q)
    consider (blocked) "initializationBlocked c q"
      | (invalid) d where "\<not> initializationBlocked c q"
          "rq_validateResult q (field message ''result'') = NotValid d"
      | (valid) v where "\<not> initializationBlocked c q"
          "rq_validateResult q (field message ''result'') = Valid v"
      by (cases "rq_validateResult q (field message ''result'')") auto
    then show ?thesis
    proof cases
      case blocked
      then show ?thesis using found(1) assms(1) by (simp add: handleSuccessResponse_def)
    next
      case (invalid d)
      then show ?thesis
        using found structured_failRequest [OF _ assms(2) _ found(2,3), of ts _ e] assms(1,3) a(3)
        by (simp add: handleSuccessResponse_def)
    next
      case (valid v)
      show ?thesis
      proof (cases "rq_kind q")
        case Business
        then show ?thesis
          using valid found(1) structured_resolveRequest [OF assms(1,3) found(2) _ found(3)] a(3)
          by (simp add: handleSuccessResponse_def)
      next
        case Initialization
        note u = unblocked [OF valid(1) Initialization]
        show ?thesis
        proof (cases "rq_stage q = Writing")
          case True
          have "structured env ts (setConnection (c\<lparr>cn_initializationResponse := Some v\<rparr>) r)"
            using storeResponse_ok [OF a(1) found(2) Initialization True u(1)] a(2-4) assms(1)
            by (intro structured_setConnection [OF assms(1)]) (auto simp: live_def structured_def)
          then show ?thesis
            using valid found(1) Initialization True by (simp add: handleSuccessResponse_def)
        next
          case False
          have "structured env ts (completeInitialization e (rq_id q) v r)"
            using found(2) assms(3) Initialization
            by (intro structured_completeInitialization [OF assms(1)]) auto
          then show ?thesis
            using valid found(1) Initialization False a(3) by (simp add: handleSuccessResponse_def)
        qed
      qed
    qed
  qed (use assms(1) in \<open>simp_all add: handleSuccessResponse_def\<close>)
qed

lemma structured_handleErrorResponse:
  assumes "structured env ts r" and "0 \<le> queueCapacity env" and "activeConnection e r = Some c"
  shows "structured env ts (handleErrorResponse env c message r)"
proof -
  note a = structured_active [OF assms(1,3)]
  show ?thesis
  proof (cases rule: responseRequest_cases [OF a(1), of message r, case_names answered counted found])
    case (found q)
    have "structured env ts (failRequest (cn_epoch c) q reason r)" for reason
      using structured_failRequest [OF assms(1,2,3) found(2,3)] a(3) by simp
    then show ?thesis
      using found(1) assms(1) by (simp add: handleErrorResponse_def split: option.split jsval.split)
  qed (use assms(1) in \<open>simp_all add: handleErrorResponse_def\<close>)
qed

subsection \<open>Incoming notifications and requests\<close>

lemma structured_addNeutral:
  assumes "structured env ts r" and "neutral t" and "taskEpoch t \<le> rt_epochSequence r"
  shows "structured env ts (addTask t r)"
  using assms by (simp add: structured_addTask structured_neutral)

lemma epoch_frame [simp]:
  "rt_epochSequence (logEffect x r) = rt_epochSequence r"
  "rt_epochSequence (emit d r) = rt_epochSequence r"
  "rt_epochSequence (bumpCount f r) = rt_epochSequence r"
  "rt_epochSequence (rejectAll g c r) = rt_epochSequence r"
  "rt_epochSequence (addTask t r) = rt_epochSequence r"
  "rt_epochSequence (setConnection c r) = rt_epochSequence r"
  "rt_epochSequence (dropConnection c reason r) = rt_epochSequence r"
  "rt_epochSequence (terminateConnection e reason r) = rt_epochSequence r"
  by (simp_all add: emit_def logEffect_def bumpCount_def rejectAll_def addTask_def setConnection_def
      dropConnection_def terminateConnection_def split: option.split)

lemma structured_notifyFrom:
  assumes "structured env ts r" and "e \<le> rt_epochSequence r"
  shows "structured env ts (notifyFrom e method message p r)"
  using assms by (auto simp: notifyFrom_def structured_addNeutral split: option.split)

lemma structured_finishServer:
  assumes "structured env ts r" and "e \<le> rt_epochSequence r"
  shows "structured env ts (finishServer e rid tracked r)"
  using assms by (simp add: finishServer_def structured_addNeutral)

lemma structured_writeServerMessage:
  assumes "structured env ts r" and "e \<le> rt_epochSequence r"
  shows "structured env ts (writeServerMessage e rid message method tracked r)"
  using assms by (simp add: writeServerMessage_def structured_finishServer structured_addNeutral
      split: option.split)

lemma structured_failInboundTask:
  "structured env ts r \<Longrightarrow> structured env ts (failInboundTask e r)"
  by (simp add: failInboundTask_def)

lemma structured_handleServerRequest:
  assumes "structured env ts r" and "e \<le> rt_epochSequence r"
  shows "structured env ts (handleServerRequest env e rid message record r)"
  using assms
  by (simp add: handleServerRequest_def writeServerError_def bumpUnknownServerRequest_def
      structured_writeServerMessage structured_addNeutral Let_def
      split: MethodValidationResult.split option.split)

lemma structured_serverHandled:
  assumes "structured env ts r" and "e \<le> rt_epochSequence r"
  shows "structured env ts (serverHandled e rid method out r)"
proof -
  have failed: "structured env ts (serverHandlerFailed e rid method code msg r)" for code msg
    using assms by (simp add: serverHandlerFailed_def writeServerError_def structured_writeServerMessage
        structured_finishServer split: option.split)
  show ?thesis
    using assms failed
    by (simp add: serverHandled_def writeServerResult_def structured_writeServerMessage
        split: outcome.split option.split)
qed

lemma structured_serverMessageWritten:
  assumes "structured env ts r" and "e \<le> rt_epochSequence r"
  shows "structured env ts (serverMessageWritten e rid method tracked out r)"
  using assms by (simp add: serverMessageWritten_def structured_finishServer structured_addNeutral
      split: option.split)

lemma pending_irrelevant [simp]:
  "conn_ok env (c\<lparr>cn_pendingServerRequestIds := ids\<rparr>) \<longleftrightarrow> conn_ok env c"
  "live env (c\<lparr>cn_pendingServerRequestIds := ids\<rparr>) ts \<longleftrightarrow> live env c ts"
  by (simp_all add: conn_ok_def handshake_ok_def request_ok_def live_def)

lemma structured_setPending:
  assumes "structured env ts r" and "activeConnection e r = Some c"
  shows "structured env ts (setConnection (c\<lparr>cn_pendingServerRequestIds := ids\<rparr>) r)"
  using structured_active [OF assms] assms(1)
  by (intro structured_setConnection [OF assms(1)]) (auto simp: structured_def)

lemma structured_serverTaskFinished:
  "structured env ts r \<Longrightarrow> structured env ts (serverTaskFinished e rid r)"
  by (simp add: serverTaskFinished_def structured_setPending split: option.split)

lemma structured_dispatchServerRequest:
  assumes "structured env ts r" and "activeConnection e r = Some c"
  shows "structured env ts (dispatchServerRequest env c message record r)"
  using assms(1) structured_setPending [OF assms] structured_active(3,4) [OF assms]
  by (auto simp: dispatchServerRequest_def Let_def writeServerError_def structured_failInboundTask
      structured_writeServerMessage structured_handleServerRequest split: option.split)

lemma structured_handleServerNotification:
  assumes "structured env ts r" and "e \<le> rt_epochSequence r"
  shows "structured env ts (handleServerNotification env e message method r)"
  using assms by (simp add: handleServerNotification_def bumpUnknownNotification_def
      structured_notifyFrom split: MethodValidationResult.split)

lemma structured_handleIncoming:
  assumes "structured env ts r" and "env_ok env"
  shows "structured env ts (handleIncoming env e value r)"
proof (cases "activeConnection e r")
  case None
  then show ?thesis using assms by (simp add: handleIncoming_def)
next
  case (Some c)
  have cap: "0 \<le> queueCapacity env" using assms(2) by (simp add: env_ok_def)
  show ?thesis
    using Some assms(1) structured_active(4) [OF assms(1) Some]
      structured_dispatchServerRequest [OF assms(1) Some]
      structured_handleSuccessResponse [OF assms(1) cap Some]
      structured_handleErrorResponse [OF assms(1) cap Some]
    by (simp add: handleIncoming_def structured_handleServerNotification
        split: ValidationResult.split option.split jsval.split)
qed

subsection \<open>Every event\<close>

lemma structured_resumed:
  assumes "structured env [] r" and "map_of (rt_tasks r) i = Some t"
  shows "structured env [t] (r\<lparr>rt_tasks := filter (\<lambda>it. fst it \<noteq> i) (rt_tasks r)\<rparr>)"
proof -
  let ?rest = "filter (\<lambda>it. fst it \<noteq> i) (rt_tasks r)"
  have tasks: "tasks_ok r" using assms(1) by (simp add: structured_def)
  have same: "mset (map snd (rt_tasks r)) = mset (t # map snd ?rest)"
    using assms(2) tasks by (intro map_of_filter_remove) (simp_all add: tasks_ok_def)
  have live: "live env c (t # map snd ?rest)" if "rt_connection r = Some c" for c
    using live_mset_imp [OF same] structured_connection(2) [OF assms(1) that] by simp
  have "(i, t) \<in> set (rt_tasks r)" using assms(2) by (rule map_of_SomeD)
  then have "taskEpoch t \<le> rt_epochSequence r" using tasks by (force simp: tasks_ok_def)
  moreover have "tasks_ok (r\<lparr>rt_tasks := ?rest\<rparr>)"
    using tasks by (simp add: tasks_ok_def distinct_map_filter)
  ultimately show ?thesis
    using live structured_connection(1,3) [OF assms(1)] unfolding structured_def by simp
qed

lemma structured_runTask:
  assumes "structured env [t] r" and "env_ok env"
  shows "structured env [] (runTask t out r)"
proof -
  have cap: "0 \<le> queueCapacity env" using assms(2) by (simp add: env_ok_def)
  have n: "structured env [] r \<and> taskEpoch t \<le> rt_epochSequence r" if "neutral t"
    using assms(1) structured_neutral [OF that] by simp
  show ?thesis
  proof (cases t)
    case (TWriteRequest e k d)
    then show ?thesis using assms(1) cap by (simp add: runTask_def structured_requestWritten)
  next
    case (TWriteInitialized e k response)
    then show ?thesis using assms(1) cap by (simp add: runTask_def structured_initializedWritten)
  next
    case (TDrain e)
    then show ?thesis using assms(1) by (simp add: runTask_def structured_resumeDrain)
  qed (use n in \<open>simp_all add: runTask_def structured_notificationWritten notificationHandled_def
      structured_notifyFrom structured_serverHandled structured_serverMessageWritten serverTaskCaught_def
      structured_finishServer structured_failInboundTask failInboundTask_def structured_serverTaskFinished\<close>)
qed

lemma structured_step:
  assumes "structured env [] r" and "env_ok env"
  shows "structured env [] (step env ev r)"
proof (cases ev)
  case Opened
  then show ?thesis using assms structured_open
    by (auto simp: step_def orUnchanged_def split: sum.split)
next
  case OtherRouterOpened
  then show ?thesis using assms(1) structured_nextConnectionEpoch(1)
    by (auto simp: step_def orUnchanged_def split: sum.split)
next
  case (Initialize params)
  then show ?thesis using assms structured_initialize
    by (auto simp: step_def orUnchanged_def split: sum.split)
next
  case (SendRequest meth params validate)
  then show ?thesis using assms structured_sendRequest
    by (auto simp: step_def orUnchanged_def split: sum.split)
next
  case (SendNotification e meth params)
  then show ?thesis using assms(1) structured_sendNotification
    by (auto simp: step_def split: sum.split)
next
  case (Resume i out)
  then show ?thesis
    using structured_runTask [OF structured_resumed [OF assms(1)] assms(2)] assms(1)
    by (simp add: step_def resume_def split: option.split)
qed (use assms in \<open>simp_all add: step_def structured_close structured_handleIncoming\<close>)

lemma structured_start: "structured env [] (newRouter n)"
  by (simp add: structured_def newRouter_def tasks_ok_def)

end
