(* ===== verification/RpcHistory.thy ===== *)
theory RpcHistory
  imports RpcSteps
begin

text \<open>
  What the history of a router says: every promise it hands out is settled exactly once, and a
  connection writes only while it is the active one.

  \<open>segment r r'\<close> relates the states before and after code that issues no request: what it
  settles leaves the pending requests, and what it writes belongs to the active connection.
\<close>

fun issuedBy :: "rpc_effect \<Rightarrow> jstr option" where
  "issuedBy (Issued k) = Some k"
| "issuedBy _ = None"

fun settledBy :: "rpc_effect \<Rightarrow> jstr option" where
  "settledBy (Resolved k v) = Some k"
| "settledBy (Rejected k reason) = Some k"
| "settledBy _ = None"

definition issuedIds :: "rpc_effect list \<Rightarrow> jstr list" where
  "issuedIds log = List.map_filter issuedBy log"

definition settledIds :: "rpc_effect list \<Rightarrow> jstr list" where
  "settledIds log = List.map_filter settledBy log"

definition pendingIds :: "router \<Rightarrow> jstr list" where
  "pendingIds r = (case rt_connection r of None \<Rightarrow> [] | Some c \<Rightarrow> map fst (cn_requests c))"

lemma issuedIds_simps [simp]:
  "issuedIds [] = []"
  "issuedIds (x # xs) = (case issuedBy x of None \<Rightarrow> issuedIds xs | Some k \<Rightarrow> k # issuedIds xs)"
  "issuedIds (xs @ ys) = issuedIds xs @ issuedIds ys"
  by (simp_all add: issuedIds_def map_filter_append List.map_filter_simps split: option.splits)

lemma settledIds_simps [simp]:
  "settledIds [] = []"
  "settledIds (x # xs) = (case settledBy x of None \<Rightarrow> settledIds xs | Some k \<Rightarrow> k # settledIds xs)"
  "settledIds (xs @ ys) = settledIds xs @ settledIds ys"
  by (simp_all add: settledIds_def map_filter_append List.map_filter_simps split: option.splits)

lemma rejections [simp]:
  "issuedIds (map (\<lambda>(k, q). Rejected k (f q)) rs) = []"
  "settledIds (map (\<lambda>(k, q). Rejected k (f q)) rs) = map fst rs"
  by (induction rs) auto

definition segment :: "router \<Rightarrow> router \<Rightarrow> bool" where
  "segment r r' \<longleftrightarrow> rt_epochSequence r' = rt_epochSequence r \<and>
     (\<exists>ws. rt_log r' = rt_log r @ ws \<and> issuedIds ws = [] \<and>
        mset (settledIds ws) + mset (pendingIds r') = mset (pendingIds r) \<and>
        (\<forall>e w. Wrote e w \<in> set ws \<longrightarrow> activeConnection e r \<noteq> None)) \<and>
     (\<forall>c'. rt_connection r' = Some c' \<longrightarrow> (\<exists>c. rt_connection r = Some c \<and>
        cn_epoch c' = cn_epoch c \<and> cn_nextRequestSequence c' = cn_nextRequestSequence c))"

lemma segmentI:
  assumes "rt_epochSequence r' = rt_epochSequence r" and "rt_log r' = rt_log r @ ws"
    and "issuedIds ws = []" and "mset (settledIds ws) + mset (pendingIds r') = mset (pendingIds r)"
    and "\<And>e w. Wrote e w \<in> set ws \<Longrightarrow> activeConnection e r \<noteq> None"
    and "\<And>c'. rt_connection r' = Some c' \<Longrightarrow> \<exists>c. rt_connection r = Some c \<and>
        cn_epoch c' = cn_epoch c \<and> cn_nextRequestSequence c' = cn_nextRequestSequence c"
  shows "segment r r'"
  using assms unfolding segment_def by blast

lemma segment_refl [simp]: "segment r r"
  by (rule segmentI [where ws = "[]"]) simp_all

lemma segment_active:
  assumes "segment r r'" and "activeConnection e r' \<noteq> None"
  shows "activeConnection e r \<noteq> None"
  using assms by (fastforce simp: segment_def activeConnection_def split: option.splits if_splits)

lemma segment_trans:
  assumes "segment r r'" and "segment r' r''"
  shows "segment r r''"
proof -
  obtain ws where ws: "rt_log r' = rt_log r @ ws" "issuedIds ws = []"
    "mset (settledIds ws) + mset (pendingIds r') = mset (pendingIds r)"
    "\<forall>e w. Wrote e w \<in> set ws \<longrightarrow> activeConnection e r \<noteq> None"
    using assms(1) unfolding segment_def by blast
  obtain us where us: "rt_log r'' = rt_log r' @ us" "issuedIds us = []"
    "mset (settledIds us) + mset (pendingIds r'') = mset (pendingIds r')"
    "\<forall>e w. Wrote e w \<in> set us \<longrightarrow> activeConnection e r' \<noteq> None"
    using assms(2) unfolding segment_def by blast
  show ?thesis
  proof (rule segmentI)
    show "rt_log r'' = rt_log r @ (ws @ us)" using ws us by simp
    show "rt_epochSequence r'' = rt_epochSequence r" using assms by (simp add: segment_def)
    show "mset (settledIds (ws @ us)) + mset (pendingIds r'') = mset (pendingIds r)"
      using ws(3) us(3) by (simp add: add.assoc)
    show "issuedIds (ws @ us) = []" using ws us by simp
    show "activeConnection e r \<noteq> None" if "Wrote e w \<in> set (ws @ us)" for e w
      using that ws(4) us(4) segment_active [OF assms(1)] by auto
    show "\<exists>c. rt_connection r = Some c \<and> cn_epoch c' = cn_epoch c \<and>
        cn_nextRequestSequence c' = cn_nextRequestSequence c" if "rt_connection r'' = Some c'" for c'
      using that assms unfolding segment_def by metis
  qed
qed

subsection \<open>Segments\<close>

text \<open>The rules have the form \<open>segment s r \<Longrightarrow> segment s (f r)\<close>, so that they chain.\<close>

named_theorems segments \<open>code that issues no request\<close>

fun silent :: "rpc_effect \<Rightarrow> bool" where
  "silent (Wrote e w) \<longleftrightarrow> False"
| "silent (Issued k) \<longleftrightarrow> False"
| "silent (Resolved k v) \<longleftrightarrow> False"
| "silent (Rejected k reason) \<longleftrightarrow> False"
| "silent _ \<longleftrightarrow> True"

lemma silent_simps: "silent x \<Longrightarrow> issuedBy x = None \<and> settledBy x = None \<and> (\<forall>e w. x \<noteq> Wrote e w)"
  by (cases x) simp_all

lemma segment_logSilent [segments]:
  assumes "segment s r" and "silent x"
  shows "segment s (logEffect x r)"
proof -
  have "segment r (logEffect x r)"
    using silent_simps [OF assms(2)]
    by (intro segmentI [where ws = "[x]"]) (auto simp: logEffect_def pendingIds_def)
  then show ?thesis using assms(1) segment_trans by blast
qed

lemma segment_emit [segments]: "segment s r \<Longrightarrow> segment s (emit d r)"
  by (simp add: emit_def segment_logSilent)

lemma segment_wrote [segments]:
  assumes "segment s r" and "activeConnection e r \<noteq> None"
  shows "segment s (logEffect (Wrote e w) r)"
proof -
  have "segment r (logEffect (Wrote e w) r)"
    using assms(2) by (intro segmentI [where ws = "[Wrote e w]"]) (auto simp: logEffect_def pendingIds_def)
  then show ?thesis using assms(1) segment_trans by blast
qed

lemma segment_same:
  assumes "segment s r" and "rt_log r' = rt_log r" and "rt_connection r' = rt_connection r"
    and "rt_epochSequence r' = rt_epochSequence r"
  shows "segment s r'"
proof -
  have "segment r r'"
    by (intro segmentI [where ws = "[]"]) (simp_all add: pendingIds_def assms(2-4))
  then show ?thesis using assms(1) segment_trans by blast
qed

lemma segment_frame [segments]:
  assumes "segment s r"
  shows "segment s (addTask t r)" "segment s (bumpCount f r)"
    "segment s (registerServerRequestHandler m h r)" "segment s (unregisterServerRequestHandler m h r)"
    "segment s (subscribeNotifications h r)" "segment s (unsubscribeNotifications h r)"
    "segment s (r\<lparr>rt_tasks := ts\<rparr>)"
  by (rule segment_same [OF assms];
      simp add: addTask_def bumpCount_def registerServerRequestHandler_def
        unregisterServerRequestHandler_def subscribeNotifications_def unsubscribeNotifications_def)+

lemma segment_setConnection:
  assumes "segment s r" and "activeConnection e r = Some c" and "cn_epoch c' = e"
    and "cn_nextRequestSequence c' = cn_nextRequestSequence c"
    and "map fst (cn_requests c') = map fst (cn_requests c)"
  shows "segment s (setConnection c' r)"
proof -
  have "segment r (setConnection c' r)"
    using assms(2-5)
    by (intro segmentI [where ws = "[]"]) (auto simp: setConnection_def pendingIds_def activeConnection_Some)
  then show ?thesis using assms(1) segment_trans by blast
qed

lemma mset_drop_key:
  assumes "distinct (map fst rs)" and "k \<in> fst ` set rs"
  shows "add_mset k (mset (map fst (filter (\<lambda>kv. fst kv \<noteq> k) rs))) = mset (map fst rs)"
  using assms
proof (induction rs)
  case (Cons kv rs)
  show ?case
  proof (cases "fst kv = k")
    case True
    then have "filter (\<lambda>kv. fst kv \<noteq> k) rs = rs"
      using Cons.prems(1) by (auto simp: filter_id_conv rev_image_eqI)
    then show ?thesis using True by simp
  next
    case False
    then show ?thesis using Cons by auto
  qed
qed simp

lemma segment_settle:
  assumes "segment s r" and "activeConnection e r = Some c" and "conn_ok env c"
    and "findRequest c k \<noteq> None" and "settledBy x = Some k"
  shows "segment s (logEffect x (setConnection (dropRequest k c) r))"
proof -
  have x: "issuedBy x = None" "\<And>e w. x \<noteq> Wrote e w" using assms(5) by (cases x; simp)+
  have "k \<in> fst ` set (cn_requests c)"
    using assms(4) findRequest_None [of c k] by simp
  then have "add_mset k (mset (map fst (filter (\<lambda>kv. fst kv \<noteq> k) (cn_requests c)))) = mset (map fst (cn_requests c))"
    using assms(3) by (intro mset_drop_key) (simp_all add: conn_ok_def)
  then have "segment r (logEffect x (setConnection (dropRequest k c) r))"
    using assms(2,5) x
    by (intro segmentI [where ws = "[x]"])
      (auto simp: logEffect_def setConnection_def pendingIds_def activeConnection_Some)
  then show ?thesis using assms(1) segment_trans by blast
qed

lemma segment_resolveRequest:
  assumes "segment s r" and "structured env ts r"
  shows "segment s (resolveRequest e k v r)"
proof (cases "activeConnection e r")
  case (Some c)
  then show ?thesis
    using segment_settle [OF assms(1) Some structured_active(1) [OF assms(2) Some]] assms(1)
    by (simp add: resolveRequest_def)
qed (use assms(1) in \<open>simp add: resolveRequest_def\<close>)

lemma segment_rejectRequest:
  assumes "segment s r" and "structured env ts r"
  shows "segment s (rejectRequest e k reason r)"
proof (cases "activeConnection e r")
  case (Some c)
  then show ?thesis
    using segment_settle [OF assms(1) Some structured_active(1) [OF assms(2) Some]] assms(1)
    by (simp add: rejectRequest_def)
qed (use assms(1) in \<open>simp add: rejectRequest_def\<close>)

lemma segment_dropConnection [segments]:
  assumes "segment s r" and "rt_connection r = Some c"
  shows "segment s (dropConnection c reason r)"
proof -
  have "segment r (dropConnection c reason r)"
    using assms(2)
    by (intro segmentI [where ws = "map (\<lambda>(rid, q). Rejected rid reason) (cn_requests c)"])
      (auto simp: dropConnection_def rejectAll_def pendingIds_def)
  then show ?thesis using assms(1) segment_trans by blast
qed

lemma segment_terminate [segments]: "segment s r \<Longrightarrow> segment s (terminateConnection e reason r)"
  by (auto simp: terminateConnection_def activeConnection_Some segments split: option.split)

lemma segment_close [segments]: "segment s r \<Longrightarrow> segment s (snd (close e r))"
  by (auto simp: close_def segments split: option.split)

lemma segment_failInitialization [segments]:
  assumes "segment s r"
  shows "segment s (failInitialization e reason r)"
proof (cases "activeConnection e r")
  case None
  then show ?thesis using assms by (simp add: failInitialization_def)
next
  case (Some c)
  let ?c = "c\<lparr>cn_initializationState := InitFailed, cn_initializationRequest := None,
    cn_initializationResponse := None, cn_queue := [], cn_requests := []\<rparr>"
  have "segment r (setConnection ?c (rejectAll f c r))" for f
    using Some
    by (intro segmentI [where ws = "map (\<lambda>(rid, q). Rejected rid (f q)) (cn_requests c)"])
      (auto simp: setConnection_def rejectAll_def pendingIds_def activeConnection_Some)
  then have "segment s (setConnection ?c (rejectAll f c r))" for f
    using assms segment_trans by blast
  then show ?thesis using assms Some by (simp add: failInitialization_def)
qed

lemma segment_failRequest:
  assumes "segment s r" and "structured env ts r"
  shows "segment s (failRequest e q reason r)"
  using assms(1) segment_rejectRequest [OF assms] by (simp add: failRequest_def segments)

lemma segment_afterWrite [segments]: "segment s r \<Longrightarrow> segment s (afterWrite e d r)"
  by (simp add: afterWrite_def segments)

lemma setStage_keys [simp]: "map fst (cn_requests (setStage k st c)) = map fst (cn_requests c)"
  by (simp add: setStage_requests)

lemma segment_resumeDrain:
  assumes "segment s r" and "\<And>c. activeConnection e r = Some c \<Longrightarrow> conn_ok env c"
  shows "segment s (resumeDrain e r)"
proof (cases "activeConnection e r")
  case None
  then show ?thesis using assms(1) by (simp add: resumeDrain_def)
next
  case (Some c)
  have e: "cn_epoch c = e" using Some by (simp add: activeConnection_Some)
  show ?thesis
  proof (cases "cn_queue c")
    case Nil
    then show ?thesis
      using segment_setConnection [OF assms(1) Some] e by (simp add: resumeDrain_empty [OF Some])
  next
    case (Cons k rest)
    obtain q where q: "findRequest c k = Some q"
      using queued_found [OF assms(2) [OF Some], of k] Cons by auto
    show ?thesis
      unfolding resumeDrain_head [OF Some Cons q]
      by (intro segments segment_setConnection [OF assms(1) Some]) (use e in simp_all)
  qed
qed

lemma segment_completeInitialization [segments]:
  assumes "segment s r"
  shows "segment s (completeInitialization e k response r)"
proof (cases "activeConnection e r")
  case None
  then show ?thesis using assms by (simp add: completeInitialization_def)
next
  case (Some c)
  have e: "cn_epoch c = e" using Some by (simp add: activeConnection_Some)
  show ?thesis
  proof (cases "findRequest c k = None \<or> cn_initializationState c \<noteq> Initializing")
    case True
    then show ?thesis using assms by (simp add: completeInitialization_blocked [OF Some])
  next
    case False
    then obtain q where q: "findRequest c k = Some q" "cn_initializationState c = Initializing" by auto
    show ?thesis
      unfolding completeInitialization_goes [OF Some q]
      by (intro segments segment_setConnection [OF assms Some])
        (use e in \<open>simp_all add: sendingInitialized_def\<close>)
  qed
qed

lemma segment_initializedWritten:
  assumes "segment s r" and "structured env (TWriteInitialized e k response # ts) r"
  shows "segment s (initializedWritten e k response ok r)"
proof (cases "activeConnection e r")
  case None
  then show ?thesis using assms by (simp add: initializedWritten_def)
next
  case (Some c)
  note a = structured_active [OF assms(2) Some]
  show ?thesis
  proof (cases "findRequest c k = None \<or> cn_initializationState c \<noteq> SendingInitialized \<or> \<not> ok")
    case True
    then show ?thesis using assms(1) Some by (auto simp: initializedWritten_def segments)
  next
    case False
    then obtain q where q: "findRequest c k = Some q" "cn_initializationState c = SendingInitialized" ok
      by auto
    have "live env c (TWriteInitialized (cn_epoch c) k response # (ts @ map snd (rt_tasks r)))"
      using a(2,3) by simp
    then have k: "cn_initializationRequest c = Some k"
      using initialized_current a(1) q(2) by fastforce
    have "mset (k # map fst (cn_requests (becomeReady k c))) = mset (map fst (cn_requests c))"
      using a(1) q(1) mset_drop_key [of "cn_requests c" k] findRequest_None [of c k]
      by (simp add: becomeReady_def conn_ok_def)
    then have "segment r (logEffect (Resolved k response) (setConnection (becomeReady k c) r))"
      using Some
      by (intro segmentI [where ws = "[Resolved k response]"])
        (auto simp: logEffect_def setConnection_def pendingIds_def activeConnection_Some becomeReady_def)
    then have "segment s (logEffect (Resolved k response) (setConnection (becomeReady k c) r))"
      using assms(1) segment_trans by blast
    then show ?thesis
      unfolding initializedWritten_ready [OF Some q(1,2)] eqTrueI [OF q(3)]
      by (rule segment_resumeDrain) (use becomeReady_ok [OF a(1) q(2) k] in \<open>simp split: if_splits\<close>)
  qed
qed

lemma segment_requestWritten:
  assumes "segment s r" and "structured env ts r"
  shows "segment s (requestWritten e k d ok r)"
proof (cases "activeConnection e r")
  case None
  then show ?thesis using assms by (simp add: requestWritten_def segments)
next
  case (Some c)
  have e: "cn_epoch c = e" using Some by (simp add: activeConnection_Some)
  have pending: "segment s (setConnection (setStage k Pending c) r)"
    by (rule segment_setConnection [OF assms(1) Some]) (use e in simp_all)
  have failed: "segment s (rejectRequest e k reason (emit diag r))" for reason diag
    using segment_rejectRequest [of s "emit diag r" env ts] assms by (simp add: segments)
  show ?thesis
    using assms(1) Some pending failed
    by (simp add: requestWritten_def segments Let_def split: option.split RequestKind.split)
qed

lemma segment_notificationWritten [segments]:
  "segment s r \<Longrightarrow> segment s (notificationWritten e method ok r)"
  by (simp add: notificationWritten_def segments split: option.split)

lemma segment_responseRequest:
  assumes "segment s r" and "responseRequest env c message r = (x, r')" and "conn_ok env c"
  shows "segment s r'"
  using assms(1,2)
  by (cases rule: responseRequest_cases [OF assms(3), of message r, case_names a b d])
    (auto simp: segments)

lemma segment_handleSuccessResponse:
  assumes "segment s r" and "structured env ts r" and "activeConnection e r = Some c"
  shows "segment s (handleSuccessResponse env c message r)"
proof -
  note a = structured_active [OF assms(2,3)]
  show ?thesis
  proof (cases rule: responseRequest_cases [OF a(1), of message r, case_names answered counted found])
    case (found q)
    have fail: "segment s (failRequest (cn_epoch c) q reason (emit d r))" for reason d
      using assms(1,2) segment_failRequest [of s "emit d r" env ts] by (simp add: segments)
    have resolve: "segment s (resolveRequest (cn_epoch c) (rq_id q) v r)" for v
      by (rule segment_resolveRequest [OF assms(1,2)])
    have store: "segment s (setConnection (c\<lparr>cn_initializationResponse := v\<rparr>) r)" for v
      by (rule segment_setConnection [OF assms(1,3)]) (use a(3) in simp_all)
    show ?thesis
      using found(1) assms(1) fail resolve store
      by (simp add: handleSuccessResponse_def segments split: ValidationResult.split)
  qed (use assms(1) in \<open>simp_all add: handleSuccessResponse_def segments\<close>)
qed

lemma segment_handleErrorResponse:
  assumes "segment s r" and "structured env ts r" and "activeConnection e r = Some c"
  shows "segment s (handleErrorResponse env c message r)"
proof -
  note a = structured_active [OF assms(2,3)]
  show ?thesis
  proof (cases rule: responseRequest_cases [OF a(1), of message r, case_names answered counted found])
    case (found q)
    have fail: "segment s (failRequest (cn_epoch c) q reason r)" for reason
      by (rule segment_failRequest [OF assms(1,2)])
    show ?thesis
      using found(1) assms(1) fail
      by (simp add: handleErrorResponse_def segments split: option.split jsval.split)
  qed (use assms(1) in \<open>simp_all add: handleErrorResponse_def segments\<close>)
qed

lemma segment_notifyFrom [segments]: "segment s r \<Longrightarrow> segment s (notifyFrom e method message p r)"
  by (auto simp: notifyFrom_def segments split: option.split)

lemma segment_finishServer [segments]: "segment s r \<Longrightarrow> segment s (finishServer e rid tracked r)"
  by (simp add: finishServer_def segments)

lemma segment_writeServerMessage [segments]:
  "segment s r \<Longrightarrow> segment s (writeServerMessage e rid message method tracked r)"
  by (simp add: writeServerMessage_def segments split: option.split)

lemma segment_failInboundTask [segments]: "segment s r \<Longrightarrow> segment s (failInboundTask e r)"
  by (simp add: failInboundTask_def segments)

lemma segment_serverHandled [segments]: "segment s r \<Longrightarrow> segment s (serverHandled e rid method out r)"
  by (simp add: serverHandled_def serverHandlerFailed_def writeServerError_def writeServerResult_def
      segments split: outcome.split option.split)

lemma segment_serverMessageWritten [segments]:
  "segment s r \<Longrightarrow> segment s (serverMessageWritten e rid method tracked out r)"
  by (simp add: serverMessageWritten_def segments split: option.split)

lemma segment_handleServerRequest [segments]:
  "segment s r \<Longrightarrow> segment s (handleServerRequest env e rid message record r)"
  by (simp add: handleServerRequest_def writeServerError_def bumpUnknownServerRequest_def segments Let_def
      split: MethodValidationResult.split option.split)

lemma segment_setPending:
  assumes "segment s r" and "activeConnection e r = Some c"
  shows "segment s (setConnection (c\<lparr>cn_pendingServerRequestIds := ids\<rparr>) r)"
  by (rule segment_setConnection [OF assms]) (use assms(2) in \<open>simp_all add: activeConnection_Some\<close>)

lemma segment_serverTaskFinished [segments]:
  "segment s r \<Longrightarrow> segment s (serverTaskFinished e rid r)"
  by (simp add: serverTaskFinished_def segment_setPending split: option.split)

lemma segment_dispatchServerRequest:
  assumes "segment s r" and "activeConnection e r = Some c"
  shows "segment s (dispatchServerRequest env c message record r)"
  using assms(1) segment_setPending [OF assms]
  by (simp add: dispatchServerRequest_def Let_def writeServerError_def segments split: option.split)

lemma segment_handleServerNotification [segments]:
  "segment s r \<Longrightarrow> segment s (handleServerNotification env e message method r)"
  by (simp add: handleServerNotification_def bumpUnknownNotification_def segments
      split: MethodValidationResult.split)

lemma segment_handleIncoming:
  assumes "segment s r" and "structured env ts r"
  shows "segment s (handleIncoming env e value r)"
proof (cases "activeConnection e r")
  case None
  then show ?thesis using assms by (simp add: handleIncoming_def segments)
next
  case (Some c)
  show ?thesis
    using Some assms(1) segment_dispatchServerRequest [OF assms(1) Some]
      segment_handleSuccessResponse [OF assms Some] segment_handleErrorResponse [OF assms Some]
    by (simp add: handleIncoming_def segments split: ValidationResult.split option.split jsval.split)
qed

lemma segment_runTask:
  assumes "structured env [t] r"
  shows "segment r (runTask t out r)"
proof (cases t)
  case (TWriteRequest e k d)
  show ?thesis using segment_requestWritten [OF segment_refl assms] by (simp add: TWriteRequest runTask_def)
next
  case (TWriteInitialized e k response)
  show ?thesis
    using segment_initializedWritten [OF segment_refl assms [unfolded TWriteInitialized]]
    by (simp add: TWriteInitialized runTask_def)
next
  case (TDrain e)
  show ?thesis
    using segment_resumeDrain [OF segment_refl structured_active(1) [OF assms]]
    by (simp add: TDrain runTask_def)
qed (simp_all add: runTask_def notificationHandled_def serverTaskCaught_def segments)

text \<open>The events that are one segment.\<close>

definition issuing :: "event \<Rightarrow> bool" where
  "issuing ev \<longleftrightarrow> (case ev of Opened \<Rightarrow> True | OtherRouterOpened \<Rightarrow> True | Initialize _ \<Rightarrow> True
     | SendRequest _ _ _ \<Rightarrow> True | _ \<Rightarrow> False)"

lemma segment_step:
  assumes "structured env [] r" and "\<not> issuing ev"
  shows "segment r (step env ev r)"
proof (cases ev)
  case (Resume i out)
  have "segment r (runTask t out (r\<lparr>rt_tasks := filter (\<lambda>it. fst it \<noteq> i) (rt_tasks r)\<rparr>))"
    if "map_of (rt_tasks r) i = Some t" for t
    using segment_runTask [OF structured_resumed [OF assms(1) that]] segment_trans
      segment_frame(7) [OF segment_refl] by blast
  then show ?thesis by (simp add: Resume step_def resume_def split: option.split)
next
  case (SendNotification e meth params)
  show ?thesis
    by (simp add: SendNotification step_def sendNotification_def segments split: sum.split option.split)
qed (use assms segment_handleIncoming [OF segment_refl assms(1)] in
    \<open>simp_all add: step_def issuing_def segments\<close>)

end
