(* ===== verification/RpcAccounting.thy ===== *)
theory RpcAccounting
  imports RpcHistory
begin

text \<open>
  Two invariants over the whole history: every issued request is settled once or still pending
  (\<open>accounted\<close>), and a connection that is not active any more never writes again.
\<close>

definition accounted :: "router_env \<Rightarrow> router \<Rightarrow> bool" where
  "accounted env r \<longleftrightarrow>
     mset (issuedIds (rt_log r)) = mset (settledIds (rt_log r)) + mset (pendingIds r) \<and>
     distinct (issuedIds (rt_log r)) \<and>
     (\<forall>k \<in> set (issuedIds (rt_log r)). \<exists>e n. k = requestId (clientInstanceId env) e n \<and>
        e \<le> rt_epochSequence r \<and>
        (\<forall>c. rt_connection r = Some c \<longrightarrow> cn_epoch c = e \<longrightarrow> n \<le> cn_nextRequestSequence c))"

lemma accounted_start: "accounted env (newRouter n)"
  by (simp add: accounted_def newRouter_def pendingIds_def)

lemma accounted_segment:
  assumes "segment r r'" and "accounted env r"
  shows "accounted env r'"
proof -
  obtain ws where ws: "rt_log r' = rt_log r @ ws" "issuedIds ws = []"
    "mset (settledIds ws) + mset (pendingIds r') = mset (pendingIds r)"
    using assms(1) unfolding segment_def by blast
  have epoch: "rt_epochSequence r' = rt_epochSequence r"
    using assms(1) by (simp add: segment_def)
  have conn: "\<exists>c. rt_connection r = Some c \<and> cn_epoch c' = cn_epoch c \<and>
      cn_nextRequestSequence c' = cn_nextRequestSequence c" if "rt_connection r' = Some c'" for c'
    using assms(1) that by (simp add: segment_def)
  have "mset (issuedIds (rt_log r')) = mset (settledIds (rt_log r')) + mset (pendingIds r')"
    using assms(2) ws by (simp add: accounted_def add.assoc)
  moreover have "\<exists>e n. k = requestId (clientInstanceId env) e n \<and> e \<le> rt_epochSequence r' \<and>
      (\<forall>c. rt_connection r' = Some c \<longrightarrow> cn_epoch c = e \<longrightarrow> n \<le> cn_nextRequestSequence c)"
    if "k \<in> set (issuedIds (rt_log r'))" for k
  proof -
    obtain e n where "k = requestId (clientInstanceId env) e n" "e \<le> rt_epochSequence r"
      "\<forall>c. rt_connection r = Some c \<longrightarrow> cn_epoch c = e \<longrightarrow> n \<le> cn_nextRequestSequence c"
      using assms(2) \<open>k \<in> _\<close> ws(1,2) by (auto simp: accounted_def)
    then show ?thesis using conn epoch by metis
  qed
  ultimately show ?thesis
    using assms(2) ws(1,2) by (simp add: accounted_def)
qed

lemma accounted_issue:
  assumes "accounted env r" and "env_ok env" and "cn_epoch c \<le> rt_epochSequence r"
    and "rt_connection r = Some c" and "rt_connection r' = Some c'"
    and "cn_epoch c' = cn_epoch c" and "cn_nextRequestSequence c' = Suc (cn_nextRequestSequence c)"
    and k: "k = requestId (clientInstanceId env) (cn_epoch c) (Suc (cn_nextRequestSequence c))"
    and "map fst (cn_requests c') = map fst (cn_requests c) @ [k]"
    and "rt_log r' = rt_log r @ ws" and "issuedIds ws = [k]" and "settledIds ws = []"
    and "rt_epochSequence r' = rt_epochSequence r"
  shows "accounted env r'"
proof -
  have fresh: "k \<notin> set (issuedIds (rt_log r))"
    using assms(1,2,4) by (auto simp: accounted_def env_ok_def requestId_inject k)
  have "\<exists>e n. k' = requestId (clientInstanceId env) e n \<and> e \<le> rt_epochSequence r' \<and>
      (\<forall>c. rt_connection r' = Some c \<longrightarrow> cn_epoch c = e \<longrightarrow> n \<le> cn_nextRequestSequence c)"
    if k': "k' \<in> set (issuedIds (rt_log r))" for k'
  proof -
    obtain e n where "k' = requestId (clientInstanceId env) e n" "e \<le> rt_epochSequence r"
      "\<forall>c. rt_connection r = Some c \<longrightarrow> cn_epoch c = e \<longrightarrow> n \<le> cn_nextRequestSequence c"
      using assms(1) k' by (auto simp: accounted_def)
    then show ?thesis using assms(4-7,13) by (intro exI [of _ e] exI [of _ n]) auto
  qed
  moreover have "\<exists>e n. k = requestId (clientInstanceId env) e n \<and> e \<le> rt_epochSequence r' \<and>
      (\<forall>c. rt_connection r' = Some c \<longrightarrow> cn_epoch c = e \<longrightarrow> n \<le> cn_nextRequestSequence c)"
    using assms(3,5-7,13) by (intro exI [of _ "cn_epoch c"] exI [of _ "Suc (cn_nextRequestSequence c)"])
      (simp add: k)
  ultimately show ?thesis
    using assms(1,4,5,9-12) fresh by (auto simp: accounted_def pendingIds_def)
qed

lemma issuedWriting_simps:
  "rt_connection (issuedWriting q c r) = Some c"
  "rt_epochSequence (issuedWriting q c r) = rt_epochSequence r"
  "rt_log (issuedWriting q c r) = rt_log r @ [Issued (rq_id q), Wrote (cn_epoch c)
     (WireRequest (rq_kind q) (rq_seq q) (requestMessage (rq_id q) (rq_method q) (rq_params q)))]"
  by (simp_all add: issuedWriting_def) (simp add: addTask_def logEffect_def setConnection_def)

lemma accounted_initialize:
  assumes "accounted env r" and "structured env [] r" and "env_ok env"
    and "initialize env params r = Inr (k, r')"
  shows "accounted env r'"
proof -
  obtain c q where c: "rt_connection r = Some c" "cn_initializationState c = AwaitingInitialize"
    and q: "q = newRequest env c Initialization (lit ''initialize'') (protectedParams params)
      (validateInitializeResponse (boundary env)) Writing"
    and r': "r' = issuedWriting q (startedConnection q c) r"
    using initialize_Inr [OF assms(4,3,2)] by metis
  show ?thesis
    by (rule accounted_issue [OF assms(1,3) structured_connection(3) [OF assms(2) c(1)] c(1),
          where c' = "startedConnection q c"])
      (simp_all add: r' issuedWriting_simps startedConnection_def q, simp_all)
qed

lemma accounted_sendRequest:
  assumes "accounted env r" and "structured env [] r" and "env_ok env"
    and "sendRequest env method params validate r = Inr (k, r')"
  shows "accounted env r'"
proof (cases rule: sendRequest_Inr [OF assms(4,3,2), case_names direct queued])
  case (direct c q)
  show ?thesis
    by (rule accounted_issue [OF assms(1,3) structured_connection(3) [OF assms(2) direct(1)] direct(1),
          where c' = "withRequest q c"])
      (simp_all add: direct(4,6) issuedWriting_simps, simp_all)
next
  case (queued c q)
  show ?thesis
    by (rule accounted_issue [OF assms(1,3) structured_connection(3) [OF assms(2) queued(1)] queued(1),
          where c' = "(withRequest q c)\<lparr>cn_queue := cn_queue c @ [rq_id q]\<rparr>"])
      (simp_all add: queued(5,7), simp_all add: logEffect_def setConnection_def, simp_all)
qed

lemma nextConnectionEpoch_fields:
  assumes "nextConnectionEpoch r = Inr (e, r')"
  shows "e = Suc (rt_epochSequence r)" "r' = r\<lparr>rt_epochSequence := Suc (rt_epochSequence r)\<rparr>"
  using assms by (auto simp: nextConnectionEpoch_def split: if_splits)

lemma open_connection_fields:
  assumes "open_connection r = Inr (e, r')"
  shows "e = Suc (rt_epochSequence r)" "rt_connection r' = Some (freshConnection e)"
    "rt_epochSequence r' = e"
    "rt_log r' = rt_log r @ (case rt_connection r of None \<Rightarrow> []
       | Some c \<Rightarrow> map (\<lambda>(k, q). Rejected k RpcConnectionClosedError) (cn_requests c))"
    "rt_tasks r' = rt_tasks r"
proof -
  obtain r1 where r1: "nextConnectionEpoch r = Inr (e, r1)"
    and r': "r' = setConnection (freshConnection e)
      (case rt_connection r of None \<Rightarrow> r1 | Some c \<Rightarrow> dropConnection c RpcConnectionClosedError r1)"
    using open_connection_Inr [OF assms] by metis
  show "e = Suc (rt_epochSequence r)" using nextConnectionEpoch_fields [OF r1] by simp
  show "rt_connection r' = Some (freshConnection e)" by (simp add: r')
  show "rt_epochSequence r' = e" "rt_tasks r' = rt_tasks r"
    "rt_log r' = rt_log r @ (case rt_connection r of None \<Rightarrow> []
       | Some c \<Rightarrow> map (\<lambda>(k, q). Rejected k RpcConnectionClosedError) (cn_requests c))"
    using nextConnectionEpoch_fields [OF r1] unfolding r'
    by (simp_all add: setConnection_def dropConnection_def rejectAll_def split: option.split)
qed

lemma accounted_open:
  assumes "accounted env r" and "open_connection r = Inr (e, r')"
  shows "accounted env r'"
proof -
  note o = open_connection_fields [OF assms(2)]
  define ws where "ws = (case rt_connection r of None \<Rightarrow> []
       | Some c \<Rightarrow> map (\<lambda>(k, q). Rejected k RpcConnectionClosedError) (cn_requests c))"
  have ws: "issuedIds ws = []" "settledIds ws = pendingIds r"
    by (simp_all add: ws_def pendingIds_def split: option.split)
  have log: "rt_log r' = rt_log r @ ws" using o(4) by (simp add: ws_def)
  have none: "pendingIds r' = []" using o(2) by (simp add: pendingIds_def freshConnection_def)
  have "\<exists>e' n. k = requestId (clientInstanceId env) e' n \<and> e' \<le> rt_epochSequence r' \<and>
      (\<forall>c. rt_connection r' = Some c \<longrightarrow> cn_epoch c = e' \<longrightarrow> n \<le> cn_nextRequestSequence c)"
    if k: "k \<in> set (issuedIds (rt_log r))" for k
  proof -
    obtain e' n where "k = requestId (clientInstanceId env) e' n" "e' \<le> rt_epochSequence r"
      using assms(1) k by (auto simp: accounted_def)
    then show ?thesis using o(1-3) by (intro exI [of _ e'] exI [of _ n]) (auto simp: freshConnection_def)
  qed
  then show ?thesis
    using assms(1) ws log none by (simp add: accounted_def)
qed

lemma accounted_step:
  assumes "accounted env r" and "structured env [] r" and "env_ok env"
  shows "accounted env (step env ev r)"
proof (cases "issuing ev")
  case False
  then show ?thesis using accounted_segment [OF segment_step [OF assms(2)] assms(1)] by simp
next
  case True
  have other: "accounted env r'" if "nextConnectionEpoch r = Inr (e, r')" for e r'
    using assms(1) nextConnectionEpoch_fields(2) [OF that]
    by (fastforce simp: accounted_def pendingIds_def intro: le_SucI)
  show ?thesis
    using True assms(1) accounted_open [OF assms(1)] other accounted_initialize [OF assms]
      accounted_sendRequest [OF assms]
    by (cases ev) (auto simp: issuing_def step_def orUnchanged_def split: sum.split)
qed

subsection \<open>Closed connections are silent\<close>

definition writesOf :: "nat \<Rightarrow> rpc_effect list \<Rightarrow> wire list" where
  "writesOf e log = List.map_filter (\<lambda>x. case x of Wrote e' w \<Rightarrow> if e' = e then Some w else None | _ \<Rightarrow> None) log"

lemma writesOf_simps [simp]:
  "writesOf e [] = []"
  "writesOf e (Wrote e' w # xs) = (if e' = e then w # writesOf e xs else writesOf e xs)"
  "(\<And>e' w. x \<noteq> Wrote e' w) \<Longrightarrow> writesOf e (x # xs) = writesOf e xs"
  "writesOf e (xs @ ys) = writesOf e xs @ writesOf e ys"
  by (auto simp: writesOf_def map_filter_append List.map_filter_simps split: rpc_effect.splits)

lemma writesOf_none: "(\<And>w. Wrote e w \<notin> set xs) \<Longrightarrow> writesOf e xs = []"
proof (induction xs)
  case (Cons x xs)
  then show ?case by (cases x) (auto simp: writesOf_def List.map_filter_simps)
qed simp

lemma writesOf_rejections [simp]: "writesOf e (map (\<lambda>(k, q). Rejected k (f q)) rs) = []"
  by (rule writesOf_none) auto

definition retired :: "nat \<Rightarrow> router \<Rightarrow> bool" where
  "retired e r \<longleftrightarrow> e \<le> rt_epochSequence r \<and> activeConnection e r = None"

lemma retired_segment:
  assumes "segment r r'" and "retired e r"
  shows "retired e r'" and "writesOf e (rt_log r') = writesOf e (rt_log r)"
proof -
  have "activeConnection e r' = None"
    using segment_active [OF assms(1), of e] assms(2) by (cases "activeConnection e r'") (auto simp: retired_def)
  then show "retired e r'" using assms by (simp add: retired_def segment_def)
  obtain ws where "rt_log r' = rt_log r @ ws" "\<forall>e w. Wrote e w \<in> set ws \<longrightarrow> activeConnection e r \<noteq> None"
    using assms(1) unfolding segment_def by blast
  moreover from this have "writesOf e ws = []"
    using assms(2) by (intro writesOf_none) (auto simp: retired_def)
  ultimately show "writesOf e (rt_log r') = writesOf e (rt_log r)" by simp
qed

lemma retired_issuedWriting:
  assumes "retired e r" and "rt_connection r = Some c" and "cn_epoch c' = cn_epoch c"
  shows "retired e (issuedWriting q c' r)"
    and "writesOf e (rt_log (issuedWriting q c' r)) = writesOf e (rt_log r)"
  using assms by (auto simp: retired_def issuedWriting_simps activeConnection_def split: if_splits)

lemma retired_step:
  assumes "retired e r" and "structured env [] r" and "env_ok env"
  shows "retired e (step env ev r) \<and> writesOf e (rt_log (step env ev r)) = writesOf e (rt_log r)"
proof (cases "issuing ev")
  case False
  then show ?thesis using retired_segment [OF segment_step [OF assms(2)] assms(1)] by simp
next
  case True
  have other: "retired e r' \<and> writesOf e (rt_log r') = writesOf e (rt_log r)"
    if "nextConnectionEpoch r = Inr (e', r')" for e' r'
    using assms(1) nextConnectionEpoch_fields(2) [OF that] by (simp add: retired_def activeConnection_def)
  have opened: "retired e r' \<and> writesOf e (rt_log r') = writesOf e (rt_log r)"
    if "open_connection r = Inr (e', r')" for e' r'
    using assms(1) open_connection_fields [OF that]
    by (auto simp: retired_def activeConnection_def freshConnection_def split: option.splits)
  have init: "retired e r' \<and> writesOf e (rt_log r') = writesOf e (rt_log r)"
    if "initialize env params r = Inr (k, r')" for params k r'
  proof -
    note i = that
    obtain c q where "rt_connection r = Some c" "r' = issuedWriting q (startedConnection q c) r"
      using initialize_Inr [OF i assms(3,2)] by metis
    then show ?thesis
      using retired_issuedWriting [OF assms(1)] by (simp add: startedConnection_def)
  qed
  have send: "retired e r' \<and> writesOf e (rt_log r') = writesOf e (rt_log r)"
    if "sendRequest env meth params validate r = Inr (k, r')" for meth params validate k r'
  proof (cases rule: sendRequest_Inr [OF that assms(3,2), case_names direct queued])
    case (direct c q)
    then show ?thesis using retired_issuedWriting [OF assms(1) direct(1)] by simp
  next
    case (queued c q)
    then show ?thesis
      using assms(1) by (auto simp: retired_def activeConnection_def logEffect_def setConnection_def)
  qed
  show ?thesis
    using True assms(1) opened other init send
    by (cases ev) (auto simp: issuing_def step_def orUnchanged_def split: sum.split)
qed

subsection \<open>All reachable states\<close>

definition sound_state :: "router_env \<Rightarrow> router \<Rightarrow> bool" where
  "sound_state env r \<longleftrightarrow> (env_ok env \<longrightarrow> structured env [] r \<and> accounted env r)"

interpretation sound: router_invariant env "sound_state env" for env
proof unfold_locales
  show "sound_state env (newRouter n)" for n
    by (simp add: sound_state_def structured_start accounted_start)
  show "sound_state env (step env ev r)" if "reachable env r" "sound_state env r" for r ev
    using that by (simp add: sound_state_def structured_step accounted_step)
qed

lemma reachable_structured: "reachable env r \<Longrightarrow> env_ok env \<Longrightarrow> structured env [] r"
  using sound.always [of env r] by (simp add: sound_state_def)

lemma reachable_accounted: "reachable env r \<Longrightarrow> env_ok env \<Longrightarrow> accounted env r"
  using sound.always [of env r] by (simp add: sound_state_def)

lemma retired_run:
  assumes "reachable env r" and "env_ok env" and "retired e r"
  shows "writesOf e (rt_log (run env evs r)) = writesOf e (rt_log r)"
  using assms(1,3)
proof (induction evs arbitrary: r)
  case (Cons ev evs)
  then show ?case
    using retired_step [OF Cons.prems(2) reachable_structured [OF Cons.prems(1) assms(2)] assms(2)]
    by (simp add: reachable.event)
qed simp

end
