(* ===== verification/RpcWire.thy ===== *)
theory RpcWire
  imports RpcAccounting
begin

text \<open>
  The order of what a connection writes: the request \<open>initialize\<close>, then the notification
  \<open>initialized\<close>, then everything else, and the requests of the application in the order they
  were issued. Responses to the server may come at any time.
\<close>

fun serverWire :: "wire \<Rightarrow> bool" where
  "serverWire (WireResult rid v) \<longleftrightarrow> True"
| "serverWire (WireError rid code msg) \<longleftrightarrow> True"
| "serverWire _ \<longleftrightarrow> False"

fun businessWire :: "wire \<Rightarrow> bool" where
  "businessWire (WireRequest Business n m) \<longleftrightarrow> True"
| "businessWire (WireNotification method m) \<longleftrightarrow> True"
| "businessWire _ \<longleftrightarrow> False"

fun handshakeFirst :: "wire list \<Rightarrow> bool" where
  "handshakeFirst [] \<longleftrightarrow> True"
| "handshakeFirst [WireRequest Initialization n m] \<longleftrightarrow> True"
| "handshakeFirst (WireRequest Initialization n m # WireInitialized # ws) \<longleftrightarrow> list_all businessWire ws"
| "handshakeFirst _ \<longleftrightarrow> False"

text \<open>The same as an automaton, one state per stage of the handshake.\<close>

fun advance :: "nat option \<Rightarrow> wire \<Rightarrow> nat option" where
  "advance None w = None"
| "advance (Some p) (WireRequest Initialization n m) = (if p = 0 then Some 1 else None)"
| "advance (Some p) WireInitialized = (if p = 1 then Some 2 else None)"
| "advance (Some p) (WireRequest Business n m) = (if p = 2 then Some 2 else None)"
| "advance (Some p) (WireNotification method m) = (if p = 2 then Some 2 else None)"
| "advance (Some p) w = Some p"

definition phase :: "wire list \<Rightarrow> nat option" where
  "phase ws = foldl advance (Some 0) ws"

lemma phase_simps [simp]: "phase [] = Some 0" "phase (ws @ [w]) = advance (phase ws) w"
  by (simp_all add: phase_def)

lemma advance_server [simp]: "serverWire w \<Longrightarrow> advance p w = p"
  by (cases p; cases w) auto

lemma advance_business: "businessWire w \<Longrightarrow> advance p w = (if p = Some 2 then Some 2 else None)"
  by (cases p; cases w rule: businessWire.cases) auto

lemma wire_cases:
  obtains "serverWire w" | "businessWire w" | n m where "w = WireRequest Initialization n m"
  | "w = WireInitialized"
  by (cases w rule: businessWire.cases) auto

text \<open>What each stage says of the messages so far, responses aside.\<close>

definition clientWires :: "wire list \<Rightarrow> wire list" where
  "clientWires ws = filter (\<lambda>w. \<not> serverWire w) ws"

definition stageOf :: "nat \<Rightarrow> wire list \<Rightarrow> bool" where
  "stageOf p us \<longleftrightarrow> p = 0 \<and> us = [] \<or> p = 1 \<and> (\<exists>n m. us = [WireRequest Initialization n m]) \<or>
     p = 2 \<and> (\<exists>n m vs. us = WireRequest Initialization n m # WireInitialized # vs \<and>
       list_all businessWire vs)"

lemma phase_stage: "phase ws = Some p \<Longrightarrow> stageOf p (clientWires ws)"
proof (induction ws arbitrary: p rule: rev_induct)
  case (snoc w ws)
  show ?case
  proof (cases w rule: wire_cases)
    case 1
    then show ?thesis using snoc by (simp add: clientWires_def)
  next
    case 2
    then have w: "phase ws = Some 2" "p = 2" "\<not> serverWire w"
      using snoc.prems by (auto simp: advance_business split: if_splits elim: businessWire.elims)
    then obtain n m vs where "clientWires ws = WireRequest Initialization n m # WireInitialized # vs"
      "list_all businessWire vs"
      using snoc.IH [of 2] by (auto simp: stageOf_def)
    then show ?thesis using w 2 by (simp add: stageOf_def clientWires_def)
  next
    case (3 n m)
    then have "phase ws = Some 0" "p = 1"
      using snoc.prems by (cases "phase ws"; auto split: if_splits)+
    then show ?thesis using snoc.IH [of 0] 3 by (auto simp: stageOf_def clientWires_def)
  next
    case 4
    then have "phase ws = Some 1" "p = 2"
      using snoc.prems by (cases "phase ws"; auto split: if_splits)+
    then show ?thesis using snoc.IH [of 1] 4 by (auto simp: stageOf_def clientWires_def)
  qed
qed (simp add: stageOf_def clientWires_def)

lemma phase_handshakeFirst: "phase ws \<noteq> None \<Longrightarrow> handshakeFirst (clientWires ws)"
  using phase_stage [of ws] by (auto simp: stageOf_def)

definition businessSeq :: "wire \<Rightarrow> nat option" where
  "businessSeq w = (case w of WireRequest Business n m \<Rightarrow> Some n | _ \<Rightarrow> None)"

definition businessSeqs :: "wire list \<Rightarrow> nat list" where
  "businessSeqs ws = List.map_filter businessSeq ws"

lemma businessSeqs_simps [simp]:
  "businessSeqs [] = []"
  "businessSeqs (w # ws) = (case businessSeq w of None \<Rightarrow> businessSeqs ws | Some n \<Rightarrow> n # businessSeqs ws)"
  "businessSeqs (ws @ us) = businessSeqs ws @ businessSeqs us"
  by (simp_all add: businessSeqs_def map_filter_append List.map_filter_simps split: option.splits)

lemma businessSeq_simps [simp]:
  "businessSeq (WireRequest Business n m) = Some n"
  "businessSeq (WireRequest Initialization n m) = None"
  "businessSeq WireInitialized = None" "businessSeq (WireNotification method m) = None"
  "serverWire w \<Longrightarrow> businessSeq w = None"
  by (simp_all add: businessSeq_def) (cases w; simp add: businessSeq_def)

definition queuedSeqs :: "ActiveConnection \<Rightarrow> nat list" where
  "queuedSeqs c = map (\<lambda>kq. rq_seq (snd kq)) (filter (\<lambda>kq. rq_stage (snd kq) = Queued) (cn_requests c))"

subsection \<open>The invariant\<close>

definition expected :: "InitializationState \<Rightarrow> nat" where
  "expected s = (case s of AwaitingInitialize \<Rightarrow> 0 | Initializing \<Rightarrow> 1 | _ \<Rightarrow> 2)"

definition inStep :: "wire list \<Rightarrow> ActiveConnection \<Rightarrow> bool" where
  "inStep ws c \<longleftrightarrow>
     (cn_initializationState c \<noteq> InitFailed \<longrightarrow> phase ws = Some (expected (cn_initializationState c))) \<and>
     sorted_wrt (<) (businessSeqs ws @ queuedSeqs c) \<and>
     (\<forall>n \<in> set (businessSeqs ws). n \<le> cn_nextRequestSequence c)"

definition wired :: "router \<Rightarrow> bool" where
  "wired r \<longleftrightarrow>
     (\<forall>e. phase (writesOf e (rt_log r)) \<noteq> None \<and>
        sorted_wrt (<) (businessSeqs (writesOf e (rt_log r)))) \<and>
     (\<forall>e > rt_epochSequence r. writesOf e (rt_log r) = []) \<and>
     (\<forall>c. rt_connection r = Some c \<longrightarrow> cn_epoch c \<le> rt_epochSequence r \<and>
        inStep (writesOf (cn_epoch c) (rt_log r)) c)"

lemma wired_start: "wired (newRouter n)"
  by (simp add: wired_def newRouter_def)

named_theorems wires \<open>code that keeps the order of the wire\<close>

lemma wired_same:
  assumes "wired r" and "\<And>e. writesOf e (rt_log r') = writesOf e (rt_log r)"
    and "rt_epochSequence r' = rt_epochSequence r"
    and "rt_connection r' = rt_connection r \<or> rt_connection r' = None"
  shows "wired r'"
  using assms by (auto simp: wired_def)

lemma wired_logOther [wires]:
  assumes "wired r" and "\<And>e w. x \<noteq> Wrote e w"
  shows "wired (logEffect x r)"
  using assms(1) by (rule wired_same) (simp_all add: assms(2) logEffect_def)

lemma wired_emit [wires]: "wired r \<Longrightarrow> wired (emit d r)"
  by (simp add: emit_def wired_logOther)

lemma wired_frame [wires]:
  assumes "wired r"
  shows "wired (addTask t r)" "wired (bumpCount f r)" "wired (rejectAll g c r)"
    "wired (registerServerRequestHandler m h r)" "wired (unregisterServerRequestHandler m h r)"
    "wired (subscribeNotifications h r)" "wired (unsubscribeNotifications h r)"
    "wired (r\<lparr>rt_tasks := ts\<rparr>)" "wired (dropConnection c reason r)"
  by (rule wired_same [OF assms];
      simp add: addTask_def bumpCount_def rejectAll_def registerServerRequestHandler_def
        unregisterServerRequestHandler_def subscribeNotifications_def unsubscribeNotifications_def
        dropConnection_def)+

lemma wired_setConnection:
  assumes "wired r" and "cn_epoch c' \<le> rt_epochSequence r"
    and "inStep (writesOf (cn_epoch c') (rt_log r)) c'"
  shows "wired (setConnection c' r)"
  using assms by (simp add: wired_def setConnection_def)

lemma wired_active:
  assumes "wired r" and "activeConnection e r = Some c"
  shows "inStep (writesOf e (rt_log r)) c" "e \<le> rt_epochSequence r" "cn_epoch c = e"
  using assms by (auto simp: wired_def activeConnection_Some)

text \<open>A client message together with the connection that results.\<close>

lemma wired_write:
  assumes "wired r" and "activeConnection e r = Some c" and "cn_epoch c' = e"
    and "inStep (writesOf e (rt_log r) @ [w]) c'"
    and "phase (writesOf e (rt_log r) @ [w]) \<noteq> None"
  shows "wired (logEffect (Wrote e w) (setConnection c' r))"
proof -
  have e: "e \<le> rt_epochSequence r" using wired_active(2) [OF assms(1,2)] .
  have "sorted_wrt (<) (businessSeqs (writesOf e (rt_log r) @ [w]))"
    using assms(4) by (simp add: inStep_def sorted_wrt_append)
  then show ?thesis
    using assms e by (auto simp: wired_def logEffect_def setConnection_def)
qed

lemma wired_serverWrite [wires]:
  assumes "wired r" and "activeConnection e r \<noteq> None" and "serverWire w"
  shows "wired (logEffect (Wrote e w) r)"
proof -
  obtain c where c: "activeConnection e r = Some c" using assms(2) by auto
  note a = wired_active [OF assms(1) c]
  have "phase (writesOf e (rt_log r)) \<noteq> None" using assms(1) by (simp add: wired_def)
  moreover have "inStep (writesOf e (rt_log r) @ [w]) c"
    using a(1) assms(3) by (simp add: inStep_def)
  ultimately have "wired (logEffect (Wrote e w) (setConnection c r))"
    using assms(3) a(3) by (intro wired_write [OF assms(1) c]) simp_all
  moreover have "setConnection c r = r" using c by (simp add: setConnection_def activeConnection_Some)
  ultimately show ?thesis by simp
qed

lemma sorted_wrt_of_subseq: "subseq xs ys \<Longrightarrow> sorted_wrt P ys \<Longrightarrow> sorted_wrt P xs"
  by (induction rule: list_emb.induct) (auto dest: list_emb_set)

lemma inStep_weaken:
  assumes "inStep ws c" and "cn_nextRequestSequence c \<le> cn_nextRequestSequence c'"
    and "cn_initializationState c' \<noteq> InitFailed \<longrightarrow> cn_initializationState c \<noteq> InitFailed \<and>
      expected (cn_initializationState c') = expected (cn_initializationState c)"
    and "subseq (queuedSeqs c') (queuedSeqs c)"
  shows "inStep ws c'"
proof -
  have "subseq (businessSeqs ws @ queuedSeqs c') (businessSeqs ws @ queuedSeqs c)"
    using assms(4) by (simp only: subseq_append')
  then have "sorted_wrt (<) (businessSeqs ws @ queuedSeqs c')"
    using assms(1) sorted_wrt_of_subseq unfolding inStep_def by blast
  then show ?thesis using assms(1-3) unfolding inStep_def by (auto intro: le_trans)
qed

lemma wired_update:
  assumes "wired r" and "activeConnection e r = Some c" and "cn_epoch c' = e"
    and "cn_nextRequestSequence c \<le> cn_nextRequestSequence c'"
    and "cn_initializationState c' \<noteq> InitFailed \<longrightarrow> cn_initializationState c \<noteq> InitFailed \<and>
      expected (cn_initializationState c') = expected (cn_initializationState c)"
    and "subseq (queuedSeqs c') (queuedSeqs c)"
  shows "wired (setConnection c' r)"
  using wired_active [OF assms(1,2)] inStep_weaken [OF _ assms(4-6)] assms(3)
  by (intro wired_setConnection [OF assms(1)]) simp_all

subsection \<open>Segments\<close>

lemma subseq_filter_imp:
  "(\<And>x. P x \<Longrightarrow> Q x) \<Longrightarrow> subseq (map f (filter P xs)) (map f (filter Q xs))"
  by (induction xs) auto

lemma queuedSeqs_drop: "subseq (queuedSeqs (dropRequest k c)) (queuedSeqs c)"
  by (auto simp: queuedSeqs_def intro!: subseq_filter_imp)

lemma queuedSeqs_same:
  "cn_requests c' = cn_requests c \<Longrightarrow> queuedSeqs c' = queuedSeqs c"
  by (simp add: queuedSeqs_def)

lemma wired_rejectRequest [wires]:
  assumes "wired r"
  shows "wired (rejectRequest e k reason r)"
proof (cases "activeConnection e r")
  case (Some c)
  have "wired (setConnection (dropRequest k c) r)"
    using Some by (intro wired_update [OF assms Some]) (simp_all add: queuedSeqs_drop activeConnection_Some)
  then show ?thesis using assms Some by (simp add: rejectRequest_def wires)
qed (use assms in \<open>simp add: rejectRequest_def\<close>)

lemma wired_resolveRequest [wires]:
  assumes "wired r"
  shows "wired (resolveRequest e k v r)"
proof (cases "activeConnection e r")
  case (Some c)
  have "wired (setConnection (dropRequest k c) r)"
    using Some by (intro wired_update [OF assms Some]) (simp_all add: queuedSeqs_drop activeConnection_Some)
  then show ?thesis using assms Some by (simp add: resolveRequest_def wires)
qed (use assms in \<open>simp add: resolveRequest_def\<close>)

lemma wired_failInitialization [wires]:
  assumes "wired r"
  shows "wired (failInitialization e reason r)"
proof (cases "activeConnection e r")
  case (Some c)
  have "wired (setConnection (c\<lparr>cn_initializationState := InitFailed, cn_initializationRequest := None,
    cn_initializationResponse := None, cn_queue := [], cn_requests := []\<rparr>) (rejectAll f c r))" for f
    using Some assms
    by (intro wired_update [where c = c and e = e]) (simp_all add: wires queuedSeqs_def activeConnection_Some)
  then show ?thesis using assms Some by (simp add: failInitialization_def)
qed (use assms in \<open>simp add: failInitialization_def\<close>)

lemma wired_failRequest [wires]: "wired r \<Longrightarrow> wired (failRequest e q reason r)"
  by (simp add: failRequest_def wires)

lemma wired_terminate [wires]: "wired r \<Longrightarrow> wired (terminateConnection e reason r)"
  by (simp add: terminateConnection_def wires split: option.split)

lemma wired_close [wires]: "wired r \<Longrightarrow> wired (snd (close e r))"
  by (simp add: close_def wires split: option.split)

lemma wired_afterWrite [wires]: "wired r \<Longrightarrow> wired (afterWrite e d r)"
  by (simp add: afterWrite_def wires)

lemma wired_completeInitialization [wires]:
  assumes "wired r"
  shows "wired (completeInitialization e k response r)"
proof (cases "activeConnection e r")
  case None
  then show ?thesis using assms by (simp add: completeInitialization_def)
next
  case (Some c)
  note a = wired_active [OF assms Some]
  show ?thesis
  proof (cases "findRequest c k = None \<or> cn_initializationState c \<noteq> Initializing")
    case True
    then show ?thesis using assms by (simp add: completeInitialization_blocked [OF Some])
  next
    case False
    then obtain q where q: "findRequest c k = Some q" "cn_initializationState c = Initializing" by auto
    have "phase (writesOf e (rt_log r)) = Some 1"
      using a(1) q(2) by (simp add: inStep_def expected_def)
    then have "inStep (writesOf e (rt_log r) @ [WireInitialized]) (sendingInitialized c)"
      using a(1) by (simp add: inStep_def sendingInitialized_def expected_def
          queuedSeqs_same [of "c\<lparr>cn_initializationState := SendingInitialized, cn_initializationResponse := None\<rparr>" c])
    then have "wired (logEffect (Wrote e WireInitialized) (setConnection (sendingInitialized c) r))"
      using a(3) \<open>phase _ = _\<close> by (intro wired_write [OF assms Some]) (simp_all add: sendingInitialized_def)
    then show ?thesis
      unfolding completeInitialization_goes [OF Some q] by (rule wires)
  qed
qed

text \<open>The head of the queue is the oldest queued request.\<close>

lemma queuedSeqs_head:
  assumes "distinct (map fst rs)" and "queuedIds rs = k # rest" and "(k, q) \<in> set rs"
  shows "map (\<lambda>kq. rq_seq (snd kq)) (filter (\<lambda>kq. rq_stage (snd kq) = Queued) rs) =
    rq_seq q # map (\<lambda>kq. rq_seq (snd kq))
      (filter (\<lambda>kq. rq_stage (snd kq) = Queued) (map (restage k Writing) rs))"
  using assms
proof (induction rs)
  case (Cons kq rs)
  show ?case
  proof (cases "rq_stage (snd kq) = Queued")
    case True
    then have k: "fst kq = k" using Cons.prems(2) by simp
    then have q: "kq = (k, q)" using Cons.prems(1,3) by (auto intro: rev_image_eqI)
    have "map (restage k Writing) rs = rs"
      using Cons.prems(1) k by (intro map_idI) (auto simp: restage_def intro: rev_image_eqI)
    then show ?thesis using True q by simp
  next
    case False
    then have "queuedIds rs = k # rest" using Cons.prems(2) by simp
    moreover from this have "k \<in> fst ` set rs" using queuedIds_subset [of rs] by auto
    moreover from this have "fst kq \<noteq> k" using Cons.prems(1) by auto
    ultimately show ?thesis using Cons False by auto
  qed
qed simp

lemma wired_resumeDrain:
  assumes "wired r" and c_ok: "\<And>c. activeConnection e r = Some c \<Longrightarrow> conn_ok env c \<and> cn_draining c"
  shows "wired (resumeDrain e r)"
proof (cases "activeConnection e r")
  case None
  then show ?thesis using assms(1) by (simp add: resumeDrain_def)
next
  case (Some c)
  note a = wired_active [OF assms(1) Some]
  have ok: "conn_ok env c" "cn_draining c" using c_ok [OF Some] by simp_all
  have ready: "cn_initializationState c = Ready" using draining_ready ok by blast
  show ?thesis
  proof (cases "cn_queue c")
    case Nil
    show ?thesis
      unfolding resumeDrain_empty [OF Some Nil] using a(3)
      by (intro wired_update [OF assms(1) Some]) (simp_all add: ready queuedSeqs_def)
  next
    case (Cons k rest)
    obtain q where q: "findRequest c k = Some q" using queued_found [OF ok(1), of k] Cons by auto
    let ?c = "setStage k Writing (c\<lparr>cn_queue := rest\<rparr>)"
    let ?w = "WireRequest (rq_kind q) (rq_seq q) (requestMessage k (rq_method q) (rq_params q))"
    have here: "(k, q) \<in> set (cn_requests c)" using findRequest_Some [OF ok(1)] q by simp
    have head: "queuedSeqs c = rq_seq q # queuedSeqs ?c"
      using queuedSeqs_head [OF _ _ here, of rest] ok(1) Cons
      by (simp add: queuedSeqs_def conn_ok_def setStage_requests)
    have "cn_initializationRequest c = None" using ok(1) ready by (auto simp: conn_ok_def handshake_ok_def)
    then have kind: "rq_kind q = Business"
      using initialization_request [OF ok(1) q] by (cases "rq_kind q") auto
    have seq: "rq_seq q \<le> cn_nextRequestSequence c"
      using requests_below(1) [OF ok(1) here] by simp
    have two: "phase (writesOf e (rt_log r)) = Some 2"
      using a(1) ready by (simp add: inStep_def expected_def)
    have "inStep (writesOf e (rt_log r) @ [?w]) ?c"
      using a(1) head kind seq two ready by (simp add: inStep_def expected_def)
    then have "wired (logEffect (Wrote e ?w) (setConnection ?c r))"
      using a(3) two kind by (intro wired_write [OF assms(1) Some]) simp_all
    then show ?thesis unfolding resumeDrain_head [OF Some Cons q] by (rule wires)
  qed
qed

lemma wired_initializedWritten:
  assumes "wired r" and "structured env (TWriteInitialized e k response # ts) r"
  shows "wired (initializedWritten e k response ok r)"
proof (cases "activeConnection e r")
  case None
  then show ?thesis using assms by (simp add: initializedWritten_def)
next
  case (Some c)
  note a = structured_active [OF assms(2) Some]
  show ?thesis
  proof (cases "findRequest c k = None \<or> cn_initializationState c \<noteq> SendingInitialized \<or> \<not> ok")
    case True
    then show ?thesis using assms(1) Some by (auto simp: initializedWritten_def wires)
  next
    case False
    then obtain q where q: "findRequest c k = Some q" "cn_initializationState c = SendingInitialized" ok
      by auto
    have "live env c (TWriteInitialized (cn_epoch c) k response # (ts @ map snd (rt_tasks r)))"
      using a(2,3) by simp
    then have k: "cn_initializationRequest c = Some k"
      using initialized_current a(1) q(2) by fastforce
    have "wired (setConnection (becomeReady k c) r)"
      using a(3) q(2)
      by (intro wired_update [OF assms(1) Some])
        (auto simp: becomeReady_def expected_def queuedSeqs_def intro!: subseq_filter_imp)
    then have "wired (logEffect (Resolved k response) (setConnection (becomeReady k c) r))"
      by (intro wires) simp_all
    then show ?thesis
      unfolding initializedWritten_ready [OF Some q(1,2)] eqTrueI [OF q(3)]
      by (rule wired_resumeDrain)
        (use becomeReady_ok [OF a(1) q(2) k] in \<open>auto simp: becomeReady_def split: if_splits\<close>)
  qed
qed

lemma queuedSeqs_restage:
  assumes "s \<noteq> Queued"
  shows "subseq (queuedSeqs (setStage k s c)) (queuedSeqs c)"
proof -
  have "filter (\<lambda>kq. rq_stage (snd kq) = Queued) (map (restage k s) rs) =
      filter (\<lambda>kq. fst kq \<noteq> k) (filter (\<lambda>kq. rq_stage (snd kq) = Queued) rs)" for rs
    using assms by (induction rs) (auto simp: restage_def)
  then show ?thesis
    by (auto simp: queuedSeqs_def setStage_requests intro!: subseq_filter_imp)
qed

lemma wired_requestWritten [wires]:
  assumes "wired r"
  shows "wired (requestWritten e k d ok r)"
proof (cases "activeConnection e r")
  case None
  then show ?thesis using assms by (simp add: requestWritten_def wires)
next
  case (Some c)
  have "wired (setConnection (setStage k Pending c) r)"
    using Some by (intro wired_update [OF assms Some]) (simp_all add: queuedSeqs_restage activeConnection_Some)
  then show ?thesis
    using assms Some by (simp add: requestWritten_def wires Let_def split: option.split RequestKind.split)
qed

lemma wired_notificationWritten [wires]: "wired r \<Longrightarrow> wired (notificationWritten e method ok r)"
  by (simp add: notificationWritten_def wires split: option.split)

lemma wired_sendNotification:
  assumes "wired r" and "sendNotification e method params r = Inr r'"
  shows "wired r'"
proof -
  obtain c where c: "activeConnection e r = Some c"
    using assms(2) by (auto simp: sendNotification_def split: option.splits)
  note a = wired_active [OF assms(1) c]
  let ?w = "WireNotification method (notificationMessage method params)"
  have ready: "cn_initializationState c = Ready"
    and r': "r' = addTask (TWriteNotification e method) (logEffect (Wrote e ?w) r)"
    using assms(2) c by (auto simp: sendNotification_def split: if_splits)
  have two: "phase (writesOf e (rt_log r)) = Some 2"
    using a(1) ready by (simp add: inStep_def expected_def)
  have "inStep (writesOf e (rt_log r) @ [?w]) c"
    using a(1) two ready by (simp add: inStep_def expected_def)
  then have "wired (logEffect (Wrote e ?w) (setConnection c r))"
    using a(3) two by (intro wired_write [OF assms(1) c]) simp_all
  moreover have "setConnection c r = r" using c by (simp add: setConnection_def activeConnection_Some)
  ultimately show ?thesis unfolding r' by (simp add: wired_frame)
qed

subsection \<open>Incoming messages\<close>

lemma wired_handleSuccessResponse:
  assumes "wired r" and "structured env ts r" and "activeConnection e r = Some c"
  shows "wired (handleSuccessResponse env c message r)"
proof -
  note a = structured_active [OF assms(2,3)]
  have store: "wired (setConnection (c\<lparr>cn_initializationResponse := v\<rparr>) r)" for v
    using a(3) by (intro wired_update [OF assms(1,3)]) (simp_all add: queuedSeqs_def)
  show ?thesis
    by (cases rule: responseRequest_cases [OF a(1), of message r, case_names answered counted found])
      (use assms(1) store in \<open>simp_all add: handleSuccessResponse_def wires split: ValidationResult.split\<close>)
qed

lemma wired_handleErrorResponse:
  assumes "wired r" and "structured env ts r" and "activeConnection e r = Some c"
  shows "wired (handleErrorResponse env c message r)"
  by (cases rule: responseRequest_cases [OF structured_active(1) [OF assms(2,3)], of message r,
        case_names answered counted found])
    (use assms(1) in \<open>simp_all add: handleErrorResponse_def wires split: option.split jsval.split\<close>)

lemma wired_notifyFrom [wires]: "wired r \<Longrightarrow> wired (notifyFrom e method message p r)"
  by (auto simp: notifyFrom_def wires split: option.split)

lemma wired_finishServer [wires]: "wired r \<Longrightarrow> wired (finishServer e rid tracked r)"
  by (simp add: finishServer_def wires)

lemma wired_writeServerMessage [wires]:
  "wired r \<Longrightarrow> serverWire w \<Longrightarrow> wired (writeServerMessage e rid w method tracked r)"
  by (simp add: writeServerMessage_def wires split: option.split)

lemma wired_failInboundTask [wires]: "wired r \<Longrightarrow> wired (failInboundTask e r)"
  by (simp add: failInboundTask_def wires)

lemma wired_serverHandled [wires]: "wired r \<Longrightarrow> wired (serverHandled e rid method out r)"
  by (simp add: serverHandled_def serverHandlerFailed_def writeServerError_def writeServerResult_def
      wires split: outcome.split option.split)

lemma wired_serverMessageWritten [wires]:
  "wired r \<Longrightarrow> wired (serverMessageWritten e rid method tracked out r)"
  by (simp add: serverMessageWritten_def wires split: option.split)

lemma wired_handleServerRequest [wires]:
  "wired r \<Longrightarrow> wired (handleServerRequest env e rid message record r)"
  by (simp add: handleServerRequest_def writeServerError_def bumpUnknownServerRequest_def wires Let_def
      split: MethodValidationResult.split option.split)

lemma wired_setPending:
  assumes "wired r" and "activeConnection e r = Some c"
  shows "wired (setConnection (c\<lparr>cn_pendingServerRequestIds := ids\<rparr>) r)"
  using assms(2) by (intro wired_update [OF assms]) (simp_all add: queuedSeqs_def activeConnection_Some)

lemma wired_serverTaskFinished [wires]: "wired r \<Longrightarrow> wired (serverTaskFinished e rid r)"
  by (simp add: serverTaskFinished_def wired_setPending split: option.split)

lemma wired_dispatchServerRequest:
  assumes "wired r" and "activeConnection e r = Some c"
  shows "wired (dispatchServerRequest env c message record r)"
  using assms(1) wired_setPending [OF assms]
  by (simp add: dispatchServerRequest_def Let_def writeServerError_def wires split: option.split)

lemma wired_handleServerNotification [wires]:
  "wired r \<Longrightarrow> wired (handleServerNotification env e message method r)"
  by (simp add: handleServerNotification_def bumpUnknownNotification_def wires
      split: MethodValidationResult.split)

lemma wired_handleIncoming:
  assumes "wired r" and "structured env ts r"
  shows "wired (handleIncoming env e value r)"
proof (cases "activeConnection e r")
  case None
  then show ?thesis using assms by (simp add: handleIncoming_def wires)
next
  case (Some c)
  show ?thesis
    using Some assms(1) wired_dispatchServerRequest [OF assms(1) Some]
      wired_handleSuccessResponse [OF assms Some] wired_handleErrorResponse [OF assms Some]
    by (simp add: handleIncoming_def wires split: ValidationResult.split option.split jsval.split)
qed

subsection \<open>Every event\<close>

lemma wired_runTask:
  assumes "wired r" and "structured env [t] r"
  shows "wired (runTask t out r)"
proof (cases t)
  case (TWriteInitialized e k response)
  show ?thesis
    using wired_initializedWritten [OF assms(1) assms(2) [unfolded TWriteInitialized]]
    by (simp add: TWriteInitialized runTask_def)
next
  case (TDrain e)
  have "conn_ok env c \<and> cn_draining c" if "activeConnection e r = Some c" for c
    using structured_active(1-3) [OF assms(2) that]
    by (auto simp: TDrain live_def split: if_splits)
  then have "wired (resumeDrain e r)" by (rule wired_resumeDrain [OF assms(1)])
  then show ?thesis by (simp add: TDrain runTask_def)
qed (use assms(1) in \<open>simp_all add: runTask_def notificationHandled_def serverTaskCaught_def wires\<close>)

lemma wired_issuedWriting:
  assumes "wired r" and "rt_connection r = Some c" and "cn_epoch c' = cn_epoch c"
    and "inStep (writesOf (cn_epoch c) (rt_log r) @ [WireRequest (rq_kind q) (rq_seq q)
      (requestMessage (rq_id q) (rq_method q) (rq_params q))]) c'" (is "inStep (?ws @ [?w]) c'")
    and "cn_initializationState c' \<noteq> InitFailed"
  shows "wired (issuedWriting q c' r)"
proof -
  have "wired (logEffect (Issued (rq_id q)) r)" using assms(1) by (simp add: wires)
  moreover have "phase (?ws @ [?w]) \<noteq> None"
    using assms(4,5) unfolding inStep_def by blast
  moreover have "writesOf e (rt_log (logEffect (Issued (rq_id q)) r)) = writesOf e (rt_log r)" for e
    by (simp add: logEffect_def)
  ultimately have "wired (logEffect (Wrote (cn_epoch c) ?w) (setConnection c' (logEffect (Issued (rq_id q)) r)))"
    using assms(2-4) by (intro wired_write [where c = c]) (simp_all add: activeConnection_Some)
  then show ?thesis using assms(3) by (simp add: issuedWriting_def wires)
qed

lemma queuedSeqs_below: "conn_ok env c \<Longrightarrow> n \<in> set (queuedSeqs c) \<Longrightarrow> n \<le> cn_nextRequestSequence c"
  using requests_below(1) by (fastforce simp: queuedSeqs_def less_Suc_eq_le)

lemma queuedSeqs_Nil: "conn_ok env c \<Longrightarrow> cn_queue c = [] \<Longrightarrow> queuedSeqs c = []"
  using conn_ok_queue by (fastforce simp: queuedSeqs_def queuedIds_def)

lemma wired_initialize:
  assumes "wired r" and "structured env [] r" and "env_ok env" and "initialize env params r = Inr (k, r')"
  shows "wired r'"
proof -
  obtain c q where c: "rt_connection r = Some c" "cn_initializationState c = AwaitingInitialize"
    and q: "q = newRequest env c Initialization (lit ''initialize'') (protectedParams params)
      (validateInitializeResponse (boundary env)) Writing"
    and r': "r' = issuedWriting q (startedConnection q c) r"
    using initialize_Inr [OF assms(4,3,2)] by metis
  have "inStep (writesOf (cn_epoch c) (rt_log r)) c" using assms(1) c(1) by (simp add: wired_def)
  then have "inStep (writesOf (cn_epoch c) (rt_log r) @ [WireRequest (rq_kind q) (rq_seq q)
      (requestMessage (rq_id q) (rq_method q) (rq_params q))]) (startedConnection q c)"
    using c(2) by (auto simp: inStep_def expected_def startedConnection_def queuedSeqs_def q)
  then show ?thesis
    unfolding r' using c(1) by (intro wired_issuedWriting [OF assms(1) c(1)]) (simp_all add: startedConnection_def)
qed

lemma wired_sendRequest:
  assumes "wired r" and "structured env [] r" and "env_ok env"
    and "sendRequest env method params validate r = Inr (k, r')"
  shows "wired r'"
proof (cases rule: sendRequest_Inr [OF assms(4,3,2), case_names direct queued])
  case (direct c q)
  note ok = structured_connection(1) [OF assms(2) direct(1)]
  have "cn_queue c = []" using ok direct(2,3) unfolding conn_ok_def handshake_ok_def by blast
  then have none: "queuedSeqs c = []" by (rule queuedSeqs_Nil [OF ok])
  have "queuedSeqs (withRequest q c) = []" using none by (simp add: queuedSeqs_def direct(4))
  moreover have "inStep (writesOf (cn_epoch c) (rt_log r)) c" using assms(1) direct(1) by (simp add: wired_def)
  ultimately have "inStep (writesOf (cn_epoch c) (rt_log r) @ [WireRequest (rq_kind q) (rq_seq q)
      (requestMessage (rq_id q) (rq_method q) (rq_params q))]) (withRequest q c)"
    using direct(2) by (auto simp: inStep_def expected_def direct(4) sorted_wrt_append less_Suc_eq_le le_SucI)
  then show ?thesis
    unfolding direct(6) using direct(2) by (intro wired_issuedWriting [OF assms(1) direct(1)]) simp_all
next
  case (queued c q)
  note ok = structured_connection(1) [OF assms(2) queued(1)]
  let ?c = "(withRequest q c)\<lparr>cn_queue := cn_queue c @ [rq_id q]\<rparr>"
  have "queuedSeqs ?c = queuedSeqs c @ [Suc (cn_nextRequestSequence c)]"
    by (simp add: queuedSeqs_def queued(5))
  moreover have "inStep (writesOf (cn_epoch c) (rt_log r)) c" "cn_epoch c \<le> rt_epochSequence r"
    using assms(1) queued(1) by (simp_all add: wired_def)
  ultimately have "wired (setConnection ?c r)"
    using queuedSeqs_below [OF ok] queued(2)
    by (intro wired_setConnection [OF assms(1)])
      (auto simp: inStep_def sorted_wrt_append less_Suc_eq_le le_SucI)
  then show ?thesis unfolding queued(7) by (simp add: wires)
qed

lemma wired_open:
  assumes "wired r" and "open_connection r = Inr (e, r')"
  shows "wired r'"
proof -
  note o = open_connection_fields [OF assms(2)]
  have writes: "writesOf e' (rt_log r') = writesOf e' (rt_log r)" for e'
    using o(4) by (simp split: option.split)
  show ?thesis
    using assms(1) o(1-3) by (auto simp: wired_def writes freshConnection_def inStep_def expected_def queuedSeqs_def)
qed

lemma wired_step:
  assumes "wired r" and "structured env [] r" and "env_ok env"
  shows "wired (step env ev r)"
proof -
  have other: "wired r'" if "nextConnectionEpoch r = Inr (e, r')" for e r'
    using assms(1) nextConnectionEpoch_fields(2) [OF that] by (auto simp: wired_def)
  have resumed: "wired (resume i out r)" for i out
    using wired_runTask [OF _ structured_resumed [OF assms(2)]] assms(1)
    by (simp add: resume_def wires split: option.split)
  show ?thesis
    using assms(1) other resumed wired_open [OF assms(1)] wired_initialize [OF assms]
      wired_sendRequest [OF assms] wired_sendNotification [OF assms(1)] wired_handleIncoming [OF assms(1,2)]
    by (cases ev) (auto simp: step_def orUnchanged_def wires split: sum.split)
qed

definition wired_state :: "router_env \<Rightarrow> router \<Rightarrow> bool" where
  "wired_state env r \<longleftrightarrow> (env_ok env \<longrightarrow> wired r)"

interpretation wiring: router_invariant env "wired_state env" for env
proof unfold_locales
  show "wired_state env (newRouter n)" for n
    by (simp add: wired_state_def wired_start)
  show "wired_state env (step env ev r)" if "reachable env r" "wired_state env r" for r ev
    using that reachable_structured [OF that(1)] by (simp add: wired_state_def wired_step)
qed

lemma reachable_wired: "reachable env r \<Longrightarrow> env_ok env \<Longrightarrow> wired r"
  using wiring.always [of env r] by (simp add: wired_state_def)

end
