(* ===== verification/RpcServer.thy ===== *)
theory RpcServer
  imports RpcWire
begin

text \<open>
  Requests of the server: the identifiers a connection counts as pending are exactly those of the
  suspended segments that serve them, without repetition and within the capacity. So no identifier
  leaks and none is forgotten before its \<open>finally\<close> has run.
\<close>

fun serverTask :: "nat \<Rightarrow> task \<Rightarrow> RpcRequestId option" where
  "serverTask e (TServerHandler e' rid method) = (if e' = e then Some rid else None)"
| "serverTask e (TWriteServer e' rid method tracked) = (if e' = e \<and> tracked then Some rid else None)"
| "serverTask e (TCatch e' rid tracked) = (if e' = e \<and> tracked then Some rid else None)"
| "serverTask e (TFinally e' rid) = (if e' = e then Some rid else None)"
| "serverTask e _ = None"

definition serverIds :: "nat \<Rightarrow> task list \<Rightarrow> RpcRequestId list" where
  "serverIds e ts = List.map_filter (serverTask e) ts"

lemma serverIds_simps [simp]:
  "serverIds e [] = []"
  "serverIds e (t # ts) = (case serverTask e t of None \<Rightarrow> serverIds e ts | Some k \<Rightarrow> k # serverIds e ts)"
  "serverIds e (ts @ us) = serverIds e ts @ serverIds e us"
  by (simp_all add: serverIds_def map_filter_append List.map_filter_simps split: option.splits)

definition serves :: "router_env \<Rightarrow> ActiveConnection \<Rightarrow> task list \<Rightarrow> bool" where
  "serves env c ts \<longleftrightarrow>
     mset (cn_pendingServerRequestIds c) = mset (serverIds (cn_epoch c) ts) \<and>
     distinct (cn_pendingServerRequestIds c) \<and>
     int (length (cn_pendingServerRequestIds c)) \<le> serverRequestCapacity env"

definition served :: "router_env \<Rightarrow> task list \<Rightarrow> router \<Rightarrow> bool" where
  "served env ts r \<longleftrightarrow>
     (\<forall>c. rt_connection r = Some c \<longrightarrow> serves env c (ts @ map snd (rt_tasks r)))"

named_theorems serving \<open>code that keeps the pending server requests\<close>

lemma served_start: "served env [] (newRouter n)"
  by (simp add: served_def newRouter_def)

lemma serves_cong:
  assumes "serves env c ts" and "cn_pendingServerRequestIds c' = cn_pendingServerRequestIds c"
    and "cn_epoch c' = cn_epoch c" and "mset us = mset ts"
  shows "serves env c' us"
proof -
  have "mset (serverIds e us) = mset (serverIds e ts)" for e
    using assms(4) by (simp add: serverIds_def mset_map_filter)
  then show ?thesis using assms(1-3) by (simp add: serves_def)
qed

lemma served_same:
  assumes "served env ts r" and "rt_tasks r' = rt_tasks r"
    and "rt_connection r' = rt_connection r \<or> rt_connection r' = None"
  shows "served env ts r'"
  using assms by (auto simp: served_def)

lemma served_frame [serving]:
  assumes "served env ts r"
  shows "served env ts (logEffect x r)" "served env ts (emit d r)" "served env ts (bumpCount f r)"
    "served env ts (rejectAll g c r)" "served env ts (dropConnection c reason r)"
    "served env ts (registerServerRequestHandler m h r)"
    "served env ts (unregisterServerRequestHandler m h r)"
    "served env ts (subscribeNotifications h r)" "served env ts (unsubscribeNotifications h r)"
  by (rule served_same [OF assms];
      simp add: emit_def logEffect_def bumpCount_def rejectAll_def dropConnection_def
        registerServerRequestHandler_def unregisterServerRequestHandler_def
        subscribeNotifications_def unsubscribeNotifications_def)+

lemma served_setConnection:
  assumes "served env ts r" and "activeConnection e r = Some c" and "cn_epoch c' = e"
    and "cn_pendingServerRequestIds c' = cn_pendingServerRequestIds c"
  shows "served env ts (setConnection c' r)"
proof -
  have c: "serves env c (ts @ map snd (rt_tasks r))" "cn_epoch c' = cn_epoch c"
    using assms by (simp_all add: served_def activeConnection_Some)
  have "serves env c' (ts @ map snd (rt_tasks r))"
    by (rule serves_cong [OF c(1) assms(4) c(2) refl])
  then show ?thesis by (simp add: served_def) (simp add: setConnection_def)
qed

lemma served_addTask:
  assumes "served env (t # ts) r"
  shows "served env ts (addTask t r)"
proof -
  have "serves env c (ts @ map snd (rt_tasks (addTask t r)))" if c: "rt_connection r = Some c" for c
  proof (rule serves_cong)
    show "serves env c ((t # ts) @ map snd (rt_tasks r))" using assms c by (simp add: served_def)
  qed (simp_all add: addTask_def)
  then show ?thesis by (simp add: served_def)
qed

definition unserving :: "task \<Rightarrow> bool" where
  "unserving t \<longleftrightarrow> (\<forall>e. serverTask e t = None)"

lemma unserving_simps [simp]:
  "unserving (TWriteRequest e k d)" "unserving (TWriteInitialized e k v)" "unserving (TDrain e)"
  "unserving (TWriteNotification e method)" "unserving (TNotificationHandler e method message p)"
  "unserving (TWriteServer e rid method' False)" "unserving (TCatch e rid False)"
  by (simp_all add: unserving_def)

lemma served_unserving: "unserving t \<Longrightarrow> served env (t # ts) r \<longleftrightarrow> served env ts r"
  by (simp add: served_def serves_def unserving_def)

lemma served_addUnserving [serving]:
  "served env ts r \<Longrightarrow> unserving t \<Longrightarrow> served env ts (addTask t r)"
  by (simp add: served_addTask served_unserving)

text \<open>A tracked segment passes its identifier on to the next one.\<close>

lemma served_handOver:
  assumes "served env (t # ts) r" and "\<And>e. serverTask e u = serverTask e t"
  shows "served env ts (addTask u r)"
  using assms by (intro served_addTask) (simp add: served_def serves_def)

lemma served_inactive:
  assumes "served env (t # ts) r" and "activeConnection (taskEpoch t) r = None"
  shows "served env ts r"
proof -
  have "serves env c (t # us) = serves env c us" if "cn_epoch c \<noteq> taskEpoch t" for c us
    using that by (cases t) (simp_all add: serves_def)
  then show ?thesis using assms by (auto simp: served_def activeConnection_def split: if_splits)
qed

subsection \<open>Client requests do not matter\<close>

lemma served_settle [serving]:
  assumes "served env ts r"
  shows "served env ts (rejectRequest e k reason r)" "served env ts (resolveRequest e k v r)"
  using assms served_setConnection [OF assms]
  by (auto simp: rejectRequest_def resolveRequest_def serving activeConnection_Some split: option.split)

lemma served_failInitialization [serving]:
  assumes "served env ts r"
  shows "served env ts (failInitialization e reason r)"
proof (cases "activeConnection e r")
  case (Some c)
  have "served env ts (setConnection (c\<lparr>cn_initializationState := InitFailed, cn_initializationRequest := None,
    cn_initializationResponse := None, cn_queue := [], cn_requests := []\<rparr>) (rejectAll f c r))" for f
    using Some assms by (intro served_setConnection [where c = c and e = e]) (simp_all add: serving activeConnection_Some)
  then show ?thesis using assms Some by (simp add: failInitialization_def)
qed (use assms in \<open>simp add: failInitialization_def\<close>)

lemma served_failRequest [serving]: "served env ts r \<Longrightarrow> served env ts (failRequest e q reason r)"
  by (simp add: failRequest_def serving)

lemma served_terminate [serving]: "served env ts r \<Longrightarrow> served env ts (terminateConnection e reason r)"
  by (simp add: terminateConnection_def serving split: option.split)

lemma served_close [serving]: "served env ts r \<Longrightarrow> served env ts (snd (close e r))"
  by (simp add: close_def serving split: option.split)

lemma served_afterWrite [serving]: "served env ts r \<Longrightarrow> served env ts (afterWrite e d r)"
  by (simp add: afterWrite_def serving)

lemma served_writeRequest [serving]:
  assumes "served env ts r"
  shows "served env ts (writeRequest e k d r)"
proof (cases "activeConnection e r")
  case (Some c)
  have "served env ts (setConnection (setStage k Writing c) r)"
    by (rule served_setConnection [OF assms Some]) (use Some in \<open>simp_all add: activeConnection_Some\<close>)
  then show ?thesis using assms Some by (simp add: writeRequest_def serving split: option.split)
qed (use assms in \<open>simp add: writeRequest_def serving\<close>)

lemma served_drainFrom:
  "served env ts r \<Longrightarrow> activeConnection e r = Some c' \<Longrightarrow> cn_epoch c = e \<Longrightarrow>
     cn_pendingServerRequestIds c = cn_pendingServerRequestIds c' \<Longrightarrow> served env ts (drainFrom e c queue r)"
  by (induction queue) (auto intro!: served_writeRequest served_setConnection)

lemma served_resumeDrain [serving]: "served env ts r \<Longrightarrow> served env ts (resumeDrain e r)"
  by (auto simp: resumeDrain_def activeConnection_Some intro!: served_drainFrom split: option.split)

lemma served_drainQueue [serving]:
  assumes "served env ts r"
  shows "served env ts (drainQueue e r)"
  by (auto simp: drainQueue_def assms activeConnection_Some split: option.split
      intro!: served_resumeDrain served_setConnection [OF assms])

lemma served_completeInitialization [serving]:
  assumes "served env ts r"
  shows "served env ts (completeInitialization e k response r)"
  using assms by (auto simp: completeInitialization_def serving activeConnection_Some split: option.split
      intro!: serving served_setConnection [OF assms])

lemma served_initializedWritten [serving]:
  assumes "served env ts r"
  shows "served env ts (initializedWritten e k response ok r)"
  using assms by (auto simp: initializedWritten_def serving activeConnection_Some split: option.split
      intro!: serving served_setConnection [OF assms])

lemma served_requestWritten [serving]:
  assumes "served env ts r"
  shows "served env ts (requestWritten e k d ok r)"
proof (cases "activeConnection e r")
  case (Some c)
  have "served env ts (setConnection (setStage k Pending c) r)"
    by (rule served_setConnection [OF assms Some]) (use Some in \<open>simp_all add: activeConnection_Some\<close>)
  then show ?thesis
    using assms Some by (simp add: requestWritten_def serving Let_def split: option.split RequestKind.split)
qed (use assms in \<open>simp add: requestWritten_def serving\<close>)

lemma served_notificationWritten [serving]:
  "served env ts r \<Longrightarrow> served env ts (notificationWritten e method ok r)"
  by (simp add: notificationWritten_def serving split: option.split)

lemma served_responses:
  assumes "served env ts r" and "conn_ok env c" and "activeConnection e r = Some c"
  shows "served env ts (handleSuccessResponse env c message r)"
    and "served env ts (handleErrorResponse env c message r)"
proof -
  have store: "served env ts (setConnection (c\<lparr>cn_initializationResponse := v\<rparr>) r)" for v
    by (rule served_setConnection [OF assms(1,3)]) (use assms(3) in \<open>simp_all add: activeConnection_Some\<close>)
  show "served env ts (handleSuccessResponse env c message r)"
    by (cases rule: responseRequest_cases [OF assms(2), of message r, case_names a b d])
      (use assms(1) store in \<open>simp_all add: handleSuccessResponse_def serving split: ValidationResult.split\<close>)
  show "served env ts (handleErrorResponse env c message r)"
    by (cases rule: responseRequest_cases [OF assms(2), of message r, case_names a b d])
      (use assms(1) in \<open>simp_all add: handleErrorResponse_def serving split: option.split jsval.split\<close>)
qed

lemma served_notifyFrom [serving]: "served env ts r \<Longrightarrow> served env ts (notifyFrom e method message p r)"
  by (auto simp: notifyFrom_def serving split: option.split)

lemma served_handleServerNotification [serving]:
  "served env ts r \<Longrightarrow> served env ts (handleServerNotification env e message method r)"
  by (simp add: handleServerNotification_def bumpUnknownNotification_def serving
      split: MethodValidationResult.split)

subsection \<open>Server requests\<close>

abbreviation tracked_id :: "nat \<Rightarrow> RpcRequestId \<Rightarrow> bool \<Rightarrow> task" where
  "tracked_id e rid tracked \<equiv> TCatch e rid tracked"

lemma served_finishServer:
  assumes "served env (tracked_id e rid tracked # ts) r"
  shows "served env ts (finishServer e rid tracked r)"
  using assms by (cases tracked)
    (auto simp: finishServer_def served_unserving intro!: served_handOver)

lemma served_writeServerMessage:
  assumes "served env (tracked_id e rid tracked # ts) r"
  shows "served env ts (writeServerMessage e rid w method tracked r)"
proof (cases "activeConnection e r")
  case None
  then show ?thesis using served_finishServer [OF assms] by (simp add: writeServerMessage_def)
next
  case (Some c)
  have "served env (tracked_id e rid tracked # ts) (logEffect (Wrote e w) r)"
    using assms by (simp add: serving)
  then have "served env ts (addTask (TWriteServer e rid method tracked) (logEffect (Wrote e w) r))"
    by (rule served_handOver) simp
  then show ?thesis using Some by (simp add: writeServerMessage_def)
qed

lemma served_serverHandled:
  assumes "served env (TServerHandler e rid method # ts) r"
  shows "served env ts (serverHandled e rid method out r)"
proof -
  have tracked: "served env (tracked_id e rid True # ts) r"
    using assms by (simp add: served_def serves_def)
  then have failed: "served env ts (serverHandlerFailed e rid method code msg r)" for code msg
    by (auto simp: serverHandlerFailed_def writeServerError_def serving split: option.split
        intro!: served_finishServer served_writeServerMessage)
  show ?thesis
    using failed served_writeServerMessage [OF tracked]
    by (simp add: serverHandled_def writeServerResult_def split: outcome.split option.split)
qed

lemma served_serverMessageWritten:
  assumes "served env (TWriteServer e rid method tracked # ts) r"
  shows "served env ts (serverMessageWritten e rid method tracked out r)"
proof -
  have tracked: "served env (tracked_id e rid tracked # ts) r"
    using assms by (simp add: served_def serves_def)
  then have "served env ts (addTask (TCatch e rid tracked) (terminateConnection e RpcWriteError (emit d r)))" for d
    by (intro served_addTask) (simp add: serving)
  then show ?thesis
    using served_finishServer [OF tracked]
    by (simp add: serverMessageWritten_def split: option.split)
qed

lemma served_failInboundTask [serving]: "served env ts r \<Longrightarrow> served env ts (failInboundTask e r)"
  by (simp add: failInboundTask_def serving)

lemma served_serverTaskFinished:
  assumes "served env (TFinally e rid # ts) r"
  shows "served env ts (serverTaskFinished e rid r)"
proof (cases "activeConnection e r")
  case None
  then show ?thesis using served_inactive [OF assms] by (simp add: serverTaskFinished_def)
next
  case (Some c)
  have c: "rt_connection r = Some c" "cn_epoch c = e" using Some by (simp_all add: activeConnection_Some)
  have "serves env c (TFinally e rid # (ts @ map snd (rt_tasks r)))"
    using assms c by (simp add: served_def)
  then have s: "mset (cn_pendingServerRequestIds c) = add_mset rid (mset (serverIds e (ts @ map snd (rt_tasks r))))"
    "distinct (cn_pendingServerRequestIds c)"
    "int (length (cn_pendingServerRequestIds c)) \<le> serverRequestCapacity env"
    using c(2) by (simp_all add: serves_def)
  have "length (remove1 rid (cn_pendingServerRequestIds c)) \<le> length (cn_pendingServerRequestIds c)"
    by (simp add: length_remove1)
  then have "serves env (c\<lparr>cn_pendingServerRequestIds := remove1 rid (cn_pendingServerRequestIds c)\<rparr>)
      (ts @ map snd (rt_tasks r))"
    using s c(2) by (simp add: serves_def)
  then show ?thesis
    using Some by (simp add: serverTaskFinished_def served_def) (simp add: setConnection_def)
qed

lemma served_handleServerRequest:
  assumes "served env (TFinally e rid # ts) r"
  shows "served env ts (handleServerRequest env e rid message record r)"
proof -
  have tracked: "served env (tracked_id e rid True # ts) r"
    using assms by (simp add: served_def serves_def)
  have "served env ts (addTask (TServerHandler e rid meth) (logEffect x r))" for meth x
  proof (rule served_handOver)
    show "served env (TFinally e rid # ts) (logEffect x r)" using assms by (simp add: serving)
  qed simp
  moreover have "served env (tracked_id e rid True # ts) (emit d (bumpCount f r))"
    "served env (tracked_id e rid True # ts) (emit d r)" for d f
    using tracked by (simp_all add: serving)
  ultimately show ?thesis
    by (simp add: handleServerRequest_def writeServerError_def bumpUnknownServerRequest_def Let_def
        served_writeServerMessage split: MethodValidationResult.split option.split)
qed

lemma served_accept:
  assumes "served env ts r" and "activeConnection e r = Some c"
    and "rid \<notin> set (cn_pendingServerRequestIds c)"
    and "int (length (cn_pendingServerRequestIds c)) < serverRequestCapacity env"
  shows "served env (TFinally e rid # ts) (setConnection (c\<lparr>cn_pendingServerRequestIds :=
    cn_pendingServerRequestIds c @ [rid]\<rparr>) r)"
proof -
  have c: "rt_connection r = Some c" "cn_epoch c = e" using assms(2) by (simp_all add: activeConnection_Some)
  have "serves env c (ts @ map snd (rt_tasks r))" using assms(1) c(1) by (simp add: served_def)
  then have "serves env (c\<lparr>cn_pendingServerRequestIds := cn_pendingServerRequestIds c @ [rid]\<rparr>)
      (TFinally e rid # (ts @ map snd (rt_tasks r)))"
    using assms(3,4) c(2) by (simp add: serves_def)
  then show ?thesis by (simp add: served_def) (simp add: setConnection_def)
qed

lemma served_dispatchServerRequest:
  assumes "served env ts r" and "activeConnection e r = Some c"
  shows "served env ts (dispatchServerRequest env c message record r)"
proof -
  have e: "cn_epoch c = e" using assms(2) by (simp add: activeConnection_Some)
  have busy: "served env ts (writeServerError e rid code msg False (emit d r))" for rid code msg d
    using assms(1) by (simp add: writeServerError_def served_writeServerMessage served_unserving serving)
  show ?thesis
    using assms(1) e busy served_handleServerRequest [OF served_accept [OF assms]]
    by (simp add: dispatchServerRequest_def Let_def serving split: option.split)
qed

lemma served_handleIncoming:
  assumes "served env ts r" and "structured env us r"
  shows "served env ts (handleIncoming env e value r)"
proof (cases "activeConnection e r")
  case None
  then show ?thesis using assms by (simp add: handleIncoming_def serving)
next
  case (Some c)
  note responses = served_responses [OF assms(1) structured_active(1) [OF assms(2) Some] Some]
  show ?thesis
    using Some assms(1) responses served_dispatchServerRequest [OF assms(1) Some]
    by (simp add: handleIncoming_def serving split: ValidationResult.split option.split jsval.split)
qed

subsection \<open>Every event\<close>

lemma served_resumed:
  assumes "served env [] r" and "tasks_ok r" and "map_of (rt_tasks r) i = Some t"
  shows "served env [t] (r\<lparr>rt_tasks := filter (\<lambda>it. fst it \<noteq> i) (rt_tasks r)\<rparr>)"
proof -
  let ?rest = "filter (\<lambda>it. fst it \<noteq> i) (rt_tasks r)"
  have same: "mset (map snd (rt_tasks r)) = mset (t # map snd ?rest)"
    using assms(2,3) by (intro map_of_filter_remove) (simp_all add: tasks_ok_def)
  have "serves env c ([t] @ map snd ?rest)" if c: "rt_connection r = Some c" for c
  proof (rule serves_cong)
    show "serves env c (map snd (rt_tasks r))" using assms(1) c by (simp add: served_def)
  qed (use same in simp_all)
  then show ?thesis by (simp add: served_def)
qed

lemma served_runTask:
  assumes "served env [t] r"
  shows "served env [] (runTask t out r)"
proof -
  have u: "served env [] r" if "unserving t"
    using assms served_unserving [OF that] by blast
  show ?thesis
  proof (cases t)
    case (TCatch e rid tracked)
    then have "served env [tracked_id e rid tracked] (failInboundTask e r)"
      using assms by (simp add: serving)
    then show ?thesis
      by (simp add: TCatch runTask_def serverTaskCaught_def served_finishServer)
  qed (use u assms in \<open>simp_all add: runTask_def serving notificationHandled_def served_serverHandled
      served_serverMessageWritten served_serverTaskFinished\<close>)
qed

lemma served_issuedWriting:
  assumes "served env [] r" and "rt_connection r = Some c" and "cn_epoch c' = cn_epoch c"
    and "cn_pendingServerRequestIds c' = cn_pendingServerRequestIds c"
  shows "served env [] (issuedWriting q c' r)"
proof -
  have "served env [] (setConnection c' r)"
    using assms by (intro served_setConnection [OF assms(1)]) (simp_all add: activeConnection_Some)
  then show ?thesis by (simp add: issuedWriting_def serving)
qed

lemma served_open:
  assumes "served env [] r" and "tasks_ok r" and "env_ok env" and "open_connection r = Inr (e, r')"
  shows "served env [] r'"
proof -
  note o = open_connection_fields [OF assms(4)]
  have "serverTask e t = None" if "taskEpoch t < e" for t
    using that by (cases t) auto
  moreover have "\<forall>t \<in> set (map snd (rt_tasks r)). taskEpoch t < e"
    using assms(2) o(1) by (auto simp: tasks_ok_def less_Suc_eq_le)
  ultimately have "serverIds e (map snd (rt_tasks r)) = []"
    by (simp add: serverIds_def List.map_filter_def)
  then show ?thesis
    using o assms(3) by (simp add: served_def serves_def freshConnection_def env_ok_def)
qed

lemma served_step:
  assumes "served env [] r" and "structured env [] r" and "env_ok env"
  shows "served env [] (step env ev r)"
proof -
  have tasks: "tasks_ok r" using assms(2) by (simp add: structured_def)
  have other: "served env [] r'" if "nextConnectionEpoch r = Inr (e, r')" for e r'
    using assms(1) nextConnectionEpoch_fields(2) [OF that] by (simp add: served_def)
  have init: "served env [] r'" if i: "initialize env params r = Inr (k, r')" for params k r'
  proof -
    obtain c q where "rt_connection r = Some c" "r' = issuedWriting q (startedConnection q c) r"
      using initialize_Inr [OF i assms(3,2)] by metis
    then show ?thesis using served_issuedWriting [OF assms(1)] by (simp add: startedConnection_def)
  qed
  have send: "served env [] r'" if s: "sendRequest env meth params validate r = Inr (k, r')"
    for meth params validate k r'
  proof (cases rule: sendRequest_Inr [OF s assms(3,2), case_names direct queued])
    case (direct c q)
    then show ?thesis using served_issuedWriting [OF assms(1) direct(1)] by simp
  next
    case (queued c q)
    then show ?thesis
      using served_setConnection [OF assms(1), of "cn_epoch c" c] by (simp add: serving activeConnection_Some)
  qed
  have notify: "served env [] r'" if "sendNotification e meth params r = Inr r'" for e meth params r'
    using that assms(1)
    by (auto simp: sendNotification_def serving split: option.splits if_splits)
  have resumed: "served env [] (resume i out r)" for i out
    using served_runTask [OF served_resumed [OF assms(1) tasks]] assms(1)
    by (simp add: resume_def split: option.split)
  show ?thesis
  proof (cases ev)
    case Opened
    then show ?thesis using assms(1) served_open [OF assms(1) tasks assms(3)]
      by (simp add: step_def orUnchanged_def split: sum.split)
  next
    case OtherRouterOpened
    then show ?thesis using assms(1) other by (simp add: step_def orUnchanged_def split: sum.split)
  next
    case (Initialize params)
    then show ?thesis using assms(1) init by (simp add: step_def orUnchanged_def split: sum.split)
  next
    case (SendRequest meth params validate)
    then show ?thesis using assms(1) send by (simp add: step_def orUnchanged_def split: sum.split)
  next
    case (SendNotification e meth params)
    then show ?thesis using assms(1) notify by (simp add: step_def split: sum.split)
  qed (use assms(1) resumed served_handleIncoming [OF assms(1,2)] in \<open>simp_all add: step_def serving\<close>)
qed

definition served_state :: "router_env \<Rightarrow> router \<Rightarrow> bool" where
  "served_state env r \<longleftrightarrow> (env_ok env \<longrightarrow> served env [] r)"

interpretation serving_requests: router_invariant env "served_state env" for env
proof unfold_locales
  show "served_state env (newRouter n)" for n
    by (simp add: served_state_def served_start)
  show "served_state env (step env ev r)" if "reachable env r" "served_state env r" for r ev
    using that reachable_structured [OF that(1)] by (simp add: served_state_def served_step)
qed

lemma reachable_served: "reachable env r \<Longrightarrow> env_ok env \<Longrightarrow> served env [] r"
  using serving_requests.always [of env r] by (simp add: served_state_def)

end
