(* ===== verification/RpcProgress.thy ===== *)
theory RpcProgress
  imports RpcServer
begin

text \<open>
  Progress of the router. A connection that drains its queue has a suspended segment that goes on
  with it, and when the writes succeed a bounded number of resumptions empties the queue.
\<close>

definition completes :: "event \<Rightarrow> bool" where
  "completes ev = (case ev of Resume i (Fulfilled v) \<Rightarrow> True | _ \<Rightarrow> False)"

lemma drainer_exists:
  assumes "structured env [] r" and "activeConnection e r = Some c" and "cn_draining c"
  obtains i t where "map_of (rt_tasks r) i = Some t" and "drainTask e t"
proof -
  have "drainers e (map snd (rt_tasks r)) = 1"
    using structured_active(2,3) [OF assms(1,2)] assms(3) by (simp add: live_def)
  then have "filter (drainTask e) (map snd (rt_tasks r)) \<noteq> []"
    unfolding drainers_def by (metis list.size(3) zero_neq_one)
  then obtain t where "t \<in> set (map snd (rt_tasks r))" "drainTask e t"
    by (auto simp: filter_empty_conv)
  then obtain i where "(i, t) \<in> set (rt_tasks r)" by auto
  moreover have "distinct (map fst (rt_tasks r))"
    using assms(1) by (simp add: structured_def tasks_ok_def)
  ultimately show thesis using that \<open>drainTask e t\<close> by simp
qed

lemma new_task_found:
  assumes "structured env [] r"
  shows "map_of (filter P (rt_tasks r) @ [(rt_nextTask r, t)]) (rt_nextTask r) = Some t"
proof -
  have "rt_nextTask r \<notin> fst ` set (filter P (rt_tasks r))"
    using assms by (auto simp: structured_def tasks_ok_def)
  then show ?thesis by (rule findRequest_appended)
qed

definition without :: "nat \<Rightarrow> router \<Rightarrow> router" where
  "without i r = r\<lparr>rt_tasks := filter (\<lambda>it. fst it \<noteq> i) (rt_tasks r)\<rparr>"

lemma activeConnection_without [simp]: "activeConnection e (without i r) = activeConnection e r"
  by (simp add: without_def activeConnection_def)

lemma step_resume:
  "map_of (rt_tasks r) i = Some t \<Longrightarrow> step env (Resume i out) r = runTask t out (without i r)"
  by (simp add: step_def resume_def without_def)

text \<open>The write the loop waits for has succeeded.\<close>

lemma drain_written:
  assumes "structured env [] r" and "activeConnection e r = Some c" and "cn_draining c"
    and "map_of (rt_tasks r) i = Some (TWriteRequest e k True)"
  obtains c' where "activeConnection e (step env (Resume i (Fulfilled v)) r) = Some c'"
    and "cn_draining c'" and "cn_queue c' = cn_queue c"
    and "map_of (rt_tasks (step env (Resume i (Fulfilled v)) r)) (rt_nextTask r) = Some (TDrain e)"
proof -
  note a = structured_active [OF assms(1,2)]
  have ready: "cn_initializationState c = Ready" using draining_ready [OF a(1) assms(3)] .
  show thesis
  proof (cases "findRequest c k")
    case None
    have "step env (Resume i (Fulfilled v)) r = addTask (TDrain e) (without i r)"
      using None assms(2) by (simp add: step_resume [OF assms(4)] runTask_def succeeded_def
          requestWritten_def afterWrite_def)
    then show thesis
      using assms(2,3) new_task_found [OF assms(1)]
      by (intro that [of c]) (simp_all, simp add: addTask_def without_def)
  next
    case (Some q)
    have "cn_initializationRequest c = None" using a(1) ready by (auto simp: conn_ok_def handshake_ok_def)
    then have kind: "rq_kind q = Business"
      using initialization_request [OF a(1) Some] by (cases "rq_kind q") auto
    have "step env (Resume i (Fulfilled v)) r =
        addTask (TDrain e) (setConnection (setStage k Pending c) (without i r))"
      using Some assms(2) kind by (simp add: step_resume [OF assms(4)] runTask_def succeeded_def
          requestWritten_def afterWrite_def Let_def)
    then show thesis
      using a(3) assms(3) new_task_found [OF assms(1)]
      by (intro that [of "setStage k Pending c"]) (simp_all, simp add: addTask_def without_def setConnection_def)
  qed
qed

text \<open>The loop goes on: it ends on an empty queue or writes the next request.\<close>

lemma drain_continued:
  assumes "structured env [] r" and "activeConnection e r = Some c" and "cn_draining c"
    and "map_of (rt_tasks r) i = Some (TDrain e)" and "cn_queue c = k # rest"
  obtains c' where "activeConnection e (step env (Resume i out) r) = Some c'"
    and "cn_draining c'" and "cn_queue c' = rest"
    and "map_of (rt_tasks (step env (Resume i out) r)) (rt_nextTask r) = Some (TWriteRequest e k True)"
proof -
  note a = structured_active [OF assms(1,2)]
  obtain q where q: "findRequest c k = Some q" using queued_found [OF a(1), of k] assms(5) by auto
  have active: "activeConnection e (without i r) = Some c" using assms(2) by simp
  have "step env (Resume i out) r = resumeDrain e (without i r)"
    by (simp add: step_resume [OF assms(4)] runTask_def)
  then show thesis
    unfolding resumeDrain_head [OF active assms(5) q]
    using a(3) assms(3) new_task_found [OF assms(1)]
    by (intro that [of "setStage k Writing (c\<lparr>cn_queue := rest\<rparr>)"])
      (simp_all, simp add: addTask_def without_def setConnection_def logEffect_def)
qed

lemma drain_ended:
  assumes "activeConnection e r = Some c" and "map_of (rt_tasks r) i = Some (TDrain e)"
    and "cn_queue c = []"
  shows "step env (Resume i out) r = setConnection (c\<lparr>cn_queue := [], cn_draining := False\<rparr>) (without i r)"
  using assms(1) resumeDrain_empty [OF _ assms(3)]
  by (simp add: step_resume [OF assms(2)] runTask_def)

definition drained :: "nat \<Rightarrow> router \<Rightarrow> bool" where
  "drained e r = (case activeConnection e r of None \<Rightarrow> False
     | Some c \<Rightarrow> \<not> cn_draining c \<and> cn_queue c = [])"

lemma drain_terminates:
  assumes "structured env [] r" and "env_ok env" and "activeConnection e r = Some c" and "cn_draining c"
    and "map_of (rt_tasks r) i = Some (TDrain e)"
  shows "\<exists>evs. list_all completes evs \<and> length evs = 2 * length (cn_queue c) + 1 \<and>
    drained e (run env evs r)"
  using assms(1,3-)
proof (induction "cn_queue c" arbitrary: c r i)
  case Nil
  have e: "cn_epoch c = e" using Nil.prems(2) by (simp add: activeConnection_Some)
  have "drained e (run env [Resume i (Fulfilled JNull)] r)"
    using drain_ended [OF Nil.prems(2,4) Nil.hyps [symmetric]] e by (simp add: drained_def)
  then show ?case
    using Nil.hyps by (intro exI [of _ "[Resume i (Fulfilled JNull)]"]) (simp add: completes_def)
next
  case (Cons k rest)
  let ?ev = "Resume i (Fulfilled JNull)" and ?ev' = "Resume (rt_nextTask r) (Fulfilled JNull)"
  let ?r = "step env ?ev r"
  obtain c1 where c1: "activeConnection e ?r = Some c1" "cn_draining c1" "cn_queue c1 = rest"
    "map_of (rt_tasks ?r) (rt_nextTask r) = Some (TWriteRequest e k True)"
    using drain_continued [OF Cons.prems(1,2,3,4) Cons.hyps(2) [symmetric]] by metis
  have s1: "structured env [] ?r" by (rule structured_step [OF Cons.prems(1) assms(2)])
  obtain c2 where c2: "activeConnection e (step env ?ev' ?r) = Some c2" "cn_draining c2" "cn_queue c2 = rest"
    "map_of (rt_tasks (step env ?ev' ?r)) (rt_nextTask ?r) = Some (TDrain e)"
    using drain_written [OF s1 c1(1,2,4)] c1(3) by metis
  have s2: "structured env [] (step env ?ev' ?r)" by (rule structured_step [OF s1 assms(2)])
  obtain evs where "list_all completes evs" "length evs = 2 * length rest + 1"
    "drained e (run env evs (step env ?ev' ?r))"
    using Cons.hyps(1) [OF c2(3) [symmetric] s2 c2(1,2,4)] c2(3) by auto
  then show ?case
    using Cons.hyps(2) [symmetric] by (intro exI [of _ "?ev # ?ev' # evs"]) (simp add: completes_def)
qed

lemma drain_completes_structured:
  assumes "structured env [] r" and "env_ok env" and "activeConnection e r = Some c" and "cn_draining c"
  shows "\<exists>evs. list_all completes evs \<and> length evs \<le> 2 * length (cn_queue c) + 2 \<and>
    drained e (run env evs r)"
proof -
  obtain i t where t: "map_of (rt_tasks r) i = Some t" "drainTask e t"
    using drainer_exists [OF assms(1,3,4)] .
  show ?thesis
  proof (cases t)
    case (TDrain e')
    then show ?thesis using t drain_terminates [OF assms, of i] by fastforce
  next
    case (TWriteRequest e' k d)
    then have "map_of (rt_tasks r) i = Some (TWriteRequest e k True)" using t by auto
    then obtain c' where c': "activeConnection e (step env (Resume i (Fulfilled JNull)) r) = Some c'"
      "cn_draining c'" "cn_queue c' = cn_queue c"
      "map_of (rt_tasks (step env (Resume i (Fulfilled JNull)) r)) (rt_nextTask r) = Some (TDrain e)"
      using drain_written [OF assms(1,3,4)] by metis
    obtain evs where "list_all completes evs" "length evs = 2 * length (cn_queue c) + 1"
      "drained e (run env evs (step env (Resume i (Fulfilled JNull)) r))"
      using drain_terminates [OF structured_step [OF assms(1,2)] assms(2) c'(1,2,4)] c'(3) by auto
    then show ?thesis
      by (intro exI [of _ "Resume i (Fulfilled JNull) # evs"]) (simp add: completes_def)
  qed (use t(2) in simp_all)
qed

end
