(* ===== verification/RpcProperties.thy ===== *)
theory RpcProperties
  imports RpcProgress
begin

text \<open>
  The properties of the router, over all its reachable states, and one concrete run that witnesses
  that their hypotheses can hold: a client whose boundary accepts everything opens a connection,
  initializes it and sends two requests.
\<close>

subsection \<open>A concrete client\<close>

definition demoBoundary :: ProtocolBoundary where
  "demoBoundary = \<lparr>validateMessage = Valid, validateInitializeResponse = Valid,
     validateServerNotification = MethodValid, validateServerRequest = MethodValid\<rparr>"

definition demoEnv :: router_env where
  "demoEnv = \<lparr>clientInstanceId = lit ''c'', boundary = demoBoundary, queueCapacity = 2,
     serverRequestCapacity = 1\<rparr>"

definition demoOpen :: router where
  "demoOpen = run demoEnv [Opened] (newRouter 0)"

definition demoQueued :: router where
  "demoQueued = run demoEnv [Initialize (JObj []), SendRequest (lit ''a'') JUndef Valid,
     SendRequest (lit ''b'') JUndef Valid] demoOpen"

definition demoDraining :: router where
  "demoDraining = run demoEnv [Resume 0 (Fulfilled JNull),
     Incoming 1 (JObj [jprop ''id'' (JStr (lit ''rpc:c:1:1'')), jprop ''result'' (JObj [])]),
     Resume 1 (Fulfilled JNull)] demoQueued"

definition demoClosed :: router where
  "demoClosed = run demoEnv [Closed 1] demoDraining"

definition demoServing :: router where
  "demoServing = run demoEnv [RegisterHandler (lit ''ask'') 7,
     Incoming 1 (JObj [jprop ''id'' (JInt 5), jprop ''method'' (JStr (lit ''ask''))])] demoDraining"

lemma demoEnv_ok: "env_ok demoEnv"
  by (simp add: env_ok_def demoEnv_def lit_def)

lemma demo_reachable:
  "reachable demoEnv demoOpen" "reachable demoEnv demoQueued" "reachable demoEnv demoDraining"
  "reachable demoEnv demoServing" "reachable demoEnv demoClosed"
  unfolding demoServing_def demoClosed_def demoDraining_def demoQueued_def demoOpen_def
  by (intro reachable_run reachable.start)+

lemma demo_connections:
  "map_option cn_epoch (rt_connection demoQueued) = Some 1"
  "map_option cn_draining (rt_connection demoDraining) = Some True"
  "map_option cn_epoch (rt_connection demoDraining) = Some 1"
  "map_option cn_queue (rt_connection demoDraining) = Some [lit ''rpc:c:1:3'']"
  "map_option cn_pendingServerRequestIds (rt_connection demoServing) = Some [IdInt 5]"
  "map_option cn_epoch (rt_connection demoServing) = Some 1"
  by code_simp+

lemma demo_active:
  obtains c where "rt_connection demoDraining = Some c" and "cn_epoch c = 1" and "cn_draining c"
    and "cn_queue c = [lit ''rpc:c:1:3'']"
  using demo_connections(2-4) by auto

subsection \<open>Helper facts\<close>

lemma stale_lookup:
  assumes "conn_ok env c" and "env_ok env" and "e \<noteq> cn_epoch c"
  shows "lookupResponse c (IdStr (requestId (clientInstanceId env) e n)) = None"
proof -
  have "requestId (clientInstanceId env) e n \<noteq> fst kq" if "kq \<in> set (cn_requests c)" for kq
    using requests_below(2) [OF assms(1) that] assms(2,3)
    by (auto simp: request_ok_def env_ok_def requestId_inject)
  then show ?thesis by (auto simp: lookupResponse_def findRequest_None)
qed

text \<open>A message without a method that has an identifier and a result, or an error.\<close>

definition responseMessage :: "jstr \<Rightarrow> jsval \<Rightarrow> jsrecord" where
  "responseMessage k result = [jprop ''id'' (JStr k), jprop ''result'' result]"

definition errorMessage :: "jstr \<Rightarrow> jsval \<Rightarrow> jsrecord" where
  "errorMessage k error = [jprop ''id'' (JStr k), jprop ''error'' error]"

lemma response_fields:
  "field (responseMessage k v) ''method'' = JUndef" "hasOwn (responseMessage k v) (lit ''result'')"
  "field (responseMessage k v) ''result'' = v" "requestIdOf (responseMessage k v) = Some (IdStr k)"
  "field (errorMessage k v) ''method'' = JUndef" "\<not> hasOwn (errorMessage k v) (lit ''result'')"
  "hasOwn (errorMessage k v) (lit ''error'')" "field (errorMessage k v) ''error'' = v"
  "requestIdOf (errorMessage k v) = Some (IdStr k)"
  by (simp_all add: responseMessage_def errorMessage_def requestIdOf_def lit_def)

lemma incoming_response:
  assumes "activeConnection e r = Some c" and "validateMessage (boundary env) incoming = Valid (JObj (responseMessage k v))"
  shows "handleIncoming env e incoming r = handleSuccessResponse env c (responseMessage k v) r"
  using assms by (simp add: handleIncoming_def asRecord_def response_fields)

lemma incoming_error:
  assumes "activeConnection e r = Some c" and "validateMessage (boundary env) incoming = Valid (JObj (errorMessage k v))"
  shows "handleIncoming env e incoming r = handleErrorResponse env c (errorMessage k v) r"
  using assms by (simp add: handleIncoming_def asRecord_def response_fields)

lemma found_response:
  assumes "requestIdOf message = Some (IdStr k)" and "findRequest c k = Some q" and "rq_stage q \<noteq> Queued"
  shows "responseRequest env c message r = (Some q, r)"
  using assms by (simp add: responseRequest_def lookupResponse_def)

lemma resolve_effect:
  assumes "activeConnection e r = Some c" and "findRequest c k = Some q"
  shows "rt_log (resolveRequest e k v r) = rt_log r @ [Resolved k v]"
    and "pendingIds (resolveRequest e k v r) = filter (\<lambda>k'. k' \<noteq> k) (pendingIds r)"
    and "rt_log (rejectRequest e k reason r) = rt_log r @ [Rejected k reason]"
    and "pendingIds (rejectRequest e k reason r) = filter (\<lambda>k'. k' \<noteq> k) (pendingIds r)"
  using assms
  by (simp_all add: resolveRequest_def rejectRequest_def)
    (simp_all add: logEffect_def setConnection_def pendingIds_def activeConnection_Some filter_map o_def)

subsection \<open>The properties\<close>

text \<open>C1. Every promise the router hands out is settled exactly once or still pending: in every
  reachable state the identifiers issued so far, all distinct, are the settled ones together with
  the pending ones, with multiplicity. No request is lost and none is settled twice, whatever the
  order of responses, failed writes, closed connections and new requests.\<close>

theorem requests_settled_once:
  assumes "reachable env r" and "env_ok env"
  shows "mset (issuedIds (rt_log r)) = mset (settledIds (rt_log r)) + mset (pendingIds r) \<and>
    distinct (issuedIds (rt_log r))"
  using reachable_accounted [OF assms] by (simp add: accounted_def)

lemma requests_settled_once_witness:
  "mset (issuedIds (rt_log demoDraining)) =
     mset (settledIds (rt_log demoDraining)) + mset (pendingIds demoDraining) \<and>
   distinct (issuedIds (rt_log demoDraining))"
  by (rule requests_settled_once [OF demo_reachable(3) demoEnv_ok])

text \<open>C2. On every connection the request initialize is the first message of the client and the
  notification initialized the second, each is written at most once, and no request or notification
  of the application is written before them.\<close>

theorem handshake_before_traffic:
  assumes "reachable env r" and "env_ok env"
  shows "handshakeFirst (clientWires (writesOf epoch (rt_log r)))"
  using reachable_wired [OF assms] by (intro phase_handshakeFirst) (simp add: wired_def)

lemma handshake_before_traffic_witness:
  "handshakeFirst (clientWires (writesOf 1 (rt_log demoDraining)))"
  by (rule handshake_before_traffic [OF demo_reachable(3) demoEnv_ok])

text \<open>C3. The requests of the application are written in the order they were issued: on every
  connection their sequence numbers increase along the wire, across the queue of the handshake, its
  draining and the direct writes after it.\<close>

theorem requests_written_in_order:
  assumes "reachable env r" and "env_ok env"
  shows "sorted_wrt (<) (businessSeqs (writesOf epoch (rt_log r)))"
  using reachable_wired [OF assms] by (simp add: wired_def)

lemma requests_written_in_order_witness:
  "sorted_wrt (<) (businessSeqs (writesOf 1 (rt_log demoDraining)))"
  by (rule requests_written_in_order [OF demo_reachable(3) demoEnv_ok])

text \<open>C4. A connection that was closed, terminated or replaced is silent for ever: once an epoch
  that has been handed out is not the active one, no sequence of events writes another message with
  it, late writes, handlers and timers of the old connection included.\<close>

theorem closed_connection_silent:
  assumes "reachable env r" and "env_ok env" and "epoch \<le> rt_epochSequence r"
    and "activeConnection epoch r = None"
  shows "writesOf epoch (rt_log (run env events r)) = writesOf epoch (rt_log r)"
  using assms by (intro retired_run) (simp_all add: retired_def)

lemma demo_closed: "rt_connection demoClosed = None" "rt_epochSequence demoClosed = 1"
  by code_simp+

lemma closed_connection_silent_witness:
  "writesOf 1 (rt_log (run demoEnv [Resume 2 (Fulfilled JNull)] demoClosed)) = writesOf 1 (rt_log demoClosed)"
  by (rule closed_connection_silent [OF demo_reachable(5) demoEnv_ok])
    (simp_all add: demo_closed activeConnection_def)

text \<open>C5. Nothing waits for a segment that does not exist. In every reachable state the active
  connection is well formed (distinct identifiers in issuing order, the queue is the list of the
  queued requests and within its capacity, the handshake fields agree, a ready connection that is
  not draining has an empty queue) and live: a request is in stage writing exactly if its write is
  suspended, once; a draining connection has exactly one suspended drain loop; while initialized is
  being sent its write is suspended.\<close>

theorem connection_well_formed:
  assumes "reachable env r" and "env_ok env" and "rt_connection r = Some c"
  shows "conn_ok env c \<and> live env c (map snd (rt_tasks r))"
  using structured_connection [OF reachable_structured [OF assms(1,2)] assms(3)] by simp

lemma connection_well_formed_witness:
  "\<exists>c. rt_connection demoDraining = Some c \<and>
     conn_ok demoEnv c \<and> live demoEnv c (map snd (rt_tasks demoDraining))"
  using demo_active connection_well_formed [OF demo_reachable(3) demoEnv_ok] by metis

text \<open>C6. Draining ends. From every reachable state with a draining connection, at most twice the
  length of its queue plus two resumptions with successful writes lead to a state where the same
  connection is active, its queue is empty and it does not drain any more.\<close>

theorem draining_completes:
  assumes "reachable env r" and "env_ok env" and "rt_connection r = Some c" and "cn_draining c"
  shows "\<exists>evs. list_all completes evs \<and> length evs \<le> 2 * length (cn_queue c) + 2 \<and>
    drained (cn_epoch c) (run env evs r)"
  using assms(3,4)
  by (intro drain_completes_structured [OF reachable_structured [OF assms(1,2)] assms(2)])
    (simp_all add: activeConnection_Some)

lemma draining_completes_witness:
  "\<exists>evs. list_all completes evs \<and> length evs \<le> 4 \<and> drained 1 (run demoEnv evs demoDraining)"
proof -
  obtain c where c: "rt_connection demoDraining = Some c" "cn_epoch c = 1" "cn_draining c"
    "cn_queue c = [lit ''rpc:c:1:3'']" by (rule demo_active)
  show ?thesis
    using draining_completes [OF demo_reachable(3) demoEnv_ok c(1,3)] c(2,4) by simp
qed

text \<open>C7. The identifiers of the server that count as pending are, with multiplicity, those of the
  suspended segments that serve a request of the server on the active connection; they are distinct
  and within the capacity. So capacity never leaks and two requests with one identifier are never
  served at the same time.\<close>

theorem server_requests_tracked:
  assumes "reachable env r" and "env_ok env" and "rt_connection r = Some c"
  shows "mset (cn_pendingServerRequestIds c) = mset (serverIds (cn_epoch c) (map snd (rt_tasks r))) \<and>
    distinct (cn_pendingServerRequestIds c) \<and>
    int (length (cn_pendingServerRequestIds c)) \<le> serverRequestCapacity env"
  using reachable_served [OF assms(1,2)] assms(3) by (simp add: served_def serves_def)

lemma server_requests_tracked_witness:
  "\<exists>c. rt_connection demoServing = Some c \<and>
     mset (cn_pendingServerRequestIds c) = mset (serverIds (cn_epoch c) (map snd (rt_tasks demoServing))) \<and>
     distinct (cn_pendingServerRequestIds c) \<and>
     int (length (cn_pendingServerRequestIds c)) \<le> serverRequestCapacity demoEnv"
  using demo_connections(5) server_requests_tracked [OF demo_reachable(4) demoEnv_ok] by auto

text \<open>A response to a request of an earlier connection settles nothing on the current one: it
  is counted as stale, reported, and changes neither the connection nor the suspended segments.\<close>

theorem stale_response_ignored:
  assumes "reachable env r" and "env_ok env" and "activeConnection epoch r = Some c"
    and "validateMessage (boundary env) incoming =
      Valid (JObj (responseMessage (requestId (clientInstanceId env) old n) result))"
    and "old \<noteq> epoch" and "isSafeInt (int old)"
  shows "handleIncoming env epoch incoming r = emit (inboundDiagnostic StaleResponse epoch) (bumpStale r)"
proof -
  note a = structured_active [OF reachable_structured [OF assms(1,2)] assms(3)]
  have "lookupResponse c (IdStr (requestId (clientInstanceId env) old n)) = None"
    using stale_lookup [OF a(1) assms(2)] a(3) assms(5) by simp
  moreover have "requestEpochOf (clientInstanceId env) (IdStr (requestId (clientInstanceId env) old n)) = Some old"
    using assms(2,6) by (intro requestEpochOf_requestId) (simp_all add: env_ok_def)
  ultimately show ?thesis
    using a(3) assms(5) unfolding incoming_response [OF assms(3,4)]
    by (simp add: handleSuccessResponse_def responseRequest_def response_fields)
qed

lemma stale_response_ignored_witness:
  "handleIncoming demoEnv 1 (JObj (responseMessage (requestId (lit ''c'') 9 4) JNull)) demoDraining =
   emit (inboundDiagnostic StaleResponse 1) (bumpStale demoDraining)"
proof -
  obtain c where "rt_connection demoDraining = Some c" "cn_epoch c = 1" by (rule demo_active)
  then show ?thesis
    using stale_response_ignored [OF demo_reachable(3) demoEnv_ok, where c = c and epoch = 1 and old = 9
        and n = 4 and result = JNull and incoming = "JObj (responseMessage (requestId (lit ''c'') 9 4) JNull)"]
    by (simp add: activeConnection_Some demoEnv_def demoBoundary_def)
qed

text \<open>A valid response to a written request of the application resolves exactly that request
  with the validated value; an invalid one rejects exactly that request and reports it. No other
  request, and no other part of the history, is touched.\<close>

theorem response_settles_its_request:
  assumes "activeConnection epoch r = Some c" and "findRequest c k = Some q"
    and "rq_kind q = Business" and "rq_stage q \<noteq> Queued" and "rq_id q = k"
    and "validateMessage (boundary env) incoming = Valid (JObj (responseMessage k result))"
  shows "pendingIds (handleIncoming env epoch incoming r) = filter (\<lambda>k'. k' \<noteq> k) (pendingIds r) \<and>
    rt_log (handleIncoming env epoch incoming r) = rt_log r @
      (case rq_validateResult q result of
         Valid v \<Rightarrow> [Resolved k v]
       | NotValid d \<Rightarrow> [Emitted ((requestDiagnostic InvalidResponseResult epoch q)\<lparr>dg_validation := d\<rparr>),
                       Rejected k (RpcInvalidResultError (rq_method q))])"
proof -
  have e: "cn_epoch c = epoch" using assms(1) by (simp add: activeConnection_Some)
  have free: "\<not> initializationBlocked c q" using assms(3) by (simp add: initializationBlocked_def)
  note found = found_response [OF response_fields(4) assms(2,4)]
  show ?thesis
  proof (cases "rq_validateResult q result")
    case (Valid v)
    then show ?thesis
      using resolve_effect(1,2) [OF assms(1,2)] free assms(3,5) e
      unfolding incoming_response [OF assms(1,6)]
      by (simp add: handleSuccessResponse_def found response_fields)
  next
    case (NotValid d)
    have "activeConnection epoch (emit x r) = Some c" for x using assms(1) by simp
    note reject = resolve_effect(3,4) [OF this assms(2)]
    have "pendingIds (emit x r) = pendingIds r" "rt_log (emit x r) = rt_log r @ [Emitted x]" for x
      by (simp_all add: pendingIds_def) (simp add: emit_def logEffect_def)
    then show ?thesis
      using NotValid reject free assms(3,5) e
      unfolding incoming_response [OF assms(1,6)]
      by (simp add: handleSuccessResponse_def found response_fields failRequest_def)
  qed
qed

lemma demo_written:
  "map_option (\<lambda>c. map_option rq_id (findRequest c (lit ''rpc:c:1:2''))) (rt_connection demoDraining) =
    Some (Some (lit ''rpc:c:1:2''))"
  "map_option (\<lambda>c. map_option rq_kind (findRequest c (lit ''rpc:c:1:2''))) (rt_connection demoDraining) =
    Some (Some Business)"
  "map_option (\<lambda>c. map_option rq_stage (findRequest c (lit ''rpc:c:1:2''))) (rt_connection demoDraining) =
    Some (Some Writing)"
  by code_simp+

lemma demo_request:
  obtains c q where "activeConnection 1 demoDraining = Some c" and "findRequest c (lit ''rpc:c:1:2'') = Some q"
    and "rq_kind q = Business" and "rq_stage q \<noteq> Queued" and "rq_id q = lit ''rpc:c:1:2''"
  using demo_written demo_connections(3) by (auto simp: activeConnection_Some)

lemma response_settles_its_request_witness:
  "pendingIds (handleIncoming demoEnv 1 (JObj (responseMessage (lit ''rpc:c:1:2'') JNull)) demoDraining) =
    filter (\<lambda>k'. k' \<noteq> lit ''rpc:c:1:2'') (pendingIds demoDraining)"
proof -
  obtain c q where "activeConnection 1 demoDraining = Some c" "findRequest c (lit ''rpc:c:1:2'') = Some q"
    "rq_kind q = Business" "rq_stage q \<noteq> Queued" "rq_id q = lit ''rpc:c:1:2''" by (rule demo_request)
  then show ?thesis
    using response_settles_its_request [where env = demoEnv and result = JNull
        and incoming = "JObj (responseMessage (lit ''rpc:c:1:2'') JNull)"]
    by (simp add: demoEnv_def demoBoundary_def)
qed

text \<open>An error response with a numeric code and a text rejects exactly its request with that
  code and text; one whose error object is malformed settles nothing.\<close>

theorem error_response_rejects:
  assumes "activeConnection epoch r = Some c" and "findRequest c k = Some q"
    and "rq_kind q = Business" and "rq_stage q \<noteq> Queued" and "rq_id q = k"
    and "validateMessage (boundary env) incoming = Valid (JObj (errorMessage k (JObj error)))"
  shows "handleIncoming env epoch incoming r =
    (case field error ''message'' of
       JStr msg \<Rightarrow> if isNumber (field error ''code'')
         then rejectRequest epoch k (RpcRemoteError (field error ''code'') msg) r else r
     | _ \<Rightarrow> r)"
proof -
  have e: "cn_epoch c = epoch" using assms(1) by (simp add: activeConnection_Some)
  have free: "\<not> initializationBlocked c q" using assms(3) by (simp add: initializationBlocked_def)
  show ?thesis
    using free assms(3,5) e unfolding incoming_error [OF assms(1,6)]
    by (simp add: handleErrorResponse_def found_response [OF response_fields(9) assms(2,4)]
        response_fields asRecord_def failRequest_def split: jsval.split)
qed

lemma error_response_rejects_witness:
  "handleIncoming demoEnv 1 (JObj (errorMessage (lit ''rpc:c:1:2'')
      (JObj [jprop ''code'' (JInt 3), jprop ''message'' (JStr (lit ''no''))]))) demoDraining =
   rejectRequest 1 (lit ''rpc:c:1:2'') (RpcRemoteError (JInt 3) (lit ''no'')) demoDraining"
proof -
  obtain c q where "activeConnection 1 demoDraining = Some c" "findRequest c (lit ''rpc:c:1:2'') = Some q"
    "rq_kind q = Business" "rq_stage q \<noteq> Queued" "rq_id q = lit ''rpc:c:1:2''" by (rule demo_request)
  then show ?thesis
    using error_response_rejects [where env = demoEnv
        and error = "[jprop ''code'' (JInt 3), jprop ''message'' (JStr (lit ''no''))]"
        and incoming = "JObj (errorMessage (lit ''rpc:c:1:2'')
          (JObj [jprop ''code'' (JInt 3), jprop ''message'' (JStr (lit ''no''))]))"]
    by (simp add: demoEnv_def demoBoundary_def isNumber_def lit_def)
qed

text \<open>The epoch in a request identifier is read back: for a client instance without a colon,
  which a UUID is, the identifier of epoch and sequence is parsed to that epoch, and no two pairs of
  epoch and sequence share an identifier.\<close>

theorem request_identifiers_round_trip:
  assumes "0x3A \<notin> set cid" and "isSafeInt (int epoch)"
  shows "requestEpochOf cid (IdStr (requestId cid epoch n)) = Some epoch \<and>
    (requestId cid epoch n = requestId cid epoch' n' \<longleftrightarrow> epoch = epoch' \<and> n = n')"
  using requestEpochOf_requestId [OF assms] requestId_inject [OF assms(1)] by blast

lemma request_identifiers_round_trip_witness:
  "requestEpochOf (lit ''c'') (IdStr (requestId (lit ''c'') 12 7)) = Some 12 \<and>
   (requestId (lit ''c'') 12 7 = requestId (lit ''c'') 1 27 \<longleftrightarrow> (12::nat) = 1 \<and> (7::nat) = 27)"
  by (rule request_identifiers_round_trip) (simp_all add: lit_def)

text \<open>The handshake completes: when a valid response to the written request initialize
  arrives and the notification initialized is then written, the connection is ready and the promise
  of initialize is resolved with the validated response.\<close>

theorem handshake_completes:
  assumes "reachable env r" and "env_ok env" and "activeConnection epoch r = Some c"
    and "cn_initializationRequest c = Some k" and "cn_initializationState c = Initializing"
    and "findRequest c k = Some q" and "rq_stage q = Pending"
    and "validateMessage (boundary env) incoming = Valid (JObj (responseMessage k result))"
    and "rq_validateResult q result = Valid response"
  shows "(let r' = run env [Incoming epoch incoming, Resume (rt_nextTask r) (Fulfilled JNull)] r in
    Resolved k response \<in> set (rt_log r') \<and>
    map_option cn_initializationState (activeConnection epoch r') = Some Ready)"
proof -
  have s: "structured env [] r" by (rule reachable_structured [OF assms(1,2)])
  note a = structured_active [OF s assms(3)]
  have kind: "rq_kind q = Initialization" and id: "rq_id q = k"
    using initialization_request [OF a(1) assms(6)] findRequest_id [OF a(1) assms(6)] assms(4) by simp_all
  have none: "cn_initializationResponse c = None"
  proof (rule ccontr)
    assume "cn_initializationResponse c \<noteq> None"
    moreover have "(k, q) \<in> set (cn_requests c)" using findRequest_Some [OF a(1)] assms(6) by simp
    ultimately show False
      using a(1) kind assms(7) by (fastforce simp: conn_ok_def handshake_ok_def)
  qed
  have free: "\<not> initializationBlocked c q" using assms(4,5) id none by (simp add: initializationBlocked_def)
  define r1 where "r1 = addTask (TWriteInitialized epoch k response)
    (logEffect (Wrote epoch WireInitialized) (setConnection (sendingInitialized c) r))"
  have "handleIncoming env epoch incoming r = r1"
    using free kind id assms(7,9) a(3) unfolding incoming_response [OF assms(3,8)]
    by (simp add: handleSuccessResponse_def found_response [OF response_fields(4) assms(6)] response_fields
        completeInitialization_goes [OF assms(3,6,5)] r1_def)
  then have one: "run env [Incoming epoch incoming] r = r1" by (simp add: step_def)
  have s1: "structured env [] r1"
    using structured_step [OF s assms(2), of "Incoming epoch incoming"] one by simp
  have c1: "activeConnection epoch r1 = Some (sendingInitialized c)"
    using a(3) by (simp add: r1_def sendingInitialized_def)
  have t1: "map_of (rt_tasks r1) (rt_nextTask r) = Some (TWriteInitialized epoch k response)"
    using new_task_found [OF s, of "\<lambda>_. True"]
    by (simp add: r1_def addTask_def logEffect_def setConnection_def)
  have find: "findRequest (sendingInitialized c) k = Some q"
    using assms(6) by (simp add: findRequest_def sendingInitialized_def)
  let ?r2 = "logEffect (Resolved k response)
    (setConnection (becomeReady k (sendingInitialized c)) (without (rt_nextTask r) r1))"
  have c2: "activeConnection epoch ?r2 = Some (becomeReady k (sendingInitialized c))"
    using a(3) by (simp add: becomeReady_def sendingInitialized_def)
  have step2: "step env (Resume (rt_nextTask r) (Fulfilled JNull)) r1 = resumeDrain epoch ?r2"
    using initializedWritten_ready [of epoch "without (rt_nextTask r) r1", OF _ find] c1
    by (simp add: step_resume [OF t1] runTask_def succeeded_def sendingInitialized_def)
  have ok2: "conn_ok env (becomeReady k (sendingInitialized c))"
    using becomeReady_ok [OF sendingInitialized_ok [OF a(1) assms(5)]] assms(4)
    by (simp add: sendingInitialized_def)
  have "Resolved k response \<in> set (rt_log (resumeDrain epoch ?r2)) \<and>
    map_option cn_initializationState (activeConnection epoch (resumeDrain epoch ?r2)) = Some Ready"
  proof (cases "cn_queue (becomeReady k (sendingInitialized c))")
    case Nil
    show ?thesis
      unfolding resumeDrain_empty [OF c2 Nil] using a(3)
      by (simp add: becomeReady_def sendingInitialized_def) (simp add: logEffect_def)
  next
    case (Cons k' rest)
    obtain q' where q': "findRequest (becomeReady k (sendingInitialized c)) k' = Some q'"
      using queued_found [OF ok2, of k'] Cons by auto
    show ?thesis
      unfolding resumeDrain_head [OF c2 Cons q'] using a(3)
      by (simp add: becomeReady_def sendingInitialized_def) (simp add: logEffect_def addTask_def)
  qed
  then show ?thesis using one step2 by (simp add: Let_def)
qed

definition demoWritten :: router where
  "demoWritten = run demoEnv [Resume 0 (Fulfilled JNull)] demoQueued"

lemma demo_written_state:
  "map_option cn_epoch (rt_connection demoWritten) = Some 1"
  "map_option cn_initializationState (rt_connection demoWritten) = Some Initializing"
  "map_option cn_initializationRequest (rt_connection demoWritten) = Some (Some (lit ''rpc:c:1:1''))"
  "map_option (\<lambda>c. map_option rq_stage (findRequest c (lit ''rpc:c:1:1''))) (rt_connection demoWritten) =
    Some (Some Pending)"
  "map_option (\<lambda>c. map_option (\<lambda>q. rq_validateResult q JNull) (findRequest c (lit ''rpc:c:1:1'')))
    (rt_connection demoWritten) = Some (Some (Valid JNull))"
  "rt_nextTask demoWritten = 1"
  by code_simp+

lemma handshake_completes_witness:
  "Resolved (lit ''rpc:c:1:1'') JNull \<in> set (rt_log (run demoEnv
    [Incoming 1 (JObj (responseMessage (lit ''rpc:c:1:1'') JNull)), Resume 1 (Fulfilled JNull)] demoWritten))"
proof -
  have r: "reachable demoEnv demoWritten"
    unfolding demoWritten_def by (rule reachable_run) (rule demo_reachable)
  obtain c where c: "rt_connection demoWritten = Some c" "cn_epoch c = 1"
    "cn_initializationState c = Initializing" "cn_initializationRequest c = Some (lit ''rpc:c:1:1'')"
    using demo_written_state(1-3) by auto
  obtain q where q: "findRequest c (lit ''rpc:c:1:1'') = Some q" "rq_stage q = Pending"
    "rq_validateResult q JNull = Valid JNull"
    using demo_written_state(4,5) c(1) by auto
  have "validateMessage (boundary demoEnv) (JObj (responseMessage (lit ''rpc:c:1:1'') JNull)) =
      Valid (JObj (responseMessage (lit ''rpc:c:1:1'') JNull))"
    by (simp add: demoEnv_def demoBoundary_def)
  then show ?thesis
    using handshake_completes [OF r demoEnv_ok _ c(4,3) q(1,2) _ q(3), of 1] c(1,2) demo_written_state(6)
    by (simp add: activeConnection_Some Let_def)
qed

text \<open>A second request of the server with an identifier that is still pending cannot be
  answered: it is reported as invalid, the connection is terminated, every pending promise of the
  client is rejected in the order of issue, and the owner is told of the failed task.\<close>

theorem duplicate_server_request_terminates:
  assumes "activeConnection epoch r = Some c" and "rid \<in> set (cn_pendingServerRequestIds c)"
    and "validateMessage (boundary env) incoming = Valid (JObj message)"
    and "field message ''method'' = JStr method" and "hasOwn message (lit ''id'')"
    and "requestIdOf message = Some rid"
  shows "rt_connection (handleIncoming env epoch incoming r) = None \<and>
    rt_log (handleIncoming env epoch incoming r) = rt_log r @
      [Emitted ((inboundDiagnostic InvalidServerRequest epoch)\<lparr>dg_errorCode := Some INVALID_REQUEST\<rparr>)] @
      map (\<lambda>k. Rejected k (RpcConnectionError ''Server request response failed'')) (pendingIds r) @
      [InboundTaskFailure epoch]"
proof -
  have c: "rt_connection r = Some c" "cn_epoch c = epoch" using assms(1) by (simp_all add: activeConnection_Some)
  have "handleIncoming env epoch incoming r = failInboundTask epoch
      (emit ((inboundDiagnostic InvalidServerRequest epoch)\<lparr>dg_errorCode := Some INVALID_REQUEST\<rparr>) r)"
    using assms c(2) by (simp add: handleIncoming_def asRecord_def dispatchServerRequest_def)
  then show ?thesis
    using c by (simp add: failInboundTask_def terminateConnection_def activeConnection_Some
        dropConnection_def rejectAll_def emit_def logEffect_def pendingIds_def split_def
        activeConnection_def)
qed

lemma duplicate_server_request_terminates_witness:
  "rt_connection (handleIncoming demoEnv 1
     (JObj [jprop ''id'' (JInt 5), jprop ''method'' (JStr (lit ''ask''))]) demoServing) = None"
proof -
  obtain c where "rt_connection demoServing = Some c" "cn_epoch c = 1"
    "cn_pendingServerRequestIds c = [IdInt 5]"
    using demo_connections(5,6) by auto
  then show ?thesis
    using duplicate_server_request_terminates [of 1 demoServing c "IdInt 5" demoEnv
        "JObj [jprop ''id'' (JInt 5), jprop ''method'' (JStr (lit ''ask''))]"
        "[jprop ''id'' (JInt 5), jprop ''method'' (JStr (lit ''ask''))]" "lit ''ask''"]
    by (simp add: activeConnection_Some demoEnv_def demoBoundary_def requestIdOf_def lit_def)
qed

text \<open>The request initialize always asks for the experimental interface: whatever the caller
  passes as capabilities, the message that is written carries experimentalApi true and every other
  capability and parameter of the caller unchanged.\<close>

theorem initialize_asks_experimental:
  assumes "reachable env r" and "env_ok env" and "initialize env (JObj params) r = Inr (k, r')"
  shows "\<exists>c n ps caps. rt_connection r = Some c \<and>
    rt_log r' = rt_log r @ [Issued k, Wrote (cn_epoch c) (WireRequest Initialization n
      (requestMessage k (lit ''initialize'') (JObj ps)))] \<and>
    field ps ''capabilities'' = JObj caps \<and> field caps ''experimentalApi'' = JBool True \<and>
    (\<forall>p. p \<noteq> lit ''capabilities'' \<longrightarrow> getProp ps p = getProp params p) \<and>
    (\<forall>p. p \<noteq> lit ''experimentalApi'' \<longrightarrow>
       getProp caps p = getProp (spread (field params ''capabilities'')) p)"
proof -
  obtain c q where c: "rt_connection r = Some c"
    and q: "q = newRequest env c Initialization (lit ''initialize'') (protectedParams (JObj params))
      (validateInitializeResponse (boundary env)) Writing"
    and k: "k = rq_id q" and r': "r' = issuedWriting q (startedConnection q c) r"
    using initialize_Inr [OF assms(3,2) reachable_structured [OF assms(1,2)]] by metis
  define caps where "caps = setProp (spread (field params ''capabilities'')) (lit ''experimentalApi'') (JBool True)"
  define ps where "ps = setProp params (lit ''capabilities'') (JObj caps)"
  have pp: "protectedParams (JObj params) = JObj ps"
    by (simp add: protectedParams_def ps_def caps_def spread_def)
  have "rt_log r' = rt_log r @ [Issued k, Wrote (cn_epoch c) (WireRequest Initialization (rq_seq q)
      (requestMessage k (lit ''initialize'') (JObj ps)))]"
    unfolding r' issuedWriting_simps by (simp add: q k pp startedConnection_def)
  moreover have "field ps ''capabilities'' = JObj caps" "field caps ''experimentalApi'' = JBool True"
    by (simp_all add: ps_def caps_def getProp_setProp)
  moreover have "\<forall>p. p \<noteq> lit ''capabilities'' \<longrightarrow> getProp ps p = getProp params p"
    "\<forall>p. p \<noteq> lit ''experimentalApi'' \<longrightarrow> getProp caps p = getProp (spread (field params ''capabilities'')) p"
    by (simp_all add: ps_def caps_def getProp_setProp)
  ultimately show ?thesis using c by blast
qed

lemma initialize_asks_experimental_witness:
  "\<exists>r' c n ps caps. initialize demoEnv (JObj []) demoOpen = Inr (lit ''rpc:c:1:1'', r') \<and>
    rt_connection demoOpen = Some c \<and> rt_log r' = rt_log demoOpen @ [Issued (lit ''rpc:c:1:1''),
      Wrote (cn_epoch c) (WireRequest Initialization n
        (requestMessage (lit ''rpc:c:1:1'') (lit ''initialize'') (JObj ps)))] \<and>
    field ps ''capabilities'' = JObj caps \<and> field caps ''experimentalApi'' = JBool True"
proof -
  have "map_sum id fst (initialize demoEnv (JObj []) demoOpen) = Inr (lit ''rpc:c:1:1'')"
    by code_simp
  then obtain r' where i: "initialize demoEnv (JObj []) demoOpen = Inr (lit ''rpc:c:1:1'', r')"
    by (cases "initialize demoEnv (JObj []) demoOpen") auto
  show ?thesis
    using initialize_asks_experimental [OF demo_reachable(1) demoEnv_ok i] i
    by (elim exE conjE) (intro exI conjI, assumption+)
qed

end
