(* ===== verification/ConfigModel.thy ===== *)
theory ConfigModel
  imports JsValue
begin

text \<open>
  The data of the configuration contract, \<open>src/configuration/model.ts\<close>: one record per
  interface, one datatype per union. A field name carries the initials of its interface, since a
  field name is global here. String literal unions are datatypes; a numeric field is an
  \<open>int\<close>, an optional field an \<open>option\<close>, a string map the list of its entries.
\<close>

type_synonym ServerId = jstr
type_synonym ProxyId = jstr
type_synonym NonSensitiveValues = "(jstr \<times> jstr) list"
type_synonym SensitiveEnvironmentValues = "(jstr \<times> jstr) list"

datatype RemoteServerAuthentication = RsaNone | RsaBearer
datatype TlsCertificatePolicy = TlsStrict | TlsAllowInvalidCertificate

record LocalStdioServerConfiguration =
  ls_executablePath :: jstr
  ls_arguments :: "jstr list"
  ls_defaultWorkingDirectory :: "jstr option"
  ls_nonSensitiveEnvironment :: NonSensitiveValues

record RemoteWebSocketServerConfiguration =
  ws_url :: jstr
  ws_authentication :: RemoteServerAuthentication
  ws_nonSensitiveHeaders :: NonSensitiveValues
  ws_connectTimeoutMs :: int
  ws_tlsCertificatePolicy :: TlsCertificatePolicy
  ws_plaintextConfirmed :: bool
  ws_proxyId :: "ProxyId option"

datatype ServerConfiguration =
    LocalStdio LocalStdioServerConfiguration
  | RemoteWebSocket RemoteWebSocketServerConfiguration

record ServerProfile =
  sp_serverId :: ServerId
  sp_name :: jstr
  sp_version :: int
  sp_configuration :: ServerConfiguration
  sp_credentialConfigured :: bool
  sp_activeWindowCount :: int
  sp_createdAtMs :: int
  sp_updatedAtMs :: int
  sp_lastUsedAtMs :: "int option"

datatype HttpProxyAuthentication = HpaNone | HpaBasic | HpaBearer
datatype Socks5Authentication = SkaNone | SkaUsernamePassword
datatype Socks5DnsResolution = DnsProxy | DnsLocal

datatype SshAuthenticationConfiguration =
    SshAgent
  | SshPrivateKey jstr
  | SshPassword

record HttpConnectProxyConfiguration =
  hp_url :: jstr
  hp_authentication :: HttpProxyAuthentication
  hp_username :: "jstr option"
  hp_nonSensitiveHeaders :: NonSensitiveValues
  hp_connectTimeoutMs :: int
  hp_tlsCertificatePolicy :: TlsCertificatePolicy

record Socks5ProxyConfiguration =
  sk_host :: jstr
  sk_port :: int
  sk_authentication :: Socks5Authentication
  sk_username :: "jstr option"
  sk_dnsResolution :: Socks5DnsResolution
  sk_connectTimeoutMs :: int

record SshProxyConfiguration =
  sh_host :: jstr
  sh_port :: int
  sh_username :: jstr
  sh_authentication :: SshAuthenticationConfiguration
  sh_connectTimeoutMs :: int
  sh_keepAliveIntervalMs :: int
  sh_keepAliveMaxFailures :: int

datatype ProxyConfiguration =
    HttpConnect HttpConnectProxyConfiguration
  | Socks5 Socks5ProxyConfiguration
  | Ssh SshProxyConfiguration

record SshHostKeyRecord =
  hk_host :: jstr
  hk_port :: int
  hk_algorithm :: jstr
  hk_sha256Fingerprint :: jstr
  hk_confirmedAtMs :: int

datatype ProxyTestStatus = TestSucceeded | TestFailed

record ProxyLastTest =
  lt_status :: ProxyTestStatus
  lt_testedAtMs :: int

record ProxyProfile =
  pp_proxyId :: ProxyId
  pp_name :: jstr
  pp_version :: int
  pp_configuration :: ProxyConfiguration
  pp_credentialConfigured :: bool
  pp_sshHostKey :: "SshHostKeyRecord option"
  pp_lastTest :: "ProxyLastTest option"
  pp_referencedServerCount :: int
  pp_createdAtMs :: int
  pp_updatedAtMs :: int

record ConfigurationSnapshot =
  cs_servers :: "ServerProfile list"
  cs_proxies :: "ProxyProfile list"

datatype CredentialStorageBackend = SecretService | PlaintextFile | MixedBackend

subsection \<open>Requests\<close>

text \<open>
  The normalised form of a request has every field of its input type; the input configurations
  have the fields of the stored ones once normalised, so their types are shared.
\<close>

type_synonym ServerConfigurationInput = ServerConfiguration
type_synonym ProxyConfigurationInput = ProxyConfiguration

record CreateServerProfileRequest =
  csr_name :: jstr
  csr_configuration :: ServerConfigurationInput

record UpdateServerProfileRequest =
  usr_serverId :: ServerId
  usr_expectedVersion :: int
  usr_name :: jstr
  usr_configuration :: ServerConfigurationInput

record DeleteServerProfileRequest =
  dsr_serverId :: ServerId
  dsr_expectedVersion :: int

record CreateProxyProfileRequest =
  cpr_name :: jstr
  cpr_configuration :: ProxyConfigurationInput

record UpdateProxyProfileRequest =
  upr_proxyId :: ProxyId
  upr_expectedVersion :: int
  upr_name :: jstr
  upr_configuration :: ProxyConfigurationInput

record DeleteProxyProfileRequest =
  dpr_proxyId :: ProxyId
  dpr_expectedVersion :: int

record RemoveProxySshHostKeyRequest =
  rhk_proxyId :: ProxyId
  rhk_expectedVersion :: int

record ConfirmProxySshHostKeyRequest =
  chk_proxyId :: ProxyId
  chk_expectedVersion :: int
  chk_host :: jstr
  chk_port :: int
  chk_algorithm :: jstr
  chk_sha256Fingerprint :: jstr

record RecordProxyTestRequest =
  rpt_proxyId :: ProxyId
  rpt_expectedVersion :: int
  rpt_status :: ProxyTestStatus

datatype ServerCredential =
    SensitiveEnvironment SensitiveEnvironmentValues
  | BearerToken jstr

datatype ServerCredentialType = SensitiveEnvironmentType | BearerTokenType

record SetServerCredentialRequest =
  ssc_serverId :: ServerId
  ssc_expectedVersion :: int
  ssc_credential :: ServerCredential
  ssc_plaintextFallbackConfirmed :: "bool option"

record ClearServerCredentialRequest =
  clsc_serverId :: ServerId
  clsc_expectedVersion :: int
  clsc_credentialType :: ServerCredentialType

datatype ProxyCredentialType =
    HttpBasicPassword
  | HttpBearerToken
  | Socks5Password
  | SshPrivateKeyPassphrase
  | SshPasswordCredential

record ProxyCredential =
  pc_type :: ProxyCredentialType
  pc_value :: jstr

record SetProxyCredentialRequest =
  spc_proxyId :: ProxyId
  spc_expectedVersion :: int
  spc_credential :: ProxyCredential
  spc_plaintextFallbackConfirmed :: "bool option"

record ClearProxyCredentialRequest =
  clpc_proxyId :: ProxyId
  clpc_expectedVersion :: int
  clpc_credentialType :: ProxyCredentialType

end
