(* ===== verification/ConfigBasics.thy ===== *)
theory ConfigBasics
  imports ConfigModel
begin

text \<open>
  The building blocks of \<open>src/configuration/validation.ts\<close>: the exception, the
  \<open>expect...\<close> readers of untyped values, the recognisers of sensitive names and the
  \<open>validate...\<close> checks. Every function takes the path that its error names.

  The URL parser of the platform, \<open>new URL(text)\<close>, is not part of the repository: it is the
  parameter \<open>U\<close> of the functions that use it, \<open>None\<close> where the constructor throws.
\<close>

datatype contract_error = ConfigurationContractError jstr jstr

definition invalid :: "jstr \<Rightarrow> string \<Rightarrow> contract_error + 'a" where
  "invalid path problem = Inl (ConfigurationContractError path (lit problem))"

text \<open>The statement \<open>if (bad) return invalid(path, problem)\<close>.\<close>

definition rejectIf :: "bool \<Rightarrow> jstr \<Rightarrow> string \<Rightarrow> contract_error + unit" where
  "rejectIf bad path problem = (if bad then invalid path problem else Inr ())"

text \<open>The template \<open>path.key\<close>.\<close>

definition dotted :: "jstr \<Rightarrow> string \<Rightarrow> jstr" where
  "dotted path key = path @ lit ''.'' @ lit key"

definition indexed :: "jstr \<Rightarrow> nat \<Rightarrow> jstr" where
  "indexed path index = path @ lit ''['' @ decDigits index @ lit '']''"

record parsed_url =
  url_protocol :: jstr
  url_username :: jstr
  url_password :: jstr
  url_hostname :: jstr
  url_pathname :: jstr
  url_searchKeys :: "jstr list"

type_synonym url_parser = "jstr \<Rightarrow> parsed_url option"

subsection \<open>Limits\<close>

definition MAX_NAME_BYTES :: nat where [simp]: "MAX_NAME_BYTES = 128"
definition MAX_PATH_BYTES :: nat where [simp]: "MAX_PATH_BYTES = 4096"
definition MAX_ARGUMENT_COUNT :: nat where [simp]: "MAX_ARGUMENT_COUNT = 128"
definition MAX_ARGUMENT_BYTES :: nat where [simp]: "MAX_ARGUMENT_BYTES = 4096"
definition MAX_ENVIRONMENT_COUNT :: nat where [simp]: "MAX_ENVIRONMENT_COUNT = 64"
definition MAX_ENVIRONMENT_NAME_BYTES :: nat where [simp]: "MAX_ENVIRONMENT_NAME_BYTES = 128"
definition MAX_ENVIRONMENT_VALUE_BYTES :: nat where [simp]: "MAX_ENVIRONMENT_VALUE_BYTES = 8192"
definition MAX_HTTP_BASIC_PASSWORD_BYTES :: nat where [simp]: "MAX_HTTP_BASIC_PASSWORD_BYTES = 5882"
definition MAX_BEARER_TOKEN_BYTES :: nat where [simp]: "MAX_BEARER_TOKEN_BYTES = 8185"
definition MAX_SOCKS5_PASSWORD_BYTES :: nat where [simp]: "MAX_SOCKS5_PASSWORD_BYTES = 255"
definition MAX_SSH_SECRET_BYTES :: nat where [simp]: "MAX_SSH_SECRET_BYTES = 8192"
definition MAX_URL_BYTES :: nat where [simp]: "MAX_URL_BYTES = 4096"
definition MAX_HEADER_COUNT :: nat where [simp]: "MAX_HEADER_COUNT = 32"
definition MAX_HEADER_NAME_BYTES :: nat where [simp]: "MAX_HEADER_NAME_BYTES = 128"
definition MAX_HEADER_VALUE_BYTES :: nat where [simp]: "MAX_HEADER_VALUE_BYTES = 8192"
definition MAX_HOST_BYTES :: nat where [simp]: "MAX_HOST_BYTES = 253"
definition MAX_USERNAME_BYTES :: nat where [simp]: "MAX_USERNAME_BYTES = 255"
definition MAX_ALGORITHM_BYTES :: nat where [simp]: "MAX_ALGORITHM_BYTES = 128"
definition MIN_CONNECT_TIMEOUT_MS :: int where [simp]: "MIN_CONNECT_TIMEOUT_MS = 1000"
definition MAX_CONNECT_TIMEOUT_MS :: int where [simp]: "MAX_CONNECT_TIMEOUT_MS = 120000"
definition MIN_KEEP_ALIVE_INTERVAL_MS :: int where [simp]: "MIN_KEEP_ALIVE_INTERVAL_MS = 1000"
definition MAX_KEEP_ALIVE_INTERVAL_MS :: int where [simp]: "MAX_KEEP_ALIVE_INTERVAL_MS = 300000"
definition MAX_KEEP_ALIVE_FAILURES :: int where [simp]: "MAX_KEEP_ALIVE_FAILURES = 10"
definition DEFAULT_SSH_PORT :: int where [simp]: "DEFAULT_SSH_PORT = 22"

subsection \<open>Patterns\<close>

text \<open>The anchored regular expressions, as lists of character classes or tests on the runs.\<close>

definition UUID_PATTERN :: "jstr \<Rightarrow> bool" where
  "UUID_PATTERN s = matchesClasses
     (replicate 8 cu_hex @ [\<lambda>c. c = 0x2D] @ replicate 4 cu_hex @ [\<lambda>c. c = 0x2D] @
      [\<lambda>c. c = 0x34] @ replicate 3 cu_hex @ [\<lambda>c. c = 0x2D] @
      [\<lambda>c. c \<in> {0x38, 0x39, 0x61, 0x62}] @ replicate 3 cu_hex @ [\<lambda>c. c = 0x2D] @
      replicate 12 cu_hex) s"

definition SSH_SHA256_FINGERPRINT_PATTERN :: "jstr \<Rightarrow> bool" where
  "SSH_SHA256_FINGERPRINT_PATTERN s = matchesClasses
     (map (\<lambda>a c. c = a) (lit ''SHA256:'') @
      replicate 42 (\<lambda>c. cu_alnum c \<or> c \<in> {0x2B, 0x2F}) @
      [\<lambda>c. c \<in> {0x41, 0x51, 0x67, 0x77}]) s"

definition HTTP_HEADER_NAME_PATTERN :: "jstr \<Rightarrow> bool" where
  "HTTP_HEADER_NAME_PATTERN s \<longleftrightarrow> s \<noteq> [] \<and>
     list_all (\<lambda>c. cu_alnum c \<or> c \<in> set (lit ''!#$%&'' @ [0x27] @ lit ''*+-.^_'' @ [0x60] @ lit ''|~'')) s"

definition CONTROL_CHARACTER_PATTERN :: "jstr \<Rightarrow> bool" where
  "CONTROL_CHARACTER_PATTERN s = list_ex cu_control s"

definition cu_bearer :: "code_unit \<Rightarrow> bool" where
  "cu_bearer c \<longleftrightarrow> cu_alnum c \<or> c \<in> set (lit ''.-_~+/'')"

definition BEARER_TOKEN_PATTERN :: "jstr \<Rightarrow> bool" where
  "BEARER_TOKEN_PATTERN s \<longleftrightarrow>
     takeWhile cu_bearer s \<noteq> [] \<and> list_all (\<lambda>c. c = 0x3D) (dropWhile cu_bearer s)"

text \<open>\<open>/^[A-Za-z_][A-Za-z0-9_]*$/\<close>\<close>

definition ENVIRONMENT_NAME_PATTERN :: "jstr \<Rightarrow> bool" where
  "ENVIRONMENT_NAME_PATTERN s \<longleftrightarrow>
     (case s of [] \<Rightarrow> False
      | c # cs \<Rightarrow> (cu_lower c \<or> cu_upper c \<or> c = 0x5F) \<and>
                 list_all (\<lambda>d. cu_alnum d \<or> d = 0x5F) cs)"

subsection \<open>Readers of untyped values\<close>

definition byteLength :: "jstr \<Rightarrow> nat" where
  "byteLength value = utf8Length value"

definition expectRecord :: "jsval \<Rightarrow> jstr \<Rightarrow> contract_error + jsrecord" where
  "expectRecord value path =
     (case value of JObj r \<Rightarrow> Inr r | _ \<Rightarrow> invalid path ''expected an object'')"

fun requireKeys :: "jsrecord \<Rightarrow> string list \<Rightarrow> jstr \<Rightarrow> contract_error + unit" where
  "requireKeys r [] path = Inr ()"
| "requireKeys r (key # keys) path =
     (if hasOwn r (lit key) then requireKeys r keys path
      else invalid (dotted path key) ''is required'')"

definition allowedKey :: "string list \<Rightarrow> string list \<Rightarrow> jskey \<Rightarrow> bool" where
  "allowedKey required optional key =
     (case key of KStr s \<Rightarrow> s \<in> set (map lit (required @ optional)) | KSym _ \<Rightarrow> False)"

definition assertExactKeys ::
  "jsrecord \<Rightarrow> string list \<Rightarrow> string list \<Rightarrow> jstr \<Rightarrow> contract_error + unit" where
  "assertExactKeys r required optional path =
     (if list_all (allowedKey required optional) (ownKeys r)
      then requireKeys r required path
      else invalid path ''contains an unknown field'')"

definition expectString :: "jsval \<Rightarrow> jstr \<Rightarrow> contract_error + jstr" where
  "expectString value path =
     (case value of JStr s \<Rightarrow> Inr s | _ \<Rightarrow> invalid path ''expected a string'')"

definition expectBoolean :: "jsval \<Rightarrow> jstr \<Rightarrow> contract_error + bool" where
  "expectBoolean value path =
     (case value of JBool b \<Rightarrow> Inr b | _ \<Rightarrow> invalid path ''expected a boolean'')"

text \<open>The allowed literals come with the constructor that stands for each.\<close>

definition enumLookup :: "(string \<times> 'a) list \<Rightarrow> jstr \<Rightarrow> 'a option" where
  "enumLookup allowed s = map_of (map (\<lambda>(name, x). (lit name, x)) allowed) s"

definition expectEnum :: "jsval \<Rightarrow> (string \<times> 'a) list \<Rightarrow> jstr \<Rightarrow> contract_error + 'a" where
  "expectEnum value allowed path =
     (case value of
        JStr s \<Rightarrow> (case enumLookup allowed s of
            Some x \<Rightarrow> Inr x
          | None \<Rightarrow> invalid path ''contains an unsupported enum value'')
      | _ \<Rightarrow> invalid path ''contains an unsupported enum value'')"

definition expectSafeInteger :: "jsval \<Rightarrow> jstr \<Rightarrow> contract_error + int" where
  "expectSafeInteger value path =
     (case value of
        JInt i \<Rightarrow> if isSafeInt i then Inr i else invalid path ''expected a safe integer''
      | _ \<Rightarrow> invalid path ''expected a safe integer'')"

definition expectVersion :: "jsval \<Rightarrow> jstr \<Rightarrow> contract_error + int" where
  "expectVersion value path =
     bindE (expectSafeInteger value path) (\<lambda>version.
     bindE (rejectIf (version \<le> 0) path ''expected a positive version'') (\<lambda>_.
     Inr version))"

definition expectTimestamp :: "jsval \<Rightarrow> jstr \<Rightarrow> contract_error + int" where
  "expectTimestamp value path =
     bindE (expectSafeInteger value path) (\<lambda>timestamp.
     bindE (rejectIf (timestamp < 0) path ''expected a non-negative Unix timestamp'') (\<lambda>_.
     Inr timestamp))"

definition expectNonNegativeCount :: "jsval \<Rightarrow> jstr \<Rightarrow> contract_error + int" where
  "expectNonNegativeCount value path =
     bindE (expectSafeInteger value path) (\<lambda>count.
     bindE (rejectIf (count < 0) path ''expected a non-negative count'') (\<lambda>_.
     Inr count))"

definition expectPort :: "jsval \<Rightarrow> jstr \<Rightarrow> contract_error + int" where
  "expectPort value path =
     bindE (expectSafeInteger value path) (\<lambda>port.
     bindE (rejectIf (port < 1 \<or> port > 65535) path ''expected a TCP port'') (\<lambda>_.
     Inr port))"

definition expectServerId :: "jsval \<Rightarrow> jstr \<Rightarrow> contract_error + ServerId" where
  "expectServerId value path =
     bindE (expectString value path) (\<lambda>identifier.
     bindE (rejectIf (\<not> UUID_PATTERN identifier) path ''expected a canonical UUID'') (\<lambda>_.
     Inr identifier))"

definition expectProxyId :: "jsval \<Rightarrow> jstr \<Rightarrow> contract_error + ProxyId" where
  "expectProxyId value path =
     bindE (expectString value path) (\<lambda>identifier.
     bindE (rejectIf (\<not> UUID_PATTERN identifier) path ''expected a canonical UUID'') (\<lambda>_.
     Inr identifier))"

fun arrayEntries ::
  "(jsval \<Rightarrow> jstr \<Rightarrow> contract_error + 'a) \<Rightarrow> jstr \<Rightarrow> nat \<Rightarrow> jsval option list \<Rightarrow> contract_error + 'a list"
where
  "arrayEntries parse path index [] = Inr []"
| "arrayEntries parse path index (None # slots) =
     invalid (indexed path index) ''array entries must not be sparse''"
| "arrayEntries parse path index (Some v # slots) =
     bindE (parse v (indexed path index)) (\<lambda>x.
     bindE (arrayEntries parse path (Suc index) slots) (\<lambda>xs.
     Inr (x # xs)))"

definition expectArray ::
  "jsval \<Rightarrow> jstr \<Rightarrow> (jsval \<Rightarrow> jstr \<Rightarrow> contract_error + 'a) \<Rightarrow> contract_error + 'a list" where
  "expectArray value path parse =
     (case value of JArr slots \<Rightarrow> arrayEntries parse path 0 slots
      | _ \<Rightarrow> invalid path ''expected an array'')"

definition expectStringArray :: "jsval \<Rightarrow> jstr \<Rightarrow> contract_error + jstr list" where
  "expectStringArray value path =
     (case value of JArr slots \<Rightarrow> arrayEntries expectString path 0 slots
      | _ \<Rightarrow> invalid path ''expected an array'')"

definition stringMapEntry :: "jstr \<Rightarrow> jskey \<times> jsval \<Rightarrow> contract_error + (jstr \<times> jstr)" where
  "stringMapEntry path entry =
     (case fst entry of
        KSym _ \<Rightarrow> invalid path ''contains a non-string key''
      | KStr key \<Rightarrow> bindE (expectString (snd entry) (path @ lit ''.'' @ key)) (\<lambda>value.
          Inr (key, value)))"

text \<open>Sorting entries with \<open>compareText\<close> on the keys.\<close>

definition sortEntries :: "(jstr \<times> jstr) list \<Rightarrow> (jstr \<times> jstr) list" where
  "sortEntries entries = sort_key fst entries"

definition expectStringMap :: "jsval \<Rightarrow> jstr \<Rightarrow> contract_error + NonSensitiveValues" where
  "expectStringMap value path =
     bindE (expectRecord value path) (\<lambda>r.
     bindE (mapE (stringMapEntry path) r) (\<lambda>entries.
     Inr (sortEntries entries)))"

definition compareText :: "jstr \<Rightarrow> jstr \<Rightarrow> int" where
  "compareText left right = (if left < right then - 1 else if right < left then 1 else 0)"

definition foldAsciiCase :: "jstr \<Rightarrow> jstr" where
  "foldAsciiCase value = asciiLower value"

subsection \<open>Sensitive names\<close>

definition sensitiveParts :: "jstr list" where
  "sensitiveParts = map lit [''auth'', ''authorization'', ''cookie'', ''credential'',
     ''credentials'', ''jwt'', ''key'', ''pat'', ''password'', ''passwd'', ''secret'',
     ''session'', ''token'']"

definition sensitiveMarkers :: "jstr list" where
  "sensitiveMarkers = map lit [''authorization'', ''bearer'', ''cookie'', ''credential'',
     ''password'', ''passwd'', ''secret'', ''session'', ''token'']"

definition sensitiveKeyMarkers :: "jstr list" where
  "sensitiveKeyMarkers = map lit [''apikey'', ''accesskey'', ''privatekey'', ''secretkey'',
     ''signingkey'']"

definition looksSensitiveIdentifier :: "jstr \<Rightarrow> bool" where
  "looksSensitiveIdentifier name =
     (if list_ex (\<lambda>part. asciiLower part \<in> set sensitiveParts) (runs cu_alnum name) then True
      else
        (let compact = asciiLower (filter cu_alnum name)
         in list_ex (\<lambda>marker. includesSub marker compact) sensitiveMarkers \<or>
            list_ex (\<lambda>marker. includesSub marker compact) sensitiveKeyMarkers))"

definition looksSensitiveEnvironmentName :: "jstr \<Rightarrow> bool" where
  "looksSensitiveEnvironmentName name \<longleftrightarrow>
     asciiUpper name = lit ''SSH_AUTH_SOCK'' \<or> looksSensitiveIdentifier name"

end
