(* ===== verification/ConfigValidate.thy ===== *)
theory ConfigValidate
  imports ConfigBasics
begin

text \<open>
  The \<open>validate...\<close> and credential checks of \<open>src/configuration/validation.ts\<close>,
  the declarative predicates that say what each accepts, and the lemmas that relate the two:
  \<open>f x path = Inr y\<close> exactly when the predicate holds and \<open>y\<close> is the normal form.
\<close>

subsection \<open>Names, paths, arguments, environments\<close>

definition validateName :: "jstr \<Rightarrow> jstr \<Rightarrow> bool \<Rightarrow> contract_error + jstr" where
  "validateName value path normalized =
     (let name = js_trim value in
      if name = [] \<or> byteLength name > MAX_NAME_BYTES \<or> CONTROL_CHARACTER_PATTERN name \<or>
         (normalized \<and> name \<noteq> value)
      then invalid path ''contains an invalid profile name''
      else Inr name)"

definition validateAbsolutePath :: "jstr \<Rightarrow> jstr \<Rightarrow> contract_error + jstr" where
  "validateAbsolutePath value path =
     (if value = [] \<or> \<not> prefix (lit ''/'') value \<or> byteLength value > MAX_PATH_BYTES \<or> 0 \<in> set value
      then invalid path ''expected an absolute Linux path''
      else Inr value)"

definition validateArguments :: "jstr list \<Rightarrow> jstr \<Rightarrow> contract_error + jstr list" where
  "validateArguments value path =
     (if length value > MAX_ARGUMENT_COUNT \<or>
         list_ex (\<lambda>argument. byteLength argument > MAX_ARGUMENT_BYTES \<or> 0 \<in> set argument) value
      then invalid path ''contains invalid process arguments''
      else Inr value)"

definition badEnvironmentEntry :: "jstr \<Rightarrow> jstr \<Rightarrow> bool" where
  "badEnvironmentEntry name environmentValue \<longleftrightarrow>
     \<not> ENVIRONMENT_NAME_PATTERN name \<or> byteLength name > MAX_ENVIRONMENT_NAME_BYTES \<or>
     byteLength environmentValue > MAX_ENVIRONMENT_VALUE_BYTES \<or> 0 \<in> set environmentValue"

fun checkEnvironment :: "NonSensitiveValues \<Rightarrow> jstr \<Rightarrow> contract_error + unit" where
  "checkEnvironment [] path = Inr ()"
| "checkEnvironment ((name, environmentValue) # entries) path =
     (if badEnvironmentEntry name environmentValue \<or> looksSensitiveEnvironmentName name
      then invalid path ''contains an invalid non-sensitive environment variable''
      else checkEnvironment entries path)"

definition validateEnvironment :: "NonSensitiveValues \<Rightarrow> jstr \<Rightarrow> contract_error + NonSensitiveValues" where
  "validateEnvironment value path =
     (if length value > MAX_ENVIRONMENT_COUNT
      then invalid path ''contains too many environment variables''
      else bindE (checkEnvironment value path) (\<lambda>_. Inr value))"

subsection \<open>Credentials\<close>

definition sensitiveEnvironmentEntry :: "jstr \<Rightarrow> jskey \<times> jsval \<Rightarrow> contract_error + (jstr \<times> jstr)" where
  "sensitiveEnvironmentEntry path entry =
     (case fst entry of
        KSym _ \<Rightarrow> invalid path ''contains a non-string environment variable name''
      | KStr key \<Rightarrow>
          bindE (expectString (snd entry) (dotted path ''value'')) (\<lambda>environmentValue.
          bindE (rejectIf (badEnvironmentEntry key environmentValue) path
                   ''contains an invalid sensitive environment variable'') (\<lambda>_.
          Inr (key, environmentValue))))"

definition normalizeSensitiveEnvironment ::
  "jsval \<Rightarrow> jstr \<Rightarrow> contract_error + SensitiveEnvironmentValues" where
  "normalizeSensitiveEnvironment value path =
     bindE (expectRecord value path) (\<lambda>r.
     bindE (rejectIf (length (ownKeys r) = 0 \<or> length (ownKeys r) > MAX_ENVIRONMENT_COUNT) path
              ''contains an invalid number of environment variables'') (\<lambda>_.
     bindE (mapE (sensitiveEnvironmentEntry path) r) (\<lambda>entries.
     Inr (sortEntries entries))))"

definition normalizeTextCredential :: "jsval \<Rightarrow> jstr \<Rightarrow> nat \<Rightarrow> contract_error + jstr" where
  "normalizeTextCredential value path maxBytes =
     bindE (expectString value path) (\<lambda>credential.
     bindE (rejectIf (credential = [] \<or> byteLength credential > maxBytes \<or> 0 \<in> set credential)
              path ''contains an invalid credential value'') (\<lambda>_.
     Inr credential))"

definition normalizeBearerToken :: "jsval \<Rightarrow> jstr \<Rightarrow> contract_error + jstr" where
  "normalizeBearerToken value path =
     bindE (expectString value path) (\<lambda>credential.
     bindE (rejectIf (byteLength credential > MAX_BEARER_TOKEN_BYTES \<or>
                      \<not> BEARER_TOKEN_PATTERN credential)
              path ''contains an invalid bearer token'') (\<lambda>_.
     Inr credential))"

definition SERVER_CREDENTIAL_TYPES :: "(string \<times> ServerCredentialType) list" where
  "SERVER_CREDENTIAL_TYPES =
     [(''sensitiveEnvironment'', SensitiveEnvironmentType), (''bearerToken'', BearerTokenType)]"

definition PROXY_CREDENTIAL_TYPES :: "(string \<times> ProxyCredentialType) list" where
  "PROXY_CREDENTIAL_TYPES =
     [(''httpBasicPassword'', HttpBasicPassword), (''httpBearerToken'', HttpBearerToken),
      (''socks5Password'', Socks5Password), (''sshPrivateKeyPassphrase'', SshPrivateKeyPassphrase),
      (''sshPassword'', SshPasswordCredential)]"

definition normalizeServerCredential :: "jsval \<Rightarrow> jstr \<Rightarrow> contract_error + ServerCredential" where
  "normalizeServerCredential value path =
     bindE (expectRecord value path) (\<lambda>r.
     bindE (expectEnum (field r ''type'') SERVER_CREDENTIAL_TYPES (dotted path ''type'')) (\<lambda>type.
     (case type of
        SensitiveEnvironmentType \<Rightarrow>
          bindE (normalizeSensitiveEnvironment (field r ''values'') (dotted path ''values'')) (\<lambda>values.
          Inr (SensitiveEnvironment values))
      | BearerTokenType \<Rightarrow>
          bindE (normalizeBearerToken (field r ''value'') (dotted path ''value'')) (\<lambda>v.
          Inr (BearerToken v)))))"

definition proxyCredentialMaxBytes :: "ProxyCredentialType \<Rightarrow> nat" where
  "proxyCredentialMaxBytes type =
     (if type = HttpBasicPassword then MAX_HTTP_BASIC_PASSWORD_BYTES
      else if type = Socks5Password then MAX_SOCKS5_PASSWORD_BYTES
      else MAX_SSH_SECRET_BYTES)"

definition normalizeProxyCredential :: "jsval \<Rightarrow> jstr \<Rightarrow> contract_error + ProxyCredential" where
  "normalizeProxyCredential value path =
     bindE (expectRecord value path) (\<lambda>r.
     bindE (expectEnum (field r ''type'') PROXY_CREDENTIAL_TYPES (dotted path ''type'')) (\<lambda>type.
     (let maxBytes = proxyCredentialMaxBytes type in
      bindE (if type = HttpBearerToken
             then normalizeBearerToken (field r ''value'') (dotted path ''value'')
             else normalizeTextCredential (field r ''value'') (dotted path ''value'') maxBytes) (\<lambda>v.
      Inr \<lparr>pc_type = type, pc_value = v\<rparr>))))"

subsection \<open>Headers\<close>

datatype ConfigurableHeaderTransport = WebSocketTransport | HttpConnectTransport

definition reservedWebSocketHeaders :: "jstr list" where
  "reservedWebSocketHeaders = map lit [''connection'', ''content-length'', ''host'',
     ''transfer-encoding'', ''upgrade'']"

definition reservedHttpConnectHeaders :: "jstr list" where
  "reservedHttpConnectHeaders = map lit [''authorization'', ''connection'', ''content-length'',
     ''host'', ''proxy-authenticate'', ''proxy-authorization'', ''proxy-connection'', ''te'',
     ''trailer'', ''transfer-encoding'', ''upgrade'']"

definition isReservedTransportHeader :: "jstr \<Rightarrow> ConfigurableHeaderTransport \<Rightarrow> bool" where
  "isReservedTransportHeader name transport =
     (let normalized = asciiLower name in
      if prefix (lit ''sec-websocket-'') normalized then True
      else if transport = WebSocketTransport
      then normalized \<in> set reservedWebSocketHeaders \<or> prefix (lit ''proxy-'') normalized
      else normalized \<in> set reservedHttpConnectHeaders)"

definition badHeaderChar :: "code_unit \<Rightarrow> bool" where
  "badHeaderChar codePoint \<longleftrightarrow> (codePoint < 0x20 \<and> codePoint \<noteq> 0x09) \<or> codePoint = 0x7F"

definition badHeader :: "ConfigurableHeaderTransport \<Rightarrow> jstr \<Rightarrow> jstr \<Rightarrow> bool" where
  "badHeader transport name headerValue \<longleftrightarrow>
     byteLength name > MAX_HEADER_NAME_BYTES \<or>
     \<not> HTTP_HEADER_NAME_PATTERN name \<or>
     looksSensitiveIdentifier name \<or>
     isReservedTransportHeader name transport \<or>
     byteLength headerValue > MAX_HEADER_VALUE_BYTES \<or>
     list_ex badHeaderChar headerValue"

fun checkHeaders ::
  "jstr list \<Rightarrow> NonSensitiveValues \<Rightarrow> jstr \<Rightarrow> ConfigurableHeaderTransport \<Rightarrow> contract_error + unit"
where
  "checkHeaders normalizedNames [] path transport = Inr ()"
| "checkHeaders normalizedNames ((name, headerValue) # entries) path transport =
     (let normalizedName = asciiLower name in
      if badHeader transport name headerValue \<or> normalizedName \<in> set normalizedNames
      then invalid path ''contains an invalid non-sensitive header''
      else checkHeaders (normalizedName # normalizedNames) entries path transport)"

definition validateHeaders ::
  "NonSensitiveValues \<Rightarrow> jstr \<Rightarrow> ConfigurableHeaderTransport \<Rightarrow> contract_error + NonSensitiveValues" where
  "validateHeaders value path transport =
     (if length value > MAX_HEADER_COUNT then invalid path ''contains too many headers''
      else bindE (checkHeaders [] value path transport) (\<lambda>_. Inr value))"

subsection \<open>Connections\<close>

definition validateConnectTimeout :: "int \<Rightarrow> jstr \<Rightarrow> contract_error + int" where
  "validateConnectTimeout value path =
     (if \<not> isSafeInt value \<or> value < MIN_CONNECT_TIMEOUT_MS \<or> value > MAX_CONNECT_TIMEOUT_MS
      then invalid path ''contains an invalid connection timeout''
      else Inr value)"

definition parseUrl :: "url_parser \<Rightarrow> jstr \<Rightarrow> jstr \<Rightarrow> contract_error + parsed_url" where
  "parseUrl U value path =
     (if value = [] \<or> byteLength value > MAX_URL_BYTES then invalid path ''contains an invalid URL''
      else (case U value of Some url \<Rightarrow> Inr url | None \<Rightarrow> invalid path ''contains an invalid URL''))"

definition badWebSocketUrl :: "jstr \<Rightarrow> parsed_url \<Rightarrow> bool" where
  "badWebSocketUrl value url \<longleftrightarrow>
     (url_protocol url \<noteq> lit ''ws:'' \<and> url_protocol url \<noteq> lit ''wss:'') \<or>
     url_username url \<noteq> [] \<or> url_password url \<noteq> [] \<or> url_hostname url = [] \<or>
     0x23 \<in> set value \<or> list_ex looksSensitiveIdentifier (url_searchKeys url)"

definition validateWebSocketUrl ::
  "url_parser \<Rightarrow> jstr \<Rightarrow> bool \<Rightarrow> TlsCertificatePolicy \<Rightarrow> jstr \<Rightarrow> contract_error + jstr" where
  "validateWebSocketUrl U value plaintextConfirmed tlsPolicy path =
     bindE (parseUrl U value path) (\<lambda>url.
     let isPlaintext = (url_protocol url = lit ''ws:'') in
     bindE (rejectIf (badWebSocketUrl value url) path ''contains an invalid WebSocket URL'') (\<lambda>_.
     bindE (rejectIf (isPlaintext \<noteq> plaintextConfirmed) path
              ''has an invalid plaintext confirmation'') (\<lambda>_.
     bindE (rejectIf (isPlaintext \<and> tlsPolicy \<noteq> TlsStrict) path ''has an invalid TLS policy'') (\<lambda>_.
     Inr value))))"

definition badHttpProxyUrl :: "jstr \<Rightarrow> parsed_url \<Rightarrow> bool" where
  "badHttpProxyUrl value url \<longleftrightarrow>
     (url_protocol url \<noteq> lit ''https:'' \<and> url_protocol url \<noteq> lit ''http:'') \<or>
     url_username url \<noteq> [] \<or> url_password url \<noteq> [] \<or> url_hostname url = [] \<or>
     (url_pathname url \<noteq> [] \<and> url_pathname url \<noteq> lit ''/'') \<or>
     0x3F \<in> set value \<or> 0x23 \<in> set value"

definition validateHttpProxyUrl ::
  "url_parser \<Rightarrow> jstr \<Rightarrow> TlsCertificatePolicy \<Rightarrow> jstr \<Rightarrow> contract_error + jstr" where
  "validateHttpProxyUrl U value tlsPolicy path =
     bindE (parseUrl U value path) (\<lambda>url.
     let isTls = (url_protocol url = lit ''https:'') in
     bindE (rejectIf (badHttpProxyUrl value url) path ''contains an invalid HTTP proxy URL'') (\<lambda>_.
     bindE (rejectIf (\<not> isTls \<and> tlsPolicy \<noteq> TlsStrict) path ''has an invalid TLS policy'') (\<lambda>_.
     Inr value)))"

text \<open>The replacement \<open>hostname.replace(/^\[|\]$/gu, "")\<close>.\<close>

definition stripBrackets :: "jstr \<Rightarrow> jstr" where
  "stripBrackets s =
     (let t = (if s \<noteq> [] \<and> hd s = 0x5B then tl s else s)
      in if t \<noteq> [] \<and> last t = 0x5D then butlast t else t)"

text \<open>The characters of \<open>/[\s/?#@\\]/\<close>.\<close>

definition cu_badHost :: "code_unit \<Rightarrow> bool" where
  "cu_badHost c \<longleftrightarrow> cu_space c \<or> c \<in> {0x2F, 0x3F, 0x23, 0x40, 0x5C}"

definition hostAuthority :: "jstr \<Rightarrow> jstr" where
  "hostAuthority value =
     (let isBracketed = (prefix (lit ''['') value \<and> suffix (lit '']'') value) in
      if isBracketed then value
      else if 0x3A \<in> set value then lit ''['' @ value @ lit '']'' else value)"

definition validateHost :: "url_parser \<Rightarrow> jstr \<Rightarrow> jstr \<Rightarrow> contract_error + jstr" where
  "validateHost U value path =
     (if value = [] \<or> byteLength value > MAX_HOST_BYTES \<or> CONTROL_CHARACTER_PATTERN value \<or>
         list_ex cu_badHost value
      then invalid path ''contains an invalid proxy host''
      else (case U (lit ''http://'' @ hostAuthority value @ lit ''/'') of
          None \<Rightarrow> invalid path ''contains an invalid proxy host''
        | Some parsed \<Rightarrow>
            let normalizedHostname = stripBrackets (url_hostname parsed) in
            if normalizedHostname = [] \<or> byteLength normalizedHostname > MAX_HOST_BYTES
            then invalid path ''contains an invalid proxy host''
            else Inr value))"

definition validateUsername :: "jstr \<Rightarrow> jstr \<Rightarrow> contract_error + jstr" where
  "validateUsername value path =
     (if js_trim value = [] \<or> byteLength value > MAX_USERNAME_BYTES \<or> CONTROL_CHARACTER_PATTERN value
      then invalid path ''contains an invalid username''
      else Inr value)"

definition validateOptionalUsername ::
  "bool \<Rightarrow> jstr option \<Rightarrow> jstr \<Rightarrow> contract_error + jstr option" where
  "validateOptionalUsername required value path =
     (if required then
        (case value of
           None \<Rightarrow> invalid path ''is required by the authentication type''
         | Some v \<Rightarrow> bindE (validateUsername v path) (\<lambda>u. Inr (Some u)))
      else
        (case value of
           Some _ \<Rightarrow> invalid path ''must be omitted for this authentication type''
         | None \<Rightarrow> Inr None))"

definition validateHttpProxyUsername ::
  "HttpProxyAuthentication \<Rightarrow> jstr option \<Rightarrow> jstr \<Rightarrow> contract_error + jstr option" where
  "validateHttpProxyUsername authentication value path =
     bindE (validateOptionalUsername (authentication = HpaBasic) value path) (\<lambda>username.
     (case username of
        Some u \<Rightarrow> if 0x3A \<in> set u
                  then invalid path ''must not contain a colon for Basic authentication''
                  else Inr username
      | None \<Rightarrow> Inr username))"

definition tlsPolicies :: "(string \<times> TlsCertificatePolicy) list" where
  "tlsPolicies = [(''strict'', TlsStrict), (''allowInvalidCertificate'', TlsAllowInvalidCertificate)]"

definition parseTlsPolicy :: "jsval \<Rightarrow> jstr \<Rightarrow> contract_error + TlsCertificatePolicy" where
  "parseTlsPolicy value path = expectEnum value tlsPolicies path"

text \<open>Keep-alive bounds of an SSH proxy, inline in both SSH branches of the source.\<close>

definition checkKeepAliveInterval :: "int \<Rightarrow> jstr \<Rightarrow> contract_error + unit" where
  "checkKeepAliveInterval keepAliveIntervalMs path =
     rejectIf (keepAliveIntervalMs < MIN_KEEP_ALIVE_INTERVAL_MS \<or>
               keepAliveIntervalMs > MAX_KEEP_ALIVE_INTERVAL_MS)
       path ''contains an invalid keep-alive interval''"

definition checkKeepAliveFailures :: "int \<Rightarrow> jstr \<Rightarrow> contract_error + unit" where
  "checkKeepAliveFailures keepAliveMaxFailures path =
     rejectIf (keepAliveMaxFailures < 1 \<or> keepAliveMaxFailures > MAX_KEEP_ALIVE_FAILURES)
       path ''contains an invalid keep-alive failure count''"

end
