(* ===== verification/ConfigParse.thy ===== *)
theory ConfigParse
  imports ConfigValidate
begin

text \<open>
  The parsers of \<open>src/configuration/validation.ts\<close>: the \<open>parse...\<close> functions that
  turn an answer of the backend, a value of type \<open>unknown\<close>, into the typed configuration,
  or throw. Statements are in the order of the source, so the first error is the same.
\<close>

definition optionalString :: "jsrecord \<Rightarrow> string \<Rightarrow> jstr \<Rightarrow> contract_error + jstr option" where
  "optionalString r key path =
     (if hasOwn r (lit key)
      then bindE (expectString (field r key) (dotted path key)) (\<lambda>s. Inr (Some s))
      else Inr None)"

definition optionalProxyId :: "jsrecord \<Rightarrow> string \<Rightarrow> jstr \<Rightarrow> contract_error + ProxyId option" where
  "optionalProxyId r key path =
     (if hasOwn r (lit key)
      then bindE (expectProxyId (field r key) (dotted path key)) (\<lambda>s. Inr (Some s))
      else Inr None)"

text \<open>The spread of an optional property whose value is checked.\<close>

definition validateOptional ::
  "('a \<Rightarrow> contract_error + 'a) \<Rightarrow> 'a option \<Rightarrow> contract_error + 'a option" where
  "validateOptional check value =
     (case value of None \<Rightarrow> Inr None | Some v \<Rightarrow> bindE (check v) (\<lambda>w. Inr (Some w)))"

datatype ssh_auth_type = AuthAgent | AuthPrivateKey | AuthPassword

definition sshAuthTypes :: "(string \<times> ssh_auth_type) list" where
  "sshAuthTypes = [(''agent'', AuthAgent), (''privateKey'', AuthPrivateKey), (''password'', AuthPassword)]"

definition parseSshAuthentication :: "jsval \<Rightarrow> jstr \<Rightarrow> contract_error + SshAuthenticationConfiguration" where
  "parseSshAuthentication value path =
     bindE (expectRecord value path) (\<lambda>r.
     bindE (expectEnum (field r ''type'') sshAuthTypes (dotted path ''type'')) (\<lambda>type.
     if type = AuthPrivateKey then
       bindE (assertExactKeys r [''type'', ''privateKeyPath''] [] path) (\<lambda>_.
       bindE (expectString (field r ''privateKeyPath'') (dotted path ''privateKeyPath'')) (\<lambda>s.
       bindE (validateAbsolutePath s (dotted path ''privateKeyPath'')) (\<lambda>privateKeyPath.
       Inr (SshPrivateKey privateKeyPath))))
     else
       bindE (assertExactKeys r [''type''] [] path) (\<lambda>_.
       Inr (if type = AuthAgent then SshAgent else SshPassword))))"

datatype server_type = LocalStdioType | RemoteWebSocketType

definition serverTypes :: "(string \<times> server_type) list" where
  "serverTypes = [(''localStdio'', LocalStdioType), (''remoteWebSocket'', RemoteWebSocketType)]"

definition serverAuthentications :: "(string \<times> RemoteServerAuthentication) list" where
  "serverAuthentications = [(''none'', RsaNone), (''bearer'', RsaBearer)]"

definition parseServerConfiguration ::
  "url_parser \<Rightarrow> jsval \<Rightarrow> jstr \<Rightarrow> contract_error + ServerConfiguration" where
  "parseServerConfiguration U value path =
     bindE (expectRecord value path) (\<lambda>r.
     bindE (expectEnum (field r ''type'') serverTypes (dotted path ''type'')) (\<lambda>type.
     if type = LocalStdioType then
       bindE (assertExactKeys r
                [''type'', ''executablePath'', ''arguments'', ''nonSensitiveEnvironment'']
                [''defaultWorkingDirectory''] path) (\<lambda>_.
       bindE (optionalString r ''defaultWorkingDirectory'' path) (\<lambda>defaultWorkingDirectory.
       bindE (expectString (field r ''executablePath'') (dotted path ''executablePath'')) (\<lambda>ep.
       bindE (validateAbsolutePath ep (dotted path ''executablePath'')) (\<lambda>executablePath.
       bindE (expectStringArray (field r ''arguments'') (dotted path ''arguments'')) (\<lambda>args.
       bindE (validateArguments args (dotted path ''arguments'')) (\<lambda>arguments.
       bindE (validateOptional (\<lambda>d. validateAbsolutePath d (dotted path ''defaultWorkingDirectory''))
                defaultWorkingDirectory) (\<lambda>cwd.
       bindE (expectStringMap (field r ''nonSensitiveEnvironment'')
                (dotted path ''nonSensitiveEnvironment'')) (\<lambda>env.
       bindE (validateEnvironment env (dotted path ''nonSensitiveEnvironment'')) (\<lambda>environment.
       Inr (LocalStdio \<lparr>ls_executablePath = executablePath, ls_arguments = arguments,
              ls_defaultWorkingDirectory = cwd, ls_nonSensitiveEnvironment = environment\<rparr>))))))))))
     else
       bindE (assertExactKeys r
                [''type'', ''url'', ''authentication'', ''nonSensitiveHeaders'',
                 ''connectTimeoutMs'', ''tlsCertificatePolicy'', ''plaintextConfirmed'']
                [''proxyId''] path) (\<lambda>_.
       bindE (parseTlsPolicy (field r ''tlsCertificatePolicy'')
                (dotted path ''tlsCertificatePolicy'')) (\<lambda>tlsCertificatePolicy.
       bindE (expectBoolean (field r ''plaintextConfirmed'')
                (dotted path ''plaintextConfirmed'')) (\<lambda>plaintextConfirmed.
       bindE (optionalProxyId r ''proxyId'' path) (\<lambda>proxyId.
       bindE (expectString (field r ''url'') (dotted path ''url'')) (\<lambda>u.
       bindE (validateWebSocketUrl U u plaintextConfirmed tlsCertificatePolicy
                (dotted path ''url'')) (\<lambda>url.
       bindE (expectEnum (field r ''authentication'') serverAuthentications
                (dotted path ''authentication'')) (\<lambda>authentication.
       bindE (expectStringMap (field r ''nonSensitiveHeaders'')
                (dotted path ''nonSensitiveHeaders'')) (\<lambda>hs.
       bindE (validateHeaders hs (dotted path ''nonSensitiveHeaders'') WebSocketTransport) (\<lambda>headers.
       bindE (expectSafeInteger (field r ''connectTimeoutMs'') (dotted path ''connectTimeoutMs'')) (\<lambda>t.
       bindE (validateConnectTimeout t (dotted path ''connectTimeoutMs'')) (\<lambda>connectTimeoutMs.
       Inr (RemoteWebSocket \<lparr>ws_url = url, ws_authentication = authentication,
              ws_nonSensitiveHeaders = headers, ws_connectTimeoutMs = connectTimeoutMs,
              ws_tlsCertificatePolicy = tlsCertificatePolicy,
              ws_plaintextConfirmed = plaintextConfirmed, ws_proxyId = proxyId\<rparr>))))))))))))))"

definition optionalTimestamp :: "jsrecord \<Rightarrow> string \<Rightarrow> jstr \<Rightarrow> contract_error + int option" where
  "optionalTimestamp r key path =
     (if hasOwn r (lit key)
      then bindE (expectTimestamp (field r key) (dotted path key)) (\<lambda>t. Inr (Some t))
      else Inr None)"

definition serverAuthenticationDisabled :: "ServerConfiguration \<Rightarrow> bool" where
  "serverAuthenticationDisabled configuration =
     (case configuration of
        RemoteWebSocket c \<Rightarrow> ws_authentication c = RsaNone
      | LocalStdio _ \<Rightarrow> False)"

definition parseServerProfile :: "url_parser \<Rightarrow> jsval \<Rightarrow> jstr \<Rightarrow> contract_error + ServerProfile" where
  "parseServerProfile U value path =
     bindE (expectRecord value path) (\<lambda>r.
     bindE (assertExactKeys r
              [''serverId'', ''name'', ''version'', ''configuration'', ''credentialConfigured'',
               ''activeWindowCount'', ''createdAtMs'', ''updatedAtMs''] [''lastUsedAtMs''] path) (\<lambda>_.
     bindE (optionalTimestamp r ''lastUsedAtMs'' path) (\<lambda>lastUsedAtMs.
     bindE (expectTimestamp (field r ''createdAtMs'') (dotted path ''createdAtMs'')) (\<lambda>createdAtMs.
     bindE (expectTimestamp (field r ''updatedAtMs'') (dotted path ''updatedAtMs'')) (\<lambda>updatedAtMs.
     bindE (rejectIf (updatedAtMs < createdAtMs) (dotted path ''updatedAtMs'')
              ''must not precede creation time'') (\<lambda>_.
     bindE (parseServerConfiguration U (field r ''configuration'')
              (dotted path ''configuration'')) (\<lambda>configuration.
     bindE (expectBoolean (field r ''credentialConfigured'')
              (dotted path ''credentialConfigured'')) (\<lambda>credentialConfigured.
     bindE (rejectIf (credentialConfigured \<and> serverAuthenticationDisabled configuration)
              (dotted path ''credentialConfigured'')
              ''cannot be true when server authentication is disabled'') (\<lambda>_.
     bindE (expectServerId (field r ''serverId'') (dotted path ''serverId'')) (\<lambda>serverId.
     bindE (expectString (field r ''name'') (dotted path ''name'')) (\<lambda>n.
     bindE (validateName n (dotted path ''name'') True) (\<lambda>name.
     bindE (expectVersion (field r ''version'') (dotted path ''version'')) (\<lambda>version.
     bindE (expectNonNegativeCount (field r ''activeWindowCount'')
              (dotted path ''activeWindowCount'')) (\<lambda>activeWindowCount.
     Inr \<lparr>sp_serverId = serverId, sp_name = name, sp_version = version,
          sp_configuration = configuration, sp_credentialConfigured = credentialConfigured,
          sp_activeWindowCount = activeWindowCount, sp_createdAtMs = createdAtMs,
          sp_updatedAtMs = updatedAtMs, sp_lastUsedAtMs = lastUsedAtMs\<rparr>))))))))))))))"

subsection \<open>Proxies\<close>

datatype proxy_type = HttpConnectType | Socks5Type | SshType

definition proxyTypes :: "(string \<times> proxy_type) list" where
  "proxyTypes = [(''httpConnect'', HttpConnectType), (''socks5'', Socks5Type), (''ssh'', SshType)]"

definition httpProxyAuthentications :: "(string \<times> HttpProxyAuthentication) list" where
  "httpProxyAuthentications = [(''none'', HpaNone), (''basic'', HpaBasic), (''bearer'', HpaBearer)]"

definition socks5Authentications :: "(string \<times> Socks5Authentication) list" where
  "socks5Authentications = [(''none'', SkaNone), (''usernamePassword'', SkaUsernamePassword)]"

definition dnsResolutions :: "(string \<times> Socks5DnsResolution) list" where
  "dnsResolutions = [(''proxy'', DnsProxy), (''local'', DnsLocal)]"

definition parseHttpConnectProxy ::
  "url_parser \<Rightarrow> jsrecord \<Rightarrow> jstr \<Rightarrow> contract_error + ProxyConfiguration" where
  "parseHttpConnectProxy U r path =
     bindE (assertExactKeys r
              [''type'', ''url'', ''authentication'', ''nonSensitiveHeaders'', ''connectTimeoutMs'',
               ''tlsCertificatePolicy''] [''username''] path) (\<lambda>_.
     bindE (expectEnum (field r ''authentication'') httpProxyAuthentications
              (dotted path ''authentication'')) (\<lambda>authentication.
     bindE (optionalString r ''username'' path) (\<lambda>un.
     bindE (validateHttpProxyUsername authentication un (dotted path ''username'')) (\<lambda>username.
     bindE (parseTlsPolicy (field r ''tlsCertificatePolicy'')
              (dotted path ''tlsCertificatePolicy'')) (\<lambda>tlsCertificatePolicy.
     bindE (expectString (field r ''url'') (dotted path ''url'')) (\<lambda>u.
     bindE (validateHttpProxyUrl U u tlsCertificatePolicy (dotted path ''url'')) (\<lambda>url.
     bindE (expectStringMap (field r ''nonSensitiveHeaders'')
              (dotted path ''nonSensitiveHeaders'')) (\<lambda>hs.
     bindE (validateHeaders hs (dotted path ''nonSensitiveHeaders'') HttpConnectTransport) (\<lambda>headers.
     bindE (expectSafeInteger (field r ''connectTimeoutMs'') (dotted path ''connectTimeoutMs'')) (\<lambda>t.
     bindE (validateConnectTimeout t (dotted path ''connectTimeoutMs'')) (\<lambda>connectTimeoutMs.
     Inr (HttpConnect \<lparr>hp_url = url, hp_authentication = authentication, hp_username = username,
            hp_nonSensitiveHeaders = headers, hp_connectTimeoutMs = connectTimeoutMs,
            hp_tlsCertificatePolicy = tlsCertificatePolicy\<rparr>))))))))))))"

definition parseSocks5Proxy ::
  "url_parser \<Rightarrow> jsrecord \<Rightarrow> jstr \<Rightarrow> contract_error + ProxyConfiguration" where
  "parseSocks5Proxy U r path =
     bindE (assertExactKeys r
              [''type'', ''host'', ''port'', ''authentication'', ''dnsResolution'',
               ''connectTimeoutMs''] [''username''] path) (\<lambda>_.
     bindE (expectEnum (field r ''authentication'') socks5Authentications
              (dotted path ''authentication'')) (\<lambda>authentication.
     bindE (optionalString r ''username'' path) (\<lambda>un.
     bindE (validateOptionalUsername (authentication = SkaUsernamePassword) un
              (dotted path ''username'')) (\<lambda>username.
     bindE (expectString (field r ''host'') (dotted path ''host'')) (\<lambda>h.
     bindE (validateHost U h (dotted path ''host'')) (\<lambda>host.
     bindE (expectPort (field r ''port'') (dotted path ''port'')) (\<lambda>port.
     bindE (expectEnum (field r ''dnsResolution'') dnsResolutions
              (dotted path ''dnsResolution'')) (\<lambda>dnsResolution.
     bindE (expectSafeInteger (field r ''connectTimeoutMs'') (dotted path ''connectTimeoutMs'')) (\<lambda>t.
     bindE (validateConnectTimeout t (dotted path ''connectTimeoutMs'')) (\<lambda>connectTimeoutMs.
     Inr (Socks5 \<lparr>sk_host = host, sk_port = port, sk_authentication = authentication,
            sk_username = username, sk_dnsResolution = dnsResolution,
            sk_connectTimeoutMs = connectTimeoutMs\<rparr>)))))))))))"

definition parseSshProxy ::
  "url_parser \<Rightarrow> jsrecord \<Rightarrow> jstr \<Rightarrow> contract_error + ProxyConfiguration" where
  "parseSshProxy U r path =
     bindE (assertExactKeys r
              [''type'', ''host'', ''port'', ''username'', ''authentication'', ''connectTimeoutMs'',
               ''keepAliveIntervalMs'', ''keepAliveMaxFailures''] [] path) (\<lambda>_.
     bindE (expectSafeInteger (field r ''keepAliveIntervalMs'')
              (dotted path ''keepAliveIntervalMs'')) (\<lambda>keepAliveIntervalMs.
     bindE (checkKeepAliveInterval keepAliveIntervalMs (dotted path ''keepAliveIntervalMs'')) (\<lambda>_.
     bindE (expectSafeInteger (field r ''keepAliveMaxFailures'')
              (dotted path ''keepAliveMaxFailures'')) (\<lambda>keepAliveMaxFailures.
     bindE (checkKeepAliveFailures keepAliveMaxFailures (dotted path ''keepAliveMaxFailures'')) (\<lambda>_.
     bindE (expectString (field r ''host'') (dotted path ''host'')) (\<lambda>h.
     bindE (validateHost U h (dotted path ''host'')) (\<lambda>host.
     bindE (expectPort (field r ''port'') (dotted path ''port'')) (\<lambda>port.
     bindE (expectString (field r ''username'') (dotted path ''username'')) (\<lambda>un.
     bindE (validateUsername un (dotted path ''username'')) (\<lambda>username.
     bindE (parseSshAuthentication (field r ''authentication'')
              (dotted path ''authentication'')) (\<lambda>authentication.
     bindE (expectSafeInteger (field r ''connectTimeoutMs'') (dotted path ''connectTimeoutMs'')) (\<lambda>t.
     bindE (validateConnectTimeout t (dotted path ''connectTimeoutMs'')) (\<lambda>connectTimeoutMs.
     Inr (Ssh \<lparr>sh_host = host, sh_port = port, sh_username = username,
            sh_authentication = authentication, sh_connectTimeoutMs = connectTimeoutMs,
            sh_keepAliveIntervalMs = keepAliveIntervalMs,
            sh_keepAliveMaxFailures = keepAliveMaxFailures\<rparr>))))))))))))))"

definition parseProxyConfiguration ::
  "url_parser \<Rightarrow> jsval \<Rightarrow> jstr \<Rightarrow> contract_error + ProxyConfiguration" where
  "parseProxyConfiguration U value path =
     bindE (expectRecord value path) (\<lambda>r.
     bindE (expectEnum (field r ''type'') proxyTypes (dotted path ''type'')) (\<lambda>type.
     (case type of
        HttpConnectType \<Rightarrow> parseHttpConnectProxy U r path
      | Socks5Type \<Rightarrow> parseSocks5Proxy U r path
      | SshType \<Rightarrow> parseSshProxy U r path)))"

definition badAlgorithm :: "jstr \<Rightarrow> bool" where
  "badAlgorithm algorithm \<longleftrightarrow> js_trim algorithm = [] \<or>
     byteLength algorithm > MAX_ALGORITHM_BYTES \<or> CONTROL_CHARACTER_PATTERN algorithm"

definition parseSshHostKeyRecord ::
  "url_parser \<Rightarrow> jsval \<Rightarrow> jstr \<Rightarrow> contract_error + SshHostKeyRecord" where
  "parseSshHostKeyRecord U value path =
     bindE (expectRecord value path) (\<lambda>r.
     bindE (assertExactKeys r
              [''host'', ''port'', ''algorithm'', ''sha256Fingerprint'', ''confirmedAtMs''] []
              path) (\<lambda>_.
     bindE (expectString (field r ''algorithm'') (dotted path ''algorithm'')) (\<lambda>algorithm.
     bindE (rejectIf (badAlgorithm algorithm) (dotted path ''algorithm'')
              ''contains an invalid SSH host-key algorithm'') (\<lambda>_.
     bindE (expectString (field r ''sha256Fingerprint'')
              (dotted path ''sha256Fingerprint'')) (\<lambda>sha256Fingerprint.
     bindE (rejectIf (\<not> SSH_SHA256_FINGERPRINT_PATTERN sha256Fingerprint)
              (dotted path ''sha256Fingerprint'') ''contains an invalid SHA256 fingerprint'') (\<lambda>_.
     bindE (expectString (field r ''host'') (dotted path ''host'')) (\<lambda>h.
     bindE (validateHost U h (dotted path ''host'')) (\<lambda>host.
     bindE (expectPort (field r ''port'') (dotted path ''port'')) (\<lambda>port.
     bindE (expectTimestamp (field r ''confirmedAtMs'') (dotted path ''confirmedAtMs'')) (\<lambda>confirmedAtMs.
     Inr \<lparr>hk_host = host, hk_port = port, hk_algorithm = algorithm,
          hk_sha256Fingerprint = sha256Fingerprint, hk_confirmedAtMs = confirmedAtMs\<rparr>))))))))))"

definition testStatuses :: "(string \<times> ProxyTestStatus) list" where
  "testStatuses = [(''succeeded'', TestSucceeded), (''failed'', TestFailed)]"

definition parseProxyLastTest :: "jsval \<Rightarrow> jstr \<Rightarrow> contract_error + ProxyLastTest" where
  "parseProxyLastTest value path =
     bindE (expectRecord value path) (\<lambda>r.
     bindE (assertExactKeys r [''status'', ''testedAtMs''] [] path) (\<lambda>_.
     bindE (expectEnum (field r ''status'') testStatuses (dotted path ''status'')) (\<lambda>status.
     bindE (expectTimestamp (field r ''testedAtMs'') (dotted path ''testedAtMs'')) (\<lambda>testedAtMs.
     Inr \<lparr>lt_status = status, lt_testedAtMs = testedAtMs\<rparr>))))"

text \<open>The checks that tie a recorded SSH host key to the proxy configuration.\<close>

definition checkSshHostKey ::
  "SshHostKeyRecord option \<Rightarrow> ProxyConfiguration \<Rightarrow> jstr \<Rightarrow> contract_error + unit" where
  "checkSshHostKey sshHostKey configuration path =
     (case sshHostKey of
        None \<Rightarrow> Inr ()
      | Some key \<Rightarrow>
          (case configuration of
             Ssh c \<Rightarrow> rejectIf (hk_host key \<noteq> sh_host c \<or> hk_port key \<noteq> sh_port c)
                       (dotted path ''sshHostKey'') ''does not match the SSH proxy endpoint''
           | _ \<Rightarrow> invalid (dotted path ''sshHostKey'') ''is only valid for an SSH proxy''))"

definition proxyAuthenticationDisabled :: "ProxyConfiguration \<Rightarrow> bool" where
  "proxyAuthenticationDisabled configuration =
     (case configuration of
        HttpConnect c \<Rightarrow> hp_authentication c = HpaNone
      | Socks5 c \<Rightarrow> sk_authentication c = SkaNone
      | Ssh c \<Rightarrow> sh_authentication c = SshAgent)"

definition optionalParsed ::
  "jsrecord \<Rightarrow> string \<Rightarrow> jstr \<Rightarrow> (jsval \<Rightarrow> jstr \<Rightarrow> contract_error + 'a) \<Rightarrow> contract_error + 'a option" where
  "optionalParsed r key path parse =
     (if hasOwn r (lit key)
      then bindE (parse (field r key) (dotted path key)) (\<lambda>x. Inr (Some x))
      else Inr None)"

definition parseProxyProfile :: "url_parser \<Rightarrow> jsval \<Rightarrow> jstr \<Rightarrow> contract_error + ProxyProfile" where
  "parseProxyProfile U value path =
     bindE (expectRecord value path) (\<lambda>r.
     bindE (assertExactKeys r
              [''proxyId'', ''name'', ''version'', ''configuration'', ''credentialConfigured'',
               ''referencedServerCount'', ''createdAtMs'', ''updatedAtMs'']
              [''sshHostKey'', ''lastTest''] path) (\<lambda>_.
     bindE (optionalParsed r ''sshHostKey'' path (parseSshHostKeyRecord U)) (\<lambda>sshHostKey.
     bindE (optionalParsed r ''lastTest'' path parseProxyLastTest) (\<lambda>lastTest.
     bindE (parseProxyConfiguration U (field r ''configuration'')
              (dotted path ''configuration'')) (\<lambda>configuration.
     bindE (checkSshHostKey sshHostKey configuration path) (\<lambda>_.
     bindE (expectTimestamp (field r ''createdAtMs'') (dotted path ''createdAtMs'')) (\<lambda>createdAtMs.
     bindE (expectTimestamp (field r ''updatedAtMs'') (dotted path ''updatedAtMs'')) (\<lambda>updatedAtMs.
     bindE (rejectIf (updatedAtMs < createdAtMs) (dotted path ''updatedAtMs'')
              ''must not precede creation time'') (\<lambda>_.
     bindE (expectBoolean (field r ''credentialConfigured'')
              (dotted path ''credentialConfigured'')) (\<lambda>credentialConfigured.
     bindE (rejectIf (credentialConfigured \<and> proxyAuthenticationDisabled configuration)
              (dotted path ''credentialConfigured'')
              ''cannot be true when proxy authentication has no stored credential'') (\<lambda>_.
     bindE (expectProxyId (field r ''proxyId'') (dotted path ''proxyId'')) (\<lambda>proxyId.
     bindE (expectString (field r ''name'') (dotted path ''name'')) (\<lambda>n.
     bindE (validateName n (dotted path ''name'') True) (\<lambda>name.
     bindE (expectVersion (field r ''version'') (dotted path ''version'')) (\<lambda>version.
     bindE (expectNonNegativeCount (field r ''referencedServerCount'')
              (dotted path ''referencedServerCount'')) (\<lambda>referencedServerCount.
     Inr \<lparr>pp_proxyId = proxyId, pp_name = name, pp_version = version,
          pp_configuration = configuration, pp_credentialConfigured = credentialConfigured,
          pp_sshHostKey = sshHostKey, pp_lastTest = lastTest,
          pp_referencedServerCount = referencedServerCount, pp_createdAtMs = createdAtMs,
          pp_updatedAtMs = updatedAtMs\<rparr>))))))))))))))))"

subsection \<open>The snapshot\<close>

text \<open>The loops over the parsed profiles: identifiers and folded names must be new.\<close>

fun checkServers :: "ServerId list \<Rightarrow> jstr list \<Rightarrow> ServerProfile list \<Rightarrow> contract_error + unit" where
  "checkServers serverIds serverNames [] = Inr ()"
| "checkServers serverIds serverNames (server # servers) =
     (if sp_serverId server \<in> set serverIds
      then invalid (lit ''configurationSnapshot.servers'') ''contains a duplicate serverId''
      else let normalizedName = foldAsciiCase (sp_name server) in
        if normalizedName \<in> set serverNames
        then invalid (lit ''configurationSnapshot.servers'') ''contains a duplicate server name''
        else checkServers (sp_serverId server # serverIds) (normalizedName # serverNames) servers)"

text \<open>The proxy loop also starts the map of actual reference counts at zero for each proxy.\<close>

fun checkProxies ::
  "ProxyId list \<Rightarrow> jstr list \<Rightarrow> (ProxyId \<rightharpoonup> int) \<Rightarrow> ProxyProfile list \<Rightarrow> contract_error + (ProxyId \<rightharpoonup> int)"
where
  "checkProxies proxyIds proxyNames counts [] = Inr counts"
| "checkProxies proxyIds proxyNames counts (proxy # proxies) =
     (if pp_proxyId proxy \<in> set proxyIds
      then invalid (lit ''configurationSnapshot.proxies'') ''contains a duplicate proxyId''
      else let normalizedName = foldAsciiCase (pp_name proxy) in
        if normalizedName \<in> set proxyNames
        then invalid (lit ''configurationSnapshot.proxies'') ''contains a duplicate proxy name''
        else checkProxies (pp_proxyId proxy # proxyIds) (normalizedName # proxyNames)
               (counts(pp_proxyId proxy \<mapsto> 0)) proxies)"

definition serverProxyId :: "ServerProfile \<Rightarrow> ProxyId option" where
  "serverProxyId server =
     (case sp_configuration server of RemoteWebSocket c \<Rightarrow> ws_proxyId c | LocalStdio _ \<Rightarrow> None)"

fun countReferences ::
  "(ProxyId \<rightharpoonup> int) \<Rightarrow> ServerProfile list \<Rightarrow> contract_error + (ProxyId \<rightharpoonup> int)" where
  "countReferences counts [] = Inr counts"
| "countReferences counts (server # servers) =
     (case serverProxyId server of
        None \<Rightarrow> countReferences counts servers
      | Some proxyId \<Rightarrow>
          (case counts proxyId of
             None \<Rightarrow> invalid (lit ''configurationSnapshot.servers'') ''references an unknown proxyId''
           | Some currentCount \<Rightarrow> countReferences (counts(proxyId \<mapsto> currentCount + 1)) servers))"

fun checkReferenceCounts ::
  "(ProxyId \<rightharpoonup> int) \<Rightarrow> ProxyProfile list \<Rightarrow> contract_error + unit" where
  "checkReferenceCounts counts [] = Inr ()"
| "checkReferenceCounts counts (proxy # proxies) =
     (if counts (pp_proxyId proxy) \<noteq> Some (pp_referencedServerCount proxy)
      then invalid (lit ''configurationSnapshot.proxies'')
             ''contains an inconsistent referencedServerCount''
      else checkReferenceCounts counts proxies)"

definition parseConfigurationSnapshot ::
  "url_parser \<Rightarrow> jsval \<Rightarrow> contract_error + ConfigurationSnapshot" where
  "parseConfigurationSnapshot U value =
     bindE (expectRecord value (lit ''configurationSnapshot'')) (\<lambda>r.
     bindE (assertExactKeys r [''servers'', ''proxies''] [] (lit ''configurationSnapshot'')) (\<lambda>_.
     bindE (expectArray (field r ''servers'') (lit ''configurationSnapshot.servers'')
              (parseServerProfile U)) (\<lambda>servers.
     bindE (expectArray (field r ''proxies'') (lit ''configurationSnapshot.proxies'')
              (parseProxyProfile U)) (\<lambda>proxies.
     bindE (checkServers [] [] servers) (\<lambda>_.
     bindE (checkProxies [] [] Map.empty proxies) (\<lambda>zeroCounts.
     bindE (countReferences zeroCounts servers) (\<lambda>actualReferenceCounts.
     bindE (checkReferenceCounts actualReferenceCounts proxies) (\<lambda>_.
     Inr \<lparr>cs_servers = servers, cs_proxies = proxies\<rparr>))))))))"

definition storageBackends :: "(string \<times> CredentialStorageBackend) list" where
  "storageBackends = [(''secretService'', SecretService), (''plaintextFile'', PlaintextFile),
     (''mixed'', MixedBackend)]"

definition parseCredentialStorageStatus :: "jsval \<Rightarrow> contract_error + CredentialStorageBackend" where
  "parseCredentialStorageStatus value =
     bindE (expectRecord value (lit ''credentialStorageStatus'')) (\<lambda>r.
     bindE (assertExactKeys r [''backend''] [] (lit ''credentialStorageStatus'')) (\<lambda>_.
     expectEnum (field r ''backend'') storageBackends (lit ''credentialStorageStatus.backend'')))"

definition parseEmptyConfigurationResponse :: "jsval \<Rightarrow> contract_error + unit" where
  "parseEmptyConfigurationResponse value =
     (if value \<noteq> JNull
      then invalid (lit ''configurationResponse'') ''expected an empty null response''
      else Inr ())"

end
