(* ===== verification/ConfigSpec.thy ===== *)
theory ConfigSpec
  imports ConfigValidate
begin

text \<open>
  What the readers and checks of the configuration contract accept, stated without reference to the
  code, and for each of them the equivalence \<open>f x path = Inr y\<close> iff the input has the
  accepted form and \<open>y\<close> is its value. The equivalences are the collection
  \<open>contract_iff\<close>; the proofs about the parsers and normalisers only use them.
\<close>

named_theorems contract_iff \<open>when a reader or check of the contract succeeds\<close>

declare bindE_eq_Inr [contract_iff]

definition profileName :: "jstr \<Rightarrow> bool" where
  "profileName n \<longleftrightarrow> n \<noteq> [] \<and> js_trim n = n \<and> utf8Length n \<le> 128 \<and> \<not> list_ex cu_control n"

definition absolutePath :: "jstr \<Rightarrow> bool" where
  "absolutePath p \<longleftrightarrow> (\<exists>s. p = lit ''/'' @ s) \<and> utf8Length p \<le> 4096 \<and> 0 \<notin> set p"

definition processArguments :: "jstr list \<Rightarrow> bool" where
  "processArguments as \<longleftrightarrow> length as \<le> 128 \<and> (\<forall>a \<in> set as. utf8Length a \<le> 4096 \<and> 0 \<notin> set a)"

definition environmentEntry :: "jstr \<Rightarrow> jstr \<Rightarrow> bool" where
  "environmentEntry n v \<longleftrightarrow> ENVIRONMENT_NAME_PATTERN n \<and> utf8Length n \<le> 128 \<and>
     utf8Length v \<le> 8192 \<and> 0 \<notin> set v"

definition environmentOk :: "NonSensitiveValues \<Rightarrow> bool" where
  "environmentOk env \<longleftrightarrow> length env \<le> 64 \<and> sorted (map fst env) \<and>
     (\<forall>(n, v) \<in> set env. environmentEntry n v \<and> \<not> looksSensitiveEnvironmentName n)"

definition sensitiveEnvironmentOk :: "SensitiveEnvironmentValues \<Rightarrow> bool" where
  "sensitiveEnvironmentOk env \<longleftrightarrow> env \<noteq> [] \<and> length env \<le> 64 \<and> sorted (map fst env) \<and>
     (\<forall>(n, v) \<in> set env. environmentEntry n v)"

definition headerEntry :: "ConfigurableHeaderTransport \<Rightarrow> jstr \<Rightarrow> jstr \<Rightarrow> bool" where
  "headerEntry transport n v \<longleftrightarrow> HTTP_HEADER_NAME_PATTERN n \<and> utf8Length n \<le> 128 \<and>
     \<not> looksSensitiveIdentifier n \<and> \<not> isReservedTransportHeader n transport \<and>
     utf8Length v \<le> 8192 \<and> (\<forall>c \<in> set v. \<not> badHeaderChar c)"

definition headersOk :: "ConfigurableHeaderTransport \<Rightarrow> NonSensitiveValues \<Rightarrow> bool" where
  "headersOk transport hs \<longleftrightarrow> length hs \<le> 32 \<and> sorted (map fst hs) \<and>
     distinct (map (asciiLower \<circ> fst) hs) \<and> (\<forall>(n, v) \<in> set hs. headerEntry transport n v)"

definition connectTimeoutOk :: "int \<Rightarrow> bool" where
  "connectTimeoutOk t \<longleftrightarrow> 1000 \<le> t \<and> t \<le> 120000"

definition portOk :: "int \<Rightarrow> bool" where
  "portOk p \<longleftrightarrow> 1 \<le> p \<and> p \<le> 65535"

definition timestampOk :: "int \<Rightarrow> bool" where
  "timestampOk t \<longleftrightarrow> 0 \<le> t \<and> t \<le> MAX_SAFE_INTEGER"

definition versionOk :: "int \<Rightarrow> bool" where
  "versionOk v \<longleftrightarrow> 0 < v \<and> v \<le> MAX_SAFE_INTEGER"

text \<open>A remote URL: plaintext exactly when confirmed, and lax certificates only over TLS.\<close>

definition webSocketUrlOk :: "url_parser \<Rightarrow> jstr \<Rightarrow> bool \<Rightarrow> TlsCertificatePolicy \<Rightarrow> bool" where
  "webSocketUrlOk U value plaintextConfirmed tlsPolicy \<longleftrightarrow>
     value \<noteq> [] \<and> utf8Length value \<le> 4096 \<and>
     (\<exists>url. U value = Some url \<and>
        url_protocol url = (if plaintextConfirmed then lit ''ws:'' else lit ''wss:'') \<and>
        url_username url = [] \<and> url_password url = [] \<and> url_hostname url \<noteq> [] \<and>
        0x23 \<notin> set value \<and> (\<forall>k \<in> set (url_searchKeys url). \<not> looksSensitiveIdentifier k)) \<and>
     (plaintextConfirmed \<longrightarrow> tlsPolicy = TlsStrict)"

definition httpProxyUrlOk :: "url_parser \<Rightarrow> jstr \<Rightarrow> TlsCertificatePolicy \<Rightarrow> bool" where
  "httpProxyUrlOk U value tlsPolicy \<longleftrightarrow>
     value \<noteq> [] \<and> utf8Length value \<le> 4096 \<and>
     (\<exists>url. U value = Some url \<and>
        (url_protocol url = lit ''https:'' \<or> url_protocol url = lit ''http:'' \<and> tlsPolicy = TlsStrict) \<and>
        url_username url = [] \<and> url_password url = [] \<and> url_hostname url \<noteq> [] \<and>
        url_pathname url \<in> {[], lit ''/''} \<and> 0x3F \<notin> set value \<and> 0x23 \<notin> set value)"

definition hostOk :: "url_parser \<Rightarrow> jstr \<Rightarrow> bool" where
  "hostOk U value \<longleftrightarrow> value \<noteq> [] \<and> utf8Length value \<le> 253 \<and> \<not> list_ex cu_control value \<and>
     \<not> list_ex cu_badHost value \<and>
     (\<exists>parsed. U (lit ''http://'' @ hostAuthority value @ lit ''/'') = Some parsed \<and>
        stripBrackets (url_hostname parsed) \<noteq> [] \<and>
        utf8Length (stripBrackets (url_hostname parsed)) \<le> 253)"

definition usernameOk :: "jstr \<Rightarrow> bool" where
  "usernameOk u \<longleftrightarrow> js_trim u \<noteq> [] \<and> utf8Length u \<le> 255 \<and> \<not> list_ex cu_control u"

definition bearerTokenOk :: "jstr \<Rightarrow> bool" where
  "bearerTokenOk t \<longleftrightarrow> utf8Length t \<le> 8185 \<and> BEARER_TOKEN_PATTERN t"

definition textCredentialOk :: "nat \<Rightarrow> jstr \<Rightarrow> bool" where
  "textCredentialOk maxBytes t \<longleftrightarrow> t \<noteq> [] \<and> utf8Length t \<le> maxBytes \<and> 0 \<notin> set t"

subsection \<open>Readers\<close>

lemma invalid_neq_Inr [simp, contract_iff]: "invalid path problem \<noteq> Inr x"
  by (simp add: invalid_def)

lemma rejectIf_eq_Inr [simp, contract_iff]: "rejectIf bad path problem = Inr u \<longleftrightarrow> \<not> bad"
  by (simp add: rejectIf_def)

lemma expectRecord_eq_Inr [contract_iff]: "expectRecord v path = Inr r \<longleftrightarrow> v = JObj r"
  by (auto simp: expectRecord_def split: jsval.splits)

lemma expectString_eq_Inr [contract_iff]: "expectString v path = Inr s \<longleftrightarrow> v = JStr s"
  by (auto simp: expectString_def split: jsval.splits)

lemma expectBoolean_eq_Inr [contract_iff]: "expectBoolean v path = Inr b \<longleftrightarrow> v = JBool b"
  by (auto simp: expectBoolean_def split: jsval.splits)

lemma expectEnum_eq_Inr [contract_iff]:
  "expectEnum v allowed path = Inr x \<longleftrightarrow> (\<exists>s. v = JStr s \<and> enumLookup allowed s = Some x)"
  by (auto simp: expectEnum_def split: jsval.splits option.splits)

lemma expectSafeInteger_eq_Inr [contract_iff]:
  "expectSafeInteger v path = Inr i \<longleftrightarrow> v = JInt i \<and> isSafeInt i"
  by (auto simp: expectSafeInteger_def split: jsval.splits if_splits)

lemma expectVersion_eq_Inr [contract_iff]:
  "expectVersion v path = Inr i \<longleftrightarrow> v = JInt i \<and> versionOk i"
  by (auto simp: expectVersion_def versionOk_def contract_iff MAX_SAFE_INTEGER_def)

lemma expectTimestamp_eq_Inr [contract_iff]:
  "expectTimestamp v path = Inr i \<longleftrightarrow> v = JInt i \<and> timestampOk i"
  by (auto simp: expectTimestamp_def timestampOk_def contract_iff MAX_SAFE_INTEGER_def)

lemma expectNonNegativeCount_eq_Inr [contract_iff]:
  "expectNonNegativeCount v path = Inr i \<longleftrightarrow> v = JInt i \<and> timestampOk i"
  by (auto simp: expectNonNegativeCount_def timestampOk_def contract_iff MAX_SAFE_INTEGER_def)

lemma expectPort_eq_Inr [contract_iff]: "expectPort v path = Inr i \<longleftrightarrow> v = JInt i \<and> portOk i"
  by (auto simp: expectPort_def portOk_def contract_iff)

lemma expectServerId_eq_Inr [contract_iff]:
  "expectServerId v path = Inr s \<longleftrightarrow> v = JStr s \<and> UUID_PATTERN s"
  by (auto simp: expectServerId_def contract_iff)

lemma expectProxyId_eq_Inr [contract_iff]:
  "expectProxyId v path = Inr s \<longleftrightarrow> v = JStr s \<and> UUID_PATTERN s"
  by (auto simp: expectProxyId_def contract_iff)

lemma enumLookup_simps [simp]:
  "enumLookup [] s = None"
  "enumLookup ((name, x) # allowed) s = (if lit name = s then Some x else enumLookup allowed s)"
  by (auto simp: enumLookup_def)

subsection \<open>Arrays and string maps\<close>

lemma arrayEntries_eq_Inr:
  "arrayEntries parse path n slots = Inr xs \<Longrightarrow>
     \<exists>vs. slots = map Some vs \<and> length vs = length xs \<and>
       (\<forall>i < length xs. parse (vs ! i) (indexed path (n + i)) = Inr (xs ! i))"
proof (induction parse path n slots arbitrary: xs rule: arrayEntries.induct)
  case (3 parse path n v slots)
  then obtain x ys where x: "parse v (indexed path n) = Inr x" and xs: "xs = x # ys"
    and ys: "arrayEntries parse path (Suc n) slots = Inr ys"
    by (auto simp: bindE_eq_Inr)
  from "3.IH" [OF ys] obtain vs where vs: "slots = map Some vs" "length vs = length ys"
    "\<forall>i < length ys. parse (vs ! i) (indexed path (Suc n + i)) = Inr (ys ! i)"
    by blast
  show ?case
    by (rule exI [of _ "v # vs"]) (use x xs vs in \<open>auto simp: nth_Cons split: nat.splits\<close>)
qed simp_all

lemma arrayEntries_map:
  "(\<And>x p. x \<in> set xs \<Longrightarrow> parse (enc x) p = Inr x) \<Longrightarrow>
     arrayEntries parse path n (map (Some \<circ> enc) xs) = Inr xs"
  by (induction xs arbitrary: n) simp_all

lemma arrayEntries_set:
  assumes "arrayEntries parse path n slots = Inr xs" and "x \<in> set xs"
  shows "\<exists>v p. parse v p = Inr x"
  using arrayEntries_eq_Inr [OF assms(1)] assms(2) by (metis in_set_conv_nth)

lemma expectStringArray_eq_Inr [contract_iff]:
  "expectStringArray v path = Inr ss \<longleftrightarrow> v = JArr (map (Some \<circ> JStr) ss)"
proof
  assume "expectStringArray v path = Inr ss"
  then obtain slots where v: "v = JArr slots" and e: "arrayEntries expectString path 0 slots = Inr ss"
    by (auto simp: expectStringArray_def split: jsval.splits)
  from arrayEntries_eq_Inr [OF e] obtain vs where vs: "slots = map Some vs" "length vs = length ss"
    "\<forall>i < length ss. vs ! i = JStr (ss ! i)"
    by (auto simp: expectString_eq_Inr)
  then have "vs = map JStr ss" by (auto intro: nth_equalityI)
  with v vs show "v = JArr (map (Some \<circ> JStr) ss)" by simp
qed (auto simp: expectStringArray_def intro: arrayEntries_map simp: expectString_eq_Inr)

definition stringMapValue :: "(jstr \<times> jstr) list \<Rightarrow> jsval" where
  "stringMapValue m = JObj (map (\<lambda>(k, v). (KStr k, JStr v)) m)"

lemma stringMapEntry_eq_Inr:
  "stringMapEntry path e = Inr kv \<longleftrightarrow> e = (KStr (fst kv), JStr (snd kv))"
  by (cases e; cases kv) (auto simp: stringMapEntry_def contract_iff split: jskey.splits)

lemma sorted_sortEntries [simp]: "sorted (map fst (sortEntries m))"
  by (simp add: sortEntries_def)

lemma mset_sortEntries [simp]: "mset (sortEntries m) = mset m"
  by (simp add: sortEntries_def)

lemma set_sortEntries [simp]: "set (sortEntries m) = set m"
  by (simp add: sortEntries_def)

lemma length_sortEntries [simp]: "length (sortEntries m) = length m"
  by (simp add: sortEntries_def)

lemma sortEntries_eq_Nil [simp]: "sortEntries m = [] \<longleftrightarrow> m = []"
  by (metis length_0_conv length_sortEntries)

lemma sortEntries_id: "sorted (map fst m) \<Longrightarrow> sortEntries m = m"
  by (simp add: sortEntries_def sort_key_id_if_sorted)

lemma expectStringMap_eq_Inr [contract_iff]:
  "expectStringMap v path = Inr m \<longleftrightarrow> (\<exists>entries. v = stringMapValue entries \<and> m = sortEntries entries)"
proof -
  have "mapE (stringMapEntry path) r = Inr entries \<longleftrightarrow> r = map (\<lambda>(k, v). (KStr k, JStr v)) entries"
    for r entries
    by (induction r arbitrary: entries) (auto simp: contract_iff stringMapEntry_eq_Inr)
  then show ?thesis
    by (auto simp: expectStringMap_def contract_iff stringMapValue_def)
qed

subsection \<open>Checks\<close>

lemma validateName_eq_Inr [contract_iff]:
  "validateName v path normalized = Inr n \<longleftrightarrow>
     n = js_trim v \<and> profileName n \<and> (normalized \<longrightarrow> n = v)"
  by (auto simp: validateName_def profileName_def byteLength_def CONTROL_CHARACTER_PATTERN_def Let_def)

lemma validateAbsolutePath_eq_Inr [contract_iff]:
  "validateAbsolutePath v path = Inr p \<longleftrightarrow> p = v \<and> absolutePath v"
  by (auto simp: validateAbsolutePath_def absolutePath_def byteLength_def prefix_def)

lemma validateArguments_eq_Inr [contract_iff]:
  "validateArguments v path = Inr a \<longleftrightarrow> a = v \<and> processArguments v"
  by (simp add: validateArguments_def processArguments_def byteLength_def list_ex_iff)
     (meson not_less)

lemma badEnvironmentEntry_iff: "badEnvironmentEntry n v \<longleftrightarrow> \<not> environmentEntry n v"
  by (auto simp: badEnvironmentEntry_def environmentEntry_def byteLength_def)

lemma checkEnvironment_eq_Inr:
  "checkEnvironment env path = Inr u \<longleftrightarrow>
     (\<forall>(n, v) \<in> set env. environmentEntry n v \<and> \<not> looksSensitiveEnvironmentName n)"
  by (induction env path rule: checkEnvironment.induct) (auto simp: badEnvironmentEntry_iff)

lemma validateEnvironment_eq_Inr [contract_iff]:
  "validateEnvironment v path = Inr env \<longleftrightarrow> env = v \<and> length v \<le> 64 \<and>
     (\<forall>(n, w) \<in> set v. environmentEntry n w \<and> \<not> looksSensitiveEnvironmentName n)"
  by (auto simp: validateEnvironment_def contract_iff checkEnvironment_eq_Inr)

lemma validateEnvironment_sorted_iff:
  "sorted (map fst v) \<Longrightarrow> validateEnvironment v path = Inr env \<longleftrightarrow> env = v \<and> environmentOk v"
  by (auto simp: validateEnvironment_eq_Inr environmentOk_def)

lemma badHeader_iff: "badHeader transport n v \<longleftrightarrow> \<not> headerEntry transport n v"
  by (auto simp: badHeader_def headerEntry_def byteLength_def list_ex_iff)

lemma checkHeaders_eq_Inr:
  "checkHeaders seen hs path transport = Inr u \<longleftrightarrow>
     distinct (map (asciiLower \<circ> fst) hs) \<and> set (map (asciiLower \<circ> fst) hs) \<inter> set seen = {} \<and>
     (\<forall>(n, v) \<in> set hs. headerEntry transport n v)"
  by (induction seen hs path transport rule: checkHeaders.induct)
     (auto simp: badHeader_iff Let_def)

lemma validateHeaders_eq_Inr [contract_iff]:
  "validateHeaders v path transport = Inr hs \<longleftrightarrow> hs = v \<and> length v \<le> 32 \<and>
     distinct (map (asciiLower \<circ> fst) v) \<and> (\<forall>(n, w) \<in> set v. headerEntry transport n w)"
  by (auto simp: validateHeaders_def contract_iff checkHeaders_eq_Inr)

lemma sensitiveEnvironmentEntry_eq_Inr:
  "sensitiveEnvironmentEntry path e = Inr kv \<longleftrightarrow>
     e = (KStr (fst kv), JStr (snd kv)) \<and> environmentEntry (fst kv) (snd kv)"
  by (cases e; cases kv)
     (auto simp: sensitiveEnvironmentEntry_def contract_iff badEnvironmentEntry_iff split: jskey.splits)

lemma normalizeSensitiveEnvironment_eq_Inr [contract_iff]:
  "normalizeSensitiveEnvironment v path = Inr env \<longleftrightarrow>
     (\<exists>entries. v = stringMapValue entries \<and> env = sortEntries entries \<and> entries \<noteq> [] \<and>
        length entries \<le> 64 \<and> (\<forall>(n, w) \<in> set entries. environmentEntry n w))"
proof -
  have "mapE (sensitiveEnvironmentEntry path) r = Inr entries \<longleftrightarrow>
      r = map (\<lambda>(k, v). (KStr k, JStr v)) entries \<and> (\<forall>(n, w) \<in> set entries. environmentEntry n w)"
    for r entries
    by (induction r arbitrary: entries)
       (auto simp: contract_iff sensitiveEnvironmentEntry_eq_Inr)
  then show ?thesis
    by (auto simp: normalizeSensitiveEnvironment_def contract_iff stringMapValue_def ownKeys_def)
qed

lemma normalizeTextCredential_eq_Inr [contract_iff]:
  "normalizeTextCredential v path n = Inr t \<longleftrightarrow> v = JStr t \<and> textCredentialOk n t"
  by (auto simp: normalizeTextCredential_def textCredentialOk_def byteLength_def contract_iff)

lemma normalizeBearerToken_eq_Inr [contract_iff]:
  "normalizeBearerToken v path = Inr t \<longleftrightarrow> v = JStr t \<and> bearerTokenOk t"
  by (auto simp: normalizeBearerToken_def bearerTokenOk_def byteLength_def contract_iff)

lemma validateConnectTimeout_eq_Inr [contract_iff]:
  "validateConnectTimeout t path = Inr u \<longleftrightarrow> u = t \<and> connectTimeoutOk t"
  by (auto simp: validateConnectTimeout_def connectTimeoutOk_def)

lemma parseUrl_eq_Inr [contract_iff]:
  "parseUrl U v path = Inr url \<longleftrightarrow> v \<noteq> [] \<and> utf8Length v \<le> 4096 \<and> U v = Some url"
  by (auto simp: parseUrl_def byteLength_def split: option.splits)

lemma validateWebSocketUrl_eq_Inr [contract_iff]:
  "validateWebSocketUrl U v pc tls path = Inr u \<longleftrightarrow> u = v \<and> webSocketUrlOk U v pc tls"
proof -
  have "badWebSocketUrl v url \<longleftrightarrow> \<not> ((url_protocol url = lit ''ws:'' \<or> url_protocol url = lit ''wss:'') \<and>
      url_username url = [] \<and> url_password url = [] \<and> url_hostname url \<noteq> [] \<and> 0x23 \<notin> set v \<and>
      (\<forall>k \<in> set (url_searchKeys url). \<not> looksSensitiveIdentifier k))" for url
    by (auto simp: badWebSocketUrl_def list_ex_iff)
  then show ?thesis
    by (cases "U v") (auto simp: validateWebSocketUrl_def webSocketUrlOk_def contract_iff Let_def)
qed

lemma validateHttpProxyUrl_eq_Inr [contract_iff]:
  "validateHttpProxyUrl U v tls path = Inr u \<longleftrightarrow> u = v \<and> httpProxyUrlOk U v tls"
  by (cases "U v")
     (auto simp: validateHttpProxyUrl_def httpProxyUrlOk_def badHttpProxyUrl_def contract_iff Let_def)

lemma validateHost_eq_Inr [contract_iff]:
  "validateHost U v path = Inr h \<longleftrightarrow> h = v \<and> hostOk U v"
  by (auto simp: validateHost_def hostOk_def byteLength_def CONTROL_CHARACTER_PATTERN_def Let_def
      split: option.splits)

lemma validateUsername_eq_Inr [contract_iff]:
  "validateUsername v path = Inr u \<longleftrightarrow> u = v \<and> usernameOk v"
  by (auto simp: validateUsername_def usernameOk_def byteLength_def CONTROL_CHARACTER_PATTERN_def)

lemma validateOptionalUsername_eq_Inr [contract_iff]:
  "validateOptionalUsername required v path = Inr u \<longleftrightarrow> u = v \<and>
     (if required then \<exists>n. v = Some n \<and> usernameOk n else v = None)"
  by (cases v) (auto simp: validateOptionalUsername_def contract_iff)

lemma validateHttpProxyUsername_eq_Inr [contract_iff]:
  "validateHttpProxyUsername a v path = Inr u \<longleftrightarrow> u = v \<and>
     (if a = HpaBasic then \<exists>n. v = Some n \<and> usernameOk n \<and> 0x3A \<notin> set n else v = None)"
  by (cases v) (auto simp: validateHttpProxyUsername_def contract_iff split: if_splits)

lemma checkKeepAliveInterval_eq_Inr [contract_iff]:
  "checkKeepAliveInterval i path = Inr u \<longleftrightarrow> 1000 \<le> i \<and> i \<le> 300000"
  by (auto simp: checkKeepAliveInterval_def)

lemma checkKeepAliveFailures_eq_Inr [contract_iff]:
  "checkKeepAliveFailures i path = Inr u \<longleftrightarrow> 1 \<le> i \<and> i \<le> 10"
  by (auto simp: checkKeepAliveFailures_def)

subsection \<open>Keys\<close>

lemma requireKeys_eq_Inr: "requireKeys r keys path = Inr u \<longleftrightarrow> (\<forall>k \<in> set keys. hasOwn r (lit k))"
  by (induction r keys path rule: requireKeys.induct) auto

lemma assertExactKeys_eq_Inr [contract_iff]:
  "assertExactKeys r required optional path = Inr u \<longleftrightarrow>
     set (ownKeys r) \<subseteq> (KStr \<circ> lit) ` (set required \<union> set optional) \<and>
     (\<forall>k \<in> set required. hasOwn r (lit k))"
proof -
  have "allowedKey required optional k \<longleftrightarrow> k \<in> (KStr \<circ> lit) ` (set required \<union> set optional)" for k
    by (cases k) (auto simp: allowedKey_def)
  then show ?thesis
    by (auto simp: assertExactKeys_def requireKeys_eq_Inr list_all_iff)
qed

lemma hasOwn_iff_ownKeys: "hasOwn r k \<longleftrightarrow> KStr k \<in> set (ownKeys r)"
  by (simp add: hasOwn_def ownKeys_def)

subsection \<open>Evaluation on accepted inputs\<close>

text \<open>
  The other reading of the equivalences: rewriting a reader or check to its result where the input
  is known to be accepted, so that a parser is evaluated statement by statement.
\<close>

named_theorems contract_eval \<open>the value of a reader or check on an accepted input\<close>

lemma reader_eval [contract_eval]:
  "expectRecord (JObj r) path = Inr r"
  "expectString (JStr s) path = Inr s"
  "expectBoolean (JBool b) path = Inr b"
  "enumLookup allowed s = Some x \<Longrightarrow> expectEnum (JStr s) allowed path = Inr x"
  "isSafeInt i \<Longrightarrow> expectSafeInteger (JInt i) path = Inr i"
  "versionOk i \<Longrightarrow> expectVersion (JInt i) path = Inr i"
  "timestampOk i \<Longrightarrow> expectTimestamp (JInt i) path = Inr i"
  "timestampOk i \<Longrightarrow> expectNonNegativeCount (JInt i) path = Inr i"
  "portOk i \<Longrightarrow> expectPort (JInt i) path = Inr i"
  "UUID_PATTERN s \<Longrightarrow> expectServerId (JStr s) path = Inr s"
  "UUID_PATTERN s \<Longrightarrow> expectProxyId (JStr s) path = Inr s"
  "expectStringArray (JArr (map (Some \<circ> JStr) ss)) path = Inr ss"
  "expectStringMap (stringMapValue m) path = Inr (sortEntries m)"
  "\<not> bad \<Longrightarrow> rejectIf bad path problem = Inr ()"
  by (simp_all add: contract_iff) (auto intro!: exI [of _ m])

lemma check_eval [contract_eval]:
  "profileName n \<Longrightarrow> validateName n path normalized = Inr n"
  "absolutePath p \<Longrightarrow> validateAbsolutePath p path = Inr p"
  "processArguments ss \<Longrightarrow> validateArguments ss path = Inr ss"
  "environmentOk env \<Longrightarrow> validateEnvironment env path = Inr env"
  "headersOk transport hs \<Longrightarrow> validateHeaders hs path transport = Inr hs"
  "connectTimeoutOk t \<Longrightarrow> validateConnectTimeout t path = Inr t"
  "webSocketUrlOk U u pc tls \<Longrightarrow> validateWebSocketUrl U u pc tls path = Inr u"
  "httpProxyUrlOk U u tls \<Longrightarrow> validateHttpProxyUrl U u tls path = Inr u"
  "hostOk U h \<Longrightarrow> validateHost U h path = Inr h"
  "usernameOk n \<Longrightarrow> validateUsername n path = Inr n"
  "bearerTokenOk s \<Longrightarrow> normalizeBearerToken (JStr s) path = Inr s"
  "textCredentialOk k s \<Longrightarrow> normalizeTextCredential (JStr s) path k = Inr s"
  "1000 \<le> i \<Longrightarrow> i \<le> 300000 \<Longrightarrow> checkKeepAliveInterval i path = Inr ()"
  "1 \<le> i \<Longrightarrow> i \<le> 10 \<Longrightarrow> checkKeepAliveFailures i path = Inr ()"
  by (auto simp: contract_iff environmentOk_def headersOk_def profileName_def)

lemma connectTimeoutOk_safe [contract_eval]: "connectTimeoutOk t \<Longrightarrow> isSafeInt t"
  by (simp add: connectTimeoutOk_def)

lemma sorted_eval [contract_eval]:
  "environmentOk env \<Longrightarrow> sortEntries env = env"
  "headersOk WebSocketTransport hs \<Longrightarrow> sortEntries hs = hs"
  "headersOk HttpConnectTransport hs \<Longrightarrow> sortEntries hs = hs"
  "sensitiveEnvironmentOk senv \<Longrightarrow> sortEntries senv = senv"
  by (auto simp: environmentOk_def headersOk_def sensitiveEnvironmentOk_def sortEntries_id)

lemma assertExactKeys_eval [contract_eval]:
  "list_all (allowedKey required optional) (ownKeys r) \<Longrightarrow> list_all (\<lambda>k. hasOwn r (lit k)) required \<Longrightarrow>
     assertExactKeys r required optional path = Inr ()"
  by (simp add: assertExactKeys_def requireKeys_eq_Inr list_all_iff)

lemma allowedKey_lit [simp, contract_eval]:
  "allowedKey required optional (KStr (lit k)) \<longleftrightarrow> k \<in> set required \<or> k \<in> set optional"
  by (auto simp: allowedKey_def)

end
