(* ===== verification/ConfigCodec.thy ===== *)
theory ConfigCodec
  imports ConfigParse ConfigSpec
begin

text \<open>
  What the parsers accept. For each type \<open>T\<close> of the contract, \<open>T_value\<close> is the object
  its interface describes and \<open>T_ok\<close> the values the contract allows. The locale
  \<open>codec\<close> is the contract between a parser and the code that relies on its results: a parsed
  value is allowed, and the object of an allowed value parses to it. \<open>strict_codec\<close> adds
  that an accepted object has no key the interface does not name. Both are interpreted on the
  parsers of the program, and their lemmas are what the configuration properties rest on.
\<close>

subsection \<open>Interfaces\<close>

locale codec =
  fixes parse :: "jsval \<Rightarrow> jstr \<Rightarrow> contract_error + 'a"
    and enc :: "'a \<Rightarrow> jsval"
    and ok :: "'a \<Rightarrow> bool"
  assumes sound: "parse v path = Inr x \<Longrightarrow> ok x"
    and complete: "ok x \<Longrightarrow> parse (enc x) path = Inr x"
begin

lemma parse_again: "parse v path = Inr x \<Longrightarrow> parse (enc x) path' = Inr x"
  by (rule complete) (rule sound)

lemma ok_iff_parsed: "ok x \<longleftrightarrow> (\<exists>v path. parse v path = Inr x)"
  using sound complete by blast

lemma enc_inject: "ok x \<Longrightarrow> ok y \<Longrightarrow> enc x = enc y \<Longrightarrow> x = y"
  by (metis complete sum.inject(2))

lemma array_sound: "expectArray v path parse = Inr xs \<Longrightarrow> list_all ok xs"
  unfolding expectArray_def list_all_iff
  by (auto split: jsval.splits dest: arrayEntries_set intro: sound)

lemma array_complete: "list_all ok xs \<Longrightarrow> expectArray (JArr (map (Some \<circ> enc) xs)) path parse = Inr xs"
  by (auto simp: expectArray_def list_all_iff intro: arrayEntries_map complete)

lemma optional_sound: "optionalParsed r key path parse = Inr x \<Longrightarrow> pred_option ok x"
  by (auto simp: optionalParsed_def contract_iff intro: sound split: if_splits)

end

locale strict_codec = codec +
  assumes exact_keys: "parse (JObj r) path = Inr x \<Longrightarrow>
    \<exists>r'. enc x = JObj r' \<and> set (ownKeys r) = set (ownKeys r')"
begin

lemma foreign_key_rejected:
  assumes "enc x = JObj r'" and "set (ownKeys r) \<noteq> set (ownKeys r')"
  shows "parse (JObj r) path \<noteq> Inr x"
  using assms exact_keys by force

end

subsection \<open>Objects of the contract\<close>

definition enumName :: "(string \<times> 'a) list \<Rightarrow> 'a \<Rightarrow> string" where
  "enumName allowed x = (case find (\<lambda>(_, y). y = x) allowed of Some (n, _) \<Rightarrow> n | None \<Rightarrow> [])"

abbreviation enumValue :: "(string \<times> 'a) list \<Rightarrow> 'a \<Rightarrow> jsval" where
  "enumValue allowed x \<equiv> JStr (lit (enumName allowed x))"

fun SshAuthentication_value :: "SshAuthenticationConfiguration \<Rightarrow> jsval" where
  "SshAuthentication_value SshAgent = JObj [jprop ''type'' (JStr (lit ''agent''))]"
| "SshAuthentication_value (SshPrivateKey p) =
     JObj [jprop ''type'' (JStr (lit ''privateKey'')), jprop ''privateKeyPath'' (JStr p)]"
| "SshAuthentication_value SshPassword = JObj [jprop ''type'' (JStr (lit ''password''))]"

fun SshAuthentication_ok :: "SshAuthenticationConfiguration \<Rightarrow> bool" where
  "SshAuthentication_ok (SshPrivateKey p) = absolutePath p"
| "SshAuthentication_ok _ = True"

definition LocalStdio_value :: "LocalStdioServerConfiguration \<Rightarrow> jsval" where
  "LocalStdio_value c = JObj
     ([jprop ''type'' (JStr (lit ''localStdio'')),
       jprop ''executablePath'' (JStr (ls_executablePath c)),
       jprop ''arguments'' (JArr (map (Some \<circ> JStr) (ls_arguments c)))] @
      optProp ''defaultWorkingDirectory'' JStr (ls_defaultWorkingDirectory c) @
      [jprop ''nonSensitiveEnvironment'' (stringMapValue (ls_nonSensitiveEnvironment c))])"

definition LocalStdio_ok :: "LocalStdioServerConfiguration \<Rightarrow> bool" where
  "LocalStdio_ok c \<longleftrightarrow> absolutePath (ls_executablePath c) \<and> processArguments (ls_arguments c) \<and>
     pred_option absolutePath (ls_defaultWorkingDirectory c) \<and>
     environmentOk (ls_nonSensitiveEnvironment c)"

definition RemoteWebSocket_value :: "RemoteWebSocketServerConfiguration \<Rightarrow> jsval" where
  "RemoteWebSocket_value c = JObj
     ([jprop ''type'' (JStr (lit ''remoteWebSocket'')),
       jprop ''url'' (JStr (ws_url c)),
       jprop ''authentication'' (enumValue serverAuthentications (ws_authentication c)),
       jprop ''nonSensitiveHeaders'' (stringMapValue (ws_nonSensitiveHeaders c)),
       jprop ''connectTimeoutMs'' (JInt (ws_connectTimeoutMs c)),
       jprop ''tlsCertificatePolicy'' (enumValue tlsPolicies (ws_tlsCertificatePolicy c)),
       jprop ''plaintextConfirmed'' (JBool (ws_plaintextConfirmed c))] @
      optProp ''proxyId'' JStr (ws_proxyId c))"

definition RemoteWebSocket_ok :: "url_parser \<Rightarrow> RemoteWebSocketServerConfiguration \<Rightarrow> bool" where
  "RemoteWebSocket_ok U c \<longleftrightarrow>
     webSocketUrlOk U (ws_url c) (ws_plaintextConfirmed c) (ws_tlsCertificatePolicy c) \<and>
     headersOk WebSocketTransport (ws_nonSensitiveHeaders c) \<and>
     connectTimeoutOk (ws_connectTimeoutMs c) \<and> pred_option UUID_PATTERN (ws_proxyId c)"

fun ServerConfiguration_value :: "ServerConfiguration \<Rightarrow> jsval" where
  "ServerConfiguration_value (LocalStdio c) = LocalStdio_value c"
| "ServerConfiguration_value (RemoteWebSocket c) = RemoteWebSocket_value c"

fun ServerConfiguration_ok :: "url_parser \<Rightarrow> ServerConfiguration \<Rightarrow> bool" where
  "ServerConfiguration_ok U (LocalStdio c) = LocalStdio_ok c"
| "ServerConfiguration_ok U (RemoteWebSocket c) = RemoteWebSocket_ok U c"

definition ServerProfile_value :: "ServerProfile \<Rightarrow> jsval" where
  "ServerProfile_value p = JObj
     ([jprop ''serverId'' (JStr (sp_serverId p)), jprop ''name'' (JStr (sp_name p)),
       jprop ''version'' (JInt (sp_version p)),
       jprop ''configuration'' (ServerConfiguration_value (sp_configuration p)),
       jprop ''credentialConfigured'' (JBool (sp_credentialConfigured p)),
       jprop ''activeWindowCount'' (JInt (sp_activeWindowCount p)),
       jprop ''createdAtMs'' (JInt (sp_createdAtMs p)),
       jprop ''updatedAtMs'' (JInt (sp_updatedAtMs p))] @
      optProp ''lastUsedAtMs'' JInt (sp_lastUsedAtMs p))"

definition ServerProfile_ok :: "url_parser \<Rightarrow> ServerProfile \<Rightarrow> bool" where
  "ServerProfile_ok U p \<longleftrightarrow> UUID_PATTERN (sp_serverId p) \<and> profileName (sp_name p) \<and>
     versionOk (sp_version p) \<and> ServerConfiguration_ok U (sp_configuration p) \<and>
     (sp_credentialConfigured p \<longrightarrow> \<not> serverAuthenticationDisabled (sp_configuration p)) \<and>
     timestampOk (sp_activeWindowCount p) \<and> timestampOk (sp_createdAtMs p) \<and>
     timestampOk (sp_updatedAtMs p) \<and> sp_createdAtMs p \<le> sp_updatedAtMs p \<and>
     pred_option timestampOk (sp_lastUsedAtMs p)"

subsection \<open>Server parsers\<close>

lemma serverTypes_lookup [simp]:
  "enumLookup serverTypes s = Some LocalStdioType \<longleftrightarrow> s = lit ''localStdio''"
  "enumLookup serverTypes s = Some RemoteWebSocketType \<longleftrightarrow> s = lit ''remoteWebSocket''"
  by (auto simp: serverTypes_def)

lemma sshAuthTypes_lookup [simp]:
  "enumLookup sshAuthTypes s = Some AuthAgent \<longleftrightarrow> s = lit ''agent''"
  "enumLookup sshAuthTypes s = Some AuthPrivateKey \<longleftrightarrow> s = lit ''privateKey''"
  "enumLookup sshAuthTypes s = Some AuthPassword \<longleftrightarrow> s = lit ''password''"
  by (auto simp: sshAuthTypes_def)

lemma serverAuthentications_lookup [simp]:
  "enumLookup serverAuthentications (lit (enumName serverAuthentications a)) = Some a"
  by (cases a) (simp_all add: serverAuthentications_def enumName_def)

lemma tlsPolicies_lookup [simp]:
  "enumLookup tlsPolicies (lit (enumName tlsPolicies a)) = Some a"
  by (cases a) (simp_all add: tlsPolicies_def enumName_def)

lemma optionalString_eq_Inr [contract_iff]:
  "optionalString r key path = Inr x \<longleftrightarrow>
     (case x of None \<Rightarrow> \<not> hasOwn r (lit key) | Some s \<Rightarrow> hasOwn r (lit key) \<and> field r key = JStr s)"
  by (auto simp: optionalString_def contract_iff split: option.splits)

lemma optionalProxyId_eq_Inr [contract_iff]:
  "optionalProxyId r key path = Inr x \<longleftrightarrow>
     (case x of None \<Rightarrow> \<not> hasOwn r (lit key)
      | Some s \<Rightarrow> hasOwn r (lit key) \<and> field r key = JStr s \<and> UUID_PATTERN s)"
  by (auto simp: optionalProxyId_def contract_iff split: option.splits)

lemma optionalTimestamp_eq_Inr [contract_iff]:
  "optionalTimestamp r key path = Inr x \<longleftrightarrow>
     (case x of None \<Rightarrow> \<not> hasOwn r (lit key)
      | Some t \<Rightarrow> hasOwn r (lit key) \<and> field r key = JInt t \<and> timestampOk t)"
  by (auto simp: optionalTimestamp_def contract_iff split: option.splits)

lemma validateOptional_eq_Inr [contract_iff]:
  "validateOptional check x = Inr y \<longleftrightarrow>
     (case x of None \<Rightarrow> y = None | Some v \<Rightarrow> \<exists>w. check v = Inr w \<and> y = Some w)"
  by (auto simp: validateOptional_def contract_iff split: option.splits)

lemma parseSshAuthentication_sound:
  "parseSshAuthentication v path = Inr x \<Longrightarrow> SshAuthentication_ok x"
  by (auto simp: parseSshAuthentication_def contract_iff split: if_splits)

lemma parseSshAuthentication_complete:
  "SshAuthentication_ok x \<Longrightarrow> parseSshAuthentication (SshAuthentication_value x) path = Inr x"
  by (cases x) (auto simp: parseSshAuthentication_def contract_iff sshAuthTypes_def)

lemma parseServerConfiguration_sound:
  "parseServerConfiguration U v path = Inr x \<Longrightarrow> ServerConfiguration_ok U x"
  by (auto simp: parseServerConfiguration_def contract_iff LocalStdio_ok_def RemoteWebSocket_ok_def
        environmentOk_def headersOk_def parseTlsPolicy_def split: if_splits option.splits)

lemma optional_eval [contract_eval]:
  "hasOwn r (lit key) \<Longrightarrow> field r key = JStr s \<Longrightarrow> optionalString r key path = Inr (Some s)"
  "hasOwn r (lit key) \<Longrightarrow> field r key = JStr s \<Longrightarrow> UUID_PATTERN s \<Longrightarrow>
     optionalProxyId r key path = Inr (Some s)"
  "hasOwn r (lit key) \<Longrightarrow> field r key = JInt t \<Longrightarrow> timestampOk t \<Longrightarrow>
     optionalTimestamp r key path = Inr (Some t)"
  "\<not> hasOwn r (lit key) \<Longrightarrow> optionalString r key path = Inr None"
  "\<not> hasOwn r (lit key) \<Longrightarrow> optionalProxyId r key path = Inr None"
  "\<not> hasOwn r (lit key) \<Longrightarrow> optionalTimestamp r key path = Inr None"
  "validateOptional check None = Inr None"
  "check v = Inr w \<Longrightarrow> validateOptional check (Some v) = Inr (Some w)"
  by (simp_all add: contract_iff)

lemma LocalStdio_complete:
  "LocalStdio_ok c \<Longrightarrow> parseServerConfiguration U (LocalStdio_value c) path = Inr (LocalStdio c)"
  by (cases "ls_defaultWorkingDirectory c")
    (simp_all add: parseServerConfiguration_def LocalStdio_value_def LocalStdio_ok_def contract_eval
      serverTypes_def)

lemma RemoteWebSocket_complete:
  "RemoteWebSocket_ok U c \<Longrightarrow>
     parseServerConfiguration U (RemoteWebSocket_value c) path = Inr (RemoteWebSocket c)"
  by (cases "ws_proxyId c")
    (simp_all add: parseServerConfiguration_def RemoteWebSocket_value_def RemoteWebSocket_ok_def
      contract_eval serverTypes_def parseTlsPolicy_def connectTimeoutOk_safe del: isSafeInt_bounds)

lemma parseServerConfiguration_complete:
  "ServerConfiguration_ok U x \<Longrightarrow>
     parseServerConfiguration U (ServerConfiguration_value x) path = Inr x"
  by (cases x) (auto intro: LocalStdio_complete RemoteWebSocket_complete)

lemma parseSshAuthentication_keys:
  "parseSshAuthentication (JObj r) path = Inr x \<Longrightarrow>
     \<exists>r'. SshAuthentication_value x = JObj r' \<and> set (ownKeys r) = set (ownKeys r')"
  by (auto simp: parseSshAuthentication_def contract_iff hasOwn_iff_ownKeys split: if_splits)

lemma exact_key_set:
  assumes "assertExactKeys r required optional path = Inr ()"
  shows "set (ownKeys r) =
    (KStr \<circ> lit) ` (set required \<union> {k \<in> set optional. hasOwn r (lit k)})"
proof -
  from assms have sub: "set (ownKeys r) \<subseteq> (KStr \<circ> lit) ` (set required \<union> set optional)"
    and req: "\<forall>k \<in> set required. hasOwn r (lit k)"
    by (simp_all add: assertExactKeys_eq_Inr)
  from sub show ?thesis
  proof (intro equalityI subsetI)
    fix k
    assume k: "k \<in> set (ownKeys r)"
    with sub obtain n where "k = KStr (lit n)" "n \<in> set required \<union> set optional"
      by (auto simp: subset_iff)
    with k show "k \<in> (KStr \<circ> lit) ` (set required \<union> {k \<in> set optional. hasOwn r (lit k)})"
      by (auto simp: hasOwn_iff_ownKeys)
  qed (use req in \<open>auto simp: hasOwn_iff_ownKeys\<close>)
qed

lemma optional_present:
  "optionalString r key path = Inr x \<Longrightarrow> hasOwn r (lit key) \<longleftrightarrow> x \<noteq> None"
  "optionalProxyId r key path = Inr y \<Longrightarrow> hasOwn r (lit key) \<longleftrightarrow> y \<noteq> None"
  "optionalTimestamp r key path = Inr t \<Longrightarrow> hasOwn r (lit key) \<longleftrightarrow> t \<noteq> None"
  "optionalParsed r key path parse = Inr z \<Longrightarrow> hasOwn r (lit key) \<longleftrightarrow> z \<noteq> None"
  by (auto simp: contract_iff optionalParsed_def split: option.splits if_splits)

lemma validateOptional_present: "validateOptional check x = Inr y \<Longrightarrow> x = None \<longleftrightarrow> y = None"
  by (auto simp: contract_iff split: option.splits)

lemma key_set_cong:
  "set (ownKeys r) = K \<Longrightarrow> v = JObj r' \<Longrightarrow> K = set (ownKeys r') \<Longrightarrow>
     \<exists>r'. v = JObj r' \<and> set (ownKeys r) = set (ownKeys r')"
  by blast

lemma parseServerConfiguration_keys:
  assumes "parseServerConfiguration U (JObj r) path = Inr x"
  shows "\<exists>r'. ServerConfiguration_value x = JObj r' \<and> set (ownKeys r) = set (ownKeys r')"
proof (cases x)
  case (LocalStdio c)
  with assms obtain d where
    k: "assertExactKeys r [''type'', ''executablePath'', ''arguments'', ''nonSensitiveEnvironment'']
      [''defaultWorkingDirectory''] path = Inr ()"
    and d: "optionalString r ''defaultWorkingDirectory'' path = Inr d"
    and v: "validateOptional (\<lambda>d. validateAbsolutePath d (dotted path ''defaultWorkingDirectory'')) d
      = Inr (ls_defaultWorkingDirectory c)"
    by (auto simp: parseServerConfiguration_def bindE_eq_Inr expectRecord_eq_Inr split: if_splits)
  from d v have "hasOwn r (lit ''defaultWorkingDirectory'') \<longleftrightarrow> ls_defaultWorkingDirectory c \<noteq> None"
    using optional_present(1) validateOptional_present by metis
  then show ?thesis using LocalStdio
    by (intro key_set_cong [OF exact_key_set [OF k]])
      (auto simp: LocalStdio_value_def set_ownKeys_optProp)
next
  case (RemoteWebSocket c)
  with assms have
    k: "assertExactKeys r [''type'', ''url'', ''authentication'', ''nonSensitiveHeaders'',
      ''connectTimeoutMs'', ''tlsCertificatePolicy'', ''plaintextConfirmed''] [''proxyId''] path = Inr ()"
    and d: "optionalProxyId r ''proxyId'' path = Inr (ws_proxyId c)"
    by (auto simp: parseServerConfiguration_def bindE_eq_Inr expectRecord_eq_Inr split: if_splits)
  show ?thesis using RemoteWebSocket optional_present(2) [OF d]
    by (intro key_set_cong [OF exact_key_set [OF k]])
      (auto simp: RemoteWebSocket_value_def set_ownKeys_optProp)
qed

lemma parseServerProfile_sound: "parseServerProfile U v path = Inr x \<Longrightarrow> ServerProfile_ok U x"
  by (auto simp: parseServerProfile_def contract_iff ServerProfile_ok_def
      dest!: parseServerConfiguration_sound split: option.splits)

lemma parseServerProfile_complete:
  "ServerProfile_ok U x \<Longrightarrow> parseServerProfile U (ServerProfile_value x) path = Inr x"
  by (cases "sp_lastUsedAtMs x")
    (simp_all add: parseServerProfile_def ServerProfile_ok_def ServerProfile_value_def contract_eval
      parseServerConfiguration_complete)

lemma parseServerProfile_keys:
  assumes "parseServerProfile U (JObj r) path = Inr x"
  shows "\<exists>r'. ServerProfile_value x = JObj r' \<and> set (ownKeys r) = set (ownKeys r')"
proof -
  from assms have k: "assertExactKeys r [''serverId'', ''name'', ''version'', ''configuration'',
      ''credentialConfigured'', ''activeWindowCount'', ''createdAtMs'', ''updatedAtMs'']
      [''lastUsedAtMs''] path = Inr ()"
    and d: "optionalTimestamp r ''lastUsedAtMs'' path = Inr (sp_lastUsedAtMs x)"
    by (auto simp: parseServerProfile_def bindE_eq_Inr expectRecord_eq_Inr)
  show ?thesis using optional_present(3) [OF d]
    by (intro key_set_cong [OF exact_key_set [OF k]])
      (auto simp: ServerProfile_value_def set_ownKeys_optProp)
qed

interpretation sshAuthentication:
  strict_codec parseSshAuthentication SshAuthentication_value SshAuthentication_ok
  by unfold_locales
    (fact parseSshAuthentication_sound parseSshAuthentication_complete parseSshAuthentication_keys)+

interpretation serverConfiguration:
  strict_codec "parseServerConfiguration U" ServerConfiguration_value "ServerConfiguration_ok U" for U
  by unfold_locales
    (fact parseServerConfiguration_sound parseServerConfiguration_complete
      parseServerConfiguration_keys)+

interpretation serverProfile:
  strict_codec "parseServerProfile U" ServerProfile_value "ServerProfile_ok U" for U
  by unfold_locales
    (fact parseServerProfile_sound parseServerProfile_complete parseServerProfile_keys)+

end
