(* ===== verification/ConfigProxyCodec.thy ===== *)
theory ConfigProxyCodec
  imports ConfigCodec
begin

text \<open>
  The contract of the proxy parsers: the objects of the proxy interfaces, the values they allow, and
  the interpretations of the codec interface on \<open>parseProxyConfiguration\<close>,
  \<open>parseSshHostKeyRecord\<close>, \<open>parseProxyLastTest\<close> and \<open>parseProxyProfile\<close>.
\<close>

definition HttpConnect_value :: "HttpConnectProxyConfiguration \<Rightarrow> jsval" where
  "HttpConnect_value c = JObj
     ([jprop ''type'' (JStr (lit ''httpConnect'')), jprop ''url'' (JStr (hp_url c)),
       jprop ''authentication'' (enumValue httpProxyAuthentications (hp_authentication c))] @
      optProp ''username'' JStr (hp_username c) @
      [jprop ''nonSensitiveHeaders'' (stringMapValue (hp_nonSensitiveHeaders c)),
       jprop ''connectTimeoutMs'' (JInt (hp_connectTimeoutMs c)),
       jprop ''tlsCertificatePolicy'' (enumValue tlsPolicies (hp_tlsCertificatePolicy c))])"

definition HttpConnect_ok :: "url_parser \<Rightarrow> HttpConnectProxyConfiguration \<Rightarrow> bool" where
  "HttpConnect_ok U c \<longleftrightarrow> httpProxyUrlOk U (hp_url c) (hp_tlsCertificatePolicy c) \<and>
     (if hp_authentication c = HpaBasic
      then \<exists>n. hp_username c = Some n \<and> usernameOk n \<and> 0x3A \<notin> set n
      else hp_username c = None) \<and>
     headersOk HttpConnectTransport (hp_nonSensitiveHeaders c) \<and>
     connectTimeoutOk (hp_connectTimeoutMs c)"

definition Socks5_value :: "Socks5ProxyConfiguration \<Rightarrow> jsval" where
  "Socks5_value c = JObj
     ([jprop ''type'' (JStr (lit ''socks5'')), jprop ''host'' (JStr (sk_host c)),
       jprop ''port'' (JInt (sk_port c)),
       jprop ''authentication'' (enumValue socks5Authentications (sk_authentication c))] @
      optProp ''username'' JStr (sk_username c) @
      [jprop ''dnsResolution'' (enumValue dnsResolutions (sk_dnsResolution c)),
       jprop ''connectTimeoutMs'' (JInt (sk_connectTimeoutMs c))])"

definition Socks5_ok :: "url_parser \<Rightarrow> Socks5ProxyConfiguration \<Rightarrow> bool" where
  "Socks5_ok U c \<longleftrightarrow> hostOk U (sk_host c) \<and> portOk (sk_port c) \<and>
     (if sk_authentication c = SkaUsernamePassword
      then \<exists>n. sk_username c = Some n \<and> usernameOk n else sk_username c = None) \<and>
     connectTimeoutOk (sk_connectTimeoutMs c)"

definition Ssh_value :: "SshProxyConfiguration \<Rightarrow> jsval" where
  "Ssh_value c = JObj
     [jprop ''type'' (JStr (lit ''ssh'')), jprop ''host'' (JStr (sh_host c)),
      jprop ''port'' (JInt (sh_port c)), jprop ''username'' (JStr (sh_username c)),
      jprop ''authentication'' (SshAuthentication_value (sh_authentication c)),
      jprop ''connectTimeoutMs'' (JInt (sh_connectTimeoutMs c)),
      jprop ''keepAliveIntervalMs'' (JInt (sh_keepAliveIntervalMs c)),
      jprop ''keepAliveMaxFailures'' (JInt (sh_keepAliveMaxFailures c))]"

definition Ssh_ok :: "url_parser \<Rightarrow> SshProxyConfiguration \<Rightarrow> bool" where
  "Ssh_ok U c \<longleftrightarrow> hostOk U (sh_host c) \<and> portOk (sh_port c) \<and> usernameOk (sh_username c) \<and>
     SshAuthentication_ok (sh_authentication c) \<and> connectTimeoutOk (sh_connectTimeoutMs c) \<and>
     1000 \<le> sh_keepAliveIntervalMs c \<and> sh_keepAliveIntervalMs c \<le> 300000 \<and>
     1 \<le> sh_keepAliveMaxFailures c \<and> sh_keepAliveMaxFailures c \<le> 10"

fun ProxyConfiguration_value :: "ProxyConfiguration \<Rightarrow> jsval" where
  "ProxyConfiguration_value (HttpConnect c) = HttpConnect_value c"
| "ProxyConfiguration_value (Socks5 c) = Socks5_value c"
| "ProxyConfiguration_value (Ssh c) = Ssh_value c"

fun ProxyConfiguration_ok :: "url_parser \<Rightarrow> ProxyConfiguration \<Rightarrow> bool" where
  "ProxyConfiguration_ok U (HttpConnect c) = HttpConnect_ok U c"
| "ProxyConfiguration_ok U (Socks5 c) = Socks5_ok U c"
| "ProxyConfiguration_ok U (Ssh c) = Ssh_ok U c"

definition SshHostKey_value :: "SshHostKeyRecord \<Rightarrow> jsval" where
  "SshHostKey_value k = JObj
     [jprop ''host'' (JStr (hk_host k)), jprop ''port'' (JInt (hk_port k)),
      jprop ''algorithm'' (JStr (hk_algorithm k)),
      jprop ''sha256Fingerprint'' (JStr (hk_sha256Fingerprint k)),
      jprop ''confirmedAtMs'' (JInt (hk_confirmedAtMs k))]"

definition SshHostKey_ok :: "url_parser \<Rightarrow> SshHostKeyRecord \<Rightarrow> bool" where
  "SshHostKey_ok U k \<longleftrightarrow> hostOk U (hk_host k) \<and> portOk (hk_port k) \<and>
     \<not> badAlgorithm (hk_algorithm k) \<and> SSH_SHA256_FINGERPRINT_PATTERN (hk_sha256Fingerprint k) \<and>
     timestampOk (hk_confirmedAtMs k)"

definition LastTest_value :: "ProxyLastTest \<Rightarrow> jsval" where
  "LastTest_value t = JObj
     [jprop ''status'' (enumValue testStatuses (lt_status t)),
      jprop ''testedAtMs'' (JInt (lt_testedAtMs t))]"

definition LastTest_ok :: "ProxyLastTest \<Rightarrow> bool" where
  "LastTest_ok t \<longleftrightarrow> timestampOk (lt_testedAtMs t)"

definition hostKeyMatches :: "SshHostKeyRecord option \<Rightarrow> ProxyConfiguration \<Rightarrow> bool" where
  "hostKeyMatches key configuration \<longleftrightarrow>
     (\<forall>k. key = Some k \<longrightarrow> (\<exists>c. configuration = Ssh c \<and> hk_host k = sh_host c \<and> hk_port k = sh_port c))"

definition ProxyProfile_value :: "ProxyProfile \<Rightarrow> jsval" where
  "ProxyProfile_value p = JObj
     ([jprop ''proxyId'' (JStr (pp_proxyId p)), jprop ''name'' (JStr (pp_name p)),
       jprop ''version'' (JInt (pp_version p)),
       jprop ''configuration'' (ProxyConfiguration_value (pp_configuration p)),
       jprop ''credentialConfigured'' (JBool (pp_credentialConfigured p))] @
      optProp ''sshHostKey'' SshHostKey_value (pp_sshHostKey p) @
      optProp ''lastTest'' LastTest_value (pp_lastTest p) @
      [jprop ''referencedServerCount'' (JInt (pp_referencedServerCount p)),
       jprop ''createdAtMs'' (JInt (pp_createdAtMs p)),
       jprop ''updatedAtMs'' (JInt (pp_updatedAtMs p))])"

definition ProxyProfile_ok :: "url_parser \<Rightarrow> ProxyProfile \<Rightarrow> bool" where
  "ProxyProfile_ok U p \<longleftrightarrow> UUID_PATTERN (pp_proxyId p) \<and> profileName (pp_name p) \<and>
     versionOk (pp_version p) \<and> ProxyConfiguration_ok U (pp_configuration p) \<and>
     (pp_credentialConfigured p \<longrightarrow> \<not> proxyAuthenticationDisabled (pp_configuration p)) \<and>
     pred_option (SshHostKey_ok U) (pp_sshHostKey p) \<and> pred_option LastTest_ok (pp_lastTest p) \<and>
     hostKeyMatches (pp_sshHostKey p) (pp_configuration p) \<and>
     timestampOk (pp_referencedServerCount p) \<and> timestampOk (pp_createdAtMs p) \<and>
     timestampOk (pp_updatedAtMs p) \<and> pp_createdAtMs p \<le> pp_updatedAtMs p"

subsection \<open>Configurations\<close>

lemma httpProxyAuthentications_lookup [simp]:
  "enumLookup httpProxyAuthentications (lit (enumName httpProxyAuthentications a)) = Some a"
  by (cases a) (simp_all add: httpProxyAuthentications_def enumName_def)

lemma socks5Authentications_lookup [simp]:
  "enumLookup socks5Authentications (lit (enumName socks5Authentications a)) = Some a"
  by (cases a) (simp_all add: socks5Authentications_def enumName_def)

lemma dnsResolutions_lookup [simp]:
  "enumLookup dnsResolutions (lit (enumName dnsResolutions a)) = Some a"
  by (cases a) (simp_all add: dnsResolutions_def enumName_def)

lemma testStatuses_lookup [simp]:
  "enumLookup testStatuses (lit (enumName testStatuses a)) = Some a"
  by (cases a) (simp_all add: testStatuses_def enumName_def)

lemma parseHttpConnectProxy_sound:
  "parseHttpConnectProxy U r path = Inr x \<Longrightarrow> case x of HttpConnect c \<Rightarrow> HttpConnect_ok U c | _ \<Rightarrow> False"
  by (auto simp: parseHttpConnectProxy_def contract_iff HttpConnect_ok_def headersOk_def
      split: option.splits)

lemma parseSocks5Proxy_sound:
  "parseSocks5Proxy U r path = Inr x \<Longrightarrow> case x of Socks5 c \<Rightarrow> Socks5_ok U c | _ \<Rightarrow> False"
  by (auto simp: parseSocks5Proxy_def contract_iff Socks5_ok_def split: option.splits)

lemma parseSshProxy_sound:
  "parseSshProxy U r path = Inr x \<Longrightarrow> case x of Ssh c \<Rightarrow> Ssh_ok U c | _ \<Rightarrow> False"
  by (auto simp: parseSshProxy_def contract_iff Ssh_ok_def dest!: parseSshAuthentication_sound)

lemma parseProxyConfiguration_cases:
  assumes "parseProxyConfiguration U v path = Inr x"
  obtains (Http) r c where "v = JObj r" "x = HttpConnect c" "HttpConnect_ok U c"
      "parseHttpConnectProxy U r path = Inr x"
    | (Socks) r c where "v = JObj r" "x = Socks5 c" "Socks5_ok U c" "parseSocks5Proxy U r path = Inr x"
    | (Ssh) r c where "v = JObj r" "x = Ssh c" "Ssh_ok U c" "parseSshProxy U r path = Inr x"
proof -
  from assms obtain r type where v: "v = JObj r" and p:
    "(case type of HttpConnectType \<Rightarrow> parseHttpConnectProxy U r path
      | Socks5Type \<Rightarrow> parseSocks5Proxy U r path | SshType \<Rightarrow> parseSshProxy U r path) = Inr x"
    by (auto simp: parseProxyConfiguration_def bindE_eq_Inr expectRecord_eq_Inr)
  show thesis
  proof (cases type)
    case HttpConnectType
    with p have parsed: "parseHttpConnectProxy U r path = Inr x" by simp
    then obtain c where "x = HttpConnect c" "HttpConnect_ok U c"
      by (auto dest: parseHttpConnectProxy_sound split: ProxyConfiguration.splits)
    with v parsed show thesis by (intro Http)
  next
    case Socks5Type
    with p have parsed: "parseSocks5Proxy U r path = Inr x" by simp
    then obtain c where "x = Socks5 c" "Socks5_ok U c"
      by (auto dest: parseSocks5Proxy_sound split: ProxyConfiguration.splits)
    with v parsed show thesis by (intro Socks)
  next
    case SshType
    with p have parsed: "parseSshProxy U r path = Inr x" by simp
    then obtain c where "x = Ssh c" "Ssh_ok U c"
      by (auto dest: parseSshProxy_sound split: ProxyConfiguration.splits)
    with v parsed show thesis by (intro Ssh)
  qed
qed

lemma parseProxyConfiguration_sound:
  "parseProxyConfiguration U v path = Inr x \<Longrightarrow> ProxyConfiguration_ok U x"
  by (erule parseProxyConfiguration_cases) simp_all

lemma HttpConnect_complete:
  "HttpConnect_ok U c \<Longrightarrow> parseProxyConfiguration U (HttpConnect_value c) path = Inr (HttpConnect c)"
  by (cases "hp_username c")
    (auto simp: parseProxyConfiguration_def parseHttpConnectProxy_def HttpConnect_value_def
      HttpConnect_ok_def contract_eval proxyTypes_def parseTlsPolicy_def validateHttpProxyUsername_def
      validateOptionalUsername_def simp del: isSafeInt_bounds split: if_splits)

lemma Socks5_complete:
  "Socks5_ok U c \<Longrightarrow> parseProxyConfiguration U (Socks5_value c) path = Inr (Socks5 c)"
  by (cases "sk_username c")
    (auto simp: parseProxyConfiguration_def parseSocks5Proxy_def Socks5_value_def
      Socks5_ok_def contract_eval proxyTypes_def
      validateOptionalUsername_def simp del: isSafeInt_bounds split: if_splits)

lemma Ssh_complete: "Ssh_ok U c \<Longrightarrow> parseProxyConfiguration U (Ssh_value c) path = Inr (Ssh c)"
  by (simp add: parseProxyConfiguration_def parseSshProxy_def Ssh_value_def Ssh_ok_def contract_eval
      proxyTypes_def parseSshAuthentication_complete connectTimeoutOk_def)

lemma parseProxyConfiguration_complete:
  "ProxyConfiguration_ok U x \<Longrightarrow> parseProxyConfiguration U (ProxyConfiguration_value x) path = Inr x"
  by (cases x) (auto intro: HttpConnect_complete Socks5_complete Ssh_complete)

lemma HttpConnect_keys:
  assumes "parseHttpConnectProxy U r path = Inr (HttpConnect c)"
  shows "\<exists>r'. HttpConnect_value c = JObj r' \<and> set (ownKeys r) = set (ownKeys r')"
proof -
  from assms obtain a where k: "assertExactKeys r [''type'', ''url'', ''authentication'',
      ''nonSensitiveHeaders'', ''connectTimeoutMs'', ''tlsCertificatePolicy''] [''username''] path = Inr ()"
    and d: "optionalString r ''username'' path = Inr (hp_username c)"
    by (auto simp: parseHttpConnectProxy_def bindE_eq_Inr validateHttpProxyUsername_eq_Inr)
  show ?thesis using optional_present(1) [OF d]
    by (intro key_set_cong [OF exact_key_set [OF k]])
      (auto simp: HttpConnect_value_def set_ownKeys_optProp)
qed

lemma Socks5_keys:
  assumes "parseSocks5Proxy U r path = Inr (Socks5 c)"
  shows "\<exists>r'. Socks5_value c = JObj r' \<and> set (ownKeys r) = set (ownKeys r')"
proof -
  from assms have k: "assertExactKeys r [''type'', ''host'', ''port'', ''authentication'',
      ''dnsResolution'', ''connectTimeoutMs''] [''username''] path = Inr ()"
    and d: "optionalString r ''username'' path = Inr (sk_username c)"
    by (auto simp: parseSocks5Proxy_def bindE_eq_Inr validateOptionalUsername_eq_Inr)
  show ?thesis using optional_present(1) [OF d]
    by (intro key_set_cong [OF exact_key_set [OF k]])
      (auto simp: Socks5_value_def set_ownKeys_optProp)
qed

lemma Ssh_keys:
  assumes "parseSshProxy U r path = Inr (Ssh c)"
  shows "\<exists>r'. Ssh_value c = JObj r' \<and> set (ownKeys r) = set (ownKeys r')"
proof -
  from assms have k: "assertExactKeys r [''type'', ''host'', ''port'', ''username'',
      ''authentication'', ''connectTimeoutMs'', ''keepAliveIntervalMs'', ''keepAliveMaxFailures'']
      [] path = Inr ()"
    by (auto simp: parseSshProxy_def bindE_eq_Inr)
  show ?thesis
    by (intro key_set_cong [OF exact_key_set [OF k]]) (auto simp: Ssh_value_def)
qed

lemma parseProxyConfiguration_keys:
  "parseProxyConfiguration U (JObj r) path = Inr x \<Longrightarrow>
     \<exists>r'. ProxyConfiguration_value x = JObj r' \<and> set (ownKeys r) = set (ownKeys r')"
  by (erule parseProxyConfiguration_cases)
    (auto dest: HttpConnect_keys Socks5_keys Ssh_keys)

interpretation proxyConfiguration:
  strict_codec "parseProxyConfiguration U" ProxyConfiguration_value "ProxyConfiguration_ok U" for U
  by unfold_locales
    (fact parseProxyConfiguration_sound parseProxyConfiguration_complete parseProxyConfiguration_keys)+

subsection \<open>Profiles\<close>

lemma parseSshHostKeyRecord_sound: "parseSshHostKeyRecord U v path = Inr x \<Longrightarrow> SshHostKey_ok U x"
  by (auto simp: parseSshHostKeyRecord_def contract_iff SshHostKey_ok_def)

lemma parseSshHostKeyRecord_complete:
  "SshHostKey_ok U x \<Longrightarrow> parseSshHostKeyRecord U (SshHostKey_value x) path = Inr x"
  by (simp add: parseSshHostKeyRecord_def SshHostKey_value_def SshHostKey_ok_def contract_eval)

lemma parseSshHostKeyRecord_keys:
  assumes "parseSshHostKeyRecord U (JObj r) path = Inr x"
  shows "\<exists>r'. SshHostKey_value x = JObj r' \<and> set (ownKeys r) = set (ownKeys r')"
proof -
  from assms have k: "assertExactKeys r [''host'', ''port'', ''algorithm'', ''sha256Fingerprint'',
      ''confirmedAtMs''] [] path = Inr ()"
    by (auto simp: parseSshHostKeyRecord_def bindE_eq_Inr expectRecord_eq_Inr)
  show ?thesis
    by (intro key_set_cong [OF exact_key_set [OF k]]) (auto simp: SshHostKey_value_def)
qed

lemma parseProxyLastTest_sound: "parseProxyLastTest v path = Inr x \<Longrightarrow> LastTest_ok x"
  by (auto simp: parseProxyLastTest_def contract_iff LastTest_ok_def)

lemma parseProxyLastTest_complete:
  "LastTest_ok x \<Longrightarrow> parseProxyLastTest (LastTest_value x) path = Inr x"
  by (simp add: parseProxyLastTest_def LastTest_value_def LastTest_ok_def contract_eval)

lemma parseProxyLastTest_keys:
  assumes "parseProxyLastTest (JObj r) path = Inr x"
  shows "\<exists>r'. LastTest_value x = JObj r' \<and> set (ownKeys r) = set (ownKeys r')"
proof -
  from assms have k: "assertExactKeys r [''status'', ''testedAtMs''] [] path = Inr ()"
    by (auto simp: parseProxyLastTest_def bindE_eq_Inr expectRecord_eq_Inr)
  show ?thesis
    by (intro key_set_cong [OF exact_key_set [OF k]]) (auto simp: LastTest_value_def)
qed

interpretation sshHostKey:
  strict_codec "parseSshHostKeyRecord U" SshHostKey_value "SshHostKey_ok U" for U
  by unfold_locales
    (fact parseSshHostKeyRecord_sound parseSshHostKeyRecord_complete parseSshHostKeyRecord_keys)+

interpretation proxyLastTest: strict_codec parseProxyLastTest LastTest_value LastTest_ok
  by unfold_locales
    (fact parseProxyLastTest_sound parseProxyLastTest_complete parseProxyLastTest_keys)+

lemma checkSshHostKey_eq_Inr [contract_iff]:
  "checkSshHostKey key configuration path = Inr u \<longleftrightarrow> hostKeyMatches key configuration"
  by (auto simp: checkSshHostKey_def hostKeyMatches_def split: option.splits ProxyConfiguration.splits)

lemma checkSshHostKey_eval [contract_eval]:
  "hostKeyMatches key configuration \<Longrightarrow> checkSshHostKey key configuration path = Inr ()"
  by (simp add: checkSshHostKey_eq_Inr)

lemma optionalParsed_eval [contract_eval]:
  "hasOwn r (lit key) \<Longrightarrow> parse (field r key) (dotted path key) = Inr x \<Longrightarrow>
     optionalParsed r key path parse = Inr (Some x)"
  "\<not> hasOwn r (lit key) \<Longrightarrow> optionalParsed r key path parse = Inr None"
  by (simp_all add: optionalParsed_def)

lemma parseProxyProfile_sound: "parseProxyProfile U v path = Inr x \<Longrightarrow> ProxyProfile_ok U x"
  by (auto simp: parseProxyProfile_def contract_iff ProxyProfile_ok_def
      dest!: parseProxyConfiguration_sound sshHostKey.optional_sound proxyLastTest.optional_sound)

lemma parseProxyProfile_complete:
  "ProxyProfile_ok U x \<Longrightarrow> parseProxyProfile U (ProxyProfile_value x) path = Inr x"
  by (cases "pp_sshHostKey x"; cases "pp_lastTest x")
    (simp_all add: parseProxyProfile_def ProxyProfile_ok_def ProxyProfile_value_def contract_eval
      parseProxyConfiguration_complete parseSshHostKeyRecord_complete parseProxyLastTest_complete)

lemma parseProxyProfile_keys:
  assumes "parseProxyProfile U (JObj r) path = Inr x"
  shows "\<exists>r'. ProxyProfile_value x = JObj r' \<and> set (ownKeys r) = set (ownKeys r')"
proof -
  from assms have k: "assertExactKeys r [''proxyId'', ''name'', ''version'', ''configuration'',
      ''credentialConfigured'', ''referencedServerCount'', ''createdAtMs'', ''updatedAtMs'']
      [''sshHostKey'', ''lastTest''] path = Inr ()"
    and d: "optionalParsed r ''sshHostKey'' path (parseSshHostKeyRecord U) = Inr (pp_sshHostKey x)"
      "optionalParsed r ''lastTest'' path parseProxyLastTest = Inr (pp_lastTest x)"
    by (auto simp: parseProxyProfile_def bindE_eq_Inr expectRecord_eq_Inr)
  show ?thesis using d [THEN optional_present(4)]
    by (intro key_set_cong [OF exact_key_set [OF k]])
      (auto simp: ProxyProfile_value_def set_ownKeys_optProp)
qed

interpretation proxyProfile:
  strict_codec "parseProxyProfile U" ProxyProfile_value "ProxyProfile_ok U" for U
  by unfold_locales
    (fact parseProxyProfile_sound parseProxyProfile_complete parseProxyProfile_keys)+

end
