(* ===== verification/ConfigSnapshot.thy ===== *)
theory ConfigSnapshot
  imports ConfigProxyCodec
begin

text \<open>
  \<open>parseConfigurationSnapshot\<close>: what a snapshot must satisfy besides the contract of each of
  its profiles, and the loops of the function as the relational facts they establish.
\<close>

definition referenceCount :: "ProxyId \<Rightarrow> ServerProfile list \<Rightarrow> nat" where
  "referenceCount p servers = length (filter (\<lambda>s. serverProxyId s = Some p) servers)"

text \<open>
  An allowed snapshot: allowed profiles, identifiers and case-folded names without duplicates, every
  reference to a proxy of the snapshot, and for each proxy the number of servers that name it.
\<close>

definition Snapshot_ok :: "url_parser \<Rightarrow> ConfigurationSnapshot \<Rightarrow> bool" where
  "Snapshot_ok U s \<longleftrightarrow>
     (\<forall>server \<in> set (cs_servers s). ServerProfile_ok U server) \<and>
     (\<forall>proxy \<in> set (cs_proxies s). ProxyProfile_ok U proxy) \<and>
     distinct (map sp_serverId (cs_servers s)) \<and>
     distinct (map (foldAsciiCase \<circ> sp_name) (cs_servers s)) \<and>
     distinct (map pp_proxyId (cs_proxies s)) \<and>
     distinct (map (foldAsciiCase \<circ> pp_name) (cs_proxies s)) \<and>
     (\<forall>server \<in> set (cs_servers s). \<forall>p. serverProxyId server = Some p \<longrightarrow>
        p \<in> pp_proxyId ` set (cs_proxies s)) \<and>
     (\<forall>proxy \<in> set (cs_proxies s).
        pp_referencedServerCount proxy = int (referenceCount (pp_proxyId proxy) (cs_servers s)))"

definition Snapshot_value :: "ConfigurationSnapshot \<Rightarrow> jsval" where
  "Snapshot_value s = JObj
     [jprop ''servers'' (JArr (map (Some \<circ> ServerProfile_value) (cs_servers s))),
      jprop ''proxies'' (JArr (map (Some \<circ> ProxyProfile_value) (cs_proxies s)))]"

lemma checkServers_eq_Inr:
  "checkServers ids names servers = Inr u \<longleftrightarrow>
     distinct (map sp_serverId servers) \<and> set (map sp_serverId servers) \<inter> set ids = {} \<and>
     distinct (map (foldAsciiCase \<circ> sp_name) servers) \<and>
     set (map (foldAsciiCase \<circ> sp_name) servers) \<inter> set names = {}"
  by (induction ids names servers rule: checkServers.induct) (auto simp: Let_def)

lemma checkProxies_eq_Inr:
  "checkProxies ids names counts proxies = Inr c \<longleftrightarrow>
     distinct (map pp_proxyId proxies) \<and> set (map pp_proxyId proxies) \<inter> set ids = {} \<and>
     distinct (map (foldAsciiCase \<circ> pp_name) proxies) \<and>
     set (map (foldAsciiCase \<circ> pp_name) proxies) \<inter> set names = {} \<and>
     c = (\<lambda>p. if p \<in> pp_proxyId ` set proxies then Some 0 else counts p)"
proof (induction ids names counts proxies rule: checkProxies.induct)
  case (2 ids names counts proxy proxies)
  have "(\<lambda>p. if p \<in> pp_proxyId ` set proxies then Some 0 else (counts(pp_proxyId proxy \<mapsto> 0)) p) =
      (\<lambda>p. if p \<in> pp_proxyId ` set (proxy # proxies) then Some 0 else counts p)"
    by auto
  note eq = this
  show ?case
  proof (cases "pp_proxyId proxy \<in> set ids \<or> foldAsciiCase (pp_name proxy) \<in> set names")
    case False
    then have step: "checkProxies ids names counts (proxy # proxies) =
        checkProxies (pp_proxyId proxy # ids) (foldAsciiCase (pp_name proxy) # names)
          (counts(pp_proxyId proxy \<mapsto> 0)) proxies"
      by (simp add: Let_def)
    from False have new: "pp_proxyId proxy \<notin> set ids" "foldAsciiCase (pp_name proxy) \<notin> set names"
      by simp_all
    show ?thesis
      unfolding step "2.IH" [OF new(1) refl new(2)] eq using new by (auto simp: comp_def)
  qed (auto simp: Let_def)
qed auto

lemma countReferences_eq_Inr:
  "countReferences counts servers = Inr c \<longleftrightarrow>
     (\<forall>s \<in> set servers. \<forall>p. serverProxyId s = Some p \<longrightarrow> counts p \<noteq> None) \<and>
     c = (\<lambda>p. map_option (\<lambda>n. n + int (referenceCount p servers)) (counts p))"
proof (induction counts servers rule: countReferences.induct)
  case (1 counts)
  show ?case by (auto simp: referenceCount_def option.map_ident)
next
  case (2 counts server servers)
  show ?case
  proof (cases "serverProxyId server")
    case None
    with 2 show ?thesis by (simp add: referenceCount_def)
  next
    case (Some p)
    show ?thesis
    proof (cases "counts p")
      case None
      with Some show ?thesis by auto
    next
      case (Some n)
      let ?counts' = "counts(p \<mapsto> n + 1)"
      have "countReferences counts (server # servers) = countReferences ?counts' servers"
        using \<open>serverProxyId server = Some p\<close> Some by simp
      moreover have "(\<lambda>q. map_option (\<lambda>m. m + int (referenceCount q servers)) (?counts' q)) =
          (\<lambda>q. map_option (\<lambda>m. m + int (referenceCount q (server # servers))) (counts q))"
        using \<open>serverProxyId server = Some p\<close> Some by (auto simp: referenceCount_def)
      moreover have "?counts' q \<noteq> None \<longleftrightarrow> counts q \<noteq> None" for q
        using Some by simp
      ultimately show ?thesis
        using 2(2) [OF \<open>serverProxyId server = Some p\<close> Some] \<open>serverProxyId server = Some p\<close> Some
        by (simp only: list.set ball_simps) auto
    qed
  qed
qed

lemma checkReferenceCounts_eq_Inr:
  "checkReferenceCounts counts proxies = Inr u \<longleftrightarrow>
     (\<forall>proxy \<in> set proxies. counts (pp_proxyId proxy) = Some (pp_referencedServerCount proxy))"
  by (induction counts proxies rule: checkReferenceCounts.induct) auto

text \<open>The cross checks together.\<close>

definition crossCheck :: "ServerProfile list \<Rightarrow> ProxyProfile list \<Rightarrow> contract_error + unit" where
  "crossCheck servers proxies =
     bindE (checkServers [] [] servers) (\<lambda>_.
     bindE (checkProxies [] [] Map.empty proxies) (\<lambda>zeroCounts.
     bindE (countReferences zeroCounts servers) (\<lambda>actualReferenceCounts.
     checkReferenceCounts actualReferenceCounts proxies)))"

lemma crossCheck_eq_Inr:
  "crossCheck servers proxies = Inr u \<longleftrightarrow>
     distinct (map sp_serverId servers) \<and> distinct (map (foldAsciiCase \<circ> sp_name) servers) \<and>
     distinct (map pp_proxyId proxies) \<and> distinct (map (foldAsciiCase \<circ> pp_name) proxies) \<and>
     (\<forall>s \<in> set servers. \<forall>p. serverProxyId s = Some p \<longrightarrow> p \<in> pp_proxyId ` set proxies) \<and>
     (\<forall>proxy \<in> set proxies.
        pp_referencedServerCount proxy = int (referenceCount (pp_proxyId proxy) servers))"
  unfolding crossCheck_def bindE_eq_Inr checkServers_eq_Inr checkProxies_eq_Inr
    countReferences_eq_Inr checkReferenceCounts_eq_Inr
  by (auto split: if_splits)

lemma parseConfigurationSnapshot_crossCheck:
  "parseConfigurationSnapshot U value =
     bindE (expectRecord value (lit ''configurationSnapshot'')) (\<lambda>r.
     bindE (assertExactKeys r [''servers'', ''proxies''] [] (lit ''configurationSnapshot'')) (\<lambda>_.
     bindE (expectArray (field r ''servers'') (lit ''configurationSnapshot.servers'')
              (parseServerProfile U)) (\<lambda>servers.
     bindE (expectArray (field r ''proxies'') (lit ''configurationSnapshot.proxies'')
              (parseProxyProfile U)) (\<lambda>proxies.
     bindE (crossCheck servers proxies) (\<lambda>_.
     Inr \<lparr>cs_servers = servers, cs_proxies = proxies\<rparr>)))))"
  by (simp add: parseConfigurationSnapshot_def crossCheck_def bindE_assoc)

lemma parseConfigurationSnapshot_sound:
  "parseConfigurationSnapshot U v = Inr s \<Longrightarrow> Snapshot_ok U s"
  unfolding parseConfigurationSnapshot_crossCheck bindE_eq_Inr crossCheck_eq_Inr Snapshot_ok_def
  by (auto dest!: serverProfile.array_sound proxyProfile.array_sound simp: list_all_iff)

lemma parseConfigurationSnapshot_complete:
  assumes "Snapshot_ok U s"
  shows "parseConfigurationSnapshot U (Snapshot_value s) = Inr s"
proof -
  have servers: "expectArray (JArr (map (Some \<circ> ServerProfile_value) (cs_servers s))) path
      (parseServerProfile U) = Inr (cs_servers s)" for path
    using assms by (intro serverProfile.array_complete) (simp add: Snapshot_ok_def list_all_iff)
  have proxies: "expectArray (JArr (map (Some \<circ> ProxyProfile_value) (cs_proxies s))) path
      (parseProxyProfile U) = Inr (cs_proxies s)" for path
    using assms by (intro proxyProfile.array_complete) (simp add: Snapshot_ok_def list_all_iff)
  have "crossCheck (cs_servers s) (cs_proxies s) = Inr ()"
    using assms by (simp add: crossCheck_eq_Inr Snapshot_ok_def)
  then show ?thesis
    by (simp add: parseConfigurationSnapshot_crossCheck Snapshot_value_def contract_eval servers proxies)
qed

lemma parseConfigurationSnapshot_keys:
  assumes "parseConfigurationSnapshot U (JObj r) = Inr s"
  shows "\<exists>r'. Snapshot_value s = JObj r' \<and> set (ownKeys r) = set (ownKeys r')"
proof -
  from assms have k: "assertExactKeys r [''servers'', ''proxies''] [] (lit ''configurationSnapshot'') = Inr ()"
    by (auto simp: parseConfigurationSnapshot_def bindE_eq_Inr expectRecord_eq_Inr)
  show ?thesis
    by (intro key_set_cong [OF exact_key_set [OF k]]) (auto simp: Snapshot_value_def)
qed

interpretation configurationSnapshot:
  strict_codec "\<lambda>v path. parseConfigurationSnapshot U v" Snapshot_value "Snapshot_ok U" for U
  by unfold_locales
    (fact parseConfigurationSnapshot_sound parseConfigurationSnapshot_complete
      parseConfigurationSnapshot_keys)+

text \<open>
  No profile of a parsed snapshot carries a sensitive name: environment variables, headers and
  query keys that look like a credential are not stored in the clear.
\<close>

definition namesOf :: "ServerConfiguration \<Rightarrow> jstr list" where
  "namesOf configuration =
     (case configuration of
        LocalStdio c \<Rightarrow> map fst (ls_nonSensitiveEnvironment c)
      | RemoteWebSocket c \<Rightarrow> map fst (ws_nonSensitiveHeaders c))"

lemma ServerConfiguration_ok_names:
  "ServerConfiguration_ok U c \<Longrightarrow> n \<in> set (namesOf c) \<Longrightarrow> \<not> looksSensitiveIdentifier n"
  by (cases c)
    (auto simp: namesOf_def LocalStdio_ok_def RemoteWebSocket_ok_def environmentOk_def headersOk_def
      headerEntry_def looksSensitiveEnvironmentName_def)

lemma RemoteWebSocket_plaintext:
  "RemoteWebSocket_ok U c \<Longrightarrow> \<exists>url. U (ws_url c) = Some url \<and>
     (url_protocol url = lit ''ws:'' \<longleftrightarrow> ws_plaintextConfirmed c) \<and>
     url_protocol url \<in> {lit ''ws:'', lit ''wss:''} \<and>
     (ws_tlsCertificatePolicy c = TlsAllowInvalidCertificate \<longrightarrow> url_protocol url = lit ''wss:'')"
  by (auto simp: RemoteWebSocket_ok_def webSocketUrlOk_def split: if_splits)

end
