(* ===== verification/ConfigNormalize.thy ===== *)
theory ConfigNormalize
  imports ConfigSnapshot
begin

text \<open>
  The request side of \<open>src/configuration/validation.ts\<close>: the \<open>normalize...\<close>
  functions that check what the user interface is about to send to the backend. They read the
  properties they need and build a new object, so foreign properties are dropped rather than
  rejected, and an omitted environment, header map or SSH port takes its default.
\<close>

definition inputOptionalString :: "jsrecord \<Rightarrow> string \<Rightarrow> jstr \<Rightarrow> contract_error + jstr option" where
  "inputOptionalString r key path =
     (let value = field r key in
      if value = JUndef then Inr None
      else bindE (expectString value (dotted path key)) (\<lambda>s. Inr (Some s)))"

definition inputOptionalProxyId :: "jsrecord \<Rightarrow> string \<Rightarrow> jstr \<Rightarrow> contract_error + ProxyId option" where
  "inputOptionalProxyId r key path =
     (let value = field r key in
      if value = JUndef then Inr None
      else bindE (expectProxyId value (dotted path key)) (\<lambda>s. Inr (Some s)))"

definition inputStringMap :: "jsrecord \<Rightarrow> string \<Rightarrow> jstr \<Rightarrow> contract_error + NonSensitiveValues" where
  "inputStringMap r key path =
     (let value = field r key in
      if value = JUndef then Inr [] else expectStringMap value (dotted path key))"

definition normalizeSshAuthenticationInput ::
  "jsval \<Rightarrow> jstr \<Rightarrow> contract_error + SshAuthenticationConfiguration" where
  "normalizeSshAuthenticationInput value path =
     bindE (expectRecord value path) (\<lambda>r.
     bindE (expectEnum (field r ''type'') sshAuthTypes (dotted path ''type'')) (\<lambda>type.
     if type = AuthPrivateKey then
       bindE (expectString (field r ''privateKeyPath'') (dotted path ''privateKeyPath'')) (\<lambda>s.
       bindE (validateAbsolutePath s (dotted path ''privateKeyPath'')) (\<lambda>privateKeyPath.
       Inr (SshPrivateKey privateKeyPath)))
     else Inr (if type = AuthAgent then SshAgent else SshPassword)))"

definition normalizeServerConfigurationInput ::
  "url_parser \<Rightarrow> jsval \<Rightarrow> jstr \<Rightarrow> contract_error + ServerConfigurationInput" where
  "normalizeServerConfigurationInput U value path =
     bindE (expectRecord value path) (\<lambda>r.
     bindE (expectEnum (field r ''type'') serverTypes (dotted path ''type'')) (\<lambda>type.
     if type = LocalStdioType then
       bindE (inputOptionalString r ''defaultWorkingDirectory'' path) (\<lambda>defaultWorkingDirectory.
       bindE (expectString (field r ''executablePath'') (dotted path ''executablePath'')) (\<lambda>ep.
       bindE (validateAbsolutePath ep (dotted path ''executablePath'')) (\<lambda>executablePath.
       bindE (expectStringArray (field r ''arguments'') (dotted path ''arguments'')) (\<lambda>args.
       bindE (validateArguments args (dotted path ''arguments'')) (\<lambda>arguments.
       bindE (validateOptional (\<lambda>d. validateAbsolutePath d (dotted path ''defaultWorkingDirectory''))
                defaultWorkingDirectory) (\<lambda>cwd.
       bindE (inputStringMap r ''nonSensitiveEnvironment'' path) (\<lambda>env.
       bindE (validateEnvironment env (dotted path ''nonSensitiveEnvironment'')) (\<lambda>environment.
       Inr (LocalStdio \<lparr>ls_executablePath = executablePath, ls_arguments = arguments,
              ls_defaultWorkingDirectory = cwd, ls_nonSensitiveEnvironment = environment\<rparr>)))))))))
     else
       bindE (parseTlsPolicy (field r ''tlsCertificatePolicy'')
                (dotted path ''tlsCertificatePolicy'')) (\<lambda>tlsCertificatePolicy.
       bindE (expectBoolean (field r ''plaintextConfirmed'')
                (dotted path ''plaintextConfirmed'')) (\<lambda>plaintextConfirmed.
       bindE (inputOptionalProxyId r ''proxyId'' path) (\<lambda>proxyId.
       bindE (expectString (field r ''url'') (dotted path ''url'')) (\<lambda>u.
       bindE (validateWebSocketUrl U u plaintextConfirmed tlsCertificatePolicy
                (dotted path ''url'')) (\<lambda>url.
       bindE (expectEnum (field r ''authentication'') serverAuthentications
                (dotted path ''authentication'')) (\<lambda>authentication.
       bindE (inputStringMap r ''nonSensitiveHeaders'' path) (\<lambda>hs.
       bindE (validateHeaders hs (dotted path ''nonSensitiveHeaders'') WebSocketTransport) (\<lambda>headers.
       bindE (expectSafeInteger (field r ''connectTimeoutMs'') (dotted path ''connectTimeoutMs'')) (\<lambda>t.
       bindE (validateConnectTimeout t (dotted path ''connectTimeoutMs'')) (\<lambda>connectTimeoutMs.
       Inr (RemoteWebSocket \<lparr>ws_url = url, ws_authentication = authentication,
              ws_nonSensitiveHeaders = headers, ws_connectTimeoutMs = connectTimeoutMs,
              ws_tlsCertificatePolicy = tlsCertificatePolicy,
              ws_plaintextConfirmed = plaintextConfirmed, ws_proxyId = proxyId\<rparr>)))))))))))))"

definition normalizeHttpConnectInput ::
  "url_parser \<Rightarrow> jsrecord \<Rightarrow> jstr \<Rightarrow> contract_error + ProxyConfigurationInput" where
  "normalizeHttpConnectInput U r path =
     bindE (expectEnum (field r ''authentication'') httpProxyAuthentications
              (dotted path ''authentication'')) (\<lambda>authentication.
     bindE (inputOptionalString r ''username'' path) (\<lambda>un.
     bindE (validateHttpProxyUsername authentication un (dotted path ''username'')) (\<lambda>username.
     bindE (parseTlsPolicy (field r ''tlsCertificatePolicy'')
              (dotted path ''tlsCertificatePolicy'')) (\<lambda>tlsCertificatePolicy.
     bindE (expectString (field r ''url'') (dotted path ''url'')) (\<lambda>u.
     bindE (validateHttpProxyUrl U u tlsCertificatePolicy (dotted path ''url'')) (\<lambda>url.
     bindE (inputStringMap r ''nonSensitiveHeaders'' path) (\<lambda>hs.
     bindE (validateHeaders hs (dotted path ''nonSensitiveHeaders'') HttpConnectTransport) (\<lambda>headers.
     bindE (expectSafeInteger (field r ''connectTimeoutMs'') (dotted path ''connectTimeoutMs'')) (\<lambda>t.
     bindE (validateConnectTimeout t (dotted path ''connectTimeoutMs'')) (\<lambda>connectTimeoutMs.
     Inr (HttpConnect \<lparr>hp_url = url, hp_authentication = authentication, hp_username = username,
            hp_nonSensitiveHeaders = headers, hp_connectTimeoutMs = connectTimeoutMs,
            hp_tlsCertificatePolicy = tlsCertificatePolicy\<rparr>)))))))))))"

definition normalizeSocks5Input ::
  "url_parser \<Rightarrow> jsrecord \<Rightarrow> jstr \<Rightarrow> contract_error + ProxyConfigurationInput" where
  "normalizeSocks5Input U r path =
     bindE (expectEnum (field r ''authentication'') socks5Authentications
              (dotted path ''authentication'')) (\<lambda>authentication.
     bindE (inputOptionalString r ''username'' path) (\<lambda>un.
     bindE (validateOptionalUsername (authentication = SkaUsernamePassword) un
              (dotted path ''username'')) (\<lambda>username.
     bindE (expectString (field r ''host'') (dotted path ''host'')) (\<lambda>h.
     bindE (validateHost U h (dotted path ''host'')) (\<lambda>host.
     bindE (expectPort (field r ''port'') (dotted path ''port'')) (\<lambda>port.
     bindE (expectEnum (field r ''dnsResolution'') dnsResolutions
              (dotted path ''dnsResolution'')) (\<lambda>dnsResolution.
     bindE (expectSafeInteger (field r ''connectTimeoutMs'') (dotted path ''connectTimeoutMs'')) (\<lambda>t.
     bindE (validateConnectTimeout t (dotted path ''connectTimeoutMs'')) (\<lambda>connectTimeoutMs.
     Inr (Socks5 \<lparr>sk_host = host, sk_port = port, sk_authentication = authentication,
            sk_username = username, sk_dnsResolution = dnsResolution,
            sk_connectTimeoutMs = connectTimeoutMs\<rparr>))))))))))"

text \<open>An omitted SSH port is the default port.\<close>

definition inputSshPort :: "jsrecord \<Rightarrow> jstr \<Rightarrow> contract_error + int" where
  "inputSshPort r path =
     (let portValue = field r ''port'' in
      if portValue = JUndef then Inr DEFAULT_SSH_PORT
      else expectPort portValue (dotted path ''port''))"

definition normalizeSshInput ::
  "url_parser \<Rightarrow> jsrecord \<Rightarrow> jstr \<Rightarrow> contract_error + ProxyConfigurationInput" where
  "normalizeSshInput U r path =
     bindE (expectSafeInteger (field r ''keepAliveIntervalMs'')
              (dotted path ''keepAliveIntervalMs'')) (\<lambda>keepAliveIntervalMs.
     bindE (checkKeepAliveInterval keepAliveIntervalMs (dotted path ''keepAliveIntervalMs'')) (\<lambda>_.
     bindE (expectSafeInteger (field r ''keepAliveMaxFailures'')
              (dotted path ''keepAliveMaxFailures'')) (\<lambda>keepAliveMaxFailures.
     bindE (checkKeepAliveFailures keepAliveMaxFailures (dotted path ''keepAliveMaxFailures'')) (\<lambda>_.
     bindE (expectString (field r ''host'') (dotted path ''host'')) (\<lambda>h.
     bindE (validateHost U h (dotted path ''host'')) (\<lambda>host.
     bindE (inputSshPort r path) (\<lambda>port.
     bindE (expectString (field r ''username'') (dotted path ''username'')) (\<lambda>un.
     bindE (validateUsername un (dotted path ''username'')) (\<lambda>username.
     bindE (normalizeSshAuthenticationInput (field r ''authentication'')
              (dotted path ''authentication'')) (\<lambda>authentication.
     bindE (expectSafeInteger (field r ''connectTimeoutMs'') (dotted path ''connectTimeoutMs'')) (\<lambda>t.
     bindE (validateConnectTimeout t (dotted path ''connectTimeoutMs'')) (\<lambda>connectTimeoutMs.
     Inr (Ssh \<lparr>sh_host = host, sh_port = port, sh_username = username,
            sh_authentication = authentication, sh_connectTimeoutMs = connectTimeoutMs,
            sh_keepAliveIntervalMs = keepAliveIntervalMs,
            sh_keepAliveMaxFailures = keepAliveMaxFailures\<rparr>)))))))))))))"

definition normalizeProxyConfigurationInput ::
  "url_parser \<Rightarrow> jsval \<Rightarrow> jstr \<Rightarrow> contract_error + ProxyConfigurationInput" where
  "normalizeProxyConfigurationInput U value path =
     bindE (expectRecord value path) (\<lambda>r.
     bindE (expectEnum (field r ''type'') proxyTypes (dotted path ''type'')) (\<lambda>type.
     (case type of
        HttpConnectType \<Rightarrow> normalizeHttpConnectInput U r path
      | Socks5Type \<Rightarrow> normalizeSocks5Input U r path
      | SshType \<Rightarrow> normalizeSshInput U r path)))"

subsection \<open>Requests\<close>

definition request :: jstr where "request = lit ''request''"
definition requestConfiguration :: jstr where "requestConfiguration = lit ''request.configuration''"

definition normalizeCreateServerProfileRequest ::
  "url_parser \<Rightarrow> jsval \<Rightarrow> contract_error + CreateServerProfileRequest" where
  "normalizeCreateServerProfileRequest U value =
     bindE (expectRecord value request) (\<lambda>r.
     bindE (expectString (field r ''name'') (dotted request ''name'')) (\<lambda>n.
     bindE (validateName n (dotted request ''name'') False) (\<lambda>name.
     bindE (normalizeServerConfigurationInput U (field r ''configuration'')
              requestConfiguration) (\<lambda>configuration.
     Inr \<lparr>csr_name = name, csr_configuration = configuration\<rparr>))))"

definition normalizeUpdateServerProfileRequest ::
  "url_parser \<Rightarrow> jsval \<Rightarrow> contract_error + UpdateServerProfileRequest" where
  "normalizeUpdateServerProfileRequest U value =
     bindE (expectRecord value request) (\<lambda>r.
     bindE (expectServerId (field r ''serverId'') (dotted request ''serverId'')) (\<lambda>serverId.
     bindE (expectVersion (field r ''expectedVersion'')
              (dotted request ''expectedVersion'')) (\<lambda>expectedVersion.
     bindE (expectString (field r ''name'') (dotted request ''name'')) (\<lambda>n.
     bindE (validateName n (dotted request ''name'') False) (\<lambda>name.
     bindE (normalizeServerConfigurationInput U (field r ''configuration'')
              requestConfiguration) (\<lambda>configuration.
     Inr \<lparr>usr_serverId = serverId, usr_expectedVersion = expectedVersion, usr_name = name,
          usr_configuration = configuration\<rparr>))))))"

definition normalizeDeleteServerProfileRequest ::
  "jsval \<Rightarrow> contract_error + DeleteServerProfileRequest" where
  "normalizeDeleteServerProfileRequest value =
     bindE (expectRecord value request) (\<lambda>r.
     bindE (expectServerId (field r ''serverId'') (dotted request ''serverId'')) (\<lambda>serverId.
     bindE (expectVersion (field r ''expectedVersion'')
              (dotted request ''expectedVersion'')) (\<lambda>expectedVersion.
     Inr \<lparr>dsr_serverId = serverId, dsr_expectedVersion = expectedVersion\<rparr>)))"

definition normalizeCreateProxyProfileRequest ::
  "url_parser \<Rightarrow> jsval \<Rightarrow> contract_error + CreateProxyProfileRequest" where
  "normalizeCreateProxyProfileRequest U value =
     bindE (expectRecord value request) (\<lambda>r.
     bindE (expectString (field r ''name'') (dotted request ''name'')) (\<lambda>n.
     bindE (validateName n (dotted request ''name'') False) (\<lambda>name.
     bindE (normalizeProxyConfigurationInput U (field r ''configuration'')
              requestConfiguration) (\<lambda>configuration.
     Inr \<lparr>cpr_name = name, cpr_configuration = configuration\<rparr>))))"

definition normalizeUpdateProxyProfileRequest ::
  "url_parser \<Rightarrow> jsval \<Rightarrow> contract_error + UpdateProxyProfileRequest" where
  "normalizeUpdateProxyProfileRequest U value =
     bindE (expectRecord value request) (\<lambda>r.
     bindE (expectProxyId (field r ''proxyId'') (dotted request ''proxyId'')) (\<lambda>proxyId.
     bindE (expectVersion (field r ''expectedVersion'')
              (dotted request ''expectedVersion'')) (\<lambda>expectedVersion.
     bindE (expectString (field r ''name'') (dotted request ''name'')) (\<lambda>n.
     bindE (validateName n (dotted request ''name'') False) (\<lambda>name.
     bindE (normalizeProxyConfigurationInput U (field r ''configuration'')
              requestConfiguration) (\<lambda>configuration.
     Inr \<lparr>upr_proxyId = proxyId, upr_expectedVersion = expectedVersion, upr_name = name,
          upr_configuration = configuration\<rparr>))))))"

definition normalizeDeleteProxyProfileRequest ::
  "jsval \<Rightarrow> contract_error + DeleteProxyProfileRequest" where
  "normalizeDeleteProxyProfileRequest value =
     bindE (expectRecord value request) (\<lambda>r.
     bindE (expectProxyId (field r ''proxyId'') (dotted request ''proxyId'')) (\<lambda>proxyId.
     bindE (expectVersion (field r ''expectedVersion'')
              (dotted request ''expectedVersion'')) (\<lambda>expectedVersion.
     Inr \<lparr>dpr_proxyId = proxyId, dpr_expectedVersion = expectedVersion\<rparr>)))"

definition normalizeRemoveProxySshHostKeyRequest ::
  "jsval \<Rightarrow> contract_error + RemoveProxySshHostKeyRequest" where
  "normalizeRemoveProxySshHostKeyRequest value =
     bindE (expectRecord value request) (\<lambda>r.
     bindE (expectProxyId (field r ''proxyId'') (dotted request ''proxyId'')) (\<lambda>proxyId.
     bindE (expectVersion (field r ''expectedVersion'')
              (dotted request ''expectedVersion'')) (\<lambda>expectedVersion.
     Inr \<lparr>rhk_proxyId = proxyId, rhk_expectedVersion = expectedVersion\<rparr>)))"

definition normalizeConfirmProxySshHostKeyRequest ::
  "url_parser \<Rightarrow> jsval \<Rightarrow> contract_error + ConfirmProxySshHostKeyRequest" where
  "normalizeConfirmProxySshHostKeyRequest U value =
     bindE (expectRecord value request) (\<lambda>r.
     bindE (expectString (field r ''algorithm'') (dotted request ''algorithm'')) (\<lambda>algorithm.
     bindE (rejectIf (badAlgorithm algorithm) (dotted request ''algorithm'')
              ''contains an invalid SSH host-key algorithm'') (\<lambda>_.
     bindE (expectString (field r ''sha256Fingerprint'')
              (dotted request ''sha256Fingerprint'')) (\<lambda>sha256Fingerprint.
     bindE (rejectIf (\<not> SSH_SHA256_FINGERPRINT_PATTERN sha256Fingerprint)
              (dotted request ''sha256Fingerprint'') ''contains an invalid SHA256 fingerprint'') (\<lambda>_.
     bindE (expectProxyId (field r ''proxyId'') (dotted request ''proxyId'')) (\<lambda>proxyId.
     bindE (expectVersion (field r ''expectedVersion'')
              (dotted request ''expectedVersion'')) (\<lambda>expectedVersion.
     bindE (expectString (field r ''host'') (dotted request ''host'')) (\<lambda>h.
     bindE (validateHost U h (dotted request ''host'')) (\<lambda>host.
     bindE (expectPort (field r ''port'') (dotted request ''port'')) (\<lambda>port.
     Inr \<lparr>chk_proxyId = proxyId, chk_expectedVersion = expectedVersion, chk_host = host,
          chk_port = port, chk_algorithm = algorithm,
          chk_sha256Fingerprint = sha256Fingerprint\<rparr>))))))))))"

definition normalizeRecordProxyTestRequest ::
  "jsval \<Rightarrow> contract_error + RecordProxyTestRequest" where
  "normalizeRecordProxyTestRequest value =
     bindE (expectRecord value request) (\<lambda>r.
     bindE (expectProxyId (field r ''proxyId'') (dotted request ''proxyId'')) (\<lambda>proxyId.
     bindE (expectVersion (field r ''expectedVersion'')
              (dotted request ''expectedVersion'')) (\<lambda>expectedVersion.
     bindE (expectEnum (field r ''status'') testStatuses (dotted request ''status'')) (\<lambda>status.
     Inr \<lparr>rpt_proxyId = proxyId, rpt_expectedVersion = expectedVersion, rpt_status = status\<rparr>))))"

definition plaintextFallback :: "jsrecord \<Rightarrow> contract_error + bool option" where
  "plaintextFallback r =
     (if field r ''plaintextFallbackConfirmed'' = JUndef then Inr None
      else bindE (expectBoolean (field r ''plaintextFallbackConfirmed'')
                    (dotted request ''plaintextFallbackConfirmed'')) (\<lambda>b. Inr (Some b)))"

definition normalizeSetServerCredentialRequest ::
  "jsval \<Rightarrow> contract_error + SetServerCredentialRequest" where
  "normalizeSetServerCredentialRequest value =
     bindE (expectRecord value request) (\<lambda>r.
     bindE (expectServerId (field r ''serverId'') (dotted request ''serverId'')) (\<lambda>serverId.
     bindE (expectVersion (field r ''expectedVersion'')
              (dotted request ''expectedVersion'')) (\<lambda>expectedVersion.
     bindE (normalizeServerCredential (field r ''credential'')
              (dotted request ''credential'')) (\<lambda>credential.
     bindE (plaintextFallback r) (\<lambda>confirmed.
     Inr \<lparr>ssc_serverId = serverId, ssc_expectedVersion = expectedVersion,
          ssc_credential = credential, ssc_plaintextFallbackConfirmed = confirmed\<rparr>)))))"

definition normalizeClearServerCredentialRequest ::
  "jsval \<Rightarrow> contract_error + ClearServerCredentialRequest" where
  "normalizeClearServerCredentialRequest value =
     bindE (expectRecord value request) (\<lambda>r.
     bindE (expectServerId (field r ''serverId'') (dotted request ''serverId'')) (\<lambda>serverId.
     bindE (expectVersion (field r ''expectedVersion'')
              (dotted request ''expectedVersion'')) (\<lambda>expectedVersion.
     bindE (expectEnum (field r ''credentialType'') SERVER_CREDENTIAL_TYPES
              (dotted request ''credentialType'')) (\<lambda>credentialType.
     Inr \<lparr>clsc_serverId = serverId, clsc_expectedVersion = expectedVersion,
          clsc_credentialType = credentialType\<rparr>))))"

definition normalizeSetProxyCredentialRequest ::
  "jsval \<Rightarrow> contract_error + SetProxyCredentialRequest" where
  "normalizeSetProxyCredentialRequest value =
     bindE (expectRecord value request) (\<lambda>r.
     bindE (expectProxyId (field r ''proxyId'') (dotted request ''proxyId'')) (\<lambda>proxyId.
     bindE (expectVersion (field r ''expectedVersion'')
              (dotted request ''expectedVersion'')) (\<lambda>expectedVersion.
     bindE (normalizeProxyCredential (field r ''credential'')
              (dotted request ''credential'')) (\<lambda>credential.
     bindE (plaintextFallback r) (\<lambda>confirmed.
     Inr \<lparr>spc_proxyId = proxyId, spc_expectedVersion = expectedVersion,
          spc_credential = credential, spc_plaintextFallbackConfirmed = confirmed\<rparr>)))))"

definition normalizeClearProxyCredentialRequest ::
  "jsval \<Rightarrow> contract_error + ClearProxyCredentialRequest" where
  "normalizeClearProxyCredentialRequest value =
     bindE (expectRecord value request) (\<lambda>r.
     bindE (expectProxyId (field r ''proxyId'') (dotted request ''proxyId'')) (\<lambda>proxyId.
     bindE (expectVersion (field r ''expectedVersion'')
              (dotted request ''expectedVersion'')) (\<lambda>expectedVersion.
     bindE (expectEnum (field r ''credentialType'') PROXY_CREDENTIAL_TYPES
              (dotted request ''credentialType'')) (\<lambda>credentialType.
     Inr \<lparr>clpc_proxyId = proxyId, clpc_expectedVersion = expectedVersion,
          clpc_credentialType = credentialType\<rparr>))))"

subsection \<open>The normal form is what the parsers accept\<close>

lemma inputOptionalString_eq_Inr [contract_iff]:
  "inputOptionalString r key path = Inr x \<longleftrightarrow>
     (case x of None \<Rightarrow> field r key = JUndef | Some s \<Rightarrow> field r key = JStr s)"
  by (auto simp: inputOptionalString_def contract_iff Let_def split: option.splits)

lemma inputOptionalProxyId_eq_Inr [contract_iff]:
  "inputOptionalProxyId r key path = Inr x \<longleftrightarrow>
     (case x of None \<Rightarrow> field r key = JUndef | Some s \<Rightarrow> field r key = JStr s \<and> UUID_PATTERN s)"
  by (auto simp: inputOptionalProxyId_def contract_iff Let_def split: option.splits)

lemma inputStringMap_sorted: "inputStringMap r key path = Inr m \<Longrightarrow> sorted (map fst m)"
  by (auto simp: inputStringMap_def contract_iff Let_def split: if_splits)

lemma stringMapValue_neq [simp]: "stringMapValue m \<noteq> JUndef"
  by (simp add: stringMapValue_def)

lemma input_eval [contract_eval]:
  "field r key = JStr s \<Longrightarrow> inputOptionalString r key path = Inr (Some s)"
  "field r key = JUndef \<Longrightarrow> inputOptionalString r key path = Inr None"
  "field r key = JStr s \<Longrightarrow> UUID_PATTERN s \<Longrightarrow> inputOptionalProxyId r key path = Inr (Some s)"
  "field r key = JUndef \<Longrightarrow> inputOptionalProxyId r key path = Inr None"
  "field r key = stringMapValue m \<Longrightarrow> inputStringMap r key path = Inr (sortEntries m)"
  by (simp_all add: contract_iff inputStringMap_def) (auto simp: Let_def)

lemma normalizeSshAuthenticationInput_sound:
  "normalizeSshAuthenticationInput v path = Inr x \<Longrightarrow> SshAuthentication_ok x"
  by (auto simp: normalizeSshAuthenticationInput_def contract_iff split: if_splits)

lemma normalizeSshAuthenticationInput_complete:
  "SshAuthentication_ok x \<Longrightarrow> normalizeSshAuthenticationInput (SshAuthentication_value x) path = Inr x"
  by (cases x) (auto simp: normalizeSshAuthenticationInput_def contract_eval sshAuthTypes_def)

lemma normalizeServerConfigurationInput_sound:
  "normalizeServerConfigurationInput U v path = Inr x \<Longrightarrow> ServerConfiguration_ok U x"
  by (auto simp: normalizeServerConfigurationInput_def contract_iff LocalStdio_ok_def
      RemoteWebSocket_ok_def environmentOk_def headersOk_def split: if_splits option.splits
      dest!: inputStringMap_sorted)

lemma normalizeServerConfigurationInput_complete:
  "ServerConfiguration_ok U x \<Longrightarrow>
     normalizeServerConfigurationInput U (ServerConfiguration_value x) path = Inr x"
proof (cases x)
  case (LocalStdio c)
  assume "ServerConfiguration_ok U x"
  with LocalStdio show ?thesis
    by (cases "ls_defaultWorkingDirectory c")
      (simp_all add: normalizeServerConfigurationInput_def LocalStdio_value_def LocalStdio_ok_def
        contract_eval serverTypes_def)
next
  case (RemoteWebSocket c)
  assume "ServerConfiguration_ok U x"
  with RemoteWebSocket show ?thesis
    by (cases "ws_proxyId c")
      (simp_all add: normalizeServerConfigurationInput_def RemoteWebSocket_value_def
        RemoteWebSocket_ok_def contract_eval serverTypes_def parseTlsPolicy_def
        del: isSafeInt_bounds)
qed

interpretation serverConfigurationInput:
  codec "normalizeServerConfigurationInput U" ServerConfiguration_value "ServerConfiguration_ok U" for U
  by unfold_locales
    (fact normalizeServerConfigurationInput_sound normalizeServerConfigurationInput_complete)+

lemma normalizeHttpConnectInput_sound:
  "normalizeHttpConnectInput U r path = Inr x \<Longrightarrow> case x of HttpConnect c \<Rightarrow> HttpConnect_ok U c | _ \<Rightarrow> False"
  by (auto simp: normalizeHttpConnectInput_def contract_iff HttpConnect_ok_def headersOk_def
      split: option.splits dest!: inputStringMap_sorted)

lemma normalizeSocks5Input_sound:
  "normalizeSocks5Input U r path = Inr x \<Longrightarrow> case x of Socks5 c \<Rightarrow> Socks5_ok U c | _ \<Rightarrow> False"
  unfolding normalizeSocks5Input_def bindE_eq_Inr
  by (elim exE conjE) (auto simp: contract_iff Socks5_ok_def)

lemma inputSshPort_ok: "inputSshPort r path = Inr port \<Longrightarrow> portOk port"
  by (auto simp: inputSshPort_def contract_iff portOk_def Let_def split: if_splits)

lemma inputSshPort_eval [contract_eval]:
  "field r ''port'' = JInt i \<Longrightarrow> portOk i \<Longrightarrow> inputSshPort r path = Inr i"
  by (simp add: inputSshPort_def contract_eval)

lemma normalizeSshInput_sound:
  "normalizeSshInput U r path = Inr x \<Longrightarrow> case x of Ssh c \<Rightarrow> Ssh_ok U c | _ \<Rightarrow> False"
  by (auto simp: normalizeSshInput_def contract_iff Ssh_ok_def
      dest!: normalizeSshAuthenticationInput_sound inputSshPort_ok)

lemma normalizeProxyConfigurationInput_sound:
  assumes "normalizeProxyConfigurationInput U v path = Inr x"
  shows "ProxyConfiguration_ok U x"
proof -
  from assms obtain r type where p:
    "(case type of HttpConnectType \<Rightarrow> normalizeHttpConnectInput U r path
      | Socks5Type \<Rightarrow> normalizeSocks5Input U r path | SshType \<Rightarrow> normalizeSshInput U r path) = Inr x"
    by (auto simp: normalizeProxyConfigurationInput_def bindE_eq_Inr expectRecord_eq_Inr)
  then show ?thesis
    by (cases type)
      (auto dest!: normalizeHttpConnectInput_sound normalizeSocks5Input_sound normalizeSshInput_sound
        split: ProxyConfiguration.splits)
qed

lemma normalizeProxyConfigurationInput_complete:
  "ProxyConfiguration_ok U x \<Longrightarrow>
     normalizeProxyConfigurationInput U (ProxyConfiguration_value x) path = Inr x"
proof (cases x)
  case (HttpConnect c)
  assume "ProxyConfiguration_ok U x"
  with HttpConnect show ?thesis
    by (cases "hp_username c")
      (auto simp: normalizeProxyConfigurationInput_def normalizeHttpConnectInput_def
        HttpConnect_value_def HttpConnect_ok_def contract_eval proxyTypes_def parseTlsPolicy_def
        validateHttpProxyUsername_def validateOptionalUsername_def simp del: isSafeInt_bounds
        split: if_splits)
next
  case (Socks5 c)
  assume "ProxyConfiguration_ok U x"
  with Socks5 show ?thesis
    by (cases "sk_username c")
      (auto simp: normalizeProxyConfigurationInput_def normalizeSocks5Input_def Socks5_value_def
        Socks5_ok_def contract_eval proxyTypes_def validateOptionalUsername_def
        simp del: isSafeInt_bounds split: if_splits)
next
  case (Ssh c)
  assume "ProxyConfiguration_ok U x"
  with Ssh show ?thesis
    by (simp add: normalizeProxyConfigurationInput_def normalizeSshInput_def Ssh_value_def Ssh_ok_def
        contract_eval proxyTypes_def normalizeSshAuthenticationInput_complete connectTimeoutOk_def)
qed

interpretation proxyConfigurationInput:
  codec "normalizeProxyConfigurationInput U" ProxyConfiguration_value "ProxyConfiguration_ok U" for U
  by unfold_locales
    (fact normalizeProxyConfigurationInput_sound normalizeProxyConfigurationInput_complete)+

interpretation sshAuthenticationInput:
  codec normalizeSshAuthenticationInput SshAuthentication_value SshAuthentication_ok
  by unfold_locales
    (fact normalizeSshAuthenticationInput_sound normalizeSshAuthenticationInput_complete)+

subsection \<open>Credentials\<close>

fun ServerCredential_value :: "ServerCredential \<Rightarrow> jsval" where
  "ServerCredential_value (SensitiveEnvironment env) =
     JObj [jprop ''type'' (JStr (lit ''sensitiveEnvironment'')), jprop ''values'' (stringMapValue env)]"
| "ServerCredential_value (BearerToken t) =
     JObj [jprop ''type'' (JStr (lit ''bearerToken'')), jprop ''value'' (JStr t)]"

fun ServerCredential_ok :: "ServerCredential \<Rightarrow> bool" where
  "ServerCredential_ok (SensitiveEnvironment env) = sensitiveEnvironmentOk env"
| "ServerCredential_ok (BearerToken t) = bearerTokenOk t"

definition ProxyCredential_value :: "ProxyCredential \<Rightarrow> jsval" where
  "ProxyCredential_value c = JObj
     [jprop ''type'' (enumValue PROXY_CREDENTIAL_TYPES (pc_type c)), jprop ''value'' (JStr (pc_value c))]"

definition ProxyCredential_ok :: "ProxyCredential \<Rightarrow> bool" where
  "ProxyCredential_ok c \<longleftrightarrow>
     (if pc_type c = HttpBearerToken then bearerTokenOk (pc_value c)
      else textCredentialOk (proxyCredentialMaxBytes (pc_type c)) (pc_value c))"

lemma PROXY_CREDENTIAL_TYPES_lookup [simp]:
  "enumLookup PROXY_CREDENTIAL_TYPES (lit (enumName PROXY_CREDENTIAL_TYPES a)) = Some a"
  by (cases a) (simp_all add: PROXY_CREDENTIAL_TYPES_def enumName_def)

lemma normalizeServerCredential_sound:
  "normalizeServerCredential v path = Inr x \<Longrightarrow> ServerCredential_ok x"
proof -
  assume "normalizeServerCredential v path = Inr x"
  then obtain r type where "(case type of
        SensitiveEnvironmentType \<Rightarrow>
          bindE (normalizeSensitiveEnvironment (field r ''values'') (dotted path ''values'')) (\<lambda>values.
          Inr (SensitiveEnvironment values))
      | BearerTokenType \<Rightarrow>
          bindE (normalizeBearerToken (field r ''value'') (dotted path ''value'')) (\<lambda>v.
          Inr (BearerToken v))) = Inr x"
    by (auto simp: normalizeServerCredential_def bindE_eq_Inr)
  then show ?thesis
    by (cases type) (auto simp: contract_iff sensitiveEnvironmentOk_def)
qed

lemma normalizeServerCredential_complete:
  "ServerCredential_ok x \<Longrightarrow> normalizeServerCredential (ServerCredential_value x) path = Inr x"
proof (cases x)
  case (SensitiveEnvironment env)
  assume "ServerCredential_ok x"
  with SensitiveEnvironment have ok: "sensitiveEnvironmentOk env" by simp
  then have "normalizeSensitiveEnvironment (stringMapValue env) p = Inr env" for p
    by (auto simp: contract_iff sensitiveEnvironmentOk_def sortEntries_id intro!: exI [of _ env])
  with SensitiveEnvironment show ?thesis
    by (simp add: normalizeServerCredential_def contract_eval SERVER_CREDENTIAL_TYPES_def)
next
  case (BearerToken t)
  assume "ServerCredential_ok x"
  with BearerToken show ?thesis
    by (simp add: normalizeServerCredential_def contract_eval SERVER_CREDENTIAL_TYPES_def)
qed

lemma normalizeProxyCredential_sound:
  "normalizeProxyCredential v path = Inr x \<Longrightarrow> ProxyCredential_ok x"
  by (auto simp: normalizeProxyCredential_def contract_iff ProxyCredential_ok_def Let_def
      split: if_splits)

lemma normalizeProxyCredential_complete:
  "ProxyCredential_ok x \<Longrightarrow> normalizeProxyCredential (ProxyCredential_value x) path = Inr x"
  by (cases "pc_type x = HttpBearerToken")
    (simp_all add: normalizeProxyCredential_def ProxyCredential_value_def ProxyCredential_ok_def
      contract_eval Let_def)

interpretation serverCredential: codec normalizeServerCredential ServerCredential_value ServerCredential_ok
  by unfold_locales (fact normalizeServerCredential_sound normalizeServerCredential_complete)+

interpretation proxyCredential: codec normalizeProxyCredential ProxyCredential_value ProxyCredential_ok
  by unfold_locales (fact normalizeProxyCredential_sound normalizeProxyCredential_complete)+

lemma bearerToken_chars:
  assumes "bearerTokenOk t"
  shows "t \<noteq> []" "\<forall>c \<in> set t. cu_bearer c \<or> c = 0x3D" "length t \<le> 8185"
proof -
  have t: "set t = set (takeWhile cu_bearer t) \<union> set (dropWhile cu_bearer t)"
    by (metis set_append takeWhile_dropWhile_id)
  from assms show "t \<noteq> []" by (auto simp: bearerTokenOk_def BEARER_TOKEN_PATTERN_def)
  show "\<forall>c \<in> set t. cu_bearer c \<or> c = 0x3D"
    using assms unfolding t
    by (auto simp: bearerTokenOk_def BEARER_TOKEN_PATTERN_def list_all_iff dest: set_takeWhileD)
  show "length t \<le> 8185"
    using assms utf8Length_ge_length [of t] by (simp add: bearerTokenOk_def)
qed

end
