(* ===== verification/ConfigProperties.thy ===== *)
theory ConfigProperties
  imports ConfigSnapshot ConfigNormalize
begin

text \<open>
  The properties of the configuration contract. Their hypotheses are witnessed by concrete values:
  a snapshot with a local server and a remote one behind an SSH proxy, and a URL parser that knows
  the two URLs they need.
\<close>

subsection \<open>Concrete values\<close>

definition demoUrl :: url_parser where
  "demoUrl s =
     (if s = lit ''wss://h/'' then Some \<lparr>url_protocol = lit ''wss:'', url_username = [], url_password = [],
        url_hostname = lit ''h'', url_pathname = lit ''/'', url_searchKeys = []\<rparr>
      else if s = lit ''http://h/'' then Some \<lparr>url_protocol = lit ''http:'', url_username = [], url_password = [],
        url_hostname = lit ''h'', url_pathname = lit ''/'', url_searchKeys = []\<rparr>
      else None)"

definition demoLocal :: ServerConfiguration where
  "demoLocal = LocalStdio \<lparr>ls_executablePath = lit ''/bin/codex'', ls_arguments = [lit ''app-server''],
     ls_defaultWorkingDirectory = None,
     ls_nonSensitiveEnvironment = [(lit ''HOME'', lit ''/r''), (lit ''LANG'', lit ''C'')]\<rparr>"

definition demoProxyId :: ProxyId where
  "demoProxyId = lit ''22222222-2222-4222-8222-222222222222''"

definition demoRemote :: ServerConfiguration where
  "demoRemote = RemoteWebSocket \<lparr>ws_url = lit ''wss://h/'', ws_authentication = RsaBearer,
     ws_nonSensitiveHeaders = [], ws_connectTimeoutMs = 5000, ws_tlsCertificatePolicy = TlsStrict,
     ws_plaintextConfirmed = False, ws_proxyId = Some demoProxyId\<rparr>"

definition demoServer :: "ServerId \<Rightarrow> jstr \<Rightarrow> ServerConfiguration \<Rightarrow> ServerProfile" where
  "demoServer sid name configuration = \<lparr>sp_serverId = sid, sp_name = name, sp_version = 1,
     sp_configuration = configuration, sp_credentialConfigured = False, sp_activeWindowCount = 0,
     sp_createdAtMs = 1, sp_updatedAtMs = 2, sp_lastUsedAtMs = None\<rparr>"

definition demoSsh :: ProxyConfiguration where
  "demoSsh = Ssh \<lparr>sh_host = lit ''h'', sh_port = 22, sh_username = lit ''u'', sh_authentication = SshAgent,
     sh_connectTimeoutMs = 5000, sh_keepAliveIntervalMs = 2000, sh_keepAliveMaxFailures = 3\<rparr>"

definition demoHostKey :: SshHostKeyRecord where
  "demoHostKey = \<lparr>hk_host = lit ''h'', hk_port = 22, hk_algorithm = lit ''ssh-ed25519'',
     hk_sha256Fingerprint = lit ''SHA256:ABCDEFGHIJKLMNOPQRSTUVWXYZabcdefghijklmnopA'',
     hk_confirmedAtMs = 1\<rparr>"

definition demoProxy :: ProxyProfile where
  "demoProxy = \<lparr>pp_proxyId = demoProxyId, pp_name = lit ''jump'', pp_version = 1,
     pp_configuration = demoSsh, pp_credentialConfigured = False, pp_sshHostKey = Some demoHostKey,
     pp_lastTest = None, pp_referencedServerCount = 1, pp_createdAtMs = 1, pp_updatedAtMs = 1\<rparr>"

definition demoServers :: "ServerProfile list" where
  "demoServers = [demoServer (lit ''11111111-1111-4111-8111-111111111111'') (lit ''local'') demoLocal,
     demoServer (lit ''33333333-3333-4333-8333-333333333333'') (lit ''remote'') demoRemote]"

definition demoSnapshot :: ConfigurationSnapshot where
  "demoSnapshot = \<lparr>cs_servers = demoServers, cs_proxies = [demoProxy]\<rparr>"

lemma demo_input:
  "normalizeServerConfigurationInput demoUrl (ServerConfiguration_value demoRemote) (lit ''p'') = Inr demoRemote"
  "normalizeProxyConfigurationInput demoUrl (ProxyConfiguration_value demoSsh) (lit ''p'') = Inr demoSsh"
  by code_simp+

lemma demo_local:
  "parseServerConfiguration demoUrl (ServerConfiguration_value demoLocal) (lit ''p'') = Inr demoLocal"
  by code_simp

lemma demo_host_key:
  "parseSshHostKeyRecord demoUrl (SshHostKey_value demoHostKey) (lit ''p'') = Inr demoHostKey"
  by code_simp

lemma demo_names: "profileName (lit ''local'')" "profileName (lit ''remote'')" "profileName (lit ''jump'')"
  unfolding profileName_def by code_simp+

lemma demo_names_differ: "foldAsciiCase (lit ''local'') \<noteq> foldAsciiCase (lit ''remote'')"
  by code_simp

lemma demo_ids:
  "UUID_PATTERN (lit ''11111111-1111-4111-8111-111111111111'')"
  "UUID_PATTERN (lit ''33333333-3333-4333-8333-333333333333'')"
  "UUID_PATTERN demoProxyId"
  by code_simp+

lemma demo_configurations_ok:
  "ServerConfiguration_ok demoUrl demoLocal" "ServerConfiguration_ok demoUrl demoRemote"
  "ProxyConfiguration_ok demoUrl demoSsh" "SshHostKey_ok demoUrl demoHostKey"
  using serverConfiguration.sound [OF demo_local] serverConfigurationInput.sound [OF demo_input(1)]
    proxyConfigurationInput.sound [OF demo_input(2)] sshHostKey.sound [OF demo_host_key]
  by simp_all

lemma demo_host_key_matches: "hostKeyMatches (Some demoHostKey) demoSsh"
  by (simp add: hostKeyMatches_def demoHostKey_def demoSsh_def)

lemma demo_profiles_ok:
  "ServerProfile_ok demoUrl (demoServer (lit ''11111111-1111-4111-8111-111111111111'') (lit ''local'') demoLocal)"
  "ServerProfile_ok demoUrl (demoServer (lit ''33333333-3333-4333-8333-333333333333'') (lit ''remote'') demoRemote)"
  "ProxyProfile_ok demoUrl demoProxy"
  using demo_configurations_ok demo_names demo_ids demo_host_key_matches
  by (simp_all add: ServerProfile_ok_def ProxyProfile_ok_def demoServer_def demoProxy_def versionOk_def
      timestampOk_def MAX_SAFE_INTEGER_def)

lemma demo_snapshot_ok: "Snapshot_ok demoUrl demoSnapshot"
  using demo_profiles_ok demo_names_differ
  by (simp add: Snapshot_ok_def demoSnapshot_def demoServers_def demoServer_def demoLocal_def demoRemote_def demoProxy_def referenceCount_def
      serverProxyId_def)

lemmas demo_parsed = configurationSnapshot.complete [OF demo_snapshot_ok]

lemma demo_profile_parsed:
  "parseServerProfile demoUrl (ServerProfile_value (hd demoServers)) (lit ''p'') = Inr (hd demoServers)"
  "parseProxyProfile demoUrl (ProxyProfile_value demoProxy) (lit ''p'') = Inr demoProxy"
  by (simp_all add: demoServers_def serverProfile.complete [OF demo_profiles_ok(1)]
      proxyProfile.complete [OF demo_profiles_ok(3)])

definition demoCreate :: jsval where
  "demoCreate = JObj [jprop ''name'' (JStr (lit '' new '')),
     jprop ''configuration'' (ServerConfiguration_value demoRemote)]"

lemma demo_create:
  "normalizeCreateServerProfileRequest demoUrl demoCreate =
     Inr \<lparr>csr_name = lit ''new'', csr_configuration = demoRemote\<rparr>"
  by code_simp

definition demoToken :: jsval where
  "demoToken = JObj [jprop ''type'' (JStr (lit ''bearerToken'')), jprop ''value'' (JStr (lit ''abc.d=''))]"

lemma demo_token: "normalizeServerCredential demoToken (lit ''p'') = Inr (BearerToken (lit ''abc.d=''))"
  by code_simp

subsection \<open>The properties\<close>

text \<open>C20. A snapshot the parser accepts satisfies the whole contract: every server and proxy
  profile is allowed, identifiers and names (folding ASCII case) are unique, every proxy a server
  names exists in the snapshot, and each proxy carries the number of servers that name it.\<close>

theorem snapshot_contract:
  assumes "parseConfigurationSnapshot U value' = Inr s"
  shows "Snapshot_ok U s"
  using assms by (rule configurationSnapshot.sound)

lemma snapshot_contract_witness: "Snapshot_ok demoUrl demoSnapshot"
  by (rule snapshot_contract [OF demo_parsed])

text \<open>C21. Nothing allowed is rejected and nothing is changed on the way in: the object of an allowed
  snapshot is parsed to that snapshot, so what one process writes another reads back.\<close>

theorem snapshot_round_trip:
  assumes "Snapshot_ok U s"
  shows "parseConfigurationSnapshot U (Snapshot_value s) = Inr s"
  using assms by (rule configurationSnapshot.complete)

lemma snapshot_round_trip_witness:
  "parseConfigurationSnapshot demoUrl (Snapshot_value demoSnapshot) = Inr demoSnapshot"
  by (rule snapshot_round_trip) (rule configurationSnapshot.sound [OF demo_parsed])

text \<open>Parsing is strict: an accepted server profile object has exactly the keys of the interface
  for its kind and optional fields, no more and no less, symbol keys included; a profile with a key
  the contract does not name, such as a stored credential, is rejected.\<close>

theorem server_profile_exact_keys:
  assumes "parseServerProfile U (JObj r) path = Inr p"
  shows "\<exists>r'. ServerProfile_value p = JObj r' \<and> set (ownKeys r) = set (ownKeys r')"
  using assms by (rule serverProfile.exact_keys)

lemma server_profile_exact_keys_witness:
  "\<exists>r r'. ServerProfile_value (hd demoServers) = JObj r \<and>
     ServerProfile_value (hd demoServers) = JObj r' \<and> set (ownKeys r) = set (ownKeys r')"
proof -
  obtain r where r: "ServerProfile_value (hd demoServers) = JObj r"
    by (simp add: ServerProfile_value_def)
  show ?thesis
    using server_profile_exact_keys [OF demo_profile_parsed(1) [unfolded r]] r by blast
qed

text \<open>The request side and the snapshot side agree on servers: a configuration the normaliser
  returns is parsed unchanged by the snapshot parser and normalised unchanged again, whatever
  defaults, sorting and dropped properties produced it.\<close>

theorem server_input_stable:
  assumes "normalizeServerConfigurationInput U v path = Inr c"
  shows "parseServerConfiguration U (ServerConfiguration_value c) path' = Inr c \<and>
    normalizeServerConfigurationInput U (ServerConfiguration_value c) path' = Inr c"
  using serverConfiguration.complete [OF serverConfigurationInput.sound [OF assms]]
    serverConfigurationInput.parse_again [OF assms] by simp

lemma server_input_stable_witness:
  "parseServerConfiguration demoUrl (ServerConfiguration_value demoRemote) (lit ''q'') = Inr demoRemote \<and>
   normalizeServerConfigurationInput demoUrl (ServerConfiguration_value demoRemote) (lit ''q'') = Inr demoRemote"
  by (rule server_input_stable [OF demo_input(1)])

text \<open>The same for proxies of the three kinds, the default SSH port included.\<close>

theorem proxy_input_stable:
  assumes "normalizeProxyConfigurationInput U v path = Inr c"
  shows "parseProxyConfiguration U (ProxyConfiguration_value c) path' = Inr c \<and>
    normalizeProxyConfigurationInput U (ProxyConfiguration_value c) path' = Inr c"
  using proxyConfiguration.complete [OF proxyConfigurationInput.sound [OF assms]]
    proxyConfigurationInput.parse_again [OF assms] by simp

lemma proxy_input_stable_witness:
  "parseProxyConfiguration demoUrl (ProxyConfiguration_value demoSsh) (lit ''q'') = Inr demoSsh \<and>
   normalizeProxyConfigurationInput demoUrl (ProxyConfiguration_value demoSsh) (lit ''q'') = Inr demoSsh"
  by (rule proxy_input_stable [OF demo_input(2)])

text \<open>No secret in the clear: in a snapshot the parser accepts, no environment variable and no
  header of any server has a name that looks like a credential.\<close>

theorem snapshot_names_not_sensitive:
  assumes "parseConfigurationSnapshot U value' = Inr s" and "server \<in> set (cs_servers s)"
    and "name \<in> set (namesOf (sp_configuration server))"
  shows "\<not> looksSensitiveIdentifier name"
  using configurationSnapshot.sound [OF assms(1)] assms(2,3)
  by (auto simp: Snapshot_ok_def ServerProfile_ok_def dest: ServerConfiguration_ok_names)

lemma snapshot_names_not_sensitive_witness: "\<not> looksSensitiveIdentifier (lit ''LANG'')"
  by (rule snapshot_names_not_sensitive [OF demo_parsed, where server = "hd demoServers"])
    (simp_all add: demoSnapshot_def demoServers_def demoServer_def demoLocal_def namesOf_def)

text \<open>C23. Transport security: a remote server that is accepted has a ws or wss URL, it is ws exactly
  if plaintext was confirmed, and invalid certificates are allowed only over wss.\<close>

theorem remote_server_transport_security:
  assumes "parseServerConfiguration U v path = Inr (RemoteWebSocket c)"
  shows "\<exists>url. U (ws_url c) = Some url \<and> url_protocol url \<in> {lit ''ws:'', lit ''wss:''} \<and>
    (url_protocol url = lit ''ws:'' \<longleftrightarrow> ws_plaintextConfirmed c) \<and>
    (ws_tlsCertificatePolicy c = TlsAllowInvalidCertificate \<longrightarrow> url_protocol url = lit ''wss:'')"
  using RemoteWebSocket_plaintext [of U c] serverConfiguration.sound [OF assms] by auto

lemma remote_server_transport_security_witness:
  "\<exists>url. demoUrl (lit ''wss://h/'') = Some url \<and> url_protocol url \<in> {lit ''ws:'', lit ''wss:''} \<and>
     (url_protocol url = lit ''ws:'' \<longleftrightarrow> False) \<and>
     (TlsStrict = TlsAllowInvalidCertificate \<longrightarrow> url_protocol url = lit ''wss:'')"
  using remote_server_transport_security
    [OF serverConfiguration.complete [OF demo_configurations_ok(2), unfolded demoRemote_def]]
  by simp

text \<open>A recorded SSH host key belongs to its proxy: an accepted proxy profile has one only if it
  is an SSH proxy, and the key is for the host and port of the proxy.\<close>

theorem host_key_matches_proxy:
  assumes "parseProxyProfile U v path = Inr p" and "pp_sshHostKey p = Some k"
  shows "\<exists>c. pp_configuration p = Ssh c \<and> hk_host k = sh_host c \<and> hk_port k = sh_port c"
  using proxyProfile.sound [OF assms(1)] assms(2) by (simp add: ProxyProfile_ok_def hostKeyMatches_def)

lemma host_key_matches_proxy_witness:
  "\<exists>c. pp_configuration demoProxy = Ssh c \<and> hk_host demoHostKey = sh_host c \<and> hk_port demoHostKey = sh_port c"
  by (rule host_key_matches_proxy [OF demo_profile_parsed(2)]) (simp add: demoProxy_def)

text \<open>An accepted bearer token is safe to put in a header: it is not empty, has at most 8185
  code units, all of them from the token alphabet or padding, so neither control characters nor
  line breaks nor spaces.\<close>

theorem bearer_token_bounds:
  assumes "normalizeServerCredential v path = Inr (BearerToken t)"
  shows "t \<noteq> [] \<and> length t \<le> 8185 \<and> list_all (\<lambda>c. cu_bearer c \<or> c = 0x3D) t"
  using bearerToken_chars [of t] serverCredential.sound [OF assms] by (simp add: list_all_iff)

lemma bearer_token_bounds_witness:
  "lit ''abc.d='' \<noteq> [] \<and> length (lit ''abc.d='') \<le> 8185 \<and> list_all (\<lambda>c. cu_bearer c \<or> c = 0x3D) (lit ''abc.d='')"
  by (rule bearer_token_bounds [OF demo_token])

text \<open>Credentials are normalised once and for all: an accepted server credential, written as an
  object and normalised again, is unchanged.\<close>

theorem server_credential_stable:
  assumes "normalizeServerCredential v path = Inr x"
  shows "normalizeServerCredential (ServerCredential_value x) path' = Inr x"
  using assms by (rule serverCredential.parse_again)

lemma server_credential_stable_witness:
  "normalizeServerCredential (ServerCredential_value (BearerToken (lit ''abc.d=''))) (lit ''q'') =
     Inr (BearerToken (lit ''abc.d=''))"
  by (rule server_credential_stable [OF demo_token])

text \<open>Environment and header maps are read completely and ordered: the result has the same
  entries as the object, in the order of their keys by code unit.\<close>

theorem string_map_sorted:
  assumes "expectStringMap (JObj r) path = Inr m"
  shows "sorted (map fst m) \<and> mset (map (\<lambda>(k, v). (KStr k, JStr v)) m) = mset r"
proof -
  obtain entries where r: "r = map (\<lambda>(k, v). (KStr k, JStr v)) entries" and m: "m = sortEntries entries"
    using assms by (auto simp: expectStringMap_eq_Inr stringMapValue_def)
  have "mset (map (\<lambda>(k, v). (KStr k, JStr v)) (sortEntries entries)) =
      image_mset (\<lambda>(k, v). (KStr k, JStr v)) (mset entries)"
    by (simp only: mset_map mset_sortEntries)
  then show ?thesis by (simp add: r m)
qed

lemma string_map_sorted_witness:
  "sorted (map fst [(lit ''A'', lit ''1''), (lit ''B'', lit ''2'')]) \<and>
   mset (map (\<lambda>(k, v). (KStr k, JStr v)) [(lit ''A'', lit ''1''), (lit ''B'', lit ''2'')]) =
   mset [jprop ''B'' (JStr (lit ''2'')), jprop ''A'' (JStr (lit ''1''))]"
proof (rule string_map_sorted)
  show "expectStringMap (JObj [jprop ''B'' (JStr (lit ''2'')), jprop ''A'' (JStr (lit ''1''))]) (lit ''p'') =
      Inr [(lit ''A'', lit ''1''), (lit ''B'', lit ''2'')]" by code_simp
qed

text \<open>An accepted request to create a server makes a profile the snapshot parser accepts: with a
  fresh identifier, a positive version and the time of creation, and no credential yet, the profile
  of the normalised request is read back unchanged.\<close>

theorem created_server_parsed:
  assumes "normalizeCreateServerProfileRequest U v = Inr q"
    and "UUID_PATTERN sid" and "versionOk n" and "timestampOk t"
    and "p = \<lparr>sp_serverId = sid, sp_name = csr_name q, sp_version = n,
      sp_configuration = csr_configuration q, sp_credentialConfigured = False,
      sp_activeWindowCount = 0, sp_createdAtMs = t, sp_updatedAtMs = t, sp_lastUsedAtMs = None\<rparr>"
  shows "parseServerProfile U (ServerProfile_value p) path = Inr p"
proof (rule serverProfile.complete)
  obtain r path' where "normalizeServerConfigurationInput U (field r ''configuration'') path' =
      Inr (csr_configuration q)" "profileName (csr_name q)"
    using assms(1) by (auto simp: normalizeCreateServerProfileRequest_def contract_iff)
  then show "ServerProfile_ok U p"
    using assms(2-4) serverConfigurationInput.sound
    by (auto simp: ServerProfile_ok_def assms(5) timestampOk_def MAX_SAFE_INTEGER_def)
qed

lemma created_server_parsed_witness:
  "parseServerProfile demoUrl (ServerProfile_value
     \<lparr>sp_serverId = demoProxyId, sp_name = lit ''new'', sp_version = 1, sp_configuration = demoRemote,
      sp_credentialConfigured = False, sp_activeWindowCount = 0, sp_createdAtMs = 5, sp_updatedAtMs = 5,
      sp_lastUsedAtMs = None\<rparr>) (lit ''q'') =
   Inr \<lparr>sp_serverId = demoProxyId, sp_name = lit ''new'', sp_version = 1, sp_configuration = demoRemote,
      sp_credentialConfigured = False, sp_activeWindowCount = 0, sp_createdAtMs = 5, sp_updatedAtMs = 5,
      sp_lastUsedAtMs = None\<rparr>"
proof (rule created_server_parsed [OF demo_create])
  show "UUID_PATTERN demoProxyId" by code_simp
qed (simp_all add: versionOk_def timestampOk_def MAX_SAFE_INTEGER_def)

text \<open>Names: a name typed by the user is accepted if what is left of it without surrounding
  white space is a valid name, and that is what is kept; the result passes the strict check of the
  snapshot side, which accepts no surrounding white space.\<close>

theorem name_normalised:
  assumes "validateName v path False = Inr n"
  shows "n = js_trim v \<and> profileName n \<and> validateName n path' True = Inr n"
proof -
  from assms have n: "n = js_trim v" and ok: "profileName n" by (auto simp: validateName_eq_Inr)
  then show ?thesis by (metis profileName_def validateName_eq_Inr)
qed

lemma name_normalised_witness:
  "lit ''new'' = js_trim (lit '' new '') \<and> profileName (lit ''new'') \<and>
   validateName (lit ''new'') (lit ''q'') True = Inr (lit ''new'')"
proof (rule name_normalised)
  show "validateName (lit '' new '') (lit ''p'') False = Inr (lit ''new'')" by code_simp
qed

end
