(* ===== verification/JsonText.thy ===== *)
theory JsonText
  imports JsValue
begin

text \<open>
  What the event store takes from the standard library: \<open>JSON.stringify\<close> with a replacer and
  an indentation of two spaces, and \<open>atob\<close>.

  The text of a number that is not a safe integer is a parameter \<open>N\<close> of the functions; a
  function, a symbol and \<open>undefined\<close> have no JSON text.
\<close>

subsection \<open>Quoting\<close>

definition hexDigit :: "nat \<Rightarrow> code_unit" where
  "hexDigit n = (if n < 10 then of_nat (0x30 + n) else of_nat (0x57 + n))"

definition hex4 :: "code_unit \<Rightarrow> jstr" where
  "hex4 c = map (\<lambda>k. hexDigit (unat c div k mod 16)) [4096, 256, 16, 1]"

definition unicodeEscape :: "code_unit \<Rightarrow> jstr" where
  "unicodeEscape c = 0x5C # 0x75 # hex4 c"

definition shortEscapes :: "(code_unit \<times> code_unit) list" where
  "shortEscapes = [(0x08, 0x62), (0x09, 0x74), (0x0A, 0x6E), (0x0C, 0x66), (0x0D, 0x72),
     (0x22, 0x22), (0x5C, 0x5C)]"

definition escapeUnit :: "code_unit \<Rightarrow> jstr" where
  "escapeUnit c =
     (case map_of shortEscapes c of
        Some e \<Rightarrow> [0x5C, e]
      | None \<Rightarrow> if c < 0x20 \<or> cu_high_surrogate c \<or> cu_low_surrogate c then unicodeEscape c else [c])"

text \<open>A surrogate pair is copied, a lone surrogate is escaped.\<close>

fun quoteUnits :: "jstr \<Rightarrow> jstr" where
  "quoteUnits [] = []"
| "quoteUnits [c] = escapeUnit c"
| "quoteUnits (c # d # s) =
     (if cu_high_surrogate c \<and> cu_low_surrogate d then c # d # quoteUnits s
      else escapeUnit c @ quoteUnits (d # s))"

definition jsonQuote :: "jstr \<Rightarrow> jstr" where
  "jsonQuote s = 0x22 # quoteUnits s @ [0x22]"

fun joinWith :: "jstr \<Rightarrow> jstr list \<Rightarrow> jstr" where
  "joinWith sep [] = []"
| "joinWith sep [s] = s"
| "joinWith sep (s # t # ss) = s @ sep @ joinWith sep (t # ss)"

subsection \<open>Reading a quoted string\<close>

text \<open>The inverse, used to show that quoting loses nothing.\<close>

definition unhex :: "code_unit \<Rightarrow> nat" where
  "unhex c = (if c \<le> 0x39 then unat c - 0x30 else unat c - 0x57)"

definition unescape :: "code_unit \<Rightarrow> code_unit" where
  "unescape e = (case map_of (map prod.swap shortEscapes) e of Some c \<Rightarrow> c | None \<Rightarrow> e)"

fun unquote :: "jstr \<Rightarrow> (jstr \<times> jstr) option" where
  "unquote [] = None"
| "unquote (c # s) =
     (if c = 0x22 then Some ([], s)
      else if c = 0x5C then
        (case s of
           e # t \<Rightarrow>
             if e = 0x75 then
               (case t of
                  h3 # h2 # h1 # h0 # u \<Rightarrow>
                    map_option (apfst (Cons (of_nat (((unhex h3 * 16 + unhex h2) * 16 + unhex h1) * 16 + unhex h0))))
                      (unquote u)
                | _ \<Rightarrow> None)
             else map_option (apfst (Cons (unescape e))) (unquote t)
         | [] \<Rightarrow> None)
      else map_option (apfst (Cons c)) (unquote s))"

lemma unhex_hexDigit: "n < 16 \<Longrightarrow> unhex (hexDigit n) = n"
proof -
  assume "n < 16"
  then have "n \<in> set [0..<16]" by simp
  moreover have "\<forall>n \<in> set [0..<16]. unhex (hexDigit n) = n" by code_simp
  ultimately show ?thesis by blast
qed

lemma horner_step: "n div (k * 16) * 16 + n div k mod 16 = n div (k :: nat)"
  unfolding div_mult2_eq by (rule div_mult_mod_eq)

lemma hex4_value:
  "((unat c div 4096 mod 16 * 16 + unat c div 256 mod 16) * 16 + unat c div 16 mod 16) * 16
     + unat (c :: code_unit) div 1 mod 16 = unat c"
proof -
  have "unat c < 2 ^ LENGTH(16)" by (rule unsigned_less)
  then have "unat c div 4096 < 16" by (simp add: less_mult_imp_div_less)
  then have top: "unat c div 4096 mod 16 = unat c div 4096" by (rule mod_less)
  have steps: "unat c div 4096 * 16 + unat c div 256 mod 16 = unat c div 256"
    "unat c div 256 * 16 + unat c div 16 mod 16 = unat c div 16"
    "unat c div 16 * 16 + unat c div 1 mod 16 = unat c"
    using horner_step [of "unat c" 256] horner_step [of "unat c" 16] horner_step [of "unat c" 1]
    by simp_all
  show ?thesis unfolding top steps ..
qed

lemma unquote_escapeUnit:
  "unquote (escapeUnit c @ rest) = map_option (apfst (Cons c)) (unquote rest)"
proof (cases "map_of shortEscapes c")
  case (Some e)
  then have "(c, e) \<in> set shortEscapes" by (rule map_of_SomeD)
  then show ?thesis
    using Some by (auto simp: escapeUnit_def shortEscapes_def unescape_def)
next
  case None
  then have plain: "c \<noteq> 0x22" "c \<noteq> 0x5C" by (auto simp: shortEscapes_def)
  show ?thesis
  proof (cases "c < 0x20 \<or> cu_high_surrogate c \<or> cu_low_surrogate c")
    case True
    have "unquote (unicodeEscape c @ rest) = map_option (apfst (Cons (of_nat (unat c)))) (unquote rest)"
      unfolding unicodeEscape_def hex4_def
      by (simp add: unhex_hexDigit hex4_value [simplified] del: of_nat_add of_nat_mult of_nat_Suc)
    then show ?thesis using True None by (simp add: escapeUnit_def)
  next
    case False
    then show ?thesis using None plain by (simp add: escapeUnit_def)
  qed
qed

lemma surrogate_plain: "cu_high_surrogate c \<or> cu_low_surrogate c \<Longrightarrow> c \<noteq> 0x22 \<and> c \<noteq> 0x5C"
  by (auto simp: cu_high_surrogate_def cu_low_surrogate_def)

lemma unquote_quoteUnits: "unquote (quoteUnits s @ 0x22 # rest) = Some (s, rest)"
proof (induction s rule: quoteUnits.induct)
  case (2 c)
  show ?case using unquote_escapeUnit [of c "0x22 # rest"] by simp
next
  case (3 c d s)
  show ?case
  proof (cases "cu_high_surrogate c \<and> cu_low_surrogate d")
    case True
    then show ?thesis using 3 surrogate_plain [of c] surrogate_plain [of d] by simp
  next
    case False
    then show ?thesis using 3(2) by (auto simp: unquote_escapeUnit)
  qed
qed simp

lemma jsonQuote_inject:
  assumes "jsonQuote s @ rest = jsonQuote s' @ rest'"
  shows "s = s' \<and> rest = rest'"
proof -
  have "quoteUnits s @ 0x22 # rest = quoteUnits s' @ 0x22 # rest'"
    using assms by (simp add: jsonQuote_def)
  then have "Some (s, rest) = Some (s', rest')"
    unfolding unquote_quoteUnits [symmetric] by simp
  then show ?thesis by simp
qed

subsection \<open>Keys of the event store\<close>

text \<open>\<open>JSON.stringify(parts)\<close> for an array of strings.\<close>

definition keyOf :: "jstr list \<Rightarrow> jstr" where
  "keyOf parts = 0x5B # joinWith [0x2C] (map jsonQuote parts) @ [0x5D]"

lemma joinWith_quotes_inject:
  "joinWith [0x2C] (map jsonQuote ps) @ [0x5D] = joinWith [0x2C] (map jsonQuote qs) @ [0x5D] \<Longrightarrow> ps = qs"
proof (induction ps arbitrary: qs)
  case Nil
  then show ?case by (cases qs rule: remdups_adj.cases) (auto simp: jsonQuote_def)
next
  case (Cons p ps)
  obtain q qs' where qs: "qs = q # qs'"
    using Cons.prems by (cases qs) (cases ps; auto simp: jsonQuote_def)+
  have split: "joinWith [0x2C] (map jsonQuote (r # rs)) @ [0x5D] =
      jsonQuote r @ (if rs = [] then [0x5D] else 0x2C # joinWith [0x2C] (map jsonQuote rs) @ [0x5D])" for r rs
    by (cases rs) simp_all
  from Cons.prems have eq: "p = q" and
    rest: "(if ps = [] then [0x5D] else (0x2C::code_unit) # joinWith [0x2C] (map jsonQuote ps) @ [0x5D]) =
      (if qs' = [] then [0x5D] else 0x2C # joinWith [0x2C] (map jsonQuote qs') @ [0x5D])"
    unfolding qs split using jsonQuote_inject by blast+
  have "ps = qs'"
    using rest Cons.IH [of qs'] by (auto split: if_splits)
  with eq qs show ?case by simp
qed

lemma keyOf_inject [simp]: "keyOf ps = keyOf qs \<longleftrightarrow> ps = qs"
  using joinWith_quotes_inject by (auto simp: keyOf_def)

subsection \<open>JSON.stringify\<close>

text \<open>The value of an array slot; a hole reads as \<open>undefined\<close>.\<close>

definition slotValue :: "jsval option \<Rightarrow> jsval" where
  "slotValue slot = (case slot of None \<Rightarrow> JUndef | Some v \<Rightarrow> v)"

definition numberText :: "(jsval \<Rightarrow> jstr) \<Rightarrow> jsval \<Rightarrow> jstr" where
  "numberText N v =
     (case v of
        JInt i \<Rightarrow> if isSafeInt i then (if i < 0 then 0x2D # decDigits (nat (- i)) else decDigits (nat i)) else N v
      | _ \<Rightarrow> N v)"

definition newline :: "jstr \<Rightarrow> jstr" where
  "newline indent = 0x0A # indent"

text \<open>The text between brackets, one part per line.\<close>

definition bracketed :: "code_unit \<Rightarrow> code_unit \<Rightarrow> jstr \<Rightarrow> jstr \<Rightarrow> jstr list \<Rightarrow> jstr" where
  "bracketed opening closing indent inner parts =
     (if parts = [] then [opening, closing]
      else opening # newline inner @ joinWith (0x2C # newline inner) parts @ newline indent @ [closing])"

lemma size_slot: "Some v \<in> set xs \<Longrightarrow> size v < Suc (size_list (size_option size) xs)"
  by (induction xs) auto

lemma size_property: "(k, v) \<in> set ps \<Longrightarrow> size v < Suc (size_list (size_prod (\<lambda>_. 0) size) ps)"
  by (induction ps) auto

function jsonText :: "(jsval \<Rightarrow> jstr) \<Rightarrow> jstr \<Rightarrow> jsval \<Rightarrow> jstr option" where
  "jsonText N indent v =
     (case v of
        JUndef \<Rightarrow> None
      | JOther _ \<Rightarrow> None
      | JNull \<Rightarrow> Some (lit ''null'')
      | JBool b \<Rightarrow> Some (if b then lit ''true'' else lit ''false'')
      | JInt _ \<Rightarrow> Some (numberText N v)
      | JFloat _ \<Rightarrow> Some (numberText N v)
      | JStr s \<Rightarrow> Some (jsonQuote s)
      | JArr xs \<Rightarrow>
          Some (bracketed 0x5B 0x5D indent (indent @ [0x20, 0x20])
            (map (\<lambda>slot. case slot of
                None \<Rightarrow> lit ''null''
              | Some x \<Rightarrow> (case jsonText N (indent @ [0x20, 0x20]) x of None \<Rightarrow> lit ''null'' | Some t \<Rightarrow> t)) xs))
      | JObj ps \<Rightarrow>
          Some (bracketed 0x7B 0x7D indent (indent @ [0x20, 0x20])
            (concat (map (\<lambda>(k, x). case k of
                KSym _ \<Rightarrow> []
              | KStr name \<Rightarrow>
                  (case jsonText N (indent @ [0x20, 0x20]) x of
                     None \<Rightarrow> []
                   | Some t \<Rightarrow> [jsonQuote name @ lit '': '' @ t])) ps))))"
  by pat_completeness auto
termination by (relation "measure (\<lambda>(N, indent, v). size v)") (auto simp: size_slot size_property)

declare jsonText.simps [simp del]

subsection \<open>atob\<close>

definition base64Value :: "code_unit \<Rightarrow> nat option" where
  "base64Value c =
     (if cu_upper c then Some (unat c - 0x41)
      else if cu_lower c then Some (unat c - 0x61 + 26)
      else if cu_digit c then Some (unat c - 0x30 + 52)
      else if c = 0x2B then Some 62 else if c = 0x2F then Some 63 else None)"

definition base64Space :: "code_unit \<Rightarrow> bool" where
  "base64Space c \<longleftrightarrow> c \<in> {0x09, 0x0A, 0x0C, 0x0D, 0x20}"

text \<open>White space is dropped, then at most two padding characters of a text of whole groups.\<close>

definition stripPadding :: "jstr \<Rightarrow> jstr" where
  "stripPadding s =
     (if length s mod 4 \<noteq> 0 then s
      else if suffix [0x3D, 0x3D] s then take (length s - 2) s
      else if suffix [0x3D] s then take (length s - 1) s else s)"

fun base64Groups :: "nat list \<Rightarrow> 8 word list" where
  "base64Groups (a # b # c # d # s) =
     of_nat (a * 4 + b div 16) # of_nat (b mod 16 * 16 + c div 4) # of_nat (c mod 4 * 64 + d) # base64Groups s"
| "base64Groups [a, b, c] = [of_nat (a * 4 + b div 16), of_nat (b mod 16 * 16 + c div 4)]"
| "base64Groups [a, b] = [of_nat (a * 4 + b div 16)]"
| "base64Groups _ = []"

definition base64Decode :: "jstr \<Rightarrow> 8 word list option" where
  "base64Decode text =
     (let s = stripPadding (filter (\<lambda>c. \<not> base64Space c) text) in
      if length s mod 4 = 1 \<or> list_ex (\<lambda>c. base64Value c = None) s then None
      else Some (base64Groups (map (\<lambda>c. the (base64Value c)) s)))"

end
