(* ===== verification/EventModel.thy ===== *)
theory EventModel
  imports JsonText
begin

text \<open>
  The data of the event store, the head of \<open>src/appServer/serverEventState.ts\<close>: limits,
  records, the snapshot, and the functions on objects that are used as maps.

  An object used as a map is the list of its entries in the order of enumeration: keys that are
  array indices first, in numeric order, then the others in the order of insertion. The names of
  \<open>Object.prototype\<close> are not used as keys. A payload field that the store only keeps is an
  untyped value.
\<close>

type_synonym 'a entries = "(jstr \<times> 'a) list"

definition LIMIT_RECORDS :: nat where [simp]: "LIMIT_RECORDS = 200"
definition LIMIT_ENTITIES :: nat where [simp]: "LIMIT_ENTITIES = 100"
definition LIMIT_TEXT :: nat where [simp]: "LIMIT_TEXT = 32768"
definition LIMIT_DETAILS :: nat where [simp]: "LIMIT_DETAILS = 8192"
definition LIMIT_AUDIO_BYTES :: nat where [simp]: "LIMIT_AUDIO_BYTES = 1048576"

definition clipped :: "nat \<Rightarrow> jstr \<Rightarrow> jstr" where
  "clipped limit s = takeLast limit s"

subsection \<open>Objects as maps\<close>

definition arrayIndex :: "jstr \<Rightarrow> nat option" where
  "arrayIndex k =
     (if k \<noteq> [] \<and> list_all cu_digit k \<and> (k = [0x30] \<or> hd k \<noteq> 0x30) \<and> decValue k < 4294967295
      then Some (decValue k) else None)"

definition enumerated :: "'a entries \<Rightarrow> 'a entries" where
  "enumerated m =
     sort_key (\<lambda>e. the (arrayIndex (fst e))) (filter (\<lambda>e. arrayIndex (fst e) \<noteq> None) m) @
     filter (\<lambda>e. arrayIndex (fst e) = None) m"

fun setEntry :: "'a entries \<Rightarrow> jstr \<Rightarrow> 'a \<Rightarrow> 'a entries" where
  "setEntry [] k v = [(k, v)]"
| "setEntry ((k', v') # m) k v = (if k' = k then (k, v) # m else (k', v') # setEntry m k v)"

definition fromEntries :: "(jstr \<times> 'a) list \<Rightarrow> 'a entries" where
  "fromEntries es = enumerated (foldl (\<lambda>m (k, v). setEntry m k v) [] es)"

definition put :: "'a entries \<Rightarrow> jstr \<Rightarrow> 'a \<Rightarrow> 'a entries" where
  "put entries key v =
     fromEntries (takeLast LIMIT_ENTITIES (filter (\<lambda>e. fst e \<noteq> key) entries @ [(key, v)]))"

definition omit :: "'a entries \<Rightarrow> jstr \<Rightarrow> 'a entries" where
  "omit entries key = fromEntries (filter (\<lambda>e. fst e \<noteq> key) entries)"

definition versionEntry :: "nat entries \<Rightarrow> jstr \<Rightarrow> nat \<Rightarrow> nat entries" where
  "versionEntry entries key version = enumerated (setEntry entries key version)"

definition mapValues :: "('a \<Rightarrow> 'a) \<Rightarrow> 'a entries \<Rightarrow> 'a entries" where
  "mapValues f entries = fromEntries (map (\<lambda>(k, v). (k, f v)) entries)"

text \<open>The expression \<open>entries[key] ?? 0\<close>, and \<open>[...new Set(xs)]\<close>.\<close>

definition versionOf :: "nat entries \<Rightarrow> jstr \<Rightarrow> nat" where
  "versionOf entries key = (case map_of entries key of None \<Rightarrow> 0 | Some n \<Rightarrow> n)"

definition distinctInOrder :: "'a list \<Rightarrow> 'a list" where
  "distinctInOrder xs = rev (remdups (rev xs))"

subsection \<open>Records\<close>

datatype ServerEventStatus = Running | Completed | Failed | Warned | Unknown | Informed

record ServerEventRecord =
  er_id :: jstr
  er_method :: string
  er_title :: jstr
  er_detail :: jstr
  er_status :: ServerEventStatus
  er_threadId :: "jstr option"
  er_turnId :: "jstr option"
  er_text :: "jstr option"
  er_terminalInput :: "(jstr \<times> jstr) option"
  er_params :: "jstr option"
  er_truncated :: bool

datatype QueueInputPreview =
    PreviewText jstr
  | PreviewFile jstr jstr          \<comment> \<open>kind and path\<close>
  | PreviewNamed jstr jstr jstr    \<comment> \<open>kind, name and path\<close>
  | PreviewMedia jstr              \<comment> \<open>kind\<close>

record QueuedSubmissionSummary =
  qs_id :: jstr
  qs_clientUserMessageId :: jsval
  qs_input :: jsval
  qs_text :: jstr
  qs_inputs :: "QueueInputPreview list"
  qs_truncated :: bool

datatype RefreshStatus = RefreshPending | RefreshReady | RefreshError | RefreshUnknown

record ServerQueueState =
  sq_version :: nat
  sq_status :: RefreshStatus
  sq_entries :: "QueuedSubmissionSummary list"
  sq_error :: "jstr option"

datatype ProcessKind = CommandProcess | SpawnedProcess

record ServerProcessState =
  ps_id :: jstr
  ps_kind :: ProcessKind
  ps_status :: ServerEventStatus
  ps_stdout :: jstr
  ps_stderr :: jstr
  ps_stdoutTruncated :: bool
  ps_stderrTruncated :: bool
  ps_exitCode :: "int option"

record RealtimeTranscript =
  tr_role :: jstr
  tr_text :: jstr
  tr_completed :: bool
  tr_truncated :: bool

record ServerRealtimeState =
  rs_status :: ServerEventStatus
  rs_sessionId :: jsval
  rs_version :: jsval
  rs_transcripts :: "RealtimeTranscript list"
  rs_audioChunks :: nat
  rs_audioBytes :: nat
  rs_audioTruncated :: bool
  rs_chunks :: "jsrecord list"
  rs_latestAudio :: "jsrecord option"
  rs_sdp :: "jstr option"

definition emptyRealtime :: ServerRealtimeState where
  "emptyRealtime = \<lparr>rs_status = Running, rs_sessionId = JUndef, rs_version = JUndef, rs_transcripts = [],
     rs_audioChunks = 0, rs_audioBytes = 0, rs_audioTruncated = False, rs_chunks = [],
     rs_latestAudio = None, rs_sdp = None\<rparr>"

subsection \<open>The snapshot\<close>

record token_usage =
  tu_params :: jsrecord
  tu_stale :: bool

record goal_state =
  gs_goal :: jsval
  gs_stale :: bool

record turn_diff =
  td_threadId :: jstr
  td_turnId :: jstr
  td_diff :: jstr
  td_truncated :: bool
  td_stale :: bool

datatype environment_status = EnvironmentConnected | EnvironmentDisconnected | EnvironmentUnknown

record projects_snapshot =
  pj_version :: nat
  pj_status :: RefreshStatus
  pj_entries :: "jsval list"
  pj_truncated :: bool
  pj_error :: "jstr option"

record remote_control =
  rc_params :: jsrecord
  rc_stale :: bool

record watch_state =
  fw_version :: nat
  fw_changedPaths :: "jstr list"
  fw_truncated :: bool

record search_state =
  se_query :: jstr
  se_files :: "jsval list"
  se_status :: ServerEventStatus
  se_truncated :: bool

record import_state =
  im_results :: "jsrecord list"
  im_status :: ServerEventStatus

record ServerEventSnapshot =
  ev_connected :: bool
  ev_deletedThreadIds :: "jstr list"
  ev_records :: "ServerEventRecord list"
  ev_droppedRecords :: nat
  ev_tokenUsageByThread :: "token_usage entries"
  ev_goalsByThread :: "goal_state entries"
  ev_goalVersionsByThread :: "nat entries"
  ev_diffsByTurn :: "turn_diff entries"
  ev_queueVersionsByThread :: "nat entries"
  ev_queuesByThread :: "ServerQueueState entries"
  ev_skillsVersion :: nat
  ev_appVersion :: nat
  ev_projectVersion :: nat
  ev_projectsSnapshot :: projects_snapshot
  ev_mcpVersion :: nat
  ev_projectChangesById :: "jsrecord entries"
  ev_projectsByThread :: "jstr option entries"
  ev_environmentsByThread :: "(jstr \<times> environment_status) entries"
  ev_remoteControl :: "remote_control option"
  ev_fsVersionsByWatch :: "watch_state entries"
  ev_searches :: "search_state entries"
  ev_imports :: "import_state entries"
  ev_processes :: "ServerProcessState entries"
  ev_realtimeByThread :: "ServerRealtimeState entries"

definition initialSnapshot :: ServerEventSnapshot where
  "initialSnapshot = \<lparr>ev_connected = True, ev_deletedThreadIds = [], ev_records = [],
     ev_droppedRecords = 0, ev_tokenUsageByThread = [], ev_goalsByThread = [],
     ev_goalVersionsByThread = [], ev_diffsByTurn = [], ev_queueVersionsByThread = [],
     ev_queuesByThread = [], ev_skillsVersion = 0, ev_appVersion = 0, ev_projectVersion = 0,
     ev_projectsSnapshot = \<lparr>pj_version = 0, pj_status = RefreshPending, pj_entries = [],
       pj_truncated = False, pj_error = None\<rparr>,
     ev_mcpVersion = 0, ev_projectChangesById = [], ev_projectsByThread = [],
     ev_environmentsByThread = [], ev_remoteControl = None, ev_fsVersionsByWatch = [],
     ev_searches = [], ev_imports = [], ev_processes = [], ev_realtimeByThread = []\<rparr>"

subsection \<open>Laws of the maps\<close>

named_theorems entry_simps \<open>lookups and sizes of objects used as maps\<close>

abbreviation keys :: "'a entries \<Rightarrow> jstr list" where
  "keys m \<equiv> map fst m"

lemma mset_enumerated [simp]: "mset (enumerated m) = mset m"
  by (induction m) (auto simp: enumerated_def)

lemma enumerated_simps [entry_simps]:
  "length (enumerated m) = length m" "set (enumerated m) = set m"
  "distinct (keys (enumerated m)) = distinct (keys m)"
proof -
  show "length (enumerated m) = length m" "set (enumerated m) = set m"
    by (metis mset_enumerated size_mset) (metis mset_enumerated set_mset_mset)
  have "mset (keys (enumerated m)) = mset (keys m)" by simp
  then show "distinct (keys (enumerated m)) = distinct (keys m)" by (rule mset_eq_imp_distinct_iff)
qed

lemma map_of_same_set:
  assumes "set m = set m'" and "distinct (keys m)" and "distinct (keys m')"
  shows "map_of m = map_of m'"
proof
  fix k
  have "map_of m k = Some v \<longleftrightarrow> map_of m' k = Some v" for v
    using assms by (simp add: map_of_eq_Some_iff)
  then show "map_of m k = map_of m' k" by (metis not_None_eq)
qed

lemma map_of_enumerated [entry_simps]:
  "distinct (keys m) \<Longrightarrow> map_of (enumerated m) = map_of m"
  by (rule map_of_same_set) (simp_all add: enumerated_simps)

lemma setEntry_new: "k \<notin> set (keys m) \<Longrightarrow> setEntry m k v = m @ [(k, v)]"
  by (induction m k v rule: setEntry.induct) auto

lemma setEntry_simps [entry_simps]:
  "set (keys (setEntry m k v)) = insert k (set (keys m))"
  "map_of (setEntry m k v) = (map_of m)(k \<mapsto> v)"
proof -
  show ks: "set (keys (setEntry m k v)) = insert k (set (keys m))"
    by (induction m k v rule: setEntry.induct) auto
  show "map_of (setEntry m k v) = (map_of m)(k \<mapsto> v)"
    by (induction m k v rule: setEntry.induct) (auto simp: fun_upd_twist)
qed

lemma fromEntries_distinct: "distinct (keys es) \<Longrightarrow> fromEntries es = enumerated es"
proof -
  have "foldl (\<lambda>m (k, v). setEntry m k v) acc es = acc @ es" if "distinct (keys (acc @ es))" for acc
    using that
  proof (induction es arbitrary: acc)
    case (Cons e es)
    then show ?case using Cons.IH [of "acc @ [e]"] by (cases e) (auto simp: setEntry_new)
  qed simp
  from this [of "[]"] show "distinct (keys es) \<Longrightarrow> fromEntries es = enumerated es"
    by (simp add: fromEntries_def)
qed

text \<open>A map keeps its keys distinct; a bounded map also has at most the allowed number of entries.\<close>

definition bounded :: "'a entries \<Rightarrow> bool" where
  "bounded m \<longleftrightarrow> distinct (keys m) \<and> length m \<le> LIMIT_ENTITIES"

definition putList :: "'a entries \<Rightarrow> jstr \<Rightarrow> 'a \<Rightarrow> 'a entries" where
  "putList m k v = takeLast LIMIT_ENTITIES (filter (\<lambda>e. fst e \<noteq> k) m @ [(k, v)])"

lemma putList_distinct: "distinct (keys m) \<Longrightarrow> distinct (keys (putList m k v))"
  unfolding putList_def by (rule distinct_map_takeLast) (auto simp: distinct_map_filter)

lemma put_enumerated: "distinct (keys m) \<Longrightarrow> put m k v = enumerated (putList m k v)"
  using fromEntries_distinct [OF putList_distinct] by (simp add: put_def putList_def)

lemma put_bounded: "distinct (keys m) \<Longrightarrow> bounded (put m k v)"
  by (simp add: bounded_def put_enumerated entry_simps putList_distinct) (simp add: putList_def)

lemma set_put: "distinct (keys m) \<Longrightarrow> set (put m k v) \<subseteq> insert (k, v) (set m)"
  using set_takeLast [of LIMIT_ENTITIES "filter (\<lambda>e. fst e \<noteq> k) m @ [(k, v)]"]
  by (auto simp: put_enumerated entry_simps putList_def)

lemma put_mem: "distinct (keys m) \<Longrightarrow> (k, v) \<in> set (put m k v)"
  by (simp add: put_enumerated entry_simps putList_def)

lemma lookup_put: "distinct (keys m) \<Longrightarrow> map_of (put m k v) k = Some v"
  using put_bounded [of m k v] put_mem [of m k v] by (simp add: bounded_def map_of_eq_Some_iff)

lemma lookup_put_other:
  assumes "distinct (keys m)" and "k' \<noteq> k"
  shows "map_of (put m k v) k' = None \<or> map_of (put m k v) k' = map_of m k'"
proof (cases "map_of (put m k v) k'")
  case (Some w)
  then have "(k', w) \<in> set (put m k v)" by (rule map_of_SomeD)
  with set_put [OF assms(1)] assms(2) have "(k', w) \<in> set m" by blast
  then show ?thesis using assms(1) Some by (simp add: map_of_eq_Some_iff)
qed simp

lemma lookup_put_space:
  assumes "distinct (keys m)" and "length m < LIMIT_ENTITIES"
  shows "map_of (put m k v) = (map_of m)(k \<mapsto> v)"
proof -
  have "length (filter (\<lambda>e. fst e \<noteq> k) m) < 100"
    by (rule le_less_trans [OF length_filter_le]) (use assms(2) in simp)
  then have all: "putList m k v = filter (\<lambda>e. fst e \<noteq> k) m @ [(k, v)]"
    unfolding putList_def by (intro takeLast_id) simp
  have "map_of (filter (\<lambda>e. fst e \<noteq> k) m @ [(k, v)]) k' = ((map_of m)(k \<mapsto> v)) k'" for k'
    using assms(1) by (induction m) (auto simp: map_add_def)
  then show ?thesis
    using putList_distinct [OF assms(1), of k v] assms(1) all
    by (simp add: put_enumerated entry_simps) auto
qed

lemma omit_enumerated: "distinct (keys m) \<Longrightarrow> omit m k = enumerated (filter (\<lambda>e. fst e \<noteq> k) m)"
  unfolding omit_def by (rule fromEntries_distinct) (simp add: distinct_map_filter)

lemma omit_simps:
  assumes "distinct (keys m)"
  shows "distinct (keys (omit m k))" and "length (omit m k) \<le> length m"
    and "set (omit m k) = {e \<in> set m. fst e \<noteq> k}"
    and "map_of (omit m k) k' = (if k' = k then None else map_of m k')"
proof -
  have d: "distinct (keys (filter (\<lambda>e. fst e \<noteq> k) m))" using assms by (simp add: distinct_map_filter)
  show "distinct (keys (omit m k))" "length (omit m k) \<le> length m"
    "set (omit m k) = {e \<in> set m. fst e \<noteq> k}"
    using assms d by (auto simp: omit_enumerated entry_simps)
  have "map_of (filter (\<lambda>e. fst e \<noteq> k) m) k' = (if k' = k then None else map_of m k')"
    by (induction m) auto
  then show "map_of (omit m k) k' = (if k' = k then None else map_of m k')"
    using assms d by (simp add: omit_enumerated entry_simps)
qed

lemma mapValues_simps:
  assumes "distinct (keys m)"
  shows "distinct (keys (mapValues f m))" and "length (mapValues f m) = length m"
    and "set (mapValues f m) = (\<lambda>(k, v). (k, f v)) ` set m"
    and "map_of (mapValues f m) k = map_option f (map_of m k)"
proof -
  let ?m = "map (\<lambda>(k, v). (k, f v)) m"
  have ks: "keys ?m = keys m" by (induction m) auto
  then have d: "distinct (keys ?m)" using assms by (simp only:)
  have e: "mapValues f m = enumerated ?m"
    unfolding mapValues_def by (rule fromEntries_distinct [OF d])
  show "distinct (keys (mapValues f m))" unfolding e enumerated_simps by (rule d)
  show "length (mapValues f m) = length m" "set (mapValues f m) = (\<lambda>(k, v). (k, f v)) ` set m"
    by (simp_all add: e entry_simps)
  show "map_of (mapValues f m) k = map_option f (map_of m k)"
    unfolding e map_of_enumerated [OF d] by (simp add: map_of_map)
qed

lemma setEntry_distinct: "distinct (keys m) \<Longrightarrow> distinct (keys (setEntry m k v))"
  by (induction m k v rule: setEntry.induct) (auto simp: entry_simps simp flip: set_map)

lemma versionEntry_simps:
  assumes "distinct (keys m)"
  shows "distinct (keys (versionEntry m k n))"
    and "versionOf (versionEntry m k n) k' = (if k' = k then n else versionOf m k')"
  using assms
  by (simp_all add: versionEntry_def versionOf_def entry_simps setEntry_distinct)

lemma versionOf_mapValues:
  "distinct (keys m) \<Longrightarrow> versionOf (mapValues f m) k = (case map_of m k of None \<Rightarrow> 0 | Some n \<Rightarrow> f n)"
  by (simp add: versionOf_def mapValues_simps split: option.split)

lemma distinctInOrder_simps [simp]:
  "distinct (distinctInOrder xs)" "set (distinctInOrder xs) = set xs"
  by (simp_all add: distinctInOrder_def)

end
