(* ===== verification/EventText.thy ===== *)
theory EventText
  imports JsonText
begin

text \<open>
  The literals of \<open>src/appServer/serverEventState.ts\<close> and \<open>serverEventSync.ts\<close> that are not
  ASCII, as lists of UTF-16 code units. The names say in English what the text says.
\<close>

definition zh_hidden :: jstr where
  "zh_hidden = [0x005B, 0x5DF2, 0x9690, 0x85CF, 0x005D]"

definition zh_subscriptionClosed :: jstr where
  "zh_subscriptionClosed = [0x4F1A, 0x8BDD, 0x8BA2, 0x9605, 0x5DF2, 0x5173, 0x95ED]"

definition zh_turnEnded :: jstr where
  "zh_turnEnded = [0x56DE, 0x5408, 0x5DF2, 0x7ED3, 0x675F]"

definition zh_noFinalState :: jstr where
  "zh_noFinalState = [0xFF0C, 0x672A, 0x6536, 0x5230, 0x8BE5, 0x6D3B, 0x52A8, 0x7684, 0x6700, 0x7EC8, 0x72B6,
     0x6001]"

definition zh_commandTitle :: jstr where
  "zh_commandTitle = [0x547D, 0x4EE4]"

definition zh_processTitle :: jstr where
  "zh_processTitle = [0x8FDB, 0x7A0B]"

definition zh_separator :: jstr where
  "zh_separator = [0x0020, 0x00B7, 0x0020]"

definition zh_receivingOutput :: jstr where
  "zh_receivingOutput = [0x8F93, 0x51FA, 0x6D41, 0x6B63, 0x5728, 0x63A5, 0x6536]"

definition zh_exitCode :: jstr where
  "zh_exitCode = [0x9000, 0x51FA, 0x7801, 0x0020]"

definition zh_turnDiffTitle :: jstr where
  "zh_turnDiffTitle = [0x6574, 0x8F6E, 0x6587, 0x4EF6, 0x53D8, 0x66F4]"

definition zh_latestTurnDiff :: jstr where
  "zh_latestTurnDiff = [0x672C, 0x56DE, 0x5408, 0x6700, 0x65B0, 0x6C47, 0x603B, 0x5DEE, 0x5F02]"

definition zh_threadGoal :: jstr where
  "zh_threadGoal = [0x4F1A, 0x8BDD, 0x76EE, 0x6807]"

definition zh_goalCleared :: jstr where
  "zh_goalCleared = [0x4F1A, 0x8BDD, 0x76EE, 0x6807, 0x5DF2, 0x6E05, 0x9664]"

definition zh_serverRemovedGoal :: jstr where
  "zh_serverRemovedGoal = [0x670D, 0x52A1, 0x5668, 0x5DF2, 0x79FB, 0x9664, 0x5F53, 0x524D, 0x76EE, 0x6807]"

definition zh_queueChanged :: jstr where
  "zh_queueChanged = [0x8F93, 0x5165, 0x961F, 0x5217, 0x53D8, 0x5316]"

definition zh_refreshingQueue :: jstr where
  "zh_refreshingQueue = [0x6B63, 0x5728, 0x5237, 0x65B0, 0x670D, 0x52A1, 0x5668, 0x961F, 0x5217]"

definition zh_projectChanged :: jstr where
  "zh_projectChanged = [0x9879, 0x76EE, 0x53D8, 0x5316]"

definition zh_threadProjectUpdated :: jstr where
  "zh_threadProjectUpdated = [0x4F1A, 0x8BDD, 0x9879, 0x76EE, 0x66F4, 0x65B0]"

definition zh_projectDetached :: jstr where
  "zh_projectDetached = [0x5DF2, 0x89E3, 0x9664, 0x9879, 0x76EE, 0x5173, 0x8054]"

definition zh_environmentConnected :: jstr where
  "zh_environmentConnected = [0x6267, 0x884C, 0x73AF, 0x5883, 0x5DF2, 0x8FDE, 0x63A5]"

definition zh_environmentDisconnected :: jstr where
  "zh_environmentDisconnected = [0x6267, 0x884C, 0x73AF, 0x5883, 0x5DF2, 0x65AD, 0x5F00]"

definition zh_remoteControl :: jstr where
  "zh_remoteControl = [0x8FDC, 0x7A0B, 0x63A7, 0x5236]"

definition zh_hookPrefix :: jstr where
  "zh_hookPrefix = [0x0048, 0x006F, 0x006F, 0x006B, 0x0020, 0x00B7, 0x0020]"

definition zh_autoApproval :: jstr where
  "zh_autoApproval = [0x81EA, 0x52A8, 0x5BA1, 0x6279, 0x0020, 0x00B7, 0x0020]"

definition zh_strictReviewRequired :: jstr where
  "zh_strictReviewRequired = [0x9700, 0x8981, 0x4E25, 0x683C, 0x5BA1, 0x67E5]"

definition zh_turnNeedsStrictReview :: jstr where
  "zh_turnNeedsStrictReview = [0x672C, 0x56DE, 0x5408, 0x8981, 0x6C42, 0x66F4, 0x4E25, 0x683C, 0x7684, 0x81EA, 0x52A8,
     0x5BA1, 0x6279, 0x5BA1, 0x67E5]"

definition zh_mcpToolProgress :: jstr where
  "zh_mcpToolProgress = [0x004D, 0x0043, 0x0050, 0x0020, 0x5DE5, 0x5177, 0x8FDB, 0x5EA6]"

definition zh_mcpPrefix :: jstr where
  "zh_mcpPrefix = [0x004D, 0x0043, 0x0050, 0x0020, 0x00B7, 0x0020]"

definition zh_mcpAuthentication :: jstr where
  "zh_mcpAuthentication = [0x004D, 0x0043, 0x0050, 0x0020, 0x8BA4, 0x8BC1, 0x0020, 0x00B7, 0x0020]"

definition zh_authenticated :: jstr where
  "zh_authenticated = [0x8BA4, 0x8BC1, 0x6210, 0x529F]"

definition zh_authenticationFailed :: jstr where
  "zh_authenticationFailed = [0x8BA4, 0x8BC1, 0x5931, 0x8D25]"

definition zh_mcpSubscriptionEvent :: jstr where
  "zh_mcpSubscriptionEvent = [0x004D, 0x0043, 0x0050, 0x0020, 0x8BA2, 0x9605, 0x4E8B, 0x4EF6]"

definition zh_retrying :: jstr where
  "zh_retrying = [0x6B63, 0x5728, 0x91CD, 0x8BD5]"

definition zh_turnError :: jstr where
  "zh_turnError = [0x56DE, 0x5408, 0x9519, 0x8BEF]"

definition zh_serverWarning :: jstr where
  "zh_serverWarning = [0x670D, 0x52A1, 0x5668, 0x544A, 0x8B66]"

definition zh_approvalWarning :: jstr where
  "zh_approvalWarning = [0x5BA1, 0x6279, 0x544A, 0x8B66]"

definition zh_configWarning :: jstr where
  "zh_configWarning = [0x914D, 0x7F6E, 0x544A, 0x8B66]"

definition zh_deprecation :: jstr where
  "zh_deprecation = [0x5F03, 0x7528, 0x63D0, 0x9192]"

definition zh_modelSwitched :: jstr where
  "zh_modelSwitched = [0x6A21, 0x578B, 0x5DF2, 0x5207, 0x6362]"

definition zh_arrow :: jstr where
  "zh_arrow = [0x0020, 0x2192, 0x0020]"

definition zh_safetyBuffering :: jstr where
  "zh_safetyBuffering = [0x6A21, 0x578B, 0x5B89, 0x5168, 0x7F13, 0x51B2]"

definition zh_buffering :: jstr where
  "zh_buffering = [0x6B63, 0x5728, 0x7F13, 0x51B2]"

definition zh_bufferingEnded :: jstr where
  "zh_bufferingEnded = [0x7F13, 0x51B2, 0x7ED3, 0x675F]"

definition zh_enumerationComma :: jstr where
  "zh_enumerationComma = [0x3001]"

definition zh_modelVerification :: jstr where
  "zh_modelVerification = [0x6A21, 0x578B, 0x9A8C, 0x8BC1]"

definition zh_verificationResults :: jstr where
  "zh_verificationResults = [0x0020, 0x9879, 0x9A8C, 0x8BC1, 0x7ED3, 0x679C]"

definition zh_modelAuthRecovery :: jstr where
  "zh_modelAuthRecovery = [0x6A21, 0x578B, 0x8BA4, 0x8BC1, 0x6062, 0x590D, 0x0020, 0x00B7, 0x0020]"

definition zh_turnModeration :: jstr where
  "zh_turnModeration = [0x56DE, 0x5408, 0x5BA1, 0x6838, 0x4FE1, 0x606F]"

definition zh_moderationMetadata :: jstr where
  "zh_moderationMetadata = [0x670D, 0x52A1, 0x5668, 0x63D0, 0x4F9B, 0x4E86, 0x5BA1, 0x6838, 0x5143, 0x6570, 0x636E]"

definition zh_terminalInput :: jstr where
  "zh_terminalInput = [0x7EC8, 0x7AEF, 0x8F93, 0x5165]"

definition zh_processPrefix :: jstr where
  "zh_processPrefix = [0x8FDB, 0x7A0B, 0x0020]"

definition zh_patchOutput :: jstr where
  "zh_patchOutput = [0x8865, 0x4E01, 0x8F93, 0x51FA]"

definition zh_deprecatedPatchStream :: jstr where
  "zh_deprecatedPatchStream = [0x5DF2, 0x5F03, 0x7528, 0x7684, 0x8865, 0x4E01, 0x6587, 0x672C, 0x6D41]"

definition zh_fileSearch :: jstr where
  "zh_fileSearch = [0x6587, 0x4EF6, 0x641C, 0x7D22]"

definition zh_resultCount :: jstr where
  "zh_resultCount = [0x0020, 0x4E2A, 0x7ED3, 0x679C]"

definition zh_importConfiguration :: jstr where
  "zh_importConfiguration = [0x5BFC, 0x5165, 0x5916, 0x90E8, 0x914D, 0x7F6E]"

definition zh_succeededCount :: jstr where
  "zh_succeededCount = [0x0020, 0x9879, 0x6210, 0x529F, 0x0020, 0x00B7, 0x0020]"

definition zh_failedCount :: jstr where
  "zh_failedCount = [0x0020, 0x9879, 0x5931, 0x8D25]"

definition zh_watchChanged :: jstr where
  "zh_watchChanged = [0x6587, 0x4EF6, 0x76D1, 0x542C, 0x53D8, 0x5316]"

definition zh_watchPrefix :: jstr where
  "zh_watchPrefix = [0x76D1, 0x542C, 0x0020]"

definition zh_changedPathCount :: jstr where
  "zh_changedPathCount = [0x0020, 0x6761, 0x8DEF, 0x5F84, 0x53D8, 0x5316]"

definition zh_skillsChanged :: jstr where
  "zh_skillsChanged = [0x6280, 0x80FD, 0x5DF2, 0x53D8, 0x5316]"

definition zh_skillsNeedRefresh :: jstr where
  "zh_skillsNeedRefresh = [0x6280, 0x80FD, 0x5217, 0x8868, 0x9700, 0x8981, 0x5237, 0x65B0]"

definition zh_appsUpdated :: jstr where
  "zh_appsUpdated = [0x5E94, 0x7528, 0x5217, 0x8868, 0x5DF2, 0x66F4, 0x65B0]"

definition zh_appCount :: jstr where
  "zh_appCount = [0x0020, 0x4E2A, 0x5E94, 0x7528]"

definition zh_accountLogin :: jstr where
  "zh_accountLogin = [0x8D26, 0x6237, 0x767B, 0x5F55]"

definition zh_loggedIn :: jstr where
  "zh_loggedIn = [0x767B, 0x5F55, 0x6210, 0x529F]"

definition zh_loginFailed :: jstr where
  "zh_loginFailed = [0x767B, 0x5F55, 0x5931, 0x8D25]"

definition zh_gatewayAuthentication :: jstr where
  "zh_gatewayAuthentication = [0x7F51, 0x5173, 0x8BA4, 0x8BC1, 0x0020, 0x00B7, 0x0020]"

definition zh_attachmentCreated :: jstr where
  "zh_attachmentCreated = [0x4F1A, 0x8BDD, 0x9644, 0x4EF6, 0x5DF2, 0x521B, 0x5EFA]"

definition zh_attachmentDeleted :: jstr where
  "zh_attachmentDeleted = [0x4F1A, 0x8BDD, 0x9644, 0x4EF6, 0x5DF2, 0x5220, 0x9664]"

definition zh_windowsDirectoryWarning :: jstr where
  "zh_windowsDirectoryWarning = [0x0057, 0x0069, 0x006E, 0x0064, 0x006F, 0x0077, 0x0073, 0x0020, 0x6C99, 0x7BB1, 0x76EE,
     0x5F55, 0x544A, 0x8B66]"

definition zh_permissionScanFailed :: jstr where
  "zh_permissionScanFailed = [0x76EE, 0x5F55, 0x6743, 0x9650, 0x626B, 0x63CF, 0x5931, 0x8D25]"

definition zh_worldWritableFound :: jstr where
  "zh_worldWritableFound = [0x68C0, 0x6D4B, 0x5230, 0x6240, 0x6709, 0x7528, 0x6237, 0x53EF, 0x5199, 0x7684, 0x76EE,
     0x5F55, 0xFF0C, 0x53E6, 0x6709, 0x0020]"

definition zh_pathCount :: jstr where
  "zh_pathCount = [0x0020, 0x6761, 0x8DEF, 0x5F84]"

definition zh_windowsSandboxSetup :: jstr where
  "zh_windowsSandboxSetup = [0x0057, 0x0069, 0x006E, 0x0064, 0x006F, 0x0077, 0x0073, 0x0020, 0x6C99, 0x7BB1, 0x521D,
     0x59CB, 0x5316]"

definition zh_setupSucceeded :: jstr where
  "zh_setupSucceeded = [0x0020, 0x521D, 0x59CB, 0x5316, 0x6210, 0x529F]"

definition zh_setupFailed :: jstr where
  "zh_setupFailed = [0x521D, 0x59CB, 0x5316, 0x5931, 0x8D25]"

definition zh_transientStateUncertain :: jstr where
  "zh_transientStateUncertain = [0x77AC, 0x65F6, 0x6D3B, 0x52A8, 0x72B6, 0x6001, 0x9700, 0x91CD, 0x65B0, 0x786E, 0x8BA4]"

definition zh_historyReverted :: jstr where
  "zh_historyReverted = [0x4F1A, 0x8BDD, 0x5386, 0x53F2, 0x5DF2, 0x64A4, 0x56DE]"

definition zh_derivedStateCleared :: jstr where
  "zh_derivedStateCleared = [0x5DF2, 0x6E05, 0x9664, 0x65E7, 0x56DE, 0x5408, 0x7684, 0x6D3E, 0x751F, 0x72B6, 0x6001,
     0xFF0C, 0x7B49, 0x5F85, 0x91CD, 0x65B0, 0x8BFB, 0x53D6, 0x5386, 0x53F2]"

definition zh_contextCompacted :: jstr where
  "zh_contextCompacted = [0x4E0A, 0x4E0B, 0x6587, 0x5DF2, 0x538B, 0x7F29]"

definition zh_legacyCompaction :: jstr where
  "zh_legacyCompaction = [0x670D, 0x52A1, 0x5668, 0x53D1, 0x9001, 0x4E86, 0x65E7, 0x7248, 0x538B, 0x7F29, 0x5B8C,
     0x6210, 0x901A, 0x77E5]"

definition zh_settingsUpdated :: jstr where
  "zh_settingsUpdated = [0x4F1A, 0x8BDD, 0x8BBE, 0x7F6E, 0x5DF2, 0x66F4, 0x65B0]"

definition zh_realtimeSession :: jstr where
  "zh_realtimeSession = [0x5B9E, 0x65F6, 0x4F1A, 0x8BDD]"

definition zh_realtimeConnected :: jstr where
  "zh_realtimeConnected = [0x5B9E, 0x65F6, 0x8FDE, 0x63A5, 0x5DF2, 0x5EFA, 0x7ACB]"

definition zh_realtimeItem :: jstr where
  "zh_realtimeItem = [0x5B9E, 0x65F6, 0x4F1A, 0x8BDD, 0x6761, 0x76EE]"

definition zh_realtimeContent :: jstr where
  "zh_realtimeContent = [0x6536, 0x5230, 0x5B9E, 0x65F6, 0x4F1A, 0x8BDD, 0x5185, 0x5BB9]"

definition zh_realtimeTranscript :: jstr where
  "zh_realtimeTranscript = [0x5B9E, 0x65F6, 0x8F6C, 0x5199]"

definition zh_transcriptDone :: jstr where
  "zh_transcriptDone = [0x5DF2, 0x5B8C, 0x6210]"

definition zh_transcribing :: jstr where
  "zh_transcribing = [0x8F6C, 0x5199, 0x4E2D]"

definition zh_realtimeAudio :: jstr where
  "zh_realtimeAudio = [0x5B9E, 0x65F6, 0x97F3, 0x9891]"

definition zh_audioChunkCount :: jstr where
  "zh_audioChunkCount = [0x0020, 0x4E2A, 0x97F3, 0x9891, 0x7247, 0x6BB5, 0x0020, 0x00B7, 0x0020]"

definition zh_byteCount :: jstr where
  "zh_byteCount = [0x0020, 0x5B57, 0x8282, 0x0020, 0x00B7, 0x0020]"

definition zh_hertz :: jstr where
  "zh_hertz = [0x0020, 0x0048, 0x007A, 0x0020, 0x002F, 0x0020]"

definition zh_audioChannels :: jstr where
  "zh_audioChannels = [0x0020, 0x58F0, 0x9053]"

definition zh_realtimeNegotiation :: jstr where
  "zh_realtimeNegotiation = [0x5B9E, 0x65F6, 0x8FDE, 0x63A5, 0x534F, 0x5546]"

definition zh_sdpReceived :: jstr where
  "zh_sdpReceived = [0x5DF2, 0x6536, 0x5230, 0x8FDC, 0x7AEF, 0x0020, 0x0053, 0x0044, 0x0050, 0x0020, 0x00B7,
     0x0020]"

definition zh_characterCount :: jstr where
  "zh_characterCount = [0x0020, 0x5B57, 0x7B26]"

definition zh_realtimeError :: jstr where
  "zh_realtimeError = [0x5B9E, 0x65F6, 0x4F1A, 0x8BDD, 0x9519, 0x8BEF]"

definition zh_realtimeClosed :: jstr where
  "zh_realtimeClosed = [0x5B9E, 0x65F6, 0x4F1A, 0x8BDD, 0x5DF2, 0x5173, 0x95ED]"

definition zh_realtimeEnded :: jstr where
  "zh_realtimeEnded = [0x5B9E, 0x65F6, 0x8FDE, 0x63A5, 0x5DF2, 0x7ED3, 0x675F]"

definition zh_inputQueue :: jstr where
  "zh_inputQueue = [0x8F93, 0x5165, 0x961F, 0x5217]"

definition zh_pendingInputCount :: jstr where
  "zh_pendingInputCount = [0x0020, 0x6761, 0x5F85, 0x5904, 0x7406, 0x8F93, 0x5165]"

definition zh_queueRefreshFailed :: jstr where
  "zh_queueRefreshFailed = [0x961F, 0x5217, 0x5237, 0x65B0, 0x5931, 0x8D25, 0xFF1A]"

definition zh_goalRefreshFailed :: jstr where
  "zh_goalRefreshFailed = [0x76EE, 0x6807, 0x5237, 0x65B0, 0x5931, 0x8D25]"

definition zh_refreshFailed :: jstr where
  "zh_refreshFailed = [0x72B6, 0x6001, 0x5237, 0x65B0, 0x5931, 0x8D25]"

definition zh_unsupportedNotification :: jstr where
  "zh_unsupportedNotification = [0x6536, 0x5230, 0x5C1A, 0x672A, 0x652F, 0x6301, 0x7684, 0x670D, 0x52A1, 0x5668, 0x901A,
     0x77E5]"

definition zh_invalidNotification :: jstr where
  "zh_invalidNotification = [0x670D, 0x52A1, 0x5668, 0x901A, 0x77E5, 0x683C, 0x5F0F, 0x65E0, 0x6548]"

definition zh_notificationFailed :: jstr where
  "zh_notificationFailed = [0x670D, 0x52A1, 0x5668, 0x901A, 0x77E5, 0x5904, 0x7406, 0x5931, 0x8D25]"

definition zh_checkProtocolVersion :: jstr where
  "zh_checkProtocolVersion = [0x8BF7, 0x68C0, 0x67E5, 0x534F, 0x8BAE, 0x7248, 0x672C, 0x6216, 0x8FDE, 0x63A5, 0x8BCA,
     0x65AD]"

definition zh_checkDiagnostics :: jstr where
  "zh_checkDiagnostics = [0x0020, 0x00B7, 0x0020, 0x8BF7, 0x68C0, 0x67E5, 0x8FDE, 0x63A5, 0x8BCA, 0x65AD]"

definition zh_processRequestFailed :: jstr where
  "zh_processRequestFailed = [0x8FDB, 0x7A0B, 0x8BF7, 0x6C42, 0x5931, 0x8D25]"

definition zh_processResultUnknown :: jstr where
  "zh_processResultUnknown = [0x8FDE, 0x63A5, 0x5DF2, 0x65AD, 0x5F00, 0xFF0C, 0x8FDB, 0x7A0B, 0x7ED3, 0x679C, 0x672A,
     0x77E5]"

definition zh_connectionLost :: jstr where
  "zh_connectionLost = [0x8FDE, 0x63A5, 0x5DF2, 0x65AD, 0x5F00, 0xFF0C, 0x5F53, 0x524D, 0x72B6, 0x6001, 0x672A,
     0x77E5]"

end
