(* ===== verification/EventStore.thy ===== *)
theory EventStore
  imports EventModel EventText
begin

text \<open>
  The private operations of the class \<open>ServerEventStore\<close> in
  \<open>src/appServer/serverEventState.ts\<close>: how a notification becomes a record with redacted and
  bounded text, the state of processes and their output, and realtime sessions.

  \<^item> The snapshot is replaced, never changed: \<open>patch\<close> counts the replacements, so that two
    snapshots are the same object iff the counts agree.
  \<^item> \<open>publish\<close> calls the listeners in order; the calls are logged.
  \<^item> A text decoder is a platform object. Its state is a function of the bytes it was given since its
    last flush, so these bytes are its state here, and \<open>pf_decode\<close> gives the text of the next
    chunk.
  \<^item> A payload is read dynamically, as the code does; the schema guarantees the types, and a property
    of another type reads as empty.
\<close>

record platform =
  pf_numberText :: "jsval \<Rightarrow> jstr"
  pf_decode :: "8 word list \<Rightarrow> 8 word list \<Rightarrow> bool \<Rightarrow> jstr"

record ServerNotification =
  nt_method :: string
  nt_params :: jsval

record ServerEventStore =
  st_snapshot :: ServerEventSnapshot
  st_identity :: nat
  st_listeners :: "nat list"
  st_calls :: "nat list"
  st_decoders :: "jstr \<rightharpoonup> 8 word list"
  st_streamed :: "jstr set"
  st_serial :: nat

text \<open>How a call of the store ends: normally, or with an exception after some changes.\<close>

datatype result = Done ServerEventStore | Threw ServerEventStore

definition newStore :: ServerEventStore where
  "newStore = \<lparr>st_snapshot = initialSnapshot, st_identity = 0, st_listeners = [], st_calls = [],
     st_decoders = Map.empty, st_streamed = {}, st_serial = 0\<rparr>"

subsection \<open>Reading payloads\<close>

definition objectOf :: "jsval \<Rightarrow> jsrecord" where
  "objectOf v = (case v of JObj r \<Rightarrow> r | _ \<Rightarrow> [])"

definition str :: "jsrecord \<Rightarrow> string \<Rightarrow> jstr" where
  "str r k = (case field r k of JStr s \<Rightarrow> s | _ \<Rightarrow> [])"

definition optStr :: "jsrecord \<Rightarrow> string \<Rightarrow> jstr option" where
  "optStr r k = (case field r k of JStr s \<Rightarrow> Some s | _ \<Rightarrow> None)"

definition flag :: "jsrecord \<Rightarrow> string \<Rightarrow> bool" where
  "flag r k \<longleftrightarrow> field r k = JBool True"

definition obj :: "jsrecord \<Rightarrow> string \<Rightarrow> jsrecord" where
  "obj r k = objectOf (field r k)"

definition arr :: "jsrecord \<Rightarrow> string \<Rightarrow> jsval list" where
  "arr r k = (case field r k of JArr xs \<Rightarrow> map slotValue xs | _ \<Rightarrow> [])"

definition stringOf :: "jsval \<Rightarrow> jstr" where
  "stringOf v = (case v of JStr s \<Rightarrow> s | _ \<Rightarrow> [])"

definition intOf :: "jsval \<Rightarrow> int" where
  "intOf v = (case v of JInt i \<Rightarrow> i | _ \<Rightarrow> 0)"

text \<open>The operator \<open>??\<close>.\<close>

definition orText :: "jstr option \<Rightarrow> jstr \<Rightarrow> jstr" where
  "orText x d = (case x of None \<Rightarrow> d | Some s \<Rightarrow> s)"

text \<open>The test \<open>x?.field === true\<close> on an optional value.\<close>

definition holds :: "('a \<Rightarrow> bool) \<Rightarrow> 'a option \<Rightarrow> bool" where
  "holds P x = (case x of None \<Rightarrow> False | Some y \<Rightarrow> P y)"

definition params :: "ServerNotification \<Rightarrow> jsrecord" where
  "params n = objectOf (nt_params n)"

subsection \<open>Replacing the snapshot\<close>

definition patch :: "(ServerEventSnapshot \<Rightarrow> ServerEventSnapshot) \<Rightarrow> ServerEventStore \<Rightarrow> ServerEventStore" where
  "patch f st = st\<lparr>st_snapshot := f (st_snapshot st), st_identity := Suc (st_identity st)\<rparr>"

definition publish :: "ServerEventStore \<Rightarrow> ServerEventStore" where
  "publish st = st\<lparr>st_calls := st_calls st @ st_listeners st\<rparr>"

definition subscribe :: "nat \<Rightarrow> ServerEventStore \<Rightarrow> ServerEventStore" where
  "subscribe listener st =
     (if listener \<in> set (st_listeners st) then st
      else st\<lparr>st_listeners := st_listeners st @ [listener]\<rparr>)"

definition unsubscribe :: "nat \<Rightarrow> ServerEventStore \<Rightarrow> ServerEventStore" where
  "unsubscribe listener st = st\<lparr>st_listeners := filter (\<lambda>l. l \<noteq> listener) (st_listeners st)\<rparr>"

subsection \<open>Redaction\<close>

text \<open>
  The test \<open>/token|password|secret|authorization|cookie|private.?key|api.?key|credential|ice.?pwd/iu\<close>.
  Ignoring case with the flag u folds two characters outside ASCII into letters, the long s and the
  Kelvin sign. The dot is one character other than a line terminator, a surrogate pair or a single
  code unit.
\<close>

definition foldCase :: "code_unit \<Rightarrow> code_unit" where
  "foldCase c = (if c = 0x017F then 0x73 else if c = 0x212A then 0x6B else cu_toLower c)"

definition lineTerminator :: "code_unit \<Rightarrow> bool" where
  "lineTerminator c \<longleftrightarrow> c \<in> {0x0A, 0x0D, 0x2028, 0x2029}"

definition afterDot :: "jstr \<Rightarrow> jstr list" where
  "afterDot s = s #
     (case s of
        [] \<Rightarrow> []
      | [c] \<Rightarrow> if lineTerminator c then [] else [[]]
      | c # d # t \<Rightarrow> if lineTerminator c then []
          else if cu_high_surrogate c \<and> cu_low_surrogate d then [t] else [d # t])"

definition startsSplit :: "string \<Rightarrow> string \<Rightarrow> jstr \<Rightarrow> bool" where
  "startsSplit front back s \<longleftrightarrow> prefix (lit front) s \<and>
     list_ex (\<lambda>t. prefix (lit back) t) (afterDot (drop (length front) s))"

definition sensitiveHere :: "jstr \<Rightarrow> bool" where
  "sensitiveHere s \<longleftrightarrow>
     list_ex (\<lambda>w. prefix (lit w) s) [''token'', ''password'', ''secret'', ''authorization'', ''cookie'', ''credential''] \<or>
     list_ex (\<lambda>(front, back). startsSplit front back s) [(''private'', ''key''), (''api'', ''key''), (''ice'', ''pwd'')]"

definition sensitiveKey :: "jstr \<Rightarrow> bool" where
  "sensitiveKey key \<longleftrightarrow> list_ex sensitiveHere (suffixes (map foldCase key))"

definition keyText :: "jskey \<Rightarrow> jstr" where
  "keyText k = (case k of KStr s \<Rightarrow> s | KSym _ \<Rightarrow> [])"

text \<open>The replacer, applied from the root down; what it returns for a sensitive key is not visited.\<close>

function redactAt :: "jstr \<Rightarrow> jsval \<Rightarrow> jsval" where
  "redactAt key v =
     (if sensitiveKey key then JStr zh_hidden
      else (case v of
          JArr xs \<Rightarrow> JArr (map (\<lambda>(i, slot). case slot of
                               None \<Rightarrow> None | Some x \<Rightarrow> Some (redactAt (decDigits i) x))
                             (zip [0..<LIMIT_ENTITIES] xs))
        | JStr s \<Rightarrow> JStr (take LIMIT_DETAILS s)
        | JObj ps \<Rightarrow> JObj (map (\<lambda>(k, x). (k, redactAt (keyText k) x)) ps)
        | _ \<Rightarrow> v))"
  by pat_completeness auto
termination by (relation "measure (\<lambda>(key, v). size v)") (auto simp: size_slot size_property dest: set_zip_rightD)

declare redactAt.simps [simp del]

definition paramsText :: "platform \<Rightarrow> jsval \<Rightarrow> jstr option" where
  "paramsText pf v = jsonText (pf_numberText pf) [] (redactAt [] v)"

subsection \<open>Records\<close>

definition saveRecord :: "ServerEventRecord \<Rightarrow> ServerEventStore \<Rightarrow> ServerEventStore" where
  "saveRecord rec st =
     (let records = filter (\<lambda>entry. er_id entry \<noteq> er_id rec) (ev_records (st_snapshot st)) @ [rec] in
      patch (\<lambda>s. s\<lparr>ev_records := takeLast LIMIT_RECORDS records,
                   ev_droppedRecords := ev_droppedRecords s + (length records - LIMIT_RECORDS)\<rparr>) st)"

definition updateRecord ::
  "jstr \<Rightarrow> (ServerEventRecord \<Rightarrow> ServerEventRecord) \<Rightarrow> ServerEventStore \<Rightarrow> ServerEventStore" where
  "updateRecord rid f st =
     patch (\<lambda>s. s\<lparr>ev_records := map (\<lambda>entry. if er_id entry = rid then f entry else entry) (ev_records s)\<rparr>) st"

definition findRecord :: "jstr \<Rightarrow> ServerEventStore \<Rightarrow> ServerEventRecord option" where
  "findRecord rid st = find (\<lambda>entry. er_id entry = rid) (ev_records (st_snapshot st))"

text \<open>The expression \<open>records.find(...)?.text ?? ""\<close>.\<close>

definition previousText :: "jstr \<Rightarrow> ServerEventStore \<Rightarrow> jstr" where
  "previousText rid st = (case findRecord rid st of None \<Rightarrow> [] | Some entry \<Rightarrow> orText (er_text entry) [])"

definition newRecord ::
  "jstr \<Rightarrow> string \<Rightarrow> jstr \<Rightarrow> jstr \<Rightarrow> ServerEventStatus \<Rightarrow> ServerEventRecord" where
  "newRecord rid method title detail status = \<lparr>er_id = rid, er_method = method, er_title = title,
     er_detail = detail, er_status = status, er_threadId = None, er_turnId = None, er_text = None,
     er_terminalInput = None, er_params = None, er_truncated = False\<rparr>"

definition nextSerial :: "ServerEventStore \<Rightarrow> ServerEventStore" where
  "nextSerial st = st\<lparr>st_serial := Suc (st_serial st)\<rparr>"

definition recordEvent ::
  "platform \<Rightarrow> ServerNotification \<Rightarrow> jstr \<Rightarrow> jstr \<Rightarrow> ServerEventStatus \<Rightarrow> jstr option \<Rightarrow> jstr option
    \<Rightarrow> jstr option \<Rightarrow> jstr option \<Rightarrow> bool \<Rightarrow> ServerEventStore \<Rightarrow> ServerEventStore" where
  "recordEvent pf n title detail status rid threadId turnId text' includeParams st =
     (let st0 = (if rid = None then nextSerial st else st);
          identifier = orText rid (lit ''event:'' @ decDigits (st_serial st0));
          parameters = (if includeParams then paramsText pf (nt_params n) else None);
          previous = findRecord identifier st0 in
      saveRecord ((newRecord identifier (nt_method n) title (clipped LIMIT_DETAILS detail) status)
        \<lparr>er_threadId := threadId, er_turnId := turnId, er_text := map_option (clipped LIMIT_TEXT) text',
         er_params := map_option (take LIMIT_DETAILS) parameters,
         er_truncated := length (orText text' []) > LIMIT_TEXT \<or> length detail > LIMIT_DETAILS \<or>
           length (orText parameters []) > LIMIT_DETAILS \<or> holds er_truncated previous\<rparr>) st0)"

text \<open>The usual call: parameters are kept and there is no text.\<close>

abbreviation noteEvent ::
  "platform \<Rightarrow> ServerNotification \<Rightarrow> jstr \<Rightarrow> jstr \<Rightarrow> ServerEventStatus \<Rightarrow> jstr option \<Rightarrow> jstr option
    \<Rightarrow> jstr option \<Rightarrow> ServerEventStore \<Rightarrow> ServerEventStore" where
  "noteEvent pf n title detail status rid threadId turnId st \<equiv>
     recordEvent pf n title detail status rid threadId turnId None True st"

subsection \<open>Threads\<close>

definition unknownRecord :: "jstr \<Rightarrow> ServerEventRecord \<Rightarrow> ServerEventRecord" where
  "unknownRecord remark entry = entry\<lparr>er_status := Unknown, er_detail := er_detail entry @ 0x0A # remark\<rparr>"

definition finishThread :: "jstr \<Rightarrow> jstr option \<Rightarrow> ServerEventStore \<Rightarrow> ServerEventStore" where
  "finishThread threadId turnId st =
     (let st1 = patch (\<lambda>s. s\<lparr>ev_records := map (\<lambda>entry.
                if er_threadId entry = Some threadId \<and> (turnId = None \<or> er_turnId entry = turnId) \<and> er_status entry = Running
                then unknownRecord ((if turnId = None then zh_subscriptionClosed else zh_turnEnded) @ zh_noFinalState) entry
                else entry) (ev_records s)\<rparr>) st in
      case map_of (ev_realtimeByThread (st_snapshot st1)) threadId of
        Some realtime \<Rightarrow>
          if turnId = None
          then patch (\<lambda>s. s\<lparr>ev_realtimeByThread := put (ev_realtimeByThread s) threadId
                 (realtime\<lparr>rs_status := Unknown, rs_latestAudio := None, rs_sdp := None\<rparr>)\<rparr>) st1
          else st1
      | None \<Rightarrow> st1)"

definition nextVersion :: "nat entries \<Rightarrow> jstr \<Rightarrow> nat entries" where
  "nextVersion versions key = versionEntry versions key (versionOf versions key + 1)"

definition clearThread :: "jstr \<Rightarrow> ServerEventStore \<Rightarrow> ServerEventStore" where
  "clearThread threadId st = patch (\<lambda>s. s\<lparr>
     ev_records := filter (\<lambda>entry. er_threadId entry \<noteq> Some threadId) (ev_records s),
     ev_tokenUsageByThread := omit (ev_tokenUsageByThread s) threadId,
     ev_goalsByThread := omit (ev_goalsByThread s) threadId,
     ev_queueVersionsByThread := nextVersion (ev_queueVersionsByThread s) threadId,
     ev_goalVersionsByThread := nextVersion (ev_goalVersionsByThread s) threadId,
     ev_queuesByThread := omit (ev_queuesByThread s) threadId,
     ev_projectsByThread := omit (ev_projectsByThread s) threadId,
     ev_environmentsByThread := omit (ev_environmentsByThread s) threadId,
     ev_realtimeByThread := omit (ev_realtimeByThread s) threadId,
     ev_diffsByTurn := fromEntries (filter (\<lambda>e. td_threadId (snd e) \<noteq> threadId) (ev_diffsByTurn s))\<rparr>) st"

subsection \<open>Processes\<close>

definition kindText :: "ProcessKind \<Rightarrow> jstr" where
  "kindText kind = (case kind of CommandProcess \<Rightarrow> lit ''command'' | SpawnedProcess \<Rightarrow> lit ''process'')"

definition kindTitle :: "ProcessKind \<Rightarrow> jstr" where
  "kindTitle kind = (case kind of CommandProcess \<Rightarrow> zh_commandTitle | SpawnedProcess \<Rightarrow> zh_processTitle)"

datatype output_stream = Stdout | Stderr

definition streamText :: "output_stream \<Rightarrow> jstr" where
  "streamText stream = (case stream of Stdout \<Rightarrow> lit ''stdout'' | Stderr \<Rightarrow> lit ''stderr'')"

definition processKey :: "ProcessKind \<Rightarrow> jstr \<Rightarrow> jstr" where
  "processKey kind pid = keyOf [kindText kind, pid]"

definition streamKey :: "ProcessKind \<Rightarrow> jstr \<Rightarrow> output_stream \<Rightarrow> jstr" where
  "streamKey kind pid stream = keyOf [kindText kind, pid, streamText stream]"

definition freshProcess :: "ProcessKind \<Rightarrow> jstr \<Rightarrow> ServerProcessState" where
  "freshProcess kind pid = \<lparr>ps_id = pid, ps_kind = kind, ps_status = Running, ps_stdout = [],
     ps_stderr = [], ps_stdoutTruncated = False, ps_stderrTruncated = False, ps_exitCode = None\<rparr>"

definition streamOutput :: "output_stream \<Rightarrow> ServerProcessState \<Rightarrow> jstr" where
  "streamOutput stream process = (case stream of Stdout \<Rightarrow> ps_stdout process | Stderr \<Rightarrow> ps_stderr process)"

definition streamTruncated :: "output_stream \<Rightarrow> ServerProcessState \<Rightarrow> bool" where
  "streamTruncated stream process =
     (case stream of Stdout \<Rightarrow> ps_stdoutTruncated process | Stderr \<Rightarrow> ps_stderrTruncated process)"

definition setStream :: "output_stream \<Rightarrow> jstr \<Rightarrow> bool \<Rightarrow> ServerProcessState \<Rightarrow> ServerProcessState" where
  "setStream stream text' truncated process =
     (case stream of
        Stdout \<Rightarrow> process\<lparr>ps_stdout := text', ps_stdoutTruncated := truncated\<rparr>
      | Stderr \<Rightarrow> process\<lparr>ps_stderr := text', ps_stderrTruncated := truncated\<rparr>)"

definition outputText :: "ServerProcessState \<Rightarrow> jstr" where
  "outputText process = lit ''stdout'' @ 0x0A # ps_stdout process @ 0x0A # lit ''stderr'' @ 0x0A # ps_stderr process"

definition dropStream :: "jstr \<Rightarrow> ServerEventStore \<Rightarrow> ServerEventStore" where
  "dropStream key st = st\<lparr>st_decoders := (st_decoders st)(key := None), st_streamed := st_streamed st - {key}\<rparr>"

definition dropStreams :: "ProcessKind \<Rightarrow> jstr \<Rightarrow> ServerEventStore \<Rightarrow> ServerEventStore" where
  "dropStreams kind pid st = dropStream (streamKey kind pid Stderr) (dropStream (streamKey kind pid Stdout) st)"

definition retainedStreams :: "ServerEventStore \<Rightarrow> jstr set" where
  "retainedStreams st = set (concat (map (\<lambda>e.
     [streamKey (ps_kind (snd e)) (ps_id (snd e)) Stdout, streamKey (ps_kind (snd e)) (ps_id (snd e)) Stderr])
     (ev_processes (st_snapshot st))))"

definition pruneStreams :: "ServerEventStore \<Rightarrow> ServerEventStore" where
  "pruneStreams st =
     st\<lparr>st_decoders := (\<lambda>key. if key \<in> retainedStreams st then st_decoders st key else None),
        st_streamed := Set.filter (\<lambda>key. st_decoders st key = None \<or> key \<in> retainedStreams st) (st_streamed st)\<rparr>"

text \<open>A decoder that flushes starts afresh, one that streams keeps what it was given.\<close>

definition processOutput ::
  "platform \<Rightarrow> ProcessKind \<Rightarrow> jstr \<Rightarrow> ServerNotification \<Rightarrow> ServerEventStore \<Rightarrow> result" where
  "processOutput pf kind pid n st =
     (let p = params n;
          stream = (if str p ''stream'' = lit ''stdout'' then Stdout else Stderr);
          capReached = flag p ''capReached'';
          key = processKey kind pid;
          skey = streamKey kind pid stream;
          history = (case st_decoders st skey of None \<Rightarrow> [] | Some bytes \<Rightarrow> bytes);
          st1 = st\<lparr>st_decoders := (st_decoders st)(skey \<mapsto> history), st_streamed := insert skey (st_streamed st)\<rparr> in
      case base64Decode (str p ''deltaBase64'') of
        None \<Rightarrow> Threw st1
      | Some bytes \<Rightarrow>
          let decoded = pf_decode pf history bytes (\<not> capReached);
              st2 = st1\<lparr>st_decoders := (st_decoders st1)(skey \<mapsto> (if capReached then [] else history @ bytes))\<rparr>;
              previous = (case map_of (ev_processes (st_snapshot st2)) key of
                  Some process \<Rightarrow> if ps_status process = Running then process else freshProcess kind pid
                | None \<Rightarrow> freshProcess kind pid);
              next = previous\<lparr>ps_id := pid, ps_kind := kind, ps_status := Running, ps_exitCode := None\<rparr>;
              text' = streamOutput stream next @ decoded;
              process = setStream stream (clipped LIMIT_TEXT text')
                (streamTruncated stream next \<or> capReached \<or> length text' > LIMIT_TEXT) next;
              st3 = patch (\<lambda>s. s\<lparr>ev_processes := put (ev_processes s) key process\<rparr>) st2;
              st4 = recordEvent pf n (kindTitle kind @ zh_separator @ pid) zh_receivingOutput Running (Some key) None None
                (Some (outputText process)) False st3 in
          Done (pruneStreams st4))"

text \<open>What a process wrote on a stream: the streamed text with the rest of the decoder, or the capture.\<close>

definition capture ::
  "platform \<Rightarrow> ProcessKind \<Rightarrow> jstr \<Rightarrow> output_stream \<Rightarrow> jstr \<Rightarrow> ServerProcessState option \<Rightarrow> ServerEventStore \<Rightarrow> jstr" where
  "capture pf kind pid stream captured previous st =
     (let skey = streamKey kind pid stream in
      if skey \<in> st_streamed st
      then (case previous of None \<Rightarrow> [] | Some process \<Rightarrow> streamOutput stream process) @
           (case st_decoders st skey of None \<Rightarrow> [] | Some history \<Rightarrow> pf_decode pf history [] False)
      else captured)"

definition completeProcess ::
  "platform \<Rightarrow> ProcessKind \<Rightarrow> jstr \<Rightarrow> int \<Rightarrow> jstr \<Rightarrow> jstr \<Rightarrow> bool \<Rightarrow> bool \<Rightarrow> ServerEventStore \<Rightarrow> ServerEventStore" where
  "completeProcess pf kind pid exitCode capturedOut capturedErr outCapReached errCapReached st =
     (let key = processKey kind pid;
          previous = map_of (ev_processes (st_snapshot st)) key in
      if holds (\<lambda>process. ps_status process = Completed \<or> ps_status process = Failed) previous then st
      else
        let out = capture pf kind pid Stdout capturedOut previous st;
            err = capture pf kind pid Stderr capturedErr previous st;
            st1 = dropStreams kind pid st;
            process = \<lparr>ps_id = pid, ps_kind = kind, ps_status = (if exitCode = 0 then Completed else Failed),
              ps_stdout = clipped LIMIT_TEXT out, ps_stderr = clipped LIMIT_TEXT err,
              ps_stdoutTruncated = outCapReached \<or> holds ps_stdoutTruncated previous \<or>
                length out > LIMIT_TEXT,
              ps_stderrTruncated = errCapReached \<or> holds ps_stderrTruncated previous \<or>
                length err > LIMIT_TEXT,
              ps_exitCode = Some exitCode\<rparr>;
            st2 = patch (\<lambda>s. s\<lparr>ev_processes := put (ev_processes s) key process\<rparr>) st1 in
        saveRecord ((newRecord key
            (case kind of CommandProcess \<Rightarrow> ''command/exec/outputDelta'' | SpawnedProcess \<Rightarrow> ''process/exited'')
            (kindTitle kind @ zh_separator @ pid) (zh_exitCode @ numberText (pf_numberText pf) (JInt exitCode)) (ps_status process))
          \<lparr>er_text := Some (clipped LIMIT_TEXT (outputText process)),
           er_truncated := ps_stdoutTruncated process \<or> ps_stderrTruncated process\<rparr>) st2)"

definition processExited :: "platform \<Rightarrow> ServerNotification \<Rightarrow> ServerEventStore \<Rightarrow> ServerEventStore" where
  "processExited pf n st =
     (let p = params n in
      completeProcess pf SpawnedProcess (str p ''processHandle'') (intOf (field p ''exitCode'')) (str p ''stdout'')
        (str p ''stderr'') (flag p ''stdoutCapReached'') (flag p ''stderrCapReached'') st)"

end
