(* ===== verification/EventConsume.thy ===== *)
theory EventConsume
  imports EventStore
begin

text \<open>
  \<open>consume\<close> of \<open>src/appServer/serverEventState.ts\<close>: one handler for each group of
  notification methods that shares a case of the switch, the table that assigns them, and the
  dispatcher. \<open>n\<close> is the notification and \<open>p\<close> its parameters.
\<close>

subsection \<open>Threads, goals, queues, projects\<close>

definition onTokenUsage :: "platform \<Rightarrow> ServerNotification \<Rightarrow> ServerEventStore \<Rightarrow> ServerEventStore" where
  "onTokenUsage pf n st =
     (let p = params n in
      patch (\<lambda>s. s\<lparr>ev_tokenUsageByThread := put (ev_tokenUsageByThread s) (str p ''threadId'')
        \<lparr>tu_params = p, tu_stale = False\<rparr>\<rparr>) st)"

definition onTurnDiff :: "platform \<Rightarrow> ServerNotification \<Rightarrow> ServerEventStore \<Rightarrow> ServerEventStore" where
  "onTurnDiff pf n st =
     (let p = params n; threadId = str p ''threadId''; turnId = str p ''turnId''; diff = str p ''diff'' in
      recordEvent pf n zh_turnDiffTitle zh_latestTurnDiff Informed (Some (keyOf [lit ''diff'', threadId, turnId]))
        (Some threadId) (Some turnId) (Some diff) False
        (patch (\<lambda>s. s\<lparr>ev_diffsByTurn := put (ev_diffsByTurn s) (keyOf [threadId, turnId])
           \<lparr>td_threadId = threadId, td_turnId = turnId, td_diff = clipped LIMIT_TEXT diff,
            td_truncated = length diff > LIMIT_TEXT, td_stale = False\<rparr>\<rparr>) st))"

definition goalStatus :: "jstr \<Rightarrow> ServerEventStatus" where
  "goalStatus status = (if status = lit ''active'' then Running else if status = lit ''complete'' then Completed else Warned)"

definition setGoal :: "jstr \<Rightarrow> jsval \<Rightarrow> ServerEventSnapshot \<Rightarrow> ServerEventSnapshot" where
  "setGoal threadId goal s = s\<lparr>
     ev_goalsByThread := put (ev_goalsByThread s) threadId \<lparr>gs_goal = goal, gs_stale = False\<rparr>,
     ev_goalVersionsByThread := nextVersion (ev_goalVersionsByThread s) threadId\<rparr>"

definition onGoalUpdated :: "platform \<Rightarrow> ServerNotification \<Rightarrow> ServerEventStore \<Rightarrow> ServerEventStore" where
  "onGoalUpdated pf n st =
     (let p = params n; threadId = str p ''threadId'' in
      noteEvent pf n zh_threadGoal (str (obj p ''goal'') ''objective'') (goalStatus (str (obj p ''goal'') ''status''))
        (Some (keyOf [lit ''goal'', threadId])) (Some threadId) (optStr p ''turnId'')
        (patch (setGoal threadId (field p ''goal'')) st))"

definition onGoalCleared :: "platform \<Rightarrow> ServerNotification \<Rightarrow> ServerEventStore \<Rightarrow> ServerEventStore" where
  "onGoalCleared pf n st =
     (let threadId = str (params n) ''threadId'' in
      noteEvent pf n zh_goalCleared zh_serverRemovedGoal Completed
        (Some (keyOf [lit ''goal'', threadId])) (Some threadId) None (patch (setGoal threadId JNull) st))"

definition onQueueChanged :: "platform \<Rightarrow> ServerNotification \<Rightarrow> ServerEventStore \<Rightarrow> ServerEventStore" where
  "onQueueChanged pf n st =
     (let threadId = str (params n) ''threadId'';
          version = versionOf (ev_queueVersionsByThread (st_snapshot st)) threadId + 1 in
      noteEvent pf n zh_queueChanged zh_refreshingQueue Running
        (Some (keyOf [lit ''queue'', threadId])) (Some threadId) None
        (patch (\<lambda>s. s\<lparr>ev_queueVersionsByThread := versionEntry (ev_queueVersionsByThread s) threadId version,
           ev_queuesByThread := put (ev_queuesByThread s) threadId
             \<lparr>sq_version = version, sq_status = RefreshPending, sq_entries = [], sq_error = None\<rparr>\<rparr>) st))"

definition onProjectChanged :: "platform \<Rightarrow> ServerNotification \<Rightarrow> ServerEventStore \<Rightarrow> ServerEventStore" where
  "onProjectChanged pf n st =
     (let p = params n; projectId = str p ''projectId'' in
      noteEvent pf n zh_projectChanged (projectId @ zh_separator @ str p ''changeType'') Informed
        (Some (keyOf [lit ''project'', projectId])) None None
        (patch (\<lambda>s. s\<lparr>ev_projectVersion := ev_projectVersion s + 1,
           ev_projectChangesById := put (ev_projectChangesById s) projectId p,
           ev_projectsSnapshot := (ev_projectsSnapshot s)\<lparr>pj_version := ev_projectVersion s + 1,
             pj_status := RefreshPending\<rparr>\<rparr>) st))"

definition onThreadProject :: "platform \<Rightarrow> ServerNotification \<Rightarrow> ServerEventStore \<Rightarrow> ServerEventStore" where
  "onThreadProject pf n st =
     (let p = params n; threadId = str p ''threadId''; projectId = optStr p ''projectId'' in
      noteEvent pf n zh_threadProjectUpdated (orText projectId zh_projectDetached) Informed
        (Some (keyOf [lit ''project-thread'', threadId])) (Some threadId) None
        (patch (\<lambda>s. s\<lparr>ev_projectsByThread := put (ev_projectsByThread s) threadId projectId\<rparr>) st))"

definition onEnvironment :: "platform \<Rightarrow> ServerNotification \<Rightarrow> ServerEventStore \<Rightarrow> ServerEventStore" where
  "onEnvironment pf n st =
     (let p = params n; threadId = str p ''threadId'';
          connected = (nt_method n = ''thread/environment/connected'') in
      noteEvent pf n (if connected then zh_environmentConnected else zh_environmentDisconnected) (str p ''environmentId'') Informed
        (Some (keyOf [lit ''environment'', threadId])) (Some threadId) None
        (patch (\<lambda>s. s\<lparr>ev_environmentsByThread := put (ev_environmentsByThread s) threadId
           (str p ''environmentId'', if connected then EnvironmentConnected else EnvironmentDisconnected)\<rparr>) st))"

definition onRemoteControl :: "platform \<Rightarrow> ServerNotification \<Rightarrow> ServerEventStore \<Rightarrow> ServerEventStore" where
  "onRemoteControl pf n st =
     (let p = params n; status = str p ''status'' in
      noteEvent pf n zh_remoteControl (str p ''serverName'' @ zh_separator @ status)
        (if status = lit ''connecting'' then Running else if status = lit ''errored'' then Failed else Informed)
        (Some (lit ''remoteControl'')) None None
        (patch (\<lambda>s. s\<lparr>ev_remoteControl := Some \<lparr>rc_params = p, rc_stale = False\<rparr>\<rparr>) st))"

subsection \<open>Hooks, reviews, diagnostics\<close>

definition runStatus :: "string \<Rightarrow> string \<Rightarrow> jstr \<Rightarrow> ServerEventStatus" where
  "runStatus running completed status =
     (if status = lit running then Running else if status = lit completed then Completed else Failed)"

definition hookEntry :: "jsval \<Rightarrow> jstr" where
  "hookEntry entry = lit ''['' @ str (objectOf entry) ''kind'' @ lit ''] '' @ str (objectOf entry) ''text''"

definition onHook :: "platform \<Rightarrow> ServerNotification \<Rightarrow> ServerEventStore \<Rightarrow> ServerEventStore" where
  "onHook pf n st =
     (let p = params n; hookRun = obj p ''run''; statusMessage = str hookRun ''statusMessage'' in
      recordEvent pf n (zh_hookPrefix @ str hookRun ''eventName'')
        (str hookRun ''handlerType'' @ zh_separator @ str hookRun ''sourcePath'' @
           (if statusMessage = [] then [] else 0x0A # statusMessage))
        (runStatus ''running'' ''completed'' (str hookRun ''status''))
        (Some (keyOf [lit ''hook'', str p ''threadId'', str hookRun ''id'']))
        (Some (str p ''threadId'')) (optStr p ''turnId'')
        (Some (joinWith [0x0A] (map hookEntry (arr hookRun ''entries'')))) True st)"

definition onReview :: "platform \<Rightarrow> ServerNotification \<Rightarrow> ServerEventStore \<Rightarrow> ServerEventStore" where
  "onReview pf n st =
     (let p = params n; review = obj p ''review''; status = str review ''status'' in
      noteEvent pf n (zh_autoApproval @ str (obj p ''action'') ''type'') (orText (optStr review ''rationale'') status)
        (runStatus ''inProgress'' ''approved'' status)
        (Some (keyOf [lit ''review'', str p ''threadId'', str p ''reviewId'']))
        (Some (str p ''threadId'')) (Some (str p ''turnId'')) st)"

definition onStrictReview :: "platform \<Rightarrow> ServerNotification \<Rightarrow> ServerEventStore \<Rightarrow> ServerEventStore" where
  "onStrictReview pf n st =
     noteEvent pf n zh_strictReviewRequired zh_turnNeedsStrictReview Warned None
       (Some (str (params n) ''threadId'')) (Some (str (params n) ''turnId'')) st"

definition onMcpProgress :: "platform \<Rightarrow> ServerNotification \<Rightarrow> ServerEventStore \<Rightarrow> ServerEventStore" where
  "onMcpProgress pf n st =
     (let p = params n in
      noteEvent pf n zh_mcpToolProgress (str p ''message'') Running
        (Some (keyOf [lit ''mcp-call'', str p ''threadId'', str p ''turnId'', str p ''itemId'']))
        (Some (str p ''threadId'')) (Some (str p ''turnId'')) st)"

definition bumpMcp :: "ServerEventStore \<Rightarrow> ServerEventStore" where
  "bumpMcp st = patch (\<lambda>s. s\<lparr>ev_mcpVersion := ev_mcpVersion s + 1\<rparr>) st"

definition onMcpStartup :: "platform \<Rightarrow> ServerNotification \<Rightarrow> ServerEventStore \<Rightarrow> ServerEventStore" where
  "onMcpStartup pf n st =
     (let p = params n; status = str p ''status'' in
      noteEvent pf n (zh_mcpPrefix @ str p ''name'')
        (orText (optStr p ''error'') (orText (optStr p ''failureReason'') status))
        (runStatus ''starting'' ''ready'' status)
        (Some (keyOf [lit ''mcp-server'', str p ''threadId'', str p ''name''])) (optStr p ''threadId'') None
        (bumpMcp st))"

definition onMcpLogin :: "platform \<Rightarrow> ServerNotification \<Rightarrow> ServerEventStore \<Rightarrow> ServerEventStore" where
  "onMcpLogin pf n st =
     (let p = params n; success = flag p ''success'' in
      noteEvent pf n (zh_mcpAuthentication @ str p ''name'')
        (if success then zh_authenticated else orText (optStr p ''error'') zh_authenticationFailed)
        (if success then Completed else Failed) None (optStr p ''threadId'') None (bumpMcp st))"

definition onMcpStream :: "platform \<Rightarrow> ServerNotification \<Rightarrow> ServerEventStore \<Rightarrow> ServerEventStore" where
  "onMcpStream pf n st =
     (let p = params n in
      recordEvent pf n zh_mcpSubscriptionEvent
        (str p ''subscriptionId'' @ zh_separator @ str (obj p ''notification'') ''method'') Informed None None None None False st)"

definition onError :: "platform \<Rightarrow> ServerNotification \<Rightarrow> ServerEventStore \<Rightarrow> ServerEventStore" where
  "onError pf n st =
     (let p = params n; willRetry = flag p ''willRetry''; failure = obj p ''error'' in
      recordEvent pf n (if willRetry then zh_retrying else zh_turnError) (str failure ''message'')
        (if willRetry then Running else Failed)
        (Some (keyOf [lit ''error'', str p ''threadId'', str p ''turnId'']))
        (Some (str p ''threadId'')) (Some (str p ''turnId'')) (optStr failure ''additionalDetails'') True st)"

definition onWarning :: "platform \<Rightarrow> ServerNotification \<Rightarrow> ServerEventStore \<Rightarrow> ServerEventStore" where
  "onWarning pf n st =
     noteEvent pf n (if nt_method n = ''warning'' then zh_serverWarning else zh_approvalWarning)
       (str (params n) ''message'') Warned None (optStr (params n) ''threadId'') None st"

definition onConfigWarning :: "platform \<Rightarrow> ServerNotification \<Rightarrow> ServerEventStore \<Rightarrow> ServerEventStore" where
  "onConfigWarning pf n st =
     recordEvent pf n zh_configWarning (str (params n) ''summary'') Warned None None None
       (optStr (params n) ''details'') True st"

definition onDeprecation :: "platform \<Rightarrow> ServerNotification \<Rightarrow> ServerEventStore \<Rightarrow> ServerEventStore" where
  "onDeprecation pf n st =
     recordEvent pf n zh_deprecation (str (params n) ''summary'') Warned None None None
       (optStr (params n) ''details'') True st"

subsection \<open>Models\<close>

definition turnKey :: "string \<Rightarrow> jsrecord \<Rightarrow> jstr" where
  "turnKey tag p = keyOf [lit tag, str p ''threadId'', str p ''turnId'']"

definition onModelRerouted :: "platform \<Rightarrow> ServerNotification \<Rightarrow> ServerEventStore \<Rightarrow> ServerEventStore" where
  "onModelRerouted pf n st =
     (let p = params n in
      noteEvent pf n zh_modelSwitched
        (str p ''fromModel'' @ zh_arrow @ str p ''toModel'' @ zh_separator @ str p ''reason'') Warned
        (Some (turnKey ''model'' p)) (Some (str p ''threadId'')) (Some (str p ''turnId'')) st)"

definition onSafetyBuffering :: "platform \<Rightarrow> ServerNotification \<Rightarrow> ServerEventStore \<Rightarrow> ServerEventStore" where
  "onSafetyBuffering pf n st =
     (let p = params n; showing = flag p ''showBufferingUi''; reasons = arr p ''reasons'' in
      noteEvent pf n zh_safetyBuffering
        (str p ''model'' @ zh_separator @ (if showing then zh_buffering else zh_bufferingEnded) @
           (if reasons = [] then [] else 0x0A # joinWith zh_enumerationComma (map stringOf reasons)))
        (if showing then Running else Completed)
        (Some (turnKey ''buffering'' p)) (Some (str p ''threadId'')) (Some (str p ''turnId'')) st)"

definition onVerification :: "platform \<Rightarrow> ServerNotification \<Rightarrow> ServerEventStore \<Rightarrow> ServerEventStore" where
  "onVerification pf n st =
     (let p = params n in
      noteEvent pf n zh_modelVerification (decDigits (length (arr p ''verifications'')) @ zh_verificationResults) Informed
        (Some (turnKey ''verification'' p)) (Some (str p ''threadId'')) (Some (str p ''turnId'')) st)"

definition onAuthRecovery :: "platform \<Rightarrow> ServerNotification \<Rightarrow> ServerEventStore \<Rightarrow> ServerEventStore" where
  "onAuthRecovery pf n st =
     (let p = params n in
      noteEvent pf n (zh_modelAuthRecovery @ str p ''provider'') (str p ''message'')
        (if nt_method n = ''modelProvider/authRecoveryStarted'' then Running else Completed)
        (Some (keyOf [lit ''auth-recovery'', str p ''threadId'', str p ''turnId'', str p ''provider'']))
        (Some (str p ''threadId'')) (Some (str p ''turnId'')) st)"

definition onModeration :: "platform \<Rightarrow> ServerNotification \<Rightarrow> ServerEventStore \<Rightarrow> ServerEventStore" where
  "onModeration pf n st =
     (let p = params n in
      noteEvent pf n zh_turnModeration zh_moderationMetadata Informed
        (Some (turnKey ''moderation'' p)) (Some (str p ''threadId'')) (Some (str p ''turnId'')) st)"

subsection \<open>Streams of text\<close>

definition onTerminalInput :: "platform \<Rightarrow> ServerNotification \<Rightarrow> ServerEventStore \<Rightarrow> ServerEventStore" where
  "onTerminalInput pf n st =
     (let p = params n; input = str p ''stdin'';
          rid = keyOf [lit ''stdin'', str p ''threadId'', str p ''turnId'', str p ''itemId''] in
      if length input = 0 then st
      else updateRecord rid (\<lambda>entry. entry\<lparr>er_terminalInput := Some (str p ''itemId'', str p ''processId'')\<rparr>)
        (recordEvent pf n zh_terminalInput (zh_processPrefix @ str p ''processId'') Informed (Some rid)
          (Some (str p ''threadId'')) (Some (str p ''turnId'')) (Some (previousText rid st @ input)) False st))"

definition onPatchOutput :: "platform \<Rightarrow> ServerNotification \<Rightarrow> ServerEventStore \<Rightarrow> ServerEventStore" where
  "onPatchOutput pf n st =
     (let p = params n;
          rid = keyOf [lit ''legacy-patch'', str p ''threadId'', str p ''turnId'', str p ''itemId''] in
      recordEvent pf n zh_patchOutput zh_deprecatedPatchStream Informed (Some rid)
        (Some (str p ''threadId'')) (Some (str p ''turnId'')) (Some (previousText rid st @ str p ''delta'')) False st)"

definition onCommandOutput :: "platform \<Rightarrow> ServerNotification \<Rightarrow> ServerEventStore \<Rightarrow> result" where
  "onCommandOutput pf n st = processOutput pf CommandProcess (str (params n) ''processId'') n st"

definition onProcessOutput :: "platform \<Rightarrow> ServerNotification \<Rightarrow> ServerEventStore \<Rightarrow> result" where
  "onProcessOutput pf n st = processOutput pf SpawnedProcess (str (params n) ''processHandle'') n st"

subsection \<open>Searches, imports, watches\<close>

definition onSearchUpdated :: "platform \<Rightarrow> ServerNotification \<Rightarrow> ServerEventStore \<Rightarrow> ServerEventStore" where
  "onSearchUpdated pf n st =
     (let p = params n; sessionId = str p ''sessionId''; files = arr p ''files'' in
      recordEvent pf n zh_fileSearch (str p ''query'' @ zh_separator @ decDigits (length files) @ zh_resultCount) Running
        (Some (keyOf [lit ''search'', sessionId])) None None
        (Some (joinWith [0x0A] (map (\<lambda>file. str (objectOf file) ''path'') (take LIMIT_ENTITIES files)))) False
        (patch (\<lambda>s. s\<lparr>ev_searches := put (ev_searches s) sessionId
           \<lparr>se_query = str p ''query'', se_files = take LIMIT_ENTITIES files, se_status = Running,
            se_truncated = length files > LIMIT_ENTITIES\<rparr>\<rparr>) st))"

definition onSearchCompleted :: "platform \<Rightarrow> ServerNotification \<Rightarrow> ServerEventStore \<Rightarrow> ServerEventStore" where
  "onSearchCompleted pf n st =
     (let sessionId = str (params n) ''sessionId'';
          previous = (case map_of (ev_searches (st_snapshot st)) sessionId of
              Some search \<Rightarrow> search
            | None \<Rightarrow> \<lparr>se_query = [], se_files = [], se_status = Running, se_truncated = False\<rparr>) in
      updateRecord (keyOf [lit ''search'', sessionId]) (\<lambda>entry. entry\<lparr>er_status := Completed\<rparr>)
        (patch (\<lambda>s. s\<lparr>ev_searches := put (ev_searches s) sessionId (previous\<lparr>se_status := Completed\<rparr>)\<rparr>) st))"

definition clippedMessage :: "jsval \<Rightarrow> jsval" where
  "clippedMessage failure =
     JObj (setProp (objectOf failure) (lit ''message'') (JStr (clipped LIMIT_TEXT (str (objectOf failure) ''message''))))"

definition retainedResult :: "jsrecord \<Rightarrow> jsrecord" where
  "retainedResult entry =
     setProp (setProp entry (lit ''failures'')
         (JArr (map Some (map clippedMessage (take LIMIT_ENTITIES (arr entry ''failures''))))))
       (lit ''successes'') (JArr (map Some (take LIMIT_ENTITIES (arr entry ''successes''))))"

definition onImport :: "platform \<Rightarrow> ServerNotification \<Rightarrow> ServerEventStore \<Rightarrow> ServerEventStore" where
  "onImport pf n st =
     (let p = params n; importId = str p ''importId'';
          completed = (nt_method n = ''externalAgentConfig/import/completed'');
          itemTypeResults = map objectOf (arr p ''itemTypeResults'');
          previous = (case map_of (ev_imports (st_snapshot st)) importId of Some i \<Rightarrow> im_results i | None \<Rightarrow> []);
          results = (if completed then itemTypeResults
            else filter (\<lambda>entry. \<not> list_ex (\<lambda>next. field next ''itemType'' = field entry ''itemType'') itemTypeResults)
                   previous @ itemTypeResults);
          failed = sum_list (map (\<lambda>entry. length (arr entry ''failures'')) results);
          success = sum_list (map (\<lambda>entry. length (arr entry ''successes'')) results);
          status = (if completed then (if failed > 0 then Warned else Completed) else Running) in
      noteEvent pf n zh_importConfiguration (decDigits success @ zh_succeededCount @ decDigits failed @ zh_failedCount) status
        (Some (keyOf [lit ''import'', importId])) None None
        (patch (\<lambda>s. s\<lparr>ev_imports := put (ev_imports s) importId
           \<lparr>im_results = map retainedResult (take LIMIT_ENTITIES results), im_status = status\<rparr>\<rparr>) st))"

definition onFilesChanged :: "platform \<Rightarrow> ServerNotification \<Rightarrow> ServerEventStore \<Rightarrow> ServerEventStore" where
  "onFilesChanged pf n st =
     (let p = params n; watchId = str p ''watchId''; changedPaths = map stringOf (arr p ''changedPaths'');
          previous = map_of (ev_fsVersionsByWatch (st_snapshot st)) watchId;
          paths = distinctInOrder ((case previous of None \<Rightarrow> [] | Some w \<Rightarrow> fw_changedPaths w) @ changedPaths) in
      recordEvent pf n zh_watchChanged
        (zh_watchPrefix @ watchId @ zh_separator @ decDigits (length changedPaths) @ zh_changedPathCount) Informed
        (Some (keyOf [lit ''fs'', watchId])) None None (Some (joinWith [0x0A] paths)) False
        (patch (\<lambda>s. s\<lparr>ev_fsVersionsByWatch := put (ev_fsVersionsByWatch s) watchId
           \<lparr>fw_version = (case previous of None \<Rightarrow> 0 | Some w \<Rightarrow> fw_version w) + 1,
            fw_changedPaths = takeLast LIMIT_ENTITIES paths,
            fw_truncated = holds fw_truncated previous \<or> length paths > LIMIT_ENTITIES\<rparr>\<rparr>) st))"

definition onSkillsChanged :: "platform \<Rightarrow> ServerNotification \<Rightarrow> ServerEventStore \<Rightarrow> ServerEventStore" where
  "onSkillsChanged pf n st =
     noteEvent pf n zh_skillsChanged zh_skillsNeedRefresh Informed (Some (lit ''skills'')) None None
       (patch (\<lambda>s. s\<lparr>ev_skillsVersion := ev_skillsVersion s + 1\<rparr>) st)"

definition onAppsUpdated :: "platform \<Rightarrow> ServerNotification \<Rightarrow> ServerEventStore \<Rightarrow> ServerEventStore" where
  "onAppsUpdated pf n st =
     noteEvent pf n zh_appsUpdated (decDigits (length (arr (params n) ''data'')) @ zh_appCount) Informed
       (Some (lit ''apps'')) None None
       (patch (\<lambda>s. s\<lparr>ev_appVersion := ev_appVersion s + 1\<rparr>) st)"

subsection \<open>Accounts, attachments, Windows\<close>

definition onLoginCompleted :: "platform \<Rightarrow> ServerNotification \<Rightarrow> ServerEventStore \<Rightarrow> ServerEventStore" where
  "onLoginCompleted pf n st =
     (let success = flag (params n) ''success'' in
      noteEvent pf n zh_accountLogin (if success then zh_loggedIn else orText (optStr (params n) ''error'') zh_loginFailed)
        (if success then Completed else Failed) None None None st)"

definition gatewayStatus :: "jstr \<Rightarrow> ServerEventStatus" where
  "gatewayStatus status =
     (if status = lit ''notReady'' then Warned else if status = lit ''started'' then Running
      else if status = lit ''succeeded'' then Completed else Failed)"

definition onGatewayOAuth :: "platform \<Rightarrow> ServerNotification \<Rightarrow> ServerEventStore \<Rightarrow> ServerEventStore" where
  "onGatewayOAuth pf n st =
     (let p = params n in
      recordEvent pf n (zh_gatewayAuthentication @ str p ''providerId'') (orText (optStr p ''error'') (str p ''status''))
        (gatewayStatus (str p ''status'')) (Some (keyOf [lit ''gateway-oauth'', str p ''providerId'']))
        None None None False st)"

definition onAttachment :: "platform \<Rightarrow> ServerNotification \<Rightarrow> ServerEventStore \<Rightarrow> ServerEventStore" where
  "onAttachment pf n st =
     (let p = params n in
      noteEvent pf n (if str p ''operation'' = lit ''created'' then zh_attachmentCreated else zh_attachmentDeleted)
        (str p ''attachmentType'' @ zh_separator @ str p ''attachmentId'') Completed
        (Some (keyOf [lit ''attachment'', str p ''threadId'', str p ''attachmentId''])) (Some (str p ''threadId'')) None st)"

definition onWorldWritable :: "platform \<Rightarrow> ServerNotification \<Rightarrow> ServerEventStore \<Rightarrow> ServerEventStore" where
  "onWorldWritable pf n st =
     (let p = params n in
      recordEvent pf n zh_windowsDirectoryWarning
        (if flag p ''failedScan'' then zh_permissionScanFailed
         else zh_worldWritableFound @ numberText (pf_numberText pf) (field p ''extraCount'') @ zh_pathCount)
        Warned None None None (Some (joinWith [0x0A] (map stringOf (arr p ''samplePaths'')))) True st)"

definition onSandboxSetup :: "platform \<Rightarrow> ServerNotification \<Rightarrow> ServerEventStore \<Rightarrow> ServerEventStore" where
  "onSandboxSetup pf n st =
     (let p = params n; success = flag p ''success'' in
      noteEvent pf n zh_windowsSandboxSetup
        (if success then str p ''mode'' @ zh_setupSucceeded else orText (optStr p ''error'') zh_setupFailed)
        (if success then Completed else Failed) None None None st)"

subsection \<open>Life cycle of items, turns and threads\<close>

definition onItem :: "platform \<Rightarrow> ServerNotification \<Rightarrow> ServerEventStore \<Rightarrow> ServerEventStore" where
  "onItem pf n st =
     (let p = params n; item = obj p ''item'';
          progressId = keyOf [lit ''mcp-call'', str p ''threadId'', str p ''turnId'', str item ''id''] in
      if str item ''type'' = lit ''mcpToolCall'' \<and> findRecord progressId st \<noteq> None
      then updateRecord progressId (\<lambda>entry. entry\<lparr>er_status :=
             runStatus ''inProgress'' ''completed'' (str item ''status'')\<rparr>) st
      else st)"

definition onTurnCompleted :: "platform \<Rightarrow> ServerNotification \<Rightarrow> ServerEventStore \<Rightarrow> ServerEventStore" where
  "onTurnCompleted pf n st =
     finishThread (str (params n) ''threadId'') (Some (str (obj (params n) ''turn'') ''id'')) st"

definition onThreadClosed :: "platform \<Rightarrow> ServerNotification \<Rightarrow> ServerEventStore \<Rightarrow> ServerEventStore" where
  "onThreadClosed pf n st =
     (let threadId = str (params n) ''threadId'' in
      noteEvent pf n zh_subscriptionClosed zh_transientStateUncertain Informed None (Some threadId) None
        (finishThread threadId None st))"

definition onThreadRemoved :: "platform \<Rightarrow> ServerNotification \<Rightarrow> ServerEventStore \<Rightarrow> ServerEventStore" where
  "onThreadRemoved pf n st =
     (let threadId = str (params n) ''threadId'';
          st1 = clearThread threadId st;
          st2 = (if nt_method n = ''thread/deleted''
            then patch (\<lambda>s. s\<lparr>ev_deletedThreadIds := distinctInOrder (ev_deletedThreadIds s @ [threadId])\<rparr>) st1
            else st1) in
      if nt_method n = ''thread/reverted''
      then noteEvent pf n zh_historyReverted zh_derivedStateCleared Informed None (Some threadId) None st2
      else st2)"

definition onCompacted :: "platform \<Rightarrow> ServerNotification \<Rightarrow> ServerEventStore \<Rightarrow> ServerEventStore" where
  "onCompacted pf n st =
     noteEvent pf n zh_contextCompacted zh_legacyCompaction Completed None
       (Some (str (params n) ''threadId'')) (Some (str (params n) ''turnId'')) st"

definition onSettings :: "platform \<Rightarrow> ServerNotification \<Rightarrow> ServerEventStore \<Rightarrow> ServerEventStore" where
  "onSettings pf n st =
     (let p = params n; settings = obj p ''threadSettings'' in
      noteEvent pf n zh_settingsUpdated (str settings ''model'' @ zh_separator @ str settings ''cwd'') Informed
        (Some (keyOf [lit ''settings'', str p ''threadId''])) (Some (str p ''threadId'')) None st)"

end
