(* ===== verification/EventRealtime.thy ===== *)
theory EventRealtime
  imports EventConsume
begin

text \<open>
  The realtime sessions of \<open>src/appServer/serverEventState.ts\<close>, one handler per group of
  methods of the function \<open>realtime\<close>, and \<open>consume\<close> as the table of all handlers.
\<close>

definition realtimeOf :: "jstr \<Rightarrow> ServerEventStore \<Rightarrow> ServerRealtimeState" where
  "realtimeOf threadId st =
     (case map_of (ev_realtimeByThread (st_snapshot st)) threadId of None \<Rightarrow> emptyRealtime | Some v \<Rightarrow> v)"

definition setRealtime :: "jstr \<Rightarrow> ServerRealtimeState \<Rightarrow> ServerEventStore \<Rightarrow> ServerEventStore" where
  "setRealtime threadId v st =
     patch (\<lambda>s. s\<lparr>ev_realtimeByThread := put (ev_realtimeByThread s) threadId v\<rparr>) st"

definition onRealtimeStarted :: "platform \<Rightarrow> ServerNotification \<Rightarrow> ServerEventStore \<Rightarrow> ServerEventStore" where
  "onRealtimeStarted pf n st =
     (let p = params n; threadId = str p ''threadId'' in
      setRealtime threadId (emptyRealtime\<lparr>rs_sessionId := field p ''realtimeSessionId'', rs_version := field p ''version''\<rparr>)
        (noteEvent pf n zh_realtimeSession zh_realtimeConnected Running (Some (keyOf [lit ''realtime'', threadId])) (Some threadId) None st))"

definition onRealtimeItemAdded :: "platform \<Rightarrow> ServerNotification \<Rightarrow> ServerEventStore \<Rightarrow> ServerEventStore" where
  "onRealtimeItemAdded pf n st =
     (let threadId = str (params n) ''threadId'' in
      setRealtime threadId (realtimeOf threadId st)
        (noteEvent pf n zh_realtimeItem zh_realtimeContent Informed None (Some threadId) None st))"

definition onRealtimeItem :: "platform \<Rightarrow> ServerNotification \<Rightarrow> ServerEventStore \<Rightarrow> ServerEventStore" where
  "onRealtimeItem pf n st =
     (let p = params n; threadId = str p ''threadId''; item = obj p ''item''; kind = str item ''type'';
          completed = (nt_method n = ''thread/realtime/item/completed'');
          status = (if kind = lit ''realtimeSessionClosed'' \<and> str item ''outcome'' = lit ''failed'' then Failed
                    else if completed then Completed else Running) in
      setRealtime threadId (realtimeOf threadId st)
        (recordEvent pf n zh_realtimeItem kind status (Some (keyOf [lit ''realtime-item'', threadId, str item ''id'']))
          (Some threadId) None (if kind = lit ''transcriptSegment'' then Some (str item ''text'') else None) True st))"

definition onRealtimeItemDelta :: "platform \<Rightarrow> ServerNotification \<Rightarrow> ServerEventStore \<Rightarrow> ServerEventStore" where
  "onRealtimeItemDelta pf n st =
     (let p = params n; threadId = str p ''threadId'';
          rid = keyOf [lit ''realtime-item'', threadId, str p ''itemId''] in
      setRealtime threadId (realtimeOf threadId st)
        (recordEvent pf n zh_realtimeItem (lit ''transcriptSegment'') Running (Some rid) (Some threadId) None
          (Some (previousText rid st @ str p ''delta'')) False st))"

fun lastIndex :: "('a \<Rightarrow> bool) \<Rightarrow> 'a list \<Rightarrow> nat option" where
  "lastIndex P [] = None"
| "lastIndex P (x # xs) =
     (case lastIndex P xs of Some i \<Rightarrow> Some (Suc i) | None \<Rightarrow> if P x then Some 0 else None)"

definition onTranscript :: "platform \<Rightarrow> ServerNotification \<Rightarrow> ServerEventStore \<Rightarrow> ServerEventStore" where
  "onTranscript pf n st =
     (let p = params n; threadId = str p ''threadId''; v = realtimeOf threadId st; role = str p ''role'';
          finished = (nt_method n = ''thread/realtime/transcript/done'');
          index = lastIndex (\<lambda>entry. tr_role entry = role \<and> \<not> tr_completed entry) (rs_transcripts v);
          previous = map_option (\<lambda>i. rs_transcripts v ! i) index;
          text' = (if finished then str p ''text''
                   else (case previous of None \<Rightarrow> [] | Some t \<Rightarrow> tr_text t) @ str p ''delta'');
          transcript = \<lparr>tr_role = role, tr_text = clipped LIMIT_TEXT text', tr_completed = finished,
            tr_truncated = length text' > LIMIT_TEXT \<or> \<not> finished \<and> holds tr_truncated previous\<rparr>;
          transcripts = (case index of None \<Rightarrow> rs_transcripts v @ [transcript]
                         | Some i \<Rightarrow> (rs_transcripts v)[i := transcript]) in
      setRealtime threadId (v\<lparr>rs_transcripts := takeLast LIMIT_ENTITIES transcripts\<rparr>)
        (recordEvent pf n zh_realtimeTranscript (role @ zh_separator @ (if finished then zh_transcriptDone else zh_transcribing))
          (if finished then Completed else Running) (Some (keyOf [lit ''transcript'', threadId, role]))
          (Some threadId) None (Some text') False st))"

text \<open>
  The length of decoded base64 text as the code computes it, \<open>length * 3 / 4\<close> minus the
  padding, which is a multiple of a quarter: counted in quarters here.
\<close>

definition base64Quarters :: "jstr \<Rightarrow> int" where
  "base64Quarters s =
     3 * int (length s) - (if suffix [0x3D, 0x3D] s then 8 else if suffix [0x3D] s then 4 else 0)"

definition chunkQuarters :: "jsrecord \<Rightarrow> int" where
  "chunkQuarters chunk = base64Quarters (str chunk ''data'')"

fun trimChunks :: "jsrecord list \<Rightarrow> int \<Rightarrow> bool \<Rightarrow> jsrecord list \<times> bool" where
  "trimChunks [] size' dropped = ([], dropped)"
| "trimChunks (chunk # chunks) size' dropped =
     (if size' > 4 * int LIMIT_AUDIO_BYTES \<or> length (chunk # chunks) > LIMIT_ENTITIES
      then trimChunks chunks (size' - chunkQuarters chunk) True
      else (chunk # chunks, dropped))"

definition sameFormat :: "jsrecord \<Rightarrow> jsrecord \<Rightarrow> bool" where
  "sameFormat previous audio \<longleftrightarrow>
     field previous ''sampleRate'' = field audio ''sampleRate'' \<and>
     field previous ''numChannels'' = field audio ''numChannels'' \<and> field previous ''itemId'' = field audio ''itemId''"

definition onAudio :: "platform \<Rightarrow> ServerNotification \<Rightarrow> ServerEventStore \<Rightarrow> result" where
  "onAudio pf n st =
     (let p = params n; threadId = str p ''threadId''; v = realtimeOf threadId st; audio = obj p ''audio'' in
      case base64Decode (str audio ''data'') of
        None \<Rightarrow> Threw st
      | Some decoded \<Rightarrow>
          let bytes = length decoded;
              retained = (bytes \<le> LIMIT_AUDIO_BYTES);
              same = (rs_chunks v = [] \<or> sameFormat (last (rs_chunks v)) audio);
              chunks = (if retained then (if same then rs_chunks v else []) @ [audio] else []);
              trimmed = trimChunks chunks (sum_list (map chunkQuarters chunks)) (\<not> same \<or> \<not> retained);
              v' = v\<lparr>rs_chunks := fst trimmed, rs_audioChunks := rs_audioChunks v + 1,
                rs_audioBytes := rs_audioBytes v + bytes, rs_audioTruncated := rs_audioTruncated v \<or> snd trimmed,
                rs_latestAudio := (if retained then Some audio else None)\<rparr> in
          Done (setRealtime threadId v'
            (recordEvent pf n zh_realtimeAudio
              (decDigits (rs_audioChunks v') @ zh_audioChunkCount @ decDigits (rs_audioBytes v') @ zh_byteCount @
                 numberText (pf_numberText pf) (field audio ''sampleRate'') @ zh_hertz @
                 numberText (pf_numberText pf) (field audio ''numChannels'') @ zh_audioChannels)
              Running (Some (keyOf [lit ''audio'', threadId])) (Some threadId) None None False st)))"

definition onRealtimeSdp :: "platform \<Rightarrow> ServerNotification \<Rightarrow> ServerEventStore \<Rightarrow> ServerEventStore" where
  "onRealtimeSdp pf n st =
     (let p = params n; threadId = str p ''threadId''; sdp = str p ''sdp'' in
      setRealtime threadId ((realtimeOf threadId st)\<lparr>rs_sdp := Some (take LIMIT_TEXT sdp)\<rparr>)
        (recordEvent pf n zh_realtimeNegotiation (zh_sdpReceived @ decDigits (length sdp) @ zh_characterCount) Informed
          (Some (keyOf [lit ''sdp'', threadId])) (Some threadId) None None False st))"

definition onRealtimeError :: "platform \<Rightarrow> ServerNotification \<Rightarrow> ServerEventStore \<Rightarrow> ServerEventStore" where
  "onRealtimeError pf n st =
     (let p = params n; threadId = str p ''threadId'' in
      setRealtime threadId ((realtimeOf threadId st)\<lparr>rs_status := Failed\<rparr>)
        (noteEvent pf n zh_realtimeError (str p ''message'') Failed (Some (keyOf [lit ''realtime'', threadId]))
          (Some threadId) None st))"

definition onRealtimeClosed :: "platform \<Rightarrow> ServerNotification \<Rightarrow> ServerEventStore \<Rightarrow> ServerEventStore" where
  "onRealtimeClosed pf n st =
     (let p = params n; threadId = str p ''threadId'' in
      setRealtime threadId ((realtimeOf threadId st)\<lparr>rs_status := Completed, rs_sdp := None\<rparr>)
        (patch (\<lambda>s. s\<lparr>ev_records := map (\<lambda>entry.
             if er_threadId entry = Some threadId \<and> prefix ''thread/realtime/'' (er_method entry) \<and> er_status entry = Running
             then entry\<lparr>er_status := Unknown\<rparr> else entry) (ev_records s)\<rparr>)
          (noteEvent pf n zh_realtimeClosed (orText (optStr p ''reason'') zh_realtimeEnded) Completed
            (Some (keyOf [lit ''realtime'', threadId])) (Some threadId) None st)))"

subsection \<open>The table\<close>

type_synonym handler = "platform \<Rightarrow> ServerNotification \<Rightarrow> ServerEventStore \<Rightarrow> result"

definition total :: "(platform \<Rightarrow> ServerNotification \<Rightarrow> ServerEventStore \<Rightarrow> ServerEventStore) \<Rightarrow> handler" where
  "total h pf n st = Done (h pf n st)"

definition threadHandlers :: "(string \<times> handler) list" where
  "threadHandlers =
    [(''thread/tokenUsage/updated'', total onTokenUsage),
     (''turn/diff/updated'', total onTurnDiff),
     (''thread/goal/updated'', total onGoalUpdated),
     (''thread/goal/cleared'', total onGoalCleared),
     (''thread/queue/changed'', total onQueueChanged),
     (''project/changed'', total onProjectChanged),
     (''thread/project/updated'', total onThreadProject),
     (''thread/environment/connected'', total onEnvironment),
     (''thread/environment/disconnected'', total onEnvironment),
     (''remoteControl/status/changed'', total onRemoteControl),
     (''hook/started'', total onHook),
     (''hook/completed'', total onHook),
     (''item/autoApprovalReview/started'', total onReview),
     (''item/autoApprovalReview/completed'', total onReview),
     (''autoApprovalReview/strictReviewRequired'', total onStrictReview),
     (''item/mcpToolCall/progress'', total onMcpProgress),
     (''mcpServer/startupStatus/updated'', total onMcpStartup),
     (''mcpServer/oauthLogin/completed'', total onMcpLogin),
     (''mcpServer/event/stream/notification'', total onMcpStream),
     (''error'', total onError),
     (''warning'', total onWarning),
     (''guardianWarning'', total onWarning),
     (''configWarning'', total onConfigWarning),
     (''deprecationNotice'', total onDeprecation),
     (''model/rerouted'', total onModelRerouted),
     (''model/safetyBuffering/updated'', total onSafetyBuffering),
     (''model/verification'', total onVerification),
     (''modelProvider/authRecoveryStarted'', total onAuthRecovery),
     (''modelProvider/authRecoveryCompleted'', total onAuthRecovery),
     (''turn/moderationMetadata'', total onModeration)]"

definition streamHandlers :: "(string \<times> handler) list" where
  "streamHandlers =
    [(''item/commandExecution/terminalInteraction'', total onTerminalInput),
     (''item/fileChange/outputDelta'', total onPatchOutput),
     (''command/exec/outputDelta'', onCommandOutput),
     (''process/outputDelta'', onProcessOutput),
     (''process/exited'', total processExited),
     (''fuzzyFileSearch/sessionUpdated'', total onSearchUpdated),
     (''fuzzyFileSearch/sessionCompleted'', total onSearchCompleted),
     (''externalAgentConfig/import/progress'', total onImport),
     (''externalAgentConfig/import/completed'', total onImport),
     (''fs/changed'', total onFilesChanged),
     (''skills/changed'', total onSkillsChanged),
     (''app/list/updated'', total onAppsUpdated),
     (''account/login/completed'', total onLoginCompleted),
     (''account/gatewayOAuth/changed'', total onGatewayOAuth),
     (''thread/attachment/updated'', total onAttachment),
     (''windows/worldWritableWarning'', total onWorldWritable),
     (''windowsSandbox/setupCompleted'', total onSandboxSetup),
     (''thread/realtime/started'', total onRealtimeStarted),
     (''thread/realtime/itemAdded'', total onRealtimeItemAdded),
     (''thread/realtime/item/started'', total onRealtimeItem),
     (''thread/realtime/item/transcript/delta'', total onRealtimeItemDelta),
     (''thread/realtime/item/completed'', total onRealtimeItem),
     (''thread/realtime/transcript/delta'', total onTranscript),
     (''thread/realtime/transcript/done'', total onTranscript),
     (''thread/realtime/outputAudio/delta'', onAudio),
     (''thread/realtime/sdp'', total onRealtimeSdp),
     (''thread/realtime/error'', total onRealtimeError),
     (''thread/realtime/closed'', total onRealtimeClosed),
     (''item/started'', total onItem),
     (''item/completed'', total onItem),
     (''turn/completed'', total onTurnCompleted),
     (''thread/closed'', total onThreadClosed),
     (''thread/deleted'', total onThreadRemoved),
     (''thread/reverted'', total onThreadRemoved),
     (''thread/compacted'', total onCompacted),
     (''thread/settings/updated'', total onSettings)]"

text \<open>What other owners consume.\<close>

definition ignoredMethods :: "string list" where
  "ignoredMethods =
    [''account/updated'', ''account/rateLimits/updated'', ''serverRequest/resolved'', ''thread/started'',
     ''thread/status/changed'', ''thread/archived'', ''thread/unarchived'', ''thread/name/updated'', ''turn/started'',
     ''turn/plan/updated'', ''item/agentMessage/delta'', ''item/plan/delta'', ''item/commandExecution/outputDelta'',
     ''item/fileChange/patchUpdated'', ''item/reasoning/summaryPartAdded'', ''item/reasoning/summaryTextDelta'',
     ''item/reasoning/textDelta'']"

definition handlers :: "(string \<times> handler) list" where
  "handlers = threadHandlers @ streamHandlers @ map (\<lambda>m. (m, total (\<lambda>pf n st. st))) ignoredMethods"

text \<open>The listeners hear of a new snapshot, not of a call that throws or changes nothing.\<close>

definition consume :: "platform \<Rightarrow> ServerNotification \<Rightarrow> ServerEventStore \<Rightarrow> result" where
  "consume pf n st =
     (case map_of handlers (nt_method n) of
        None \<Rightarrow> Threw st
      | Some h \<Rightarrow>
          (case h pf n st of
             Threw st' \<Rightarrow> Threw st'
           | Done st' \<Rightarrow> Done (if st_identity st' \<noteq> st_identity st then publish st' else st')))"

end
