(* ===== verification/EventApi.thy ===== *)
theory EventApi
  imports EventRealtime RpcTypes
begin

text \<open>
  The public operations of \<open>ServerEventStore\<close> besides \<open>consume\<close>: hydration with the answer of
  a query, failures of queries, processes started by the client, loss of the connection. Then the
  events of a store and its reachable states.
\<close>

definition canHydrateThread :: "jstr \<Rightarrow> ServerEventStore \<Rightarrow> bool" where
  "canHydrateThread threadId st \<longleftrightarrow>
     ev_connected (st_snapshot st) \<and> threadId \<notin> set (ev_deletedThreadIds (st_snapshot st))"

definition queueVersion :: "jstr \<Rightarrow> ServerEventStore \<Rightarrow> nat" where
  "queueVersion threadId st = versionOf (ev_queueVersionsByThread (st_snapshot st)) threadId"

definition goalVersion :: "jstr \<Rightarrow> ServerEventStore \<Rightarrow> nat" where
  "goalVersion threadId st = versionOf (ev_goalVersionsByThread (st_snapshot st)) threadId"

subsection \<open>The queue of a thread\<close>

definition inputPreview :: "jsval \<Rightarrow> QueueInputPreview" where
  "inputPreview v =
     (let input = objectOf v; kind = str input ''type'' in
      if kind = lit ''text'' then PreviewText (clipped LIMIT_TEXT (str input ''text''))
      else if kind = lit ''localImage'' \<or> kind = lit ''localAudio''
      then PreviewFile kind (clipped LIMIT_DETAILS (str input ''path''))
      else if kind = lit ''skill'' \<or> kind = lit ''mention''
      then PreviewNamed kind (clipped LIMIT_DETAILS (str input ''name'')) (clipped LIMIT_DETAILS (str input ''path''))
      else PreviewMedia kind)"

definition queueSummary :: "jsval \<Rightarrow> QueuedSubmissionSummary" where
  "queueSummary v =
     (let entry = objectOf v; inputs = arr entry ''input'';
          text' = joinWith [0x0A] (map (\<lambda>input. str (objectOf input) ''text'')
            (filter (\<lambda>input. str (objectOf input) ''type'' = lit ''text'') inputs)) in
      \<lparr>qs_id = str entry ''id'', qs_clientUserMessageId = field entry ''clientUserMessageId'',
       qs_input = field entry ''input'', qs_text = clipped LIMIT_TEXT text',
       qs_inputs = map inputPreview (take LIMIT_ENTITIES inputs),
       qs_truncated = length text' > LIMIT_TEXT \<or> length inputs > LIMIT_ENTITIES\<rparr>)"

definition threadParams :: "string \<Rightarrow> jstr \<Rightarrow> ServerNotification" where
  "threadParams method threadId = \<lparr>nt_method = method, nt_params = JObj [jprop ''threadId'' (JStr threadId)]\<rparr>"

definition hydrateQueue ::
  "platform \<Rightarrow> jstr \<Rightarrow> nat \<Rightarrow> jsval list \<Rightarrow> ServerEventStore \<Rightarrow> bool \<times> ServerEventStore" where
  "hydrateQueue pf threadId version entries st =
     (if \<not> canHydrateThread threadId st \<or> queueVersion threadId st \<noteq> version then (False, st)
      else
        let retained = map queueSummary (take LIMIT_ENTITIES entries);
            st1 = patch (\<lambda>s. s\<lparr>ev_queuesByThread := put (ev_queuesByThread s) threadId
              \<lparr>sq_version = version, sq_status = RefreshReady, sq_entries = retained, sq_error = None\<rparr>\<rparr>) st;
            st2 = recordEvent pf (threadParams ''thread/queue/changed'' threadId) zh_inputQueue
              (decDigits (length entries) @ zh_pendingInputCount) Completed (Some (keyOf [lit ''queue'', threadId]))
              (Some threadId) None (Some (joinWith [0x0A] (map qs_text retained))) False st1;
            st3 = (if length entries > length retained \<or> list_ex qs_truncated retained
              then updateRecord (keyOf [lit ''queue'', threadId]) (\<lambda>entry. entry\<lparr>er_truncated := True\<rparr>) st2
              else st2) in
        (True, publish st3))"

definition failQueue :: "jstr \<Rightarrow> nat \<Rightarrow> jstr \<Rightarrow> ServerEventStore \<Rightarrow> ServerEventStore" where
  "failQueue threadId version error st =
     (if \<not> canHydrateThread threadId st \<or> queueVersion threadId st \<noteq> version then st
      else publish (updateRecord (keyOf [lit ''queue'', threadId])
        (\<lambda>entry. entry\<lparr>er_status := Failed, er_detail := zh_queueRefreshFailed @ error\<rparr>)
        (patch (\<lambda>s. s\<lparr>ev_queuesByThread := put (ev_queuesByThread s) threadId
           \<lparr>sq_version = version, sq_status = RefreshError, sq_entries = [],
            sq_error = Some (clipped LIMIT_TEXT error)\<rparr>\<rparr>) st)))"

subsection \<open>The goal of a thread\<close>

definition hydrateGoal :: "jstr \<Rightarrow> nat \<Rightarrow> jsval \<Rightarrow> ServerEventStore \<Rightarrow> bool \<times> ServerEventStore" where
  "hydrateGoal threadId version goal st =
     (if \<not> canHydrateThread threadId st \<or> goalVersion threadId st \<noteq> version then (False, st)
      else (True, publish (patch (\<lambda>s. s\<lparr>ev_goalsByThread := put (ev_goalsByThread s) threadId
             \<lparr>gs_goal = goal, gs_stale = False\<rparr>\<rparr>) st)))"

definition failGoal :: "platform \<Rightarrow> jstr \<Rightarrow> nat \<Rightarrow> jstr \<Rightarrow> ServerEventStore \<Rightarrow> ServerEventStore" where
  "failGoal pf threadId version error st =
     (if \<not> canHydrateThread threadId st \<or> goalVersion threadId st \<noteq> version then st
      else publish (noteEvent pf (threadParams ''thread/goal/cleared'' threadId) zh_goalRefreshFailed error Failed
        (Some (keyOf [lit ''goal'', threadId])) (Some threadId) None
        (patch (\<lambda>s. s\<lparr>ev_goalsByThread := put (ev_goalsByThread s) threadId
           \<lparr>gs_goal = (case map_of (ev_goalsByThread s) threadId of None \<Rightarrow> JNull | Some g \<Rightarrow> gs_goal g),
            gs_stale = True\<rparr>\<rparr>) st)))"

subsection \<open>Projects\<close>

definition recordRefreshFailure :: "string \<Rightarrow> jstr \<Rightarrow> ServerEventStore \<Rightarrow> ServerEventStore" where
  "recordRefreshFailure method error st =
     publish (saveRecord (newRecord (keyOf [lit ''refresh'', lit method]) method zh_refreshFailed
       (clipped LIMIT_TEXT error) Failed) st)"

definition hydrateProjects :: "nat \<Rightarrow> jsval list \<Rightarrow> ServerEventStore \<Rightarrow> bool \<times> ServerEventStore" where
  "hydrateProjects version entries st =
     (if \<not> ev_connected (st_snapshot st) \<or> ev_projectVersion (st_snapshot st) \<noteq> version then (False, st)
      else (True, publish (patch (\<lambda>s. s\<lparr>ev_projectsSnapshot :=
             \<lparr>pj_version = version, pj_status = RefreshReady, pj_entries = take LIMIT_ENTITIES entries,
              pj_truncated = length entries > LIMIT_ENTITIES, pj_error = None\<rparr>\<rparr>) st)))"

definition failProjects :: "nat \<Rightarrow> jstr \<Rightarrow> ServerEventStore \<Rightarrow> ServerEventStore" where
  "failProjects version error st =
     (if \<not> ev_connected (st_snapshot st) \<or> ev_projectVersion (st_snapshot st) \<noteq> version then st
      else recordRefreshFailure ''project/changed'' error
        (patch (\<lambda>s. s\<lparr>ev_projectsSnapshot := (ev_projectsSnapshot s)\<lparr>pj_version := version,
           pj_status := RefreshError, pj_error := Some (clipped LIMIT_TEXT error)\<rparr>\<rparr>) st))"

subsection \<open>Diagnostics of the router\<close>

definition diagnosticTitle :: "RpcDiagnosticCode \<Rightarrow> (string \<times> jstr) option" where
  "diagnosticTitle code =
     (case code of
        UnknownNotification \<Rightarrow> Some (''unknown_notification'', zh_unsupportedNotification)
      | InvalidNotification \<Rightarrow> Some (''invalid_notification'', zh_invalidNotification)
      | NotificationHandlerFailed \<Rightarrow> Some (''notification_handler_failed'', zh_notificationFailed)
      | _ \<Rightarrow> None)"

definition knownMethod :: "jstr option \<Rightarrow> jstr option" where
  "knownMethod method =
     (case method of
        None \<Rightarrow> None
      | Some m \<Rightarrow> if list_ex (\<lambda>e. lit (fst e) = m) handlers then Some m else None)"

definition recordDiagnostic :: "RpcDiagnosticCode \<Rightarrow> jstr option \<Rightarrow> ServerEventStore \<Rightarrow> ServerEventStore" where
  "recordDiagnostic code method st =
     (case diagnosticTitle code of
        None \<Rightarrow> st
      | Some (name, title) \<Rightarrow>
          publish (saveRecord (newRecord
              (keyOf [lit ''diagnostic'', lit name, orText (knownMethod method) (lit ''unknown'')])
              ''protocol/diagnostic'' title
              (case knownMethod method of
                 None \<Rightarrow> zh_checkProtocolVersion
               | Some m \<Rightarrow> m @ zh_checkDiagnostics) Warned) st))"

subsection \<open>Processes of the client\<close>

definition completeCommand :: "platform \<Rightarrow> jstr \<Rightarrow> int \<Rightarrow> jstr \<Rightarrow> jstr \<Rightarrow> ServerEventStore \<Rightarrow> ServerEventStore" where
  "completeCommand pf processId exitCode out err st =
     publish (completeProcess pf CommandProcess processId exitCode out err False False st)"

definition startProcess :: "ProcessKind \<Rightarrow> jstr \<Rightarrow> ServerEventStore \<Rightarrow> ServerEventStore" where
  "startProcess kind pid st =
     publish (patch (\<lambda>s. s\<lparr>ev_processes := put (ev_processes s) (processKey kind pid) (freshProcess kind pid)\<rparr>)
       (dropStreams kind pid st))"

definition failProcess :: "ProcessKind \<Rightarrow> jstr \<Rightarrow> ServerEventStore \<Rightarrow> ServerEventStore" where
  "failProcess kind pid st =
     (let key = processKey kind pid; connected = ev_connected (st_snapshot st);
          status = (if connected then Failed else Unknown) in
      case map_of (ev_processes (st_snapshot st)) key of
        None \<Rightarrow> st
      | Some previous \<Rightarrow>
          publish (dropStreams kind pid (updateRecord key
            (\<lambda>entry. entry\<lparr>er_status := status,
               er_detail := (if connected then zh_processRequestFailed else zh_processResultUnknown)\<rparr>)
            (patch (\<lambda>s. s\<lparr>ev_processes := put (ev_processes s) key (previous\<lparr>ps_status := status\<rparr>)\<rparr>) st))))"

definition failCommand :: "jstr \<Rightarrow> ServerEventStore \<Rightarrow> ServerEventStore" where
  "failCommand processId st = failProcess CommandProcess processId st"

subsection \<open>The connection\<close>

definition connect :: "ServerEventStore \<Rightarrow> ServerEventStore" where
  "connect st =
     (if ev_connected (st_snapshot st) then st else publish (patch (\<lambda>s. s\<lparr>ev_connected := True\<rparr>) st))"

definition clear :: "ServerEventStore \<Rightarrow> ServerEventStore" where
  "clear st = publish (patch (\<lambda>s. initialSnapshot) st\<lparr>st_decoders := Map.empty, st_streamed := {}\<rparr>)"

definition settled :: "ServerEventStatus \<Rightarrow> ServerEventStatus" where
  "settled status = (if status = Running then Unknown else status)"

definition disconnected :: "ServerEventSnapshot \<Rightarrow> ServerEventSnapshot" where
  "disconnected s = s\<lparr>
     ev_connected := False,
     ev_goalVersionsByThread := mapValues (\<lambda>version. version + 1) (ev_goalVersionsByThread s),
     ev_projectVersion := ev_projectVersion s + 1,
     ev_projectsSnapshot := (ev_projectsSnapshot s)\<lparr>pj_status := RefreshUnknown\<rparr>,
     ev_records := map (\<lambda>entry. if er_status entry = Running then unknownRecord zh_connectionLost entry else entry)
       (ev_records s),
     ev_tokenUsageByThread := mapValues (\<lambda>entry. entry\<lparr>tu_stale := True\<rparr>) (ev_tokenUsageByThread s),
     ev_goalsByThread := mapValues (\<lambda>entry. entry\<lparr>gs_stale := True\<rparr>) (ev_goalsByThread s),
     ev_diffsByTurn := mapValues (\<lambda>entry. entry\<lparr>td_stale := True\<rparr>) (ev_diffsByTurn s),
     ev_queuesByThread := mapValues (\<lambda>entry. entry\<lparr>sq_status := RefreshUnknown\<rparr>) (ev_queuesByThread s),
     ev_queueVersionsByThread := mapValues (\<lambda>version. version + 1) (ev_queueVersionsByThread s),
     ev_environmentsByThread := mapValues (\<lambda>(e, _). (e, EnvironmentUnknown)) (ev_environmentsByThread s),
     ev_remoteControl := map_option (\<lambda>r. r\<lparr>rc_stale := True\<rparr>) (ev_remoteControl s),
     ev_searches := mapValues (\<lambda>entry. entry\<lparr>se_status := settled (se_status entry)\<rparr>) (ev_searches s),
     ev_imports := mapValues (\<lambda>entry. entry\<lparr>im_status := settled (im_status entry)\<rparr>) (ev_imports s),
     ev_processes := mapValues (\<lambda>entry. entry\<lparr>ps_status := settled (ps_status entry)\<rparr>) (ev_processes s),
     ev_realtimeByThread := mapValues (\<lambda>entry. entry\<lparr>rs_status := settled (rs_status entry), rs_chunks := [],
       rs_latestAudio := None, rs_sdp := None\<rparr>) (ev_realtimeByThread s)\<rparr>"

definition disconnect :: "ServerEventStore \<Rightarrow> ServerEventStore" where
  "disconnect st =
     (if \<not> ev_connected (st_snapshot st) then st
      else publish (patch disconnected st\<lparr>st_decoders := Map.empty, st_streamed := {}\<rparr>))"

subsection \<open>Events\<close>

datatype store_event =
    Consume ServerNotification
  | HydrateQueue jstr nat "jsval list"
  | FailQueue jstr nat jstr
  | HydrateGoal jstr nat jsval
  | FailGoal jstr nat jstr
  | HydrateProjects nat "jsval list"
  | FailProjects nat jstr
  | RefreshFailed string jstr
  | Diagnosed RpcDiagnosticCode "jstr option"
  | CommandCompleted jstr int jstr jstr
  | ProcessStarted ProcessKind jstr
  | ProcessFailed ProcessKind jstr
  | Connected
  | Disconnected
  | Cleared
  | Subscribed nat
  | Unsubscribed nat

definition afterwards :: "result \<Rightarrow> ServerEventStore" where
  "afterwards r = (case r of Done st \<Rightarrow> st | Threw st \<Rightarrow> st)"

definition happen :: "platform \<Rightarrow> store_event \<Rightarrow> ServerEventStore \<Rightarrow> ServerEventStore" where
  "happen pf ev st =
     (case ev of
        Consume n \<Rightarrow> afterwards (consume pf n st)
      | HydrateQueue threadId version entries \<Rightarrow> snd (hydrateQueue pf threadId version entries st)
      | FailQueue threadId version error \<Rightarrow> failQueue threadId version error st
      | HydrateGoal threadId version goal \<Rightarrow> snd (hydrateGoal threadId version goal st)
      | FailGoal threadId version error \<Rightarrow> failGoal pf threadId version error st
      | HydrateProjects version entries \<Rightarrow> snd (hydrateProjects version entries st)
      | FailProjects version error \<Rightarrow> failProjects version error st
      | RefreshFailed method error \<Rightarrow> recordRefreshFailure method error st
      | Diagnosed code method \<Rightarrow> recordDiagnostic code method st
      | CommandCompleted processId exitCode out err \<Rightarrow> completeCommand pf processId exitCode out err st
      | ProcessStarted kind pid \<Rightarrow> startProcess kind pid st
      | ProcessFailed kind pid \<Rightarrow> failProcess kind pid st
      | Connected \<Rightarrow> connect st
      | Disconnected \<Rightarrow> disconnect st
      | Cleared \<Rightarrow> clear st
      | Subscribed l \<Rightarrow> subscribe l st
      | Unsubscribed l \<Rightarrow> unsubscribe l st)"

inductive storeReachable :: "platform \<Rightarrow> ServerEventStore \<Rightarrow> bool" for pf where
  start: "storeReachable pf newStore"
| event: "storeReachable pf st \<Longrightarrow> storeReachable pf (happen pf ev st)"

fun happenAll :: "platform \<Rightarrow> store_event list \<Rightarrow> ServerEventStore \<Rightarrow> ServerEventStore" where
  "happenAll pf [] st = st"
| "happenAll pf (ev # evs) st = happenAll pf evs (happen pf ev st)"

lemma storeReachable_happenAll: "storeReachable pf st \<Longrightarrow> storeReachable pf (happenAll pf evs st)"
  by (induction evs arbitrary: st) (auto intro: storeReachable.event)
lemma happenAll_append: "happenAll pf (xs @ ys) st = happenAll pf ys (happenAll pf xs st)"
  by (induction xs arbitrary: st) simp_all

text \<open>
  A property of stores that the allowed events keep holds after a run of them; one that every event
  keeps and that holds at the start holds in every reachable store.
\<close>

locale store_run =
  fixes pf :: platform and allowed :: "store_event \<Rightarrow> bool" and I :: "ServerEventStore \<Rightarrow> bool"
  assumes kept: "allowed ev \<Longrightarrow> I st \<Longrightarrow> I (happen pf ev st)"
begin

lemma later: "list_all allowed evs \<Longrightarrow> I st \<Longrightarrow> I (happenAll pf evs st)"
  by (induction evs arbitrary: st) (simp_all add: kept)

end

locale store_invariant = store_run pf "\<lambda>_. True" I
  for pf :: platform and I :: "ServerEventStore \<Rightarrow> bool" +
  assumes initially: "I newStore"
begin

lemma always: "storeReachable pf st \<Longrightarrow> I st"
  by (induction rule: storeReachable.induct) (simp_all add: initially kept)

end

end
