(* ===== verification/EventInvariant.thy ===== *)
theory EventInvariant
  imports EventApi
begin

text \<open>
  The invariant of the event store: whatever a server sends, every collection of the snapshot stays
  within its limit, identifiers and keys are unique, and kept text is bounded. It is proved operation
  by operation; the collection \<open>store_intros\<close> holds the preservation lemmas.
\<close>

named_theorems store_intros \<open>operations that keep the invariant of the event store\<close>

definition entries_ok :: "('a \<Rightarrow> bool) \<Rightarrow> 'a entries \<Rightarrow> bool" where
  "entries_ok P m \<longleftrightarrow> bounded m \<and> (\<forall>e \<in> set m. P (snd e))"

definition entry_ok :: "ServerEventRecord \<Rightarrow> bool" where
  "entry_ok entry \<longleftrightarrow> length (orText (er_text entry) []) \<le> LIMIT_TEXT \<and>
     length (orText (er_params entry) []) \<le> LIMIT_DETAILS"

definition records_ok :: "ServerEventRecord list \<Rightarrow> bool" where
  "records_ok rs \<longleftrightarrow> length rs \<le> LIMIT_RECORDS \<and> distinct (map er_id rs) \<and> (\<forall>entry \<in> set rs. entry_ok entry)"

definition queue_ok :: "ServerQueueState \<Rightarrow> bool" where
  "queue_ok q \<longleftrightarrow> length (sq_entries q) \<le> LIMIT_ENTITIES \<and>
     (\<forall>entry \<in> set (sq_entries q). length (qs_text entry) \<le> LIMIT_TEXT \<and> length (qs_inputs entry) \<le> LIMIT_ENTITIES)"

definition process_ok :: "ServerProcessState \<Rightarrow> bool" where
  "process_ok p \<longleftrightarrow> length (ps_stdout p) \<le> LIMIT_TEXT \<and> length (ps_stderr p) \<le> LIMIT_TEXT"

definition audio_ok :: "jsrecord list \<Rightarrow> bool" where
  "audio_ok chunks \<longleftrightarrow> length chunks \<le> LIMIT_ENTITIES \<and>
     sum_list (map chunkQuarters chunks) \<le> 4 * int LIMIT_AUDIO_BYTES"

definition realtime_ok :: "ServerRealtimeState \<Rightarrow> bool" where
  "realtime_ok v \<longleftrightarrow> length (rs_transcripts v) \<le> LIMIT_ENTITIES \<and>
     (\<forall>t \<in> set (rs_transcripts v). length (tr_text t) \<le> LIMIT_TEXT) \<and> audio_ok (rs_chunks v) \<and>
     length (orText (rs_sdp v) []) \<le> LIMIT_TEXT"

definition snapshot_ok :: "ServerEventSnapshot \<Rightarrow> bool" where
  "snapshot_ok s \<longleftrightarrow>
     distinct (ev_deletedThreadIds s) \<and> records_ok (ev_records s) \<and>
     entries_ok (\<lambda>_. True) (ev_tokenUsageByThread s) \<and> entries_ok (\<lambda>_. True) (ev_goalsByThread s) \<and>
     distinct (keys (ev_goalVersionsByThread s)) \<and>
     entries_ok (\<lambda>d. length (td_diff d) \<le> LIMIT_TEXT) (ev_diffsByTurn s) \<and>
     distinct (keys (ev_queueVersionsByThread s)) \<and> entries_ok queue_ok (ev_queuesByThread s) \<and>
     length (pj_entries (ev_projectsSnapshot s)) \<le> LIMIT_ENTITIES \<and>
     entries_ok (\<lambda>_. True) (ev_projectChangesById s) \<and> entries_ok (\<lambda>_. True) (ev_projectsByThread s) \<and>
     entries_ok (\<lambda>_. True) (ev_environmentsByThread s) \<and>
     entries_ok (\<lambda>w. length (fw_changedPaths w) \<le> LIMIT_ENTITIES) (ev_fsVersionsByWatch s) \<and>
     entries_ok (\<lambda>w. length (se_files w) \<le> LIMIT_ENTITIES) (ev_searches s) \<and>
     entries_ok (\<lambda>w. length (im_results w) \<le> LIMIT_ENTITIES) (ev_imports s) \<and>
     entries_ok process_ok (ev_processes s) \<and> entries_ok realtime_ok (ev_realtimeByThread s)"

definition store_ok :: "ServerEventStore \<Rightarrow> bool" where
  "store_ok st \<longleftrightarrow> snapshot_ok (st_snapshot st) \<and> {k. st_decoders st k \<noteq> None} = st_streamed st"

subsection \<open>Collections\<close>

lemma entries_ok_Nil [simp]: "entries_ok P []"
  by (simp add: entries_ok_def bounded_def)

lemma entries_ok_distinct: "entries_ok P m \<Longrightarrow> distinct (keys m)"
  by (simp add: entries_ok_def bounded_def)

lemma entries_ok_put [simp]: "entries_ok P m \<Longrightarrow> entries_ok P (put m k v) \<longleftrightarrow> P v"
  using set_put [of m k v] put_mem [of m k v] put_bounded [of m k v]
  by (fastforce simp: entries_ok_def bounded_def)

lemma entries_ok_omit [simp]: "entries_ok P m \<Longrightarrow> entries_ok P (omit m k)"
  using omit_simps(1-3) [of m k] by (auto simp: entries_ok_def bounded_def intro: order_trans)

lemma entries_ok_mapValues:
  "entries_ok P m \<Longrightarrow> (\<And>v. P v \<Longrightarrow> Q (f v)) \<Longrightarrow> entries_ok Q (mapValues f m)"
  using mapValues_simps(1-3) [of m f] by (auto simp: entries_ok_def bounded_def)

lemma entries_ok_filter [simp]: "entries_ok P m \<Longrightarrow> entries_ok P (fromEntries (filter Q m))"
proof -
  assume ok: "entries_ok P m"
  then have d: "distinct (keys (filter Q m))" by (simp add: entries_ok_def bounded_def distinct_map_filter)
  have "length (filter Q m) \<le> length m" by simp
  with ok have "length (filter Q m) \<le> LIMIT_ENTITIES" unfolding entries_ok_def bounded_def by linarith
  then show ?thesis
    using ok d by (auto simp: entries_ok_def bounded_def fromEntries_distinct entry_simps)
qed

lemma entries_ok_lookup: "entries_ok P m \<Longrightarrow> map_of m k = Some v \<Longrightarrow> P v"
  by (auto simp: entries_ok_def dest!: map_of_SomeD)

lemma nextVersion_distinct [simp]: "distinct (keys m) \<Longrightarrow> distinct (keys (nextVersion m k))"
  by (simp add: nextVersion_def versionEntry_simps)

subsection \<open>Records\<close>

lemma records_ok_Nil [simp]: "records_ok []"
  by (simp add: records_ok_def)

lemma records_ok_map:
  "records_ok rs \<Longrightarrow> (\<And>e. er_id (f e) = er_id e) \<Longrightarrow> (\<And>e. entry_ok e \<Longrightarrow> entry_ok (f e)) \<Longrightarrow>
     records_ok (map f rs)"
  by (auto simp: records_ok_def comp_def)

lemma records_ok_filter [simp]: "records_ok rs \<Longrightarrow> records_ok (filter P rs)"
  by (auto simp: records_ok_def distinct_map_filter intro: order_trans [OF length_filter_le])

lemma records_ok_save:
  assumes "records_ok rs" and "entry_ok rec"
  shows "records_ok (takeLast LIMIT_RECORDS (filter (\<lambda>e. er_id e \<noteq> er_id rec) rs @ [rec]))"
proof -
  let ?rs = "filter (\<lambda>e. er_id e \<noteq> er_id rec) rs @ [rec]"
  have "distinct (map er_id ?rs)" using assms(1) by (auto simp: records_ok_def distinct_map_filter)
  moreover have "set (takeLast LIMIT_RECORDS ?rs) \<subseteq> set rs \<union> {rec}"
    using set_takeLast [of LIMIT_RECORDS ?rs] by auto
  ultimately show ?thesis
    using assms by (auto simp: records_ok_def distinct_map_takeLast)
qed

lemma store_ok_patch:
  "store_ok st \<Longrightarrow> snapshot_ok (f (st_snapshot st)) \<Longrightarrow> store_ok (patch f st)"
  by (simp add: store_ok_def patch_def)

lemma store_ok_snapshot: "store_ok st \<Longrightarrow> snapshot_ok (st_snapshot st)"
  by (simp add: store_ok_def)

lemma store_ok_publish [simp, store_intros]: "store_ok (publish st) \<longleftrightarrow> store_ok st"
  by (simp add: store_ok_def publish_def)

lemma store_ok_nextSerial [simp]: "store_ok (nextSerial st) \<longleftrightarrow> store_ok st"
  by (simp add: store_ok_def nextSerial_def)

lemma store_ok_subscribe [simp]: "store_ok (subscribe l st) \<longleftrightarrow> store_ok st"
  "store_ok (unsubscribe l st) \<longleftrightarrow> store_ok st"
  by (simp_all add: store_ok_def subscribe_def unsubscribe_def)

lemma store_ok_saveRecord [store_intros]:
  assumes "store_ok st" and "entry_ok rec"
  shows "store_ok (saveRecord rec st)"
  using records_ok_save [of "ev_records (st_snapshot st)" rec] assms
  unfolding saveRecord_def Let_def by (intro store_ok_patch) (simp_all add: store_ok_def snapshot_ok_def)

lemma store_ok_updateRecord [store_intros]:
  assumes "store_ok st" and "\<And>e. er_id (f e) = er_id e" and "\<And>e. entry_ok e \<Longrightarrow> entry_ok (f e)"
  shows "store_ok (updateRecord rid f st)"
proof -
  have "records_ok (map (\<lambda>e. if er_id e = rid then f e else e) (ev_records (st_snapshot st)))"
    using assms by (intro records_ok_map) (simp_all add: store_ok_def snapshot_ok_def)
  then show ?thesis
    using assms(1) unfolding updateRecord_def by (intro store_ok_patch) (simp_all add: store_ok_def snapshot_ok_def)
qed

lemma entry_ok_newRecord [simp]: "entry_ok (newRecord rid method title detail status)"
  by (simp add: entry_ok_def newRecord_def orText_def)

lemma orText_clipped [simp]: "length (orText (map_option (clipped k) x) []) \<le> k"
  "length (orText (map_option (take k) x) []) \<le> k"
  by (simp_all add: orText_def clipped_def split: option.split)

lemma store_ok_recordEvent [store_intros]:
  "store_ok st \<Longrightarrow>
     store_ok (recordEvent pf n title detail status rid threadId turnId text' includeParams st)"
  unfolding recordEvent_def Let_def
  by (rule store_ok_saveRecord) (simp_all add: entry_ok_def newRecord_def orText_clipped del: LIMIT_TEXT_def LIMIT_DETAILS_def)

subsection \<open>Handlers\<close>

lemma store_ok_patch_iff [simp]:
  "store_ok st \<Longrightarrow> store_ok (patch f st) \<longleftrightarrow> snapshot_ok (f (st_snapshot st))"
  by (simp add: store_ok_def patch_def)

declare store_ok_recordEvent [simp]

lemma snapshot_recordEvent [simp]:
  "ev_goalsByThread (st_snapshot (recordEvent pf n t d s rid th tu tx b st)) = ev_goalsByThread (st_snapshot st)"
  "ev_processes (st_snapshot (recordEvent pf n t d s rid th tu tx b st)) = ev_processes (st_snapshot st)"
  "ev_realtimeByThread (st_snapshot (recordEvent pf n t d s rid th tu tx b st)) =
     ev_realtimeByThread (st_snapshot st)"
  by (simp_all add: recordEvent_def saveRecord_def patch_def nextSerial_def Let_def)

lemma length_clipped [simp]: "length (clipped k s) \<le> k"
  by (simp add: clipped_def)

lemma store_ok_thread_handlers:
  assumes "store_ok st"
  shows "store_ok (onTokenUsage pf n st)" "store_ok (onTurnDiff pf n st)" "store_ok (onGoalUpdated pf n st)"
    "store_ok (onGoalCleared pf n st)" "store_ok (onQueueChanged pf n st)" "store_ok (onProjectChanged pf n st)"
    "store_ok (onThreadProject pf n st)" "store_ok (onEnvironment pf n st)" "store_ok (onRemoteControl pf n st)"
  using assms store_ok_snapshot [OF assms]
  by (simp_all add: onTokenUsage_def onTurnDiff_def onGoalUpdated_def onGoalCleared_def onQueueChanged_def
      onProjectChanged_def onThreadProject_def onEnvironment_def onRemoteControl_def setGoal_def Let_def
      snapshot_ok_def versionEntry_simps queue_ok_def del: LIMIT_TEXT_def)

lemma store_ok_diagnostic_handlers:
  assumes "store_ok st"
  shows "store_ok (onHook pf n st)" "store_ok (onReview pf n st)" "store_ok (onStrictReview pf n st)"
    "store_ok (onMcpProgress pf n st)" "store_ok (onMcpStartup pf n st)" "store_ok (onMcpLogin pf n st)"
    "store_ok (onMcpStream pf n st)" "store_ok (onError pf n st)" "store_ok (onWarning pf n st)"
    "store_ok (onConfigWarning pf n st)" "store_ok (onDeprecation pf n st)" "store_ok (onModelRerouted pf n st)"
    "store_ok (onSafetyBuffering pf n st)" "store_ok (onVerification pf n st)" "store_ok (onAuthRecovery pf n st)"
    "store_ok (onModeration pf n st)"
  using assms store_ok_snapshot [OF assms]
  by (simp_all add: onHook_def onReview_def onStrictReview_def onMcpProgress_def onMcpStartup_def onMcpLogin_def
      onMcpStream_def onError_def onWarning_def onConfigWarning_def onDeprecation_def onModelRerouted_def
      onSafetyBuffering_def onVerification_def onAuthRecovery_def onModeration_def bumpMcp_def Let_def snapshot_ok_def)

lemma store_ok_account_handlers:
  assumes "store_ok st"
  shows "store_ok (onSkillsChanged pf n st)" "store_ok (onAppsUpdated pf n st)" "store_ok (onLoginCompleted pf n st)"
    "store_ok (onGatewayOAuth pf n st)" "store_ok (onAttachment pf n st)" "store_ok (onWorldWritable pf n st)"
    "store_ok (onSandboxSetup pf n st)" "store_ok (onCompacted pf n st)" "store_ok (onSettings pf n st)"
  using assms store_ok_snapshot [OF assms]
  by (simp_all add: onSkillsChanged_def onAppsUpdated_def onLoginCompleted_def onGatewayOAuth_def onAttachment_def
      onWorldWritable_def onSandboxSetup_def onCompacted_def onSettings_def Let_def snapshot_ok_def)

lemma store_ok_text_handlers:
  assumes "store_ok st"
  shows "store_ok (onTerminalInput pf n st)" "store_ok (onPatchOutput pf n st)" "store_ok (onSearchUpdated pf n st)"
    "store_ok (onItem pf n st)"
proof -
  show "store_ok (onTerminalInput pf n st)" "store_ok (onItem pf n st)"
    using assms by (auto simp: onTerminalInput_def onItem_def Let_def entry_ok_def intro!: store_ok_updateRecord)
  show "store_ok (onPatchOutput pf n st)" "store_ok (onSearchUpdated pf n st)"
    using assms store_ok_snapshot [OF assms]
    by (simp_all add: onPatchOutput_def onSearchUpdated_def Let_def snapshot_ok_def)
qed

lemma store_ok_onSearchCompleted: 
  assumes "store_ok st"
  shows "store_ok (onSearchCompleted pf n st)"
proof -
  have "length (se_files w) \<le> LIMIT_ENTITIES" if "map_of (ev_searches (st_snapshot st)) k = Some w" for k w
    using store_ok_snapshot [OF assms] that unfolding snapshot_ok_def by (blast dest: entries_ok_lookup)
  then show ?thesis
    using assms store_ok_snapshot [OF assms] unfolding onSearchCompleted_def Let_def
    by (intro store_ok_updateRecord) (simp_all add: snapshot_ok_def entry_ok_def split: option.split)
qed

lemma store_ok_collection_handlers:
  assumes "store_ok st"
  shows "store_ok (onImport pf n st)" "store_ok (onFilesChanged pf n st)"
  using assms store_ok_snapshot [OF assms]
  by (simp_all add: onImport_def onFilesChanged_def Let_def snapshot_ok_def)

lemma clearThread_ok:
  assumes "store_ok st"
  shows "store_ok (clearThread threadId st)"
  using assms store_ok_snapshot [OF assms] by (simp add: clearThread_def snapshot_ok_def)

lemma realtime_lookup:
  assumes "store_ok st" and "map_of (ev_realtimeByThread (st_snapshot st)) threadId = Some v"
  shows "realtime_ok v"
  using store_ok_snapshot [OF assms(1)] assms(2) unfolding snapshot_ok_def by (blast dest: entries_ok_lookup)

lemma records_ok_unknown:
  "records_ok rs \<Longrightarrow> records_ok (map (\<lambda>entry. if P entry then unknownRecord remark entry else entry) rs)"
  by (rule records_ok_map) (simp_all add: unknownRecord_def entry_ok_def)

lemma finishThread_ok:
  assumes "store_ok st"
  shows "store_ok (finishThread threadId turnId st)"
proof -
  define st1 where "st1 = patch (\<lambda>s. s\<lparr>ev_records := map (\<lambda>entry.
      if er_threadId entry = Some threadId \<and> (turnId = None \<or> er_turnId entry = turnId) \<and> er_status entry = Running
      then unknownRecord ((if turnId = None then zh_subscriptionClosed else zh_turnEnded) @ zh_noFinalState) entry
      else entry) (ev_records s)\<rparr>) st"
  have ok: "store_ok st1"
    using assms store_ok_snapshot [OF assms] by (simp add: st1_def snapshot_ok_def records_ok_unknown)
  have "store_ok (patch (\<lambda>s. s\<lparr>ev_realtimeByThread := put (ev_realtimeByThread s) threadId
      (v\<lparr>rs_status := Unknown, rs_latestAudio := None, rs_sdp := None\<rparr>)\<rparr>) st1)"
    if "map_of (ev_realtimeByThread (st_snapshot st1)) threadId = Some v" for v
    using ok store_ok_snapshot [OF ok] realtime_lookup [OF ok that]
    by (simp add: snapshot_ok_def realtime_ok_def orText_def)
  then show ?thesis
    using ok unfolding finishThread_def Let_def st1_def [symmetric] by (simp split: option.split)
qed

lemma store_ok_lifecycle_handlers:
  assumes "store_ok st"
  shows "store_ok (onTurnCompleted pf n st)" "store_ok (onThreadClosed pf n st)" "store_ok (onThreadRemoved pf n st)"
proof -
  show "store_ok (onTurnCompleted pf n st)" "store_ok (onThreadClosed pf n st)"
    using assms by (simp_all add: onTurnCompleted_def onThreadClosed_def Let_def finishThread_ok)
  have "store_ok (patch (\<lambda>s. s\<lparr>ev_deletedThreadIds := distinctInOrder (ev_deletedThreadIds s @ [t])\<rparr>) (clearThread t st))" for t
    using clearThread_ok [OF assms, of t] store_ok_snapshot [OF clearThread_ok [OF assms, of t]]
    by (simp add: snapshot_ok_def)
  then show "store_ok (onThreadRemoved pf n st)"
    using clearThread_ok [OF assms] by (simp add: onThreadRemoved_def Let_def)
qed

subsection \<open>Processes\<close>

definition streams_ok :: "ServerEventStore \<Rightarrow> bool" where
  "streams_ok st \<longleftrightarrow> {k. st_decoders st k \<noteq> None} = st_streamed st"

lemma store_ok_iff: "store_ok st \<longleftrightarrow> snapshot_ok (st_snapshot st) \<and> streams_ok st"
  by (simp add: store_ok_def streams_ok_def)

lemma dropStream_simps [simp]:
  "st_snapshot (dropStream key st) = st_snapshot st"
  "streams_ok st \<Longrightarrow> streams_ok (dropStream key st)"
  by (auto simp: dropStream_def streams_ok_def)

lemma store_ok_dropStreams [simp]: "store_ok st \<Longrightarrow> store_ok (dropStreams kind pid st)"
  by (simp add: dropStreams_def store_ok_iff)

lemma store_ok_pruneStreams [simp]: "store_ok st \<Longrightarrow> store_ok (pruneStreams st)"
proof -
  assume "store_ok st"
  then have "k \<in> st_streamed st \<longleftrightarrow> st_decoders st k \<noteq> None" for k by (auto simp: store_ok_def)
  with \<open>store_ok st\<close> show ?thesis by (auto simp: pruneStreams_def store_ok_def simp del: not_None_eq)
qed

lemma store_ok_feed: 
  "store_ok st \<Longrightarrow> store_ok (st\<lparr>st_decoders := (st_decoders st)(k \<mapsto> h), st_streamed := insert k (st_streamed st)\<rparr>)"
  "store_ok st \<Longrightarrow> k \<in> st_streamed st \<Longrightarrow> store_ok (st\<lparr>st_decoders := (st_decoders st)(k \<mapsto> h)\<rparr>)"
  by (auto simp: store_ok_iff streams_ok_def)

lemma process_lookup:
  assumes "store_ok st" and "map_of (ev_processes (st_snapshot st)) key = Some p"
  shows "process_ok p"
  using store_ok_snapshot [OF assms(1)] assms(2) unfolding snapshot_ok_def by (blast dest: entries_ok_lookup)

lemma setStream_ok: "process_ok p \<Longrightarrow> length t \<le> LIMIT_TEXT \<Longrightarrow> process_ok (setStream stream t b p)"
  by (simp add: setStream_def process_ok_def split: output_stream.split)

lemma freshProcess_ok [simp]: "process_ok (freshProcess kind pid)"
  by (simp add: freshProcess_def process_ok_def)

lemma process_ok_relabel: "process_ok p \<Longrightarrow> process_ok (p\<lparr>ps_id := i, ps_kind := k, ps_status := s, ps_exitCode := c\<rparr>)"
  "process_ok p \<Longrightarrow> process_ok (p\<lparr>ps_status := s\<rparr>)"
  by (simp_all add: process_ok_def)

lemma store_ok_putProcess:
  "store_ok st \<Longrightarrow> process_ok p \<Longrightarrow>
     store_ok (patch (\<lambda>s. s\<lparr>ev_processes := put (ev_processes s) key p\<rparr>) st)"
  using store_ok_snapshot [of st] by (simp add: snapshot_ok_def)

lemma afterwards_simps [simp]: "afterwards (Done st) = st" "afterwards (Threw st) = st"
  by (simp_all add: afterwards_def)

lemma store_ok_processOutput:
  assumes "store_ok st"
  shows "store_ok (afterwards (processOutput pf kind pid n st))"
proof -
  define stream where "stream = (if str (params n) ''stream'' = lit ''stdout'' then Stdout else Stderr)"
  define skey where "skey = streamKey kind pid stream"
  define st1 where "st1 = st\<lparr>st_decoders := (st_decoders st)(skey \<mapsto>
      (case st_decoders st skey of None \<Rightarrow> [] | Some bytes \<Rightarrow> bytes)), st_streamed := insert skey (st_streamed st)\<rparr>"
  have ok1: "store_ok st1" unfolding st1_def by (rule store_ok_feed(1) [OF assms])
  have fed: "skey \<in> st_streamed st1" by (simp add: st1_def)
  have ok2: "store_ok (st1\<lparr>st_decoders := (st_decoders st1)(skey \<mapsto> h)\<rparr>)" for h
    by (rule store_ok_feed(2) [OF ok1 fed])
  define previous where "previous = (case map_of (ev_processes (st_snapshot st1)) (processKey kind pid) of
      Some process \<Rightarrow> if ps_status process = Running then process else freshProcess kind pid
    | None \<Rightarrow> freshProcess kind pid)"
  have "process_ok previous"
    unfolding previous_def by (simp add: process_lookup [OF ok1] split: option.split)
  then have "process_ok (previous\<lparr>ps_id := pid, ps_kind := kind, ps_status := Running, ps_exitCode := None\<rparr>)"
    by (rule process_ok_relabel)
  then have ok3: "store_ok (patch (\<lambda>s. s\<lparr>ev_processes := put (ev_processes s) (processKey kind pid)
      (setStream stream (clipped LIMIT_TEXT t) b
        (previous\<lparr>ps_id := pid, ps_kind := kind, ps_status := Running, ps_exitCode := None\<rparr>))\<rparr>)
      (st1\<lparr>st_decoders := (st_decoders st1)(skey \<mapsto> h)\<rparr>))" for t b h
    by (intro store_ok_putProcess ok2 setStream_ok length_clipped)
  show ?thesis
    unfolding processOutput_def Let_def stream_def [symmetric] skey_def [symmetric] st1_def [symmetric]
    using ok1 ok3 by (simp add: previous_def split: option.split)
qed

lemma store_ok_completeProcess:
  assumes "store_ok st"
  shows "store_ok (completeProcess pf kind pid exitCode out err b c st)"
proof (cases "holds (\<lambda>p. ps_status p = Completed \<or> ps_status p = Failed)
    (map_of (ev_processes (st_snapshot st)) (processKey kind pid))")
  case True
  then show ?thesis using assms by (simp add: completeProcess_def)
next
  case False
  then show ?thesis
    unfolding completeProcess_def Let_def if_not_P [OF False]
    by (intro store_ok_saveRecord store_ok_putProcess store_ok_dropStreams assms)
      (simp_all add: process_ok_def entry_ok_def newRecord_def orText_def)
qed

subsection \<open>Realtime sessions\<close>

lemma emptyRealtime_ok [simp]: "realtime_ok emptyRealtime"
  by (simp add: emptyRealtime_def realtime_ok_def audio_ok_def orText_def)

lemma realtimeOf_ok: "store_ok st \<Longrightarrow> realtime_ok (realtimeOf threadId st)"
  by (cases "map_of (ev_realtimeByThread (st_snapshot st)) threadId") (simp_all add: realtimeOf_def realtime_lookup)

lemma store_ok_setRealtime: "store_ok st \<Longrightarrow> realtime_ok v \<Longrightarrow> store_ok (setRealtime threadId v st)"
  using store_ok_snapshot [of st] by (simp add: setRealtime_def snapshot_ok_def)

lemma trimChunks_ok:
  assumes "trimChunks chunks (sum_list (map chunkQuarters chunks)) dropped = (kept, dropped')"
  shows "audio_ok kept \<and> suffix kept chunks"
  using assms
proof (induction chunks arbitrary: dropped)
  case Nil
  then show ?case by (simp add: audio_ok_def)
next
  case (Cons chunk chunks)
  show ?case
  proof (cases "sum_list (map chunkQuarters (chunk # chunks)) > 4 * int LIMIT_AUDIO_BYTES \<or>
      length (chunk # chunks) > LIMIT_ENTITIES")
    case True
    then have "trimChunks chunks (sum_list (map chunkQuarters chunks)) True = (kept, dropped')"
      using Cons.prems by simp
    from Cons.IH [OF this] show ?thesis by (auto intro: suffix_ConsI)
  next
    case False
    then have "kept = chunk # chunks" using Cons.prems by simp
    with False show ?thesis by (simp add: audio_ok_def)
  qed
qed

lemma set_update_subset: "set (xs[i := x]) \<subseteq> insert x (set xs)"
  by (rule set_update_subset_insert)

lemma store_ok_realtime_handlers:
  assumes "store_ok st"
  shows "store_ok (onRealtimeStarted pf n st)" "store_ok (onRealtimeItemAdded pf n st)"
    "store_ok (onRealtimeItem pf n st)" "store_ok (onRealtimeItemDelta pf n st)"
    "store_ok (onRealtimeSdp pf n st)" "store_ok (onRealtimeError pf n st)"
proof -
  have fresh: "realtime_ok (emptyRealtime\<lparr>rs_sessionId := a, rs_version := b\<rparr>)" for a b
    by (simp add: emptyRealtime_def realtime_ok_def audio_ok_def orText_def)
  show "store_ok (onRealtimeStarted pf n st)" "store_ok (onRealtimeItemAdded pf n st)"
    "store_ok (onRealtimeItem pf n st)" "store_ok (onRealtimeItemDelta pf n st)"
    using assms fresh
    by (simp_all add: onRealtimeStarted_def onRealtimeItemAdded_def onRealtimeItem_def onRealtimeItemDelta_def
        Let_def store_ok_setRealtime realtimeOf_ok)
  show "store_ok (onRealtimeSdp pf n st)" "store_ok (onRealtimeError pf n st)"
    unfolding onRealtimeSdp_def onRealtimeError_def Let_def
    by (intro store_ok_setRealtime store_ok_recordEvent assms;
        use realtimeOf_ok [OF assms] in \<open>simp add: realtime_ok_def orText_def\<close>)+
qed

lemma store_ok_onRealtimeClosed:
  assumes "store_ok st"
  shows "store_ok (onRealtimeClosed pf n st)"
proof -
  have "store_ok (patch (\<lambda>s. s\<lparr>ev_records := map (\<lambda>entry. if P entry then entry\<lparr>er_status := Unknown\<rparr> else entry)
      (ev_records s)\<rparr>) st')" if "store_ok st'" for P st'
    using that store_ok_snapshot [OF that]
    by (simp add: snapshot_ok_def) (rule records_ok_map; simp add: entry_ok_def)
  then show ?thesis
    unfolding onRealtimeClosed_def Let_def
    using assms realtimeOf_ok [OF assms] by (intro store_ok_setRealtime) (simp_all add: realtime_ok_def orText_def)
qed

lemma store_ok_onTranscript:
  assumes "store_ok st"
  shows "store_ok (onTranscript pf n st)"
proof -
  have ok: "realtime_ok (v\<lparr>rs_transcripts := takeLast LIMIT_ENTITIES
      (case i of None \<Rightarrow> rs_transcripts v @ [t] | Some j \<Rightarrow> (rs_transcripts v)[j := t])\<rparr>)"
    if v: "realtime_ok v" and t: "length (tr_text t) \<le> LIMIT_TEXT" for v t i
  proof -
    let ?ts = "case i of None \<Rightarrow> rs_transcripts v @ [t] | Some j \<Rightarrow> (rs_transcripts v)[j := t]"
    have "set ?ts \<subseteq> insert t (set (rs_transcripts v))"
      by (auto split: option.split dest: set_update_subset_insert [THEN subsetD])
    then have "set (takeLast LIMIT_ENTITIES ?ts) \<subseteq> insert t (set (rs_transcripts v))"
      using set_takeLast [of LIMIT_ENTITIES ?ts] by blast
    then have "\<forall>u \<in> set (takeLast LIMIT_ENTITIES ?ts). length (tr_text u) \<le> LIMIT_TEXT"
      using v t unfolding realtime_ok_def by blast
    then show ?thesis using v by (simp add: realtime_ok_def)
  qed
  show ?thesis
    unfolding onTranscript_def Let_def
    by (rule store_ok_setRealtime [OF store_ok_recordEvent [OF assms] ok [OF realtimeOf_ok [OF assms]]]) simp
qed

lemma store_ok_onAudio:
  assumes "store_ok st"
  shows "store_ok (afterwards (onAudio pf n st))"
proof -
  have "realtime_ok ((realtimeOf t st)\<lparr>rs_chunks := fst (trimChunks cs (sum_list (map chunkQuarters cs)) d),
      rs_audioChunks := a, rs_audioBytes := b, rs_audioTruncated := c, rs_latestAudio := l\<rparr>)" for t cs d a b c l
    using realtimeOf_ok [OF assms, of t] trimChunks_ok [OF prod.collapse [symmetric], of cs d]
    by (simp add: realtime_ok_def)
  then show ?thesis
    using assms unfolding onAudio_def Let_def by (simp add: store_ok_setRealtime split: option.split)
qed

lemma store_ok_output_handlers:
  assumes "store_ok st"
  shows "store_ok (afterwards (onCommandOutput pf n st))" "store_ok (afterwards (onProcessOutput pf n st))"
    "store_ok (processExited pf n st)"
  using assms by (simp_all add: onCommandOutput_def onProcessOutput_def processExited_def Let_def
      store_ok_processOutput store_ok_completeProcess)

lemmas store_ok_handlers = store_ok_thread_handlers store_ok_diagnostic_handlers store_ok_account_handlers
  store_ok_text_handlers store_ok_onSearchCompleted store_ok_collection_handlers store_ok_lifecycle_handlers
  store_ok_realtime_handlers store_ok_onRealtimeClosed store_ok_onTranscript store_ok_onAudio store_ok_output_handlers

lemma afterwards_total [simp]: "afterwards (total h pf n st) = h pf n st"
  by (simp add: total_def)

lemma store_ok_table:
  assumes "store_ok st"
  shows "list_all (\<lambda>e. store_ok (afterwards (snd e pf n st))) handlers"
proof -
  have "list_all (\<lambda>e. store_ok (afterwards (snd e pf n st))) threadHandlers"
    "list_all (\<lambda>e. store_ok (afterwards (snd e pf n st))) streamHandlers"
    by (simp_all add: threadHandlers_def streamHandlers_def store_ok_handlers [OF assms])
  moreover have "list_all (\<lambda>e. store_ok (afterwards (snd e pf n st))) (map (\<lambda>m. (m, total (\<lambda>pf n st. st))) ms)" for ms
    using assms by (simp add: list_all_iff)
  ultimately show ?thesis by (simp add: handlers_def)
qed

lemma store_ok_consume:
  assumes "store_ok st"
  shows "store_ok (afterwards (consume pf n st))"
proof (cases "map_of handlers (nt_method n)")
  case None
  then show ?thesis using assms by (simp add: consume_def)
next
  case (Some h)
  then have "(nt_method n, h) \<in> set handlers" by (rule map_of_SomeD)
  with store_ok_table [OF assms] have "store_ok (afterwards (h pf n st))"
    by (fastforce simp: list_all_iff)
  then show ?thesis using Some by (auto simp: consume_def split: result.split)
qed

subsection \<open>Operations of the client\<close>

lemma queueSummary_ok [simp]: "length (qs_text (queueSummary v)) \<le> LIMIT_TEXT"
  "length (qs_inputs (queueSummary v)) \<le> LIMIT_ENTITIES"
  by (simp_all add: queueSummary_def Let_def)

lemma store_ok_hydration:
  assumes "store_ok st"
  shows "store_ok (snd (hydrateQueue pf th version qs st))" "store_ok (failQueue th version err st)"
    "store_ok (snd (hydrateGoal th version goal st))" "store_ok (failGoal pf th version err st)"
    "store_ok (snd (hydrateProjects version qs st))" "store_ok (failProjects version err st)"
    "store_ok (recordRefreshFailure m err st)" "store_ok (recordDiagnostic code k st)"
proof -
  note ok = store_ok_snapshot [OF assms]
  define q where "q = \<lparr>sq_version = version, sq_status = RefreshReady,
    sq_entries = map queueSummary (take LIMIT_ENTITIES qs), sq_error = None\<rparr>"
  have "queue_ok q" by (simp add: q_def queue_ok_def del: LIMIT_TEXT_def LIMIT_ENTITIES_def)
    
  then show "store_ok (snd (hydrateQueue pf th version qs st))"
    using assms ok unfolding hydrateQueue_def Let_def q_def [symmetric]
    by (auto intro!: store_ok_updateRecord simp: entry_ok_def snapshot_ok_def)
  show "store_ok (failQueue th version err st)"
    using assms ok
    by (auto simp: failQueue_def entry_ok_def snapshot_ok_def queue_ok_def intro!: store_ok_updateRecord)
  show "store_ok (snd (hydrateGoal th version goal st))" "store_ok (failGoal pf th version err st)"
    "store_ok (snd (hydrateProjects version qs st))"
    using assms ok by (simp_all add: hydrateGoal_def failGoal_def hydrateProjects_def snapshot_ok_def)
  have "store_ok (recordRefreshFailure m err st)" if "store_ok st" for m err st
    using that by (simp add: recordRefreshFailure_def store_ok_saveRecord)
  then show "store_ok (failProjects version err st)" "store_ok (recordRefreshFailure m err st)"
    using assms ok by (simp_all add: failProjects_def snapshot_ok_def)
  show "store_ok (recordDiagnostic code k st)"
    using assms by (simp add: recordDiagnostic_def store_ok_saveRecord split: option.split)
qed

lemma store_ok_processes:
  assumes "store_ok st"
  shows "store_ok (completeCommand pf pid code out err st)" "store_ok (startProcess kind pid st)"
    "store_ok (failProcess kind pid st)"
proof -
  show "store_ok (completeCommand pf pid code out err st)"
    using assms by (simp add: completeCommand_def store_ok_completeProcess)
  show "store_ok (startProcess kind pid st)"
    unfolding startProcess_def store_ok_publish
    by (intro store_ok_putProcess store_ok_dropStreams assms freshProcess_ok)
  show "store_ok (failProcess kind pid st)"
  proof (cases "map_of (ev_processes (st_snapshot st)) (processKey kind pid)")
    case (Some p)
    have "process_ok (p\<lparr>ps_status := s\<rparr>)" for s
      by (rule process_ok_relabel(2) [OF process_lookup [OF assms Some]])
    then show ?thesis
      unfolding failProcess_def Let_def Some option.case store_ok_publish
      by (intro store_ok_dropStreams store_ok_updateRecord store_ok_putProcess assms) (simp_all add: entry_ok_def)
  qed (simp add: failProcess_def assms)
qed

lemma snapshot_ok_disconnected:
  assumes "snapshot_ok s"
  shows "snapshot_ok (disconnected s)"
proof -
  have [simp]: "realtime_ok (v\<lparr>rs_status := a, rs_chunks := [], rs_latestAudio := None, rs_sdp := None\<rparr>)"
    if "realtime_ok v" for v a
    using that by (simp add: realtime_ok_def audio_ok_def orText_def)
  have [simp]: "queue_ok (q\<lparr>sq_status := a\<rparr>) = queue_ok q" for q a
    by (simp add: queue_ok_def)
  show ?thesis
    using assms unfolding snapshot_ok_def disconnected_def
    by (auto simp: mapValues_simps(1) records_ok_unknown process_ok_relabel elim!: entries_ok_mapValues)
qed

lemma snapshot_ok_initial: "snapshot_ok initialSnapshot"
  by (simp add: snapshot_ok_def initialSnapshot_def)

lemma store_ok_connection:
  assumes "store_ok st"
  shows "store_ok (connect st)" "store_ok (disconnect st)" "store_ok (clear st)"
  using assms store_ok_snapshot [OF assms] snapshot_ok_disconnected [OF store_ok_snapshot [OF assms]]
  by (simp_all add: connect_def disconnect_def clear_def snapshot_ok_def [of "ev_connected_update _ _"]
      store_ok_iff streams_ok_def patch_def publish_def snapshot_ok_initial)
    (simp add: snapshot_ok_def)

lemma store_ok_newStore: "store_ok newStore"
  by (simp add: newStore_def store_ok_def snapshot_ok_initial)

lemma store_ok_happen: "store_ok st \<Longrightarrow> store_ok (happen pf ev st)"
  by (cases ev) (simp_all add: happen_def store_ok_consume store_ok_hydration store_ok_processes store_ok_connection)

interpretation bounds: store_invariant pf store_ok for pf
  by unfold_locales (simp_all add: store_ok_newStore store_ok_happen)

end
