(* ===== verification/EventProgress.thy ===== *)
theory EventProgress
  imports EventInvariant
begin

text \<open>
  What the events of a store never take back: versions of queues, goals and projects grow, and a
  deleted thread stays deleted, until the store is cleared; and only connecting, disconnecting and
  clearing a store change whether it is connected. Most operations leave these parts, the queues and
  projects that are shown, and the calls of the listeners alone; \<open>mark\<close> collects them, so that one equation per operation says so.
\<close>

type_synonym versions = "(nat entries \<times> nat entries \<times> jstr list \<times> nat) \<times> bool \<times> ServerQueueState entries \<times> projects_snapshot"

definition versionsOf :: "ServerEventSnapshot \<Rightarrow> versions" where
  "versionsOf s = ((ev_queueVersionsByThread s, ev_goalVersionsByThread s, ev_deletedThreadIds s, ev_projectVersion s),
     ev_connected s, ev_queuesByThread s, ev_projectsSnapshot s)"

definition ears :: "ServerEventStore \<Rightarrow> nat list \<times> nat list" where
  "ears st = (st_calls st, st_listeners st)"

definition mark :: "ServerEventStore \<Rightarrow> versions \<times> nat list \<times> nat list" where
  "mark st = (versionsOf (st_snapshot st), ears st)"

lemma mark_patch [simp]:
  "mark (patch f st) = (versionsOf (f (st_snapshot st)), ears st)"
  "ears (patch f st) = ears st"
  "st_snapshot (patch f st) = f (st_snapshot st)"
  by (simp_all add: mark_def patch_def ears_def)

lemma mark_records [simp]:
  "mark (saveRecord rec st) = mark st" "mark (updateRecord rid f st) = mark st"
  "mark (recordEvent pf n t d s i th tu tx b st) = mark st"
  by (simp_all add: saveRecord_def updateRecord_def recordEvent_def Let_def nextSerial_def mark_def ears_def
      patch_def versionsOf_def)

lemma mark_streams [simp]:
  "mark (dropStreams kind pid st) = mark st" "mark (pruneStreams st) = mark st"
  "mark (st_decoders_update d st) = mark st" "mark (st_streamed_update e st) = mark st"
  by (simp_all add: dropStreams_def dropStream_def pruneStreams_def Let_def mark_def ears_def)

lemma mark_finishThread [simp]: "mark (finishThread threadId turnId st) = mark st"
  by (simp add: finishThread_def Let_def mark_def versionsOf_def split: option.split)

lemma mark_setRealtime [simp]: "mark (setRealtime threadId v st) = mark st"
  by (simp add: setRealtime_def) (simp add: mark_def versionsOf_def)

lemma mark_processOutput [simp]: "mark (afterwards (processOutput pf kind pid n st)) = mark st"
  by (simp add: processOutput_def Let_def split: option.split) (simp add: mark_def versionsOf_def ears_def)

lemma mark_completeProcess [simp]: "mark (completeProcess pf kind pid c out err b1 b2 st) = mark st"
  by (simp add: completeProcess_def Let_def) (simp add: mark_def versionsOf_def ears_def dropStreams_def dropStream_def)

subsection \<open>Handlers\<close>

lemma mark_thread_handlers:
  "mark (onTokenUsage pf n st) = mark st" "mark (onTurnDiff pf n st) = mark st"
  "mark (onThreadProject pf n st) = mark st" "mark (onEnvironment pf n st) = mark st"
  "mark (onRemoteControl pf n st) = mark st"
  by (simp_all add: onTokenUsage_def onTurnDiff_def onThreadProject_def onEnvironment_def onRemoteControl_def Let_def)
    (simp_all add: mark_def versionsOf_def)

lemma mark_diagnostic_handlers:
  "mark (onHook pf n st) = mark st" "mark (onReview pf n st) = mark st" "mark (onStrictReview pf n st) = mark st"
  "mark (onMcpProgress pf n st) = mark st" "mark (onMcpStartup pf n st) = mark st" "mark (onMcpLogin pf n st) = mark st"
  "mark (onMcpStream pf n st) = mark st" "mark (onError pf n st) = mark st" "mark (onWarning pf n st) = mark st"
  "mark (onConfigWarning pf n st) = mark st" "mark (onDeprecation pf n st) = mark st"
  "mark (onModelRerouted pf n st) = mark st" "mark (onSafetyBuffering pf n st) = mark st"
  "mark (onVerification pf n st) = mark st" "mark (onAuthRecovery pf n st) = mark st"
  "mark (onModeration pf n st) = mark st"
  by (simp_all add: onHook_def onReview_def onStrictReview_def onMcpProgress_def onMcpStartup_def onMcpLogin_def
      onMcpStream_def onError_def onWarning_def onConfigWarning_def onDeprecation_def onModelRerouted_def
      onSafetyBuffering_def onVerification_def onAuthRecovery_def onModeration_def bumpMcp_def Let_def)
    (simp_all add: mark_def versionsOf_def)

lemma mark_account_handlers:
  "mark (onSkillsChanged pf n st) = mark st" "mark (onAppsUpdated pf n st) = mark st"
  "mark (onLoginCompleted pf n st) = mark st" "mark (onGatewayOAuth pf n st) = mark st"
  "mark (onAttachment pf n st) = mark st" "mark (onWorldWritable pf n st) = mark st"
  "mark (onSandboxSetup pf n st) = mark st" "mark (onCompacted pf n st) = mark st" "mark (onSettings pf n st) = mark st"
  by (simp_all add: onSkillsChanged_def onAppsUpdated_def onLoginCompleted_def onGatewayOAuth_def onAttachment_def
      onWorldWritable_def onSandboxSetup_def onCompacted_def onSettings_def Let_def)
    (simp_all add: mark_def versionsOf_def)

lemma mark_stream_handlers:
  "mark (onTerminalInput pf n st) = mark st" "mark (onPatchOutput pf n st) = mark st"
  "mark (afterwards (onCommandOutput pf n st)) = mark st" "mark (afterwards (onProcessOutput pf n st)) = mark st"
  "mark (processExited pf n st) = mark st" "mark (onSearchUpdated pf n st) = mark st"
  "mark (onSearchCompleted pf n st) = mark st" "mark (onImport pf n st) = mark st"
  "mark (onFilesChanged pf n st) = mark st" "mark (onItem pf n st) = mark st"
  "mark (onTurnCompleted pf n st) = mark st" "mark (onThreadClosed pf n st) = mark st"
  by (simp_all add: onTerminalInput_def onPatchOutput_def onCommandOutput_def onProcessOutput_def processExited_def
      onSearchUpdated_def onSearchCompleted_def onImport_def onFilesChanged_def onItem_def onTurnCompleted_def
      onThreadClosed_def Let_def split: option.split)
    (simp_all add: mark_def versionsOf_def)

lemma mark_realtime_handlers:
  "mark (onRealtimeStarted pf n st) = mark st" "mark (onRealtimeItemAdded pf n st) = mark st"
  "mark (onRealtimeItem pf n st) = mark st" "mark (onRealtimeItemDelta pf n st) = mark st"
  "mark (onTranscript pf n st) = mark st" "mark (afterwards (onAudio pf n st)) = mark st"
  "mark (onRealtimeSdp pf n st) = mark st" "mark (onRealtimeError pf n st) = mark st"
  "mark (onRealtimeClosed pf n st) = mark st"
proof -
  have "mark (patch (\<lambda>s. s\<lparr>ev_records := g s\<rparr>) st) = mark st" for g st
    by (simp add: mark_def versionsOf_def)
  then show "mark (onRealtimeClosed pf n st) = mark st"
    unfolding onRealtimeClosed_def Let_def mark_setRealtime by (simp only: mark_records)
qed (simp_all add: onRealtimeStarted_def onRealtimeItemAdded_def onRealtimeItem_def onRealtimeItemDelta_def
      onTranscript_def onAudio_def onRealtimeSdp_def onRealtimeError_def Let_def split: option.split)

lemmas mark_handlers = mark_thread_handlers mark_diagnostic_handlers mark_account_handlers
  mark_stream_handlers mark_realtime_handlers

subsection \<open>Progress\<close>

definition advances :: "ServerEventSnapshot \<Rightarrow> ServerEventSnapshot \<Rightarrow> bool" where
  "advances s s' \<longleftrightarrow>
     (\<forall>k. versionOf (ev_queueVersionsByThread s) k \<le> versionOf (ev_queueVersionsByThread s') k) \<and>
     (\<forall>k. versionOf (ev_goalVersionsByThread s) k \<le> versionOf (ev_goalVersionsByThread s') k) \<and>
     set (ev_deletedThreadIds s) \<subseteq> set (ev_deletedThreadIds s') \<and> ev_projectVersion s \<le> ev_projectVersion s'"

lemma advances_refl [simp]: "advances s s"
  by (simp add: advances_def)

lemma advances_trans: "advances s s' \<Longrightarrow> advances s' s'' \<Longrightarrow> advances s s''"
  unfolding advances_def by (blast intro: order_trans)

lemma advances_mark: "mark st' = mark st \<Longrightarrow> advances (st_snapshot st) (st_snapshot st') \<and> ears st' = ears st"
  by (simp add: mark_def versionsOf_def advances_def)

lemma versions_distinct:
  assumes "store_ok st"
  shows "distinct (keys (ev_queueVersionsByThread (st_snapshot st)))"
    "distinct (keys (ev_goalVersionsByThread (st_snapshot st)))"
  using assms by (simp_all add: store_ok_def snapshot_ok_def)

lemma versionOf_nextVersion:
  "distinct (keys m) \<Longrightarrow> versionOf (nextVersion m k) k' = (if k' = k then versionOf m k + 1 else versionOf m k')"
  by (simp add: nextVersion_def versionEntry_simps)

lemma versions_recordEvent [simp]:
  "ev_queueVersionsByThread (st_snapshot (recordEvent pf n t d s i th tu tx b st)) = ev_queueVersionsByThread (st_snapshot st)"
  "ev_goalVersionsByThread (st_snapshot (recordEvent pf n t d s i th tu tx b st)) = ev_goalVersionsByThread (st_snapshot st)"
  "ev_deletedThreadIds (st_snapshot (recordEvent pf n t d s i th tu tx b st)) = ev_deletedThreadIds (st_snapshot st)"
  "ev_projectVersion (st_snapshot (recordEvent pf n t d s i th tu tx b st)) = ev_projectVersion (st_snapshot st)"
  "ev_connected (st_snapshot (recordEvent pf n t d s i th tu tx b st)) = ev_connected (st_snapshot st)"
  "ev_queuesByThread (st_snapshot (recordEvent pf n t d s i th tu tx b st)) = ev_queuesByThread (st_snapshot st)"
  "ev_projectsSnapshot (st_snapshot (recordEvent pf n t d s i th tu tx b st)) = ev_projectsSnapshot (st_snapshot st)"
  "ears (recordEvent pf n t d s i th tu tx b st) = ears st"
  using mark_records(3) [of pf n t d s i th tu tx b st] by (simp_all add: mark_def versionsOf_def)

text \<open>The handlers that change a version, by what they do to it.\<close>

definition bumped :: "nat entries \<Rightarrow> jstr \<Rightarrow> nat entries \<Rightarrow> bool" where
  "bumped m k m' \<longleftrightarrow> (\<forall>k'. versionOf m' k' = (if k' = k then versionOf m k + 1 else versionOf m k'))"

lemma version_handlers:
  fixes n
  assumes "store_ok st"
  defines "s \<equiv> st_snapshot st" and "threadId \<equiv> str (params n) ''threadId''"
  shows "bumped (ev_queueVersionsByThread s) threadId (ev_queueVersionsByThread (st_snapshot (onQueueChanged pf n st)))"
    "bumped (ev_goalVersionsByThread s) threadId (ev_goalVersionsByThread (st_snapshot (onGoalUpdated pf n st)))"
    "bumped (ev_goalVersionsByThread s) threadId (ev_goalVersionsByThread (st_snapshot (onGoalCleared pf n st)))"
    "bumped (ev_queueVersionsByThread s) threadId (ev_queueVersionsByThread (st_snapshot (onThreadRemoved pf n st)))"
    "bumped (ev_goalVersionsByThread s) threadId (ev_goalVersionsByThread (st_snapshot (onThreadRemoved pf n st)))"
    "nt_method n = ''thread/deleted'' \<Longrightarrow> threadId \<in> set (ev_deletedThreadIds (st_snapshot (onThreadRemoved pf n st)))"
  using versions_distinct [OF assms(1)] unfolding s_def threadId_def
  by (simp_all add: onQueueChanged_def onGoalUpdated_def onGoalCleared_def onThreadRemoved_def setGoal_def clearThread_def
      Let_def bumped_def versionOf_nextVersion versionEntry_simps)

lemma bumped_le: "bumped m k m' \<Longrightarrow> versionOf m k' \<le> versionOf m' k'"
  "bumped m k m' \<Longrightarrow> versionOf m k < versionOf m' k"
  by (simp_all add: bumped_def)

lemma advances_handlers:
  assumes "store_ok st"
  shows "advances (st_snapshot st) (st_snapshot (onQueueChanged pf n st)) \<and> ears (onQueueChanged pf n st) = ears st"
    "advances (st_snapshot st) (st_snapshot (onGoalUpdated pf n st)) \<and> ears (onGoalUpdated pf n st) = ears st"
    "advances (st_snapshot st) (st_snapshot (onGoalCleared pf n st)) \<and> ears (onGoalCleared pf n st) = ears st"
    "advances (st_snapshot st) (st_snapshot (onProjectChanged pf n st)) \<and> ears (onProjectChanged pf n st) = ears st"
    "advances (st_snapshot st) (st_snapshot (onThreadRemoved pf n st)) \<and> ears (onThreadRemoved pf n st) = ears st"
proof -
  note le = version_handlers(1-5) [OF assms, THEN bumped_le(1)]
  show "advances (st_snapshot st) (st_snapshot (onQueueChanged pf n st)) \<and> ears (onQueueChanged pf n st) = ears st"
    using le(1) by (simp add: advances_def) (simp add: onQueueChanged_def Let_def)
  show "advances (st_snapshot st) (st_snapshot (onGoalUpdated pf n st)) \<and> ears (onGoalUpdated pf n st) = ears st"
    using le(2) by (simp add: advances_def) (simp add: onGoalUpdated_def setGoal_def Let_def)
  show "advances (st_snapshot st) (st_snapshot (onGoalCleared pf n st)) \<and> ears (onGoalCleared pf n st) = ears st"
    using le(3) by (simp add: advances_def) (simp add: onGoalCleared_def setGoal_def Let_def)
  show "advances (st_snapshot st) (st_snapshot (onProjectChanged pf n st)) \<and> ears (onProjectChanged pf n st) = ears st"
    by (simp add: advances_def onProjectChanged_def Let_def)
  show "advances (st_snapshot st) (st_snapshot (onThreadRemoved pf n st)) \<and> ears (onThreadRemoved pf n st) = ears st"
    using le(4,5) by (simp add: advances_def) (auto simp: onThreadRemoved_def clearThread_def Let_def)
qed

lemma advances_table:
  assumes "store_ok st"
  shows "list_all (\<lambda>e. advances (st_snapshot st) (st_snapshot (afterwards (snd e pf n st))) \<and>
    ears (afterwards (snd e pf n st)) = ears st) handlers"
proof -
  let ?P = "\<lambda>e. advances (st_snapshot st) (st_snapshot (afterwards (snd e pf n st))) \<and>
    ears (afterwards (snd e pf n st)) = ears st"
  have "list_all ?P threadHandlers" "list_all ?P streamHandlers"
    by (simp_all add: threadHandlers_def streamHandlers_def mark_handlers [THEN advances_mark] advances_handlers [OF assms])
  moreover have "list_all ?P (map (\<lambda>m. (m, total (\<lambda>pf n st. st))) ms)" for ms
    by (simp add: list_all_iff)
  ultimately show ?thesis by (simp add: handlers_def)
qed

lemma advances_handler:
  assumes "store_ok st" and "map_of handlers (nt_method n) = Some h"
  shows "advances (st_snapshot st) (st_snapshot (afterwards (h pf n st)))" "ears (afterwards (h pf n st)) = ears st"
  using advances_table [OF assms(1), of pf n] map_of_SomeD [OF assms(2)] by (fastforce simp: list_all_iff)+

lemma advances_consume:
  assumes "store_ok st"
  shows "advances (st_snapshot st) (st_snapshot (afterwards (consume pf n st)))"
  using advances_handler(1) [OF assms, of n _ pf]
  by (fastforce simp: consume_def publish_def split: option.split result.split)

subsection \<open>Events\<close>

lemma publish_simps [simp]: "st_snapshot (publish st) = st_snapshot st"
  by (simp add: publish_def)

lemma advances_hydration:
  "advances (st_snapshot st) (st_snapshot (snd (hydrateQueue pf th version qs st)))"
  "advances (st_snapshot st) (st_snapshot (failQueue th version err st))"
  "advances (st_snapshot st) (st_snapshot (snd (hydrateGoal th version goal st)))"
  "advances (st_snapshot st) (st_snapshot (failGoal pf th version err st))"
  "advances (st_snapshot st) (st_snapshot (snd (hydrateProjects version qs st)))"
  "advances (st_snapshot st) (st_snapshot (failProjects version err st))"
  "advances (st_snapshot st) (st_snapshot (recordRefreshFailure m err st))"
  "advances (st_snapshot st) (st_snapshot (recordDiagnostic code k st))"
  by (simp_all add: hydrateQueue_def failQueue_def hydrateGoal_def failGoal_def hydrateProjects_def failProjects_def
      recordRefreshFailure_def recordDiagnostic_def saveRecord_def updateRecord_def advances_def Let_def split: option.split)

lemma dropStreams_snapshot [simp]: "st_snapshot (dropStreams kind pid st) = st_snapshot st"
  by (simp add: dropStreams_def)

lemma advances_processes:
  "advances (st_snapshot st) (st_snapshot (completeCommand pf pid code out err st))"
  "advances (st_snapshot st) (st_snapshot (startProcess kind pid st))"
  "advances (st_snapshot st) (st_snapshot (failProcess kind pid st))"
proof -
  show "advances (st_snapshot st) (st_snapshot (completeCommand pf pid code out err st))"
    unfolding completeCommand_def publish_simps by (rule advances_mark [THEN conjunct1]) simp
qed (simp_all add: startProcess_def failProcess_def updateRecord_def advances_def Let_def split: option.split)

lemma versionOf_bumpAll: "distinct (keys m) \<Longrightarrow> versionOf m k \<le> versionOf (mapValues (\<lambda>v. v + 1) m) k"
  unfolding versionOf_mapValues by (simp add: versionOf_def split: option.split)

lemma advances_connection:
  assumes "store_ok st"
  shows "advances (st_snapshot st) (st_snapshot (connect st))" "advances (st_snapshot st) (st_snapshot (disconnect st))"
  using versions_distinct [OF assms]
  by (simp_all add: connect_def disconnect_def disconnected_def advances_def versionOf_bumpAll [simplified])

lemma advances_subscribe: "st_snapshot (subscribe l st) = st_snapshot st" "st_snapshot (unsubscribe l st) = st_snapshot st"
  by (simp_all add: subscribe_def unsubscribe_def)

lemma advances_happen:
  assumes "store_ok st" and "ev \<noteq> Cleared"
  shows "advances (st_snapshot st) (st_snapshot (happen pf ev st))"
  using assms by (cases ev) (simp_all add: happen_def advances_consume advances_hydration advances_processes
      advances_connection advances_subscribe)

interpretation progress: store_run pf "\<lambda>ev. ev \<noteq> Cleared"
  "\<lambda>st. store_ok st \<and> advances (st_snapshot st0) (st_snapshot st)" for pf st0
  by unfold_locales (blast intro: store_ok_happen advances_happen advances_trans)

subsection \<open>The connection\<close>

lemma connected_mark: "mark st' = mark st \<Longrightarrow> ev_connected (st_snapshot st') = ev_connected (st_snapshot st)"
  by (simp add: mark_def versionsOf_def)

lemma connected_table:
  "list_all (\<lambda>e. ev_connected (st_snapshot (afterwards (snd e pf n st))) = ev_connected (st_snapshot st)) handlers"
proof -
  let ?P = "\<lambda>e. ev_connected (st_snapshot (afterwards (snd e pf n st))) = ev_connected (st_snapshot st)"
  have "ev_connected (st_snapshot (onQueueChanged pf n st)) = ev_connected (st_snapshot st)"
    "ev_connected (st_snapshot (onGoalUpdated pf n st)) = ev_connected (st_snapshot st)"
    "ev_connected (st_snapshot (onGoalCleared pf n st)) = ev_connected (st_snapshot st)"
    "ev_connected (st_snapshot (onProjectChanged pf n st)) = ev_connected (st_snapshot st)"
    "ev_connected (st_snapshot (onThreadRemoved pf n st)) = ev_connected (st_snapshot st)"
    by (simp_all add: onQueueChanged_def onGoalUpdated_def onGoalCleared_def onProjectChanged_def onThreadRemoved_def
        setGoal_def clearThread_def Let_def)
  then have "list_all ?P threadHandlers" "list_all ?P streamHandlers"
    by (simp_all add: threadHandlers_def streamHandlers_def mark_handlers [THEN connected_mark])
  moreover have "list_all ?P (map (\<lambda>m. (m, total (\<lambda>pf n st. st))) ms)" for ms
    by (simp add: list_all_iff)
  ultimately show ?thesis by (simp add: handlers_def)
qed

lemma connected_consume: "ev_connected (st_snapshot (afterwards (consume pf n st))) = ev_connected (st_snapshot st)"
proof -
  have "ev_connected (st_snapshot (afterwards (h pf n st))) = ev_connected (st_snapshot st)"
    if "map_of handlers (nt_method n) = Some h" for h
    using connected_table [of pf n st] map_of_SomeD [OF that] by (fastforce simp: list_all_iff)
  then show ?thesis
    by (cases "map_of handlers (nt_method n)") (auto simp: consume_def publish_def afterwards_def split: result.split)
qed

lemma connected_happen:
  assumes "ev \<noteq> Cleared" "ev \<noteq> Connected" "ev \<noteq> Disconnected"
  shows "ev_connected (st_snapshot (happen pf ev st)) = ev_connected (st_snapshot st)"
proof -
  have "ev_connected (st_snapshot (completeCommand pf pid code out err st)) = ev_connected (st_snapshot st)" for pid code out err
    unfolding completeCommand_def publish_simps by (rule connected_mark) simp
  then show ?thesis
    using assms by (cases ev) (simp_all add: happen_def connected_consume hydrateQueue_def failQueue_def hydrateGoal_def
      failGoal_def hydrateProjects_def failProjects_def recordRefreshFailure_def recordDiagnostic_def saveRecord_def
      updateRecord_def startProcess_def failProcess_def advances_subscribe Let_def split: option.split)
qed

interpretation connected: store_run pf "\<lambda>ev. ev \<noteq> Cleared \<and> ev \<noteq> Connected \<and> ev \<noteq> Disconnected"
  "\<lambda>st. ev_connected (st_snapshot st) = b" for pf b
  by unfold_locales (simp add: connected_happen)

end
