(* ===== verification/EventLaws.thy ===== *)
theory EventLaws
  imports EventProgress
begin

text \<open>
  Laws of single components of the event store: the window of audio chunks, redaction, errors of
  \<open>consume\<close>, the output of a process as a stream, and the result of a process.
\<close>

subsection \<open>The window of audio chunks\<close>

lemma audio_ok_Cons: "audio_ok (chunk # chunks) \<longleftrightarrow>
    \<not> (sum_list (map chunkQuarters (chunk # chunks)) > 4 * int LIMIT_AUDIO_BYTES \<or> length (chunk # chunks) > LIMIT_ENTITIES)"
  by (auto simp: audio_ok_def)

lemma trimChunks_window:
  "trimChunks chunks (sum_list (map chunkQuarters chunks)) dropped =
     (last (filter audio_ok (suffixes chunks)), dropped \<or> \<not> audio_ok chunks)"
proof (induction chunks arbitrary: dropped)
  case Nil
  then show ?case by (simp add: audio_ok_def)
next
  case (Cons chunk chunks)
  show ?case
    using Cons.IH [of True] audio_ok_Cons [of chunk chunks]
    by (cases "audio_ok (chunk # chunks)") (auto simp del: LIMIT_AUDIO_BYTES_def LIMIT_ENTITIES_def)
qed

subsection \<open>Redaction\<close>

text \<open>Values that differ only below properties with a sensitive name.\<close>

inductive samePublic :: "jsval \<Rightarrow> jsval \<Rightarrow> bool" where
  same: "samePublic v v"
| arrays: "length xs = length ys \<Longrightarrow>
    (\<And>i. i < length xs \<Longrightarrow> xs ! i = ys ! i \<or>
       (\<exists>x y. xs ! i = Some x \<and> ys ! i = Some y \<and> samePublic x y)) \<Longrightarrow> samePublic (JArr xs) (JArr ys)"
| objects: "length ps = length qs \<Longrightarrow>
    (\<And>i. i < length ps \<Longrightarrow> fst (ps ! i) = fst (qs ! i) \<and>
       (sensitiveKey (keyText (fst (ps ! i))) \<or> samePublic (snd (ps ! i)) (snd (qs ! i)))) \<Longrightarrow>
    samePublic (JObj ps) (JObj qs)"

lemma redactAt_sensitive: "sensitiveKey key \<Longrightarrow> redactAt key v = JStr zh_hidden"
  by (simp add: redactAt.simps)

lemma redactAt_samePublic: "samePublic v w \<Longrightarrow> redactAt key v = redactAt key w"
proof (induction arbitrary: key rule: samePublic.induct)
  case (arrays xs ys)
  have "map (\<lambda>(i, slot). case slot of None \<Rightarrow> None | Some x \<Rightarrow> Some (redactAt (decDigits i) x)) (zip [0..<LIMIT_ENTITIES] xs) =
      map (\<lambda>(i, slot). case slot of None \<Rightarrow> None | Some x \<Rightarrow> Some (redactAt (decDigits i) x)) (zip [0..<LIMIT_ENTITIES] ys)"
  proof (rule nth_equalityI)
    fix i
    assume "i < length (map (\<lambda>(i, slot). case slot of None \<Rightarrow> None | Some x \<Rightarrow> Some (redactAt (decDigits i) x)) (zip [0..<LIMIT_ENTITIES] xs))"
    then have "i < LIMIT_ENTITIES" "i < length xs" by simp_all
    with arrays.IH [of i] arrays.hyps(1) show "map (\<lambda>(i, slot). case slot of None \<Rightarrow> None | Some x \<Rightarrow> Some (redactAt (decDigits i) x)) (zip [0..<LIMIT_ENTITIES] xs) ! i =
      map (\<lambda>(i, slot). case slot of None \<Rightarrow> None | Some x \<Rightarrow> Some (redactAt (decDigits i) x)) (zip [0..<LIMIT_ENTITIES] ys) ! i"
      by auto
  qed (use arrays.hyps(1) in simp)
  then show ?case by (simp add: redactAt.simps [of key])
next
  case (objects ps qs)
  have "map (\<lambda>(k, x). (k, redactAt (keyText k) x)) ps = map (\<lambda>(k, x). (k, redactAt (keyText k) x)) qs"
  proof (rule nth_equalityI)
    fix i
    assume "i < length (map (\<lambda>(k, x). (k, redactAt (keyText k) x)) ps)"
    then have i: "i < length ps" by simp
    have "redactAt (keyText (fst (ps ! i))) (snd (ps ! i)) = redactAt (keyText (fst (qs ! i))) (snd (qs ! i))"
      using objects.IH [OF i] by (auto simp: redactAt_sensitive)
    then show "map (\<lambda>(k, x). (k, redactAt (keyText k) x)) ps ! i = map (\<lambda>(k, x). (k, redactAt (keyText k) x)) qs ! i"
      using i objects.hyps(1) objects.IH [OF i] by (simp add: case_prod_unfold)
  qed (use objects.hyps(1) in simp)
  then show ?case by (simp add: redactAt.simps [of key])
qed simp

lemma recordEvent_samePublic:
  assumes "samePublic (nt_params n) w"
  shows "recordEvent pf (n\<lparr>nt_params := w\<rparr>) t d s i th tu tx b st = recordEvent pf n t d s i th tu tx b st"
  using redactAt_samePublic [OF assms] by (simp add: recordEvent_def paramsText_def Let_def)

subsection \<open>Errors\<close>

definition audioMethods :: "string list" where
  "audioMethods = [''thread/realtime/outputAudio/delta'']"

definition outputMethods :: "string list" where
  "outputMethods = [''command/exec/outputDelta'', ''process/outputDelta'']"

text \<open>A notification that \<open>consume\<close> cannot take: an unknown name, or text that is not base64.\<close>

definition broken :: "string \<Rightarrow> ServerNotification \<Rightarrow> bool" where
  "broken name n \<longleftrightarrow>
     name \<in> set outputMethods \<and> base64Decode (str (params n) ''deltaBase64'') = None \<or>
     name \<in> set audioMethods \<and> base64Decode (str (obj (params n) ''audio'') ''data'') = None"

definition unacceptable :: "ServerNotification \<Rightarrow> bool" where
  "unacceptable n \<longleftrightarrow> map_of handlers (nt_method n) = None \<or> broken (nt_method n) n"

definition untouched :: "ServerEventStore \<Rightarrow> ServerEventStore \<Rightarrow> bool" where
  "untouched st st' \<longleftrightarrow> st_snapshot st' = st_snapshot st \<and> st_identity st' = st_identity st \<and> ears st' = ears st"

definition failsCleanly :: "bool \<Rightarrow> ServerEventStore \<Rightarrow> result \<Rightarrow> bool" where
  "failsCleanly bad st r \<longleftrightarrow>
     (case r of Threw st' \<Rightarrow> bad \<and> untouched st st' | Done st' \<Rightarrow> \<not> bad \<and> ears st' = ears st)"

lemma failsCleanly_total: "ears (h pf n st) = ears st \<Longrightarrow> \<not> bad \<Longrightarrow> failsCleanly bad st (total h pf n st)"
  by (simp add: failsCleanly_def total_def)

lemma failsCleanly_processOutput:
  "failsCleanly (base64Decode (str (params n) ''deltaBase64'') = None) st (processOutput pf kind pid n st)"
  by (auto simp: failsCleanly_def processOutput_def untouched_def Let_def ears_def pruneStreams_def
      recordEvent_def saveRecord_def patch_def nextSerial_def split: option.split)

lemma failsCleanly_onAudio:
  "failsCleanly (base64Decode (str (obj (params n) ''audio'') ''data'') = None) st (onAudio pf n st)"
  using mark_realtime_handlers(6) [of pf n st, THEN advances_mark, THEN conjunct2]
  by (auto simp: failsCleanly_def onAudio_def untouched_def Let_def split: option.split)

lemma ears_version_handlers:
  "ears (onQueueChanged pf n st) = ears st" "ears (onGoalUpdated pf n st) = ears st"
  "ears (onGoalCleared pf n st) = ears st" "ears (onProjectChanged pf n st) = ears st"
  "ears (onThreadRemoved pf n st) = ears st"
  by (auto simp: onQueueChanged_def onGoalUpdated_def onGoalCleared_def onProjectChanged_def onThreadRemoved_def
      clearThread_def Let_def)

lemma failsCleanly_table:
  "list_all (\<lambda>e. failsCleanly (broken (fst e) n) st (snd e pf n st)) handlers"
proof -
  note ears = mark_handlers [THEN advances_mark, THEN conjunct2] ears_version_handlers
  have "list_all (\<lambda>e. failsCleanly (broken (fst e) n) st (snd e pf n st)) threadHandlers"
    by (simp add: threadHandlers_def failsCleanly_total ears broken_def outputMethods_def audioMethods_def)
  moreover have "list_all (\<lambda>e. failsCleanly (broken (fst e) n) st (snd e pf n st)) streamHandlers"
    by (simp add: streamHandlers_def failsCleanly_total ears broken_def outputMethods_def audioMethods_def
        onCommandOutput_def onProcessOutput_def failsCleanly_processOutput failsCleanly_onAudio)
  moreover have "list_all (\<lambda>e. failsCleanly (broken (fst e) n) st (snd e pf n st))
      (map (\<lambda>m. (m, total (\<lambda>pf n st. st))) ignoredMethods)"
    by (simp add: ignoredMethods_def failsCleanly_total broken_def outputMethods_def audioMethods_def)
  ultimately show ?thesis by (simp add: handlers_def)
qed

lemma failsCleanly_handler:
  assumes "map_of handlers (nt_method n) = Some h"
  shows "failsCleanly (broken (nt_method n) n) st (h pf n st)"
  using failsCleanly_table [of n st pf] map_of_SomeD [OF assms] by (fastforce simp: list_all_iff)

end
