(* ===== verification/EventFrame.thy ===== *)
theory EventFrame
  imports EventInvariant
begin

text \<open>
  What is not about processes leaves them alone: no other notification, answer or failure changes the
  processes of the snapshot, the decoders of their streams or the set of streams that are open.
\<close>

definition processPart :: "ServerEventStore \<Rightarrow> ServerProcessState entries \<times> (jstr \<rightharpoonup> 8 word list) \<times> jstr set" where
  "processPart st = (ev_processes (st_snapshot st), st_decoders st, st_streamed st)"

lemma processPart_patch: "(\<And>s. ev_processes (f s) = ev_processes s) \<Longrightarrow> processPart (patch f st) = processPart st"
  by (simp add: processPart_def patch_def)

lemma processPart_simps [simp]:
  "processPart (publish st) = processPart st" "processPart (nextSerial st) = processPart st"
  "processPart (subscribe l st) = processPart st" "processPart (unsubscribe l st) = processPart st"
  "processPart (saveRecord e st) = processPart st" "processPart (updateRecord rid g st) = processPart st"
  "processPart (recordEvent pf n t d s i th tu tx b st) = processPart st" "processPart (setRealtime t v st) = processPart st"
  by (simp_all add: processPart_def publish_def nextSerial_def subscribe_def unsubscribe_def saveRecord_def updateRecord_def
      recordEvent_def setRealtime_def patch_def Let_def)

lemma processPart_parts [simp]:
  "processPart (clearThread t st) = processPart st" "processPart (finishThread t u st) = processPart st"
  by (simp_all add: clearThread_def finishThread_def processPart_patch Let_def split: option.split)

lemma thread_handlers_frame:
  "processPart (onTokenUsage pf n st) = processPart st" "processPart (onTurnDiff pf n st) = processPart st"
  "processPart (onGoalUpdated pf n st) = processPart st" "processPart (onGoalCleared pf n st) = processPart st"
  "processPart (onQueueChanged pf n st) = processPart st" "processPart (onProjectChanged pf n st) = processPart st"
  "processPart (onThreadProject pf n st) = processPart st" "processPart (onEnvironment pf n st) = processPart st"
  "processPart (onRemoteControl pf n st) = processPart st"
  by (simp_all add: onTokenUsage_def onTurnDiff_def onGoalUpdated_def onGoalCleared_def onQueueChanged_def
      onProjectChanged_def onThreadProject_def onEnvironment_def onRemoteControl_def setGoal_def processPart_patch Let_def)

lemma diagnostic_handlers_frame:
  "processPart (onHook pf n st) = processPart st" "processPart (onReview pf n st) = processPart st"
  "processPart (onStrictReview pf n st) = processPart st" "processPart (onMcpProgress pf n st) = processPart st"
  "processPart (onMcpStartup pf n st) = processPart st" "processPart (onMcpLogin pf n st) = processPart st"
  "processPart (onMcpStream pf n st) = processPart st" "processPart (onError pf n st) = processPart st"
  "processPart (onWarning pf n st) = processPart st" "processPart (onConfigWarning pf n st) = processPart st"
  "processPart (onDeprecation pf n st) = processPart st" "processPart (onModelRerouted pf n st) = processPart st"
  "processPart (onSafetyBuffering pf n st) = processPart st" "processPart (onVerification pf n st) = processPart st"
  "processPart (onAuthRecovery pf n st) = processPart st" "processPart (onModeration pf n st) = processPart st"
  by (simp_all add: onHook_def onReview_def onStrictReview_def onMcpProgress_def onMcpStartup_def onMcpLogin_def
      onMcpStream_def onError_def onWarning_def onConfigWarning_def onDeprecation_def onModelRerouted_def
      onSafetyBuffering_def onVerification_def onAuthRecovery_def onModeration_def bumpMcp_def processPart_patch Let_def)

lemma account_handlers_frame:
  "processPart (onSkillsChanged pf n st) = processPart st" "processPart (onAppsUpdated pf n st) = processPart st"
  "processPart (onLoginCompleted pf n st) = processPart st" "processPart (onGatewayOAuth pf n st) = processPart st"
  "processPart (onAttachment pf n st) = processPart st" "processPart (onWorldWritable pf n st) = processPart st"
  "processPart (onSandboxSetup pf n st) = processPart st" "processPart (onCompacted pf n st) = processPart st"
  "processPart (onSettings pf n st) = processPart st"
  by (simp_all add: onSkillsChanged_def onAppsUpdated_def onLoginCompleted_def onGatewayOAuth_def onAttachment_def
      onWorldWritable_def onSandboxSetup_def onCompacted_def onSettings_def processPart_patch Let_def)

lemma text_handlers_frame:
  "processPart (onTerminalInput pf n st) = processPart st" "processPart (onPatchOutput pf n st) = processPart st"
  "processPart (onSearchUpdated pf n st) = processPart st" "processPart (onItem pf n st) = processPart st"
  "processPart (onSearchCompleted pf n st) = processPart st" "processPart (onImport pf n st) = processPart st"
  "processPart (onFilesChanged pf n st) = processPart st"
  by (simp_all add: onTerminalInput_def onPatchOutput_def onSearchUpdated_def onItem_def onSearchCompleted_def onImport_def
      onFilesChanged_def processPart_patch Let_def)

lemma realtime_handlers_frame:
  "processPart (onRealtimeStarted pf n st) = processPart st" "processPart (onRealtimeItemAdded pf n st) = processPart st"
  "processPart (onRealtimeItem pf n st) = processPart st" "processPart (onRealtimeItemDelta pf n st) = processPart st"
  "processPart (onTranscript pf n st) = processPart st" "processPart (onRealtimeSdp pf n st) = processPart st"
  "processPart (onRealtimeError pf n st) = processPart st" "processPart (onRealtimeClosed pf n st) = processPart st"
  "processPart (afterwards (onAudio pf n st)) = processPart st"
  by (simp_all add: onRealtimeStarted_def onRealtimeItemAdded_def onRealtimeItem_def onRealtimeItemDelta_def onTranscript_def
      onRealtimeSdp_def onRealtimeError_def onRealtimeClosed_def onAudio_def processPart_patch Let_def split: option.split)

lemma turn_handlers_frame:
  "processPart (onTurnCompleted pf n st) = processPart st" "processPart (onThreadClosed pf n st) = processPart st"
  "processPart (onThreadRemoved pf n st) = processPart st"
  by (simp_all add: onTurnCompleted_def onThreadClosed_def onThreadRemoved_def processPart_patch Let_def)

lemmas handlers_frame = thread_handlers_frame diagnostic_handlers_frame account_handlers_frame text_handlers_frame
  realtime_handlers_frame turn_handlers_frame

definition processMethods :: "string list" where
  "processMethods = [''command/exec/outputDelta'', ''process/outputDelta'', ''process/exited'']"

text \<open>The events that change processes: their output, start, end and failure, and the loss or reset of everything.\<close>

definition aboutProcesses :: "store_event \<Rightarrow> bool" where
  "aboutProcesses ev \<longleftrightarrow> (case ev of Consume n \<Rightarrow> nt_method n \<in> set processMethods | CommandCompleted _ _ _ _ \<Rightarrow> True
     | ProcessStarted _ _ \<Rightarrow> True | ProcessFailed _ _ \<Rightarrow> True | Disconnected \<Rightarrow> True | Cleared \<Rightarrow> True | _ \<Rightarrow> False)"

lemma total_frame: "processPart (afterwards (total h pf n st)) = processPart (h pf n st)"
  by (simp add: total_def)

lemma table_frame:
  assumes "map_of handlers m = Some h" and "m \<notin> set processMethods"
  shows "processPart (afterwards (h pf n st)) = processPart st"
proof -
  have "list_all (\<lambda>(m, h). m \<in> set processMethods \<or> (\<forall>pf n st. processPart (afterwards (h pf n st)) = processPart st)) handlers"
    by (simp add: handlers_def threadHandlers_def streamHandlers_def ignoredMethods_def total_frame handlers_frame processMethods_def)
  then show ?thesis using assms by (auto simp: list_all_iff dest!: map_of_SomeD)
qed

lemma happen_frame:
  assumes "\<not> aboutProcesses ev"
  shows "processPart (happen pf ev st) = processPart st"
proof (cases ev)
  case (Consume n)
  show ?thesis
  proof (cases "map_of handlers (nt_method n)")
    case (Some h)
    have "nt_method n \<notin> set processMethods" using assms Consume by (simp add: aboutProcesses_def)
    note table_frame [OF Some this, of pf n st]
    then show ?thesis by (auto simp: Consume happen_def consume_def Some split: result.split)
  qed (simp add: Consume happen_def consume_def)
next
  case (HydrateQueue t v es)
  then show ?thesis by (simp add: happen_def hydrateQueue_def Let_def processPart_patch)
next
  case (HydrateGoal t v g)
  then show ?thesis by (simp add: happen_def hydrateGoal_def processPart_patch)
next
  case (HydrateProjects v es)
  then show ?thesis by (simp add: happen_def hydrateProjects_def processPart_patch)
qed (use assms in \<open>simp_all add: aboutProcesses_def happen_def failQueue_def failGoal_def failProjects_def recordRefreshFailure_def
  recordDiagnostic_def connect_def processPart_patch split: option.split\<close>)

end
