(* ===== verification/EventOutput.thy ===== *)
theory EventOutput
  imports EventLaws EventFrame
begin

text \<open>
  The output of a process refines the text of its bytes: the store keeps a bounded tail per stream and
  the state of a decoder, and after every chunk the tail is the tail of all the text decoded so far,
  however the chunks of the two streams are interleaved and whatever happens between them.
\<close>

text \<open>The text a decoder gives for a sequence of chunks, and its law: chunks do not matter.\<close>

fun decodedText :: "platform \<Rightarrow> 8 word list \<Rightarrow> 8 word list list \<Rightarrow> jstr" where
  "decodedText pf history [] = []"
| "decodedText pf history (bytes # chunks) =
     pf_decode pf history bytes True @ decodedText pf (history @ bytes) chunks"

definition streamingDecoder :: "platform \<Rightarrow> bool" where
  "streamingDecoder pf \<longleftrightarrow> (\<forall>chunks. decodedText pf [] chunks @ pf_decode pf (concat chunks) [] False =
     pf_decode pf [] (concat chunks) False)"

lemma decodedText_append:
  "decodedText pf h (bs @ cs) = decodedText pf h bs @ decodedText pf (h @ concat bs) cs"
  by (induction bs arbitrary: h) simp_all

text \<open>A notification with a chunk of the output of a command, and its stream.\<close>

definition outputOf :: "jstr \<Rightarrow> store_event \<Rightarrow> (output_stream \<times> 8 word list) option" where
  "outputOf pid ev =
     (case ev of
        Consume n \<Rightarrow>
          if nt_method n = ''command/exec/outputDelta'' \<and> str (params n) ''processId'' = pid \<and> \<not> flag (params n) ''capReached''
          then map_option (\<lambda>bytes. (if str (params n) ''stream'' = lit ''stdout'' then Stdout else Stderr, bytes))
            (base64Decode (str (params n) ''deltaBase64''))
          else None
      | _ \<Rightarrow> None)"

text \<open>The chunks of one stream, in their order.\<close>

definition chunksOf :: "output_stream \<Rightarrow> (output_stream \<times> 8 word list) list \<Rightarrow> 8 word list list" where
  "chunksOf stream chunks = map snd (filter (\<lambda>c. fst c = stream) chunks)"

lemma chunksOf_simps [simp]:
  "chunksOf stream [] = []" "chunksOf stream (cs @ ds) = chunksOf stream cs @ chunksOf stream ds"
  "chunksOf stream [c] = (if fst c = stream then [snd c] else [])"
  by (simp_all add: chunksOf_def)

text \<open>What the store knows of a command whose output came in these chunks.\<close>

definition streaming :: "platform \<Rightarrow> jstr \<Rightarrow> (output_stream \<times> 8 word list) list \<Rightarrow> ServerEventStore \<Rightarrow> bool" where
  "streaming pf pid chunks st \<longleftrightarrow>
     (\<exists>p. map_of (ev_processes (st_snapshot st)) (processKey CommandProcess pid) = Some p \<and>
        ps_id p = pid \<and> ps_kind p = CommandProcess \<and> ps_status p = Running \<and> ps_exitCode p = None \<and>
        (\<forall>stream. streamOutput stream p = clipped LIMIT_TEXT (decodedText pf [] (chunksOf stream chunks)))) \<and>
     (\<forall>stream. st_decoders st (streamKey CommandProcess pid stream) =
        (if chunksOf stream chunks = [] then None else Some (concat (chunksOf stream chunks))))"

lemma streamed_iff: "store_ok st \<Longrightarrow> k \<in> st_streamed st \<longleftrightarrow> st_decoders st k \<noteq> None"
  by (auto simp: store_ok_def)

lemma processes_distinct: "store_ok st \<Longrightarrow> distinct (keys (ev_processes (st_snapshot st)))"
  unfolding store_ok_def snapshot_ok_def by (blast dest: entries_ok_distinct)

lemma takeLast_append: "takeLast n (takeLast n xs @ ys) = takeLast n (xs @ ys)"
  by (cases "length xs \<le> n") (auto simp: takeLast_def add.commute)

lemma clipped_append: "clipped n (clipped n xs @ ys) = clipped n (xs @ ys)"
  by (simp add: clipped_def takeLast_append)

lemma clipped_truncated:
  "length xs > n \<or> length (clipped n xs @ ys) > n \<longleftrightarrow> length (xs @ ys) > n"
  by (auto simp: clipped_def)

lemma streamKey_inject [simp]: "streamKey k p s = streamKey k' p' s' \<longleftrightarrow> k = k' \<and> p = p' \<and> s = s'"
  by (cases k; cases k'; cases s; cases s') (simp_all add: streamKey_def kindText_def streamText_def lit_inject)

lemma streamOutput_fresh [simp]: "streamOutput stream (freshProcess kind pid) = []"
  by (cases stream) (simp_all add: streamOutput_def freshProcess_def)

lemma streamOutput_set [simp]:
  "streamOutput stream' (setStream stream t b p) = (if stream' = stream then t else streamOutput stream' p)"
  by (cases stream; cases stream') (simp_all add: streamOutput_def setStream_def)

lemma setStream_simps [simp]:
  "ps_id (setStream stream t b p) = ps_id p" "ps_kind (setStream stream t b p) = ps_kind p"
  "ps_status (setStream stream t b p) = ps_status p" "ps_exitCode (setStream stream t b p) = ps_exitCode p"
  by (simp_all add: setStream_def split: output_stream.split)

lemma streamOutput_same: "p\<lparr>ps_id := i, ps_kind := k, ps_status := s, ps_exitCode := c\<rparr> = p" if "ps_id p = i" "ps_kind p = k" "ps_status p = s" "ps_exitCode p = c"
  using that by (cases p) simp

lemma freshProcess_simps [simp]:
  "ps_id (freshProcess kind pid) = pid" "ps_kind (freshProcess kind pid) = kind" "ps_status (freshProcess kind pid) = Running"
  "ps_exitCode (freshProcess kind pid) = None"
  by (simp_all add: freshProcess_def)

lemma streaming_start:
  assumes "store_ok st"
  shows "streaming pf pid [] (startProcess CommandProcess pid st)"
proof -
  have "stream = Stdout \<or> stream = Stderr" for stream by (cases stream) simp_all
  then show ?thesis
    using processes_distinct [OF assms]
    by (auto simp: streaming_def startProcess_def patch_def publish_def dropStreams_def dropStream_def lookup_put clipped_def)
qed

text \<open>Only the processes and the decoders matter.\<close>

lemma streaming_part: "processPart st' = processPart st \<Longrightarrow> streaming pf pid chunks st' = streaming pf pid chunks st"
  by (simp add: streaming_def processPart_def)

lemma recordEvent_state [simp]:
  "st_decoders (recordEvent pf n t d s i th tu tx b st) = st_decoders st"
  "st_streamed (recordEvent pf n t d s i th tu tx b st) = st_streamed st"
  using processPart_simps(7) [of pf n t d s i th tu tx b st] by (simp_all add: processPart_def)

lemma pruneStreams_state:
  "st_snapshot (pruneStreams st) = st_snapshot st"
  "st_decoders (pruneStreams st) key = (if key \<in> retainedStreams st then st_decoders st key else None)"
  by (simp_all add: pruneStreams_def Let_def)

lemma retained_put:
  assumes "map_of (ev_processes (st_snapshot st)) key = Some p"
  shows "streamKey (ps_kind p) (ps_id p) stream \<in> retainedStreams st"
  using map_of_SomeD [OF assms] by (cases stream) (force simp: retainedStreams_def)+

lemma streaming_chunk:
  assumes ok: "store_ok st" and here: "streaming pf pid chunks st" and n: "outputOf pid (Consume n) = Some (stream, bytes)"
  shows "streaming pf pid (chunks @ [(stream, bytes)]) (afterwards (processOutput pf CommandProcess pid n st))"
proof -
  let ?skey = "streamKey CommandProcess pid stream" and ?key = "processKey CommandProcess pid"
  let ?text = "\<lambda>s cs. clipped LIMIT_TEXT (decodedText pf [] (chunksOf s cs))"
  define history where "history = concat (chunksOf stream chunks)"
  have n': "base64Decode (str (params n) ''deltaBase64'') = Some bytes" "\<not> flag (params n) ''capReached''"
    "(if str (params n) ''stream'' = lit ''stdout'' then Stdout else Stderr) = stream"
    using n by (auto simp: outputOf_def split: if_splits option.splits)
  have hist: "(case st_decoders st ?skey of None \<Rightarrow> [] | Some bytes \<Rightarrow> bytes) = history"
    using here by (auto simp: streaming_def history_def)
  obtain p where p: "map_of (ev_processes (st_snapshot st)) ?key = Some p" "ps_id p = pid" "ps_kind p = CommandProcess"
    "ps_status p = Running" "ps_exitCode p = None" "\<And>s. streamOutput s p = ?text s chunks"
    using here by (auto simp: streaming_def)
  define st2 where "st2 = st\<lparr>st_streamed := insert ?skey (st_streamed st), st_decoders := (st_decoders st)(?skey \<mapsto> history @ bytes)\<rparr>"
  define q where "q = setStream stream (clipped LIMIT_TEXT (streamOutput stream p @ pf_decode pf history bytes True))
      (streamTruncated stream p \<or> LIMIT_TEXT < length (streamOutput stream p @ pf_decode pf history bytes True)) p"
  define st3 where "st3 = patch (\<lambda>s. s\<lparr>ev_processes := put (ev_processes s) ?key q\<rparr>) st2"
  have was: "map_of (ev_processes (st_snapshot st2)) ?key = Some p" using p(1) by (simp add: st2_def)
  have q: "ps_id q = pid" "ps_kind q = CommandProcess" "ps_status q = Running" "ps_exitCode q = None"
    "streamOutput s q = ?text s (chunks @ [(stream, bytes)])" for s
    using p by (simp_all add: q_def history_def decodedText_append clipped_append del: LIMIT_TEXT_def)
  have now: "map_of (ev_processes (st_snapshot st3)) ?key = Some q"
    using processes_distinct [OF ok] by (simp add: st3_def st2_def lookup_put)
  have same: "p\<lparr>ps_id := pid, ps_kind := CommandProcess, ps_status := Running, ps_exitCode := None\<rparr> = p"
    using p by (intro streamOutput_same)
  have step: "afterwards (processOutput pf CommandProcess pid n st) =
      pruneStreams (recordEvent pf n (kindTitle CommandProcess @ zh_separator @ pid) zh_receivingOutput Running
        (Some ?key) None None (Some (outputText q)) False st3)"
    using n' was hist p(4) same unfolding processOutput_def Let_def
    by (simp add: st3_def st2_def q_def del: LIMIT_TEXT_def)
  have "streamKey CommandProcess pid s \<in> retainedStreams (recordEvent pf n t d st' i th tu tx b st3)" for s t d st' i th tu tx b
    using retained_put [of "recordEvent pf n t d st' i th tu tx b st3" ?key q s] now q by simp
  then show ?thesis
    using now here q unfolding streaming_def step
    by (simp add: pruneStreams_state st3_def st2_def patch_def history_def)
qed

text \<open>Events between which chunks may come: chunks of the command, and whatever is not about processes.\<close>

definition undisturbed :: "jstr \<Rightarrow> store_event \<Rightarrow> bool" where
  "undisturbed pid ev \<longleftrightarrow> outputOf pid ev \<noteq> None \<or> \<not> aboutProcesses ev"

lemma streaming_event:
  assumes "store_ok st" and "streaming pf pid chunks st" and "undisturbed pid ev"
  shows "streaming pf pid (chunks @ (case outputOf pid ev of None \<Rightarrow> [] | Some c \<Rightarrow> [c])) (happen pf ev st)"
proof (cases "outputOf pid ev")
  case None
  then have "\<not> aboutProcesses ev" using assms(3) by (simp add: undisturbed_def)
  then show ?thesis using None assms(2) streaming_part [OF happen_frame] by simp
next
  case (Some c)
  then obtain n where n: "ev = Consume n" "nt_method n = ''command/exec/outputDelta''" "str (params n) ''processId'' = pid"
    by (auto simp: outputOf_def split: store_event.splits if_splits)
  have "map_of handlers ''command/exec/outputDelta'' = Some onCommandOutput"
    by (simp add: handlers_def threadHandlers_def streamHandlers_def)
  moreover obtain stream bytes where c: "c = (stream, bytes)" by fastforce
  moreover have "streaming pf pid chunks (publish st') = streaming pf pid chunks st'" for chunks st'
    by (rule streaming_part) simp
  ultimately show ?thesis
    using streaming_chunk [OF assms(1,2) Some [unfolded n(1) c]] n Some
    by (auto simp: happen_def consume_def onCommandOutput_def split: result.split)
qed

definition chunksIn :: "jstr \<Rightarrow> store_event list \<Rightarrow> (output_stream \<times> 8 word list) list" where
  "chunksIn pid evs = concat (map (\<lambda>ev. case outputOf pid ev of None \<Rightarrow> [] | Some c \<Rightarrow> [c]) evs)"

lemma streaming_all:
  assumes "store_ok st" and "streaming pf pid chunks st" and "list_all (undisturbed pid) evs"
  shows "store_ok (happenAll pf evs st) \<and> streaming pf pid (chunks @ chunksIn pid evs) (happenAll pf evs st)"
  using assms
proof (induction evs arbitrary: st chunks)
  case (Cons ev evs)
  then have "undisturbed pid ev" by simp
  then show ?case
    using Cons.IH [OF store_ok_happen [OF Cons.prems(1)] streaming_event [OF Cons.prems(1,2)]] Cons.prems(3)
    by (simp add: chunksIn_def)
qed (simp add: chunksIn_def)

subsection \<open>Results\<close>

lemma completed_process:
  assumes "store_ok st" and "map_of (ev_processes (st_snapshot st)) (processKey kind pid) = Some p"
    and "ps_status p = Completed \<or> ps_status p = Failed"
  shows "completeProcess pf kind pid c out err b1 b2 st = st"
  using assms by (auto simp: completeProcess_def holds_def Let_def)

lemma process_after_completion:
  assumes "store_ok st" and "\<not> holds (\<lambda>p. ps_status p = Completed \<or> ps_status p = Failed)
      (map_of (ev_processes (st_snapshot st)) (processKey kind pid))"
  shows "\<exists>p. map_of (ev_processes (st_snapshot (completeProcess pf kind pid c out err b1 b2 st))) (processKey kind pid) = Some p \<and>
     ps_status p = (if c = 0 then Completed else Failed) \<and> ps_exitCode p = Some c \<and>
     ps_stdout p = clipped LIMIT_TEXT (capture pf kind pid Stdout out (map_of (ev_processes (st_snapshot st)) (processKey kind pid)) st) \<and>
     ps_stderr p = clipped LIMIT_TEXT (capture pf kind pid Stderr err (map_of (ev_processes (st_snapshot st)) (processKey kind pid)) st)"
  using processes_distinct [OF assms(1)]
  unfolding completeProcess_def Let_def if_not_P [OF assms(2)]
  by (simp add: saveRecord_def Let_def patch_def lookup_put)

lemma completed_stream:
  assumes ok: "store_ok st" and here: "streaming pf pid chunks st" and law: "streamingDecoder pf"
  shows "\<exists>p. map_of (ev_processes (st_snapshot (completeCommand pf pid c out err st))) (processKey CommandProcess pid) = Some p \<and>
     ps_status p = (if c = 0 then Completed else Failed) \<and> ps_exitCode p = Some c \<and>
     (\<forall>stream. streamOutput stream p = clipped LIMIT_TEXT
       (if chunksOf stream chunks = [] then (case stream of Stdout \<Rightarrow> out | Stderr \<Rightarrow> err)
        else pf_decode pf [] (concat (chunksOf stream chunks)) False))"
proof -
  obtain p where p: "map_of (ev_processes (st_snapshot st)) (processKey CommandProcess pid) = Some p" "ps_status p = Running"
    "\<And>s. streamOutput s p = clipped LIMIT_TEXT (decodedText pf [] (chunksOf s chunks))"
    using here by (auto simp: streaming_def)
  have captured: "clipped LIMIT_TEXT (capture pf CommandProcess pid s captured (Some p) st) =
      clipped LIMIT_TEXT (if chunksOf s chunks = [] then captured else pf_decode pf [] (concat (chunksOf s chunks)) False)"
    for s captured
  proof (cases "chunksOf s chunks = []")
    case True
    then have "streamKey CommandProcess pid s \<notin> st_streamed st" using here by (simp add: streaming_def streamed_iff [OF ok])
    then show ?thesis using True by (simp add: capture_def)
  next
    case False
    then have "st_decoders st (streamKey CommandProcess pid s) = Some (concat (chunksOf s chunks))" using here by (simp add: streaming_def)
    moreover from this have "streamKey CommandProcess pid s \<in> st_streamed st" by (simp add: streamed_iff [OF ok])
    moreover note law [unfolded streamingDecoder_def, rule_format, of "chunksOf s chunks"]
    ultimately show ?thesis using False by (simp add: capture_def p(3) clipped_append del: LIMIT_TEXT_def)
  qed
  have "\<not> holds (\<lambda>p. ps_status p = Completed \<or> ps_status p = Failed) (Some p)" using p(2) by (simp add: holds_def)
  from process_after_completion [OF ok, of CommandProcess pid pf c out err False False, unfolded p(1), OF this] obtain q where q:
    "map_of (ev_processes (st_snapshot (completeProcess pf CommandProcess pid c out err False False st))) (processKey CommandProcess pid) = Some q"
    "ps_status q = (if c = 0 then Completed else Failed)" "ps_exitCode q = Some c"
    "ps_stdout q = clipped LIMIT_TEXT (capture pf CommandProcess pid Stdout out (Some p) st)"
    "ps_stderr q = clipped LIMIT_TEXT (capture pf CommandProcess pid Stderr err (Some p) st)" by blast
  have "streamOutput stream q = clipped LIMIT_TEXT (if chunksOf stream chunks = [] then (case stream of Stdout \<Rightarrow> out | Stderr \<Rightarrow> err)
        else pf_decode pf [] (concat (chunksOf stream chunks)) False)" for stream
    by (cases stream) (simp_all only: streamOutput_def q captured output_stream.case)
  with q show ?thesis by (auto simp: completeCommand_def publish_simps)
qed

end
