(* ===== verification/EventProperties.thy ===== *)
theory EventProperties
  imports EventOutput
begin

text \<open>
  The properties of the event store. The run at the end of each group of lemmas is the concrete input
  of the witnesses: a platform whose decoder reads ASCII, and a few notifications.
\<close>

subsection \<open>A concrete run\<close>

definition asciiPlatform :: platform where
  "asciiPlatform = \<lparr>pf_numberText = (\<lambda>_. []), pf_decode = (\<lambda>history bytes more. map ucast bytes)\<rparr>"

definition noteFor :: "string \<Rightarrow> (string \<times> string) list \<Rightarrow> ServerNotification" where
  "noteFor name ps = \<lparr>nt_method = name, nt_params = JObj (map (\<lambda>(k, v). jprop k (JStr (lit v))) ps)\<rparr>"

definition queueChanged :: ServerNotification where
  "queueChanged = noteFor ''thread/queue/changed'' [(''threadId'', ''t'')]"

definition threadDeleted :: ServerNotification where
  "threadDeleted = noteFor ''thread/deleted'' [(''threadId'', ''t'')]"

definition outputOk :: ServerNotification where
  "outputOk = noteFor ''command/exec/outputDelta''
     [(''processId'', ''p''), (''stream'', ''stdout''), (''deltaBase64'', ''b2s='')]"

lemma queueChanged_note: "nt_method queueChanged = ''thread/queue/changed''" "str (params queueChanged) ''threadId'' = lit ''t''"
  by (simp add: queueChanged_def noteFor_def) code_simp

lemma threadDeleted_note: "nt_method threadDeleted = ''thread/deleted''" "str (params threadDeleted) ''threadId'' = lit ''t''"
  by (simp add: threadDeleted_def noteFor_def) code_simp

lemma asciiPlatform_streaming: "streamingDecoder asciiPlatform"
proof -
  have "decodedText asciiPlatform h chunks = map ucast (concat chunks)" for h chunks
    by (induction chunks arbitrary: h) (simp_all add: asciiPlatform_def)
  then show ?thesis by (simp add: streamingDecoder_def) (simp add: asciiPlatform_def)
qed

definition problemOk :: ServerNotification where
  "problemOk = noteFor ''command/exec/outputDelta''
     [(''processId'', ''p''), (''stream'', ''stderr''), (''deltaBase64'', ''b2s='')]"

lemma demo_chunks:
  "outputOf (lit ''p'') (Consume outputOk) = Some (Stdout, [0x6F, 0x6B])"
  "outputOf (lit ''p'') (Consume problemOk) = Some (Stderr, [0x6F, 0x6B])"
  "outputOf (lit ''p'') (Consume queueChanged) = None" "\<not> aboutProcesses (Consume queueChanged)"
  by code_simp+

lemma storeReachable_run: "storeReachable pf (happenAll pf evs newStore)"
  by (rule storeReachable_happenAll [OF storeReachable.start])

subsection \<open>Bounds\<close>



subsection \<open>Answers that are out of date\<close>

text \<open>An event after which an answer about the queue of a thread is out of date.\<close>

definition outdates :: "jstr \<Rightarrow> store_event \<Rightarrow> bool" where
  "outdates threadId ev \<longleftrightarrow>
     (case ev of
        Consume n \<Rightarrow> str (params n) ''threadId'' = threadId \<and>
          (nt_method n = ''thread/queue/changed'' \<or> nt_method n = ''thread/deleted'' \<or> nt_method n = ''thread/reverted'')
      | _ \<Rightarrow> False)"

lemma consume_total:
  assumes "map_of handlers (nt_method n) = Some (total h)"
  shows "st_snapshot (happen pf (Consume n) st) = st_snapshot (h pf n st)"
  using assms by (simp add: happen_def consume_def total_def)

lemma thread_handlers_found:
  "map_of handlers ''thread/queue/changed'' = Some (total onQueueChanged)"
  "map_of handlers ''thread/deleted'' = Some (total onThreadRemoved)"
  "map_of handlers ''thread/reverted'' = Some (total onThreadRemoved)"
  by (simp_all add: handlers_def threadHandlers_def streamHandlers_def)

lemma outdated_version:
  assumes "store_ok st" and "outdates threadId ev"
  shows "queueVersion threadId st < queueVersion threadId (happen pf ev st)"
proof -
  obtain n where n: "ev = Consume n" "str (params n) ''threadId'' = threadId"
    and name: "nt_method n = ''thread/queue/changed'' \<or> nt_method n = ''thread/deleted'' \<or> nt_method n = ''thread/reverted''"
    using assms(2) by (auto simp: outdates_def split: store_event.splits)
  from name have "st_snapshot (happen pf ev st) = st_snapshot (onQueueChanged pf n st) \<or>
      st_snapshot (happen pf ev st) = st_snapshot (onThreadRemoved pf n st)"
    unfolding n by (elim disjE) (simp_all add: consume_total thread_handlers_found)
  then show ?thesis
    using version_handlers(1,4) [OF assms(1), of n pf, THEN bumped_le(2)] n(2) by (auto simp: queueVersion_def)
qed

lemma versions_later:
  assumes "store_ok st" and "list_all (\<lambda>ev. ev \<noteq> Cleared) evs"
  shows "store_ok (happenAll pf evs st)" "queueVersion threadId st \<le> queueVersion threadId (happenAll pf evs st)"
    "set (ev_deletedThreadIds (st_snapshot st)) \<subseteq> set (ev_deletedThreadIds (st_snapshot (happenAll pf evs st)))"
  using progress.later [OF assms(2), of st st pf] assms(1) by (simp_all add: advances_def queueVersion_def)

text \<open>An answer to a query for the queue of a thread that was sent before the queue changed, or the
  thread was deleted or reverted, changes nothing, however many events come in between: neither the
  entries nor a failure of the query get into the snapshot.\<close>

theorem stale_queue_answer_ignored:
  assumes "storeReachable pf st" and "list_all (\<lambda>ev. ev \<noteq> Cleared) (before @ ev # later)" and "outdates threadId ev"
  defines "st' \<equiv> happenAll pf (before @ ev # later) st"
  shows "hydrateQueue pf threadId (queueVersion threadId st) entries st' = (False, st') \<and>
    failQueue threadId (queueVersion threadId st) problem st' = st'"
proof -
  define st1 where "st1 = happenAll pf before st"
  have clear_free: "list_all (\<lambda>ev. ev \<noteq> Cleared) before" "ev \<noteq> Cleared" "list_all (\<lambda>ev. ev \<noteq> Cleared) later"
    using assms(2) by simp_all
  have ok: "store_ok st" by (rule bounds.always [OF assms(1)])
  note first = versions_later [OF ok clear_free(1), where pf = pf, folded st1_def]
  note last = versions_later [OF store_ok_happen [OF first(1), of pf ev] clear_free(3), where pf = pf]
  have "queueVersion threadId st < queueVersion threadId (happenAll pf later (happen pf ev st1))"
    by (rule le_less_trans [OF first(2) less_le_trans [OF outdated_version [OF first(1) assms(3)] last(2)]])
  then have "queueVersion threadId st' \<noteq> queueVersion threadId st"
    by (simp add: st'_def happenAll_append st1_def)
  then show ?thesis by (simp add: hydrateQueue_def failQueue_def)
qed

theorem stale_queue_answer_ignored_witness:
  "fst (hydrateQueue asciiPlatform (lit ''t'') 0 [] (happenAll asciiPlatform [Consume queueChanged] newStore)) = False \<and>
   queueVersion (lit ''t'') (happenAll asciiPlatform [Consume queueChanged] newStore) = 1"
proof -
  have "outdates (lit ''t'') (Consume queueChanged)" by (simp add: outdates_def queueChanged_note)
  moreover have "queueVersion (lit ''t'') newStore = 0" by code_simp
  moreover have "queueVersion (lit ''t'') (happenAll asciiPlatform [Consume queueChanged] newStore) = 1"
    using version_handlers(1) [OF store_ok_newStore, of queueChanged asciiPlatform]
    by (simp add: queueVersion_def consume_total queueChanged_note thread_handlers_found bumped_def)
      (simp add: newStore_def initialSnapshot_def versionOf_def)
  ultimately show ?thesis
    using stale_queue_answer_ignored [OF storeReachable.start, of "[]" "Consume queueChanged" "[]" "lit ''t''" asciiPlatform "[]"]
    by simp
qed

text \<open>C37. Once a thread is deleted, no answer of a query brings its queue or its goal back, until the
  store is cleared.\<close>

theorem deleted_thread_not_revived:
  assumes "storeReachable pf st" and "nt_method n = ''thread/deleted''" and "str (params n) ''threadId'' = threadId"
    and "list_all (\<lambda>ev. ev \<noteq> Cleared) later"
  defines "st' \<equiv> happenAll pf (Consume n # later) st"
  shows "hydrateQueue pf threadId version entries st' = (False, st') \<and> hydrateGoal threadId version goal st' = (False, st') \<and>
    failQueue threadId version problem st' = st' \<and> failGoal pf threadId version problem st' = st'"
proof -
  have ok: "store_ok st" by (rule bounds.always [OF assms(1)])
  have "threadId \<in> set (ev_deletedThreadIds (st_snapshot (happen pf (Consume n) st)))"
    using version_handlers(6) [OF ok assms(2), of pf] assms(2,3) by (simp add: consume_total thread_handlers_found)
  then have "threadId \<in> set (ev_deletedThreadIds (st_snapshot st'))"
    using versions_later(3) [OF store_ok_happen [OF ok, of pf "Consume n"] assms(4), where pf = pf] by (auto simp: st'_def)
  then have "\<not> canHydrateThread threadId st'" by (simp add: canHydrateThread_def)
  then show ?thesis by (simp add: hydrateQueue_def hydrateGoal_def failQueue_def failGoal_def)
qed

theorem deleted_thread_not_revived_witness:
  "fst (hydrateGoal (lit ''t'') 1 JNull (happenAll asciiPlatform [Consume threadDeleted, Connected] newStore)) = False \<and>
   goalVersion (lit ''t'') (happenAll asciiPlatform [Consume threadDeleted, Connected] newStore) = 1"
proof -
  have "goalVersion (lit ''t'') (happenAll asciiPlatform [Consume threadDeleted, Connected] newStore) = 1" by code_simp
  then show ?thesis
    using deleted_thread_not_revived [OF storeReachable.start threadDeleted_note, of "[Connected]" asciiPlatform 1 "[]" JNull "[]"]
    by simp
qed

subsection \<open>Deletion and disconnection\<close>

lemma snapshot_distinct:
  assumes "snapshot_ok s"
  shows "distinct (keys (ev_tokenUsageByThread s))" "distinct (keys (ev_goalsByThread s))"
    "distinct (keys (ev_queuesByThread s))" "distinct (keys (ev_projectsByThread s))" "distinct (keys (ev_environmentsByThread s))"
    "distinct (keys (ev_realtimeByThread s))" "distinct (keys (ev_diffsByTurn s))" "distinct (keys (ev_searches s))"
    "distinct (keys (ev_imports s))" "distinct (keys (ev_processes s))" "distinct (keys (ev_goalVersionsByThread s))"
    "distinct (keys (ev_queueVersionsByThread s))"
  using assms unfolding snapshot_ok_def by (blast dest: entries_ok_distinct)+

text \<open>The entries of a map besides one key.\<close>

definition without :: "jstr \<Rightarrow> 'a entries \<Rightarrow> 'a entries \<Rightarrow> bool" where
  "without key m m' \<longleftrightarrow> map_of m' = (map_of m)(key := None)"

lemma without_omit: "distinct (keys m) \<Longrightarrow> without key m (omit m key)"
  by (rule ext [THEN without_def [THEN iffD2]]) (simp add: omit_simps)

lemma option_filtered:
  assumes "\<And>v. x = Some v \<longleftrightarrow> y = Some v \<and> P v"
  shows "x = (case y of None \<Rightarrow> None | Some v \<Rightarrow> if P v then Some v else None)"
proof (cases x)
  case None
  then have "\<not> P v" if "y = Some v" for v using assms [of v] that by simp
  then show ?thesis using None by (simp split: option.split)
next
  case (Some v)
  then show ?thesis using assms [of v] by simp
qed

lemma filtered_lookup:
  assumes "distinct (keys m)"
  shows "map_of (fromEntries (filter (\<lambda>e. P (snd e)) m)) = (\<lambda>k. case map_of m k of None \<Rightarrow> None | Some v \<Rightarrow> if P v then Some v else None)"
proof
  fix k
  have d: "distinct (keys (filter (\<lambda>e. P (snd e)) m))" using assms by (simp add: distinct_map_filter)
  have "map_of (filter (\<lambda>e. P (snd e)) m) k = Some v \<longleftrightarrow> map_of m k = Some v \<and> P v" for v
    unfolding map_of_eq_Some_iff [OF assms] map_of_eq_Some_iff [OF d] by simp
  then show "map_of (fromEntries (filter (\<lambda>e. P (snd e)) m)) k = (case map_of m k of None \<Rightarrow> None | Some v \<Rightarrow> if P v then Some v else None)"
    unfolding fromEntries_distinct [OF d] map_of_enumerated [OF d] by (rule option_filtered)
qed

text \<open>Deleting a thread removes everything the snapshot derived from it, records, token usage, goal,
  queue, project, environment, realtime session and diffs, and nothing of any other thread.\<close>

theorem deleted_thread_leaves_nothing:
  assumes "storeReachable pf st" and "nt_method n = ''thread/deleted''" and "str (params n) ''threadId'' = threadId"
  defines "s \<equiv> st_snapshot st" and "s' \<equiv> st_snapshot (happen pf (Consume n) st)"
  shows "ev_records s' = filter (\<lambda>e. er_threadId e \<noteq> Some threadId) (ev_records s) \<and>
    without threadId (ev_tokenUsageByThread s) (ev_tokenUsageByThread s') \<and>
    without threadId (ev_goalsByThread s) (ev_goalsByThread s') \<and>
    without threadId (ev_queuesByThread s) (ev_queuesByThread s') \<and>
    without threadId (ev_projectsByThread s) (ev_projectsByThread s') \<and>
    without threadId (ev_environmentsByThread s) (ev_environmentsByThread s') \<and>
    without threadId (ev_realtimeByThread s) (ev_realtimeByThread s') \<and>
    map_of (ev_diffsByTurn s') = (\<lambda>turn. case map_of (ev_diffsByTurn s) turn of None \<Rightarrow> None
      | Some d \<Rightarrow> if td_threadId d \<noteq> threadId then Some d else None) \<and>
    ev_processes s' = ev_processes s \<and> ev_searches s' = ev_searches s \<and>
    set (ev_deletedThreadIds s') = insert threadId (set (ev_deletedThreadIds s))"
proof -
  have ok: "snapshot_ok s" using bounds.always [OF assms(1)] by (simp add: s_def store_ok_snapshot)
  note distinct = snapshot_distinct [OF ok]
  have s': "s' = st_snapshot (onThreadRemoved pf n st)"
    using assms(2) by (simp add: s'_def consume_total thread_handlers_found)
  show ?thesis
    unfolding s' using assms(2,3) distinct
    by (simp add: onThreadRemoved_def clearThread_def Let_def s_def without_omit
      filtered_lookup [where P = "\<lambda>d. td_threadId d \<noteq> threadId"])
qed

theorem deleted_thread_leaves_nothing_witness:
  "map_of (ev_queuesByThread (st_snapshot (happen asciiPlatform (Consume threadDeleted)
     (happenAll asciiPlatform [Consume queueChanged] newStore)))) (lit ''t'') = None \<and>
   list_ex (\<lambda>e. er_threadId e = Some (lit ''t'')) (ev_records (st_snapshot (happenAll asciiPlatform [Consume queueChanged] newStore)))"
proof -
  have "list_ex (\<lambda>e. er_threadId e = Some (lit ''t'')) (ev_records (st_snapshot (happenAll asciiPlatform [Consume queueChanged] newStore)))"
    by (simp add: consume_total queueChanged_note thread_handlers_found)
      (simp add: onQueueChanged_def queueChanged_note recordEvent_def saveRecord_def newStore_def initialSnapshot_def Let_def
        takeLast_def nextSerial_def patch_def newRecord_def)
  then show ?thesis
    using deleted_thread_leaves_nothing [OF storeReachable_run threadDeleted_note, of asciiPlatform "[Consume queueChanged]"]
    by (simp add: without_def)
qed



lemma settled_not_running [simp]: "settled status \<noteq> Running"
  by (simp add: settled_def)

lemma list_all_mapValues:
  "distinct (keys m) \<Longrightarrow> (\<And>v. P (f v)) \<Longrightarrow> list_all (\<lambda>e. P (snd e)) (mapValues f m)"
  by (auto simp: list_all_iff mapValues_simps)







subsection \<open>Secrets\<close>

text \<open>What a property with a sensitive name holds, at any depth of a payload, has no influence on the
  records of the store: a record made of a payload is the same when such values are replaced.\<close>

theorem records_hide_secrets:
  assumes "samePublic (nt_params n) changed"
  shows "recordEvent pf (n\<lparr>nt_params := changed\<rparr>) title detail status rid threadId turnId text' includeParams st =
    recordEvent pf n title detail status rid threadId turnId text' includeParams st"
  by (rule recordEvent_samePublic [OF assms])

definition login :: "string \<Rightarrow> ServerNotification" where
  "login secret = \<lparr>nt_method = ''account/login/completed'', nt_params =
     JObj [jprop ''success'' (JBool True), jprop ''session'' (JObj [jprop ''accessToken'' (JStr (lit secret))])]\<rparr>"

lemma samePublic_login: "samePublic (nt_params (login a)) (nt_params (login b))"
proof -
  have "sensitiveKey (lit ''accessToken'')" by code_simp
  then have "samePublic (JObj [jprop ''accessToken'' (JStr (lit a))]) (JObj [jprop ''accessToken'' (JStr (lit b))])"
    by (intro samePublic.objects) (simp_all add: keyText_def)
  then show ?thesis
    unfolding login_def by (simp, intro samePublic.objects) (auto simp: less_Suc_eq intro: samePublic.same)
qed

theorem records_hide_secrets_witness:
  "recordEvent asciiPlatform (login ''a1'') [] [] Completed None None None None True newStore =
   recordEvent asciiPlatform (login ''b22'') [] [] Completed None None None None True newStore"
  using records_hide_secrets [OF samePublic_login [of "''b22''" "''a1''"], of asciiPlatform "[]" "[]" Completed None None None None True newStore]
  by (simp add: login_def)

subsection \<open>Processes\<close>

text \<open>C40. The output of a command that streams refines the text of its bytes. From the start of the command on, let chunks of
  its standard output and of its errors come in any order (each decoded, none that reports a reached cap), with events
  in between that are not about processes. With a decoder that does not depend on how the bytes are split, the store
  shows for either stream the tail of the text decoded so far; and after the result of the command the tail of the text of all
  the bytes of the stream, and not the capture that comes with the result, or that capture if the stream had no chunk.\<close>

theorem streamed_output_is_tail:
  fixes pf st pid evs stream code out err
  assumes "storeReachable pf st" and "streamingDecoder pf" and "list_all (undisturbed pid) evs"
  defines "st' \<equiv> happenAll pf (ProcessStarted CommandProcess pid # evs) st" and "cs \<equiv> chunksOf stream (chunksIn pid evs)"
  shows "map_option (streamOutput stream) (map_of (ev_processes (st_snapshot st')) (processKey CommandProcess pid)) =
      Some (clipped LIMIT_TEXT (decodedText pf [] cs)) \<and>
    map_option (\<lambda>p. (streamOutput stream p, ps_exitCode p))
      (map_of (ev_processes (st_snapshot (happen pf (CommandCompleted pid code out err) st'))) (processKey CommandProcess pid)) =
      Some (clipped LIMIT_TEXT (if cs = [] then (case stream of Stdout \<Rightarrow> out | Stderr \<Rightarrow> err) else pf_decode pf [] (concat cs) False),
        Some code)"
proof -
  have ok: "store_ok st" by (rule bounds.always [OF assms(1)])
  have started: "store_ok (startProcess CommandProcess pid st)" by (rule store_ok_processes(2) [OF ok])
  have st': "st' = happenAll pf evs (startProcess CommandProcess pid st)" by (simp add: st'_def happen_def)
  note run = streaming_all [OF started streaming_start [OF ok, of pf pid] assms(3), folded st']
  then show ?thesis
    using completed_stream [of st' pf pid "chunksIn pid evs" code out err, OF _ _ assms(2)]
    unfolding cs_def by (auto simp: happen_def streaming_def simp del: LIMIT_TEXT_def)
qed

theorem streamed_output_is_tail_witness:
  "map_option (\<lambda>p. (streamOutput Stdout p, ps_exitCode p))
     (map_of (ev_processes (st_snapshot (happen asciiPlatform (CommandCompleted (lit ''p'') 0 (lit ''x'') [])
       (happenAll asciiPlatform (ProcessStarted CommandProcess (lit ''p'') #
          [Consume outputOk, Consume problemOk, Consume queueChanged, Consume outputOk]) newStore))))
       (processKey CommandProcess (lit ''p''))) = Some (lit ''okok'', Some 0)"
proof -
  let ?evs = "[Consume outputOk, Consume problemOk, Consume queueChanged, Consume outputOk]"
  have "list_all (undisturbed (lit ''p'')) ?evs" by (simp add: undisturbed_def demo_chunks)
  note all = streamed_output_is_tail [OF storeReachable.start asciiPlatform_streaming this, where stream = Stdout and code = 0
      and out = "lit ''x''" and err = "[]"]
  have "chunksOf Stdout (chunksIn (lit ''p'') ?evs) = [[0x6F, 0x6B], [0x6F, 0x6B]]"
    by (simp add: chunksIn_def demo_chunks chunksOf_def)
  moreover have "clipped LIMIT_TEXT (pf_decode asciiPlatform [] (concat [[0x6F, 0x6B], [0x6F, 0x6B]]) False) = lit ''okok''"
    by (simp add: clipped_def takeLast_id asciiPlatform_def) code_simp
  ultimately show ?thesis using all by simp
qed

text \<open>The first result of a process is final: a second one, from the response or from the notification,
  changes nothing, until the process starts again.\<close>

theorem first_result_is_final:
  fixes kind pid code out err outCap errCap
  assumes "storeReachable pf st"
  defines "st' \<equiv> completeProcess pf kind pid code out err outCap errCap st"
  shows "completeProcess pf kind pid code' out' err' outCap' errCap' st' = st'"
proof -
  have ok: "store_ok st" by (rule bounds.always [OF assms(1)])
  let ?done = "holds (\<lambda>p. ps_status p = Completed \<or> ps_status p = Failed)"
  have "\<exists>p. map_of (ev_processes (st_snapshot st')) (processKey kind pid) = Some p \<and> (ps_status p = Completed \<or> ps_status p = Failed)"
  proof (cases "?done (map_of (ev_processes (st_snapshot st)) (processKey kind pid))")
    case True
    then have "st' = st" by (simp add: st'_def completeProcess_def Let_def)
    with True show ?thesis by (auto simp: holds_def split: option.splits)
  next
    case False
    from process_after_completion [OF ok this, of pf code out err outCap errCap] show ?thesis
      by (auto simp: st'_def split: if_splits)
  qed
  moreover have "store_ok st'" unfolding st'_def by (rule store_ok_completeProcess [OF ok])
  ultimately show ?thesis using completed_process by blast
qed

theorem first_result_is_final_witness:
  "completeProcess asciiPlatform SpawnedProcess (lit ''p'') 1 [] [] False False
     (completeProcess asciiPlatform SpawnedProcess (lit ''p'') 0 (lit ''out'') [] False False newStore) =
   completeProcess asciiPlatform SpawnedProcess (lit ''p'') 0 (lit ''out'') [] False False newStore"
  by (rule first_result_is_final [OF storeReachable.start])

subsection \<open>Keys, errors and audio\<close>

text \<open>The keys of records, processes and output streams name exactly one entity: they are equal only
  for equal parts, whatever text a server puts into identifiers, and the key of a process is never that
  of a stream.\<close>

theorem keys_never_collide:
  "(keyOf parts = keyOf parts') = (parts = parts') \<and>
   (processKey kind pid = processKey kind' pid') = (kind = kind' \<and> pid = pid') \<and>
   (streamKey kind pid stream = streamKey kind' pid' stream') = (kind = kind' \<and> pid = pid' \<and> stream = stream') \<and>
   processKey kind pid \<noteq> streamKey kind' pid' stream'"
proof -
  have "processKey kind pid = processKey kind' pid' \<longleftrightarrow> kind = kind' \<and> pid = pid'"
    by (cases kind; cases kind') (simp_all add: processKey_def kindText_def)
  then show ?thesis unfolding streamKey_inject by (simp add: processKey_def streamKey_def)
qed

text \<open>A notification is refused exactly when its name is unknown or its base64 text is broken; then the
  snapshot is the old one and no listener is called. Otherwise every listener is called once if the
  snapshot was replaced, and none if it was not.\<close>

theorem consume_fails_cleanly:
  "case consume pf n st of
     Threw st' \<Rightarrow> unacceptable n \<and> untouched st st'
   | Done st' \<Rightarrow> \<not> unacceptable n \<and> st_listeners st' = st_listeners st \<and>
       st_calls st' = st_calls st @ (if st_identity st' = st_identity st then [] else st_listeners st)"
proof (cases "map_of handlers (nt_method n)")
  case None
  then show ?thesis by (simp add: consume_def unacceptable_def untouched_def)
next
  case (Some h)
  then show ?thesis
    using failsCleanly_handler [OF Some, of st pf]
    by (auto simp: consume_def failsCleanly_def unacceptable_def ears_def publish_def split: result.splits)
qed

text \<open>The loop that trims the audio of a realtime session leaves exactly the longest run of the newest
  chunks that fits both limits, and reports a loss exactly when there was one.\<close>

theorem audio_window_longest:
  "trimChunks chunks (sum_list (map chunkQuarters chunks)) dropped =
     (last (filter audio_ok (suffixes chunks)), if audio_ok chunks then dropped else True)"
  by (simp add: trimChunks_window)

end
