(* ===== verification/SessionModel.thy ===== *)
theory SessionModel
  imports EventApi RpcInbound
begin

text \<open>
  The session of an app server, \<open>src/appServer/session.ts\<close>: the life cycle of one
  connection. A session owns a router (\<open>RpcRouter\<close>) and an event store
  (\<open>EventApi\<close>), both of which are part of its state here.

  \<^item> A segment of code up to an await is a function on sessions. The two asynchronous functions
    \<open>startInternal\<close> and \<open>closeInternal\<close> are coroutines: where each of them waits
    is a component of the state (\<open>start_pc\<close>, \<open>close_pc\<close>).
  \<^item> The chain of promises \<open>inboundTail\<close> is a queue; its head may be at work.
  \<^item> A listener of the state may return, throw or close the session: each call that changes the
    state takes the reaction of the listener to each phase. A listener that closes the session once more while
    it is closing is left out, as is a diagnostics listener with side effects.
\<close>

section \<open>Data\<close>

datatype AppServerSessionPhase = PIdle | PConnecting | PInitializing | PReady | PClosing | PClosed | PError

datatype TransportConnectionStage =
    ResolvingTarget | ConnectingProxy | ProxyAuthentication | EstablishingTunnel | TargetTls | WebSocketHandshake

datatype AppServerConnectionStage = TransportStage TransportConnectionStage | AppServerInitialization

datatype AppServerSessionErrorCode =
    InvalidState | SessionClosed | TransportConnectFailed | TransportConnectCancelFailed | TransportClosed
  | TransportFailure | InvalidTransportJson | InboundQueueOverflow | InboundProcessingFailed
  | InitializationRejected | InvalidInitializationResponse | InitializationWriteFailed
  | InitializationInterrupted | InitializationFailed

record InitializeResponse =
  ir_codexHome :: jsval
  ir_platformFamily :: jsval
  ir_platformOs :: jsval
  ir_userAgent :: jsval

record AppServerSessionState =
  sn_phase :: AppServerSessionPhase
  sn_connectionStage :: "AppServerConnectionStage option"
  sn_initializeResponse :: "InitializeResponse option"
  sn_errorCode :: "AppServerSessionErrorCode option"
  sn_transportTermination :: "jsval option"

datatype session_diagnostic =
    StateHandlerFailed | ConnectCancelFailed | TransportCloseFailed | TransportFailureReported
  | InvalidJsonReported | QueueOverflowReported | ProcessingFailureReported

datatype session_effect =
    StateChanged AppServerSessionState
  | RpcDiagnosed RpcDiagnostic
  | SessionDiagnosed session_diagnostic AppServerSessionPhase
  | ConnectCalled
  | CancelCalled
  | TransportCloseCalled
  | Accepted jstr   \<comment> \<open>a message is counted as pending\<close>
  | Handed jstr     \<comment> \<open>a message is parsed and given to the router\<close>

text \<open>What the connector resolves to: an object with both methods, and whether its \<open>close\<close> throws at once.\<close>

record transport =
  tp_valid :: bool
  tp_closeThrows :: bool

text \<open>A start that throws: an error of the session, or the router has no epochs left.\<close>

datatype start_failure = SessionError AppServerSessionErrorCode | EpochExhausted

datatype start_pc =
    NotStarted
  | Scheduled
  | AwaitConnect
  | AwaitCloseThen AppServerSessionErrorCode
  | AwaitInitialize nat jstr
  | StartRejected start_failure
  | Started InitializeResponse

text \<open>The flag says that the cancellation of the connector failed; a transport may be there or not.\<close>

datatype close_pc =
    NotClosing
  | AwaitCancel
  | AwaitStart
  | AwaitTransport bool bool
  | AwaitInbound bool
  | CloseSettled bool

record session =
  ss_phase :: AppServerSessionPhase
  ss_connectionStage :: "AppServerConnectionStage option"
  ss_transportTermination :: "jsval option"
  ss_initializeResponse :: "InitializeResponse option"
  ss_failureCode :: "AppServerSessionErrorCode option"
  ss_transport :: "transport option"
  ss_transportClose :: "bool option"   \<comment> \<open>called, and whether its promise is settled\<close>
  ss_epoch :: "nat option"
  ss_start :: start_pc
  ss_close :: close_pc
  ss_earlyInboundMessages :: "jstr list"
  ss_bufferingInbound :: bool
  ss_pendingInboundCount :: int
  ss_inbound :: "(nat \<times> jstr) list"
  ss_busy :: bool
  ss_watches :: "(jstr \<times> ProcessKind \<times> jstr) list"
  ss_router :: router
  ss_events :: ServerEventStore
  ss_log :: "session_effect list"

text \<open>
  The options, and what is not code of the repository: the JSON parser of the platform and the
  generated validator of the result of \<open>command/exec\<close>.
\<close>

record session_env =
  se_router :: router_env
  se_platform :: platform
  se_inboundQueueCapacity :: nat
  se_cancelTransportConnect :: bool
  se_parse :: "jstr \<Rightarrow> jsval option"
  se_validateCommandExec :: "jsval \<Rightarrow> (int \<times> jstr \<times> jstr) option"
  se_initializeParams :: jsval

datatype reaction = Quiet | Throws | Closes

type_synonym reactions = "AppServerSessionPhase \<Rightarrow> reaction"

section \<open>The constructor\<close>

text \<open>The store is the first handler of notifications, number 0.\<close>

definition newSession :: "nat \<Rightarrow> session" where
  "newSession epochSequence = \<lparr>ss_phase = PIdle, ss_connectionStage = None, ss_transportTermination = None,
     ss_initializeResponse = None, ss_failureCode = None, ss_transport = None, ss_transportClose = None,
     ss_epoch = None, ss_start = NotStarted, ss_close = NotClosing, ss_earlyInboundMessages = [],
     ss_bufferingInbound = True, ss_pendingInboundCount = 0, ss_inbound = [], ss_busy = False,
     ss_watches = [], ss_router = subscribeNotifications 0 (newRouter epochSequence), ss_events = newStore,
     ss_log = []\<rparr>"

definition constructSession :: "int \<Rightarrow> nat \<Rightarrow> string + session" where
  "constructSession inboundQueueCapacity epochSequence =
     (if \<not> isSafeInt inboundQueueCapacity \<or> inboundQueueCapacity \<le> 0
      then Inl ''inboundQueueCapacity must be a positive safe integer''
      else Inr (newSession epochSequence))"

section \<open>State and diagnostics\<close>

definition isClosingOrClosed :: "AppServerSessionPhase \<Rightarrow> bool" where
  "isClosingOrClosed phase \<longleftrightarrow> phase = PClosing \<or> phase = PClosed"

definition terminated :: "AppServerSessionPhase \<Rightarrow> bool" where
  "terminated phase \<longleftrightarrow> phase = PClosing \<or> phase = PClosed \<or> phase = PError"

definition snapshot :: "session \<Rightarrow> AppServerSessionState" where
  "snapshot s = \<lparr>sn_phase = ss_phase s, sn_connectionStage = ss_connectionStage s,
     sn_initializeResponse = ss_initializeResponse s,
     sn_errorCode = (if ss_phase s = PError then ss_failureCode s else None),
     sn_transportTermination = (if ss_phase s = PError then ss_transportTermination s else None)\<rparr>"

definition logSession :: "session_effect \<Rightarrow> session \<Rightarrow> session" where
  "logSession x s = s\<lparr>ss_log := ss_log s @ [x]\<rparr>"

definition emitSessionDiagnostic :: "session_diagnostic \<Rightarrow> session \<Rightarrow> session" where
  "emitSessionDiagnostic code s = logSession (SessionDiagnosed code (ss_phase s)) s"

definition setEvents :: "(ServerEventStore \<Rightarrow> ServerEventStore) \<Rightarrow> session \<Rightarrow> session" where
  "setEvents f s = s\<lparr>ss_events := f (ss_events s)\<rparr>"

text \<open>The first part of \<open>transition\<close>; then the listener.\<close>

definition enterPhase :: "AppServerSessionPhase \<Rightarrow> session \<Rightarrow> session" where
  "enterPhase phase s =
     (if terminated phase then setEvents disconnect (s\<lparr>ss_phase := phase\<rparr>) else s\<lparr>ss_phase := phase\<rparr>)"

definition announce :: "reaction \<Rightarrow> session \<Rightarrow> session" where
  "announce r s =
     (let s1 = logSession (StateChanged (snapshot s)) s in
      if r = Throws then emitSessionDiagnostic StateHandlerFailed s1 else s1)"

section \<open>Closing\<close>

definition closeRouter :: "session \<Rightarrow> session" where
  "closeRouter s =
     (case ss_epoch s of
        None \<Rightarrow> s
      | Some epoch \<Rightarrow> s\<lparr>ss_epoch := None, ss_router := snd (RpcRouter.close epoch (ss_router s))\<rparr>)"

definition closeTransport :: "session \<Rightarrow> session" where
  "closeTransport s =
     (case ss_transport s of
        None \<Rightarrow> s
      | Some t \<Rightarrow>
          if ss_transportClose s \<noteq> None then s
          else if tp_closeThrows t
          then emitSessionDiagnostic TransportCloseFailed
                 (logSession TransportCloseCalled (s\<lparr>ss_transportClose := Some True\<rparr>))
          else logSession TransportCloseCalled (s\<lparr>ss_transportClose := Some False\<rparr>))"

definition discardEarlyInboundMessages :: "session \<Rightarrow> session" where
  "discardEarlyInboundMessages s = s\<lparr>
     ss_pendingInboundCount := ss_pendingInboundCount s - int (length (ss_earlyInboundMessages s)),
     ss_earlyInboundMessages := []\<rparr>"

text \<open>The segments of \<open>closeInternal\<close>, the last one first.\<close>

definition closeFinished :: "reactions \<Rightarrow> bool \<Rightarrow> session \<Rightarrow> session" where
  "closeFinished react cancelFailed s =
     (announce (react PClosed) (enterPhase PClosed s))\<lparr>ss_close := CloseSettled cancelFailed\<rparr>"

definition closeAfterStart :: "bool \<Rightarrow> session \<Rightarrow> session" where
  "closeAfterStart cancelFailed s =
     (closeTransport s)\<lparr>ss_close := AwaitTransport cancelFailed (ss_transport s \<noteq> None)\<rparr>"

definition closeAfterCancel :: "bool \<Rightarrow> session \<Rightarrow> session" where
  "closeAfterCancel cancelFailed s =
     (if ss_start s \<noteq> NotStarted \<and> \<not> cancelFailed then s\<lparr>ss_close := AwaitStart\<rparr>
      else closeAfterStart cancelFailed s)"

definition closeInternal :: "session_env \<Rightarrow> reactions \<Rightarrow> session \<Rightarrow> session" where
  "closeInternal env react s =
     (if ss_phase s = PClosed then s\<lparr>ss_close := CloseSettled False\<rparr>
      else if ss_phase s = PIdle then closeFinished react False s
      else
        let s1 = discardEarlyInboundMessages (closeRouter (announce (react PClosing) (enterPhase PClosing s))) in
        if ss_transport s1 = None \<and> se_cancelTransportConnect env
        then (logSession CancelCalled s1)\<lparr>ss_close := AwaitCancel\<rparr>
        else closeAfterCancel False s1)"

definition closeSession :: "session_env \<Rightarrow> reactions \<Rightarrow> session \<Rightarrow> session" where
  "closeSession env react s = (if ss_close s \<noteq> NotClosing then s else closeInternal env react s)"

section \<open>Transitions and failures\<close>

definition notify :: "session_env \<Rightarrow> reactions \<Rightarrow> session \<Rightarrow> session" where
  "notify env react s =
     (let r = react (ss_phase s); s1 = announce r s in
      if r = Closes then closeSession env react s1 else s1)"

definition transition :: "session_env \<Rightarrow> reactions \<Rightarrow> AppServerSessionPhase \<Rightarrow> session \<Rightarrow> session" where
  "transition env react phase s = notify env react (enterPhase phase s)"

definition fail :: "session_env \<Rightarrow> reactions \<Rightarrow> AppServerSessionErrorCode \<Rightarrow> session \<Rightarrow> session" where
  "fail env react code s =
     (if terminated (ss_phase s) then s
      else closeTransport (transition env react PError
        (discardEarlyInboundMessages (closeRouter (s\<lparr>ss_failureCode := Some code\<rparr>)))))"

end
