(* ===== verification/SessionSteps.thy ===== *)
theory SessionSteps
  imports SessionModel
begin

text \<open>
  The operations of a session: the callbacks of its router, starting, inbound messages, requests of
  the application; then the events and the reachable sessions.
\<close>

section \<open>Callbacks of the router\<close>

text \<open>A message the generated validator accepted, as a notification of the store.\<close>

definition notificationOf :: "jsval \<Rightarrow> ServerNotification" where
  "notificationOf message =
     \<lparr>nt_method = (case find (\<lambda>e. lit (fst e) = str (objectOf message) ''method'') handlers of
        None \<Rightarrow> [] | Some e \<Rightarrow> fst e),
      nt_params = field (objectOf message) ''params''\<rparr>"

text \<open>
  What the session does for an effect of its router: the handler of notifications number 0 is the
  store; the store also records three kinds of diagnostics.
\<close>

definition heed :: "session_env \<Rightarrow> reactions \<Rightarrow> rpc_effect \<Rightarrow> session \<Rightarrow> session" where
  "heed env react x s =
     (case x of
        InboundTaskFailure epoch \<Rightarrow>
          if ss_epoch s = Some epoch then fail env react InboundProcessingFailed s else s
      | Emitted diagnostic \<Rightarrow>
          logSession (RpcDiagnosed diagnostic)
            (setEvents (recordDiagnostic (dg_code diagnostic) (dg_method diagnostic)) s)
      | NotificationDelivered handler message \<Rightarrow>
          if handler = 0
          then setEvents (\<lambda>st. afterwards (consume (se_platform env) (notificationOf message) st)) s
          else s
      | _ \<Rightarrow> s)"

definition heedAll :: "session_env \<Rightarrow> reactions \<Rightarrow> rpc_effect list \<Rightarrow> session \<Rightarrow> session" where
  "heedAll env react xs s = fold (heed env react) xs s"

text \<open>One segment of the router, with the callbacks it makes.\<close>

definition withRouter :: "session_env \<Rightarrow> reactions \<Rightarrow> (router \<Rightarrow> router) \<Rightarrow> session \<Rightarrow> session" where
  "withRouter env react f s =
     heedAll env react (drop (length (rt_log (ss_router s))) (rt_log (f (ss_router s))))
       (s\<lparr>ss_router := f (ss_router s)\<rparr>)"

section \<open>Inbound messages\<close>

definition enqueueInboundMessage :: "nat \<Rightarrow> jstr \<Rightarrow> session \<Rightarrow> session" where
  "enqueueInboundMessage epoch json s = s\<lparr>ss_inbound := ss_inbound s @ [(epoch, json)]\<rparr>"

definition flushEarlyInboundMessages :: "nat \<Rightarrow> session \<Rightarrow> session" where
  "flushEarlyInboundMessages epoch s =
     fold (enqueueInboundMessage epoch) (ss_earlyInboundMessages s)
       (s\<lparr>ss_earlyInboundMessages := [], ss_bufferingInbound := False\<rparr>)"

definition receiveProtocolMessage :: "session_env \<Rightarrow> reactions \<Rightarrow> jstr \<Rightarrow> session \<Rightarrow> session" where
  "receiveProtocolMessage env react json s =
     (if terminated (ss_phase s) then s
      else if ss_pendingInboundCount s \<ge> int (se_inboundQueueCapacity env)
      then fail env react InboundQueueOverflow (emitSessionDiagnostic QueueOverflowReported s)
      else
        let s1 = logSession (Accepted json) (s\<lparr>ss_pendingInboundCount := ss_pendingInboundCount s + 1\<rparr>) in
        (case ss_epoch s1 of
           None \<Rightarrow> s1\<lparr>ss_earlyInboundMessages := ss_earlyInboundMessages s1 @ [json]\<rparr>
         | Some epoch \<Rightarrow>
             if ss_bufferingInbound s1
             then s1\<lparr>ss_earlyInboundMessages := ss_earlyInboundMessages s1 @ [json]\<rparr>
             else enqueueInboundMessage epoch json s1))"

text \<open>The end of a link of the chain.\<close>

definition inboundLeft :: "session \<Rightarrow> session" where
  "inboundLeft s = s\<lparr>ss_inbound := tl (ss_inbound s), ss_busy := False,
     ss_pendingInboundCount := ss_pendingInboundCount s - 1\<rparr>"

definition inboundBegins :: "session_env \<Rightarrow> reactions \<Rightarrow> session \<Rightarrow> session" where
  "inboundBegins env react s =
     (case ss_inbound s of
        [] \<Rightarrow> s
      | (epoch, json) # _ \<Rightarrow>
          if ss_busy s then s
          else if ss_epoch s \<noteq> Some epoch then inboundLeft s
          else (case se_parse env json of
              None \<Rightarrow> inboundLeft (fail env react InvalidTransportJson (emitSessionDiagnostic InvalidJsonReported s))
            | Some message \<Rightarrow>
                withRouter env react (handleIncoming (se_router env) epoch message)
                  (logSession (Handed json) (s\<lparr>ss_busy := True\<rparr>))))"

definition inboundEnds :: "session_env \<Rightarrow> reactions \<Rightarrow> bool \<Rightarrow> session \<Rightarrow> session" where
  "inboundEnds env react ok s =
     (if \<not> ss_busy s then s
      else inboundLeft (if ok then s
        else fail env react InboundProcessingFailed (emitSessionDiagnostic ProcessingFailureReported s)))"

section \<open>Starting\<close>

definition start :: "session_env \<Rightarrow> reactions \<Rightarrow> session \<Rightarrow> AppServerSessionErrorCode + session" where
  "start env react s =
     (if ss_phase s \<noteq> PIdle then Inl InvalidState
      else Inr (transition env react PConnecting (s\<lparr>ss_start := Scheduled, ss_connectionStage := None\<rparr>)))"

text \<open>The segments of \<open>startInternal\<close>.\<close>

definition startThrows :: "AppServerSessionErrorCode \<Rightarrow> session \<Rightarrow> session" where
  "startThrows code s = s\<lparr>ss_start := StartRejected (SessionError code)\<rparr>"

definition startBegins :: "session \<Rightarrow> session" where
  "startBegins s =
     (if isClosingOrClosed (ss_phase s) then startThrows SessionClosed s
      else (logSession ConnectCalled s)\<lparr>ss_start := AwaitConnect\<rparr>)"

definition initializationErrorCode :: "rpc_error \<Rightarrow> AppServerSessionErrorCode" where
  "initializationErrorCode e =
     (case e of
        RpcRemoteError _ _ \<Rightarrow> InitializationRejected
      | RpcInvalidResultError _ \<Rightarrow> InvalidInitializationResponse
      | RpcWriteError \<Rightarrow> InitializationWriteFailed
      | RpcConnectionClosedError \<Rightarrow> InitializationInterrupted
      | RpcConnectionError _ \<Rightarrow> InitializationInterrupted
      | RpcInitializationFailedError \<Rightarrow> InitializationInterrupted
      | _ \<Rightarrow> InitializationFailed)"

text \<open>How a segment that finds the session closed or failed ends.\<close>

definition interruption :: "session \<Rightarrow> AppServerSessionErrorCode option" where
  "interruption s = (if isClosingOrClosed (ss_phase s) then Some SessionClosed else ss_failureCode s)"

definition openConnection :: "session_env \<Rightarrow> reactions \<Rightarrow> session \<Rightarrow> session" where
  "openConnection env react s =
     (case open_connection (ss_router s) of
        Inl _ \<Rightarrow> s\<lparr>ss_start := StartRejected EpochExhausted\<rparr>
      | Inr (epoch, r1) \<Rightarrow>
          let s1 = transition env react PInitializing (s\<lparr>ss_router := r1, ss_epoch := Some epoch,
                ss_connectionStage := Some AppServerInitialization\<rparr>) in
          (case interruption s1 of
             Some code \<Rightarrow> startThrows code s1
           | None \<Rightarrow>
               (case initialize (se_router env) (se_initializeParams env) (ss_router s1) of
                  Inl e \<Rightarrow> startThrows (initializationErrorCode e) (fail env react (initializationErrorCode e) s1)
                | Inr (rid, r2) \<Rightarrow>
                    (flushEarlyInboundMessages epoch (s1\<lparr>ss_router := r2\<rparr>))\<lparr>ss_start := AwaitInitialize epoch rid\<rparr>)))"

definition transportConnected ::
  "session_env \<Rightarrow> reactions \<Rightarrow> transport option \<Rightarrow> session \<Rightarrow> session" where
  "transportConnected env react outcome s =
     (if ss_start s \<noteq> AwaitConnect then s
      else case outcome of
        None \<Rightarrow>
          (case interruption s of
             Some code \<Rightarrow> startThrows code s
           | None \<Rightarrow> startThrows TransportConnectFailed (fail env react TransportConnectFailed s))
      | Some t \<Rightarrow>
          let s1 = s\<lparr>ss_transport := Some t\<rparr> in
          if \<not> tp_valid t then startThrows TransportConnectFailed (fail env react TransportConnectFailed s1)
          else (case interruption s1 of
              Some code \<Rightarrow> (closeTransport s1)\<lparr>ss_start := AwaitCloseThen code\<rparr>
            | None \<Rightarrow> openConnection env react s1))"

definition closedThen :: "session \<Rightarrow> session" where
  "closedThen s =
     (case ss_start s of
        AwaitCloseThen code \<Rightarrow> if ss_transportClose s = Some True then startThrows code s else s
      | _ \<Rightarrow> s)"

definition normalizeInitializeResponse :: "jsval \<Rightarrow> InitializeResponse" where
  "normalizeInitializeResponse v =
     (let r = objectOf v in \<lparr>ir_codexHome = field r ''codexHome'', ir_platformFamily = field r ''platformFamily'',
        ir_platformOs = field r ''platformOs'', ir_userAgent = field r ''userAgent''\<rparr>)"

text \<open>How the promise of a request was settled, if it was.\<close>

fun settlement :: "jstr \<Rightarrow> rpc_effect list \<Rightarrow> (rpc_error + jsval) option" where
  "settlement rid [] = None"
| "settlement rid (x # xs) =
     (case x of
        Resolved k v \<Rightarrow> if k = rid then Some (Inr v) else settlement rid xs
      | Rejected k e \<Rightarrow> if k = rid then Some (Inl e) else settlement rid xs
      | _ \<Rightarrow> settlement rid xs)"

definition initializeSettled :: "session_env \<Rightarrow> reactions \<Rightarrow> session \<Rightarrow> session" where
  "initializeSettled env react s =
     (case ss_start s of
        AwaitInitialize epoch rid \<Rightarrow>
          (case settlement rid (rt_log (ss_router s)) of
             None \<Rightarrow> s
           | Some (Inl e) \<Rightarrow>
               (case interruption s of
                  Some code \<Rightarrow> startThrows code s
                | None \<Rightarrow> startThrows (initializationErrorCode e) (fail env react (initializationErrorCode e) s))
           | Some (Inr v) \<Rightarrow>
               if ss_phase s \<noteq> PInitializing \<or> ss_epoch s \<noteq> Some epoch
               then startThrows (case ss_failureCode s of None \<Rightarrow> SessionClosed | Some code \<Rightarrow> code) s
               else
                 let response = normalizeInitializeResponse v in
                 (transition env react PReady (s\<lparr>ss_initializeResponse := Some response, ss_connectionStage := None\<rparr>))
                   \<lparr>ss_start := Started response\<rparr>)
      | _ \<Rightarrow> s)"

section \<open>Events of the transport\<close>

definition handleConnectionProgress ::
  "session_env \<Rightarrow> reactions \<Rightarrow> TransportConnectionStage \<Rightarrow> session \<Rightarrow> session" where
  "handleConnectionProgress env react stage s =
     (if ss_phase s \<noteq> PConnecting \<or> ss_connectionStage s = Some (TransportStage stage) then s
      else notify env react (s\<lparr>ss_connectionStage := Some (TransportStage stage)\<rparr>))"

definition transportClosed :: "session_env \<Rightarrow> reactions \<Rightarrow> jsval option \<Rightarrow> session \<Rightarrow> session" where
  "transportClosed env react termination s =
     fail env react TransportClosed (s\<lparr>ss_transportTermination := termination\<rparr>)"

definition transportFailed :: "session_env \<Rightarrow> reactions \<Rightarrow> session \<Rightarrow> session" where
  "transportFailed env react s = fail env react TransportFailure (emitSessionDiagnostic TransportFailureReported s)"

definition transportCloseSettled :: "bool \<Rightarrow> session \<Rightarrow> session" where
  "transportCloseSettled ok s =
     (if ss_transportClose s \<noteq> Some False then s
      else let s1 = s\<lparr>ss_transportClose := Some True\<rparr> in
        if ok then s1 else emitSessionDiagnostic TransportCloseFailed s1)"

section \<open>The other segments of closing\<close>

definition cancelSettled :: "bool \<Rightarrow> session \<Rightarrow> session" where
  "cancelSettled ok s =
     (if ss_close s \<noteq> AwaitCancel then s
      else if ok then closeAfterCancel False s
      else closeAfterCancel True (emitSessionDiagnostic ConnectCancelFailed s))"

definition startSettled :: "start_pc \<Rightarrow> bool" where
  "startSettled pc = (case pc of StartRejected _ \<Rightarrow> True | Started _ \<Rightarrow> True | _ \<Rightarrow> False)"

text \<open>\<open>closeInternal\<close> goes on as soon as what it waits for is there.\<close>

definition closeContinues :: "reactions \<Rightarrow> session \<Rightarrow> session" where
  "closeContinues react s =
     (case ss_close s of
        AwaitStart \<Rightarrow> if startSettled (ss_start s) then closeAfterStart False s else s
      | AwaitTransport cancelFailed present \<Rightarrow>
          if present \<and> ss_transportClose s \<noteq> Some True then s
          else s\<lparr>ss_close := AwaitInbound cancelFailed\<rparr>
      | AwaitInbound cancelFailed \<Rightarrow> if ss_inbound s = [] then closeFinished react cancelFailed s else s
      | _ \<Rightarrow> s)"

section \<open>Calls of the application\<close>

text \<open>A process of the client is followed in the store: the request that runs it, or the one that spawns it.\<close>

definition followed :: "jstr \<Rightarrow> jsval \<Rightarrow> (ProcessKind \<times> jstr) option" where
  "followed method ps =
     (case ps of
        JObj r \<Rightarrow>
          (if method = lit ''command/exec''
           then (case field r ''processId'' of JStr i \<Rightarrow> Some (CommandProcess, i) | _ \<Rightarrow> None)
           else if method = lit ''process/spawn''
           then (case field r ''processHandle'' of JStr i \<Rightarrow> Some (SpawnedProcess, i) | _ \<Rightarrow> None)
           else None)
      | _ \<Rightarrow> None)"

definition sendSessionRequest ::
  "session_env \<Rightarrow> jstr \<Rightarrow> jsval \<Rightarrow> ResultValidator \<Rightarrow> session \<Rightarrow> rpc_error + (jstr \<times> session)" where
  "sendSessionRequest env method ps validate s =
     bindE (sendRequest (se_router env) method ps validate (ss_router s)) (\<lambda>(rid, r).
     let s1 = s\<lparr>ss_router := r\<rparr> in
     Inr (rid, case followed method ps of
        None \<Rightarrow> s1
      | Some (kind, i) \<Rightarrow>
          (setEvents (startProcess kind i) s1)\<lparr>ss_watches := ss_watches s1 @ [(rid, kind, i)]\<rparr>))"

definition watchSettled :: "session_env \<Rightarrow> jstr \<Rightarrow> session \<Rightarrow> session" where
  "watchSettled env rid s =
     (case (map_of (ss_watches s) rid, settlement rid (rt_log (ss_router s))) of
        (Some (kind, i), Some outcome) \<Rightarrow>
          setEvents (case outcome of
              Inl _ \<Rightarrow> failProcess kind i
            | Inr v \<Rightarrow>
                if kind = CommandProcess
                then (case se_validateCommandExec env v of
                    None \<Rightarrow> id
                  | Some (code, out, err) \<Rightarrow> completeCommand (se_platform env) i code out err)
                else id)
            (s\<lparr>ss_watches := filter (\<lambda>w. fst w \<noteq> rid) (ss_watches s)\<rparr>)
      | _ \<Rightarrow> s)"

definition sendSessionNotification :: "jstr \<Rightarrow> jsval \<Rightarrow> session \<Rightarrow> rpc_error + session" where
  "sendSessionNotification method ps s =
     (case ss_epoch s of
        None \<Rightarrow> Inl connectionUnavailable
      | Some epoch \<Rightarrow> bindE (sendNotification epoch method ps (ss_router s)) (\<lambda>r. Inr (s\<lparr>ss_router := r\<rparr>)))"

section \<open>Events\<close>

datatype session_event =
    StartCalled reactions
  | StartBegins
  | TransportConnected reactions "transport option"
  | ClosedThen
  | InitializeSettled reactions
  | ConnectionProgress reactions TransportConnectionStage
  | TransportEnded reactions "jsval option"
  | TransportBroken reactions
  | TransportCloseSettled bool
  | MessageReceived reactions jstr
  | InboundBegins reactions
  | InboundEnds reactions bool
  | RouterTask reactions nat outcome
  | CloseCalled reactions
  | CancelSettled bool
  | CloseContinues reactions
  | RequestSent jstr jsval ResultValidator
  | NotificationSent jstr jsval
  | WatchSettled jstr
  | HandlerRegistered jstr nat
  | HandlerUnregistered jstr nat
  | NotificationsSubscribed nat
  | NotificationsUnsubscribed nat
  | StoreCalled store_event
  | OtherSessionOpened

text \<open>What other parts of the program call on the store of a session.\<close>

definition permitted :: "store_event \<Rightarrow> bool" where
  "permitted ev =
     (case ev of
        HydrateQueue _ _ _ \<Rightarrow> True
      | FailQueue _ _ _ \<Rightarrow> True
      | HydrateGoal _ _ _ \<Rightarrow> True
      | FailGoal _ _ _ \<Rightarrow> True
      | HydrateProjects _ _ \<Rightarrow> True
      | FailProjects _ _ \<Rightarrow> True
      | Subscribed _ \<Rightarrow> True
      | Unsubscribed _ \<Rightarrow> True
      | _ \<Rightarrow> False)"

definition unlessError :: "session \<Rightarrow> 'e + session \<Rightarrow> session" where
  "unlessError s m = (case m of Inl _ \<Rightarrow> s | Inr s' \<Rightarrow> s')"

definition overRouter :: "(router \<Rightarrow> router) \<Rightarrow> session \<Rightarrow> session" where
  "overRouter f s = s\<lparr>ss_router := f (ss_router s)\<rparr>"

text \<open>The connector gets the handlers of the transport when it is called.\<close>

definition listening :: "session \<Rightarrow> bool" where
  "listening s \<longleftrightarrow> ss_start s \<noteq> NotStarted \<and> ss_start s \<noteq> Scheduled"

definition sessionStep :: "session_env \<Rightarrow> session_event \<Rightarrow> session \<Rightarrow> session" where
  "sessionStep env ev s =
     (case ev of
        StartCalled react \<Rightarrow> unlessError s (start env react s)
      | StartBegins \<Rightarrow> if ss_start s = Scheduled then startBegins s else s
      | TransportConnected react outcome \<Rightarrow> transportConnected env react outcome s
      | ClosedThen \<Rightarrow> closedThen s
      | InitializeSettled react \<Rightarrow> initializeSettled env react s
      | ConnectionProgress react stage \<Rightarrow>
          if listening s then handleConnectionProgress env react stage s else s
      | TransportEnded react termination \<Rightarrow>
          if listening s then transportClosed env react termination s else s
      | TransportBroken react \<Rightarrow> if listening s then transportFailed env react s else s
      | TransportCloseSettled ok \<Rightarrow> transportCloseSettled ok s
      | MessageReceived react json \<Rightarrow> if listening s then receiveProtocolMessage env react json s else s
      | InboundBegins react \<Rightarrow> inboundBegins env react s
      | InboundEnds react ok \<Rightarrow> inboundEnds env react ok s
      | RouterTask react i out \<Rightarrow> withRouter env react (resume i out) s
      | CloseCalled react \<Rightarrow> closeSession env react s
      | CancelSettled ok \<Rightarrow> cancelSettled ok s
      | CloseContinues react \<Rightarrow> closeContinues react s
      | RequestSent method ps validate \<Rightarrow>
          (case sendSessionRequest env method ps validate s of Inl _ \<Rightarrow> s | Inr (_, s') \<Rightarrow> s')
      | NotificationSent method ps \<Rightarrow> unlessError s (sendSessionNotification method ps s)
      | WatchSettled rid \<Rightarrow> watchSettled env rid s
      | HandlerRegistered method h \<Rightarrow> overRouter (registerServerRequestHandler method h) s
      | HandlerUnregistered method h \<Rightarrow> overRouter (unregisterServerRequestHandler method h) s
      | NotificationsSubscribed h \<Rightarrow> overRouter (subscribeNotifications (Suc h)) s
      | NotificationsUnsubscribed h \<Rightarrow> overRouter (unsubscribeNotifications (Suc h)) s
      | StoreCalled sev \<Rightarrow> if permitted sev then setEvents (happen (se_platform env) sev) s else s
      | OtherSessionOpened \<Rightarrow> overRouter (\<lambda>r. orUnchanged r (nextConnectionEpoch r)) s)"

inductive sessionReachable :: "session_env \<Rightarrow> session \<Rightarrow> bool" for env where
  start: "sessionReachable env (newSession n)"
| event: "sessionReachable env s \<Longrightarrow> sessionReachable env (sessionStep env ev s)"

fun sessionRun :: "session_env \<Rightarrow> session_event list \<Rightarrow> session \<Rightarrow> session" where
  "sessionRun env [] s = s"
| "sessionRun env (ev # evs) s = sessionRun env evs (sessionStep env ev s)"

lemma sessionReachable_run: "sessionReachable env s \<Longrightarrow> sessionReachable env (sessionRun env evs s)"
  by (induction evs arbitrary: s) (auto intro: sessionReachable.event)

lemma sessionRun_append: "sessionRun env (es @ fs) s = sessionRun env fs (sessionRun env es s)"
  by (induction es arbitrary: s) simp_all

text \<open>A property of sessions that holds at the start and is kept by every event.\<close>

locale session_invariant =
  fixes env :: session_env and I :: "session \<Rightarrow> bool"
  assumes initially: "I (newSession n)"
    and kept: "sessionReachable env s \<Longrightarrow> I s \<Longrightarrow> I (sessionStep env ev s)"
begin

lemma always: "sessionReachable env s \<Longrightarrow> I s"
  by (induction rule: sessionReachable.induct) (simp_all add: initially kept)

end

end
