(* ===== verification/SessionEvolution.thy ===== *)
theory SessionEvolution
  imports SessionSteps EventProgress RpcAccounting
begin

text \<open>
  How a session evolves: every event of a session is a run of its router and a run of its store,
  the connection of the router is the one the session has opened, and a session that has ended
  opens no connection any more.
\<close>

section \<open>Fields the small operations leave alone\<close>

lemma logSession_fields [simp]:
  "ss_phase (logSession x s) = ss_phase s"
  "ss_connectionStage (logSession x s) = ss_connectionStage s"
  "ss_transportTermination (logSession x s) = ss_transportTermination s"
  "ss_initializeResponse (logSession x s) = ss_initializeResponse s"
  "ss_failureCode (logSession x s) = ss_failureCode s"
  "ss_transport (logSession x s) = ss_transport s"
  "ss_transportClose (logSession x s) = ss_transportClose s"
  "ss_epoch (logSession x s) = ss_epoch s"
  "ss_start (logSession x s) = ss_start s"
  "ss_close (logSession x s) = ss_close s"
  "ss_earlyInboundMessages (logSession x s) = ss_earlyInboundMessages s"
  "ss_bufferingInbound (logSession x s) = ss_bufferingInbound s"
  "ss_pendingInboundCount (logSession x s) = ss_pendingInboundCount s"
  "ss_inbound (logSession x s) = ss_inbound s"
  "ss_busy (logSession x s) = ss_busy s"
  "ss_watches (logSession x s) = ss_watches s"
  "ss_router (logSession x s) = ss_router s"
  "ss_events (logSession x s) = ss_events s"
  by (simp_all add: logSession_def)

lemma emitSessionDiagnostic_fields [simp]:
  "ss_phase (emitSessionDiagnostic d s) = ss_phase s"
  "ss_connectionStage (emitSessionDiagnostic d s) = ss_connectionStage s"
  "ss_transportTermination (emitSessionDiagnostic d s) = ss_transportTermination s"
  "ss_initializeResponse (emitSessionDiagnostic d s) = ss_initializeResponse s"
  "ss_failureCode (emitSessionDiagnostic d s) = ss_failureCode s"
  "ss_transport (emitSessionDiagnostic d s) = ss_transport s"
  "ss_transportClose (emitSessionDiagnostic d s) = ss_transportClose s"
  "ss_epoch (emitSessionDiagnostic d s) = ss_epoch s"
  "ss_start (emitSessionDiagnostic d s) = ss_start s"
  "ss_close (emitSessionDiagnostic d s) = ss_close s"
  "ss_earlyInboundMessages (emitSessionDiagnostic d s) = ss_earlyInboundMessages s"
  "ss_bufferingInbound (emitSessionDiagnostic d s) = ss_bufferingInbound s"
  "ss_pendingInboundCount (emitSessionDiagnostic d s) = ss_pendingInboundCount s"
  "ss_inbound (emitSessionDiagnostic d s) = ss_inbound s"
  "ss_busy (emitSessionDiagnostic d s) = ss_busy s"
  "ss_watches (emitSessionDiagnostic d s) = ss_watches s"
  "ss_router (emitSessionDiagnostic d s) = ss_router s"
  "ss_events (emitSessionDiagnostic d s) = ss_events s"
  by (simp_all add: emitSessionDiagnostic_def)

lemma announce_fields [simp]:
  "ss_phase (announce r s) = ss_phase s"
  "ss_connectionStage (announce r s) = ss_connectionStage s"
  "ss_transportTermination (announce r s) = ss_transportTermination s"
  "ss_initializeResponse (announce r s) = ss_initializeResponse s"
  "ss_failureCode (announce r s) = ss_failureCode s"
  "ss_transport (announce r s) = ss_transport s"
  "ss_transportClose (announce r s) = ss_transportClose s"
  "ss_epoch (announce r s) = ss_epoch s"
  "ss_start (announce r s) = ss_start s"
  "ss_close (announce r s) = ss_close s"
  "ss_earlyInboundMessages (announce r s) = ss_earlyInboundMessages s"
  "ss_bufferingInbound (announce r s) = ss_bufferingInbound s"
  "ss_pendingInboundCount (announce r s) = ss_pendingInboundCount s"
  "ss_inbound (announce r s) = ss_inbound s"
  "ss_busy (announce r s) = ss_busy s"
  "ss_watches (announce r s) = ss_watches s"
  "ss_router (announce r s) = ss_router s"
  "ss_events (announce r s) = ss_events s"
  by (simp_all add: announce_def Let_def)

lemma setEvents_fields [simp]:
  "ss_phase (setEvents f s) = ss_phase s"
  "ss_connectionStage (setEvents f s) = ss_connectionStage s"
  "ss_transportTermination (setEvents f s) = ss_transportTermination s"
  "ss_initializeResponse (setEvents f s) = ss_initializeResponse s"
  "ss_failureCode (setEvents f s) = ss_failureCode s"
  "ss_transport (setEvents f s) = ss_transport s"
  "ss_transportClose (setEvents f s) = ss_transportClose s"
  "ss_epoch (setEvents f s) = ss_epoch s"
  "ss_start (setEvents f s) = ss_start s"
  "ss_close (setEvents f s) = ss_close s"
  "ss_earlyInboundMessages (setEvents f s) = ss_earlyInboundMessages s"
  "ss_bufferingInbound (setEvents f s) = ss_bufferingInbound s"
  "ss_pendingInboundCount (setEvents f s) = ss_pendingInboundCount s"
  "ss_inbound (setEvents f s) = ss_inbound s"
  "ss_busy (setEvents f s) = ss_busy s"
  "ss_watches (setEvents f s) = ss_watches s"
  "ss_router (setEvents f s) = ss_router s"
  "ss_log (setEvents f s) = ss_log s"
  by (simp_all add: setEvents_def)

lemma enterPhase_fields [simp]:
  "ss_connectionStage (enterPhase p s) = ss_connectionStage s"
  "ss_transportTermination (enterPhase p s) = ss_transportTermination s"
  "ss_initializeResponse (enterPhase p s) = ss_initializeResponse s"
  "ss_failureCode (enterPhase p s) = ss_failureCode s"
  "ss_transport (enterPhase p s) = ss_transport s"
  "ss_transportClose (enterPhase p s) = ss_transportClose s"
  "ss_epoch (enterPhase p s) = ss_epoch s"
  "ss_start (enterPhase p s) = ss_start s"
  "ss_close (enterPhase p s) = ss_close s"
  "ss_earlyInboundMessages (enterPhase p s) = ss_earlyInboundMessages s"
  "ss_bufferingInbound (enterPhase p s) = ss_bufferingInbound s"
  "ss_pendingInboundCount (enterPhase p s) = ss_pendingInboundCount s"
  "ss_inbound (enterPhase p s) = ss_inbound s"
  "ss_busy (enterPhase p s) = ss_busy s"
  "ss_watches (enterPhase p s) = ss_watches s"
  "ss_router (enterPhase p s) = ss_router s"
  "ss_log (enterPhase p s) = ss_log s"
  by (simp_all add: enterPhase_def)

lemma closeRouter_fields [simp]:
  "ss_phase (closeRouter s) = ss_phase s"
  "ss_connectionStage (closeRouter s) = ss_connectionStage s"
  "ss_transportTermination (closeRouter s) = ss_transportTermination s"
  "ss_initializeResponse (closeRouter s) = ss_initializeResponse s"
  "ss_failureCode (closeRouter s) = ss_failureCode s"
  "ss_transport (closeRouter s) = ss_transport s"
  "ss_transportClose (closeRouter s) = ss_transportClose s"
  "ss_start (closeRouter s) = ss_start s"
  "ss_close (closeRouter s) = ss_close s"
  "ss_earlyInboundMessages (closeRouter s) = ss_earlyInboundMessages s"
  "ss_bufferingInbound (closeRouter s) = ss_bufferingInbound s"
  "ss_pendingInboundCount (closeRouter s) = ss_pendingInboundCount s"
  "ss_inbound (closeRouter s) = ss_inbound s"
  "ss_busy (closeRouter s) = ss_busy s"
  "ss_watches (closeRouter s) = ss_watches s"
  "ss_events (closeRouter s) = ss_events s"
  "ss_log (closeRouter s) = ss_log s"
  by (simp_all add: closeRouter_def split: option.split)

lemma closeTransport_fields [simp]:
  "ss_phase (closeTransport s) = ss_phase s"
  "ss_connectionStage (closeTransport s) = ss_connectionStage s"
  "ss_transportTermination (closeTransport s) = ss_transportTermination s"
  "ss_initializeResponse (closeTransport s) = ss_initializeResponse s"
  "ss_failureCode (closeTransport s) = ss_failureCode s"
  "ss_transport (closeTransport s) = ss_transport s"
  "ss_epoch (closeTransport s) = ss_epoch s"
  "ss_start (closeTransport s) = ss_start s"
  "ss_close (closeTransport s) = ss_close s"
  "ss_earlyInboundMessages (closeTransport s) = ss_earlyInboundMessages s"
  "ss_bufferingInbound (closeTransport s) = ss_bufferingInbound s"
  "ss_pendingInboundCount (closeTransport s) = ss_pendingInboundCount s"
  "ss_inbound (closeTransport s) = ss_inbound s"
  "ss_busy (closeTransport s) = ss_busy s"
  "ss_watches (closeTransport s) = ss_watches s"
  "ss_router (closeTransport s) = ss_router s"
  "ss_events (closeTransport s) = ss_events s"
  by (simp_all add: closeTransport_def split: option.split)

lemma discardEarlyInboundMessages_fields [simp]:
  "ss_phase (discardEarlyInboundMessages s) = ss_phase s"
  "ss_connectionStage (discardEarlyInboundMessages s) = ss_connectionStage s"
  "ss_transportTermination (discardEarlyInboundMessages s) = ss_transportTermination s"
  "ss_initializeResponse (discardEarlyInboundMessages s) = ss_initializeResponse s"
  "ss_failureCode (discardEarlyInboundMessages s) = ss_failureCode s"
  "ss_transport (discardEarlyInboundMessages s) = ss_transport s"
  "ss_transportClose (discardEarlyInboundMessages s) = ss_transportClose s"
  "ss_epoch (discardEarlyInboundMessages s) = ss_epoch s"
  "ss_start (discardEarlyInboundMessages s) = ss_start s"
  "ss_close (discardEarlyInboundMessages s) = ss_close s"
  "ss_bufferingInbound (discardEarlyInboundMessages s) = ss_bufferingInbound s"
  "ss_inbound (discardEarlyInboundMessages s) = ss_inbound s"
  "ss_busy (discardEarlyInboundMessages s) = ss_busy s"
  "ss_watches (discardEarlyInboundMessages s) = ss_watches s"
  "ss_router (discardEarlyInboundMessages s) = ss_router s"
  "ss_events (discardEarlyInboundMessages s) = ss_events s"
  "ss_log (discardEarlyInboundMessages s) = ss_log s"
  by (simp_all add: discardEarlyInboundMessages_def)
section \<open>What every step keeps\<close>

text \<open>The connection of the router, if there is one, is the one the session has opened.\<close>

definition linked :: "session \<Rightarrow> bool" where
  "linked s \<longleftrightarrow> (\<forall>c. rt_connection (ss_router s) = Some c \<longrightarrow> ss_epoch s = Some (cn_epoch c))"

lemma step_keeps_connection:
  assumes "structured env [] r" and "env_ok env" and "ev \<noteq> Opened" and "rt_connection (step env ev r) = Some c'"
  shows "\<exists>c. rt_connection r = Some c \<and> cn_epoch c' = cn_epoch c"
proof (cases "issuing ev")
  case False
  from segment_step [OF assms(1) False] assms(4) show ?thesis unfolding segment_def by blast
next
  case True
  have init: "\<exists>c. rt_connection r = Some c \<and> cn_epoch c' = cn_epoch c"
    if "initialize env params r = Inr (k, r')" "rt_connection r' = Some c'" for params k r'
  proof -
    note i = that
    obtain c q where "rt_connection r = Some c" "r' = issuedWriting q (startedConnection q c) r"
      using initialize_Inr [OF i(1) assms(2,1)] by metis
    with i(2) show ?thesis by (auto simp: issuedWriting_simps startedConnection_def)
  qed
  have send: "\<exists>c. rt_connection r = Some c \<and> cn_epoch c' = cn_epoch c"
    if "sendRequest env meth params validate r = Inr (k, r')" "rt_connection r' = Some c'" for meth params validate k r'
  proof (cases rule: sendRequest_Inr [OF that(1) assms(2,1), case_names direct queued])
    case (direct c q)
    with that(2) show ?thesis by (auto simp: issuedWriting_simps)
  next
    case (queued c q)
    with that(2) show ?thesis by (auto simp: logEffect_def setConnection_def)
  qed
  show ?thesis
    using True assms(3,4) init send
    by (cases ev) (auto simp: issuing_def step_def orUnchanged_def dest: nextConnectionEpoch_fields(2) split: sum.splits)
qed

lemma run_keeps_connection:
  assumes "reachable env r" and "env_ok env" and "Opened \<notin> set evs" and "rt_connection (run env evs r) = Some c'"
  shows "\<exists>c. rt_connection r = Some c \<and> cn_epoch c' = cn_epoch c"
  using assms
proof (induction evs arbitrary: r)
  case (Cons ev evs)
  from Cons.prems have ev: "ev \<noteq> Opened" "Opened \<notin> set evs" by auto
  from Cons.IH [OF reachable.event [OF Cons.prems(1)] Cons.prems(2) ev(2)] Cons.prems(4)
  obtain c1 where "rt_connection (step env ev r) = Some c1" and c1: "cn_epoch c' = cn_epoch c1" by auto
  from step_keeps_connection [OF reachable_structured [OF Cons.prems(1,2)] Cons.prems(2) ev(1) this(1)] c1 show ?case by metis
qed simp

text \<open>The store is connected as long as the session has not ended.\<close>

definition onAir :: "session \<Rightarrow> bool" where
  "onAir s \<longleftrightarrow> ev_connected (st_snapshot (ss_events s)) = (\<not> terminated (ss_phase s))"

text \<open>
  One session step is a run of the router and a run of the store; once the session has ended, the
  router opens no connection any more.
\<close>

definition evolves :: "session_env \<Rightarrow> session \<Rightarrow> session \<Rightarrow> bool" where
  "evolves env s s' \<longleftrightarrow>
     (\<exists>evs. ss_router s' = run (se_router env) evs (ss_router s) \<and> (terminated (ss_phase s) \<longrightarrow> Opened \<notin> set evs)) \<and>
     (\<exists>sevs. ss_events s' = happenAll (se_platform env) sevs (ss_events s) \<and> Cleared \<notin> set sevs \<and> Connected \<notin> set sevs) \<and>
     (terminated (ss_phase s) \<longrightarrow> terminated (ss_phase s')) \<and>
     (env_ok (se_router env) \<longrightarrow> reachable (se_router env) (ss_router s) \<longrightarrow> linked s \<longrightarrow> linked s') \<and>
     (onAir s \<longrightarrow> onAir s')"

named_theorems evolving \<open>rules of the form evolves env s s' ==> evolves env s (f s')\<close>

lemma evolves_refl [simp]: "evolves env s s"
  unfolding evolves_def by (intro conjI exI [of _ "[]"]) simp_all

lemma evolvesE:
  assumes "evolves env s s'"
  obtains evs sevs where "ss_router s' = run (se_router env) evs (ss_router s)" "terminated (ss_phase s) \<longrightarrow> Opened \<notin> set evs"
    "ss_events s' = happenAll (se_platform env) sevs (ss_events s)" "Cleared \<notin> set sevs" "Connected \<notin> set sevs"
    "terminated (ss_phase s) \<longrightarrow> terminated (ss_phase s')"
    "env_ok (se_router env) \<longrightarrow> reachable (se_router env) (ss_router s) \<longrightarrow> linked s \<longrightarrow> linked s'" "onAir s \<longrightarrow> onAir s'"
  using assms unfolding evolves_def by blast

lemma evolves_run:
  assumes "evolves env s s'" and "ss_router s'' = run (se_router env) evs (ss_router s')"
    and "terminated (ss_phase s') \<longrightarrow> Opened \<notin> set evs"
    and "ss_events s'' = happenAll (se_platform env) sevs (ss_events s')" and "Cleared \<notin> set sevs" "Connected \<notin> set sevs"
    and "terminated (ss_phase s') \<longrightarrow> terminated (ss_phase s'')"
    and link: "env_ok (se_router env) \<Longrightarrow> reachable (se_router env) (ss_router s') \<Longrightarrow> linked s' \<Longrightarrow> linked s''"
    and air: "onAir s' \<Longrightarrow> onAir s''"
  shows "evolves env s s''"
proof -
  from assms(1) obtain es fs where "ss_router s' = run (se_router env) es (ss_router s)" "terminated (ss_phase s) \<longrightarrow> Opened \<notin> set es"
    "ss_events s' = happenAll (se_platform env) fs (ss_events s)" "Cleared \<notin> set fs" "Connected \<notin> set fs"
    "terminated (ss_phase s) \<longrightarrow> terminated (ss_phase s')"
    "env_ok (se_router env) \<longrightarrow> reachable (se_router env) (ss_router s) \<longrightarrow> linked s \<longrightarrow> linked s'" "onAir s \<longrightarrow> onAir s'" by (rule evolvesE)
  moreover from this(1,7) have "env_ok (se_router env) \<longrightarrow> reachable (se_router env) (ss_router s) \<longrightarrow> linked s \<longrightarrow> linked s''"
    using link by (simp add: reachable_run)
  ultimately show ?thesis
    unfolding evolves_def using assms(2-7) air
    by (intro conjI exI [of _ "es @ evs"] exI [of _ "fs @ sevs"]) (simp_all add: run_append happenAll_append)
qed

lemma evolves_same:
  assumes "evolves env s s'" and "ss_router s'' = ss_router s'" and "ss_events s'' = ss_events s'"
    and "terminated (ss_phase s'') = terminated (ss_phase s')" and "ss_epoch s'' = ss_epoch s'"
  shows "evolves env s s''"
  by (rule evolves_run [OF assms(1), where evs = "[]" and sevs = "[]"]) (simp_all add: assms(2-) linked_def onAir_def)

lemma evolves_trans: "evolves env s s' \<Longrightarrow> evolves env s' s'' \<Longrightarrow> evolves env s s''"
  by (erule evolvesE [of env s' s'']) (erule evolves_run, assumption+, blast+)

lemma evolves_fields [evolving]:
  assumes "evolves env s s'"
  shows "evolves env s (ss_connectionStage_update f1 s')" "evolves env s (ss_transportTermination_update f2 s')"
    "evolves env s (ss_initializeResponse_update f3 s')" "evolves env s (ss_failureCode_update f4 s')"
    "evolves env s (ss_transport_update f5 s')" "evolves env s (ss_transportClose_update f6 s')"
    "evolves env s (ss_start_update f8 s')" "evolves env s (ss_close_update f9 s')"
    "evolves env s (ss_earlyInboundMessages_update f10 s')" "evolves env s (ss_bufferingInbound_update f11 s')"
    "evolves env s (ss_pendingInboundCount_update f12 s')" "evolves env s (ss_inbound_update f13 s')"
    "evolves env s (ss_busy_update f14 s')" "evolves env s (ss_watches_update f15 s')" "evolves env s (logSession x s')"
    "evolves env s (emitSessionDiagnostic d s')" "evolves env s (announce r s')" "evolves env s (closeTransport s')"
    "evolves env s (discardEarlyInboundMessages s')" "evolves env s (inboundLeft s')" "evolves env s (startThrows code s')"
  by (rule evolves_same [OF assms]; simp add: inboundLeft_def startThrows_def)+

lemma evolves_events [evolving]:
  assumes "evolves env s s'" and "\<And>st. f st = happenAll (se_platform env) sevs st" and "Cleared \<notin> set sevs" "Connected \<notin> set sevs"
    and "Disconnected \<notin> set sevs"
  shows "evolves env s (setEvents f s')"
proof -
  have "list_all (\<lambda>ev. ev \<noteq> Cleared \<and> ev \<noteq> Connected \<and> ev \<noteq> Disconnected) sevs" using assms(3-5) by (auto simp: list_all_iff)
  then have "ev_connected (st_snapshot (f (ss_events s'))) = ev_connected (st_snapshot (ss_events s'))"
    unfolding assms(2) by (rule connected.later) simp
  then show ?thesis
    by (intro evolves_run [OF assms(1), where evs = "[]" and sevs = sevs])
      (simp_all add: setEvents_def assms(2-4) linked_def onAir_def)
qed

lemma evolves_router:
  assumes "evolves env s s'" and "r = run (se_router env) evs (ss_router s')" and "Opened \<notin> set evs"
  shows "evolves env s (s'\<lparr>ss_router := r\<rparr>)"
proof (rule evolves_run [OF assms(1), where evs = evs and sevs = "[]"])
  assume "env_ok (se_router env)" "reachable (se_router env) (ss_router s')" "linked s'"
  then show "linked (s'\<lparr>ss_router := r\<rparr>)"
    using run_keeps_connection [OF _ _ assms(3)] unfolding linked_def assms(2) by fastforce
qed (simp_all add: assms(2-) onAir_def)

lemma evolves_enterPhase [evolving]:
  assumes "evolves env s s'" and "terminated (ss_phase s') \<longrightarrow> terminated phase"
  shows "evolves env s (enterPhase phase s')"
proof (cases "terminated phase")
  case True
  then show ?thesis
    by (intro evolves_run [OF assms(1), where evs = "[]" and sevs = "[Disconnected]"])
      (simp_all add: enterPhase_def setEvents_def happen_def linked_def onAir_def disconnect_def publish_def disconnected_def)
next
  case False
  then show ?thesis using assms by (intro evolves_same [OF assms(1)]) (simp_all add: enterPhase_def)
qed

lemma evolves_closeRouter [evolving]: "evolves env s s' \<Longrightarrow> evolves env s (closeRouter s')"
proof (cases "ss_epoch s'")
  case (Some epoch)
  assume "evolves env s s'"
  then show ?thesis
    by (rule evolves_run [where evs = "[Closed epoch]" and sevs = "[]"])
      (simp_all add: closeRouter_def Some step_def linked_def RpcRouter.close_def dropConnection_def rejectAll_def onAir_def split: option.split)
qed (simp add: closeRouter_def)

lemma terminated_simps [simp]: "terminated PClosing" "terminated PClosed" "terminated PError"
  "\<not> terminated PIdle" "\<not> terminated PConnecting" "\<not> terminated PInitializing" "\<not> terminated PReady"
  by (simp_all add: terminated_def)

lemma evolves_closeInternal [evolving]:
  assumes "evolves env s s'"
  shows "evolves env s (closeFinished react c s')" "evolves env s (closeAfterStart c s')"
    "evolves env s (closeAfterCancel c s')" "evolves env s (closeInternal env react s')" "evolves env s (closeSession env react s')"
proof -
  have finished: "evolves env s (closeFinished react c s')" and start: "evolves env s (closeAfterStart c s')"
    if "evolves env s s'" for s' c
    using that by (simp_all add: closeFinished_def closeAfterStart_def evolving)
  have cancel: "evolves env s (closeAfterCancel c s')" if "evolves env s s'" for s' c
    using that by (simp add: closeAfterCancel_def evolving start)
  have internal: "evolves env s (closeInternal env react s')" if "evolves env s s'" for s'
    using that by (simp add: closeInternal_def Let_def evolving finished cancel)
  show "evolves env s (closeFinished react c s')" "evolves env s (closeAfterStart c s')" "evolves env s (closeAfterCancel c s')"
    "evolves env s (closeInternal env react s')" "evolves env s (closeSession env react s')"
    using assms by (simp_all add: finished start cancel internal closeSession_def)
qed

lemma evolves_transition [evolving]:
  assumes "evolves env s s'"
  shows "evolves env s (notify env react s')"
    "terminated (ss_phase s') \<longrightarrow> terminated phase \<Longrightarrow> evolves env s (transition env react phase s')"
    "evolves env s (fail env react code s')"
proof -
  have notified: "evolves env s (notify env react s')" if "evolves env s s'" for s'
    using that by (simp add: notify_def Let_def evolving)
  have moved: "evolves env s (transition env react phase s')"
    if "evolves env s s'" "terminated (ss_phase s') \<longrightarrow> terminated phase" for s' phase
    using that by (simp add: transition_def evolving notified)
  show "evolves env s (notify env react s')" "evolves env s (fail env react code s')"
    using assms by (simp_all add: fail_def evolving notified moved)
  show "evolves env s (transition env react phase s')" if "terminated (ss_phase s') \<longrightarrow> terminated phase"
    using assms that by (rule moved)
qed

lemma evolves_heed [evolving]: "evolves env s s' \<Longrightarrow> evolves env s (heed env react x s')"
proof (cases x)
  case (Emitted d)
  assume "evolves env s s'"
  then show ?thesis
    using evolves_events [of env s s' _ "[Diagnosed (dg_code d) (dg_method d)]"]
    by (simp add: Emitted heed_def evolves_fields happen_def)
next
  case (NotificationDelivered h m)
  assume "evolves env s s'"
  then show ?thesis
    using evolves_events [of env s s' _ "[Consume (notificationOf m)]"]
    by (simp add: NotificationDelivered heed_def happen_def)
qed (simp_all add: heed_def evolving)

lemma evolves_heedAll [evolving]: "evolves env s s' \<Longrightarrow> evolves env s (heedAll env react xs s')"
  unfolding heedAll_def by (induction xs arbitrary: s') (simp_all add: evolving)

lemma evolves_withRouter:
  assumes "evolves env s s'" and "\<And>r. f r = step (se_router env) ev r" and "ev \<noteq> Opened"
  shows "evolves env s (withRouter env react f s')"
  unfolding withRouter_def
  by (intro evolves_heedAll evolves_router [OF assms(1), where evs = "[ev]"]) (use assms(2,3) in auto)

lemma evolves_overRouter:
  assumes "\<And>r. f r = step (se_router env) ev r" and "ev \<noteq> Opened"
  shows "evolves env s (overRouter f s)"
  unfolding overRouter_def by (rule evolves_router [OF evolves_refl, where evs = "[ev]"]) (use assms in auto)

lemma enqueue_fold: "fold (enqueueInboundMessage epoch) js s = s\<lparr>ss_inbound := ss_inbound s @ map (Pair epoch) js\<rparr>"
  by (induction js arbitrary: s) (simp_all add: enqueueInboundMessage_def)

lemma flushEarly: "flushEarlyInboundMessages epoch s = s\<lparr>ss_earlyInboundMessages := [], ss_bufferingInbound := False,
    ss_inbound := ss_inbound s @ map (Pair epoch) (ss_earlyInboundMessages s)\<rparr>"
  by (simp add: flushEarlyInboundMessages_def enqueue_fold)

lemma evolves_inbound:
  shows "evolves env s (inboundBegins env react s)" "evolves env s (inboundEnds env react ok s)"
    "evolves env s (receiveProtocolMessage env react json s)"
proof -
  have incoming: "evolves env s (withRouter env react (handleIncoming (se_router env) e m) s')" if "evolves env s s'" for e m s'
    by (rule evolves_withRouter [OF that, of _ "Incoming e m"]) (simp_all add: step_def)
  show "evolves env s (inboundBegins env react s)" "evolves env s (inboundEnds env react ok s)"
    by (simp_all add: inboundBegins_def inboundEnds_def evolving incoming split: list.split option.split)
  show "evolves env s (receiveProtocolMessage env react json s)"
    by (simp add: receiveProtocolMessage_def Let_def enqueueInboundMessage_def evolving split: option.split)
qed

lemma evolves_openConnection:
  assumes "evolves env s s'" and "\<not> terminated (ss_phase s')"
  shows "evolves env s (openConnection env react s')"
proof (cases "open_connection (ss_router s')")
  case (Inl e)
  then show ?thesis using assms by (simp add: openConnection_def evolving)
next
  case (Inr er)
  obtain epoch r1 where er: "er = (epoch, r1)" by (cases er)
  define s1 where "s1 = transition env react PInitializing (s'\<lparr>ss_router := r1, ss_epoch := Some epoch,
      ss_connectionStage := Some AppServerInitialization\<rparr>)"
  have "evolves env s (s'\<lparr>ss_router := r1, ss_epoch := Some epoch\<rparr>)"
    using assms(2) Inr by (intro evolves_run [OF assms(1), where evs = "[Opened]" and sevs = "[]"])
      (auto simp: step_def orUnchanged_def er open_connection_def bindE_eq_Inr Let_def setConnection_def freshConnection_def
        linked_def onAir_def)
  then have "evolves env s (s'\<lparr>ss_router := r1, ss_epoch := Some epoch, ss_connectionStage := Some AppServerInitialization\<rparr>)"
    by (rule evolves_fields)
  then have s1: "evolves env s s1"
    unfolding s1_def by (rule evolves_transition) (use assms(2) in simp)
  have "evolves env s (s1\<lparr>ss_router := r2\<rparr>)" if "initialize (se_router env) ps (ss_router s1) = Inr (rid, r2)" for ps rid r2
    using that by (intro evolves_router [OF s1, where evs = "[Initialize ps]"]) (simp_all add: step_def orUnchanged_def)
  then show ?thesis
    unfolding openConnection_def Inr er sum.case prod.case Let_def s1_def [symmetric] flushEarly
    by (auto simp: evolving s1 split: option.split sum.split)
qed

lemma evolves_starting:
  shows "evolves env s (unlessError s (start env react s))" "evolves env s (startBegins s)" "evolves env s (closedThen s)"
    "ss_phase s = PError \<longrightarrow> ss_failureCode s \<noteq> None \<Longrightarrow> evolves env s (transportConnected env react outcome s)"
    "evolves env s (initializeSettled env react s)"
proof -
  show "evolves env s (unlessError s (start env react s))" "evolves env s (startBegins s)" "evolves env s (closedThen s)"
    by (simp_all add: unlessError_def start_def startBegins_def closedThen_def evolving split: sum.split start_pc.split)
  show "evolves env s (initializeSettled env react s)"
    by (simp add: initializeSettled_def Let_def evolving split: option.split sum.split start_pc.split)
  show "evolves env s (transportConnected env react outcome s)" if "ss_phase s = PError \<longrightarrow> ss_failureCode s \<noteq> None"
  proof -
    have "\<not> terminated (ss_phase s)" if "interruption (s\<lparr>ss_transport := t\<rparr>) = None" for t
      using that \<open>ss_phase s = PError \<longrightarrow> ss_failureCode s \<noteq> None\<close>
      by (auto simp: interruption_def isClosingOrClosed_def terminated_def split: if_splits)
    then show ?thesis
      by (auto simp: transportConnected_def Let_def evolving evolves_openConnection split: option.split)
  qed
qed

lemma evolves_step:
  assumes "ss_phase s = PError \<longrightarrow> ss_failureCode s \<noteq> None"
  shows "evolves env s (sessionStep env ev s)"
proof (cases ev)
  case (RouterTask react i out)
  then show ?thesis
    by (simp add: sessionStep_def) (rule evolves_withRouter [OF evolves_refl, of _ _ "Resume i out"]; simp add: step_def)
next
  case (RequestSent meth ps validate)
  have sent: "evolves env s (s\<lparr>ss_router := r\<rparr>)" if "sendRequest (se_router env) meth ps validate (ss_router s) = Inr (rid, r)" for rid r
    by (rule evolves_router [OF evolves_refl, where evs = "[SendRequest meth ps validate]"])
      (simp_all add: step_def orUnchanged_def that)
  have "evolves env s (setEvents (startProcess kind i) s')" if "evolves env s s'" for kind i s'
    using evolves_events [OF that, of _ "[ProcessStarted kind i]"] by (simp add: happen_def)
  with sent show ?thesis
    by (auto simp: RequestSent sessionStep_def sendSessionRequest_def bindE_eq_Inr Let_def evolves_fields split: sum.split option.split)
next
  case (WatchSettled rid)
  have "evolves env s (setEvents (failProcess kind i) s')" "evolves env s (setEvents (completeCommand (se_platform env) i c out err) s')"
    "evolves env s (setEvents id s')" if "evolves env s s'" for kind i s' c out err
    using evolves_events [OF that, of _ "[ProcessFailed kind i]"] evolves_events [OF that, of _ "[CommandCompleted i c out err]"]
      evolves_events [OF that, of _ "[]"] by (simp_all add: happen_def)
  then show ?thesis
    by (auto simp: WatchSettled sessionStep_def watchSettled_def evolves_fields split: option.split sum.split)
next
  case (NotificationSent meth ps)
  have "evolves env s (s\<lparr>ss_router := r\<rparr>)" if "sendNotification e meth ps (ss_router s) = Inr r" for e r
    by (rule evolves_router [OF evolves_refl, where evs = "[SendNotification e meth ps]"]) (simp_all add: step_def that)
  then show ?thesis
    by (auto simp: NotificationSent sessionStep_def sendSessionNotification_def unlessError_def bindE_def split: sum.splits option.split)
next
  case (StoreCalled sev)
  have "evolves env s (setEvents (happen (se_platform env) sev) s)" if "permitted sev"
    by (rule evolves_events [OF evolves_refl, where sevs = "[sev]"]) (use that in \<open>auto simp: permitted_def\<close>)
  then show ?thesis by (simp add: StoreCalled sessionStep_def)
next
  case (HandlerRegistered m h)
  show ?thesis unfolding HandlerRegistered sessionStep_def
    by simp (rule evolves_overRouter [of _ _ "RegisterHandler m h"]; simp add: step_def)
next
  case (HandlerUnregistered m h)
  show ?thesis unfolding HandlerUnregistered sessionStep_def
    by simp (rule evolves_overRouter [of _ _ "UnregisterHandler m h"]; simp add: step_def)
next
  case (NotificationsSubscribed h)
  show ?thesis unfolding NotificationsSubscribed sessionStep_def
    by simp (rule evolves_overRouter [of _ _ "Subscribe (Suc h)"]; simp add: step_def)
next
  case (NotificationsUnsubscribed h)
  show ?thesis unfolding NotificationsUnsubscribed sessionStep_def
    by simp (rule evolves_overRouter [of _ _ "Unsubscribe (Suc h)"]; simp add: step_def)
next
  case OtherSessionOpened
  show ?thesis unfolding OtherSessionOpened sessionStep_def
    by simp (rule evolves_overRouter [of _ _ OtherRouterOpened]; simp add: step_def)
qed (use assms in \<open>simp_all add: sessionStep_def evolves_starting evolves_inbound evolving handleConnectionProgress_def
  transportClosed_def transportFailed_def transportCloseSettled_def cancelSettled_def closeContinues_def Let_def split: close_pc.split\<close>)

end
