(* ===== verification/SessionLife.thy ===== *)
theory SessionLife
  imports SessionEvolution "HOL-Library.Sublist"
begin

text \<open>
  The invariant of a session: the phase agrees with the epoch, the failure, the two coroutines and
  the transport, the transport is closed once and never left open, and the messages that came in
  are counted and kept in order.
\<close>

section \<open>What the log says\<close>

definition acceptedIn :: "session_effect list \<Rightarrow> jstr list" where
  "acceptedIn = List.map_filter (\<lambda>x. case x of Accepted j \<Rightarrow> Some j | _ \<Rightarrow> None)"

definition handedIn :: "session_effect list \<Rightarrow> jstr list" where
  "handedIn = List.map_filter (\<lambda>x. case x of Handed j \<Rightarrow> Some j | _ \<Rightarrow> None)"

definition closesIn :: "session_effect list \<Rightarrow> nat" where
  "closesIn xs = length (filter (\<lambda>x. x = TransportCloseCalled) xs)"

lemma acceptedIn_simps [simp]:
  "acceptedIn [] = []" "acceptedIn (xs @ ys) = acceptedIn xs @ acceptedIn ys"
  "acceptedIn (x # xs) = (case x of Accepted j \<Rightarrow> j # acceptedIn xs | _ \<Rightarrow> acceptedIn xs)"
  by (simp_all add: acceptedIn_def map_filter_append List.map_filter_simps split: session_effect.split)

lemma handedIn_simps [simp]:
  "handedIn [] = []" "handedIn (xs @ ys) = handedIn xs @ handedIn ys"
  "handedIn (x # xs) = (case x of Handed j \<Rightarrow> j # handedIn xs | _ \<Rightarrow> handedIn xs)"
  by (simp_all add: handedIn_def map_filter_append List.map_filter_simps split: session_effect.split)

lemma closesIn_simps [simp]:
  "closesIn [] = 0" "closesIn (xs @ ys) = closesIn xs + closesIn ys"
  "closesIn (x # xs) = (if x = TransportCloseCalled then Suc (closesIn xs) else closesIn xs)"
  by (simp_all add: closesIn_def)

lemma ss_log_simps [simp]:
  "ss_log (logSession x s) = ss_log s @ [x]"
  "ss_log (emitSessionDiagnostic d s) = ss_log s @ [SessionDiagnosed d (ss_phase s)]"
  by (simp_all add: logSession_def emitSessionDiagnostic_def)

lemma announce_log [simp]:
  "acceptedIn (ss_log (announce r s)) = acceptedIn (ss_log s)" "handedIn (ss_log (announce r s)) = handedIn (ss_log s)"
  "closesIn (ss_log (announce r s)) = closesIn (ss_log s)"
  by (simp_all add: announce_def Let_def)

lemma closeTransport_log [simp]:
  "acceptedIn (ss_log (closeTransport s)) = acceptedIn (ss_log s)" "handedIn (ss_log (closeTransport s)) = handedIn (ss_log s)"
  "closesIn (ss_log (closeTransport s)) =
     closesIn (ss_log s) + (if ss_transport s \<noteq> None \<and> ss_transportClose s = None then 1 else 0)"
  by (simp_all add: closeTransport_def split: option.split)

lemma closeTransport_close [simp]:
  "ss_transportClose (closeTransport s) = None \<longleftrightarrow> ss_transport s = None \<and> ss_transportClose s = None"
  by (auto simp: closeTransport_def split: option.split)

text \<open>A promise of the transport's \<open>close\<close> stands for one call.\<close>

definition closes_ok :: "session \<Rightarrow> bool" where
  "closes_ok s \<longleftrightarrow> closesIn (ss_log s) = (if ss_transportClose s = None then 0 else 1)"

lemma closes_ok_cong: "closesIn (ss_log s') = closesIn (ss_log s) \<Longrightarrow> (ss_transportClose s' = None) = (ss_transportClose s = None) \<Longrightarrow>
    closes_ok s' = closes_ok s"
  by (simp add: closes_ok_def)

lemma closes_ok_announce [simp]: "closes_ok (announce r s) = closes_ok s"
  by (simp add: closes_ok_def)

lemma closes_ok_closeTransport: "closes_ok s \<Longrightarrow> closes_ok (closeTransport s)"
  by (auto simp: closes_ok_def)

lemma discardEarly_simps [simp]:
  "ss_earlyInboundMessages (discardEarlyInboundMessages s) = []"
  "ss_pendingInboundCount (discardEarlyInboundMessages s) = ss_pendingInboundCount s - int (length (ss_earlyInboundMessages s))"
  by (simp_all add: discardEarlyInboundMessages_def)

lemma closeRouter_epoch [simp]: "ss_epoch (closeRouter s) = None"
  by (simp add: closeRouter_def split: option.split)

lemma enterPhase_phase [simp]: "ss_phase (enterPhase p s) = p"
  by (simp add: enterPhase_def)

section \<open>The invariant\<close>

definition phase_ok :: "session \<Rightarrow> bool" where
  "phase_ok s \<longleftrightarrow> (ss_epoch s \<noteq> None) = (ss_phase s = PInitializing \<or> ss_phase s = PReady) \<and>
     (ss_failureCode s \<noteq> None \<longrightarrow> terminated (ss_phase s)) \<and> (ss_phase s = PError \<longrightarrow> ss_failureCode s \<noteq> None) \<and>
     (ss_close s = NotClosing) = (\<not> isClosingOrClosed (ss_phase s)) \<and>
     (\<exists>b. ss_close s = CloseSettled b) = (ss_phase s = PClosed) \<and>
     (ss_phase s = PIdle \<longrightarrow> ss_start s = NotStarted) \<and>
     (ss_start s = NotStarted \<longrightarrow> ss_phase s = PIdle \<or> ss_phase s = PClosed)"

definition transport_ok :: "session \<Rightarrow> bool" where
  "transport_ok s \<longleftrightarrow> closes_ok s \<and>
     (ss_transportClose s \<noteq> None \<longrightarrow> ss_transport s \<noteq> None \<and> terminated (ss_phase s)) \<and>
     (\<forall>t. ss_transport s = Some t \<longrightarrow> tp_valid t \<longrightarrow> terminated (ss_phase s) \<longrightarrow>
        ss_close s \<noteq> AwaitCancel \<longrightarrow> ss_close s \<noteq> AwaitStart \<longrightarrow> ss_transportClose s \<noteq> None) \<and>
     (\<forall>c. ss_close s = AwaitTransport c True \<longrightarrow> ss_transportClose s \<noteq> None)"

text \<open>The messages in the chain that the router has not got yet.\<close>

definition waiting :: "session \<Rightarrow> jstr list" where
  "waiting s = map snd (if ss_busy s then tl (ss_inbound s) else ss_inbound s)"

definition inbound_ok :: "nat \<Rightarrow> session \<Rightarrow> bool" where
  "inbound_ok cap s \<longleftrightarrow>
     ss_pendingInboundCount s = int (length (ss_earlyInboundMessages s) + length (ss_inbound s)) \<and>
     ss_pendingInboundCount s \<le> int cap \<and> (ss_busy s \<longrightarrow> ss_inbound s \<noteq> []) \<and>
     prefix (handedIn (ss_log s)) (acceptedIn (ss_log s)) \<and>
     (if terminated (ss_phase s) then ss_earlyInboundMessages s = []
      else acceptedIn (ss_log s) = handedIn (ss_log s) @ waiting s @ ss_earlyInboundMessages s \<and>
        (if ss_bufferingInbound s then ss_inbound s = [] else ss_earlyInboundMessages s = [] \<and> ss_epoch s \<noteq> None) \<and>
        (\<forall>x \<in> set (ss_inbound s). ss_epoch s = Some (fst x)))"

definition start_ok :: "session \<Rightarrow> bool" where
  "start_ok s \<longleftrightarrow> (case ss_start s of
       NotStarted \<Rightarrow> ss_transport s = None \<and> ss_earlyInboundMessages s = []
     | Scheduled \<Rightarrow> ss_transport s = None \<and> (terminated (ss_phase s) \<or> ss_phase s = PConnecting)
     | AwaitConnect \<Rightarrow> ss_transport s = None \<and> (terminated (ss_phase s) \<or> ss_phase s = PConnecting)
     | AwaitCloseThen _ \<Rightarrow> ss_transportClose s \<noteq> None
     | AwaitInitialize e _ \<Rightarrow> terminated (ss_phase s) \<or> ss_phase s = PInitializing \<and> ss_epoch s = Some e \<and> \<not> ss_bufferingInbound s
     | StartRejected (SessionError _) \<Rightarrow> terminated (ss_phase s)
     | StartRejected EpochExhausted \<Rightarrow> terminated (ss_phase s) \<or> ss_phase s = PConnecting
     | Started _ \<Rightarrow> terminated (ss_phase s) \<or> ss_phase s = PReady \<and> \<not> ss_bufferingInbound s)"

lemmas life_defs = phase_ok_def transport_ok_def inbound_ok_def start_ok_def

section \<open>Ending\<close>

text \<open>How closing and failing change a session.\<close>

definition ended :: "session \<Rightarrow> session \<Rightarrow> bool" where
  "ended s s' \<longleftrightarrow>
     (ss_phase s' = PError \<and> ss_close s' = NotClosing \<and> ss_failureCode s' \<noteq> None \<or>
      ss_phase s' = PClosing \<and> (ss_close s' = AwaitCancel \<or> ss_close s' = AwaitStart)) \<and>
     ss_epoch s' = None \<and> ss_earlyInboundMessages s' = [] \<and>
     ss_pendingInboundCount s' = ss_pendingInboundCount s - int (length (ss_earlyInboundMessages s)) \<and>
     ss_start s' = ss_start s \<and> ss_transport s' = ss_transport s \<and> ss_inbound s' = ss_inbound s \<and>
     ss_busy s' = ss_busy s \<and> acceptedIn (ss_log s') = acceptedIn (ss_log s) \<and> handedIn (ss_log s') = handedIn (ss_log s) \<and>
     (ss_transportClose s \<noteq> None \<longrightarrow> ss_transportClose s' \<noteq> None) \<and>
     (ss_phase s' = PError \<longrightarrow> ss_transport s \<noteq> None \<longrightarrow> ss_transportClose s' \<noteq> None) \<and>
     (ss_transportClose s' \<noteq> None \<longrightarrow> ss_transport s \<noteq> None) \<and> (closes_ok s \<longrightarrow> closes_ok s')"

lemma ended_closeInternal:
  assumes "phase_ok s" and "ss_close s = NotClosing" and "ss_phase s \<noteq> PIdle"
    and "ss_transportClose s \<noteq> None \<longrightarrow> ss_transport s \<noteq> None"
  shows "ended s (closeInternal env react s)"
proof -
  have "ss_phase s \<noteq> PClosed" "ss_start s \<noteq> NotStarted"
    using assms by (auto simp: phase_ok_def isClosingOrClosed_def)
  then show ?thesis
    using assms by (cases "ss_transportClose s") (simp_all add: closeInternal_def closeAfterCancel_def ended_def Let_def closes_ok_def)
qed

text \<open>A notification of the listener leaves the session as it is or closes it.\<close>

definition sameLife :: "session \<Rightarrow> session \<Rightarrow> bool" where
  "sameLife s s' \<longleftrightarrow> (\<exists>log. s' = s\<lparr>ss_log := log\<rparr> \<and> acceptedIn log = acceptedIn (ss_log s) \<and>
     handedIn log = handedIn (ss_log s) \<and> closesIn log = closesIn (ss_log s))"

lemma sameLife_announce [simp]: "sameLife s (announce r s)"
  unfolding sameLife_def
  by (intro exI [of _ "ss_log (announce r s)"]) (simp add: announce_def emitSessionDiagnostic_def logSession_def Let_def)

lemma notify_cases:
  assumes "phase_ok s" and "ss_phase s \<noteq> PIdle" and "ss_transportClose s \<noteq> None \<longrightarrow> ss_transport s \<noteq> None"
  shows "sameLife s (notify env react s) \<or> ended s (notify env react s) \<and> ss_close s = NotClosing"
proof (cases "react (ss_phase s) = Closes \<and> ss_close s = NotClosing")
  case True
  have "ended (announce (react (ss_phase s)) s) (closeInternal env react (announce (react (ss_phase s)) s))"
    using assms True by (intro ended_closeInternal) (simp_all add: phase_ok_def)
  with True show ?thesis by (simp add: notify_def closeSession_def ended_def)
next
  case False
  then have "notify env react s = announce (react (ss_phase s)) s" by (auto simp: notify_def closeSession_def Let_def)
  then show ?thesis by simp
qed

text \<open>A session that is not idle enters a phase in which it goes on.\<close>

lemma transition_cases:
  assumes "phase_ok (s\<lparr>ss_phase := p\<rparr>)" and "p \<noteq> PIdle" and "\<not> terminated p" and "ss_transportClose s = None"
  shows "sameLife (s\<lparr>ss_phase := p\<rparr>) (transition env react p s) \<or> ended (s\<lparr>ss_phase := p\<rparr>) (transition env react p s)"
proof -
  have "enterPhase p s = s\<lparr>ss_phase := p\<rparr>" using assms(3) by (simp add: enterPhase_def)
  then show ?thesis
    using notify_cases [of "s\<lparr>ss_phase := p\<rparr>" env react] assms by (auto simp: transition_def)
qed

lemma ended_fail:
  assumes "phase_ok s" and "\<not> terminated (ss_phase s)" and "ss_phase s \<noteq> PIdle" and "ss_transportClose s = None"
  shows "ended s (fail env react code s)"
proof -
  define s1 where "s1 = enterPhase PError (discardEarlyInboundMessages (closeRouter (s\<lparr>ss_failureCode := Some code\<rparr>)))"
  have f: "ss_phase s1 = PError" "ss_epoch s1 = None" "ss_earlyInboundMessages s1 = []" "ss_failureCode s1 = Some code"
    "ss_pendingInboundCount s1 = ss_pendingInboundCount s - int (length (ss_earlyInboundMessages s))"
    "ss_start s1 = ss_start s" "ss_transport s1 = ss_transport s" "ss_inbound s1 = ss_inbound s" "ss_busy s1 = ss_busy s"
    "ss_log s1 = ss_log s" "ss_transportClose s1 = ss_transportClose s" "ss_close s1 = ss_close s"
    by (simp_all add: s1_def)
  have closes: "closes_ok s1 = closes_ok s" by (rule closes_ok_cong) (simp_all add: f)
  have not: "ss_close s = NotClosing" using assms(1,2) by (auto simp: phase_ok_def isClosingOrClosed_def terminated_def)
  have start: "ss_start s \<noteq> NotStarted" using assms(1-3) by (auto simp: phase_ok_def)
  have "phase_ok s1" using start not by (simp add: phase_ok_def isClosingOrClosed_def f)
  then consider (same) "sameLife s1 (notify env react s1)" | (ended) "ended s1 (notify env react s1)"
    using notify_cases [of s1 env react] f assms(4) by auto
  then have "ended s (closeTransport (notify env react s1))"
  proof cases
    case same
    then obtain log where "notify env react s1 = s1\<lparr>ss_log := log\<rparr>" "acceptedIn log = acceptedIn (ss_log s1)"
      "handedIn log = handedIn (ss_log s1)" "closesIn log = closesIn (ss_log s1)" by (auto simp: sameLife_def)
    moreover from this have "closes_ok (notify env react s1) = closes_ok s" by (simp add: closes_ok_def f)
    ultimately show ?thesis
      using assms(4) not closes_ok_closeTransport [of "notify env react s1"] by (simp add: ended_def f)
  next
    case ended
    then show ?thesis
      using assms(4) closes_ok_closeTransport [of "notify env react s1"] by (simp add: ended_def f closes)
  qed
  then show ?thesis using assms(2) by (simp add: fail_def transition_def s1_def)
qed

lemma ended_facts:
  assumes "ended s s'"
  shows "terminated (ss_phase s')" "ss_epoch s' = None" "ss_earlyInboundMessages s' = []"
    "ss_pendingInboundCount s' = ss_pendingInboundCount s - int (length (ss_earlyInboundMessages s))"
    "ss_start s' = ss_start s" "ss_transport s' = ss_transport s" "ss_inbound s' = ss_inbound s" "ss_busy s' = ss_busy s"
    "acceptedIn (ss_log s') = acceptedIn (ss_log s)" "handedIn (ss_log s') = handedIn (ss_log s)"
    "closes_ok s \<Longrightarrow> closes_ok s'" "ss_transportClose s \<noteq> None \<Longrightarrow> ss_transportClose s' \<noteq> None"
    "ss_transportClose s' \<noteq> None \<Longrightarrow> ss_transport s \<noteq> None"
    "ss_close s' = NotClosing \<Longrightarrow> ss_transport s \<noteq> None \<Longrightarrow> ss_transportClose s' \<noteq> None"
    "ss_phase s' = PError \<and> ss_close s' = NotClosing \<and> ss_failureCode s' \<noteq> None \<or>
       ss_phase s' = PClosing \<and> (ss_close s' = AwaitCancel \<or> ss_close s' = AwaitStart)"
proof -
  have closed: "ss_phase s' = PError \<longrightarrow> ss_transport s \<noteq> None \<longrightarrow> ss_transportClose s' \<noteq> None"
    using assms unfolding ended_def by (elim conjE) assumption
  show phase: "ss_phase s' = PError \<and> ss_close s' = NotClosing \<and> ss_failureCode s' \<noteq> None \<or>
       ss_phase s' = PClosing \<and> (ss_close s' = AwaitCancel \<or> ss_close s' = AwaitStart)"
    using assms unfolding ended_def by (elim conjE) assumption
  then show "terminated (ss_phase s')" by (elim disjE conjE) simp_all
  show "ss_transportClose s' \<noteq> None" if "ss_close s' = NotClosing" "ss_transport s \<noteq> None"
    using phase closed that by (elim disjE conjE) simp_all
qed (use assms in \<open>simp_all add: ended_def del: not_None_eq\<close>)

lemma ended_ok:
  assumes "phase_ok s" "transport_ok s" "inbound_ok cap s" "ended s s'" "ss_start s \<noteq> NotStarted"
  shows "phase_ok s'" "transport_ok s'" "inbound_ok cap s'"
proof -
  note e = ended_facts [OF assms(4)]
  show "phase_ok s'" using e(15) assms(5) by (elim conjE disjE) (simp_all add: phase_ok_def isClosingOrClosed_def e(2,5))
  have closes: "closes_ok s'" using assms(2) e(11) by (simp add: transport_ok_def)
  from e(15) show "transport_ok s'"
  proof (elim disjE conjE)
    assume "ss_close s' = NotClosing"
    then show ?thesis using closes e(1,6,13,14) unfolding transport_ok_def by simp
  qed (use closes e(1,6,13) in \<open>simp_all add: transport_ok_def\<close>)
  have "prefix (handedIn (ss_log s)) (acceptedIn (ss_log s))" "ss_busy s \<longrightarrow> ss_inbound s \<noteq> []"
    "ss_pendingInboundCount s = int (length (ss_earlyInboundMessages s) + length (ss_inbound s))" "ss_pendingInboundCount s \<le> int cap"
    using assms(3) unfolding inbound_ok_def by blast+
  then show "inbound_ok cap s'" by (simp add: inbound_ok_def e)
qed

lemma ended_start:
  assumes "start_ok s" "ended s s'"
  shows "start_ok s'"
  using assms(1) ended_facts(1,3,12) [OF assms(2)] unfolding start_ok_def ended_facts(5,6) [OF assms(2)]
  by (auto split: start_pc.splits start_failure.splits)

definition life :: "nat \<Rightarrow> session \<Rightarrow> bool" where
  "life cap s \<longleftrightarrow> phase_ok s \<and> transport_ok s \<and> inbound_ok cap s \<and> start_ok s"

lemma life_cong:
  assumes "ss_phase s' = ss_phase s" "ss_epoch s' = ss_epoch s" "ss_failureCode s' = ss_failureCode s" "ss_close s' = ss_close s"
    "ss_start s' = ss_start s" "ss_transport s' = ss_transport s" "ss_transportClose s' = ss_transportClose s"
    "ss_earlyInboundMessages s' = ss_earlyInboundMessages s" "ss_bufferingInbound s' = ss_bufferingInbound s"
    "ss_pendingInboundCount s' = ss_pendingInboundCount s" "ss_inbound s' = ss_inbound s" "ss_busy s' = ss_busy s"
    "acceptedIn (ss_log s') = acceptedIn (ss_log s)" "handedIn (ss_log s') = handedIn (ss_log s)"
    "closesIn (ss_log s') = closesIn (ss_log s)"
  shows "life cap s' = life cap s"
  by (simp only: life_def life_defs waiting_def closes_ok_def assms)

lemma phase_ok_cong:
  assumes "ss_phase s' = ss_phase s" "ss_epoch s' = ss_epoch s" "ss_failureCode s' = ss_failureCode s" "ss_close s' = ss_close s"
    "ss_start s' = ss_start s"
  shows "phase_ok s' = phase_ok s"
  by (simp only: phase_ok_def assms)

lemma transport_ok_cong:
  assumes "ss_phase s' = ss_phase s" "ss_close s' = ss_close s" "ss_transport s' = ss_transport s"
    "ss_transportClose s' = ss_transportClose s" "closesIn (ss_log s') = closesIn (ss_log s)"
  shows "transport_ok s' = transport_ok s"
  by (simp only: transport_ok_def closes_ok_def assms)

lemma start_ok_cong:
  assumes "ss_start s' = ss_start s" "ss_phase s' = ss_phase s" "ss_epoch s' = ss_epoch s" "ss_transport s' = ss_transport s"
    "ss_transportClose s' = ss_transportClose s" "ss_bufferingInbound s' = ss_bufferingInbound s"
    "ss_start s \<noteq> NotStarted \<or> ss_earlyInboundMessages s' = ss_earlyInboundMessages s"
  shows "start_ok s' = start_ok s"
  using assms(7) unfolding start_ok_def assms(1-6) by (cases "ss_start s") auto

lemma life_sameLife: "life cap s \<Longrightarrow> sameLife s s' \<Longrightarrow> life cap s'"
  by (subst life_cong [of s' s]) (auto simp: sameLife_def)

lemma life_ended: "life cap s \<Longrightarrow> ended s s' \<Longrightarrow> ss_start s \<noteq> NotStarted \<Longrightarrow> life cap s'"
  unfolding life_def using ended_ok ended_start by blast

lemma life_facts:
  assumes "life cap s"
  shows "ss_phase s \<noteq> PIdle \<Longrightarrow> ss_phase s \<noteq> PClosed \<Longrightarrow> ss_start s \<noteq> NotStarted"
    and "\<not> terminated (ss_phase s) \<Longrightarrow> ss_transportClose s = None"
    and "ss_transportClose s \<noteq> None \<Longrightarrow> ss_transport s \<noteq> None"
  using assms by (auto simp: life_def phase_ok_def transport_ok_def)

section \<open>Every event keeps it\<close>

named_theorems living \<open>life is kept\<close>

lemma life_quiet [living]:
  assumes "life cap s"
  shows "life cap (emitSessionDiagnostic d s)" "life cap (logSession (StateChanged x) s)" "life cap (logSession (RpcDiagnosed y) s)"
    "life cap (logSession ConnectCalled s)" "life cap (logSession CancelCalled s)" "life cap (setEvents f s)"
    "life cap (s\<lparr>ss_router := r\<rparr>)" "life cap (s\<lparr>ss_watches := ws\<rparr>)" "life cap (s\<lparr>ss_transportTermination := tm\<rparr>)"
    "life cap (s\<lparr>ss_connectionStage := st\<rparr>)" "life cap (s\<lparr>ss_initializeResponse := ir\<rparr>)"
  by (rule life_cong [THEN iffD2, OF _ _ _ _ _ _ _ _ _ _ _ _ _ _ _ assms]; simp)+

lemma life_fail [living]:
  assumes "life cap s" and "ss_phase s \<noteq> PIdle"
  shows "life cap (fail env react code s)"
proof (cases "terminated (ss_phase s)")
  case True
  then show ?thesis using assms by (simp add: fail_def)
next
  case False
  then have "ended s (fail env react code s)"
    using assms life_facts(2) [OF assms(1)] by (intro ended_fail) (simp_all add: life_def)
  moreover have "ss_start s \<noteq> NotStarted"
    using False life_facts(1) [OF assms(1) assms(2)] by (cases "ss_phase s") auto
  ultimately show ?thesis using assms(1) life_ended by blast
qed

lemma fail_phase [simp]: "phase_ok s \<Longrightarrow> ss_phase s \<noteq> PIdle \<Longrightarrow> (ss_transportClose s \<noteq> None \<longrightarrow> terminated (ss_phase s)) \<Longrightarrow>
    terminated (ss_phase (fail env react code s))"
  using ended_fail [of s env react code] by (cases "terminated (ss_phase s)") (auto simp: fail_def ended_def)

lemma life_closeSession [living]:
  assumes "life cap s"
  shows "life cap (closeSession env react s)"
proof (cases "ss_close s = NotClosing")
  case True
  show ?thesis
  proof (cases "ss_phase s = PIdle")
    case True
    with assms have "ss_start s = NotStarted" "ss_transportClose s = None" "ss_earlyInboundMessages s = []"
      by (auto simp: life_def phase_ok_def transport_ok_def start_ok_def)
    with True assms show ?thesis
      by (simp add: closeSession_def closeInternal_def closeFinished_def life_def life_defs waiting_def isClosingOrClosed_def closes_ok_def
        del: split_paired_All) auto
  next
    case False
    then have "ended s (closeInternal env react s)"
      using assms True life_facts(3) [OF assms] by (intro ended_closeInternal) (simp_all add: life_def)
    moreover have "ss_start s \<noteq> NotStarted"
      using False True assms life_facts(1) [OF assms] by (auto simp: life_def phase_ok_def isClosingOrClosed_def)
    ultimately show ?thesis using True assms life_ended by (auto simp: closeSession_def)
  qed
qed (use assms in \<open>simp add: closeSession_def\<close>)

lemma life_notify [living]:
  assumes "life cap s" and "ss_phase s \<noteq> PIdle" and "ss_phase s \<noteq> PClosed"
  shows "life cap (notify env react s)"
  using notify_cases [of s env react] assms life_facts [OF assms(1)] life_sameLife life_ended
  unfolding life_def by meson

lemma life_phase_ok: "life cap s \<Longrightarrow> phase_ok s"
  by (simp add: life_def)

lemma notIdle:
  assumes "life cap s"
  shows "ss_epoch s \<noteq> None \<Longrightarrow> ss_phase s \<noteq> PIdle"
  using assms by (auto simp: life_def phase_ok_def)

lemma life_heed [living]:
  assumes "life cap s"
  shows "life cap (heed env react x s)"
proof (cases "\<exists>e. x = InboundTaskFailure e \<and> ss_epoch s = Some e")
  case True
  then show ?thesis using life_fail [OF assms notIdle [OF assms]] by (auto simp: heed_def)
next
  case False
  then show ?thesis using assms by (auto simp: heed_def living split: rpc_effect.split)
qed

lemma life_heedAll [living]: "life cap s \<Longrightarrow> life cap (heedAll env react xs s)"
  unfolding heedAll_def by (induction xs arbitrary: s) (simp_all add: living)

lemma life_withRouter [living]: "life cap s \<Longrightarrow> life cap (withRouter env react f s)"
  by (simp add: withRouter_def living)

subsection \<open>Inbound messages\<close>

lemma life_inboundLeft:
  assumes "life cap s" and "ss_inbound s \<noteq> []" and "ss_busy s \<or> terminated (ss_phase s)"
  shows "life cap (inboundLeft s)"
proof -
  obtain x xs where x: "ss_inbound s = x # xs" using assms(2) by (cases "ss_inbound s") auto
  have "phase_ok (inboundLeft s) = phase_ok s" "transport_ok (inboundLeft s) = transport_ok s"
    "start_ok (inboundLeft s) = start_ok s"
    by (rule phase_ok_cong transport_ok_cong start_ok_cong; simp add: inboundLeft_def)+
  moreover have "inbound_ok cap (inboundLeft s)"
    using assms(1,3) x by (cases "ss_busy s") (simp_all add: life_def inbound_ok_def inboundLeft_def waiting_def split: if_splits)
  ultimately show ?thesis using assms(1) by (simp add: life_def)
qed

lemma life_receive [living]:
  assumes "life (se_inboundQueueCapacity env) s" and "ss_phase s \<noteq> PIdle"
  shows "life (se_inboundQueueCapacity env) (receiveProtocolMessage env react json s)"
proof (cases "terminated (ss_phase s) \<or> ss_pendingInboundCount s \<ge> int (se_inboundQueueCapacity env)")
  case True
  then show ?thesis using assms life_fail [OF life_quiet(1) [OF assms(1)]] by (auto simp: receiveProtocolMessage_def)
next
  case False
  have "ss_start s \<noteq> NotStarted" using life_facts(1) [OF assms(1,2)] False by (cases "ss_phase s") auto
  then have other: "life (se_inboundQueueCapacity env) s'"
    if s': "s' = s\<lparr>ss_pendingInboundCount := n, ss_log := ss_log s @ [Accepted json], ss_earlyInboundMessages := es, ss_inbound := xs\<rparr>"
      and "inbound_ok (se_inboundQueueCapacity env) s'" for s' es xs n
    using assms(1) that(2) phase_ok_cong [of s' s] transport_ok_cong [of s' s] start_ok_cong [of s' s]
    unfolding life_def s' by simp
  have inb: "inbound_ok (se_inboundQueueCapacity env) s" using assms(1) by (simp add: life_def)
  show ?thesis
  proof (cases "ss_bufferingInbound s")
    case True
    let ?s = "s\<lparr>ss_pendingInboundCount := ss_pendingInboundCount s + 1, ss_log := ss_log s @ [Accepted json],
      ss_earlyInboundMessages := ss_earlyInboundMessages s @ [json], ss_inbound := ss_inbound s\<rparr>"
    have "inbound_ok (se_inboundQueueCapacity env) ?s"
      using inb False True by (cases "ss_busy s") (auto simp: inbound_ok_def waiting_def)
    then have "life (se_inboundQueueCapacity env) ?s" by (rule other [OF refl])
    moreover have "receiveProtocolMessage env react json s = ?s"
      using False True by (simp add: receiveProtocolMessage_def Let_def logSession_def split: option.split)
    ultimately show ?thesis by simp
  next
    case buffering: False
    then obtain e where e: "ss_epoch s = Some e" using inb False by (auto simp: inbound_ok_def)
    let ?s = "s\<lparr>ss_pendingInboundCount := ss_pendingInboundCount s + 1, ss_log := ss_log s @ [Accepted json],
      ss_earlyInboundMessages := ss_earlyInboundMessages s, ss_inbound := ss_inbound s @ [(e, json)]\<rparr>"
    have "inbound_ok (se_inboundQueueCapacity env) ?s"
      using inb False buffering e by (cases "ss_inbound s") (auto simp: inbound_ok_def waiting_def)
    then have "life (se_inboundQueueCapacity env) ?s" by (rule other [OF refl])
    moreover have "receiveProtocolMessage env react json s = ?s"
      using False buffering e by (simp add: receiveProtocolMessage_def Let_def logSession_def enqueueInboundMessage_def)
    ultimately show ?thesis by simp
  qed
qed

lemma life_inboundBegins [living]:
  assumes "life cap s"
  shows "life cap (inboundBegins env react s)"
proof (cases "ss_inbound s = [] \<or> ss_busy s")
  case True
  then show ?thesis using assms by (auto simp: inboundBegins_def split: list.split)
next
  case False
  then obtain e j xs where inbound: "ss_inbound s = (e, j) # xs" by (cases "ss_inbound s") auto
  show ?thesis
  proof (cases "ss_epoch s = Some e")
    case False
    then have "terminated (ss_phase s)" using assms inbound by (auto simp: life_def inbound_ok_def split: if_splits)
    then have "life cap (inboundLeft s)" using assms inbound by (intro life_inboundLeft) simp_all
    then show ?thesis using False inbound \<open>\<not> (ss_inbound s = [] \<or> ss_busy s)\<close> by (simp add: inboundBegins_def)
  next
    case True
    then have idle: "ss_phase s \<noteq> PIdle" using notIdle [OF assms] by simp
    show ?thesis
    proof (cases "se_parse env j")
      case None
      define s1 where "s1 = fail env react InvalidTransportJson (emitSessionDiagnostic InvalidJsonReported s)"
      have "ended (emitSessionDiagnostic InvalidJsonReported s) s1"
        unfolding s1_def using life_quiet(1) [OF assms, of InvalidJsonReported] True assms idle life_facts(2) [OF assms]
        by (intro ended_fail) (auto simp: life_def phase_ok_def terminated_def)
      then have "life cap s1" "ss_inbound s1 = ss_inbound s" "terminated (ss_phase s1)"
        using life_fail [OF life_quiet(1) [OF assms]] idle ended_facts(1,7) by (auto simp: s1_def)
      then have "life cap (inboundLeft s1)" using inbound by (intro life_inboundLeft) simp_all
      then show ?thesis
        using True None inbound \<open>\<not> (ss_inbound s = [] \<or> ss_busy s)\<close> by (simp add: inboundBegins_def s1_def)
    next
      case (Some m)
      define s1 where "s1 = logSession (Handed j) (s\<lparr>ss_busy := True\<rparr>)"
      have "phase_ok s1 = phase_ok s" "transport_ok s1 = transport_ok s" "start_ok s1 = start_ok s"
        by (rule phase_ok_cong transport_ok_cong start_ok_cong; simp add: s1_def)+
      moreover have "\<not> terminated (ss_phase s)" using True assms by (auto simp: life_def phase_ok_def terminated_def)
      then have "inbound_ok cap s1"
        using assms inbound True \<open>\<not> (ss_inbound s = [] \<or> ss_busy s)\<close>
        by (simp add: life_def inbound_ok_def waiting_def s1_def split: if_splits)
      ultimately have "life cap s1" using assms by (simp add: life_def)
      then show ?thesis
        using True Some inbound \<open>\<not> (ss_inbound s = [] \<or> ss_busy s)\<close>
        by (simp add: inboundBegins_def s1_def [symmetric] living)
    qed
  qed
qed

lemma life_inboundEnds [living]:
  assumes "life cap s"
  shows "life cap (inboundEnds env react ok s)"
proof -
  have some: "ss_busy s \<Longrightarrow> ss_inbound s \<noteq> []" using assms by (auto simp: life_def inbound_ok_def)
  show ?thesis
  proof (cases "ss_busy s \<and> \<not> ok")
    case False
    then show ?thesis using assms life_inboundLeft [OF assms] some by (auto simp: inboundEnds_def)
  next
    case True
    let ?d = "emitSessionDiagnostic ProcessingFailureReported s"
    have d: "life cap ?d" using assms by (rule life_quiet)
    have idle: "ss_phase s \<noteq> PIdle"
    proof
      assume "ss_phase s = PIdle"
      then have "ss_epoch s = None" "\<not> terminated (ss_phase s)" using assms by (auto simp: life_def phase_ok_def)
      then show False using some True assms by (cases "ss_inbound s") (auto simp: life_def inbound_ok_def split: if_splits)
    qed
    have "ss_busy (fail env react InboundProcessingFailed ?d) = ss_busy s \<and>
        ss_inbound (fail env react InboundProcessingFailed ?d) = ss_inbound s"
    proof (cases "terminated (ss_phase s)")
      case False
      then have "ended ?d (fail env react InboundProcessingFailed ?d)"
        using d idle life_facts(2) [OF assms] by (intro ended_fail) (simp_all add: life_def)
      then show ?thesis by (simp add: ended_def)
    qed (simp add: fail_def)
    then have "life cap (inboundLeft (fail env react InboundProcessingFailed ?d))"
      using life_fail [OF d] idle some True by (intro life_inboundLeft) simp_all
    then show ?thesis using True by (simp add: inboundEnds_def)
  qed
qed

subsection \<open>Starting\<close>

lemma moved_ok:
  assumes "phase_ok s" "transport_ok s" "inbound_ok cap s" "ss_phase s \<noteq> PIdle" "ss_phase s \<noteq> PClosed" "ss_start s \<noteq> NotStarted"
  shows "phase_ok (notify env react s)" "transport_ok (notify env react s)" "inbound_ok cap (notify env react s)"
    and "terminated (ss_phase (notify env react s)) \<or> sameLife s (notify env react s)"
    and "ss_start (notify env react s) = ss_start s" "ss_transport (notify env react s) = ss_transport s"
proof -
  have transport: "ss_transportClose s \<noteq> None \<longrightarrow> ss_transport s \<noteq> None" using assms(2) by (auto simp: transport_ok_def)
  have same: "phase_ok s' = phase_ok s \<and> transport_ok s' = transport_ok s \<and> inbound_ok cap s' = inbound_ok cap s \<and>
      ss_start s' = ss_start s \<and> ss_transport s' = ss_transport s" if "sameLife s s'" for s'
  proof -
    from that obtain log where s': "s' = s\<lparr>ss_log := log\<rparr>" "acceptedIn log = acceptedIn (ss_log s)"
      "handedIn log = handedIn (ss_log s)" "closesIn log = closesIn (ss_log s)" by (auto simp: sameLife_def)
    then have "inbound_ok cap s' = inbound_ok cap s" by (simp add: inbound_ok_def waiting_def)
    with s' phase_ok_cong [of s' s] transport_ok_cong [of s' s] show ?thesis by simp
  qed
  from notify_cases [OF assms(1,4) transport, of env react]
  have "phase_ok (notify env react s) \<and> transport_ok (notify env react s) \<and> inbound_ok cap (notify env react s) \<and>
    (terminated (ss_phase (notify env react s)) \<or> sameLife s (notify env react s)) \<and>
    ss_start (notify env react s) = ss_start s \<and> ss_transport (notify env react s) = ss_transport s"
  proof (elim disjE conjE)
    assume "sameLife s (notify env react s)"
    with same [OF this] assms(1-3) show ?thesis by simp
  next
    assume e: "ended s (notify env react s)"
    show ?thesis using ended_ok [OF assms(1-3) e assms(6)] ended_facts(1,5,6) [OF e] by simp
  qed
  then show "phase_ok (notify env react s)" "transport_ok (notify env react s)" "inbound_ok cap (notify env react s)"
    "terminated (ss_phase (notify env react s)) \<or> sameLife s (notify env react s)"
    "ss_start (notify env react s) = ss_start s" "ss_transport (notify env react s) = ss_transport s" by blast+
qed

lemma idle_facts:
  assumes "life cap s" and "ss_phase s = PIdle"
  shows "ss_epoch s = None" "ss_failureCode s = None" "ss_close s = NotClosing" "ss_start s = NotStarted"
    "ss_transport s = None" "ss_transportClose s = None" "ss_earlyInboundMessages s = []" "ss_inbound s = []"
    "\<not> ss_busy s" "ss_bufferingInbound s" "ss_pendingInboundCount s = 0"
    "acceptedIn (ss_log s) = handedIn (ss_log s)" "closesIn (ss_log s) = 0"
proof -
  have p: "phase_ok s" "transport_ok s" "inbound_ok cap s" "start_ok s" using assms(1) by (simp_all add: life_def)
  show phase: "ss_epoch s = None" "ss_failureCode s = None" "ss_close s = NotClosing" "ss_start s = NotStarted"
    using p(1) assms(2) by (auto simp: phase_ok_def isClosingOrClosed_def)
  show "ss_transport s = None" "ss_earlyInboundMessages s = []" using p(4) phase(4) by (simp_all add: start_ok_def)
  show "ss_transportClose s = None" "closesIn (ss_log s) = 0"
    using p(2) assms(2) by (auto simp: transport_ok_def closes_ok_def)
  show inbound: "ss_inbound s = []" "ss_bufferingInbound s"
    using p(3) assms(2) phase(1) by (auto simp: inbound_ok_def split: if_splits)
  show "\<not> ss_busy s" "ss_pendingInboundCount s = 0" "acceptedIn (ss_log s) = handedIn (ss_log s)"
    using p(3) assms(2) inbound \<open>ss_earlyInboundMessages s = []\<close> by (auto simp: inbound_ok_def waiting_def split: if_splits)
qed

lemma life_start:
  assumes "life cap s" and "start env react s = Inr s'"
  shows "life cap s'"
proof -
  define s1 where "s1 = enterPhase PConnecting (s\<lparr>ss_start := Scheduled, ss_connectionStage := None\<rparr>)"
  have idle: "ss_phase s = PIdle" and s': "s' = notify env react s1"
    using assms(2) by (auto simp: start_def transition_def s1_def split: if_splits)
  have "life cap s1"
    using idle_facts [OF assms(1) idle]
    by (simp add: life_def life_defs s1_def enterPhase_def waiting_def closes_ok_def isClosingOrClosed_def)
  then show ?thesis unfolding s' by (rule life_notify) (simp_all add: s1_def)
qed

lemma life_setStart:
  assumes "phase_ok s" "transport_ok s" "inbound_ok cap s" "ss_phase s \<noteq> PIdle" "ss_start s \<noteq> NotStarted" "pc \<noteq> NotStarted"
    and "start_ok (s\<lparr>ss_start := pc\<rparr>)"
  shows "life cap (s\<lparr>ss_start := pc\<rparr>)"
proof -
  have "phase_ok (s\<lparr>ss_start := pc\<rparr>)" using assms(1,4-6) by (simp add: phase_ok_def)
  moreover have "transport_ok (s\<lparr>ss_start := pc\<rparr>) = transport_ok s" by (rule transport_ok_cong) simp_all
  moreover have "inbound_ok cap (s\<lparr>ss_start := pc\<rparr>) = inbound_ok cap s" by (simp add: inbound_ok_def waiting_def)
  ultimately show ?thesis using assms by (simp add: life_def)
qed

lemma life_startThrows:
  assumes "phase_ok s" "transport_ok s" "inbound_ok cap s" "terminated (ss_phase s)" "ss_start s \<noteq> NotStarted"
  shows "life cap (startThrows code s)"
  unfolding startThrows_def by (rule life_setStart [OF assms(1-3) _ assms(5)]) (use assms(4) in \<open>auto simp: start_ok_def\<close>)

lemma life_startBegins [living]:
  assumes "life cap s" "ss_start s = Scheduled"
  shows "life cap (startBegins s)"
proof (cases "isClosingOrClosed (ss_phase s)")
  case True
  then have "terminated (ss_phase s)" by (auto simp: isClosingOrClosed_def)
  with True show ?thesis using assms life_startThrows [of s cap] by (simp add: startBegins_def life_def)
next
  case False
  let ?s = "logSession ConnectCalled s"
  have "life cap ?s" using assms(1) by (rule life_quiet)
  then have "life cap (?s\<lparr>ss_start := AwaitConnect\<rparr>)"
    using assms(2) by (intro life_setStart) (auto simp: life_def start_ok_def phase_ok_def)
  then show ?thesis using False by (simp add: startBegins_def)
qed

lemma interruption_terminated:
  assumes "phase_ok s"
  shows "interruption s = None \<longleftrightarrow> \<not> terminated (ss_phase s)"
  using assms by (auto simp: interruption_def phase_ok_def isClosingOrClosed_def terminated_def)

lemma ended_fail_start:
  assumes "phase_ok s" "transport_ok s" "inbound_ok cap s" "ss_phase s \<noteq> PIdle" "ss_start s \<noteq> NotStarted"
  shows "life cap (startThrows code' (fail env react code s))"
proof (cases "terminated (ss_phase s)")
  case True
  then show ?thesis using assms life_startThrows by (simp add: fail_def)
next
  case False
  have close: "ss_transportClose s = None" using assms(2) False by (auto simp: transport_ok_def)
  note e = ended_fail [OF assms(1) False assms(4) close, of env react code]
  show ?thesis
    using ended_ok [OF assms(1-3) e assms(5)] ended_facts(1,5) [OF e] assms(5) by (intro life_startThrows) simp_all
qed

text \<open>The state in which the messages that came in early are put into the chain.\<close>

lemma inbound_flush:
  assumes "inbound_ok cap s" "ss_epoch s = Some e" "\<not> terminated (ss_phase s)"
  shows "inbound_ok cap (s\<lparr>ss_router := r, ss_earlyInboundMessages := [], ss_bufferingInbound := False,
    ss_inbound := ss_inbound s @ map (Pair e) (ss_earlyInboundMessages s)\<rparr>)"
  using assms by (cases "ss_bufferingInbound s"; cases "ss_busy s") (auto simp: inbound_ok_def waiting_def comp_def)

lemma life_openConnection:
  assumes "phase_ok s" "transport_ok s" "inbound_ok cap s" "ss_phase s = PConnecting" "ss_start s = AwaitConnect"
  shows "life cap (openConnection env react s)"
proof (cases "open_connection (ss_router s)")
  case (Inl e)
  then show ?thesis
    using assms by (simp add: openConnection_def) (rule life_setStart; simp add: start_ok_def)
next
  case (Inr er)
  obtain epoch r1 where er: "er = (epoch, r1)" by (cases er)
  define s0 where "s0 = s\<lparr>ss_router := r1, ss_epoch := Some epoch, ss_connectionStage := Some AppServerInitialization, ss_phase := PInitializing\<rparr>"
  define s1 where "s1 = notify env react s0"
  have open1: "openConnection env react s = (case interruption s1 of
             Some code \<Rightarrow> startThrows code s1
           | None \<Rightarrow>
               (case initialize (se_router env) (se_initializeParams env) (ss_router s1) of
                  Inl e \<Rightarrow> startThrows (initializationErrorCode e) (fail env react (initializationErrorCode e) s1)
                | Inr (rid, r2) \<Rightarrow>
                    (flushEarlyInboundMessages epoch (s1\<lparr>ss_router := r2\<rparr>))\<lparr>ss_start := AwaitInitialize epoch rid\<rparr>))"
  proof -
    have "transition env react PInitializing (s\<lparr>ss_router := r1, ss_epoch := Some epoch,
        ss_connectionStage := Some AppServerInitialization\<rparr>) = s1"
      by (simp add: transition_def enterPhase_def s1_def s0_def)
    then show ?thesis unfolding openConnection_def Inr er sum.case prod.case Let_def by (rule arg_cong)
  qed
  have "phase_ok s0" using assms(1,4,5) by (auto simp: phase_ok_def s0_def isClosingOrClosed_def)
  moreover have "transport_ok s0" using assms(2,4) by (auto simp: transport_ok_def s0_def closes_ok_def)
  moreover have "inbound_ok cap s0"
    using assms(1,3,4) by (cases "ss_bufferingInbound s") (auto simp: inbound_ok_def s0_def waiting_def phase_ok_def)
  ultimately have s1: "phase_ok s1" "transport_ok s1" "inbound_ok cap s1" "ss_start s1 = AwaitConnect"
    and same: "terminated (ss_phase s1) \<or> sameLife s0 s1"
    using moved_ok [of s0 cap env react] assms(5) by (simp_all add: s1_def s0_def)
  show ?thesis
  proof (cases "terminated (ss_phase s1)")
    case True
    then show ?thesis
      using interruption_terminated [OF s1(1)] life_startThrows [OF s1(1-3)] s1(4) unfolding open1 by (auto split: option.split)
  next
    case False
    have phase: "ss_phase s1 = PInitializing" "ss_epoch s1 = Some epoch"
      using same False by (auto simp: sameLife_def s0_def)
    show ?thesis
    proof (cases "initialize (se_router env) (se_initializeParams env) (ss_router s1)")
      case (Inl e)
      then show ?thesis
        using False interruption_terminated [OF s1(1)] ended_fail_start [OF s1(1-3)] s1(4) phase(1) unfolding open1 by simp
    next
      case (Inr kr)
      obtain rid r2 where kr: "kr = (rid, r2)" by (cases kr)
      define s2 where "s2 = s1\<lparr>ss_router := r2, ss_earlyInboundMessages := [], ss_bufferingInbound := False,
          ss_inbound := ss_inbound s1 @ map (Pair epoch) (ss_earlyInboundMessages s1)\<rparr>"
      have "inbound_ok cap s2" unfolding s2_def by (rule inbound_flush [OF s1(3) phase(2) False])
      moreover have "phase_ok s2 = phase_ok s1" "transport_ok s2 = transport_ok s1"
        by (rule phase_ok_cong transport_ok_cong; simp add: s2_def)+
      ultimately have "life cap (s2\<lparr>ss_start := AwaitInitialize epoch rid\<rparr>)"
        using s1 phase by (intro life_setStart) (simp_all add: start_ok_def, simp_all add: s2_def)
      then show ?thesis
        using False interruption_terminated [OF s1(1)] Inr kr unfolding open1 by (simp add: flushEarly s2_def)
    qed
  qed
qed

lemma life_transportConnected [living]:
  assumes "life cap s"
  shows "life cap (transportConnected env react outcome s)"
proof (cases "ss_start s = AwaitConnect")
  case False
  then show ?thesis using assms by (simp add: transportConnected_def)
next
  case True
  have p: "phase_ok s" "transport_ok s" "inbound_ok cap s" "ss_phase s \<noteq> PIdle" "ss_start s \<noteq> NotStarted" "ss_transport s = None"
    using assms True by (auto simp: life_def phase_ok_def start_ok_def)
  then have close: "ss_transportClose s = None" by (auto simp: transport_ok_def)
  show ?thesis
  proof (cases outcome)
    case None
    have "interruption s \<noteq> None \<Longrightarrow> terminated (ss_phase s)" using interruption_terminated [OF p(1)] by auto
    then show ?thesis
      using True None life_startThrows [OF p(1-3) _ p(5)] ended_fail_start [OF p(1-5)]
      by (auto simp: transportConnected_def split: option.split)
  next
    case (Some t)
    define s1 where "s1 = s\<lparr>ss_transport := Some t\<rparr>"
    have phase: "phase_ok s1 = phase_ok s" by (rule phase_ok_cong) (simp_all add: s1_def)
    have inbound: "inbound_ok cap s1 = inbound_ok cap s" by (simp add: inbound_ok_def waiting_def s1_def)
    have closes: "closes_ok s1 = closes_ok s" by (rule closes_ok_cong) (simp_all add: s1_def)
    have waits: "ss_close s \<noteq> AwaitTransport c True" for c using p(2) close by (auto simp: transport_ok_def)
    have transport: "\<not> tp_valid t \<or> \<not> terminated (ss_phase s) \<Longrightarrow> transport_ok s1"
      using p(2) close closes by (auto simp: transport_ok_def s1_def)
    show ?thesis
    proof (cases "tp_valid t")
      case False
      then show ?thesis
        using True Some p phase inbound transport by (simp add: transportConnected_def s1_def [symmetric])
          (rule ended_fail_start; simp add: s1_def)
    next
      case valid: True
      show ?thesis
      proof (cases "terminated (ss_phase s)")
        case False
        then have "ss_phase s = PConnecting" using assms True by (simp add: life_def start_ok_def)
        moreover have "interruption s1 = None" using interruption_terminated [of s1] phase p(1) False by (simp add: s1_def)
        moreover have "transport_ok s1" using transport False by simp
        ultimately show ?thesis
          using valid True Some p phase inbound life_openConnection [of s1 cap env react]
          by (simp add: transportConnected_def s1_def)
      next
        case ended: True
        then obtain code where code: "interruption s1 = Some code"
          using interruption_terminated [of s1] phase p(1) by (auto simp: s1_def)
        have "phase_ok (closeTransport s1) = phase_ok s1" by (rule phase_ok_cong) simp_all
        moreover have "inbound_ok cap (closeTransport s1) = inbound_ok cap s1" by (simp add: inbound_ok_def waiting_def)
        moreover have "closes_ok s1" using closes p(2) by (simp add: transport_ok_def)
        then have "transport_ok (closeTransport s1)"
          using ended closes_ok_closeTransport [of s1] unfolding transport_ok_def by (simp add: s1_def del: not_None_eq)
        ultimately have "life cap ((closeTransport s1)\<lparr>ss_start := AwaitCloseThen code\<rparr>)"
          using p phase inbound by (intro life_setStart) (simp_all add: s1_def start_ok_def del: not_None_eq)
        then show ?thesis using True Some valid code by (simp add: transportConnected_def s1_def)
      qed
    qed
  qed
qed

lemma life_closedThen [living]:
  assumes "life cap s"
  shows "life cap (closedThen s)"
proof (cases "ss_start s")
  case (AwaitCloseThen code)
  then have "terminated (ss_phase s)" using assms by (auto simp: life_def start_ok_def transport_ok_def)
  then show ?thesis
    using assms AwaitCloseThen life_startThrows [of s cap code] by (simp add: closedThen_def life_def)
qed (use assms in \<open>simp_all add: closedThen_def\<close>)

lemma life_initializeSettled [living]:
  assumes "life cap s"
  shows "life cap (initializeSettled env react s)"
proof (cases "ss_start s")
  case (AwaitInitialize epoch rid)
  have p: "phase_ok s" "transport_ok s" "inbound_ok cap s" "ss_phase s \<noteq> PIdle" "ss_start s \<noteq> NotStarted"
    using assms AwaitInitialize by (auto simp: life_def phase_ok_def)
  show ?thesis
  proof (cases "settlement rid (rt_log (ss_router s))")
    case None
    then show ?thesis using assms AwaitInitialize by (simp add: initializeSettled_def)
  next
    case (Some outcome)
    show ?thesis
    proof (cases outcome)
      case (Inl e)
      have "interruption s \<noteq> None \<Longrightarrow> terminated (ss_phase s)" using interruption_terminated [OF p(1)] by auto
      then show ?thesis
        using AwaitInitialize Some Inl life_startThrows [OF p(1-3) _ p(5)] ended_fail_start [OF p]
        by (auto simp: initializeSettled_def split: option.split)
    next
      case (Inr v)
      show ?thesis
      proof (cases "terminated (ss_phase s)")
        case True
        then have "ss_phase s \<noteq> PInitializing" by auto
        then show ?thesis
          using AwaitInitialize Some Inr life_startThrows [OF p(1-3) True p(5)] by (simp add: initializeSettled_def)
      next
        case False
        then have init: "ss_phase s = PInitializing" "ss_epoch s = Some epoch" "\<not> ss_bufferingInbound s"
          using assms AwaitInitialize by (auto simp: life_def start_ok_def)
        define s0 where "s0 = s\<lparr>ss_initializeResponse := Some (normalizeInitializeResponse v), ss_connectionStage := None, ss_phase := PReady\<rparr>"
        define s1 where "s1 = notify env react s0"
        have "phase_ok s0" using p(1,5) init AwaitInitialize by (auto simp: phase_ok_def s0_def isClosingOrClosed_def)
        moreover have "closes_ok s0 = closes_ok s" by (rule closes_ok_cong) (simp_all add: s0_def)
        then have "transport_ok s0" using p(2) init by (auto simp: transport_ok_def s0_def)
        moreover have "inbound_ok cap s0" using p(3) init by (simp add: inbound_ok_def s0_def waiting_def)
        ultimately have s1: "phase_ok s1" "transport_ok s1" "inbound_ok cap s1" "ss_start s1 = ss_start s"
          and same: "terminated (ss_phase s1) \<or> sameLife s0 s1"
          using moved_ok [of s0 cap env react] p(5) by (simp_all add: s1_def s0_def)
        have "life cap (s1\<lparr>ss_start := Started (normalizeInitializeResponse v)\<rparr>)"
          using s1 same p(5) init(3) by (intro life_setStart) (auto simp: start_ok_def sameLife_def s0_def phase_ok_def)
        then show ?thesis
          using AwaitInitialize Some Inr init
          by (simp add: initializeSettled_def Let_def transition_def enterPhase_def s1_def s0_def)
      qed
    qed
  qed
qed (use assms in \<open>simp_all add: initializeSettled_def\<close>)

subsection \<open>Closing\<close>

lemma life_transportCloseSettled [living]:
  assumes "life cap s"
  shows "life cap (transportCloseSettled ok s)"
proof (cases "ss_transportClose s = Some False")
  case True
  let ?s = "s\<lparr>ss_transportClose := Some True\<rparr>"
  have "phase_ok ?s = phase_ok s" by (rule phase_ok_cong) simp_all
  moreover have "closes_ok ?s = closes_ok s" by (rule closes_ok_cong) (simp_all add: True)
  then have "transport_ok ?s" using assms True by (auto simp: life_def transport_ok_def)
  moreover have "inbound_ok cap ?s = inbound_ok cap s" by (simp add: inbound_ok_def waiting_def)
  moreover have "start_ok ?s" using assms True by (auto simp: life_def start_ok_def split: start_pc.splits start_failure.splits)
  ultimately have "life cap ?s" using assms by (simp add: life_def)
  then show ?thesis using True by (simp add: transportCloseSettled_def Let_def living)
qed (use assms in \<open>simp add: transportCloseSettled_def\<close>)

lemma life_closeAfterStart:
  assumes "life cap s" "ss_phase s = PClosing"
  shows "life cap (closeAfterStart c s)"
proof -
  define s1 where "s1 = (closeTransport s)\<lparr>ss_close := AwaitTransport c (ss_transport s \<noteq> None)\<rparr>"
  have "phase_ok s1" using assms by (auto simp: life_def phase_ok_def s1_def isClosingOrClosed_def)
  moreover have "closes_ok s1 = closes_ok (closeTransport s)" by (rule closes_ok_cong) (simp_all add: s1_def)
  then have "transport_ok s1"
    using assms closes_ok_closeTransport [of s] unfolding life_def transport_ok_def by (auto simp: s1_def)
  moreover have "inbound_ok cap s1" using assms by (simp add: life_def inbound_ok_def waiting_def s1_def)
  moreover have "start_ok s1"
    using assms by (auto simp: life_def start_ok_def s1_def split: start_pc.splits start_failure.splits)
  ultimately show ?thesis by (simp add: closeAfterStart_def life_def s1_def)
qed

lemma life_setClose:
  assumes "life cap s" "ss_phase s = PClosing" and "pc \<noteq> NotClosing" "\<And>b. pc \<noteq> CloseSettled b"
    and "transport_ok (s\<lparr>ss_close := pc\<rparr>)"
  shows "life cap (s\<lparr>ss_close := pc\<rparr>)"
proof -
  have "phase_ok (s\<lparr>ss_close := pc\<rparr>)" using assms(1-4) by (simp add: life_def phase_ok_def isClosingOrClosed_def)
  moreover have "inbound_ok cap (s\<lparr>ss_close := pc\<rparr>) = inbound_ok cap s" by (simp add: inbound_ok_def waiting_def)
  moreover have "start_ok (s\<lparr>ss_close := pc\<rparr>) = start_ok s" by (rule start_ok_cong) simp_all
  ultimately show ?thesis using assms(1,5) by (simp add: life_def)
qed

lemma closing_phase:
  assumes "life cap s" "ss_close s \<noteq> NotClosing" "\<And>b. ss_close s \<noteq> CloseSettled b"
  shows "ss_phase s = PClosing"
  using assms by (auto simp: life_def phase_ok_def isClosingOrClosed_def)

lemma life_cancelSettled [living]:
  assumes "life cap s"
  shows "life cap (cancelSettled ok s)"
proof (cases "ss_close s = AwaitCancel")
  case True
  then have phase: "ss_phase s = PClosing" using closing_phase [OF assms] by simp
  have "life cap (s\<lparr>ss_close := AwaitStart\<rparr>)"
    using assms phase by (intro life_setClose) (auto simp: life_def transport_ok_def closes_ok_def)
  then show ?thesis
    using True assms phase life_closeAfterStart [OF life_quiet(1) [OF assms]] life_closeAfterStart [OF assms]
    by (simp add: cancelSettled_def closeAfterCancel_def)
qed (use assms in \<open>simp add: cancelSettled_def\<close>)

lemma life_closeFinished:
  assumes "life cap s" "ss_close s = AwaitInbound c"
  shows "life cap (closeFinished react c s)"
proof -
  have "ss_phase s = PClosing" using assms by (intro closing_phase) simp_all
  then have f: "ss_epoch s = None" "ss_start s \<noteq> NotStarted"
    using assms(1) by (auto simp: life_def phase_ok_def)
  define s1 where "s1 = closeFinished react c s"
  have s1: "ss_phase s1 = PClosed" "ss_close s1 = CloseSettled c" "ss_epoch s1 = None" "ss_start s1 = ss_start s"
    "ss_transport s1 = ss_transport s" "ss_transportClose s1 = ss_transportClose s" "closesIn (ss_log s1) = closesIn (ss_log s)"
    "ss_earlyInboundMessages s1 = ss_earlyInboundMessages s" "ss_inbound s1 = ss_inbound s" "ss_busy s1 = ss_busy s"
    "ss_pendingInboundCount s1 = ss_pendingInboundCount s" "acceptedIn (ss_log s1) = acceptedIn (ss_log s)"
    "handedIn (ss_log s1) = handedIn (ss_log s)"
    by (simp_all add: s1_def closeFinished_def f)
  have p: "transport_ok s" "inbound_ok cap s" "start_ok s" using assms(1) by (simp_all add: life_def)
  have "phase_ok s1" using f by (simp add: phase_ok_def s1 isClosingOrClosed_def)
  moreover have "closes_ok s1 = closes_ok s" by (rule closes_ok_cong) (simp_all add: s1)
  then have "transport_ok s1"
    using p(1) assms(2) \<open>ss_phase s = PClosing\<close> by (simp add: transport_ok_def s1)
  moreover have "inbound_ok cap s1" using p(2) \<open>ss_phase s = PClosing\<close> by (simp add: inbound_ok_def s1)
  moreover have "start_ok s1"
    using p(3) f \<open>ss_phase s = PClosing\<close> unfolding start_ok_def s1 by (auto split: start_pc.splits start_failure.splits)
  ultimately show ?thesis by (simp add: life_def s1_def)
qed

lemma life_closeContinues [living]:
  assumes "life cap s"
  shows "life cap (closeContinues react s)"
proof (cases "ss_close s")
  case AwaitStart
  then show ?thesis
    using assms life_closeAfterStart [OF assms] closing_phase [OF assms] by (simp add: closeContinues_def)
next
  case (AwaitTransport c p)
  have "life cap (s\<lparr>ss_close := AwaitInbound c\<rparr>)"
    using assms AwaitTransport closing_phase [OF assms]
    by (intro life_setClose) (auto simp: life_def transport_ok_def closes_ok_def)
  then show ?thesis using assms AwaitTransport by (simp add: closeContinues_def)
next
  case (AwaitInbound c)
  then show ?thesis using assms life_closeFinished [OF assms] by (simp add: closeContinues_def)
qed (use assms in \<open>simp_all add: closeContinues_def\<close>)

subsection \<open>All events\<close>

lemma life_transport [living]:
  assumes "life cap s"
  shows "life cap (handleConnectionProgress env react stage s)"
    and "ss_phase s \<noteq> PIdle \<Longrightarrow> life cap (transportClosed env react tm s)"
    and "ss_phase s \<noteq> PIdle \<Longrightarrow> life cap (transportFailed env react s)"
proof -
  have "life cap (notify env react (s\<lparr>ss_connectionStage := Some (TransportStage stage)\<rparr>))" if "ss_phase s = PConnecting"
    using that life_notify [OF life_quiet(10) [OF assms]] by simp
  then show "life cap (handleConnectionProgress env react stage s)" using assms by (simp add: handleConnectionProgress_def)
  show "life cap (transportClosed env react tm s)" if "ss_phase s \<noteq> PIdle"
    using that life_fail [OF life_quiet(9) [OF assms]] by (simp add: transportClosed_def)
  show "life cap (transportFailed env react s)" if "ss_phase s \<noteq> PIdle"
    using that life_fail [OF life_quiet(1) [OF assms]] by (simp add: transportFailed_def)
qed

lemma life_calls:
  assumes "life cap s"
  shows "sendSessionRequest env meth ps validate s = Inr (rid, s') \<Longrightarrow> life cap s'"
    and "life cap (unlessError s (sendSessionNotification meth ps s))" and "life cap (watchSettled env rid s)"
    and "life cap (overRouter f s)"
proof -
  show "life cap s'" if "sendSessionRequest env meth ps validate s = Inr (rid, s')"
    using that assms by (auto simp: sendSessionRequest_def bindE_eq_Inr Let_def living split: option.splits)
  show "life cap (unlessError s (sendSessionNotification meth ps s))"
    using assms by (auto simp: sendSessionNotification_def unlessError_def bindE_def living split: option.split sum.splits)
  show "life cap (watchSettled env rid s)"
    using assms by (auto simp: watchSettled_def living split: option.split sum.split)
  show "life cap (overRouter f s)" using assms by (simp add: overRouter_def living)
qed

lemma listening_notIdle: "life cap s \<Longrightarrow> listening s \<Longrightarrow> ss_phase s \<noteq> PIdle"
  by (auto simp: listening_def life_def phase_ok_def)

lemma life_step:
  assumes "life (se_inboundQueueCapacity env) s"
  shows "life (se_inboundQueueCapacity env) (sessionStep env ev s)"
proof (cases ev)
  case (RequestSent meth ps validate)
  then show ?thesis using assms life_calls(1) [OF assms] by (auto simp: sessionStep_def split: sum.split)
next
  case (StartCalled react)
  then show ?thesis using assms life_start [OF assms] by (simp add: sessionStep_def unlessError_def split: sum.split)
qed (use assms listening_notIdle [OF assms] in \<open>simp_all add: sessionStep_def living life_calls\<close>)

lemma life_newSession: "life cap (newSession n)"
  by (simp add: life_def life_defs newSession_def closes_ok_def waiting_def isClosingOrClosed_def)

interpretation life: session_invariant env "life (se_inboundQueueCapacity env)" for env
  by unfold_locales (simp_all add: life_newSession life_step)

section \<open>The parts of a session\<close>

text \<open>The router and the store of a session only ever run, and the connection is the session's.\<close>

definition composed :: "session_env \<Rightarrow> session \<Rightarrow> bool" where
  "composed env s \<longleftrightarrow> reachable (se_router env) (ss_router s) \<and> storeReachable (se_platform env) (ss_events s) \<and>
     onAir s \<and> (env_ok (se_router env) \<longrightarrow> linked s)"

lemma composed_evolves: "composed env s \<Longrightarrow> evolves env s s' \<Longrightarrow> composed env s'"
  by (erule evolvesE) (simp add: composed_def reachable_run storeReachable_happenAll)

lemma life_errorCode: "life cap s \<Longrightarrow> ss_phase s = PError \<longrightarrow> ss_failureCode s \<noteq> None"
  by (simp add: life_def phase_ok_def)

interpretation parts: session_invariant env "composed env" for env
proof unfold_locales
  have air: "onAir (newSession n)" for n
    by (simp add: onAir_def newSession_def newStore_def initialSnapshot_def)
  show "composed env (newSession n)" for n
    using reachable.event [OF reachable.start, of "se_router env" "Subscribe 0" n] air [of n]
    by (simp add: composed_def newSession_def storeReachable.start linked_def step_def subscribeNotifications_def newRouter_def)
  show "composed env (sessionStep env ev s)" if "sessionReachable env s" "composed env s" for s ev
    using composed_evolves [OF that(2) evolves_step] life_errorCode [OF life.always [OF that(1)]] by simp
qed

end
