(* ===== verification/SessionProgress.thy ===== *)
theory SessionProgress
  imports SessionLife
begin

text \<open>
  How a session goes on: the handshake behind a session that is ready, the silence of a session
  that has ended, and the steps that complete a close.
\<close>

section \<open>The log of the router grows\<close>

lemma step_log:
  assumes "structured env [] r" and "env_ok env"
  shows "prefix (rt_log r) (rt_log (step env ev r))"
proof (cases "issuing ev")
  case False
  from segment_step [OF assms(1) False] show ?thesis by (auto simp: segment_def)
next
  case True
  have init: "prefix (rt_log r) (rt_log r')" if "initialize env params r = Inr (k, r')" for params k r'
  proof -
    note i = that
    obtain c q where "r' = issuedWriting q (startedConnection q c) r"
      using initialize_Inr [OF i assms(2,1)] by metis
    then show ?thesis by (simp add: issuedWriting_simps)
  qed
  have send: "prefix (rt_log r) (rt_log r')" if "sendRequest env meth params validate r = Inr (k, r')" for meth params validate k r'
  proof (cases rule: sendRequest_Inr [OF that assms(2,1), case_names direct queued])
    case (direct c q)
    then show ?thesis by (simp add: issuedWriting_simps)
  next
    case (queued c q)
    then show ?thesis by (simp add: logEffect_def setConnection_def)
  qed
  have opened: "prefix (rt_log r) (rt_log r')" if "open_connection r = Inr (e, r')" for e r'
    using open_connection_fields(4) [OF that] by simp
  have other: "prefix (rt_log r) (rt_log r')" if "nextConnectionEpoch r = Inr (e, r')" for e r'
    using nextConnectionEpoch_fields(2) [OF that] by simp
  show ?thesis
    using True init send opened other
    by (cases ev) (auto simp: issuing_def step_def orUnchanged_def split: sum.split)
qed

lemma run_log:
  assumes "reachable env r" and "env_ok env"
  shows "prefix (rt_log r) (rt_log (run env evs r))"
  using assms
proof (induction evs arbitrary: r)
  case (Cons ev evs)
  from step_log [OF reachable_structured [OF Cons.prems] Cons.prems(2)]
    Cons.IH [OF reachable.event [OF Cons.prems(1)] Cons.prems(2)] show ?case
    by (auto intro: prefix_order.order_trans)
qed simp

text \<open>A router without a connection writes nothing until it opens one.\<close>

definition wroteIn :: "rpc_effect list \<Rightarrow> rpc_effect list" where
  "wroteIn log = filter (\<lambda>x. case x of Wrote _ _ \<Rightarrow> True | _ \<Rightarrow> False) log"

lemma wroteIn_append [simp]: "wroteIn (xs @ ys) = wroteIn xs @ wroteIn ys"
  by (simp add: wroteIn_def)

lemma silent_step:
  assumes "structured env [] r" and "env_ok env" and "rt_connection r = None" and "ev \<noteq> Opened"
  shows "rt_connection (step env ev r) = None" "wroteIn (rt_log (step env ev r)) = wroteIn (rt_log r)"
proof -
  show "rt_connection (step env ev r) = None"
    using step_keeps_connection [OF assms(1,2,4)] assms(3) by fastforce
  show "wroteIn (rt_log (step env ev r)) = wroteIn (rt_log r)"
  proof (cases "issuing ev")
    case False
    from segment_step [OF assms(1) False] obtain ws where ws: "rt_log (step env ev r) = rt_log r @ ws"
      "\<forall>e w. Wrote e w \<in> set ws \<longrightarrow> activeConnection e r \<noteq> None" unfolding segment_def by blast
    then have "wroteIn ws = []"
      using assms(3) by (auto simp: wroteIn_def filter_empty_conv activeConnection_def split: rpc_effect.split)
    with ws(1) show ?thesis by simp
  next
    case True
    then show ?thesis
      using assms(3,4)
      by (cases ev) (auto simp: issuing_def step_def orUnchanged_def initialize_def sendRequest_def
        dest: nextConnectionEpoch_fields(2) split: sum.split)
  qed
qed

lemma silent_run:
  assumes "reachable env r" and "env_ok env" and "rt_connection r = None" and "Opened \<notin> set evs"
  shows "wroteIn (rt_log (run env evs r)) = wroteIn (rt_log r)"
  using assms
proof (induction evs arbitrary: r)
  case (Cons ev evs)
  then have ev: "ev \<noteq> Opened" "Opened \<notin> set evs" by auto
  note s = silent_step [OF reachable_structured [OF Cons.prems(1,2)] Cons.prems(2,3) ev(1)]
  from Cons.IH [OF reachable.event [OF Cons.prems(1)] Cons.prems(2) s(1) ev(2)] s(2) show ?case by simp
qed simp

section \<open>Runs of a session\<close>

lemma evolves_session:
  assumes "sessionReachable env s"
  shows "evolves env s (sessionRun env evs s)"
  using assms
proof (induction evs arbitrary: s)
  case (Cons ev evs)
  have "evolves env s (sessionStep env ev s)"
    by (rule evolves_step [OF life_errorCode [OF life.always [OF Cons.prems]]])
  with Cons.IH [OF sessionReachable.event [OF Cons.prems]] show ?case by (simp add: evolves_trans)
qed simp

lemma session_disconnected:
  assumes "sessionReachable env s" and "env_ok (se_router env)" and "terminated (ss_phase s)"
  shows "rt_connection (ss_router s) = None"
proof -
  have "ss_epoch s = None" using life.always [OF assms(1)] assms(3) by (auto simp: life_def phase_ok_def terminated_def)
  then show ?thesis
    using parts.always [OF assms(1)] assms(2) by (cases "rt_connection (ss_router s)") (auto simp: composed_def linked_def)
qed

lemma session_log:
  assumes "sessionReachable env s" and "env_ok (se_router env)" and "evolves env s s'"
  shows "prefix (rt_log (ss_router s)) (rt_log (ss_router s'))"
proof -
  have "reachable (se_router env) (ss_router s)" using parts.always [OF assms(1)] by (simp add: composed_def)
  with assms(3) show ?thesis by (elim evolvesE) (simp add: run_log [OF _ assms(2)])
qed

section \<open>The handshake\<close>

text \<open>What does not touch the start of a session.\<close>

definition steady :: "session \<Rightarrow> session \<Rightarrow> bool" where
  "steady s s' \<longleftrightarrow> ss_start s' = ss_start s \<and> ss_initializeResponse s' = ss_initializeResponse s \<and>
     (ss_phase s' = PReady \<longrightarrow> ss_phase s = PReady)"

named_theorems steadying \<open>rules of the form steady s s' ==> steady s (f s')\<close>

lemma steady_refl [simp]: "steady s s"
  by (simp add: steady_def)

lemma steady_small [steadying]:
  assumes "steady s s'"
  shows "steady s (logSession x s')" "steady s (emitSessionDiagnostic d s')" "steady s (announce r s')" "steady s (setEvents f s')"
    "steady s (closeRouter s')" "steady s (closeTransport s')" "steady s (discardEarlyInboundMessages s')"
    "p \<noteq> PReady \<Longrightarrow> steady s (enterPhase p s')" "steady s (inboundLeft s')" "steady s (s'\<lparr>ss_router := r'\<rparr>)"
    "steady s (s'\<lparr>ss_close := c\<rparr>)" "steady s (s'\<lparr>ss_failureCode := fc\<rparr>)" "steady s (s'\<lparr>ss_busy := b\<rparr>)"
    "steady s (s'\<lparr>ss_watches := ws\<rparr>)" "steady s (s'\<lparr>ss_connectionStage := st\<rparr>)" "steady s (s'\<lparr>ss_transportClose := tc\<rparr>)"
    "steady s (s'\<lparr>ss_pendingInboundCount := n\<rparr>)" "steady s (s'\<lparr>ss_earlyInboundMessages := es\<rparr>)" "steady s (s'\<lparr>ss_inbound := xs\<rparr>)"
    "steady s (s'\<lparr>ss_transportTermination := tm\<rparr>)" "steady s (s'\<lparr>ss_transport := tp\<rparr>)" "steady s (s'\<lparr>ss_epoch := ep\<rparr>)"
  using assms by (simp_all add: steady_def inboundLeft_def)

lemma steady_close [steadying]:
  assumes "steady s s'"
  shows "steady s (closeFinished react c s')" "steady s (closeAfterStart c s')" "steady s (closeAfterCancel c s')"
    "steady s (closeInternal env react s')" "steady s (closeSession env react s')" "steady s (notify env react s')"
    "p \<noteq> PReady \<Longrightarrow> steady s (transition env react p s')" "steady s (fail env react code s')"
proof -
  have finished: "steady s (closeFinished react c s')" and after: "steady s (closeAfterStart c s')" if "steady s s'" for s' c
    using that by (simp_all add: closeFinished_def closeAfterStart_def steadying)
  have cancel: "steady s (closeAfterCancel c s')" if "steady s s'" for s' c
    using that by (simp add: closeAfterCancel_def after steadying)
  have internal: "steady s (closeSession env react s')" "steady s (closeInternal env react s')" if "steady s s'" for s'
    using that by (simp_all add: closeSession_def closeInternal_def Let_def steadying finished cancel)
  have notified: "steady s (notify env react s')" if "steady s s'" for s'
    using that by (simp add: notify_def Let_def steadying internal)
  have moved: "steady s (transition env react p s')" if "steady s s'" "p \<noteq> PReady" for p s'
    using that by (simp add: transition_def steadying notified)
  show "steady s (closeFinished react c s')" "steady s (closeAfterStart c s')" "steady s (closeAfterCancel c s')"
    "steady s (closeInternal env react s')" "steady s (closeSession env react s')" "steady s (notify env react s')"
    "p \<noteq> PReady \<Longrightarrow> steady s (transition env react p s')" "steady s (fail env react code s')"
    using assms by (simp_all add: finished after cancel internal notified moved fail_def steadying)
qed

lemma steady_heed [steadying]: "steady s s' \<Longrightarrow> steady s (heed env react x s')"
  by (simp add: heed_def steadying split: rpc_effect.split)

lemma steady_withRouter [steadying]:
  assumes "steady s s'"
  shows "steady s (heedAll env react xs s')" "steady s (withRouter env react f s')"
proof -
  have "steady s (heedAll env react xs s')" if "steady s s'" for xs s'
    unfolding heedAll_def using that by (induction xs arbitrary: s') (simp_all add: steadying)
  with assms show "steady s (heedAll env react xs s')" "steady s (withRouter env react f s')"
    by (simp_all add: withRouter_def steadying)
qed

text \<open>The events that belong to \<open>startInternal\<close>.\<close>

definition starting :: "session_event \<Rightarrow> bool" where
  "starting ev \<longleftrightarrow> (case ev of StartCalled _ \<Rightarrow> True | StartBegins \<Rightarrow> True | TransportConnected _ _ \<Rightarrow> True
     | ClosedThen \<Rightarrow> True | InitializeSettled _ \<Rightarrow> True | _ \<Rightarrow> False)"

lemma steady_step: "\<not> starting ev \<Longrightarrow> steady s (sessionStep env ev s)"
  by (cases ev) (auto simp: starting_def sessionStep_def steadying handleConnectionProgress_def transportClosed_def
    transportFailed_def receiveProtocolMessage_def enqueueInboundMessage_def transportCloseSettled_def inboundBegins_def
    inboundEnds_def cancelSettled_def closeContinues_def sendSessionRequest_def sendSessionNotification_def unlessError_def
    bindE_def watchSettled_def overRouter_def Let_def split: option.split sum.split list.split close_pc.split)

definition handshake_ok :: "session \<Rightarrow> bool" where
  "handshake_ok s \<longleftrightarrow>
     (\<forall>e rid. ss_start s = AwaitInitialize e rid \<longrightarrow> rid \<in> set (issuedIds (rt_log (ss_router s)))) \<and>
     (\<forall>r. ss_start s = Started r \<longrightarrow> ss_initializeResponse s = Some r \<and>
        (\<exists>rid v. rid \<in> set (issuedIds (rt_log (ss_router s))) \<and> Resolved rid v \<in> set (rt_log (ss_router s)) \<and>
           r = normalizeInitializeResponse v)) \<and>
     (ss_phase s = PReady \<longrightarrow> (\<exists>r. ss_start s = Started r))"

lemma settlement_Resolved: "settlement rid xs = Some (Inr v) \<Longrightarrow> Resolved rid v \<in> set xs"
  by (induction rid xs rule: settlement.induct) (auto split: rpc_effect.splits if_splits)

lemma settlement_settled: "rid \<in> set (settledIds xs) \<Longrightarrow> settlement rid xs \<noteq> None"
proof (induction xs)
  case (Cons x xs)
  then show ?case by (cases x) (auto simp: settledIds_def List.map_filter_simps split: if_splits)
qed simp

lemma issuedIds_prefix: "prefix xs ys \<Longrightarrow> set (issuedIds xs) \<subseteq> set (issuedIds ys)"
  by (auto elim!: prefixE)

lemma handshake_steady:
  assumes "handshake_ok s" and "steady s s'" and "prefix (rt_log (ss_router s)) (rt_log (ss_router s'))"
  shows "handshake_ok s'"
proof -
  note log = issuedIds_prefix [OF assms(3), THEN subsetD] set_mono_prefix [OF assms(3), THEN subsetD]
  have s': "ss_start s' = ss_start s" "ss_initializeResponse s' = ss_initializeResponse s" "ss_phase s' = PReady \<Longrightarrow> ss_phase s = PReady"
    using assms(2) by (simp_all add: steady_def)
  show ?thesis
    unfolding handshake_ok_def s'(1,2)
  proof (intro conjI allI impI)
    fix e rid assume "ss_start s = AwaitInitialize e rid"
    then show "rid \<in> set (issuedIds (rt_log (ss_router s')))" using assms(1) log(1) unfolding handshake_ok_def by blast
  next
    fix r assume "ss_start s = Started r"
    with assms(1) have "ss_initializeResponse s = Some r \<and> (\<exists>rid v. rid \<in> set (issuedIds (rt_log (ss_router s))) \<and>
        Resolved rid v \<in> set (rt_log (ss_router s)) \<and> r = normalizeInitializeResponse v)"
      unfolding handshake_ok_def by blast
    with log show "ss_initializeResponse s = Some r" "\<exists>rid v. rid \<in> set (issuedIds (rt_log (ss_router s'))) \<and>
        Resolved rid v \<in> set (rt_log (ss_router s')) \<and> r = normalizeInitializeResponse v" by blast+
  next
    assume "ss_phase s' = PReady"
    then show "\<exists>r. ss_start s = Started r" using assms(1) s'(3) unfolding handshake_ok_def by blast
  qed
qed

lemma handshake_early:
  assumes "ss_phase s \<noteq> PReady" and "\<And>r. ss_start s \<noteq> Started r" and "\<And>e rid. ss_start s \<noteq> AwaitInitialize e rid"
  shows "handshake_ok s"
  using assms by (auto simp: handshake_ok_def)

lemma handshake_startThrows: "ss_phase s \<noteq> PReady \<Longrightarrow> handshake_ok (startThrows code s)"
  by (rule handshake_early) (simp_all add: startThrows_def)

lemma notReady_steady: "steady s s' \<Longrightarrow> ss_phase s \<noteq> PReady \<Longrightarrow> ss_phase s' \<noteq> PReady"
  by (auto simp: steady_def)

lemma initialize_issues:
  assumes "reachable env r" "env_ok env" "initialize env ps r = Inr (rid, r')"
  shows "rid \<in> set (issuedIds (rt_log r'))"
proof -
  obtain c q where "rid = rq_id q" "r' = issuedWriting q (startedConnection q c) r"
    using initialize_Inr [OF assms(3,2) reachable_structured [OF assms(1,2)]] by metis
  then show ?thesis by (simp add: issuedWriting_simps)
qed

lemma handshake_openConnection:
  assumes "ss_phase s = PConnecting" and "reachable (se_router env) (ss_router s)" and "env_ok (se_router env)"
  shows "handshake_ok (openConnection env react s)"
proof (cases "open_connection (ss_router s)")
  case (Inl e)
  then show ?thesis using assms by (intro handshake_early) (simp_all add: openConnection_def)
next
  case (Inr er)
  obtain epoch r1 where er: "er = (epoch, r1)" by (cases er)
  define s0 where "s0 = s\<lparr>ss_router := r1, ss_epoch := Some epoch, ss_connectionStage := Some AppServerInitialization\<rparr>"
  define s1 where "s1 = transition env react PInitializing s0"
  have "reachable (se_router env) r1"
    using reachable.event [OF assms(2), of Opened] Inr er by (simp add: step_def orUnchanged_def)
  moreover have "evolves env s0 s1"
    unfolding s1_def using assms(1) by (intro evolves_transition) (simp_all add: s0_def)
  ultimately have r1: "reachable (se_router env) (ss_router s1)"
    by (elim evolvesE) (simp add: s0_def reachable_run)
  have "steady s0 s1" unfolding s1_def by (intro steadying) simp_all
  then have s1: "ss_phase s1 \<noteq> PReady" using assms(1) by (auto simp: steady_def s0_def)
  have failed: "ss_phase (fail env react code s1) \<noteq> PReady" for code
    by (rule notReady_steady [OF steady_close(8) [OF steady_refl] s1])
  have sent: "handshake_ok ((flushEarlyInboundMessages epoch (s1\<lparr>ss_router := r2\<rparr>))\<lparr>ss_start := AwaitInitialize epoch rid\<rparr>)"
    if "initialize (se_router env) ps (ss_router s1) = Inr (rid, r2)" for ps rid r2
    using initialize_issues [OF r1 assms(3) that] s1 by (simp add: handshake_ok_def flushEarly)
  show ?thesis
    unfolding openConnection_def Inr er sum.case prod.case Let_def s0_def [symmetric] s1_def [symmetric]
    using s1 failed sent by (auto simp: handshake_startThrows split: option.split sum.split)
qed

lemma handshake_starting:
  assumes "handshake_ok s" and "life cap s" and "reachable (se_router env) (ss_router s)" and "env_ok (se_router env)" and "starting ev"
  shows "handshake_ok (sessionStep env ev s)"
proof (cases ev)
  case (StartCalled react)
  define s0 where "s0 = s\<lparr>ss_start := Scheduled, ss_connectionStage := None\<rparr>"
  have "steady s0 (transition env react PConnecting s0)" by (intro steadying) simp_all
  then have "handshake_ok (transition env react PConnecting s0)" if "ss_phase s = PIdle"
    using that by (intro handshake_early) (auto simp: steady_def s0_def)
  then show ?thesis using assms(1) by (simp add: StartCalled sessionStep_def start_def unlessError_def s0_def)
next
  case StartBegins
  have "ss_phase s \<noteq> PReady" if "ss_start s = Scheduled" using assms(1) that by (auto simp: handshake_ok_def)
  then show ?thesis
    using assms(1) by (auto simp: StartBegins sessionStep_def startBegins_def handshake_startThrows intro: handshake_early)
next
  case (TransportConnected react outcome)
  show ?thesis
  proof (cases "ss_start s = AwaitConnect")
    case True
    then have phase: "ss_phase s \<noteq> PReady" using assms(1) by (auto simp: handshake_ok_def)
    have failed: "ss_phase (fail env react code s') \<noteq> PReady" if "ss_phase s' = ss_phase s" for code s'
      using notReady_steady [OF steady_close(8) [OF steady_refl]] that phase by metis
    have opened: "handshake_ok (openConnection env react s')"
      if "interruption s' = None" "s' = s\<lparr>ss_transport := t\<rparr>" for s' t
    proof -
      have "interruption s = None" using that by (simp add: interruption_def split: if_splits)
      then have "\<not> terminated (ss_phase s)" using interruption_terminated assms(2) by (simp add: life_def)
      then have "ss_phase s = PConnecting" using assms(2) True by (simp add: life_def start_ok_def)
      then show ?thesis using that(2) assms(3,4) by (intro handshake_openConnection) simp_all
    qed
    have throws: "handshake_ok ((closeTransport s')\<lparr>ss_start := AwaitCloseThen code\<rparr>)" if "ss_phase s' = ss_phase s" for s' code
      using that phase by (intro handshake_early) simp_all
    show ?thesis
      using True phase failed opened throws
      by (auto simp: TransportConnected sessionStep_def transportConnected_def Let_def handshake_startThrows split: option.split)
  next
    case False
    then show ?thesis using assms(1) by (simp add: TransportConnected sessionStep_def transportConnected_def)
  qed
next
  case ClosedThen
  have "ss_phase s \<noteq> PReady" if "ss_start s = AwaitCloseThen code" for code using assms(1) that by (auto simp: handshake_ok_def)
  then show ?thesis
    using assms(1) by (auto simp: ClosedThen sessionStep_def closedThen_def handshake_startThrows split: start_pc.split)
next
  case (InitializeSettled react)
  show ?thesis
  proof (cases "ss_start s")
    case (AwaitInitialize epoch rid)
    then have phase: "ss_phase s \<noteq> PReady" and issued: "rid \<in> set (issuedIds (rt_log (ss_router s)))"
      using assms(1) by (auto simp: handshake_ok_def)
    have failed: "ss_phase (fail env react code s) \<noteq> PReady" for code
      by (rule notReady_steady [OF steady_close(8) [OF steady_refl] phase])
    have ready: "handshake_ok ((transition env react PReady (s\<lparr>ss_initializeResponse := Some response, ss_connectionStage := None\<rparr>))
        \<lparr>ss_start := Started response\<rparr>)"
      if "settlement rid (rt_log (ss_router s)) = Some (Inr v)" "response = normalizeInitializeResponse v" "ss_phase s = PInitializing"
      for v response
    proof -
      define s0 where "s0 = enterPhase PReady (s\<lparr>ss_initializeResponse := Some response, ss_connectionStage := None\<rparr>)"
      define s1 where "s1 = notify env react s0"
      have "reachable (se_router env) (ss_router s0)" using assms(3) by (simp add: s0_def)
      moreover have "evolves env s0 s1" unfolding s1_def by (intro evolving) simp
      ultimately have "prefix (rt_log (ss_router s0)) (rt_log (ss_router s1))"
        by (elim evolvesE) (simp add: run_log [OF _ assms(4)])
      then have log: "prefix (rt_log (ss_router s)) (rt_log (ss_router s1))" by (simp add: s0_def)
      have "steady s0 s1" unfolding s1_def by (intro steadying) simp
      then have response: "ss_initializeResponse s1 = Some response" by (simp add: steady_def s0_def)
      have "rid \<in> set (issuedIds (rt_log (ss_router s1)))" using issuedIds_prefix [OF log] issued by blast
      moreover have "Resolved rid v \<in> set (rt_log (ss_router s1))"
        using set_mono_prefix [OF log] settlement_Resolved [OF that(1)] by blast
      ultimately show ?thesis
        using that(2) response unfolding handshake_ok_def transition_def s0_def [symmetric] s1_def [symmetric] by auto
    qed
    show ?thesis
      using AwaitInitialize phase failed ready assms(1)
      by (auto simp: InitializeSettled sessionStep_def initializeSettled_def Let_def handshake_startThrows split: option.split sum.split)
  qed (use assms(1) in \<open>simp_all add: InitializeSettled sessionStep_def initializeSettled_def\<close>)
qed (use assms(5) in \<open>simp_all add: starting_def\<close>)

interpretation handshake: session_invariant env "\<lambda>s. env_ok (se_router env) \<longrightarrow> handshake_ok s" for env
proof unfold_locales
  show "env_ok (se_router env) \<longrightarrow> handshake_ok (newSession n)" for n
    by (simp add: handshake_ok_def newSession_def)
  show "env_ok (se_router env) \<longrightarrow> handshake_ok (sessionStep env ev s)"
    if "sessionReachable env s" "env_ok (se_router env) \<longrightarrow> handshake_ok s" for s ev
  proof
    assume ok: "env_ok (se_router env)"
    have log: "prefix (rt_log (ss_router s)) (rt_log (ss_router (sessionStep env ev s)))"
      using session_log [OF that(1) ok] evolves_session [OF that(1), of "[ev]"] by simp
    show "handshake_ok (sessionStep env ev s)"
    proof (cases "starting ev")
      case True
      then show ?thesis
        using handshake_starting [OF _ life.always [OF that(1)] _ ok] parts.always [OF that(1)] that(2) ok
        by (simp add: composed_def)
    next
      case False
      then show ?thesis using handshake_steady [OF _ steady_step log] that(2) ok by simp
    qed
  qed
qed

end
