(* ===== verification/SessionClosing.thy ===== *)
theory SessionClosing
  imports SessionProgress
begin

text \<open>
  Closing a session comes to an end. \<open>toDo\<close> counts what a session that is closing still
  waits for: no event makes it larger, and as long as the session is not closed one of the promises it
  waits for is there to be settled, which makes it smaller.
\<close>

section \<open>The measure\<close>

definition closeRank :: "close_pc \<Rightarrow> nat" where
  "closeRank pc = (case pc of NotClosing \<Rightarrow> 5 | AwaitCancel \<Rightarrow> 4 | AwaitStart \<Rightarrow> 3 | AwaitTransport _ _ \<Rightarrow> 2
     | AwaitInbound _ \<Rightarrow> 1 | CloseSettled _ \<Rightarrow> 0)"

definition startRank :: "start_pc \<Rightarrow> nat" where
  "startRank pc = (case pc of Scheduled \<Rightarrow> 4 | AwaitConnect \<Rightarrow> 3 | AwaitCloseThen _ \<Rightarrow> 1 | AwaitInitialize _ _ \<Rightarrow> 1 | _ \<Rightarrow> 0)"

definition transportRank :: "bool option \<Rightarrow> nat" where
  "transportRank c = (case c of None \<Rightarrow> 2 | Some False \<Rightarrow> 1 | Some True \<Rightarrow> 0)"

definition toDo :: "session \<Rightarrow> nat" where
  "toDo s = closeRank (ss_close s) + startRank (ss_start s) + transportRank (ss_transportClose s) + length (ss_inbound s)"

lemma ranks [simp]:
  "closeRank AwaitCancel = 4" "closeRank AwaitStart = 3" "closeRank (AwaitTransport c p) = 2" "closeRank (AwaitInbound c) = 1"
  "closeRank (CloseSettled c) = 0" "startRank NotStarted = 0" "startRank Scheduled = 4" "startRank AwaitConnect = 3"
  "startRank (AwaitCloseThen code) = 1" "startRank (AwaitInitialize e k) = 1" "startRank (StartRejected f) = 0"
  "startRank (Started r) = 0" "transportRank None = 2" "transportRank (Some False) = 1" "transportRank (Some True) = 0"
  by (simp_all add: closeRank_def startRank_def transportRank_def)

lemma transportRank_le: "transportRank c \<le> 2"
  by (simp add: transportRank_def split: option.split bool.split)

lemma transportRank_close: "transportRank (ss_transportClose (closeTransport s)) \<le> transportRank (ss_transportClose s)"
  by (auto simp: closeTransport_def transportRank_def split: option.split bool.split)

lemma toDo_same:
  assumes "ss_close s' = ss_close s" "ss_start s' = ss_start s" "ss_transportClose s' = ss_transportClose s" "ss_inbound s' = ss_inbound s"
  shows "toDo s' = toDo s"
  using assms by (simp add: toDo_def)

section \<open>A closing session\<close>

definition closing :: "session \<Rightarrow> bool" where
  "closing s \<longleftrightarrow> ss_phase s = PClosing \<or> ss_phase s = PClosed"

lemma closing_terminated [simp]: "closing s \<Longrightarrow> terminated (ss_phase s)"
  by (auto simp: closing_def)

text \<open>The phase stays the same, or the session is closed now.\<close>

definition closesAtMost :: "session \<Rightarrow> session \<Rightarrow> bool" where
  "closesAtMost s s' \<longleftrightarrow> ss_phase s' = ss_phase s \<or> ss_phase s' = PClosed"

lemma closesAtMost_refl [simp]: "closesAtMost s s"
  by (simp add: closesAtMost_def)

lemma closesAtMost_closing: "closesAtMost s s' \<Longrightarrow> closing s \<Longrightarrow> closing s'"
  by (auto simp: closesAtMost_def closing_def)

lemma fail_closing [simp]: "closing s \<Longrightarrow> fail env react code s = s"
  by (simp add: fail_def)

lemma interruption_closing [simp]: "closing s \<Longrightarrow> interruption s = Some SessionClosed"
  by (auto simp: interruption_def closing_def isClosingOrClosed_def)

text \<open>Neither the phase nor what is to be done changes.\<close>

definition waits :: "session \<Rightarrow> session \<Rightarrow> bool" where
  "waits s s' \<longleftrightarrow> ss_phase s' = ss_phase s \<and> ss_close s' = ss_close s \<and> ss_start s' = ss_start s \<and>
     ss_transportClose s' = ss_transportClose s \<and> ss_inbound s' = ss_inbound s"

lemma waits_simps [simp]:
  "waits s s" "waits s (logSession x s') = waits s s'" "waits s (emitSessionDiagnostic d s') = waits s s'"
  "waits s (setEvents f s') = waits s s'" "waits s (s'\<lparr>ss_router := r\<rparr>) = waits s s'" "waits s (s'\<lparr>ss_watches := ws\<rparr>) = waits s s'"
  "waits s (s'\<lparr>ss_transportTermination := tm\<rparr>) = waits s s'"
  by (simp_all add: waits_def)

lemma waits_heedAll: "closing s' \<Longrightarrow> waits s s' \<Longrightarrow> waits s (heedAll env react xs s')"
proof (induction xs arbitrary: s')
  case (Cons x xs)
  have "waits s (heed env react x s')" using Cons.prems by (simp add: heed_def split: rpc_effect.split)
  moreover from this have "closing (heed env react x s')" using Cons.prems by (simp add: waits_def closing_def)
  ultimately show ?case using Cons.IH by (simp add: heedAll_def)
qed (simp add: heedAll_def)

lemma waits_withRouter: "closing s \<Longrightarrow> waits s (withRouter env react f s)"
  unfolding withRouter_def by (rule waits_heedAll) (simp_all add: closing_def waits_def)

text \<open>The events on which a closing session makes no progress.\<close>

definition idleEvent :: "session_event \<Rightarrow> bool" where
  "idleEvent ev \<longleftrightarrow> (case ev of StartBegins \<Rightarrow> False | TransportConnected _ _ \<Rightarrow> False | ClosedThen \<Rightarrow> False | InitializeSettled _ \<Rightarrow> False
     | TransportCloseSettled _ \<Rightarrow> False | InboundBegins _ \<Rightarrow> False | InboundEnds _ _ \<Rightarrow> False | CancelSettled _ \<Rightarrow> False
     | CloseContinues _ \<Rightarrow> False | _ \<Rightarrow> True)"

lemma waits_step:
  assumes "life cap s" and "closing s" and "idleEvent ev"
  shows "waits s (sessionStep env ev s)"
proof -
  have close: "ss_close s \<noteq> NotClosing"
    using assms(1,2) by (auto simp: life_def phase_ok_def closing_def isClosingOrClosed_def)
  have phase: "ss_phase s \<noteq> PIdle" "ss_phase s \<noteq> PConnecting" using assms(2) by (auto simp: closing_def)
  show ?thesis
    using assms(2,3) close phase waits_withRouter [OF assms(2)]
    by (cases ev) (auto simp: idleEvent_def sessionStep_def unlessError_def start_def handleConnectionProgress_def
      transportClosed_def transportFailed_def receiveProtocolMessage_def closeSession_def sendSessionRequest_def bindE_def Let_def
      sendSessionNotification_def watchSettled_def overRouter_def fail_def
      split: option.split sum.split)
qed

section \<open>No event makes it larger\<close>

lemma toDo_closeAfterStart:
  assumes "ss_close s = AwaitCancel \<or> ss_close s = AwaitStart"
  shows "toDo (closeAfterStart c s) < toDo s" "ss_phase (closeAfterStart c s) = ss_phase s"
  using assms transportRank_close [of s] by (auto simp: toDo_def closeAfterStart_def)

lemma toDo_inboundLeft:
  "toDo (inboundLeft s) \<le> toDo s" "ss_inbound s \<noteq> [] \<Longrightarrow> toDo (inboundLeft s) < toDo s" "ss_phase (inboundLeft s) = ss_phase s"
  by (simp_all add: toDo_def inboundLeft_def)

lemma toDo_startThrows:
  "toDo (startThrows code s) \<le> toDo s" "0 < startRank (ss_start s) \<Longrightarrow> toDo (startThrows code s) < toDo s"
  "ss_phase (startThrows code s) = ss_phase s"
  by (simp_all add: toDo_def startThrows_def)

lemma toDo_transportConnected:
  assumes "life cap s" and "closing s" and "ss_start s = AwaitConnect"
  shows "toDo (transportConnected env react outcome s) < toDo s \<and> ss_phase (transportConnected env react outcome s) = ss_phase s"
proof -
  have "closing (s\<lparr>ss_transport := t\<rparr>)" for t using assms(2) by (simp add: closing_def)
  moreover have "transportRank (ss_transportClose (closeTransport (s\<lparr>ss_transport := t\<rparr>))) \<le> transportRank (ss_transportClose s)" for t
    using transportRank_close [of "s\<lparr>ss_transport := t\<rparr>"] by simp
  moreover note assms(2,3)
  ultimately show ?thesis
    by (auto simp: transportConnected_def Let_def toDo_def startThrows_def less_Suc_eq_le le_SucI split: option.split)
qed

lemma toDo_initializeSettled:
  assumes "closing s" and "ss_start s = AwaitInitialize e k"
  shows "toDo (initializeSettled env react s) \<le> toDo s \<and> ss_phase (initializeSettled env react s) = ss_phase s"
    and "settlement k (rt_log (ss_router s)) \<noteq> None \<Longrightarrow> toDo (initializeSettled env react s) < toDo s"
proof -
  have "ss_phase s \<noteq> PInitializing" using assms(1) by (auto simp: closing_def)
  with assms show "toDo (initializeSettled env react s) \<le> toDo s \<and> ss_phase (initializeSettled env react s) = ss_phase s"
    "settlement k (rt_log (ss_router s)) \<noteq> None \<Longrightarrow> toDo (initializeSettled env react s) < toDo s"
    by (auto simp: initializeSettled_def toDo_startThrows split: option.split sum.split)
qed

lemma toDo_inbound:
  assumes "life cap s" and "closing s"
  shows "toDo (inboundBegins env react s) \<le> toDo s \<and> ss_phase (inboundBegins env react s) = ss_phase s"
    and "toDo (inboundEnds env react ok s) \<le> toDo s \<and> ss_phase (inboundEnds env react ok s) = ss_phase s"
    and "ss_inbound s \<noteq> [] \<Longrightarrow> \<not> ss_busy s \<Longrightarrow> toDo (inboundBegins env react s) < toDo s"
    and "ss_busy s \<Longrightarrow> toDo (inboundEnds env react ok s) < toDo s"
proof -
  have epoch: "ss_epoch s = None" using assms by (auto simp: life_def phase_ok_def closing_def)
  have busy: "ss_busy s \<Longrightarrow> ss_inbound s \<noteq> []" using assms(1) by (auto simp: life_def inbound_ok_def)
  have d: "closing (emitSessionDiagnostic d s)" "toDo (emitSessionDiagnostic d s) = toDo s" for d
    using assms(2) by (simp_all add: closing_def toDo_def)
  show "toDo (inboundBegins env react s) \<le> toDo s \<and> ss_phase (inboundBegins env react s) = ss_phase s"
    using epoch toDo_inboundLeft by (auto simp: inboundBegins_def split: list.split)
  show "toDo (inboundBegins env react s) < toDo s" if "ss_inbound s \<noteq> []" "\<not> ss_busy s"
    using epoch that toDo_inboundLeft(2) [of s] by (auto simp: inboundBegins_def split: list.split)
  have left: "toDo (inboundLeft (emitSessionDiagnostic dg s)) = toDo (inboundLeft s)" for dg by (simp add: toDo_def inboundLeft_def)
  show "toDo (inboundEnds env react ok s) < toDo s" if "ss_busy s"
    using that busy toDo_inboundLeft(2) [of s] d(1) by (simp add: inboundEnds_def left)
  show "toDo (inboundEnds env react ok s) \<le> toDo s \<and> ss_phase (inboundEnds env react ok s) = ss_phase s"
    using toDo_inboundLeft d(1) by (simp add: inboundEnds_def left)
qed

lemma toDo_closeContinues:
  assumes "life cap s" and "closing s"
  shows "toDo (closeContinues react s) \<le> toDo s \<and> closesAtMost s (closeContinues react s)"
proof (cases "ss_close s")
  case AwaitStart
  then show ?thesis
    using assms(2) toDo_closeAfterStart [of s False] by (simp add: closeContinues_def closesAtMost_def)
next
  case (AwaitInbound c)
  then show ?thesis using assms(2) by (simp add: closeContinues_def closeFinished_def toDo_def closesAtMost_def)
qed (use assms(2) in \<open>simp_all add: closeContinues_def toDo_def closesAtMost_def\<close>)

lemma toDo_cancelSettled:
  assumes "ss_close s = AwaitCancel"
  shows "toDo (cancelSettled ok s) < toDo s" "ss_phase (cancelSettled ok s) = ss_phase s"
proof -
  let ?d = "emitSessionDiagnostic ConnectCancelFailed s"
  have "toDo ?d = toDo s" by (simp add: toDo_def)
  then have "toDo (closeAfterStart c ?d) < toDo s" for c using toDo_closeAfterStart(1) [of ?d c] assms by simp
  moreover have "toDo (s\<lparr>ss_close := AwaitStart\<rparr>) < toDo s" using assms by (simp add: toDo_def)
  ultimately show "toDo (cancelSettled ok s) < toDo s"
    using toDo_closeAfterStart(1) [of s] assms by (simp add: cancelSettled_def closeAfterCancel_def)
  show "ss_phase (cancelSettled ok s) = ss_phase s"
    using assms by (simp add: cancelSettled_def closeAfterCancel_def closeAfterStart_def)
qed

lemma toDo_step:
  assumes "life cap s" and "closing s"
  shows "toDo (sessionStep env ev s) \<le> toDo s \<and> closesAtMost s (sessionStep env ev s)"
proof (cases "idleEvent ev")
  case True
  have "waits s (sessionStep env ev s)" by (rule waits_step [OF assms True])
  then show ?thesis using assms(2) by (simp add: waits_def toDo_def closesAtMost_def)
next
  case False
  have kept: "closesAtMost s s'" if "ss_phase s' = ss_phase s" for s' using that by (simp add: closesAtMost_def)
  show ?thesis
  proof (cases ev)
    case StartBegins
    have "isClosingOrClosed (ss_phase s)" using assms(2) by (simp add: closing_def isClosingOrClosed_def)
    then show ?thesis using assms(2) by (simp add: StartBegins sessionStep_def startBegins_def toDo_startThrows kept)
  next
    case (TransportConnected react outcome)
    show ?thesis
    proof (cases "ss_start s = AwaitConnect")
      case True
      then show ?thesis
        using toDo_transportConnected [OF assms True, of env react outcome] kept by (simp add: TransportConnected sessionStep_def)
    next
      case False
      then show ?thesis using assms(2) by (simp add: TransportConnected sessionStep_def transportConnected_def)
    qed
  next
    case ClosedThen
    then show ?thesis
      using assms(2) by (simp add: sessionStep_def closedThen_def toDo_startThrows kept split: start_pc.split)
  next
    case (InitializeSettled react)
    show ?thesis
    proof (cases "ss_start s")
      case (AwaitInitialize e k)
      then show ?thesis
        using toDo_initializeSettled(1) [OF assms(2) AwaitInitialize] kept by (simp add: InitializeSettled sessionStep_def)
    qed (use assms(2) in \<open>simp_all add: InitializeSettled sessionStep_def initializeSettled_def\<close>)
  next
    case (TransportCloseSettled ok)
    then show ?thesis
      using assms(2) by (simp add: sessionStep_def transportCloseSettled_def toDo_def Let_def kept)
  next
    case (InboundBegins react)
    then show ?thesis using toDo_inbound(1) [OF assms] kept by (simp add: sessionStep_def)
  next
    case (InboundEnds react ok)
    then show ?thesis using toDo_inbound(2) [OF assms] kept by (simp add: sessionStep_def)
  next
    case (CancelSettled ok)
    show ?thesis
    proof (cases "ss_close s = AwaitCancel")
      case True
      then show ?thesis using toDo_cancelSettled [OF True, of ok] kept by (simp add: CancelSettled sessionStep_def)
    next
      case False
      then show ?thesis using assms(2) by (simp add: CancelSettled sessionStep_def cancelSettled_def)
    qed
  next
    case (CloseContinues react)
    then show ?thesis using toDo_closeContinues [OF assms] by (simp add: sessionStep_def)
  qed (use False in \<open>simp_all add: idleEvent_def\<close>)
qed

section \<open>Promises that are due\<close>

text \<open>The events that settle a promise the session waits for, or go on once it is settled.\<close>

definition awaited :: "session \<Rightarrow> session_event \<Rightarrow> bool" where
  "awaited s ev \<longleftrightarrow> (case ev of
       CancelSettled ok \<Rightarrow> ss_close s = AwaitCancel
     | StartBegins \<Rightarrow> ss_start s = Scheduled
     | TransportConnected react outcome \<Rightarrow> ss_start s = AwaitConnect
     | ClosedThen \<Rightarrow> (case ss_start s of AwaitCloseThen code \<Rightarrow> ss_transportClose s = Some True | _ \<Rightarrow> False)
     | InitializeSettled react \<Rightarrow> (case ss_start s of AwaitInitialize e k \<Rightarrow> True | _ \<Rightarrow> False)
     | TransportCloseSettled ok \<Rightarrow> ss_transportClose s = Some False
     | InboundBegins react \<Rightarrow> ss_inbound s \<noteq> [] \<and> \<not> ss_busy s
     | InboundEnds react ok \<Rightarrow> ss_busy s
     | CloseContinues react \<Rightarrow>
         (case ss_close s of
            AwaitStart \<Rightarrow> startSettled (ss_start s)
          | AwaitTransport cancelFailed present \<Rightarrow> present \<longrightarrow> ss_transportClose s = Some True
          | AwaitInbound cancelFailed \<Rightarrow> ss_inbound s = []
          | _ \<Rightarrow> False)
     | _ \<Rightarrow> False)"

text \<open>Closing has rejected the request of the handshake, so that its promise is settled.\<close>

lemma initialize_settled:
  assumes "sessionReachable env s" and "env_ok (se_router env)" and "closing s" and "ss_start s = AwaitInitialize e k"
  shows "settlement k (rt_log (ss_router s)) \<noteq> None"
proof -
  let ?r = "ss_router s"
  have "reachable (se_router env) ?r" using parts.always [OF assms(1)] by (simp add: composed_def)
  then have "accounted (se_router env) ?r" using assms(2) by (rule reachable_accounted)
  moreover have "pendingIds ?r = []"
    using session_disconnected [OF assms(1,2)] assms(3) by (simp add: pendingIds_def)
  ultimately have "mset (issuedIds (rt_log ?r)) = mset (settledIds (rt_log ?r))" by (simp add: accounted_def)
  moreover have "k \<in> set (issuedIds (rt_log ?r))"
    using handshake.always [OF assms(1)] assms(2,4) by (simp add: handshake_ok_def)
  ultimately have "k \<in> set (settledIds (rt_log ?r))" by (metis set_mset_mset)
  then show ?thesis by (rule settlement_settled)
qed

lemma toDo_awaited:
  assumes "sessionReachable env s" and "env_ok (se_router env)" and "closing s" and "awaited s ev"
  shows "toDo (sessionStep env ev s) < toDo s"
proof -
  note life = life.always [OF assms(1)]
  show ?thesis
  proof (cases ev)
    case StartBegins
    have "isClosingOrClosed (ss_phase s)" using assms(3) by (simp add: closing_def isClosingOrClosed_def)
    then show ?thesis using assms(4) by (simp add: StartBegins awaited_def sessionStep_def startBegins_def toDo_startThrows)
  next
    case (TransportConnected react outcome)
    then show ?thesis
      using assms(4) toDo_transportConnected [OF life assms(3), of env react outcome] by (simp add: awaited_def sessionStep_def)
  next
    case ClosedThen
    then show ?thesis
      using assms(4) by (auto simp: awaited_def sessionStep_def closedThen_def toDo_startThrows split: start_pc.splits)
  next
    case (InitializeSettled react)
    then obtain e k where start: "ss_start s = AwaitInitialize e k"
      using assms(4) by (auto simp: awaited_def split: start_pc.splits)
    from toDo_initializeSettled(2) [OF assms(3) start initialize_settled [OF assms(1-3) start]]
    show ?thesis by (simp add: InitializeSettled sessionStep_def)
  next
    case (TransportCloseSettled ok)
    then show ?thesis using assms(4) by (simp add: awaited_def sessionStep_def transportCloseSettled_def toDo_def Let_def)
  next
    case (InboundBegins react)
    then show ?thesis using assms(4) toDo_inbound(3) [OF life assms(3)] by (simp add: awaited_def sessionStep_def)
  next
    case (InboundEnds react ok)
    then show ?thesis using assms(4) toDo_inbound(4) [OF life assms(3)] by (simp add: awaited_def sessionStep_def)
  next
    case (CancelSettled ok)
    then show ?thesis using assms(4) toDo_cancelSettled by (simp add: awaited_def sessionStep_def)
  next
    case (CloseContinues react)
    show ?thesis
    proof (cases "ss_close s")
      case AwaitStart
      then show ?thesis
        using assms(4) toDo_closeAfterStart(1) [of s False]
        by (simp add: CloseContinues awaited_def sessionStep_def closeContinues_def)
    qed (use assms(4) in \<open>auto simp: CloseContinues awaited_def sessionStep_def closeContinues_def closeFinished_def toDo_def\<close>)
  qed (use assms(4) in \<open>simp_all add: awaited_def\<close>)
qed

lemma awaited_exists:
  assumes "life cap s" and "ss_phase s = PClosing"
  shows "\<exists>ev. awaited s ev"
proof -
  have close: "ss_close s \<noteq> NotClosing" "\<And>b. ss_close s \<noteq> CloseSettled b" "ss_start s \<noteq> NotStarted"
    using assms by (auto simp: life_def phase_ok_def isClosingOrClosed_def)
  have settled: "\<exists>ev. awaited s ev" if "ss_transportClose s \<noteq> None" "ss_transportClose s \<noteq> Some True"
  proof -
    have "ss_transportClose s = Some False" using that by (cases "ss_transportClose s") auto
    then have "awaited s (TransportCloseSettled True)" by (simp add: awaited_def)
    then show ?thesis ..
  qed
  show ?thesis
  proof (cases "ss_close s")
    case AwaitCancel
    then have "awaited s (CancelSettled True)" by (simp add: awaited_def)
    then show ?thesis ..
  next
    case AwaitStart
    show ?thesis
    proof (cases "ss_start s")
      case Scheduled
      then have "awaited s StartBegins" by (simp add: awaited_def)
      then show ?thesis ..
    next
      case AwaitConnect
      then have "awaited s (TransportConnected (\<lambda>_. Quiet) None)" by (simp add: awaited_def)
      then show ?thesis ..
    next
      case (AwaitCloseThen code)
      then have "ss_transportClose s \<noteq> None" using assms(1) by (simp add: life_def start_ok_def)
      moreover have "awaited s ClosedThen" if "ss_transportClose s = Some True"
        using that AwaitCloseThen by (simp add: awaited_def)
      ultimately show ?thesis using settled by blast
    next
      case (AwaitInitialize e k)
      then have "awaited s (InitializeSettled (\<lambda>_. Quiet))" by (simp add: awaited_def)
      then show ?thesis ..
    next
      case (StartRejected f)
      with AwaitStart have "awaited s (CloseContinues (\<lambda>_. Quiet))" by (simp add: awaited_def startSettled_def)
      then show ?thesis ..
    next
      case (Started r)
      with AwaitStart have "awaited s (CloseContinues (\<lambda>_. Quiet))" by (simp add: awaited_def startSettled_def)
      then show ?thesis ..
    qed (use close in simp)
  next
    case (AwaitTransport c p)
    show ?thesis
    proof (cases "p \<and> ss_transportClose s \<noteq> Some True")
      case True
      then have "ss_transportClose s \<noteq> None" using assms(1) AwaitTransport by (auto simp: life_def transport_ok_def)
      with True settled show ?thesis by blast
    next
      case False
      with AwaitTransport have "awaited s (CloseContinues (\<lambda>_. Quiet))" by (auto simp: awaited_def)
      then show ?thesis ..
    qed
  next
    case (AwaitInbound c)
    consider "awaited s (CloseContinues (\<lambda>_. Quiet))" | "awaited s (InboundEnds (\<lambda>_. Quiet) True)" | "awaited s (InboundBegins (\<lambda>_. Quiet))"
      using AwaitInbound by (cases "ss_inbound s = []"; cases "ss_busy s") (auto simp: awaited_def)
    then show ?thesis by cases blast+
  qed (use close in simp_all)
qed

text \<open>How many promises a run settles that the session waited for.\<close>

fun settledIn :: "session_env \<Rightarrow> session_event list \<Rightarrow> session \<Rightarrow> nat" where
  "settledIn env [] s = 0"
| "settledIn env (ev # evs) s = (if awaited s ev then 1 else 0) + settledIn env evs (sessionStep env ev s)"

lemma settledIn_le:
  assumes "sessionReachable env s" and "env_ok (se_router env)" and "closing s"
  shows "settledIn env evs s + toDo (sessionRun env evs s) \<le> toDo s \<and> closesAtMost s (sessionRun env evs s)"
  using assms
proof (induction evs arbitrary: s)
  case (Cons ev evs)
  note step = toDo_step [OF life.always [OF Cons.prems(1)] Cons.prems(3), of env ev]
  then have "closing (sessionStep env ev s)" using closesAtMost_closing Cons.prems(3) by blast
  then have "settledIn env evs (sessionStep env ev s) + toDo (sessionRun env (ev # evs) s) \<le> toDo (sessionStep env ev s) \<and>
      closesAtMost (sessionStep env ev s) (sessionRun env (ev # evs) s)"
    using Cons.IH [OF sessionReachable.event [OF Cons.prems(1)] Cons.prems(2)] by simp
  then show ?case using toDo_awaited [OF Cons.prems, of ev] step by (auto simp: closesAtMost_def)
qed simp

text \<open>Ten promises, and one per message in the chain.\<close>

lemma toDo_bound:
  assumes "life cap s" and "closing s"
  shows "toDo s \<le> length (ss_inbound s) + 10"
proof -
  have "closeRank (ss_close s) \<le> 4"
    using assms by (cases "ss_close s") (auto simp: life_def phase_ok_def closing_def isClosingOrClosed_def)
  moreover have "startRank (ss_start s) \<le> 4" by (simp add: startRank_def split: start_pc.split)
  moreover note transportRank_le [of "ss_transportClose s"]
  ultimately show ?thesis unfolding toDo_def by linarith
qed

lemma closed_stays:
  "sessionReachable env s \<Longrightarrow> env_ok (se_router env) \<Longrightarrow> ss_phase s = PClosed \<Longrightarrow> ss_phase (sessionRun env evs s) = PClosed"
  using settledIn_le [of env s evs] by (auto simp: closesAtMost_def closing_def)

end
