(* ===== verification/SessionProperties.thy ===== *)
theory SessionProperties
  imports SessionClosing RpcProperties EventProperties
begin

text \<open>
  The properties of sessions, over all their reachable states, and a concrete session that
  witnesses that their hypotheses can hold: it starts, gets a transport, receives messages and is closed.
\<close>

section \<open>A concrete session\<close>

definition demoSessionEnv :: session_env where
  "demoSessionEnv = \<lparr>se_router = demoEnv, se_platform = asciiPlatform, se_inboundQueueCapacity = 2,
     se_cancelTransportConnect = True, se_parse = (\<lambda>j. if j = lit ''answer''
       then Some (JObj [jprop ''id'' (JStr (lit ''rpc:c:1:1'')), jprop ''result'' (JObj [])])
       else if j = lit ''{}'' then Some (JObj []) else None),
     se_validateCommandExec = (\<lambda>_. None), se_initializeParams = JObj []\<rparr>"

abbreviation quiet :: reactions where
  "quiet \<equiv> \<lambda>_. Quiet"

text \<open>Connected, with one message that came in early.\<close>

definition demoConnected :: session where
  "demoConnected = sessionRun demoSessionEnv [StartCalled quiet, StartBegins, MessageReceived quiet (lit ''{}''),
     TransportConnected quiet (Some \<lparr>tp_valid = True, tp_closeThrows = False\<rparr>)] (newSession 0)"

text \<open>The answer to initialize has come and the session is ready.\<close>

definition demoReady :: session where
  "demoReady = sessionRun demoSessionEnv [RouterTask quiet 0 (Fulfilled JNull), InboundBegins quiet, InboundEnds quiet True,
     MessageReceived quiet (lit ''answer''), InboundBegins quiet, InboundEnds quiet True, RouterTask quiet 1 (Fulfilled JNull),
     InitializeSettled quiet] demoConnected"

definition demoClosing :: session where
  "demoClosing = sessionRun demoSessionEnv [MessageReceived quiet (lit ''{}''), CloseCalled quiet] demoConnected"

lemma demo_session_reachable:
  "sessionReachable demoSessionEnv demoConnected" "sessionReachable demoSessionEnv demoReady" "sessionReachable demoSessionEnv demoClosing"
  unfolding demoReady_def demoClosing_def demoConnected_def by (intro sessionReachable_run sessionReachable.start)+

lemma demoSessionEnv_ok [simp]: "env_ok (se_router demoSessionEnv)"
  by (simp add: demoSessionEnv_def demoEnv_ok)

lemma demo_phases: "ss_phase demoConnected = PInitializing" "ss_phase demoReady = PReady" "ss_phase demoClosing = PClosing"
  by code_simp+

section \<open>The parts of a session\<close>

text \<open>C8. The composition is sound: in every reachable session the router and the event store are in a reachable
  state of their own, so that everything shown about them holds for the session; a connection of the router is the one
  the session has opened; the session holds a connection exactly while it initializes or is ready, the store is
  connected exactly while the session has not ended, and the state shows an error code exactly in the phase error.\<close>

theorem session_parts:
  assumes "sessionReachable env s" and "env_ok (se_router env)"
  shows "reachable (se_router env) (ss_router s) \<and> storeReachable (se_platform env) (ss_events s) \<and>
    (\<forall>c. rt_connection (ss_router s) = Some c \<longrightarrow> ss_epoch s = Some (cn_epoch c)) \<and>
    ((ss_epoch s \<noteq> None) = (ss_phase s = PInitializing \<or> ss_phase s = PReady)) \<and>
    ev_connected (st_snapshot (ss_events s)) = (\<not> terminated (ss_phase s)) \<and>
    (sn_errorCode (snapshot s) \<noteq> None) = (ss_phase s = PError)"
  using parts.always [OF assms(1)] life.always [OF assms(1)] assms(2)
  by (auto simp: composed_def linked_def onAir_def life_def phase_ok_def snapshot_def)

theorem session_parts_witness:
  "reachable (se_router demoSessionEnv) (ss_router demoReady)"
  using session_parts [OF demo_session_reachable(2) demoSessionEnv_ok] by blast

text \<open>C9. A session that failed or is closed is silent: whatever happens afterwards, its router has no
  connection and writes nothing to the transport any more, and it never leaves the phases of a session that has ended.\<close>

theorem ended_session_silent:
  assumes "sessionReachable env s" and "env_ok (se_router env)" and "terminated (ss_phase s)"
  shows "rt_connection (ss_router (sessionRun env evs s)) = None \<and>
    wroteIn (rt_log (ss_router (sessionRun env evs s))) = wroteIn (rt_log (ss_router s)) \<and>
    terminated (ss_phase (sessionRun env evs s))"
proof -
  have reach: "reachable (se_router env) (ss_router s)" using parts.always [OF assms(1)] by (simp add: composed_def)
  note none = session_disconnected [OF assms]
  obtain es where es: "ss_router (sessionRun env evs s) = run (se_router env) es (ss_router s)" "Opened \<notin> set es"
    and phase: "terminated (ss_phase (sessionRun env evs s))"
    using evolvesE [OF evolves_session [OF assms(1), of evs]] assms(3) by metis
  show ?thesis
    using silent_run [OF reach assms(2) none es(2)] es(1) phase
      session_disconnected [OF sessionReachable_run [OF assms(1)] assms(2) phase] by simp
qed

theorem ended_session_silent_witness:
  "rt_connection (ss_router (sessionRun demoSessionEnv [TransportConnected quiet None, StartCalled quiet] demoClosing)) = None"
  using ended_session_silent [OF demo_session_reachable(3) demoSessionEnv_ok, of "[TransportConnected quiet None, StartCalled quiet]"]
    demo_phases(3) by simp

text \<open>C10. Messages of the server are processed in the order they arrived, each at most once: the messages given to the
  router are a prefix of those that were accepted, and while the session lives the rest are exactly the ones
  in the chain and, before the handshake, in the buffer, in this order. The counter is their number and stays within
  the capacity of the queue.\<close>

theorem inbound_in_order:
  assumes "sessionReachable env s"
  shows "prefix (handedIn (ss_log s)) (acceptedIn (ss_log s)) \<and>
    (if terminated (ss_phase s) then ss_earlyInboundMessages s = []
     else acceptedIn (ss_log s) = handedIn (ss_log s) @ waiting s @ ss_earlyInboundMessages s) \<and>
    ss_pendingInboundCount s = int (length (ss_earlyInboundMessages s) + length (ss_inbound s)) \<and>
    ss_pendingInboundCount s \<le> int (se_inboundQueueCapacity env)"
  using life.always [OF assms] by (auto simp: life_def inbound_ok_def split: if_splits)

theorem inbound_in_order_witness: "prefix (handedIn (ss_log demoReady)) (acceptedIn (ss_log demoReady))"
  using inbound_in_order [OF demo_session_reachable(2)] by blast

text \<open>C11. The transport is closed once and never left open: its method close is called at most once, only after
  the session has ended, and as soon as the session has ended and no longer waits for the connector or for start, a
  transport that the connector has delivered, at whatever moment, has been closed.\<close>

theorem transport_closed_once:
  assumes "sessionReachable env s"
  shows "closesIn (ss_log s) = (if ss_transportClose s = None then 0 else 1) \<and>
    (ss_transportClose s = None \<or> terminated (ss_phase s)) \<and>
    (case ss_transport s of None \<Rightarrow> closesIn (ss_log s) = 0
     | Some t \<Rightarrow> if tp_valid t \<and> terminated (ss_phase s) \<and> ss_close s \<noteq> AwaitCancel \<and> ss_close s \<noteq> AwaitStart
         then closesIn (ss_log s) = 1 else True)"
  using life.always [OF assms]
  by (auto simp: life_def transport_ok_def closes_ok_def split: option.split)

theorem transport_closed_once_witness:
  "closesIn (ss_log demoClosing) = (if ss_transportClose demoClosing = None then 0 else 1)"
  using transport_closed_once [OF demo_session_reachable(3)] by blast

text \<open>C12. Closing ends. In every run of a session that is closing, whatever the application, the server and the transport
  do in between, at most ten promises and one per message that is in the chain are settled that the session waited for; and as
  long as the session is not closed, there is such a promise. Once it is closed, the promise of close is settled and the
  session stays closed whatever happens.\<close>

theorem close_terminates:
  assumes "sessionReachable env s" and "env_ok (se_router env)" and "ss_phase s = PClosing"
  shows "settledIn env evs s \<le> length (ss_inbound s) + 10 \<and>
    (if ss_phase (sessionRun env evs s) = PClosed
     then (\<exists>failed. ss_close (sessionRun env evs s) = CloseSettled failed) \<and> ss_phase (sessionRun env (evs @ later) s) = PClosed
     else \<exists>ev. awaited (sessionRun env evs s) ev)"
proof -
  have closing: "closing s" using assms(3) by (simp add: closing_def)
  note le = settledIn_le [OF assms(1,2) closing, of evs]
  have "settledIn env evs s \<le> length (ss_inbound s) + 10"
    using le toDo_bound [OF life.always [OF assms(1)] closing] by linarith
  moreover note reached = sessionReachable_run [OF assms(1), of evs]
  moreover note life.always [OF reached] closed_stays [OF reached assms(2), of later]
  moreover have "closing (sessionRun env evs s)" using le closing closesAtMost_closing by blast
  ultimately show ?thesis
    using awaited_exists [OF life.always [OF reached]]
    by (auto simp: closing_def life_def phase_ok_def sessionRun_append)
qed

theorem close_terminates_witness:
  "settledIn demoSessionEnv [InboundBegins quiet, TransportCloseSettled True] demoClosing \<le> length (ss_inbound demoClosing) + 10 \<and>
   ss_phase demoClosing = PClosing"
  using close_terminates [OF demo_session_reachable(3) demoSessionEnv_ok demo_phases(3),
      of "[InboundBegins quiet, TransportCloseSettled True]"] demo_phases(3)
  by simp

text \<open>C19. No session is ready without the handshake: start has resolved to the response the session
  keeps, it is the normalised result of a request the router has issued and resolved, and the promise of start
  resolves in no other phase than ready, or when the session has ended since.\<close>

theorem ready_after_handshake:
  assumes "sessionReachable env s" and "env_ok (se_router env)"
  shows "(if ss_phase s = PReady then \<exists>r. ss_start s = Started r else True) \<and>
    (case ss_start s of
       Started r \<Rightarrow> ss_initializeResponse s = Some r \<and> (ss_phase s = PReady \<or> terminated (ss_phase s)) \<and>
         (\<exists>rid v. rid \<in> set (issuedIds (rt_log (ss_router s))) \<and> Resolved rid v \<in> set (rt_log (ss_router s)) \<and>
            r = normalizeInitializeResponse v)
     | _ \<Rightarrow> True)"
  using handshake.always [OF assms(1)] life.always [OF assms(1)] assms(2)
  by (auto simp: handshake_ok_def life_def start_ok_def split: start_pc.splits)

theorem ready_after_handshake_witness: "\<exists>r. ss_start demoReady = Started r"
  using ready_after_handshake [OF demo_session_reachable(2) demoSessionEnv_ok] demo_phases(2) by auto

end
