(* ===== verification/ConfigStore.thy ===== *)
theory ConfigStore
  imports ConfigSnapshot EventModel "HOL-Library.Product_Lexorder"
begin

text \<open>
  The slices of the store of the interface, \<open>src/store/configurationSlice.ts\<close> and
  \<open>src/store/connectionSlice.ts\<close>: profiles by identifier, the orders in which they are
  shown, and the number of servers that name a proxy, which every reducer computes anew.

  An object used as a map is the list of its entries in the order of enumeration, as in
  \<open>EventModel\<close>. Sorting is stable, as the language says.
\<close>

section \<open>State\<close>

record ConfigurationState =
  cf_serversById :: "ServerProfile entries"
  cf_serverIds :: "ServerId list"
  cf_proxiesById :: "ProxyProfile entries"
  cf_proxyIds :: "ProxyId list"

definition initialConfigurationState :: ConfigurationState where
  "initialConfigurationState =
     \<lparr>cf_serversById = [], cf_serverIds = [], cf_proxiesById = [], cf_proxyIds = []\<rparr>"

section \<open>Orders\<close>

text \<open>The bytes a \<open>TextEncoder\<close> gives; a lone surrogate is encoded as U+FFFD.\<close>

definition utf8Three :: "nat \<Rightarrow> nat list" where
  "utf8Three n = [0xE0 + n div 4096, 0x80 + n div 64 mod 64, 0x80 + n mod 64]"

fun utf8Bytes :: "jstr \<Rightarrow> nat list" where
  "utf8Bytes [] = []"
| "utf8Bytes (c # s) =
     (let n = unat c in
      if n < 0x80 then n # utf8Bytes s
      else if n < 0x800 then [0xC0 + n div 64, 0x80 + n mod 64] @ utf8Bytes s
      else if cu_high_surrogate c then
        (case s of
           d # s' \<Rightarrow>
             if cu_low_surrogate d
             then let m = 0x10000 + (n - 0xD800) * 1024 + (unat d - 0xDC00) in
               [0xF0 + m div 262144, 0x80 + m div 4096 mod 64, 0x80 + m div 64 mod 64, 0x80 + m mod 64] @ utf8Bytes s'
             else utf8Three 0xFFFD @ utf8Bytes s
         | [] \<Rightarrow> utf8Three 0xFFFD)
      else if cu_low_surrogate c then utf8Three 0xFFFD @ utf8Bytes s
      else utf8Three n @ utf8Bytes s)"

text \<open>The loop over the shared length.\<close>

fun compareBytes :: "nat list \<Rightarrow> nat list \<Rightarrow> int" where
  "compareBytes (x # xs) (y # ys) = (if int x - int y \<noteq> 0 then int x - int y else compareBytes xs ys)"
| "compareBytes xs ys = int (length xs) - int (length ys)"

definition compareAsciiNoCase :: "jstr \<Rightarrow> jstr \<Rightarrow> int" where
  "compareAsciiNoCase left right = compareBytes (utf8Bytes (foldAsciiCase left)) (utf8Bytes (foldAsciiCase right))"

definition compareServers :: "ServerProfile \<Rightarrow> ServerProfile \<Rightarrow> int" where
  "compareServers left right =
     (let leftLastUsed = (case sp_lastUsedAtMs left of None \<Rightarrow> - 1 | Some t \<Rightarrow> t);
          rightLastUsed = (case sp_lastUsedAtMs right of None \<Rightarrow> - 1 | Some t \<Rightarrow> t) in
      if leftLastUsed \<noteq> rightLastUsed then (if leftLastUsed > rightLastUsed then - 1 else 1)
      else if sp_createdAtMs left \<noteq> sp_createdAtMs right
      then (if sp_createdAtMs left > sp_createdAtMs right then - 1 else 1)
      else let nameOrder = compareAsciiNoCase (sp_name left) (sp_name right) in
        if nameOrder = 0 then compareText (sp_serverId left) (sp_serverId right) else nameOrder)"

definition compareProxies :: "ProxyProfile \<Rightarrow> ProxyProfile \<Rightarrow> int" where
  "compareProxies left right =
     (let nameOrder = compareAsciiNoCase (pp_name left) (pp_name right) in
      if nameOrder \<noteq> 0 then nameOrder
      else if pp_createdAtMs left \<noteq> pp_createdAtMs right
      then (if pp_createdAtMs left < pp_createdAtMs right then - 1 else 1)
      else compareText (pp_proxyId left) (pp_proxyId right))"

text \<open>\<open>Array.prototype.sort\<close> with a comparison function: stable.\<close>

fun insertBy :: "('a \<Rightarrow> 'a \<Rightarrow> int) \<Rightarrow> 'a \<Rightarrow> 'a list \<Rightarrow> 'a list" where
  "insertBy cmp x [] = [x]"
| "insertBy cmp x (y # ys) = (if cmp x y \<le> 0 then x # y # ys else y # insertBy cmp x ys)"

definition sortBy :: "('a \<Rightarrow> 'a \<Rightarrow> int) \<Rightarrow> 'a list \<Rightarrow> 'a list" where
  "sortBy cmp xs = foldr (insertBy cmp) xs []"

section \<open>Derived parts\<close>

definition objectValues :: "'a entries \<Rightarrow> 'a list" where
  "objectValues m = map snd m"

definition sortedServerIds :: "ServerProfile entries \<Rightarrow> ServerId list" where
  "sortedServerIds serversById = map sp_serverId (sortBy compareServers (objectValues serversById))"

definition sortedProxyIds :: "ProxyProfile entries \<Rightarrow> ProxyId list" where
  "sortedProxyIds proxiesById = map pp_proxyId (sortBy compareProxies (objectValues proxiesById))"

text \<open>The expression \<open>counts.get(key) ?? 0\<close>.\<close>

definition orZero :: "int option \<Rightarrow> int" where
  "orZero n = (case n of None \<Rightarrow> 0 | Some k \<Rightarrow> k)"

fun countServers :: "(ProxyId \<rightharpoonup> int) \<Rightarrow> ServerProfile list \<Rightarrow> (ProxyId \<rightharpoonup> int)" where
  "countServers counts [] = counts"
| "countServers counts (server # servers) =
     (case serverProxyId server of
        None \<Rightarrow> countServers counts servers
      | Some p \<Rightarrow> countServers (counts(p \<mapsto> orZero (counts p) + 1)) servers)"

definition synchronizeProxyReferenceCounts ::
  "ServerProfile entries \<Rightarrow> ProxyProfile entries \<Rightarrow> ProxyProfile entries" where
  "synchronizeProxyReferenceCounts serversById proxiesById =
     (let counts = countServers Map.empty (objectValues serversById) in
      fromEntries (map (\<lambda>proxy. (pp_proxyId proxy, proxy\<lparr>pp_referencedServerCount :=
          orZero (counts (pp_proxyId proxy))\<rparr>)) (objectValues proxiesById)))"

definition createConfigurationState :: "ServerProfile entries \<Rightarrow> ProxyProfile entries \<Rightarrow> ConfigurationState" where
  "createConfigurationState serversById proxiesById =
     (let synchronizedProxiesById = synchronizeProxyReferenceCounts serversById proxiesById in
      \<lparr>cf_serversById = serversById, cf_serverIds = sortedServerIds serversById,
       cf_proxiesById = synchronizedProxiesById, cf_proxyIds = sortedProxyIds synchronizedProxiesById\<rparr>)"

section \<open>Reducers\<close>

definition configurationSnapshotReplaced :: "ConfigurationSnapshot \<Rightarrow> ConfigurationState \<Rightarrow> ConfigurationState" where
  "configurationSnapshotReplaced snapshot state =
     createConfigurationState
       (fromEntries (map (\<lambda>profile. (sp_serverId profile, profile)) (cs_servers snapshot)))
       (fromEntries (map (\<lambda>profile. (pp_proxyId profile, profile)) (cs_proxies snapshot)))"

definition serverProfileUpserted :: "ServerProfile \<Rightarrow> ConfigurationState \<Rightarrow> ConfigurationState" where
  "serverProfileUpserted profile state =
     createConfigurationState (fromEntries (cf_serversById state @ [(sp_serverId profile, profile)])) (cf_proxiesById state)"

definition serverProfileRemoved :: "ServerId \<Rightarrow> ConfigurationState \<Rightarrow> ConfigurationState" where
  "serverProfileRemoved serverId state =
     createConfigurationState (fromEntries (filter (\<lambda>e. fst e \<noteq> serverId) (cf_serversById state))) (cf_proxiesById state)"

definition proxyProfileUpserted :: "ProxyProfile \<Rightarrow> ConfigurationState \<Rightarrow> ConfigurationState" where
  "proxyProfileUpserted profile state =
     createConfigurationState (cf_serversById state) (fromEntries (cf_proxiesById state @ [(pp_proxyId profile, profile)]))"

definition proxyProfileRemoved :: "ProxyId \<Rightarrow> ConfigurationState \<Rightarrow> ConfigurationState" where
  "proxyProfileRemoved proxyId state =
     createConfigurationState (cf_serversById state) (fromEntries (filter (\<lambda>e. fst e \<noteq> proxyId) (cf_proxiesById state)))"

datatype configuration_action =
    SnapshotReplaced ConfigurationSnapshot
  | ServerUpserted ServerProfile
  | ServerRemoved ServerId
  | ProxyUpserted ProxyProfile
  | ProxyRemoved ProxyId

definition configurationReducer :: "configuration_action \<Rightarrow> ConfigurationState \<Rightarrow> ConfigurationState" where
  "configurationReducer action state =
     (case action of
        SnapshotReplaced snapshot \<Rightarrow> configurationSnapshotReplaced snapshot state
      | ServerUpserted profile \<Rightarrow> serverProfileUpserted profile state
      | ServerRemoved serverId \<Rightarrow> serverProfileRemoved serverId state
      | ProxyUpserted profile \<Rightarrow> proxyProfileUpserted profile state
      | ProxyRemoved proxyId \<Rightarrow> proxyProfileRemoved proxyId state)"

text \<open>The state after a sequence of actions.\<close>

definition afterActions :: "configuration_action list \<Rightarrow> ConfigurationState" where
  "afterActions actions = fold configurationReducer actions initialConfigurationState"

section \<open>Selectors\<close>

definition selectServerProfiles :: "ConfigurationState \<Rightarrow> ServerProfile list" where
  "selectServerProfiles state = concat (map (\<lambda>serverId.
     case map_of (cf_serversById state) serverId of None \<Rightarrow> [] | Some profile \<Rightarrow> [profile]) (cf_serverIds state))"

definition selectServerProfileById :: "ConfigurationState \<Rightarrow> ServerId \<Rightarrow> ServerProfile option" where
  "selectServerProfileById state serverId = map_of (cf_serversById state) serverId"

definition selectProxyProfiles :: "ConfigurationState \<Rightarrow> ProxyProfile list" where
  "selectProxyProfiles state = concat (map (\<lambda>proxyId.
     case map_of (cf_proxiesById state) proxyId of None \<Rightarrow> [] | Some profile \<Rightarrow> [profile]) (cf_proxyIds state))"

definition selectProxyProfileById :: "ConfigurationState \<Rightarrow> ProxyId \<Rightarrow> ProxyProfile option" where
  "selectProxyProfileById state proxyId = map_of (cf_proxiesById state) proxyId"

section \<open>The connection of the window\<close>

datatype ConnectionPhase = ConnectionDisconnected | ConnectionConnecting | ConnectionInitializing | ConnectionReady | ConnectionError

record ConnectionViewState =
  cv_phase :: ConnectionPhase
  cv_detail :: "jstr option"

definition initialConnectionState :: ConnectionViewState where
  "initialConnectionState = \<lparr>cv_phase = ConnectionDisconnected, cv_detail = None\<rparr>"

definition connectionViewChanged :: "ConnectionViewState \<Rightarrow> ConnectionViewState \<Rightarrow> ConnectionViewState" where
  "connectionViewChanged payload state = payload"

definition connectionViewReset :: "ConnectionViewState \<Rightarrow> ConnectionViewState" where
  "connectionViewReset state = initialConnectionState"

section \<open>Comparison functions that come from a key\<close>

text \<open>
  A comparison function that orders its arguments by a key sorts like the key; if the key tells the
  elements apart, the sorted list depends on the set of the elements only.
\<close>

locale comparison =
  fixes cmp :: "'a \<Rightarrow> 'a \<Rightarrow> int" and key :: "'a \<Rightarrow> 'k::linorder"
  assumes cmp_le: "cmp x y \<le> 0 \<longleftrightarrow> key x \<le> key y"
begin

lemma sortBy_key: "sortBy cmp xs = sort_key key xs"
proof -
  have "insertBy cmp x ys = insort_key key x ys" for x ys
    by (induction ys) (simp_all add: cmp_le)
  then have "insertBy cmp = insort_key key" by (intro ext)
  then show ?thesis by (simp add: sortBy_def sort_key_def)
qed

lemma sortBy_perm: "mset (sortBy cmp xs) = mset xs"
  by (simp add: sortBy_key)

lemma sortBy_sorted: "sorted_wrt (\<lambda>x y. cmp x y \<le> 0) (sortBy cmp xs)"
  unfolding sortBy_key cmp_le by (simp add: sorted_wrt_map [symmetric, of "(\<le>)" key, simplified] sorted_sort_key)

lemma sortBy_unique:
  assumes "set xs = set ys" and "distinct xs" and "distinct ys" and "inj_on key (set xs)"
  shows "sortBy cmp xs = sortBy cmp ys"
  unfolding sortBy_key
  by (rule map_sorted_distinct_set_unique [of key]) (use assms in \<open>simp_all add: distinct_map\<close>)

end

lemma compareBytes_le: "compareBytes xs ys \<le> 0 \<longleftrightarrow> xs \<le> ys"
  by (induction xs ys rule: compareBytes.induct) auto

lemma compareBytes_eq: "compareBytes xs ys = 0 \<longleftrightarrow> xs = ys"
  by (induction xs ys rule: compareBytes.induct) auto

lemma compareText_le: "compareText l r \<le> 0 \<longleftrightarrow> l \<le> r"
  by (auto simp: compareText_def)

definition serverKey :: "ServerProfile \<Rightarrow> int \<times> int \<times> nat list \<times> jstr" where
  "serverKey p = (- (case sp_lastUsedAtMs p of None \<Rightarrow> - 1 | Some t \<Rightarrow> t), - sp_createdAtMs p,
     utf8Bytes (foldAsciiCase (sp_name p)), sp_serverId p)"

definition proxyKey :: "ProxyProfile \<Rightarrow> nat list \<times> int \<times> jstr" where
  "proxyKey p = (utf8Bytes (foldAsciiCase (pp_name p)), pp_createdAtMs p, pp_proxyId p)"

lemma compareBytes_sign: "compareBytes xs ys \<noteq> 0 \<Longrightarrow> compareBytes xs ys \<le> 0 \<longleftrightarrow> xs < ys"
  using compareBytes_le [of xs ys] compareBytes_eq [of xs ys] by auto

interpretation servers: comparison compareServers serverKey
  by unfold_locales (auto simp: compareServers_def serverKey_def less_eq_prod_def less_prod_def Let_def compareAsciiNoCase_def
    compareBytes_sign compareBytes_eq compareText_le)

interpretation proxies: comparison compareProxies proxyKey
  by unfold_locales (auto simp: compareProxies_def proxyKey_def less_eq_prod_def less_prod_def Let_def compareAsciiNoCase_def
    compareBytes_sign compareBytes_eq compareText_le)

section \<open>Objects keyed by an identifier of their values\<close>

definition keyedBy :: "('a \<Rightarrow> jstr) \<Rightarrow> 'a entries \<Rightarrow> bool" where
  "keyedBy ident m \<longleftrightarrow> distinct (keys m) \<and> (\<forall>e \<in> set m. fst e = ident (snd e))"

lemma setEntry_keyed: "keyedBy ident m \<Longrightarrow> keyedBy ident (setEntry m (ident v) v)"
proof -
  assume k: "keyedBy ident m"
  have "\<forall>e \<in> set (setEntry m k v). e \<in> set m \<or> e = (k, v)" for k
    by (induction m k v rule: setEntry.induct) auto
  from this [of "ident v"] k show ?thesis by (fastforce simp: keyedBy_def setEntry_distinct)
qed

lemma keyed_enumerated [simp]: "keyedBy ident (enumerated m) = keyedBy ident m"
  by (simp add: keyedBy_def enumerated_simps)

lemma keyed_fold:
  assumes "\<forall>e \<in> set es. fst e = ident (snd e)" and "keyedBy ident m"
  shows "keyedBy ident (foldl (\<lambda>m (k, v). setEntry m k v) m es)"
  using assms
proof (induction es arbitrary: m)
  case (Cons e es)
  then show ?case using setEntry_keyed [of ident m "snd e"] by (cases e) simp
qed simp

lemma keyed_fromEntries: "\<forall>e \<in> set es. fst e = ident (snd e) \<Longrightarrow> keyedBy ident (fromEntries es)"
  unfolding fromEntries_def by (simp add: keyed_fold) (rule keyed_fold, simp_all add: keyedBy_def)

lemma lookup_fold: "map_of (foldl (\<lambda>m (k, v). setEntry m k v) m es) = map_of m ++ map_of (rev es)"
  by (induction es arbitrary: m) (auto simp: setEntry_simps map_add_upd map_add_assoc [symmetric] split: prod.split)

lemma keyed_ids: "keyedBy ident m \<Longrightarrow> map ident (map snd m) = keys m"
  by (auto simp: keyedBy_def)

lemma keyed_lookup: "keyedBy ident m \<Longrightarrow> p \<in> snd ` set m \<Longrightarrow> map_of m (ident p) = Some p"
  by (auto simp: keyedBy_def)

text \<open>The identifiers of the values in a sorted order, and the values by these identifiers.\<close>

lemma select_all:
  assumes "keyedBy ident m" and "mset xs = mset (objectValues m)"
  shows "concat (map (\<lambda>i. case map_of m i of None \<Rightarrow> [] | Some p \<Rightarrow> [p]) (map ident xs)) = xs"
proof -
  have "set xs = snd ` set m" using assms(2) unfolding objectValues_def by (metis list.set_map set_mset_mset)
  then have "\<forall>x \<in> set xs. map_of m (ident x) = Some x" using keyed_lookup [OF assms(1)] by auto
  then show ?thesis by (induction xs) auto
qed

lemma lookup_fromEntries: "map_of (fromEntries es) = map_of (rev es)"
proof -
  have "distinct (keys (foldl (\<lambda>m (k, v). setEntry m k v) m es))" if "distinct (keys m)" for m :: "'a entries"
    using that by (induction es arbitrary: m) (auto simp: setEntry_distinct split: prod.split)
  from this [of "[]"] show ?thesis by (simp add: fromEntries_def map_of_enumerated lookup_fold)
qed

lemma keyed_upsert: "keyedBy ident m \<Longrightarrow> keyedBy ident (fromEntries (m @ [(ident p, p)]))"
  by (rule keyed_fromEntries) (auto simp: keyedBy_def)

lemma keyed_filter: "keyedBy ident m \<Longrightarrow> keyedBy ident (fromEntries (filter P m))"
  by (rule keyed_fromEntries) (auto simp: keyedBy_def)

lemma keyed_profiles: "keyedBy ident (fromEntries (map (\<lambda>p. (ident p, p)) ps))"
  by (rule keyed_fromEntries) auto

section \<open>Reference counts\<close>

lemma orZero_simps [simp]: "orZero None = 0" "orZero (Some n) = n"
  by (simp_all add: orZero_def)

lemma countServers_eq: "orZero (countServers counts servers p) = orZero (counts p) + int (referenceCount p servers)"
proof (induction counts servers rule: countServers.induct)
  case (2 counts server servers)
  have "referenceCount p (server # servers) = (if serverProxyId server = Some p then 1 else 0) + referenceCount p servers"
    by (simp add: referenceCount_def)
  with 2 show ?case by (cases "serverProxyId server") (auto simp: fun_upd_def)
qed (simp add: referenceCount_def)

definition recounted :: "ServerProfile entries \<Rightarrow> ProxyProfile \<Rightarrow> ProxyProfile" where
  "recounted serversById proxy =
     proxy\<lparr>pp_referencedServerCount := int (referenceCount (pp_proxyId proxy) (objectValues serversById))\<rparr>"

lemma recounted_id [simp]: "pp_proxyId (recounted m p) = pp_proxyId p"
  by (simp add: recounted_def)

lemma synchronize_eq:
  assumes "keyedBy pp_proxyId proxiesById"
  shows "synchronizeProxyReferenceCounts serversById proxiesById =
    enumerated (map (\<lambda>e. (fst e, recounted serversById (snd e))) proxiesById)"
proof -
  have "map (\<lambda>proxy. (pp_proxyId proxy, recounted serversById proxy)) (objectValues proxiesById) =
      map (\<lambda>e. (fst e, recounted serversById (snd e))) proxiesById"
    using assms by (auto simp: keyedBy_def objectValues_def)
  moreover have "distinct (keys (map (\<lambda>e. (fst e, recounted serversById (snd e))) proxiesById))"
    using assms by (simp add: keyedBy_def comp_def)
  ultimately show ?thesis
    by (simp add: synchronizeProxyReferenceCounts_def countServers_eq recounted_def [symmetric] fromEntries_distinct)
qed

lemma synchronize_keyed:
  assumes "keyedBy pp_proxyId proxiesById"
  shows "keyedBy pp_proxyId (synchronizeProxyReferenceCounts serversById proxiesById)"
  unfolding synchronize_eq [OF assms] keyed_enumerated using assms by (auto simp: keyedBy_def comp_def)

lemma synchronize_lookup:
  assumes "keyedBy pp_proxyId proxiesById"
  shows "map_of (synchronizeProxyReferenceCounts serversById proxiesById) i =
    map_option (recounted serversById) (map_of proxiesById i)"
proof -
  have "distinct (keys (map (\<lambda>e. (fst e, recounted serversById (snd e))) proxiesById))"
    using assms by (simp add: keyedBy_def comp_def)
  then show ?thesis
    by (simp add: synchronize_eq [OF assms] map_of_enumerated) (induction proxiesById, simp_all)
qed

section \<open>The invariant of the state\<close>

definition configuration_ok :: "ConfigurationState \<Rightarrow> bool" where
  "configuration_ok state \<longleftrightarrow>
     keyedBy sp_serverId (cf_serversById state) \<and> keyedBy pp_proxyId (cf_proxiesById state) \<and>
     cf_serverIds state = sortedServerIds (cf_serversById state) \<and>
     cf_proxyIds state = sortedProxyIds (cf_proxiesById state) \<and>
     (\<forall>proxy \<in> set (objectValues (cf_proxiesById state)). recounted (cf_serversById state) proxy = proxy)"

lemma configuration_ok_create:
  assumes "keyedBy sp_serverId serversById" "keyedBy pp_proxyId proxiesById"
  shows "configuration_ok (createConfigurationState serversById proxiesById)"
  using assms synchronize_keyed [OF assms(2)] unfolding configuration_ok_def createConfigurationState_def Let_def
  by (auto simp: synchronize_eq objectValues_def enumerated_simps recounted_def)

lemma configuration_ok_reducer: "configuration_ok state \<Longrightarrow> configuration_ok (configurationReducer action state)"
  by (cases action) (auto simp: configurationReducer_def configurationSnapshotReplaced_def serverProfileUpserted_def
    serverProfileRemoved_def proxyProfileUpserted_def proxyProfileRemoved_def configuration_ok_def [of state]
    intro!: configuration_ok_create keyed_upsert keyed_filter keyed_profiles)

lemma configuration_ok_after: "configuration_ok (afterActions actions)"
proof -
  have "configuration_ok (fold configurationReducer actions state)" if "configuration_ok state" for state
    using that by (induction actions arbitrary: state) (simp_all add: configuration_ok_reducer)
  moreover have "configuration_ok initialConfigurationState"
    by (simp add: configuration_ok_def initialConfigurationState_def keyedBy_def sortedServerIds_def sortedProxyIds_def
      objectValues_def sortBy_def)
  ultimately show ?thesis by (simp add: afterActions_def)
qed

text \<open>What the selectors give.\<close>

lemma select_profiles:
  assumes "configuration_ok state"
  shows "selectServerProfiles state = sortBy compareServers (objectValues (cf_serversById state))"
    and "selectProxyProfiles state = sortBy compareProxies (objectValues (cf_proxiesById state))"
  using assms select_all [of sp_serverId _ "sortBy compareServers (objectValues (cf_serversById state))"]
    select_all [of pp_proxyId _ "sortBy compareProxies (objectValues (cf_proxiesById state))"]
  unfolding selectServerProfiles_def selectProxyProfiles_def configuration_ok_def sortedServerIds_def sortedProxyIds_def
  by (simp_all only: servers.sortBy_perm proxies.sortBy_perm)

text \<open>Identifiers tell profiles apart.\<close>

lemma keyed_distinct:
  assumes "keyedBy ident m"
  shows "distinct (objectValues m)" "inj_on ident (set (objectValues m))"
proof -
  have "map ident (objectValues m) = keys m" using keyed_ids [OF assms] by (simp add: objectValues_def)
  then have "distinct (map ident (objectValues m))" using assms by (simp add: keyedBy_def)
  then show "distinct (objectValues m)" "inj_on ident (set (objectValues m))" by (simp_all add: distinct_map)
qed

lemma same_lookup_values:
  assumes "keyedBy ident m" "keyedBy ident m'" "map_of m = map_of m'"
  shows "set (objectValues m) = set (objectValues m')"
proof -
  have "set m = set m'" using assms by (metis keyedBy_def map_of_eq_Some_iff subrelI surj_pair subset_antisym)
  then show ?thesis by (simp add: objectValues_def)
qed

lemma sortServers_unique:
  assumes "keyedBy sp_serverId m" "keyedBy sp_serverId m'" "map_of m = map_of m'"
  shows "sortBy compareServers (objectValues m) = sortBy compareServers (objectValues m')"
  by (rule servers.sortBy_unique [OF same_lookup_values [OF assms] keyed_distinct(1) [OF assms(1)] keyed_distinct(1) [OF assms(2)]])
    (use keyed_distinct(2) [OF assms(1)] in \<open>auto simp: inj_on_def serverKey_def\<close>)

lemma sortProxies_unique:
  assumes "keyedBy pp_proxyId m" "keyedBy pp_proxyId m'" "map_of m = map_of m'"
  shows "sortBy compareProxies (objectValues m) = sortBy compareProxies (objectValues m')"
  by (rule proxies.sortBy_unique [OF same_lookup_values [OF assms] keyed_distinct(1) [OF assms(1)] keyed_distinct(1) [OF assms(2)]])
    (use keyed_distinct(2) [OF assms(1)] in \<open>auto simp: inj_on_def proxyKey_def\<close>)

end
