(* ===== verification/ConfigErrors.thy ===== *)
theory ConfigErrors
  imports JsValue
begin

text \<open>
  The errors of the commands of the back end, \<open>src/configuration/errors.ts\<close>: the
  table of their codes and messages, and the reader of a rejected command's value. What the reader
  does not recognise becomes the general error.
\<close>

definition CONFIGURATION_COMMAND_ERROR_MESSAGES :: "(string \<times> string) list" where
  "CONFIGURATION_COMMAND_ERROR_MESSAGES =
    [(''invalidServerName'', ''The server name is invalid''),
     (''invalidProxyName'', ''The proxy name is invalid''),
     (''invalidConfigurationVersion'', ''The configuration version is invalid''),
     (''invalidExecutablePath'', ''The executable path must be absolute''),
     (''invalidWorkingDirectory'', ''The working directory must be absolute''),
     (''invalidSshPrivateKeyPath'', ''The SSH private key must be an absolute, readable regular file''),
     (''invalidServerArguments'', ''The server arguments are invalid''),
     (''invalidNonSensitiveEnvironment'', ''The non-sensitive environment is invalid''),
     (''invalidNonSensitiveHeaders'', ''The non-sensitive headers are invalid''),
     (''invalidWebSocketUrl'', ''The WebSocket URL is invalid''),
     (''invalidProxyUrl'', ''The proxy URL is invalid''),
     (''invalidPlaintextConfirmation'', ''Plaintext WebSocket transport must be confirmed explicitly''),
     (''invalidTlsCertificatePolicy'', ''The TLS certificate policy is invalid''),
     (''invalidConnectTimeout'', ''The connection timeout is invalid''),
     (''invalidProxyHost'', ''The proxy host is invalid''),
     (''invalidProxyPort'', ''The proxy port is invalid''),
     (''invalidProxyUsername'', ''The proxy username is invalid''),
     (''invalidSshKeepAliveInterval'', ''The SSH keep-alive interval is invalid''),
     (''invalidSshKeepAliveFailures'', ''The SSH keep-alive failure count is invalid''),
     (''invalidSshHostKeyRecord'', ''The SSH host key record is invalid''),
     (''serverNameConflict'', ''The server name is already in use''),
     (''proxyNameConflict'', ''The proxy name is already in use''),
     (''serverNotFound'', ''The server does not exist''),
     (''proxyNotFound'', ''The proxy does not exist''),
     (''serverVersionConflict'', ''The server configuration was modified concurrently''),
     (''proxyVersionConflict'', ''The proxy configuration was modified concurrently''),
     (''proxyReferenced'', ''The proxy is referenced by one or more servers''),
     (''serverInUse'', ''The server is currently used by one or more windows''),
     (''credentialChangeRequired'', ''The stored credential must be changed explicitly''),
     (''credentialConfigurationMismatch'', ''The credential does not match the current configuration''),
     (''credentialNotConfigured'', ''The required credential is not configured''),
     (''invalidCredentialValue'', ''The credential value is invalid''),
     (''invalidSensitiveEnvironment'', ''The sensitive environment is invalid''),
     (''credentialServiceUnavailable'', ''The system credential service is unavailable''),
     (''credentialServiceLocked'', ''The system credential service is locked''),
     (''credentialServiceTimedOut'', ''The system credential service did not respond in time''),
     (''credentialPromptDismissed'', ''The credential access prompt was dismissed''),
     (''credentialAccessDenied'', ''Access to the system credential service was denied''),
     (''credentialNotFound'', ''The saved credential does not exist''),
     (''credentialRecordInvalid'', ''The saved credential record is invalid''),
     (''plaintextCredentialConfirmationRequired'', ''Plaintext credential storage requires explicit confirmation''),
     (''credentialStorageFailed'', ''The system credential operation failed''),
     (''sshHostKeyRemovalRequired'', ''The saved SSH host key must be removed before changing the endpoint''),
     (''sshHostKeyNotFound'', ''The saved SSH host key does not exist''),
     (''configurationCorrupt'', ''The persisted configuration is corrupt''),
     (''configurationDatabaseFailed'', ''The configuration database operation failed''),
     (''configurationCommandFailed'', ''The configuration operation failed'')]"

record ConfigurationCommandError =
  ce_code :: string
  ce_message :: string

definition configurationCommandError :: "string \<Rightarrow> ConfigurationCommandError" where
  "configurationCommandError code =
     \<lparr>ce_code = code, ce_message = (case map_of CONFIGURATION_COMMAND_ERROR_MESSAGES code of None \<Rightarrow> [] | Some m \<Rightarrow> m)\<rparr>"

text \<open>The entry of the table with a code, which is a text of the language.\<close>

definition knownEntry :: "jstr \<Rightarrow> (string \<times> string) option" where
  "knownEntry code = find (\<lambda>e. lit (fst e) = code) CONFIGURATION_COMMAND_ERROR_MESSAGES"

definition parseConfigurationCommandError :: "jsval \<Rightarrow> ConfigurationCommandError" where
  "parseConfigurationCommandError v =
     (let failed = configurationCommandError ''configurationCommandFailed'' in
      case v of
        JObj r \<Rightarrow>
          if length (ownKeys r) \<noteq> 2 \<or> \<not> hasOwn r (lit ''code'') \<or> \<not> hasOwn r (lit ''message'') then failed
          else (case (getProp r (lit ''code''), getProp r (lit ''message'')) of
              (JStr code, JStr message) \<Rightarrow>
                (case knownEntry code of
                   None \<Rightarrow> failed
                 | Some (knownCode, knownMessage) \<Rightarrow>
                     if message \<noteq> lit knownMessage then failed else configurationCommandError knownCode)
            | _ \<Rightarrow> failed)
      | _ \<Rightarrow> failed)"

text \<open>The codes are distinct.\<close>

lemma error_codes_distinct: "distinct (map fst CONFIGURATION_COMMAND_ERROR_MESSAGES)"
  by code_simp

lemma find_entry: "find P xs = Some x \<Longrightarrow> P x \<and> x \<in> set xs"
  by (induction xs) (auto split: if_splits)

lemma entry_map_of: "(c, m) \<in> set CONFIGURATION_COMMAND_ERROR_MESSAGES \<longleftrightarrow> map_of CONFIGURATION_COMMAND_ERROR_MESSAGES c = Some m"
  by (rule map_of_eq_Some_iff [OF error_codes_distinct, symmetric])

lemma knownEntry_Some:
  "knownEntry code = Some (c, m) \<longleftrightarrow> map_of CONFIGURATION_COMMAND_ERROR_MESSAGES c = Some m \<and> code = lit c"
proof
  assume "knownEntry code = Some (c, m)"
  from find_entry [OF this [unfolded knownEntry_def]]
  show "map_of CONFIGURATION_COMMAND_ERROR_MESSAGES c = Some m \<and> code = lit c" by (simp add: entry_map_of)
next
  assume a: "map_of CONFIGURATION_COMMAND_ERROR_MESSAGES c = Some m \<and> code = lit c"
  then have mem: "(c, m) \<in> set CONFIGURATION_COMMAND_ERROR_MESSAGES" by (simp add: entry_map_of)
  show "knownEntry code = Some (c, m)"
  proof (cases "knownEntry code")
    case None
    then show ?thesis using a mem by (auto simp: knownEntry_def find_None_iff)
  next
    case (Some e)
    obtain c' m' where e: "e = (c', m')" by (cases e)
    from find_entry [OF Some [unfolded knownEntry_def]] e
    have "map_of CONFIGURATION_COMMAND_ERROR_MESSAGES c' = Some m'" "lit c' = code" by (simp_all add: entry_map_of)
    then show ?thesis using a Some e by simp
  qed
qed

text \<open>
  The reader always gives an error of the table with its own message, and gives another one than the
  general error exactly for an object with the two properties of an entry.
\<close>

lemma command_error_of_table:
  "map_of CONFIGURATION_COMMAND_ERROR_MESSAGES (ce_code (parseConfigurationCommandError v)) =
     Some (ce_message (parseConfigurationCommandError v))"
proof -
  have failed: "map_of CONFIGURATION_COMMAND_ERROR_MESSAGES (ce_code (configurationCommandError c)) =
      Some (ce_message (configurationCommandError c))" if "map_of CONFIGURATION_COMMAND_ERROR_MESSAGES c = Some m" for c m
    using that by (simp add: configurationCommandError_def)
  have general: "map_of CONFIGURATION_COMMAND_ERROR_MESSAGES ''configurationCommandFailed'' = Some ''The configuration operation failed''"
    by code_simp
  show ?thesis
    using failed [OF general] failed
    by (auto simp: parseConfigurationCommandError_def knownEntry_Some Let_def split: jsval.split option.split)
qed

lemma command_error_read:
  assumes "map_of CONFIGURATION_COMMAND_ERROR_MESSAGES c = Some m"
  shows "parseConfigurationCommandError (JObj [jprop ''code'' (JStr (lit c)), jprop ''message'' (JStr (lit m))]) =
    \<lparr>ce_code = c, ce_message = m\<rparr>"
proof -
  have "knownEntry (lit c) = Some (c, m)" using assms by (simp add: knownEntry_Some)
  then show ?thesis
    using assms by (simp add: parseConfigurationCommandError_def configurationCommandError_def ownKeys_def)
qed

end
