(* ===== verification/StoreProperties.thy ===== *)
theory StoreProperties
  imports ConfigStore ConfigErrors ConfigProperties
begin

text \<open>
  The properties of the configuration slice and of the reader of command errors.
\<close>

lemma recounted_fixed:
  "recounted m p = p \<longleftrightarrow> pp_referencedServerCount p = int (referenceCount (pp_proxyId p) (objectValues m))"
  by (cases p) (auto simp: recounted_def)

lemma objectValues_enumerated: "mset (objectValues (enumerated m)) = mset (objectValues m)"
  by (simp only: objectValues_def mset_map mset_enumerated)

lemma lookup_value: "map_of m i = Some p \<Longrightarrow> p \<in> set (objectValues m)"
  using map_of_SomeD [of m i p] by (force simp: objectValues_def)

lemma referenceCount_mset: "mset xs = mset ys \<Longrightarrow> referenceCount i xs = referenceCount i ys"
  unfolding referenceCount_def by (metis mset_filter size_mset)

text \<open>C24. The configuration slice is well formed after any sequence of actions: the profiles are stored under their
  identifiers; the list of identifiers contains each of them once, in the order of the comparison function; the selector
  gives exactly the stored profiles in this order; and each proxy carries the number of the servers shown that name it.\<close>

theorem config_store_well_formed:
  fixes actions
  defines "s \<equiv> afterActions actions"
  shows "keyedBy sp_serverId (cf_serversById s) \<and> keyedBy pp_proxyId (cf_proxiesById s) \<and>
    distinct (cf_serverIds s) \<and> distinct (cf_proxyIds s) \<and>
    map sp_serverId (selectServerProfiles s) = cf_serverIds s \<and> map pp_proxyId (selectProxyProfiles s) = cf_proxyIds s \<and>
    mset (selectServerProfiles s) = mset (objectValues (cf_serversById s)) \<and>
    mset (selectProxyProfiles s) = mset (objectValues (cf_proxiesById s)) \<and>
    sorted_wrt (\<lambda>x y. compareServers x y \<le> 0) (selectServerProfiles s) \<and>
    sorted_wrt (\<lambda>x y. compareProxies x y \<le> 0) (selectProxyProfiles s) \<and>
    list_all (\<lambda>p. pp_referencedServerCount p = int (referenceCount (pp_proxyId p) (selectServerProfiles s))) (selectProxyProfiles s)"
proof -
  have ok: "configuration_ok s" unfolding s_def by (rule configuration_ok_after)
  note select = select_profiles [OF ok]
  have keyed: "keyedBy sp_serverId (cf_serversById s)" "keyedBy pp_proxyId (cf_proxiesById s)"
    using ok by (simp_all add: configuration_ok_def)
  have perm: "mset (selectServerProfiles s) = mset (objectValues (cf_serversById s))"
    "mset (selectProxyProfiles s) = mset (objectValues (cf_proxiesById s))"
    by (simp_all add: select servers.sortBy_perm proxies.sortBy_perm)
  have ids: "map sp_serverId (selectServerProfiles s) = cf_serverIds s" "map pp_proxyId (selectProxyProfiles s) = cf_proxyIds s"
    using ok by (simp_all add: select configuration_ok_def sortedServerIds_def sortedProxyIds_def)
  have "mset (cf_serverIds s) = mset (keys (cf_serversById s))" "mset (cf_proxyIds s) = mset (keys (cf_proxiesById s))"
    unfolding ids [symmetric] keyed_ids [OF keyed(1), symmetric] keyed_ids [OF keyed(2), symmetric]
    using perm by (simp_all only: mset_map objectValues_def)
  from this [THEN mset_eq_imp_distinct_iff] have "distinct (cf_serverIds s)" "distinct (cf_proxyIds s)"
    using keyed by (simp_all add: keyedBy_def)
  moreover have "list_all (\<lambda>p. pp_referencedServerCount p = int (referenceCount (pp_proxyId p) (selectServerProfiles s))) (selectProxyProfiles s)"
    using ok unfolding configuration_ok_def list_all_iff recounted_fixed referenceCount_mset [OF perm(1)] mset_eq_setD [OF perm(2)]
    by blast
  ultimately show ?thesis
    using keyed perm ids unfolding select by (intro conjI servers.sortBy_sorted proxies.sortBy_sorted) simp_all
qed

text \<open>C25. What the interface shows does not depend on the history: two sequences of actions that lead to the same profiles,
  counts apart, lead to the same lists of identifiers and of profiles in the same order.\<close>

theorem config_store_history_free:
  assumes "\<And>i. selectServerProfileById (afterActions as) i = selectServerProfileById (afterActions bs) i"
    and "\<And>i. map_option (pp_referencedServerCount_update (\<lambda>_. 0)) (selectProxyProfileById (afterActions as) i) =
      map_option (pp_referencedServerCount_update (\<lambda>_. 0)) (selectProxyProfileById (afterActions bs) i)"
  shows "selectServerProfiles (afterActions as) = selectServerProfiles (afterActions bs) \<and>
    selectProxyProfiles (afterActions as) = selectProxyProfiles (afterActions bs) \<and>
    cf_serverIds (afterActions as) = cf_serverIds (afterActions bs) \<and> cf_proxyIds (afterActions as) = cf_proxyIds (afterActions bs)"
proof -
  define s t where "s = afterActions as" and "t = afterActions bs"
  have ok: "configuration_ok s" "configuration_ok t" by (simp_all add: s_def t_def configuration_ok_after)
  then have keyed: "keyedBy sp_serverId (cf_serversById s)" "keyedBy sp_serverId (cf_serversById t)"
    "keyedBy pp_proxyId (cf_proxiesById s)" "keyedBy pp_proxyId (cf_proxiesById t)"
    by (simp_all add: configuration_ok_def)
  have lookup: "map_of (cf_serversById s) = map_of (cf_serversById t)"
    using assms(1) by (simp add: s_def t_def selectServerProfileById_def fun_eq_iff)
  note servers = sortServers_unique [OF keyed(1,2) lookup]
  have "referenceCount i (objectValues (cf_serversById s)) = referenceCount i (objectValues (cf_serversById t))" for i
  proof -
    have "mset (objectValues (cf_serversById s)) = mset (objectValues (cf_serversById t))"
      using servers by (metis servers.sortBy_perm)
    then show ?thesis by (rule referenceCount_mset)
  qed
  then have recount: "recounted (cf_serversById s) = recounted (cf_serversById t)" by (simp add: recounted_def fun_eq_iff)
  have proxies: "map_of (cf_proxiesById s) i = map_of (cf_proxiesById t) i" for i
  proof -
    have own: "map_option (recounted (cf_serversById u)) (map_of (cf_proxiesById u) i) = map_of (cf_proxiesById u) i"
      if "configuration_ok u" for u
    proof (cases "map_of (cf_proxiesById u) i")
      case (Some p)
      then have "p \<in> set (objectValues (cf_proxiesById u))" by (rule lookup_value)
      then show ?thesis using that Some by (simp add: configuration_ok_def)
    qed simp
    have zero: "recounted m p = recounted m (p\<lparr>pp_referencedServerCount := 0\<rparr>)" for m p by (simp add: recounted_def)
    have forget: "map_option (recounted m) x = map_option (recounted m) (map_option (pp_referencedServerCount_update (\<lambda>_. 0)) x)" for m x
      by (cases x) (simp_all add: zero [symmetric])
    have "map_of (cf_proxiesById s) i = map_option (recounted (cf_serversById s)) (map_of (cf_proxiesById s) i)"
      using own [OF ok(1)] by simp
    also have "\<dots> = map_option (recounted (cf_serversById t)) (map_of (cf_proxiesById t) i)"
      using forget assms(2) [of i] by (metis recount s_def t_def selectProxyProfileById_def)
    finally show ?thesis using own [OF ok(2)] by simp
  qed
  then have "map_of (cf_proxiesById s) = map_of (cf_proxiesById t)" by (simp add: fun_eq_iff)
  note sorted = servers sortProxies_unique [OF keyed(3,4) this]
  then show ?thesis
    using ok select_profiles [OF ok(1)] select_profiles [OF ok(2)] unfolding s_def [symmetric] t_def [symmetric]
    by (simp add: configuration_ok_def sortedServerIds_def sortedProxyIds_def)
qed

text \<open>C26. What the parser of the contract accepts is shown as it is: loading an accepted snapshot, whatever was in the store
  before, shows exactly its servers and exactly its proxies, with the counts the snapshot has.\<close>

theorem accepted_snapshot_shown:
  fixes actions
  assumes "parseConfigurationSnapshot U v = Inr snapshot"
  defines "s \<equiv> afterActions (actions @ [SnapshotReplaced snapshot])"
  shows "mset (selectServerProfiles s) = mset (cs_servers snapshot) \<and> mset (selectProxyProfiles s) = mset (cs_proxies snapshot)"
proof -
  note ok = configurationSnapshot.sound [OF assms(1)]
  define m where "m = fromEntries (map (\<lambda>p. (sp_serverId p, p)) (cs_servers snapshot))"
  define n where "n = fromEntries (map (\<lambda>p. (pp_proxyId p, p)) (cs_proxies snapshot))"
  have s: "s = createConfigurationState m n"
    by (simp add: s_def afterActions_def configurationReducer_def configurationSnapshotReplaced_def m_def n_def)
  have m: "mset (objectValues m) = mset (cs_servers snapshot)"
    using ok by (simp add: m_def Snapshot_ok_def fromEntries_distinct comp_def objectValues_enumerated) (simp add: objectValues_def comp_def)
  have n: "mset n = mset (map (\<lambda>p. (pp_proxyId p, p)) (cs_proxies snapshot))"
    using ok by (simp add: n_def Snapshot_ok_def fromEntries_distinct comp_def)
  have "recounted m p = p" if "p \<in> set (cs_proxies snapshot)" for p
  proof -
    have "referenceCount (pp_proxyId p) (objectValues m) = referenceCount (pp_proxyId p) (cs_servers snapshot)"
      using m by (rule referenceCount_mset)
    then show ?thesis using ok that by (simp add: Snapshot_ok_def recounted_def)
  qed
  then have "image_mset (\<lambda>e. recounted m (snd e)) (mset n) = mset (cs_proxies snapshot)"
    unfolding n by (simp only: mset_map [symmetric] list.map_comp comp_def snd_conv) (simp add: map_idI)
  moreover have "keyedBy pp_proxyId n" unfolding n_def by (rule keyed_profiles)
  ultimately have "mset (objectValues (cf_proxiesById s)) = mset (cs_proxies snapshot)"
    by (simp add: s createConfigurationState_def Let_def synchronize_eq objectValues_enumerated) (simp add: objectValues_def comp_def)
  moreover have "configuration_ok s" by (simp add: s_def configuration_ok_after)
  moreover have "objectValues (cf_serversById s) = objectValues m" by (simp add: s createConfigurationState_def Let_def)
  ultimately show ?thesis using m by (simp add: select_profiles servers.sortBy_perm proxies.sortBy_perm)
qed

section \<open>Concrete actions\<close>

definition demoFirst :: "configuration_action list" where
  "demoFirst = [SnapshotReplaced demoSnapshot, ServerRemoved (sp_serverId (hd demoServers)), ServerUpserted (hd demoServers)]"

definition demoSecond :: "configuration_action list" where
  "demoSecond = [ProxyUpserted demoProxy, ServerUpserted (hd demoServers), ServerUpserted (hd (tl demoServers))]"

lemma demo_lookups:
  "cf_serversById (afterActions demoFirst) = [(sp_serverId (hd (tl demoServers)), hd (tl demoServers)), (sp_serverId (hd demoServers), hd demoServers)]"
  "cf_serversById (afterActions demoSecond) = [(sp_serverId (hd demoServers), hd demoServers), (sp_serverId (hd (tl demoServers)), hd (tl demoServers))]"
  "cf_proxiesById (afterActions demoFirst) = [(demoProxyId, demoProxy)]"
  "cf_proxiesById (afterActions demoSecond) = [(demoProxyId, demoProxy)]"
  by code_simp+

theorem config_store_history_free_witness:
  "selectServerProfiles (afterActions demoFirst) = selectServerProfiles (afterActions demoSecond)"
proof -
  have ids: "sp_serverId (hd demoServers) \<noteq> sp_serverId (hd (tl demoServers))" by code_simp
  show ?thesis
    by (rule config_store_history_free [THEN conjunct1])
      (use ids in \<open>simp_all add: selectServerProfileById_def selectProxyProfileById_def demo_lookups\<close>)
qed

theorem accepted_snapshot_shown_witness:
  "mset (selectServerProfiles (afterActions [SnapshotReplaced demoSnapshot])) = mset demoServers"
  using accepted_snapshot_shown [OF demo_parsed, of "[]"] by (simp add: demoSnapshot_def)

text \<open>The reader of a rejected command is total and closed: whatever value the back end rejects with, the result is an
  error of the table with its own message, and it is that error, and not the general one, for the object of code and
  message of any entry.\<close>

theorem command_errors_closed:
  "map_of CONFIGURATION_COMMAND_ERROR_MESSAGES (ce_code (parseConfigurationCommandError v)) =
     Some (ce_message (parseConfigurationCommandError v)) \<and>
   list_all (\<lambda>(c, m). parseConfigurationCommandError (JObj [jprop ''code'' (JStr (lit c)), jprop ''message'' (JStr (lit m))]) =
     \<lparr>ce_code = c, ce_message = m\<rparr>) CONFIGURATION_COMMAND_ERROR_MESSAGES"
  using command_error_of_table command_error_read by (auto simp: list_all_iff entry_map_of)

end
