(* ===== verification/EditorText.thy ===== *)
theory EditorText
  imports JsText
begin

text \<open>
  The texts of the forms in \<open>src/components/proxyEditorModel.ts\<close> and \<open>serverEditorModel.ts\<close>, as
  lists of UTF-16 code units; a template is the list of its fixed parts. The names say in English
  what the text says.
\<close>

definition form_removeHostKeyFirst :: jstr where
  "form_removeHostKeyFirst = [0x66F4, 0x6539, 0x0020, 0x0053, 0x0053, 0x0048, 0x0020, 0x7AEF, 0x70B9, 0x524D, 0x5FC5,
     0x987B, 0x5148, 0x79FB, 0x9664, 0x5DF2, 0x4FDD, 0x5B58, 0x7684, 0x4E3B, 0x673A, 0x5BC6, 0x94A5]"

definition form_hostKeyMismatch :: jstr where
  "form_hostKeyMismatch = [0x0053, 0x0053, 0x0048, 0x0020, 0x4E3B, 0x673A, 0x5BC6, 0x94A5, 0x4E0E, 0x5F53, 0x524D,
     0x7AEF, 0x70B9, 0x4E0D, 0x5339, 0x914D]"

definition form_credentialRequired :: jstr where
  "form_credentialRequired = [0x5F53, 0x524D, 0x8BA4, 0x8BC1, 0x65B9, 0x5F0F, 0x9700, 0x8981, 0x586B, 0x5199, 0x51ED,
     0x636E]"

definition form_newCredentialRequired :: jstr where
  "form_newCredentialRequired = [0x66F4, 0x6362, 0x8BA4, 0x8BC1, 0x65B9, 0x5F0F, 0x65F6, 0x5FC5, 0x987B, 0x586B, 0x5199,
     0x65B0, 0x7684, 0x51ED, 0x636E]"

definition form_headerNameEmpty :: jstr where
  "form_headerNameEmpty = [0x8BF7, 0x6C42, 0x5934, 0x540D, 0x79F0, 0x4E0D, 0x80FD, 0x4E3A, 0x7A7A]"

definition form_headerNameRepeated :: jstr where
  "form_headerNameRepeated = [0x8BF7, 0x6C42, 0x5934, 0x540D, 0x79F0, 0x4E0D, 0x80FD, 0x91CD, 0x590D]"

definition form_proxyNotVerified :: jstr where
  "form_proxyNotVerified = [0x65E0, 0x6CD5, 0x9A8C, 0x8BC1, 0x4EE3, 0x7406, 0x914D, 0x7F6E]"

definition form_proxyName :: jstr where
  "form_proxyName = [0x8BF7, 0x8F93, 0x5165, 0x6709, 0x6548, 0x7684, 0x4EE3, 0x7406, 0x540D, 0x79F0]"

definition form_proxyUrl :: jstr where
  "form_proxyUrl = [0x8BF7, 0x8F93, 0x5165, 0x6709, 0x6548, 0x7684, 0x0020, 0x0068, 0x0074, 0x0074, 0x0070,
     0x003A, 0x002F, 0x002F, 0x0020, 0x6216, 0x0020, 0x0068, 0x0074, 0x0074, 0x0070, 0x0073, 0x003A,
     0x002F, 0x002F, 0x0020, 0x4EE3, 0x7406, 0x0020, 0x0055, 0x0052, 0x004C]"

definition form_proxyHost :: jstr where
  "form_proxyHost = [0x8BF7, 0x8F93, 0x5165, 0x6709, 0x6548, 0x7684, 0x4EE3, 0x7406, 0x4E3B, 0x673A, 0x540D,
     0x6216, 0x0020, 0x0049, 0x0050, 0x0020, 0x5730, 0x5740]"

definition form_proxyPort :: jstr where
  "form_proxyPort = [0x7AEF, 0x53E3, 0x5FC5, 0x987B, 0x662F, 0x0020, 0x0031, 0x0020, 0x5230, 0x0020, 0x0036,
     0x0035, 0x0035, 0x0033, 0x0035, 0x0020, 0x4E4B, 0x95F4, 0x7684, 0x6574, 0x6570]"

definition form_proxyUsername :: jstr where
  "form_proxyUsername = [0x8BF7, 0x8F93, 0x5165, 0x6709, 0x6548, 0x7684, 0x7528, 0x6237, 0x540D]"

definition form_privateKeyPath :: jstr where
  "form_privateKeyPath = [0x79C1, 0x94A5, 0x8DEF, 0x5F84, 0x5FC5, 0x987B, 0x662F, 0x0020, 0x004C, 0x0069, 0x006E,
     0x0075, 0x0078, 0x0020, 0x7EDD, 0x5BF9, 0x8DEF, 0x5F84]"

definition form_proxyHeaders :: jstr where
  "form_proxyHeaders = [0x666E, 0x901A, 0x8BF7, 0x6C42, 0x5934, 0x65E0, 0x6548, 0xFF0C, 0x4E0D, 0x80FD, 0x5305,
     0x542B, 0x8BA4, 0x8BC1, 0x6216, 0x0020, 0x0043, 0x006F, 0x006F, 0x006B, 0x0069, 0x0065, 0x0020,
     0x5B57, 0x6BB5]"

definition form_proxyTimeout :: jstr where
  "form_proxyTimeout = [0x8FDE, 0x63A5, 0x8D85, 0x65F6, 0x5FC5, 0x987B, 0x662F, 0x0020, 0x0031, 0x0030, 0x0030,
     0x0030, 0x0020, 0x5230, 0x0020, 0x0031, 0x0032, 0x0030, 0x0030, 0x0030, 0x0030, 0x0020, 0x6BEB,
     0x79D2]"

definition form_keepAliveInterval :: jstr where
  "form_keepAliveInterval = [0x0053, 0x0053, 0x0048, 0x0020, 0x4FDD, 0x6D3B, 0x95F4, 0x9694, 0x65E0, 0x6548]"

definition form_keepAliveFailures :: jstr where
  "form_keepAliveFailures = [0x0053, 0x0053, 0x0048, 0x0020, 0x4FDD, 0x6D3B, 0x5931, 0x8D25, 0x6B21, 0x6570, 0x65E0,
     0x6548]"

definition form_proxyCredential :: jstr where
  "form_proxyCredential = [0x51ED, 0x636E, 0x683C, 0x5F0F, 0x6216, 0x957F, 0x5EA6, 0x65E0, 0x6548]"

definition form_proxyInvalid :: jstr where
  "form_proxyInvalid = [0x4EE3, 0x7406, 0x914D, 0x7F6E, 0x65E0, 0x6548, 0xFF0C, 0x8BF7, 0x68C0, 0x67E5, 0x5404,
     0x5B57, 0x6BB5]"

definition form_nth :: jstr where
  "form_nth = [0x7B2C, 0x0020]"

definition form_itemNameRequired :: jstr where
  "form_itemNameRequired = [0x0020, 0x9879, 0x5FC5, 0x987B, 0x586B, 0x5199, 0x540D, 0x79F0]"

definition form_repeatedName :: jstr where
  "form_repeatedName = [0x4E2D, 0x5B58, 0x5728, 0x91CD, 0x590D, 0x540D, 0x79F0, 0x201C]"

definition form_closingQuote :: jstr where
  "form_closingQuote = [0x201D]"

definition form_sensitiveEnvironment :: jstr where
  "form_sensitiveEnvironment = [0x654F, 0x611F, 0x73AF, 0x5883, 0x53D8, 0x91CF]"

definition form_environmentVariable :: jstr where
  "form_environmentVariable = [0x73AF, 0x5883, 0x53D8, 0x91CF, 0x201C]"

definition form_bothKinds :: jstr where
  "form_bothKinds = [0x201D, 0x4E0D, 0x80FD, 0x540C, 0x65F6, 0x8BBE, 0x4E3A, 0x666E, 0x901A, 0x548C, 0x654F,
     0x611F, 0x53D8, 0x91CF]"

definition form_tokenRequired :: jstr where
  "form_tokenRequired = [0x9009, 0x62E9, 0x0020, 0x0042, 0x0065, 0x0061, 0x0072, 0x0065, 0x0072, 0x0020, 0x8BA4,
     0x8BC1, 0x540E, 0x5FC5, 0x987B, 0x586B, 0x5199, 0x4EE4, 0x724C]"

definition form_credentialUnusable :: jstr where
  "form_credentialUnusable = [0x5F53, 0x524D, 0x8FDE, 0x63A5, 0x914D, 0x7F6E, 0x65E0, 0x6CD5, 0x7EE7, 0x7EED, 0x4F7F,
     0x7528, 0x5DF2, 0x4FDD, 0x5B58, 0x51ED, 0x636E, 0xFF0C, 0x8BF7, 0x586B, 0x5199, 0x65B0, 0x51ED,
     0x636E, 0x6216, 0x5148, 0x6E05, 0x9664, 0x5DF2, 0x4FDD, 0x5B58, 0x51ED, 0x636E]"

definition form_bindingChanged :: jstr where
  "form_bindingChanged = [0x8FDE, 0x63A5, 0x8EAB, 0x4EFD, 0x8303, 0x56F4, 0x5DF2, 0x7ECF, 0x53D8, 0x5316, 0xFF0C,
     0x8BF7, 0x91CD, 0x65B0, 0x586B, 0x5199, 0x51ED, 0x636E, 0x6216, 0x6E05, 0x9664, 0x5DF2, 0x4FDD,
     0x5B58, 0x51ED, 0x636E]"

definition form_plainEnvironment :: jstr where
  "form_plainEnvironment = [0x666E, 0x901A, 0x73AF, 0x5883, 0x53D8, 0x91CF]"

definition form_proxyUnavailable :: jstr where
  "form_proxyUnavailable = [0x5DF2, 0x9009, 0x62E9, 0x7684, 0x4EE3, 0x7406, 0x4E0D, 0x53EF, 0x7528, 0xFF0C, 0x8BF7,
     0x91CD, 0x65B0, 0x9009, 0x62E9, 0x8FDE, 0x63A5, 0x8DEF, 0x5F84]"

definition form_plainHeaders :: jstr where
  "form_plainHeaders = [0x666E, 0x901A, 0x8BF7, 0x6C42, 0x5934]"

definition form_serverNotVerified :: jstr where
  "form_serverNotVerified = [0x65E0, 0x6CD5, 0x9A8C, 0x8BC1, 0x670D, 0x52A1, 0x5668, 0x914D, 0x7F6E]"

definition form_serverName :: jstr where
  "form_serverName = [0x8BF7, 0x8F93, 0x5165, 0x6709, 0x6548, 0x7684, 0x670D, 0x52A1, 0x5668, 0x540D, 0x79F0,
     0xFF0C, 0x540D, 0x79F0, 0x4E0D, 0x80FD, 0x4E3A, 0x7A7A]"

definition form_executablePath :: jstr where
  "form_executablePath = [0x53EF, 0x6267, 0x884C, 0x6587, 0x4EF6, 0x8DEF, 0x5F84, 0x5FC5, 0x987B, 0x662F, 0x4EE5,
     0x0020, 0x002F, 0x0020, 0x5F00, 0x5934, 0x7684, 0x0020, 0x004C, 0x0069, 0x006E, 0x0075, 0x0078,
     0x0020, 0x7EDD, 0x5BF9, 0x8DEF, 0x5F84]"

definition form_workingDirectory :: jstr where
  "form_workingDirectory = [0x9ED8, 0x8BA4, 0x5DE5, 0x4F5C, 0x76EE, 0x5F55, 0x5FC5, 0x987B, 0x662F, 0x4EE5, 0x0020,
     0x002F, 0x0020, 0x5F00, 0x5934, 0x7684, 0x0020, 0x004C, 0x0069, 0x006E, 0x0075, 0x0078, 0x0020,
     0x7EDD, 0x5BF9, 0x8DEF, 0x5F84]"

definition form_serverArguments :: jstr where
  "form_serverArguments = [0x53C2, 0x6570, 0x6570, 0x91CF, 0x6216, 0x957F, 0x5EA6, 0x8D85, 0x51FA, 0x5141, 0x8BB8,
     0x8303, 0x56F4]"

definition form_serverEnvironment :: jstr where
  "form_serverEnvironment = [0x666E, 0x901A, 0x73AF, 0x5883, 0x53D8, 0x91CF, 0x540D, 0x79F0, 0x6216, 0x503C, 0x65E0,
     0x6548, 0xFF0C, 0x7591, 0x4F3C, 0x654F, 0x611F, 0x7684, 0x53D8, 0x91CF, 0x8BF7, 0x586B, 0x5199,
     0x5230, 0x654F, 0x611F, 0x73AF, 0x5883, 0x53D8, 0x91CF]"

definition form_serverHeaders :: jstr where
  "form_serverHeaders = [0x666E, 0x901A, 0x8BF7, 0x6C42, 0x5934, 0x540D, 0x79F0, 0x6216, 0x503C, 0x65E0, 0x6548,
     0xFF0C, 0x8BA4, 0x8BC1, 0x4FE1, 0x606F, 0x4E0D, 0x80FD, 0x653E, 0x5165, 0x666E, 0x901A, 0x8BF7,
     0x6C42, 0x5934]"

definition form_serverTimeout :: jstr where
  "form_serverTimeout = [0x8FDE, 0x63A5, 0x8D85, 0x65F6, 0x5FC5, 0x987B, 0x662F, 0x0020, 0x0031, 0x0030, 0x0030,
     0x0030, 0x0020, 0x5230, 0x0020, 0x0031, 0x0032, 0x0030, 0x0030, 0x0030, 0x0030, 0x0020, 0x4E4B,
     0x95F4, 0x7684, 0x6574, 0x6570, 0x6BEB, 0x79D2, 0x6570]"

definition form_confirmPlaintext :: jstr where
  "form_confirmPlaintext = [0x4F7F, 0x7528, 0x0020, 0x0077, 0x0073, 0x003A, 0x002F, 0x002F, 0x0020, 0x524D, 0x5FC5,
     0x987B, 0x786E, 0x8BA4, 0x8FDE, 0x63A5, 0x4E0D, 0x4F1A, 0x52A0, 0x5BC6]"

definition form_tlsPolicy :: jstr where
  "form_tlsPolicy = [0x5F53, 0x524D, 0x0020, 0x0055, 0x0052, 0x004C, 0x0020, 0x4E0E, 0x0020, 0x0054, 0x004C,
     0x0053, 0x0020, 0x8BC1, 0x4E66, 0x7B56, 0x7565, 0x4E0D, 0x517C, 0x5BB9]"

definition form_serverUrl :: jstr where
  "form_serverUrl = [0x8BF7, 0x8F93, 0x5165, 0x6709, 0x6548, 0x7684, 0x0020, 0x0077, 0x0073, 0x003A, 0x002F,
     0x002F, 0x0020, 0x6216, 0x0020, 0x0077, 0x0073, 0x0073, 0x003A, 0x002F, 0x002F, 0x0020, 0x0055,
     0x0052, 0x004C, 0xFF0C, 0x5730, 0x5740, 0x4E2D, 0x4E0D, 0x80FD, 0x5305, 0x542B, 0x51ED, 0x636E,
     0x6216, 0x654F, 0x611F, 0x67E5, 0x8BE2, 0x53C2, 0x6570]"

definition form_serverCredential :: jstr where
  "form_serverCredential = [0x51ED, 0x636E, 0x683C, 0x5F0F, 0x6216, 0x957F, 0x5EA6, 0x65E0, 0x6548, 0xFF0C, 0x8BF7,
     0x68C0, 0x67E5, 0x540E, 0x91CD, 0x8BD5]"

definition form_serverProxy :: jstr where
  "form_serverProxy = [0x8BF7, 0x9009, 0x62E9, 0x6709, 0x6548, 0x7684, 0x8FDE, 0x63A5, 0x8DEF, 0x5F84]"

definition form_serverInvalid :: jstr where
  "form_serverInvalid = [0x670D, 0x52A1, 0x5668, 0x914D, 0x7F6E, 0x65E0, 0x6548, 0xFF0C, 0x8BF7, 0x68C0, 0x67E5,
     0x5404, 0x5B57, 0x6BB5]"

end
