(* ===== verification/EditorForms.thy ===== *)
theory EditorForms
  imports ConfigNormalize ConfigStore EditorText
begin

text \<open>
  What the two profile editors share: \<open>src/components/proxyEditorModel.ts\<close> and
  \<open>serverEditorModel.ts\<close>. A draft holds what the user typed, so its numbers are texts and its
  maps are lists of rows. Building a submission fails with an error of the form (a field and a
  text), with an error of the configuration contract, or with an error of the platform.

  The parameters (\<open>form_platform\<close>) are what the editors use of the JavaScript library outside
  plain cases: \<open>Number\<close> on a text that is not a decimal integer of the safe range,
  \<open>toLowerCase\<close> on a text that is not ASCII, \<open>localeCompare\<close>, and \<open>URL.port\<close>.
\<close>

record form_platform =
  fp_number :: "jstr \<Rightarrow> int + 64 word"
  fp_lower :: "jstr \<Rightarrow> jstr"
  fp_localeCompare :: "jstr \<Rightarrow> jstr \<Rightarrow> int"
  fp_urlPort :: "jstr \<Rightarrow> jstr"

record KeyValueDraft =
  kv_name :: jstr
  kv_value :: jstr

record 'f form_error =
  fe_field :: 'f
  fe_message :: jstr

datatype 'f form_failure =
    FormError "'f form_error"
  | ContractFailure contract_error
  | PlatformFailure

definition formError :: "'f \<Rightarrow> jstr \<Rightarrow> 'f form_failure + 'a" where
  "formError fieldName message = Inl (FormError \<lparr>fe_field = fieldName, fe_message = message\<rparr>)"

text \<open>A call of the contract from a form: its exception is passed on.\<close>

definition contractE :: "contract_error + 'a \<Rightarrow> 'f form_failure + 'a" where
  "contractE m = (case m of Inl e \<Rightarrow> Inl (ContractFailure e) | Inr x \<Rightarrow> Inr x)"

datatype ('c, 't) credential_intent =
    Keep
  | SetCredential 'c
  | ClearCredential 't

section \<open>Texts\<close>

text \<open>\<open>String(n)\<close> of an integer; the numbers of a profile are in the safe range.\<close>

definition stringOfInt :: "int \<Rightarrow> jstr" where
  "stringOfInt i = (if i < 0 then 0x2D # decDigits (nat (- i)) else decDigits (nat i))"

text \<open>\<open>Number(text)\<close>: blank text is zero, an optional sign and digits are an integer.\<close>

definition unsigned :: "jstr \<Rightarrow> jstr" where
  "unsigned t = (if t \<noteq> [] \<and> (hd t = 0x2D \<or> hd t = 0x2B) then tl t else t)"

definition numberOf :: "form_platform \<Rightarrow> jstr \<Rightarrow> jsval" where
  "numberOf P text =
     (let t = js_trim text; digits = unsigned t;
          n = (if t \<noteq> [] \<and> hd t = 0x2D then - int (decValue digits) else int (decValue digits)) in
      if t = [] then JInt 0
      else if digits \<noteq> [] \<and> list_all cu_digit digits \<and> isSafeInt n then JInt n
      else (case fp_number P text of Inl i \<Rightarrow> JInt i | Inr w \<Rightarrow> JFloat w))"

definition isAscii :: "jstr \<Rightarrow> bool" where
  "isAscii s = list_all (\<lambda>c. c < 0x80) s"

definition toLowerCase :: "form_platform \<Rightarrow> jstr \<Rightarrow> jstr" where
  "toLowerCase P s = (if isAscii s then asciiLower s else fp_lower P s)"

text \<open>The message of a \<open>ConfigurationContractError\<close>, which the forms search for field names.\<close>

definition contractMessage :: "contract_error \<Rightarrow> jstr" where
  "contractMessage e = (case e of ConfigurationContractError path problem \<Rightarrow>
     lit ''Invalid configuration contract at '' @ path @ lit '': '' @ problem)"

text \<open>A chain of \<open>if (message.includes(...)) return new FormError(...)\<close>, in its order.\<close>

fun firstMatch :: "(string \<times> 'f \<times> jstr) list \<Rightarrow> 'f \<times> jstr \<Rightarrow> jstr \<Rightarrow> 'f form_error" where
  "firstMatch [] (fieldName, text) message = \<lparr>fe_field = fieldName, fe_message = text\<rparr>"
| "firstMatch ((part, fieldName, text) # rest) otherwise message =
     (if includesSub (lit part) message then \<lparr>fe_field = fieldName, fe_message = text\<rparr>
      else firstMatch rest otherwise message)"

section \<open>Laws\<close>

lemma contractE_simps [simp]: "contractE (Inr x) = Inr x" "contractE (Inl e) = Inl (ContractFailure e)"
  by (simp_all add: contractE_def)

lemma contractE_eq_Inr [simp]: "contractE m = Inr x \<longleftrightarrow> m = Inr x"
  by (cases m) simp_all

lemma contractE_eq_Inl: "contractE m = Inl e \<longleftrightarrow> (\<exists>c. m = Inl c \<and> e = ContractFailure c)"
  by (cases m) auto

lemma formError_not_Inr [simp]: "formError f t \<noteq> Inr x"
  by (simp add: formError_def)

lemma cu_digit_facts:
  "cu_digit c \<Longrightarrow> \<not> cu_space c" "cu_digit c \<Longrightarrow> c \<noteq> 0x2D" "cu_digit c \<Longrightarrow> c \<noteq> 0x2B"
  by (auto simp: cu_digit_def cu_space_def word_le_nat_alt)

lemma numberOf_digits:
  assumes "list_all cu_digit s" and "s \<noteq> []" and "isSafeInt (int (decValue s))"
  shows "numberOf P s = JInt (int (decValue s))"
proof -
  have digit: "cu_digit (hd s)" "cu_digit (last s)" using assms by (auto simp: list_all_iff)
  then have "js_trim s = s" using assms(2) by (intro js_trim_fixed cu_digit_facts) auto
  moreover have "unsigned s = s" using cu_digit_facts(2,3) [OF digit(1)] by (simp add: unsigned_def)
  ultimately show ?thesis using assms cu_digit_facts(2) [OF digit(1)] by (simp add: numberOf_def Let_def del: isSafeInt_bounds)
qed

lemma numberOf_stringOfInt:
  assumes "0 \<le> i" and "i \<le> MAX_SAFE_INTEGER"
  shows "numberOf P (stringOfInt i) = JInt i"
  using numberOf_digits [OF decDigits_digits decDigits_nonempty, of "nat i" P] assms
  by (simp add: stringOfInt_def MAX_SAFE_INTEGER_def)

lemma numberOf_defined [simp]: "numberOf P text \<noteq> JUndef"
  by (simp add: numberOf_def Let_def split: sum.split)

lemma toLowerCase_ascii: "isAscii s \<Longrightarrow> toLowerCase P s = asciiLower s"
  by (simp add: toLowerCase_def)

lemma insertBy_perm: "mset (insertBy cmp x xs) = add_mset x (mset xs)"
  by (induction xs) auto

lemma sortBy_mset: "mset (sortBy cmp xs) = mset xs"
  unfolding sortBy_def by (induction xs) (auto simp: insertBy_perm)

end
