(* ===== verification/ProxyEditor.thy ===== *)
theory ProxyEditor
  imports EditorForms
begin

text \<open>
  The editor of proxies, \<open>src/components/proxyEditorModel.ts\<close>: what the dialog edits
  (a draft of every proxy type, of which one is selected), how a profile becomes a draft, and how a
  draft becomes a submission: name, configuration, what to do with the stored credential, and the
  host key to confirm.
\<close>

section \<open>Data\<close>

datatype ProxyEditorMode = CreateProxy | EditProxy ProxyProfile

record HttpProxyDraft =
  hd_url :: jstr
  hd_authentication :: HttpProxyAuthentication
  hd_username :: jstr
  hd_secret :: jstr
  hd_nonSensitiveHeaders :: "KeyValueDraft list"
  hd_connectTimeoutMs :: jstr
  hd_tlsCertificatePolicy :: TlsCertificatePolicy

record Socks5ProxyDraft =
  sd_host :: jstr
  sd_port :: jstr
  sd_authentication :: Socks5Authentication
  sd_username :: jstr
  sd_password :: jstr
  sd_dnsResolution :: Socks5DnsResolution
  sd_connectTimeoutMs :: jstr

record SshProxyDraft =
  xd_host :: jstr
  xd_port :: jstr
  xd_username :: jstr
  xd_authentication :: ssh_auth_type
  xd_privateKeyPath :: jstr
  xd_secret :: jstr
  xd_connectTimeoutMs :: jstr
  xd_keepAliveIntervalMs :: jstr
  xd_keepAliveMaxFailures :: jstr

record ProxyEditorDraft =
  pd_proxyType :: proxy_type
  pd_name :: jstr
  pd_httpConnect :: HttpProxyDraft
  pd_socks5 :: Socks5ProxyDraft
  pd_ssh :: SshProxyDraft
  pd_clearExistingCredential :: bool

type_synonym ProxyCredentialIntent = "(ProxyCredential, ProxyCredentialType) credential_intent"

record ProxySshHostKeyDraft =
  kd_host :: jstr
  kd_port :: int
  kd_algorithm :: jstr
  kd_sha256Fingerprint :: jstr

record ProxyEditorSubmission =
  ps_name :: jstr
  ps_configuration :: ProxyConfigurationInput
  ps_credentialIntent :: ProxyCredentialIntent
  ps_sshHostKey :: "ProxySshHostKeyDraft option"

datatype ProxyEditorFieldName =
    PfProxyType | PfName | PfUrl | PfHost | PfPort | PfAuthentication | PfUsername | PfSecret
  | PfPrivateKeyPath | PfNonSensitiveHeaders | PfDnsResolution | PfConnectTimeoutMs
  | PfTlsCertificatePolicy | PfKeepAliveIntervalMs | PfKeepAliveMaxFailures | PfCredential

type_synonym proxy_form_failure = "ProxyEditorFieldName form_failure"

section \<open>Drafts\<close>

definition EMPTY_HTTP :: HttpProxyDraft where
  "EMPTY_HTTP = \<lparr>hd_url = [], hd_authentication = HpaNone, hd_username = [], hd_secret = [],
     hd_nonSensitiveHeaders = [], hd_connectTimeoutMs = lit ''30000'', hd_tlsCertificatePolicy = TlsStrict\<rparr>"

definition EMPTY_SOCKS5 :: Socks5ProxyDraft where
  "EMPTY_SOCKS5 = \<lparr>sd_host = [], sd_port = lit ''1080'', sd_authentication = SkaNone, sd_username = [],
     sd_password = [], sd_dnsResolution = DnsProxy, sd_connectTimeoutMs = lit ''30000''\<rparr>"

definition EMPTY_SSH :: SshProxyDraft where
  "EMPTY_SSH = \<lparr>xd_host = [], xd_port = lit ''22'', xd_username = [], xd_authentication = AuthAgent,
     xd_privateKeyPath = [], xd_secret = [], xd_connectTimeoutMs = lit ''30000'',
     xd_keepAliveIntervalMs = lit ''15000'', xd_keepAliveMaxFailures = lit ''3''\<rparr>"

definition VALIDATION_PROXY_ID :: ProxyId where
  "VALIDATION_PROXY_ID = lit ''00000000-0000-4000-8000-000000000000''"

definition orEmpty :: "jstr option \<Rightarrow> jstr" where
  "orEmpty s = (case s of None \<Rightarrow> [] | Some t \<Rightarrow> t)"

definition headerRows :: "NonSensitiveValues \<Rightarrow> KeyValueDraft list" where
  "headerRows values = map (\<lambda>(name, v). \<lparr>kv_name = name, kv_value = v\<rparr>) values"

definition sshAuthenticationType :: "SshAuthenticationConfiguration \<Rightarrow> ssh_auth_type" where
  "sshAuthenticationType a =
     (case a of SshAgent \<Rightarrow> AuthAgent | SshPrivateKey _ \<Rightarrow> AuthPrivateKey | SshPassword \<Rightarrow> AuthPassword)"

definition emptyProxyDraft :: ProxyEditorDraft where
  "emptyProxyDraft = \<lparr>pd_proxyType = HttpConnectType, pd_name = [], pd_httpConnect = EMPTY_HTTP,
     pd_socks5 = EMPTY_SOCKS5, pd_ssh = EMPTY_SSH, pd_clearExistingCredential = False\<rparr>"

definition createProxyEditorDraft :: "ProxyEditorMode \<Rightarrow> ProxyEditorDraft" where
  "createProxyEditorDraft mode =
     (case mode of
        CreateProxy \<Rightarrow> emptyProxyDraft
      | EditProxy profile \<Rightarrow>
          let draft = emptyProxyDraft\<lparr>pd_name := pp_name profile\<rparr> in
          (case pp_configuration profile of
             HttpConnect c \<Rightarrow> draft\<lparr>pd_proxyType := HttpConnectType, pd_httpConnect :=
               \<lparr>hd_url = hp_url c, hd_authentication = hp_authentication c,
                hd_username = orEmpty (hp_username c), hd_secret = [],
                hd_nonSensitiveHeaders = headerRows (hp_nonSensitiveHeaders c),
                hd_connectTimeoutMs = stringOfInt (hp_connectTimeoutMs c),
                hd_tlsCertificatePolicy = hp_tlsCertificatePolicy c\<rparr>\<rparr>
           | Socks5 c \<Rightarrow> draft\<lparr>pd_proxyType := Socks5Type, pd_socks5 :=
               \<lparr>sd_host = sk_host c, sd_port = stringOfInt (sk_port c),
                sd_authentication = sk_authentication c, sd_username = orEmpty (sk_username c),
                sd_password = [], sd_dnsResolution = sk_dnsResolution c,
                sd_connectTimeoutMs = stringOfInt (sk_connectTimeoutMs c)\<rparr>\<rparr>
           | Ssh c \<Rightarrow> draft\<lparr>pd_proxyType := SshType, pd_ssh :=
               \<lparr>xd_host = sh_host c, xd_port = stringOfInt (sh_port c), xd_username = sh_username c,
                xd_authentication = sshAuthenticationType (sh_authentication c),
                xd_privateKeyPath = (case sh_authentication c of SshPrivateKey p \<Rightarrow> p | _ \<Rightarrow> []),
                xd_secret = [], xd_connectTimeoutMs = stringOfInt (sh_connectTimeoutMs c),
                xd_keepAliveIntervalMs = stringOfInt (sh_keepAliveIntervalMs c),
                xd_keepAliveMaxFailures = stringOfInt (sh_keepAliveMaxFailures c)\<rparr>\<rparr>))"

section \<open>Credential types\<close>

definition credentialTypeForConfiguration :: "ProxyConfigurationInput \<Rightarrow> ProxyCredentialType option" where
  "credentialTypeForConfiguration configuration =
     (case configuration of
        HttpConnect c \<Rightarrow>
          if hp_authentication c = HpaBasic then Some HttpBasicPassword
          else if hp_authentication c = HpaBearer then Some HttpBearerToken else None
      | Socks5 c \<Rightarrow> if sk_authentication c = SkaUsernamePassword then Some Socks5Password else None
      | Ssh c \<Rightarrow>
          (case sh_authentication c of
             SshPrivateKey _ \<Rightarrow> Some SshPrivateKeyPassphrase
           | SshPassword \<Rightarrow> Some SshPasswordCredential
           | SshAgent \<Rightarrow> None))"

definition existingProxyCredentialType :: "ProxyProfile \<Rightarrow> ProxyCredentialType option" where
  "existingProxyCredentialType profile =
     (if \<not> pp_credentialConfigured profile then None
      else credentialTypeForConfiguration (pp_configuration profile))"

section \<open>Submission\<close>

text \<open>
  The assignment \<open>output[name] = value\<close> of a new name on an object literal: \<open>__proto__\<close> is
  the accessor of \<open>Object.prototype\<close>, which ignores a value that is not an object.
\<close>

definition assignProperty :: "(jstr \<times> jstr) list \<Rightarrow> jstr \<Rightarrow> jstr \<Rightarrow> (jstr \<times> jstr) list" where
  "assignProperty output name v = (if name = lit ''__proto__'' then output else output @ [(name, v)])"

fun keyValueRecordFrom ::
  "(jstr \<times> jstr) list \<Rightarrow> KeyValueDraft list \<Rightarrow> proxy_form_failure + (jstr \<times> jstr) list" where
  "keyValueRecordFrom output [] = Inr output"
| "keyValueRecordFrom output (entry # rows) =
     (if kv_name entry = [] \<and> kv_value entry = [] then keyValueRecordFrom output rows
      else if kv_name entry = [] \<or> kv_name entry \<in> fst ` set output
      then formError PfNonSensitiveHeaders
             (if kv_name entry = [] then form_headerNameEmpty else form_headerNameRepeated)
      else keyValueRecordFrom (assignProperty output (kv_name entry) (kv_value entry)) rows)"

definition keyValueRecord :: "KeyValueDraft list \<Rightarrow> proxy_form_failure + (jstr \<times> jstr) list" where
  "keyValueRecord rows = keyValueRecordFrom [] rows"

definition sshAuthenticationInput :: "SshProxyDraft \<Rightarrow> jsval" where
  "sshAuthenticationInput d =
     (if xd_authentication d = AuthPrivateKey
      then JObj [jprop ''type'' (JStr (lit ''privateKey'')), jprop ''privateKeyPath'' (JStr (xd_privateKeyPath d))]
      else JObj [jprop ''type'' (enumValue sshAuthTypes (xd_authentication d))])"

definition buildProxyConfiguration :: "form_platform \<Rightarrow> ProxyEditorDraft \<Rightarrow> proxy_form_failure + jsval" where
  "buildProxyConfiguration P draft =
     (case pd_proxyType draft of
        HttpConnectType \<Rightarrow>
          let d = pd_httpConnect draft in
          bindE (keyValueRecord (hd_nonSensitiveHeaders d)) (\<lambda>headers.
          Inr (JObj ([jprop ''type'' (JStr (lit ''httpConnect'')), jprop ''url'' (JStr (hd_url d)),
             jprop ''authentication'' (enumValue httpProxyAuthentications (hd_authentication d))] @
             (if hd_authentication d = HpaBasic then [jprop ''username'' (JStr (hd_username d))] else []) @
             [jprop ''nonSensitiveHeaders'' (stringMapValue headers),
              jprop ''connectTimeoutMs'' (numberOf P (hd_connectTimeoutMs d)),
              jprop ''tlsCertificatePolicy'' (enumValue tlsPolicies (hd_tlsCertificatePolicy d))])))
      | Socks5Type \<Rightarrow>
          let d = pd_socks5 draft in
          Inr (JObj ([jprop ''type'' (JStr (lit ''socks5'')), jprop ''host'' (JStr (sd_host d)),
             jprop ''port'' (numberOf P (sd_port d)),
             jprop ''authentication'' (enumValue socks5Authentications (sd_authentication d))] @
             (if sd_authentication d = SkaUsernamePassword then [jprop ''username'' (JStr (sd_username d))] else []) @
             [jprop ''dnsResolution'' (enumValue dnsResolutions (sd_dnsResolution d)),
              jprop ''connectTimeoutMs'' (numberOf P (sd_connectTimeoutMs d))]))
      | SshType \<Rightarrow>
          let d = pd_ssh draft in
          Inr (JObj [jprop ''type'' (JStr (lit ''ssh'')), jprop ''host'' (JStr (xd_host d)),
             jprop ''port'' (numberOf P (xd_port d)), jprop ''username'' (JStr (xd_username d)),
             jprop ''authentication'' (sshAuthenticationInput d),
             jprop ''connectTimeoutMs'' (numberOf P (xd_connectTimeoutMs d)),
             jprop ''keepAliveIntervalMs'' (numberOf P (xd_keepAliveIntervalMs d)),
             jprop ''keepAliveMaxFailures'' (numberOf P (xd_keepAliveMaxFailures d))]))"

text \<open>Host and port a host key must have; a normalised configuration always has a port.\<close>

definition sshEndpoint :: "ProxyConfigurationInput \<Rightarrow> (jstr \<times> int) option" where
  "sshEndpoint configuration = (case configuration of Ssh c \<Rightarrow> Some (sh_host c, sh_port c) | _ \<Rightarrow> None)"

definition storedHostKey :: "ProxyEditorMode \<Rightarrow> SshHostKeyRecord option" where
  "storedHostKey mode = (case mode of EditProxy profile \<Rightarrow> pp_sshHostKey profile | CreateProxy \<Rightarrow> None)"

definition normalizeDraftHostKey ::
  "ProxyEditorMode \<Rightarrow> ProxyConfigurationInput \<Rightarrow> ProxySshHostKeyDraft option \<Rightarrow>
     proxy_form_failure + ProxySshHostKeyDraft option" where
  "normalizeDraftHostKey mode configuration sshHostKey =
     (let stored = storedHostKey mode in
      if (case stored of None \<Rightarrow> False | Some k \<Rightarrow> sshEndpoint configuration \<noteq> Some (hk_host k, hk_port k))
      then formError PfHost form_removeHostKeyFirst
      else (case sshHostKey of
              None \<Rightarrow> Inr None
            | Some k \<Rightarrow>
                if sshEndpoint configuration \<noteq> Some (kd_host k, kd_port k)
                then formError PfHost form_hostKeyMismatch
                else Inr (Some k)))"

definition selectedSecret :: "ProxyEditorDraft \<Rightarrow> jstr" where
  "selectedSecret draft =
     (case pd_proxyType draft of
        HttpConnectType \<Rightarrow> hd_secret (pd_httpConnect draft)
      | Socks5Type \<Rightarrow> sd_password (pd_socks5 draft)
      | SshType \<Rightarrow> xd_secret (pd_ssh draft))"

definition proxyCredentialRequest :: "ProxyEditorMode \<Rightarrow> ProxyCredentialType \<Rightarrow> jstr \<Rightarrow> jsval" where
  "proxyCredentialRequest mode requiredType secret = JObj
     [jprop ''proxyId'' (JStr (case mode of EditProxy profile \<Rightarrow> pp_proxyId profile | CreateProxy \<Rightarrow> VALIDATION_PROXY_ID)),
      jprop ''expectedVersion'' (JInt (case mode of EditProxy profile \<Rightarrow> pp_version profile | CreateProxy \<Rightarrow> 1)),
      jprop ''credential'' (JObj [jprop ''type'' (enumValue PROXY_CREDENTIAL_TYPES requiredType),
                                 jprop ''value'' (JStr secret)])]"

definition existingProxyCredential :: "ProxyEditorMode \<Rightarrow> ProxyCredentialType option" where
  "existingProxyCredential mode =
     (case mode of EditProxy profile \<Rightarrow> existingProxyCredentialType profile | CreateProxy \<Rightarrow> None)"

definition buildProxyCredentialIntent ::
  "ProxyEditorMode \<Rightarrow> ProxyEditorDraft \<Rightarrow> ProxyConfigurationInput \<Rightarrow> proxy_form_failure + ProxyCredentialIntent" where
  "buildProxyCredentialIntent mode draft configuration =
     (let requiredType = credentialTypeForConfiguration configuration;
          secret = selectedSecret draft;
          existingType = existingProxyCredential mode;
          privateKeyWithoutPassphrase = (requiredType = Some SshPrivateKeyPassphrase) in
      (case (if secret = [] then None else requiredType) of
         Some t \<Rightarrow>
           bindE (contractE (normalizeSetProxyCredentialRequest (proxyCredentialRequest mode t secret))) (\<lambda>normalized.
           Inr (SetCredential (spc_credential normalized)))
       | None \<Rightarrow>
           (case existingType of
              None \<Rightarrow>
                if requiredType \<noteq> None \<and> \<not> privateKeyWithoutPassphrase
                then formError PfCredential form_credentialRequired
                else Inr Keep
            | Some t \<Rightarrow>
                if pd_clearExistingCredential draft \<or> existingType \<noteq> requiredType then
                  if requiredType \<noteq> None \<and> \<not> privateKeyWithoutPassphrase
                  then formError PfCredential form_newCredentialRequired
                  else Inr (ClearCredential t)
                else Inr Keep)))"

definition buildProxyEditorSubmission ::
  "form_platform \<Rightarrow> url_parser \<Rightarrow> ProxyEditorMode \<Rightarrow> ProxyEditorDraft \<Rightarrow> ProxySshHostKeyDraft option \<Rightarrow>
     proxy_form_failure + ProxyEditorSubmission" where
  "buildProxyEditorSubmission P U mode draft sshHostKey =
     bindE (buildProxyConfiguration P draft) (\<lambda>configuration.
     bindE (contractE (normalizeCreateProxyProfileRequest U (JObj
              [jprop ''name'' (JStr (pd_name draft)), jprop ''configuration'' configuration]))) (\<lambda>normalized.
     bindE (normalizeDraftHostKey mode (cpr_configuration normalized) sshHostKey) (\<lambda>normalizedHostKey.
     bindE (buildProxyCredentialIntent mode draft (cpr_configuration normalized)) (\<lambda>intent.
     Inr \<lparr>ps_name = cpr_name normalized, ps_configuration = cpr_configuration normalized,
          ps_credentialIntent = intent, ps_sshHostKey = normalizedHostKey\<rparr>))))"

section \<open>Errors\<close>

definition proxyFormErrors :: "(string \<times> ProxyEditorFieldName \<times> jstr) list" where
  "proxyFormErrors =
     [(''request.name'', PfName, form_proxyName),
      (''request.configuration.url'', PfUrl, form_proxyUrl),
      (''request.configuration.host'', PfHost, form_proxyHost),
      (''request.configuration.port'', PfPort, form_proxyPort),
      (''request.configuration.username'', PfUsername, form_proxyUsername),
      (''privateKeyPath'', PfPrivateKeyPath, form_privateKeyPath),
      (''nonSensitiveHeaders'', PfNonSensitiveHeaders, form_proxyHeaders),
      (''connectTimeoutMs'', PfConnectTimeoutMs, form_proxyTimeout),
      (''keepAliveIntervalMs'', PfKeepAliveIntervalMs, form_keepAliveInterval),
      (''keepAliveMaxFailures'', PfKeepAliveMaxFailures, form_keepAliveFailures),
      (''credential'', PfCredential, form_proxyCredential)]"

definition proxyFormError :: "proxy_form_failure \<Rightarrow> ProxyEditorFieldName form_error" where
  "proxyFormError failure =
     (case failure of
        FormError e \<Rightarrow> e
      | PlatformFailure \<Rightarrow> \<lparr>fe_field = PfProxyType, fe_message = form_proxyNotVerified\<rparr>
      | ContractFailure e \<Rightarrow> firstMatch proxyFormErrors (PfProxyType, form_proxyInvalid) (contractMessage e))"

end
