(* ===== verification/ProxyEditorLaws.thy ===== *)
theory ProxyEditorLaws
  imports ProxyEditor
begin

text \<open>
  What the editor of proxies does with an allowed profile: its draft is built back to the object of
  its configuration, so the normaliser of the contract returns it; and when a submission is
  accepted, what happens to the credential.
\<close>

section \<open>From a profile to a draft and back\<close>

lemma orEmpty_Some [simp]: "orEmpty (Some t) = t" "orEmpty None = []"
  by (simp_all add: orEmpty_def)

text \<open>Rows become properties of an object by assignment, which an object ignores for \<open>__proto__\<close>.\<close>

definition withoutProto :: "(jstr \<times> jstr) list \<Rightarrow> (jstr \<times> jstr) list" where
  "withoutProto hs = filter (\<lambda>(n, v). n \<noteq> lit ''__proto__'') hs"

fun keptHeaders :: "ProxyConfiguration \<Rightarrow> ProxyConfiguration" where
  "keptHeaders (HttpConnect c) = HttpConnect (c\<lparr>hp_nonSensitiveHeaders := withoutProto (hp_nonSensitiveHeaders c)\<rparr>)"
| "keptHeaders c = c"

lemma keyValueRecordFrom_rows:
  assumes "distinct (map fst (built @ hs))" and "[] \<notin> fst ` set hs"
  shows "keyValueRecordFrom built (headerRows hs) = Inr (built @ withoutProto hs)"
  using assms
proof (induction hs arbitrary: built)
  case (Cons e hs)
  then show ?case
    using Cons.IH [of built] Cons.IH [of "built @ [e]"]
    by (cases e) (auto simp: headerRows_def assignProperty_def withoutProto_def image_def)
qed (simp add: headerRows_def withoutProto_def)

lemma headers_rows:
  assumes "headersOk transport hs"
  shows "keyValueRecord (headerRows hs) = Inr (withoutProto hs)"
  unfolding keyValueRecord_def
proof (subst keyValueRecordFrom_rows)
  show "distinct (map fst ([] @ hs))"
    using assms by (auto simp: headersOk_def comp_def distinct_map inj_on_def)
  show "[] \<notin> fst ` set hs"
    using assms by (auto simp: headersOk_def headerEntry_def HTTP_HEADER_NAME_PATTERN_def)
qed simp

lemma headersOk_withoutProto: "headersOk transport hs \<Longrightarrow> headersOk transport (withoutProto hs)"
  by (auto simp: headersOk_def withoutProto_def distinct_map_filter sorted_filter intro: order.trans [OF length_filter_le])

lemma keptHeaders_ok: "ProxyConfiguration_ok U c \<Longrightarrow> ProxyConfiguration_ok U (keptHeaders c)"
  by (cases c) (auto simp: HttpConnect_ok_def headersOk_withoutProto)

lemma keptHeaders_same:
  "sshEndpoint (keptHeaders c) = sshEndpoint c" "credentialTypeForConfiguration (keptHeaders c) = credentialTypeForConfiguration c"
  by (cases c; simp add: sshEndpoint_def credentialTypeForConfiguration_def)+

lemma bounded_numbers:
  "connectTimeoutOk t \<Longrightarrow> numberOf P (stringOfInt t) = JInt t"
  "portOk t \<Longrightarrow> numberOf P (stringOfInt t) = JInt t"
  "1 \<le> t \<Longrightarrow> t \<le> 300000 \<Longrightarrow> numberOf P (stringOfInt t) = JInt t"
  by (auto simp: connectTimeoutOk_def portOk_def MAX_SAFE_INTEGER_def intro!: numberOf_stringOfInt)

lemma ssh_authentication_rebuilt:
  "xd_authentication d = sshAuthenticationType a \<Longrightarrow>
   xd_privateKeyPath d = (case a of SshPrivateKey p \<Rightarrow> p | _ \<Rightarrow> []) \<Longrightarrow>
   sshAuthenticationInput d = SshAuthentication_value a"
  by (cases a) (simp_all add: sshAuthenticationInput_def sshAuthenticationType_def sshAuthTypes_def enumName_def)

lemma proxy_configuration_rebuilt:
  assumes "ProxyConfiguration_ok U (pp_configuration p)"
  shows "buildProxyConfiguration P (createProxyEditorDraft (EditProxy p)) = Inr (ProxyConfiguration_value (keptHeaders (pp_configuration p)))"
proof (cases "pp_configuration p")
  case (HttpConnect c)
  then have "keyValueRecord (headerRows (hp_nonSensitiveHeaders c)) = Inr (withoutProto (hp_nonSensitiveHeaders c))"
    using assms by (auto simp: HttpConnect_ok_def intro: headers_rows)
  then show ?thesis
    using assms HttpConnect
    by (auto simp: buildProxyConfiguration_def createProxyEditorDraft_def HttpConnect_ok_def HttpConnect_value_def
        bounded_numbers optProp_def split: if_splits)
next
  case (Socks5 c)
  then show ?thesis
    using assms
    by (auto simp: buildProxyConfiguration_def createProxyEditorDraft_def Socks5_ok_def Socks5_value_def
        bounded_numbers optProp_def split: if_splits)
next
  case (Ssh c)
  then show ?thesis
    using assms
    by (auto simp: buildProxyConfiguration_def createProxyEditorDraft_def Ssh_ok_def Ssh_value_def
        bounded_numbers ssh_authentication_rebuilt)
qed

lemma create_proxy_complete:
  "profileName n \<Longrightarrow> ProxyConfiguration_ok U c \<Longrightarrow>
   normalizeCreateProxyProfileRequest U (JObj [jprop ''name'' (JStr n), jprop ''configuration'' (ProxyConfiguration_value c)]) =
     Inr \<lparr>cpr_name = n, cpr_configuration = c\<rparr>"
  by (simp add: normalizeCreateProxyProfileRequest_def contract_eval proxyConfigurationInput.complete)

lemma create_proxy_sound:
  "normalizeCreateProxyProfileRequest U v = Inr r \<Longrightarrow> profileName (cpr_name r) \<and> ProxyConfiguration_ok U (cpr_configuration r)"
  by (auto simp: normalizeCreateProxyProfileRequest_def contract_iff dest: proxyConfigurationInput.sound)

section \<open>Credentials\<close>

text \<open>The type of the credential that is stored once an intent is carried out.\<close>

definition credentialAfter :: "('c \<Rightarrow> 't) \<Rightarrow> 't option \<Rightarrow> ('c, 't) credential_intent \<Rightarrow> 't option" where
  "credentialAfter typeOf existing intent =
     (case intent of Keep \<Rightarrow> existing | SetCredential c \<Rightarrow> Some (typeOf c) | ClearCredential t \<Rightarrow> None)"

lemma set_proxy_credential:
  assumes "normalizeSetProxyCredentialRequest (proxyCredentialRequest mode t secret) = Inr n"
  shows "pc_type (spc_credential n) = t \<and> pc_value (spc_credential n) = secret \<and> ProxyCredential_ok (spc_credential n)"
proof -
  have "normalizeProxyCredential (JObj [jprop ''type'' (enumValue PROXY_CREDENTIAL_TYPES t), jprop ''value'' (JStr secret)])
      (dotted request ''credential'') = Inr (spc_credential n)"
    using assms by (auto simp: normalizeSetProxyCredentialRequest_def proxyCredentialRequest_def contract_iff)
  note parsed = this
  then have "spc_credential n = \<lparr>pc_type = t, pc_value = secret\<rparr>"
    by (auto simp: normalizeProxyCredential_def contract_iff Let_def split: if_splits)
  then show ?thesis using proxyCredential.sound [OF parsed] by simp
qed

lemma selected_secret_draft [simp]: "selectedSecret (createProxyEditorDraft (EditProxy p)) = []"
  by (simp add: selectedSecret_def createProxyEditorDraft_def Let_def split: ProxyConfiguration.split)

lemma clear_draft [simp]: "\<not> pd_clearExistingCredential (createProxyEditorDraft (EditProxy p))"
  by (simp add: createProxyEditorDraft_def emptyProxyDraft_def Let_def split: ProxyConfiguration.split)

lemma name_draft [simp]: "pd_name (createProxyEditorDraft (EditProxy p)) = pp_name p"
  by (simp add: createProxyEditorDraft_def emptyProxyDraft_def Let_def split: ProxyConfiguration.split)

definition credentialMandatory :: "ProxyConfiguration \<Rightarrow> bool" where
  "credentialMandatory c \<longleftrightarrow> credentialTypeForConfiguration c \<notin> {None, Some SshPrivateKeyPassphrase}"

lemma proxy_intent_consistent:
  assumes "buildProxyCredentialIntent mode draft c = Inr intent"
  shows "credentialAfter pc_type (existingProxyCredential mode) intent = credentialTypeForConfiguration c \<or>
    credentialAfter pc_type (existingProxyCredential mode) intent = None \<and> \<not> credentialMandatory c"
  using assms
  by (auto simp: buildProxyCredentialIntent_def Let_def credentialAfter_def credentialMandatory_def bindE_eq_Inr
      dest!: set_proxy_credential split: option.splits if_splits)

lemma proxy_intent_secret:
  assumes "buildProxyCredentialIntent mode draft c = Inr intent"
  shows "case intent of
      Keep \<Rightarrow> \<not> pd_clearExistingCredential draft \<or> existingProxyCredential mode = None
    | SetCredential s \<Rightarrow> pc_value s = selectedSecret draft \<and> ProxyCredential_ok s
    | ClearCredential t \<Rightarrow> existingProxyCredential mode = Some t"
  using assms
  by (auto simp: buildProxyCredentialIntent_def Let_def bindE_eq_Inr
      dest!: set_proxy_credential split: option.splits if_splits)

section \<open>Accepted submissions\<close>

lemma proxy_submission_parts:
  assumes "buildProxyEditorSubmission P U mode draft key = Inr s"
  shows "profileName (ps_name s)" "ProxyConfiguration_ok U (ps_configuration s)"
    "normalizeDraftHostKey mode (ps_configuration s) key = Inr (ps_sshHostKey s)"
    "buildProxyCredentialIntent mode draft (ps_configuration s) = Inr (ps_credentialIntent s)"
  using assms create_proxy_sound by (auto simp: buildProxyEditorSubmission_def bindE_eq_Inr)

lemma host_key_checked:
  assumes "normalizeDraftHostKey mode c key = Inr k"
  shows "k = key" "storedHostKey mode = Some h \<Longrightarrow> sshEndpoint c = Some (hk_host h, hk_port h)"
    "key = Some d \<Longrightarrow> sshEndpoint c = Some (kd_host d, kd_port d)"
  using assms by (auto simp: normalizeDraftHostKey_def Let_def split: option.splits if_splits)

end
