(* ===== verification/EditorErrors.thy ===== *)
theory EditorErrors
  imports ProxyEditorLaws
begin

text \<open>
  Which field of a form shows an error. A form searches the message of an exception of the
  contract for the names of its fields; here that search is shown to find the field whose check
  failed first, in the order of the checks. The locale \<open>field_check\<close> is the contract of one
  check: it accepts a value or throws, with the path it was given, one of the problems it knows. It
  is interpreted on every check that a profile goes through.
\<close>

section \<open>The first check that fails\<close>

definition firstInvalid :: "('f \<times> bool) list \<Rightarrow> 'f option" where
  "firstInvalid checks = map_option fst (find (\<lambda>c. \<not> snd c) checks)"

definition outcome :: "(contract_error \<Rightarrow> 'f) \<Rightarrow> contract_error + 'a \<Rightarrow> ('f \<times> bool) list \<Rightarrow> bool" where
  "outcome F m checks = (case firstInvalid checks of
     None \<Rightarrow> isOk m | Some f \<Rightarrow> (case m of Inl e \<Rightarrow> F e = f | Inr _ \<Rightarrow> False))"

lemma firstInvalid_simps [simp]:
  "firstInvalid [] = None" "firstInvalid ((f, b) # checks) = (if b then firstInvalid checks else Some f)"
  by (simp_all add: firstInvalid_def)

lemma outcome_Nil [simp]: "outcome F m [] = isOk m"
  by (simp add: outcome_def)

lemma outcome_passed [simp]: "outcome F m ((f, True) # checks) = outcome F m checks"
  by (simp add: outcome_def)

lemma outcome_failed [simp]: "outcome F (Inl e) ((f, False) # checks) = (F e = f)"
  by (simp add: outcome_def)

locale field_check =
  fixes check :: "'v \<Rightarrow> jstr \<Rightarrow> contract_error + 'a"
    and ok :: "'v \<Rightarrow> bool"
    and norm :: "'v \<Rightarrow> 'a"
    and problems :: "string list"
  assumes accepts: "ok v \<Longrightarrow> check v path = Inr (norm v)"
    and rejects: "\<not> ok v \<Longrightarrow> \<exists>q \<in> set problems. check v path = Inl (ConfigurationContractError path (lit q))"
begin

lemma step:
  assumes "list_all (\<lambda>q. F (ConfigurationContractError path (lit q)) = f) problems"
    and "ok v \<Longrightarrow> outcome F (k (norm v)) checks"
  shows "outcome F (bindE (check v path) k) ((f, ok v) # checks)"
proof (cases "ok v")
  case True
  then show ?thesis using assms(2) accepts [OF True, of path] by (simp add: outcome_def)
next
  case False
  then show ?thesis using assms(1) rejects [OF False, of path] by (auto simp: outcome_def list_all_iff)
qed

lemma iff: "isOk (check v path) \<longleftrightarrow> ok v"
  using accepts [of v path] rejects [of v path] by (cases "ok v") auto

end

text \<open>A check that is an \<open>if\<close> whose acceptance is known.\<close>

lemma field_check_if:
  assumes "\<And>v path y. check v path = Inr y \<longleftrightarrow> ok v \<and> y = norm v"
    and "\<And>v path e. check v path = Inl e \<Longrightarrow> \<exists>q \<in> set problems. e = ConfigurationContractError path (lit q)"
  shows "field_check check ok norm problems"
proof
  show "check v path = Inr (norm v)" if "ok v" for v path using that assms(1) by simp
  show "\<exists>q \<in> set problems. check v path = Inl (ConfigurationContractError path (lit q))" if "\<not> ok v" for v path
    using that assms by (cases "check v path") auto
qed

definition badNumber :: string where "badNumber = ''expected a safe integer''"

text \<open>A number of a draft, between bounds of the safe range.\<close>

definition numberBetween :: "int \<Rightarrow> int \<Rightarrow> jsval \<Rightarrow> bool" where
  "numberBetween low high v = (case v of JInt i \<Rightarrow> low \<le> i \<and> i \<le> high | _ \<Rightarrow> False)"

definition theInt :: "jsval \<Rightarrow> int" where
  "theInt v = (case v of JInt i \<Rightarrow> i | _ \<Rightarrow> 0)"

definition timeoutCheck :: "jsval \<Rightarrow> jstr \<Rightarrow> contract_error + int" where
  "timeoutCheck v path = bindE (expectSafeInteger v path) (\<lambda>t. validateConnectTimeout t path)"

definition keepAliveCheck :: "jsval \<Rightarrow> jstr \<Rightarrow> contract_error + int" where
  "keepAliveCheck v path = bindE (expectSafeInteger v path) (\<lambda>i. bindE (checkKeepAliveInterval i path) (\<lambda>_. Inr i))"

definition failuresCheck :: "jsval \<Rightarrow> jstr \<Rightarrow> contract_error + int" where
  "failuresCheck v path = bindE (expectSafeInteger v path) (\<lambda>i. bindE (checkKeepAliveFailures i path) (\<lambda>_. Inr i))"

lemma safe_integer_error: "expectSafeInteger v path = Inl e \<Longrightarrow> e = ConfigurationContractError path (lit badNumber)"
  by (auto simp: expectSafeInteger_def invalid_def badNumber_def split: jsval.splits if_splits)

lemma numberBetween_iff: "numberBetween low high v \<and> y = theInt v \<longleftrightarrow> v = JInt y \<and> low \<le> y \<and> y \<le> high"
  by (auto simp: numberBetween_def theInt_def split: jsval.splits)

lemmas error_unfold = bindE_eq_Inl rejectIf_def invalid_def Let_def

interpretation timeout: field_check timeoutCheck "numberBetween 1000 120000" theInt "[badNumber, ''contains an invalid connection timeout'']"
  by (rule field_check_if)
    (auto simp: timeoutCheck_def numberBetween_iff contract_iff connectTimeoutOk_def bindE_eq_Inl dest: safe_integer_error,
     auto simp: validateConnectTimeout_def invalid_def split: if_splits)

interpretation keepAlive: field_check keepAliveCheck "numberBetween 1000 300000" theInt "[badNumber, ''contains an invalid keep-alive interval'']"
  by (rule field_check_if)
    (auto simp: keepAliveCheck_def numberBetween_iff contract_iff error_unfold checkKeepAliveInterval_def
      split: if_splits dest: safe_integer_error)

interpretation failures: field_check failuresCheck "numberBetween 1 10" theInt "[badNumber, ''contains an invalid keep-alive failure count'']"
  by (rule field_check_if)
    (auto simp: failuresCheck_def numberBetween_iff contract_iff error_unfold checkKeepAliveFailures_def
      split: if_splits dest: safe_integer_error)

interpretation port: field_check expectPort "numberBetween 1 65535" theInt "[badNumber, ''expected a TCP port'']"
  by (rule field_check_if)
    (auto simp: expectPort_def numberBetween_iff contract_iff error_unfold split: if_splits dest: safe_integer_error)

interpretation name: field_check "\<lambda>v path. validateName v path False" "\<lambda>v. profileName (js_trim v)" js_trim "[''contains an invalid profile name'']"
  by (rule field_check_if) (auto simp: contract_iff, auto simp: validateName_def error_unfold split: if_splits)

interpretation username: field_check validateUsername usernameOk "\<lambda>v. v" "[''contains an invalid username'']"
  by (rule field_check_if) (auto simp: contract_iff, auto simp: validateUsername_def error_unfold split: if_splits)

interpretation host: field_check "validateHost U" "hostOk U" "\<lambda>v. v" "[''contains an invalid proxy host'']" for U
  by (rule field_check_if) (auto simp: contract_iff, auto simp: validateHost_def error_unfold split: if_splits option.splits)

interpretation path: field_check validateAbsolutePath absolutePath "\<lambda>v. v" "[''expected an absolute Linux path'']"
  by (rule field_check_if) (auto simp: contract_iff, auto simp: validateAbsolutePath_def error_unfold split: if_splits)

interpretation arguments: field_check validateArguments processArguments "\<lambda>v. v" "[''contains invalid process arguments'']"
  by (rule field_check_if) (auto simp: contract_iff, auto simp: validateArguments_def error_unfold split: if_splits)

text \<open>Rows are sorted before they are checked, so the checks of maps see sorted names.\<close>

lemma checkHeaders_error:
  "checkHeaders seen hs path transport = Inl e \<Longrightarrow> e = ConfigurationContractError path (lit ''contains an invalid non-sensitive header'')"
  by (induction seen hs path transport rule: checkHeaders.induct) (auto simp: error_unfold split: if_splits)

lemma checkEnvironment_error:
  "checkEnvironment env path = Inl e \<Longrightarrow> e = ConfigurationContractError path (lit ''contains an invalid non-sensitive environment variable'')"
  by (induction env path rule: checkEnvironment.induct) (auto simp: error_unfold split: if_splits)

interpretation headers: field_check "\<lambda>m path. validateHeaders (sortEntries m) path transport" "\<lambda>m. headersOk transport (sortEntries m)"
  sortEntries "[''contains too many headers'', ''contains an invalid non-sensitive header'']" for transport
  by (rule field_check_if)
    (auto simp: contract_iff headersOk_def sorted_sortEntries, auto simp: validateHeaders_def error_unfold split: if_splits dest: checkHeaders_error)

interpretation environment: field_check "\<lambda>m path. validateEnvironment (sortEntries m) path" "\<lambda>m. environmentOk (sortEntries m)"
  sortEntries "[''contains too many environment variables'', ''contains an invalid non-sensitive environment variable'']"
  by (rule field_check_if)
    (auto simp: contract_iff environmentOk_def sorted_sortEntries, auto simp: validateEnvironment_def error_unfold split: if_splits dest: checkEnvironment_error)

interpretation httpUrl: field_check "\<lambda>(u, tls). validateHttpProxyUrl U u tls" "\<lambda>(u, tls). httpProxyUrlOk U u tls" fst
  "[''contains an invalid URL'', ''contains an invalid HTTP proxy URL'', ''has an invalid TLS policy'']" for U
  by (rule field_check_if)
    (auto simp: contract_iff split: prod.splits, auto simp: validateHttpProxyUrl_def parseUrl_def error_unfold split: if_splits option.splits)

fun httpUsernameOk :: "HttpProxyAuthentication \<times> jstr option \<Rightarrow> bool" where
  "httpUsernameOk (a, Some u) \<longleftrightarrow> a = HpaBasic \<and> usernameOk u \<and> 0x3A \<notin> set u"
| "httpUsernameOk (a, None) \<longleftrightarrow> a \<noteq> HpaBasic"

fun optionalUsernameOk :: "bool \<times> jstr option \<Rightarrow> bool" where
  "optionalUsernameOk (required, Some u) \<longleftrightarrow> required \<and> usernameOk u"
| "optionalUsernameOk (required, None) \<longleftrightarrow> \<not> required"

lemma validateUsername_error: "validateUsername u path = Inl e \<Longrightarrow> e = ConfigurationContractError path (lit ''contains an invalid username'')"
  by (auto simp: validateUsername_def error_unfold split: if_splits)

lemma validateOptionalUsername_error: "validateOptionalUsername r u path = Inl e \<Longrightarrow>
   e \<in> (\<lambda>q. ConfigurationContractError path (lit q)) ` {''contains an invalid username'', ''is required by the authentication type'',
      ''must be omitted for this authentication type''}"
  by (auto simp: validateOptionalUsername_def error_unfold split: if_splits option.splits dest: validateUsername_error)

interpretation httpUsername: field_check "\<lambda>(a, u). validateHttpProxyUsername a u" httpUsernameOk snd
  "[''contains an invalid username'', ''is required by the authentication type'',
    ''must be omitted for this authentication type'', ''must not contain a colon for Basic authentication'']"
proof (rule field_check_if)
  show "(case v of (a, u) \<Rightarrow> validateHttpProxyUsername a u) path = Inr y \<longleftrightarrow> httpUsernameOk v \<and> y = snd v" for v path y
    by (cases v rule: httpUsernameOk.cases)
      (auto simp: contract_iff validateHttpProxyUsername_def validateOptionalUsername_def split: if_splits)
next
  fix v path e
  assume e: "(case v of (a, u) \<Rightarrow> validateHttpProxyUsername a u) path = Inl e"
  obtain a u where v: "v = (a, u)" by fastforce
  from e v have "validateOptionalUsername (a = HpaBasic) u path = Inl e \<or>
      e = ConfigurationContractError path (lit ''must not contain a colon for Basic authentication'')"
    by (auto simp: validateHttpProxyUsername_def bindE_eq_Inl invalid_def split: option.splits if_splits)
  then show "\<exists>q \<in> set [''contains an invalid username'', ''is required by the authentication type'',
    ''must be omitted for this authentication type'', ''must not contain a colon for Basic authentication''].
      e = ConfigurationContractError path (lit q)"
    by (auto dest: validateOptionalUsername_error)
qed

interpretation optionalUsername: field_check "\<lambda>(r, u). validateOptionalUsername r u" optionalUsernameOk snd
  "[''contains an invalid username'', ''is required by the authentication type'', ''must be omitted for this authentication type'']"
proof (rule field_check_if)
  show "(case v of (r, u) \<Rightarrow> validateOptionalUsername r u) path = Inr y \<longleftrightarrow> optionalUsernameOk v \<and> y = snd v" for v path y
    by (cases v rule: optionalUsernameOk.cases) (auto simp: contract_iff validateOptionalUsername_def split: if_splits)
qed (auto dest: validateOptionalUsername_error)

section \<open>Searching the message\<close>

lemma prefix_lit [simp]: "prefix (lit a) (lit b) = prefix a b"
proof (induction a arbitrary: b)
  case (Cons c a)
  then show ?case by (cases b) (simp_all add: lit_Cons)
qed simp

lemma includesSub_lit: "includesSub (lit a) (lit b) = includesSub a b"
proof (induction b)
  case (Cons c b)
  have "prefix (lit a) (of_char c # lit b) = prefix a (c # b)" using prefix_lit [of a "c # b"] by (simp add: lit_Cons)
  then show ?case using Cons by (simp add: lit_Cons)
qed simp

fun matchText :: "(string \<times> 'f \<times> jstr) list \<Rightarrow> 'f \<Rightarrow> string \<Rightarrow> 'f" where
  "matchText [] otherwise message = otherwise"
| "matchText ((part, f, text) # rest) otherwise message =
     (if includesSub part message then f else matchText rest otherwise message)"

lemma firstMatch_text: "fe_field (firstMatch table (f, t) (lit message)) = matchText table f message"
  by (induction table) (auto simp: includesSub_lit)

lemma contractMessage_text:
  "contractMessage (ConfigurationContractError (lit path) (lit problem)) =
     lit (''Invalid configuration contract at '' @ path @ '': '' @ problem)"
  by (simp add: contractMessage_def lit_def)

lemma dotted_lit: "dotted (lit path) key = lit (path @ ''.'' @ key)"
  by (simp add: dotted_def lit_def)

section \<open>Errors of the editor of proxies\<close>

definition proxyFieldOf :: "contract_error \<Rightarrow> ProxyEditorFieldName" where
  "proxyFieldOf e = fe_field (proxyFormError (ContractFailure e))"

lemma proxyFieldOf_text:
  "proxyFieldOf (ConfigurationContractError (lit path) (lit problem)) =
     matchText proxyFormErrors PfProxyType (''Invalid configuration contract at '' @ path @ '': '' @ problem)"
  by (simp add: proxyFieldOf_def proxyFormError_def contractMessage_text firstMatch_text)

text \<open>The path of a field of the request, and the field that each path is shown at.\<close>

abbreviation configurationPath :: "string \<Rightarrow> jstr" where
  "configurationPath key \<equiv> dotted requestConfiguration key"

lemma request_paths:
  "dotted request key = lit (''request.'' @ key)" "configurationPath key = lit (''request.configuration.'' @ key)"
  "dotted (configurationPath key) key' = lit (''request.configuration.'' @ key @ ''.'' @ key')"
  by (simp_all add: request_def requestConfiguration_def dotted_lit)

definition shownAt :: "string \<Rightarrow> string list \<Rightarrow> ProxyEditorFieldName \<Rightarrow> bool" where
  "shownAt path problems f = list_all (\<lambda>q. matchText proxyFormErrors PfProxyType
     (''Invalid configuration contract at '' @ path @ '': '' @ q) = f) problems"

lemma proxy_fields:
  "shownAt ''request.name'' [''contains an invalid profile name''] PfName"
  "shownAt ''request.configuration.username'' [''contains an invalid username'', ''is required by the authentication type'',
    ''must be omitted for this authentication type'', ''must not contain a colon for Basic authentication''] PfUsername"
  "shownAt ''request.configuration.username'' [''contains an invalid username'', ''is required by the authentication type'',
    ''must be omitted for this authentication type''] PfUsername"
  "shownAt ''request.configuration.username'' [''contains an invalid username''] PfUsername"
  "shownAt ''request.configuration.url'' [''contains an invalid URL'', ''contains an invalid HTTP proxy URL'', ''has an invalid TLS policy''] PfUrl"
  "shownAt ''request.configuration.nonSensitiveHeaders'' [''contains too many headers'', ''contains an invalid non-sensitive header''] PfNonSensitiveHeaders"
  "shownAt ''request.configuration.connectTimeoutMs'' [badNumber, ''contains an invalid connection timeout''] PfConnectTimeoutMs"
  "shownAt ''request.configuration.host'' [''contains an invalid proxy host''] PfHost"
  "shownAt ''request.configuration.port'' [badNumber, ''expected a TCP port''] PfPort"
  "shownAt ''request.configuration.keepAliveIntervalMs'' [badNumber, ''contains an invalid keep-alive interval''] PfKeepAliveIntervalMs"
  "shownAt ''request.configuration.keepAliveMaxFailures'' [badNumber, ''contains an invalid keep-alive failure count''] PfKeepAliveMaxFailures"
  "shownAt ''request.configuration.authentication.privateKeyPath'' [''expected an absolute Linux path''] PfPrivateKeyPath"
  by code_simp+

end
