(* ===== verification/ServerEditor.thy ===== *)
theory ServerEditor
  imports EditorErrors
begin

text \<open>
  The editor of servers, \<open>src/components/serverEditorModel.ts\<close>. Unlike a proxy, a server keeps
  its stored credential only while the identity of what it connects to stays the same: the
  executable and the names of the environment of a local server, the origin of a remote one.
\<close>

section \<open>Data\<close>

datatype ServerEditorMode = CreateServer | EditServer ServerProfile

type_synonym ServerCredentialIntent = "(ServerCredential, ServerCredentialType) credential_intent"

record ServerEditorSubmission =
  es_name :: jstr
  es_configuration :: ServerConfigurationInput
  es_credentialIntent :: ServerCredentialIntent

record LocalDraft =
  ld_executablePath :: jstr
  ld_arguments :: "jstr list"
  ld_defaultWorkingDirectory :: jstr
  ld_nonSensitiveEnvironment :: "KeyValueDraft list"
  ld_sensitiveEnvironment :: "KeyValueDraft list"

record RemoteDraft =
  rd_url :: jstr
  rd_authentication :: RemoteServerAuthentication
  rd_bearerToken :: jstr
  rd_nonSensitiveHeaders :: "KeyValueDraft list"
  rd_connectTimeoutMs :: jstr
  rd_tlsCertificatePolicy :: TlsCertificatePolicy
  rd_plaintextConfirmed :: bool
  rd_proxyId :: jstr

record ServerEditorDraft =
  ed_serverType :: server_type
  ed_name :: jstr
  ed_local :: LocalDraft
  ed_remote :: RemoteDraft
  ed_clearExistingCredential :: bool

datatype ServerEditorFieldName =
    SfServerType | SfName | SfExecutablePath | SfArguments | SfDefaultWorkingDirectory
  | SfNonSensitiveEnvironment | SfSensitiveEnvironment | SfUrl | SfAuthentication | SfBearerToken
  | SfNonSensitiveHeaders | SfConnectTimeoutMs | SfTlsCertificatePolicy | SfPlaintextConfirmed
  | SfProxyId | SfCredential

type_synonym server_form_failure = "ServerEditorFieldName form_failure"

section \<open>Drafts\<close>

definition EMPTY_LOCAL_DRAFT :: LocalDraft where
  "EMPTY_LOCAL_DRAFT = \<lparr>ld_executablePath = [], ld_arguments = [], ld_defaultWorkingDirectory = [],
     ld_nonSensitiveEnvironment = [], ld_sensitiveEnvironment = []\<rparr>"

definition EMPTY_REMOTE_DRAFT :: RemoteDraft where
  "EMPTY_REMOTE_DRAFT = \<lparr>rd_url = [], rd_authentication = RsaNone, rd_bearerToken = [], rd_nonSensitiveHeaders = [],
     rd_connectTimeoutMs = lit ''30000'', rd_tlsCertificatePolicy = TlsStrict, rd_plaintextConfirmed = False, rd_proxyId = []\<rparr>"

definition CREDENTIAL_VALIDATION_SERVER_ID :: ServerId where
  "CREDENTIAL_VALIDATION_SERVER_ID = lit ''00000000-0000-4000-8000-000000000000''"

text \<open>Rows in the order of \<open>localeCompare\<close> on the names.\<close>

definition sortedRows :: "form_platform \<Rightarrow> NonSensitiveValues \<Rightarrow> KeyValueDraft list" where
  "sortedRows P entries = map (\<lambda>(name, v). \<lparr>kv_name = name, kv_value = v\<rparr>)
     (sortBy (\<lambda>l r. fp_localeCompare P (fst l) (fst r)) entries)"

definition emptyServerDraft :: ServerEditorDraft where
  "emptyServerDraft = \<lparr>ed_serverType = LocalStdioType, ed_name = [], ed_local = EMPTY_LOCAL_DRAFT,
     ed_remote = EMPTY_REMOTE_DRAFT, ed_clearExistingCredential = False\<rparr>"

definition createServerEditorDraft :: "form_platform \<Rightarrow> ServerEditorMode \<Rightarrow> ServerEditorDraft" where
  "createServerEditorDraft P mode =
     (case mode of
        CreateServer \<Rightarrow> emptyServerDraft
      | EditServer profile \<Rightarrow>
          (case sp_configuration profile of
             LocalStdio c \<Rightarrow> emptyServerDraft\<lparr>ed_serverType := LocalStdioType, ed_name := sp_name profile, ed_local :=
               \<lparr>ld_executablePath = ls_executablePath c, ld_arguments = ls_arguments c,
                ld_defaultWorkingDirectory = orEmpty (ls_defaultWorkingDirectory c),
                ld_nonSensitiveEnvironment = sortedRows P (ls_nonSensitiveEnvironment c),
                ld_sensitiveEnvironment = []\<rparr>\<rparr>
           | RemoteWebSocket c \<Rightarrow> emptyServerDraft\<lparr>ed_serverType := RemoteWebSocketType, ed_name := sp_name profile, ed_remote :=
               \<lparr>rd_url = ws_url c, rd_authentication = ws_authentication c, rd_bearerToken = [],
                rd_nonSensitiveHeaders = sortedRows P (ws_nonSensitiveHeaders c),
                rd_connectTimeoutMs = stringOfInt (ws_connectTimeoutMs c),
                rd_tlsCertificatePolicy = ws_tlsCertificatePolicy c,
                rd_plaintextConfirmed = ws_plaintextConfirmed c, rd_proxyId = orEmpty (ws_proxyId c)\<rparr>\<rparr>))"

section \<open>What a stored credential is bound to\<close>

definition configurationCredentialType :: "ServerConfiguration \<Rightarrow> ServerCredentialType option" where
  "configurationCredentialType configuration =
     (case configuration of
        LocalStdio c \<Rightarrow> Some SensitiveEnvironmentType
      | RemoteWebSocket c \<Rightarrow> if ws_authentication c = RsaBearer then Some BearerTokenType else None)"

definition existingServerCredentialType :: "ServerEditorMode \<Rightarrow> ServerCredentialType option" where
  "existingServerCredentialType mode =
     (case mode of
        CreateServer \<Rightarrow> None
      | EditServer profile \<Rightarrow>
          if \<not> sp_credentialConfigured profile then None
          else configurationCredentialType (sp_configuration profile))"

definition isPlaintextWebSocketUrl :: "url_parser \<Rightarrow> jstr \<Rightarrow> bool" where
  "isPlaintextWebSocketUrl U v = (case U v of Some url \<Rightarrow> url_protocol url = lit ''ws:'' | None \<Rightarrow> False)"

text \<open>\<open>None\<close> where the constructor of \<open>URL\<close> throws.\<close>

definition normalizedOrigin :: "form_platform \<Rightarrow> url_parser \<Rightarrow> jstr \<Rightarrow> jstr option" where
  "normalizedOrigin P U v =
     (case U v of
        None \<Rightarrow> None
      | Some url \<Rightarrow>
          let port = (if fp_urlPort P v \<noteq> [] then fp_urlPort P v
                      else if url_protocol url = lit ''ws:'' then lit ''80'' else lit ''443'') in
          Some (url_protocol url @ lit ''//'' @ url_hostname url @ lit '':'' @ port))"

definition hasServerCredentialBindingChanged ::
  "form_platform \<Rightarrow> url_parser \<Rightarrow> ServerProfile \<Rightarrow> ServerConfigurationInput \<Rightarrow> server_form_failure + bool" where
  "hasServerCredentialBindingChanged P U profile configuration =
     (if \<not> sp_credentialConfigured profile then Inr False
      else (case (sp_configuration profile, configuration) of
          (LocalStdio previous, LocalStdio c) \<Rightarrow>
            Inr (ls_executablePath previous \<noteq> ls_executablePath c \<or>
              list_ex (\<lambda>name. name \<notin> fst ` set (ls_nonSensitiveEnvironment previous)) (map fst (ls_nonSensitiveEnvironment c)))
        | (RemoteWebSocket previous, RemoteWebSocket c) \<Rightarrow>
            if ws_authentication previous \<noteq> ws_authentication c then Inr True
            else (case (normalizedOrigin P U (ws_url previous), normalizedOrigin P U (ws_url c)) of
                (Some o1, Some o2) \<Rightarrow> Inr (o1 \<noteq> o2)
              | _ \<Rightarrow> Inl PlatformFailure)
        | _ \<Rightarrow> Inr True))"

section \<open>Submission\<close>

text \<open>
  Rows become a map; \<open>label\<close> names the list in the texts of errors. The map is built from entries,
  so that every name is an own property, and the names are distinct when it is built.
\<close>

fun rowsFrom ::
  "form_platform \<Rightarrow> ServerEditorFieldName \<Rightarrow> jstr \<Rightarrow> bool \<Rightarrow> nat \<Rightarrow> jstr list \<Rightarrow> KeyValueDraft list \<Rightarrow>
     server_form_failure + (jstr \<times> jstr) list" where
  "rowsFrom P f label insensitive index names [] = Inr []"
| "rowsFrom P f label insensitive index names (entry # rows) =
     (let name = js_trim (kv_name entry);
          comparisonName = (if insensitive then toLowerCase P name else name) in
      if name = [] then formError f (label @ form_nth @ decDigits (index + 1) @ form_itemNameRequired)
      else if comparisonName \<in> set names then formError f (label @ form_repeatedName @ name @ form_closingQuote)
      else bindE (rowsFrom P f label insensitive (index + 1) (comparisonName # names) rows) (\<lambda>result.
           Inr ((name, kv_value entry) # result)))"

definition serverKeyValueRecord ::
  "form_platform \<Rightarrow> KeyValueDraft list \<Rightarrow> ServerEditorFieldName \<Rightarrow> jstr \<Rightarrow> bool \<Rightarrow>
     server_form_failure + (jstr \<times> jstr) list" where
  "serverKeyValueRecord P rows f label insensitive = bindE (rowsFrom P f label insensitive 0 [] rows) (\<lambda>result.
     Inr (fromEntries result))"

definition environmentCredential ::
  "form_platform \<Rightarrow> LocalDraft \<Rightarrow> (jstr \<times> jstr) list \<Rightarrow> server_form_failure + jsval" where
  "environmentCredential P d nonSensitiveEnvironment =
     bindE (serverKeyValueRecord P (ld_sensitiveEnvironment d) SfSensitiveEnvironment form_sensitiveEnvironment False) (\<lambda>env.
     (case find (\<lambda>name. name \<in> fst ` set nonSensitiveEnvironment) (map fst env) of
        Some overlapping \<Rightarrow> formError SfSensitiveEnvironment (form_environmentVariable @ overlapping @ form_bothKinds)
      | None \<Rightarrow> Inr (JObj [jprop ''type'' (JStr (lit ''sensitiveEnvironment'')), jprop ''values'' (stringMapValue env)])))"

definition typedCredential ::
  "form_platform \<Rightarrow> ServerEditorDraft \<Rightarrow> (jstr \<times> jstr) list \<Rightarrow> server_form_failure + jsval option" where
  "typedCredential P draft nonSensitiveEnvironment =
     (if ed_serverType draft = LocalStdioType \<and> ld_sensitiveEnvironment (ed_local draft) \<noteq> []
      then bindE (environmentCredential P (ed_local draft) nonSensitiveEnvironment) (\<lambda>c. Inr (Some c))
      else if ed_serverType draft = RemoteWebSocketType \<and> rd_authentication (ed_remote draft) = RsaBearer \<and>
              rd_bearerToken (ed_remote draft) \<noteq> []
      then Inr (Some (JObj [jprop ''type'' (JStr (lit ''bearerToken'')), jprop ''value'' (JStr (rd_bearerToken (ed_remote draft)))]))
      else Inr None)"

definition serverCredentialRequest :: "jsval \<Rightarrow> jsval" where
  "serverCredentialRequest credential = JObj [jprop ''serverId'' (JStr CREDENTIAL_VALIDATION_SERVER_ID),
     jprop ''expectedVersion'' (JInt 1), jprop ''credential'' credential]"

definition buildServerCredentialIntent ::
  "form_platform \<Rightarrow> url_parser \<Rightarrow> ServerEditorMode \<Rightarrow> ServerEditorDraft \<Rightarrow> ServerConfigurationInput \<Rightarrow>
     (jstr \<times> jstr) list \<Rightarrow> server_form_failure + ServerCredentialIntent" where
  "buildServerCredentialIntent P U mode draft configuration nonSensitiveEnvironment =
     (let savedCredentialType = existingServerCredentialType mode;
          currentCredentialType = configurationCredentialType configuration in
      bindE (typedCredential P draft nonSensitiveEnvironment) (\<lambda>credential.
      (case credential of
         Some c \<Rightarrow>
           bindE (contractE (normalizeSetServerCredentialRequest (serverCredentialRequest c))) (\<lambda>normalized.
           Inr (SetCredential (ssc_credential normalized)))
       | None \<Rightarrow>
           (case (if ed_clearExistingCredential draft then savedCredentialType else None) of
              Some t \<Rightarrow> Inr (ClearCredential t)
            | None \<Rightarrow>
                if currentCredentialType = Some BearerTokenType \<and> savedCredentialType = None
                then formError SfBearerToken form_tokenRequired
                else if savedCredentialType \<noteq> None \<and> savedCredentialType \<noteq> currentCredentialType
                then formError SfCredential form_credentialUnusable
                else (case mode of
                    EditServer profile \<Rightarrow>
                      if savedCredentialType = None then Inr Keep
                      else bindE (hasServerCredentialBindingChanged P U profile configuration) (\<lambda>changed.
                           if changed then formError SfCredential form_bindingChanged else Inr Keep)
                  | CreateServer \<Rightarrow> Inr Keep)))))"

text \<open>The configuration a draft describes, and its plain environment.\<close>

definition buildServerConfiguration ::
  "form_platform \<Rightarrow> url_parser \<Rightarrow> jstr set \<Rightarrow> ServerEditorDraft \<Rightarrow> server_form_failure + jsval \<times> (jstr \<times> jstr) list" where
  "buildServerConfiguration P U availableProxyIds draft =
     (if ed_serverType draft = LocalStdioType then
        let d = ed_local draft in
        bindE (serverKeyValueRecord P (ld_nonSensitiveEnvironment d) SfNonSensitiveEnvironment form_plainEnvironment False) (\<lambda>env.
        Inr (JObj ([jprop ''type'' (JStr (lit ''localStdio'')), jprop ''executablePath'' (JStr (ld_executablePath d)),
               jprop ''arguments'' (JArr (map (Some \<circ> JStr) (ld_arguments d)))] @
               (if ld_defaultWorkingDirectory d = [] then []
                else [jprop ''defaultWorkingDirectory'' (JStr (ld_defaultWorkingDirectory d))]) @
               [jprop ''nonSensitiveEnvironment'' (stringMapValue env)]), env))
      else
        let d = ed_remote draft in
        if rd_proxyId d \<noteq> [] \<and> rd_proxyId d \<notin> availableProxyIds then formError SfProxyId form_proxyUnavailable
        else bindE (serverKeyValueRecord P (rd_nonSensitiveHeaders d) SfNonSensitiveHeaders form_plainHeaders True) (\<lambda>headers.
        Inr (JObj ([jprop ''type'' (JStr (lit ''remoteWebSocket'')), jprop ''url'' (JStr (rd_url d)),
               jprop ''authentication'' (enumValue serverAuthentications (rd_authentication d)),
               jprop ''nonSensitiveHeaders'' (stringMapValue headers),
               jprop ''connectTimeoutMs'' (numberOf P (rd_connectTimeoutMs d)),
               jprop ''tlsCertificatePolicy'' (enumValue tlsPolicies (rd_tlsCertificatePolicy d)),
               jprop ''plaintextConfirmed'' (JBool (isPlaintextWebSocketUrl U (rd_url d) \<and> rd_plaintextConfirmed d))] @
               (if rd_proxyId d = [] then [] else [jprop ''proxyId'' (JStr (rd_proxyId d))])), [])))"

definition buildServerEditorSubmission ::
  "form_platform \<Rightarrow> url_parser \<Rightarrow> ServerEditorMode \<Rightarrow> ServerEditorDraft \<Rightarrow> jstr set \<Rightarrow>
     server_form_failure + ServerEditorSubmission" where
  "buildServerEditorSubmission P U mode draft availableProxyIds =
     bindE (buildServerConfiguration P U availableProxyIds draft) (\<lambda>(configuration, nonSensitiveEnvironment).
     bindE (contractE (normalizeCreateServerProfileRequest U (JObj
              [jprop ''name'' (JStr (ed_name draft)), jprop ''configuration'' configuration]))) (\<lambda>normalized.
     bindE (buildServerCredentialIntent P U mode draft (csr_configuration normalized) nonSensitiveEnvironment) (\<lambda>intent.
     Inr \<lparr>es_name = csr_name normalized, es_configuration = csr_configuration normalized, es_credentialIntent = intent\<rparr>)))"

section \<open>Errors\<close>

definition serverFormErrors :: "(string \<times> ServerEditorFieldName \<times> jstr) list" where
  "serverFormErrors =
     [(''request.name'', SfName, form_serverName),
      (''executablePath'', SfExecutablePath, form_executablePath),
      (''defaultWorkingDirectory'', SfDefaultWorkingDirectory, form_workingDirectory),
      (''arguments'', SfArguments, form_serverArguments),
      (''nonSensitiveEnvironment'', SfNonSensitiveEnvironment, form_serverEnvironment),
      (''nonSensitiveHeaders'', SfNonSensitiveHeaders, form_serverHeaders),
      (''connectTimeoutMs'', SfConnectTimeoutMs, form_serverTimeout),
      (''plaintext confirmation'', SfPlaintextConfirmed, form_confirmPlaintext),
      (''TLS policy'', SfTlsCertificatePolicy, form_tlsPolicy),
      (''request.configuration.url'', SfUrl, form_serverUrl),
      (''request.credential'', SfCredential, form_serverCredential),
      (''proxyId'', SfProxyId, form_serverProxy)]"

definition formErrorFromUnknown :: "server_form_failure \<Rightarrow> ServerEditorFieldName form_error" where
  "formErrorFromUnknown failure =
     (case failure of
        FormError e \<Rightarrow> e
      | PlatformFailure \<Rightarrow> \<lparr>fe_field = SfServerType, fe_message = form_serverNotVerified\<rparr>
      | ContractFailure e \<Rightarrow> firstMatch serverFormErrors (SfServerType, form_serverInvalid) (contractMessage e))"

end
