(* ===== verification/ServerEditorLaws.thy ===== *)
theory ServerEditorLaws
  imports ServerEditor
begin

text \<open>
  What the editor of servers does with an allowed profile and with its stored credential: rows are
  a rearrangement of the map they come from, which the normaliser sorts again; and a credential is
  kept only for the connection it was stored for.
\<close>

section \<open>Rows\<close>

definition printable :: "code_unit \<Rightarrow> bool" where
  "printable c \<longleftrightarrow> 0x20 < c \<and> c < 0x80"

lemma trimmed:
  assumes "s \<noteq> []" and "list_all printable s"
  shows "js_trim s = s"
proof (rule js_trim_fixed [OF assms(1)])
  have "\<not> cu_space c" if "printable c" for c
    using that by (auto simp: printable_def cu_space_def word_less_nat_alt word_le_nat_alt)
  then show "\<not> cu_space (hd s)" "\<not> cu_space (last s)" using assms by (auto simp: list_all_iff)
qed

lemma printable_alnum: "cu_alnum c \<Longrightarrow> printable c"
  by (auto simp: printable_def cu_alnum_def cu_digit_def cu_lower_def cu_upper_def word_less_nat_alt word_le_nat_alt)

lemma printable_header:
  assumes "HTTP_HEADER_NAME_PATTERN n"
  shows "n \<noteq> [] \<and> list_all printable n"
proof -
  have "printable c" if "c \<in> set (lit ''!#$%&'' @ [0x27] @ lit ''*+-.^_'' @ [0x60] @ lit ''|~'')" for c
    using that by (auto simp: printable_def lit_Cons)
  then show ?thesis using assms printable_alnum unfolding HTTP_HEADER_NAME_PATTERN_def list_all_iff by blast
qed

lemma printable_environment:
  assumes "ENVIRONMENT_NAME_PATTERN n"
  shows "n \<noteq> [] \<and> list_all printable n"
proof -
  obtain c cs where n: "n = c # cs" and c: "cu_lower c \<or> cu_upper c \<or> c = 0x5F" and cs: "\<forall>d \<in> set cs. cu_alnum d \<or> d = 0x5F"
    using assms by (auto simp: ENVIRONMENT_NAME_PATTERN_def list_all_iff split: list.splits)
  have underscore: "printable 0x5F" by (simp add: printable_def)
  from c have "printable c" using printable_alnum underscore by (auto simp: cu_alnum_def)
  moreover have "\<forall>d \<in> set cs. printable d" using cs printable_alnum underscore by blast
  ultimately show ?thesis by (simp add: n list_all_iff)
qed

lemma printable_ascii: "list_all printable n \<Longrightarrow> isAscii n"
  by (auto simp: isAscii_def list_all_iff printable_def)

definition rowKey :: "form_platform \<Rightarrow> bool \<Rightarrow> jstr \<Rightarrow> jstr" where
  "rowKey P insensitive name = (if insensitive then toLowerCase P name else name)"

lemma rowsFrom_entries:
  assumes "\<forall>(n, v) \<in> set m. n \<noteq> [] \<and> js_trim n = n"
    and "distinct (map (rowKey P insensitive \<circ> fst) m)" and "rowKey P insensitive ` fst ` set m \<inter> set names = {}"
  shows "rowsFrom P f label insensitive index names (map (\<lambda>(n, v). \<lparr>kv_name = n, kv_value = v\<rparr>) m) = Inr m"
  using assms
proof (induction m arbitrary: index names)
  case (Cons e m)
  have "rowsFrom P f label insensitive (index + 1) (rowKey P insensitive (fst e) # names)
      (map (\<lambda>(n, v). \<lparr>kv_name = n, kv_value = v\<rparr>) m) = Inr m"
    using Cons.prems by (intro Cons.IH) auto
  then show ?case using Cons.prems by (cases e) (auto simp: Let_def rowKey_def [symmetric])
qed simp

text \<open>A map of the contract: distinct names that need no trimming.\<close>

definition rowsOk :: "form_platform \<Rightarrow> bool \<Rightarrow> (jstr \<times> jstr) list \<Rightarrow> bool" where
  "rowsOk P insensitive m \<longleftrightarrow> sorted (map fst m) \<and> distinct (map fst m) \<and>
     distinct (map (rowKey P insensitive \<circ> fst) m) \<and> (\<forall>(n, v) \<in> set m. n \<noteq> [] \<and> js_trim n = n)"

lemma sortEntries_mset:
  assumes "mset m = mset m'" and "sorted (map fst m)" and "distinct (map fst m)"
  shows "sortEntries m' = m"
proof (rule map_sorted_distinct_set_unique)
  have sets: "set (sortEntries m') = set m" using mset_eq_setD [OF assms(1)] by (simp add: sortEntries_def)
  then show "set (sortEntries m') = set m" .
  show "inj_on fst (set (sortEntries m') \<union> set m)" unfolding sets using assms(3) by (simp add: distinct_map)
  have "mset (map fst (sortEntries m')) = mset (map fst m)" by (simp add: sortEntries_def assms(1))
  from mset_eq_imp_distinct_iff [OF this] assms(3) show "distinct (map fst (sortEntries m'))" by simp
  show "sorted (map fst (sortEntries m'))" by (rule sorted_sortEntries)
qed (rule assms)+

lemma sorted_rows:
  assumes "rowsOk P insensitive m"
  shows "\<exists>m'. serverKeyValueRecord P (sortedRows P m) f label insensitive = Inr m' \<and> sortEntries m' = m"
proof -
  let ?m = "sortBy (\<lambda>l r. fp_localeCompare P (fst l) (fst r)) m"
  have perm: "mset ?m = mset m" by (rule sortBy_mset)
  then have sets: "set ?m = set m" by (rule mset_eq_setD)
  have "distinct (map g ?m) = distinct (map g m)" for g :: "jstr \<times> jstr \<Rightarrow> jstr"
    by (rule mset_eq_imp_distinct_iff) (simp only: mset_map perm)
  then have dist: "distinct (map fst ?m)" "distinct (map (rowKey P insensitive \<circ> fst) ?m)"
    using assms by (simp_all only: rowsOk_def)
  have "rowsFrom P f label insensitive 0 [] (sortedRows P m) = Inr ?m"
    unfolding sortedRows_def using assms dist by (intro rowsFrom_entries) (simp_all only: sets rowsOk_def, simp_all)
  moreover have "mset m = mset (fromEntries ?m)" using dist(1) by (simp add: fromEntries_distinct perm)
  ultimately show ?thesis
    using assms by (auto simp: serverKeyValueRecord_def rowsOk_def intro: sortEntries_mset)
qed

lemma headers_rowsOk:
  assumes "headersOk transport hs"
  shows "rowsOk P True hs"
proof -
  have names: "\<forall>(n, v) \<in> set hs. n \<noteq> [] \<and> list_all printable n"
    using assms by (auto simp: headersOk_def headerEntry_def dest: printable_header)
  then have "map (rowKey P True \<circ> fst) hs = map (asciiLower \<circ> fst) hs"
    by (fastforce simp: rowKey_def intro: toLowerCase_ascii printable_ascii)
  then have "distinct (map (rowKey P True \<circ> fst) hs)" using assms by (simp only: headersOk_def)
  moreover have "distinct (map fst hs)" using assms by (auto simp: headersOk_def distinct_map inj_on_def)
  ultimately show ?thesis using assms names unfolding rowsOk_def headersOk_def by (auto intro: trimmed)
qed

lemma environment_rowsOk: "environmentOk env \<Longrightarrow> distinct (map fst env) \<Longrightarrow> rowsOk P False env"
  by (fastforce simp: rowsOk_def environmentOk_def environmentEntry_def rowKey_def comp_def dest: printable_environment intro: trimmed)

section \<open>From a profile to a draft and back\<close>

text \<open>The names of a string map of a profile are distinct, as those of every object are.\<close>

fun properServer :: "ServerConfiguration \<Rightarrow> bool" where
  "properServer (LocalStdio c) = distinct (map fst (ls_nonSensitiveEnvironment c))"
| "properServer (RemoteWebSocket c) = True"

fun serverProxyId :: "ServerConfiguration \<Rightarrow> ProxyId option" where
  "serverProxyId (LocalStdio c) = None"
| "serverProxyId (RemoteWebSocket c) = ws_proxyId c"

lemma working_directory_rebuilt:
  "pred_option absolutePath d \<Longrightarrow>
   (if orEmpty d = [] then [] else [jprop k (JStr (orEmpty d))]) = optProp k JStr d"
  by (cases d) (auto simp: optProp_def absolutePath_def)

lemma proxy_id_rebuilt:
  "pred_option UUID_PATTERN d \<Longrightarrow>
   (if orEmpty d = [] then [] else [jprop k (JStr (orEmpty d))]) = optProp k JStr d"
  by (cases d) (auto simp: optProp_def UUID_PATTERN_def matchesClasses_def)

lemma local_input_permuted:
  assumes "LocalStdio_ok c" and "sortEntries env = ls_nonSensitiveEnvironment c"
  shows "normalizeServerConfigurationInput U (LocalStdio_value (c\<lparr>ls_nonSensitiveEnvironment := env\<rparr>)) path = Inr (LocalStdio c)"
  using assms
  by (cases "ls_defaultWorkingDirectory c")
    (simp_all add: normalizeServerConfigurationInput_def LocalStdio_value_def LocalStdio_ok_def contract_eval serverTypes_def)

lemma remote_input_permuted:
  assumes "RemoteWebSocket_ok U c" and "sortEntries hs = ws_nonSensitiveHeaders c"
  shows "normalizeServerConfigurationInput U (RemoteWebSocket_value (c\<lparr>ws_nonSensitiveHeaders := hs\<rparr>)) path = Inr (RemoteWebSocket c)"
  using assms
  by (cases "ws_proxyId c")
    (simp_all add: normalizeServerConfigurationInput_def RemoteWebSocket_value_def RemoteWebSocket_ok_def contract_eval
      serverTypes_def parseTlsPolicy_def del: isSafeInt_bounds)

lemma plaintext_rebuilt:
  "webSocketUrlOk U u pc tls \<Longrightarrow> (isPlaintextWebSocketUrl U u \<and> pc) = pc"
  by (auto simp: webSocketUrlOk_def isPlaintextWebSocketUrl_def)

lemma server_configuration_rebuilt:
  assumes ok: "ServerConfiguration_ok U (sp_configuration p)" and proper: "properServer (sp_configuration p)"
    and proxy: "set_option (serverProxyId (sp_configuration p)) \<subseteq> available"
  shows "\<exists>v env. buildServerConfiguration P U available (createServerEditorDraft P (EditServer p)) = Inr (v, env) \<and>
    normalizeServerConfigurationInput U v path = Inr (sp_configuration p)"
proof (cases "sp_configuration p")
  case (LocalStdio c)
  then have c: "LocalStdio_ok c" "rowsOk P False (ls_nonSensitiveEnvironment c)"
    using ok proper by (auto simp: LocalStdio_ok_def intro: environment_rowsOk)
  from sorted_rows [OF c(2)] obtain env where env:
    "serverKeyValueRecord P (sortedRows P (ls_nonSensitiveEnvironment c)) SfNonSensitiveEnvironment form_plainEnvironment False = Inr env"
    "sortEntries env = ls_nonSensitiveEnvironment c" by blast
  have "buildServerConfiguration P U available (createServerEditorDraft P (EditServer p)) =
      Inr (LocalStdio_value (c\<lparr>ls_nonSensitiveEnvironment := env\<rparr>), env)"
    using LocalStdio c(1) env(1) working_directory_rebuilt [of "ls_defaultWorkingDirectory c" "''defaultWorkingDirectory''"]
    by (simp add: buildServerConfiguration_def createServerEditorDraft_def LocalStdio_value_def LocalStdio_ok_def Let_def split: if_splits)
  then show ?thesis using local_input_permuted [OF c(1) env(2)] LocalStdio by auto
next
  case (RemoteWebSocket c)
  then have c: "RemoteWebSocket_ok U c" "rowsOk P True (ws_nonSensitiveHeaders c)"
    using ok by (auto simp: RemoteWebSocket_ok_def intro: headers_rowsOk)
  from sorted_rows [OF c(2)] obtain hs where hs:
    "serverKeyValueRecord P (sortedRows P (ws_nonSensitiveHeaders c)) SfNonSensitiveHeaders form_plainHeaders True = Inr hs"
    "sortEntries hs = ws_nonSensitiveHeaders c" by blast
  have "orEmpty (ws_proxyId c) = [] \<or> orEmpty (ws_proxyId c) \<in> available"
    using proxy RemoteWebSocket by (cases "ws_proxyId c") auto
  then have "buildServerConfiguration P U available (createServerEditorDraft P (EditServer p)) =
      Inr (RemoteWebSocket_value (c\<lparr>ws_nonSensitiveHeaders := hs\<rparr>), [])"
    using RemoteWebSocket c(1) hs(1) proxy_id_rebuilt [of "ws_proxyId c" "''proxyId''"] plaintext_rebuilt
    by (auto simp: buildServerConfiguration_def createServerEditorDraft_def RemoteWebSocket_value_def RemoteWebSocket_ok_def
        bounded_numbers Let_def)
  then show ?thesis using remote_input_permuted [OF c(1) hs(2)] RemoteWebSocket by auto
qed

lemma server_proxy_unavailable:
  assumes "ServerConfiguration_ok U (sp_configuration p)" and "\<not> set_option (serverProxyId (sp_configuration p)) \<subseteq> available"
  shows "buildServerConfiguration P U available (createServerEditorDraft P (EditServer p)) = formError SfProxyId form_proxyUnavailable"
proof (cases "sp_configuration p")
  case (LocalStdio c)
  with assms(2) show ?thesis by simp
next
  case (RemoteWebSocket c)
  then obtain i where i: "ws_proxyId c = Some i" "i \<notin> available" using assms(2) by (cases "ws_proxyId c") auto
  then have "i \<noteq> []" using assms(1) RemoteWebSocket by (auto simp: RemoteWebSocket_ok_def UUID_PATTERN_def matchesClasses_def)
  with i RemoteWebSocket show ?thesis
    by (simp add: buildServerConfiguration_def createServerEditorDraft_def Let_def)
qed

lemma server_draft_facts [simp]:
  "typedCredential P (createServerEditorDraft P (EditServer p)) plain = Inr None"
  "\<not> ed_clearExistingCredential (createServerEditorDraft P (EditServer p))"
  "ed_name (createServerEditorDraft P (EditServer p)) = sp_name p"
  by (simp_all add: typedCredential_def createServerEditorDraft_def emptyServerDraft_def Let_def split: ServerConfiguration.split)

section \<open>Credentials\<close>

fun credentialKind :: "ServerCredential \<Rightarrow> ServerCredentialType" where
  "credentialKind (SensitiveEnvironment _) = SensitiveEnvironmentType"
| "credentialKind (BearerToken _) = BearerTokenType"

text \<open>The connection a credential was stored for is still the one that is configured.\<close>

fun sameBinding :: "form_platform \<Rightarrow> url_parser \<Rightarrow> ServerConfiguration \<Rightarrow> ServerConfiguration \<Rightarrow> bool" where
  "sameBinding P U (LocalStdio a) (LocalStdio b) \<longleftrightarrow> ls_executablePath a = ls_executablePath b \<and>
     fst ` set (ls_nonSensitiveEnvironment b) \<subseteq> fst ` set (ls_nonSensitiveEnvironment a)"
| "sameBinding P U (RemoteWebSocket a) (RemoteWebSocket b) \<longleftrightarrow> ws_authentication a = ws_authentication b \<and>
     normalizedOrigin P U (ws_url a) \<noteq> None \<and> normalizedOrigin P U (ws_url a) = normalizedOrigin P U (ws_url b)"
| "sameBinding P U _ _ \<longleftrightarrow> False"

lemma binding_unchanged:
  "sp_credentialConfigured p \<Longrightarrow> hasServerCredentialBindingChanged P U p c = Inr False \<Longrightarrow> sameBinding P U (sp_configuration p) c"
  by (cases "sp_configuration p"; cases c)
    (auto simp: hasServerCredentialBindingChanged_def list_ex_iff split: if_splits option.splits)

lemma same_binding_refl: "ServerConfiguration_ok U c \<Longrightarrow> sameBinding P U c c"
  by (cases c) (auto simp: RemoteWebSocket_ok_def webSocketUrlOk_def normalizedOrigin_def Let_def)

lemma binding_same:
  "sameBinding P U (sp_configuration p) c \<Longrightarrow> hasServerCredentialBindingChanged P U p c = Inr False"
  by (cases "sp_configuration p"; cases c)
    (auto simp: hasServerCredentialBindingChanged_def list_ex_iff split: option.splits)

lemma set_server_credential:
  assumes "normalizeSetServerCredentialRequest (serverCredentialRequest v) = Inr n"
  shows "normalizeServerCredential v (dotted request ''credential'') = Inr (ssc_credential n)"
  using assms by (auto simp: normalizeSetServerCredentialRequest_def serverCredentialRequest_def contract_iff)

lemma stringMapValue_inject [simp]: "stringMapValue m = stringMapValue m' \<longleftrightarrow> m = m'"
proof
  have "inj (\<lambda>(k :: jstr, v :: jstr). (KStr k, JStr v))" by (auto simp: inj_def)
  then show "m = m'" if "stringMapValue m = stringMapValue m'" using that by (simp add: stringMapValue_def inj_map_eq_map)
qed simp

text \<open>What the rows of a sensitive environment and a typed token become.\<close>

lemma typed_environment:
  assumes "environmentCredential P d plain = Inr v" and "normalizeServerCredential v path = Inr c"
  shows "credentialKind c = SensitiveEnvironmentType \<and>
    (\<forall>env. c = SensitiveEnvironment env \<longrightarrow> fst ` set env \<inter> fst ` set plain = {})"
proof -
  from assms(1) obtain env where v: "v = JObj [jprop ''type'' (JStr (lit ''sensitiveEnvironment'')), jprop ''values'' (stringMapValue env)]"
    and "find (\<lambda>name. name \<in> fst ` set plain) (map fst env) = None"
    by (auto simp: environmentCredential_def bindE_eq_Inr split: option.splits)
  then have disjoint: "fst ` set env \<inter> fst ` set plain = {}" by (auto simp: find_None_iff)
  from assms(2) obtain env' where "c = SensitiveEnvironment env'" "set env' = set env"
    unfolding v by (auto simp: normalizeServerCredential_def contract_iff SERVER_CREDENTIAL_TYPES_def sortEntries_def
        split: ServerCredentialType.splits)
  then show ?thesis using disjoint by simp
qed

lemma typed_token:
  "normalizeServerCredential (JObj [jprop ''type'' (JStr (lit ''bearerToken'')), jprop ''value'' (JStr t)]) path = Inr c \<Longrightarrow> c = BearerToken t"
  by (auto simp: normalizeServerCredential_def contract_iff SERVER_CREDENTIAL_TYPES_def split: ServerCredentialType.splits)

definition accepted :: "form_platform \<Rightarrow> url_parser \<Rightarrow> ServerEditorMode \<Rightarrow> bool \<Rightarrow> ServerConfiguration \<Rightarrow> ServerCredentialIntent \<Rightarrow> bool" where
  "accepted P U mode clear c intent \<longleftrightarrow>
     (case intent of
        Keep \<Rightarrow> (case mode of EditServer p \<Rightarrow> existingServerCredentialType mode \<noteq> None \<longrightarrow> sameBinding P U (sp_configuration p) c | CreateServer \<Rightarrow> True) \<and>
          existingServerCredentialType mode \<in> {None, configurationCredentialType c} \<and>
          (existingServerCredentialType mode = None \<longrightarrow> configurationCredentialType c \<noteq> Some BearerTokenType)
      | SetCredential s \<Rightarrow> ServerCredential_ok s \<and> configurationCredentialType c = Some (credentialKind s)
      | ClearCredential t \<Rightarrow> clear \<and> existingServerCredentialType mode = Some t)"

lemma configured: "existingServerCredentialType (EditServer p) = Some t \<Longrightarrow> sp_credentialConfigured p"
  by (simp add: existingServerCredentialType_def split: if_splits)

lemma server_intent_accepted:
  assumes "buildServerCredentialIntent P U mode draft c plain = Inr intent"
    and type: "case c of LocalStdio _ \<Rightarrow> ed_serverType draft = LocalStdioType
      | RemoteWebSocket r \<Rightarrow> ed_serverType draft = RemoteWebSocketType \<and> ws_authentication r = rd_authentication (ed_remote draft)"
  shows "accepted P U mode (ed_clearExistingCredential draft) c intent"
proof -
  from assms(1) obtain typed where typed: "typedCredential P draft plain = Inr typed"
    by (auto simp: buildServerCredentialIntent_def Let_def bindE_eq_Inr)
  show ?thesis
  proof (cases typed)
    case (Some v)
    with assms(1) typed obtain n where n: "normalizeSetServerCredentialRequest (serverCredentialRequest v) = Inr n"
      and intent: "intent = SetCredential (ssc_credential n)"
      by (auto simp: buildServerCredentialIntent_def Let_def bindE_eq_Inr)
    note parsed = set_server_credential [OF n]
    have "configurationCredentialType c = Some (credentialKind (ssc_credential n))"
      using typed Some type parsed typed_environment [OF _ parsed]
      by (auto simp: typedCredential_def configurationCredentialType_def bindE_eq_Inr split: if_splits ServerConfiguration.splits
          dest: typed_token)
    then show ?thesis using serverCredential.sound [OF parsed] by (simp add: accepted_def intent)
  next
    case None
    have binding: "existingServerCredentialType (EditServer p) = Some t \<Longrightarrow> hasServerCredentialBindingChanged P U p c = Inr False
        \<Longrightarrow> sameBinding P U (sp_configuration p) c" for p t
      by (blast intro: binding_unchanged configured)
    from None assms(1) typed binding show ?thesis
      by (cases mode)
        (auto simp: buildServerCredentialIntent_def Let_def bindE_eq_Inr accepted_def existingServerCredentialType_def
          split: if_splits option.splits)
  qed
qed

section \<open>Accepted submissions\<close>

lemma server_configuration_shape:
  assumes "buildServerConfiguration P U available draft = Inr (v, plain)" and "normalizeServerConfigurationInput U v path = Inr c"
  shows "case c of
      LocalStdio l \<Rightarrow> ed_serverType draft = LocalStdioType \<and> fst ` set (ls_nonSensitiveEnvironment l) = fst ` set plain
    | RemoteWebSocket r \<Rightarrow> ed_serverType draft = RemoteWebSocketType \<and> ws_authentication r = rd_authentication (ed_remote draft)"
proof (cases "ed_serverType draft")
  case LocalStdioType
  with assms show ?thesis
    by (cases "ld_defaultWorkingDirectory (ed_local draft) = []")
      (auto simp: buildServerConfiguration_def normalizeServerConfigurationInput_def inputStringMap_def serverTypes_def contract_iff
        sortEntries_def Let_def)
next
  case RemoteWebSocketType
  with assms show ?thesis
    by (cases "rd_proxyId (ed_remote draft) = []")
      (auto simp: buildServerConfiguration_def normalizeServerConfigurationInput_def serverTypes_def contract_iff Let_def split: if_splits)
qed

lemma create_server_parts:
  "normalizeCreateServerProfileRequest U (JObj [jprop ''name'' (JStr n), jprop ''configuration'' v]) = Inr r \<longleftrightarrow>
   validateName n (dotted request ''name'') False = Inr (csr_name r) \<and>
   normalizeServerConfigurationInput U v requestConfiguration = Inr (csr_configuration r)"
  by (cases r) (auto simp: normalizeCreateServerProfileRequest_def contract_iff)

lemma server_submission_parts:
  assumes "buildServerEditorSubmission P U mode draft available = Inr s"
  obtains v plain where "buildServerConfiguration P U available draft = Inr (v, plain)"
    "normalizeServerConfigurationInput U v requestConfiguration = Inr (es_configuration s)"
    "buildServerCredentialIntent P U mode draft (es_configuration s) plain = Inr (es_credentialIntent s)"
    "es_name s = js_trim (ed_name draft)" "profileName (es_name s)"
  using assms
  by (auto simp: buildServerEditorSubmission_def bindE_eq_Inr create_server_parts contract_iff)

text \<open>The names of a sensitive environment that a submission stores.\<close>

fun newEnvironmentNames :: "ServerCredentialIntent \<Rightarrow> jstr set" where
  "newEnvironmentNames (SetCredential (SensitiveEnvironment env)) = fst ` set env"
| "newEnvironmentNames _ = {}"

lemma intent_environment:
  assumes "buildServerCredentialIntent P U mode draft c plain = Inr intent"
  shows "newEnvironmentNames intent \<inter> fst ` set plain = {}"
proof (cases intent rule: newEnvironmentNames.cases)
  case (1 env)
  with assms obtain v n where v: "typedCredential P draft plain = Inr (Some v)"
    and n: "normalizeSetServerCredentialRequest (serverCredentialRequest v) = Inr n" "ssc_credential n = SensitiveEnvironment env"
    by (auto simp: buildServerCredentialIntent_def Let_def bindE_eq_Inr split: option.splits if_splits ServerEditorMode.splits)
  note parsed = set_server_credential [OF n(1)]
  from v show ?thesis
    using typed_environment [OF _ parsed] n(2) parsed
    by (auto simp: typedCredential_def bindE_eq_Inr 1 split: if_splits dest: typed_token)
qed auto

end
