(* ===== verification/ProxyEditorErrors.thy ===== *)
theory ProxyEditorErrors
  imports EditorErrors
begin

text \<open>
  The checks that a draft of a proxy goes through, in their order, and that a rejected draft is
  shown at the field of the first check that fails.
\<close>

definition proxyChecks :: "form_platform \<Rightarrow> url_parser \<Rightarrow> ProxyEditorDraft \<Rightarrow> (ProxyEditorFieldName \<times> bool) list" where
  "proxyChecks P U draft =
     (PfName, profileName (js_trim (pd_name draft))) #
     (case pd_proxyType draft of
        HttpConnectType \<Rightarrow>
          let d = pd_httpConnect draft in
          [(PfUsername, hd_authentication d = HpaBasic \<longrightarrow> usernameOk (hd_username d) \<and> 0x3A \<notin> set (hd_username d)),
           (PfUrl, httpProxyUrlOk U (hd_url d) (hd_tlsCertificatePolicy d)),
           (PfNonSensitiveHeaders, case keyValueRecord (hd_nonSensitiveHeaders d) of
              Inl _ \<Rightarrow> False | Inr headers \<Rightarrow> headersOk HttpConnectTransport (sortEntries headers)),
           (PfConnectTimeoutMs, numberBetween 1000 120000 (numberOf P (hd_connectTimeoutMs d)))]
      | Socks5Type \<Rightarrow>
          let d = pd_socks5 draft in
          [(PfUsername, sd_authentication d = SkaUsernamePassword \<longrightarrow> usernameOk (sd_username d)),
           (PfHost, hostOk U (sd_host d)),
           (PfPort, numberBetween 1 65535 (numberOf P (sd_port d))),
           (PfConnectTimeoutMs, numberBetween 1000 120000 (numberOf P (sd_connectTimeoutMs d)))]
      | SshType \<Rightarrow>
          let d = pd_ssh draft in
          [(PfKeepAliveIntervalMs, numberBetween 1000 300000 (numberOf P (xd_keepAliveIntervalMs d))),
           (PfKeepAliveMaxFailures, numberBetween 1 10 (numberOf P (xd_keepAliveMaxFailures d))),
           (PfHost, hostOk U (xd_host d)),
           (PfPort, numberBetween 1 65535 (numberOf P (xd_port d))),
           (PfUsername, usernameOk (xd_username d)),
           (PfPrivateKeyPath, xd_authentication d = AuthPrivateKey \<longrightarrow> absolutePath (xd_privateKeyPath d)),
           (PfConnectTimeoutMs, numberBetween 1000 120000 (numberOf P (xd_connectTimeoutMs d)))])"

lemma shown_field:
  "shownAt path problems f \<Longrightarrow> list_all (\<lambda>q. proxyFieldOf (ConfigurationContractError (lit path) (lit q)) = f) problems"
  by (simp add: shownAt_def proxyFieldOf_text)

lemmas proxy_shown = proxy_fields [THEN shown_field, folded request_paths [simplified]]

lemma private_key_shown: "proxyFieldOf (ConfigurationContractError (dotted (configurationPath ''authentication'') ''privateKeyPath'')
    (lit ''expected an absolute Linux path'')) = PfPrivateKeyPath"
  using proxy_fields(12) [THEN shown_field] by (simp add: request_paths dotted_lit)

lemma outcome_Inr [simp]: "outcome F (Inr x) checks \<longleftrightarrow> firstInvalid checks = None"
  by (simp add: outcome_def split: option.split)

lemma fold_timeout: "bindE (expectSafeInteger v p) (\<lambda>t. bindE (validateConnectTimeout t p) k) = bindE (timeoutCheck v p) k"
  by (simp add: timeoutCheck_def bindE_assoc)

lemma fold_keepAlive: "bindE (expectSafeInteger v p) (\<lambda>t. bindE (checkKeepAliveInterval t p) (\<lambda>_. k t)) = bindE (keepAliveCheck v p) k"
  by (simp add: keepAliveCheck_def bindE_assoc)

lemma fold_failures: "bindE (expectSafeInteger v p) (\<lambda>t. bindE (checkKeepAliveFailures t p) (\<lambda>_. k t)) = bindE (failuresCheck v p) k"
  by (simp add: failuresCheck_def bindE_assoc)

lemmas fold_checks = fold_timeout fold_keepAlive fold_failures

lemma outcome_bind_Inr: "outcome F m checks \<Longrightarrow> outcome F (bindE m (\<lambda>x. Inr (g x))) checks"
  by (cases m) (auto simp: outcome_def split: option.splits)

lemmas httpUsername_step = httpUsername.step [where v = "(a, if a = HpaBasic then Some u else None)" for a u, simplified prod.case]
lemmas optionalUsername_step = optionalUsername.step [where v = "(r, if r then Some u else None)" for r u, simplified prod.case]
lemmas httpUrl_step = httpUrl.step [where v = "(u, tls)" for u tls, simplified prod.case]

lemma username_checks:
  "httpUsernameOk (a, if a = HpaBasic then Some u else None) = (a = HpaBasic \<longrightarrow> usernameOk u \<and> 0x3A \<notin> set u)"
  "optionalUsernameOk (r, if r then Some u else None) = (r \<longrightarrow> usernameOk u)"
  by auto

lemma input_username:
  "field r ''username'' = (if required then JStr u else JUndef) \<Longrightarrow>
   inputOptionalString r ''username'' path = Inr (if required then Some u else None)"
  by (simp add: inputOptionalString_def contract_eval)

lemma socks5_outcome:
  assumes "field r ''host'' = JStr h" "field r ''port'' = port" "field r ''authentication'' = enumValue socks5Authentications a"
    "field r ''username'' = (if a = SkaUsernamePassword then JStr u else JUndef)"
    "field r ''dnsResolution'' = enumValue dnsResolutions d" "field r ''connectTimeoutMs'' = t"
  shows "outcome proxyFieldOf (normalizeSocks5Input U r requestConfiguration)
    [(PfUsername, a = SkaUsernamePassword \<longrightarrow> usernameOk u), (PfHost, hostOk U h), (PfPort, numberBetween 1 65535 port),
     (PfConnectTimeoutMs, numberBetween 1000 120000 t)]"
  unfolding normalizeSocks5Input_def assms input_username [OF assms(4)]
  by (simp only: contract_eval fold_checks bindE_Inr socks5Authentications_lookup dnsResolutions_lookup username_checks [symmetric])
    (intro optionalUsername_step host.step port.step timeout.step proxy_shown; simp)

lemma http_outcome:
  assumes "field r ''url'' = JStr url" "field r ''authentication'' = enumValue httpProxyAuthentications a"
    "field r ''username'' = (if a = HpaBasic then JStr u else JUndef)" "field r ''nonSensitiveHeaders'' = stringMapValue hs"
    "field r ''connectTimeoutMs'' = t" "field r ''tlsCertificatePolicy'' = enumValue tlsPolicies tls"
  shows "outcome proxyFieldOf (normalizeHttpConnectInput U r requestConfiguration)
    [(PfUsername, a = HpaBasic \<longrightarrow> usernameOk u \<and> 0x3A \<notin> set u), (PfUrl, httpProxyUrlOk U url tls),
     (PfNonSensitiveHeaders, headersOk HttpConnectTransport (sortEntries hs)),
     (PfConnectTimeoutMs, numberBetween 1000 120000 t)]"
  unfolding normalizeHttpConnectInput_def parseTlsPolicy_def assms input_username [OF assms(3)] input_eval(5) [OF assms(4)]
  by (simp only: contract_eval fold_checks bindE_Inr httpProxyAuthentications_lookup tlsPolicies_lookup username_checks [symmetric])
    (intro httpUsername_step httpUrl_step headers.step timeout.step proxy_shown; simp)

definition privateKeyCheck :: "jsval \<times> bool \<times> jstr \<Rightarrow> bool" where
  "privateKeyCheck = (\<lambda>(_, isKey, p). isKey \<longrightarrow> absolutePath p)"

lemma ssh_authentication_outcome:
  assumes "outcome F (k (case xd_authentication d of AuthPrivateKey \<Rightarrow> SshPrivateKey (xd_privateKeyPath d) | AuthAgent \<Rightarrow> SshAgent
      | AuthPassword \<Rightarrow> SshPassword)) checks"
    and "F (ConfigurationContractError (dotted path ''privateKeyPath'') (lit ''expected an absolute Linux path'')) = f"
  shows "outcome F (bindE (normalizeSshAuthenticationInput (sshAuthenticationInput d) path) k)
     ((f, xd_authentication d = AuthPrivateKey \<longrightarrow> absolutePath (xd_privateKeyPath d)) # checks)"
proof (cases "xd_authentication d = AuthPrivateKey")
  case True
  have "normalizeSshAuthenticationInput (sshAuthenticationInput d) path =
      bindE (validateAbsolutePath (xd_privateKeyPath d) (dotted path ''privateKeyPath'')) (\<lambda>p. Inr (SshPrivateKey p))"
    by (simp add: normalizeSshAuthenticationInput_def sshAuthenticationInput_def True contract_eval sshAuthTypes_def)
  moreover have "outcome F (bindE (validateAbsolutePath (xd_privateKeyPath d) (dotted path ''privateKeyPath'')) (\<lambda>p. k (SshPrivateKey p)))
      ((f, absolutePath (xd_privateKeyPath d)) # checks)"
    using assms True by (intro path.step) simp_all
  ultimately show ?thesis using True by (simp add: bindE_assoc)
next
  case False
  then have "normalizeSshAuthenticationInput (sshAuthenticationInput d) path =
      Inr (case xd_authentication d of AuthPrivateKey \<Rightarrow> SshPrivateKey (xd_privateKeyPath d) | AuthAgent \<Rightarrow> SshAgent | AuthPassword \<Rightarrow> SshPassword)"
    by (cases "xd_authentication d")
      (simp_all add: normalizeSshAuthenticationInput_def sshAuthenticationInput_def contract_eval sshAuthTypes_def enumName_def)
  then show ?thesis using assms False by (simp add: outcome_def)
qed

lemma ssh_outcome:
  assumes "field r ''host'' = JStr (xd_host d)" "field r ''port'' = port" "port \<noteq> JUndef" "field r ''username'' = JStr (xd_username d)"
    "field r ''authentication'' = sshAuthenticationInput d" "field r ''connectTimeoutMs'' = t"
    "field r ''keepAliveIntervalMs'' = i" "field r ''keepAliveMaxFailures'' = n"
  shows "outcome proxyFieldOf (normalizeSshInput U r requestConfiguration)
    [(PfKeepAliveIntervalMs, numberBetween 1000 300000 i), (PfKeepAliveMaxFailures, numberBetween 1 10 n),
     (PfHost, hostOk U (xd_host d)), (PfPort, numberBetween 1 65535 port), (PfUsername, usernameOk (xd_username d)),
     (PfPrivateKeyPath, xd_authentication d = AuthPrivateKey \<longrightarrow> absolutePath (xd_privateKeyPath d)),
     (PfConnectTimeoutMs, numberBetween 1000 120000 t)]"
proof -
  have port: "inputSshPort r path = expectPort port (dotted path ''port'')" for path using assms by (simp add: inputSshPort_def)
  show ?thesis
    unfolding normalizeSshInput_def assms port
    by (simp only: contract_eval fold_checks bindE_Inr)
      (intro keepAlive.step failures.step host.step port.step username.step timeout.step ssh_authentication_outcome private_key_shown proxy_shown; simp)
qed

section \<open>The whole draft\<close>

lemma proxy_types_eval:
  "expectEnum (JStr (lit ''httpConnect'')) proxyTypes path = Inr HttpConnectType"
  "expectEnum (JStr (lit ''socks5'')) proxyTypes path = Inr Socks5Type"
  "expectEnum (JStr (lit ''ssh'')) proxyTypes path = Inr SshType"
  by (simp_all add: contract_eval proxyTypes_def)

lemma name_outcome:
  assumes "outcome proxyFieldOf (normalizeProxyConfigurationInput U c requestConfiguration) checks"
  shows "outcome proxyFieldOf (normalizeCreateProxyProfileRequest U (JObj [jprop ''name'' (JStr n), jprop ''configuration'' c]))
    ((PfName, profileName (js_trim n)) # checks)"
  unfolding normalizeCreateProxyProfileRequest_def
  by (simp add: contract_eval) (intro name.step outcome_bind_Inr assms proxy_shown)

lemma proxy_draft_outcome:
  assumes "buildProxyConfiguration P draft = Inr c"
  shows "outcome proxyFieldOf (normalizeCreateProxyProfileRequest U (JObj
    [jprop ''name'' (JStr (pd_name draft)), jprop ''configuration'' c])) (proxyChecks P U draft)"
proof (cases "pd_proxyType draft")
  case HttpConnectType
  then obtain hs where hs: "keyValueRecord (hd_nonSensitiveHeaders (pd_httpConnect draft)) = Inr hs"
    using assms by (auto simp: buildProxyConfiguration_def bindE_eq_Inr Let_def)
  note http_outcome [where a = "hd_authentication (pd_httpConnect draft)" and u = "hd_username (pd_httpConnect draft)"
      and url = "hd_url (pd_httpConnect draft)" and hs = hs and tls = "hd_tlsCertificatePolicy (pd_httpConnect draft)"
      and t = "numberOf P (hd_connectTimeoutMs (pd_httpConnect draft))"]
  with hs assms HttpConnectType show ?thesis
    by (auto intro!: name_outcome simp: proxyChecks_def buildProxyConfiguration_def normalizeProxyConfigurationInput_def Let_def contract_eval(1) proxy_types_eval)
next
  case Socks5Type
  note socks5_outcome [where a = "sd_authentication (pd_socks5 draft)" and u = "sd_username (pd_socks5 draft)"
      and h = "sd_host (pd_socks5 draft)" and port = "numberOf P (sd_port (pd_socks5 draft))"
      and d = "sd_dnsResolution (pd_socks5 draft)" and t = "numberOf P (sd_connectTimeoutMs (pd_socks5 draft))"]
  with assms Socks5Type show ?thesis
    by (auto intro!: name_outcome simp: proxyChecks_def buildProxyConfiguration_def normalizeProxyConfigurationInput_def Let_def contract_eval(1) proxy_types_eval)
next
  case SshType
  note ssh_outcome [where d = "pd_ssh draft"]
  with assms SshType show ?thesis
    by (auto intro!: name_outcome simp: proxyChecks_def buildProxyConfiguration_def normalizeProxyConfigurationInput_def Let_def contract_eval(1) proxy_types_eval)
qed

lemma rejected_headers:
  assumes "buildProxyConfiguration P draft = Inl e"
  shows "pd_proxyType draft = HttpConnectType \<and> fe_field (proxyFormError e) = PfNonSensitiveHeaders"
proof -
  have "keyValueRecordFrom built rows = Inl e \<Longrightarrow> fe_field (proxyFormError e) = PfNonSensitiveHeaders" for built rows
    by (induction rows arbitrary: built) (auto simp: formError_def proxyFormError_def split: if_splits)
  then show ?thesis
    using assms by (auto simp: buildProxyConfiguration_def keyValueRecord_def bindE_eq_Inl Let_def split: proxy_type.splits)
qed

text \<open>The rows of a draft become a map before the contract sees it.\<close>

definition proxyRowChecks :: "ProxyEditorDraft \<Rightarrow> (ProxyEditorFieldName \<times> bool) list" where
  "proxyRowChecks draft = (if pd_proxyType draft = HttpConnectType
     then [(PfNonSensitiveHeaders, isOk (keyValueRecord (hd_nonSensitiveHeaders (pd_httpConnect draft))))] else [])"

lemma proxy_rows:
  "buildProxyConfiguration P draft = Inr c \<Longrightarrow> firstInvalid (proxyRowChecks draft @ checks) = firstInvalid checks"
  "buildProxyConfiguration P draft = Inl e \<Longrightarrow> firstInvalid (proxyRowChecks draft @ checks) = Some PfNonSensitiveHeaders"
  by (cases "pd_proxyType draft"; auto simp: buildProxyConfiguration_def proxyRowChecks_def bindE_eq_Inr bindE_eq_Inl isOk_iff Let_def)+

section \<open>Errors after the contract\<close>

lemma proxy_credential_messages:
  "proxyFieldOf (ConfigurationContractError (dotted request ''proxyId'') (lit ''expected a canonical UUID'')) = PfProxyType"
  "proxyFieldOf (ConfigurationContractError (dotted request ''expectedVersion'') (lit ''expected a safe integer'')) = PfProxyType"
  "proxyFieldOf (ConfigurationContractError (dotted request ''expectedVersion'') (lit ''expected a positive version'')) = PfProxyType"
  "proxyFieldOf (ConfigurationContractError (dotted (dotted request ''credential'') ''value'') (lit ''contains an invalid credential value'')) = PfCredential"
  "proxyFieldOf (ConfigurationContractError (dotted (dotted request ''credential'') ''value'') (lit ''contains an invalid bearer token'')) = PfCredential"
  unfolding request_def dotted_lit proxyFieldOf_text by code_simp+

text \<open>The identifier and the version that a check of a credential is made with are valid.\<close>

definition proxyModeOk :: "ProxyEditorMode \<Rightarrow> bool" where
  "proxyModeOk mode \<longleftrightarrow> (case mode of EditProxy p \<Rightarrow> UUID_PATTERN (pp_proxyId p) \<and> versionOk (pp_version p) | CreateProxy \<Rightarrow> True)"

lemma validation_proxy_ok: "UUID_PATTERN VALIDATION_PROXY_ID"
  by code_simp

lemma proxy_credential_field:
  assumes "buildProxyCredentialIntent mode draft c = Inl e"
  shows "fe_field (proxyFormError e) = PfCredential \<or> \<not> proxyModeOk mode \<and> fe_field (proxyFormError e) = PfProxyType"
proof -
  have contract: "proxyFieldOf e = PfCredential \<or> \<not> proxyModeOk mode \<and> proxyFieldOf e = PfProxyType"
    if "normalizeSetProxyCredentialRequest (proxyCredentialRequest mode t secret) = Inl e" for t secret e
    using that proxy_credential_messages validation_proxy_ok
    by (cases mode)
      (auto simp: normalizeSetProxyCredentialRequest_def proxyCredentialRequest_def reader_eval(1,2) expectProxyId_def expectVersion_def
        expectSafeInteger_def normalizeProxyCredential_def normalizeTextCredential_def normalizeBearerToken_def plaintextFallback_def
        rejectIf_def invalid_def bindE_eq_Inl Let_def expectEnum_def proxyModeOk_def versionOk_def MAX_SAFE_INTEGER_def split: if_splits)
  from assms show ?thesis
    by (auto simp: buildProxyCredentialIntent_def Let_def bindE_eq_Inl contractE_eq_Inl formError_def proxyFormError_def
        split: option.splits if_splits dest!: contract [unfolded proxyFieldOf_def proxyFormError_def])
qed

lemma host_key_field: "normalizeDraftHostKey mode c key = Inl e \<Longrightarrow> fe_field (proxyFormError e) = PfHost"
  by (auto simp: normalizeDraftHostKey_def Let_def formError_def proxyFormError_def split: option.splits if_splits)

end
