(* ===== verification/ServerEditorErrors.thy ===== *)
theory ServerEditorErrors
  imports ServerEditorLaws ProxyEditorErrors
begin

text \<open>
  The checks that a draft of a server goes through once its rows have become maps, in their order,
  and that a draft the contract rejects is shown at the field of the first check that fails.
\<close>

definition serverFieldOf :: "contract_error \<Rightarrow> ServerEditorFieldName" where
  "serverFieldOf e = fe_field (formErrorFromUnknown (ContractFailure e))"

lemma serverFieldOf_text:
  "serverFieldOf (ConfigurationContractError (lit path) (lit problem)) =
     matchText serverFormErrors SfServerType (''Invalid configuration contract at '' @ path @ '': '' @ problem)"
  by (simp add: serverFieldOf_def formErrorFromUnknown_def contractMessage_text firstMatch_text)

definition shownAtServer :: "string \<Rightarrow> string list \<Rightarrow> ServerEditorFieldName \<Rightarrow> bool" where
  "shownAtServer path problems f = list_all (\<lambda>q. matchText serverFormErrors SfServerType
     (''Invalid configuration contract at '' @ path @ '': '' @ q) = f) problems"

lemma server_fields:
  "shownAtServer ''request.name'' [''contains an invalid profile name''] SfName"
  "shownAtServer ''request.configuration.executablePath'' [''expected an absolute Linux path''] SfExecutablePath"
  "shownAtServer ''request.configuration.arguments'' [''contains invalid process arguments''] SfArguments"
  "shownAtServer ''request.configuration.defaultWorkingDirectory'' [''expected an absolute Linux path''] SfDefaultWorkingDirectory"
  "shownAtServer ''request.configuration.nonSensitiveEnvironment'' [''contains too many environment variables'',
    ''contains an invalid non-sensitive environment variable''] SfNonSensitiveEnvironment"
  "shownAtServer ''request.configuration.proxyId'' [''expected a canonical UUID''] SfProxyId"
  "shownAtServer ''request.configuration.url'' [''contains an invalid URL'', ''contains an invalid WebSocket URL''] SfUrl"
  "shownAtServer ''request.configuration.url'' [''has an invalid plaintext confirmation''] SfPlaintextConfirmed"
  "shownAtServer ''request.configuration.url'' [''has an invalid TLS policy''] SfTlsCertificatePolicy"
  "shownAtServer ''request.configuration.nonSensitiveHeaders'' [''contains too many headers'', ''contains an invalid non-sensitive header''] SfNonSensitiveHeaders"
  "shownAtServer ''request.configuration.connectTimeoutMs'' [badNumber, ''contains an invalid connection timeout''] SfConnectTimeoutMs"
  by code_simp+

lemma shown_server_field:
  "shownAtServer path problems f \<Longrightarrow> list_all (\<lambda>q. serverFieldOf (ConfigurationContractError (lit path) (lit q)) = f) problems"
  by (simp add: shownAtServer_def serverFieldOf_text)

lemmas server_shown = server_fields [THEN shown_server_field, folded request_paths [simplified]]

section \<open>Checks of a local server\<close>

definition localChecks :: "LocalDraft \<Rightarrow> (jstr \<times> jstr) list \<Rightarrow> (ServerEditorFieldName \<times> bool) list" where
  "localChecks d env =
     [(SfExecutablePath, absolutePath (ld_executablePath d)), (SfArguments, processArguments (ld_arguments d)),
      (SfDefaultWorkingDirectory, ld_defaultWorkingDirectory d = [] \<or> absolutePath (ld_defaultWorkingDirectory d)),
      (SfNonSensitiveEnvironment, environmentOk (sortEntries env))]"

text \<open>An optional value that is checked where it is present.\<close>

lemma optional_step:
  assumes "field_check check ok (\<lambda>v. v) problems" "list_all (\<lambda>q. F (ConfigurationContractError path (lit q)) = f) problems"
    and "s = [] \<or> ok s \<Longrightarrow> outcome F (k (if s = [] then None else Some s)) checks"
  shows "outcome F (bindE (validateOptional (\<lambda>d. check d path) (if s = [] then None else Some s)) k) ((f, s = [] \<or> ok s) # checks)"
proof (cases "s = []")
  case False
  then show ?thesis
    using field_check.step [OF assms(1,2), where k = "\<lambda>w. k (Some w)" and v = s] assms(3)
    by (simp add: validateOptional_def bindE_assoc)
qed (use assms(3) in \<open>simp add: validateOptional_def outcome_def\<close>)

lemma optional_field:
  "field r key = (if s = [] then JUndef else JStr s) \<Longrightarrow>
   inputOptionalString r key path = Inr (if s = [] then None else Some s)"
  by (simp add: inputOptionalString_def contract_eval)

lemma local_outcome:
  assumes "field r ''type'' = JStr (lit ''localStdio'')" "field r ''executablePath'' = JStr (ld_executablePath d)"
    "field r ''arguments'' = JArr (map (Some \<circ> JStr) (ld_arguments d))"
    "field r ''defaultWorkingDirectory'' = (if ld_defaultWorkingDirectory d = [] then JUndef else JStr (ld_defaultWorkingDirectory d))"
    "field r ''nonSensitiveEnvironment'' = stringMapValue env"
  shows "outcome serverFieldOf (normalizeServerConfigurationInput U (JObj r) requestConfiguration) (localChecks d env)"
proof -
  have type: "expectEnum (JStr (lit ''localStdio'')) serverTypes path = Inr LocalStdioType" for path
    by (simp add: contract_eval serverTypes_def)
  show ?thesis
    unfolding normalizeServerConfigurationInput_def localChecks_def
    by (simp only: reader_eval bindE_Inr assms(1-3) type if_True simp_thms optional_field [OF assms(4)] input_eval(5) [OF assms(5)])
      (intro path.step arguments.step optional_step [OF path.field_check_axioms] environment.step server_shown; simp)
qed

section \<open>Checks of a remote server\<close>

definition webSocketUrlValid :: "url_parser \<Rightarrow> jstr \<Rightarrow> bool" where
  "webSocketUrlValid U u \<longleftrightarrow> u \<noteq> [] \<and> utf8Length u \<le> 4096 \<and> (case U u of None \<Rightarrow> False | Some url \<Rightarrow> \<not> badWebSocketUrl u url)"

definition remoteChecks :: "form_platform \<Rightarrow> url_parser \<Rightarrow> RemoteDraft \<Rightarrow> (jstr \<times> jstr) list \<Rightarrow> (ServerEditorFieldName \<times> bool) list" where
  "remoteChecks P U d headers =
     [(SfProxyId, rd_proxyId d = [] \<or> UUID_PATTERN (rd_proxyId d)),
      (SfUrl, webSocketUrlValid U (rd_url d)),
      (SfPlaintextConfirmed, isPlaintextWebSocketUrl U (rd_url d) \<longrightarrow> rd_plaintextConfirmed d),
      (SfTlsCertificatePolicy, isPlaintextWebSocketUrl U (rd_url d) \<longrightarrow> rd_tlsCertificatePolicy d = TlsStrict),
      (SfNonSensitiveHeaders, headersOk WebSocketTransport (sortEntries headers)),
      (SfConnectTimeoutMs, numberBetween 1000 120000 (numberOf P (rd_connectTimeoutMs d)))]"

lemma url_step:
  assumes "list_all (\<lambda>q. F (ConfigurationContractError path (lit q)) = f) [''contains an invalid URL'', ''contains an invalid WebSocket URL'']"
    and "list_all (\<lambda>q. F (ConfigurationContractError path (lit q)) = g) [''has an invalid plaintext confirmation'']"
    and "list_all (\<lambda>q. F (ConfigurationContractError path (lit q)) = h) [''has an invalid TLS policy'']"
    and "outcome F (k u) checks"
  shows "outcome F (bindE (validateWebSocketUrl U u (isPlaintextWebSocketUrl U u \<and> confirmed) tls path) k)
    ((f, webSocketUrlValid U u) # (g, isPlaintextWebSocketUrl U u \<longrightarrow> confirmed) # (h, isPlaintextWebSocketUrl U u \<longrightarrow> tls = TlsStrict) # checks)"
proof (cases "webSocketUrlValid U u")
  case False
  then have "validateWebSocketUrl U u pc tls path \<in> (\<lambda>q. Inl (ConfigurationContractError path (lit q))) `
      {''contains an invalid URL'', ''contains an invalid WebSocket URL''}" for pc
    by (auto simp: validateWebSocketUrl_def parseUrl_def webSocketUrlValid_def rejectIf_def invalid_def Let_def byteLength_def split: option.splits)
  from this [of "isPlaintextWebSocketUrl U u \<and> confirmed"] show ?thesis using False assms(1) by auto
next
  case True
  then obtain url where url: "U u = Some url" "\<not> badWebSocketUrl u url" "u \<noteq> []" "utf8Length u \<le> 4096"
    by (auto simp: webSocketUrlValid_def split: option.splits)
  then have plain: "isPlaintextWebSocketUrl U u = (url_protocol url = lit ''ws:'')" by (simp add: isPlaintextWebSocketUrl_def)
  from url have "validateWebSocketUrl U u pc tls path =
      (if isPlaintextWebSocketUrl U u \<noteq> pc then Inl (ConfigurationContractError path (lit ''has an invalid plaintext confirmation''))
       else if isPlaintextWebSocketUrl U u \<and> tls \<noteq> TlsStrict then Inl (ConfigurationContractError path (lit ''has an invalid TLS policy''))
       else Inr u)" for pc
    by (simp add: validateWebSocketUrl_def parseUrl_def rejectIf_def invalid_def plain byteLength_def)
  then show ?thesis
    using True assms by (cases "isPlaintextWebSocketUrl U u"; cases confirmed; cases "tls = TlsStrict") simp_all
qed

lemma proxy_id_step:
  assumes "field r key = (if s = [] then JUndef else JStr s)"
    and "list_all (\<lambda>q. F (ConfigurationContractError (dotted path key) (lit q)) = f) [''expected a canonical UUID'']"
    and "\<And>x. outcome F (k x) checks"
  shows "outcome F (bindE (inputOptionalProxyId r key path) k) ((f, s = [] \<or> UUID_PATTERN s) # checks)"
  using assms
  by (cases "s = []"; cases "UUID_PATTERN s")
    (simp_all add: inputOptionalProxyId_def expectProxyId_def contract_eval rejectIf_def invalid_def Let_def)

lemma remote_outcome:
  assumes "field r ''type'' = JStr (lit ''remoteWebSocket'')" "field r ''url'' = JStr (rd_url d)"
    "field r ''authentication'' = enumValue serverAuthentications (rd_authentication d)" "field r ''nonSensitiveHeaders'' = stringMapValue hs"
    "field r ''connectTimeoutMs'' = numberOf P (rd_connectTimeoutMs d)"
    "field r ''tlsCertificatePolicy'' = enumValue tlsPolicies (rd_tlsCertificatePolicy d)"
    "field r ''plaintextConfirmed'' = JBool (isPlaintextWebSocketUrl U (rd_url d) \<and> rd_plaintextConfirmed d)"
    "field r ''proxyId'' = (if rd_proxyId d = [] then JUndef else JStr (rd_proxyId d))"
  shows "outcome serverFieldOf (normalizeServerConfigurationInput U (JObj r) requestConfiguration) (remoteChecks P U d hs)"
proof -
  have type: "expectEnum (JStr (lit ''remoteWebSocket'')) serverTypes path = Inr RemoteWebSocketType" for path
    by (simp add: contract_eval serverTypes_def)
  show ?thesis
    unfolding normalizeServerConfigurationInput_def remoteChecks_def parseTlsPolicy_def
    by (simp only: reader_eval bindE_Inr assms(1-7) type server_type.distinct if_False fold_checks tlsPolicies_lookup
        serverAuthentications_lookup input_eval(5) [OF assms(4)])
      (intro proxy_id_step url_step headers.step timeout.step assms(8) server_shown; simp)
qed

section \<open>The whole draft\<close>

definition rightOf :: "'e + (jstr \<times> jstr) list \<Rightarrow> (jstr \<times> jstr) list" where
  "rightOf m = (case m of Inl _ \<Rightarrow> [] | Inr x \<Rightarrow> x)"

definition serverChecks ::
  "form_platform \<Rightarrow> url_parser \<Rightarrow> jstr set \<Rightarrow> ServerEditorDraft \<Rightarrow> (ServerEditorFieldName \<times> bool) list" where
  "serverChecks P U available draft =
     (let name = (SfName, profileName (js_trim (ed_name draft))) in
      if ed_serverType draft = LocalStdioType then
        let d = ed_local draft;
            rows = serverKeyValueRecord P (ld_nonSensitiveEnvironment d) SfNonSensitiveEnvironment form_plainEnvironment False in
        (SfNonSensitiveEnvironment, isOk rows) # name # localChecks d (rightOf rows)
      else
        let d = ed_remote draft;
            rows = serverKeyValueRecord P (rd_nonSensitiveHeaders d) SfNonSensitiveHeaders form_plainHeaders True in
        (SfProxyId, rd_proxyId d = [] \<or> rd_proxyId d \<in> available) # (SfNonSensitiveHeaders, isOk rows) # name #
        remoteChecks P U d (rightOf rows))"

lemma rightOf_Inr [simp]: "rightOf (Inr x) = x"
  by (simp add: rightOf_def)

lemma server_name_outcome:
  assumes "outcome serverFieldOf (normalizeServerConfigurationInput U c requestConfiguration) checks"
  shows "outcome serverFieldOf (normalizeCreateServerProfileRequest U (JObj [jprop ''name'' (JStr n), jprop ''configuration'' c]))
    ((SfName, profileName (js_trim n)) # checks)"
  unfolding normalizeCreateServerProfileRequest_def
  by (simp add: contract_eval) (intro name.step outcome_bind_Inr assms server_shown)

lemma server_draft_outcome:
  assumes "buildServerConfiguration P U available draft = Inr (c, plain)"
  shows "outcome serverFieldOf (normalizeCreateServerProfileRequest U (JObj
    [jprop ''name'' (JStr (ed_name draft)), jprop ''configuration'' c])) (serverChecks P U available draft)"
proof (cases "ed_serverType draft")
  case LocalStdioType
  then have rows: "serverKeyValueRecord P (ld_nonSensitiveEnvironment (ed_local draft)) SfNonSensitiveEnvironment form_plainEnvironment False = Inr plain"
    using assms by (auto simp: buildServerConfiguration_def bindE_eq_Inr Let_def)
  show ?thesis
    using assms LocalStdioType
    by (auto simp: serverChecks_def rows Let_def buildServerConfiguration_def intro!: server_name_outcome local_outcome)
next
  case RemoteWebSocketType
  then obtain hs where rows: "serverKeyValueRecord P (rd_nonSensitiveHeaders (ed_remote draft)) SfNonSensitiveHeaders form_plainHeaders True = Inr hs"
    using assms by (auto simp: buildServerConfiguration_def bindE_eq_Inr Let_def split: if_splits)
  show ?thesis
    using assms RemoteWebSocketType
    by (cases "rd_proxyId (ed_remote draft) = []")
      (auto simp: serverChecks_def rows Let_def buildServerConfiguration_def intro!: server_name_outcome remote_outcome split: if_splits)
qed

lemma rows_field: "serverKeyValueRecord P rows f label insensitive = Inl e \<Longrightarrow> fe_field (formErrorFromUnknown e) = f"
proof -
  have "rowsFrom P f label insensitive i names rows = Inl e \<Longrightarrow> fe_field (formErrorFromUnknown e) = f" for i names
    by (induction rows arbitrary: i names) (auto simp: Let_def formError_def formErrorFromUnknown_def bindE_eq_Inl split: if_splits)
  then show "serverKeyValueRecord P rows f label insensitive = Inl e \<Longrightarrow> fe_field (formErrorFromUnknown e) = f"
    by (auto simp: serverKeyValueRecord_def bindE_eq_Inl)
qed

lemma rejected_rows:
  assumes "buildServerConfiguration P U available draft = Inl e"
  shows "firstInvalid (serverChecks P U available draft) = Some (fe_field (formErrorFromUnknown e))"
proof (cases "ed_serverType draft")
  case LocalStdioType
  then show ?thesis using assms
    by (auto simp: buildServerConfiguration_def serverChecks_def Let_def bindE_eq_Inl dest: rows_field)
next
  case RemoteWebSocketType
  then show ?thesis using assms
    by (auto simp: buildServerConfiguration_def serverChecks_def Let_def bindE_eq_Inl formError_def formErrorFromUnknown_def
        dest: rows_field split: if_splits)
qed

section \<open>Errors after the contract\<close>

lemma server_credential_messages:
  "serverFieldOf (ConfigurationContractError (dotted (dotted request ''credential'') ''values'') (lit ''contains an invalid number of environment variables'')) = SfCredential"
  "serverFieldOf (ConfigurationContractError (dotted (dotted request ''credential'') ''values'') (lit ''contains an invalid sensitive environment variable'')) = SfCredential"
  "serverFieldOf (ConfigurationContractError (dotted (dotted request ''credential'') ''value'') (lit ''contains an invalid bearer token'')) = SfCredential"
  unfolding request_def dotted_lit serverFieldOf_text by code_simp+

lemma environment_entries_error:
  "mapE (sensitiveEnvironmentEntry path) (map (\<lambda>(k, v). (KStr k, JStr v)) env) = Inl e \<Longrightarrow>
   e = ConfigurationContractError path (lit ''contains an invalid sensitive environment variable'')"
  by (induction env) (auto simp: sensitiveEnvironmentEntry_def bindE_eq_Inl reader_eval(2) rejectIf_def invalid_def split: if_splits)

lemma typed_credential_error:
  assumes "typedCredential P draft plain = Inr (Some v)" and "normalizeServerCredential v (dotted request ''credential'') = Inl e"
  shows "serverFieldOf e = SfCredential"
proof -
  have env: "serverFieldOf e = SfCredential"
    if "normalizeServerCredential (JObj [jprop ''type'' (JStr (lit ''sensitiveEnvironment'')), jprop ''values'' (stringMapValue env)])
      (dotted request ''credential'') = Inl e" for env
    using that server_credential_messages
    by (auto simp: normalizeServerCredential_def normalizeSensitiveEnvironment_def stringMapValue_def reader_eval(1) SERVER_CREDENTIAL_TYPES_def
        expectEnum_def bindE_eq_Inl rejectIf_def invalid_def split: if_splits dest: environment_entries_error)
  have token: "serverFieldOf e = SfCredential"
    if "normalizeServerCredential (JObj [jprop ''type'' (JStr (lit ''bearerToken'')), jprop ''value'' (JStr t)])
      (dotted request ''credential'') = Inl e" for t
    using that server_credential_messages
    by (auto simp: normalizeServerCredential_def normalizeBearerToken_def reader_eval(1,2) SERVER_CREDENTIAL_TYPES_def
        expectEnum_def bindE_eq_Inl rejectIf_def invalid_def split: if_splits)
  from assms show ?thesis
    by (auto simp: typedCredential_def environmentCredential_def bindE_eq_Inr split: if_splits option.splits dest: env token)
qed

lemma serverId_validated: "UUID_PATTERN CREDENTIAL_VALIDATION_SERVER_ID"
  by code_simp

text \<open>The stored profile that an edit starts from has an address that is a URL.\<close>

definition serverModeOk :: "url_parser \<Rightarrow> ServerEditorMode \<Rightarrow> bool" where
  "serverModeOk U mode \<longleftrightarrow> (case mode of EditServer p \<Rightarrow>
     (case sp_configuration p of RemoteWebSocket c \<Rightarrow> U (ws_url c) \<noteq> None | LocalStdio c \<Rightarrow> True) | CreateServer \<Rightarrow> True)"

lemma server_credential_field:
  assumes "buildServerCredentialIntent P U mode draft c plain = Inl e"
    and "case c of RemoteWebSocket r \<Rightarrow> U (ws_url r) \<noteq> None | LocalStdio l \<Rightarrow> True"
  shows "fe_field (formErrorFromUnknown e) \<in> {SfSensitiveEnvironment, SfBearerToken, SfCredential} \<or>
    \<not> serverModeOk U mode \<and> fe_field (formErrorFromUnknown e) = SfServerType"
proof (cases "typedCredential P draft plain")
  case (Inl e')
  then have "e = e'" using assms by (simp add: buildServerCredentialIntent_def Let_def)
  with Inl show ?thesis
    by (auto simp: typedCredential_def environmentCredential_def bindE_eq_Inl formError_def formErrorFromUnknown_def
        split: if_splits option.splits dest: rows_field)
next
  case (Inr typed)
  show ?thesis
  proof (cases typed)
    case (Some v)
    with Inr assms obtain x where e: "e = ContractFailure x" and x: "normalizeSetServerCredentialRequest (serverCredentialRequest v) = Inl x"
      by (auto simp: buildServerCredentialIntent_def Let_def bindE_eq_Inl contractE_eq_Inl)
    from x have "normalizeServerCredential v (dotted request ''credential'') = Inl x"
      by (auto simp: normalizeSetServerCredentialRequest_def serverCredentialRequest_def reader_eval serverId_validated versionOk_def
          plaintextFallback_def bindE_eq_Inl MAX_SAFE_INTEGER_def)
    then have "serverFieldOf x = SfCredential" using Inr Some typed_credential_error by blast
    then show ?thesis by (simp add: e serverFieldOf_def)
  next
    case None
    with Inr assms show ?thesis
      by (auto simp: buildServerCredentialIntent_def Let_def bindE_eq_Inl formError_def formErrorFromUnknown_def
          hasServerCredentialBindingChanged_def normalizedOrigin_def serverModeOk_def
          split: option.splits if_splits ServerEditorMode.splits ServerConfiguration.splits)
  qed
qed

lemma created_server_url:
  assumes "normalizeCreateServerProfileRequest U (JObj [jprop ''name'' (JStr n), jprop ''configuration'' v]) = Inr r"
  shows "case csr_configuration r of RemoteWebSocket c \<Rightarrow> U (ws_url c) \<noteq> None | LocalStdio l \<Rightarrow> True"
  using serverConfigurationInput.sound [of U v requestConfiguration "csr_configuration r"] assms
  by (auto simp: create_server_parts RemoteWebSocket_ok_def webSocketUrlOk_def split: ServerConfiguration.splits option.splits)

end
