(* ===== verification/EditorProperties.thy ===== *)
theory EditorProperties
  imports ServerEditorErrors StoreProperties
begin

text \<open>
  The properties of the profile editors: an unchanged profile is submitted as it is, a submission that
  is accepted leaves a credential that fits the configuration and the connection it was stored for, and
  a rejected draft is shown at the field that is wrong.
\<close>

definition demoPlatform :: form_platform where
  "demoPlatform = \<lparr>fp_number = (\<lambda>_. Inr 0), fp_lower = (\<lambda>s. s), fp_localeCompare = compareText, fp_urlPort = (\<lambda>_. [])\<rparr>"

text \<open>C30. Opening the editor on an allowed proxy and saving it unchanged submits its name and its
  configuration, without a header named __proto__ (which the form loses) and otherwise unchanged, keeps the credential
  and the host key, unless the configuration needs a credential and none is stored, which the form asks for.\<close>

theorem proxy_edit_unchanged:
  assumes "ProxyProfile_ok U p"
  shows "buildProxyEditorSubmission P U (EditProxy p) (createProxyEditorDraft (EditProxy p)) None =
    (if credentialMandatory (pp_configuration p) \<and> \<not> pp_credentialConfigured p
     then formError PfCredential form_credentialRequired
     else Inr \<lparr>ps_name = pp_name p, ps_configuration = keptHeaders (pp_configuration p), ps_credentialIntent = Keep,
       ps_sshHostKey = None\<rparr>)"
proof -
  let ?c = "keptHeaders (pp_configuration p)"
  have ok: "profileName (pp_name p)" "ProxyConfiguration_ok U (pp_configuration p)" "hostKeyMatches (pp_sshHostKey p) (pp_configuration p)"
    using assms by (simp_all add: ProxyProfile_ok_def)
  have key: "normalizeDraftHostKey (EditProxy p) ?c None = Inr None"
    using ok(3) by (auto simp: normalizeDraftHostKey_def storedHostKey_def keptHeaders_same(1) hostKeyMatches_def sshEndpoint_def [of "pp_configuration p"]
        split: option.splits)
  have "buildProxyCredentialIntent (EditProxy p) (createProxyEditorDraft (EditProxy p)) ?c =
      (if credentialMandatory (pp_configuration p) \<and> \<not> pp_credentialConfigured p
       then formError PfCredential form_credentialRequired else Inr Keep)"
    by (auto simp: buildProxyCredentialIntent_def Let_def existingProxyCredential_def existingProxyCredentialType_def credentialMandatory_def
        keptHeaders_same split: option.splits)
  then show ?thesis
    by (simp add: buildProxyEditorSubmission_def proxy_configuration_rebuilt [OF ok(2)]
        create_proxy_complete [OF ok(1) keptHeaders_ok [OF ok(2)]] key bindE_def formError_def)
qed

text \<open>C28. What a submission of a proxy that is accepted is: a valid name, an allowed configuration, a credential
  after it that has the type the configuration requires, or none where none is mandatory; a stored host key only for
  the endpoint it was stored for, and a new one only for the endpoint of the configuration.\<close>

theorem proxy_submission_consistent:
  assumes "buildProxyEditorSubmission P U mode draft key = Inr s"
  shows "profileName (ps_name s) \<and> ProxyConfiguration_ok U (ps_configuration s) \<and>
    (let stored = credentialAfter pc_type (existingProxyCredential mode) (ps_credentialIntent s) in
     stored = credentialTypeForConfiguration (ps_configuration s) \<or> stored = None \<and> \<not> credentialMandatory (ps_configuration s)) \<and>
    (case storedHostKey mode of None \<Rightarrow> True | Some h \<Rightarrow> sshEndpoint (ps_configuration s) = Some (hk_host h, hk_port h)) \<and>
    ps_sshHostKey s = key \<and>
    (case key of None \<Rightarrow> True | Some k \<Rightarrow> sshEndpoint (ps_configuration s) = Some (kd_host k, kd_port k))"
proof -
  note parts = proxy_submission_parts [OF assms]
  note key = host_key_checked [OF parts(3)]
  show ?thesis
    unfolding Let_def
  proof (intro conjI)
    show "case storedHostKey mode of None \<Rightarrow> True | Some h \<Rightarrow> sshEndpoint (ps_configuration s) = Some (hk_host h, hk_port h)"
      using key(2) by (cases "storedHostKey mode") simp_all
    show "case key of None \<Rightarrow> True | Some k \<Rightarrow> sshEndpoint (ps_configuration s) = Some (kd_host k, kd_port k)"
      using key(3) by (cases key) simp_all
  qed (use parts key(1) proxy_intent_consistent [OF parts(4)] in simp_all)
qed

text \<open>C32. A draft of a proxy that the contract rejects is shown at the field of the first check that fails; one that passes
  every check is accepted, or shown at the host (a host key of another endpoint) or at the credential; at the form itself
  only where the profile that is edited has an identifier or a version that the contract does not allow.\<close>

theorem proxy_error_field:
  "case firstInvalid (proxyRowChecks draft @ proxyChecks P U draft) of
     Some f \<Rightarrow> (case buildProxyEditorSubmission P U mode draft key of Inr s \<Rightarrow> False | Inl e \<Rightarrow> fe_field (proxyFormError e) = f)
   | None \<Rightarrow> (case buildProxyEditorSubmission P U mode draft key of
       Inr s \<Rightarrow> True
     | Inl e \<Rightarrow> fe_field (proxyFormError e) \<in> {PfHost, PfCredential} \<or>
         \<not> proxyModeOk mode \<and> fe_field (proxyFormError e) = PfProxyType)"
proof (cases "buildProxyConfiguration P draft")
  case (Inl e)
  then show ?thesis using rejected_headers [OF Inl] by (simp add: proxy_rows(2) [OF Inl] buildProxyEditorSubmission_def)
next
  case (Inr c)
  let ?m = "normalizeCreateProxyProfileRequest U (JObj [jprop ''name'' (JStr (pd_name draft)), jprop ''configuration'' c])"
  note checked = proxy_draft_outcome [OF Inr, of U]
  show ?thesis
  proof (cases ?m)
    case (Inl e)
    then show ?thesis using checked Inr
      by (auto simp: proxy_rows(1) [OF Inr] buildProxyEditorSubmission_def outcome_def proxyFieldOf_def split: option.splits)
  next
    case (Inr n)
    have "firstInvalid (proxyChecks P U draft) = None" using checked Inr by simp
    moreover have "fe_field (proxyFormError e) \<in> {PfHost, PfCredential} \<or>
        \<not> proxyModeOk mode \<and> fe_field (proxyFormError e) = PfProxyType"
      if "buildProxyEditorSubmission P U mode draft key = Inl e" for e
      using that Inr \<open>buildProxyConfiguration P draft = Inr c\<close> host_key_field proxy_credential_field
      by (fastforce simp: buildProxyEditorSubmission_def bindE_eq_Inl contractE_eq_Inl)
    ultimately show ?thesis
      by (cases "buildProxyEditorSubmission P U mode draft key") (simp_all add: proxy_rows(1) [OF \<open>buildProxyConfiguration P draft = Inr c\<close>])
  qed
qed

text \<open>C29. Opening the editor on an allowed server and saving it unchanged: if the server names a proxy that is not among
  the available ones, the form says so at the proxy; else if it authenticates with a token and none is stored, the form asks
  for the token; else its name and its configuration are submitted as they are and the credential is kept. The order in which
  the rows are shown does not matter. (The names of the plain environment are distinct, as those of every object are.)\<close>

theorem server_edit_unchanged:
  assumes "ServerProfile_ok U p" and "properServer (sp_configuration p)"
  shows "buildServerEditorSubmission P U (EditServer p) (createServerEditorDraft P (EditServer p)) available =
    (if \<not> set_option (serverProxyId (sp_configuration p)) \<subseteq> available then formError SfProxyId form_proxyUnavailable
     else if configurationCredentialType (sp_configuration p) = Some BearerTokenType \<and> \<not> sp_credentialConfigured p
     then formError SfBearerToken form_tokenRequired
     else Inr \<lparr>es_name = sp_name p, es_configuration = sp_configuration p, es_credentialIntent = Keep\<rparr>)"
proof (cases "set_option (serverProxyId (sp_configuration p)) \<subseteq> available")
  case False
  have ok: "ServerConfiguration_ok U (sp_configuration p)" using assms(1) by (simp add: ServerProfile_ok_def)
  show ?thesis
    using False server_proxy_unavailable [OF ok False, of P] by (simp add: buildServerEditorSubmission_def formError_def)
next
  case True
  have ok: "profileName (sp_name p)" "ServerConfiguration_ok U (sp_configuration p)"
    using assms(1) by (simp_all add: ServerProfile_ok_def)
  obtain v env where v: "buildServerConfiguration P U available (createServerEditorDraft P (EditServer p)) = Inr (v, env)"
    "normalizeServerConfigurationInput U v requestConfiguration = Inr (sp_configuration p)"
    using server_configuration_rebuilt [OF ok(2) assms(2) True] by blast
  have create: "normalizeCreateServerProfileRequest U (JObj [jprop ''name'' (JStr (sp_name p)), jprop ''configuration'' v]) =
      Inr \<lparr>csr_name = sp_name p, csr_configuration = sp_configuration p\<rparr>"
    using v(2) ok(1) by (simp add: create_server_parts contract_eval)
  have "buildServerCredentialIntent P U (EditServer p) (createServerEditorDraft P (EditServer p)) (sp_configuration p) env =
      (if configurationCredentialType (sp_configuration p) = Some BearerTokenType \<and> \<not> sp_credentialConfigured p
       then formError SfBearerToken form_tokenRequired else Inr Keep)"
    using binding_same [OF same_binding_refl [OF ok(2)]]
    by (simp add: buildServerCredentialIntent_def existingServerCredentialType_def Let_def)
  with True show ?thesis by (simp add: buildServerEditorSubmission_def v(1) create bindE_def formError_def)
qed

text \<open>C27. A stored credential is never carried to another connection: a submission that keeps it has the executable and no
  new environment name, or the authentication and the origin, that it was stored for; one that sets a credential sets one
  of the type of the configuration, with no name that is also in the plain environment; one without a credential does not
  authenticate with a token, unless the user cleared it.\<close>

theorem server_credential_bound:
  assumes "buildServerEditorSubmission P U mode draft available = Inr s"
  shows "accepted P U mode (ed_clearExistingCredential draft) (es_configuration s) (es_credentialIntent s) \<and>
    ServerConfiguration_ok U (es_configuration s) \<and> profileName (es_name s) \<and>
    (case es_configuration s of
       LocalStdio c \<Rightarrow> newEnvironmentNames (es_credentialIntent s) \<inter> fst ` set (ls_nonSensitiveEnvironment c) = {}
     | RemoteWebSocket c \<Rightarrow> True)"
proof -
  obtain v plain where parts: "buildServerConfiguration P U available draft = Inr (v, plain)"
    "normalizeServerConfigurationInput U v requestConfiguration = Inr (es_configuration s)"
    "buildServerCredentialIntent P U mode draft (es_configuration s) plain = Inr (es_credentialIntent s)" "profileName (es_name s)"
    using server_submission_parts [OF assms] by metis
  note shape = server_configuration_shape [OF parts(1,2)]
  then have "accepted P U mode (ed_clearExistingCredential draft) (es_configuration s) (es_credentialIntent s)"
    by (intro server_intent_accepted [OF parts(3)]) (auto split: ServerConfiguration.splits)
  moreover have "newEnvironmentNames (es_credentialIntent s) \<inter> fst ` set plain = {}" by (rule intent_environment [OF parts(3)])
  ultimately show ?thesis
    using parts(4) shape serverConfigurationInput.sound [OF parts(2)] by (auto split: ServerConfiguration.splits)
qed

text \<open>C31. A draft of a server that is rejected before its credential is looked at is shown at the field of the first check that
  fails, in the order of the code; one that passes every check is accepted, or shown at a field of the credential; at the form
  itself only where the profile that is edited has an address that is not a URL.\<close>

theorem server_error_field:
  "case firstInvalid (serverChecks P U available draft) of
     Some f \<Rightarrow> (case buildServerEditorSubmission P U mode draft available of Inr s \<Rightarrow> False | Inl e \<Rightarrow> fe_field (formErrorFromUnknown e) = f)
   | None \<Rightarrow> (case buildServerEditorSubmission P U mode draft available of
       Inr s \<Rightarrow> True
     | Inl e \<Rightarrow> fe_field (formErrorFromUnknown e) \<in> {SfSensitiveEnvironment, SfBearerToken, SfCredential} \<or>
         \<not> serverModeOk U mode \<and> fe_field (formErrorFromUnknown e) = SfServerType)"
proof (cases "buildServerConfiguration P U available draft")
  case (Inl e)
  then show ?thesis by (simp add: rejected_rows [OF Inl] buildServerEditorSubmission_def)
next
  case (Inr b)
  obtain c plain where b: "b = (c, plain)" by fastforce
  note built = Inr [unfolded b] and checked = server_draft_outcome [OF Inr [unfolded b]]
  show ?thesis
  proof (cases "normalizeCreateServerProfileRequest U (JObj [jprop ''name'' (JStr (ed_name draft)), jprop ''configuration'' c])")
    case (Inl e)
    then show ?thesis using checked
      by (auto simp: built buildServerEditorSubmission_def outcome_def serverFieldOf_def split: option.splits)
  next
    case (Inr n)
    have "firstInvalid (serverChecks P U available draft) = None" using checked Inr by simp
    have url: "case csr_configuration n of RemoteWebSocket r \<Rightarrow> U (ws_url r) \<noteq> None | LocalStdio l \<Rightarrow> True"
      by (rule created_server_url [OF Inr])
    have "fe_field (formErrorFromUnknown e) \<in> {SfSensitiveEnvironment, SfBearerToken, SfCredential} \<or>
        \<not> serverModeOk U mode \<and> fe_field (formErrorFromUnknown e) = SfServerType"
      if "buildServerEditorSubmission P U mode draft available = Inl e" for e
      using that by (intro server_credential_field [OF _ url]) (auto simp: buildServerEditorSubmission_def built Inr bindE_eq_Inl)
    moreover note \<open>firstInvalid (serverChecks P U available draft) = None\<close>
    ultimately show ?thesis by (cases "buildServerEditorSubmission P U mode draft available") simp_all
  qed
qed

section \<open>Concrete profiles\<close>

definition demoSocksDraft :: ProxyEditorDraft where
  "demoSocksDraft = emptyProxyDraft\<lparr>pd_proxyType := Socks5Type, pd_name := lit '' p '', pd_socks5 :=
     EMPTY_SOCKS5\<lparr>sd_host := lit ''h'', sd_authentication := SkaUsernamePassword, sd_username := lit ''u'', sd_password := lit ''x''\<rparr>\<rparr>"

definition demoSocksSubmission :: ProxyEditorSubmission where
  "demoSocksSubmission = \<lparr>ps_name = lit ''p'', ps_configuration = Socks5 \<lparr>sk_host = lit ''h'', sk_port = 1080,
     sk_authentication = SkaUsernamePassword, sk_username = Some (lit ''u''), sk_dnsResolution = DnsProxy, sk_connectTimeoutMs = 30000\<rparr>,
     ps_credentialIntent = SetCredential \<lparr>pc_type = Socks5Password, pc_value = lit ''x''\<rparr>, ps_sshHostKey = None\<rparr>"

lemma demo_socks: "buildProxyEditorSubmission demoPlatform demoUrl CreateProxy demoSocksDraft None = Inr demoSocksSubmission"
  by code_simp

definition demoLocalDraft :: ServerEditorDraft where
  "demoLocalDraft = emptyServerDraft\<lparr>ed_name := lit ''s'', ed_local := EMPTY_LOCAL_DRAFT\<lparr>ld_executablePath := lit ''/bin/codex'',
     ld_nonSensitiveEnvironment := [\<lparr>kv_name = lit ''B '', kv_value = lit ''1''\<rparr>, \<lparr>kv_name = lit ''A'', kv_value = []\<rparr>],
     ld_sensitiveEnvironment := [\<lparr>kv_name = lit ''S'', kv_value = lit ''2''\<rparr>]\<rparr>\<rparr>"

definition demoLocalSubmission :: ServerEditorSubmission where
  "demoLocalSubmission = \<lparr>es_name = lit ''s'', es_configuration = LocalStdio \<lparr>ls_executablePath = lit ''/bin/codex'', ls_arguments = [],
     ls_defaultWorkingDirectory = None, ls_nonSensitiveEnvironment = [(lit ''A'', []), (lit ''B'', lit ''1'')]\<rparr>,
     es_credentialIntent = SetCredential (SensitiveEnvironment [(lit ''S'', lit ''2'')])\<rparr>"

lemma demo_local_submission: "buildServerEditorSubmission demoPlatform demoUrl CreateServer demoLocalDraft {} = Inr demoLocalSubmission"
  by code_simp

theorem proxy_edit_unchanged_witness:
  "buildProxyEditorSubmission demoPlatform demoUrl (EditProxy demoProxy) (createProxyEditorDraft (EditProxy demoProxy)) None =
    Inr \<lparr>ps_name = pp_name demoProxy, ps_configuration = demoSsh, ps_credentialIntent = Keep, ps_sshHostKey = None\<rparr>"
  using proxy_edit_unchanged [OF demo_profiles_ok(3), of demoPlatform]
  by (simp add: demoProxy_def demoSsh_def credentialMandatory_def credentialTypeForConfiguration_def)

theorem proxy_submission_consistent_witness:
  "credentialAfter pc_type (existingProxyCredential CreateProxy) (ps_credentialIntent demoSocksSubmission) = Some Socks5Password"
  using proxy_submission_consistent [OF demo_socks]
  by (auto simp: demoSocksSubmission_def credentialAfter_def credentialMandatory_def credentialTypeForConfiguration_def)

theorem server_edit_unchanged_witness:
  "buildServerEditorSubmission demoPlatform demoUrl (EditServer (hd demoServers)) (createServerEditorDraft demoPlatform (EditServer (hd demoServers))) {} =
    Inr \<lparr>es_name = sp_name (hd demoServers), es_configuration = demoLocal, es_credentialIntent = Keep\<rparr>"
  using server_edit_unchanged [OF demo_profiles_ok(1), of demoPlatform "{}"]
  by (simp add: demoServers_def demoServer_def demoLocal_def configurationCredentialType_def)

theorem server_credential_bound_witness:
  "accepted demoPlatform demoUrl CreateServer False (es_configuration demoLocalSubmission) (es_credentialIntent demoLocalSubmission)"
  using server_credential_bound [OF demo_local_submission] by (simp add: demoLocalDraft_def emptyServerDraft_def)

text \<open>
  A header named \<open>__proto__\<close> is allowed by the contract, and the editor of servers keeps such a name, but the
  editor of proxies loses it: saving an unchanged proxy removes the header.
\<close>

lemma proxy_editor_drops_proto:
  "headersOk HttpConnectTransport [(lit ''__proto__'', lit ''v'')]"
  "keyValueRecord (headerRows [(lit ''__proto__'', lit ''v'')]) = Inr []"
  "serverKeyValueRecord demoPlatform [\<lparr>kv_name = lit ''__proto__'', kv_value = lit ''v''\<rparr>] SfNonSensitiveEnvironment label False =
     Inr [(lit ''__proto__'', lit ''v'')]"
  by code_simp+

end
