(* ===== verification/TransportEvents.thy ===== *)
theory TransportEvents
  imports SessionModel ConfigCodec
begin

text \<open>
  The events that the back end sends about a connection: \<open>src/transport/remoteWebSocket.ts\<close> and
  \<open>src/transport/localStdio.ts\<close>. A value of the event channel is accepted only if it is exactly one
  of the events of the interface, with a reason that fits its status. The locale
  \<open>event_codec\<close> states this contract of a parser; it is interpreted on both. At the end the interfaces are
  written down apart from the parsers, and the parsers are shown to accept exactly them.
\<close>

section \<open>Reading values\<close>

text \<open>\<open>asRecord\<close> is that of the router: an array is an object too; none of the properties read here is an index.\<close>

text \<open>\<open>Object.keys\<close> does not list symbols.\<close>

definition hasOnlyKeys :: "jsrecord \<Rightarrow> string list \<Rightarrow> bool" where
  "hasOnlyKeys r allowed =
     list_all (\<lambda>k. case k of KStr s \<Rightarrow> s \<in> set (map lit allowed) | KSym _ \<Rightarrow> True) (ownKeys r)"

definition enumOf :: "(string \<times> 'a) list \<Rightarrow> jsval \<Rightarrow> 'a option" where
  "enumOf allowed v = (case v of JStr s \<Rightarrow> enumLookup allowed s | _ \<Rightarrow> None)"

definition boolOf :: "jsval \<Rightarrow> bool option" where
  "boolOf v = (case v of JBool b \<Rightarrow> Some b | _ \<Rightarrow> None)"

definition safeIntOf :: "jsval \<Rightarrow> int option" where
  "safeIntOf v = (case v of JInt i \<Rightarrow> if isSafeInt i then Some i else None | _ \<Rightarrow> None)"

definition isOptional :: "(jsval \<Rightarrow> 'a option) \<Rightarrow> jsval \<Rightarrow> bool" where
  "isOptional read v \<longleftrightarrow> v = JUndef \<or> read v \<noteq> None"

section \<open>Events of a remote connection\<close>

datatype RemoteWebSocketStatus = RemoteConnected | RemoteDisconnected | RemoteError

datatype RemoteWebSocketTerminationReason =
    RemoteRequested | RemoteClosed | RemoteInvalidJson | RemoteBinaryMessage | RemoteUnsupportedMessage
  | RemoteMessageTooLarge | RemoteReadFailed | RemoteWriteFailed | RemoteEventDeliveryFailed | SshKeepAliveTimedOut

definition REMOTE_STATUSES :: "(string \<times> RemoteWebSocketStatus) list" where
  "REMOTE_STATUSES = [(''connected'', RemoteConnected), (''disconnected'', RemoteDisconnected), (''error'', RemoteError)]"

definition REMOTE_TERMINATION_REASONS :: "(string \<times> RemoteWebSocketTerminationReason) list" where
  "REMOTE_TERMINATION_REASONS =
     [(''requested'', RemoteRequested), (''remoteClosed'', RemoteClosed), (''invalidJson'', RemoteInvalidJson),
      (''binaryMessage'', RemoteBinaryMessage), (''unsupportedMessage'', RemoteUnsupportedMessage),
      (''messageTooLarge'', RemoteMessageTooLarge), (''readFailed'', RemoteReadFailed), (''writeFailed'', RemoteWriteFailed),
      (''eventDeliveryFailed'', RemoteEventDeliveryFailed), (''sshKeepAliveTimedOut'', SshKeepAliveTimedOut)]"

definition CONNECTION_STAGES :: "(string \<times> TransportConnectionStage) list" where
  "CONNECTION_STAGES =
     [(''resolvingTarget'', ResolvingTarget), (''connectingProxy'', ConnectingProxy), (''proxyAuthentication'', ProxyAuthentication),
      (''establishingTunnel'', EstablishingTunnel), (''targetTls'', TargetTls), (''webSocketHandshake'', WebSocketHandshake)]"

record RemoteWebSocketStatusEvent =
  re_status :: RemoteWebSocketStatus
  re_reason :: "RemoteWebSocketTerminationReason option"
  re_closeCode :: "int option"
  re_forced :: bool

datatype RemoteWebSocketConnectionEvent =
    RemoteProgress jstr TransportConnectionStage
  | RemoteMessage jstr jstr
  | RemoteStatus jstr RemoteWebSocketStatusEvent

definition remoteStatusForReason :: "RemoteWebSocketTerminationReason \<Rightarrow> RemoteWebSocketStatus" where
  "remoteStatusForReason reason =
     (if reason = RemoteRequested \<or> reason = RemoteClosed then RemoteDisconnected else RemoteError)"

definition closeCodeOf :: "jsval \<Rightarrow> int option" where
  "closeCodeOf v = (case safeIntOf v of None \<Rightarrow> None | Some i \<Rightarrow> if 0 \<le> i \<and> i \<le> 65535 then Some i else None)"

text \<open>Status, reason, code and flag fit together.\<close>

definition remoteStatusOk :: "RemoteWebSocketStatusEvent \<Rightarrow> bool" where
  "remoteStatusOk e \<longleftrightarrow>
     \<not> (re_status e = RemoteConnected \<and> (re_reason e \<noteq> None \<or> re_closeCode e \<noteq> None \<or> re_forced e)) \<and>
     \<not> (re_status e \<noteq> RemoteConnected \<and>
        (case re_reason e of None \<Rightarrow> True | Some r \<Rightarrow> remoteStatusForReason r \<noteq> re_status e)) \<and>
     \<not> (re_closeCode e \<noteq> None \<and> re_reason e \<noteq> Some RemoteClosed)"

definition parseRemoteStatus :: "jsrecord \<Rightarrow> RemoteWebSocketStatusEvent option" where
  "parseRemoteStatus r =
     (case (enumOf REMOTE_STATUSES (field r ''status''), boolOf (field r ''forced'')) of
        (Some status, Some forced) \<Rightarrow>
          if isOptional (enumOf REMOTE_TERMINATION_REASONS) (field r ''reason'') \<and>
             isOptional closeCodeOf (field r ''closeCode'') \<and>
             hasOnlyKeys r [''kind'', ''connectionId'', ''status'', ''reason'', ''closeCode'', ''forced'']
          then
            let e = \<lparr>re_status = status, re_reason = enumOf REMOTE_TERMINATION_REASONS (field r ''reason''),
                    re_closeCode = closeCodeOf (field r ''closeCode''), re_forced = forced\<rparr> in
            if remoteStatusOk e then Some e else None
          else None
      | _ \<Rightarrow> None)"

definition parseRemoteWebSocketConnectionEvent :: "jsval \<Rightarrow> RemoteWebSocketConnectionEvent option" where
  "parseRemoteWebSocketConnectionEvent v =
     (case asRecord v of
        None \<Rightarrow> None
      | Some r \<Rightarrow>
          (case field r ''connectionId'' of
             JStr connectionId \<Rightarrow>
               (case (field r ''kind'', enumOf CONNECTION_STAGES (field r ''stage''), field r ''json'') of
                  (JStr kind, stage, json) \<Rightarrow>
                    if kind = lit ''progress'' \<and> stage \<noteq> None \<and> hasOnlyKeys r [''kind'', ''connectionId'', ''stage'']
                    then map_option (RemoteProgress connectionId) stage
                    else if kind = lit ''protocolMessage'' \<and> (case json of JStr _ \<Rightarrow> True | _ \<Rightarrow> False) \<and>
                            hasOnlyKeys r [''kind'', ''connectionId'', ''json'']
                    then (case json of JStr s \<Rightarrow> Some (RemoteMessage connectionId s) | _ \<Rightarrow> None)
                    else if kind = lit ''status'' then map_option (RemoteStatus connectionId) (parseRemoteStatus r)
                    else None
                | _ \<Rightarrow> None)
           | _ \<Rightarrow> None))"

section \<open>Events of a local process\<close>

datatype LocalStdioStatus = LocalConnected | LocalDisconnected | LocalExited | LocalError

datatype LocalStdioTerminationReason =
    LocalRequested | LocalProcessExited | LocalInvalidUtf8 | LocalInvalidJson | LocalLineTooLong
  | LocalStdoutReadFailed | LocalEventDeliveryFailed | LocalChildWaitFailed

definition LOCAL_STATUSES :: "(string \<times> LocalStdioStatus) list" where
  "LOCAL_STATUSES = [(''connected'', LocalConnected), (''disconnected'', LocalDisconnected), (''exited'', LocalExited), (''error'', LocalError)]"

definition LOCAL_TERMINATION_REASONS :: "(string \<times> LocalStdioTerminationReason) list" where
  "LOCAL_TERMINATION_REASONS =
     [(''requested'', LocalRequested), (''processExited'', LocalProcessExited), (''invalidUtf8'', LocalInvalidUtf8),
      (''invalidJson'', LocalInvalidJson), (''lineTooLong'', LocalLineTooLong), (''stdoutReadFailed'', LocalStdoutReadFailed),
      (''eventDeliveryFailed'', LocalEventDeliveryFailed), (''childWaitFailed'', LocalChildWaitFailed)]"

record LocalStdioStatusEvent =
  le_status :: LocalStdioStatus
  le_reason :: "LocalStdioTerminationReason option"
  le_exitCode :: "int option"
  le_signal :: "int option"
  le_stderrBytes :: int
  le_forced :: bool

datatype LocalStdioConnectionEvent =
    LocalMessage jstr jstr
  | LocalStatus jstr LocalStdioStatusEvent

definition localStatusForReason :: "LocalStdioTerminationReason \<Rightarrow> LocalStdioStatus" where
  "localStatusForReason reason =
     (if reason = LocalRequested then LocalDisconnected
      else if reason = LocalProcessExited then LocalExited else LocalError)"

definition localStatusOk :: "LocalStdioStatusEvent \<Rightarrow> bool" where
  "localStatusOk e \<longleftrightarrow>
     \<not> (le_status e = LocalConnected \<and>
        (le_reason e \<noteq> None \<or> le_exitCode e \<noteq> None \<or> le_signal e \<noteq> None \<or> le_stderrBytes e \<noteq> 0 \<or> le_forced e)) \<and>
     \<not> (le_status e \<noteq> LocalConnected \<and>
        (case le_reason e of None \<Rightarrow> True | Some r \<Rightarrow> localStatusForReason r \<noteq> le_status e))"

definition parseLocalStatus :: "jsrecord \<Rightarrow> LocalStdioStatusEvent option" where
  "parseLocalStatus r =
     (case (enumOf LOCAL_STATUSES (field r ''status''), safeIntOf (field r ''stderrBytes''), boolOf (field r ''forced'')) of
        (Some status, Some stderrBytes, Some forced) \<Rightarrow>
          if 0 \<le> stderrBytes \<and> isOptional safeIntOf (field r ''exitCode'') \<and> isOptional safeIntOf (field r ''signal'') \<and>
             isOptional (enumOf LOCAL_TERMINATION_REASONS) (field r ''reason'') \<and>
             hasOnlyKeys r [''kind'', ''connectionId'', ''status'', ''reason'', ''exitCode'', ''signal'', ''stderrBytes'', ''forced'']
          then
            let e = \<lparr>le_status = status, le_reason = enumOf LOCAL_TERMINATION_REASONS (field r ''reason''),
                    le_exitCode = safeIntOf (field r ''exitCode''), le_signal = safeIntOf (field r ''signal''),
                    le_stderrBytes = stderrBytes, le_forced = forced\<rparr> in
            if localStatusOk e then Some e else None
          else None
      | _ \<Rightarrow> None)"

definition parseLocalStdioConnectionEvent :: "jsval \<Rightarrow> LocalStdioConnectionEvent option" where
  "parseLocalStdioConnectionEvent v =
     (case asRecord v of
        None \<Rightarrow> None
      | Some r \<Rightarrow>
          (case field r ''connectionId'' of
             JStr connectionId \<Rightarrow>
               (case (field r ''kind'', field r ''json'') of
                  (JStr kind, json) \<Rightarrow>
                    if kind = lit ''protocolMessage'' \<and> (case json of JStr _ \<Rightarrow> True | _ \<Rightarrow> False) \<and>
                       hasOnlyKeys r [''kind'', ''connectionId'', ''json'']
                    then (case json of JStr s \<Rightarrow> Some (LocalMessage connectionId s) | _ \<Rightarrow> None)
                    else if kind = lit ''status'' then map_option (LocalStatus connectionId) (parseLocalStatus r)
                    else None
                | _ \<Rightarrow> None)
           | _ \<Rightarrow> None))"

section \<open>The contract of a parser of events\<close>

locale event_codec =
  fixes parse :: "jsval \<Rightarrow> 'e option"
    and enc :: "'e \<Rightarrow> jsval"
    and ok :: "'e \<Rightarrow> bool"
  assumes sound: "parse v = Some e \<Longrightarrow> ok e"
    and complete: "ok e \<Longrightarrow> parse (enc e) = Some e"
begin

lemma parse_again: "parse v = Some e \<Longrightarrow> parse (enc e) = Some e"
  by (rule complete) (rule sound)

lemma enc_inject: "ok e \<Longrightarrow> ok e' \<Longrightarrow> enc e = enc e' \<longleftrightarrow> e = e'"
  using complete by (metis option.inject)

end

fun RemoteEvent_value :: "RemoteWebSocketConnectionEvent \<Rightarrow> jsval" where
  "RemoteEvent_value (RemoteProgress i stage) = JObj [jprop ''kind'' (JStr (lit ''progress'')), jprop ''connectionId'' (JStr i),
     jprop ''stage'' (enumValue CONNECTION_STAGES stage)]"
| "RemoteEvent_value (RemoteMessage i json) = JObj [jprop ''kind'' (JStr (lit ''protocolMessage'')), jprop ''connectionId'' (JStr i),
     jprop ''json'' (JStr json)]"
| "RemoteEvent_value (RemoteStatus i e) = JObj ([jprop ''kind'' (JStr (lit ''status'')), jprop ''connectionId'' (JStr i),
     jprop ''status'' (enumValue REMOTE_STATUSES (re_status e))] @
     optProp ''reason'' (enumValue REMOTE_TERMINATION_REASONS) (re_reason e) @ optProp ''closeCode'' JInt (re_closeCode e) @
     [jprop ''forced'' (JBool (re_forced e))])"

fun RemoteEvent_ok :: "RemoteWebSocketConnectionEvent \<Rightarrow> bool" where
  "RemoteEvent_ok (RemoteStatus i e) \<longleftrightarrow> remoteStatusOk e \<and> pred_option (\<lambda>c. 0 \<le> c \<and> c \<le> 65535) (re_closeCode e)"
| "RemoteEvent_ok _ \<longleftrightarrow> True"

fun LocalEvent_value :: "LocalStdioConnectionEvent \<Rightarrow> jsval" where
  "LocalEvent_value (LocalMessage i json) = JObj [jprop ''kind'' (JStr (lit ''protocolMessage'')), jprop ''connectionId'' (JStr i),
     jprop ''json'' (JStr json)]"
| "LocalEvent_value (LocalStatus i e) = JObj ([jprop ''kind'' (JStr (lit ''status'')), jprop ''connectionId'' (JStr i),
     jprop ''status'' (enumValue LOCAL_STATUSES (le_status e))] @
     optProp ''reason'' (enumValue LOCAL_TERMINATION_REASONS) (le_reason e) @ optProp ''exitCode'' JInt (le_exitCode e) @
     optProp ''signal'' JInt (le_signal e) @
     [jprop ''stderrBytes'' (JInt (le_stderrBytes e)), jprop ''forced'' (JBool (le_forced e))])"

fun LocalEvent_ok :: "LocalStdioConnectionEvent \<Rightarrow> bool" where
  "LocalEvent_ok (LocalStatus i e) \<longleftrightarrow> localStatusOk e \<and> pred_option isSafeInt (le_exitCode e) \<and> pred_option isSafeInt (le_signal e) \<and>
     0 \<le> le_stderrBytes e \<and> isSafeInt (le_stderrBytes e)"
| "LocalEvent_ok _ \<longleftrightarrow> True"

lemma enum_round_trip [simp]:
  "enumOf REMOTE_STATUSES (enumValue REMOTE_STATUSES s) = Some s"
  "enumOf REMOTE_TERMINATION_REASONS (enumValue REMOTE_TERMINATION_REASONS r) = Some r"
  "enumOf CONNECTION_STAGES (enumValue CONNECTION_STAGES g) = Some g"
  "enumOf LOCAL_STATUSES (enumValue LOCAL_STATUSES t) = Some t"
  "enumOf LOCAL_TERMINATION_REASONS (enumValue LOCAL_TERMINATION_REASONS q) = Some q"
proof -
  note enums = enumOf_def enumName_def
  show "enumOf REMOTE_STATUSES (enumValue REMOTE_STATUSES s) = Some s"
    by (cases s) (simp_all add: enums REMOTE_STATUSES_def)
  show "enumOf REMOTE_TERMINATION_REASONS (enumValue REMOTE_TERMINATION_REASONS r) = Some r"
    by (cases r) (simp_all add: enums REMOTE_TERMINATION_REASONS_def)
  show "enumOf CONNECTION_STAGES (enumValue CONNECTION_STAGES g) = Some g"
    by (cases g) (simp_all add: enums CONNECTION_STAGES_def)
  show "enumOf LOCAL_STATUSES (enumValue LOCAL_STATUSES t) = Some t"
    by (cases t) (simp_all add: enums LOCAL_STATUSES_def)
  show "enumOf LOCAL_TERMINATION_REASONS (enumValue LOCAL_TERMINATION_REASONS q) = Some q"
    by (cases q) (simp_all add: enums LOCAL_TERMINATION_REASONS_def)
qed

lemma reader_simps [simp]:
  "boolOf (JBool b) = Some b" "safeIntOf (JInt i) = (if isSafeInt i then Some i else None)" "safeIntOf JUndef = None"
  "enumOf allowed JUndef = None" "closeCodeOf JUndef = None" "isOptional read JUndef"
  "asRecord (JObj r) = Some r"
  by (simp_all add: boolOf_def safeIntOf_def enumOf_def closeCodeOf_def isOptional_def asRecord_def)

lemma hasOnlyKeys_simps [simp]:
  "hasOnlyKeys [] allowed"
  "hasOnlyKeys ((KStr (lit k), v) # r) allowed \<longleftrightarrow> k \<in> set allowed \<and> hasOnlyKeys r allowed"
  "hasOnlyKeys (r @ r') allowed \<longleftrightarrow> hasOnlyKeys r allowed \<and> hasOnlyKeys r' allowed"
  "hasOnlyKeys (optProp k f x) allowed \<longleftrightarrow> x = None \<or> k \<in> set allowed"
  by (auto simp: hasOnlyKeys_def)

lemma closeCode_bounds: "closeCodeOf v = Some c \<Longrightarrow> 0 \<le> c \<and> c \<le> 65535"
  by (simp add: closeCodeOf_def split: option.splits if_splits)

lemma safeIntOf_safe: "safeIntOf v = Some i \<Longrightarrow> isSafeInt i"
  by (simp add: safeIntOf_def split: jsval.splits if_splits del: isSafeInt_bounds)

interpretation remoteEvents: event_codec parseRemoteWebSocketConnectionEvent RemoteEvent_value RemoteEvent_ok
proof
  fix v e
  assume "parseRemoteWebSocketConnectionEvent v = Some e"
  then show "RemoteEvent_ok e"
    by (auto simp: parseRemoteWebSocketConnectionEvent_def parseRemoteStatus_def Let_def pred_option_def
        dest: closeCode_bounds split: option.splits jsval.splits if_splits)
next
  fix e
  assume "RemoteEvent_ok e"
  then show "parseRemoteWebSocketConnectionEvent (RemoteEvent_value e) = Some e"
  proof (cases e)
    case (RemoteStatus i s)
    then show ?thesis
      using \<open>RemoteEvent_ok e\<close>
      by (cases s; cases "re_reason s"; cases "re_closeCode s")
        (auto simp: parseRemoteWebSocketConnectionEvent_def parseRemoteStatus_def isOptional_def closeCodeOf_def Let_def)
  qed (simp_all add: parseRemoteWebSocketConnectionEvent_def)
qed

interpretation localEvents: event_codec parseLocalStdioConnectionEvent LocalEvent_value LocalEvent_ok
proof
  fix v e
  assume "parseLocalStdioConnectionEvent v = Some e"
  then show "LocalEvent_ok e"
    by (auto simp: parseLocalStdioConnectionEvent_def parseLocalStatus_def Let_def pred_option_def simp del: isSafeInt_bounds
        dest: safeIntOf_safe split: option.splits jsval.splits if_splits)
next
  fix e
  assume "LocalEvent_ok e"
  then show "parseLocalStdioConnectionEvent (LocalEvent_value e) = Some e"
  proof (cases e)
    case (LocalStatus i s)
    then show ?thesis
      using \<open>LocalEvent_ok e\<close>
      by (cases s; cases "le_reason s"; cases "le_exitCode s"; cases "le_signal s")
        (auto simp: parseLocalStdioConnectionEvent_def parseLocalStatus_def isOptional_def Let_def simp del: isSafeInt_bounds)
  qed (simp_all add: parseLocalStdioConnectionEvent_def)
qed

section \<open>The events of the interfaces\<close>

text \<open>
  The interfaces themselves, written down apart from the parsers: which combinations of status, reason, code
  and numbers an event may have, and the properties its object has, an optional one being undefined or absent.
\<close>

fun remoteAllowed :: "RemoteWebSocketConnectionEvent \<Rightarrow> bool" where
  "remoteAllowed (RemoteStatus i e) \<longleftrightarrow>
     (case re_status e of
        RemoteConnected \<Rightarrow> re_reason e = None \<and> re_closeCode e = None \<and> \<not> re_forced e
      | RemoteDisconnected \<Rightarrow> re_reason e = Some RemoteRequested \<and> re_closeCode e = None \<or>
          re_reason e = Some RemoteClosed \<and> (case re_closeCode e of None \<Rightarrow> True | Some c \<Rightarrow> 0 \<le> c \<and> c \<le> 65535)
      | RemoteError \<Rightarrow> re_closeCode e = None \<and>
          re_reason e \<in> Some ` {RemoteInvalidJson, RemoteBinaryMessage, RemoteUnsupportedMessage, RemoteMessageTooLarge,
            RemoteReadFailed, RemoteWriteFailed, RemoteEventDeliveryFailed, SshKeepAliveTimedOut})"
| "remoteAllowed _ \<longleftrightarrow> True"

fun localAllowed :: "LocalStdioConnectionEvent \<Rightarrow> bool" where
  "localAllowed (LocalStatus i e) \<longleftrightarrow>
     (case le_exitCode e of None \<Rightarrow> True | Some n \<Rightarrow> isSafeInt n) \<and> (case le_signal e of None \<Rightarrow> True | Some n \<Rightarrow> isSafeInt n) \<and>
     0 \<le> le_stderrBytes e \<and> isSafeInt (le_stderrBytes e) \<and>
     (case le_status e of
        LocalConnected \<Rightarrow> le_reason e = None \<and> le_exitCode e = None \<and> le_signal e = None \<and> le_stderrBytes e = 0 \<and> \<not> le_forced e
      | LocalDisconnected \<Rightarrow> le_reason e = Some LocalRequested
      | LocalExited \<Rightarrow> le_reason e = Some LocalProcessExited
      | LocalError \<Rightarrow> le_reason e \<in> Some ` {LocalInvalidUtf8, LocalInvalidJson, LocalLineTooLong, LocalStdoutReadFailed,
          LocalEventDeliveryFailed, LocalChildWaitFailed})"
| "localAllowed _ \<longleftrightarrow> True"

definition orUndef :: "('a \<Rightarrow> jsval) \<Rightarrow> 'a option \<Rightarrow> jsval" where
  "orUndef f x = (case x of None \<Rightarrow> JUndef | Some y \<Rightarrow> f y)"

fun remoteFields :: "RemoteWebSocketConnectionEvent \<Rightarrow> (string \<times> jsval) list" where
  "remoteFields (RemoteProgress i stage) =
     [(''kind'', JStr (lit ''progress'')), (''connectionId'', JStr i), (''stage'', enumValue CONNECTION_STAGES stage)]"
| "remoteFields (RemoteMessage i json) =
     [(''kind'', JStr (lit ''protocolMessage'')), (''connectionId'', JStr i), (''json'', JStr json)]"
| "remoteFields (RemoteStatus i e) =
     [(''kind'', JStr (lit ''status'')), (''connectionId'', JStr i), (''status'', enumValue REMOTE_STATUSES (re_status e)),
      (''reason'', orUndef (enumValue REMOTE_TERMINATION_REASONS) (re_reason e)), (''closeCode'', orUndef JInt (re_closeCode e)),
      (''forced'', JBool (re_forced e))]"

fun localFields :: "LocalStdioConnectionEvent \<Rightarrow> (string \<times> jsval) list" where
  "localFields (LocalMessage i json) =
     [(''kind'', JStr (lit ''protocolMessage'')), (''connectionId'', JStr i), (''json'', JStr json)]"
| "localFields (LocalStatus i e) =
     [(''kind'', JStr (lit ''status'')), (''connectionId'', JStr i), (''status'', enumValue LOCAL_STATUSES (le_status e)),
      (''reason'', orUndef (enumValue LOCAL_TERMINATION_REASONS) (le_reason e)), (''exitCode'', orUndef JInt (le_exitCode e)),
      (''signal'', orUndef JInt (le_signal e)), (''stderrBytes'', JInt (le_stderrBytes e)), (''forced'', JBool (le_forced e))]"

text \<open>A value is an object with these properties and no other one (symbols are not listed).\<close>

definition isExactly :: "jsval \<Rightarrow> (string \<times> jsval) list \<Rightarrow> bool" where
  "isExactly v ps \<longleftrightarrow> (case asRecord v of None \<Rightarrow> False | Some r \<Rightarrow>
     list_all (\<lambda>(k, x). field r k = x) ps \<and>
     (\<forall>s. KStr s \<in> set (ownKeys r) \<longrightarrow> s \<in> set (map lit (map fst ps))))"

lemma isExactly_iff:
  "isExactly v ps \<longleftrightarrow> (\<exists>r. asRecord v = Some r \<and> list_all (\<lambda>(k, x). field r k = x) ps \<and> hasOnlyKeys r (map fst ps))"
proof -
  have keys: "(\<forall>s. KStr s \<in> K \<longrightarrow> s \<in> S) \<longleftrightarrow> (\<forall>k\<in>K. case k of KStr s \<Rightarrow> s \<in> S | KSym _ \<Rightarrow> True)" for K S
    by (force split: jskey.split)
  have "hasOnlyKeys r (map fst ps) \<longleftrightarrow> (\<forall>s. KStr s \<in> set (ownKeys r) \<longrightarrow> s \<in> set (map lit (map fst ps)))" for r
    unfolding hasOnlyKeys_def list_all_iff by (rule keys [symmetric])
  then show ?thesis by (cases "asRecord v") (simp_all add: isExactly_def)
qed

text \<open>What a reader returns determines what it has read.\<close>

lemma enumOf_value:
  assumes "enumOf T v = Some x" and "distinct (map snd T)"
  shows "v = enumValue T x"
proof -
  from assms(1) obtain n where n: "v = JStr (lit n)" "(n, x) \<in> set T"
    by (auto simp: enumOf_def enumLookup_def dest!: map_of_SomeD split: jsval.splits)
  then obtain e where e: "find (\<lambda>(_, y). y = x) T = Some e" by (cases "find (\<lambda>(_, y). y = x) T") (auto simp: find_None_iff)
  have found: "y \<in> set T \<and> P y" if "find P T = Some y" for P y
    using that by (induction T) (auto split: if_splits)
  have "e \<in> set T" "snd e = x" using found [OF e] by auto
  moreover have "inj_on snd (set T)" using assms(2) by (simp add: distinct_map)
  ultimately have "e = (n, x)" using n(2) by (auto simp: inj_on_def)
  with e n(1) show ?thesis by (simp add: enumName_def)
qed

lemma tables_distinct [simp]:
  "distinct (map snd REMOTE_STATUSES)" "distinct (map snd REMOTE_TERMINATION_REASONS)" "distinct (map snd CONNECTION_STAGES)"
  "distinct (map snd LOCAL_STATUSES)" "distinct (map snd LOCAL_TERMINATION_REASONS)"
  by (simp_all add: REMOTE_STATUSES_def REMOTE_TERMINATION_REASONS_def CONNECTION_STAGES_def LOCAL_STATUSES_def LOCAL_TERMINATION_REASONS_def)

lemma enumOf_iff:
  "enumOf REMOTE_STATUSES v = Some a \<longleftrightarrow> v = enumValue REMOTE_STATUSES a"
  "enumOf REMOTE_TERMINATION_REASONS v = Some b \<longleftrightarrow> v = enumValue REMOTE_TERMINATION_REASONS b"
  "enumOf CONNECTION_STAGES v = Some c \<longleftrightarrow> v = enumValue CONNECTION_STAGES c"
  "enumOf LOCAL_STATUSES v = Some d \<longleftrightarrow> v = enumValue LOCAL_STATUSES d"
  "enumOf LOCAL_TERMINATION_REASONS v = Some e \<longleftrightarrow> v = enumValue LOCAL_TERMINATION_REASONS e"
  using enumOf_value by (metis enum_round_trip tables_distinct)+

lemma number_iff:
  "boolOf v = Some b \<longleftrightarrow> v = JBool b" "safeIntOf v = Some i \<longleftrightarrow> v = JInt i \<and> isSafeInt i"
  "closeCodeOf v = Some c \<longleftrightarrow> v = JInt c \<and> 0 \<le> c \<and> c \<le> 65535"
  by (auto simp: boolOf_def safeIntOf_def closeCodeOf_def MAX_SAFE_INTEGER_def split: jsval.splits)

text \<open>An optional property is read as what it is: a value of its type, or undefined.\<close>

lemma optional_iff:
  assumes "\<And>x. read v = Some x \<longleftrightarrow> v = f x \<and> ok x" and "\<And>x. f x \<noteq> JUndef"
  shows "isOptional read v \<and> read v = y \<longleftrightarrow> v = orUndef f y \<and> (case y of None \<Rightarrow> True | Some x \<Rightarrow> ok x)"
proof (cases y)
  case None
  have "read JUndef = None" if "v = JUndef" using assms that by (metis not_None_eq)
  then show ?thesis using None by (auto simp: isOptional_def orUndef_def)
next
  case (Some x)
  then show ?thesis using assms by (auto simp: isOptional_def orUndef_def)
qed

section \<open>What the parsers accept\<close>

lemma case_True: "(case y of None \<Rightarrow> True | Some x \<Rightarrow> True) = True"
  by (cases y) simp_all

lemmas remote_optional =
  optional_iff [where read = "enumOf REMOTE_TERMINATION_REASONS" and f = "enumValue REMOTE_TERMINATION_REASONS" and ok = "\<lambda>_. True", simplified enumOf_iff, simplified]
  optional_iff [where read = closeCodeOf and f = JInt and ok = "\<lambda>c. 0 \<le> c \<and> c \<le> 65535", simplified number_iff, simplified]

lemmas local_optional =
  optional_iff [where read = "enumOf LOCAL_TERMINATION_REASONS" and f = "enumValue LOCAL_TERMINATION_REASONS" and ok = "\<lambda>_. True", simplified enumOf_iff, simplified]
  optional_iff [where read = safeIntOf and f = JInt and ok = isSafeInt, simplified number_iff, simplified]

lemma parseRemoteStatus_iff:
  "parseRemoteStatus r = Some e \<longleftrightarrow>
     enumOf REMOTE_STATUSES (field r ''status'') = Some (re_status e) \<and> boolOf (field r ''forced'') = Some (re_forced e) \<and>
     (isOptional (enumOf REMOTE_TERMINATION_REASONS) (field r ''reason'') \<and>
      enumOf REMOTE_TERMINATION_REASONS (field r ''reason'') = re_reason e) \<and>
     (isOptional closeCodeOf (field r ''closeCode'') \<and> closeCodeOf (field r ''closeCode'') = re_closeCode e) \<and>
     hasOnlyKeys r [''kind'', ''connectionId'', ''status'', ''reason'', ''closeCode'', ''forced''] \<and> remoteStatusOk e"
  unfolding parseRemoteStatus_def Let_def
  by (cases e) (auto simp del: hasOnlyKeys_simps split: option.splits, (rule ccontr, simp)+)

lemma remote_allowed:
  "remoteAllowed (RemoteStatus i e) \<longleftrightarrow> remoteStatusOk e \<and> (case re_closeCode e of None \<Rightarrow> True | Some c \<Rightarrow> 0 \<le> c \<and> c \<le> 65535)"
proof -
  have "remoteStatusForReason r = RemoteDisconnected \<longleftrightarrow> r = RemoteRequested \<or> r = RemoteClosed"
    "remoteStatusForReason r = RemoteError \<longleftrightarrow> r \<noteq> RemoteRequested \<and> r \<noteq> RemoteClosed"
    "remoteStatusForReason r \<noteq> RemoteConnected" for r
    by (simp_all add: remoteStatusForReason_def)
  then show ?thesis
    by (cases "re_status e"; cases "re_reason e"; cases "re_closeCode e")
      (auto simp: remoteStatusOk_def image_iff intro: RemoteWebSocketTerminationReason.exhaust)
qed

lemma parseLocalStatus_iff:
  "parseLocalStatus r = Some e \<longleftrightarrow>
     enumOf LOCAL_STATUSES (field r ''status'') = Some (le_status e) \<and> safeIntOf (field r ''stderrBytes'') = Some (le_stderrBytes e) \<and>
     boolOf (field r ''forced'') = Some (le_forced e) \<and> 0 \<le> le_stderrBytes e \<and>
     (isOptional safeIntOf (field r ''exitCode'') \<and> safeIntOf (field r ''exitCode'') = le_exitCode e) \<and>
     (isOptional safeIntOf (field r ''signal'') \<and> safeIntOf (field r ''signal'') = le_signal e) \<and>
     (isOptional (enumOf LOCAL_TERMINATION_REASONS) (field r ''reason'') \<and>
      enumOf LOCAL_TERMINATION_REASONS (field r ''reason'') = le_reason e) \<and>
     hasOnlyKeys r [''kind'', ''connectionId'', ''status'', ''reason'', ''exitCode'', ''signal'', ''stderrBytes'', ''forced''] \<and>
     localStatusOk e"
  unfolding parseLocalStatus_def Let_def
  by (cases e) (auto simp del: hasOnlyKeys_simps split: option.splits, (rule ccontr, simp)+)

lemma local_allowed:
  "localAllowed (LocalStatus i e) \<longleftrightarrow> localStatusOk e \<and> 0 \<le> le_stderrBytes e \<and> isSafeInt (le_stderrBytes e) \<and>
     (case le_exitCode e of None \<Rightarrow> True | Some n \<Rightarrow> isSafeInt n) \<and> (case le_signal e of None \<Rightarrow> True | Some n \<Rightarrow> isSafeInt n)"
proof -
  have "le_reason e \<in> Some ` {LocalInvalidUtf8, LocalInvalidJson, LocalLineTooLong, LocalStdoutReadFailed,
      LocalEventDeliveryFailed, LocalChildWaitFailed} \<longleftrightarrow> (\<exists>r. le_reason e = Some r \<and> r \<noteq> LocalRequested \<and> r \<noteq> LocalProcessExited)"
    by (auto intro: LocalStdioTerminationReason.exhaust)
  then show ?thesis
    by (cases "le_status e"; cases "le_reason e") (auto simp: localStatusOk_def localStatusForReason_def simp del: isSafeInt_bounds)
qed

lemma remote_exact:
  "parseRemoteWebSocketConnectionEvent v = Some e \<longleftrightarrow> remoteAllowed e \<and> isExactly v (remoteFields e)"
proof (cases "asRecord v")
  case (Some r)
  show ?thesis
  proof (cases e)
    case (RemoteStatus i s)
    have "parseRemoteWebSocketConnectionEvent v = Some e \<longleftrightarrow>
        field r ''connectionId'' = JStr i \<and> field r ''kind'' = JStr (lit ''status'') \<and> parseRemoteStatus r = Some s"
      by (auto simp: parseRemoteWebSocketConnectionEvent_def Some RemoteStatus split: jsval.splits option.splits)
    then show ?thesis
      unfolding parseRemoteStatus_iff remote_optional case_True enumOf_iff number_iff RemoteStatus remote_allowed isExactly_iff
      by (auto simp: Some)
  qed (auto simp: parseRemoteWebSocketConnectionEvent_def Some isExactly_iff enumOf_iff split: jsval.splits option.splits if_splits)
qed (simp add: parseRemoteWebSocketConnectionEvent_def isExactly_iff)

lemma local_exact:
  "parseLocalStdioConnectionEvent v = Some e \<longleftrightarrow> localAllowed e \<and> isExactly v (localFields e)"
proof (cases "asRecord v")
  case (Some r)
  show ?thesis
  proof (cases e)
    case (LocalStatus i s)
    have "parseLocalStdioConnectionEvent v = Some e \<longleftrightarrow>
        field r ''connectionId'' = JStr i \<and> field r ''kind'' = JStr (lit ''status'') \<and> parseLocalStatus r = Some s"
      by (auto simp: parseLocalStdioConnectionEvent_def Some LocalStatus split: jsval.splits option.splits)
    then show ?thesis
      unfolding parseLocalStatus_iff local_optional case_True enumOf_iff number_iff LocalStatus local_allowed isExactly_iff
      by (auto simp: Some simp del: isSafeInt_bounds)
  qed (auto simp: parseLocalStdioConnectionEvent_def Some isExactly_iff split: jsval.splits option.splits if_splits)
qed (simp add: parseLocalStdioConnectionEvent_def isExactly_iff)

end
