(* ===== verification/Transport.thy ===== *)
theory Transport
  imports TransportEvents
begin

text \<open>
  The connection objects of \<open>src/transport/remoteWebSocket.ts\<close> and \<open>src/transport/localStdio.ts\<close>:
  one program for two dialects of events, written twice in the source and once here. A handler of
  the client may call \<open>write\<close> and \<open>disconnect\<close> before it returns or throws (\<open>handlerReaction\<close>); the
  answers of the back end are events. The calls of the connection are the log of the state.
\<close>

section \<open>State\<close>

datatype ConnectionState = StateConnecting | StateActive | StateDisconnecting | StateClosed

datatype BridgeErrorCode =
    InvalidConnectionEvent | EventHandlerFailed | InvalidConnectResponse | InvalidOutboundMessage

datatype write_failure = NotActive | BridgeFailure BridgeErrorCode

text \<open>What the connection calls: the back end, or a handler of the client; \<open>'s\<close> is a status event.\<close>

datatype 's transport_call =
    InvokeConnect
  | InvokeSend jstr
  | InvokeDisconnect
  | OnProtocolMessage jstr
  | OnProgress TransportConnectionStage
  | OnStatus 's
  | OnBridgeError BridgeErrorCode
  | WriteRejected write_failure

text \<open>Where the coroutine \<open>connect\<close> is: at an \<open>await\<close>, or finished.\<close>

datatype connect_pc =
    AwaitsResponse
  | AwaitsCleanup
  | CleanupDone
  | Connected
  | ConnectRejected
  | ConnectInvalid

record 's connection =
  cx_connectionId :: jstr
  cx_state :: ConnectionState
  cx_disconnectPromise :: "bool option"
  cx_connect :: connect_pc
  cx_calls :: "'s transport_call list"

datatype client_call = ClientWrite jsval | ClientDisconnect

record handlerReaction =
  rx_calls :: "client_call list"
  rx_throws :: bool

text \<open>
  A dialect: the parser of events as what the connection does with an event, and the identifier
  of a response to the connect command, where it has the right form.
\<close>

datatype 's event_view =
    ViewProgress TransportConnectionStage
  | ViewMessage jstr
  | ViewStatus 's bool bool

record 's dialect =
  dl_parse :: "jsval \<Rightarrow> (jstr \<times> 's event_view) option"
  dl_response :: "jsval \<Rightarrow> jstr option"
  dl_stringify :: "jsval \<Rightarrow> jstr option"

section \<open>Operations\<close>

definition newConnection :: "jstr \<Rightarrow> 's connection" where
  "newConnection connectionId = \<lparr>cx_connectionId = connectionId, cx_state = StateConnecting,
     cx_disconnectPromise = None, cx_connect = AwaitsResponse, cx_calls = [InvokeConnect]\<rparr>"

definition log :: "'s transport_call \<Rightarrow> 's connection \<Rightarrow> 's connection" where
  "log call c = c\<lparr>cx_calls := cx_calls c @ [call]\<rparr>"

definition writeMessage :: "'s dialect \<Rightarrow> jsval \<Rightarrow> 's connection \<Rightarrow> 's connection" where
  "writeMessage D message c =
     (if cx_state c \<noteq> StateActive then log (WriteRejected NotActive) c
      else (case dl_stringify D message of
          None \<Rightarrow> log (WriteRejected (BridgeFailure InvalidOutboundMessage)) c
        | Some json \<Rightarrow> log (InvokeSend json) c))"

definition disconnectTransport :: "'s connection \<Rightarrow> 's connection" where
  "disconnectTransport c =
     (if cx_state c = StateClosed then c
      else if cx_disconnectPromise c \<noteq> None then c
      else log InvokeDisconnect (c\<lparr>cx_state := StateDisconnecting, cx_disconnectPromise := Some False\<rparr>))"

text \<open>The client has the object once \<open>connect\<close> has returned it.\<close>

definition clientCall :: "'s dialect \<Rightarrow> client_call \<Rightarrow> 's connection \<Rightarrow> 's connection" where
  "clientCall D call c =
     (if cx_connect c \<noteq> Connected then c
      else (case call of ClientWrite message \<Rightarrow> writeMessage D message c | ClientDisconnect \<Rightarrow> disconnectTransport c))"

definition callHandler :: "'s dialect \<Rightarrow> 's transport_call \<Rightarrow> handlerReaction \<Rightarrow> 's connection \<Rightarrow> 's connection" where
  "callHandler D call rx c = fold (clientCall D) (rx_calls rx) (log call c)"

text \<open>\<open>notifyBridgeError\<close> swallows an exception; the clean-up is started and not awaited.\<close>

definition notifyBridgeError :: "'s dialect \<Rightarrow> BridgeErrorCode \<Rightarrow> handlerReaction \<Rightarrow> 's connection \<Rightarrow> 's connection" where
  "notifyBridgeError D code rx c = callHandler D (OnBridgeError code) rx c"

definition disconnectAfterInvalidEvent :: "'s connection \<Rightarrow> 's connection" where
  "disconnectAfterInvalidEvent c = disconnectTransport c"

definition bridgeFailure :: "'s dialect \<Rightarrow> BridgeErrorCode \<Rightarrow> handlerReaction \<Rightarrow> 's connection \<Rightarrow> 's connection" where
  "bridgeFailure D code rx c = disconnectAfterInvalidEvent (notifyBridgeError D code rx c)"

definition guarded :: "'s dialect \<Rightarrow> 's transport_call \<Rightarrow> handlerReaction \<Rightarrow> handlerReaction \<Rightarrow> 's connection \<Rightarrow> 's connection" where
  "guarded D call rx rx2 c =
     (let c' = callHandler D call rx c in
      if rx_throws rx then bridgeFailure D EventHandlerFailed rx2 c' else c')"

definition handleEvent :: "'s dialect \<Rightarrow> jsval \<Rightarrow> handlerReaction \<Rightarrow> handlerReaction \<Rightarrow> 's connection \<Rightarrow> 's connection" where
  "handleEvent D v rx rx2 c =
     (case dl_parse D v of
        None \<Rightarrow> bridgeFailure D InvalidConnectionEvent rx c
      | Some (connectionId, view) \<Rightarrow>
          if connectionId \<noteq> cx_connectionId c then bridgeFailure D InvalidConnectionEvent rx c
          else (case view of
              ViewProgress stage \<Rightarrow>
                if cx_state c = StateConnecting then guarded D (OnProgress stage) rx rx2 c else c
            | ViewMessage json \<Rightarrow>
                if cx_state c = StateConnecting \<or> cx_state c = StateActive
                then guarded D (OnProtocolMessage json) rx rx2 c else c
            | ViewStatus e isConnected isTerminal \<Rightarrow>
                let c1 = (if isConnected \<and> cx_state c = StateConnecting then c\<lparr>cx_state := StateActive\<rparr> else c);
                    c2 = (if isTerminal then c1\<lparr>cx_state := StateClosed\<rparr> else c1) in
                guarded D (OnStatus e) rx rx2 c2))"

text \<open>The coroutine \<open>connect\<close> after its first \<open>await\<close>.\<close>

definition connectFails :: "'s connection \<Rightarrow> 's connection" where
  "connectFails c =
     (if cx_connect c \<noteq> AwaitsResponse then c
      else c\<lparr>cx_state := StateClosed, cx_connect := ConnectRejected\<rparr>)"

definition connectAnswered :: "'s dialect \<Rightarrow> jsval \<Rightarrow> handlerReaction \<Rightarrow> 's connection \<Rightarrow> 's connection" where
  "connectAnswered D response rx c =
     (if cx_connect c \<noteq> AwaitsResponse then c
      else if dl_response D response \<noteq> Some (cx_connectionId c) then
        let c' = bridgeFailure D InvalidConnectResponse rx c in
        c'\<lparr>cx_connect := (if cx_state c' = StateClosed \<or> cx_disconnectPromise c' \<noteq> Some False then CleanupDone else AwaitsCleanup)\<rparr>
      else
        (if cx_state c = StateConnecting then c\<lparr>cx_state := StateActive\<rparr> else c)\<lparr>cx_connect := Connected\<rparr>)"

text \<open>The command of the disconnection ends, with a result or with an exception; then its \<open>finally\<close> runs.\<close>

definition disconnectSettles :: "'s connection \<Rightarrow> 's connection" where
  "disconnectSettles c =
     (if cx_disconnectPromise c \<noteq> Some False then c
      else c\<lparr>cx_state := StateClosed, cx_disconnectPromise := Some True,
             cx_connect := (if cx_connect c = AwaitsCleanup then CleanupDone else cx_connect c)\<rparr>)"

definition cleanupContinues :: "'s connection \<Rightarrow> 's connection" where
  "cleanupContinues c = (if cx_connect c = CleanupDone then c\<lparr>cx_connect := ConnectInvalid\<rparr> else c)"

section \<open>Events\<close>

datatype transport_event =
    ConnectFails
  | ConnectAnswered jsval handlerReaction
  | CleanupContinues
  | EventArrives jsval handlerReaction handlerReaction
  | ClientCalls client_call
  | DisconnectSettles

fun transportStep :: "'s dialect \<Rightarrow> transport_event \<Rightarrow> 's connection \<Rightarrow> 's connection" where
  "transportStep D ConnectFails c = connectFails c"
| "transportStep D (ConnectAnswered response rx) c = connectAnswered D response rx c"
| "transportStep D CleanupContinues c = cleanupContinues c"
| "transportStep D (EventArrives v rx rx2) c = handleEvent D v rx rx2 c"
| "transportStep D (ClientCalls call) c = clientCall D call c"
| "transportStep D DisconnectSettles c = disconnectSettles c"

definition transportRun :: "'s dialect \<Rightarrow> transport_event list \<Rightarrow> 's connection \<Rightarrow> 's connection" where
  "transportRun D es c = fold (transportStep D) es c"

section \<open>The two dialects\<close>

text \<open>A response to the connect command is an object with an identifier, and for a remote connection nothing else.\<close>

definition remoteConnectResponse :: "jsval \<Rightarrow> jstr option" where
  "remoteConnectResponse v =
     (case asRecord v of
        None \<Rightarrow> None
      | Some r \<Rightarrow> (case field r ''connectionId'' of JStr i \<Rightarrow> if hasOnlyKeys r [''connectionId''] then Some i else None | _ \<Rightarrow> None))"

definition localConnectResponse :: "jsval \<Rightarrow> jstr option" where
  "localConnectResponse v =
     (case asRecord v of
        None \<Rightarrow> None
      | Some r \<Rightarrow> (case field r ''connectionId'' of JStr i \<Rightarrow> Some i | _ \<Rightarrow> None))"

definition remoteTerminal :: "RemoteWebSocketStatus \<Rightarrow> bool" where
  "remoteTerminal s \<longleftrightarrow> s \<in> {RemoteDisconnected, RemoteError}"

definition localTerminal :: "LocalStdioStatus \<Rightarrow> bool" where
  "localTerminal s \<longleftrightarrow> s \<in> {LocalDisconnected, LocalExited, LocalError}"

fun remoteView :: "RemoteWebSocketConnectionEvent \<Rightarrow> jstr \<times> RemoteWebSocketStatusEvent event_view" where
  "remoteView (RemoteProgress i stage) = (i, ViewProgress stage)"
| "remoteView (RemoteMessage i json) = (i, ViewMessage json)"
| "remoteView (RemoteStatus i e) = (i, ViewStatus e (re_status e = RemoteConnected) (remoteTerminal (re_status e)))"

fun localView :: "LocalStdioConnectionEvent \<Rightarrow> jstr \<times> LocalStdioStatusEvent event_view" where
  "localView (LocalMessage i json) = (i, ViewMessage json)"
| "localView (LocalStatus i e) = (i, ViewStatus e (le_status e = LocalConnected) (localTerminal (le_status e)))"

definition remoteWebSocket :: "(jsval \<Rightarrow> jstr option) \<Rightarrow> RemoteWebSocketStatusEvent dialect" where
  "remoteWebSocket stringify = \<lparr>dl_parse = (\<lambda>v. map_option remoteView (parseRemoteWebSocketConnectionEvent v)),
     dl_response = remoteConnectResponse, dl_stringify = stringify\<rparr>"

definition localStdio :: "(jsval \<Rightarrow> jstr option) \<Rightarrow> LocalStdioStatusEvent dialect" where
  "localStdio stringify = \<lparr>dl_parse = (\<lambda>v. map_option localView (parseLocalStdioConnectionEvent v)),
     dl_response = localConnectResponse, dl_stringify = stringify\<rparr>"

section \<open>What a session is told\<close>

text \<open>The handlers of a connector (\<open>createDirectWebSocketTransportConnector\<close>,
  \<open>createLocalStdioTransportConnector\<close>) turn calls of the connection into callbacks of a session.\<close>

record LocalProcessTermination =
  lp_status :: LocalStdioStatus
  lp_reason :: "LocalStdioTerminationReason option"
  lp_exitCode :: "int option"
  lp_signal :: "int option"
  lp_stderrBytes :: int
  lp_forced :: bool

definition localProcessTermination :: "LocalStdioStatusEvent \<Rightarrow> LocalProcessTermination" where
  "localProcessTermination e = \<lparr>lp_status = le_status e, lp_reason = le_reason e, lp_exitCode = le_exitCode e,
     lp_signal = le_signal e, lp_stderrBytes = le_stderrBytes e, lp_forced = le_forced e\<rparr>"

datatype session_callback =
    CallbackMessage jstr
  | CallbackProgress TransportConnectionStage
  | CallbackClosed "LocalProcessTermination option"
  | CallbackFailure

fun remoteCallback :: "RemoteWebSocketStatusEvent transport_call \<Rightarrow> session_callback option" where
  "remoteCallback (OnProtocolMessage json) = Some (CallbackMessage json)"
| "remoteCallback (OnProgress stage) = Some (CallbackProgress stage)"
| "remoteCallback (OnStatus e) = (if remoteTerminal (re_status e) then Some (CallbackClosed None) else None)"
| "remoteCallback (OnBridgeError _) = Some CallbackFailure"
| "remoteCallback _ = None"

fun localCallback :: "LocalStdioStatusEvent transport_call \<Rightarrow> session_callback option" where
  "localCallback (OnProtocolMessage json) = Some (CallbackMessage json)"
| "localCallback (OnStatus e) =
     (if localTerminal (le_status e) then Some (CallbackClosed (Some (localProcessTermination e))) else None)"
| "localCallback (OnBridgeError _) = Some CallbackFailure"
| "localCallback _ = None"

end
