(* ===== verification/TransportLaws.thy ===== *)
theory TransportLaws
  imports Transport
begin

text \<open>
  The life of a connection. Every event appends to the log of calls and moves the state forward
  (\<open>moves\<close>); the invariant \<open>promise_ok\<close> ties the state to the promise of the
  disconnection and to the log. What a dialect must promise for the session is the locale
  \<open>transport_dialect\<close>, interpreted on both.
\<close>

section \<open>Calls\<close>

definition ended :: "ConnectionState \<Rightarrow> bool" where
  "ended s \<longleftrightarrow> s = StateDisconnecting \<or> s = StateClosed"

primrec rank :: "ConnectionState \<Rightarrow> nat" where
  "rank StateConnecting = 0"
| "rank StateActive = 1"
| "rank StateDisconnecting = 2"
| "rank StateClosed = 3"

text \<open>What a connection that has ended may still call.\<close>

fun quiet :: "'s transport_call \<Rightarrow> bool" where
  "quiet (OnStatus _) = True"
| "quiet (OnBridgeError _) = True"
| "quiet (WriteRejected f) = (f = NotActive)"
| "quiet _ = False"

fun delivers :: "'s transport_call \<Rightarrow> bool" where
  "delivers (OnProtocolMessage _) = True"
| "delivers (OnProgress _) = True"
| "delivers _ = False"

text \<open>\<open>c'\<close> comes after \<open>c\<close>, and the calls made between them are \<open>new\<close>.\<close>

definition movesBy :: "'s connection \<Rightarrow> 's connection \<Rightarrow> 's transport_call list \<Rightarrow> bool" where
  "movesBy c c' new \<longleftrightarrow> cx_calls c' = cx_calls c @ new \<and> cx_connectionId c' = cx_connectionId c \<and>
     rank (cx_state c) \<le> rank (cx_state c') \<and> (ended (cx_state c) \<longrightarrow> list_all quiet new)"

definition moves :: "'s connection \<Rightarrow> 's connection \<Rightarrow> bool" where
  "moves c c' \<longleftrightarrow> (\<exists>new. movesBy c c' new)"

lemma ended_rank: "ended s \<longleftrightarrow> 2 \<le> rank s"
  by (cases s) (simp_all add: ended_def)

lemma rank_closed: "rank s \<ge> 3 \<longleftrightarrow> s = StateClosed"
  by (cases s) simp_all

lemma movesBy_refl [simp]: "movesBy c c []"
  by (simp add: movesBy_def)

lemma movesBy_trans: "movesBy c c' xs \<Longrightarrow> movesBy c' c'' ys \<Longrightarrow> movesBy c c'' (xs @ ys)"
  by (auto simp: movesBy_def ended_rank)

lemma moves_refl [simp]: "moves c c"
  unfolding moves_def by (rule exI [of _ "[]"]) simp

lemma moves_trans: "moves c c' \<Longrightarrow> moves c' c'' \<Longrightarrow> moves c c''"
  unfolding moves_def by (blast intro: movesBy_trans)

lemma moves_fold: "(\<And>x c. moves c (f x c)) \<Longrightarrow> moves c (fold f xs c)"
  by (induction xs arbitrary: c) (auto intro: moves_trans)

lemma log_moves: "ended (cx_state c) \<longrightarrow> quiet call \<Longrightarrow> moves c (log call c)"
  unfolding moves_def by (rule exI [of _ "[call]"]) (simp add: movesBy_def log_def)

lemma state_moves: "rank (cx_state c) \<le> rank s \<Longrightarrow> moves c (c\<lparr>cx_state := s\<rparr>)"
  unfolding moves_def by (rule exI [of _ "[]"]) (simp add: movesBy_def)

lemma writeMessage_moves: "moves c (writeMessage D m c)"
  unfolding writeMessage_def by (auto intro!: log_moves simp: ended_def split: option.split)

lemma write_state [simp]: "cx_state (writeMessage D m c) = cx_state c" "cx_disconnectPromise (writeMessage D m c) = cx_disconnectPromise c"
  "cx_connect (writeMessage D m c) = cx_connect c"
  by (simp_all add: writeMessage_def log_def split: option.split)

text \<open>The promise of the disconnection and the state.\<close>

definition promise_ok :: "'s connection \<Rightarrow> bool" where
  "promise_ok c \<longleftrightarrow>
     (case cx_disconnectPromise c of
        None \<Rightarrow> cx_state c \<noteq> StateDisconnecting
      | Some False \<Rightarrow> ended (cx_state c)
      | Some True \<Rightarrow> cx_state c = StateClosed) \<and>
     (cx_connect c = AwaitsCleanup \<longrightarrow> cx_disconnectPromise c = Some False) \<and>
     length (filter (\<lambda>x. x = InvokeDisconnect) (cx_calls c)) = (if cx_disconnectPromise c = None then 0 else 1)"

definition movesWell :: "'s connection \<Rightarrow> 's connection \<Rightarrow> bool" where
  "movesWell c c' \<longleftrightarrow> (promise_ok c \<longrightarrow> promise_ok c' \<and> moves c c')"

lemma movesWell_refl [simp, intro]: "movesWell c c"
  by (simp add: movesWell_def)

lemma movesWell_trans [trans]: "movesWell c c' \<Longrightarrow> movesWell c' c'' \<Longrightarrow> movesWell c c''"
  by (auto simp: movesWell_def intro: moves_trans)

lemma movesWell_fold: "(\<And>x c. movesWell c (f x c)) \<Longrightarrow> movesWell c (fold f xs c)"
  by (induction xs arbitrary: c) (auto intro: movesWell_trans)

lemma disconnect_cases:
  assumes "promise_ok c"
  obtains "ended (cx_state c)" "disconnectTransport c = c"
  | "\<not> ended (cx_state c)" "cx_disconnectPromise c = None"
    "disconnectTransport c = log InvokeDisconnect (c\<lparr>cx_state := StateDisconnecting, cx_disconnectPromise := Some False\<rparr>)"
  using assms by (cases "cx_state c"; cases "cx_disconnectPromise c") (auto simp: promise_ok_def ended_def disconnectTransport_def split: bool.splits)

lemma disconnect_movesWell: "movesWell c (disconnectTransport c)"
  unfolding movesWell_def
proof (intro impI)
  assume ok: "promise_ok c"
  then show "promise_ok (disconnectTransport c) \<and> moves c (disconnectTransport c)"
  proof (cases rule: disconnect_cases)
    case 2
    then have "movesBy c (disconnectTransport c) [InvokeDisconnect]" by (cases "cx_state c") (simp_all add: movesBy_def log_def ended_def)
    then show ?thesis using ok 2 by (auto simp: moves_def promise_ok_def log_def ended_def)
  qed (use ok in simp)
qed

lemma log_movesWell: "call \<noteq> InvokeDisconnect \<Longrightarrow> ended (cx_state c) \<longrightarrow> quiet call \<Longrightarrow> movesWell c (log call c)"
  using log_moves [of c call] by (auto simp: movesWell_def promise_ok_def log_def split: option.split bool.split)

lemma write_movesWell: "movesWell c (writeMessage D m c)"
  unfolding writeMessage_def by (auto intro!: log_movesWell simp: ended_def split: option.split)

lemma clientCall_movesWell: "movesWell c (clientCall D call c)"
  by (auto simp: clientCall_def intro: write_movesWell disconnect_movesWell split: client_call.split)

lemma callHandler_movesWell:
  "call \<noteq> InvokeDisconnect \<Longrightarrow> ended (cx_state c) \<longrightarrow> quiet call \<Longrightarrow> movesWell c (callHandler D call rx c)"
  unfolding callHandler_def by (intro movesWell_trans [OF log_movesWell movesWell_fold] clientCall_movesWell)

lemma bridgeFailure_movesWell: "movesWell c (bridgeFailure D code rx c)"
  unfolding bridgeFailure_def notifyBridgeError_def disconnectAfterInvalidEvent_def
  by (intro movesWell_trans [OF callHandler_movesWell disconnect_movesWell]) simp_all

lemma guarded_movesWell:
  "call \<noteq> InvokeDisconnect \<Longrightarrow> ended (cx_state c) \<longrightarrow> quiet call \<Longrightarrow> movesWell c (guarded D call rx rx2 c)"
  unfolding guarded_def Let_def
  by (auto intro: callHandler_movesWell movesWell_trans [OF callHandler_movesWell bridgeFailure_movesWell])

lemma close_movesWell: "movesWell c (c\<lparr>cx_state := StateClosed\<rparr>)"
  using state_moves [of c StateClosed] by (cases "cx_state c") (auto simp: movesWell_def promise_ok_def ended_def split: option.splits bool.splits)

lemma activate_movesWell: "cx_state c = StateConnecting \<Longrightarrow> movesWell c (c\<lparr>cx_state := StateActive\<rparr>)"
  using state_moves [of c StateActive] by (auto simp: movesWell_def promise_ok_def ended_def split: option.splits bool.splits)

lemma handleEvent_movesWell: "movesWell c (handleEvent D v rx rx2 c)"
proof -
  have status: "movesWell c (guarded D (OnStatus e) rx rx2 c2)" if "movesWell c c2" for c c2 e
    using that by (rule movesWell_trans) (rule guarded_movesWell; simp)
  have "movesWell c (let c1 = (if b \<and> cx_state c = StateConnecting then c\<lparr>cx_state := StateActive\<rparr> else c);
      c2 = (if t then c1\<lparr>cx_state := StateClosed\<rparr> else c1) in guarded D (OnStatus e) rx rx2 c2)" for b t e
    unfolding Let_def
    by (intro status) (auto intro: close_movesWell activate_movesWell movesWell_trans [OF activate_movesWell close_movesWell])
  then show ?thesis
    unfolding handleEvent_def
    by (auto intro: bridgeFailure_movesWell guarded_movesWell simp: ended_def split: option.split event_view.split)
qed

lemma connect_pc_movesWell:
  assumes "pc \<noteq> AwaitsCleanup"
  shows "movesWell c (c\<lparr>cx_connect := pc\<rparr>)"
proof -
  have "movesBy c (c\<lparr>cx_connect := pc\<rparr>) []" by (simp add: movesBy_def)
  then show ?thesis using assms by (auto simp: movesWell_def moves_def promise_ok_def split: option.split bool.split)
qed

lemma await_cleanup_movesWell:
  "cx_state c \<noteq> StateClosed \<Longrightarrow> cx_disconnectPromise c = Some False \<Longrightarrow> movesWell c (c\<lparr>cx_connect := AwaitsCleanup\<rparr>)"
  unfolding movesWell_def moves_def by (auto intro!: exI [of _ "[]"] simp: promise_ok_def movesBy_def)

lemma connectAnswered_movesWell: "movesWell c (connectAnswered D response rx c)"
proof -
  have "movesWell c (bridgeFailure D InvalidConnectResponse rx c)" (is "movesWell c ?c") by (rule bridgeFailure_movesWell)
  moreover have "movesWell ?c (?c\<lparr>cx_connect := (if cx_state ?c = StateClosed \<or> cx_disconnectPromise ?c \<noteq> Some False then CleanupDone else AwaitsCleanup)\<rparr>)"
    by (auto intro: connect_pc_movesWell await_cleanup_movesWell)
  ultimately show ?thesis
    unfolding connectAnswered_def Let_def
    by (auto intro: movesWell_trans connect_pc_movesWell movesWell_trans [OF activate_movesWell connect_pc_movesWell])
qed

lemma connectFails_movesWell: "movesWell c (connectFails c)"
  unfolding connectFails_def
  using movesWell_trans [OF close_movesWell connect_pc_movesWell, of ConnectRejected c] by simp

lemma disconnectSettles_movesWell: "movesWell c (disconnectSettles c)"
  unfolding movesWell_def disconnectSettles_def moves_def
  by (cases "cx_state c") (auto intro!: exI [of _ "[]"] simp: promise_ok_def movesBy_def ended_def)

theorem step_movesWell: "movesWell c (transportStep D e c)"
  by (cases e)
    (auto simp: cleanupContinues_def intro: handleEvent_movesWell connectAnswered_movesWell connectFails_movesWell
      disconnectSettles_movesWell clientCall_movesWell connect_pc_movesWell)

lemma run_movesWell: "movesWell c (transportRun D es c)"
  unfolding transportRun_def by (intro movesWell_fold step_movesWell)

lemma new_ok: "promise_ok (newConnection i)"
  by (simp add: promise_ok_def newConnection_def)

lemma run_ok: "promise_ok (transportRun D es (newConnection i))"
  using run_movesWell new_ok by (auto simp: movesWell_def)

lemma transport_run_append: "transportRun D (es @ es') c = transportRun D es' (transportRun D es c)"
  by (simp add: transportRun_def)

lemma closed_for_good: "cx_state c = StateClosed \<Longrightarrow> promise_ok c \<Longrightarrow> cx_state (transportRun D es c) = StateClosed"
  using run_movesWell [of c D es] by (auto simp: movesWell_def moves_def movesBy_def simp flip: rank_closed)

section \<open>Messages\<close>

definition delivered :: "'s connection \<Rightarrow> jstr list" where
  "delivered c = concat (map (\<lambda>call. case call of OnProtocolMessage json \<Rightarrow> [json] | _ \<Rightarrow> []) (cx_calls c))"

text \<open>The messages that the back end sends to a connection, in their order.\<close>

definition messageOf :: "'s dialect \<Rightarrow> jstr \<Rightarrow> transport_event \<Rightarrow> jstr list" where
  "messageOf D connectionId e =
     (case e of
        EventArrives v _ _ \<Rightarrow> (case dl_parse D v of Some (i, ViewMessage json) \<Rightarrow> if i = connectionId then [json] else [] | _ \<Rightarrow> [])
      | _ \<Rightarrow> [])"

lemma delivered_log: "delivered (log call c) = delivered c @ (case call of OnProtocolMessage json \<Rightarrow> [json] | _ \<Rightarrow> [])"
  by (simp add: delivered_def log_def)

lemma delivered_update [simp]:
  "delivered (c\<lparr>cx_state := s\<rparr>) = delivered c" "delivered (c\<lparr>cx_connect := pc\<rparr>) = delivered c"
  "delivered (c\<lparr>cx_disconnectPromise := p\<rparr>) = delivered c"
  by (simp_all add: delivered_def)

lemma delivered_client [simp]: "delivered (disconnectTransport c) = delivered c" "delivered (clientCall D call c) = delivered c"
  by (auto simp: disconnectTransport_def clientCall_def writeMessage_def delivered_log split: client_call.split option.split)

lemma delivered_fold [simp]: "delivered (fold (clientCall D) calls c) = delivered c"
  by (induction calls arbitrary: c) simp_all

lemma delivered_handler [simp]:
  "delivered (callHandler D call rx c) = delivered c @ (case call of OnProtocolMessage json \<Rightarrow> [json] | _ \<Rightarrow> [])"
  "delivered (bridgeFailure D code rx c) = delivered c"
  "delivered (guarded D call rx rx2 c) = delivered c @ (case call of OnProtocolMessage json \<Rightarrow> [json] | _ \<Rightarrow> [])"
  by (simp_all add: callHandler_def delivered_log bridgeFailure_def notifyBridgeError_def disconnectAfterInvalidEvent_def guarded_def Let_def)

lemma connectionId_stable [simp]: "cx_connectionId (transportStep D e c) = cx_connectionId c"
proof -
  have client: "cx_connectionId (clientCall D call c) = cx_connectionId c" "cx_connectionId (disconnectTransport c) = cx_connectionId c" for call c
    by (auto simp: clientCall_def writeMessage_def disconnectTransport_def log_def split: client_call.split option.split)
  have "cx_connectionId (fold (clientCall D) calls c) = cx_connectionId c" for calls c
    by (induction calls arbitrary: c) (simp_all add: client)
  then have handler: "cx_connectionId (callHandler D call rx c) = cx_connectionId c" "cx_connectionId (bridgeFailure D code rx c) = cx_connectionId c"
    "cx_connectionId (guarded D call rx rx2 c) = cx_connectionId c" for call code rx rx2 c
    by (simp_all add: callHandler_def bridgeFailure_def notifyBridgeError_def disconnectAfterInvalidEvent_def guarded_def client log_def Let_def)
  show ?thesis
    by (cases e)
      (auto simp: connectFails_def connectAnswered_def cleanupContinues_def disconnectSettles_def handleEvent_def handler client Let_def
        split: option.split event_view.split)
qed

text \<open>A message is delivered exactly while the connection has not ended.\<close>

lemma step_delivers:
  "delivered (transportStep D e c) = delivered c @ (if ended (cx_state c) then [] else messageOf D (cx_connectionId c) e)"
  by (cases e; cases "cx_state c")
    (auto simp: connectFails_def connectAnswered_def cleanupContinues_def disconnectSettles_def handleEvent_def messageOf_def ended_def Let_def
      split: option.split event_view.split)

lemma quiet_delivers: "list_all quiet new \<Longrightarrow> concat (map (\<lambda>call. case call of OnProtocolMessage json \<Rightarrow> [json] | _ \<Rightarrow> []) new) = []"
  by (induction new) (auto split: transport_call.split)

lemma ended_silent:
  assumes "ended (cx_state c)" and "promise_ok c"
  shows "ended (cx_state (transportRun D es c)) \<and> delivered (transportRun D es c) = delivered c"
proof -
  obtain new where "movesBy c (transportRun D es c) new" using run_movesWell [of c D es] assms(2) by (auto simp: movesWell_def moves_def)
  then show ?thesis using assms(1) quiet_delivers [of new] by (auto simp: movesBy_def ended_rank delivered_def)
qed

lemma run_delivers:
  assumes "promise_ok c"
  shows "\<exists>rest. concat (map (messageOf D (cx_connectionId c)) es) = drop (length (delivered c)) (delivered (transportRun D es c)) @ rest \<and>
    prefix (delivered c) (delivered (transportRun D es c)) \<and> (rest = [] \<or> ended (cx_state (transportRun D es c)))"
  using assms
proof (induction es arbitrary: c)
  case (Cons e es)
  have ok: "promise_ok (transportStep D e c)" using Cons.prems step_movesWell [of c D e] by (simp add: movesWell_def)
  have run: "transportRun D (e # es) c = transportRun D es (transportStep D e c)" by (simp add: transportRun_def)
  from Cons.IH [OF ok] obtain rest where rest:
    "concat (map (messageOf D (cx_connectionId c)) es) = drop (length (delivered (transportStep D e c))) (delivered (transportRun D (e # es) c)) @ rest"
    "prefix (delivered (transportStep D e c)) (delivered (transportRun D (e # es) c))"
    "rest = [] \<or> ended (cx_state (transportRun D (e # es) c))" by (auto simp: run)
  show ?case
  proof (cases "ended (cx_state c)")
    case False
    then have step: "delivered (transportStep D e c) = delivered c @ messageOf D (cx_connectionId c) e" by (simp add: step_delivers)
    with rest show ?thesis by (intro exI [of _ rest]) (auto simp: prefix_def)
  next
    case True
    have "ended (cx_state (transportRun D (e # es) c))" "delivered (transportRun D (e # es) c) = delivered c"
      using ended_silent [OF True Cons.prems] by simp_all
    then show ?thesis by simp
  qed
qed (simp add: transportRun_def)

end
