(* ===== verification/TransportSession.thy ===== *)
theory TransportSession
  imports TransportLaws
begin

text \<open>
  What a session is told by a connection: once it has been told that the transport is closed or has
  failed, no message and no progress follows. The locale \<open>transport_dialect\<close> is what a dialect
  must promise for this: the status events it calls terminal are those its connector reports as closed.
\<close>

fun endsCall :: "('s \<Rightarrow> bool) \<Rightarrow> 's transport_call \<Rightarrow> bool" where
  "endsCall T (OnStatus e) = T e"
| "endsCall T (OnBridgeError _) = True"
| "endsCall T _ = False"

text \<open>Calls that a client makes by itself.\<close>

definition plain :: "('s \<Rightarrow> bool) \<Rightarrow> 's transport_call list \<Rightarrow> bool" where
  "plain T new \<longleftrightarrow> list_all (\<lambda>x. \<not> delivers x \<and> \<not> endsCall T x) new"

lemma client_plain: "\<exists>new. cx_calls (clientCall D call c) = cx_calls c @ new \<and> plain T new"
  by (auto simp: clientCall_def writeMessage_def disconnectTransport_def log_def plain_def split: client_call.split option.split)

lemma clients_plain: "\<exists>new. cx_calls (fold (clientCall D) calls c) = cx_calls c @ new \<and> plain T new"
proof (induction calls arbitrary: c)
  case Nil
  show ?case by (simp add: plain_def)
next
  case (Cons call calls)
  obtain new where new: "cx_calls (clientCall D call c) = cx_calls c @ new" "plain T new" using client_plain by blast
  obtain more where "cx_calls (fold (clientCall D) calls (clientCall D call c)) = cx_calls (clientCall D call c) @ more" "plain T more"
    using Cons.IH by blast
  with new show ?case by (intro exI [of _ "new @ more"]) (simp add: plain_def)
qed

lemma disconnect_plain: "\<exists>new. cx_calls (disconnectTransport c) = cx_calls c @ new \<and> plain T new"
  by (auto simp: disconnectTransport_def log_def plain_def)

lemma handler_calls: "\<exists>new. cx_calls (callHandler D call rx c) = cx_calls c @ call # new \<and> plain T new"
  using clients_plain [of D "rx_calls rx" "log call c" T] by (auto simp: callHandler_def log_def)

text \<open>After its first call, an event delivers nothing; if it ends the connection for the session, the connection has ended.\<close>

definition tidy :: "('s \<Rightarrow> bool) \<Rightarrow> 's connection \<Rightarrow> 's connection \<Rightarrow> bool" where
  "tidy T c c' \<longleftrightarrow> (\<exists>new. cx_calls c' = cx_calls c @ new \<and> list_all (\<lambda>x. \<not> delivers x) (tl new) \<and>
     (list_ex (endsCall T) new \<longrightarrow> ended (cx_state c')))"

lemma tidy_same [simp]: "cx_calls c' = cx_calls c \<Longrightarrow> tidy T c c'"
  unfolding tidy_def by (intro exI [of _ "[]"]) simp

lemma bridge_calls:
  assumes "promise_ok c"
  shows "\<exists>new. cx_calls (bridgeFailure D code rx c) = cx_calls c @ OnBridgeError code # new \<and> plain T new \<and> ended (cx_state (bridgeFailure D code rx c))"
proof -
  let ?h = "callHandler D (OnBridgeError code) rx c"
  obtain new where new: "cx_calls ?h = cx_calls c @ OnBridgeError code # new" "plain T new" using handler_calls by blast
  obtain more where more: "cx_calls (disconnectTransport ?h) = cx_calls ?h @ more" "plain T more" using disconnect_plain by blast
  have "promise_ok ?h" using assms callHandler_movesWell [of "OnBridgeError code" c D rx] by (simp add: movesWell_def)
  then have "ended (cx_state (disconnectTransport ?h))" by (cases rule: disconnect_cases) (simp_all add: ended_def log_def)
  with new more show ?thesis
    by (intro exI [of _ "new @ more"]) (simp add: bridgeFailure_def notifyBridgeError_def disconnectAfterInvalidEvent_def plain_def)
qed

lemma plain_silent: "plain T new \<Longrightarrow> list_all (\<lambda>x. \<not> delivers x) new" "plain T new \<Longrightarrow> \<not> list_ex (endsCall T) new"
  by (auto simp: plain_def list_all_iff list_ex_iff)

lemma bridge_tidy: "promise_ok c \<Longrightarrow> tidy T c (bridgeFailure D code rx c)"
  using bridge_calls [of c D code rx T] plain_silent by (fastforce simp: tidy_def)

lemma guarded_tidy:
  assumes "promise_ok c" and "call \<noteq> InvokeDisconnect" and "ended (cx_state c) \<longrightarrow> quiet call" and "endsCall T call \<Longrightarrow> ended (cx_state c)"
  shows "tidy T c (guarded D call rx rx2 c)"
proof -
  let ?h = "callHandler D call rx c"
  obtain new where new: "cx_calls ?h = cx_calls c @ call # new" "plain T new" using handler_calls by blast
  have h: "movesWell c ?h" using assms by (intro callHandler_movesWell)
  then have ok: "promise_ok ?h" using assms by (simp add: movesWell_def)
  have ended: "ended (cx_state c) \<Longrightarrow> ended (cx_state ?h)" using h assms(1) by (auto simp: movesWell_def moves_def movesBy_def ended_rank)
  show ?thesis
  proof (cases "rx_throws rx")
    case False
    then show ?thesis using new assms(4) ended plain_silent [of T new] by (auto simp: guarded_def tidy_def Let_def)
  next
    case True
    obtain more where more: "cx_calls (bridgeFailure D EventHandlerFailed rx2 ?h) = cx_calls ?h @ OnBridgeError EventHandlerFailed # more" "plain T more"
      "ended (cx_state (bridgeFailure D EventHandlerFailed rx2 ?h))" using bridge_calls [OF ok] by blast
    with new True show ?thesis
      using plain_silent [of T new] plain_silent [of T more] by (auto simp: guarded_def tidy_def Let_def)
  qed
qed

locale transport_dialect =
  fixes D :: "'s dialect"
    and terminal :: "'s \<Rightarrow> bool"
  assumes terminal_flag: "dl_parse D v = Some (i, ViewStatus e isConnected isTerminal) \<Longrightarrow> isTerminal = terminal e"
begin

lemma event_tidy:
  assumes "promise_ok c"
  shows "tidy terminal c (handleEvent D v rx rx2 c)"
proof -
  have status: "tidy terminal c (let c1 = (if b \<and> cx_state c = StateConnecting then c\<lparr>cx_state := StateActive\<rparr> else c);
      c2 = (if terminal e then c1\<lparr>cx_state := StateClosed\<rparr> else c1) in guarded D (OnStatus e) rx rx2 c2)" (is "tidy _ _ ?g") for b e
  proof -
    define c1 where "c1 = (if b \<and> cx_state c = StateConnecting then c\<lparr>cx_state := StateActive\<rparr> else c)"
    define c2 where "c2 = (if terminal e then c1\<lparr>cx_state := StateClosed\<rparr> else c1)"
    have "movesWell c c2" unfolding c2_def c1_def
      by (auto intro: close_movesWell activate_movesWell movesWell_trans [OF activate_movesWell close_movesWell])
    then have "promise_ok c2" using assms by (simp add: movesWell_def)
    then have "tidy terminal c2 (guarded D (OnStatus e) rx rx2 c2)"
      by (intro guarded_tidy) (auto simp: c2_def ended_def split: if_splits)
    moreover have "cx_calls c2 = cx_calls c" by (simp add: c2_def c1_def)
    moreover have "?g = guarded D (OnStatus e) rx rx2 c2" by (simp only: c2_def c1_def Let_def)
    ultimately show ?thesis by (simp only: tidy_def)
  qed
  show ?thesis
  proof (cases "dl_parse D v")
    case None
    then show ?thesis using bridge_tidy [OF assms] by (simp add: handleEvent_def)
  next
    case (Some p)
    obtain i view where p: "p = (i, view)" by fastforce
    show ?thesis
    proof (cases view)
      case (ViewStatus e b t)
      then show ?thesis using Some p terminal_flag [of v i e b t] status bridge_tidy [OF assms] by (simp add: handleEvent_def)
    qed (use Some p assms in \<open>auto simp: handleEvent_def ended_def intro: bridge_tidy guarded_tidy\<close>)
  qed
qed

lemma step_tidy:
  assumes "promise_ok c"
  shows "tidy terminal c (transportStep D e c)"
proof (cases e)
  case (ClientCalls call)
  obtain new where "cx_calls (clientCall D call c) = cx_calls c @ new" "plain terminal new" using client_plain by blast
  then show ?thesis using ClientCalls plain_silent [of terminal new] by (cases new) (auto simp: tidy_def)
next
  case (ConnectAnswered response rx)
  have "cx_calls (c'\<lparr>cx_connect := pc\<rparr>) = cx_calls c' \<and> cx_state (c'\<lparr>cx_connect := pc\<rparr>) = cx_state c'" for c' :: "'s connection" and pc
    by simp
  then show ?thesis
    using ConnectAnswered bridge_tidy [OF assms, of terminal D InvalidConnectResponse rx]
    by (auto simp: connectAnswered_def Let_def tidy_def)
qed (use event_tidy [OF assms] in \<open>auto simp: connectFails_def cleanupContinues_def disconnectSettles_def\<close>)

text \<open>The order of the log: after a call that ends the connection, none delivers.\<close>

lemma calls_in_order:
  assumes "promise_ok c" and "sorted_wrt (\<lambda>x y. \<not> (endsCall terminal x \<and> delivers y)) (cx_calls c)"
    and "list_ex (endsCall terminal) (cx_calls c) \<longrightarrow> ended (cx_state c)"
  shows "sorted_wrt (\<lambda>x y. \<not> (endsCall terminal x \<and> delivers y)) (cx_calls (transportRun D es c))"
  using assms
proof (induction es arbitrary: c)
  case (Cons e es)
  let ?c = "transportStep D e c"
  have adv: "promise_ok ?c" "moves c ?c" using step_movesWell [of c D e] Cons.prems(1) by (simp_all add: movesWell_def)
  then obtain new where new: "movesBy c ?c new" by (auto simp: moves_def)
  then have calls: "cx_calls ?c = cx_calls c @ new" by (simp add: movesBy_def)
  with step_tidy [OF Cons.prems(1), of e] have tidy: "list_all (\<lambda>x. \<not> delivers x) (tl new)" "list_ex (endsCall terminal) new \<longrightarrow> ended (cx_state ?c)"
    by (auto simp: tidy_def)
  have quiet: "\<not> delivers x" if "ended (cx_state c)" "x \<in> set new" for x
    using new that by (cases x) (auto simp: movesBy_def list_all_iff dest!: bspec)
  have "sorted_wrt (\<lambda>x y. \<not> (endsCall terminal x \<and> delivers y)) new"
    using tidy(1) by (cases new) (auto simp: list_all_iff sorted_wrt_iff_nth_less)
  moreover have "\<not> (endsCall terminal x \<and> delivers y)" if "x \<in> set (cx_calls c)" "y \<in> set new" for x y
    using that quiet Cons.prems(3) by (auto simp: list_ex_iff)
  ultimately have "sorted_wrt (\<lambda>x y. \<not> (endsCall terminal x \<and> delivers y)) (cx_calls ?c)"
    using Cons.prems(2) unfolding calls sorted_wrt_append by blast
  moreover have "list_ex (endsCall terminal) (cx_calls ?c) \<longrightarrow> ended (cx_state ?c)"
    using Cons.prems(3) tidy(2) new by (auto simp: calls movesBy_def ended_rank)
  ultimately have "sorted_wrt (\<lambda>x y. \<not> (endsCall terminal x \<and> delivers y)) (cx_calls (transportRun D es ?c))"
    using adv(1) by (intro Cons.IH)
  then show ?case by (simp add: transportRun_def)
qed (simp add: transportRun_def)

lemma run_in_order: "sorted_wrt (\<lambda>x y. \<not> (endsCall terminal x \<and> delivers y)) (cx_calls (transportRun D es (newConnection i)))"
  by (rule calls_in_order [OF new_ok]) (simp_all add: newConnection_def)

end

interpretation remoteDialect: transport_dialect "remoteWebSocket stringify" "\<lambda>e. remoteTerminal (re_status e)" for stringify
proof
  fix v i e b t
  assume "dl_parse (remoteWebSocket stringify) v = Some (i, ViewStatus e b t)"
  then obtain x where "remoteView x = (i, ViewStatus e b t)" by (auto simp: remoteWebSocket_def)
  then show "t = remoteTerminal (re_status e)" by (cases x) auto
qed

interpretation localDialect: transport_dialect "localStdio stringify" "\<lambda>e. localTerminal (le_status e)" for stringify
proof
  fix v i e b t
  assume "dl_parse (localStdio stringify) v = Some (i, ViewStatus e b t)"
  then obtain x where "localView x = (i, ViewStatus e b t)" by (auto simp: localStdio_def)
  then show "t = localTerminal (le_status e)" by (cases x) auto
qed

section \<open>Failures\<close>

text \<open>Events that the connection cannot use, or whose handler throws.\<close>

definition breaks :: "'s dialect \<Rightarrow> jsval \<Rightarrow> handlerReaction \<Rightarrow> 's connection \<Rightarrow> bool" where
  "breaks D v rx c =
     (case dl_parse D v of
        None \<Rightarrow> True
      | Some (i, view) \<Rightarrow> i \<noteq> cx_connectionId c \<or> rx_throws rx \<and>
          (case view of
             ViewProgress _ \<Rightarrow> cx_state c = StateConnecting
           | ViewMessage _ \<Rightarrow> cx_state c = StateConnecting \<or> cx_state c = StateActive
           | ViewStatus _ _ _ \<Rightarrow> True))"

definition fails :: "'s dialect \<Rightarrow> 's connection \<Rightarrow> 's connection \<Rightarrow> bool" where
  "fails D c c' \<longleftrightarrow> (\<exists>h code rx. c' = bridgeFailure D code rx h \<and> movesWell c h \<and> prefix (cx_calls c) (cx_calls h))"

lemma fails_now: "fails D c (bridgeFailure D code rx c)"
  by (auto simp: fails_def)

lemma guarded_fails:
  assumes "movesWell c c2" and "cx_calls c2 = cx_calls c" and "rx_throws rx" and "call \<noteq> InvokeDisconnect" and "ended (cx_state c2) \<longrightarrow> quiet call"
  shows "fails D c (guarded D call rx rx2 c2)"
proof -
  have "movesWell c (callHandler D call rx c2)" using assms by (intro movesWell_trans [OF assms(1)] callHandler_movesWell)
  moreover have "prefix (cx_calls c) (cx_calls (callHandler D call rx c2))" using handler_calls [of D call rx c2] assms(2) by (auto simp: prefix_def)
  ultimately show ?thesis using assms(3) by (auto simp: guarded_def fails_def Let_def)
qed

lemma event_fails:
  assumes "breaks D v rx c"
  shows "fails D c (handleEvent D v rx rx2 c)"
proof (cases "dl_parse D v")
  case None
  then show ?thesis by (simp add: handleEvent_def fails_now)
next
  case (Some p)
  obtain i view where p: "p = (i, view)" by fastforce
  have "fails D c (let c1 = (if b \<and> cx_state c = StateConnecting then c\<lparr>cx_state := StateActive\<rparr> else c);
      c2 = (if t then c1\<lparr>cx_state := StateClosed\<rparr> else c1) in guarded D (OnStatus e) rx rx2 c2)" if "rx_throws rx" for b t e
    unfolding Let_def using that
    by (intro guarded_fails) (auto intro: close_movesWell activate_movesWell movesWell_trans [OF activate_movesWell close_movesWell])
  then show ?thesis using Some p assms
    by (cases view) (auto simp: handleEvent_def breaks_def fails_now ended_def intro!: guarded_fails)
qed

text \<open>A connection that has failed is ended, and closed when the answer to its disconnection arrives.\<close>

lemma failed_ends:
  assumes "promise_ok c" and "fails D c c'"
  shows "list_ex (\<lambda>x. case x of OnBridgeError _ \<Rightarrow> True | _ \<Rightarrow> False) (drop (length (cx_calls c)) (cx_calls c')) \<and> ended (cx_state c')"
proof -
  obtain h code rx where h: "c' = bridgeFailure D code rx h" "movesWell c h" "prefix (cx_calls c) (cx_calls h)" using assms(2) by (auto simp: fails_def)
  then have "promise_ok h" using assms(1) by (simp add: movesWell_def)
  then obtain new where "cx_calls c' = cx_calls h @ OnBridgeError code # new" "ended (cx_state c')" using bridge_calls [of h D code rx] h(1) by blast
  with h(3) show ?thesis by (auto simp: prefix_def)
qed

lemma ended_closes:
  assumes "promise_ok c" and "ended (cx_state c)"
  shows "(cx_state c = StateClosed \<or> cx_state c = StateDisconnecting \<and> InvokeDisconnect \<in> set (cx_calls c)) \<and>
    cx_state (disconnectSettles c) = StateClosed"
proof -
  have "cx_disconnectPromise c = Some False \<and> InvokeDisconnect \<in> set (cx_calls c)" if "cx_state c = StateDisconnecting"
  proof -
    have p: "cx_disconnectPromise c = Some False" using assms that by (cases "cx_disconnectPromise c") (auto simp: promise_ok_def split: bool.splits)
    then have "length (filter (\<lambda>x. x = InvokeDisconnect) (cx_calls c)) = 1" using assms by (simp add: promise_ok_def)
    then have "filter (\<lambda>x. x = InvokeDisconnect) (cx_calls c) \<noteq> []" by auto
    with p show ?thesis by (auto simp: filter_empty_conv)
  qed
  then show ?thesis using assms(2) by (auto simp: ended_def disconnectSettles_def)
qed

text \<open>The callbacks of a session, in their order.\<close>

fun endsCallback :: "session_callback \<Rightarrow> bool" where
  "endsCallback (CallbackClosed _) = True"
| "endsCallback CallbackFailure = True"
| "endsCallback _ = False"

fun deliversCallback :: "session_callback \<Rightarrow> bool" where
  "deliversCallback (CallbackMessage _) = True"
| "deliversCallback (CallbackProgress _) = True"
| "deliversCallback _ = False"

definition callbacks :: "('s transport_call \<Rightarrow> session_callback option) \<Rightarrow> 's connection \<Rightarrow> session_callback list" where
  "callbacks f c = List.map_filter f (cx_calls c)"

lemma callbacks_in_order:
  assumes "sorted_wrt (\<lambda>x y. \<not> (endsCall T x \<and> delivers y)) (cx_calls c)"
    and "\<And>x y. f x = Some y \<Longrightarrow> (endsCallback y \<longrightarrow> endsCall T x) \<and> (deliversCallback y \<longrightarrow> delivers x)"
  shows "sorted_wrt (\<lambda>a b. \<not> (endsCallback a \<and> deliversCallback b)) (callbacks f c)"
proof -
  have "sorted_wrt (\<lambda>x y. \<not> (endsCall T x \<and> delivers y)) calls \<Longrightarrow>
      sorted_wrt (\<lambda>a b. \<not> (endsCallback a \<and> deliversCallback b)) (List.map_filter f calls)" for calls
  proof (induction calls)
    case (Cons x calls)
    have "set (List.map_filter f calls) = {y. \<exists>x \<in> set calls. f x = Some y}" by (auto simp: List.map_filter_def image_def)
    with Cons show ?case using assms(2) by (fastforce simp: List.map_filter_simps split: option.split)
  qed (simp add: List.map_filter_simps)
  then show ?thesis using assms(1) by (simp add: callbacks_def)
qed

lemma remote_callback_kinds:
  "remoteCallback x = Some y \<Longrightarrow> (endsCallback y \<longrightarrow> endsCall (\<lambda>e. remoteTerminal (re_status e)) x) \<and> (deliversCallback y \<longrightarrow> delivers x)"
  by (cases x) (auto split: if_splits)

lemma local_callback_kinds:
  "localCallback x = Some y \<Longrightarrow> (endsCallback y \<longrightarrow> endsCall (\<lambda>e. localTerminal (le_status e)) x) \<and> (deliversCallback y \<longrightarrow> delivers x)"
  by (cases x) (auto split: if_splits)

end
