(* ===== verification/TransportProperties.thy ===== *)
theory TransportProperties
  imports TransportSession
begin

text \<open>
  The properties of the transports: what values are events, how a connection lives and ends, which
  messages reach the client, and what a session is told.
\<close>

text \<open>C22. The parsers of connection events accept exactly the events of their interfaces: a value is accepted, and read as an
  event, exactly if it is an object that has the properties of this event and no other one (symbols apart), and the status,
  the reason, the code and the numbers of the event fit together. So an event of a local process that ends it always has a
  reason, which the client reads without a test.\<close>

theorem connection_events_exact:
  "(parseRemoteWebSocketConnectionEvent v = Some e) = (remoteAllowed e \<and> isExactly v (remoteFields e)) \<and>
   (parseLocalStdioConnectionEvent v = Some f) = (localAllowed f \<and> isExactly v (localFields f)) \<and>
   (case parseLocalStdioConnectionEvent v of
      Some (LocalStatus i s) \<Rightarrow> localTerminal (le_status s) = (lp_reason (localProcessTermination s) \<noteq> None)
    | _ \<Rightarrow> True)"
proof (intro conjI)
  have reason: "localTerminal (le_status s) = (lp_reason (localProcessTermination s) \<noteq> None)" if "localStatusOk s" for s
    using that by (cases "le_status s") (auto simp: localStatusOk_def localTerminal_def localProcessTermination_def split: option.splits)
  show "case parseLocalStdioConnectionEvent v of
      Some (LocalStatus i s) \<Rightarrow> localTerminal (le_status s) = (lp_reason (localProcessTermination s) \<noteq> None)
    | _ \<Rightarrow> True"
    using localEvents.sound [of v] reason by (fastforce split: option.split LocalStdioConnectionEvent.split)
qed (fact remote_exact local_exact)+

text \<open>C13. A connection only moves towards its end, whatever arrives and whatever its client does: its calls are only appended,
  its state never goes back, the command to disconnect is sent at most once, and a connection that is disconnecting or closed
  sends no message, delivers none and reports no progress.\<close>

theorem connection_only_closes:
  fixes D es es' i
  defines "c \<equiv> transportRun D es (newConnection i)" and "c' \<equiv> transportRun D (es @ es') (newConnection i)"
  shows "\<exists>new. cx_calls c' = cx_calls c @ new \<and> rank (cx_state c) \<le> rank (cx_state c') \<and>
    length (filter (\<lambda>x. x = InvokeDisconnect) (cx_calls c')) \<le> 1 \<and> (if ended (cx_state c) then list_all quiet new else True)"
proof -
  have c': "c' = transportRun D es' c" by (simp add: c_def c'_def transport_run_append)
  have ok: "promise_ok c" by (simp add: c_def run_ok)
  then have "promise_ok c'" "moves c c'" using run_movesWell [of c D es'] by (simp_all add: c' movesWell_def)
  then show ?thesis by (auto simp: moves_def movesBy_def promise_ok_def)
qed

text \<open>The messages the client receives are those the back end sent to this connection, in their order and without a gap,
  and all of them while the connection has not ended.\<close>

theorem messages_delivered_in_order:
  fixes D es i
  defines "c \<equiv> transportRun D es (newConnection i)"
  shows "prefix (delivered c) (concat (map (messageOf D i) es)) \<and>
    (ended (cx_state c) \<or> delivered c = concat (map (messageOf D i) es))"
  using run_delivers [OF new_ok, of D i es] by (auto simp: c_def delivered_def newConnection_def prefix_def)

text \<open>C14. A connection that is given a value that is not one of its events, or whose client throws while it handles an event,
  tells its client and asks the back end to disconnect unless it is closed. Whatever happens in between, it stays disconnecting
  or closed, and when the answer of the back end to the disconnection arrives, whatever that is, it is closed, for good
  whatever happens afterwards.\<close>

theorem broken_connection_closes:
  fixes D es i v rx rx2 later
  defines "c \<equiv> transportRun D es (newConnection i)" and "c' \<equiv> transportRun D (es @ [EventArrives v rx rx2]) (newConnection i)"
    and "c'' \<equiv> transportRun D (es @ EventArrives v rx rx2 # later) (newConnection i)"
  assumes "breaks D v rx c"
  shows "list_ex (\<lambda>x. case x of OnBridgeError _ \<Rightarrow> True | _ \<Rightarrow> False) (drop (length (cx_calls c)) (cx_calls c')) \<and>
    (cx_state c'' = StateClosed \<or> cx_state c'' = StateDisconnecting \<and> InvokeDisconnect \<in> set (cx_calls c'')) \<and>
    cx_state (transportRun D (es @ EventArrives v rx rx2 # later @ DisconnectSettles # es') (newConnection i)) = StateClosed"
proof -
  have c': "c' = handleEvent D v rx rx2 c" by (simp add: c_def c'_def transport_run_append) (simp add: transportRun_def)
  have c'': "c'' = transportRun D later c'" by (simp add: c''_def c'_def transportRun_def)
  have ok: "promise_ok c" "promise_ok c'" "promise_ok c''" by (simp_all add: c_def c'_def c''_def run_ok)
  have failed: "fails D c c'" unfolding c' using assms(4) by (rule event_fails)
  note told = failed_ends [OF ok(1) failed]
  have ended: "ended (cx_state c'')" unfolding c'' using told ok(2) ended_silent [of c'] by blast
  have "transportRun D (es @ EventArrives v rx rx2 # later @ DisconnectSettles # es') (newConnection i) = transportRun D es' (disconnectSettles c'')"
    by (simp add: c''_def transportRun_def)
  moreover have "promise_ok (disconnectSettles c'')" using disconnectSettles_movesWell [of c''] ok by (simp add: movesWell_def)
  ultimately show ?thesis
    using told ended_closes [OF ok(3) ended] closed_for_good [of "disconnectSettles c''"] by simp
qed

lemma broken_connection_closes_witness:
  "cx_state (transportRun (localStdio (\<lambda>_. None))
     ([ConnectAnswered (JObj [jprop ''connectionId'' (JStr (lit ''c''))]) \<lparr>rx_calls = [], rx_throws = False\<rparr>]
      @ EventArrives JNull \<lparr>rx_calls = [ClientWrite JNull], rx_throws = True\<rparr> \<lparr>rx_calls = [], rx_throws = False\<rparr>
      # [ClientCalls (ClientWrite JNull)] @ DisconnectSettles # [])
     (newConnection (lit ''c''))) = StateClosed"
proof -
  have "breaks (localStdio (\<lambda>_. None)) JNull \<lparr>rx_calls = [ClientWrite JNull], rx_throws = True\<rparr>
      (transportRun (localStdio (\<lambda>_. None)) [ConnectAnswered (JObj [jprop ''connectionId'' (JStr (lit ''c''))]) \<lparr>rx_calls = [], rx_throws = False\<rparr>] (newConnection (lit ''c'')))"
    by (simp add: breaks_def localStdio_def parseLocalStdioConnectionEvent_def asRecord_def)
  from broken_connection_closes [OF this] show ?thesis by blast
qed

text \<open>What a session is told by either transport comes in order: after it has been told that the transport is closed or has
  failed, it is told of no message and no progress.\<close>

theorem session_told_in_order:
  "sorted_wrt (\<lambda>a b. \<not> (endsCallback a \<and> deliversCallback b))
     (callbacks remoteCallback (transportRun (remoteWebSocket stringify) es (newConnection i))) \<and>
   sorted_wrt (\<lambda>a b. \<not> (endsCallback a \<and> deliversCallback b))
     (callbacks localCallback (transportRun (localStdio stringify) es' (newConnection j)))"
  using callbacks_in_order [OF remoteDialect.run_in_order remote_callback_kinds]
    callbacks_in_order [OF localDialect.run_in_order local_callback_kinds] by simp

end
