(* ===== verification/ConfiguredServer.thy ===== *)
theory ConfiguredServer
  imports TransportSession
begin

text \<open>
  The connection of \<open>src/transport/configuredServer.ts\<close>: the back end chooses the path to a stored
  server and answers with what it chose. Events that arrive before the answer wait for it. The reaction
  of the client to a call is a function of the log that ends with this call, so one function describes
  every client.
\<close>

section \<open>Data\<close>

datatype ConfiguredServerTransportKind = KindLocalStdio | KindRemoteWebSocket

datatype ConfiguredServerConnectionPath = PathLocalStdio | PathDirect | PathHttpConnect | PathSocks5 | PathSshDirectTcpip

definition TRANSPORT_KINDS :: "(string \<times> ConfiguredServerTransportKind) list" where
  "TRANSPORT_KINDS = [(''localStdio'', KindLocalStdio), (''remoteWebSocket'', KindRemoteWebSocket)]"

definition CONNECTION_PATHS :: "(string \<times> ConfiguredServerConnectionPath) list" where
  "CONNECTION_PATHS =
     [(''localStdio'', PathLocalStdio), (''direct'', PathDirect), (''httpConnect'', PathHttpConnect), (''socks5'', PathSocks5),
      (''sshDirectTcpip'', PathSshDirectTcpip)]"

text \<open>The three members of the union.\<close>

datatype connection_route =
    RouteLocal
  | RouteDirect
  | RouteProxy ConfiguredServerConnectionPath jstr int

record ConfiguredServerConnectionInfo =
  ci_connectionId :: jstr
  ci_serverId :: jstr
  ci_serverVersion :: int
  ci_route :: connection_route

definition transportOf :: "ConfiguredServerConnectionInfo \<Rightarrow> ConfiguredServerTransportKind" where
  "transportOf info = (if ci_route info = RouteLocal then KindLocalStdio else KindRemoteWebSocket)"

datatype ConfiguredServerBridgeErrorCode =
    BridgeCancelled
  | BridgeCancellationFailed
  | BridgeInvalidRequest
  | BridgeInvalidResponse
  | BridgeInvalidEvent
  | BridgeHandlerFailed
  | BridgeInvalidMessage

datatype ParsedConnectionEvent =
    ParsedLocal LocalStdioConnectionEvent
  | ParsedRemote RemoteWebSocketConnectionEvent

fun parsedTransport :: "ParsedConnectionEvent \<Rightarrow> ConfiguredServerTransportKind" where
  "parsedTransport (ParsedLocal _) = KindLocalStdio"
| "parsedTransport (ParsedRemote _) = KindRemoteWebSocket"

definition MAX_PENDING_CONNECTION_EVENTS :: nat where [simp]: "MAX_PENDING_CONNECTION_EVENTS = 64"

section \<open>Reading values\<close>

text \<open>\<open>/^(?=.{1,64}$)[a-z0-9](?:[a-z0-9-]*[a-z0-9])?$/u\<close>\<close>

definition CONNECTION_ID_PATTERN :: "jstr \<Rightarrow> bool" where
  "CONNECTION_ID_PATTERN s \<longleftrightarrow>
     (let alnum = (\<lambda>c. cu_lower c \<or> cu_digit c) in
      s \<noteq> [] \<and> length s \<le> 64 \<and> alnum (hd s) \<and> alnum (last s) \<and> list_all (\<lambda>c. alnum c \<or> c = 0x2D) s)"

definition isVersion :: "jsval \<Rightarrow> int option" where
  "isVersion v = (case safeIntOf v of None \<Rightarrow> None | Some i \<Rightarrow> if 0 < i then Some i else None)"

definition uuidOf :: "jsval \<Rightarrow> jstr option" where
  "uuidOf v = (case v of JStr s \<Rightarrow> if UUID_PATTERN s then Some s else None | _ \<Rightarrow> None)"

definition normalizeConnectRequest :: "jsval \<Rightarrow> (jstr \<times> jstr) option" where
  "normalizeConnectRequest v =
     (case asRecord v of
        None \<Rightarrow> None
      | Some r \<Rightarrow>
          (case (field r ''connectionId'', uuidOf (field r ''serverId'')) of
             (JStr connectionId, Some serverId) \<Rightarrow>
               if hasOnlyKeys r [''connectionId'', ''serverId''] \<and> CONNECTION_ID_PATTERN connectionId
               then Some (connectionId, serverId) else None
           | _ \<Rightarrow> None))"

definition parseConnectResponse :: "jsval \<Rightarrow> jstr \<Rightarrow> jstr \<Rightarrow> ConfiguredServerConnectionInfo option" where
  "parseConnectResponse v connectionId serverId =
     (case asRecord v of
        None \<Rightarrow> None
      | Some r \<Rightarrow>
          if field r ''connectionId'' \<noteq> JStr connectionId \<or> field r ''serverId'' \<noteq> JStr serverId then None
          else (case (isVersion (field r ''serverVersion''), enumOf TRANSPORT_KINDS (field r ''transport''),
                      enumOf CONNECTION_PATHS (field r ''connectionPath'')) of
             (Some version, Some kind, Some path) \<Rightarrow>
               let base = [''connectionId'', ''serverId'', ''serverVersion'', ''transport'', ''connectionPath''];
                   info = (\<lambda>route. \<lparr>ci_connectionId = connectionId, ci_serverId = serverId, ci_serverVersion = version, ci_route = route\<rparr>) in
               if kind = KindLocalStdio then
                 if path = PathLocalStdio \<and> hasOnlyKeys r base then Some (info RouteLocal) else None
               else if path = PathDirect then
                 if hasOnlyKeys r base then Some (info RouteDirect) else None
               else if path = PathLocalStdio then None
               else (case (uuidOf (field r ''proxyId''), isVersion (field r ''proxyVersion'')) of
                  (Some proxyId, Some proxyVersion) \<Rightarrow>
                    if hasOnlyKeys r (base @ [''proxyId'', ''proxyVersion''])
                    then Some (info (RouteProxy path proxyId proxyVersion)) else None
                | _ \<Rightarrow> None)
           | _ \<Rightarrow> None))"

definition parseConnectionEvent :: "jsval \<Rightarrow> jstr \<Rightarrow> jstr \<Rightarrow> ParsedConnectionEvent option" where
  "parseConnectionEvent v connectionId serverId =
     (case asRecord v of
        None \<Rightarrow> None
      | Some r \<Rightarrow>
          if field r ''serverId'' \<noteq> JStr serverId \<or> \<not> hasOnlyKeys r [''serverId'', ''transport'', ''event''] then None
          else (case enumOf TRANSPORT_KINDS (field r ''transport'') of
             None \<Rightarrow> None
           | Some KindLocalStdio \<Rightarrow>
               (case parseLocalStdioConnectionEvent (field r ''event'') of
                  None \<Rightarrow> None
                | Some e \<Rightarrow> if fst (localView e) = connectionId then Some (ParsedLocal e) else None)
           | Some KindRemoteWebSocket \<Rightarrow>
               (case parseRemoteWebSocketConnectionEvent (field r ''event'') of
                  None \<Rightarrow> None
                | Some e \<Rightarrow> if fst (remoteView e) = connectionId then Some (ParsedRemote e) else None)))"

section \<open>State\<close>

datatype configured_call =
    CallConnect
  | CallSend jstr
  | CallDisconnect
  | TellMessage jstr
  | TellProgress TransportConnectionStage
  | TellClosed "LocalProcessTermination option"
  | TellFailure
  | RejectWrite "ConfiguredServerBridgeErrorCode option"

text \<open>Where the coroutine \<open>connect\<close> is; a rejection has the code of a bridge error, or none when it
  is the error of the command.\<close>

datatype configured_pc =
    WaitsForResponse
  | WaitsForDisconnect
  | Finishing
  | Returned
  | Rejected "ConfiguredServerBridgeErrorCode option"

record configured_connection =
  cc_connectionId :: jstr
  cc_serverId :: jstr
  cc_state :: ConnectionState
  cc_info :: "ConfiguredServerConnectionInfo option"
  cc_observedTransport :: "ConfiguredServerTransportKind option"
  cc_pendingEvents :: "ParsedConnectionEvent list"
  cc_bridgeFailure :: "ConfiguredServerBridgeErrorCode option"
  cc_disconnectPromise :: "bool option"
  cc_connectResponseReceived :: bool
  cc_connect :: configured_pc
  cc_calls :: "configured_call list"

record configured_env =
  ev_stringify :: "jsval \<Rightarrow> jstr option"
  ev_client :: "configured_call list \<Rightarrow> handlerReaction"

section \<open>Operations\<close>

definition newConfigured :: "jstr \<Rightarrow> jstr \<Rightarrow> configured_connection" where
  "newConfigured connectionId serverId = \<lparr>cc_connectionId = connectionId, cc_serverId = serverId,
     cc_state = StateConnecting, cc_info = None, cc_observedTransport = None, cc_pendingEvents = [],
     cc_bridgeFailure = None, cc_disconnectPromise = None, cc_connectResponseReceived = False,
     cc_connect = WaitsForResponse, cc_calls = [CallConnect]\<rparr>"

definition logCall :: "configured_call \<Rightarrow> configured_connection \<Rightarrow> configured_connection" where
  "logCall call c = c\<lparr>cc_calls := cc_calls c @ [call]\<rparr>"

definition writeConfigured :: "configured_env \<Rightarrow> jsval \<Rightarrow> configured_connection \<Rightarrow> configured_connection" where
  "writeConfigured env message c =
     (if cc_state c \<noteq> StateActive then logCall (RejectWrite None) c
      else (case ev_stringify env message of
          None \<Rightarrow> logCall (RejectWrite (Some BridgeInvalidMessage)) c
        | Some json \<Rightarrow> logCall (CallSend json) c))"

definition disconnectConfigured :: "configured_connection \<Rightarrow> configured_connection" where
  "disconnectConfigured c =
     (if cc_state c = StateClosed then c
      else if cc_disconnectPromise c \<noteq> None then c
      else logCall CallDisconnect (c\<lparr>cc_state := StateDisconnecting, cc_disconnectPromise := Some False\<rparr>))"

definition closeConfigured :: "configured_connection \<Rightarrow> configured_connection" where
  "closeConfigured c = (if cc_state c = StateClosed then c else disconnectConfigured c)"

definition clientAct :: "configured_env \<Rightarrow> client_call \<Rightarrow> configured_connection \<Rightarrow> configured_connection" where
  "clientAct env call c =
     (if cc_connect c \<noteq> Returned then c
      else (case call of ClientWrite message \<Rightarrow> writeConfigured env message c | ClientDisconnect \<Rightarrow> closeConfigured c))"

definition tell :: "configured_env \<Rightarrow> configured_call \<Rightarrow> configured_connection \<Rightarrow> configured_connection \<times> bool" where
  "tell env call c =
     (let c' = logCall call c; r = ev_client env (cc_calls c') in
      (fold (clientAct env) (rx_calls r) c', rx_throws r))"

text \<open>The handler's exception is swallowed in \<open>fail\<close>.\<close>

definition failConfigured :: "configured_env \<Rightarrow> ConfiguredServerBridgeErrorCode \<Rightarrow> configured_connection \<Rightarrow> configured_connection" where
  "failConfigured env code c =
     (if cc_bridgeFailure c \<noteq> None then c
      else
        let c' = fst (tell env TellFailure (c\<lparr>cc_bridgeFailure := Some code, cc_pendingEvents := []\<rparr>)) in
        if cc_connectResponseReceived c' then disconnectConfigured c' else c')"

definition attempt :: "configured_env \<Rightarrow> configured_call \<Rightarrow> configured_connection \<Rightarrow> configured_connection" where
  "attempt env call c =
     (case tell env call c of (c', throws) \<Rightarrow> if throws then failConfigured env BridgeHandlerFailed c' else c')"

fun parsedView :: "ParsedConnectionEvent \<Rightarrow> LocalProcessTermination option event_view" where
  "parsedView (ParsedLocal (LocalMessage i json)) = ViewMessage json"
| "parsedView (ParsedLocal (LocalStatus i e)) =
     ViewStatus (Some (localProcessTermination e)) (le_status e = LocalConnected) (le_status e \<noteq> LocalConnected)"
| "parsedView (ParsedRemote (RemoteProgress i stage)) = ViewProgress stage"
| "parsedView (ParsedRemote (RemoteMessage i json)) = ViewMessage json"
| "parsedView (ParsedRemote (RemoteStatus i e)) =
     ViewStatus None (re_status e = RemoteConnected) (re_status e \<noteq> RemoteConnected)"

definition deliverEvent :: "configured_env \<Rightarrow> ParsedConnectionEvent \<Rightarrow> configured_connection \<Rightarrow> configured_connection" where
  "deliverEvent env parsed c =
     (case parsedView parsed of
        ViewProgress stage \<Rightarrow> if cc_state c = StateConnecting then attempt env (TellProgress stage) c else c
      | ViewMessage json \<Rightarrow>
          if cc_state c = StateConnecting \<or> cc_state c = StateActive then attempt env (TellMessage json) c else c
      | ViewStatus termination isConnected isTerminal \<Rightarrow>
          let c1 = (if isConnected \<and> cc_state c = StateConnecting then c\<lparr>cc_state := StateActive\<rparr> else c) in
          if isTerminal then attempt env (TellClosed termination) (c1\<lparr>cc_state := StateClosed\<rparr>) else c1)"

primrec deliverAll :: "configured_env \<Rightarrow> ParsedConnectionEvent list \<Rightarrow> configured_connection \<Rightarrow> configured_connection" where
  "deliverAll env [] c = c"
| "deliverAll env (event # events) c = (if cc_bridgeFailure c \<noteq> None then c else deliverAll env events (deliverEvent env event c))"

definition flushPendingEvents :: "configured_env \<Rightarrow> configured_connection \<Rightarrow> configured_connection" where
  "flushPendingEvents env c = deliverAll env (cc_pendingEvents c) (c\<lparr>cc_pendingEvents := []\<rparr>)"

definition receiveEvent :: "configured_env \<Rightarrow> jsval \<Rightarrow> configured_connection \<Rightarrow> configured_connection" where
  "receiveEvent env v c =
     (if cc_state c = StateClosed \<or> cc_bridgeFailure c \<noteq> None then c
      else (case parseConnectionEvent v (cc_connectionId c) (cc_serverId c) of
          None \<Rightarrow> failConfigured env BridgeInvalidEvent c
        | Some parsed \<Rightarrow>
            let kind = parsedTransport parsed in
            if cc_observedTransport c \<noteq> None \<and> cc_observedTransport c \<noteq> Some kind \<or>
               (case cc_info c of None \<Rightarrow> False | Some info \<Rightarrow> transportOf info \<noteq> kind)
            then failConfigured env BridgeInvalidEvent c
            else
              let c1 = c\<lparr>cc_observedTransport := Some kind\<rparr> in
              if cc_info c1 = None then
                if length (cc_pendingEvents c1) \<ge> MAX_PENDING_CONNECTION_EVENTS then failConfigured env BridgeInvalidEvent c1
                else c1\<lparr>cc_pendingEvents := cc_pendingEvents c1 @ [parsed]\<rparr>
              else deliverEvent env parsed c1))"

definition finishFailedConnection :: "configured_connection \<Rightarrow> configured_connection" where
  "finishFailedConnection c =
     (if cc_disconnectPromise c \<noteq> None then
        c\<lparr>cc_connect := (if cc_disconnectPromise c = Some False then WaitsForDisconnect else Finishing)\<rparr>
      else if \<not> cc_connectResponseReceived c then c\<lparr>cc_state := StateClosed, cc_connect := Finishing\<rparr>
      else
        let c' = disconnectConfigured c in
        c'\<lparr>cc_connect := (if cc_disconnectPromise c' = Some False then WaitsForDisconnect else Finishing)\<rparr>)"

text \<open>The coroutine \<open>connect\<close> after its first \<open>await\<close>.\<close>

definition configuredFails :: "configured_connection \<Rightarrow> configured_connection" where
  "configuredFails c =
     (if cc_connect c \<noteq> WaitsForResponse then c
      else if cc_bridgeFailure c \<noteq> None then finishFailedConnection c
      else c\<lparr>cc_state := StateClosed, cc_connect := Rejected None\<rparr>)"

definition configuredAnswered :: "configured_env \<Rightarrow> jsval \<Rightarrow> configured_connection \<Rightarrow> configured_connection" where
  "configuredAnswered env response c =
     (if cc_connect c \<noteq> WaitsForResponse then c
      else
        let c1 = c\<lparr>cc_connectResponseReceived := True\<rparr>;
            c2 = (case parseConnectResponse response (cc_connectionId c1) (cc_serverId c1) of
                    None \<Rightarrow> failConfigured env BridgeInvalidResponse c1
                  | Some info \<Rightarrow>
                      if cc_observedTransport c1 \<noteq> None \<and> cc_observedTransport c1 \<noteq> Some (transportOf info)
                      then failConfigured env BridgeInvalidResponse c1
                      else
                        let c' = flushPendingEvents env (c1\<lparr>cc_info := Some info\<rparr>) in
                        if cc_bridgeFailure c' = None \<and> cc_state c' = StateConnecting
                        then c'\<lparr>cc_state := StateActive\<rparr> else c') in
        if cc_bridgeFailure c2 \<noteq> None then finishFailedConnection c2 else c2\<lparr>cc_connect := Returned\<rparr>)"

definition configuredDisconnected :: "configured_connection \<Rightarrow> configured_connection" where
  "configuredDisconnected c =
     (if cc_disconnectPromise c \<noteq> Some False then c
      else c\<lparr>cc_state := StateClosed, cc_disconnectPromise := Some True,
             cc_connect := (if cc_connect c = WaitsForDisconnect then Finishing else cc_connect c)\<rparr>)"

definition finishContinues :: "configured_connection \<Rightarrow> configured_connection" where
  "finishContinues c = (if cc_connect c = Finishing then c\<lparr>cc_connect := Rejected (cc_bridgeFailure c)\<rparr> else c)"

section \<open>Events\<close>

datatype configured_event =
    ConfiguredFails
  | ConfiguredAnswered jsval
  | EventReceived jsval
  | ClientActs client_call
  | ConfiguredDisconnected
  | FinishContinues

fun configuredStep :: "configured_env \<Rightarrow> configured_event \<Rightarrow> configured_connection \<Rightarrow> configured_connection" where
  "configuredStep env ConfiguredFails c = configuredFails c"
| "configuredStep env (ConfiguredAnswered response) c = configuredAnswered env response c"
| "configuredStep env (EventReceived v) c = receiveEvent env v c"
| "configuredStep env (ClientActs call) c = clientAct env call c"
| "configuredStep env ConfiguredDisconnected c = configuredDisconnected c"
| "configuredStep env FinishContinues c = finishContinues c"

definition configuredRun :: "configured_env \<Rightarrow> configured_event list \<Rightarrow> configured_connection \<Rightarrow> configured_connection" where
  "configuredRun env es c = fold (configuredStep env) es c"

end
