(* ===== verification/ConfiguredServerLaws.thy ===== *)
theory ConfiguredServerLaws
  imports ConfiguredServer
begin

text \<open>
  The invariant of a connection to a configured server. \<open>configured_ok\<close> holds inside every segment of
  code: what the log says of the state (\<open>calls_ok\<close>) and how the fields fit together
  (\<open>fields_ok\<close>). \<open>at_rest\<close> holds between events: it ties the coroutine \<open>connect\<close> to the state.
\<close>

section \<open>The log\<close>

fun deliversCall :: "configured_call \<Rightarrow> bool" where
  "deliversCall (TellMessage _) = True"
| "deliversCall (TellProgress _) = True"
| "deliversCall _ = False"

fun closesCall :: "configured_call \<Rightarrow> bool" where
  "closesCall (TellClosed _) = True"
| "closesCall _ = False"

text \<open>After a failure the client is told nothing more; after the end it is told of no message and no progress.\<close>

definition mayFollow :: "configured_call \<Rightarrow> configured_call \<Rightarrow> bool" where
  "mayFollow x y \<longleftrightarrow> \<not> (x = TellFailure \<and> (deliversCall y \<or> closesCall y \<or> y = TellFailure)) \<and> \<not> (closesCall x \<and> deliversCall y)"

text \<open>A process ends with a termination, a remote connection without; only a remote connection makes progress.\<close>

fun suits :: "ConfiguredServerConnectionInfo option \<Rightarrow> configured_call \<Rightarrow> bool" where
  "suits info (TellMessage _) \<longleftrightarrow> info \<noteq> None"
| "suits info (TellProgress _) \<longleftrightarrow> (case info of None \<Rightarrow> False | Some i \<Rightarrow> transportOf i = KindRemoteWebSocket)"
| "suits info (TellClosed t) \<longleftrightarrow> (case info of None \<Rightarrow> False | Some i \<Rightarrow> (transportOf i = KindLocalStdio) = (t \<noteq> None))"
| "suits _ _ \<longleftrightarrow> True"

definition occurrences :: "'a \<Rightarrow> 'a list \<Rightarrow> nat" where
  "occurrences x xs = length (filter (\<lambda>y. y = x) xs)"

lemma occurrences_simps [simp]:
  "occurrences x [] = 0" "occurrences x (ys @ zs) = occurrences x ys + occurrences x zs"
  "occurrences x (y # ys) = (if y = x then Suc (occurrences x ys) else occurrences x ys)"
  by (simp_all add: occurrences_def)

lemma occurrences_0: "occurrences x xs = 0 \<longleftrightarrow> x \<notin> set xs"
  by (auto simp: occurrences_def filter_empty_conv)

definition calls_ok :: "configured_connection \<Rightarrow> bool" where
  "calls_ok c \<longleftrightarrow>
     sorted_wrt mayFollow (cc_calls c) \<and> list_all (suits (cc_info c)) (cc_calls c) \<and>
     occurrences CallConnect (cc_calls c) = 1 \<and>
     occurrences CallDisconnect (cc_calls c) = (if cc_disconnectPromise c = None then 0 else 1) \<and>
     occurrences TellFailure (cc_calls c) = (if cc_bridgeFailure c = None then 0 else 1) \<and>
     (list_ex closesCall (cc_calls c) \<longrightarrow> cc_state c = StateClosed)"

fun promiseFits :: "bool option \<Rightarrow> ConnectionState \<Rightarrow> bool" where
  "promiseFits None s \<longleftrightarrow> s \<noteq> StateDisconnecting"
| "promiseFits (Some b) s \<longleftrightarrow> (if b then s = StateClosed else ended s)"

fun infoFits :: "ConfiguredServerConnectionInfo option \<Rightarrow> bool \<Rightarrow> jstr \<Rightarrow> jstr \<Rightarrow> ConfiguredServerTransportKind option \<Rightarrow> bool" where
  "infoFits None _ _ _ _ \<longleftrightarrow> True"
| "infoFits (Some i) responded connectionId serverId observed \<longleftrightarrow>
     responded \<and> ci_connectionId i = connectionId \<and> ci_serverId i = serverId \<and> observed \<in> {None, Some (transportOf i)}"

definition fields_ok :: "configured_connection \<Rightarrow> bool" where
  "fields_ok c \<longleftrightarrow> promiseFits (cc_disconnectPromise c) (cc_state c) \<and>
     infoFits (cc_info c) (cc_connectResponseReceived c) (cc_connectionId c) (cc_serverId c) (cc_observedTransport c) \<and>
     (cc_bridgeFailure c \<noteq> None \<longrightarrow> cc_pendingEvents c = []) \<and>
     length (cc_pendingEvents c) \<le> MAX_PENDING_CONNECTION_EVENTS \<and>
     list_all (\<lambda>p. cc_observedTransport c = Some (parsedTransport p)) (cc_pendingEvents c)"

lemma promise_states [simp]:
  "promiseFits p StateClosed"
  "promiseFits p StateConnecting \<longleftrightarrow> p = None"
  "promiseFits p StateActive \<longleftrightarrow> p = None"
  by (cases p; simp add: ended_def)+

definition configured_ok :: "configured_connection \<Rightarrow> bool" where
  "configured_ok c \<longleftrightarrow> calls_ok c \<and> fields_ok c"

text \<open>Calls that may be logged as they are.\<close>

definition mayLog :: "configured_call \<Rightarrow> configured_connection \<Rightarrow> bool" where
  "mayLog x c \<longleftrightarrow> suits (cc_info c) x \<and> x \<notin> {CallConnect, CallDisconnect, TellFailure} \<and>
     (deliversCall x \<or> closesCall x \<longrightarrow> cc_bridgeFailure c = None) \<and>
     (deliversCall x \<longrightarrow> cc_state c \<noteq> StateClosed) \<and> (closesCall x \<longrightarrow> cc_state c = StateClosed)"

lemma log_ok:
  assumes "configured_ok c" and "mayLog x c"
  shows "configured_ok (logCall x c)"
proof -
  have "mayFollow y x" if "y \<in> set (cc_calls c)" for y
  proof -
    have "y = TellFailure \<Longrightarrow> cc_bridgeFailure c \<noteq> None"
      using assms(1) that occurrences_0 [of TellFailure "cc_calls c"] by (auto simp: configured_ok_def calls_ok_def split: if_splits)
    moreover have "closesCall y \<Longrightarrow> cc_state c = StateClosed" using assms(1) that by (auto simp: configured_ok_def calls_ok_def list_ex_iff)
    ultimately show ?thesis using assms(2) by (auto simp: mayFollow_def mayLog_def)
  qed
  with assms show ?thesis
    by (auto simp: configured_ok_def calls_ok_def fields_ok_def logCall_def mayLog_def sorted_wrt_append)
qed

section \<open>What a segment keeps\<close>

text \<open>The fields that the client cannot change, and the direction of the state.\<close>

definition steadily :: "configured_connection \<Rightarrow> configured_connection \<Rightarrow> bool" where
  "steadily c c' \<longleftrightarrow> cc_info c' = cc_info c \<and> cc_observedTransport c' = cc_observedTransport c \<and>
     cc_connectionId c' = cc_connectionId c \<and> cc_serverId c' = cc_serverId c \<and>
     cc_connectResponseReceived c' = cc_connectResponseReceived c \<and> cc_connect c' = cc_connect c \<and>
     rank (cc_state c) \<le> rank (cc_state c') \<and> (cc_bridgeFailure c \<noteq> None \<longrightarrow> cc_bridgeFailure c' = cc_bridgeFailure c) \<and>
     (cc_pendingEvents c = [] \<longrightarrow> cc_pendingEvents c' = [])"

definition keeps :: "configured_connection \<Rightarrow> configured_connection \<Rightarrow> bool" where
  "keeps c c' \<longleftrightarrow> steadily c c' \<and> (configured_ok c \<longrightarrow> configured_ok c')"

lemma keeps_refl [simp, intro]: "keeps c c"
  by (simp add: keeps_def steadily_def)

lemma keeps_trans [trans]: "keeps c c' \<Longrightarrow> keeps c' c'' \<Longrightarrow> keeps c c''"
  by (auto simp: keeps_def steadily_def)

lemma keeps_fold: "(\<And>x c. keeps c (f x c)) \<Longrightarrow> keeps c (fold f xs c)"
  by (induction xs arbitrary: c) (auto intro: keeps_trans)

lemma log_keeps: "mayLog x c \<Longrightarrow> keeps c (logCall x c)"
  using log_ok [of c x] by (simp add: keeps_def steadily_def logCall_def)

lemma disconnect_keeps: "keeps c (disconnectConfigured c)"
proof -
  have "configured_ok (disconnectConfigured c)" if ok: "configured_ok c"
  proof (cases "cc_state c = StateClosed \<or> cc_disconnectPromise c \<noteq> None")
    case False
    have "mayFollow y CallDisconnect" for y by (simp add: mayFollow_def)
    with False ok show ?thesis
      by (auto simp: configured_ok_def calls_ok_def fields_ok_def disconnectConfigured_def logCall_def sorted_wrt_append ended_def)
  qed (use ok in \<open>auto simp: disconnectConfigured_def\<close>)
  moreover have "rank (cc_state c) \<le> rank (cc_state (disconnectConfigured c))"
    by (cases "cc_state c") (simp_all add: disconnectConfigured_def logCall_def)
  ultimately show ?thesis by (auto simp: keeps_def steadily_def disconnectConfigured_def logCall_def)
qed

lemma disconnect_ends:
  assumes "configured_ok c"
  shows "ended (cc_state (disconnectConfigured c))"
  using assms by (cases "cc_disconnectPromise c") (auto simp: disconnectConfigured_def logCall_def ended_def configured_ok_def fields_ok_def split: if_splits)

lemma clientAct_keeps: "keeps c (clientAct env call c)"
  by (auto simp: clientAct_def writeConfigured_def closeConfigured_def mayLog_def intro!: log_keeps disconnect_keeps
      split: client_call.split option.split)

lemma clientAct_failure [simp]:
  "cc_bridgeFailure (clientAct env call c) = cc_bridgeFailure c" "cc_pendingEvents (clientAct env call c) = cc_pendingEvents c"
  by (auto simp: clientAct_def writeConfigured_def closeConfigured_def disconnectConfigured_def logCall_def split: client_call.split option.split)

lemma clients_failure [simp]:
  "cc_bridgeFailure (fold (clientAct env) calls c) = cc_bridgeFailure c" "cc_pendingEvents (fold (clientAct env) calls c) = cc_pendingEvents c"
  by (induction calls arbitrary: c) simp_all

lemma tell_failure [simp]:
  "cc_bridgeFailure (fst (tell env x c)) = cc_bridgeFailure c" "cc_pendingEvents (fst (tell env x c)) = cc_pendingEvents c"
  by (simp_all add: tell_def Let_def logCall_def)

lemma tell_keeps: "mayLog x c \<Longrightarrow> keeps c (fst (tell env x c))"
  unfolding tell_def Let_def by (auto intro: keeps_trans [OF log_keeps keeps_fold] clientAct_keeps)

lemma failure_logged:
  assumes "cc_bridgeFailure c = None"
  shows "keeps c (logCall TellFailure (c\<lparr>cc_bridgeFailure := Some code, cc_pendingEvents := []\<rparr>))"
proof -
  have "mayFollow y TellFailure" if "y \<in> set (cc_calls c)" "configured_ok c" for y
    using that assms occurrences_0 [of TellFailure "cc_calls c"] by (auto simp: mayFollow_def configured_ok_def calls_ok_def)
  then show ?thesis using assms
    by (auto simp: keeps_def steadily_def configured_ok_def calls_ok_def fields_ok_def logCall_def sorted_wrt_append)
qed

lemma fail_keeps: "keeps c (failConfigured env code c)"
proof (cases "cc_bridgeFailure c")
  case None
  let ?t = "fst (tell env TellFailure (c\<lparr>cc_bridgeFailure := Some code, cc_pendingEvents := []\<rparr>))"
  have "keeps c ?t" unfolding tell_def Let_def fst_conv
    by (rule keeps_trans [OF failure_logged [OF None] keeps_fold]) (rule clientAct_keeps)
  then show ?thesis using None by (auto simp: failConfigured_def Let_def intro: keeps_trans disconnect_keeps)
qed (simp add: failConfigured_def)

lemma disconnect_failure [simp]:
  "cc_bridgeFailure (disconnectConfigured c) = cc_bridgeFailure c" "cc_pendingEvents (disconnectConfigured c) = cc_pendingEvents c"
  by (simp_all add: disconnectConfigured_def logCall_def)

text \<open>A failure whose connection the back end has confirmed is followed by its disconnection.\<close>

lemma fail_fails:
  shows "cc_bridgeFailure (failConfigured env code c) \<noteq> None"
    and "configured_ok c \<Longrightarrow> cc_bridgeFailure c = None \<Longrightarrow> cc_connectResponseReceived c \<Longrightarrow> ended (cc_state (failConfigured env code c))"
    and "cc_bridgeFailure c = None \<Longrightarrow> cc_bridgeFailure (failConfigured env code c) = Some code"
proof -
  let ?t = "fst (tell env TellFailure (c\<lparr>cc_bridgeFailure := Some code, cc_pendingEvents := []\<rparr>))"
  have t: "keeps c ?t" if "cc_bridgeFailure c = None" unfolding tell_def Let_def fst_conv
    by (rule keeps_trans [OF failure_logged [OF that] keeps_fold]) (rule clientAct_keeps)
  show "cc_bridgeFailure (failConfigured env code c) \<noteq> None" by (simp add: failConfigured_def Let_def)
  show "cc_bridgeFailure c = None \<Longrightarrow> cc_bridgeFailure (failConfigured env code c) = Some code" by (simp add: failConfigured_def Let_def)
  assume "configured_ok c" "cc_bridgeFailure c = None" "cc_connectResponseReceived c"
  with t have "configured_ok ?t" "cc_connectResponseReceived ?t" by (simp_all add: keeps_def steadily_def)
  then show "ended (cc_state (failConfigured env code c))"
    using \<open>cc_bridgeFailure c = None\<close> disconnect_ends [of ?t] by (simp add: failConfigured_def Let_def)
qed

lemma attempt_keeps: "mayLog x c \<Longrightarrow> keeps c (attempt env x c)"
  using tell_keeps [of x c env] by (auto simp: attempt_def intro: keeps_trans fail_keeps split: prod.split)

lemma activate_keeps: "cc_state c = StateConnecting \<Longrightarrow> keeps c (c\<lparr>cc_state := StateActive\<rparr>)"
  by (auto simp: keeps_def steadily_def configured_ok_def calls_ok_def fields_ok_def)

lemma close_keeps: "keeps c (c\<lparr>cc_state := StateClosed\<rparr>)"
  by (cases "cc_state c") (auto simp: keeps_def steadily_def configured_ok_def calls_ok_def fields_ok_def)

text \<open>An event of the transport that the back end chose.\<close>

definition fits :: "configured_connection \<Rightarrow> ParsedConnectionEvent \<Rightarrow> bool" where
  "fits c parsed \<longleftrightarrow> map_option transportOf (cc_info c) = Some (parsedTransport parsed)"

lemma parsed_suits:
  assumes "map_option transportOf info = Some (parsedTransport p)"
  shows "case parsedView p of ViewProgress stage \<Rightarrow> suits info (TellProgress stage) | ViewMessage json \<Rightarrow> suits info (TellMessage json)
    | ViewStatus t _ _ \<Rightarrow> suits info (TellClosed t)"
  using assms by (cases p rule: parsedView.cases) auto

lemma deliver_keeps:
  assumes "fits c p" and "cc_bridgeFailure c = None"
  shows "keeps c (deliverEvent env p c)"
proof -
  have suits: "case parsedView p of ViewProgress stage \<Rightarrow> suits (cc_info c) (TellProgress stage) | ViewMessage json \<Rightarrow> suits (cc_info c) (TellMessage json)
    | ViewStatus t _ _ \<Rightarrow> suits (cc_info c) (TellClosed t)" using parsed_suits assms by (simp add: fits_def)
  show ?thesis
  proof (cases "parsedView p")
    case (ViewStatus t isConnected isTerminal)
    have closed: "keeps d (attempt env (TellClosed t) (d\<lparr>cc_state := StateClosed\<rparr>))" if "cc_info d = cc_info c" "cc_bridgeFailure d = None" for d
      using suits ViewStatus that by (intro keeps_trans [OF close_keeps attempt_keeps]) (simp add: mayLog_def)
    show ?thesis using ViewStatus closed [of c] closed [of "c\<lparr>cc_state := StateActive\<rparr>"] assms(2)
      by (auto simp: deliverEvent_def Let_def intro: activate_keeps keeps_trans)
  qed (use suits assms(2) in \<open>auto simp: deliverEvent_def mayLog_def intro!: attempt_keeps\<close>)
qed


lemma deliverAll_keeps:
  assumes "\<And>p. p \<in> set ps \<Longrightarrow> fits c p"
  shows "keeps c (deliverAll env ps c)"
  using assms
proof (induction ps arbitrary: c)
  case (Cons p ps)
  show ?case
  proof (cases "cc_bridgeFailure c")
    case None
    then have "keeps c (deliverEvent env p c)" using Cons.prems by (intro deliver_keeps) simp_all
    moreover from this have "keeps (deliverEvent env p c) (deliverAll env ps (deliverEvent env p c))"
      using Cons.prems by (intro Cons.IH) (auto simp: fits_def keeps_def steadily_def)
    ultimately show ?thesis using None by (auto intro: keeps_trans)
  qed simp
qed simp

lemma attempt_ended:
  assumes "configured_ok c" and "mayLog x c" and "cc_bridgeFailure c = None" and "cc_connectResponseReceived c"
  shows "cc_bridgeFailure (attempt env x c) \<noteq> None \<longrightarrow> ended (cc_state (attempt env x c))"
proof -
  obtain d throws where d: "tell env x c = (d, throws)" by fastforce
  have "keeps c d" "cc_bridgeFailure d = None" using tell_keeps [OF assms(2), of env] tell_failure(1) [of env x c] assms(3) by (simp_all add: d)
  then show ?thesis using assms fail_fails(2) [of d env BridgeHandlerFailed] by (auto simp: attempt_def d keeps_def steadily_def)
qed

lemma deliver_ended:
  assumes "configured_ok c" and "fits c p" and "cc_bridgeFailure c = None"
  shows "cc_bridgeFailure (deliverEvent env p c) \<noteq> None \<longrightarrow> ended (cc_state (deliverEvent env p c))"
proof -
  have responded: "cc_connectResponseReceived c" using assms by (cases "cc_info c") (auto simp: configured_ok_def fields_ok_def fits_def)
  have suits: "case parsedView p of ViewProgress stage \<Rightarrow> suits (cc_info c) (TellProgress stage) | ViewMessage json \<Rightarrow> suits (cc_info c) (TellMessage json)
    | ViewStatus t _ _ \<Rightarrow> suits (cc_info c) (TellClosed t)" using parsed_suits assms by (simp add: fits_def)
  show ?thesis
  proof (cases "parsedView p")
    case (ViewStatus t isConnected isTerminal)
    have "cc_bridgeFailure (attempt env (TellClosed t) (d\<lparr>cc_state := StateClosed\<rparr>)) \<noteq> None \<longrightarrow>
        ended (cc_state (attempt env (TellClosed t) (d\<lparr>cc_state := StateClosed\<rparr>)))"
      if "cc_info d = cc_info c" "cc_bridgeFailure d = None" "configured_ok d" "cc_connectResponseReceived d" for d
      using suits ViewStatus that close_keeps [of d] by (intro attempt_ended) (simp_all add: keeps_def mayLog_def)
    from this [of c] this [of "c\<lparr>cc_state := StateActive\<rparr>"] show ?thesis
      using ViewStatus assms responded activate_keeps [of c] by (auto simp: deliverEvent_def Let_def keeps_def)
  next
    case (ViewProgress stage)
    then show ?thesis using suits assms responded attempt_ended [of c "TellProgress stage" env] by (auto simp: deliverEvent_def mayLog_def)
  next
    case (ViewMessage json)
    then show ?thesis using suits assms responded attempt_ended [of c "TellMessage json" env] by (auto simp: deliverEvent_def mayLog_def)
  qed
qed

section \<open>Between events\<close>

fun restsAt :: "configured_pc \<Rightarrow> configured_connection \<Rightarrow> bool" where
  "restsAt WaitsForResponse c \<longleftrightarrow> \<not> cc_connectResponseReceived c \<and> cc_state c = StateConnecting"
| "restsAt WaitsForDisconnect c \<longleftrightarrow> cc_disconnectPromise c = Some False \<and> cc_bridgeFailure c \<noteq> None"
| "restsAt Finishing c \<longleftrightarrow> cc_bridgeFailure c \<noteq> None \<and> cc_state c = StateClosed"
| "restsAt Returned c \<longleftrightarrow> cc_info c \<noteq> None \<and> cc_state c \<noteq> StateConnecting \<and> cc_pendingEvents c = []"
| "restsAt (Rejected code) c \<longleftrightarrow> code = cc_bridgeFailure c \<and> cc_state c = StateClosed"

definition at_rest :: "configured_connection \<Rightarrow> bool" where
  "at_rest c \<longleftrightarrow> restsAt (cc_connect c) c \<and>
     (cc_bridgeFailure c \<noteq> None \<and> cc_connectResponseReceived c \<longrightarrow> ended (cc_state c)) \<and>
     (\<not> cc_connectResponseReceived c \<longrightarrow> cc_disconnectPromise c = None)"

definition resting :: "configured_connection \<Rightarrow> bool" where
  "resting c \<longleftrightarrow> configured_ok c \<and> at_rest c"

definition onward :: "configured_connection \<Rightarrow> configured_connection \<Rightarrow> bool" where
  "onward c c' \<longleftrightarrow> cc_connectionId c' = cc_connectionId c \<and> cc_serverId c' = cc_serverId c \<and>
     rank (cc_state c) \<le> rank (cc_state c') \<and> (cc_bridgeFailure c \<noteq> None \<longrightarrow> cc_bridgeFailure c' = cc_bridgeFailure c) \<and>
     (cc_info c \<noteq> None \<longrightarrow> cc_info c' = cc_info c)"

lemma keeps_onward: "keeps c c' \<Longrightarrow> onward c c'"
  by (auto simp: keeps_def steadily_def onward_def)

lemma onward_refl [simp, intro]: "onward c c"
  by (simp add: onward_def)

lemma onward_trans [trans]: "onward c c' \<Longrightarrow> onward c' c'' \<Longrightarrow> onward c c''"
  by (auto simp: onward_def)

lemma resting_new: "resting (newConfigured i s)"
  by (simp add: resting_def configured_ok_def calls_ok_def fields_ok_def at_rest_def newConfigured_def)

lemma no_client: "cc_connect c \<noteq> Returned \<Longrightarrow> clientAct env call c = c"
  by (simp add: clientAct_def)

lemma no_clients: "cc_connect c \<noteq> Returned \<Longrightarrow> fold (clientAct env) calls c = c"
  by (induction calls) (simp_all add: no_client)

lemma rank_ended: "rank (cc_state c) \<le> rank (cc_state c') \<Longrightarrow> ended (cc_state c) \<Longrightarrow> ended (cc_state c')"
  by (simp add: ended_rank)

lemma rank_connecting: "rank s \<le> rank s' \<Longrightarrow> s \<noteq> StateConnecting \<Longrightarrow> s' \<noteq> StateConnecting"
  by (cases s) auto

text \<open>An operation on a connection that \<open>connect\<close> has returned.\<close>

lemma returned_rests:
  assumes "resting c" and "cc_connect c = Returned" and "keeps c c'" and "cc_bridgeFailure c' \<noteq> None \<longrightarrow> ended (cc_state c')"
  shows "resting c'"
proof -
  have "cc_connectResponseReceived c" using assms(1,2) by (cases "cc_info c") (auto simp: resting_def at_rest_def configured_ok_def fields_ok_def)
  then show ?thesis using assms rank_connecting [of "cc_state c" "cc_state c'"]
    by (auto simp: resting_def at_rest_def keeps_def steadily_def)
qed

lemma client_rests: "resting c \<Longrightarrow> resting (clientAct env call c)"
proof (cases "cc_connect c = Returned")
  case True
  assume rest: "resting c"
  have "cc_connectResponseReceived c" using rest True by (cases "cc_info c") (auto simp: resting_def at_rest_def configured_ok_def fields_ok_def)
  then show ?thesis using rest True clientAct_keeps [of c env call]
    by (intro returned_rests [OF rest True]) (auto simp: resting_def at_rest_def keeps_def steadily_def intro: rank_ended)
qed (simp add: no_client)

lemma fail_waiting:
  assumes "cc_connect c \<noteq> Returned" and "\<not> cc_connectResponseReceived c" and "cc_bridgeFailure c = None"
  shows "failConfigured env code c = logCall TellFailure (c\<lparr>cc_bridgeFailure := Some code, cc_pendingEvents := []\<rparr>)"
  using assms by (simp add: failConfigured_def tell_def Let_def no_clients logCall_def)

lemma observed_ok:
  assumes "configured_ok c" and "cc_observedTransport c \<in> {None, Some kind}" and "map_option transportOf (cc_info c) \<in> {None, Some kind}"
  shows "configured_ok (c\<lparr>cc_observedTransport := Some kind\<rparr>)"
  using assms by (cases "cc_info c") (auto simp: configured_ok_def calls_ok_def fields_ok_def list_all_iff)

lemma receive_waiting:
  assumes "resting c" and "cc_connect c = WaitsForResponse"
  shows "resting (receiveEvent env v c) \<and> onward c (receiveEvent env v c)"
proof (cases "cc_bridgeFailure c")
  case None
  have facts: "configured_ok c" "\<not> cc_connectResponseReceived c" "cc_state c = StateConnecting" "cc_disconnectPromise c = None"
    using assms by (simp_all add: resting_def at_rest_def)
  then have info: "cc_info c = None" by (cases "cc_info c") (auto simp: configured_ok_def fields_ok_def)
  have failing: "resting (failConfigured env code d) \<and> onward d (failConfigured env code d)"
    if "configured_ok d" "cc_connect d = WaitsForResponse" "\<not> cc_connectResponseReceived d" "cc_state d = StateConnecting"
      "cc_disconnectPromise d = None" "cc_bridgeFailure d = None" for d code
  proof
    have eq: "failConfigured env code d = logCall TellFailure (d\<lparr>cc_bridgeFailure := Some code, cc_pendingEvents := []\<rparr>)"
      using that by (intro fail_waiting) simp_all
    show "onward d (failConfigured env code d)" by (rule keeps_onward [OF fail_keeps])
    have "configured_ok (failConfigured env code d)" using fail_keeps [of d env code] that by (simp add: keeps_def)
    then show "resting (failConfigured env code d)" unfolding eq using that by (simp add: resting_def at_rest_def logCall_def)
  qed
  show ?thesis
  proof (cases "parseConnectionEvent v (cc_connectionId c) (cc_serverId c)")
    case None
    then show ?thesis using failing [of c] facts assms \<open>cc_bridgeFailure c = None\<close> by (simp add: receiveEvent_def)
  next
    case (Some p)
    let ?kind = "parsedTransport p"
    show ?thesis
    proof (cases "cc_observedTransport c \<noteq> None \<and> cc_observedTransport c \<noteq> Some ?kind")
      case True
      then show ?thesis using Some failing [of c] facts assms None info by (simp add: receiveEvent_def Let_def)
    next
      case False
      let ?c = "c\<lparr>cc_observedTransport := Some ?kind\<rparr>"
      have ok: "configured_ok ?c" using False facts info by (intro observed_ok) auto
      have on: "onward c d" if "onward ?c d" for d using that by (simp add: onward_def)
      show ?thesis
      proof (cases "length (cc_pendingEvents c) \<ge> 64")
        case True
        then show ?thesis using Some False None facts info assms(2) ok failing [of ?c BridgeInvalidEvent] on by (auto simp: receiveEvent_def Let_def)
      next
        case room: False
        then have "configured_ok (?c\<lparr>cc_pendingEvents := cc_pendingEvents c @ [p]\<rparr>)"
          using ok None by (auto simp: configured_ok_def calls_ok_def fields_ok_def info)
        then show ?thesis using Some False None facts info assms(2) room by (auto simp: receiveEvent_def Let_def resting_def at_rest_def onward_def)
      qed
    qed
  qed
qed (use assms in \<open>simp add: receiveEvent_def\<close>)


lemma receive_returned:
  assumes "resting c" and "cc_connect c = Returned"
  shows "resting (receiveEvent env v c) \<and> onward c (receiveEvent env v c)"
proof (cases "cc_state c = StateClosed \<or> cc_bridgeFailure c \<noteq> None")
  case False
  then have live: "cc_bridgeFailure c = None" by simp
  obtain info where info: "cc_info c = Some info" using assms by (auto simp: resting_def at_rest_def)
  have ok: "configured_ok c" "cc_connectResponseReceived c" using assms info by (auto simp: resting_def configured_ok_def fields_ok_def)
  have moved: "resting d \<and> onward c d" if "resting c2" "cc_connect c2 = Returned" "keeps c2 d" "onward c c2" "cc_bridgeFailure d \<noteq> None \<longrightarrow> ended (cc_state d)" for c2 d
    using that returned_rests [of c2 d] keeps_onward [of c2 d] onward_trans [of c c2 d] by blast
  have failing: "resting (failConfigured env code c) \<and> onward c (failConfigured env code c)" for code
    using ok live assms fail_fails(2) [of c env code] by (intro moved [of c] fail_keeps) auto
  show ?thesis
  proof (cases "parseConnectionEvent v (cc_connectionId c) (cc_serverId c)")
    case None
    then show ?thesis using failing False by (simp add: receiveEvent_def)
  next
    case (Some p)
    let ?kind = "parsedTransport p" and ?c = "c\<lparr>cc_observedTransport := Some (parsedTransport p)\<rparr>"
    show ?thesis
    proof (cases "cc_observedTransport c \<notin> {None, Some ?kind} \<or> transportOf info \<noteq> ?kind")
      case True
      then show ?thesis using Some failing False info by (auto simp: receiveEvent_def Let_def)
    next
      case same: False
      have ok2: "configured_ok ?c" using ok same info by (intro observed_ok) auto
      have rest: "resting ?c" using assms ok2 info by (simp add: resting_def at_rest_def)
      have fits: "fits ?c p" using same info by (simp add: fits_def)
      have "resting (deliverEvent env p ?c) \<and> onward c (deliverEvent env p ?c)"
        using rest assms(2) fits live deliver_ended [OF ok2 fits, of env] by (intro moved [of ?c] deliver_keeps) (auto simp: onward_def)
      then show ?thesis using Some same False info by (auto simp: receiveEvent_def Let_def)
    qed
  qed
qed (use assms in \<open>simp add: receiveEvent_def\<close>)

lemma receive_rests:
  assumes "resting c"
  shows "resting (receiveEvent env v c) \<and> onward c (receiveEvent env v c)"
proof (cases "cc_connect c")
  case WaitsForDisconnect
  then have "cc_bridgeFailure c \<noteq> None" using assms by (auto simp: resting_def at_rest_def)
  then show ?thesis using assms by (simp add: receiveEvent_def)
next
  case Finishing
  then have "cc_bridgeFailure c \<noteq> None" using assms by (auto simp: resting_def at_rest_def)
  then show ?thesis using assms by (simp add: receiveEvent_def)
next
  case (Rejected code)
  then have "cc_state c = StateClosed" using assms by (auto simp: resting_def at_rest_def)
  then show ?thesis using assms by (simp add: receiveEvent_def)
qed (use assms receive_waiting receive_returned in auto)

text \<open>The end of \<open>connect\<close> after a failure.\<close>

lemma connect_pc_ok: "configured_ok (c\<lparr>cc_connect := pc\<rparr>) = configured_ok c"
  by (simp add: configured_ok_def calls_ok_def fields_ok_def)

lemma close_ok: "configured_ok c \<Longrightarrow> configured_ok (c\<lparr>cc_state := StateClosed\<rparr>)"
  using close_keeps [of c] by (simp add: keeps_def)

lemma finish_rests:
  assumes "configured_ok c" and "cc_bridgeFailure c \<noteq> None" and "cc_connectResponseReceived c \<or> cc_disconnectPromise c = None"
  shows "resting (finishFailedConnection c)" and "cc_connect (finishFailedConnection c) \<in> {WaitsForDisconnect, Finishing}"
    and "cc_bridgeFailure (finishFailedConnection c) = cc_bridgeFailure c" and "onward c (finishFailedConnection c)"
proof -
  let ?f = "finishFailedConnection c"
  have promise: "promiseFits (cc_disconnectPromise c) (cc_state c)" using assms(1) by (simp add: configured_ok_def fields_ok_def)
  let ?d = "disconnectConfigured c"
  have d: "configured_ok ?d" "ended (cc_state ?d)" "cc_bridgeFailure ?d \<noteq> None" using disconnect_keeps [of c] disconnect_ends [of c] assms by (simp_all add: keeps_def)
  then have settled: "cc_disconnectPromise ?d \<noteq> Some False \<Longrightarrow> cc_state ?d = StateClosed"
    by (cases "cc_disconnectPromise ?d") (auto simp: configured_ok_def fields_ok_def ended_def)
  have responded: "cc_connectResponseReceived ?d = cc_connectResponseReceived c" using disconnect_keeps [of c] by (simp add: keeps_def steadily_def)
  show "cc_connect ?f \<in> {WaitsForDisconnect, Finishing}" "cc_bridgeFailure ?f = cc_bridgeFailure c"
    by (simp_all add: finishFailedConnection_def Let_def)
  show "onward c ?f" using keeps_onward [OF disconnect_keeps, of c] keeps_onward [OF close_keeps, of c]
    by (auto simp: finishFailedConnection_def Let_def onward_def)
  show "resting ?f"
  proof (cases "cc_disconnectPromise c")
    case (Some b)
    then show ?thesis using assms promise by (cases b) (auto simp: finishFailedConnection_def resting_def at_rest_def connect_pc_ok ended_def)
  next
    case None
    then show ?thesis using assms d settled responded close_ok [of c]
      by (auto simp: finishFailedConnection_def Let_def resting_def at_rest_def connect_pc_ok)
  qed
qed

lemma fails_rests:
  assumes "resting c"
  shows "resting (configuredFails c) \<and> onward c (configuredFails c)"
proof (cases "cc_connect c = WaitsForResponse \<and> cc_bridgeFailure c \<noteq> None")
  case True
  then show ?thesis using assms finish_rests [of c] by (auto simp: configuredFails_def resting_def at_rest_def)
next
  case False
  then show ?thesis using assms close_ok [of c] rank_closed
    by (cases "cc_state c") (auto simp: configuredFails_def resting_def at_rest_def connect_pc_ok onward_def)
qed

lemma suits_any: "suits None x \<Longrightarrow> suits info x"
  by (cases x) auto

text \<open>The segment of \<open>connect\<close> between the answer and its last test.\<close>

definition answered :: "configured_env \<Rightarrow> jsval \<Rightarrow> configured_connection \<Rightarrow> configured_connection" where
  "answered env response c1 =
     (case parseConnectResponse response (cc_connectionId c1) (cc_serverId c1) of
        None \<Rightarrow> failConfigured env BridgeInvalidResponse c1
      | Some info \<Rightarrow>
          if cc_observedTransport c1 \<noteq> None \<and> cc_observedTransport c1 \<noteq> Some (transportOf info)
          then failConfigured env BridgeInvalidResponse c1
          else
            let c' = flushPendingEvents env (c1\<lparr>cc_info := Some info\<rparr>) in
            if cc_bridgeFailure c' = None \<and> cc_state c' = StateConnecting then c'\<lparr>cc_state := StateActive\<rparr> else c')"

lemma configuredAnswered_eq:
  "configuredAnswered env response c =
     (if cc_connect c \<noteq> WaitsForResponse then c
      else let c2 = answered env response (c\<lparr>cc_connectResponseReceived := True\<rparr>) in
        if cc_bridgeFailure c2 \<noteq> None then finishFailedConnection c2 else c2\<lparr>cc_connect := Returned\<rparr>)"
  unfolding configuredAnswered_def answered_def Let_def by (rule refl)

lemma response_ids:
  "parseConnectResponse v i s = Some info \<Longrightarrow> ci_connectionId info = i \<and> ci_serverId info = s"
  by (auto simp: parseConnectResponse_def Let_def split: option.splits if_splits)

lemma informed_ok:
  assumes "configured_ok c" and "cc_info c = None" and "cc_connectResponseReceived c"
    and "parseConnectResponse v (cc_connectionId c) (cc_serverId c) = Some info" and "cc_observedTransport c \<in> {None, Some (transportOf info)}"
  shows "configured_ok (c\<lparr>cc_info := Some info\<rparr>)"
  using assms response_ids [OF assms(4)] suits_any by (auto simp: configured_ok_def calls_ok_def fields_ok_def list_all_iff)

lemma unpended_ok: "configured_ok c \<Longrightarrow> configured_ok (c\<lparr>cc_pendingEvents := []\<rparr>)"
  by (simp add: configured_ok_def calls_ok_def fields_ok_def)

lemma flush_ok:
  assumes "configured_ok c" and "cc_info c = Some info" and "cc_observedTransport c \<in> {None, Some (transportOf info)}"
  shows "configured_ok (flushPendingEvents env c) \<and> onward c (flushPendingEvents env c) \<and> cc_info (flushPendingEvents env c) = Some info \<and>
    cc_connect (flushPendingEvents env c) = cc_connect c \<and>
    cc_connectResponseReceived (flushPendingEvents env c) = cc_connectResponseReceived c \<and> cc_pendingEvents (flushPendingEvents env c) = []"
proof -
  let ?c = "c\<lparr>cc_pendingEvents := []\<rparr>"
  have "keeps ?c (deliverAll env (cc_pendingEvents c) ?c)"
    using assms by (intro deliverAll_keeps) (auto simp: fits_def configured_ok_def fields_ok_def list_all_iff)
  then show ?thesis using unpended_ok [OF assms(1)] assms(2) by (auto simp: flushPendingEvents_def keeps_def steadily_def onward_def)
qed

lemma answered_ok:
  assumes "configured_ok c" and "cc_info c = None" and "cc_connectResponseReceived c"
  shows "configured_ok (answered env response c) \<and> onward c (answered env response c) \<and>
    cc_connectResponseReceived (answered env response c) \<and>
    (cc_bridgeFailure (answered env response c) = None \<longrightarrow> restsAt Returned (answered env response c))"
proof -
  have failing: "configured_ok (failConfigured env code c)" "onward c (failConfigured env code c)"
    "cc_connectResponseReceived (failConfigured env code c)" "cc_bridgeFailure (failConfigured env code c) \<noteq> None" for code
    using fail_keeps [of c env code] keeps_onward assms fail_fails(1) by (auto simp: keeps_def steadily_def)
  show ?thesis
  proof (cases "parseConnectResponse response (cc_connectionId c) (cc_serverId c)")
    case None
    then show ?thesis using failing [of BridgeInvalidResponse] by (auto simp: answered_def)
  next
    case (Some info)
    show ?thesis
    proof (cases "cc_observedTransport c \<in> {None, Some (transportOf info)}")
      case True
      let ?i = "c\<lparr>cc_info := Some info\<rparr>"
      let ?f = "flushPendingEvents env ?i"
      have f: "configured_ok ?f" "onward ?i ?f" "cc_info ?f = Some info" "cc_connectResponseReceived ?f" "cc_pendingEvents ?f = []"
        using flush_ok [OF informed_ok [OF assms Some True], of info env] True assms(3) by simp_all
      have on: "onward c ?f" using f(2) assms(2) by (simp add: onward_def)
      have active: "configured_ok (?f\<lparr>cc_state := StateActive\<rparr>) \<and> onward c (?f\<lparr>cc_state := StateActive\<rparr>)" if "cc_state ?f = StateConnecting"
        using that f activate_keeps [of ?f] on keeps_onward [of ?f "?f\<lparr>cc_state := StateActive\<rparr>"] onward_trans by (auto simp: keeps_def)
      show ?thesis using Some True f on active by (auto simp: answered_def Let_def)
    next
      case False
      then show ?thesis using Some failing [of BridgeInvalidResponse] by (auto simp: answered_def)
    qed
  qed
qed

lemma answered_rests:
  assumes "resting c"
  shows "resting (configuredAnswered env response c) \<and> onward c (configuredAnswered env response c)"
proof (cases "cc_connect c = WaitsForResponse")
  case True
  let ?c = "c\<lparr>cc_connectResponseReceived := True\<rparr>"
  have info: "cc_info c = None" using assms True by (cases "cc_info c") (auto simp: resting_def at_rest_def configured_ok_def fields_ok_def)
  have ok: "configured_ok ?c" using assms info by (simp add: resting_def configured_ok_def calls_ok_def fields_ok_def)
  let ?a = "answered env response ?c"
  have a: "configured_ok ?a" "onward ?c ?a" "cc_connectResponseReceived ?a" "cc_bridgeFailure ?a = None \<longrightarrow> restsAt Returned ?a"
    using answered_ok [OF ok, of env response] info by simp_all
  have on: "onward c ?a" using a(2) by (simp add: onward_def)
  show ?thesis
  proof (cases "cc_bridgeFailure ?a")
    case None
    then have "resting (?a\<lparr>cc_connect := Returned\<rparr>)" using a by (simp add: resting_def at_rest_def connect_pc_ok)
    then show ?thesis using None True on by (simp add: configuredAnswered_eq Let_def onward_def)
  next
    case (Some code)
    then show ?thesis using finish_rests [of ?a] a on onward_trans [of c ?a] True by (simp add: configuredAnswered_eq Let_def)
  qed
qed (use assms in \<open>simp add: configuredAnswered_def\<close>)

lemma disconnected_rests:
  assumes "resting c"
  shows "resting (configuredDisconnected c) \<and> onward c (configuredDisconnected c)"
  using assms by (cases "cc_connect c"; cases "cc_state c")
    (auto simp: configuredDisconnected_def resting_def at_rest_def configured_ok_def calls_ok_def fields_ok_def onward_def ended_def)

lemma continues_rests: "resting c \<Longrightarrow> resting (finishContinues c) \<and> onward c (finishContinues c)"
  by (auto simp: finishContinues_def resting_def at_rest_def connect_pc_ok onward_def)

theorem configured_step: "resting c \<Longrightarrow> resting (configuredStep env e c) \<and> onward c (configuredStep env e c)"
  using fails_rests answered_rests receive_rests client_rests [of c env] keeps_onward [OF clientAct_keeps] disconnected_rests continues_rests
  by (cases e) auto

lemma configured_run: "resting c \<Longrightarrow> resting (configuredRun env es c) \<and> onward c (configuredRun env es c)"
proof (induction es arbitrary: c)
  case (Cons e es)
  then show ?case using configured_step [of c env e] onward_trans by (simp add: configuredRun_def) blast
qed (simp add: configuredRun_def)

lemma configured_reachable: "resting (configuredRun env es (newConfigured i s))"
  using configured_run resting_new by blast

lemma configuredRun_append: "configuredRun env (es @ es') c = configuredRun env es' (configuredRun env es c)"
  by (simp add: configuredRun_def)

end
