(* ===== verification/ConfiguredServerMessages.thy ===== *)
theory ConfiguredServerMessages
  imports ConfiguredServerLaws
begin

text \<open>
  The messages of a connection to a configured server: those that wait for the answer of the back end
  are delivered before the later ones, in their order, until the connection ends or fails. And how a
  failed connection is closed.
\<close>

definition told :: "configured_connection \<Rightarrow> jstr list" where
  "told c = concat (map (\<lambda>call. case call of TellMessage json \<Rightarrow> [json] | _ \<Rightarrow> []) (cc_calls c))"

definition messageText :: "ParsedConnectionEvent \<Rightarrow> jstr list" where
  "messageText p = (case parsedView p of ViewMessage json \<Rightarrow> [json] | _ \<Rightarrow> [])"

definition waitingMessages :: "configured_connection \<Rightarrow> jstr list" where
  "waitingMessages c = concat (map messageText (cc_pendingEvents c))"

definition sentMessage :: "jstr \<Rightarrow> jstr \<Rightarrow> configured_event \<Rightarrow> jstr list" where
  "sentMessage connectionId serverId e =
     (case e of
        EventReceived v \<Rightarrow> (case parseConnectionEvent v connectionId serverId of None \<Rightarrow> [] | Some p \<Rightarrow> messageText p)
      | _ \<Rightarrow> [])"

definition alive :: "configured_connection \<Rightarrow> bool" where
  "alive c \<longleftrightarrow> \<not> ended (cc_state c) \<and> cc_bridgeFailure c = None"

lemma told_log [simp]: "told (logCall x c) = told c @ (case x of TellMessage json \<Rightarrow> [json] | _ \<Rightarrow> [])"
  by (simp add: told_def logCall_def)

lemma told_update [simp]:
  "told (c\<lparr>cc_state := s\<rparr>) = told c" "told (c\<lparr>cc_connect := pc\<rparr>) = told c" "told (c\<lparr>cc_disconnectPromise := p\<rparr>) = told c"
  "told (c\<lparr>cc_pendingEvents := ps\<rparr>) = told c" "told (c\<lparr>cc_bridgeFailure := f\<rparr>) = told c" "told (c\<lparr>cc_info := i\<rparr>) = told c"
  "told (c\<lparr>cc_observedTransport := k\<rparr>) = told c" "told (c\<lparr>cc_connectResponseReceived := b\<rparr>) = told c"
  by (simp_all add: told_def)

lemma told_disconnect [simp]: "told (disconnectConfigured c) = told c"
  by (simp add: disconnectConfigured_def)

lemma told_client [simp]: "told (clientAct env call c) = told c"
  by (auto simp: clientAct_def writeConfigured_def closeConfigured_def split: client_call.split option.split)

lemma told_clients [simp]: "told (fold (clientAct env) calls c) = told c"
  by (induction calls arbitrary: c) simp_all

lemma told_tell [simp]: "told (fst (tell env x c)) = told c @ (case x of TellMessage json \<Rightarrow> [json] | _ \<Rightarrow> [])"
  by (simp add: tell_def Let_def)

lemma told_fail [simp]: "told (failConfigured env code c) = told c"
  by (simp add: failConfigured_def Let_def)

lemma told_attempt [simp]: "told (attempt env x c) = told c @ (case x of TellMessage json \<Rightarrow> [json] | _ \<Rightarrow> [])"
  using told_tell [of env x c] by (cases "tell env x c") (auto simp: attempt_def)

lemma told_finish [simp]: "told (finishFailedConnection c) = told c"
  by (simp add: finishFailedConnection_def Let_def)

lemma told_deliver: "told (deliverEvent env p c) = told c @ (if ended (cc_state c) then [] else messageText p)"
  by (cases "cc_state c") (auto simp: deliverEvent_def messageText_def ended_def Let_def split: event_view.split)

lemma alive_onward: "onward c c' \<Longrightarrow> alive c' \<Longrightarrow> alive c"
  by (auto simp: onward_def alive_def ended_rank)

lemma deliverAll_told:
  assumes "\<And>p. p \<in> set ps \<Longrightarrow> fits c p"
  shows "\<exists>new. told (deliverAll env ps c) = told c @ new \<and> prefix new (concat (map messageText ps)) \<and>
    (ended (cc_state c) \<longrightarrow> new = []) \<and> (alive (deliverAll env ps c) \<longrightarrow> new = concat (map messageText ps))"
  using assms
proof (induction ps arbitrary: c)
  case (Cons p ps)
  show ?case
  proof (cases "cc_bridgeFailure c")
    case None
    let ?d = "deliverEvent env p c"
    have d: "keeps c ?d" using None Cons.prems by (intro deliver_keeps) simp_all
    have "\<And>q. q \<in> set ps \<Longrightarrow> fits ?d q" using Cons.prems d by (auto simp: fits_def keeps_def steadily_def)
    from Cons.IH [OF this] obtain new where new: "told (deliverAll env ps ?d) = told ?d @ new" "prefix new (concat (map messageText ps))"
      "ended (cc_state ?d) \<longrightarrow> new = []" "alive (deliverAll env ps ?d) \<longrightarrow> new = concat (map messageText ps)" by blast
    have rest: "onward ?d (deliverAll env ps ?d)"
      using Cons.prems d by (intro keeps_onward deliverAll_keeps) (auto simp: fits_def keeps_def steadily_def)
    show ?thesis
    proof (cases "ended (cc_state c)")
      case True
      then have "ended (cc_state ?d)" using d by (auto simp: keeps_def steadily_def intro: rank_ended)
      then show ?thesis using True new None alive_onward [OF rest] by (intro exI [of _ "[]"]) (auto simp: told_deliver alive_def)
    next
      case False
      then show ?thesis using new None by (intro exI [of _ "messageText p @ new"]) (simp add: told_deliver prefix_def)
    qed
  qed (simp add: alive_def)
qed simp

lemma answered_told:
  assumes "configured_ok c" and "alive c"
  shows "\<exists>new. told (answered env response c) = told c @ new \<and> prefix new (waitingMessages c) \<and>
    (alive (answered env response c) \<longrightarrow> new = waitingMessages c)"
proof (cases "parseConnectResponse response (cc_connectionId c) (cc_serverId c)")
  case None
  then show ?thesis using fail_fails(1) [of env BridgeInvalidResponse c] by (intro exI [of _ "[]"]) (auto simp: answered_def alive_def)
next
  case (Some info)
  show ?thesis
  proof (cases "cc_observedTransport c \<in> {None, Some (transportOf info)}")
    case True
    let ?i = "c\<lparr>cc_info := Some info, cc_pendingEvents := []\<rparr>"
    have "\<And>p. p \<in> set (cc_pendingEvents c) \<Longrightarrow> fits ?i p"
      using assms(1) True by (auto simp: fits_def configured_ok_def fields_ok_def list_all_iff)
    from deliverAll_told [OF this, where env = env] obtain new where
      new: "told (deliverAll env (cc_pendingEvents c) ?i) = told c @ new" "prefix new (waitingMessages c)"
        "alive (deliverAll env (cc_pendingEvents c) ?i) \<longrightarrow> new = waitingMessages c" by (auto simp: waitingMessages_def)
    define d where "d = deliverAll env (cc_pendingEvents c) ?i"
    have eq: "answered env response c = (if cc_bridgeFailure d = None \<and> cc_state d = StateConnecting then d\<lparr>cc_state := StateActive\<rparr> else d)"
      using True by (auto simp: answered_def Some flushPendingEvents_def d_def Let_def)
    have "told (answered env response c) = told d" "alive (answered env response c) \<longrightarrow> alive d"
      unfolding eq by (simp_all add: alive_def ended_def)
    then show ?thesis using new unfolding d_def [symmetric] by (intro exI [of _ new]) simp
  next
    case False
    then show ?thesis using Some fail_fails(1) [of env BridgeInvalidResponse c]
      by (intro exI [of _ "[]"]) (auto simp: answered_def alive_def)
  qed
qed

text \<open>One event: nothing is told by a connection that is not alive; otherwise what waits and what was sent is told in this order.\<close>

lemma receive_told:
  assumes "resting c"
  shows "if alive c
     then \<exists>new. told (receiveEvent env v c) = told c @ new \<and>
         prefix new (waitingMessages c @ sentMessage (cc_connectionId c) (cc_serverId c) (EventReceived v)) \<and>
         (alive (receiveEvent env v c) \<longrightarrow> new @ waitingMessages (receiveEvent env v c) =
            waitingMessages c @ sentMessage (cc_connectionId c) (cc_serverId c) (EventReceived v))
     else told (receiveEvent env v c) = told c"
proof (cases "alive c")
  case False
  then show ?thesis by (auto simp: receiveEvent_def told_deliver alive_def Let_def split: option.split)
next
  case True
  have failing: "\<not> alive (failConfigured env code d)" for code d using fail_fails(1) by (simp add: alive_def)
  have at: "cc_connect c = WaitsForResponse \<and> cc_info c = None \<or> cc_connect c = Returned \<and> cc_info c \<noteq> None \<and> cc_pendingEvents c = []"
    using assms True by (cases "cc_connect c"; cases "cc_info c")
      (auto simp: resting_def at_rest_def configured_ok_def fields_ok_def alive_def ended_def waitingMessages_def)
  show ?thesis
  proof (cases "parseConnectionEvent v (cc_connectionId c) (cc_serverId c)")
    case None
    then show ?thesis using True failing by (auto simp: receiveEvent_def sentMessage_def)
  next
    case (Some p)
    have sent: "sentMessage (cc_connectionId c) (cc_serverId c) (EventReceived v) = messageText p" by (simp add: sentMessage_def Some)
    let ?o = "c\<lparr>cc_observedTransport := Some (parsedTransport p)\<rparr>"
    have "receiveEvent env v c = failConfigured env BridgeInvalidEvent c \<or> receiveEvent env v c = failConfigured env BridgeInvalidEvent ?o \<or>
        receiveEvent env v c = c \<or>
        cc_info c = None \<and> receiveEvent env v c = ?o\<lparr>cc_pendingEvents := cc_pendingEvents c @ [p]\<rparr> \<or>
        cc_info c \<noteq> None \<and> fits ?o p \<and> receiveEvent env v c = deliverEvent env p ?o"
      by (auto simp: receiveEvent_def Some Let_def fits_def split: option.splits)
    moreover have "\<not> (cc_state c = StateClosed \<or> cc_bridgeFailure c \<noteq> None)" using True by (auto simp: alive_def ended_def)
    ultimately consider (fails) d where "receiveEvent env v c = failConfigured env BridgeInvalidEvent d" "told d = told c"
      | (waits) "cc_info c = None" "receiveEvent env v c = ?o\<lparr>cc_pendingEvents := cc_pendingEvents c @ [p]\<rparr>"
      | (delivers) "cc_info c \<noteq> None" "fits ?o p" "receiveEvent env v c = deliverEvent env p ?o"
      by (auto simp: receiveEvent_def Some Let_def fits_def split: option.splits if_splits)
    then show ?thesis
    proof cases
      case fails
      then show ?thesis using True failing by auto
    next
      case waits
      then show ?thesis using True sent by (simp add: waitingMessages_def)
    next
      case delivers
      then have "cc_connect c = Returned" "cc_pendingEvents c = []" using at by auto
      moreover have "cc_pendingEvents (deliverEvent env p ?o) = []"
        using deliver_keeps [OF delivers(2), of env] True calculation at assms by (auto simp: keeps_def steadily_def alive_def resting_def at_rest_def)
      ultimately show ?thesis using True delivers sent by (auto simp: told_deliver alive_def waitingMessages_def)
    qed
  qed
qed

lemma step_told:
  assumes "resting c"
  shows "if alive c
     then \<exists>new. told (configuredStep env e c) = told c @ new \<and>
         prefix new (waitingMessages c @ sentMessage (cc_connectionId c) (cc_serverId c) e) \<and>
         (alive (configuredStep env e c) \<longrightarrow> new @ waitingMessages (configuredStep env e c) =
            waitingMessages c @ sentMessage (cc_connectionId c) (cc_serverId c) e)
     else told (configuredStep env e c) = told c"
proof (cases e)
  case (EventReceived v)
  then show ?thesis using receive_told [OF assms] by simp
next
  case (ConfiguredAnswered response)
  show ?thesis
  proof (cases "cc_connect c = WaitsForResponse")
    case True
    let ?c = "c\<lparr>cc_connectResponseReceived := True\<rparr>"
    have info: "cc_info c = None" using assms True by (cases "cc_info c") (auto simp: resting_def at_rest_def configured_ok_def fields_ok_def)
    have ok: "configured_ok ?c" using assms info by (simp add: resting_def configured_ok_def calls_ok_def fields_ok_def)
    let ?a = "answered env response ?c"
    have run: "told (configuredStep env e c) = told ?a" "alive (configuredStep env e c) \<longrightarrow> alive ?a \<and> waitingMessages (configuredStep env e c) = []"
      using ConfiguredAnswered True answered_ok [OF ok, of env response] info finish_rests(3) [of ?a]
      by (auto simp: configuredAnswered_eq Let_def alive_def waitingMessages_def)
    show ?thesis
    proof (cases "alive c")
      case True
      then have "alive ?c" by (simp add: alive_def)
      from answered_told [OF ok this, of env response] run show ?thesis
        using True ConfiguredAnswered by (auto simp: waitingMessages_def sentMessage_def)
    next
      case False
      then have "cc_bridgeFailure c \<noteq> None" using True assms by (auto simp: alive_def resting_def at_rest_def ended_def)
      moreover from this have "cc_pendingEvents c = []" using assms by (simp add: resting_def configured_ok_def fields_ok_def)
      ultimately have "told ?a = told c" by (auto simp: answered_def flushPendingEvents_def Let_def split: option.split)
      then show ?thesis using False run by simp
    qed
  next
    case False
    then show ?thesis using ConfiguredAnswered by (simp add: configuredAnswered_def sentMessage_def)
  qed
next
  case ConfiguredFails
  then show ?thesis by (auto simp: configuredFails_def sentMessage_def alive_def ended_def)
next
  case (ClientActs call)
  then show ?thesis by (auto simp: sentMessage_def waitingMessages_def)
next
  case ConfiguredDisconnected
  then show ?thesis by (auto simp: configuredDisconnected_def sentMessage_def waitingMessages_def)
next
  case FinishContinues
  then show ?thesis by (auto simp: finishContinues_def sentMessage_def waitingMessages_def)
qed

lemma run_told:
  assumes "resting c" and "prefix (told c) S" and "alive c \<longrightarrow> told c @ waitingMessages c = S"
  shows "prefix (told (configuredRun env es c)) (S @ concat (map (sentMessage (cc_connectionId c) (cc_serverId c)) es)) \<and>
    (alive (configuredRun env es c) \<longrightarrow> told (configuredRun env es c) @ waitingMessages (configuredRun env es c) =
       S @ concat (map (sentMessage (cc_connectionId c) (cc_serverId c)) es))"
  using assms
proof (induction es arbitrary: c S)
  case (Cons e es)
  let ?d = "configuredStep env e c"
  have d: "resting ?d" "onward c ?d" using configured_step [OF Cons.prems(1)] by simp_all
  have ids: "cc_connectionId ?d = cc_connectionId c" "cc_serverId ?d = cc_serverId c" using d(2) by (simp_all add: onward_def)
  let ?S = "S @ sentMessage (cc_connectionId c) (cc_serverId c) e"
  have "prefix (told ?d) ?S \<and> (alive ?d \<longrightarrow> told ?d @ waitingMessages ?d = ?S)"
  proof (cases "alive c")
    case True
    then have S: "S = told c @ waitingMessages c" using Cons.prems(3) by simp
    obtain new where new: "told ?d = told c @ new" "prefix new (waitingMessages c @ sentMessage (cc_connectionId c) (cc_serverId c) e)"
      "alive ?d \<longrightarrow> new @ waitingMessages ?d = waitingMessages c @ sentMessage (cc_connectionId c) (cc_serverId c) e"
      using step_told [OF Cons.prems(1), of env e] True by auto
    then show ?thesis by (auto simp: S prefix_def)
  next
    case False
    then have "told ?d = told c" "\<not> alive ?d" using step_told [OF Cons.prems(1), of env e] alive_onward [OF d(2)] by auto
    then show ?thesis using Cons.prems(2) by auto
  qed
  then show ?case using Cons.IH [OF d(1), of ?S] ids by (simp add: configuredRun_def)
qed (simp add: configuredRun_def)


section \<open>Failures\<close>

lemma failure_settles:
  assumes "resting c" and "cc_bridgeFailure c = Some code" and "cc_connect c \<notin> {WaitsForResponse, Returned}"
  shows "cc_connect (finishContinues (configuredDisconnected c)) = Rejected (Some code) \<and>
    cc_state (finishContinues (configuredDisconnected c)) = StateClosed"
  using assms by (cases "cc_connect c") (auto simp: configuredDisconnected_def finishContinues_def resting_def at_rest_def)

lemma returned_settles:
  assumes "resting c" and "cc_bridgeFailure c = Some code" and "cc_connect c = Returned"
  shows "cc_connect (finishContinues (configuredDisconnected c)) = Returned \<and>
    cc_state (finishContinues (configuredDisconnected c)) = StateClosed"
proof -
  have "cc_connectResponseReceived c" using assms by (cases "cc_info c") (auto simp: resting_def at_rest_def configured_ok_def fields_ok_def)
  then have "ended (cc_state c)" "promiseFits (cc_disconnectPromise c) (cc_state c)"
    using assms by (simp_all add: resting_def at_rest_def configured_ok_def fields_ok_def)
  then show ?thesis using assms(3)
    by (cases "cc_disconnectPromise c") (auto simp: configuredDisconnected_def finishContinues_def ended_def)
qed

lemma late_answer:
  assumes "resting c" and "cc_bridgeFailure c = Some code" and "cc_connect c = WaitsForResponse"
  shows "cc_connect (configuredAnswered env response c) = WaitsForDisconnect \<and>
    CallDisconnect \<in> set (cc_calls (configuredAnswered env response c))"
proof -
  let ?c = "c\<lparr>cc_connectResponseReceived := True\<rparr>"
  have c: "cc_pendingEvents c = []" "cc_state c = StateConnecting" "cc_disconnectPromise c = None"
    using assms by (simp_all add: resting_def at_rest_def configured_ok_def fields_ok_def)
  have "answered env response ?c = ?c \<or> (\<exists>info. answered env response ?c = ?c\<lparr>cc_info := Some info, cc_pendingEvents := []\<rparr>)"
    using assms(2) c by (auto simp: answered_def failConfigured_def flushPendingEvents_def Let_def split: option.splits)
  then show ?thesis using assms c
    by (auto simp: configuredAnswered_eq Let_def finishFailedConnection_def disconnectConfigured_def logCall_def)
qed

end
