(* ===== verification/ConfiguredConnector.thy ===== *)
theory ConfiguredConnector
  imports ConfiguredServerMessages
begin

text \<open>
  The connector of \<open>src/transport/configuredServer.ts\<close>, which starts at most one connection and can be
  cancelled before or while it connects, and the values of the contract with the back end: the locale
  \<open>event_codec\<close> is interpreted on the answer to the connect command and on the envelopes of events.
\<close>

section \<open>Values\<close>

fun route_ok :: "connection_route \<Rightarrow> bool" where
  "route_ok (RouteProxy path proxyId version) \<longleftrightarrow>
     path \<notin> {PathLocalStdio, PathDirect} \<and> UUID_PATTERN proxyId \<and> 0 < version \<and> isSafeInt version"
| "route_ok _ \<longleftrightarrow> True"

definition Info_ok :: "jstr \<Rightarrow> jstr \<Rightarrow> ConfiguredServerConnectionInfo \<Rightarrow> bool" where
  "Info_ok i s info \<longleftrightarrow> ci_connectionId info = i \<and> ci_serverId info = s \<and>
     0 < ci_serverVersion info \<and> isSafeInt (ci_serverVersion info) \<and> route_ok (ci_route info)"

fun route_path :: "connection_route \<Rightarrow> ConfiguredServerConnectionPath" where
  "route_path RouteLocal = PathLocalStdio"
| "route_path RouteDirect = PathDirect"
| "route_path (RouteProxy path _ _) = path"

fun route_props :: "connection_route \<Rightarrow> jsrecord" where
  "route_props (RouteProxy _ proxyId version) = [jprop ''proxyId'' (JStr proxyId), jprop ''proxyVersion'' (JInt version)]"
| "route_props _ = []"

definition Info_value :: "ConfiguredServerConnectionInfo \<Rightarrow> jsval" where
  "Info_value info = JObj ([jprop ''connectionId'' (JStr (ci_connectionId info)), jprop ''serverId'' (JStr (ci_serverId info)),
     jprop ''serverVersion'' (JInt (ci_serverVersion info)), jprop ''transport'' (enumValue TRANSPORT_KINDS (transportOf info)),
     jprop ''connectionPath'' (enumValue CONNECTION_PATHS (route_path (ci_route info)))] @ route_props (ci_route info))"

fun Parsed_ok :: "jstr \<Rightarrow> ParsedConnectionEvent \<Rightarrow> bool" where
  "Parsed_ok i (ParsedLocal e) \<longleftrightarrow> LocalEvent_ok e \<and> fst (localView e) = i"
| "Parsed_ok i (ParsedRemote e) \<longleftrightarrow> RemoteEvent_ok e \<and> fst (remoteView e) = i"

fun Parsed_value :: "jstr \<Rightarrow> ParsedConnectionEvent \<Rightarrow> jsval" where
  "Parsed_value s (ParsedLocal e) = JObj [jprop ''serverId'' (JStr s), jprop ''transport'' (enumValue TRANSPORT_KINDS KindLocalStdio),
     jprop ''event'' (LocalEvent_value e)]"
| "Parsed_value s (ParsedRemote e) = JObj [jprop ''serverId'' (JStr s), jprop ''transport'' (enumValue TRANSPORT_KINDS KindRemoteWebSocket),
     jprop ''event'' (RemoteEvent_value e)]"

lemma kinds_round_trip [simp]:
  "enumOf TRANSPORT_KINDS (enumValue TRANSPORT_KINDS k) = Some k" "enumOf CONNECTION_PATHS (enumValue CONNECTION_PATHS p) = Some p"
  by (cases k; simp add: enumOf_def enumName_def TRANSPORT_KINDS_def) (cases p; simp add: enumOf_def enumName_def CONNECTION_PATHS_def)

lemma version_simps [simp]: "isVersion (JInt i) = (if 0 < i \<and> isSafeInt i then Some i else None)" "isVersion JUndef = None"
  by (simp_all add: isVersion_def del: isSafeInt_bounds)

lemma version_read: "isVersion v = Some i \<Longrightarrow> 0 < i \<and> isSafeInt i"
  by (auto simp: isVersion_def simp del: isSafeInt_bounds dest: safeIntOf_safe split: option.splits if_splits)

lemma uuid_simps [simp]: "uuidOf (JStr s) = (if UUID_PATTERN s then Some s else None)" "uuidOf JUndef = None"
  by (simp_all add: uuidOf_def)

lemma uuid_read: "uuidOf v = Some s \<Longrightarrow> UUID_PATTERN s"
  by (auto simp: uuidOf_def split: jsval.splits if_splits)

interpretation configuredResponses: event_codec "\<lambda>v. parseConnectResponse v i s" Info_value "Info_ok i s" for i s
proof
  fix v info
  assume "parseConnectResponse v i s = Some info"
  then show "Info_ok i s info"
    by (auto simp: parseConnectResponse_def Info_ok_def Let_def simp del: isSafeInt_bounds dest: version_read uuid_read
        split: option.splits if_splits)
next
  fix info
  assume "Info_ok i s info"
  then show "parseConnectResponse (Info_value info) i s = Some info"
    by (cases info; cases "ci_route info")
      (auto simp: parseConnectResponse_def Info_value_def Info_ok_def transportOf_def Let_def simp del: isSafeInt_bounds)
qed

interpretation configuredEvents: event_codec "\<lambda>v. parseConnectionEvent v i s" "Parsed_value s" "Parsed_ok i" for i s
proof
  fix v p
  assume "parseConnectionEvent v i s = Some p"
  then show "Parsed_ok i p"
    by (auto simp: parseConnectionEvent_def dest: localEvents.sound remoteEvents.sound
        split: option.splits if_splits ConfiguredServerTransportKind.splits)
next
  fix p
  assume "Parsed_ok i p"
  then show "parseConnectionEvent (Parsed_value s p) i s = Some p"
    by (cases p) (simp_all add: parseConnectionEvent_def localEvents.complete remoteEvents.complete)
qed

section \<open>The connector\<close>

datatype connector_state = ConnectorIdle | ConnectorConnecting | ConnectorCancelling | ConnectorCancelled | ConnectorSettled

datatype connect_result = ConnectReturns | ConnectThrows "ConfiguredServerBridgeErrorCode option"

text \<open>A call of \<open>connect\<close> is refused at once or settles with the connection; the promise of the
  cancellation is rejected when its command fails.\<close>

datatype connector_effect =
    ConnectRefused ConfiguredServerBridgeErrorCode
  | ConnectSettles connect_result
  | InvokeCancel
  | CancellationSettles "ConfiguredServerBridgeErrorCode option"

record connector =
  kc_request :: "jstr \<times> jstr"
  kc_state :: connector_state
  kc_cancellation :: "bool option"
  kc_connection :: "configured_connection option"
  kc_log :: "connector_effect list"

definition requestValue :: "jstr \<times> jstr \<Rightarrow> jsval" where
  "requestValue request = JObj [jprop ''connectionId'' (JStr (fst request)), jprop ''serverId'' (JStr (snd request))]"

definition createConnector :: "jsval \<Rightarrow> connector option" where
  "createConnector v = map_option (\<lambda>request. \<lparr>kc_request = request, kc_state = ConnectorIdle, kc_cancellation = None,
     kc_connection = None, kc_log = []\<rparr>) (normalizeConnectRequest v)"

definition effect :: "connector_effect \<Rightarrow> connector \<Rightarrow> connector" where
  "effect x k = k\<lparr>kc_log := kc_log k @ [x]\<rparr>"

definition connectorConnect :: "connector \<Rightarrow> connector" where
  "connectorConnect k =
     (if kc_state k = ConnectorCancelled then effect (ConnectRefused BridgeCancelled) k
      else if kc_state k \<noteq> ConnectorIdle then effect (ConnectRefused BridgeInvalidRequest) k
      else (case normalizeConnectRequest (requestValue (kc_request k)) of
          None \<Rightarrow> effect (ConnectRefused BridgeInvalidRequest) (k\<lparr>kc_state := ConnectorSettled\<rparr>)
        | Some (connectionId, serverId) \<Rightarrow>
            k\<lparr>kc_state := ConnectorConnecting, kc_connection := Some (newConfigured connectionId serverId)\<rparr>))"

text \<open>The promise of the connection has settled: \<open>catch\<close> and \<open>finally\<close>.\<close>

definition connectorContinues :: "connector \<Rightarrow> connector" where
  "connectorContinues k =
     (if kc_state k \<noteq> ConnectorConnecting \<and> kc_state k \<noteq> ConnectorCancelling then k
      else (case map_option cc_connect (kc_connection k) of
          Some Returned \<Rightarrow> effect (ConnectSettles ConnectReturns) (k\<lparr>kc_state := ConnectorSettled\<rparr>)
        | Some (Rejected code) \<Rightarrow>
            effect (ConnectSettles (ConnectThrows (if kc_state k = ConnectorCancelling then Some BridgeCancelled else code)))
              (k\<lparr>kc_state := ConnectorSettled\<rparr>)
        | _ \<Rightarrow> k))"

definition cancelPending :: "connector \<Rightarrow> connector" where
  "cancelPending k =
     (if kc_state k = ConnectorIdle then k\<lparr>kc_state := ConnectorCancelled\<rparr>
      else if kc_state k = ConnectorCancelled \<or> kc_state k = ConnectorSettled then k
      else if kc_cancellation k \<noteq> None then k
      else effect InvokeCancel (k\<lparr>kc_state := ConnectorCancelling, kc_cancellation := Some False\<rparr>))"

definition cancellationSettles :: "bool \<Rightarrow> connector \<Rightarrow> connector" where
  "cancellationSettles ok k =
     (if kc_cancellation k \<noteq> Some False then k
      else effect (CancellationSettles (if ok then None else Some BridgeCancellationFailed)) (k\<lparr>kc_cancellation := Some True\<rparr>))"

datatype connector_event =
    CallConnector
  | ConnectorContinues
  | CancelPending
  | CancelAnswered bool
  | OnConnection configured_event

fun connectorStep :: "configured_env \<Rightarrow> connector_event \<Rightarrow> connector \<Rightarrow> connector" where
  "connectorStep env CallConnector k = connectorConnect k"
| "connectorStep env ConnectorContinues k = connectorContinues k"
| "connectorStep env CancelPending k = cancelPending k"
| "connectorStep env (CancelAnswered ok) k = cancellationSettles ok k"
| "connectorStep env (OnConnection e) k = k\<lparr>kc_connection := map_option (configuredStep env e) (kc_connection k)\<rparr>"

definition connectorRun :: "configured_env \<Rightarrow> connector_event list \<Rightarrow> connector \<Rightarrow> connector" where
  "connectorRun env es k = fold (connectorStep env) es k"

section \<open>Its invariant\<close>

lemma request_normalized: "normalizeConnectRequest v = Some r \<Longrightarrow> normalizeConnectRequest (requestValue r) = Some r"
  by (auto simp: normalizeConnectRequest_def requestValue_def dest: uuid_read split: option.splits jsval.splits if_splits)

fun settling :: "connector_effect \<Rightarrow> bool" where
  "settling (ConnectSettles _) = True"
| "settling _ = False"

text \<open>The result of \<open>connect\<close> is that of the connection, or the cancellation.\<close>

definition result_fits :: "bool \<Rightarrow> configured_pc \<Rightarrow> connect_result \<Rightarrow> bool" where
  "result_fits cancelled pc result \<longleftrightarrow>
     (case result of
        ConnectReturns \<Rightarrow> pc = Returned
      | ConnectThrows code \<Rightarrow> (case pc of
            Rejected code' \<Rightarrow> code = (if cancelled then Some BridgeCancelled else code')
          | _ \<Rightarrow> False))"

definition result_ok :: "connector \<Rightarrow> connect_result \<Rightarrow> bool" where
  "result_ok k result \<longleftrightarrow>
     (\<exists>pc. map_option cc_connect (kc_connection k) = Some pc \<and> result_fits (kc_cancellation k \<noteq> None) pc result)"

fun refusal_ok :: "connector \<Rightarrow> connector_effect \<Rightarrow> bool" where
  "refusal_ok k (ConnectSettles result) \<longleftrightarrow> result_ok k result"
| "refusal_ok k (ConnectRefused code) \<longleftrightarrow> code = (if kc_connection k = None then BridgeCancelled else BridgeInvalidRequest)"
| "refusal_ok k _ \<longleftrightarrow> True"

definition connection_ok :: "connector \<Rightarrow> bool" where
  "connection_ok k \<longleftrightarrow> (\<forall>c. kc_connection k = Some c \<longrightarrow>
     resting c \<and> cc_connectionId c = fst (kc_request k) \<and> cc_serverId c = snd (kc_request k))"

definition connector_ok :: "connector \<Rightarrow> bool" where
  "connector_ok k \<longleftrightarrow>
     (kc_connection k = None \<longleftrightarrow> kc_state k \<in> {ConnectorIdle, ConnectorCancelled}) \<and>
     (kc_cancellation k \<noteq> None \<longrightarrow> kc_state k \<in> {ConnectorCancelling, ConnectorSettled}) \<and>
     (kc_state k = ConnectorCancelling \<longrightarrow> kc_cancellation k \<noteq> None) \<and>
     occurrences InvokeCancel (kc_log k) = (if kc_cancellation k = None then 0 else 1) \<and>
     length (filter settling (kc_log k)) = (if kc_state k = ConnectorSettled then 1 else 0) \<and>
     list_all (refusal_ok k) (kc_log k) \<and>
     (kc_state k = ConnectorIdle \<longrightarrow> kc_log k = []) \<and>
     connection_ok k \<and>
     normalizeConnectRequest (requestValue (kc_request k)) = Some (kc_request k)"

lemma created_ok: "createConnector v = Some k \<Longrightarrow> connector_ok k"
  by (auto simp: createConnector_def connector_ok_def connection_ok_def dest: request_normalized)

text \<open>Once \<open>connect\<close> has settled, the connection keeps its result.\<close>

lemma connect_stays: "cc_connect c = Returned \<or> cc_connect c = Rejected code \<Longrightarrow> cc_connect (configuredStep env e c) = cc_connect c"
proof -
  assume at: "cc_connect c = Returned \<or> cc_connect c = Rejected code"
  have "cc_connect (receiveEvent env v c) = cc_connect c" for v
  proof -
    have "cc_connect (failConfigured env code d) = cc_connect d" for code d using fail_keeps [of d env code] by (simp add: keeps_def steadily_def)
    moreover have "cc_connect (attempt env x d) = cc_connect d" for x d
    proof -
      have "cc_connect (clientAct env call d) = cc_connect d" for call d
        using clientAct_keeps [of d env call] by (simp add: keeps_def steadily_def)
      then have "cc_connect (fold (clientAct env) calls d) = cc_connect d" for calls d by (induction calls arbitrary: d) simp_all
      then have "cc_connect (fst (tell env x d)) = cc_connect d" by (simp add: tell_def Let_def logCall_def)
      then show ?thesis using calculation by (cases "tell env x d") (simp add: attempt_def)
    qed
    ultimately show ?thesis by (auto simp: receiveEvent_def deliverEvent_def Let_def split: option.split event_view.split)
  qed
  then show ?thesis
    using at clientAct_keeps [of c env]
    by (cases e) (auto simp: configuredFails_def configuredAnswered_def configuredDisconnected_def finishContinues_def keeps_def steadily_def)
qed

lemma result_stays:
  assumes "result_ok k result"
  shows "result_ok (k\<lparr>kc_connection := map_option (configuredStep env e) (kc_connection k)\<rparr>) result"
proof -
  obtain c where c: "kc_connection k = Some c" "result_fits (kc_cancellation k \<noteq> None) (cc_connect c) result" using assms by (auto simp: result_ok_def)
  then have "cc_connect (configuredStep env e c) = cc_connect c"
    using connect_stays [of c _ env e] by (auto simp: result_fits_def split: connect_result.splits configured_pc.splits)
  with c show ?thesis by (simp add: result_ok_def)
qed

lemma result_frame: "kc_connection k' = kc_connection k \<Longrightarrow> (kc_cancellation k' = None) = (kc_cancellation k = None) \<Longrightarrow> result_ok k' result = result_ok k result"
  unfolding result_ok_def by (simp only:)

lemma refusal_frame: "kc_connection k' = kc_connection k \<Longrightarrow> (kc_cancellation k' = None) = (kc_cancellation k = None) \<Longrightarrow> refusal_ok k' x = refusal_ok k x"
  using result_frame [of k' k] by (cases x) simp_all

lemma unsettled: "connector_ok k \<Longrightarrow> kc_state k \<noteq> ConnectorSettled \<Longrightarrow> x \<in> set (kc_log k) \<Longrightarrow> \<not> settling x"
  by (auto simp: connector_ok_def filter_empty_conv)

lemma refusal_any: "\<not> settling x \<Longrightarrow> (kc_connection k' = None) = (kc_connection k = None) \<Longrightarrow> refusal_ok k' x = refusal_ok k x"
  by (cases x) simp_all

lemma effect_simps [simp]:
  "kc_state (effect x k) = kc_state k" "kc_connection (effect x k) = kc_connection k" "kc_cancellation (effect x k) = kc_cancellation k"
  "kc_request (effect x k) = kc_request k" "kc_log (effect x k) = kc_log k @ [x]"
  by (simp_all add: effect_def)

lemma continues_ok:
  assumes "connector_ok k"
  shows "connector_ok (connectorContinues k)"
proof (cases "kc_state k \<in> {ConnectorConnecting, ConnectorCancelling}")
  case True
  then obtain c where c: "kc_connection k = Some c" using assms by (auto simp: connector_ok_def)
  have finished: "connector_ok (effect (ConnectSettles result) (k\<lparr>kc_state := ConnectorSettled\<rparr>))" if "result_ok k result" for result
  proof -
    have "refusal_ok (effect (ConnectSettles result) (k\<lparr>kc_state := ConnectorSettled\<rparr>)) x = refusal_ok k x" for x by (rule refusal_frame) simp_all
    moreover have "refusal_ok k (ConnectSettles result)" using that by simp
    ultimately show ?thesis using assms True c by (auto simp: connector_ok_def connection_ok_def list_all_iff)
  qed
  have "result_ok k ConnectReturns" if "cc_connect c = Returned" using that c by (simp add: result_ok_def result_fits_def)
  moreover have "result_ok k (ConnectThrows (if kc_state k = ConnectorCancelling then Some BridgeCancelled else code))" if "cc_connect c = Rejected code" for code
    using that c assms True by (auto simp: result_ok_def result_fits_def connector_ok_def)
  ultimately show ?thesis using c True finished assms
    by (auto simp: connectorContinues_def simp del: effect_simps split: configured_pc.split)
qed (use assms in \<open>simp add: connectorContinues_def\<close>)

lemma connector_step_ok:
  assumes "connector_ok k"
  shows "connector_ok (connectorStep env e k)"
proof (cases e)
  case CallConnector
  have refused: "connector_ok (effect (ConnectRefused code) k)"
    if "code = (if kc_connection k = None then BridgeCancelled else BridgeInvalidRequest)" "kc_state k \<noteq> ConnectorIdle" for code
  proof -
    have "refusal_ok (effect (ConnectRefused code) k) x = refusal_ok k x" for x by (rule refusal_frame) simp_all
    moreover have "refusal_ok k (ConnectRefused code)" using that by simp
    ultimately show ?thesis using assms that by (auto simp: connector_ok_def connection_ok_def list_all_iff)
  qed
  have "connector_ok (k\<lparr>kc_state := ConnectorConnecting, kc_connection := Some (newConfigured i s)\<rparr>)" if "kc_state k = ConnectorIdle" "kc_request k = (i, s)" for i s
    using assms that resting_new by (auto simp: connector_ok_def connection_ok_def newConfigured_def)
  then show ?thesis using CallConnector assms refused
    by (cases "kc_state k"; cases "kc_request k") (auto simp: connectorConnect_def connector_ok_def [of k])
next
  case ConnectorContinues
  then show ?thesis using continues_ok [OF assms] by simp
next
  case CancelPending
  have idle: "connector_ok (k\<lparr>kc_state := ConnectorCancelled\<rparr>)" if "kc_state k = ConnectorIdle"
    using assms that by (auto simp: connector_ok_def connection_ok_def)
  have "connector_ok (effect InvokeCancel (k\<lparr>kc_state := ConnectorCancelling, kc_cancellation := Some False\<rparr>))" if "kc_state k = ConnectorConnecting"
  proof -
    have "refusal_ok (effect InvokeCancel (k\<lparr>kc_state := ConnectorCancelling, kc_cancellation := Some False\<rparr>)) x = refusal_ok k x"
      if "x \<in> set (kc_log k)" for x
      using unsettled [OF assms _ that] \<open>kc_state k = ConnectorConnecting\<close> by (intro refusal_any) simp_all
    then show ?thesis using assms that by (auto simp: connector_ok_def connection_ok_def list_all_iff)
  qed
  with idle show ?thesis using CancelPending assms by (cases "kc_state k") (auto simp: cancelPending_def connector_ok_def [of k])
next
  case (CancelAnswered ok)
  have "refusal_ok (effect y (k\<lparr>kc_cancellation := Some True\<rparr>)) x = refusal_ok k x" if "kc_cancellation k = Some False" for x y
    using that by (intro refusal_frame) simp_all
  then show ?thesis using CancelAnswered assms by (auto simp: cancellationSettles_def connector_ok_def connection_ok_def list_all_iff)
next
  case (OnConnection ev)
  let ?k = "k\<lparr>kc_connection := map_option (configuredStep env ev) (kc_connection k)\<rparr>"
  have "refusal_ok ?k x" if "refusal_ok k x" for x using that result_stays [of k _ env ev] by (cases x) auto
  moreover have "connection_ok ?k" using assms configured_step [of _ env ev] by (auto simp: connector_ok_def connection_ok_def onward_def)
  ultimately show ?thesis using OnConnection assms by (auto simp: connector_ok_def list_all_iff)
qed

lemma connector_run_ok: "connector_ok k \<Longrightarrow> connector_ok (connectorRun env es k)"
proof (induction es arbitrary: k)
  case (Cons e es)
  then show ?case using connector_step_ok [of k env e] by (simp add: connectorRun_def)
qed (simp add: connectorRun_def)

text \<open>A connector that was cancelled before its first use stays so.\<close>

lemma cancelled_step:
  assumes "kc_state k = ConnectorCancelled" and "kc_connection k = None" and "kc_cancellation k = None"
  shows "kc_state (connectorStep env e k) = ConnectorCancelled" and "kc_connection (connectorStep env e k) = None"
    and "kc_cancellation (connectorStep env e k) = None"
  using assms by (cases e; simp add: connectorConnect_def connectorContinues_def cancelPending_def cancellationSettles_def)+

lemma cancelled_run:
  "kc_state k = ConnectorCancelled \<Longrightarrow> kc_connection k = None \<Longrightarrow> kc_cancellation k = None \<Longrightarrow>
     kc_connection (connectorRun env es k) = None"
proof (induction es arbitrary: k)
  case (Cons e es)
  then show ?case using Cons.IH [OF cancelled_step, of k env e] by (simp add: connectorRun_def)
qed (simp add: connectorRun_def)

end
