(* ===== verification/ConfiguredProperties.thy ===== *)
theory ConfiguredProperties
  imports ConfiguredConnector
begin

text \<open>
  The properties of the connection to a configured server and of its connector.
\<close>

text \<open>C15. The messages that the client receives are those the back end sent to this connection, in their order and without a gap;
  while the connection lives, those it has not received are the ones that wait for the answer to the connect command, of
  which there are at most 64, and none once it has been returned.\<close>

theorem configured_messages_in_order:
  fixes env es i s
  defines "c \<equiv> configuredRun env es (newConfigured i s)" and "sent \<equiv> concat (map (sentMessage i s) es)"
  shows "prefix (told c) sent \<and> (if alive c then sent = told c @ waitingMessages c else True) \<and>
    length (cc_pendingEvents c) \<le> 64 \<and> (if cc_connect c = Returned then sent = told c \<or> ended (cc_state c) else True)"
proof -
  have rest: "resting c" unfolding c_def by (rule configured_reachable)
  have "prefix (told c) sent \<and> (alive c \<longrightarrow> told c @ waitingMessages c = sent)"
    using run_told [OF resting_new, of i s "[]" env es] by (simp add: c_def sent_def newConfigured_def told_def waitingMessages_def)
  moreover have "cc_bridgeFailure c = None \<or> ended (cc_state c)" "waitingMessages c = []" if "cc_connect c = Returned"
    using rest that by (cases "cc_info c"; auto simp: resting_def at_rest_def configured_ok_def fields_ok_def waitingMessages_def)+
  ultimately show ?thesis using rest by (auto simp: resting_def configured_ok_def fields_ok_def alive_def)
qed

text \<open>C16. What the client is told is consistent, whatever the back end sends: it is told of one failure at most and of nothing
  after it, of no message and no progress after the end, and only of events that suit the transport which the back end
  named in its answer; the commands to connect and to disconnect are sent once and at most once.\<close>

theorem configured_client_told_consistently:
  fixes env es i s
  defines "c \<equiv> configuredRun env es (newConfigured i s)"
  shows "sorted_wrt mayFollow (cc_calls c) \<and> list_all (suits (cc_info c)) (cc_calls c) \<and>
    occurrences TellFailure (cc_calls c) = (if cc_bridgeFailure c = None then 0 else 1) \<and>
    occurrences CallConnect (cc_calls c) = 1 \<and> occurrences CallDisconnect (cc_calls c) \<le> 1 \<and>
    (case cc_info c of None \<Rightarrow> True | Some info \<Rightarrow> ci_connectionId info = i \<and> ci_serverId info = s)"
proof -
  have rest: "resting c" and on: "onward (newConfigured i s) c"
    using configured_run [OF resting_new, of env es i s] by (simp_all add: c_def)
  have "cc_connectionId c = i" "cc_serverId c = s" using on by (simp_all add: onward_def newConfigured_def)
  then show ?thesis using rest by (cases "cc_info c") (auto simp: resting_def configured_ok_def calls_ok_def fields_ok_def)
qed

text \<open>C17. A failed connection is released: its client has been told, and whatever the back end answers to the connect command
  and to the command to disconnect, the connection is closed; a client that waits for it gets the failure and no connection,
  and a connection that the back end has meanwhile opened is disconnected.\<close>

theorem failed_configured_connection_closed:
  fixes env es i s response
  defines "c \<equiv> configuredRun env es (newConfigured i s)"
    and "d \<equiv> configuredRun env (es @ [ConfiguredAnswered response, ConfiguredDisconnected, FinishContinues]) (newConfigured i s)"
  assumes "cc_bridgeFailure c = Some code"
  shows "cc_state d = StateClosed \<and> TellFailure \<in> set (cc_calls d) \<and>
    cc_connect d = (if cc_connect c = Returned then Returned else Rejected (Some code)) \<and>
    (if cc_connect c = WaitsForResponse then CallDisconnect \<in> set (cc_calls d) else True)"
proof -
  let ?a = "configuredAnswered env response c"
  have d: "d = finishContinues (configuredDisconnected ?a)" by (simp add: c_def d_def configuredRun_append) (simp add: configuredRun_def)
  have rest: "resting c" unfolding c_def by (rule configured_reachable)
  have a: "resting ?a" "onward c ?a" using answered_rests [OF rest] by simp_all
  then have failure: "cc_bridgeFailure ?a = Some code" using assms(3) by (auto simp: onward_def)
  have calls: "cc_calls d = cc_calls ?a" by (simp add: d finishContinues_def configuredDisconnected_def)
  have told: "TellFailure \<in> set (cc_calls ?a)" using a(1) failure occurrences_0 [of TellFailure "cc_calls ?a"]
    by (auto simp: resting_def configured_ok_def calls_ok_def)
  show ?thesis
  proof (cases "cc_connect c = WaitsForResponse")
    case True
    then show ?thesis using late_answer [OF rest assms(3) True, of env response] failure_settles [OF a(1) failure] calls told by (simp add: d)
  next
    case False
    then have "?a = c" by (simp add: configuredAnswered_def)
    then show ?thesis using False failure_settles [OF rest assms(3)] returned_settles [OF rest assms(3)] calls told by (auto simp: d)
  qed
qed

lemma failed_configured_connection_closed_witness:
  "cc_state (configuredRun \<lparr>ev_stringify = (\<lambda>_. None), ev_client = (\<lambda>_. \<lparr>rx_calls = [], rx_throws = False\<rparr>)\<rparr>
     ([EventReceived JNull] @ [ConfiguredAnswered JNull, ConfiguredDisconnected, FinishContinues]) (newConfigured (lit ''c'') (lit ''s''))) = StateClosed"
proof -
  have "cc_bridgeFailure (configuredRun \<lparr>ev_stringify = (\<lambda>_. None), ev_client = (\<lambda>_. \<lparr>rx_calls = [], rx_throws = False\<rparr>)\<rparr>
      [EventReceived JNull] (newConfigured (lit ''c'') (lit ''s''))) = Some BridgeInvalidEvent"
    by (simp add: configuredRun_def receiveEvent_def newConfigured_def parseConnectionEvent_def asRecord_def failConfigured_def tell_def Let_def logCall_def)
  from failed_configured_connection_closed [OF this, of JNull] show ?thesis by simp
qed

text \<open>C18. A connector opens at most one connection, with the identifiers of its request, and settles once: with the connection, with
  the failure of the connection, or as cancelled when a cancellation had been asked for. At most one command to cancel is sent,
  and a call of connect that is refused was cancelled before it or is not the first.\<close>

theorem connector_settles_once:
  fixes env es k
  defines "k' \<equiv> connectorRun env es k"
  assumes "createConnector v = Some k"
  shows "occurrences InvokeCancel (kc_log k') \<le> 1 \<and> length (filter settling (kc_log k')) \<le> 1 \<and> list_all (refusal_ok k') (kc_log k') \<and>
    (case kc_connection k' of None \<Rightarrow> True | Some c \<Rightarrow> cc_connectionId c = fst (kc_request k') \<and> cc_serverId c = snd (kc_request k') \<and>
       occurrences CallConnect (cc_calls c) = 1) \<and>
    (if kc_state k' = ConnectorCancelled then kc_connection (connectorRun env es' k') = None else True)"
proof -
  have ok: "connector_ok k'" unfolding k'_def by (rule connector_run_ok [OF created_ok [OF assms(2)]])
  show ?thesis using ok cancelled_run [of k' env es']
    by (cases "kc_connection k'") (auto simp: connector_ok_def connection_ok_def resting_def configured_ok_def calls_ok_def)
qed

definition demo_request :: jsval where
  "demo_request = requestValue (lit ''connection-1'', lit ''00000000-0000-4000-8000-000000000000'')"

lemma connector_settles_once_witness:
  "\<exists>k. createConnector demo_request = Some k \<and>
     length (filter settling (kc_log (connectorRun \<lparr>ev_stringify = (\<lambda>_. None), ev_client = (\<lambda>_. \<lparr>rx_calls = [], rx_throws = False\<rparr>)\<rparr>
       [CallConnector, CancelPending, CallConnector] k))) \<le> 1"
proof -
  have "normalizeConnectRequest demo_request \<noteq> None" unfolding demo_request_def by code_simp
  then obtain k where k: "createConnector demo_request = Some k" by (auto simp: createConnector_def)
  with connector_settles_once [OF k, of "\<lparr>ev_stringify = (\<lambda>_. None), ev_client = (\<lambda>_. \<lparr>rx_calls = [], rx_throws = False\<rparr>)\<rparr>"
      "[CallConnector, CancelPending, CallConnector]"] show ?thesis by auto
qed

text \<open>The answers to the connect command and the envelopes of events are accepted exactly when they are values of their
  interfaces for this connection and this server: what is accepted is such a value, and every such value is read back.\<close>

theorem configured_values_exact:
  "Info_ok i s info = (parseConnectResponse (Info_value info) i s = Some info) \<and>
   Parsed_ok i p = (parseConnectionEvent (Parsed_value s p) i s = Some p) \<and>
   (case parseConnectResponse v i s of None \<Rightarrow> True | Some info' \<Rightarrow> Info_ok i s info') \<and>
   (case parseConnectionEvent v i s of None \<Rightarrow> True | Some p' \<Rightarrow> Parsed_ok i p')"
proof (intro conjI)
  show "Info_ok i s info = (parseConnectResponse (Info_value info) i s = Some info)"
    using configuredResponses.complete configuredResponses.sound by blast
  show "Parsed_ok i p = (parseConnectionEvent (Parsed_value s p) i s = Some p)"
    using configuredEvents.complete configuredEvents.sound by blast
  show "case parseConnectResponse v i s of None \<Rightarrow> True | Some info' \<Rightarrow> Info_ok i s info'"
    using configuredResponses.sound by (cases "parseConnectResponse v i s") auto
  show "case parseConnectionEvent v i s of None \<Rightarrow> True | Some p' \<Rightarrow> Parsed_ok i p'"
    using configuredEvents.sound by (cases "parseConnectionEvent v i s") auto
qed

text \<open>Two ends that wait for the answer are both told: \<open>flushPendingEvents\<close> does not look at the state, as \<open>handleEvent\<close> does.\<close>

lemma pending_end_told_twice:
  fixes i s
  defines "gone \<equiv> Parsed_value s (ParsedRemote (RemoteStatus i \<lparr>re_status = RemoteDisconnected, re_reason = Some RemoteRequested, re_closeCode = None, re_forced = False\<rparr>))"
    and "info \<equiv> Info_value \<lparr>ci_connectionId = i, ci_serverId = s, ci_serverVersion = 1, ci_route = RouteDirect\<rparr>"
    and "env \<equiv> \<lparr>ev_stringify = (\<lambda>_. None), ev_client = (\<lambda>_. \<lparr>rx_calls = [], rx_throws = False\<rparr>)\<rparr>"
  shows "cc_calls (configuredRun env [EventReceived gone, EventReceived gone, ConfiguredAnswered info] (newConfigured i s)) =
    [CallConnect, TellClosed None, TellClosed None]"
proof -
  have "parseConnectionEvent gone i s = Some (ParsedRemote (RemoteStatus i \<lparr>re_status = RemoteDisconnected, re_reason = Some RemoteRequested, re_closeCode = None, re_forced = False\<rparr>))"
    unfolding gone_def by (rule configuredEvents.complete) (simp add: remoteStatusOk_def remoteStatusForReason_def)
  moreover have "parseConnectResponse info i s = Some \<lparr>ci_connectionId = i, ci_serverId = s, ci_serverVersion = 1, ci_route = RouteDirect\<rparr>"
    unfolding info_def by (rule configuredResponses.complete) (simp add: Info_ok_def)
  ultimately show ?thesis
    by (simp add: configuredRun_def receiveEvent_def newConfigured_def Let_def configuredAnswered_def transportOf_def flushPendingEvents_def
        deliverEvent_def attempt_def tell_def logCall_def env_def)
qed

end
