(* ===== verification/EventSync.thy ===== *)
theory EventSync
  imports EventProgress
begin

text \<open>
  The synchronisation of \<open>src/appServer/serverEventSync.ts\<close>: a notification that says only that something
  has changed starts a query, whose answer is taken for the version that the query was started with. Each
  query is a coroutine that waits at one request, so the state keeps what it has read; an event runs one
  segment. The callback of \<open>finally\<close> that forgets a query runs before the next message is read, and is
  part of the segment. A request that cannot be sent fails like one that is rejected.
\<close>

definition zh_queueNotSynchronised :: jstr where
  "zh_queueNotSynchronised = [0x65E0, 0x6CD5, 0x540C, 0x6B65, 0x5F85, 0x53D1, 0x9001, 0x961F, 0x5217]"

definition zh_goalNotSynchronised :: jstr where
  "zh_goalNotSynchronised = [0x65E0, 0x6CD5, 0x540C, 0x6B65, 0x4F1A, 0x8BDD, 0x76EE, 0x6807]"

definition zh_projectsNotSynchronised :: jstr where
  "zh_projectsNotSynchronised = [0x65E0, 0x6CD5, 0x540C, 0x6B65, 0x670D, 0x52A1, 0x5668, 0x9879, 0x76EE, 0x5217, 0x8868]"

section \<open>State\<close>

text \<open>A list that is read page by page: the version it is read for, the entries and the cursors so far.\<close>

record reading =
  rd_version :: nat
  rd_data :: "jsval list"
  rd_cursors :: "jstr list"

datatype sync_request = ListQueue jstr "jstr option" | GetGoal jstr | ListProjects "jstr option"

record sync =
  sy_store :: ServerEventStore
  sy_disposed :: bool
  sy_queues :: "(jstr \<times> reading) list"
  sy_goals :: "(jstr \<times> nat) list"
  sy_projects :: "reading option"
  sy_requests :: "sync_request list"

definition newSync :: "ServerEventStore \<Rightarrow> sync" where
  "newSync st = \<lparr>sy_store = st, sy_disposed = False, sy_queues = [], sy_goals = [], sy_projects = None, sy_requests = []\<rparr>"

definition canSyncThread :: "jstr \<Rightarrow> sync \<Rightarrow> bool" where
  "canSyncThread threadId sy \<longleftrightarrow> \<not> sy_disposed sy \<and> canHydrateThread threadId (sy_store sy)"

definition sendSyncRequest :: "sync_request \<Rightarrow> sync \<Rightarrow> sync" where
  "sendSyncRequest r sy = sy\<lparr>sy_requests := sy_requests sy @ [r]\<rparr>"

section \<open>Pages\<close>

text \<open>A validated response: the entries and \<open>nextCursor ?? null\<close>.\<close>

type_synonym page = "jsval list \<times> jstr option"

datatype page_outcome = NextPage jstr reading | LastPage "jsval list" | RepeatedCursor

definition addPage :: "page \<Rightarrow> reading \<Rightarrow> page_outcome" where
  "addPage p rd =
     (let entries = rd_data rd @ take (LIMIT_ENTITIES + 1 - length (rd_data rd)) (fst p) in
      case snd p of
        None \<Rightarrow> LastPage entries
      | Some cursor \<Rightarrow>
          if cursor \<in> set (rd_cursors rd) then RepeatedCursor
          else if length entries \<le> LIMIT_ENTITIES
          then NextPage cursor (rd\<lparr>rd_data := entries, rd_cursors := cursor # rd_cursors rd\<rparr>)
          else LastPage entries)"

section \<open>Queues\<close>

definition endQueue :: "jstr \<Rightarrow> sync \<Rightarrow> sync" where
  "endQueue threadId sy = sy\<lparr>sy_queues := filter (\<lambda>e. fst e \<noteq> threadId) (sy_queues sy)\<rparr>"

definition setQueue :: "jstr \<Rightarrow> reading \<Rightarrow> sync \<Rightarrow> sync" where
  "setQueue threadId rd sy = (endQueue threadId sy)\<lparr>sy_queues := sy_queues (endQueue threadId sy) @ [(threadId, rd)]\<rparr>"

text \<open>The head of the loop of \<open>readQueue\<close>.\<close>

definition beginQueue :: "jstr \<Rightarrow> sync \<Rightarrow> sync" where
  "beginQueue threadId sy =
     (if canSyncThread threadId sy
      then sendSyncRequest (ListQueue threadId None)
        (setQueue threadId \<lparr>rd_version = queueVersion threadId (sy_store sy), rd_data = [], rd_cursors = []\<rparr> sy)
      else endQueue threadId sy)"

definition refreshQueue :: "jstr \<Rightarrow> sync \<Rightarrow> sync" where
  "refreshQueue threadId sy = (if map_of (sy_queues sy) threadId \<noteq> None then sy else beginQueue threadId sy)"

text \<open>The \<open>catch\<close> of \<open>readQueue\<close>.\<close>

definition queueFails :: "jstr \<Rightarrow> reading \<Rightarrow> sync \<Rightarrow> sync" where
  "queueFails threadId rd sy =
     (if \<not> canSyncThread threadId sy then endQueue threadId sy
      else if rd_version rd \<noteq> queueVersion threadId (sy_store sy) then beginQueue threadId sy
      else endQueue threadId (sy\<lparr>sy_store := failQueue threadId (rd_version rd) zh_queueNotSynchronised (sy_store sy)\<rparr>))"

definition queueAnswered :: "platform \<Rightarrow> jstr \<Rightarrow> page option \<Rightarrow> sync \<Rightarrow> sync" where
  "queueAnswered pf threadId answer sy =
     (case map_of (sy_queues sy) threadId of
        None \<Rightarrow> sy
      | Some rd \<Rightarrow>
          (case answer of
             None \<Rightarrow> queueFails threadId rd sy
           | Some p \<Rightarrow>
               if \<not> canSyncThread threadId sy then endQueue threadId sy
               else (case addPage p rd of
                   RepeatedCursor \<Rightarrow> queueFails threadId rd sy
                 | NextPage cursor rd' \<Rightarrow> sendSyncRequest (ListQueue threadId (Some cursor)) (setQueue threadId rd' sy)
                 | LastPage entries \<Rightarrow>
                     if rd_version rd \<noteq> queueVersion threadId (sy_store sy) then beginQueue threadId sy
                     else endQueue threadId
                       (sy\<lparr>sy_store := snd (hydrateQueue pf threadId (rd_version rd) entries (sy_store sy))\<rparr>))))"

section \<open>Goals\<close>

definition endGoal :: "jstr \<Rightarrow> sync \<Rightarrow> sync" where
  "endGoal threadId sy = sy\<lparr>sy_goals := filter (\<lambda>e. fst e \<noteq> threadId) (sy_goals sy)\<rparr>"

definition beginGoal :: "jstr \<Rightarrow> sync \<Rightarrow> sync" where
  "beginGoal threadId sy =
     (if canSyncThread threadId sy
      then sendSyncRequest (GetGoal threadId) ((endGoal threadId sy)\<lparr>sy_goals :=
        sy_goals (endGoal threadId sy) @ [(threadId, goalVersion threadId (sy_store sy))]\<rparr>)
      else endGoal threadId sy)"

definition refreshGoal :: "jstr \<Rightarrow> sync \<Rightarrow> sync" where
  "refreshGoal threadId sy =
     (if \<not> canSyncThread threadId sy then sy
      else if map_of (sy_goals sy) threadId \<noteq> None then sy else beginGoal threadId sy)"

text \<open>A later notification may have brought the goal itself; then it is not stale.\<close>

definition goalAnswered :: "platform \<Rightarrow> jstr \<Rightarrow> jsval option \<Rightarrow> sync \<Rightarrow> sync" where
  "goalAnswered pf threadId answer sy =
     (case map_of (sy_goals sy) threadId of
        None \<Rightarrow> sy
      | Some version \<Rightarrow>
          if \<not> canSyncThread threadId sy then endGoal threadId sy
          else if version \<noteq> goalVersion threadId (sy_store sy) then
            if map_option gs_stale (map_of (ev_goalsByThread (st_snapshot (sy_store sy))) threadId) = Some False
            then endGoal threadId sy else beginGoal threadId sy
          else endGoal threadId (sy\<lparr>sy_store :=
            (case answer of
               None \<Rightarrow> failGoal pf threadId version zh_goalNotSynchronised (sy_store sy)
             | Some goal \<Rightarrow> snd (hydrateGoal threadId version (if goal = JUndef then JNull else goal) (sy_store sy)))\<rparr>))"

section \<open>Projects\<close>

definition connectedNow :: "sync \<Rightarrow> bool" where
  "connectedNow sy \<longleftrightarrow> ev_connected (st_snapshot (sy_store sy))"

definition projectsVersion :: "sync \<Rightarrow> nat" where
  "projectsVersion sy = ev_projectVersion (st_snapshot (sy_store sy))"

definition endProjects :: "sync \<Rightarrow> sync" where
  "endProjects sy = sy\<lparr>sy_projects := None\<rparr>"

definition beginProjects :: "sync \<Rightarrow> sync" where
  "beginProjects sy =
     (if \<not> sy_disposed sy \<and> connectedNow sy
      then sendSyncRequest (ListProjects None)
        (sy\<lparr>sy_projects := Some \<lparr>rd_version = projectsVersion sy, rd_data = [], rd_cursors = []\<rparr>\<rparr>)
      else endProjects sy)"

definition refreshProjects :: "sync \<Rightarrow> sync" where
  "refreshProjects sy = (if sy_projects sy \<noteq> None then sy else beginProjects sy)"

definition projectsFail :: "reading \<Rightarrow> sync \<Rightarrow> sync" where
  "projectsFail rd sy =
     (if sy_disposed sy then endProjects sy
      else if rd_version rd \<noteq> projectsVersion sy then beginProjects sy
      else endProjects (sy\<lparr>sy_store := failProjects (rd_version rd) zh_projectsNotSynchronised (sy_store sy)\<rparr>))"

definition projectsAnswered :: "page option \<Rightarrow> sync \<Rightarrow> sync" where
  "projectsAnswered answer sy =
     (case sy_projects sy of
        None \<Rightarrow> sy
      | Some rd \<Rightarrow>
          (case answer of
             None \<Rightarrow> projectsFail rd sy
           | Some p \<Rightarrow>
               if sy_disposed sy \<or> \<not> connectedNow sy then endProjects sy
               else (case addPage p rd of
                   RepeatedCursor \<Rightarrow> projectsFail rd sy
                 | NextPage cursor rd' \<Rightarrow> sendSyncRequest (ListProjects (Some cursor)) (sy\<lparr>sy_projects := Some rd'\<rparr>)
                 | LastPage entries \<Rightarrow>
                     if rd_version rd \<noteq> projectsVersion sy then beginProjects sy
                     else endProjects (sy\<lparr>sy_store := snd (hydrateProjects (rd_version rd) entries (sy_store sy))\<rparr>))))"

section \<open>Events\<close>

text \<open>The session updates the store before it tells its subscribers; \<open>dispose\<close> unsubscribes.\<close>

definition notified :: "platform \<Rightarrow> ServerNotification \<Rightarrow> sync \<Rightarrow> sync" where
  "notified pf n sy =
     (let sy1 = sy\<lparr>sy_store := happen pf (Consume n) (sy_store sy)\<rparr> in
      if sy_disposed sy1 then sy1
      else if nt_method n = ''thread/queue/changed'' then refreshQueue (str (params n) ''threadId'') sy1
      else if nt_method n = ''project/changed'' then refreshProjects sy1
      else sy1)"

definition restoreThread :: "jstr \<Rightarrow> sync \<Rightarrow> sync" where
  "restoreThread threadId sy = refreshGoal threadId (refreshQueue threadId sy)"

definition dispose :: "sync \<Rightarrow> sync" where
  "dispose sy = sy\<lparr>sy_disposed := True\<rparr>"

datatype sync_event =
    Notified ServerNotification
  | QueueAnswered jstr "page option"
  | GoalAnswered jstr "jsval option"
  | ProjectsAnswered "page option"
  | RestoreThread jstr
  | RefreshQueue jstr
  | RefreshProjects
  | Dispose
  | StoreHappens store_event

fun syncStep :: "platform \<Rightarrow> sync_event \<Rightarrow> sync \<Rightarrow> sync" where
  "syncStep pf (Notified n) sy = notified pf n sy"
| "syncStep pf (QueueAnswered threadId answer) sy = queueAnswered pf threadId answer sy"
| "syncStep pf (GoalAnswered threadId answer) sy = goalAnswered pf threadId answer sy"
| "syncStep pf (ProjectsAnswered answer) sy = projectsAnswered answer sy"
| "syncStep pf (RestoreThread threadId) sy = restoreThread threadId sy"
| "syncStep pf (RefreshQueue threadId) sy = refreshQueue threadId sy"
| "syncStep pf RefreshProjects sy = refreshProjects sy"
| "syncStep pf Dispose sy = dispose sy"
| "syncStep pf (StoreHappens ev) sy = sy\<lparr>sy_store := happen pf ev (sy_store sy)\<rparr>"

definition syncRun :: "platform \<Rightarrow> sync_event list \<Rightarrow> sync \<Rightarrow> sync" where
  "syncRun pf es sy = fold (syncStep pf) es sy"

end
