(* ===== verification/EventSyncLaws.thy ===== *)
theory EventSyncLaws
  imports EventSync
begin

text \<open>
  What the synchronisation keeps: a queue or a list of projects that the interface shows as being refreshed
  is being refreshed (\<open>refreshing\<close>), what a query holds is bounded (\<open>readings_ok\<close>), and a query that
  is answered page by page stores the whole list.
\<close>

section \<open>What is shown as being refreshed\<close>

definition pendingQueue :: "jstr \<Rightarrow> ServerEventStore \<Rightarrow> bool" where
  "pendingQueue threadId st \<longleftrightarrow>
     map_option sq_status (map_of (ev_queuesByThread (st_snapshot st)) threadId) = Some RefreshPending"

definition pendingProjects :: "ServerEventStore \<Rightarrow> bool" where
  "pendingProjects st \<longleftrightarrow> pj_status (ev_projectsSnapshot (st_snapshot st)) = RefreshPending"

text \<open>Only the notification about a queue, or about projects, starts to show a refresh.\<close>

definition marksQueue :: "string \<Rightarrow> ServerNotification \<Rightarrow> jstr \<Rightarrow> bool" where
  "marksQueue method n threadId \<longleftrightarrow> method = ''thread/queue/changed'' \<and> threadId = str (params n) ''threadId''"

definition pendingFrom :: "(jstr \<Rightarrow> bool) \<Rightarrow> bool \<Rightarrow> ServerEventStore \<Rightarrow> ServerEventStore \<Rightarrow> bool" where
  "pendingFrom Q P st st' \<longleftrightarrow>
     (\<forall>t. pendingQueue t st' \<longrightarrow> pendingQueue t st \<or> Q t) \<and> (pendingProjects st' \<longrightarrow> pendingProjects st \<or> P)"

lemma pending_mark: "mark st' = mark st \<Longrightarrow> pendingFrom Q P st st'"
  by (simp add: mark_def versionsOf_def pendingFrom_def pendingQueue_def pendingProjects_def)

lemma pending_same:
  "ev_queuesByThread (st_snapshot st') = ev_queuesByThread (st_snapshot st) \<Longrightarrow>
   ev_projectsSnapshot (st_snapshot st') = ev_projectsSnapshot (st_snapshot st) \<Longrightarrow> pendingFrom Q P st st'"
  by (simp add: pendingFrom_def pendingQueue_def pendingProjects_def)

lemma store_distinct: "store_ok st \<Longrightarrow> distinct (keys (ev_queuesByThread (st_snapshot st)))"
  by (auto simp: store_ok_def snapshot_ok_def dest: entries_ok_distinct)

lemma lookup_put_cases: "distinct (keys m) \<Longrightarrow> map_of (put m k v) t = Some q \<Longrightarrow> t = k \<and> q = v \<or> map_of m t = Some q"
  using lookup_put [of m k v] lookup_put_other [of m t k v] by (cases "t = k") auto

lemma lookup_omit_cases: "distinct (keys m) \<Longrightarrow> map_of (omit m k) t = Some q \<Longrightarrow> map_of m t = Some q"
  by (simp add: omit_simps(4) split: if_splits)

lemma pendingFromI:
  assumes "\<And>t q. map_of (ev_queuesByThread (st_snapshot st')) t = Some q \<Longrightarrow> sq_status q = RefreshPending \<Longrightarrow>
      Q t \<or> map_of (ev_queuesByThread (st_snapshot st)) t = Some q"
    and "pj_status (ev_projectsSnapshot (st_snapshot st')) = RefreshPending \<Longrightarrow> pj_status (ev_projectsSnapshot (st_snapshot st)) = RefreshPending \<or> P"
  shows "pendingFrom Q P st st'"
  using assms by (fastforce simp: pendingFrom_def pendingQueue_def pendingProjects_def)

lemma pending_publish: "pendingFrom Q P st (publish st') = pendingFrom Q P st st'"
  by (simp add: pendingFrom_def pendingQueue_def pendingProjects_def)

lemma pending_handlers:
  assumes "store_ok st"
  shows "pendingFrom (marksQueue ''thread/queue/changed'' n) P st (onQueueChanged pf n st)"
    "pendingFrom Q P st (onGoalUpdated pf n st)" "pendingFrom Q P st (onGoalCleared pf n st)"
    "pendingFrom Q True st (onProjectChanged pf n st)" "pendingFrom Q P st (onThreadRemoved pf n st)"
proof -
  note d = store_distinct [OF assms]
  show "pendingFrom (marksQueue ''thread/queue/changed'' n) P st (onQueueChanged pf n st)"
    by (rule pendingFromI) (auto simp: onQueueChanged_def marksQueue_def Let_def dest: lookup_put_cases [OF d])
  show "pendingFrom Q P st (onGoalUpdated pf n st)" "pendingFrom Q P st (onGoalCleared pf n st)"
    by (rule pending_same; simp add: onGoalUpdated_def onGoalCleared_def setGoal_def Let_def)+
  show "pendingFrom Q True st (onProjectChanged pf n st)"
    by (rule pendingFromI) (simp_all add: onProjectChanged_def Let_def)
  show "pendingFrom Q P st (onThreadRemoved pf n st)"
    by (rule pendingFromI) (auto simp: onThreadRemoved_def clearThread_def Let_def dest: lookup_omit_cases [OF d] split: if_splits)
qed

lemma pending_table:
  assumes "store_ok st"
  shows "list_all (\<lambda>e. pendingFrom (marksQueue (fst e) n) (fst e = ''project/changed'') st (afterwards (snd e pf n st))) handlers"
proof -
  let ?P = "\<lambda>e. pendingFrom (marksQueue (fst e) n) (fst e = ''project/changed'') st (afterwards (snd e pf n st))"
  have "list_all ?P threadHandlers" "list_all ?P streamHandlers"
    by (simp_all add: threadHandlers_def streamHandlers_def mark_handlers [THEN pending_mark] pending_handlers [OF assms])
  moreover have "list_all ?P (map (\<lambda>m. (m, total (\<lambda>pf n st. st))) ms)" for ms
    by (simp add: list_all_iff pending_mark)
  ultimately show ?thesis by (simp add: handlers_def)
qed

lemma pending_consume:
  assumes "store_ok st"
  shows "pendingFrom (marksQueue (nt_method n) n) (nt_method n = ''project/changed'') st (happen pf (Consume n) st)"
proof (cases "map_of handlers (nt_method n)")
  case None
  then show ?thesis by (simp add: happen_def consume_def afterwards_def pending_mark)
next
  case (Some h)
  then have "pendingFrom (marksQueue (nt_method n) n) (nt_method n = ''project/changed'') st (afterwards (h pf n st))"
    using pending_table [OF assms, of n pf] map_of_SomeD [OF Some] by (fastforce simp: list_all_iff)
  then show ?thesis using Some
    by (auto simp: happen_def consume_def publish_def afterwards_def pendingFrom_def pendingQueue_def pendingProjects_def split: result.split)
qed

text \<open>The other events of a store show no refresh that was not shown.\<close>

lemma pending_happen:
  assumes "store_ok st" and "ev \<noteq> Cleared" and "\<And>n. ev \<noteq> Consume n"
  shows "pendingFrom Q P st (happen pf ev st)"
proof -
  note d = store_distinct [OF assms(1)]
  have queue: "pendingFrom Q P st (snd (hydrateQueue pf t version entries st))" "pendingFrom Q P st (failQueue t version err st)" for t version entries err
    by (rule pendingFromI;
        auto simp: hydrateQueue_def failQueue_def updateRecord_def Let_def dest: lookup_put_cases [OF d] split: if_splits)+
  have goal: "pendingFrom Q P st (snd (hydrateGoal t version g st))" "pendingFrom Q P st (failGoal pf t version err st)"
    "pendingFrom Q P st (snd (hydrateProjects v entries st))" "pendingFrom Q P st (failProjects v err st)"
    "pendingFrom Q P st (recordRefreshFailure m err st)" "pendingFrom Q P st (recordDiagnostic code k st)" for t version g err v entries m code k
    by (rule pendingFromI; auto simp: hydrateGoal_def failGoal_def hydrateProjects_def failProjects_def recordRefreshFailure_def recordDiagnostic_def
        saveRecord_def updateRecord_def Let_def split: if_splits option.splits)+
  have process: "pendingFrom Q P st (completeCommand pf pid code out err st)" "pendingFrom Q P st (startProcess kind pid st)"
    "pendingFrom Q P st (failProcess kind pid st)" for pid code out err kind
  proof -
    show "pendingFrom Q P st (completeCommand pf pid code out err st)" unfolding completeCommand_def pending_publish by (rule pending_mark) simp
  qed (rule pending_same; simp add: startProcess_def failProcess_def updateRecord_def Let_def split: option.split)+
  have connection: "pendingFrom Q P st (connect st)" "pendingFrom Q P st (disconnect st)"
    by (rule pendingFromI; auto simp: connect_def disconnect_def disconnected_def mapValues_simps [OF d] split: if_splits)+
  show ?thesis
  proof (cases ev)
    case (Consume n)
    then show ?thesis using assms(3) by blast
  qed (use assms(2) queue goal process connection in \<open>simp_all add: happen_def advances_subscribe pending_same\<close>)
qed

text \<open>A queue or a list of projects for which the answer is taken is not shown as being refreshed.\<close>

lemma answered_queue:
  assumes "store_ok st" and "canHydrateThread t st" and "queueVersion t st = version"
  shows "\<not> pendingQueue t (snd (hydrateQueue pf t version entries st))" "\<not> pendingQueue t (failQueue t version err st)"
  using assms(2,3) lookup_put [OF store_distinct [OF assms(1)]]
  by (auto simp: pendingQueue_def hydrateQueue_def failQueue_def updateRecord_def Let_def)

lemma answered_projects:
  assumes "ev_connected (st_snapshot st)" and "ev_projectVersion (st_snapshot st) = version"
  shows "\<not> pendingProjects (snd (hydrateProjects version entries st))" "\<not> pendingProjects (failProjects version err st)"
  using assms by (auto simp: pendingProjects_def hydrateProjects_def failProjects_def recordRefreshFailure_def saveRecord_def Let_def)

section \<open>What is shown as being refreshed is being refreshed\<close>

definition refreshingBut :: "jstr set \<Rightarrow> sync \<Rightarrow> bool" where
  "refreshingBut X sy \<longleftrightarrow>
     (\<forall>t. t \<notin> X \<and> canSyncThread t sy \<and> pendingQueue t (sy_store sy) \<longrightarrow> map_of (sy_queues sy) t \<noteq> None)"

definition refreshingProjects :: "sync \<Rightarrow> bool" where
  "refreshingProjects sy \<longleftrightarrow>
     (\<not> sy_disposed sy \<and> connectedNow sy \<and> pendingProjects (sy_store sy) \<longrightarrow> sy_projects sy \<noteq> None)"

lemma map_of_filter_key: "map_of (filter (\<lambda>e. fst e \<noteq> t) xs) t' = (if t' = t then None else map_of xs t')"
  by (induction xs) auto

lemma queue_simps [simp]:
  "map_of (sy_queues (endQueue t sy)) t' = (if t' = t then None else map_of (sy_queues sy) t')"
  "map_of (sy_queues (setQueue t rd sy)) t' = (if t' = t then Some rd else map_of (sy_queues sy) t')"
  "sy_queues (sendSyncRequest r sy) = sy_queues sy" "sy_store (sendSyncRequest r sy) = sy_store sy" "sy_disposed (sendSyncRequest r sy) = sy_disposed sy"
  "sy_projects (sendSyncRequest r sy) = sy_projects sy" "sy_goals (sendSyncRequest r sy) = sy_goals sy"
  "sy_store (endQueue t sy) = sy_store sy" "sy_disposed (endQueue t sy) = sy_disposed sy" "sy_projects (endQueue t sy) = sy_projects sy"
  "sy_store (setQueue t rd sy) = sy_store sy" "sy_disposed (setQueue t rd sy) = sy_disposed sy" "sy_projects (setQueue t rd sy) = sy_projects sy"
  by (simp_all add: endQueue_def setQueue_def sendSyncRequest_def map_of_filter_key map_add_def split: option.split)

lemma goal_simps [simp]:
  "sy_queues (beginGoal t sy) = sy_queues sy" "sy_store (beginGoal t sy) = sy_store sy" "sy_disposed (beginGoal t sy) = sy_disposed sy"
  "sy_projects (beginGoal t sy) = sy_projects sy"
  "sy_queues (endGoal t sy) = sy_queues sy" "sy_store (endGoal t sy) = sy_store sy" "sy_disposed (endGoal t sy) = sy_disposed sy"
  "sy_projects (endGoal t sy) = sy_projects sy"
  by (simp_all add: beginGoal_def endGoal_def)

lemma begin_simps [simp]:
  "sy_store (beginQueue t sy) = sy_store sy" "sy_disposed (beginQueue t sy) = sy_disposed sy" "sy_projects (beginQueue t sy) = sy_projects sy"
  "sy_store (beginProjects sy) = sy_store sy" "sy_disposed (beginProjects sy) = sy_disposed sy" "sy_queues (beginProjects sy) = sy_queues sy"
  "sy_store (endProjects sy) = sy_store sy" "sy_disposed (endProjects sy) = sy_disposed sy" "sy_queues (endProjects sy) = sy_queues sy"
  "sy_projects (endProjects sy) = None"
  by (simp_all add: beginQueue_def beginProjects_def endProjects_def)

lemma refreshing_frame:
  "sy_store sy' = sy_store sy \<Longrightarrow> sy_disposed sy' = sy_disposed sy \<Longrightarrow> sy_queues sy' = sy_queues sy \<Longrightarrow>
   refreshingBut X sy' = refreshingBut X sy"
  "sy_store sy' = sy_store sy \<Longrightarrow> sy_disposed sy' = sy_disposed sy \<Longrightarrow> sy_projects sy' = sy_projects sy \<Longrightarrow>
   refreshingProjects sy' = refreshingProjects sy"
  by (simp_all add: refreshingBut_def refreshingProjects_def canSyncThread_def connectedNow_def)

lemma begin_refreshing:
  assumes "refreshingBut {t} sy"
  shows "refreshingBut {} (beginQueue t sy)"
  using assms by (auto simp: refreshingBut_def beginQueue_def canSyncThread_def)

lemma end_refreshing:
  assumes "refreshingBut {t} sy" and "canSyncThread t sy \<Longrightarrow> \<not> pendingQueue t (sy_store sy)"
  shows "refreshingBut {} (endQueue t sy)"
  using assms by (auto simp: refreshingBut_def canSyncThread_def)

lemma refreshing_weaken: "refreshingBut {} sy \<Longrightarrow> refreshingBut X sy"
  by (simp add: refreshingBut_def)

lemma set_refreshing: "refreshingBut {t} sy \<Longrightarrow> refreshingBut {} (setQueue t rd sy)"
  by (auto simp: refreshingBut_def canSyncThread_def)

text \<open>Changes of the store.\<close>

lemma connected_before:
  assumes "store_ok st" and "ev \<noteq> Cleared" and "ev \<noteq> Connected" and "ev_connected (st_snapshot (happen pf ev st))"
  shows "ev_connected (st_snapshot st)"
proof (cases "ev = Disconnected")
  case True
  then show ?thesis using assms(4) by (auto simp: happen_def disconnect_def disconnected_def split: if_splits)
next
  case False
  then show ?thesis using assms(4) connected_happen [OF assms(2,3) False] by simp
qed

lemma hydratable_before:
  assumes "store_ok st" and "ev \<noteq> Cleared" and "ev \<noteq> Connected" and "canHydrateThread t (happen pf ev st)"
  shows "canHydrateThread t st"
  using assms(4) connected_before [OF assms(1-3)] advances_happen [OF assms(1,2), of pf] by (auto simp: canHydrateThread_def advances_def)

lemma store_refreshing:
  assumes "store_ok (sy_store sy)" and "ev \<noteq> Cleared" and "ev \<noteq> Connected" and "pendingFrom Q P (sy_store sy) (happen pf ev (sy_store sy))"
  shows "refreshingBut X sy \<Longrightarrow> refreshingBut (X \<union> {t. Q t}) (sy\<lparr>sy_store := happen pf ev (sy_store sy)\<rparr>)"
    and "refreshingProjects sy \<Longrightarrow> \<not> P \<Longrightarrow> refreshingProjects (sy\<lparr>sy_store := happen pf ev (sy_store sy)\<rparr>)"
  using assms(4) hydratable_before [OF assms(1-3), of _ pf] connected_before [OF assms(1-3), of pf]
  by (auto simp: refreshingBut_def refreshingProjects_def canSyncThread_def connectedNow_def pendingFrom_def)

lemma answer_refreshing:
  assumes "store_ok (sy_store sy)" and "ev \<noteq> Cleared" and "ev \<noteq> Connected" and "\<And>n. ev \<noteq> Consume n"
  shows "refreshingBut X sy \<Longrightarrow> refreshingBut X (sy\<lparr>sy_store := happen pf ev (sy_store sy)\<rparr>)"
    and "refreshingProjects sy \<Longrightarrow> refreshingProjects (sy\<lparr>sy_store := happen pf ev (sy_store sy)\<rparr>)"
  using store_refreshing(1) [OF assms(1-3), where Q = "\<lambda>_. False" and P = False and X = X]
    store_refreshing(2) [OF assms(1-3), where Q = "\<lambda>_. False" and P = False]
    pending_happen [OF assms(1,2,4), of "\<lambda>_. False" False] by simp_all

section \<open>Steps\<close>

definition synced :: "sync \<Rightarrow> bool" where
  "synced sy \<longleftrightarrow> store_ok (sy_store sy) \<and> refreshingBut {} sy"

lemma queueFails_synced:
  assumes "synced sy"
  shows "synced (queueFails t rd sy)" and "refreshingProjects sy \<Longrightarrow> refreshingProjects (queueFails t rd sy)"
proof -
  let ?ev = "FailQueue t (rd_version rd) zh_queueNotSynchronised"
  let ?sy = "sy\<lparr>sy_store := happen undefined ?ev (sy_store sy)\<rparr>"
  have ok: "store_ok (sy_store sy)" "refreshingBut {t} sy" using assms by (simp_all add: synced_def refreshing_weaken)
  have sy: "refreshingBut {t} ?sy" "refreshingProjects sy \<Longrightarrow> refreshingProjects ?sy" "store_ok (sy_store ?sy)"
    using answer_refreshing [OF ok(1), where ev = ?ev] ok(2) store_ok_happen [OF ok(1)] by simp_all
  have eq: "queueFails t rd sy = (if \<not> canSyncThread t sy then endQueue t sy
      else if rd_version rd \<noteq> queueVersion t (sy_store sy) then beginQueue t sy else endQueue t ?sy)"
    by (simp add: queueFails_def happen_def)
  have quiet: "refreshingBut {} (endQueue t ?sy)" if "canSyncThread t sy" "rd_version rd = queueVersion t (sy_store sy)"
    using that by (intro end_refreshing [OF sy(1)]) (simp add: happen_def answered_queue(2) [OF ok(1)] canSyncThread_def)
  show "synced (queueFails t rd sy)"
    unfolding eq using ok sy(3) quiet end_refreshing [OF ok(2)] begin_refreshing [OF ok(2)] by (auto simp: synced_def)
  assume "refreshingProjects sy"
  then show "refreshingProjects (queueFails t rd sy)"
    unfolding eq using sy(2) refreshing_frame(2) [of "endQueue t sy" sy] refreshing_frame(2) [of "beginQueue t sy" sy]
      refreshing_frame(2) [of "endQueue t ?sy" ?sy] by (cases "rd_version rd = queueVersion t (sy_store sy)") simp_all
qed

lemma queueAnswered_synced:
  assumes "synced sy"
  shows "synced (queueAnswered pf t answer sy)" and "refreshingProjects sy \<Longrightarrow> refreshingProjects (queueAnswered pf t answer sy)"
proof -
  have ok: "store_ok (sy_store sy)" "refreshingBut {t} sy" using assms by (simp_all add: synced_def refreshing_weaken)
  have stored: "synced (endQueue t (sy\<lparr>sy_store := snd (hydrateQueue pf t version entries (sy_store sy))\<rparr>)) \<and>
      (refreshingProjects sy \<longrightarrow> refreshingProjects (endQueue t (sy\<lparr>sy_store := snd (hydrateQueue pf t version entries (sy_store sy))\<rparr>)))"
    if "canSyncThread t sy" "version = queueVersion t (sy_store sy)" for version entries
  proof -
    let ?ev = "HydrateQueue t version entries"
    let ?sy = "sy\<lparr>sy_store := happen pf ?ev (sy_store sy)\<rparr>"
    have sy: "refreshingBut {t} ?sy" "refreshingProjects sy \<Longrightarrow> refreshingProjects ?sy" "store_ok (sy_store ?sy)"
      using answer_refreshing [OF ok(1), where ev = ?ev and pf = pf] ok(2) store_ok_happen [OF ok(1)] by simp_all
    have "refreshingBut {} (endQueue t ?sy)"
      using that by (intro end_refreshing [OF sy(1)]) (simp add: happen_def answered_queue(1) [OF ok(1)] canSyncThread_def)
    then show ?thesis using sy refreshing_frame(2) [of "endQueue t ?sy" ?sy] by (simp add: synced_def happen_def)
  qed
  have frames: "refreshingProjects (endQueue t sy) = refreshingProjects sy" "refreshingProjects (beginQueue t sy) = refreshingProjects sy"
    "refreshingProjects (sendSyncRequest r (setQueue t rd sy)) = refreshingProjects sy" for r rd
    by (rule refreshing_frame(2); simp)+
  have next_page: "synced (sendSyncRequest r (setQueue t rd sy))" for r rd
    using ok set_refreshing [OF ok(2), of rd] refreshing_frame(1) [of "sendSyncRequest r (setQueue t rd sy)" "setQueue t rd sy"] by (simp add: synced_def)
  have ends: "synced (endQueue t sy)" if "\<not> canSyncThread t sy" using ok that end_refreshing [OF ok(2)] by (simp add: synced_def)
  have begins: "synced (beginQueue t sy)" using ok begin_refreshing [OF ok(2)] by (simp add: synced_def)
  show "synced (queueAnswered pf t answer sy)"
    using assms stored next_page ends begins queueFails_synced(1) [OF assms]
    by (auto simp: queueAnswered_def split: option.split page_outcome.split)
  assume "refreshingProjects sy"
  then show "refreshingProjects (queueAnswered pf t answer sy)"
    using stored frames queueFails_synced(2) [OF assms] by (auto simp: queueAnswered_def split: option.split page_outcome.split)
qed


text \<open>An answer that is stored through an operation of the store, when the reading is of another kind.\<close>

lemma answer_synced:
  assumes "synced sy" and "ev \<noteq> Cleared" and "ev \<noteq> Connected" and "\<And>n. ev \<noteq> Consume n"
  shows "synced (sy\<lparr>sy_store := happen pf ev (sy_store sy)\<rparr>)"
    and "refreshingProjects sy \<Longrightarrow> refreshingProjects (sy\<lparr>sy_store := happen pf ev (sy_store sy)\<rparr>)"
  using assms answer_refreshing [of sy ev] store_ok_happen [of "sy_store sy" pf ev] by (simp_all add: synced_def)

lemma synced_frame:
  "sy_store sy' = sy_store sy \<Longrightarrow> sy_disposed sy' = sy_disposed sy \<Longrightarrow> sy_queues sy' = sy_queues sy \<Longrightarrow> synced sy' = synced sy"
  using refreshing_frame(1) [of sy' sy] by (simp add: synced_def)

lemma goalAnswered_synced:
  assumes "synced sy"
  shows "synced (goalAnswered pf t answer sy)" and "refreshingProjects sy \<Longrightarrow> refreshingProjects (goalAnswered pf t answer sy)"
proof -
  have frames: "synced (endGoal t s) = synced s" "synced (beginGoal t s) = synced s"
    "refreshingProjects (endGoal t s) = refreshingProjects s" "refreshingProjects (beginGoal t s) = refreshingProjects s" for s
    by (rule synced_frame refreshing_frame(2); simp)+
  have failed: "synced (sy\<lparr>sy_store := failGoal pf t version err (sy_store sy)\<rparr>) \<and>
      (refreshingProjects sy \<longrightarrow> refreshingProjects (sy\<lparr>sy_store := failGoal pf t version err (sy_store sy)\<rparr>))" for version err
    using answer_synced [OF assms, where ev = "FailGoal t version err" and pf = pf] by (simp add: happen_def)
  have stored: "synced (sy\<lparr>sy_store := snd (hydrateGoal t version goal (sy_store sy))\<rparr>) \<and>
      (refreshingProjects sy \<longrightarrow> refreshingProjects (sy\<lparr>sy_store := snd (hydrateGoal t version goal (sy_store sy))\<rparr>))" for version goal
    using answer_synced [OF assms, where ev = "HydrateGoal t version goal" and pf = pf] by (simp add: happen_def)
  show "synced (goalAnswered pf t answer sy)"
    using assms failed stored by (simp add: goalAnswered_def frames split: option.split)
  assume "refreshingProjects sy"
  then show "refreshingProjects (goalAnswered pf t answer sy)"
    using failed stored by (simp add: goalAnswered_def frames split: option.split)
qed

lemma begin_projects: "refreshingProjects (beginProjects sy)"
  by (simp add: refreshingProjects_def connectedNow_def beginProjects_def)

lemma end_projects: "(\<not> sy_disposed sy \<Longrightarrow> connectedNow sy \<Longrightarrow> \<not> pendingProjects (sy_store sy)) \<Longrightarrow> refreshingProjects (endProjects sy)"
  by (auto simp: refreshingProjects_def connectedNow_def)

lemma projectsFail_synced:
  assumes "synced sy"
  shows "synced (projectsFail rd sy) \<and> refreshingProjects (projectsFail rd sy)"
proof -
  let ?sy = "sy\<lparr>sy_store := failProjects (rd_version rd) zh_projectsNotSynchronised (sy_store sy)\<rparr>"
  have frames: "synced (endProjects s) = synced s" "synced (beginProjects s) = synced s" for s by (rule synced_frame; simp)+
  have "synced ?sy" using answer_synced(1) [OF assms, where ev = "FailProjects (rd_version rd) zh_projectsNotSynchronised"] by (simp add: happen_def)
  moreover have "refreshingProjects (endProjects ?sy)" if "rd_version rd = projectsVersion sy"
  proof (cases "connectedNow sy")
    case True
    then show ?thesis using that answered_projects(2) [of "sy_store sy"] by (intro end_projects) (simp add: connectedNow_def projectsVersion_def)
  next
    case False
    then show ?thesis by (intro end_projects) (simp add: connectedNow_def failProjects_def)
  qed
  ultimately show ?thesis using assms begin_projects by (auto simp: projectsFail_def frames intro!: end_projects)
qed

lemma projectsAnswered_synced:
  assumes "synced sy"
  shows "synced (projectsAnswered answer sy)" and "refreshingProjects sy \<Longrightarrow> refreshingProjects (projectsAnswered answer sy)"
proof -
  have frames: "synced (endProjects s) = synced s" "synced (beginProjects s) = synced s"
    "synced (sendSyncRequest r (sy\<lparr>sy_projects := p\<rparr>)) = synced sy" for s r p by (rule synced_frame; simp)+
  have stored: "synced (sy\<lparr>sy_store := snd (hydrateProjects version entries (sy_store sy))\<rparr>)" for version entries
    using answer_synced(1) [OF assms, where ev = "HydrateProjects version entries"] by (simp add: happen_def)
  have quiet: "refreshingProjects (endProjects (sy\<lparr>sy_store := snd (hydrateProjects (projectsVersion sy) entries (sy_store sy))\<rparr>))"
    if "connectedNow sy" for entries
    using that answered_projects(1) [of "sy_store sy"] by (intro end_projects) (simp add: connectedNow_def projectsVersion_def)
  have next_page: "refreshingProjects (sendSyncRequest r (sy\<lparr>sy_projects := Some rd\<rparr>))" for r rd by (simp add: refreshingProjects_def)
  have ends: "refreshingProjects (endProjects sy)" if "sy_disposed sy \<or> \<not> connectedNow sy" using that by (intro end_projects) auto
  show "synced (projectsAnswered answer sy)"
    using assms stored projectsFail_synced [OF assms] by (simp add: projectsAnswered_def frames split: option.split page_outcome.split)
  assume "refreshingProjects sy"
  then show "refreshingProjects (projectsAnswered answer sy)"
    using projectsFail_synced [OF assms] quiet next_page ends begin_projects
    by (auto simp: projectsAnswered_def split: option.split page_outcome.split)
qed

lemma refreshQueue_synced:
  assumes "store_ok (sy_store sy)" and "refreshingBut {t} sy"
  shows "synced (refreshQueue t sy)" and "refreshingProjects (refreshQueue t sy) = refreshingProjects sy"
proof -
  have "refreshingBut {} sy" if "map_of (sy_queues sy) t \<noteq> None" using assms(2) that by (auto simp: refreshingBut_def)
  then show "synced (refreshQueue t sy)" using assms begin_refreshing by (simp add: refreshQueue_def synced_def)
  show "refreshingProjects (refreshQueue t sy) = refreshingProjects sy" by (rule refreshing_frame(2)) (simp_all add: refreshQueue_def)
qed

lemma refreshProjects_synced:
  "synced (refreshProjects sy) = synced sy" "refreshingProjects (refreshProjects sy)"
proof -
  show "synced (refreshProjects sy) = synced sy" by (rule synced_frame) (simp_all add: refreshProjects_def)
  show "refreshingProjects (refreshProjects sy)" using begin_projects by (auto simp: refreshProjects_def refreshingProjects_def)
qed

lemma notified_synced:
  assumes "synced sy"
  shows "synced (notified pf n sy)" and "refreshingProjects sy \<Longrightarrow> refreshingProjects (notified pf n sy)"
proof -
  let ?st = "happen pf (Consume n) (sy_store sy)" and ?t = "str (params n) ''threadId''"
  let ?sy = "sy\<lparr>sy_store := ?st\<rparr>"
  have ok: "store_ok (sy_store sy)" "store_ok ?st" using assms store_ok_happen by (simp_all add: synced_def)
  note pending = pending_consume [OF ok(1), of n pf]
  have queues: "refreshingBut {t. marksQueue (nt_method n) n t} ?sy"
    using store_refreshing(1) [OF ok(1) _ _ pending, of "{}"] assms by (simp add: synced_def)
  have projects: "refreshingProjects ?sy" if "refreshingProjects sy" "nt_method n \<noteq> ''project/changed''"
    using store_refreshing(2) [OF ok(1) _ _ pending that(1)] that(2) by simp
  have idle: "synced ?sy" if "nt_method n \<noteq> ''thread/queue/changed'' \<or> sy_disposed sy"
    using that queues ok(2) by (auto simp: synced_def marksQueue_def refreshingBut_def canSyncThread_def)
  have changed: "synced (refreshQueue ?t ?sy)" "refreshingProjects (refreshQueue ?t ?sy) = refreshingProjects ?sy" if "nt_method n = ''thread/queue/changed''"
    using refreshQueue_synced [of ?sy ?t] queues ok(2) that by (simp_all add: marksQueue_def)
  show "synced (notified pf n sy)"
    using idle changed refreshProjects_synced(1) [of ?sy] by (auto simp: notified_def Let_def)
  assume refreshing: "refreshingProjects sy"
  have "refreshingProjects ?sy" if "sy_disposed sy" using that by (simp add: refreshingProjects_def)
  then show "refreshingProjects (notified pf n sy)"
    using projects [OF refreshing] changed refreshProjects_synced(2) [of ?sy] by (auto simp: notified_def Let_def)
qed

text \<open>The session never connects or clears its store again; notifications come through the subscription.\<close>

definition fromSession :: "sync_event \<Rightarrow> bool" where
  "fromSession e \<longleftrightarrow>
     (case e of StoreHappens ev \<Rightarrow> ev \<noteq> Cleared \<and> ev \<noteq> Connected \<and> (case ev of Consume _ \<Rightarrow> False | _ \<Rightarrow> True) | _ \<Rightarrow> True)"

theorem step_synced:
  assumes "synced sy" and "fromSession e"
  shows "synced (syncStep pf e sy)" and "refreshingProjects sy \<Longrightarrow> refreshingProjects (syncStep pf e sy)"
proof -
  have restored: "synced (refreshGoal t sy') = synced sy'" "refreshingProjects (refreshGoal t sy') = refreshingProjects sy'" for t sy'
    by (rule synced_frame refreshing_frame(2); simp add: refreshGoal_def)+
  have queue: "synced (refreshQueue t sy)" "refreshingProjects (refreshQueue t sy) = refreshingProjects sy" for t
    using refreshQueue_synced [of sy t] assms(1) refreshing_weaken by (auto simp: synced_def)
  have disposed: "synced (dispose sy)" "refreshingProjects (dispose sy)"
    using assms(1) by (simp_all add: synced_def refreshingBut_def refreshingProjects_def canSyncThread_def dispose_def)
  have store: "synced (sy\<lparr>sy_store := happen pf ev (sy_store sy)\<rparr>) \<and>
      (refreshingProjects sy \<longrightarrow> refreshingProjects (sy\<lparr>sy_store := happen pf ev (sy_store sy)\<rparr>))" if "e = StoreHappens ev" for ev
    using answer_synced [OF assms(1), of ev pf] assms(2) that by (cases ev) (auto simp: fromSession_def)
  note answers = notified_synced [OF assms(1)] queueAnswered_synced [OF assms(1)] goalAnswered_synced [OF assms(1)]
    projectsAnswered_synced [OF assms(1)]
  show "synced (syncStep pf e sy)"
    using answers(1,3,5,7) store assms(1) by (cases e) (simp_all add: restoreThread_def restored queue disposed refreshProjects_synced)
  assume "refreshingProjects sy"
  then show "refreshingProjects (syncStep pf e sy)"
    using answers(2,4,6,8) store by (cases e) (simp_all add: restoreThread_def restored queue disposed refreshProjects_synced)
qed

lemma run_synced:
  assumes "synced sy" and "list_all fromSession es"
  shows "synced (syncRun pf es sy) \<and> (refreshingProjects sy \<longrightarrow> refreshingProjects (syncRun pf es sy))"
  using assms
proof (induction es arbitrary: sy)
  case (Cons e es)
  then show ?case using step_synced [of sy e pf] by (simp add: syncRun_def)
qed (simp add: syncRun_def)

lemma new_synced: "store_ok st \<Longrightarrow> (\<And>t. \<not> pendingQueue t st) \<Longrightarrow> synced (newSync st)"
  by (simp add: synced_def newSync_def refreshingBut_def)

end
