(* ===== verification/EventSyncPages.thy ===== *)
theory EventSyncPages
  imports EventSyncLaws
begin

text \<open>
  Reading a list page by page: what a query holds is bounded, and a server that answers every request with
  the next page of a list has the whole list stored, up to the limit of the store.
\<close>

section \<open>Bounds\<close>

definition reading_ok :: "reading \<Rightarrow> bool" where
  "reading_ok rd \<longleftrightarrow> length (rd_data rd) \<le> LIMIT_ENTITIES \<and> distinct (rd_cursors rd)"

definition readings_ok :: "sync \<Rightarrow> bool" where
  "readings_ok sy \<longleftrightarrow> distinct (map fst (sy_queues sy)) \<and> list_all (\<lambda>e. reading_ok (snd e)) (sy_queues sy) \<and>
     pred_option reading_ok (sy_projects sy) \<and> distinct (map fst (sy_goals sy))"

lemma addPage_ok: "reading_ok rd \<Longrightarrow> addPage p rd = NextPage cursor rd' \<Longrightarrow> reading_ok rd' \<and> rd_version rd' = rd_version rd"
  by (auto simp: addPage_def reading_ok_def Let_def split: option.splits if_splits)

lemma addPage_last: "reading_ok rd \<Longrightarrow> addPage p rd = LastPage entries \<Longrightarrow> length entries \<le> LIMIT_ENTITIES + 1"
  by (auto simp: addPage_def reading_ok_def Let_def split: option.splits if_splits)

lemma queues_bounded:
  assumes "readings_ok sy"
  shows "readings_ok (endQueue t sy)" and "reading_ok rd \<Longrightarrow> readings_ok (setQueue t rd sy)"
  using assms by (auto simp: readings_ok_def endQueue_def setQueue_def distinct_map_filter list_all_iff)

lemma readings_frame:
  "sy_queues sy' = sy_queues sy \<Longrightarrow> sy_goals sy' = sy_goals sy \<Longrightarrow> sy_projects sy' = sy_projects sy \<Longrightarrow> readings_ok sy' = readings_ok sy"
  by (simp add: readings_ok_def)

lemma queues_of: "readings_ok sy \<Longrightarrow> map_of (sy_queues sy) t = Some rd \<Longrightarrow> reading_ok rd"
  by (auto simp: readings_ok_def list_all_iff dest!: map_of_SomeD)

lemma store_bounded: "readings_ok (sy\<lparr>sy_store := st\<rparr>) = readings_ok sy"
  by (simp add: readings_ok_def)

lemma request_bounded: "readings_ok (sendSyncRequest r sy) = readings_ok sy"
  by (simp add: readings_ok_def)

lemma goals_bounded: "readings_ok sy \<Longrightarrow> readings_ok (endGoal t sy)"
  by (simp add: readings_ok_def endGoal_def distinct_map_filter)

lemma begin_bounded:
  assumes "readings_ok sy"
  shows "readings_ok (beginQueue t sy)" and "readings_ok (beginGoal t sy)"
    and "readings_ok (beginProjects sy)" and "readings_ok (endProjects sy)"
proof -
  show "readings_ok (beginQueue t sy)"
    using queues_bounded [OF assms] by (simp add: beginQueue_def request_bounded reading_ok_def)
  show projects: "readings_ok (endProjects sy)" using assms by (simp add: readings_ok_def endProjects_def)
  then show "readings_ok (beginProjects sy)"
    using assms by (simp add: beginProjects_def request_bounded) (simp add: readings_ok_def reading_ok_def)
  have "readings_ok ((endGoal t sy)\<lparr>sy_goals := sy_goals (endGoal t sy) @ [(t, v)]\<rparr>)" for v
    using goals_bounded [OF assms, of t] by (auto simp: readings_ok_def endGoal_def)
  then show "readings_ok (beginGoal t sy)" using goals_bounded [OF assms] by (simp add: beginGoal_def request_bounded)
qed

theorem step_bounded:
  assumes "readings_ok sy"
  shows "readings_ok (syncStep pf e sy)"
proof -
  note simps = store_bounded request_bounded begin_bounded goals_bounded queues_bounded(1) assms
  have fails: "readings_ok (queueFails t rd sy)" "readings_ok (projectsFail rd sy)" for t rd
    by (simp_all add: queueFails_def projectsFail_def simps)
  have projects: "readings_ok (sy\<lparr>sy_projects := Some rd\<rparr>)" if "reading_ok rd" for rd
    using assms that by (simp add: readings_ok_def)
  have next_queue: "readings_ok (setQueue t rd' sy)" if "map_of (sy_queues sy) t = Some rd" "addPage p rd = NextPage cursor rd'" for t rd p cursor rd'
    using addPage_ok [OF queues_of [OF assms that(1)] that(2)] queues_bounded(2) [OF assms] by simp
  have queue: "readings_ok (queueAnswered pf t answer sy)" for t answer
    using fails next_queue by (auto simp: queueAnswered_def simps split: option.split page_outcome.split)
  have "reading_ok rd" if "sy_projects sy = Some rd" for rd using assms that by (simp add: readings_ok_def)
  then have next_projects: "readings_ok (sy\<lparr>sy_projects := Some rd'\<rparr>)"
    if "sy_projects sy = Some rd" "addPage p rd = NextPage cursor rd'" for rd p cursor rd'
    using addPage_ok [OF _ that(2)] that(1) projects by blast
  then have project: "readings_ok (projectsAnswered answer sy)" for answer
    using fails by (auto simp: projectsAnswered_def simps split: option.split page_outcome.split)
  have goal: "readings_ok (goalAnswered pf t answer sy)" for t answer
    by (simp add: goalAnswered_def simps split: option.split)
  have refresh: "readings_ok (refreshQueue t s)" "readings_ok (refreshGoal t s)" "readings_ok (refreshProjects s)" if "readings_ok s" for t s
    using that by (simp_all add: refreshQueue_def refreshGoal_def refreshProjects_def begin_bounded)
  have "readings_ok (dispose sy)" using assms by (simp add: readings_ok_def dispose_def)
  then show ?thesis using queue project goal refresh
    by (cases e) (simp_all add: notified_def restoreThread_def simps Let_def)
qed

lemma run_bounded: "readings_ok sy \<Longrightarrow> readings_ok (syncRun pf es sy)"
proof (induction es arbitrary: sy)
  case (Cons e es)
  then show ?case using step_bounded [of sy pf e] by (simp add: syncRun_def)
qed (simp add: syncRun_def)

section \<open>Whole lists\<close>

lemma no_query: "map_of (sy_queues sy) t = None \<Longrightarrow> fold (\<lambda>p. queueAnswered pf t (Some p)) ps sy = sy"
  by (induction ps) (simp_all add: queueAnswered_def)

text \<open>The pages of a list: every page but the last has a cursor of its own.\<close>

definition pagesOf :: "(jsval list \<times> jstr) list \<Rightarrow> jsval list \<Rightarrow> page list" where
  "pagesOf ps final = map (\<lambda>(entries, cursor). (entries, Some cursor)) ps @ [(final, None)]"

lemma take_page:
  assumes "length d \<le> n"
  shows "take (Suc n) (d @ e @ r) =
    (if length (d @ take (Suc n - length d) e) \<le> n then take (Suc n) ((d @ take (Suc n - length d) e) @ r)
     else d @ take (Suc n - length d) e)"
proof (cases "length d + length e \<le> n")
  case False
  then have "Suc n - length d \<le> length e" by simp
  then show ?thesis using assms by simp
qed simp

lemma pages_read:
  assumes "canSyncThread t sy" and "map_of (sy_queues sy) t = Some rd" and "rd_version rd = queueVersion t (sy_store sy)"
    and "reading_ok rd" and "distinct (map snd ps)" and "set (map snd ps) \<inter> set (rd_cursors rd) = {}"
  shows "sy_store (fold (\<lambda>p. queueAnswered pf t (Some p)) (pagesOf ps final) sy) =
      snd (hydrateQueue pf t (rd_version rd) (take (LIMIT_ENTITIES + 1) (rd_data rd @ concat (map fst ps) @ final)) (sy_store sy)) \<and>
      map_of (sy_queues (fold (\<lambda>p. queueAnswered pf t (Some p)) (pagesOf ps final) sy)) t = None"
  using assms
proof (induction ps arbitrary: sy rd)
  case Nil
  have len: "length (rd_data rd) \<le> 100" using Nil.prems(4) by (simp add: reading_ok_def)
  then show ?case using Nil.prems(1-3) by (simp add: pagesOf_def queueAnswered_def addPage_def take_append Suc_diff_le)
next
  case (Cons p ps)
  obtain entries cursor where p: "p = (entries, cursor)" by fastforce
  let ?data = "rd_data rd @ take (LIMIT_ENTITIES + 1 - length (rd_data rd)) entries"
  have len: "length (rd_data rd) \<le> 100" and fresh: "cursor \<notin> set (rd_cursors rd)"
    using Cons.prems(4,6) by (simp_all add: reading_ok_def p)
  let ?rest = "fold (\<lambda>p. queueAnswered pf t (Some p)) (pagesOf ps final)"
  have first: "fold (\<lambda>p. queueAnswered pf t (Some p)) (pagesOf (p # ps) final) sy = ?rest (queueAnswered pf t (Some (entries, Some cursor)) sy)"
    by (simp add: pagesOf_def p)
  have cat: "concat (map fst (p # ps)) @ final = entries @ concat (map fst ps) @ final" by (simp add: p)
  note whole = take_page [OF len, of entries "concat (map fst ps) @ final", folded cat]
  show ?case
  proof (cases "length ?data \<le> 100")
    case True
    let ?rd = "rd\<lparr>rd_data := ?data, rd_cursors := cursor # rd_cursors rd\<rparr>"
    let ?sy = "sendSyncRequest (ListQueue t (Some cursor)) (setQueue t ?rd sy)"
    have step: "queueAnswered pf t (Some (entries, Some cursor)) sy = ?sy"
      using Cons.prems(1,2) fresh True unfolding queueAnswered_def addPage_def Let_def by simp
    have "sy_store (?rest ?sy) = snd (hydrateQueue pf t (rd_version ?rd) (take (LIMIT_ENTITIES + 1) (rd_data ?rd @ concat (map fst ps) @ final)) (sy_store ?sy)) \<and>
        map_of (sy_queues (?rest ?sy)) t = None"
    proof (rule Cons.IH)
      show "canSyncThread t ?sy" using Cons.prems(1) by (simp add: canSyncThread_def)
      show "map_of (sy_queues ?sy) t = Some ?rd" "rd_version ?rd = queueVersion t (sy_store ?sy)" using Cons.prems(3) by simp_all
      show "reading_ok ?rd" using Cons.prems(4) True fresh by (simp add: reading_ok_def)
      show "distinct (map snd ps)" "set (map snd ps) \<inter> set (rd_cursors ?rd) = {}" using Cons.prems(5,6) by (auto simp: p)
    qed
    moreover have "take (LIMIT_ENTITIES + 1) (rd_data ?rd @ concat (map fst ps) @ final) = take (LIMIT_ENTITIES + 1) (rd_data rd @ concat (map fst (p # ps)) @ final)"
      using whole True by simp
    ultimately show ?thesis unfolding first step by simp
  next
    case False
    let ?sy = "endQueue t (sy\<lparr>sy_store := snd (hydrateQueue pf t (rd_version rd) ?data (sy_store sy))\<rparr>)"
    have step: "queueAnswered pf t (Some (entries, Some cursor)) sy = ?sy"
      using Cons.prems(1-3) fresh False unfolding queueAnswered_def addPage_def Let_def by simp
    have "?rest ?sy = ?sy" by (rule no_query) simp
    moreover have "take (LIMIT_ENTITIES + 1) (rd_data rd @ concat (map fst (p # ps)) @ final) = ?data"
      using whole False by simp
    ultimately show ?thesis unfolding first step by simp
  qed
qed

lemma hydrated_queue:
  assumes "store_ok st" and "canHydrateThread t st" and "queueVersion t st = version"
  shows "map_of (ev_queuesByThread (st_snapshot (snd (hydrateQueue pf t version entries st)))) t =
    Some \<lparr>sq_version = version, sq_status = RefreshReady, sq_entries = map queueSummary (take LIMIT_ENTITIES entries), sq_error = None\<rparr>"
  using assms(2,3) lookup_put [OF store_distinct [OF assms(1)]] by (simp add: hydrateQueue_def updateRecord_def Let_def)

end
