(* ===== verification/EventSyncProperties.thy ===== *)
theory EventSyncProperties
  imports EventSyncPages EventProperties
begin

text \<open>
  The properties of the synchronisation of server events.
\<close>

text \<open>C34. What the interface shows as being refreshed is being refreshed: in every run over the store of a session, while the
  store is connected and the synchronisation not disposed of, a query is under way for every thread whose queue is shown as
  pending and that is not deleted, and, once the projects have been asked for, for the list of projects.\<close>

theorem shown_refresh_under_way:
  fixes pf es es'
  defines "sy \<equiv> syncRun pf es (newSync newStore)" and "sy' \<equiv> syncRun pf (es @ RefreshProjects # es') (newSync newStore)"
  assumes "list_all fromSession (es @ es')"
  shows "(canSyncThread t sy \<and> pendingQueue t (sy_store sy) \<longrightarrow> map_of (sy_queues sy) t \<noteq> None) \<and>
    (\<not> sy_disposed sy' \<and> connectedNow sy' \<and> pendingProjects (sy_store sy') \<longrightarrow> sy_projects sy' \<noteq> None)"
proof -
  have new: "synced (newSync newStore)"
    by (rule new_synced [OF store_ok_newStore]) (simp add: pendingQueue_def newStore_def initialSnapshot_def)
  have sy: "synced sy" using run_synced [OF new, of es pf] assms(3) by (simp add: sy_def)
  let ?asked = "refreshProjects sy"
  have asked: "synced ?asked" "refreshingProjects ?asked" using refreshProjects_synced [of sy] sy by simp_all
  have "sy' = syncRun pf es' ?asked" by (simp add: sy'_def sy_def syncRun_def)
  then have "refreshingProjects sy'" using run_synced [OF asked(1), of es' pf] asked(2) assms(3) by simp
  with sy show ?thesis by (auto simp: synced_def refreshingBut_def refreshingProjects_def)
qed

lemma shown_refresh_under_way_witness:
  "pendingQueue (lit ''t'') (sy_store (syncRun asciiPlatform [Notified queueChanged] (newSync newStore))) \<and>
   map_of (sy_queues (syncRun asciiPlatform [Notified queueChanged] (newSync newStore))) (lit ''t'') \<noteq> None"
proof -
  let ?sy = "syncRun asciiPlatform [Notified queueChanged] (newSync newStore)"
  have store: "sy_store ?sy = happen asciiPlatform (Consume queueChanged) newStore"
    by (simp add: syncRun_def notified_def Let_def refreshQueue_def newSync_def queueChanged_note)
  have "pendingQueue (lit ''t'') (sy_store ?sy) \<and> canSyncThread (lit ''t'') ?sy"
    unfolding store canSyncThread_def pendingQueue_def
    by (simp add: store consume_total queueChanged_note thread_handlers_found canHydrateThread_def)
      (simp add: onQueueChanged_def queueChanged_note newStore_def initialSnapshot_def lookup_put Let_def syncRun_def notified_def newSync_def refreshQueue_def)
  then show ?thesis
    using shown_refresh_under_way [of "[Notified queueChanged]" "[]" "lit ''t''" asciiPlatform] by (simp add: fromSession_def)
qed

text \<open>C35. A list that the server delivers in pages is stored as a whole: when no notification interferes and the pages have
  cursors of their own, the queue that is shown is the concatenation of the pages, up to the limit of the store, and the query ends.\<close>

theorem queue_pages_stored:
  fixes pf t ps final sy
  defines "sy' \<equiv> syncRun pf (RefreshQueue t # map (\<lambda>p. QueueAnswered t (Some p)) (pagesOf ps final)) sy"
  assumes "store_ok (sy_store sy)" and "canSyncThread t sy" and "map_of (sy_queues sy) t = None" and "distinct (map snd ps)"
  shows "map_of (ev_queuesByThread (st_snapshot (sy_store sy'))) t =
      Some \<lparr>sq_version = queueVersion t (sy_store sy), sq_status = RefreshReady,
        sq_entries = map queueSummary (take LIMIT_ENTITIES (concat (map fst ps) @ final)), sq_error = None\<rparr> \<and>
    map_of (sy_queues sy') t = None"
proof -
  let ?rd = "\<lparr>rd_version = queueVersion t (sy_store sy), rd_data = [], rd_cursors = []\<rparr>"
  let ?sy = "sendSyncRequest (ListQueue t None) (setQueue t ?rd sy)"
  have begins: "refreshQueue t sy = ?sy" using assms(3,4) by (simp add: refreshQueue_def beginQueue_def)
  have steps: "(\<lambda>p. syncStep pf (QueueAnswered t (Some p))) = (\<lambda>p. queueAnswered pf t (Some p))" by (intro ext) simp
  have run: "sy' = fold (\<lambda>p. queueAnswered pf t (Some p)) (pagesOf ps final) ?sy"
    unfolding sy'_def syncRun_def by (simp add: begins fold_map comp_def steps)
  have "sy_store sy' = snd (hydrateQueue pf t (rd_version ?rd) (take (LIMIT_ENTITIES + 1) (rd_data ?rd @ concat (map fst ps) @ final)) (sy_store ?sy)) \<and>
      map_of (sy_queues sy') t = None"
    unfolding run using assms(3,5) by (intro pages_read) (simp_all add: canSyncThread_def reading_ok_def)
  moreover have "canHydrateThread t (sy_store sy)" using assms(3) by (simp add: canSyncThread_def)
  ultimately show ?thesis
    using hydrated_queue [OF assms(2), of t "queueVersion t (sy_store sy)" pf] by (simp add: min_def)
qed

lemma queue_pages_stored_witness:
  "map_of (sy_queues (syncRun asciiPlatform
     (RefreshQueue (lit ''t'') # map (\<lambda>p. QueueAnswered (lit ''t'') (Some p)) (pagesOf [([JNull], lit ''next'')] [JNull])) (newSync newStore))) (lit ''t'') = None"
proof -
  have "canSyncThread (lit ''t'') (newSync newStore)"
    by (simp add: canSyncThread_def canHydrateThread_def newSync_def newStore_def initialSnapshot_def)
  from queue_pages_stored [OF _ this, of "[([JNull], lit ''next'')]" asciiPlatform "[JNull]"] show ?thesis
    by (simp add: newSync_def store_ok_newStore)
qed

text \<open>The synchronisation changes the store only through its operations.\<close>

lemma store_kept [simp]:
  "sy_store (sendSyncRequest r sy) = sy_store sy" "sy_store (endQueue t sy) = sy_store sy" "sy_store (setQueue t rd sy) = sy_store sy"
  "sy_store (beginQueue t sy) = sy_store sy" "sy_store (refreshQueue t sy) = sy_store sy" "sy_store (endGoal t sy) = sy_store sy"
  "sy_store (beginGoal t sy) = sy_store sy" "sy_store (refreshGoal t sy) = sy_store sy" "sy_store (endProjects sy) = sy_store sy"
  "sy_store (beginProjects sy) = sy_store sy" "sy_store (refreshProjects sy) = sy_store sy"
  by (simp_all add: sendSyncRequest_def endQueue_def setQueue_def beginQueue_def refreshQueue_def endGoal_def beginGoal_def
      refreshGoal_def endProjects_def beginProjects_def refreshProjects_def)





end
