(* ===== verification/Interaction.thy ===== *)
theory Interaction
  imports RpcInbound JsonText
begin

text \<open>
  The requests of the server that ask the user, \<open>src/appServer/interactionClient.ts\<close>: approvals of
  commands, of file changes and of permissions, questions of tools and elicitations.

  A promise that the client has made is a position of \<open>ic_answers\<close>, which holds the value that it was
  resolved with; resolving it again does nothing. \<open>Map\<close> and \<open>Set\<close> keep their insertion order and are
  lists. A listener is a number and a call of one is recorded with the snapshot that it can read. Every
  call of the listeners is the last thing that an operation does, so what a listener calls in turn is
  the next event (the listeners that are called after it may then read the newer snapshot); a listener
  does not throw, and an answer of the user is a value and not a promise. The registrations that are
  released on disposal are those of the session, see the theory \<open>InteractionWire\<close>.
\<close>

section \<open>Requests\<close>

datatype ServerRequestMethod =
    ChatgptAuthTokensRefresh
  | ApplyPatchApproval
  | AttestationGenerate
  | CurrentTimeRead
  | ExecCommandApproval
  | CommandExecutionApproval
  | FileChangeApproval
  | PermissionsApproval
  | ToolCall
  | ToolUserInput
  | McpElicitation

fun methodName :: "ServerRequestMethod \<Rightarrow> jstr" where
  "methodName ChatgptAuthTokensRefresh = lit ''account/chatgptAuthTokens/refresh''"
| "methodName ApplyPatchApproval = lit ''applyPatchApproval''"
| "methodName AttestationGenerate = lit ''attestation/generate''"
| "methodName CurrentTimeRead = lit ''currentTime/read''"
| "methodName ExecCommandApproval = lit ''execCommandApproval''"
| "methodName CommandExecutionApproval = lit ''item/commandExecution/requestApproval''"
| "methodName FileChangeApproval = lit ''item/fileChange/requestApproval''"
| "methodName PermissionsApproval = lit ''item/permissions/requestApproval''"
| "methodName ToolCall = lit ''item/tool/call''"
| "methodName ToolUserInput = lit ''item/tool/requestUserInput''"
| "methodName McpElicitation = lit ''mcpServer/elicitation/request''"

definition KNOWN_SERVER_REQUEST_METHODS :: "ServerRequestMethod list" where
  "KNOWN_SERVER_REQUEST_METHODS = [ChatgptAuthTokensRefresh, ApplyPatchApproval, AttestationGenerate,
     CurrentTimeRead, ExecCommandApproval, CommandExecutionApproval, FileChangeApproval,
     PermissionsApproval, ToolCall, ToolUserInput, McpElicitation]"

definition USER_FACING_METHODS :: "ServerRequestMethod list" where
  "USER_FACING_METHODS = [CommandExecutionApproval, FileChangeApproval, PermissionsApproval, ToolUserInput,
     McpElicitation, ApplyPatchApproval, ExecCommandApproval]"

definition userFacing :: "ServerRequestMethod \<Rightarrow> bool" where
  "userFacing m \<longleftrightarrow> m \<in> set USER_FACING_METHODS"

record ServerRequest =
  sr_id :: RpcRequestId
  sr_method :: ServerRequestMethod
  sr_params :: jsrecord

text \<open>A property that the validated type gives as a string.\<close>

definition stringField :: "jsrecord \<Rightarrow> string \<Rightarrow> jstr" where
  "stringField record name = (case field record name of JStr s \<Rightarrow> s | _ \<Rightarrow> [])"

definition requestThreadId :: "ServerRequest \<Rightarrow> jstr" where
  "requestThreadId request =
     (if sr_method request \<in> {ApplyPatchApproval, ExecCommandApproval}
      then stringField (sr_params request) ''conversationId''
      else stringField (sr_params request) ''threadId'')"

text \<open>
  The key \<open>typeof id:String(id)\<close>. The text of a number that is not a safe integer is the parameter
  \<open>N\<close>, as in \<open>JSON.stringify\<close>.
\<close>

fun requestKey :: "(jsval \<Rightarrow> jstr) \<Rightarrow> RpcRequestId \<Rightarrow> jstr" where
  "requestKey N (IdStr s) = lit ''string:'' @ s"
| "requestKey N (IdInt i) = lit ''number:'' @ numberText N (JInt i)"
| "requestKey N (IdFloat w) = lit ''number:'' @ numberText N (JFloat w)"

definition zh_userRejected :: jstr where
  "zh_userRejected = [0x7528, 0x6237, 0x62D2, 0x7EDD, 0x4E86, 0x8BF7, 0x6C42]"

fun declineResponse :: "ServerRequestMethod \<Rightarrow> jsval" where
  "declineResponse PermissionsApproval = JObj [jprop ''permissions'' (JObj []), jprop ''scope'' (JStr (lit ''turn''))]"
| "declineResponse ToolUserInput = JObj [jprop ''answers'' (JObj [])]"
| "declineResponse McpElicitation =
     JObj [jprop ''action'' (JStr (lit ''decline'')), jprop ''content'' JNull, jprop ''_meta'' JNull]"
| "declineResponse ApplyPatchApproval =
     JObj [jprop ''decision'' (JObj [jprop ''denied'' (JObj [jprop ''rejection'' (JStr zh_userRejected)])])]"
| "declineResponse ExecCommandApproval =
     JObj [jprop ''decision'' (JObj [jprop ''denied'' (JObj [jprop ''rejection'' (JStr zh_userRejected)])])]"
| "declineResponse _ = JObj [jprop ''decision'' (JStr (lit ''decline''))]"

section \<open>State\<close>

record PendingInteraction =
  pi_key :: jstr
  pi_request :: ServerRequest
  pi_responding :: bool
  pi_threadId :: jstr

datatype failure_reason = DynamicToolUnregistered | ExternalAuthUnavailable | AttestationUnavailable

record ServerRequestFailure =
  fl_key :: jstr
  fl_method :: ServerRequestMethod
  fl_reason :: failure_reason
  fl_message :: jstr
  fl_threadId :: "jstr option"

record InteractionSnapshot =
  is_pending :: "PendingInteraction list"
  is_resolvedElsewhereCount :: nat
  is_failures :: "ServerRequestFailure list"

record DeferredInteraction =
  df_request :: ServerRequest
  df_promise :: nat
  df_responding :: bool

definition MAX_FAILURES :: nat where
  "MAX_FAILURES = 100"

definition zh_dynamicToolUnregistered :: jstr where
  "zh_dynamicToolUnregistered = [0x670D, 0x52A1, 0x7AEF, 0x8BF7, 0x6C42, 0x4E86, 0x5BA2, 0x6237, 0x7AEF, 0x52A8, 0x6001, 0x5DE5,
     0x5177, 0xFF0C, 0x4F46, 0x6B64, 0x5BA2, 0x6237, 0x7AEF, 0x5C1A, 0x672A, 0x6CE8, 0x518C, 0x52A8,
     0x6001, 0x5DE5, 0x5177]"

definition zh_externalAuthUnavailable :: jstr where
  "zh_externalAuthUnavailable = [0x65E0, 0x6CD5, 0x5237, 0x65B0, 0x5916, 0x90E8, 0x8BA4, 0x8BC1, 0x4EE4, 0x724C, 0xFF1A, 0x6B64,
     0x5BA2, 0x6237, 0x7AEF, 0x6CA1, 0x6709, 0x5BBF, 0x4E3B, 0x8BA4, 0x8BC1, 0x63D0, 0x4F9B, 0x8005,
     0xFF0C, 0x8BF7, 0x91CD, 0x65B0, 0x767B, 0x5F55, 0x670D, 0x52A1, 0x7AEF, 0x8D26, 0x6237]"

definition zh_attestationUnavailable :: jstr where
  "zh_attestationUnavailable = [0x65E0, 0x6CD5, 0x751F, 0x6210, 0x5BA2, 0x6237, 0x7AEF, 0x8BC1, 0x660E, 0xFF1A, 0x6B64, 0x5BA2,
     0x6237, 0x7AEF, 0x4E0D, 0x5177, 0x5907, 0x8BBE, 0x5907, 0x8BC1, 0x660E, 0x80FD, 0x529B]"

fun FAILURE_MESSAGES :: "failure_reason \<Rightarrow> jstr" where
  "FAILURE_MESSAGES DynamicToolUnregistered = zh_dynamicToolUnregistered"
| "FAILURE_MESSAGES ExternalAuthUnavailable = zh_externalAuthUnavailable"
| "FAILURE_MESSAGES AttestationUnavailable = zh_attestationUnavailable"

definition EMPTY_SNAPSHOT :: InteractionSnapshot where
  "EMPTY_SNAPSHOT = \<lparr>is_pending = [], is_resolvedElsewhereCount = 0, is_failures = []\<rparr>"

record interactions =
  ic_pending :: "(jstr \<times> DeferredInteraction) list"
  ic_listeners :: "nat list"
  ic_snapshot :: InteractionSnapshot
  ic_disposed :: bool
  ic_resolvedElsewhere :: nat
  ic_failures :: "ServerRequestFailure list"
  ic_answers :: "jsval option list"
  ic_told :: "(nat \<times> InteractionSnapshot) list"

definition newInteractions :: interactions where
  "newInteractions = \<lparr>ic_pending = [], ic_listeners = [], ic_snapshot = EMPTY_SNAPSHOT, ic_disposed = False,
     ic_resolvedElsewhere = 0, ic_failures = [], ic_answers = [], ic_told = []\<rparr>"

section \<open>Operations\<close>

definition pendingView :: "jstr \<times> DeferredInteraction \<Rightarrow> PendingInteraction" where
  "pendingView entry = \<lparr>pi_key = fst entry, pi_request = df_request (snd entry),
     pi_responding = df_responding (snd entry), pi_threadId = requestThreadId (df_request (snd entry))\<rparr>"

definition snapshotOf :: "interactions \<Rightarrow> InteractionSnapshot" where
  "snapshotOf s = \<lparr>is_pending = map pendingView (ic_pending s),
     is_resolvedElsewhereCount = ic_resolvedElsewhere s, is_failures = ic_failures s\<rparr>"

definition publishAll :: "interactions \<Rightarrow> interactions" where
  "publishAll s = s\<lparr>ic_snapshot := snapshotOf s,
     ic_told := ic_told s @ map (\<lambda>listener. (listener, snapshotOf s)) (ic_listeners s)\<rparr>"

text \<open>The \<open>resolve\<close> of a promise: the first call decides.\<close>

definition resolvePromise :: "nat \<Rightarrow> jsval \<Rightarrow> interactions \<Rightarrow> interactions" where
  "resolvePromise p value s =
     (if p < length (ic_answers s) \<and> ic_answers s ! p = None
      then s\<lparr>ic_answers := (ic_answers s)[p := Some value]\<rparr> else s)"

definition pendingOf :: "interactions \<Rightarrow> jstr \<Rightarrow> DeferredInteraction option" where
  "pendingOf s key = map_of (ic_pending s) key"

definition deletePending :: "jstr \<Rightarrow> interactions \<Rightarrow> interactions" where
  "deletePending key s = s\<lparr>ic_pending := filter (\<lambda>entry. fst entry \<noteq> key) (ic_pending s)\<rparr>"

definition markResponding :: "jstr \<Rightarrow> interactions \<Rightarrow> interactions" where
  "markResponding key s = s\<lparr>ic_pending :=
     map (\<lambda>(k, d). if k = key then (k, d\<lparr>df_responding := True\<rparr>) else (k, d)) (ic_pending s)\<rparr>"

definition decline :: "DeferredInteraction \<Rightarrow> interactions \<Rightarrow> interactions" where
  "decline d s = resolvePromise (df_promise d) (declineResponse (sr_method (df_request d))) s"

definition subscribeInteractions :: "nat \<Rightarrow> interactions \<Rightarrow> interactions" where
  "subscribeInteractions listener s =
     (if ic_disposed s \<or> listener \<in> set (ic_listeners s) then s
      else s\<lparr>ic_listeners := ic_listeners s @ [listener]\<rparr>)"

definition unsubscribeInteractions :: "nat \<Rightarrow> interactions \<Rightarrow> interactions" where
  "unsubscribeInteractions listener s = s\<lparr>ic_listeners := removeAll listener (ic_listeners s)\<rparr>"

definition respond :: "jstr \<Rightarrow> jsval \<Rightarrow> interactions \<Rightarrow> bool \<times> interactions" where
  "respond key response s =
     (case pendingOf s key of
        None \<Rightarrow> (False, s)
      | Some d \<Rightarrow>
          if df_responding d \<or> ic_disposed s then (False, s)
          else (True, publishAll (resolvePromise (df_promise d) response (markResponding key s))))"

definition disposeInteractions :: "interactions \<Rightarrow> interactions" where
  "disposeInteractions s =
     (if ic_disposed s then s
      else (fold (\<lambda>entry. decline (snd entry)) (ic_pending s) (s\<lparr>ic_disposed := True\<rparr>))
             \<lparr>ic_pending := [], ic_failures := [], ic_listeners := [], ic_snapshot := EMPTY_SNAPSHOT\<rparr>)"

text \<open>What a handler gives back: a value, a promise of the client, or the error that it throws.\<close>

datatype reply = Immediate jsval | Promised nat | Refused int jstr

definition newPromise :: "jsval option \<Rightarrow> interactions \<Rightarrow> nat \<times> interactions" where
  "newPromise value s = (length (ic_answers s), s\<lparr>ic_answers := ic_answers s @ [value]\<rparr>)"

definition rejectUnsupported ::
  "(jsval \<Rightarrow> jstr) \<Rightarrow> ServerRequest \<Rightarrow> failure_reason \<Rightarrow> jstr option \<Rightarrow> interactions \<Rightarrow> reply \<times> interactions" where
  "rejectUnsupported N request reason threadId s =
     (Refused METHOD_NOT_FOUND (FAILURE_MESSAGES reason),
      publishAll (s\<lparr>ic_failures := takeLast MAX_FAILURES (ic_failures s @
        [\<lparr>fl_key = requestKey N (sr_id request), fl_method = sr_method request, fl_reason = reason,
          fl_message = FAILURE_MESSAGES reason, fl_threadId = threadId\<rparr>])\<rparr>))"

definition enqueue :: "(jsval \<Rightarrow> jstr) \<Rightarrow> ServerRequest \<Rightarrow> interactions \<Rightarrow> reply \<times> interactions" where
  "enqueue N request s =
     (if ic_disposed s
      then (case newPromise (Some (declineResponse (sr_method request))) s of (p, s1) \<Rightarrow> (Promised p, s1))
      else let key = requestKey N (sr_id request);
             s1 = (case pendingOf s key of
                     None \<Rightarrow> s
                   | Some existing \<Rightarrow> deletePending key (decline existing s)) in
        (case newPromise None s1 of (p, s2) \<Rightarrow>
          (Promised p, publishAll (s2\<lparr>ic_pending := ic_pending s2 @
             [(key, \<lparr>df_request = request, df_promise = p, df_responding = False\<rparr>)]\<rparr>))))"

text \<open>\<open>now\<close> is \<open>Date.now()\<close>, in milliseconds.\<close>

definition handleRequest ::
  "(jsval \<Rightarrow> jstr) \<Rightarrow> int \<Rightarrow> ServerRequest \<Rightarrow> interactions \<Rightarrow> reply \<times> interactions" where
  "handleRequest N now request s =
     (case sr_method request of
        CurrentTimeRead \<Rightarrow> (Immediate (JObj [jprop ''currentTimeAt'' (JInt (now div 1000))]), s)
      | ToolCall \<Rightarrow> rejectUnsupported N request DynamicToolUnregistered
                      (Some (stringField (sr_params request) ''threadId'')) s
      | ChatgptAuthTokensRefresh \<Rightarrow> rejectUnsupported N request ExternalAuthUnavailable None s
      | AttestationGenerate \<Rightarrow> rejectUnsupported N request AttestationUnavailable None s
      | _ \<Rightarrow> enqueue N request s)"

text \<open>\<open>handleNotification\<close>; \<open>resolved\<close> is the request of \<open>serverRequest/resolved\<close>.\<close>

definition requestResolved :: "(jsval \<Rightarrow> jstr) \<Rightarrow> RpcRequestId \<Rightarrow> interactions \<Rightarrow> interactions" where
  "requestResolved N resolved s =
     (let key = requestKey N resolved in
      case pendingOf s key of
        None \<Rightarrow> s
      | Some d \<Rightarrow>
          publishAll (deletePending key
            (if df_responding d then s
             else decline d (s\<lparr>ic_resolvedElsewhere := ic_resolvedElsewhere s + 1\<rparr>))))"

definition handleNotification :: "(jsval \<Rightarrow> jstr) \<Rightarrow> jsval \<Rightarrow> interactions \<Rightarrow> interactions" where
  "handleNotification N notification s =
     (case asRecord notification of
        None \<Rightarrow> s
      | Some record \<Rightarrow>
          if recordMethod record \<noteq> lit ''serverRequest/resolved'' then s
          else (case asRecord (field record ''params'') of
              None \<Rightarrow> s
            | Some params \<Rightarrow>
                (case requestIdOf [jprop ''id'' (field params ''requestId'')] of
                   None \<Rightarrow> s
                 | Some rid \<Rightarrow> requestResolved N rid s)))"

section \<open>Runs\<close>

datatype interaction_event =
    Asked int ServerRequest
  | Heard jsval
  | Answered jstr jsval
  | Disposed
  | ListenerAdded nat
  | ListenerRemoved nat

fun interactionStep :: "(jsval \<Rightarrow> jstr) \<Rightarrow> interaction_event \<Rightarrow> interactions \<Rightarrow> interactions" where
  "interactionStep N (Asked now request) s = snd (handleRequest N now request s)"
| "interactionStep N (Heard notification) s = handleNotification N notification s"
| "interactionStep N (Answered key response) s = snd (respond key response s)"
| "interactionStep N Disposed s = disposeInteractions s"
| "interactionStep N (ListenerAdded l) s = subscribeInteractions l s"
| "interactionStep N (ListenerRemoved l) s = unsubscribeInteractions l s"

definition interactionRun :: "(jsval \<Rightarrow> jstr) \<Rightarrow> interaction_event list \<Rightarrow> interactions \<Rightarrow> interactions" where
  "interactionRun N events s = fold (interactionStep N) events s"

end
