(* ===== verification/InteractionLaws.thy ===== *)
theory InteractionLaws
  imports Interaction
begin

text \<open>
  The invariant of the client of the server's requests, and where the answer of a promise comes from:
  the promise that a request was given is resolved with the refusal of that request, unless the user
  answered exactly this request before.
\<close>

section \<open>Fields\<close>

lemma publishAll_fields [simp]:
  "ic_pending (publishAll s) = ic_pending s" "ic_listeners (publishAll s) = ic_listeners s"
  "ic_snapshot (publishAll s) = snapshotOf s" "ic_disposed (publishAll s) = ic_disposed s"
  "ic_resolvedElsewhere (publishAll s) = ic_resolvedElsewhere s" "ic_failures (publishAll s) = ic_failures s"
  "ic_answers (publishAll s) = ic_answers s"
  by (simp_all add: publishAll_def)

lemma resolvePromise_fields [simp]:
  "ic_pending (resolvePromise p v s) = ic_pending s" "ic_listeners (resolvePromise p v s) = ic_listeners s"
  "ic_snapshot (resolvePromise p v s) = ic_snapshot s" "ic_disposed (resolvePromise p v s) = ic_disposed s"
  "ic_resolvedElsewhere (resolvePromise p v s) = ic_resolvedElsewhere s"
  "ic_failures (resolvePromise p v s) = ic_failures s"
  "length (ic_answers (resolvePromise p v s)) = length (ic_answers s)"
  by (simp_all add: resolvePromise_def)

lemma resolvePromise_answers:
  "i < length (ic_answers s) \<Longrightarrow> ic_answers (resolvePromise p v s) ! i =
     (if i = p \<and> ic_answers s ! i = None then Some v else ic_answers s ! i)"
  by (auto simp: resolvePromise_def nth_list_update)

lemma decline_fields [simp]:
  "ic_pending (decline d s) = ic_pending s" "ic_listeners (decline d s) = ic_listeners s"
  "ic_snapshot (decline d s) = ic_snapshot s" "ic_disposed (decline d s) = ic_disposed s"
  "ic_resolvedElsewhere (decline d s) = ic_resolvedElsewhere s" "ic_failures (decline d s) = ic_failures s"
  "length (ic_answers (decline d s)) = length (ic_answers s)"
  by (simp_all add: decline_def)

lemma decline_answers:
  "i < length (ic_answers s) \<Longrightarrow> ic_answers (decline d s) ! i =
     (if i = df_promise d \<and> ic_answers s ! i = None then Some (declineResponse (sr_method (df_request d)))
      else ic_answers s ! i)"
  by (simp add: decline_def resolvePromise_answers)

lemma deletePending_fields [simp]:
  "ic_pending (deletePending key s) = filter (\<lambda>entry. fst entry \<noteq> key) (ic_pending s)"
  "ic_listeners (deletePending key s) = ic_listeners s" "ic_disposed (deletePending key s) = ic_disposed s"
  "ic_failures (deletePending key s) = ic_failures s" "ic_answers (deletePending key s) = ic_answers s"
  by (simp_all add: deletePending_def)

lemma markResponding_fields [simp]:
  "ic_listeners (markResponding key s) = ic_listeners s" "ic_disposed (markResponding key s) = ic_disposed s"
  "ic_failures (markResponding key s) = ic_failures s" "ic_answers (markResponding key s) = ic_answers s"
  by (simp_all add: markResponding_def)

abbreviation declineAll :: "(jstr \<times> DeferredInteraction) list \<Rightarrow> interactions \<Rightarrow> interactions" where
  "declineAll entries s \<equiv> fold (\<lambda>entry. decline (snd entry)) entries s"

lemma declineAll_fields [simp]:
  "ic_disposed (declineAll entries s) = ic_disposed s"
  "length (ic_answers (declineAll entries s)) = length (ic_answers s)"
  by (induction entries arbitrary: s) simp_all

lemma declineAll_answered:
  "i < length (ic_answers s) \<Longrightarrow> ic_answers s ! i \<noteq> None \<Longrightarrow> ic_answers (declineAll entries s) ! i = ic_answers s ! i"
  by (induction entries arbitrary: s) (auto simp: decline_answers)

lemma declineAll_unanswered:
  assumes "i < length (ic_answers s)" and "ic_answers s ! i = None"
  shows "(\<exists>entry \<in> set entries. df_promise (snd entry) = i \<and>
      ic_answers (declineAll entries s) ! i = Some (declineResponse (sr_method (df_request (snd entry))))) \<or>
    (\<forall>entry \<in> set entries. df_promise (snd entry) \<noteq> i) \<and> ic_answers (declineAll entries s) ! i = None"
  using assms
proof (induction entries arbitrary: s)
  case (Cons entry entries)
  show ?case
  proof (cases "df_promise (snd entry) = i")
    case True
    then have "ic_answers (decline (snd entry) s) ! i = Some (declineResponse (sr_method (df_request (snd entry))))"
      using Cons.prems by (simp add: decline_answers)
    then show ?thesis using True Cons.prems declineAll_answered [of i "decline (snd entry) s" entries] by simp
  next
    case False
    then have "ic_answers (decline (snd entry) s) ! i = None" using Cons.prems by (simp add: decline_answers)
    then show ?thesis using False Cons.prems Cons.IH [of "decline (snd entry) s"] by auto
  qed
qed simp

section \<open>Invariant\<close>

definition promises :: "interactions \<Rightarrow> nat list" where
  "promises s = map (\<lambda>entry. df_promise (snd entry)) (ic_pending s)"

definition pendingEntry_ok :: "(jsval \<Rightarrow> jstr) \<Rightarrow> jsval option list \<Rightarrow> jstr \<times> DeferredInteraction \<Rightarrow> bool" where
  "pendingEntry_ok N answers entry \<longleftrightarrow> fst entry = requestKey N (sr_id (df_request (snd entry))) \<and>
     userFacing (sr_method (df_request (snd entry))) \<and> df_promise (snd entry) < length answers \<and>
     (df_responding (snd entry) \<longleftrightarrow> answers ! df_promise (snd entry) \<noteq> None)"

definition interactions_core :: "(jsval \<Rightarrow> jstr) \<Rightarrow> interactions \<Rightarrow> bool" where
  "interactions_core N s \<longleftrightarrow> distinct (map fst (ic_pending s)) \<and> distinct (promises s) \<and>
     list_all (pendingEntry_ok N (ic_answers s)) (ic_pending s) \<and>
     (\<forall>p < length (ic_answers s). ic_answers s ! p = None \<longrightarrow> p \<in> set (promises s)) \<and>
     (ic_disposed s \<longrightarrow> ic_pending s = [] \<and> ic_listeners s = []) \<and>
     length (ic_failures s) \<le> MAX_FAILURES"

definition interactions_ok :: "(jsval \<Rightarrow> jstr) \<Rightarrow> interactions \<Rightarrow> bool" where
  "interactions_ok N s \<longleftrightarrow> interactions_core N s \<and> (\<not> ic_disposed s \<longrightarrow> ic_snapshot s = snapshotOf s)"

lemma interactions_coreI:
  assumes "distinct (map fst (ic_pending s))" and "distinct (promises s)"
    and "\<And>entry. entry \<in> set (ic_pending s) \<Longrightarrow> pendingEntry_ok N (ic_answers s) entry"
    and "\<And>p. p < length (ic_answers s) \<Longrightarrow> ic_answers s ! p = None \<Longrightarrow> p \<in> set (promises s)"
    and "ic_disposed s \<Longrightarrow> ic_pending s = [] \<and> ic_listeners s = []"
    and "length (ic_failures s) \<le> MAX_FAILURES"
  shows "interactions_core N s"
  using assms by (auto simp: interactions_core_def list_all_iff)

lemma interactions_okD:
  assumes "interactions_ok N s"
  shows "distinct (map fst (ic_pending s))" "distinct (promises s)"
    "\<And>entry. entry \<in> set (ic_pending s) \<Longrightarrow> pendingEntry_ok N (ic_answers s) entry"
    "\<And>p. p < length (ic_answers s) \<Longrightarrow> ic_answers s ! p = None \<Longrightarrow> p \<in> set (promises s)"
    "ic_disposed s \<Longrightarrow> ic_pending s = [] \<and> ic_listeners s = []"
    "length (ic_failures s) \<le> MAX_FAILURES" "\<not> ic_disposed s \<Longrightarrow> ic_snapshot s = snapshotOf s"
  using assms by (auto simp: interactions_ok_def interactions_core_def list_all_iff)

lemma publish_ok: "interactions_core N s \<Longrightarrow> interactions_ok N (publishAll s)"
  by (simp add: interactions_ok_def interactions_core_def promises_def snapshotOf_def)

lemma newInteractions_ok: "interactions_ok N newInteractions"
  by (simp add: interactions_ok_def interactions_core_def newInteractions_def promises_def EMPTY_SNAPSHOT_def snapshotOf_def)

text \<open>Entries that have the promise of another one are that one.\<close>

lemma same_promise:
  assumes "interactions_ok N s" and "entry \<in> set (ic_pending s)" and "entry' \<in> set (ic_pending s)"
    and "df_promise (snd entry) = df_promise (snd entry')"
  shows "entry = entry'"
  using interactions_okD(2) [OF assms(1)] assms(2-4) by (auto simp: promises_def distinct_map inj_on_def)

lemma pendingOf_iff:
  assumes "interactions_ok N s"
  shows "pendingOf s key = Some d \<longleftrightarrow> (key, d) \<in> set (ic_pending s)"
  using interactions_okD(1) [OF assms] by (simp add: pendingOf_def)

lemma unanswered_pending:
  assumes "interactions_ok N s" and "p < length (ic_answers s)" and "ic_answers s ! p = None"
  obtains d where "(requestKey N (sr_id (df_request d)), d) \<in> set (ic_pending s)" "df_promise d = p"
proof -
  obtain entry where "entry \<in> set (ic_pending s)" "df_promise (snd entry) = p"
    using interactions_okD(4) [OF assms] by (auto simp: promises_def)
  moreover then have "fst entry = requestKey N (sr_id (df_request (snd entry)))"
    using interactions_okD(3) [OF assms(1)] by (simp add: pendingEntry_ok_def)
  ultimately show thesis by (intro that [of "snd entry"]) (metis prod.collapse, simp)
qed

section \<open>Every operation keeps the invariant\<close>

text \<open>Taking the entry of a key away once its promise is answered.\<close>

lemma delete_core:
  assumes ok: "interactions_ok N s" and mem: "(key, d) \<in> set (ic_pending s)"
    and s': "ic_pending s' = filter (\<lambda>entry. fst entry \<noteq> key) (ic_pending s)" "ic_disposed s' = ic_disposed s"
      "ic_listeners s' = ic_listeners s" "ic_failures s' = ic_failures s"
      "length (ic_answers s') = length (ic_answers s)"
      "\<And>p. p < length (ic_answers s) \<Longrightarrow> p \<noteq> df_promise d \<Longrightarrow> ic_answers s' ! p = ic_answers s ! p"
      "ic_answers s' ! df_promise d \<noteq> None"
  shows "interactions_core N s'"
proof (rule interactions_coreI)
  note D = interactions_okD [OF ok]
  have other: "df_promise (snd entry) \<noteq> df_promise d" if "entry \<in> set (ic_pending s)" "fst entry \<noteq> key" for entry
    using same_promise [OF ok that(1) mem] that(2) by auto
  show "distinct (map fst (ic_pending s'))" using D(1) s'(1) by (simp add: distinct_map_filter)
  show "distinct (promises s')" using D(2) s'(1) by (simp add: promises_def distinct_map_filter)
  show "pendingEntry_ok N (ic_answers s') entry" if "entry \<in> set (ic_pending s')" for entry
    using D(3) [of entry] that other [of entry] s'(1,5,6) by (auto simp: pendingEntry_ok_def)
  show "p \<in> set (promises s')" if p: "p < length (ic_answers s')" "ic_answers s' ! p = None" for p
  proof -
    have "p \<noteq> df_promise d" using p s'(7) by auto
    then have "ic_answers s ! p = None" using p s'(5) s'(6) [of p] by auto
    then obtain entry where entry: "entry \<in> set (ic_pending s)" "df_promise (snd entry) = p"
      using D(4) [of p] p(1) s'(5) by (auto simp: promises_def)
    have "fst entry \<noteq> key"
    proof
      assume "fst entry = key"
      then have "snd entry = d" using D(1) entry(1) mem by (cases entry) (auto dest: eq_key_imp_eq_value)
      then show False using entry(2) \<open>p \<noteq> df_promise d\<close> by simp
    qed
    then show ?thesis using entry s'(1) by (auto simp: promises_def)
  qed
  show "ic_disposed s' \<Longrightarrow> ic_pending s' = [] \<and> ic_listeners s' = []" using D(5) s' by simp
  show "length (ic_failures s') \<le> MAX_FAILURES" using D(6) s' by simp
qed

lemma decline_deleted_core:
  assumes "interactions_ok N s" and "(key, d) \<in> set (ic_pending s)"
  shows "interactions_core N (deletePending key (decline d s))"
  using interactions_okD(3) [OF assms] by (intro delete_core [OF assms]) (simp_all add: decline_answers pendingEntry_ok_def)

text \<open>A new entry for a key that is free, with a promise of its own.\<close>

lemma add_ok:
  assumes core: "interactions_core N s" and free: "requestKey N (sr_id q) \<notin> fst ` set (ic_pending s)"
    and facing: "userFacing (sr_method q)" and active: "\<not> ic_disposed s"
  shows "interactions_ok N (publishAll (s\<lparr>ic_answers := ic_answers s @ [None], ic_pending := ic_pending s @
    [(requestKey N (sr_id q), \<lparr>df_request = q, df_promise = length (ic_answers s), df_responding = False\<rparr>)]\<rparr>))"
    (is "interactions_ok N (publishAll ?s)")
proof (intro publish_ok interactions_coreI)
  have old: "pendingEntry_ok N (ic_answers s) entry" if "entry \<in> set (ic_pending s)" for entry
    using core that by (simp add: interactions_core_def list_all_iff)
  then have small: "df_promise (snd entry) < length (ic_answers s)" if "entry \<in> set (ic_pending s)" for entry
    using that by (auto simp: pendingEntry_ok_def)
  show "distinct (map fst (ic_pending ?s))" using core free by (simp add: interactions_core_def)
  show "distinct (promises ?s)" using core small by (fastforce simp: interactions_core_def promises_def)
  show "pendingEntry_ok N (ic_answers ?s) entry" if "entry \<in> set (ic_pending ?s)" for entry
    using that old [of entry] facing by (auto simp: pendingEntry_ok_def nth_append)
  show "p \<in> set (promises ?s)" if "p < length (ic_answers ?s)" "ic_answers ?s ! p = None" for p
    using that core by (cases "p = length (ic_answers s)") (auto simp: interactions_core_def promises_def nth_append)
  show "ic_disposed ?s \<Longrightarrow> ic_pending ?s = [] \<and> ic_listeners ?s = []" using active by simp
  show "length (ic_failures ?s) \<le> MAX_FAILURES" using core by (simp add: interactions_core_def)
qed

lemma answered_promise_ok: "interactions_ok N s \<Longrightarrow> interactions_ok N (s\<lparr>ic_answers := ic_answers s @ [Some v]\<rparr>)"
  by (auto simp: interactions_ok_def interactions_core_def promises_def snapshotOf_def list_all_iff pendingEntry_ok_def nth_append less_Suc_eq)

text \<open>\<open>enqueue\<close> frees the key and adds the request.\<close>

definition freeKey :: "jstr \<Rightarrow> interactions \<Rightarrow> interactions" where
  "freeKey key s = (case pendingOf s key of None \<Rightarrow> s | Some d \<Rightarrow> deletePending key (decline d s))"

lemma enqueue_cases:
  obtains (disposed) "ic_disposed s" "enqueue N q s = (Promised (length (ic_answers s)),
      s\<lparr>ic_answers := ic_answers s @ [Some (declineResponse (sr_method q))]\<rparr>)"
  | (active) s1 where "\<not> ic_disposed s" "s1 = freeKey (requestKey N (sr_id q)) s"
      "enqueue N q s = (Promised (length (ic_answers s1)), publishAll (s1\<lparr>ic_answers := ic_answers s1 @ [None],
         ic_pending := ic_pending s1 @ [(requestKey N (sr_id q),
           \<lparr>df_request = q, df_promise = length (ic_answers s1), df_responding = False\<rparr>)]\<rparr>))"
  by (cases "ic_disposed s") (simp_all add: enqueue_def newPromise_def Let_def freeKey_def)

lemma freeKey_fields [simp]:
  "ic_disposed (freeKey key s) = ic_disposed s"
  "length (ic_answers (freeKey key s)) = length (ic_answers s)"
  by (simp_all add: freeKey_def split: option.split)

lemma freeKey_core:
  assumes "interactions_ok N s"
  shows "interactions_core N (freeKey key s)" and "key \<notin> fst ` set (ic_pending (freeKey key s))"
proof -
  show "interactions_core N (freeKey key s)"
    using assms decline_deleted_core [OF assms] pendingOf_iff [OF assms]
    by (auto simp: freeKey_def interactions_ok_def split: option.split)
  show "key \<notin> fst ` set (ic_pending (freeKey key s))"
    by (auto simp: freeKey_def pendingOf_def map_of_eq_None_iff split: option.split)
qed

lemma enqueue_ok:
  assumes ok: "interactions_ok N s" and "userFacing (sr_method q)"
  shows "interactions_ok N (snd (enqueue N q s))"
proof (cases rule: enqueue_cases [of s N q])
  case disposed
  then show ?thesis using answered_promise_ok [OF ok] by simp
next
  case (active s1)
  then show ?thesis using add_ok [of N s1 q] freeKey_core [OF ok] assms(2) by simp
qed

lemma rejectUnsupported_ok:
  "interactions_ok N s \<Longrightarrow> interactions_ok N (snd (rejectUnsupported N q reason threadId s))"
  unfolding rejectUnsupported_def snd_conv
  by (rule publish_ok) (simp add: interactions_ok_def interactions_core_def promises_def)

lemma handleRequest_cases:
  obtains (time) "sr_method q = CurrentTimeRead"
      "handleRequest N now q s = (Immediate (JObj [jprop ''currentTimeAt'' (JInt (now div 1000))]), s)"
  | (unsupported) reason threadId where "handleRequest N now q s = rejectUnsupported N q reason threadId s"
  | (user) "userFacing (sr_method q)" "handleRequest N now q s = enqueue N q s"
  by (cases "sr_method q") (auto simp: handleRequest_def userFacing_def USER_FACING_METHODS_def)

lemma handleRequest_ok: "interactions_ok N s \<Longrightarrow> interactions_ok N (snd (handleRequest N now q s))"
  by (cases rule: handleRequest_cases [of q N now s]) (simp_all add: rejectUnsupported_ok enqueue_ok)

lemma respond_cases:
  obtains (refused) "respond key v s = (False, s)" "\<And>d. pendingOf s key = Some d \<Longrightarrow> df_responding d \<or> ic_disposed s"
  | (accepted) d where "pendingOf s key = Some d" "\<not> df_responding d" "\<not> ic_disposed s"
      "respond key v s = (True, publishAll (resolvePromise (df_promise d) v (markResponding key s)))"
proof (cases "pendingOf s key")
  case None
  then show thesis by (intro refused) (simp_all add: respond_def)
next
  case (Some d)
  show thesis
  proof (cases "df_responding d \<or> ic_disposed s")
    case True
    with Some show thesis by (intro refused) (simp_all add: respond_def)
  next
    case False
    with Some show thesis by (intro accepted [of d]) (simp_all add: respond_def)
  qed
qed

lemma respond_ok:
  assumes ok: "interactions_ok N s"
  shows "interactions_ok N (snd (respond key v s))"
proof (cases rule: respond_cases [of key v s])
  case refused
  then show ?thesis using ok by simp
next
  case (accepted d)
  note D = interactions_okD [OF ok]
  let ?s = "resolvePromise (df_promise d) v (markResponding key s)"
  have mem: "(key, d) \<in> set (ic_pending s)" using accepted(1) pendingOf_iff [OF ok] by simp
  have pending: "ic_pending ?s = map (\<lambda>(k, e). if k = key then (k, e\<lparr>df_responding := True\<rparr>) else (k, e)) (ic_pending s)"
    by (simp add: markResponding_def)
  have "df_promise d < length (ic_answers s)" using D(3) [OF mem] by (simp add: pendingEntry_ok_def)
  then have answered: "ic_answers ?s ! df_promise d \<noteq> None" by (simp add: resolvePromise_answers)
  have same: "ic_answers ?s ! p = ic_answers s ! p" if "p < length (ic_answers s)" "p \<noteq> df_promise d" for p
    using that by (simp add: resolvePromise_answers)
  have promises: "promises ?s = promises s"
    unfolding promises_def pending by (simp add: comp_def case_prod_beta if_distrib cong: if_cong)
  have "interactions_core N ?s"
  proof (rule interactions_coreI)
    show "distinct (map fst (ic_pending ?s))" using D(1) unfolding pending
      by (simp add: comp_def case_prod_beta if_distrib cong: if_cong)
    show "distinct (promises ?s)" using D(2) promises by simp
    show "p \<in> set (promises ?s)" if "p < length (ic_answers ?s)" "ic_answers ?s ! p = None" for p
      using that answered same [of p] D(4) [of p] promises by (cases "p = df_promise d") auto
    show "pendingEntry_ok N (ic_answers ?s) entry" if entry: "entry \<in> set (ic_pending ?s)" for entry
    proof -
      obtain k e where e: "(k, e) \<in> set (ic_pending s)"
          "entry = (if k = key then (k, e\<lparr>df_responding := True\<rparr>) else (k, e))"
        using entry unfolding pending by auto
      have "k = key \<longleftrightarrow> df_promise e = df_promise d"
        using same_promise [OF ok e(1) mem] D(1) e(1) mem by (auto dest: eq_key_imp_eq_value)
      then show ?thesis using D(3) [OF e(1)] e(2) answered same [of "df_promise e"] by (auto simp: pendingEntry_ok_def)
    qed
  qed (use D(6) accepted(3) in simp_all)
  then show ?thesis using accepted(4) by (simp add: publish_ok)
qed

lemma requestResolved_cases:
  obtains (unknown) "requestResolved N rid s = s"
  | (answered) d where "pendingOf s (requestKey N rid) = Some d" "df_responding d"
      "requestResolved N rid s = publishAll (deletePending (requestKey N rid) s)"
  | (elsewhere) d where "pendingOf s (requestKey N rid) = Some d" "\<not> df_responding d"
      "requestResolved N rid s = publishAll (deletePending (requestKey N rid)
         (decline d (s\<lparr>ic_resolvedElsewhere := ic_resolvedElsewhere s + 1\<rparr>)))"
proof (cases "pendingOf s (requestKey N rid)")
  case None
  then show thesis by (intro unknown) (simp add: requestResolved_def Let_def)
next
  case (Some d)
  then show thesis
    by (cases "df_responding d") (auto simp: requestResolved_def Let_def intro: answered [of d] elsewhere [of d])
qed

lemma requestResolved_ok:
  assumes ok: "interactions_ok N s"
  shows "interactions_ok N (requestResolved N rid s)"
proof (cases rule: requestResolved_cases [of N rid s])
  case unknown
  then show ?thesis using ok by simp
next
  case (answered d)
  then have mem: "(requestKey N rid, d) \<in> set (ic_pending s)" using pendingOf_iff [OF ok] by simp
  have "interactions_core N (deletePending (requestKey N rid) s)"
    using interactions_okD(3) [OF ok mem] answered(2) by (intro delete_core [OF ok mem]) (simp_all add: pendingEntry_ok_def)
  then show ?thesis using answered by (simp add: publish_ok)
next
  case (elsewhere d)
  then have mem: "(requestKey N rid, d) \<in> set (ic_pending s)" using pendingOf_iff [OF ok] by simp
  have "interactions_core N (deletePending (requestKey N rid) (decline d (s\<lparr>ic_resolvedElsewhere := ic_resolvedElsewhere s + 1\<rparr>)))"
    using interactions_okD(3) [OF ok mem] by (intro delete_core [OF ok mem]) (simp_all add: decline_answers pendingEntry_ok_def)
  then show ?thesis using elsewhere by (simp add: publish_ok)
qed

text \<open>What a notification does is what \<open>serverRequest/resolved\<close> does, or nothing.\<close>

lemma handleNotification_cases:
  "handleNotification N v s = s \<or> (\<exists>rid. handleNotification N v s = requestResolved N rid s)"
  unfolding handleNotification_def by (simp split: option.split) blast

lemma handleNotification_ok: "interactions_ok N s \<Longrightarrow> interactions_ok N (handleNotification N v s)"
  using handleNotification_cases [of N v s] requestResolved_ok [of N s] by metis

lemma disposed_answers:
  assumes "interactions_ok N s" and "p < length (ic_answers s)"
  shows "ic_answers (declineAll (ic_pending s) (s\<lparr>ic_disposed := True\<rparr>)) ! p \<noteq> None"
proof (cases "ic_answers s ! p")
  case None
  then show ?thesis
    using interactions_okD(4) [OF assms] assms(2) declineAll_unanswered [of p "s\<lparr>ic_disposed := True\<rparr>" "ic_pending s"]
    by (auto simp: promises_def)
next
  case (Some v)
  then show ?thesis using assms(2) declineAll_answered [of p "s\<lparr>ic_disposed := True\<rparr>" "ic_pending s"] by simp
qed

lemma disposeInteractions_ok:
  assumes ok: "interactions_ok N s"
  shows "interactions_ok N (disposeInteractions s)"
  using ok disposed_answers [OF ok]
  by (auto simp: disposeInteractions_def interactions_ok_def interactions_core_def promises_def MAX_FAILURES_def)

lemma listeners_ok:
  "interactions_ok N s \<Longrightarrow> interactions_ok N (subscribeInteractions l s)"
  "interactions_ok N s \<Longrightarrow> interactions_ok N (unsubscribeInteractions l s)"
  by (auto simp: subscribeInteractions_def unsubscribeInteractions_def interactions_ok_def interactions_core_def
      promises_def snapshotOf_def)

lemma interactionStep_ok: "interactions_ok N s \<Longrightarrow> interactions_ok N (interactionStep N ev s)"
  by (cases ev) (simp_all add: handleRequest_ok handleNotification_ok respond_ok disposeInteractions_ok listeners_ok)

lemma interactionRun_ok: "interactions_ok N s \<Longrightarrow> interactions_ok N (interactionRun N events s)"
  unfolding interactionRun_def by (induction events arbitrary: s) (simp_all add: interactionStep_ok)

section \<open>Where an answer comes from\<close>

text \<open>A decided promise keeps its value.\<close>

definition keepsAnswers :: "interactions \<Rightarrow> interactions \<Rightarrow> bool" where
  "keepsAnswers s s' \<longleftrightarrow> length (ic_answers s) \<le> length (ic_answers s') \<and>
     (\<forall>p < length (ic_answers s). ic_answers s ! p \<noteq> None \<longrightarrow> ic_answers s' ! p = ic_answers s ! p)"

lemma keepsAnswers_same [simp]: "ic_answers s' = ic_answers s \<Longrightarrow> keepsAnswers s s'"
  by (simp add: keepsAnswers_def)

lemma keepsAnswers_trans: "keepsAnswers s t \<Longrightarrow> keepsAnswers t u \<Longrightarrow> keepsAnswers s u"
  by (auto simp: keepsAnswers_def)

lemma keepsAnswers_append [simp]: "ic_answers s' = ic_answers s @ extra \<Longrightarrow> keepsAnswers s s'"
  by (simp add: keepsAnswers_def nth_append)

lemma keepsAnswers_resolve [simp]:
  "ic_answers s' = ic_answers (resolvePromise p v t) \<Longrightarrow> ic_answers t = ic_answers s \<Longrightarrow> keepsAnswers s s'"
  "ic_answers s' = ic_answers (decline d t) \<Longrightarrow> ic_answers t = ic_answers s \<Longrightarrow> keepsAnswers s s'"
  by (auto simp: keepsAnswers_def resolvePromise_answers decline_answers)

lemma freeKey_keeps: "keepsAnswers s (freeKey key s)"
  by (auto simp: freeKey_def split: option.split)

lemma handleRequest_keeps: "keepsAnswers s (snd (handleRequest N now q s))"
proof (cases rule: handleRequest_cases [of q N now s])
  case user
  show ?thesis
  proof (cases rule: enqueue_cases [of s N q])
    case (active s1)
    have "keepsAnswers s1 (snd (enqueue N q s))" using active(3) by simp
    then show ?thesis using user active(2) keepsAnswers_trans [OF freeKey_keeps] by simp
  qed (use user in simp)
qed (simp_all add: rejectUnsupported_def)

lemma interactionStep_keeps: "keepsAnswers s (interactionStep N ev s)"
proof (cases ev)
  case (Asked now q)
  then show ?thesis by (simp add: handleRequest_keeps)
next
  case (Heard v)
  have "keepsAnswers s (requestResolved N rid s)" for rid
    by (cases rule: requestResolved_cases [of N rid s]) simp_all
  then show ?thesis using Heard handleNotification_cases [of N v s] by (metis interactionStep.simps(2) keepsAnswers_same)
next
  case (Answered key v)
  then show ?thesis by (cases rule: respond_cases [of key v s]) simp_all
next
  case Disposed
  then show ?thesis by (simp add: disposeInteractions_def keepsAnswers_def declineAll_answered)
qed (simp_all add: subscribeInteractions_def unsubscribeInteractions_def)

lemma interactionRun_keeps: "keepsAnswers s (interactionRun N events s)"
proof (induction events arbitrary: s)
  case (Cons ev events)
  from keepsAnswers_trans [OF interactionStep_keeps Cons.IH] show ?case by (simp add: interactionRun_def)
qed (simp add: interactionRun_def)

text \<open>
  What one step does to a promise that is still open: it stays open and its entry stays, or it is
  resolved with the refusal of its request, or the user answers it.
\<close>

definition openEntry :: "interactions \<Rightarrow> jstr \<times> DeferredInteraction \<Rightarrow> bool" where
  "openEntry s entry \<longleftrightarrow> entry \<in> set (ic_pending s) \<and> df_promise (snd entry) < length (ic_answers s) \<and>
     ic_answers s ! df_promise (snd entry) = None"

definition refusal :: "DeferredInteraction \<Rightarrow> jsval" where
  "refusal d = declineResponse (sr_method (df_request d))"

definition decidedBy :: "(jstr \<Rightarrow> jsval \<Rightarrow> bool) \<Rightarrow> jstr \<times> DeferredInteraction \<Rightarrow> interactions \<Rightarrow> bool" where
  "decidedBy user entry s' \<longleftrightarrow> openEntry s' entry \<or>
     df_promise (snd entry) < length (ic_answers s') \<and>
     (\<exists>v. ic_answers s' ! df_promise (snd entry) = Some v \<and> (v = refusal (snd entry) \<or> user (fst entry) v))"

lemma openEntry_ok: "interactions_ok N s \<Longrightarrow> openEntry s entry \<Longrightarrow> \<not> df_responding (snd entry)"
  using interactions_okD(3) [of N s entry] by (auto simp: openEntry_def pendingEntry_ok_def)

text \<open>Refusing one entry decides that one and leaves every other open.\<close>

lemma refuse_decides:
  assumes ok: "interactions_ok N s" and entry: "openEntry s entry" and mem: "(key, d) \<in> set (ic_pending s)"
    and s': "ic_pending s' = filter (\<lambda>e. fst e \<noteq> key) (ic_pending s)" "ic_answers s' = ic_answers (decline d t)"
      "ic_answers t = ic_answers s"
  shows "decidedBy user entry s'"
proof (cases "entry = (key, d)")
  case True
  then show ?thesis using entry s' by (simp add: decidedBy_def openEntry_def decline_answers refusal_def)
next
  case False
  have "df_promise (snd entry) \<noteq> df_promise d" using same_promise [OF ok, of entry "(key, d)"] entry mem False by (auto simp: openEntry_def)
  moreover have "fst entry \<noteq> key"
    using interactions_okD(1) [OF ok] entry mem False by (cases entry) (auto simp: openEntry_def dest: eq_key_imp_eq_value)
  ultimately show ?thesis using entry s' by (simp add: decidedBy_def openEntry_def decline_answers)
qed

lemma openEntry_mono:
  "openEntry s entry \<Longrightarrow> entry \<in> set (ic_pending s') \<Longrightarrow> ic_answers s' = ic_answers s @ extra \<Longrightarrow> openEntry s' entry"
  by (simp add: openEntry_def nth_append)

lemma freeKey_decides:
  assumes "interactions_ok N s" and "openEntry s entry"
  shows "decidedBy user entry (freeKey key s)"
proof (cases "pendingOf s key")
  case None
  then show ?thesis using assms(2) by (simp add: freeKey_def decidedBy_def)
next
  case (Some d)
  then have "(key, d) \<in> set (ic_pending s)" using pendingOf_iff [OF assms(1)] by simp
  then show ?thesis using Some by (intro refuse_decides [OF assms]) (simp_all add: freeKey_def)
qed

lemma decidedBy_more:
  assumes "decidedBy user entry s" and "set (ic_pending s) \<subseteq> set (ic_pending s')" and "ic_answers s' = ic_answers s @ extra"
  shows "decidedBy user entry s'"
  using assms openEntry_mono [of s entry s' extra] by (auto simp: decidedBy_def nth_append openEntry_def)

lemma handleRequest_decides:
  assumes ok: "interactions_ok N s" and entry: "openEntry s entry"
  shows "decidedBy user entry (snd (handleRequest N now q s))"
proof (cases rule: handleRequest_cases [of q N now s])
  case user
  show ?thesis
  proof (cases rule: enqueue_cases [of s N q])
    case disposed
    then show ?thesis using interactions_okD(5) [OF ok] entry by (simp add: openEntry_def)
  next
    case (active s1)
    have "decidedBy user entry s1" unfolding active(2) by (rule freeKey_decides [OF ok entry])
    then show ?thesis unfolding user(2) active(3) snd_conv by (rule decidedBy_more) auto
  qed
next
  case time
  then show ?thesis using entry by (simp add: decidedBy_def)
next
  case (unsupported reason threadId)
  then show ?thesis using entry by (simp add: decidedBy_def openEntry_def rejectUnsupported_def)
qed

lemma requestResolved_decides:
  assumes ok: "interactions_ok N s" and entry: "openEntry s entry"
  shows "decidedBy user entry (requestResolved N rid s)"
proof (cases rule: requestResolved_cases [of N rid s])
  case unknown
  then show ?thesis using entry by (simp add: decidedBy_def)
next
  case (answered d)
  then have "(requestKey N rid, d) \<in> set (ic_pending s)" using pendingOf_iff [OF ok] by simp
  then have "fst entry \<noteq> requestKey N rid"
    using interactions_okD(1) [OF ok] entry openEntry_ok [OF ok entry] answered(2)
    by (cases entry) (auto simp: openEntry_def dest: eq_key_imp_eq_value)
  then show ?thesis using entry answered(3) by (simp add: decidedBy_def openEntry_def)
next
  case (elsewhere d)
  then have mem: "(requestKey N rid, d) \<in> set (ic_pending s)" using pendingOf_iff [OF ok] by simp
  show ?thesis unfolding elsewhere(3)
    by (rule refuse_decides [OF ok entry mem, where t = "s\<lparr>ic_resolvedElsewhere := ic_resolvedElsewhere s + 1\<rparr>"]) simp_all
qed

lemma dispose_decides:
  assumes ok: "interactions_ok N s" and entry: "openEntry s entry"
  shows "decidedBy user entry (disposeInteractions s)"
proof -
  have active: "\<not> ic_disposed s" using interactions_okD(5) [OF ok] entry by (auto simp: openEntry_def)
  have "e = entry" if "e \<in> set (ic_pending s)" "df_promise (snd e) = df_promise (snd entry)" for e
    using same_promise [OF ok that(1)] entry that(2) by (auto simp: openEntry_def)
  then have "ic_answers (declineAll (ic_pending s) (s\<lparr>ic_disposed := True\<rparr>)) ! df_promise (snd entry) = Some (refusal (snd entry))"
    using declineAll_unanswered [of "df_promise (snd entry)" "s\<lparr>ic_disposed := True\<rparr>" "ic_pending s"] entry
    by (auto simp: openEntry_def refusal_def)
  then show ?thesis using active entry by (simp add: decidedBy_def disposeInteractions_def openEntry_def)
qed

lemma respond_decides:
  assumes ok: "interactions_ok N s" and entry: "openEntry s entry"
  shows "decidedBy (\<lambda>k w. k = key \<and> w = v \<and> fst (respond key v s)) entry (snd (respond key v s))"
proof (cases rule: respond_cases [of key v s])
  case refused
  then show ?thesis using entry by (simp add: decidedBy_def)
next
  case (accepted d)
  then have mem: "(key, d) \<in> set (ic_pending s)" using pendingOf_iff [OF ok] by simp
  show ?thesis
  proof (cases "entry = (key, d)")
    case True
    then show ?thesis using entry accepted(4) by (simp add: decidedBy_def openEntry_def resolvePromise_answers)
  next
    case False
    have "df_promise (snd entry) \<noteq> df_promise d"
      using same_promise [OF ok, of entry "(key, d)"] entry mem False by (auto simp: openEntry_def)
    moreover have "fst entry \<noteq> key"
      using interactions_okD(1) [OF ok] entry mem False by (cases entry) (auto simp: openEntry_def dest: eq_key_imp_eq_value)
    moreover have "entry \<in> set (ic_pending (markResponding key s))"
      using entry \<open>fst entry \<noteq> key\<close> by (cases entry) (force simp: openEntry_def markResponding_def)
    ultimately show ?thesis using entry accepted(4) by (simp add: decidedBy_def openEntry_def resolvePromise_answers)
  qed
qed

lemma interactionStep_decides:
  assumes ok: "interactions_ok N s" and entry: "openEntry s entry"
  shows "decidedBy (\<lambda>key v. ev = Answered key v \<and> fst (respond key v s)) entry (interactionStep N ev s)"
proof (cases ev)
  case (Asked now q)
  then show ?thesis using handleRequest_decides [OF ok entry] by simp
next
  case (Heard v)
  from handleNotification_cases [of N v s] show ?thesis
  proof
    assume "handleNotification N v s = s"
    then show ?thesis using Heard entry by (simp add: decidedBy_def)
  next
    assume "\<exists>rid. handleNotification N v s = requestResolved N rid s"
    then show ?thesis using Heard requestResolved_decides [OF ok entry] by auto
  qed
next
  case (Answered key v)
  then show ?thesis using respond_decides [OF ok entry, of key v] by (auto simp: decidedBy_def)
next
  case Disposed
  then show ?thesis using dispose_decides [OF ok entry] by simp
next
  case (ListenerAdded l)
  then show ?thesis using entry by (simp add: decidedBy_def openEntry_def subscribeInteractions_def)
next
  case (ListenerRemoved l)
  then show ?thesis using entry by (simp add: decidedBy_def openEntry_def unsubscribeInteractions_def)
qed

lemma interactionRun_snoc: "interactionRun N (events @ [ev]) s = interactionStep N ev (interactionRun N events s)"
  by (simp add: interactionRun_def)

text \<open>The user's answer of an entry that was open at the time, among the events of a run.\<close>

definition givenByUser ::
  "(jsval \<Rightarrow> jstr) \<Rightarrow> interactions \<Rightarrow> interaction_event list \<Rightarrow> jstr \<times> DeferredInteraction \<Rightarrow> jsval \<Rightarrow> bool" where
  "givenByUser N s events entry v \<longleftrightarrow> (\<exists>before after. events = before @ Answered (fst entry) v # after \<and>
     openEntry (interactionRun N before s) entry \<and> fst (respond (fst entry) v (interactionRun N before s)))"

lemma givenByUser_more: "givenByUser N s events entry v \<Longrightarrow> givenByUser N s (events @ extra) entry v"
  unfolding givenByUser_def by fastforce

lemma interactionRun_decides:
  assumes ok: "interactions_ok N s" and entry: "openEntry s entry"
  shows "decidedBy (\<lambda>key v. givenByUser N s events entry v) entry (interactionRun N events s)"
proof (induction events rule: rev_induct)
  case Nil
  then show ?case using entry by (simp add: decidedBy_def interactionRun_def)
next
  case (snoc ev events)
  let ?t = "interactionRun N events s" and ?p = "df_promise (snd entry)"
  have okt: "interactions_ok N ?t" using ok by (rule interactionRun_ok)
  show ?case
  proof (cases "openEntry ?t entry")
    case True
    have "givenByUser N s (events @ [ev]) entry v" if "ev = Answered (fst entry) v" "fst (respond (fst entry) v ?t)" for v
      using that True unfolding givenByUser_def by fastforce
    then show ?thesis using interactionStep_decides [OF okt True, of ev]
      unfolding interactionRun_snoc decidedBy_def by blast
  next
    case False
    then obtain v where v: "?p < length (ic_answers ?t)" "ic_answers ?t ! ?p = Some v"
        "v = refusal (snd entry) \<or> givenByUser N s events entry v"
      using snoc by (auto simp: decidedBy_def)
    have "ic_answers (interactionStep N ev ?t) ! ?p = Some v" "?p < length (ic_answers (interactionStep N ev ?t))"
      using interactionStep_keeps [of ?t N ev] v(1,2) by (auto simp: keepsAnswers_def)
    then show ?thesis using v(3) givenByUser_more [of N s events entry v "[ev]"]
      unfolding interactionRun_snoc decidedBy_def by blast
  qed
qed

end
