(* ===== verification/RpcHandlers.thy ===== *)
theory RpcHandlers
  imports RpcSteps
begin

text \<open>
  How the router uses the handlers of the server's requests. \<open>calm r r'\<close> relates the states before and
  after code that calls no such handler and writes no result; a step of the router that is not calm
  calls one handler with a validated request, or is the one that resumes such a handler.
\<close>

fun handlerTask :: "task \<Rightarrow> bool" where
  "handlerTask (TServerHandler e rid method) \<longleftrightarrow> True"
| "handlerTask _ \<longleftrightarrow> False"

fun calmEffect :: "rpc_effect \<Rightarrow> bool" where
  "calmEffect (HandlerCalled h v) \<longleftrightarrow> False"
| "calmEffect (Wrote e (WireResult rid v)) \<longleftrightarrow> False"
| "calmEffect _ \<longleftrightarrow> True"

definition calm :: "router \<Rightarrow> router \<Rightarrow> bool" where
  "calm r r' \<longleftrightarrow> rt_nextTask r \<le> rt_nextTask r' \<and> (\<exists>ws. rt_log r' = rt_log r @ ws \<and> list_all calmEffect ws) \<and>
     (\<forall>it \<in> set (rt_tasks r'). handlerTask (snd it) \<longrightarrow> it \<in> set (rt_tasks r))"

named_theorems calming \<open>code that calls no handler of the server's requests\<close>

lemma calm_refl [calming, simp]: "calm r r"
  by (simp add: calm_def)

lemma calm_trans: "calm r s \<Longrightarrow> calm s t \<Longrightarrow> calm r t"
  unfolding calm_def by (metis append.assoc le_trans list_all_append)

lemma calm_same:
  assumes "calm s r" and "rt_log r' = rt_log r @ ws" and "list_all calmEffect ws" and "rt_nextTask r \<le> rt_nextTask r'"
    and "\<And>it. it \<in> set (rt_tasks r') \<Longrightarrow> handlerTask (snd it) \<Longrightarrow> it \<in> set (rt_tasks r)"
  shows "calm s r'"
  by (rule calm_trans [OF assms(1)]) (use assms(2-5) in \<open>auto simp: calm_def\<close>)

lemma calm_frame [calming]:
  assumes "calm s r"
  shows "calm s (bumpCount f r)" "calm s (registerServerRequestHandler m h r)"
    "calm s (unregisterServerRequestHandler m h r)" "calm s (subscribeNotifications h r)"
    "calm s (unsubscribeNotifications h r)" "calm s (setConnection c r)" "calm s (r\<lparr>rt_connection := cn\<rparr>)"
    "calm s (r\<lparr>rt_epochSequence := n\<rparr>)"
  by (rule calm_same [OF assms, where ws = "[]"];
      simp add: bumpCount_def registerServerRequestHandler_def unregisterServerRequestHandler_def
        subscribeNotifications_def unsubscribeNotifications_def setConnection_def split: if_split_asm)+

lemma calm_logEffect [calming]: "calm s r \<Longrightarrow> calmEffect x \<Longrightarrow> calm s (logEffect x r)"
  by (rule calm_same [where r = r and ws = "[x]"]) (simp_all add: logEffect_def)

lemma calm_emit [calming]: "calm s r \<Longrightarrow> calm s (emit d r)"
  by (simp add: emit_def calming)

lemma calm_rejectAll [calming]: "calm s r \<Longrightarrow> calm s (rejectAll g c r)"
  by (rule calm_same [where r = r and ws = "map (\<lambda>(rid, q). Rejected rid (g q)) (cn_requests c)"])
    (auto simp: rejectAll_def list_all_iff)

lemma calm_addTask [calming]: "calm s r \<Longrightarrow> \<not> handlerTask t \<Longrightarrow> calm s (addTask t r)"
  by (rule calm_same [where r = r and ws = "[]"]) (auto simp: addTask_def)

lemma calm_resolve [calming]:
  "calm s r \<Longrightarrow> calm s (resolveRequest e k v r)" "calm s r \<Longrightarrow> calm s (rejectRequest e k reason r)"
  by (simp_all add: resolveRequest_def rejectRequest_def calming split: option.split)

lemma calm_terminate [calming]:
  "calm s r \<Longrightarrow> calm s (dropConnection c reason r)" "calm s r \<Longrightarrow> calm s (terminateConnection e reason r)"
  "calm s r \<Longrightarrow> calm s (snd (close e r))"
  by (simp_all add: dropConnection_def terminateConnection_def close_def calming split: option.split)

lemma calm_fail [calming]:
  "calm s r \<Longrightarrow> calm s (failInitialization e reason r)" "calm s r \<Longrightarrow> calm s (failRequest e q reason r)"
  by (simp_all add: failInitialization_def failRequest_def calming split: option.split)

lemma calm_write [calming]:
  "calm s r \<Longrightarrow> calm s (afterWrite e d r)" "calm s r \<Longrightarrow> calm s (writeRequest e k d r)"
  by (simp_all add: afterWrite_def writeRequest_def calming split: option.split)

lemma calm_drainFrom [calming]: "calm s r \<Longrightarrow> calm s (drainFrom e c queue r)"
  by (induction e c queue r rule: drainFrom.induct) (simp_all add: calming)

lemma calm_drain [calming]:
  "calm s r \<Longrightarrow> calm s (resumeDrain e r)" "calm s r \<Longrightarrow> calm s (drainQueue e r)"
  by (simp_all add: resumeDrain_def drainQueue_def calming split: option.split)

lemma calm_completeInitialization [calming]: "calm s r \<Longrightarrow> calm s (completeInitialization e k v r)"
  by (simp add: completeInitialization_def calming split: option.split)

lemma calm_written [calming]:
  "calm s r \<Longrightarrow> calm s (initializedWritten e k v ok r)" "calm s r \<Longrightarrow> calm s (notificationWritten e m ok r)"
  by (simp_all add: initializedWritten_def notificationWritten_def calming split: option.split)

lemma calm_requestWritten [calming]: "calm s r \<Longrightarrow> calm s (requestWritten e k d ok r)"
  by (simp add: requestWritten_def Let_def calming split: option.split RequestKind.split)

lemma calm_notify [calming]:
  "calm s r \<Longrightarrow> calm s (notifyFrom e m v p r)"
  by (simp add: notifyFrom_def calming split: option.split)

lemma calm_notificationHandled [calming]: "calm s r \<Longrightarrow> calm s (notificationHandled e m v p out r)"
  by (simp add: notificationHandled_def calming)

lemma calm_server [calming]:
  "calm s r \<Longrightarrow> calm s (finishServer e rid tracked r)"
  "calm s r \<Longrightarrow> calm s (serverMessageWritten e rid m tracked out r)"
  "calm s r \<Longrightarrow> calm s (failInboundTask e r)"
  "calm s r \<Longrightarrow> calm s (serverTaskFinished e rid r)"
  by (simp_all add: finishServer_def serverMessageWritten_def failInboundTask_def serverTaskFinished_def calming split: option.split)

lemma calm_serverCaught [calming]: "calm s r \<Longrightarrow> calm s (serverTaskCaught e rid tracked r)"
  by (simp add: serverTaskCaught_def calming)

lemma calm_writeServerError [calming]: "calm s r \<Longrightarrow> calm s (writeServerError e rid code text tracked r)"
  by (simp add: writeServerError_def writeServerMessage_def calming split: option.split)

lemma calm_responseRequest:
  "calm s r \<Longrightarrow> responseRequest env c message r = (x, r') \<Longrightarrow> calm s r'"
  by (auto simp: responseRequest_def bumpStale_def bumpUnknownResponse_def calming split: option.split_asm if_split_asm)

lemma calm_responses [calming]:
  assumes "calm s r"
  shows "calm s (handleSuccessResponse env c message r)" "calm s (handleErrorResponse env c message r)"
proof -
  obtain x r' where eq: "responseRequest env c message r = (x, r')" by fastforce
  note calm_responseRequest [OF assms eq]
  then show "calm s (handleSuccessResponse env c message r)" "calm s (handleErrorResponse env c message r)"
    by (auto simp: handleSuccessResponse_def handleErrorResponse_def eq calming split: option.split ValidationResult.split jsval.split)
qed

lemma calm_handleServerNotification [calming]: "calm s r \<Longrightarrow> calm s (handleServerNotification env e v m r)"
  by (simp add: handleServerNotification_def bumpUnknownNotification_def calming split: MethodValidationResult.split)

section \<open>Steps\<close>

lemma calm_calls [calming]:
  "calm r (orUnchanged r (initialize env params r))" "calm r (orUnchanged r (sendRequest env m params v r))"
  by (auto simp: orUnchanged_def initialize_def sendRequest_def bindE_def Let_def calming split: option.split sum.split prod.split)

lemma calm_open [calming]:
  "calm r (orUnchanged r (nextConnectionEpoch r))" "calm r (orUnchanged r (open_connection r))"
  by (simp_all add: orUnchanged_def open_connection_def nextConnectionEpoch_def calming split: option.split)

lemma calm_sendNotification [calming]: "calm r (case sendNotification e m params r of Inl x \<Rightarrow> r | Inr r' \<Rightarrow> r')"
  by (simp add: sendNotification_def calming split: option.split)

text \<open>A handler is called with the request that the boundary has checked, and its outcome is awaited.\<close>

definition callsHandler :: "router_env \<Rightarrow> router \<Rightarrow> event \<Rightarrow> router \<Rightarrow> bool" where
  "callsHandler env r ev r' \<longleftrightarrow> (\<exists>e message envelope record rid h v.
     ev = Incoming e message \<and> validateMessage (boundary env) message = Valid envelope \<and>
     asRecord envelope = Some record \<and> requestIdOf record = Some rid \<and>
     validateServerRequest (boundary env) envelope = MethodValid v \<and>
     rt_serverRequestHandlers r (recordMethod record) = Some h \<and>
     rt_log r' = rt_log r @ [HandlerCalled h v] \<and> rt_nextTask r' = Suc (rt_nextTask r) \<and>
     rt_tasks r' = rt_tasks r @ [(rt_nextTask r, TServerHandler e rid (recordMethod record))])"

text \<open>The value a handler has given is written, if its connection is still the active one.\<close>

definition writesResult :: "router_env \<Rightarrow> router \<Rightarrow> event \<Rightarrow> router \<Rightarrow> bool" where
  "writesResult env r ev r' \<longleftrightarrow> (\<exists>i e rid m v.
     ev = Resume i (Fulfilled v) \<and> map_of (rt_tasks r) i = Some (TServerHandler e rid m) \<and>
     activeConnection e r \<noteq> None \<and> v \<noteq> JUndef \<and>
     rt_log r' = rt_log r @ [Wrote e (WireResult rid v)] \<and> rt_nextTask r \<le> rt_nextTask r' \<and>
     (\<forall>it \<in> set (rt_tasks r'). handlerTask (snd it) \<longrightarrow> it \<in> set (rt_tasks r)))"

lemma calm_handlerFailed [calming]: "calm s r \<Longrightarrow> calm s (serverHandlerFailed e rid m code text r)"
  by (simp add: serverHandlerFailed_def calming split: option.split)

lemma resumed_handler:
  assumes "map_of (rt_tasks r) i = Some (TServerHandler e rid m)"
  shows "calm r (step env (Resume i out) r) \<or> writesResult env r (Resume i out) (step env (Resume i out) r)"
proof -
  let ?r = "r\<lparr>rt_tasks := filter (\<lambda>it. fst it \<noteq> i) (rt_tasks r)\<rparr>"
  have step: "step env (Resume i out) r = serverHandled e rid m out ?r"
    using assms by (simp add: step_def resume_def runTask_def)
  have rest: "calm r ?r" by (rule calm_same [OF calm_refl, where ws = "[]"]) simp_all
  show ?thesis
  proof (cases "\<exists>v. out = Fulfilled v \<and> v \<noteq> JUndef \<and> activeConnection e r \<noteq> None")
    case True
    then obtain v c where v: "out = Fulfilled v" "v \<noteq> JUndef" "activeConnection e r = Some c" by auto
    then have "activeConnection e ?r = Some c" by (simp add: activeConnection_def)
    then have "writesResult env r (Resume i out) (step env (Resume i out) r)"
      using v assms unfolding step
      by (auto simp: writesResult_def serverHandled_def writeServerResult_def writeServerMessage_def addTask_def logEffect_def)
    then show ?thesis ..
  next
    case False
    have "calm r (serverHandled e rid m out ?r)"
    proof (cases out)
      case (Fulfilled v)
      with False have "v = JUndef \<or> activeConnection e ?r = None" by (auto simp: activeConnection_def)
      then show ?thesis
        using Fulfilled rest by (auto simp: serverHandled_def writeServerResult_def writeServerMessage_def calming)
    next
      case (Thrown x)
      then show ?thesis using rest by (auto simp: serverHandled_def calming split: option.split)
    qed
    then show ?thesis unfolding step ..
  qed
qed

lemma resumed_other:
  assumes "\<And>t. map_of (rt_tasks r) i = Some t \<Longrightarrow> \<not> handlerTask t"
  shows "calm r (step env (Resume i out) r)"
proof (cases "map_of (rt_tasks r) i")
  case None
  then show ?thesis by (simp add: step_def resume_def)
next
  case (Some t)
  have rest: "calm r (r\<lparr>rt_tasks := filter (\<lambda>it. fst it \<noteq> i) (rt_tasks r)\<rparr>)"
    by (rule calm_same [OF calm_refl, where ws = "[]"]) simp_all
  then show ?thesis using Some assms [OF Some] by (cases t) (simp_all add: step_def resume_def runTask_def calming)
qed

lemma incoming_request:
  assumes "validateMessage (boundary env) message = Valid envelope" and "asRecord envelope = Some record"
    and "activeConnection e r = Some c"
  shows "calm r (dispatchServerRequest env c envelope record r) \<or>
    (\<exists>rid h v. requestIdOf record = Some rid \<and> validateServerRequest (boundary env) envelope = MethodValid v \<and>
       rt_serverRequestHandlers r (recordMethod record) = Some h \<and>
       (let r' = dispatchServerRequest env c envelope record r in
        rt_log r' = rt_log r @ [HandlerCalled h v] \<and> rt_nextTask r' = Suc (rt_nextTask r) \<and>
        rt_tasks r' = rt_tasks r @ [(rt_nextTask r, TServerHandler e rid (recordMethod record))]))"
proof -
  have e: "cn_epoch c = e" using assms(3) by (simp add: activeConnection_Some)
  show ?thesis
    by (auto simp: dispatchServerRequest_def handleServerRequest_def Let_def bumpUnknownServerRequest_def e calming
        addTask_def logEffect_def setConnection_def split: option.split MethodValidationResult.split)
qed

lemma step_calls:
  "calm r (step env ev r) \<or> callsHandler env r ev (step env ev r) \<or> writesResult env r ev (step env ev r)"
proof (cases ev)
  case (Incoming e message)
  show ?thesis
  proof (cases "activeConnection e r")
    case None
    then show ?thesis using Incoming by (simp add: step_def handleIncoming_def calming)
  next
    case (Some c)
    show ?thesis
    proof (cases "\<exists>envelope msg m. validateMessage (boundary env) message = Valid envelope \<and>
        asRecord envelope = Some msg \<and> field msg ''method'' = JStr m \<and> hasOwn msg (lit ''id'')")
      case True
      then obtain envelope msg m where m: "validateMessage (boundary env) message = Valid envelope"
          "asRecord envelope = Some msg" "field msg ''method'' = JStr m" "hasOwn msg (lit ''id'')" by blast
      then have "step env ev r = dispatchServerRequest env c envelope msg r"
        using Incoming Some by (simp add: step_def handleIncoming_def)
      then show ?thesis using incoming_request [OF m(1,2) Some] m(1,2) Incoming by (auto simp: callsHandler_def Let_def)
    next
      case False
      then have "calm r (step env ev r)" using Incoming Some
        by (auto simp: step_def handleIncoming_def calming split: option.split ValidationResult.split jsval.split)
      then show ?thesis ..
    qed
  qed
next
  case (Resume i out)
  show ?thesis
  proof (cases "\<exists>e rid m. map_of (rt_tasks r) i = Some (TServerHandler e rid m)")
    case True
    then show ?thesis using resumed_handler Resume by blast
  next
    case False
    have "calm r (step env ev r)" unfolding Resume
      by (rule resumed_other) (use False in \<open>auto elim: handlerTask.elims\<close>)
    then show ?thesis ..
  qed
qed (simp_all add: step_def calming)

end
