(* ===== verification/InteractionWire.thy ===== *)
theory InteractionWire
  imports InteractionLaws RpcHandlers
begin

text \<open>
  The client of \<open>src/appServer/interactionClient.ts\<close> at a router: its constructor registers a handler for
  every request that the server can send, the session passes the registration on, and the router calls
  the handler and writes what it gives. A handler that has given a promise is resumed only when the
  promise is resolved, with its value. No other part of the program registers handlers of requests.

  A handler is the position of its method in the list of methods, the notification handler of the
  client is the number \<open>INTERACTION_NOTIFICATIONS\<close>.
\<close>

definition methodOf :: "jstr \<Rightarrow> ServerRequestMethod option" where
  "methodOf name = find (\<lambda>m. methodName m = name) KNOWN_SERVER_REQUEST_METHODS"

definition handlerOf :: "ServerRequestMethod \<Rightarrow> nat" where
  "handlerOf m = length (takeWhile (\<lambda>k. k \<noteq> m) KNOWN_SERVER_REQUEST_METHODS)"

definition INTERACTION_NOTIFICATIONS :: nat where
  "INTERACTION_NOTIFICATIONS = 1"

text \<open>A validated request as the client reads it.\<close>

definition serverRequestOf :: "jsval \<Rightarrow> ServerRequest option" where
  "serverRequestOf message =
     (case asRecord message of
        None \<Rightarrow> None
      | Some record \<Rightarrow>
          (case (requestIdOf record, methodOf (recordMethod record)) of
             (Some rid, Some m) \<Rightarrow> Some \<lparr>sr_id = rid, sr_method = m, sr_params = spread (field record ''params'')\<rparr>
           | _ \<Rightarrow> None))"

record approvals =
  ap_router :: router
  ap_client :: interactions
  ap_replies :: "(nat \<times> reply option) list"  \<comment> \<open>task of the router, what the handler gave\<close>

definition registerAll :: "router \<Rightarrow> router" where
  "registerAll r = subscribeNotifications INTERACTION_NOTIFICATIONS
     (fold (\<lambda>m. registerServerRequestHandler (methodName m) (handlerOf m)) KNOWN_SERVER_REQUEST_METHODS r)"

definition releaseAll :: "router \<Rightarrow> router" where
  "releaseAll r = unsubscribeNotifications INTERACTION_NOTIFICATIONS
     (fold (\<lambda>m. unregisterServerRequestHandler (methodName m) (handlerOf m)) KNOWN_SERVER_REQUEST_METHODS r)"

definition newApprovals :: "nat \<Rightarrow> approvals" where
  "newApprovals n = \<lparr>ap_router = registerAll (newRouter n), ap_client = newInteractions, ap_replies = []\<rparr>"

text \<open>What the client hears of a step of the router, in the order of the calls.\<close>

fun hears :: "int \<Rightarrow> rpc_effect \<Rightarrow> interaction_event list" where
  "hears now (HandlerCalled h message) =
     (case serverRequestOf message of None \<Rightarrow> [] | Some request \<Rightarrow> [Asked now request])"
| "hears now (NotificationDelivered h message) = (if h = INTERACTION_NOTIFICATIONS then [Heard message] else [])"
| "hears now _ = []"

text \<open>
  What the handler of a call gives; a method that the client does not know is an exception of its own.
\<close>

fun givenReply :: "(jsval \<Rightarrow> jstr) \<Rightarrow> int \<Rightarrow> interactions \<Rightarrow> rpc_effect \<Rightarrow> reply option list" where
  "givenReply N now client (HandlerCalled h message) =
     [map_option (\<lambda>request. fst (handleRequest N now request client)) (serverRequestOf message)]"
| "givenReply N now client _ = []"

definition outcomeOf :: "interactions \<Rightarrow> reply option \<Rightarrow> outcome option" where
  "outcomeOf client given =
     (case given of
        None \<Rightarrow> Some (Thrown None)
      | Some (Immediate v) \<Rightarrow> Some (Fulfilled v)
      | Some (Refused code text) \<Rightarrow> Some (Thrown (Some (code, text)))
      | Some (Promised p) \<Rightarrow> if p < length (ic_answers client) then map_option Fulfilled (ic_answers client ! p) else None)"

text \<open>One step of the router with what its calls do to the client.\<close>

definition routerStep :: "router_env \<Rightarrow> (jsval \<Rightarrow> jstr) \<Rightarrow> int \<Rightarrow> event \<Rightarrow> approvals \<Rightarrow> approvals" where
  "routerStep env N now ev S =
     (let r' = step env ev (ap_router S);
          effects = drop (length (rt_log (ap_router S))) (rt_log r') in
      \<lparr>ap_router = r', ap_client = interactionRun N (concat (map (hears now) effects)) (ap_client S),
       ap_replies = map (Pair (rt_nextTask (ap_router S))) (concat (map (givenReply N now (ap_client S)) effects)) @ ap_replies S\<rparr>)"

datatype approval_event =
    RouterEvent int event         \<comment> \<open>the time, what happens to the router\<close>
  | HandlerSettles nat            \<comment> \<open>the handler of this task is resumed\<close>
  | UserAnswers jstr jsval
  | ClientDisposed
  | ListenerSubscribes nat
  | ListenerLeaves nat

text \<open>The registrations belong to the client, and its handlers are resumed by \<open>HandlerSettles\<close>.\<close>

definition allowed :: "router \<Rightarrow> event \<Rightarrow> bool" where
  "allowed r ev =
     (case ev of
        RegisterHandler m h \<Rightarrow> False
      | UnregisterHandler m h \<Rightarrow> False
      | Unsubscribe h \<Rightarrow> h \<noteq> INTERACTION_NOTIFICATIONS
      | Subscribe h \<Rightarrow> h \<noteq> INTERACTION_NOTIFICATIONS
      | Resume i out \<Rightarrow> (case map_of (rt_tasks r) i of Some t \<Rightarrow> \<not> handlerTask t | None \<Rightarrow> True)
      | _ \<Rightarrow> True)"

definition isHandlerTask :: "router \<Rightarrow> nat \<Rightarrow> bool" where
  "isHandlerTask r i = (case map_of (rt_tasks r) i of Some t \<Rightarrow> handlerTask t | None \<Rightarrow> False)"

definition settleHandler :: "router_env \<Rightarrow> nat \<Rightarrow> approvals \<Rightarrow> approvals" where
  "settleHandler env i S =
     (case map_of (ap_replies S) i of
        None \<Rightarrow> S
      | Some given \<Rightarrow>
          (case outcomeOf (ap_client S) given of
             None \<Rightarrow> S
           | Some out \<Rightarrow>
               if isHandlerTask (ap_router S) i
               then S\<lparr>ap_router := step env (Resume i out) (ap_router S)\<rparr> else S))"

definition approvalStep :: "router_env \<Rightarrow> (jsval \<Rightarrow> jstr) \<Rightarrow> approval_event \<Rightarrow> approvals \<Rightarrow> approvals" where
  "approvalStep env N ev S =
     (case ev of
        RouterEvent now e \<Rightarrow> if allowed (ap_router S) e then routerStep env N now e S else S
      | HandlerSettles i \<Rightarrow> settleHandler env i S
      | UserAnswers key response \<Rightarrow> S\<lparr>ap_client := snd (respond key response (ap_client S))\<rparr>
      | ClientDisposed \<Rightarrow>
          if ic_disposed (ap_client S) then S
          else S\<lparr>ap_router := releaseAll (ap_router S), ap_client := disposeInteractions (ap_client S)\<rparr>
      | ListenerSubscribes l \<Rightarrow> S\<lparr>ap_client := subscribeInteractions l (ap_client S)\<rparr>
      | ListenerLeaves l \<Rightarrow> S\<lparr>ap_client := unsubscribeInteractions l (ap_client S)\<rparr>)"

definition approvalRun :: "router_env \<Rightarrow> (jsval \<Rightarrow> jstr) \<Rightarrow> approval_event list \<Rightarrow> approvals \<Rightarrow> approvals" where
  "approvalRun env N events S = fold (approvalStep env N) events S"

end
