(* ===== verification/InteractionWireLaws.thy ===== *)
theory InteractionWireLaws
  imports InteractionWire RpcAccounting
begin

text \<open>
  What reaches the server: every result that the router writes answers a request that the server has
  sent, and is the time, the refusal of that request, or an answer that the user gave to this request
  while it was shown as pending.
\<close>

section \<open>The router and the client in a run\<close>

lemma approvalRun_snoc: "approvalRun env N (events @ [ev]) S = approvalStep env N ev (approvalRun env N events S)"
  by (simp add: approvalRun_def)

lemma reachable_registered:
  "reachable env r \<Longrightarrow> reachable env (fold (\<lambda>m. registerServerRequestHandler (name m) (h m)) ms r)"
proof (induction ms arbitrary: r)
  case (Cons m ms)
  from reachable.event [OF Cons.prems, of "RegisterHandler (name m) (h m)"] Cons.IH show ?case by (simp add: step_def)
qed simp

lemma reachable_unregistered:
  "reachable env r \<Longrightarrow> reachable env (fold (\<lambda>m. unregisterServerRequestHandler (name m) (h m)) ms r)"
proof (induction ms arbitrary: r)
  case (Cons m ms)
  from reachable.event [OF Cons.prems, of "UnregisterHandler (name m) (h m)"] Cons.IH show ?case by (simp add: step_def)
qed simp

lemma reachable_all:
  assumes "reachable env r"
  shows "reachable env (registerAll r)" and "reachable env (releaseAll r)"
  using reachable.event [OF reachable_registered [OF assms], of "Subscribe INTERACTION_NOTIFICATIONS"]
    reachable.event [OF reachable_unregistered [OF assms], of "Unsubscribe INTERACTION_NOTIFICATIONS"]
  by (simp_all add: step_def registerAll_def releaseAll_def)

lemma approvalStep_reachable:
  "reachable env (ap_router S) \<Longrightarrow> reachable env (ap_router (approvalStep env N ev S))"
  by (auto simp: approvalStep_def routerStep_def settleHandler_def Let_def reachable_all intro: reachable.event
      split: approval_event.split option.split)

lemma approvalRun_reachable: "reachable env (ap_router (approvalRun env N events (newApprovals n)))"
proof (induction events rule: rev_induct)
  case Nil
  then show ?case by (simp add: approvalRun_def newApprovals_def reachable_all reachable.start)
qed (simp add: approvalRun_snoc approvalStep_reachable)

text \<open>A step is some events of the client; the user answers only by \<open>UserAnswers\<close>.\<close>

lemma hears_notAnswered: "Answered key v \<notin> set (concat (map (hears now) effects))"
proof -
  have "Answered key v \<notin> set (hears now x)" for x by (cases x) (auto split: option.split)
  then show ?thesis by auto
qed

lemma approvalStep_client:
  obtains events where "ap_client (approvalStep env N ev S) = interactionRun N events (ap_client S)"
    "\<And>key v. Answered key v \<in> set events \<Longrightarrow> ev = UserAnswers key v \<and> events = [Answered key v]"
proof (cases ev)
  case (RouterEvent now e)
  show thesis
  proof (cases "allowed (ap_router S) e")
    case True
    show thesis
      by (rule that [of "concat (map (hears now) (drop (length (rt_log (ap_router S))) (rt_log (step env e (ap_router S)))))"])
        (use RouterEvent True hears_notAnswered in \<open>auto simp: approvalStep_def routerStep_def Let_def simp del: set_concat\<close>)
  next
    case False
    then show thesis using RouterEvent by (intro that [of "[]"]) (simp_all add: approvalStep_def interactionRun_def)
  qed
next
  case (HandlerSettles i)
  then show thesis
    by (intro that [of "[]"]) (simp_all add: approvalStep_def settleHandler_def interactionRun_def split: option.split)
next
  case (UserAnswers key v)
  then show thesis by (intro that [of "[Answered key v]"]) (simp_all add: approvalStep_def interactionRun_def)
next
  case ClientDisposed
  then show thesis
    by (intro that [of "[Disposed]"]) (auto simp: approvalStep_def interactionRun_def disposeInteractions_def)
next
  case (ListenerSubscribes l)
  then show thesis by (intro that [of "[ListenerAdded l]"]) (simp_all add: approvalStep_def interactionRun_def)
next
  case (ListenerLeaves l)
  then show thesis by (intro that [of "[ListenerRemoved l]"]) (simp_all add: approvalStep_def interactionRun_def)
qed

lemma approvalRun_client_ok: "interactions_ok N (ap_client (approvalRun env N events (newApprovals n)))"
proof (induction events rule: rev_induct)
  case Nil
  then show ?case by (simp add: approvalRun_def newApprovals_def newInteractions_ok)
next
  case (snoc ev events)
  obtain cs where "ap_client (approvalStep env N ev (approvalRun env N events (newApprovals n))) =
      interactionRun N cs (ap_client (approvalRun env N events (newApprovals n)))"
    using approvalStep_client .
  then show ?case using snoc interactionRun_ok by (simp add: approvalRun_snoc)
qed

section \<open>What the user gave\<close>

text \<open>The user answers an entry that is pending and not answered yet, in a run that starts anew.\<close>

definition userGave ::
  "router_env \<Rightarrow> (jsval \<Rightarrow> jstr) \<Rightarrow> nat \<Rightarrow> approval_event list \<Rightarrow> jstr \<times> DeferredInteraction \<Rightarrow> jsval \<Rightarrow> bool" where
  "userGave env N n events entry v \<longleftrightarrow> (\<exists>before after. events = before @ UserAnswers (fst entry) v # after \<and>
     (let client = ap_client (approvalRun env N before (newApprovals n)) in
      openEntry client entry \<and> fst (respond (fst entry) v client)))"

lemma userGave_more: "userGave env N n events entry v \<Longrightarrow> userGave env N n (events @ extra) entry v"
  unfolding userGave_def by fastforce

lemma decided_along:
  fixes env :: router_env and N :: "jsval \<Rightarrow> jstr" and n :: nat and events :: "approval_event list"
  defines "S \<equiv> approvalRun env N events (newApprovals n)"
  assumes "decidedBy (\<lambda>key v. userGave env N n events entry v) entry (ap_client S)"
  shows "decidedBy (\<lambda>key v. userGave env N n (events @ [ev]) entry v) entry (ap_client (approvalStep env N ev S))"
proof -
  obtain cs where cs: "ap_client (approvalStep env N ev S) = interactionRun N cs (ap_client S)"
      "\<And>key v. Answered key v \<in> set cs \<Longrightarrow> ev = UserAnswers key v \<and> cs = [Answered key v]"
    using approvalStep_client [of env N ev S] by blast
  have ok: "interactions_ok N (ap_client S)" unfolding S_def by (rule approvalRun_client_ok)
  show ?thesis
  proof (cases "openEntry (ap_client S) entry")
    case True
    have "userGave env N n (events @ [ev]) entry v" if given: "givenByUser N (ap_client S) cs entry v" for v
    proof -
      obtain before after where b: "cs = before @ Answered (fst entry) v # after"
          "fst (respond (fst entry) v (interactionRun N before (ap_client S)))"
        using given by (auto simp: givenByUser_def)
      then have "ev = UserAnswers (fst entry) v" "cs = [Answered (fst entry) v]" using cs(2) [of "fst entry" v] by simp_all
      moreover from this b have "before = []" by (cases before) auto
      ultimately show ?thesis using b(2) True unfolding userGave_def S_def
        by (intro exI [of _ events] exI [of _ "[]"]) (simp add: interactionRun_def)
    qed
    then show ?thesis using interactionRun_decides [OF ok True, of cs] unfolding cs(1) by (auto simp: decidedBy_def)
  next
    case False
    then show ?thesis
      using assms(2) interactionRun_keeps [of "ap_client S" N cs] userGave_more [of env N n events entry _ "[ev]"]
      unfolding cs(1) by (fastforce simp: decidedBy_def keepsAnswers_def)
  qed
qed

section \<open>What is written\<close>

text \<open>The boundary gives the checked message itself, as the generated validators do.\<close>

definition keepsRequests :: "router_env \<Rightarrow> bool" where
  "keepsRequests env \<longleftrightarrow> (\<forall>message value. validateServerRequest (boundary env) message = MethodValid value \<longrightarrow> value = message)"

definition askedOf :: "rpc_effect list \<Rightarrow> ServerRequest \<Rightarrow> bool" where
  "askedOf log request \<longleftrightarrow> (\<exists>h message. HandlerCalled h message \<in> set log \<and> serverRequestOf message = Some request)"

lemma askedOf_more: "askedOf log request \<Longrightarrow> askedOf (log @ extra) request"
  by (auto simp: askedOf_def)

definition timeReply :: "int \<Rightarrow> jsval" where
  "timeReply now = JObj [jprop ''currentTimeAt'' (JInt (now div 1000))]"

text \<open>A value that may be written as the result of a request.\<close>

definition answerOf ::
  "router_env \<Rightarrow> (jsval \<Rightarrow> jstr) \<Rightarrow> nat \<Rightarrow> approval_event list \<Rightarrow> ServerRequest \<Rightarrow> jsval \<Rightarrow> bool" where
  "answerOf env N n events request v \<longleftrightarrow>
     sr_method request = CurrentTimeRead \<and> (\<exists>now. v = timeReply now) \<or>
     userFacing (sr_method request) \<and> (v = declineResponse (sr_method request) \<or>
       (\<exists>d. df_request d = request \<and> userGave env N n events (requestKey N (sr_id request), d) v))"

lemma answerOf_more: "answerOf env N n events request v \<Longrightarrow> answerOf env N n (events @ extra) request v"
  unfolding answerOf_def using userGave_more by blast

text \<open>What a handler gave for a request.\<close>

fun replyFor ::
  "router_env \<Rightarrow> (jsval \<Rightarrow> jstr) \<Rightarrow> nat \<Rightarrow> approval_event list \<Rightarrow> interactions \<Rightarrow> ServerRequest \<Rightarrow> reply \<Rightarrow> bool" where
  "replyFor env N n events client request (Immediate v) \<longleftrightarrow> answerOf env N n events request v"
| "replyFor env N n events client request (Refused code text) \<longleftrightarrow> True"
| "replyFor env N n events client request (Promised p) \<longleftrightarrow> userFacing (sr_method request) \<and>
     (\<exists>d. df_request d = request \<and> df_promise d = p \<and>
        decidedBy (\<lambda>key v. userGave env N n events (requestKey N (sr_id request), d) v) (requestKey N (sr_id request), d) client)"

lemma replyFor_along:
  fixes env :: router_env and N :: "jsval \<Rightarrow> jstr" and n :: nat and events :: "approval_event list"
  defines "S \<equiv> approvalRun env N events (newApprovals n)"
  assumes "replyFor env N n events (ap_client S) request given"
  shows "replyFor env N n (events @ [ev]) (ap_client (approvalStep env N ev S)) request given"
proof (cases given)
  case (Promised p)
  then show ?thesis using assms(2) decided_along [of env N n events _ ev] unfolding S_def by auto
qed (use assms(2) answerOf_more [of env N n events request _ "[ev]"] in simp_all)

lemma replyFor_outcome:
  assumes "replyFor env N n events client request given" and "outcomeOf client (Some given) = Some (Fulfilled v)"
  shows "answerOf env N n events request v"
  using assms
  by (cases given) (auto simp: outcomeOf_def answerOf_def decidedBy_def openEntry_def refusal_def split: if_split_asm)

lemma handleRequest_reply:
  assumes ok: "interactions_ok N client"
  shows "replyFor env N n events (snd (handleRequest N now request client)) request (fst (handleRequest N now request client))"
proof (cases rule: handleRequest_cases [of request N now client])
  case time
  then show ?thesis by (auto simp: answerOf_def timeReply_def)
next
  case (unsupported reason threadId)
  then show ?thesis by (simp add: rejectUnsupported_def)
next
  case user
  show ?thesis
  proof (cases rule: enqueue_cases [of client N request])
    case disposed
    let ?d = "\<lparr>df_request = request, df_promise = length (ic_answers client), df_responding = False\<rparr>"
    from user disposed show ?thesis
      by (auto simp: decidedBy_def refusal_def intro!: exI [of _ ?d])
  next
    case (active s1)
    let ?d = "\<lparr>df_request = request, df_promise = length (ic_answers s1), df_responding = False\<rparr>"
    have "openEntry (snd (enqueue N request client)) (requestKey N (sr_id request), ?d)"
      unfolding active(3) by (simp add: openEntry_def)
    then show ?thesis using user active(3) by (auto simp: decidedBy_def intro!: exI [of _ ?d])
  qed
qed

definition servesUser :: "router_env \<Rightarrow> (jsval \<Rightarrow> jstr) \<Rightarrow> nat \<Rightarrow> approval_event list \<Rightarrow> approvals \<Rightarrow> bool" where
  "servesUser env N n events S \<longleftrightarrow>
     (\<forall>i e rid m. (i, TServerHandler e rid m) \<in> set (rt_tasks (ap_router S)) \<longrightarrow>
        (\<exists>given. map_of (ap_replies S) i = Some given \<and>
           (\<forall>reply. given = Some reply \<longrightarrow> (\<exists>request. sr_id request = rid \<and>
              askedOf (rt_log (ap_router S)) request \<and> replyFor env N n events (ap_client S) request reply)))) \<and>
     (\<forall>e rid v. Wrote e (WireResult rid v) \<in> set (rt_log (ap_router S)) \<longrightarrow>
        (\<exists>request. sr_id request = rid \<and> askedOf (rt_log (ap_router S)) request \<and> answerOf env N n events request v))"

lemma servesUserI:
  fixes env :: router_env and N :: "jsval \<Rightarrow> jstr" and n :: nat and events :: "approval_event list"
  defines "S \<equiv> approvalRun env N events (newApprovals n)"
  assumes old: "servesUser env N n events S" and S': "S' = approvalStep env N ev S"
    and log: "rt_log (ap_router S') = rt_log (ap_router S) @ ws"
    and wrote: "\<And>e rid v. Wrote e (WireResult rid v) \<in> set ws \<Longrightarrow> \<exists>request. sr_id request = rid \<and>
      askedOf (rt_log (ap_router S)) request \<and> answerOf env N n events request v"
    and tasks: "\<And>i e rid m. (i, TServerHandler e rid m) \<in> set (rt_tasks (ap_router S')) \<Longrightarrow>
      (i, TServerHandler e rid m) \<in> set (rt_tasks (ap_router S)) \<and> map_of (ap_replies S') i = map_of (ap_replies S) i \<or>
      (\<exists>given. map_of (ap_replies S') i = Some given \<and> (\<forall>reply. given = Some reply \<longrightarrow> (\<exists>request. sr_id request = rid \<and>
         askedOf (rt_log (ap_router S')) request \<and> replyFor env N n (events @ [ev]) (ap_client S') request reply)))"
  shows "servesUser env N n (events @ [ev]) S'"
  unfolding servesUser_def
proof (intro conjI allI impI)
  fix e rid v
  assume "Wrote e (WireResult rid v) \<in> set (rt_log (ap_router S'))"
  then have "\<exists>request. sr_id request = rid \<and> askedOf (rt_log (ap_router S)) request \<and> answerOf env N n events request v"
    using wrote [of e rid v] old log by (auto simp: servesUser_def)
  then show "\<exists>request. sr_id request = rid \<and> askedOf (rt_log (ap_router S')) request \<and> answerOf env N n (events @ [ev]) request v"
    using askedOf_more log answerOf_more by metis
next
  fix i e rid m
  assume task: "(i, TServerHandler e rid m) \<in> set (rt_tasks (ap_router S'))"
  let ?fine = "\<lambda>log events client reply. \<exists>request. sr_id request = rid \<and> askedOf log request \<and>
     replyFor env N n events client request reply"
  have more: "?fine (rt_log (ap_router S')) (events @ [ev]) (ap_client S') reply"
    if "?fine (rt_log (ap_router S)) events (ap_client S) reply" for reply
    using that replyFor_along [of env N n events _ reply ev] askedOf_more log unfolding S' S_def by metis
  from tasks [OF task] show "\<exists>given. map_of (ap_replies S') i = Some given \<and> (\<forall>reply. given = Some reply \<longrightarrow>
      ?fine (rt_log (ap_router S')) (events @ [ev]) (ap_client S') reply)"
  proof
    assume "(i, TServerHandler e rid m) \<in> set (rt_tasks (ap_router S)) \<and> map_of (ap_replies S') i = map_of (ap_replies S) i"
    then obtain given where "map_of (ap_replies S') i = Some given"
        "\<And>reply. given = Some reply \<Longrightarrow> ?fine (rt_log (ap_router S)) events (ap_client S) reply"
      using old unfolding servesUser_def by metis
    then show ?thesis using more by blast
  qed
qed

lemma servesUser_calm:
  fixes env :: router_env and N :: "jsval \<Rightarrow> jstr" and n :: nat and events :: "approval_event list"
  defines "S \<equiv> approvalRun env N events (newApprovals n)"
  assumes "servesUser env N n events S" and "calm (ap_router S) (ap_router (approvalStep env N ev S))"
    and "ap_replies (approvalStep env N ev S) = ap_replies S"
  shows "servesUser env N n (events @ [ev]) (approvalStep env N ev S)"
proof -
  obtain ws where ws: "rt_log (ap_router (approvalStep env N ev S)) = rt_log (ap_router S) @ ws" "list_all calmEffect ws"
    using assms(3) by (auto simp: calm_def)
  have quiet: "\<not> Wrote e (WireResult rid v) \<in> set ws" for e rid v using ws(2) by (auto simp: list_all_iff)
  have old: "(i, TServerHandler e rid m) \<in> set (rt_tasks (ap_router S))"
    if "(i, TServerHandler e rid m) \<in> set (rt_tasks (ap_router (approvalStep env N ev S)))" for i e rid m
    using that assms(3) by (force simp: calm_def)
  show ?thesis
    unfolding S_def
    by (rule servesUserI [OF assms(2) [unfolded S_def] refl ws(1) [unfolded S_def]])
      (use quiet old assms(4) in \<open>simp_all add: S_def\<close>)
qed

lemma calm_replies: "list_all calmEffect ws \<Longrightarrow> concat (map (givenReply N now client) ws) = []"
  (is "_ \<Longrightarrow> ?thesis")
proof -
  have "givenReply N now client x = []" if "calmEffect x" for x using that by (cases x) simp_all
  then show "list_all calmEffect ws \<Longrightarrow> ?thesis" by (auto simp: list_all_iff)
qed

lemma calm_release: "calm r (releaseAll r)"
proof -
  have "calm s (fold (\<lambda>m. unregisterServerRequestHandler (name m) (h m)) ms r)" if "calm s r" for s r name h and ms :: "ServerRequestMethod list"
    using that by (induction ms arbitrary: r) (simp_all add: calming)
  then show ?thesis by (simp add: releaseAll_def calming)
qed

text \<open>The router's step that calls a handler, seen with its reply.\<close>

lemma called_request:
  assumes "keepsRequests env" and "callsHandler env r ev r'"
  obtains e rid h v m where "rt_log r' = rt_log r @ [HandlerCalled h v]" "rt_nextTask r' = Suc (rt_nextTask r)"
    "rt_tasks r' = rt_tasks r @ [(rt_nextTask r, TServerHandler e rid m)]"
    "\<And>request. serverRequestOf v = Some request \<Longrightarrow> sr_id request = rid"
proof -
  obtain e message envelope fields rid h v where c: "asRecord envelope = Some fields" "requestIdOf fields = Some rid"
      "validateServerRequest (boundary env) envelope = MethodValid v" "rt_log r' = rt_log r @ [HandlerCalled h v]"
      "rt_nextTask r' = Suc (rt_nextTask r)"
      "rt_tasks r' = rt_tasks r @ [(rt_nextTask r, TServerHandler e rid (recordMethod fields))]"
    using assms(2) unfolding callsHandler_def by blast
  have "v = envelope" using assms(1) c(3) by (simp add: keepsRequests_def)
  then have "sr_id request = rid" if "serverRequestOf v = Some request" for request
    using that c(1,2) by (auto simp: serverRequestOf_def split: option.split_asm)
  with c(4-6) show thesis by (rule that)
qed

lemma servesUser_called:
  fixes env :: router_env and N :: "jsval \<Rightarrow> jstr" and n :: nat and events :: "approval_event list"
  defines "S \<equiv> approvalRun env N events (newApprovals n)"
  assumes old: "servesUser env N n events S" and keeps: "keepsRequests env"
    and calls: "callsHandler env (ap_router S) e (step env e (ap_router S))" and "allowed (ap_router S) e"
    and struct: "structured env [] (ap_router S)"
  shows "servesUser env N n (events @ [RouterEvent now e]) (approvalStep env N (RouterEvent now e) S)"
    (is "servesUser _ _ _ _ ?S")
proof -
  obtain ep rid h v m where c: "rt_log (step env e (ap_router S)) = rt_log (ap_router S) @ [HandlerCalled h v]"
      "rt_tasks (step env e (ap_router S)) = rt_tasks (ap_router S) @ [(rt_nextTask (ap_router S), TServerHandler ep rid m)]"
      "\<And>request. serverRequestOf v = Some request \<Longrightarrow> sr_id request = rid"
    using called_request [OF keeps calls] by metis
  define given where "given = map_option (\<lambda>request. fst (handleRequest N now request (ap_client S))) (serverRequestOf v)"
  have S': "ap_router ?S = step env e (ap_router S)" "ap_replies ?S = (rt_nextTask (ap_router S), given) # ap_replies S"
      "ap_client ?S = interactionRun N (hears now (HandlerCalled h v)) (ap_client S)"
    using assms(5) c(1) by (simp_all add: approvalStep_def routerStep_def given_def)
  have ok: "interactions_ok N (ap_client S)" unfolding S_def by (rule approvalRun_client_ok)
  have reply: "\<exists>request. sr_id request = rid \<and> askedOf (rt_log (ap_router ?S)) request \<and>
      replyFor env N n (events @ [RouterEvent now e]) (ap_client ?S) request reply" if g: "given = Some reply" for reply
  proof -
    obtain request where q: "serverRequestOf v = Some request" "reply = fst (handleRequest N now request (ap_client S))"
      using g by (auto simp: given_def)
    have "ap_client ?S = snd (handleRequest N now request (ap_client S))"
      unfolding S'(3) using q(1) by (simp add: interactionRun_def)
    moreover have "askedOf (rt_log (ap_router ?S)) request" using c(1) S'(1) q(1) by (auto simp: askedOf_def)
    ultimately show ?thesis using q c(3) handleRequest_reply [OF ok] by (intro exI [of _ request]) simp
  qed
  have small: "i < rt_nextTask (ap_router S)" if "(i, t) \<in> set (rt_tasks (ap_router S))" for i t
    using struct that by (auto simp: structured_def tasks_ok_def)
  show ?thesis
  proof (rule servesUserI [OF old [unfolded S_def] refl, folded S_def])
    show "rt_log (ap_router ?S) = rt_log (ap_router S) @ [HandlerCalled h v]" using c(1) S'(1) by simp
    show "(i, TServerHandler e' rid' m') \<in> set (rt_tasks (ap_router S)) \<and> map_of (ap_replies ?S) i = map_of (ap_replies S) i \<or>
        (\<exists>given. map_of (ap_replies ?S) i = Some given \<and> (\<forall>reply. given = Some reply \<longrightarrow> (\<exists>request. sr_id request = rid' \<and>
          askedOf (rt_log (ap_router ?S)) request \<and>
          replyFor env N n (events @ [RouterEvent now e]) (ap_client ?S) request reply)))"
      if "(i, TServerHandler e' rid' m') \<in> set (rt_tasks (ap_router ?S))" for i e' rid' m'
    proof (cases "i = rt_nextTask (ap_router S)")
      case True
      then have "rid' = rid" using that small c(2) S'(1) by auto
      then show ?thesis using True S'(2) reply by auto
    next
      case False
      then show ?thesis using that c(2) S'(1,2) by auto
    qed
  qed simp
qed

lemma servesUser_settled:
  fixes env :: router_env and N :: "jsval \<Rightarrow> jstr" and n :: nat and events :: "approval_event list"
  defines "S \<equiv> approvalRun env N events (newApprovals n)"
  assumes old: "servesUser env N n events S"
  shows "servesUser env N n (events @ [HandlerSettles i]) (approvalStep env N (HandlerSettles i) S)"
    (is "servesUser _ _ _ _ ?S")
proof (cases "\<exists>out given. ?S = S\<lparr>ap_router := step env (Resume i out) (ap_router S)\<rparr> \<and>
    map_of (ap_replies S) i = Some given \<and> outcomeOf (ap_client S) given = Some out")
  case False
  have "?S = S"
  proof (cases "map_of (ap_replies S) i")
    case (Some given)
    then show ?thesis using False
      by (cases "outcomeOf (ap_client S) given") (auto simp: approvalStep_def settleHandler_def)
  qed (simp add: approvalStep_def settleHandler_def)
  then show ?thesis using servesUser_calm [of env N n events "HandlerSettles i"] old by (simp add: S_def)
next
  case True
  then obtain out given where o: "?S = S\<lparr>ap_router := step env (Resume i out) (ap_router S)\<rparr>"
      "map_of (ap_replies S) i = Some given" "outcomeOf (ap_client S) given = Some out" by blast
  consider (calm) "calm (ap_router S) (step env (Resume i out) (ap_router S))"
    | (writes) "writesResult env (ap_router S) (Resume i out) (step env (Resume i out) (ap_router S))"
    using step_calls [of "ap_router S" env "Resume i out"] by (auto simp: callsHandler_def)
  then show ?thesis
  proof cases
    case calm
    then show ?thesis using servesUser_calm [of env N n events "HandlerSettles i"] old o(1) by (simp add: S_def)
  next
    case writes
    then obtain e rid m v where w: "out = Fulfilled v" "map_of (rt_tasks (ap_router S)) i = Some (TServerHandler e rid m)"
        "rt_log (step env (Resume i out) (ap_router S)) = rt_log (ap_router S) @ [Wrote e (WireResult rid v)]"
        "\<And>it. it \<in> set (rt_tasks (step env (Resume i out) (ap_router S))) \<Longrightarrow> handlerTask (snd it) \<Longrightarrow> it \<in> set (rt_tasks (ap_router S))"
      unfolding writesResult_def by blast
    obtain reply where reply: "given = Some reply"
      using o(3) w(1) by (cases given) (auto simp: outcomeOf_def)
    then obtain request where q: "sr_id request = rid" "askedOf (rt_log (ap_router S)) request"
        "replyFor env N n events (ap_client S) request reply"
      using conjunct1 [OF old [unfolded servesUser_def], rule_format, OF map_of_SomeD [OF w(2)]] o(2) by auto
    have answer: "answerOf env N n events request v"
      using replyFor_outcome [OF q(3)] o(3) reply w(1) by simp
    show ?thesis
    proof (rule servesUserI [OF old [unfolded S_def] refl, folded S_def])
      show "rt_log (ap_router ?S) = rt_log (ap_router S) @ [Wrote e (WireResult rid v)]" using o(1) w(3) by simp
      show "\<exists>request. sr_id request = rid' \<and> askedOf (rt_log (ap_router S)) request \<and> answerOf env N n events request v'"
        if "Wrote e' (WireResult rid' v') \<in> set [Wrote e (WireResult rid v)]" for e' rid' v'
        using that q(1,2) answer by auto
    next
      fix i' e' rid' m'
      assume "(i', TServerHandler e' rid' m') \<in> set (rt_tasks (ap_router ?S))"
      then have "(i', TServerHandler e' rid' m') \<in> set (rt_tasks (ap_router S))" using o(1) w(4) by force
      moreover have "ap_replies ?S = ap_replies S" using o(1) by simp
      ultimately show "(i', TServerHandler e' rid' m') \<in> set (rt_tasks (ap_router S)) \<and>
            map_of (ap_replies ?S) i' = map_of (ap_replies S) i' \<or>
          (\<exists>given. map_of (ap_replies ?S) i' = Some given \<and> (\<forall>reply. given = Some reply \<longrightarrow> (\<exists>request. sr_id request = rid' \<and>
             askedOf (rt_log (ap_router ?S)) request \<and>
             replyFor env N n (events @ [HandlerSettles i]) (ap_client ?S) request reply)))"
        by simp
    qed
  qed
qed

lemma approvalStep_serves:
  fixes env :: router_env and N :: "jsval \<Rightarrow> jstr" and n :: nat and events :: "approval_event list"
  defines "S \<equiv> approvalRun env N events (newApprovals n)"
  assumes old: "servesUser env N n events S" and "keepsRequests env" and "env_ok env"
  shows "servesUser env N n (events @ [ev]) (approvalStep env N ev S)"
proof -
  have struct: "structured env [] (ap_router S)"
    unfolding S_def by (rule reachable_structured [OF approvalRun_reachable assms(4)])
  note quiet = servesUser_calm [OF old [unfolded S_def], folded S_def]
  show ?thesis
  proof (cases ev)
    case (RouterEvent now e)
    show ?thesis
    proof (cases "allowed (ap_router S) e")
      case False
      then show ?thesis using quiet [of ev] RouterEvent by (simp add: approvalStep_def)
    next
      case True
      consider (calm) "calm (ap_router S) (step env e (ap_router S))"
        | (calls) "callsHandler env (ap_router S) e (step env e (ap_router S))"
        using step_calls [of "ap_router S" env e] True by (auto simp: writesResult_def allowed_def)
      then show ?thesis
      proof cases
        case calm
        then obtain ws where "rt_log (step env e (ap_router S)) = rt_log (ap_router S) @ ws" "list_all calmEffect ws"
          by (auto simp: calm_def)
        then have "ap_replies (approvalStep env N ev S) = ap_replies S"
          using RouterEvent True by (simp add: approvalStep_def routerStep_def calm_replies)
        moreover have "ap_router (approvalStep env N ev S) = step env e (ap_router S)"
          using RouterEvent True by (simp add: approvalStep_def routerStep_def Let_def)
        ultimately show ?thesis using quiet [of ev] calm by simp
      next
        case calls
        then show ?thesis
          using servesUser_called [OF old [unfolded S_def] assms(3)] True struct RouterEvent by (simp add: S_def)
      qed
    qed
  next
    case (HandlerSettles i)
    then show ?thesis using servesUser_settled [OF old [unfolded S_def]] by (simp add: S_def)
  qed (use quiet [of ev] calm_release in \<open>simp_all add: approvalStep_def\<close>)
qed

theorem results_are_answers:
  assumes "keepsRequests env" and "env_ok env"
  shows "servesUser env N n events (approvalRun env N events (newApprovals n))"
proof (induction events rule: rev_induct)
  case Nil
  have "rt_tasks (registerAll (newRouter n)) = [] \<and> rt_log (registerAll (newRouter n)) = []"
  proof -
    have "rt_tasks (fold (\<lambda>m. registerServerRequestHandler (name m) (h m)) ms r) = rt_tasks r \<and>
        rt_log (fold (\<lambda>m. registerServerRequestHandler (name m) (h m)) ms r) = rt_log r"
      for name h r and ms :: "ServerRequestMethod list"
      by (induction ms arbitrary: r) (simp_all add: registerServerRequestHandler_def)
    then show ?thesis by (simp add: registerAll_def subscribeNotifications_def newRouter_def)
  qed
  then show ?case by (simp add: servesUser_def approvalRun_def newApprovals_def)
next
  case (snoc ev events)
  then show ?case using approvalStep_serves [of env N n events ev] assms by (simp add: approvalRun_snoc)
qed

end
