(* ===== verification/InteractionProperties.thy ===== *)
theory InteractionProperties
  imports InteractionWireLaws RpcProperties
begin

text \<open>
  The properties of the requests that ask the user: what the server is told and on whose authority, that an
  answer of the user arrives, that nothing waits for a client that is gone, and what the user is shown.
\<close>

subsection \<open>A concrete run\<close>

text \<open>The server asks for the approval of a change of files, the user accepts, and the handler goes on.\<close>

definition demoKey :: jstr where
  "demoKey = lit ''number:7''"

definition demoAccept :: jsval where
  "demoAccept = JObj [jprop ''decision'' (JStr (lit ''accept''))]"

definition demoAsked :: "approval_event list" where
  "demoAsked = [RouterEvent 0 Opened, RouterEvent 0 (Incoming 1 (JObj [jprop ''id'' (JInt 7),
     jprop ''method'' (JStr (lit ''item/fileChange/requestApproval'')),
     jprop ''params'' (JObj [jprop ''threadId'' (JStr (lit ''t''))])]))]"


definition demoApprovals :: "approval_event list \<Rightarrow> approvals" where
  "demoApprovals events = approvalRun demoEnv (\<lambda>_. []) events (newApprovals 0)"

lemma demoEnv_keeps: "keepsRequests demoEnv"
  by (simp add: keepsRequests_def demoEnv_def demoBoundary_def)


subsection \<open>The properties\<close>



text \<open>An answer of the user arrives: when the user answers a request that is shown as pending, the answer counts,
  and once the handler that waits for it goes on, the very next thing that the router writes is this answer as the result of
  the request, provided that the connection of the request is still the active one and the answer is a value.\<close>

theorem answer_reaches_server:
  fixes env :: router_env and N :: "jsval \<Rightarrow> jstr" and n :: nat and events :: "approval_event list"
  defines "S \<equiv> approvalRun env N events (newApprovals n)"
  assumes "map_of (rt_tasks (ap_router S)) i = Some (TServerHandler e rid m)"
    and "map_of (ap_replies S) i = Some (Some (Promised (df_promise d)))"
    and "openEntry (ap_client S) (key, d)" and "activeConnection e (ap_router S) \<noteq> None" and "v \<noteq> JUndef"
  shows "fst (respond key v (ap_client S)) \<and>
    rt_log (ap_router (approvalRun env N [UserAnswers key v, HandlerSettles i] S)) =
      rt_log (ap_router S) @ [Wrote e (WireResult rid v)]"
proof -
  have ok: "interactions_ok N (ap_client S)" unfolding S_def by (rule approvalRun_client_ok)
  have found: "pendingOf (ap_client S) key = Some d"
    using assms(4) pendingOf_iff [OF ok] by (simp add: openEntry_def)
  have "\<not> ic_disposed (ap_client S)" using assms(4) interactions_okD(5) [OF ok] by (auto simp: openEntry_def)
  then have r: "respond key v (ap_client S) =
      (True, publishAll (resolvePromise (df_promise d) v (markResponding key (ap_client S))))"
    using found openEntry_ok [OF ok assms(4)] by (simp add: respond_def)
  have p: "df_promise d < length (ic_answers (ap_client S))" "ic_answers (ap_client S) ! df_promise d = None"
    using assms(4) by (simp_all add: openEntry_def)
  then have "outcomeOf (snd (respond key v (ap_client S))) (Some (Promised (df_promise d))) = Some (Fulfilled v)"
    unfolding r by (simp add: outcomeOf_def resolvePromise_answers)
  then have "ap_router (approvalRun env N [UserAnswers key v, HandlerSettles i] S) = step env (Resume i (Fulfilled v)) (ap_router S)"
    using assms(2,3) by (simp add: approvalRun_def approvalStep_def settleHandler_def isHandlerTask_def)
  moreover have "rt_log (step env (Resume i (Fulfilled v)) (ap_router S)) = rt_log (ap_router S) @ [Wrote e (WireResult rid v)]"
  proof -
    let ?r = "(ap_router S)\<lparr>rt_tasks := filter (\<lambda>it. fst it \<noteq> i) (rt_tasks (ap_router S))\<rparr>"
    obtain c where "activeConnection e ?r = Some c" using assms(5) by (auto simp: activeConnection_def)
    then show ?thesis using assms(2,6)
      by (simp add: step_def resume_def runTask_def serverHandled_def writeServerResult_def writeServerMessage_def addTask_def logEffect_def)
  qed
  ultimately show ?thesis using r by simp
qed

definition approvalView :: "approvals \<Rightarrow> task option \<times> reply option option \<times> nat option \<times> jsval option list \<times> nat option" where
  "approvalView S = (map_of (rt_tasks (ap_router S)) 0, map_of (ap_replies S) 0,
     map_option df_promise (map_of (ic_pending (ap_client S)) demoKey), ic_answers (ap_client S),
     map_option cn_epoch (rt_connection (ap_router S)))"

lemma demo_pending:
  "map_of (rt_tasks (ap_router (demoApprovals demoAsked))) 0 =
     Some (TServerHandler 1 (IdInt 7) (lit ''item/fileChange/requestApproval''))"
  "map_of (ap_replies (demoApprovals demoAsked)) 0 = Some (Some (Promised 0))"
  "map_option df_promise (map_of (ic_pending (ap_client (demoApprovals demoAsked))) demoKey) = Some 0"
  "ic_answers (ap_client (demoApprovals demoAsked)) = [None]"
  "map_option cn_epoch (rt_connection (ap_router (demoApprovals demoAsked))) = Some 1"
proof -
  have view: "approvalView (demoApprovals demoAsked) =
    (Some (TServerHandler 1 (IdInt 7) (lit ''item/fileChange/requestApproval'')), Some (Some (Promised 0)), Some 0, [None], Some 1)"
    by code_simp
  from view [unfolded approvalView_def] show "map_of (rt_tasks (ap_router (demoApprovals demoAsked))) 0 =
     Some (TServerHandler 1 (IdInt 7) (lit ''item/fileChange/requestApproval''))"
  "map_of (ap_replies (demoApprovals demoAsked)) 0 = Some (Some (Promised 0))"
  "map_option df_promise (map_of (ic_pending (ap_client (demoApprovals demoAsked))) demoKey) = Some 0"
  "ic_answers (ap_client (demoApprovals demoAsked)) = [None]"
  "map_option cn_epoch (rt_connection (ap_router (demoApprovals demoAsked))) = Some 1" by simp_all
qed

lemma demo_open:
  obtains d where "openEntry (ap_client (demoApprovals demoAsked)) (demoKey, d)" "df_promise d = 0"
  using demo_pending(3,4) by (auto simp: openEntry_def dest: map_of_SomeD)

lemma answer_reaches_server_witness:
  "rt_log (ap_router (approvalRun demoEnv (\<lambda>_. []) [UserAnswers demoKey demoAccept, HandlerSettles 0] (demoApprovals demoAsked))) =
     rt_log (ap_router (demoApprovals demoAsked)) @ [Wrote 1 (WireResult (IdInt 7) demoAccept)]"
proof -
  obtain d where d: "openEntry (ap_client (demoApprovals demoAsked)) (demoKey, d)" "df_promise d = 0" by (rule demo_open)
  have "activeConnection 1 (ap_router (demoApprovals demoAsked)) \<noteq> None"
    using demo_pending(5) by (auto simp: activeConnection_def split: option.split)
  then show ?thesis
    using answer_reaches_server [of demoEnv "\<lambda>_. []" demoAsked 0 0 1 "IdInt 7" _ d demoKey demoAccept]
      demo_pending(1,2) d unfolding demoApprovals_def by (simp add: demoAccept_def)
qed

text \<open>Nothing waits for a client that is gone: once the client has been disposed of, every handler of a request of the
  server that the router still waits for can go on, and what the user had not answered is refused.\<close>

theorem disposed_client_answers_all:
  fixes env :: router_env and N :: "jsval \<Rightarrow> jstr" and n :: nat and events :: "approval_event list"
  defines "S \<equiv> approvalRun env N events (newApprovals n)"
  defines "S' \<equiv> approvalStep env N ClientDisposed S"
  assumes "keepsRequests env" and "env_ok env" and "(i, TServerHandler e rid m) \<in> set (rt_tasks (ap_router S'))"
  shows "\<exists>given out. map_of (ap_replies S') i = Some given \<and> outcomeOf (ap_client S') given = Some out \<and>
    (case outcomeOf (ap_client S) given of
       Some before \<Rightarrow> out = before
     | None \<Rightarrow> \<exists>request :: ServerRequest. sr_id request = rid \<and> out = Fulfilled (declineResponse (sr_method request)))"
proof -
  have S': "S' = approvalRun env N (events @ [ClientDisposed]) (newApprovals n)"
    by (simp add: S'_def S_def approvalRun_snoc)
  have ok: "interactions_ok N (ap_client S)" and ok': "interactions_ok N (ap_client S')"
    unfolding S' by (simp_all add: S_def approvalRun_client_ok)
  have client: "ap_client S' = disposeInteractions (ap_client S)" and replies: "ap_replies S' = ap_replies S"
    by (simp_all add: S'_def approvalStep_def disposeInteractions_def)
  have "(i, TServerHandler e rid m) \<in> set (rt_tasks (ap_router S))"
    using assms(5) calm_release [of "ap_router S"] by (force simp: S'_def approvalStep_def calm_def split: if_split_asm)
  then obtain given where given: "map_of (ap_replies S) i = Some given"
      "\<And>reply. given = Some reply \<Longrightarrow> \<exists>request. sr_id request = rid \<and> replyFor env N n events (ap_client S) request reply"
    using results_are_answers [OF assms(3,4), of N n events] unfolding servesUser_def S_def [symmetric] by metis
  show ?thesis
  proof (cases "outcomeOf (ap_client S) given")
    case (Some out)
    then have "outcomeOf (ap_client S') given = Some out"
      using interactionStep_keeps [of "ap_client S" N Disposed] unfolding client
      by (auto simp: outcomeOf_def keepsAnswers_def split: option.split_asm reply.split_asm if_split_asm)
    then show ?thesis using given(1) Some replies by simp
  next
    case None
    then obtain p where p: "given = Some (Promised p)" by (auto simp: outcomeOf_def split: option.split_asm reply.split_asm)
    then obtain request d where d: "sr_id request = rid" "df_request d = request" "df_promise d = p"
        "decidedBy (\<lambda>key v. userGave env N n events (requestKey N (sr_id request), d) v) (requestKey N (sr_id request), d) (ap_client S)"
      using given(2) by fastforce
    then have "openEntry (ap_client S) (requestKey N (sr_id request), d)"
      using None p by (auto simp: decidedBy_def outcomeOf_def)
    from dispose_decides [OF ok this, of "\<lambda>_ _. False"]
    have "outcomeOf (ap_client S') given = Some (Fulfilled (refusal d))"
      using interactions_okD(5) [OF ok'] p d(3) unfolding client
      by (auto simp: decidedBy_def openEntry_def outcomeOf_def disposeInteractions_def split: if_split_asm)
    then have "outcomeOf (ap_client S') given = Some (Fulfilled (declineResponse (sr_method request)))"
      by (simp add: refusal_def d(2))
    moreover have "\<exists>request' :: ServerRequest. sr_id request' = rid \<and>
        Fulfilled (declineResponse (sr_method request)) = Fulfilled (declineResponse (sr_method request'))"
      using d(1) by (intro exI [of _ request]) simp
    ultimately show ?thesis using given(1) None replies by simp
  qed
qed

lemma disposed_client_answers_all_witness:
  "\<exists>given. map_of (ap_replies (approvalStep demoEnv (\<lambda>_. []) ClientDisposed (demoApprovals demoAsked))) 0 = Some given \<and>
     outcomeOf (ap_client (approvalStep demoEnv (\<lambda>_. []) ClientDisposed (demoApprovals demoAsked))) given \<noteq> None"
proof -
  have "map_of (rt_tasks (ap_router (approvalStep demoEnv (\<lambda>_. []) ClientDisposed (demoApprovals demoAsked)))) 0 =
      Some (TServerHandler 1 (IdInt 7) (lit ''item/fileChange/requestApproval''))"
    by code_simp
  from map_of_SomeD [OF this] show ?thesis
    using disposed_client_answers_all [OF demoEnv_keeps demoEnv_ok] unfolding demoApprovals_def by blast
qed

text \<open>What the user is shown is what there is to answer: the snapshot of a client that is in use lists the pending
  requests, each key once, with its session and whether it is being answered; every promise that is still open is among
  them, not being answered; and at most a hundred failures are kept.\<close>

theorem pending_requests_shown:
  fixes N :: "jsval \<Rightarrow> jstr" and events :: "interaction_event list"
  defines "s \<equiv> interactionRun N events newInteractions"
  shows "(if ic_disposed s then ic_pending s = [] else is_pending (ic_snapshot s) = map pendingView (ic_pending s)) \<and>
    distinct (map fst (ic_pending s)) \<and> length (ic_failures s) \<le> 100 \<and>
    {p. p < length (ic_answers s) \<and> ic_answers s ! p = None} =
      {df_promise d | key d. (key, d) \<in> set (ic_pending s) \<and> \<not> df_responding d}"
proof -
  have ok: "interactions_ok N s" unfolding s_def by (rule interactionRun_ok) (rule newInteractions_ok)
  note D = interactions_okD [OF ok]
  have "{p. p < length (ic_answers s) \<and> ic_answers s ! p = None} =
      {df_promise d | key d. (key, d) \<in> set (ic_pending s) \<and> \<not> df_responding d}" (is "?l = ?r")
  proof
    show "?l \<subseteq> ?r"
    proof
      fix p assume p: "p \<in> ?l"
      then obtain d where "(requestKey N (sr_id (df_request d)), d) \<in> set (ic_pending s)" "df_promise d = p"
        using unanswered_pending [OF ok, of p] by auto
      then show "p \<in> ?r" using p D(3) by (force simp: pendingEntry_ok_def)
    qed
    show "?r \<subseteq> ?l" using D(3) by (force simp: pendingEntry_ok_def)
  qed
  then show ?thesis using D(1,5,6,7) by (simp add: snapshotOf_def MAX_FAILURES_def)
qed

end
