(* ===== verification/Spec2Isabelle.thy ===== *)
theory Spec2Isabelle
  imports RpcProperties ConfigProperties EventProperties SessionProperties StoreProperties EditorProperties TransportProperties ConfiguredProperties EventSyncProperties InteractionProperties
begin

text \<open>
  Verification of the core of the desktop client for the Codex app server: a Tauri application
  whose interface, in TypeScript under src/, talks to an app server over JSON-RPC and to its own
  Rust back end over Tauri commands.

  Parts and how they interact. A transport delivers messages of an app server to the RPC router
  (src/protocol/rpc), which matches responses with requests, guards the handshake, dispatches
  notifications and answers requests of the server. The back end stores servers, proxies and
  credentials; the configuration contract (src/configuration) is what both sides agree on: the
  client parses every value the back end returns and normalises every request before it sends it.
  The router hands notifications to the event store (src/appServer/serverEventState.ts), which
  derives the snapshot the interface shows; answers of queries come in beside the notifications and
  are taken only if no later notification made them obsolete. A session (src/appServer/session.ts)
  owns a router and a store: it starts over a connector, buffers and queues what the transport delivers,
  and closes everything exactly once when it fails or is closed. The store (src/store) keeps
  the configuration the interface shows: an accepted snapshot, changed by the answers to commands, of
  which the rejected ones are read by src/configuration/errors.ts. The editors (src/components,
  proxyEditorModel.ts and serverEditorModel.ts) turn a profile into a draft and a draft into a request of
  the contract and an instruction for the stored credential. The transports (src/transport) are
  connections of the back end to an app server, driven by the events it sends about them. The client of the
  server's requests (src/appServer/interactionClient.ts) holds what the server asks the user until the user
  answers, the server withdraws it or the client is disposed of.

  Theories, in the order of their imports:

  \<^item> Prelude: errors as sums (bindE, mapE), association lists.
  \<^item> JsText, JsValue: JavaScript strings as lists of UTF-16 code units with the operations the
    code uses (trim, case folding, UTF-8 length, decimal digits), and untyped values (jsval) with
    own properties, sparse arrays and symbol keys.
  \<^item> ConfigModel: src/configuration/model.ts. One record per interface, one datatype per union.
  \<^item> ConfigBasics, ConfigValidate, ConfigParse, ConfigNormalize: src/configuration/validation.ts,
    in the order of the file: limits, patterns and readers of untyped values; the checks;
    the strict parsers of what the back end returns; the normalisers of requests. A thrown
    ConfigurationContractError is the left side of a sum and carries path and problem.
  \<^item> ConfigSpec: what each reader and check accepts, as predicates, and the equivalence of the
    function with its predicate (the collection contract_iff).
  \<^item> ConfigCodec, ConfigProxyCodec, ConfigSnapshot: the interface codec (a parser, the object of a
    value, the allowed values; sound and complete) and strict_codec (the exact keys as well), their
    consequences, and their interpretations on every parser and normaliser.
  \<^item> RpcTypes, RpcRouter, RpcInbound: src/protocol/rpc. A segment of code up to an await is a
    function on the state router; what waits at an await is a task of the state; an event runs one
    segment (step). Every interleaving of the event loop is a sequence of events (run, reachable).
  \<^item> RpcInvariant, RpcStructure, RpcSteps: the active connection is well formed and everything it
    waits for is a task (conn_ok, live, structured), kept by every event.
  \<^item> RpcHistory, RpcAccounting, RpcWire, RpcServer, RpcProgress: the log of effects; each promise is
    settled once; what is on the wire and in what order; requests of the server; draining ends.
    The invariants are interpretations of the interface router_invariant.
  \<^item> JsonText: what the event store uses of JSON.stringify and atob; that quoting loses nothing.
  \<^item> EventText, EventModel: the literals of src/appServer/serverEventState.ts that are not ASCII;
    its limits, records and snapshot, and objects used as maps (put, omit, versionEntry, mapValues)
    with their laws (entry_simps).
  \<^item> EventStore, EventConsume, EventRealtime, EventApi: the class ServerEventStore. Private
    operations (records, redaction, processes); one handler per case of consume and the table of
    all; realtime sessions; hydration, failures, loss of the connection. An event is one call
    (happen); the states after any sequence of calls are storeReachable.
  \<^item> EventInvariant: store_ok, the bounds of the snapshot, kept by every operation (interpretation
    bounds of store_invariant). EventProgress: versions only grow and deleted threads stay deleted
    (interpretation progress of store_run). EventLaws: the audio window, noninterference of
    redaction, errors of consume. EventFrame: what is not about processes leaves them alone. EventOutput: the output of a
    process refines the text of its bytes, however its two streams are interleaved.
  \<^item> EventSync: src/appServer/serverEventSync.ts, the queries that bring the store up to date after a
    notification that says only that something has changed. EventSyncLaws: what is shown as being refreshed is
    being refreshed (synced, refreshingProjects). EventSyncPages: bounds of a query, and lists in pages.
  \<^item> SessionModel, SessionSteps: src/appServer/session.ts. The state contains the router and the
    store; startInternal and closeInternal are coroutines whose await is a component of the state; a
    listener of the state may return, throw or close the session. An event is a call, a settled promise
    or a callback of the transport (sessionStep, sessionReachable).
  \<^item> SessionEvolution: every event is a run of the router and a run of the store (evolves), so
    that what holds of them in all their reachable states holds of the session. SessionLife: the invariant
    life of phase, coroutines, transport and queue; SessionProgress: the handshake and the silence of ended
    sessions; SessionClosing: a measure bounds what a closing session waits for. The invariants are
    interpretations of session_invariant.
  \<^item> ConfigErrors: src/configuration/errors.ts, the closed table of rejected commands.
  \<^item> ConfigStore: src/store/configurationSlice.ts and connectionSlice.ts. Dictionaries are lists of
    entries in insertion order; sorting is by insertion, shown stable and unique once for every
    comparison (locale comparison, interpreted as servers and proxies); configuration_ok is the invariant.
  \<^item> EditorText, EditorForms, ProxyEditor, ServerEditor: src/components/proxyEditorModel.ts and
    serverEditorModel.ts. A draft holds texts and rows; an error is one of a field, of the contract or of
    the platform.
  \<^item> ProxyEditorLaws, ServerEditorLaws: a draft of an allowed profile is built back to the object of its
    configuration; what an accepted submission leaves of the credential. EditorErrors,
    ProxyEditorErrors, ServerEditorErrors: the contract of one check (locale field_check, interpreted on
    every check of a profile) and that errors are shown at the field of the first check that fails.
  \<^item> TransportEvents, Transport: src/transport/remoteWebSocket.ts and localStdio.ts. Their events, with the
    contract of their parsers (locale event_codec, interpreted on both), and the two connection classes as
    one program for two dialects: the coroutine connect, write, disconnect and the handler of events, whose
    client may call back before it returns or throws; the log of calls is part of the state. The interfaces of
    the events are also written down apart from the parsers (remoteAllowed, remoteFields, localAllowed, localFields).
  \<^item> TransportLaws, TransportSession: every event appends to the log and moves the state forward (movesWell);
    what is delivered; what a failure leads to; what a dialect promises to a session (locale
    transport_dialect, interpreted on both).
  \<^item> ConfiguredServer, ConfiguredConnector: src/transport/configuredServer.ts, the connection that the interface
    uses. The back end chooses the path and names it in its answer; events that arrive before it wait. A
    client is a function from the log to its reaction. The connector opens one connection and can be cancelled.
  \<^item> ConfiguredServerLaws, ConfiguredServerMessages: the invariant inside segments (configured_ok) and between
    events (at_rest), and what is delivered. The interface event_codec is interpreted on the answers and on
    the envelopes of events in ConfiguredConnector.
  \<^item> Interaction: src/appServer/interactionClient.ts. A promise is a position of a list of answers; an event is a
    call of a handler, a notification, an answer of the user, or disposal. InteractionLaws: the invariant
    interactions_ok, and that a promise is answered by the user or refused (decidedBy).
  \<^item> RpcHandlers: which steps of the router call a handler of the server's requests and which write its result.
    InteractionWire: the client at a router, whose handlers it registers; InteractionWireLaws: what is written
    as a result comes from an answer (servesUser).
  \<^item> RpcProperties, ConfigProperties, EventProperties, SessionProperties, StoreProperties, EditorProperties,
    TransportProperties, ConfiguredProperties, EventSyncProperties, InteractionProperties: the properties, with a witness on concrete values where they have hypotheses.

  Bounds and termination. Every function is total: loops over lists are structural recursions, so
  there is no fuel. Numbers are integers; where the code checks Number.isSafeInteger the bound is
  2^53 - 1. The draining loop is a sequence of events, and draining_completes bounds it; so does
  close_terminates for closing a session.

  Parameters. The platform's URL parser, the validators generated from the protocol schema
  (ProtocolBoundary) and the random client identifier are arguments of the definitions. For the event
  store these are the text decoder and the text of numbers that are not safe integers (platform); the
  one law assumed of a decoder is that it does not matter how bytes are split (streamingDecoder). For a
  session these are JSON.parse and the validator of the result of command/exec. For the editors
  (form_platform) these are Number on texts that are not decimal integers, toLowerCase on texts that are
  not ASCII, localeCompare and URL.port; for the transports it is JSON.stringify of a message (None where
  it throws or has no text). No property assumes anything of them. For the requests to the user the
  generated validators of requests are assumed to give back the value that they accept (keepsRequests).

  Not modelled: the order in which an object enumerates keys that look like array indices (string
  maps of the configuration are lists in the order they are sorted; those of the event store are
  enumerated as the language says); the table of display policies of the event store; keys that are
  names of Object.prototype; answers of the user that are promises; the generated protocol types and validators; the arguments of the Tauri
  commands of the transports, the connectors of proxies that choose them, the test of a connection; the React
  interface and its hooks, the Rust back end.
\<close>

end
